(* ===== verification/Prelude.thy ===== *)
theory Prelude
  imports Complex_Main "HOL-Library.List_Lexorder" "HOL-Library.Char_ord" "HOL-Library.Product_Lexorder"
begin

text \<open>
  Shared vocabulary of the development: the Python exceptions as a datatype, results that
  either raise or return, the sequencing of such results, the first-match lookup
  \<open>next((x for x in xs if p x), None)\<close>, the stable \<open>sorted\<close> over string keys, and the
  string constraints of the contract base classes (\<open>CanonicalId\<close>, \<open>NonEmptyString\<close>,
  64-digit lower-case hex hashes, whitespace stripping).
\<close>

named_theorems result_simps "sequencing of results that may raise"
named_theorems contract_defs "contract checks unfolded together"

section \<open>Exceptions and results\<close>

text \<open>
  The exceptions the modelled code raises or lets escape.  \<open>ValidationError\<close> is what
  a pydantic model raises for a violated field constraint or an \<open>after\<close> validator; the
  string is the message of the \<open>ValueError\<close> in the source.
\<close>

datatype py_error =
    ValidationError string
  | ValueError string
  | ReplayBuildError string
  | StrategyDecisionError string
  | KeyError string
  | AttributeError string
  | StopIteration
  | AssertionError string
  | BuildError string string   \<comment> \<open>the other \<open>...Error(ValueError)\<close> classes, by name\<close>
  | UnicodeDecodeError
  | InvalidOperation

type_synonym 'a result = "py_error + 'a"

definition bindE :: "'a result \<Rightarrow> ('a \<Rightarrow> 'b result) \<Rightarrow> 'b result" where
  "bindE m f = (case m of Inl e \<Rightarrow> Inl e | Inr x \<Rightarrow> f x)"

text \<open>\<open>guardE p e m\<close> raises \<open>e\<close> unless \<open>p\<close> holds, then goes on with \<open>m\<close>.\<close>

definition guardE :: "bool \<Rightarrow> py_error \<Rightarrow> 'a result \<Rightarrow> 'a result" where
  "guardE p e m = (if p then m else Inl e)"

text \<open>\<open>tuple(f(x) for x in xs)\<close>: the first exception stops the iteration.\<close>

fun mapE :: "('a \<Rightarrow> 'b result) \<Rightarrow> 'a list \<Rightarrow> 'b list result" where
  "mapE f [] = Inr []"
| "mapE f (x # xs) = bindE (f x) (\<lambda>y. bindE (mapE f xs) (\<lambda>ys. Inr (y # ys)))"

definition returns :: "'a result \<Rightarrow> bool" where
  "returns m \<longleftrightarrow> (\<exists>x. m = Inr x)"

lemma bindE_simps [simp, result_simps]:
  "bindE (Inl e) f = Inl e" "bindE (Inr x) f = f x"
  by (simp_all add: bindE_def)

lemma bindE_Inr_iff [result_simps]: "bindE m f = Inr y \<longleftrightarrow> (\<exists>x. m = Inr x \<and> f x = Inr y)"
  by (cases m) auto

lemma bindE_Inl_iff: "bindE m f = Inl e \<longleftrightarrow> m = Inl e \<or> (\<exists>x. m = Inr x \<and> f x = Inl e)"
  by (cases m) auto

lemma bindE_InrE [elim]:
  assumes "bindE m f = Inr y"
  obtains x where "m = Inr x" "f x = Inr y"
  using assms by (auto simp: bindE_Inr_iff)

lemma guardE_simps [simp]:
  "guardE True e m = m" "guardE False e m = Inl e"
  by (simp_all add: guardE_def)

lemma guardE_Inr_iff [result_simps]: "guardE p e m = Inr x \<longleftrightarrow> p \<and> m = Inr x"
  by (simp add: guardE_def)

lemma guardE_Inl_iff: "guardE p e m = Inl e' \<longleftrightarrow> (\<not> p \<and> e = e') \<or> (p \<and> m = Inl e')"
  by (auto simp: guardE_def)

lemma returns_simps [simp]: "returns (Inr x)" "\<not> returns (Inl e)"
  by (simp_all add: returns_def)

lemma returns_bindE [result_simps]: "returns (bindE m f) \<longleftrightarrow> (\<exists>x. m = Inr x \<and> returns (f x))"
  by (cases m) auto

lemma returns_guardE [result_simps]: "returns (guardE p e m) \<longleftrightarrow> p \<and> returns m"
  by (simp add: guardE_def)

lemma mapE_Inr_iff: "mapE f xs = Inr ys \<longleftrightarrow> list_all2 (\<lambda>x y. f x = Inr y) xs ys"
  by (induction xs arbitrary: ys) (auto simp: bindE_Inr_iff list_all2_Cons1)

lemma mapE_total: "(\<And>x. x \<in> set xs \<Longrightarrow> f x = Inr (g x)) \<Longrightarrow> mapE f xs = Inr (map g xs)"
  by (induction xs) auto

lemma mapE_length: "mapE f xs = Inr ys \<Longrightarrow> length ys = length xs"
  by (auto simp: mapE_Inr_iff dest: list_all2_lengthD)

lemma mapE_in_set:
  assumes "mapE f xs = Inr ys" and "y \<in> set ys"
  obtains x where "x \<in> set xs" "f x = Inr y"
  using assms unfolding mapE_Inr_iff list_all2_conv_all_nth in_set_conv_nth by metis

text \<open>
  A validator as the list of the conditions it requires, each with the message it raises,
  in the source's order: the first one that fails decides.
\<close>

fun checked :: "(bool \<times> string) list \<Rightarrow> 'a \<Rightarrow> 'a result" where
  "checked [] x = Inr x"
| "checked ((p, m) # cs) x = (if p then checked cs x else Inl (ValidationError m))"

lemma checked_Inr_iff [simp, result_simps]: "checked cs x = Inr y \<longleftrightarrow> list_all fst cs \<and> y = x"
proof (induction cs)
  case (Cons c cs)
  then show ?case by (cases c) auto
qed auto

declare checked.simps(2) [simp del]

lemma checked_True [simp]: "checked ((True, m) # cs) x = checked cs x"
  by (simp add: checked.simps(2))

lemma checked_returns: "list_all fst cs \<Longrightarrow> checked cs x = Inr x"
  by simp

lemma checked_append: "checked (cs @ ds) x = bindE (checked cs x) (checked ds)"
proof (induction cs)
  case (Cons c cs)
  then show ?case by (cases c) (simp add: checked.simps(2))
qed simp

section \<open>First match and lookups\<close>

text \<open>\<open>next((x for x in xs if p x), None)\<close> is \<open>List.find\<close>.\<close>

lemma find_SomeD: "find p xs = Some x \<Longrightarrow> x \<in> set xs \<and> p x"
  by (induction xs) (auto split: if_splits)

lemma find_None_all: "find p xs = None \<longleftrightarrow> (\<forall>x \<in> set xs. \<not> p x)"
  by (induction xs) auto

lemma find_unique:
  assumes "x \<in> set xs" "p x" "\<And>y. y \<in> set xs \<Longrightarrow> p y \<Longrightarrow> y = x"
  shows "find p xs = Some x"
proof (cases "find p xs")
  case None
  with assms(1,2) show ?thesis by (simp add: find_None_all)
next
  case (Some y)
  then have "y \<in> set xs" "p y" by (auto dest: find_SomeD)
  then have "y = x" by (rule assms(3))
  with Some show ?thesis by simp
qed

definition is_none :: "'a option \<Rightarrow> bool" where
  "is_none x \<longleftrightarrow> x = None"

definition opt_all :: "('a \<Rightarrow> bool) \<Rightarrow> 'a option \<Rightarrow> bool" where
  "opt_all p x \<longleftrightarrow> (case x of None \<Rightarrow> True | Some y \<Rightarrow> p y)"

lemma opt_all_simps [simp]: "opt_all p None" "opt_all p (Some x) = p x"
  by (simp_all add: opt_all_def)

section \<open>Counting into a dict\<close>

text \<open>\<open>d[k] = d.get(k, 0) + 1\<close> on an insertion-ordered dict.\<close>

fun bump :: "'k \<Rightarrow> ('k \<times> int) list \<Rightarrow> ('k \<times> int) list" where
  "bump k [] = [(k, 1)]"
| "bump k ((j, n) # d) = (if j = k then (j, n + 1) # d else (j, n) # bump k d)"

definition tally :: "'k list \<Rightarrow> ('k \<times> int) list" where
  "tally ks = fold bump ks []"

lemma bump_keys: "fst ` set (bump k d) = insert k (fst ` set d)"
  by (induction k d rule: bump.induct) (simp_all add: insert_commute)

lemma bump_distinct: "distinct (map fst d) \<Longrightarrow> distinct (map fst (bump k d))"
proof (induction d)
  case (Cons p d)
  then show ?case using bump_keys [of k d] by (cases p) auto
qed simp

lemma bump_lookup: "map_of (bump k d) j =
    (if j = k then Some (1 + (case map_of d k of None \<Rightarrow> 0 | Some n \<Rightarrow> n)) else map_of d j)"
  by (induction d) auto

lemma tally_invariant:
  assumes "distinct (map fst d)"
  shows "distinct (map fst (fold bump ks d))"
    "set (map fst (fold bump ks d)) = set (map fst d) \<union> set ks"
    "(case map_of (fold bump ks d) j of None \<Rightarrow> 0 | Some n \<Rightarrow> n)
      = (case map_of d j of None \<Rightarrow> 0 | Some n \<Rightarrow> n) + int (count_list ks j)"
proof -
  show "distinct (map fst (fold bump ks d))"
    using assms by (induction ks arbitrary: d) (simp_all add: bump_distinct)
  show "set (map fst (fold bump ks d)) = set (map fst d) \<union> set ks"
    by (induction ks arbitrary: d) (auto simp: bump_keys)
  show "(case map_of (fold bump ks d) j of None \<Rightarrow> 0 | Some n \<Rightarrow> n)
      = (case map_of d j of None \<Rightarrow> 0 | Some n \<Rightarrow> n) + int (count_list ks j)"
    by (induction ks arbitrary: d) (auto simp: bump_lookup)
qed

text \<open>Each key once, with the number of its occurrences.\<close>

lemma tally_count: "(k, n) \<in> set (tally ks) \<longleftrightarrow> k \<in> set ks \<and> n = int (count_list ks k)"
proof -
  have d: "distinct (map fst (tally ks))" and keys: "set (map fst (tally ks)) = set ks"
    and c: "(case map_of (tally ks) k of None \<Rightarrow> 0 | Some n \<Rightarrow> n) = int (count_list ks k)"
    using tally_invariant(1,2) [where d = "[]" and ks = ks]
      tally_invariant(3) [where d = "[]" and ks = ks and j = k] by (simp_all add: tally_def)
  show ?thesis
  proof (cases "k \<in> set ks")
    case True
    then have "k \<in> set (map fst (tally ks))" using keys by simp
    then obtain m where "map_of (tally ks) k = Some m" by (metis domD dom_map_of_conv_image_fst list.set_map)
    moreover have "(k, n) \<in> set (tally ks) \<longleftrightarrow> map_of (tally ks) k = Some n"
      by (rule map_of_eq_Some_iff [OF d, symmetric])
    ultimately show ?thesis using c True by auto
  next
    case False
    then have "k \<notin> set (map fst (tally ks))" using keys by simp
    with False show ?thesis by (force simp: image_iff)
  qed
qed

lemma tally_distinct: "distinct (map fst (tally ks))"
  using tally_invariant(1) [where d = "[]" and ks = ks] by (simp add: tally_def)

section \<open>Strings of the contracts\<close>

definition py_space :: "char \<Rightarrow> bool" where
  "py_space c \<longleftrightarrow> c \<in> {CHR '' '', CHR 0x09, CHR 0x0A, CHR 0x0B, CHR 0x0C, CHR 0x0D,
     CHR 0x1C, CHR 0x1D, CHR 0x1E, CHR 0x1F}"

definition strip :: "string \<Rightarrow> string" where
  "strip s = rev (dropWhile py_space (rev (dropWhile py_space s)))"

definition upper_char :: "char \<Rightarrow> bool" where
  "upper_char c \<longleftrightarrow> c \<in> set ''ABCDEFGHIJKLMNOPQRSTUVWXYZ''"

definition lower_hex_letter :: "char \<Rightarrow> bool" where
  "lower_hex_letter c \<longleftrightarrow> c \<in> set ''abcdef''"

definition digit_char :: "char \<Rightarrow> bool" where
  "digit_char c \<longleftrightarrow> c \<in> set ''0123456789''"

text \<open>
  \<open>CanonicalId\<close>: 1 to 128 characters, pattern \<open>^[A-Z0-9][A-Z0-9._:-]*$\<close>
  (the value is stripped before the check).
\<close>

definition canonical_id :: "string \<Rightarrow> bool" where
  "canonical_id s \<longleftrightarrow>
     (case s of [] \<Rightarrow> False
      | c # cs \<Rightarrow> (upper_char c \<or> digit_char c) \<and> length s \<le> 128 \<and>
          list_all (\<lambda>d. upper_char d \<or> digit_char d \<or> d \<in> set ''._:-'') cs)"

text \<open>
  \<open>NonEmptyString\<close>: not empty.  The base class strips outer whitespace from every string;
  in a constructor that re-checks a hash of the unstripped draft, a string with outer
  whitespace therefore fails that check.  The model rejects it at the field.
\<close>

definition non_empty_string :: "string \<Rightarrow> bool" where
  "non_empty_string s \<longleftrightarrow> s \<noteq> [] \<and> strip s = s"

text \<open>The hash fields carry \<open>pattern=r"^[a-f0-9]{64}$"\<close>.\<close>

definition hex64 :: "string \<Rightarrow> bool" where
  "hex64 s \<longleftrightarrow> length s = 64 \<and> list_all (\<lambda>c. digit_char c \<or> lower_hex_letter c) s"

lemma dropWhile_no_space: "list_all (\<lambda>c. \<not> py_space c) s \<Longrightarrow> dropWhile py_space s = s"
  by (cases s) auto

lemma strip_id: "list_all (\<lambda>c. \<not> py_space c) s \<Longrightarrow> strip s = s"
  by (simp add: strip_def dropWhile_no_space)

lemma id_chars_no_space:
  "upper_char c \<Longrightarrow> \<not> py_space c" "digit_char c \<Longrightarrow> \<not> py_space c"
  "lower_hex_letter c \<Longrightarrow> \<not> py_space c" "c \<in> set ''._:-'' \<Longrightarrow> \<not> py_space c"
proof -
  have "\<forall>d \<in> set ''ABCDEFGHIJKLMNOPQRSTUVWXYZ''. \<not> py_space d"
    "\<forall>d \<in> set ''0123456789''. \<not> py_space d" "\<forall>d \<in> set ''abcdef''. \<not> py_space d"
    "\<forall>d \<in> set ''._:-''. \<not> py_space d"
    by (simp_all add: py_space_def)
  then show "upper_char c \<Longrightarrow> \<not> py_space c" "digit_char c \<Longrightarrow> \<not> py_space c"
    "lower_hex_letter c \<Longrightarrow> \<not> py_space c" "c \<in> set ''._:-'' \<Longrightarrow> \<not> py_space c"
    unfolding upper_char_def digit_char_def lower_hex_letter_def by blast+
qed

lemma canonical_no_space: "canonical_id s \<Longrightarrow> list_all (\<lambda>c. \<not> py_space c) s"
  unfolding canonical_id_def list_all_iff
  by (cases s) (use id_chars_no_space in \<open>simp_all only: list.case simp_thms, metis set_ConsD\<close>)

lemma strip_canonical [simp]: "canonical_id s \<Longrightarrow> strip s = s"
  by (simp add: strip_id canonical_no_space)

lemma hex64_no_space: "hex64 s \<Longrightarrow> strip s = s"
  unfolding hex64_def list_all_iff by (rule strip_id) (use id_chars_no_space in \<open>metis list_all_iff\<close>)

end
