(* ===== verification/Decimals.thy ===== *)
theory Decimals
  imports Prelude
begin

text \<open>
  Python's \<open>decimal.Decimal\<close> in the default context (precision 28,
  \<open>ROUND_HALF_EVEN\<close>), which every notional, quantity and threshold of the program uses.
  A finite decimal is a coefficient and an exponent; each operation computes the exact
  result and rounds it to 28 significant digits, as \<open>Decimal._fix\<close> does.  Comparisons
  are by value.  Not modelled: NaN and infinities (the contracts reject them), the sign of
  a zero, and the exponent limits of the context.

  The lemmas read every operation as "exact rational result, then \<open>rnd\<close>": rounding is
  monotone, keeps the sign, leaves values of at most 28 digits alone, and has relative
  error at most 5 * 10^-28.
\<close>

named_theorems dval_simps "values of decimal operations"

section \<open>Numbers of digits\<close>

fun ndigits :: "nat \<Rightarrow> nat" where
  "ndigits n = (if n < 10 then 1 else Suc (ndigits (n div 10)))"

declare ndigits.simps [simp del]

lemma ndigits_pos: "0 < ndigits n"
  by (subst ndigits.simps) simp

lemma ndigits_upper: "n < 10 ^ ndigits n"
proof (induction n rule: ndigits.induct)
  case (1 n)
  show ?case
  proof (cases "n < 10")
    case True
    then show ?thesis by (subst ndigits.simps) simp
  next
    case False
    with 1 have "n div 10 < 10 ^ ndigits (n div 10)" by simp
    then have "n div 10 + 1 \<le> 10 ^ ndigits (n div 10)" by simp
    then have "n < 10 * 10 ^ ndigits (n div 10)" by presburger
    with False show ?thesis by (subst ndigits.simps) simp
  qed
qed

lemma ndigits_lower: "0 < n \<Longrightarrow> 10 ^ (ndigits n - 1) \<le> n"
proof (induction n rule: ndigits.induct)
  case (1 n)
  show ?case
  proof (cases "n < 10")
    case True
    with 1 show ?thesis by (subst ndigits.simps) simp
  next
    case False
    then have "0 < n div 10" by simp
    with 1 False have "10 ^ (ndigits (n div 10) - 1) \<le> n div 10" by simp
    then have "10 * 10 ^ (ndigits (n div 10) - 1) \<le> n" by presburger
    moreover have "10 * 10 ^ (ndigits (n div 10) - 1) = (10::nat) ^ ndigits (n div 10)"
      using ndigits_pos [of "n div 10"] by (cases "ndigits (n div 10)") simp_all
    ultimately show ?thesis using False by (subst ndigits.simps) simp
  qed
qed

lemma ndigits_le_iff: "0 < k \<Longrightarrow> ndigits n \<le> k \<longleftrightarrow> n < 10 ^ k"
proof
  assume "ndigits n \<le> k"
  then have "(10::nat) ^ ndigits n \<le> 10 ^ k" by (rule power_increasing) simp
  then show "n < 10 ^ k" using ndigits_upper [of n] by linarith
next
  assume "0 < k" "n < 10 ^ k"
  show "ndigits n \<le> k"
  proof (rule ccontr)
    assume "\<not> ndigits n \<le> k"
    then have gt: "k \<le> ndigits n - 1" "1 < ndigits n" using \<open>0 < k\<close> by simp_all
    then have "0 < n" by (cases "n = 0") (simp_all add: ndigits.simps [of 0])
    then have "10 ^ (ndigits n - 1) \<le> n" by (rule ndigits_lower)
    moreover have "(10::nat) ^ k \<le> 10 ^ (ndigits n - 1)"
      using gt by (intro power_increasing) simp_all
    ultimately show False using \<open>n < 10 ^ k\<close> by linarith
  qed
qed

lemma ndigits_mono: "m \<le> n \<Longrightarrow> ndigits m \<le> ndigits n"
  using ndigits_le_iff [of "ndigits n" m] ndigits_upper [of n] ndigits_pos [of n]
  by simp

lemma ndigits_times10: "0 < n \<Longrightarrow> ndigits (n * 10) = Suc (ndigits n)"
  by (subst ndigits.simps) simp

section \<open>Rounding a natural number to 28 digits\<close>

definition dprec :: nat where
  "dprec = 28"

text \<open>
  \<open>rhe n k\<close> is \<open>n\<close> without its last \<open>k\<close> digits, rounded half to even
  (\<open>Decimal._round_half_even\<close>).
\<close>

definition rhe :: "nat \<Rightarrow> nat \<Rightarrow> nat" where
  "rhe n k = (let p = 10 ^ k; q = n div p; r = n mod p
     in if p < 2 * r \<or> (2 * r = p \<and> odd q) then q + 1 else q)"

lemma rhe_bounds: "n div 10 ^ k \<le> rhe n k" "rhe n k \<le> n div 10 ^ k + 1"
  by (simp_all add: rhe_def Let_def)

lemma rhe_error:
  "2 * n \<le> 2 * (rhe n k * 10 ^ k) + 10 ^ k" "2 * (rhe n k * 10 ^ k) \<le> 2 * n + 10 ^ k"
proof -
  define p where "p = (10 ^ k :: nat)"
  define q where "q = n div p"
  define r where "r = n mod p"
  have n: "n = q * p + r" by (simp add: q_def r_def)
  have "0 < p" by (simp add: p_def)
  then have r: "r < p" by (simp add: r_def)
  have e: "rhe n k = (if p < 2 * r \<or> (2 * r = p \<and> odd q) then q + 1 else q)"
    by (simp add: rhe_def Let_def p_def q_def r_def)
  show "2 * n \<le> 2 * (rhe n k * 10 ^ k) + 10 ^ k" "2 * (rhe n k * 10 ^ k) \<le> 2 * n + 10 ^ k"
    unfolding e p_def [symmetric] using n r by (auto simp: add_mult_distrib)
qed

lemma rhe_mono: "n \<le> m \<Longrightarrow> rhe n k \<le> rhe m k"
proof -
  assume le: "n \<le> m"
  let ?p = "10 ^ k :: nat"
  have q: "n div ?p \<le> m div ?p" using le by (rule div_le_mono)
  show ?thesis
  proof (cases "n div ?p = m div ?p")
    case True
    have "n mod ?p = n - ?p * (n div ?p)" by (simp add: minus_mult_div_eq_mod)
    moreover have "m mod ?p = m - ?p * (m div ?p)" by (simp add: minus_mult_div_eq_mod)
    ultimately have "n mod ?p \<le> m mod ?p" using True le by simp
    with True show ?thesis by (auto simp: rhe_def Let_def)
  next
    case False
    with q have "n div ?p + 1 \<le> m div ?p" by simp
    then show ?thesis using rhe_bounds(2) [of n k] rhe_bounds(1) [of m k] by linarith
  qed
qed

lemma rhe_scale: "rhe (n * 10) (Suc k) = rhe n k"
proof -
  have d: "n * 10 div 10 ^ Suc k = n div 10 ^ k"
    by (simp add: div_mult2_eq)
  have m: "n * 10 mod 10 ^ Suc k = 10 * (n mod 10 ^ k)"
    by (simp add: mult.commute [of n] mod_mult_mult1)
  show ?thesis unfolding rhe_def Let_def d m by auto
qed

lemma rhe_exact: "rhe (n * 10 ^ k) k = n"
  by (simp add: rhe_def Let_def)

text \<open>The rounded number itself: the digits beyond the 28th become zero.\<close>

definition rndn :: "nat \<Rightarrow> nat" where
  "rndn n = (if ndigits n \<le> dprec then n
     else rhe n (ndigits n - dprec) * 10 ^ (ndigits n - dprec))"

lemma rndn_id: "n < 10 ^ dprec \<Longrightarrow> rndn n = n"
  using ndigits_le_iff [of dprec n] by (simp add: rndn_def dprec_def)

lemma rndn_zero [simp]: "rndn 0 = 0"
  by (simp add: rndn_id)

lemma rndn_upper: "rndn n \<le> 10 ^ ndigits n"
proof (cases "ndigits n \<le> dprec")
  case True
  then show ?thesis using ndigits_upper [of n] by (simp add: rndn_def)
next
  case False
  let ?k = "ndigits n - dprec"
  have e: "(10::nat) ^ ndigits n = 10 ^ dprec * 10 ^ ?k"
    using False by (simp flip: power_add)
  then have "n < 10 ^ dprec * 10 ^ ?k" using ndigits_upper [of n] by simp
  then have "n div 10 ^ ?k < 10 ^ dprec" by (simp add: less_mult_imp_div_less)
  then have "rhe n ?k \<le> 10 ^ dprec" using rhe_bounds(2) [of n ?k] by linarith
  then show ?thesis using False by (simp add: rndn_def e)
qed

lemma rndn_lower: "0 < n \<Longrightarrow> 10 ^ (ndigits n - 1) \<le> rndn n"
proof (cases "ndigits n \<le> dprec")
  case True
  assume "0 < n"
  with True show ?thesis using ndigits_lower [of n] by (simp add: rndn_def)
next
  case False
  assume "0 < n"
  let ?k = "ndigits n - dprec"
  have "ndigits n - 1 = dprec - 1 + ?k" using False by (simp add: dprec_def)
  then have e: "(10::nat) ^ (ndigits n - 1) = 10 ^ (dprec - 1) * 10 ^ ?k"
    by (simp only: power_add)
  then have "10 ^ (dprec - 1) * 10 ^ ?k \<le> n" using ndigits_lower [OF \<open>0 < n\<close>] by simp
  then have "10 ^ (dprec - 1) \<le> n div 10 ^ ?k"
    by (metis div_le_mono nonzero_mult_div_cancel_right power_not_zero zero_neq_numeral)
  then have "10 ^ (dprec - 1) \<le> rhe n ?k" using rhe_bounds(1) [of n ?k] by linarith
  then have "10 ^ (dprec - 1) * 10 ^ ?k \<le> rhe n ?k * 10 ^ ?k" by (rule mult_le_mono1)
  with False show ?thesis unfolding e by (simp add: rndn_def)
qed

lemma rndn_mono: "m \<le> n \<Longrightarrow> rndn m \<le> rndn n"
proof -
  assume le: "m \<le> n"
  show ?thesis
  proof (cases "m = 0")
    case True
    then show ?thesis by simp
  next
    case False
    show ?thesis
    proof (cases "ndigits m = ndigits n")
      case True
      then show ?thesis using le by (auto simp: rndn_def rhe_mono)
    next
      case ne: False
      then have "ndigits m \<le> ndigits n - 1" using ndigits_mono [OF le] by simp
      then have "(10::nat) ^ ndigits m \<le> 10 ^ (ndigits n - 1)" by (intro power_increasing) simp_all
      then show ?thesis
        using rndn_upper [of m] rndn_lower [of n] False le by linarith
    qed
  qed
qed

lemma rndn_scale1: "rndn (n * 10) = rndn n * 10"
proof (cases "n = 0")
  case False
  then have d: "ndigits (n * 10) = Suc (ndigits n)" by (simp add: ndigits_times10)
  consider "ndigits n < dprec" | "ndigits n = dprec" | "dprec < ndigits n" by linarith
  then show ?thesis
  proof cases
    case 1
    then show ?thesis by (simp add: rndn_def d)
  next
    case 2
    then show ?thesis using rhe_scale [of n 0] rhe_exact [of n 0] by (simp add: rndn_def d)
  next
    case 3
    then have s: "Suc (ndigits n) - dprec = Suc (ndigits n - dprec)" by simp
    from 3 show ?thesis by (simp add: rndn_def d s rhe_scale)
  qed
qed simp

lemma rndn_scale: "rndn (n * 10 ^ k) = rndn n * 10 ^ k"
proof (induction k)
  case (Suc k)
  have "n * 10 ^ Suc k = n * 10 ^ k * 10" by simp
  then have "rndn (n * 10 ^ Suc k) = rndn (n * 10 ^ k * 10)" by (rule arg_cong)
  also have "\<dots> = rndn n * 10 ^ Suc k" by (simp add: rndn_scale1 Suc)
  finally show ?case .
qed simp

lemma rndn_eq_0 [simp]: "rndn n = 0 \<longleftrightarrow> n = 0"
proof (cases "n = 0")
  case False
  then have "(0::nat) < 10 ^ (ndigits n - 1)" "10 ^ (ndigits n - 1) \<le> rndn n"
    using rndn_lower by simp_all
  with False show ?thesis by linarith
qed simp

lemma rndn_pos [simp]: "0 < rndn n \<longleftrightarrow> 0 < n"
  using rndn_eq_0 [of n] by linarith

lemma rndn_error:
  "2 * 10 ^ (dprec - 1) * n \<le> 2 * 10 ^ (dprec - 1) * rndn n + n"
  "2 * 10 ^ (dprec - 1) * rndn n \<le> 2 * 10 ^ (dprec - 1) * n + n"
proof -
  have "2 * 10 ^ (dprec - 1) * n \<le> 2 * 10 ^ (dprec - 1) * rndn n + n \<and>
        2 * 10 ^ (dprec - 1) * rndn n \<le> 2 * 10 ^ (dprec - 1) * n + n"
  proof (cases "ndigits n \<le> dprec")
    case True
    then show ?thesis by (simp add: rndn_def)
  next
    case False
    let ?k = "ndigits n - dprec" and ?c = "10 ^ (dprec - 1) :: nat"
    have pos: "0 < n" using False by (cases n) (simp_all add: ndigits.simps [of 0] dprec_def)
    have "ndigits n - 1 = dprec - 1 + ?k" using False by (simp add: dprec_def)
    then have "?c * 10 ^ ?k = 10 ^ (ndigits n - 1)" by (simp only: power_add)
    then have p: "?c * 10 ^ ?k \<le> n" using ndigits_lower [OF pos] by simp
    have r: "rndn n = rhe n ?k * 10 ^ ?k" using False by (simp add: rndn_def)
    have a: "2 * n \<le> 2 * rndn n + 10 ^ ?k" and b: "2 * rndn n \<le> 2 * n + 10 ^ ?k"
      using rhe_error [of n ?k] r by simp_all
    have "?c * (2 * n) \<le> ?c * (2 * rndn n + 10 ^ ?k)" using a by (rule mult_le_mono2)
    moreover have "?c * (2 * rndn n) \<le> ?c * (2 * n + 10 ^ ?k)" using b by (rule mult_le_mono2)
    ultimately show ?thesis using p by (simp add: distrib_left mult.assoc mult.left_commute)
  qed
  then show "2 * 10 ^ (dprec - 1) * n \<le> 2 * 10 ^ (dprec - 1) * rndn n + n"
    "2 * 10 ^ (dprec - 1) * rndn n \<le> 2 * 10 ^ (dprec - 1) * n + n" by auto
qed

section \<open>Decimals and their values\<close>

datatype decimal = Dec (coef: int) (expo: int)

text \<open>The coefficient a decimal has when it is written with a smaller exponent.\<close>

definition at_exp :: "decimal \<Rightarrow> int \<Rightarrow> int" where
  "at_exp d e = coef d * 10 ^ nat (expo d - e)"

definition dval :: "decimal \<Rightarrow> rat" where
  "dval d = of_int (coef d) * 10 powi expo d"

lemma powi_pos [simp]: "(0::rat) < 10 powi e"
  by (simp add: power_int_def)

lemma powi_not_neg [simp]: "\<not> (10::rat) powi e \<le> 0" "\<not> (10::rat) powi e < 0" "(10::rat) powi e \<noteq> 0"
  by (simp_all add: not_le not_less less_imp_le)

lemma powi_split: "e \<le> f \<Longrightarrow> (10::rat) powi f = 10 ^ nat (f - e) * 10 powi e"
  using power_int_add [of "10::rat" "f - e" e] by (simp add: power_int_def)

lemma dval_at_exp: "e \<le> expo d \<Longrightarrow> dval d = of_int (at_exp d e) * 10 powi e"
proof -
  assume le: "e \<le> expo d"
  then show ?thesis by (simp add: dval_def at_exp_def powi_split [of e "expo d"])
qed

lemma dval_cmp:
  assumes "e \<le> expo a" "e \<le> expo b"
  shows "dval a \<le> dval b \<longleftrightarrow> at_exp a e \<le> at_exp b e"
  using assms by (simp add: dval_at_exp)

instantiation decimal :: preorder
begin

definition less_eq_decimal :: "decimal \<Rightarrow> decimal \<Rightarrow> bool" where
  "less_eq_decimal a b = (let e = min (expo a) (expo b) in at_exp a e \<le> at_exp b e)"

definition less_decimal :: "decimal \<Rightarrow> decimal \<Rightarrow> bool" where
  "less_decimal a b = (let e = min (expo a) (expo b) in at_exp a e < at_exp b e)"

instance
proof
  fix a b c :: decimal
  have le: "x \<le> y \<longleftrightarrow> dval x \<le> dval y" for x y
    by (simp add: less_eq_decimal_def Let_def dval_cmp [of "min (expo x) (expo y)"])
  have lt: "x < y \<longleftrightarrow> dval x < dval y" for x y
    using dval_cmp [of "min (expo x) (expo y)" y x]
    by (simp add: less_decimal_def Let_def not_le [symmetric])
  show "a < b \<longleftrightarrow> a \<le> b \<and> \<not> b \<le> a" by (auto simp: le lt)
  show "a \<le> a" by (simp add: le)
  show "a \<le> b \<Longrightarrow> b \<le> c \<Longrightarrow> a \<le> c" by (simp add: le)
qed

end

lemma le_dval: "a \<le> b \<longleftrightarrow> dval a \<le> dval b"
  by (simp add: less_eq_decimal_def Let_def dval_cmp [of "min (expo a) (expo b)"])

lemma less_dval: "a < b \<longleftrightarrow> dval a < dval b"
  by (auto simp: less_le_not_le le_dval)

lemma not_less_decimal: "\<not> (a::decimal) < b \<longleftrightarrow> b \<le> a"
  by (auto simp: le_dval less_dval)

text \<open>Python's \<open>==\<close> on decimals compares values, not representations.\<close>

definition dec_eq :: "decimal \<Rightarrow> decimal \<Rightarrow> bool" where
  "dec_eq a b \<longleftrightarrow> a \<le> b \<and> b \<le> a"

lemma dec_eq_dval: "dec_eq a b \<longleftrightarrow> dval a = dval b"
  by (auto simp: dec_eq_def le_dval)

text \<open>
  Python's \<open>min\<close> and \<open>max\<close> keep the first of two equal arguments.
\<close>

definition py_min :: "'a::ord \<Rightarrow> 'a \<Rightarrow> 'a" where
  "py_min a b = (if b < a then b else a)"

definition py_max :: "'a::ord \<Rightarrow> 'a \<Rightarrow> 'a" where
  "py_max a b = (if a < b then b else a)"

lemma dval_py_min [dval_simps]: "dval (py_min a b) = min (dval a) (dval b)"
  by (auto simp: py_min_def less_dval)

lemma dval_py_max [dval_simps]: "dval (py_max a b) = max (dval a) (dval b)"
  by (auto simp: py_max_def less_dval)

section \<open>Rounding a decimal\<close>

definition dfix :: "decimal \<Rightarrow> decimal" where
  "dfix d = (let n = nat \<bar>coef d\<bar>; k = ndigits n - dprec in
     if ndigits n \<le> dprec then d
     else let q = rhe n k in
       if q = 10 ^ dprec then Dec (sgn (coef d) * 10 ^ (dprec - 1)) (expo d + int k + 1)
       else Dec (sgn (coef d) * int q) (expo d + int k))"

lemma dval_dfix: "dval (dfix d) = of_int (sgn (coef d) * int (rndn (nat \<bar>coef d\<bar>))) * 10 powi expo d"
proof -
  define n where "n = nat \<bar>coef d\<bar>"
  define k where "k = ndigits n - dprec"
  consider "ndigits n \<le> dprec" | "\<not> ndigits n \<le> dprec" "rhe n k = 10 ^ dprec"
    | "\<not> ndigits n \<le> dprec" "rhe n k \<noteq> 10 ^ dprec" by blast
  then show ?thesis
  proof cases
    case 1
    then show ?thesis by (simp add: dfix_def Let_def rndn_def n_def dval_def sgn_mult_abs)
  next
    case 2
    have "(10::rat) powi (expo d + int k + 1) = 10 powi expo d * 10 ^ k * 10"
      by (simp add: power_int_add)
    moreover have "(10::rat) ^ dprec = 10 ^ (dprec - 1) * 10" by (simp add: dprec_def)
    ultimately show ?thesis using 2
      by (simp add: dfix_def Let_def rndn_def n_def [symmetric] k_def [symmetric] dval_def)
  next
    case 3
    then show ?thesis
      by (simp add: dfix_def Let_def rndn_def n_def [symmetric] k_def [symmetric] dval_def power_int_add)
  qed
qed

definition rndi :: "int \<Rightarrow> int" where
  "rndi c = sgn c * int (rndn (nat \<bar>c\<bar>))"

lemma dval_dfix_rndi: "dval (dfix d) = of_int (rndi (coef d)) * 10 powi expo d"
  by (simp add: dval_dfix rndi_def)

lemma rndi_sign: "0 \<le> rndi c \<longleftrightarrow> 0 \<le> c" "0 < rndi c \<longleftrightarrow> 0 < c" "rndi c = 0 \<longleftrightarrow> c = 0"
  by (auto simp: rndi_def sgn_if zero_le_mult_iff)

lemma rndi_nonneg: "0 \<le> c \<Longrightarrow> rndi c = int (rndn (nat c))"
  by (cases "c = 0") (simp_all add: rndi_def)

lemma rndi_minus: "rndi (- c) = - rndi c"
  by (simp add: rndi_def sgn_minus)

lemma rndi_mono: "b \<le> c \<Longrightarrow> rndi b \<le> rndi c"
proof -
  assume le: "b \<le> c"
  have pos: "rndi x \<le> rndi y" if "0 \<le> x" "x \<le> y" for x y
    using that by (simp add: rndi_nonneg rndn_mono nat_mono)
  consider "0 \<le> b" | "b < 0" "0 \<le> c" | "b < 0" "c < 0" by linarith
  then show ?thesis
  proof cases
    case 1
    then show ?thesis using le by (rule pos)
  next
    case 2
    then show ?thesis using rndi_sign(1) [of b] rndi_sign(1) [of c] by linarith
  next
    case 3
    then have "rndi (- c) \<le> rndi (- b)" using le by (intro pos) simp_all
    then show ?thesis by (simp add: rndi_minus)
  qed
qed

lemma rndi_scale: "rndi (c * 10 ^ k) = rndi c * 10 ^ k"
proof -
  have "nat \<bar>c * 10 ^ k\<bar> = nat \<bar>c\<bar> * 10 ^ k"
    by (simp add: abs_mult nat_mult_distrib nat_power_eq)
  then show ?thesis by (simp add: rndi_def rndn_scale sgn_mult)
qed

lemma rndi_error: "2 * 10 ^ (dprec - 1) * \<bar>rndi c - c\<bar> \<le> \<bar>c\<bar>"
proof -
  define n where "n = nat \<bar>c\<bar>"
  have c: "c = sgn c * int n" by (simp add: n_def sgn_mult_abs)
  have "\<bar>rndi c - c\<bar> = \<bar>sgn c * (int (rndn n) - int n)\<bar>"
    by (subst (2) c) (simp add: rndi_def n_def algebra_simps)
  also have "\<dots> \<le> \<bar>int (rndn n) - int n\<bar>" by (simp add: abs_mult sgn_if)
  finally have a: "\<bar>rndi c - c\<bar> \<le> \<bar>int (rndn n) - int n\<bar>" .
  have "int (2 * 10 ^ (dprec - 1) * n) \<le> int (2 * 10 ^ (dprec - 1) * rndn n + n)"
    "int (2 * 10 ^ (dprec - 1) * rndn n) \<le> int (2 * 10 ^ (dprec - 1) * n + n)"
    using rndn_error [of n] by (simp_all only: of_nat_le_iff)
  then have b: "2 * 10 ^ (dprec - 1) * \<bar>int (rndn n) - int n\<bar> \<le> int n"
    by (simp add: abs_if algebra_simps)
  have "2 * 10 ^ (dprec - 1) * \<bar>rndi c - c\<bar> \<le> 2 * 10 ^ (dprec - 1) * \<bar>int (rndn n) - int n\<bar>"
    using a by (intro mult_left_mono) simp_all
  also note b
  also have "int n = \<bar>c\<bar>" by (simp add: n_def)
  finally show ?thesis .
qed

lemma dfix_rescaled:
  assumes "e \<le> expo d"
  shows "dval (dfix d) = of_int (rndi (at_exp d e)) * 10 powi e"
  using assms by (simp add: dval_dfix_rndi at_exp_def rndi_scale powi_split [of e "expo d"])

lemma dfix_mono: "dval a \<le> dval b \<Longrightarrow> dval (dfix a) \<le> dval (dfix b)"
proof -
  assume le: "dval a \<le> dval b"
  let ?e = "min (expo a) (expo b)"
  have "at_exp a ?e \<le> at_exp b ?e" using le dval_cmp [of ?e a b] by simp
  then have "rndi (at_exp a ?e) \<le> rndi (at_exp b ?e)" by (rule rndi_mono)
  then show ?thesis by (simp add: dfix_rescaled [of ?e])
qed

lemma dfix_cong: "dval a = dval b \<Longrightarrow> dval (dfix a) = dval (dfix b)"
  by (simp add: dfix_mono order_antisym)

lemma dfix_sign:
  "0 \<le> dval (dfix d) \<longleftrightarrow> 0 \<le> dval d" "0 < dval (dfix d) \<longleftrightarrow> 0 < dval d"
  "dval (dfix d) = 0 \<longleftrightarrow> dval d = 0"
  unfolding dval_dfix_rndi
  by (simp_all add: dval_def rndi_sign zero_le_mult_iff zero_less_mult_iff)

text \<open>The unit roundoff of the 28-digit context.\<close>

definition dec_eps :: rat where
  "dec_eps = 1 / (2 * 10 ^ 27)"

lemma dfix_error: "\<bar>dval (dfix d) - dval d\<bar> \<le> dec_eps * \<bar>dval d\<bar>"
proof -
  let ?c = "coef d" and ?p = "10 powi expo d :: rat"
  have "of_int (2 * 10 ^ 27 * \<bar>rndi ?c - ?c\<bar>) \<le> (of_int \<bar>?c\<bar> :: rat)"
    using rndi_error [of ?c] by (simp only: of_int_le_iff) (simp add: dprec_def)
  then have "\<bar>of_int (rndi ?c - ?c)\<bar> \<le> dec_eps * \<bar>of_int ?c :: rat\<bar>"
    by (simp add: dec_eps_def field_simps)
  then have "\<bar>of_int (rndi ?c - ?c)\<bar> * ?p \<le> dec_eps * \<bar>of_int ?c\<bar> * ?p"
    by (simp add: mult_right_mono)
  moreover have "\<bar>dval (dfix d) - dval d\<bar> = \<bar>of_int (rndi ?c - ?c)\<bar> * ?p"
    unfolding dval_dfix_rndi by (simp add: dval_def abs_mult flip: left_diff_distrib)
  moreover have "\<bar>dval d\<bar> = \<bar>of_int ?c\<bar> * ?p" by (simp add: dval_def abs_mult)
  ultimately show ?thesis by simp
qed

section \<open>Arithmetic\<close>

definition dadd_exact :: "decimal \<Rightarrow> decimal \<Rightarrow> decimal" where
  "dadd_exact a b = (let e = min (expo a) (expo b) in Dec (at_exp a e + at_exp b e) e)"

definition dneg_exact :: "decimal \<Rightarrow> decimal" where
  "dneg_exact a = Dec (- coef a) (expo a)"

definition dmul_exact :: "decimal \<Rightarrow> decimal \<Rightarrow> decimal" where
  "dmul_exact a b = Dec (coef a * coef b) (expo a + expo b)"

text \<open>
  \<open>Decimal.__truediv__\<close>: the integer quotient is taken with at least 29 digits and made
  sticky (a last digit 0 or 5 is incremented when the division is inexact) before it is
  rounded; an exact quotient drops trailing zeros down to the ideal exponent.  A zero
  divisor raises in Python; every division of the modelled code has a positive divisor.
\<close>

fun strip_zeros :: "nat \<Rightarrow> int \<Rightarrow> int \<Rightarrow> decimal" where
  "strip_zeros 0 c e = Dec c e"
| "strip_zeros (Suc k) c e = (if c mod 10 = 0 then strip_zeros k (c div 10) (e + 1) else Dec c e)"

definition ddiv_exact :: "decimal \<Rightarrow> decimal \<Rightarrow> decimal" where
  "ddiv_exact a b =
     (let na = nat \<bar>coef a\<bar>; nb = nat \<bar>coef b\<bar>;
          shift = int (ndigits nb) - int (ndigits na) + int dprec + 1;
          e = expo a - expo b - shift;
          num = na * 10 ^ nat shift; den = nb * 10 ^ nat (- shift);
          q = num div den; r = num mod den;
          s = sgn (coef a) * sgn (coef b)
      in if coef a = 0 then Dec 0 (expo a - expo b)
         else if r \<noteq> 0 then Dec (s * int (if q mod 5 = 0 then q + 1 else q)) e
         else strip_zeros (nat shift) (s * int q) e)"

instantiation decimal :: "{zero, one, plus, minus, uminus, times, inverse}"
begin

definition zero_decimal :: decimal where "0 = Dec 0 0"
definition one_decimal :: decimal where "1 = Dec 1 0"
definition plus_decimal :: "decimal \<Rightarrow> decimal \<Rightarrow> decimal" where "a + b = dfix (dadd_exact a b)"
definition uminus_decimal :: "decimal \<Rightarrow> decimal" where "- a = dfix (dneg_exact a)"
definition minus_decimal :: "decimal \<Rightarrow> decimal \<Rightarrow> decimal" where
  "a - b = dfix (dadd_exact a (dneg_exact b))"
definition times_decimal :: "decimal \<Rightarrow> decimal \<Rightarrow> decimal" where "a * b = dfix (dmul_exact a b)"
definition divide_decimal :: "decimal \<Rightarrow> decimal \<Rightarrow> decimal" where "a div b = dfix (ddiv_exact a b)"
definition inverse_decimal :: "decimal \<Rightarrow> decimal" where "inverse a = dfix (ddiv_exact (Dec 1 0) a)"

instance ..

end

text \<open>\<open>copy_abs\<close> does not round.\<close>

definition copy_abs :: "decimal \<Rightarrow> decimal" where
  "copy_abs d = Dec \<bar>coef d\<bar> (expo d)"

lemma dval_exact:
  "dval (dadd_exact a b) = dval a + dval b"
  "dval (dneg_exact a) = - dval a"
  "dval (dmul_exact a b) = dval a * dval b"
proof -
  let ?e = "min (expo a) (expo b)"
  show "dval (dadd_exact a b) = dval a + dval b"
    by (simp add: dval_at_exp [of ?e a] dval_at_exp [of ?e b] dadd_exact_def Let_def
        dval_def [of "Dec _ _"] distrib_right)
  show "dval (dneg_exact a) = - dval a" by (simp add: dneg_exact_def dval_def)
  show "dval (dmul_exact a b) = dval a * dval b"
    by (simp add: dmul_exact_def dval_def power_int_add)
qed

lemma dval_0 [simp, dval_simps]: "dval 0 = 0"
  by (simp add: zero_decimal_def dval_def)

lemma dval_1 [simp, dval_simps]: "dval 1 = 1"
  by (simp add: one_decimal_def dval_def)

lemma dval_Dec [dval_simps]: "dval (Dec c e) = of_int c * 10 powi e"
  by (simp add: dval_def)

lemma dval_copy_abs [simp, dval_simps]: "dval (copy_abs d) = \<bar>dval d\<bar>"
  by (simp add: copy_abs_def dval_def abs_mult)

text \<open>Signs: rounding never changes the sign of an exact result.\<close>

lemma dval_add_sign:
  "0 \<le> dval (a + b) \<longleftrightarrow> 0 \<le> dval a + dval b" "0 < dval (a + b) \<longleftrightarrow> 0 < dval a + dval b"
  "dval (a + b) = 0 \<longleftrightarrow> dval a + dval b = 0"
  by (simp_all add: plus_decimal_def dfix_sign dval_exact)

lemma dval_diff_sign:
  "0 \<le> dval (a - b) \<longleftrightarrow> dval b \<le> dval a" "0 < dval (a - b) \<longleftrightarrow> dval b < dval a"
  "dval (a - b) = 0 \<longleftrightarrow> dval a = dval b"
  by (simp_all add: minus_decimal_def dfix_sign dval_exact)

lemma dval_mult_sign:
  "0 \<le> dval (a * b) \<longleftrightarrow> 0 \<le> dval a * dval b" "0 < dval (a * b) \<longleftrightarrow> 0 < dval a * dval b"
  "dval (a * b) = 0 \<longleftrightarrow> dval a * dval b = 0"
  by (simp_all add: times_decimal_def dfix_sign dval_exact)

lemma dval_minus_sign: "dval (- a) \<le> 0 \<longleftrightarrow> 0 \<le> dval a" "dval (- a) < 0 \<longleftrightarrow> 0 < dval a"
proof -
  have "0 < dval (- a) \<longleftrightarrow> dval a < 0" "0 \<le> dval (- a) \<longleftrightarrow> dval a \<le> 0"
    by (simp_all add: uminus_decimal_def dfix_sign dval_exact)
  then show "dval (- a) \<le> 0 \<longleftrightarrow> 0 \<le> dval a" "dval (- a) < 0 \<longleftrightarrow> 0 < dval a"
    by linarith+
qed

lemmas dval_signs = dval_add_sign dval_diff_sign dval_mult_sign dval_minus_sign

lemma dec_add_mono: "dval a + dval b \<le> dval c + dval d \<Longrightarrow> dval (a + b) \<le> dval (c + d)"
  by (simp add: plus_decimal_def dfix_mono dval_exact)

lemma dec_mult_mono: "dval a * dval b \<le> dval c * dval d \<Longrightarrow> dval (a * b) \<le> dval (c * d)"
  by (simp add: times_decimal_def dfix_mono dval_exact)

lemma dec_diff_mono: "dval a - dval b \<le> dval c - dval d \<Longrightarrow> dval (a - b) \<le> dval (c - d)"
  by (simp add: minus_decimal_def dfix_mono dval_exact)

lemma dec_mult_commute: "dval (a * b) = dval (b * a)"
  by (simp add: times_decimal_def dfix_cong dval_exact mult.commute)

lemma dec_add_error: "\<bar>dval (a + b) - (dval a + dval b)\<bar> \<le> dec_eps * \<bar>dval a + dval b\<bar>"
  using dfix_error [of "dadd_exact a b"] by (simp add: plus_decimal_def dval_exact)

lemma dec_mult_error: "\<bar>dval (a * b) - dval a * dval b\<bar> \<le> dec_eps * \<bar>dval a * dval b\<bar>"
  using dfix_error [of "dmul_exact a b"] by (simp add: times_decimal_def dval_exact)

section \<open>Values that fit the precision\<close>

text \<open>A decimal fits when rounding does not change its value (at most 28 digits).\<close>

definition fits :: "decimal \<Rightarrow> bool" where
  "fits d \<longleftrightarrow> dec_eq (dfix d) d"

lemma fits_dval: "fits d \<longleftrightarrow> dval (dfix d) = dval d"
  by (simp add: fits_def dec_eq_dval)

lemma fits_small: "\<bar>coef d\<bar> < 10 ^ dprec \<Longrightarrow> fits d"
proof -
  assume "\<bar>coef d\<bar> < 10 ^ dprec"
  then have "nat \<bar>coef d\<bar> < 10 ^ dprec"
    by (simp add: nat_less_iff)
  then have "dval (dfix d) = of_int (coef d) * 10 powi expo d"
    by (simp add: dval_dfix rndn_id sgn_mult_abs)
  then show ?thesis by (simp add: fits_dval dval_def)
qed

lemma rhe_dprec: "\<not> ndigits n \<le> dprec \<Longrightarrow> rhe n (ndigits n - dprec) \<le> 10 ^ dprec"
proof -
  assume nd: "\<not> ndigits n \<le> dprec"
  let ?k = "ndigits n - dprec"
  have "(10::nat) ^ ndigits n = 10 ^ dprec * 10 ^ ?k" using nd by (simp flip: power_add)
  then have "n < 10 ^ dprec * 10 ^ ?k" using ndigits_upper [of n] by simp
  then have "n div 10 ^ ?k < 10 ^ dprec" by (simp add: less_mult_imp_div_less)
  then show ?thesis using rhe_bounds(2) [of n ?k] by linarith
qed

lemma abs_sgn_le: "\<bar>sgn (c::int) * x\<bar> \<le> \<bar>x\<bar>"
  by (simp add: abs_mult sgn_if)

lemma dfix_coef: "\<bar>coef (dfix d)\<bar> < 10 ^ dprec"
proof -
  define n where "n = nat \<bar>coef d\<bar>"
  define q where "q = rhe n (ndigits n - dprec)"
  consider "ndigits n \<le> dprec" | "\<not> ndigits n \<le> dprec" "q = 10 ^ dprec"
    | "\<not> ndigits n \<le> dprec" "q \<noteq> 10 ^ dprec" by blast
  then show ?thesis
  proof cases
    case 1
    then have "n < 10 ^ dprec" using ndigits_le_iff [of dprec n] by (simp add: dprec_def)
    then have "int n < int (10 ^ dprec)" by (simp only: of_nat_less_iff)
    with 1 show ?thesis by (simp add: dfix_def Let_def n_def)
  next
    case 2
    have "\<bar>sgn (coef d) * 10 ^ (dprec - 1)\<bar> \<le> (10::int) ^ (dprec - 1)"
      using abs_sgn_le [of "coef d" "10 ^ (dprec - 1)"] by simp
    also have "\<dots> < 10 ^ dprec" by (simp add: dprec_def)
    finally show ?thesis using 2 by (simp add: dfix_def Let_def n_def [symmetric] q_def [symmetric])
  next
    case 3
    then have "q < 10 ^ dprec" using rhe_dprec [of n] by (simp add: q_def)
    then have "int q < int (10 ^ dprec)" by (simp only: of_nat_less_iff)
    then have "\<bar>sgn (coef d) * int q\<bar> < 10 ^ dprec"
      using abs_sgn_le [of "coef d" "int q"] by (simp only: of_nat_power of_nat_numeral abs_of_nat)
    then show ?thesis using 3 by (simp add: dfix_def Let_def n_def [symmetric] q_def [symmetric])
  qed
qed

lemma fits_dfix [simp]: "fits (dfix d)"
  by (simp add: fits_small dfix_coef)

lemma fits_ops [simp]: "fits (a + b)" "fits (a - b)" "fits (a * b)" "fits (- a)" "fits (a / b)"
  by (simp_all add: plus_decimal_def minus_decimal_def times_decimal_def uminus_decimal_def
      divide_decimal_def)

lemma fits_literals [simp]: "fits 0" "fits 1"
  by (simp_all add: zero_decimal_def one_decimal_def fits_small dprec_def)

text \<open>Rounding never crosses a value that fits.\<close>

lemma dfix_le_fits: "fits y \<Longrightarrow> dval d \<le> dval y \<Longrightarrow> dval (dfix d) \<le> dval y"
  using dfix_mono [of d y] by (simp add: fits_dval)

lemma dfix_ge_fits: "fits y \<Longrightarrow> dval y \<le> dval d \<Longrightarrow> dval y \<le> dval (dfix d)"
  using dfix_mono [of y d] by (simp add: fits_dval)

lemma dec_diff_le: "fits a \<Longrightarrow> 0 \<le> dval b \<Longrightarrow> dval (a - b) \<le> dval a"
  by (simp add: minus_decimal_def dfix_le_fits dval_exact)

lemma dec_add_ge: "fits a \<Longrightarrow> 0 \<le> dval b \<Longrightarrow> dval a \<le> dval (a + b)"
  by (simp add: plus_decimal_def dfix_ge_fits dval_exact)

section \<open>Division is correctly rounded\<close>

lemma strip_zeros_dval: "dval (strip_zeros k c e) = of_int c * 10 powi e"
proof (induction k arbitrary: c e)
  case (Suc k)
  show ?case
  proof (cases "c mod 10 = 0")
    case True
    then have "of_int c = (of_int (c div 10) * 10 :: rat)"
      by (metis div_mult_mod_eq add.right_neutral of_int_mult of_int_numeral)
    with True show ?thesis by (simp add: Suc power_int_add)
  next
    case False
    then show ?thesis by (simp add: dval_Dec)
  qed
qed (simp add: dval_Dec)

lemma fits_grid:
  assumes y: "fits y" and q: "10 ^ dprec \<le> q" and gt: "of_nat q * 10 powi e < dval y"
  shows "of_nat (q + 1) * 10 powi e \<le> dval y"
proof -
  let ?u = "10 powi e :: rat"
  define z where "z = dfix y"
  have z: "dval z = dval y" using y by (simp add: z_def fits_dval)
  have zc: "coef z < 10 ^ dprec" using dfix_coef [of y] by (simp add: z_def)
  show ?thesis
  proof (cases "e \<le> expo z")
    case True
    then have v: "dval y = of_int (at_exp z e) * ?u" using dval_at_exp [OF True] z by simp
    with gt have "(of_nat q :: rat) < of_int (at_exp z e)" by simp
    then have "int q + 1 \<le> at_exp z e" by linarith
    then have "of_int (int q + 1) * ?u \<le> of_int (at_exp z e) * ?u"
      by (intro mult_right_mono) (simp_all only: of_int_le_iff powi_pos less_imp_le)
    with v show ?thesis by simp
  next
    case False
    have "dval z \<le> of_int (10 ^ dprec) * 10 powi expo z"
      unfolding dval_def using zc by (intro mult_right_mono) (simp_all only: of_int_le_iff less_imp_le powi_pos)
    also have "\<dots> \<le> of_int (10 ^ dprec) * ?u"
      using False by (intro mult_left_mono power_int_increasing) simp_all
    also have "\<dots> \<le> of_nat q * ?u"
    proof (intro mult_right_mono)
      have "(of_nat (10 ^ dprec) :: rat) \<le> of_nat q" using q by (simp only: of_nat_le_iff)
      then show "of_int (10 ^ dprec) \<le> (of_nat q :: rat)" by simp
    qed (simp add: less_imp_le)
    finally show ?thesis using gt z by simp
  qed
qed

text \<open>What the sticky quotient of \<open>__truediv__\<close> is worth, for positive operands.\<close>

lemma ddiv_exact_cases:
  assumes a: "0 < coef a" and b: "0 < coef b"
  obtains (exact) "dval (ddiv_exact a b) = dval a / dval b"
  | (inexact) q c e where "10 ^ dprec \<le> q" "of_nat q * 10 powi e < dval a / dval b"
      "dval a / dval b < of_nat (q + 1) * 10 powi e" "dval (ddiv_exact a b) = of_nat c * 10 powi e"
      "q \<le> c" "c \<le> q + 1"
proof -
  define na where "na = nat \<bar>coef a\<bar>"
  define nb where "nb = nat \<bar>coef b\<bar>"
  define shift where "shift = int (ndigits nb) - int (ndigits na) + int dprec + 1"
  define e where "e = expo a - expo b - shift"
  define num where "num = na * 10 ^ nat shift"
  define den where "den = nb * 10 ^ nat (- shift)"
  define q where "q = num div den"
  define r where "r = num mod den"
  have na: "0 < na" "coef a = int na" and nb: "0 < nb" "coef b = int nb"
    using a b by (simp_all add: na_def nb_def)
  have den: "0 < den" using nb by (simp add: den_def)
  have u: "(10::rat) powi (expo a - expo b) = 10 powi shift * 10 powi e"
    by (simp add: e_def flip: power_int_add)
  have sh: "(10::rat) powi shift = 10 ^ nat shift / 10 ^ nat (- shift)"
    by (cases "0 \<le> shift") (simp_all add: power_int_def power_one_over inverse_eq_divide)
  have "dval a / dval b = of_nat na / of_nat nb * 10 powi (expo a - expo b)"
    by (simp add: dval_def na nb power_int_diff)
  also have "\<dots> = of_nat num / of_nat den * 10 powi e"
    unfolding u sh by (simp add: num_def den_def)
  finally have x: "dval a / dval b = of_nat num / of_nat den * 10 powi e" .
  have nd: "num = q * den + r" by (simp add: q_def r_def)
  have r: "r < den" using den by (simp add: r_def)
  have num: "10 ^ dprec * den \<le> num"
  proof -
    have "nb * 10 ^ nat (- shift) * 10 ^ dprec \<le> 10 ^ ndigits nb * (10 ^ nat (- shift) * 10 ^ dprec)"
      using ndigits_upper [of nb] by (simp add: less_imp_le)
    also have "\<dots> = 10 ^ (ndigits nb + (nat (- shift) + dprec))" by (simp only: power_add)
    also have "ndigits nb + (nat (- shift) + dprec) = (ndigits na - 1) + nat shift"
      using ndigits_pos [of na] by (simp add: shift_def)
    also have "(10::nat) ^ ((ndigits na - 1) + nat shift) = 10 ^ (ndigits na - 1) * 10 ^ nat shift"
      by (simp only: power_add)
    also have "\<dots> \<le> na * 10 ^ nat shift" using ndigits_lower [OF na(1)] by simp
    finally show ?thesis by (simp add: num_def den_def mult.commute mult.left_commute)
  qed
  then have q: "10 ^ dprec \<le> q" using den by (simp add: q_def less_eq_div_iff_mult_less_eq)
  have E: "ddiv_exact a b = (if r \<noteq> 0 then Dec (int (if q mod 5 = 0 then q + 1 else q)) e
      else strip_zeros (nat shift) (int q) e)"
    using a b unfolding ddiv_exact_def Let_def
    by (simp add: na_def nb_def shift_def e_def num_def den_def q_def r_def)
  show thesis
  proof (cases "r = 0")
    case True
    have "dval (ddiv_exact a b) = of_nat q * 10 powi e" by (simp add: E True strip_zeros_dval)
    also have "\<dots> = dval a / dval b" using den by (simp add: x nd True)
    finally show thesis by (rule exact)
  next
    case False
    let ?c = "if q mod 5 = 0 then q + 1 else q"
    have lo: "(of_nat q :: rat) < of_nat num / of_nat den"
      using den False by (simp add: nd field_simps)
    have hi: "of_nat num / of_nat den < (of_nat (q + 1) :: rat)"
    proof -
      have "num < (q + 1) * den" using nd r by (simp add: distrib_right)
      then have "(of_nat num :: rat) < of_nat ((q + 1) * den)" by (simp only: of_nat_less_iff)
      then show ?thesis using den by (simp add: field_simps)
    qed
    show thesis
    proof (rule inexact [of q e ?c])
      show "of_nat q * 10 powi e < dval a / dval b" "dval a / dval b < of_nat (q + 1) * 10 powi e"
        unfolding x by (rule mult_strict_right_mono [OF lo powi_pos] mult_strict_right_mono [OF hi powi_pos])+
      show "dval (ddiv_exact a b) = of_nat ?c * 10 powi e"
        using False by (simp add: E dval_Dec)
    qed (use q in simp_all)
  qed
qed

lemma ddiv_le_fits:
  assumes "0 \<le> dval a" "0 < dval b" "fits y" "dval a \<le> dval y * dval b"
  shows "dval (a / b) \<le> dval y"
proof (cases "coef a = 0")
  case True
  then have "dval (ddiv_exact a b) = 0" by (simp add: ddiv_exact_def Let_def dval_Dec)
  moreover have "0 \<le> dval y"
    using assms(1,2,4) by (metis order_trans zero_le_mult_iff not_le)
  ultimately show ?thesis using assms(3) by (simp add: divide_decimal_def dfix_le_fits)
next
  case False
  have pos: "0 < coef a" "0 < coef b"
    using assms(1,2) False by (simp_all add: dval_def zero_le_mult_iff zero_less_mult_iff)
  have xy: "dval a / dval b \<le> dval y" using assms(2,4) by (simp add: divide_le_eq)
  from pos have "dval (ddiv_exact a b) \<le> dval y"
  proof (cases rule: ddiv_exact_cases)
    case exact
    with xy show ?thesis by simp
  next
    case (inexact q c e)
    have "dval (ddiv_exact a b) \<le> of_nat (q + 1) * 10 powi e"
      unfolding inexact(4) using inexact(6)
      by (intro mult_right_mono) (simp_all only: of_nat_le_iff powi_pos less_imp_le)
    also have "\<dots> \<le> dval y"
      using xy inexact(2) by (intro fits_grid [OF assms(3) inexact(1)]) linarith
    finally show ?thesis .
  qed
  then show ?thesis using assms(3) by (simp add: divide_decimal_def dfix_le_fits)
qed

lemma ddiv_ge_fits:
  assumes "0 \<le> dval a" "0 < dval b" "fits y" "dval y * dval b \<le> dval a"
  shows "dval y \<le> dval (a / b)"
proof (cases "coef a = 0")
  case True
  then have "dval (ddiv_exact a b) = 0" by (simp add: ddiv_exact_def Let_def dval_Dec)
  moreover have "dval a = 0" using True by (simp add: dval_def)
  then have "dval y \<le> 0" using assms(2,4) by (simp add: mult_le_0_iff)
  ultimately show ?thesis using assms(3) by (simp add: divide_decimal_def dfix_ge_fits)
next
  case False
  have pos: "0 < coef a" "0 < coef b"
    using assms(1,2) False by (simp_all add: dval_def zero_le_mult_iff zero_less_mult_iff)
  have xy: "dval y \<le> dval a / dval b" using assms(2,4) by (simp add: le_divide_eq)
  from pos have "dval y \<le> dval (ddiv_exact a b)"
  proof (cases rule: ddiv_exact_cases)
    case exact
    with xy show ?thesis by simp
  next
    case (inexact q c e)
    have "\<not> of_nat q * 10 powi e < dval y"
    proof
      assume "of_nat q * 10 powi e < dval y"
      from fits_grid [OF assms(3) inexact(1) this] xy inexact show False by linarith
    qed
    moreover have "(of_nat q :: rat) * 10 powi e \<le> dval (ddiv_exact a b)"
      unfolding inexact(4) using inexact(5)
      by (intro mult_right_mono) (simp_all only: of_nat_le_iff powi_pos less_imp_le)
    ultimately show ?thesis by linarith
  qed
  then show ?thesis using assms(3) by (simp add: divide_decimal_def dfix_ge_fits)
qed

lemma ddiv_nonneg: "0 \<le> dval a \<Longrightarrow> 0 < dval b \<Longrightarrow> 0 \<le> dval (a / b)"
  using ddiv_ge_fits [of a b 0] by simp

lemma ddiv_pos:
  assumes "0 < dval a" "0 < dval b"
  shows "0 < dval (a / b)"
proof -
  have pos: "0 < coef a" "0 < coef b" using assms by (simp_all add: dval_def zero_less_mult_iff)
  then have "0 < dval (ddiv_exact a b)"
  proof (cases rule: ddiv_exact_cases)
    case exact
    then show ?thesis using assms by simp
  next
    case (inexact q c e)
    have "0 < c" using inexact(1,5) by (simp add: dprec_def)
    with inexact show ?thesis by simp
  qed
  then show ?thesis by (simp add: divide_decimal_def dfix_sign)
qed

lemma ddiv_error:
  assumes "0 < dval a" "0 < dval b"
  shows "\<bar>dval (a / b) - dval a / dval b\<bar> \<le> 2 * dec_eps * (dval a / dval b)"
proof -
  define x where "x = dval a / dval b"
  define y where "y = dval (ddiv_exact a b)"
  have x0: "0 < x" using assms by (simp add: x_def)
  have pos: "0 < coef a" "0 < coef b" using assms by (simp_all add: dval_def zero_less_mult_iff)
  then have "\<bar>y - x\<bar> \<le> x / 10 ^ 28"
  proof (cases rule: ddiv_exact_cases)
    case exact
    then show ?thesis using x0 by (simp add: x_def y_def)
  next
    case (inexact q c e)
    let ?u = "10 powi e :: rat"
    have "of_nat q * ?u \<le> y" "y \<le> of_nat (q + 1) * ?u"
      unfolding y_def inexact(4) using inexact(5,6)
      by (simp_all only: of_nat_le_iff powi_pos less_imp_le mult_right_mono)
    then have "\<bar>y - x\<bar> \<le> ?u"
      using inexact(2,3) by (simp add: x_def abs_le_iff distrib_right)
    moreover have "?u * 10 ^ 28 \<le> x"
    proof -
      have "(of_nat (10 ^ dprec) :: rat) \<le> of_nat q" using inexact(1) by (simp only: of_nat_le_iff)
      then have "of_nat (10 ^ dprec) * ?u \<le> of_nat q * ?u"
        by (rule mult_right_mono) (simp add: less_imp_le)
      also have "\<dots> \<le> x" using inexact(2) by (simp add: x_def)
      finally show ?thesis by (simp add: dprec_def mult.commute)
    qed
    ultimately show ?thesis by (simp add: field_simps)
  qed
  moreover have "\<bar>dval (a / b) - y\<bar> \<le> dec_eps * \<bar>y\<bar>"
    using dfix_error [of "ddiv_exact a b"] by (simp add: divide_decimal_def y_def)
  ultimately have "\<bar>dval (a / b) - x\<bar> \<le> dec_eps * (x + x / 10 ^ 28) + x / 10 ^ 28"
    using x0 by (simp add: dec_eps_def abs_le_iff abs_if field_simps split: if_splits)
  also have "\<dots> \<le> 2 * dec_eps * x"
    using x0 by (simp add: dec_eps_def field_simps)
  finally show ?thesis by (simp add: x_def)
qed

section \<open>Remainder\<close>

definition adjusted :: "decimal \<Rightarrow> int" where
  "adjusted d = expo d + int (ndigits (nat \<bar>coef d\<bar>)) - 1"

text \<open>
  \<open>Decimal.__mod__\<close>: an integer quotient of more than 28 digits, or a zero divisor, raises
  \<open>InvalidOperation\<close>.
\<close>

definition dmod :: "decimal \<Rightarrow> decimal \<Rightarrow> decimal result" where
  "dmod a b =
     (let ideal = min (expo a) (expo b); expdiff = adjusted a - adjusted b;
          x = \<bar>at_exp a ideal\<bar>; y = \<bar>at_exp b ideal\<bar>
      in if coef b = 0 then Inl InvalidOperation
         else if coef a = 0 \<or> expdiff \<le> -2 then Inr (dfix (Dec (at_exp a ideal) ideal))
         else if expdiff \<le> int dprec \<and> x div y < 10 ^ dprec
           then Inr (dfix (Dec (sgn (coef a) * (x mod y)) ideal))
         else Inl InvalidOperation)"

lemma adjusted_bounds:
  assumes "0 < coef d"
  shows "10 powi adjusted d \<le> dval d" "dval d < 10 powi (adjusted d + 1)"
proof -
  define n where "n = nat (coef d)"
  have c: "coef d = int n" "0 < n" using assms by (simp_all add: n_def)
  have "(of_nat (10 ^ (ndigits n - 1)) :: rat) \<le> of_nat n"
    using ndigits_lower [OF c(2)] by (simp only: of_nat_le_iff)
  then have "(10::rat) powi (int (ndigits n) - 1) \<le> of_nat n"
    using ndigits_pos [of n] by (simp add: power_int_def nat_diff_distrib)
  then have "(10::rat) powi (int (ndigits n) - 1) * 10 powi expo d \<le> of_nat n * 10 powi expo d"
    by (intro mult_right_mono) (simp_all add: less_imp_le)
  then show "10 powi adjusted d \<le> dval d"
    by (simp add: adjusted_def dval_def c algebra_simps flip: power_int_add)
  have "(of_nat n :: rat) < of_nat (10 ^ ndigits n)"
    using ndigits_upper [of n] by (simp only: of_nat_less_iff)
  then have "(of_nat n :: rat) < 10 powi int (ndigits n)" by simp
  then have "of_nat n * 10 powi expo d < (10::rat) powi (int (ndigits n)) * 10 powi expo d"
    by (rule mult_strict_right_mono) simp
  moreover have "adjusted d + 1 = int (ndigits n) + expo d" by (simp add: adjusted_def c)
  then have "(10::rat) powi (adjusted d + 1) = 10 powi int (ndigits n) * 10 powi expo d"
    by (simp only: power_int_add [of "10::rat"] simp_thms zero_neq_numeral [symmetric])
  moreover have "dval d = of_nat n * 10 powi expo d" by (simp add: dval_def c)
  ultimately show "dval d < 10 powi (adjusted d + 1)" by simp
qed

text \<open>When it returns, the remainder of positive decimals is zero exactly on multiples.\<close>

lemma dmod_zero_iff:
  assumes "0 < dval a" "0 < dval b" "dmod a b = Inr r"
  shows "dval r = 0 \<longleftrightarrow> (\<exists>k::int. dval a = of_int k * dval b)"
proof -
  have pos: "0 < coef a" "0 < coef b" using assms by (simp_all add: dval_def zero_less_mult_iff)
  define i where "i = min (expo a) (expo b)"
  define x where "x = at_exp a i"
  define y where "y = at_exp b i"
  have xy: "0 < x" "0 < y" using pos by (simp_all add: x_def y_def at_exp_def)
  have va: "dval a = of_int x * 10 powi i" and vb: "dval b = of_int y * 10 powi i"
    by (simp_all add: x_def y_def i_def dval_at_exp)
  have mult: "(\<exists>k::int. dval a = of_int k * dval b) \<longleftrightarrow> x mod y = 0"
  proof -
    have "dval a = of_int k * dval b \<longleftrightarrow> (of_int x :: rat) = of_int (k * y)" for k
      by (simp add: va vb)
    then have "dval a = of_int k * dval b \<longleftrightarrow> x = k * y" for k
      by (simp only: of_int_eq_iff)
    then show ?thesis by (auto simp: mult.commute dvd_eq_mod_eq_0 [symmetric] dvd_def)
  qed
  show ?thesis
  proof (cases "adjusted a - adjusted b \<le> -2")
    case True
    have "dval r \<noteq> 0"
      using assms(3) True pos xy
      by (auto simp: dmod_def Let_def dfix_sign dval_Dec i_def [symmetric] x_def [symmetric])
    moreover have "x < y"
    proof -
      have "dval a < 10 powi (adjusted a + 1)" using pos(1) by (rule adjusted_bounds)
      also have "(10::rat) powi (adjusted a + 1) \<le> 10 powi adjusted b"
        using True by (intro power_int_increasing) simp_all
      also have "\<dots> \<le> dval b" using pos(2) by (rule adjusted_bounds)
      finally show ?thesis by (simp add: va vb)
    qed
    ultimately show ?thesis using mult xy by simp
  next
    case False
    then have "dval r = 0 \<longleftrightarrow> x mod y = 0"
      using assms(3) pos xy
      by (auto simp: dmod_def Let_def dfix_sign dval_Dec i_def [symmetric] x_def [symmetric]
          y_def [symmetric] split: if_splits)
    with mult show ?thesis by simp
  qed
qed

section \<open>Evaluation on literals\<close>

lemma dfix_small: "\<bar>c\<bar> < 10000000000000000000000000000 \<Longrightarrow> dfix (Dec c e) = Dec c e"
proof -
  assume "\<bar>c\<bar> < 10000000000000000000000000000"
  then have "nat \<bar>c\<bar> < 10 ^ 28" by (simp add: nat_less_iff)
  then have "ndigits (nat \<bar>c\<bar>) \<le> 28" using ndigits_le_iff [of 28 "nat \<bar>c\<bar>"] by simp
  then show ?thesis by (simp add: dfix_def dprec_def Let_def)
qed
lemma ndigits_numeral: "ndigits (numeral w) = (if (numeral w :: nat) < 10 then 1 else Suc (ndigits (numeral w div 10)))"
  by (subst ndigits.simps) simp
lemma ndigits_0_1: "ndigits 0 = 1" "ndigits (Suc 0) = 1" by (subst ndigits.simps, simp)+
lemma strip_zeros_numeral: "strip_zeros (numeral w) c e = (if c mod 10 = 0 then strip_zeros (pred_numeral w) (c div 10) (e + 1) else Dec c e)"
  by (simp add: numeral_eq_Suc)
lemmas dec_eval = plus_decimal_def minus_decimal_def times_decimal_def divide_decimal_def uminus_decimal_def
  zero_decimal_def one_decimal_def dfix_small dadd_exact_def dneg_exact_def dmul_exact_def at_exp_def
  less_decimal_def less_eq_decimal_def Let_def ddiv_exact_def ndigits_numeral ndigits_0_1 strip_zeros_numeral dprec_def

end
