(* ===== verification/Timestamps.thy ===== *)
theory Timestamps
  imports Decimals
begin

text \<open>
  Python's timezone-aware \<open>datetime\<close> (the contracts' \<open>AwareDatetime\<close>) as an instant in
  microseconds since 1970-01-01T00:00Z with its UTC offset, and \<open>timedelta\<close> as a number of
  microseconds.  Comparison and subtraction of aware datetimes look at the instants only;
  \<open>isoformat()\<close> shows the local time and the offset, so equal instants can have different
  texts.
\<close>

datatype datetime = DT (instant: int) (utcoffset: int)

instantiation datetime :: preorder
begin

definition less_eq_datetime :: "datetime \<Rightarrow> datetime \<Rightarrow> bool" where
  "less_eq_datetime a b \<longleftrightarrow> instant a \<le> instant b"

definition less_datetime :: "datetime \<Rightarrow> datetime \<Rightarrow> bool" where
  "less_datetime a b \<longleftrightarrow> instant a < instant b"

instance
  by standard (auto simp: less_eq_datetime_def less_datetime_def)

end

lemma not_less_datetime: "\<not> (a::datetime) < b \<longleftrightarrow> b \<le> a"
  by (auto simp: less_eq_datetime_def less_datetime_def)

text \<open>\<open>a - b\<close> in microseconds, and \<open>total_seconds()\<close> read back through \<open>Decimal(str(_))\<close>.\<close>

definition dt_diff :: "datetime \<Rightarrow> datetime \<Rightarrow> int" where
  "dt_diff a b = instant a - instant b"

text \<open>
  \<open>total_seconds()\<close> is a float; for \<open>|us| < 10^15\<close> (31 years) its shortest decimal text
  is the exact number of seconds with one to six decimals, which is what is modelled.
\<close>

definition total_seconds_decimal :: "int \<Rightarrow> decimal" where
  "total_seconds_decimal us = (if us = 0 then Dec 0 (-1) else strip_zeros 5 us (-6))"

lemma dval_total_seconds: "dval (total_seconds_decimal us) = of_int us / 10 ^ 6"
proof -
  have p: "(10::rat) powi (-6) = 1 / 10 ^ 6" by (simp add: power_int_def power_one_over)
  show ?thesis
  proof (cases "us = 0")
    case True
    then show ?thesis by (simp add: total_seconds_decimal_def dval_Dec)
  next
    case False
    then have "dval (total_seconds_decimal us) = of_int us * 10 powi (-6)"
      by (simp only: total_seconds_decimal_def if_False strip_zeros_dval)
    then show ?thesis unfolding p by simp
  qed
qed

section \<open>The text of a datetime\<close>

text \<open>Proleptic Gregorian date of a day number (days since 1970-01-01).\<close>

definition civil_date :: "int \<Rightarrow> int \<times> int \<times> int" where
  "civil_date days =
     (let z = days + 719468; era = z div 146097; doe = z mod 146097;
          yoe = (doe - doe div 1460 + doe div 36524 - doe div 146096) div 365;
          doy = doe - (365 * yoe + yoe div 4 - yoe div 100);
          mp = (5 * doy + 2) div 153;
          d = doy - (153 * mp + 2) div 5 + 1;
          m = (if mp < 10 then mp + 3 else mp - 9);
          y = yoe + era * 400 + (if m \<le> 2 then 1 else 0)
      in (y, m, d))"

definition digit_text :: "int \<Rightarrow> char" where
  "digit_text n = ''0123456789'' ! nat (n mod 10)"

definition pad2 :: "int \<Rightarrow> string" where
  "pad2 n = [digit_text (n div 10), digit_text n]"

definition pad4 :: "int \<Rightarrow> string" where
  "pad4 n = pad2 (n div 100) @ pad2 n"

definition pad6 :: "int \<Rightarrow> string" where
  "pad6 n = pad2 (n div 10000) @ pad4 n"

definition offset_text :: "int \<Rightarrow> string" where
  "offset_text off =
     (let s = \<bar>off\<bar> mod 60
      in (if off < 0 then ''-'' else ''+'') @ pad2 (\<bar>off\<bar> div 3600) @ '':''
         @ pad2 (\<bar>off\<bar> div 60 mod 60) @ (if s = 0 then [] else '':'' @ pad2 s))"

definition isoformat :: "datetime \<Rightarrow> string" where
  "isoformat t =
     (let local = instant t + utcoffset t * 1000000;
          (y, m, d) = civil_date (local div 86400000000);
          us = local mod 86400000000; secs = us div 1000000; frac = us mod 1000000
      in pad4 y @ ''-'' @ pad2 m @ ''-'' @ pad2 d @ ''T''
         @ pad2 (secs div 3600) @ '':'' @ pad2 (secs div 60 mod 60) @ '':'' @ pad2 (secs mod 60)
         @ (if frac = 0 then [] else ''.'' @ pad6 frac)
         @ offset_text (utcoffset t))"

lemma isoformat_example:
  "isoformat (DT 1709210096500000 0) = ''2024-02-29T12:34:56.500000+00:00''"
  "isoformat (DT 1709210096000000 (-18000)) = ''2024-02-29T07:34:56-05:00''"
  by code_simp+

end
