(* ===== verification/Payloads.thy ===== *)
theory Payloads
  imports Timestamps
begin

text \<open>
  The identity scheme every contract of the program uses: a payload of fields is written as
  JSON and hashed with SHA-256, and an identifier is a prefix and the first 32 hex digits in
  upper case.  A payload is a tree of the values that go into the JSON text.  The rendering
  of the tree (pydantic's \<open>model_dump_json\<close> for embedded models, \<open>str\<close> and
  \<open>isoformat\<close> for values, \<open>json.dumps\<close> with sorted keys) and the digest are one
  parameter \<open>H\<close> of the model, since pydantic is third-party code; what the program needs of
  it, and the only hypothesis made about it, is \<open>digest_ok\<close>: the result is a string of 64
  lower-case hex digits.
\<close>

datatype payload =
    PNull
  | PBool bool
  | PInt int
  | PStr string
  | PDec decimal               \<comment> \<open>\<open>str(d)\<close>\<close>
  | PIso datetime              \<comment> \<open>\<open>t.isoformat()\<close>\<close>
  | PJsonTime datetime         \<comment> \<open>a datetime inside a \<open>model_dump_json\<close>\<close>
  | PList "payload list"
  | PObj "(string \<times> payload) list"

type_synonym digest = "payload \<Rightarrow> string"

definition digest_ok :: "digest \<Rightarrow> bool" where
  "digest_ok H \<longleftrightarrow> (\<forall>p. hex64 (H p))"

definition POpt :: "('a \<Rightarrow> payload) \<Rightarrow> 'a option \<Rightarrow> payload" where
  "POpt f x = (case x of None \<Rightarrow> PNull | Some y \<Rightarrow> f y)"

definition PStrs :: "string list \<Rightarrow> payload" where
  "PStrs xs = PList (map PStr xs)"

text \<open>A Python dictionary is an association list; the JSON text has its keys sorted.\<close>

definition PDict :: "('a \<Rightarrow> payload) \<Rightarrow> (string \<times> 'a) list \<Rightarrow> payload" where
  "PDict f d = PObj (map (\<lambda>(k, v). (k, f v)) (sort_key fst d))"

text \<open>\<open>str.upper\<close> on the characters of a hex digest.\<close>

definition upper_of :: "char \<Rightarrow> char" where
  "upper_of c =
     (case map_of (zip ''abcdefghijklmnopqrstuvwxyz'' ''ABCDEFGHIJKLMNOPQRSTUVWXYZ'') c of
        None \<Rightarrow> c | Some d \<Rightarrow> d)"

definition stable_id :: "digest \<Rightarrow> string \<Rightarrow> payload \<Rightarrow> string" where
  "stable_id H prefix p = prefix @ '':'' @ map upper_of (take 32 (H p))"

text \<open>A hash used while a draft has none yet: \<open>"0" * 64\<close>.\<close>

definition zero_hash :: string where
  "zero_hash = replicate 64 (CHR ''0'')"

lemma digest_hex [simp]: "digest_ok H \<Longrightarrow> hex64 (H p)"
  by (simp add: digest_ok_def)

lemma digest_strip [simp]: "digest_ok H \<Longrightarrow> strip (H p) = H p"
  by (simp add: hex64_no_space)

lemma upper_of_hex:
  assumes "digit_char c \<or> lower_hex_letter c"
  shows "upper_char (upper_of c) \<or> digit_char (upper_of c)"
  using assms by (auto simp: upper_of_def upper_char_def digit_char_def lower_hex_letter_def)

lemma stable_id_canonical:
  assumes "digest_ok H" "canonical_id prefix" "length prefix \<le> 95"
  shows "canonical_id (stable_id H prefix p)"
proof -
  have h: "length (H p) = 64" "list_all (\<lambda>c. digit_char c \<or> lower_hex_letter c) (H p)"
    using digest_hex [OF assms(1), of p] by (simp_all add: hex64_def)
  have u: "list_all (\<lambda>c. upper_char c \<or> digit_char c) (map upper_of (take 32 (H p)))"
    using h(2) upper_of_hex by (fastforce simp: list_all_iff dest: in_set_takeD)
  show ?thesis
    using assms(2,3) u h(1)
    by (auto simp: canonical_id_def stable_id_def list_all_iff split: list.splits)
qed

lemma stable_id_eq_iff: "stable_id H prefix p = stable_id H prefix q \<longleftrightarrow>
    map upper_of (take 32 (H p)) = map upper_of (take 32 (H q))"
  by (simp add: stable_id_def)

lemma digest_ok_example: "digest_ok (\<lambda>p. zero_hash)"
  by (simp add: digest_ok_def hex64_def zero_hash_def list_all_iff digit_char_def)

end
