(* ===== verification/InstrumentMaster.thy ===== *)
theory InstrumentMaster
  imports Payloads "HOL-Library.Multiset"
begin

text \<open>
  The instrument master of \<open>contracts/instrument_master.py\<close>: venues, instruments,
  constraints, accounts and fee schedules as records with the source's field names, their
  validators, the order check of a constraint (\<open>evaluate_order\<close>) and the reference checks of a snapshot
  (\<open>validate_references\<close>) with the overlap test on effective windows.  Record fields are
  written with the class in front where two classes share a name
  (\<open>Instrument.venue_id\<close>).  The constant \<open>schema_version\<close> fields are left out.
\<close>

section \<open>Enumerations\<close>

datatype AssetType = CRYPTO | FIAT | STABLECOIN | EQUITY | FUND | COMMODITY | INDEX | OTHER
datatype AssetClassification = CRYPTO | FIAT | STABLECOIN | EQUITY
datatype AssetStatus = ACTIVE | INACTIVE | DELISTED
datatype VenueType = EXCHANGE | BROKER | DATA_VENDOR | SIMULATOR | PAPER
datatype VenueStatus = ACTIVE | DEGRADED | MAINTENANCE | HALTED | UNKNOWN | INACTIVE
datatype RateLimitScope = REST | WEBSOCKET | MARKET_DATA | ORDER | METADATA
datatype DayOfWeek = MONDAY | TUESDAY | WEDNESDAY | THURSDAY | FRIDAY | SATURDAY | SUNDAY
datatype OrderType = MARKET | LIMIT | POST_ONLY_LIMIT
datatype TradingSessionStatus = ACTIVE | SUSPENDED | UNKNOWN
datatype ConstraintViolation =
    NON_POSITIVE_PRICE | NON_POSITIVE_QUANTITY | PRICE_NOT_ON_TICK | QUANTITY_NOT_ON_LOT
  | QUANTITY_BELOW_MINIMUM | QUANTITY_ABOVE_MAXIMUM | NOTIONAL_BELOW_MINIMUM | NOTIONAL_ABOVE_MAXIMUM
datatype InstrumentType = SPOT | CASH_EQUITY | FUND | INDEX | OTHER
datatype InstrumentStatus = TRADING | PAUSED | HALTED | DELISTED | UNKNOWN
datatype AccountType = RESEARCH | SIMULATION | PAPER
datatype AccountStatus = ACTIVE | DISABLED | READ_ONLY | UNKNOWN
datatype TradingPermission = READ_MARKET_DATA | VIEW_BALANCES | PLACE_ORDERS | CANCEL_ORDERS
datatype KeyScope = NONE | READ_ONLY | PAPER_TRADE | TRADE_NO_WITHDRAWAL

primrec VenueStatus_value :: "VenueStatus \<Rightarrow> string" where
  "VenueStatus_value VenueStatus.ACTIVE = ''active''"
| "VenueStatus_value VenueStatus.DEGRADED = ''degraded''"
| "VenueStatus_value VenueStatus.MAINTENANCE = ''maintenance''"
| "VenueStatus_value VenueStatus.HALTED = ''halted''"
| "VenueStatus_value VenueStatus.UNKNOWN = ''unknown''"
| "VenueStatus_value VenueStatus.INACTIVE = ''inactive''"

primrec OrderType_value :: "OrderType \<Rightarrow> string" where
  "OrderType_value MARKET = ''market''"
| "OrderType_value LIMIT = ''limit''"
| "OrderType_value POST_ONLY_LIMIT = ''post_only_limit''"

primrec InstrumentType_value :: "InstrumentType \<Rightarrow> string" where
  "InstrumentType_value SPOT = ''spot''"
| "InstrumentType_value CASH_EQUITY = ''cash_equity''"
| "InstrumentType_value InstrumentType.FUND = ''fund''"
| "InstrumentType_value InstrumentType.INDEX = ''index''"
| "InstrumentType_value InstrumentType.OTHER = ''other''"

primrec InstrumentStatus_value :: "InstrumentStatus \<Rightarrow> string" where
  "InstrumentStatus_value TRADING = ''trading''"
| "InstrumentStatus_value PAUSED = ''paused''"
| "InstrumentStatus_value InstrumentStatus.HALTED = ''halted''"
| "InstrumentStatus_value InstrumentStatus.DELISTED = ''delisted''"
| "InstrumentStatus_value InstrumentStatus.UNKNOWN = ''unknown''"

primrec AccountType_value :: "AccountType \<Rightarrow> string" where
  "AccountType_value RESEARCH = ''research''"
| "AccountType_value SIMULATION = ''simulation''"
| "AccountType_value AccountType.PAPER = ''paper''"

primrec AccountStatus_value :: "AccountStatus \<Rightarrow> string" where
  "AccountStatus_value AccountStatus.ACTIVE = ''active''"
| "AccountStatus_value DISABLED = ''disabled''"
| "AccountStatus_value AccountStatus.READ_ONLY = ''read_only''"
| "AccountStatus_value AccountStatus.UNKNOWN = ''unknown''"

primrec TradingPermission_value :: "TradingPermission \<Rightarrow> string" where
  "TradingPermission_value READ_MARKET_DATA = ''read_market_data''"
| "TradingPermission_value VIEW_BALANCES = ''view_balances''"
| "TradingPermission_value PLACE_ORDERS = ''place_orders''"
| "TradingPermission_value CANCEL_ORDERS = ''cancel_orders''"

section \<open>Records\<close>

record SourceStampedModel =
  source_id :: string
  source_version :: "string option"
  metadata_ts :: datetime

record Asset = SourceStampedModel +
  asset_id :: string
  symbol :: string
  name :: string
  asset_type :: AssetType
  classifications :: "AssetClassification set"
  issuer :: "string option"
  category :: "string option"
  status :: AssetStatus

record ApiEndpointGroup =
  group_id :: string
  rest_base_url :: "string option"
  websocket_url :: "string option"
  status_url :: "string option"
  documentation_url :: "string option"

text \<open>The source's fields \<open>scope\<close> and \<open>limit\<close> are \<open>rate_scope\<close> and \<open>max_operations\<close> here.\<close>

record RateLimit =
  rate_limit_id :: string
  rate_scope :: RateLimitScope
  max_operations :: int
  interval_seconds :: int
  burst_limit :: "int option"

record Venue = SourceStampedModel +
  venue_id :: string
  name :: string
  venue_type :: VenueType
  timezone :: string
  api_endpoint_group :: ApiEndpointGroup
  status :: VenueStatus
  rate_limits :: "RateLimit list"
  supported_order_types :: "OrderType set"

record FeeSchedule = SourceStampedModel +
  fee_schedule_id :: string
  venue_id :: string
  fee_tier_id :: string
  maker_fee_rate :: decimal
  taker_fee_rate :: decimal
  fee_asset_id :: "string option"
  min_fee :: decimal
  effective_from :: datetime
  effective_to :: "datetime option"

text \<open>
  \<open>datetime.time\<close>: minutes of the day, microseconds of the minute and the offset from UTC in minutes,
  none for a naive time.  Times of different offsets are equal when they name the same minute.
\<close>

record py_time =
  minutes :: int
  microseconds :: int
  utc_offset :: "int option"

definition time_eq :: "py_time \<Rightarrow> py_time \<Rightarrow> bool" where
  "time_eq s t \<longleftrightarrow> microseconds s = microseconds t \<and>
     (case (utc_offset s, utc_offset t) of
        (None, None) \<Rightarrow> minutes s = minutes t
      | (Some a, Some b) \<Rightarrow> minutes s - a = minutes t - b
      | _ \<Rightarrow> False)"

record TradingSession = SourceStampedModel +
  session_id :: string
  venue_id :: string
  name :: string
  timezone :: string
  days_of_week :: "DayOfWeek set"
  is_24x7 :: bool
  open_time :: "py_time option"
  close_time :: "py_time option"
  status :: TradingSessionStatus
  effective_from :: datetime
  effective_to :: "datetime option"

record ConstraintValidationResult =
  instrument_id :: string
  constraint_id :: string
  price :: decimal
  quantity :: decimal
  notional :: decimal
  passed :: bool
  reason_codes :: "ConstraintViolation list"

record InstrumentConstraint = SourceStampedModel +
  constraint_id :: string
  instrument_id :: string
  tick_size :: decimal
  lot_size :: decimal
  min_notional :: decimal
  min_order_quantity :: "decimal option"
  max_order_quantity :: "decimal option"
  max_order_notional :: "decimal option"
  effective_from :: datetime
  effective_to :: "datetime option"

record Instrument = SourceStampedModel +
  instrument_id :: string
  venue_id :: string
  base_asset_id :: string
  quote_asset_id :: string
  venue_symbol :: string
  canonical_symbol :: string
  instrument_type :: InstrumentType
  status :: InstrumentStatus
  tick_size :: decimal
  lot_size :: decimal
  min_notional :: decimal
  fee_schedule_id :: string
  supported_order_types :: "OrderType set"
  effective_from :: datetime
  effective_to :: "datetime option"
  is_derivative :: bool
  margin_allowed :: bool
  short_selling_allowed :: bool
  leverage_allowed :: bool

record AccountRiskLimits =
  max_order_notional_pct :: decimal
  max_instrument_exposure_pct :: decimal
  max_strategy_exposure_pct :: decimal
  max_total_spot_exposure_pct :: decimal
  min_cash_reserve_pct :: decimal
  max_daily_loss_pct :: decimal
  max_drawdown_pct :: decimal

record Account = SourceStampedModel +
  account_id :: string
  venue_id :: string
  account_type :: AccountType
  status :: AccountStatus
  trading_permissions :: "TradingPermission set"
  fee_tier_id :: string
  risk_limits :: AccountRiskLimits
  key_scope :: KeyScope
  live_capital_enabled :: bool
  withdrawals_enabled :: bool
  margin_enabled :: bool
  derivatives_enabled :: bool
  shorting_enabled :: bool

record InstrumentMasterSnapshot = SourceStampedModel +
  snapshot_id :: string
  created_at :: datetime
  assets :: "Asset list"
  venues :: "Venue list"
  fee_schedules :: "FeeSchedule list"
  trading_sessions :: "TradingSession list"
  instrument_constraints :: "InstrumentConstraint list"
  instruments :: "Instrument list"
  accounts :: "Account list"

section \<open>Effective windows\<close>

text \<open>\<open>effective_from <= as_of < effective_to\<close>, with an open end when there is none.\<close>

definition in_window :: "datetime \<Rightarrow> datetime option \<Rightarrow> datetime \<Rightarrow> bool" where
  "in_window ef et as_of \<longleftrightarrow> ef \<le> as_of \<and> opt_all (\<lambda>e. as_of < e) et"

definition valid_effective_window :: "datetime \<Rightarrow> datetime option \<Rightarrow> bool" where
  "valid_effective_window ef et \<longleftrightarrow> opt_all (\<lambda>e. ef < e) et"

text \<open>\<open>_raise_on_overlapping_effective_windows\<close>, for one key's records sorted by start.\<close>

fun windows_disjoint :: "(datetime \<times> datetime option) list \<Rightarrow> bool" where
  "windows_disjoint (p # c # rest) \<longleftrightarrow>
     (case snd p of None \<Rightarrow> False | Some e \<Rightarrow> \<not> fst c < e) \<and> windows_disjoint (c # rest)"
| "windows_disjoint _ \<longleftrightarrow> True"

definition no_overlapping_windows ::
  "('a \<Rightarrow> string) \<Rightarrow> ('a \<Rightarrow> datetime) \<Rightarrow> ('a \<Rightarrow> datetime option) \<Rightarrow> 'a list \<Rightarrow> bool" where
  "no_overlapping_windows key ef et rs \<longleftrightarrow>
     list_all (\<lambda>k. windows_disjoint (map (\<lambda>r. (ef r, et r))
        (sort_key (\<lambda>r. instant (ef r)) (filter (\<lambda>r. key r = k) rs)))) (map key rs)"

section \<open>The order check of a constraint\<close>

definition is_decimal_multiple :: "decimal \<Rightarrow> decimal \<Rightarrow> bool result" where
  "is_decimal_multiple v inc =
     (if 0 < inc then bindE (dmod v inc) (\<lambda>r. Inr (dec_eq r 0)) else Inr False)"

definition evaluate_order ::
  "InstrumentConstraint \<Rightarrow> decimal \<Rightarrow> decimal \<Rightarrow> ConstraintValidationResult result" where
  "evaluate_order c p q =
     bindE (if p \<le> 0 then Inr [NON_POSITIVE_PRICE]
            else bindE (is_decimal_multiple p (InstrumentConstraint.tick_size c))
              (\<lambda>ok. Inr (if ok then [] else [PRICE_NOT_ON_TICK])))
     (\<lambda>price_codes.
     bindE (if q \<le> 0 then Inr [NON_POSITIVE_QUANTITY]
            else bindE (is_decimal_multiple q (InstrumentConstraint.lot_size c))
              (\<lambda>ok. let minimum = (case min_order_quantity c of
                        Some m \<Rightarrow> if dec_eq m 0 then InstrumentConstraint.lot_size c else m
                      | None \<Rightarrow> InstrumentConstraint.lot_size c)
                in Inr ((if q < minimum then [QUANTITY_BELOW_MINIMUM] else [])
                  @ (if ok then [] else [QUANTITY_NOT_ON_LOT])
                  @ (case max_order_quantity c of
                       Some m \<Rightarrow> if m < q then [QUANTITY_ABOVE_MAXIMUM] else []
                     | None \<Rightarrow> []))))
     (\<lambda>quantity_codes.
     let n = p * q;
         notional_codes = (if 0 < p \<and> 0 < q then
             (if n < InstrumentConstraint.min_notional c then [NOTIONAL_BELOW_MINIMUM] else [])
             @ (case max_order_notional c of
                  Some m \<Rightarrow> if m < n then [NOTIONAL_ABOVE_MAXIMUM] else []
                | None \<Rightarrow> [])
           else []);
         codes = price_codes @ quantity_codes @ notional_codes
     in Inr \<lparr>ConstraintValidationResult.instrument_id = InstrumentConstraint.instrument_id c,
             constraint_id = InstrumentConstraint.constraint_id c,
             price = p, quantity = q, notional = n, passed = (codes = []),
             reason_codes = codes\<rparr>))"

section \<open>The reference checks of a snapshot\<close>

definition fee_effective :: "FeeSchedule \<Rightarrow> datetime \<Rightarrow> bool" where
  "fee_effective f t \<longleftrightarrow> in_window (FeeSchedule.effective_from f) (FeeSchedule.effective_to f) t"

definition session_effective :: "TradingSession \<Rightarrow> datetime \<Rightarrow> bool" where
  "session_effective x t \<longleftrightarrow>
     in_window (TradingSession.effective_from x) (TradingSession.effective_to x) t"

definition constraint_effective :: "InstrumentConstraint \<Rightarrow> datetime \<Rightarrow> bool" where
  "constraint_effective c t \<longleftrightarrow>
     in_window (InstrumentConstraint.effective_from c) (InstrumentConstraint.effective_to c) t"

definition active_constraints :: "InstrumentConstraint list \<Rightarrow> string \<Rightarrow> datetime \<Rightarrow> InstrumentConstraint list" where
  "active_constraints cs iid t =
     filter (\<lambda>c. InstrumentConstraint.instrument_id c = iid \<and> constraint_effective c t) cs"

text \<open>The body of the loop over the instruments of \<open>validate_references\<close>.\<close>

definition check_instrument :: "InstrumentMasterSnapshot \<Rightarrow> Instrument \<Rightarrow> unit result" where
  "check_instrument s i =
     (case find (\<lambda>v. Venue.venue_id v = Instrument.venue_id i) (venues s) of
        None \<Rightarrow> Inl (KeyError (Instrument.venue_id i))
      | Some v \<Rightarrow>
          guardE (Instrument.supported_order_types i \<subseteq> Venue.supported_order_types v)
            (ValidationError ''instrument has venue-unsupported order types'')
          (guardE (length (filter (\<lambda>f. FeeSchedule.fee_schedule_id f = Instrument.fee_schedule_id i
                     \<and> FeeSchedule.venue_id f = Instrument.venue_id i
                     \<and> fee_effective f (created_at s)) (fee_schedules s)) = 1)
            (ValidationError ''instrument must reference exactly one active effective-dated fee schedule at snapshot time'')
          (case active_constraints (instrument_constraints s) (Instrument.instrument_id i) (created_at s) of
             [c] \<Rightarrow>
               guardE (dec_eq (Instrument.tick_size i) (InstrumentConstraint.tick_size c)
                   \<and> dec_eq (Instrument.lot_size i) (InstrumentConstraint.lot_size c)
                   \<and> dec_eq (Instrument.min_notional i) (InstrumentConstraint.min_notional c))
                 (ValidationError ''instrument tick_size/lot_size/min_notional does not match active effective-dated constraint'')
               (Inr ())
           | _ \<Rightarrow> Inl (ValidationError ''instrument must have exactly one active effective-dated constraint at snapshot time''))))"

definition validate_references :: "InstrumentMasterSnapshot \<Rightarrow> InstrumentMasterSnapshot result" where
  "validate_references s =
     (let asset_ids = set (map asset_id (assets s));
          venue_ids = set (map Venue.venue_id (venues s));
          instrument_ids = set (map Instrument.instrument_id (instruments s));
          fee_schedule_ids = set (map FeeSchedule.fee_schedule_id (fee_schedules s));
          schedule_refs = set (map (\<lambda>f. (FeeSchedule.venue_id f, FeeSchedule.fee_schedule_id f)) (fee_schedules s));
          tier_refs = set (map (\<lambda>f. (FeeSchedule.venue_id f, FeeSchedule.fee_tier_id f)) (fee_schedules s));
          dup = (\<lambda>f. ValidationError (''duplicate '' @ f @ '' value(s)''))
      in guardE (distinct (map asset_id (assets s))) (dup ''asset_id'')
        (guardE (distinct (map Venue.venue_id (venues s))) (dup ''venue_id'')
        (guardE (distinct (map FeeSchedule.fee_schedule_id (fee_schedules s))) (dup ''fee_schedule_id'')
        (guardE (distinct (map session_id (trading_sessions s))) (dup ''trading_session_id'')
        (guardE (distinct (map InstrumentConstraint.constraint_id (instrument_constraints s)))
           (dup ''instrument_constraint_id'')
        (guardE (distinct (map Instrument.instrument_id (instruments s))) (dup ''instrument_id'')
        (guardE (distinct (map Account.account_id (accounts s))) (dup ''account_id'')
        (guardE (no_overlapping_windows
             (\<lambda>f. FeeSchedule.venue_id f @ ''/'' @ FeeSchedule.fee_tier_id f)
             FeeSchedule.effective_from FeeSchedule.effective_to (fee_schedules s))
           (ValidationError ''overlapping effective windows for fee schedule'')
        (guardE (no_overlapping_windows InstrumentConstraint.instrument_id
             InstrumentConstraint.effective_from InstrumentConstraint.effective_to (instrument_constraints s))
           (ValidationError ''overlapping effective windows for instrument constraint'')
        (guardE (\<forall>i \<in> set (instruments s). base_asset_id i \<in> asset_ids \<and> quote_asset_id i \<in> asset_ids)
           (ValidationError ''instruments reference unknown asset_id(s)'')
        (guardE (\<forall>i \<in> set (instruments s). Instrument.venue_id i \<in> venue_ids)
           (ValidationError ''instruments reference unknown venue_id(s)'')
        (guardE (\<forall>a \<in> set (accounts s). Account.venue_id a \<in> venue_ids)
           (ValidationError ''accounts reference unknown venue_id(s)'')
        (guardE (\<forall>f \<in> set (fee_schedules s). FeeSchedule.venue_id f \<in> venue_ids)
           (ValidationError ''fee schedules reference unknown venue_id(s)'')
        (guardE (\<forall>f \<in> set (fee_schedules s). opt_all (\<lambda>a. a \<in> asset_ids) (fee_asset_id f))
           (ValidationError ''fee schedules reference unknown fee_asset_id(s)'')
        (guardE (\<forall>x \<in> set (trading_sessions s). TradingSession.venue_id x \<in> venue_ids)
           (ValidationError ''trading sessions reference unknown venue_id(s)'')
        (guardE (\<forall>c \<in> set (instrument_constraints s). InstrumentConstraint.instrument_id c \<in> instrument_ids)
           (ValidationError ''instrument constraints reference unknown instrument_id(s)'')
        (guardE (\<forall>i \<in> set (instruments s). Instrument.fee_schedule_id i \<in> fee_schedule_ids)
           (ValidationError ''instruments reference unknown fee_schedule_id(s)'')
        (guardE (\<forall>a \<in> set (accounts s). (Account.venue_id a, Account.fee_tier_id a) \<in> schedule_refs \<union> tier_refs)
           (ValidationError ''accounts reference fee_tier_id values without venue fee schedules'')
        (guardE (\<forall>a \<in> set (accounts s). \<exists>f \<in> set (fee_schedules s).
               FeeSchedule.venue_id f = Account.venue_id a
               \<and> Account.fee_tier_id a \<in> {FeeSchedule.fee_schedule_id f, FeeSchedule.fee_tier_id f}
               \<and> fee_effective f (created_at s))
           (ValidationError ''accounts reference fee_tier_id values without active effective-dated fee schedules at snapshot time'')
        (guardE (\<forall>v \<in> set (venues s). \<exists>x \<in> set (trading_sessions s).
               TradingSession.venue_id x = Venue.venue_id v
               \<and> TradingSession.status x = TradingSessionStatus.ACTIVE
               \<and> session_effective x (created_at s))
           (ValidationError ''venues have no active effective-dated trading session at snapshot time'')
        (bindE (mapE (check_instrument s) (instruments s)) (\<lambda>_. Inr s))))))))))))))))))))))"

section \<open>Construction\<close>

text \<open>
  The field and model validators.  \<open>Z\<close> says which names are IANA time zones; it stands for
  the zone database that \<open>ZoneInfo\<close> looks names up in.
\<close>

type_synonym zones = "string \<Rightarrow> bool"

definition symbol_text :: "string \<Rightarrow> bool" where
  "symbol_text s \<longleftrightarrow>
     (case s of [] \<Rightarrow> False
      | c # cs \<Rightarrow> (upper_char c \<or> digit_char c) \<and> length s \<le> 64 \<and>
          list_all (\<lambda>d. upper_char d \<or> digit_char d \<or> d \<in> set ''._:/-'') cs)"

definition source_stamp_fields :: "'a SourceStampedModel_scheme \<Rightarrow> (bool \<times> string) list" where
  "source_stamp_fields r =
     [(canonical_id (source_id r), ''source_id''),
      (opt_all non_empty_string (source_version r), ''source_version'')]"

primrec required_classification :: "AssetType \<Rightarrow> AssetClassification option" where
  "required_classification AssetType.CRYPTO = Some AssetClassification.CRYPTO"
| "required_classification AssetType.FIAT = Some AssetClassification.FIAT"
| "required_classification AssetType.STABLECOIN = Some AssetClassification.STABLECOIN"
| "required_classification AssetType.EQUITY = Some AssetClassification.EQUITY"
| "required_classification AssetType.FUND = None"
| "required_classification AssetType.COMMODITY = None"
| "required_classification AssetType.INDEX = None"
| "required_classification AssetType.OTHER = None"

definition asset_fields :: "Asset \<Rightarrow> (bool \<times> string) list" where
  "asset_fields r = source_stamp_fields r @
     [(canonical_id (Asset.asset_id r), ''asset_id''), (symbol_text (Asset.symbol r), ''symbol''),
      (non_empty_string (Asset.name r), ''name''), (Asset.classifications r \<noteq> {}, ''classifications''),
      (opt_all non_empty_string (Asset.issuer r), ''issuer''),
      (opt_all non_empty_string (Asset.category r), ''category'')]"

definition asset_checks :: "Asset \<Rightarrow> (bool \<times> string) list" where
  "asset_checks r =
     (let cs = Asset.classifications r in
      [(opt_all (\<lambda>c. c \<in> cs) (required_classification (Asset.asset_type r)),
        ''asset_type requires classification''),
       (AssetClassification.STABLECOIN \<in> cs \<longrightarrow> AssetClassification.CRYPTO \<in> cs,
        ''stablecoin assets must also carry the crypto classification''),
       (AssetClassification.STABLECOIN \<in> cs \<longrightarrow> AssetClassification.FIAT \<notin> cs,
        ''stablecoin assets cannot also be classified as fiat''),
       (\<not> (AssetClassification.FIAT \<in> cs \<and> AssetClassification.CRYPTO \<in> cs),
        ''fiat and crypto classifications cannot be combined'')])"

definition construct_Asset :: "Asset \<Rightarrow> Asset result" where
  "construct_Asset r = checked (asset_fields r @ asset_checks r) r"

definition valid_Asset :: "Asset \<Rightarrow> bool" where "valid_Asset r \<longleftrightarrow> construct_Asset r = Inr r"

definition construct_ApiEndpointGroup :: "ApiEndpointGroup \<Rightarrow> ApiEndpointGroup result" where
  "construct_ApiEndpointGroup r = checked
     [(canonical_id (group_id r), ''group_id''),
      (opt_all non_empty_string (rest_base_url r), ''rest_base_url''),
      (opt_all non_empty_string (websocket_url r), ''websocket_url''),
      (opt_all non_empty_string (status_url r), ''status_url''),
      (opt_all non_empty_string (documentation_url r), ''documentation_url''),
      (rest_base_url r \<noteq> None \<or> websocket_url r \<noteq> None,
       ''api endpoint group requires at least one REST or WebSocket endpoint'')] r"

definition valid_ApiEndpointGroup :: "ApiEndpointGroup \<Rightarrow> bool" where
  "valid_ApiEndpointGroup r \<longleftrightarrow> construct_ApiEndpointGroup r = Inr r"

definition construct_RateLimit :: "RateLimit \<Rightarrow> RateLimit result" where
  "construct_RateLimit r = checked
     [(canonical_id (rate_limit_id r), ''rate_limit_id''), (0 < max_operations r, ''limit''),
      (0 < interval_seconds r, ''interval_seconds''), (opt_all (\<lambda>x. 0 < x) (burst_limit r), ''burst_limit'')] r"

definition valid_RateLimit :: "RateLimit \<Rightarrow> bool" where
  "valid_RateLimit r \<longleftrightarrow> construct_RateLimit r = Inr r"

definition timezone_must_be_valid_iana_name :: "zones \<Rightarrow> string \<Rightarrow> bool \<times> string" where
  "timezone_must_be_valid_iana_name Z x = (Z x, ''timezone must be a valid IANA timezone'')"

definition construct_Venue :: "zones \<Rightarrow> Venue \<Rightarrow> Venue result" where
  "construct_Venue Z r = checked (source_stamp_fields r @
     [(canonical_id (Venue.venue_id r), ''venue_id''), (non_empty_string (Venue.name r), ''name''),
      (non_empty_string (Venue.timezone r), ''timezone''),
      timezone_must_be_valid_iana_name Z (Venue.timezone r),
      (valid_ApiEndpointGroup (api_endpoint_group r), ''api_endpoint_group''),
      (list_all valid_RateLimit (rate_limits r) \<and> rate_limits r \<noteq> [], ''rate_limits''),
      (Venue.supported_order_types r \<noteq> {}, ''supported_order_types'')]) r"

definition valid_Venue :: "zones \<Rightarrow> Venue \<Rightarrow> bool" where
  "valid_Venue Z r \<longleftrightarrow> construct_Venue Z r = Inr r"

definition bounded_fee_rate :: "decimal \<Rightarrow> bool" where
  "bounded_fee_rate x \<longleftrightarrow> 0 \<le> x \<and> x \<le> Dec 5 (-2)"

definition construct_FeeSchedule :: "FeeSchedule \<Rightarrow> FeeSchedule result" where
  "construct_FeeSchedule r = checked (source_stamp_fields r @
     [(canonical_id (FeeSchedule.fee_schedule_id r), ''fee_schedule_id''),
      (canonical_id (FeeSchedule.venue_id r), ''venue_id''),
      (canonical_id (FeeSchedule.fee_tier_id r), ''fee_tier_id''),
      (bounded_fee_rate (maker_fee_rate r), ''maker_fee_rate''),
      (bounded_fee_rate (taker_fee_rate r), ''taker_fee_rate''),
      (opt_all canonical_id (fee_asset_id r), ''fee_asset_id''), (0 \<le> min_fee r, ''min_fee''),
      (valid_effective_window (FeeSchedule.effective_from r) (FeeSchedule.effective_to r),
       ''fee schedule effective_to must be after effective_from''),
      (0 < min_fee r \<longrightarrow> fee_asset_id r \<noteq> None,
       ''fee_asset_id is required when min_fee is greater than zero'')]) r"

definition valid_FeeSchedule :: "FeeSchedule \<Rightarrow> bool" where
  "valid_FeeSchedule r \<longleftrightarrow> construct_FeeSchedule r = Inr r"

definition session_window_checks :: "TradingSession \<Rightarrow> (bool \<times> string) list" where
  "session_window_checks r =
     (valid_effective_window (TradingSession.effective_from r) (TradingSession.effective_to r),
      ''trading session effective_to must be after effective_from'') #
     (if is_24x7 r then
        [(days_of_week r = {MONDAY, TUESDAY, WEDNESDAY, THURSDAY, FRIDAY, SATURDAY, SUNDAY},
          ''24x7 trading sessions must include every day of week''),
         (open_time r = None \<and> close_time r = None, ''24x7 trading sessions must not set open_time or close_time'')]
      else
        [(open_time r \<noteq> None \<and> close_time r \<noteq> None, ''non-24x7 trading sessions require open_time and close_time''),
         (\<not> time_eq (the (open_time r)) (the (close_time r)),
          ''open_time and close_time must differ for non-24x7 sessions'')])"

definition construct_TradingSession :: "zones \<Rightarrow> TradingSession \<Rightarrow> TradingSession result" where
  "construct_TradingSession Z r = checked (source_stamp_fields r @
     [(canonical_id (session_id r), ''session_id''),
      (canonical_id (TradingSession.venue_id r), ''venue_id''),
      (non_empty_string (TradingSession.name r), ''name''),
      (non_empty_string (TradingSession.timezone r), ''timezone''),
      timezone_must_be_valid_iana_name Z (TradingSession.timezone r),
      (days_of_week r \<noteq> {}, ''days_of_week'')] @ session_window_checks r) r"

definition valid_TradingSession :: "zones \<Rightarrow> TradingSession \<Rightarrow> bool" where
  "valid_TradingSession Z r \<longleftrightarrow> construct_TradingSession Z r = Inr r"

definition construct_InstrumentConstraint :: "InstrumentConstraint \<Rightarrow> InstrumentConstraint result" where
  "construct_InstrumentConstraint r = checked (source_stamp_fields r @
     [(canonical_id (InstrumentConstraint.constraint_id r), ''constraint_id''),
      (canonical_id (InstrumentConstraint.instrument_id r), ''instrument_id''),
      (0 < InstrumentConstraint.tick_size r, ''tick_size''), (0 < InstrumentConstraint.lot_size r, ''lot_size''),
      (0 < InstrumentConstraint.min_notional r, ''min_notional''),
      (opt_all (\<lambda>x. 0 < x) (min_order_quantity r), ''min_order_quantity''),
      (opt_all (\<lambda>x. 0 < x) (max_order_quantity r), ''max_order_quantity''),
      (opt_all (\<lambda>x. 0 < x) (max_order_notional r), ''max_order_notional''),
      (valid_effective_window (InstrumentConstraint.effective_from r) (InstrumentConstraint.effective_to r),
       ''instrument constraint effective_to must be after effective_from''),
      (case (min_order_quantity r, max_order_quantity r) of (Some lo, Some hi) \<Rightarrow> \<not> hi < lo | _ \<Rightarrow> True,
       ''max_order_quantity cannot be below min_order_quantity''),
      (opt_all (\<lambda>m. \<not> m < InstrumentConstraint.min_notional r) (max_order_notional r),
       ''max_order_notional cannot be below min_notional'')]) r"

definition valid_InstrumentConstraint :: "InstrumentConstraint \<Rightarrow> bool" where
  "valid_InstrumentConstraint r \<longleftrightarrow> construct_InstrumentConstraint r = Inr r"

definition construct_Instrument :: "Instrument \<Rightarrow> Instrument result" where
  "construct_Instrument r = checked (source_stamp_fields r @
     [(canonical_id (Instrument.instrument_id r), ''instrument_id''),
      (canonical_id (Instrument.venue_id r), ''venue_id''),
      (canonical_id (base_asset_id r), ''base_asset_id''), (canonical_id (quote_asset_id r), ''quote_asset_id''),
      (symbol_text (venue_symbol r), ''venue_symbol''), (symbol_text (canonical_symbol r), ''canonical_symbol''),
      (0 < Instrument.tick_size r, ''tick_size''), (0 < Instrument.lot_size r, ''lot_size''),
      (0 < Instrument.min_notional r, ''min_notional''),
      (canonical_id (Instrument.fee_schedule_id r), ''fee_schedule_id''),
      (Instrument.supported_order_types r \<noteq> {}, ''supported_order_types''),
      (\<not> is_derivative r, ''is_derivative''), (\<not> margin_allowed r, ''margin_allowed''),
      (\<not> short_selling_allowed r, ''short_selling_allowed''), (\<not> leverage_allowed r, ''leverage_allowed''),
      (base_asset_id r \<noteq> quote_asset_id r, ''base_asset_id and quote_asset_id must differ''),
      (valid_effective_window (Instrument.effective_from r) (Instrument.effective_to r),
       ''effective_to must be after effective_from'')]) r"

definition valid_Instrument :: "Instrument \<Rightarrow> bool" where
  "valid_Instrument r \<longleftrightarrow> construct_Instrument r = Inr r"

text \<open>The narrower bound of each field of \<open>AccountRiskLimits\<close> comes on top of the unit interval.\<close>

definition bounded_risk_fraction :: "decimal \<Rightarrow> bool" where
  "bounded_risk_fraction x \<longleftrightarrow> 0 < x \<and> x \<le> 1"

definition construct_AccountRiskLimits :: "AccountRiskLimits \<Rightarrow> AccountRiskLimits result" where
  "construct_AccountRiskLimits r = checked
     [(bounded_risk_fraction (max_order_notional_pct r) \<and> max_order_notional_pct r \<le> Dec 25 (-3), ''max_order_notional_pct''),
      (bounded_risk_fraction (max_instrument_exposure_pct r) \<and> max_instrument_exposure_pct r \<le> Dec 25 (-2),
       ''max_instrument_exposure_pct''),
      (bounded_risk_fraction (max_strategy_exposure_pct r) \<and> max_strategy_exposure_pct r \<le> Dec 30 (-2),
       ''max_strategy_exposure_pct''),
      (bounded_risk_fraction (max_total_spot_exposure_pct r) \<and> max_total_spot_exposure_pct r \<le> Dec 60 (-2),
       ''max_total_spot_exposure_pct''),
      (bounded_risk_fraction (min_cash_reserve_pct r) \<and> Dec 30 (-2) \<le> min_cash_reserve_pct r, ''min_cash_reserve_pct''),
      (bounded_risk_fraction (max_daily_loss_pct r) \<and> max_daily_loss_pct r \<le> Dec 2 (-2), ''max_daily_loss_pct''),
      (bounded_risk_fraction (AccountRiskLimits.max_drawdown_pct r) \<and> AccountRiskLimits.max_drawdown_pct r \<le> Dec 8 (-2),
       ''max_drawdown_pct''),
      (\<not> max_total_spot_exposure_pct r < max_instrument_exposure_pct r,
       ''instrument exposure cap cannot exceed total spot exposure cap''),
      (\<not> max_total_spot_exposure_pct r < max_strategy_exposure_pct r,
       ''strategy exposure cap cannot exceed total spot exposure cap'')] r"

definition valid_AccountRiskLimits :: "AccountRiskLimits \<Rightarrow> bool" where
  "valid_AccountRiskLimits r \<longleftrightarrow> construct_AccountRiskLimits r = Inr r"

definition construct_Account :: "Account \<Rightarrow> Account result" where
  "construct_Account r = checked (source_stamp_fields r @
     [(canonical_id (Account.account_id r), ''account_id''), (canonical_id (Account.venue_id r), ''venue_id''),
      (trading_permissions r \<noteq> {}, ''trading_permissions''),
      (canonical_id (Account.fee_tier_id r), ''fee_tier_id''),
      (valid_AccountRiskLimits (risk_limits r), ''risk_limits''),
      (\<not> live_capital_enabled r, ''live_capital_enabled''), (\<not> withdrawals_enabled r, ''withdrawals_enabled''),
      (\<not> margin_enabled r, ''margin_enabled''), (\<not> derivatives_enabled r, ''derivatives_enabled''),
      (\<not> shorting_enabled r, ''shorting_enabled''),
      (\<not> (account_type r = RESEARCH \<and> PLACE_ORDERS \<in> trading_permissions r),
       ''research accounts cannot include order-placement permission''),
      (\<not> (key_scope r = TRADE_NO_WITHDRAWAL \<and> account_type r = RESEARCH),
       ''research accounts cannot use trade-capable key scope'')]) r"

definition valid_Account :: "Account \<Rightarrow> bool" where
  "valid_Account r \<longleftrightarrow> construct_Account r = Inr r"

definition snapshot_fields :: "zones \<Rightarrow> InstrumentMasterSnapshot \<Rightarrow> (bool \<times> string) list" where
  "snapshot_fields Z r = source_stamp_fields r @
     [(canonical_id (InstrumentMasterSnapshot.snapshot_id r), ''snapshot_id''),
      (list_all valid_Asset (assets r) \<and> assets r \<noteq> [], ''assets''),
      (list_all (valid_Venue Z) (venues r) \<and> venues r \<noteq> [], ''venues''),
      (list_all valid_FeeSchedule (fee_schedules r) \<and> fee_schedules r \<noteq> [], ''fee_schedules''),
      (list_all (valid_TradingSession Z) (trading_sessions r) \<and> trading_sessions r \<noteq> [], ''trading_sessions''),
      (list_all valid_InstrumentConstraint (instrument_constraints r) \<and> instrument_constraints r \<noteq> [],
       ''instrument_constraints''),
      (list_all valid_Instrument (instruments r) \<and> instruments r \<noteq> [], ''instruments''),
      (list_all valid_Account (accounts r), ''accounts'')]"

definition construct_InstrumentMasterSnapshot :: "zones \<Rightarrow> InstrumentMasterSnapshot \<Rightarrow> InstrumentMasterSnapshot result" where
  "construct_InstrumentMasterSnapshot Z r = bindE (checked (snapshot_fields Z r) r) validate_references"

definition valid_InstrumentMasterSnapshot :: "zones \<Rightarrow> InstrumentMasterSnapshot \<Rightarrow> bool" where
  "valid_InstrumentMasterSnapshot Z r \<longleftrightarrow> construct_InstrumentMasterSnapshot Z r = Inr r"

section \<open>Lemmas\<close>

lemma is_decimal_multiple_iff:
  assumes "0 < v" "is_decimal_multiple v inc = Inr ok" "0 < inc"
  shows "ok \<longleftrightarrow> (\<exists>k::int. dval v = of_int k * dval inc)"
proof -
  obtain r where r: "dmod v inc = Inr r" "ok = dec_eq r 0"
    using assms(2,3) by (auto simp: is_decimal_multiple_def)
  have "0 < dval v" "0 < dval inc" using assms(1,3) by (simp_all add: less_dval)
  from dmod_zero_iff [OF this r(1)] r(2) show ?thesis by (simp add: dec_eq_dval)
qed

text \<open>Windows in sorted order that pass the adjacent test are pairwise disjoint.\<close>

lemma windows_disjoint_later:
  assumes "windows_disjoint (p # ws)" "sorted (map (\<lambda>w. instant (fst w)) (p # ws))" "w \<in> set ws"
  shows "\<exists>e. snd p = Some e \<and> e \<le> fst w"
proof -
  obtain c rest where ws: "ws = c # rest" using assms(3) by (cases ws) auto
  obtain e where e: "snd p = Some e" "\<not> fst c < e"
    using assms(1) by (auto simp: ws split: option.splits)
  have "instant (fst c) \<le> instant (fst w)" using assms(2,3) by (auto simp: ws)
  with e show ?thesis by (auto simp: less_datetime_def less_eq_datetime_def)
qed

lemma windows_disjoint_tail: "windows_disjoint (p # ws) \<Longrightarrow> windows_disjoint ws"
  by (cases ws) auto

lemma windows_disjoint_at_most_one:
  assumes "windows_disjoint ws" "sorted (map (\<lambda>w. instant (fst w)) ws)"
  shows "length (filter (\<lambda>w. in_window (fst w) (snd w) t) ws) \<le> 1"
  using assms
proof (induction ws)
  case (Cons p ws)
  have IH: "length (filter (\<lambda>w. in_window (fst w) (snd w) t) ws) \<le> 1"
    using Cons windows_disjoint_tail by auto
  show ?case
  proof (cases "in_window (fst p) (snd p) t")
    case True
    have "\<not> in_window (fst w) (snd w) t" if w: "w \<in> set ws" for w
      using windows_disjoint_later [OF Cons.prems w] True
      by (auto simp: in_window_def less_datetime_def less_eq_datetime_def)
    then have "filter (\<lambda>w. in_window (fst w) (snd w) t) ws = []" by (simp add: filter_empty_conv)
    then show ?thesis by simp
  next
    case False
    with IH show ?thesis by simp
  qed
qed simp

lemma no_overlapping_at_most_one:
  assumes "no_overlapping_windows key ef et rs"
  shows "length (filter (\<lambda>r. key r = k \<and> in_window (ef r) (et r) t) rs) \<le> 1"
proof (cases "k \<in> key ` set rs")
  case True
  let ?rs = "sort_key (\<lambda>r. instant (ef r)) (filter (\<lambda>r. key r = k) rs)"
  let ?ws = "map (\<lambda>r. (ef r, et r)) ?rs"
  have "windows_disjoint ?ws"
    using assms True by (auto simp: no_overlapping_windows_def list_all_iff)
  moreover have "sorted (map (\<lambda>w. instant (fst w)) ?ws)" by (simp add: comp_def)
  ultimately have "length (filter (\<lambda>w. in_window (fst w) (snd w) t) ?ws) \<le> 1"
    by (rule windows_disjoint_at_most_one)
  moreover have "length (filter (\<lambda>w. in_window (fst w) (snd w) t) ?ws)
      = length (filter (\<lambda>r. in_window (ef r) (et r) t) ?rs)"
    by (simp add: filter_map comp_def)
  moreover have "mset (filter (\<lambda>r. in_window (ef r) (et r) t) ?rs)
      = mset (filter (\<lambda>r. key r = k \<and> in_window (ef r) (et r) t) rs)"
  proof -
    have "mset (filter (\<lambda>r. in_window (ef r) (et r) t) ?rs)
        = mset (filter (\<lambda>r. in_window (ef r) (et r) t) (filter (\<lambda>r. key r = k) rs))"
      by (simp only: mset_filter mset_sort)
    then show ?thesis by (simp only: filter_filter)
  qed
  then have "length (filter (\<lambda>r. in_window (ef r) (et r) t) ?rs)
      = length (filter (\<lambda>r. key r = k \<and> in_window (ef r) (et r) t) rs)"
    by (rule mset_eq_length)
  ultimately show ?thesis by simp
next
  case False
  then have "filter (\<lambda>r. key r = k \<and> in_window (ef r) (et r) t) rs = []"
    by (auto simp: filter_empty_conv)
  then show ?thesis by simp
qed

end
