(* ===== verification/Simulation.thy ===== *)
theory Simulation
  imports InstrumentMaster
begin

text \<open>
  The replay contracts of \<open>contracts/simulation.py\<close> and the bar of
  \<open>contracts/market_data.py\<close>: order intents, execution cost models, replay results and
  reports, with the field constraints and the \<open>after\<close> validators that constructing one
  runs, and the payloads their identifiers hash.  \<open>construct_X\<close> is the call \<open>X(...)\<close>:
  it strips strings, checks the field constraints, runs the validator in the source's order
  and returns the object, or raises.  Embedded models are validated, frozen objects, whose
  re-validation from their own dump gives them back; only the outer model is checked.
\<close>

section \<open>Enumerations\<close>

datatype OrderSide = BUY | SELL
datatype ReplayFillStatus = FILLED | PARTIALLY_FILLED | UNFILLED | REJECTED
datatype ReplayRejectReason =
    UNSUPPORTED_ORDER_TYPE | NO_FUTURE_ELIGIBLE_EVENT | INSUFFICIENT_LIQUIDITY | VENUE_NOT_TRADABLE
  | INSTRUMENT_NOT_TRADABLE | ACCOUNT_NOT_TRADABLE | CONSTRAINT_VIOLATION | INSUFFICIENT_CASH
  | INSUFFICIENT_INVENTORY
datatype QualityFlag = MISSING | LATE | ESTIMATED | DUPLICATE | OUTLIER | REPAIRED

primrec OrderSide_value :: "OrderSide \<Rightarrow> string" where
  "OrderSide_value BUY = ''buy''"
| "OrderSide_value SELL = ''sell''"

primrec ReplayFillStatus_value :: "ReplayFillStatus \<Rightarrow> string" where
  "ReplayFillStatus_value FILLED = ''filled''"
| "ReplayFillStatus_value PARTIALLY_FILLED = ''partially_filled''"
| "ReplayFillStatus_value UNFILLED = ''unfilled''"
| "ReplayFillStatus_value REJECTED = ''rejected''"

primrec ReplayRejectReason_value :: "ReplayRejectReason \<Rightarrow> string" where
  "ReplayRejectReason_value UNSUPPORTED_ORDER_TYPE = ''unsupported_order_type''"
| "ReplayRejectReason_value NO_FUTURE_ELIGIBLE_EVENT = ''no_future_eligible_event''"
| "ReplayRejectReason_value INSUFFICIENT_LIQUIDITY = ''insufficient_liquidity''"
| "ReplayRejectReason_value VENUE_NOT_TRADABLE = ''venue_not_tradable''"
| "ReplayRejectReason_value INSTRUMENT_NOT_TRADABLE = ''instrument_not_tradable''"
| "ReplayRejectReason_value ACCOUNT_NOT_TRADABLE = ''account_not_tradable''"
| "ReplayRejectReason_value CONSTRAINT_VIOLATION = ''constraint_violation''"
| "ReplayRejectReason_value INSUFFICIENT_CASH = ''insufficient_cash''"
| "ReplayRejectReason_value INSUFFICIENT_INVENTORY = ''insufficient_inventory''"

primrec QualityFlag_value :: "QualityFlag \<Rightarrow> string" where
  "QualityFlag_value MISSING = ''missing''"
| "QualityFlag_value LATE = ''late''"
| "QualityFlag_value ESTIMATED = ''estimated''"
| "QualityFlag_value DUPLICATE = ''duplicate''"
| "QualityFlag_value OUTLIER = ''outlier''"
| "QualityFlag_value REPAIRED = ''repaired''"

section \<open>Records\<close>

record OHLCTVBar =
  instrument_id :: string
  venue_id :: string
  timeframe :: string
  open_ts :: datetime
  close_ts :: datetime
  open_price :: decimal        \<comment> \<open>\<open>open\<close>\<close>
  high :: decimal
  low :: decimal
  close_price :: decimal       \<comment> \<open>\<open>close\<close>\<close>
  base_volume :: decimal
  quote_volume :: "decimal option"
  trade_count :: "int option"
  vwap :: "decimal option"
  source_ts :: datetime
  ingest_ts :: datetime
  quality_flags :: "QualityFlag list"
  raw_payload_id :: string

record SimulatedBalance =
  account_id :: string
  venue_id :: string
  asset_id :: string
  available :: decimal

record SimulatedAccountState =
  account_id :: string
  balances :: "SimulatedBalance list"

record ReplayRejectionCount =
  reason :: ReplayRejectReason
  count :: int

record ExecutionCostModel =
  cost_model_id :: string
  taker_fee_rate :: decimal
  spread_bps :: decimal
  slippage_bps :: decimal
  latency_bars :: int
  max_participation_rate :: decimal
  allow_partial_fills :: bool

record OrderIntent =
  client_order_id :: string
  trace_id :: string
  source_decision_id :: string
  instrument_id :: string
  venue_id :: string
  side :: OrderSide
  order_type :: OrderType
  quantity :: decimal
  submitted_at :: datetime
  limit_price :: "decimal option"

record ReplayOrderResult =
  replay_order_result_id :: string
  client_order_id :: string
  trace_id :: string
  source_decision_id :: string
  instrument_id :: string
  venue_id :: string
  side :: OrderSide
  order_type :: OrderType
  quantity :: decimal
  submitted_at :: datetime
  status :: ReplayFillStatus
  reason :: "ReplayRejectReason option"
  fill_price :: "decimal option"
  filled_quantity :: decimal
  remaining_quantity :: decimal
  fill_event_open_ts :: "datetime option"
  fill_event_close_ts :: "datetime option"
  fill_event_source_ts :: "datetime option"
  fill_raw_payload_id :: "string option"
  cost_model_id :: "string option"
  cost_model_hash :: "string option"
  latency_bars :: int
  eligible_event_index :: "int option"
  fill_attempt_event_index :: "int option"
  arrival_reference_price :: "decimal option"
  effective_fill_price :: "decimal option"
  reference_notional :: decimal
  effective_notional :: decimal
  fee_cost :: decimal
  spread_cost :: decimal
  slippage_cost :: decimal
  total_cost :: decimal

record ReplayReport =
  replay_report_id :: string
  replay_report_hash :: string
  run_id :: string
  market_data_hash :: string
  result_ids :: "string list"
  results :: "ReplayOrderResult list"
  requirement_ids :: "string list"
  rejection_counts :: "ReplayRejectionCount list"
  final_account_state :: "SimulatedAccountState option"

section \<open>Field constraints of the inputs\<close>

definition valid_OHLCTVBar :: "OHLCTVBar \<Rightarrow> bool" where
  "valid_OHLCTVBar b \<longleftrightarrow>
     canonical_id (OHLCTVBar.instrument_id b) \<and> canonical_id (OHLCTVBar.venue_id b) \<and>
     canonical_id (OHLCTVBar.raw_payload_id b) \<and>
     0 \<le> open_price b \<and> 0 \<le> high b \<and> 0 \<le> low b \<and> 0 \<le> close_price b \<and> 0 \<le> base_volume b \<and>
     opt_all (\<lambda>v. 0 \<le> v) (quote_volume b) \<and> opt_all (\<lambda>n. 0 \<le> n) (trade_count b) \<and>
     opt_all (\<lambda>v. 0 \<le> v) (vwap b) \<and>
     open_ts b < close_ts b \<and>
     open_price b \<le> high b \<and> low b \<le> high b \<and> close_price b \<le> high b \<and>
     low b \<le> open_price b \<and> low b \<le> close_price b \<and>
     opt_all (\<lambda>v. low b \<le> v \<and> v \<le> high b) (vwap b)"

text \<open>\<open>OrderIntent(...)\<close> with its validator \<open>order_type_fields_are_consistent\<close>.\<close>

definition construct_OrderIntent :: "OrderIntent \<Rightarrow> OrderIntent result" where
  "construct_OrderIntent i = checked
     [(canonical_id (OrderIntent.client_order_id i), ''client_order_id''),
      (canonical_id (OrderIntent.trace_id i), ''trace_id''),
      (canonical_id (OrderIntent.source_decision_id i), ''source_decision_id''),
      (canonical_id (OrderIntent.instrument_id i), ''instrument_id''),
      (canonical_id (OrderIntent.venue_id i), ''venue_id''),
      (0 < OrderIntent.quantity i, ''quantity''),
      (opt_all (\<lambda>p. 0 < p) (limit_price i), ''limit_price''),
      (OrderIntent.order_type i = MARKET \<longrightarrow> limit_price i = None,
        ''market orders must not set limit_price''),
      (OrderIntent.order_type i \<noteq> MARKET \<longrightarrow> limit_price i \<noteq> None,
        ''limit-style orders require limit_price'')] i"

definition valid_OrderIntent :: "OrderIntent \<Rightarrow> bool" where
  "valid_OrderIntent i \<longleftrightarrow> construct_OrderIntent i = Inr i"

definition construct_SimulatedAccountState :: "SimulatedAccountState \<Rightarrow> SimulatedAccountState result" where
  "construct_SimulatedAccountState a =
     bindE (mapE (\<lambda>b. checked
        [(canonical_id (SimulatedBalance.account_id b), ''account_id''),
         (canonical_id (SimulatedBalance.venue_id b), ''venue_id''),
         (canonical_id (asset_id b), ''asset_id''),
         (0 \<le> available b, ''available'')] b) (balances a))
     (\<lambda>bs. checked
        [(canonical_id (SimulatedAccountState.account_id a), ''account_id''),
         (list_all (\<lambda>b. SimulatedBalance.account_id b = SimulatedAccountState.account_id a) bs,
           ''balance account_id must match simulated account state''),
         (distinct (map (\<lambda>b. (SimulatedBalance.venue_id b, asset_id b)) bs),
           ''duplicate simulated balance for venue_id/asset_id'')] a)"

definition valid_account_state :: "SimulatedAccountState \<Rightarrow> bool" where
  "valid_account_state a \<longleftrightarrow> construct_SimulatedAccountState a = Inr a"

section \<open>Cost models\<close>

definition build_execution_cost_model_hash :: "digest \<Rightarrow> ExecutionCostModel \<Rightarrow> string" where
  "build_execution_cost_model_hash H m = H (PObj
     [(''allow_partial_fills'', PBool (allow_partial_fills m)),
      (''latency_bars'', PInt (ExecutionCostModel.latency_bars m)),
      (''max_participation_rate'', PDec (max_participation_rate m)),
      (''slippage_bps'', PDec (slippage_bps m)),
      (''spread_bps'', PDec (spread_bps m)),
      (''taker_fee_rate'', PDec (taker_fee_rate m))])"

definition build_execution_cost_model_id :: "digest \<Rightarrow> ExecutionCostModel \<Rightarrow> string" where
  "build_execution_cost_model_id H m =
     stable_id H ''COSTMODEL'' (PStr (build_execution_cost_model_hash H m))"

definition construct_ExecutionCostModel :: "digest \<Rightarrow> ExecutionCostModel \<Rightarrow> ExecutionCostModel result" where
  "construct_ExecutionCostModel H m = checked
     [(canonical_id (ExecutionCostModel.cost_model_id m), ''cost_model_id''),
      (0 \<le> taker_fee_rate m \<and> taker_fee_rate m \<le> Dec 5 (-2), ''taker_fee_rate''),
      (0 \<le> spread_bps m, ''spread_bps''),
      (0 \<le> slippage_bps m, ''slippage_bps''),
      (0 \<le> ExecutionCostModel.latency_bars m, ''latency_bars''),
      (0 < max_participation_rate m \<and> max_participation_rate m \<le> 1, ''max_participation_rate''),
      (spread_bps m + slippage_bps m < Dec 10000 0,
        ''spread_bps plus slippage_bps must be below 10000''),
      (ExecutionCostModel.cost_model_id m = build_execution_cost_model_id H m,
        ''cost_model_id is not deterministic'')] m"

definition valid_cost_model :: "digest \<Rightarrow> ExecutionCostModel \<Rightarrow> bool" where
  "valid_cost_model H m \<longleftrightarrow> construct_ExecutionCostModel H m = Inr m"

definition make_execution_cost_model ::
  "digest \<Rightarrow> decimal \<Rightarrow> decimal \<Rightarrow> decimal \<Rightarrow> int \<Rightarrow> decimal \<Rightarrow> bool \<Rightarrow> ExecutionCostModel result" where
  "make_execution_cost_model H fee spread slip latency participation partial =
     (let draft = \<lparr>ExecutionCostModel.cost_model_id = ''COSTMODEL:PLACEHOLDER'',
                   taker_fee_rate = fee, spread_bps = spread, slippage_bps = slip,
                   latency_bars = latency, max_participation_rate = participation,
                   allow_partial_fills = partial\<rparr>
      in construct_ExecutionCostModel H
           (draft\<lparr>ExecutionCostModel.cost_model_id := build_execution_cost_model_id H draft\<rparr>))"

section \<open>Replay results\<close>

definition opt_dec_eq :: "decimal option \<Rightarrow> decimal option \<Rightarrow> bool" where
  "opt_dec_eq x y \<longleftrightarrow> (case (x, y) of (None, None) \<Rightarrow> True | (Some a, Some b) \<Rightarrow> dec_eq a b | _ \<Rightarrow> False)"

definition build_replay_order_result_id :: "digest \<Rightarrow> ReplayOrderResult \<Rightarrow> string" where
  "build_replay_order_result_id H r = stable_id H ''REPLAYORDER'' (PObj
     [(''client_order_id'', PStr (ReplayOrderResult.client_order_id r)),
      (''fill_event_close_ts'', POpt PIso (fill_event_close_ts r)),
      (''fill_event_open_ts'', POpt PIso (fill_event_open_ts r)),
      (''fill_event_source_ts'', POpt PIso (fill_event_source_ts r)),
      (''fill_price'', POpt PDec (fill_price r)),
      (''arrival_reference_price'', POpt PDec (arrival_reference_price r)),
      (''cost_model_hash'', POpt PStr (cost_model_hash r)),
      (''cost_model_id'', POpt PStr (ReplayOrderResult.cost_model_id r)),
      (''effective_fill_price'', POpt PDec (effective_fill_price r)),
      (''effective_notional'', PDec (effective_notional r)),
      (''eligible_event_index'', POpt PInt (eligible_event_index r)),
      (''fee_cost'', PDec (fee_cost r)),
      (''fill_raw_payload_id'', POpt PStr (fill_raw_payload_id r)),
      (''fill_attempt_event_index'', POpt PInt (fill_attempt_event_index r)),
      (''filled_quantity'', PDec (filled_quantity r)),
      (''instrument_id'', PStr (ReplayOrderResult.instrument_id r)),
      (''latency_bars'', PInt (ReplayOrderResult.latency_bars r)),
      (''order_type'', PStr (OrderType_value (ReplayOrderResult.order_type r))),
      (''quantity'', PDec (ReplayOrderResult.quantity r)),
      (''reference_notional'', PDec (reference_notional r)),
      (''remaining_quantity'', PDec (remaining_quantity r)),
      (''reason'', POpt (\<lambda>x. PStr (ReplayRejectReason_value x)) (ReplayOrderResult.reason r)),
      (''side'', PStr (OrderSide_value (ReplayOrderResult.side r))),
      (''slippage_cost'', PDec (slippage_cost r)),
      (''source_decision_id'', PStr (ReplayOrderResult.source_decision_id r)),
      (''spread_cost'', PDec (spread_cost r)),
      (''status'', PStr (ReplayFillStatus_value (ReplayOrderResult.status r))),
      (''submitted_at'', PIso (ReplayOrderResult.submitted_at r)),
      (''total_cost'', PDec (total_cost r)),
      (''trace_id'', PStr (ReplayOrderResult.trace_id r)),
      (''venue_id'', PStr (ReplayOrderResult.venue_id r))])"

definition replay_result_fields :: "ReplayOrderResult \<Rightarrow> (bool \<times> string) list" where
  "replay_result_fields r =
     [(canonical_id (replay_order_result_id r), ''replay_order_result_id''),
      (canonical_id (ReplayOrderResult.client_order_id r), ''client_order_id''),
      (canonical_id (ReplayOrderResult.trace_id r), ''trace_id''),
      (canonical_id (ReplayOrderResult.source_decision_id r), ''source_decision_id''),
      (canonical_id (ReplayOrderResult.instrument_id r), ''instrument_id''),
      (canonical_id (ReplayOrderResult.venue_id r), ''venue_id''),
      (0 < ReplayOrderResult.quantity r, ''quantity''),
      (opt_all (\<lambda>p. 0 \<le> p) (fill_price r), ''fill_price''),
      (0 \<le> filled_quantity r, ''filled_quantity''),
      (0 \<le> remaining_quantity r, ''remaining_quantity''),
      (opt_all canonical_id (fill_raw_payload_id r), ''fill_raw_payload_id''),
      (opt_all canonical_id (ReplayOrderResult.cost_model_id r), ''cost_model_id''),
      (opt_all hex64 (cost_model_hash r), ''cost_model_hash''),
      (0 \<le> ReplayOrderResult.latency_bars r, ''latency_bars''),
      (opt_all (\<lambda>i. 0 \<le> i) (eligible_event_index r), ''eligible_event_index''),
      (opt_all (\<lambda>i. 0 \<le> i) (fill_attempt_event_index r), ''fill_attempt_event_index''),
      (opt_all (\<lambda>p. 0 \<le> p) (arrival_reference_price r), ''arrival_reference_price''),
      (opt_all (\<lambda>p. 0 \<le> p) (effective_fill_price r), ''effective_fill_price''),
      (0 \<le> reference_notional r, ''reference_notional''),
      (0 \<le> effective_notional r, ''effective_notional''),
      (0 \<le> fee_cost r, ''fee_cost''),
      (0 \<le> spread_cost r, ''spread_cost''),
      (0 \<le> slippage_cost r, ''slippage_cost''),
      (0 \<le> total_cost r, ''total_cost'')]"

definition replay_result_common :: "ReplayOrderResult \<Rightarrow> (bool \<times> string) list" where
  "replay_result_common r =
     [((ReplayOrderResult.cost_model_id r = None) = (cost_model_hash r = None),
        ''cost_model_id and cost_model_hash must be set together''),
      (dec_eq (total_cost r) (fee_cost r + spread_cost r + slippage_cost r),
        ''total_cost must equal fee_cost plus spread_cost plus slippage_cost''),
      (\<not> (0 < total_cost r \<and> (ReplayOrderResult.cost_model_id r = None \<or> cost_model_hash r = None)),
        ''positive execution costs require cost model identity''),
      (dec_eq (remaining_quantity r) (ReplayOrderResult.quantity r - filled_quantity r),
        ''remaining_quantity must equal quantity minus filled_quantity'')]"

definition replay_result_filled :: "ReplayOrderResult \<Rightarrow> (bool \<times> string) list" where
  "replay_result_filled r =
     [(ReplayOrderResult.reason r = None, ''filled replay result must not set reason''),
      (case fill_price r of None \<Rightarrow> False | Some p \<Rightarrow> 0 < p,
        ''filled replay result requires positive fill_price''),
      (ReplayOrderResult.status r = FILLED \<longrightarrow> dec_eq (filled_quantity r) (ReplayOrderResult.quantity r),
        ''filled replay result must fill full market quantity''),
      (ReplayOrderResult.status r = PARTIALLY_FILLED \<longrightarrow>
         0 < filled_quantity r \<and> filled_quantity r < ReplayOrderResult.quantity r,
        ''partially filled replay result requires partial quantity''),
      (fill_event_open_ts r \<noteq> None \<and> fill_event_close_ts r \<noteq> None \<and> fill_event_source_ts r \<noteq> None
         \<and> fill_raw_payload_id r \<noteq> None, ''filled replay result requires fill event lineage''),
      (arrival_reference_price r \<noteq> None \<and> effective_fill_price r \<noteq> None,
        ''filled replay result requires price attribution''),
      (opt_dec_eq (effective_fill_price r) (fill_price r),
        ''effective_fill_price must match fill_price when present''),
      (opt_all (\<lambda>p. dec_eq (reference_notional r) (p * filled_quantity r)) (arrival_reference_price r),
        ''reference_notional must match arrival price times fill quantity''),
      (opt_all (\<lambda>p. dec_eq (effective_notional r) (p * filled_quantity r)) (effective_fill_price r),
        ''effective_notional must match effective price times fill quantity'')]"

definition replay_result_unfilled :: "ReplayOrderResult \<Rightarrow> (bool \<times> string) list" where
  "replay_result_unfilled r =
     [(ReplayOrderResult.reason r \<noteq> None, ''unfilled/rejected replay result requires reason''),
      (fill_price r = None \<and> dec_eq (filled_quantity r) 0,
        ''unfilled/rejected replay result must not carry a fill''),
      (fill_event_open_ts r = None \<and> fill_event_close_ts r = None \<and> fill_event_source_ts r = None
         \<and> fill_raw_payload_id r = None \<and> arrival_reference_price r = None
         \<and> effective_fill_price r = None \<and> dec_eq (reference_notional r) 0
         \<and> dec_eq (effective_notional r) 0 \<and> dec_eq (fee_cost r) 0 \<and> dec_eq (spread_cost r) 0
         \<and> dec_eq (slippage_cost r) 0 \<and> dec_eq (total_cost r) 0,
        ''unfilled/rejected replay result must not carry attribution''),
      (dec_eq (remaining_quantity r) (ReplayOrderResult.quantity r),
        ''unfilled/rejected replay result must leave full quantity remaining'')]"

definition construct_ReplayOrderResult :: "digest \<Rightarrow> ReplayOrderResult \<Rightarrow> ReplayOrderResult result" where
  "construct_ReplayOrderResult H r = checked
     (replay_result_fields r @ replay_result_common r
      @ (if ReplayOrderResult.status r \<in> {FILLED, PARTIALLY_FILLED} then replay_result_filled r
         else replay_result_unfilled r)
      @ [(replay_order_result_id r = build_replay_order_result_id H r,
           ''replay_order_result_id is not deterministic'')]) r"

definition valid_replay_result :: "digest \<Rightarrow> ReplayOrderResult \<Rightarrow> bool" where
  "valid_replay_result H r \<longleftrightarrow> construct_ReplayOrderResult H r = Inr r"

text \<open>\<open>ReplayOrderResult(**draft, replay_order_result_id=build_...(draft))\<close>.\<close>

definition finish_replay_result :: "digest \<Rightarrow> ReplayOrderResult \<Rightarrow> ReplayOrderResult result" where
  "finish_replay_result H draft = construct_ReplayOrderResult H
     (draft\<lparr>replay_order_result_id := build_replay_order_result_id H draft\<rparr>)"

section \<open>Replay reports\<close>

definition build_rejection_counts :: "ReplayOrderResult list \<Rightarrow> ReplayRejectionCount list" where
  "build_rejection_counts rs =
     map (\<lambda>(r, n). \<lparr>ReplayRejectionCount.reason = r, count = n\<rparr>)
       (sort_key (\<lambda>p. ReplayRejectReason_value (fst p))
         (tally (List.map_filter ReplayOrderResult.reason rs)))"

definition balance_json :: "SimulatedBalance \<Rightarrow> payload" where
  "balance_json b = PObj
     [(''account_id'', PStr (SimulatedBalance.account_id b)),
      (''venue_id'', PStr (SimulatedBalance.venue_id b)),
      (''asset_id'', PStr (asset_id b)), (''available'', PDec (available b))]"

definition account_state_json :: "SimulatedAccountState \<Rightarrow> payload" where
  "account_state_json a = PObj
     [(''account_id'', PStr (SimulatedAccountState.account_id a)),
      (''balances'', PList (map balance_json (balances a)))]"

definition rejection_count_json :: "ReplayRejectionCount \<Rightarrow> payload" where
  "rejection_count_json c = PObj
     [(''reason'', PStr (ReplayRejectReason_value (ReplayRejectionCount.reason c))),
      (''count'', PInt (count c))]"

definition replay_result_json :: "ReplayOrderResult \<Rightarrow> payload" where
  "replay_result_json r = PObj
     [(''replay_order_result_id'', PStr (replay_order_result_id r)),
      (''client_order_id'', PStr (ReplayOrderResult.client_order_id r)),
      (''trace_id'', PStr (ReplayOrderResult.trace_id r)),
      (''source_decision_id'', PStr (ReplayOrderResult.source_decision_id r)),
      (''instrument_id'', PStr (ReplayOrderResult.instrument_id r)),
      (''venue_id'', PStr (ReplayOrderResult.venue_id r)),
      (''side'', PStr (OrderSide_value (ReplayOrderResult.side r))),
      (''order_type'', PStr (OrderType_value (ReplayOrderResult.order_type r))),
      (''quantity'', PDec (ReplayOrderResult.quantity r)),
      (''submitted_at'', PJsonTime (ReplayOrderResult.submitted_at r)),
      (''status'', PStr (ReplayFillStatus_value (ReplayOrderResult.status r))),
      (''reason'', POpt (\<lambda>x. PStr (ReplayRejectReason_value x)) (ReplayOrderResult.reason r)),
      (''fill_price'', POpt PDec (fill_price r)),
      (''filled_quantity'', PDec (filled_quantity r)),
      (''remaining_quantity'', PDec (remaining_quantity r)),
      (''fill_event_open_ts'', POpt PJsonTime (fill_event_open_ts r)),
      (''fill_event_close_ts'', POpt PJsonTime (fill_event_close_ts r)),
      (''fill_event_source_ts'', POpt PJsonTime (fill_event_source_ts r)),
      (''fill_raw_payload_id'', POpt PStr (fill_raw_payload_id r)),
      (''cost_model_id'', POpt PStr (ReplayOrderResult.cost_model_id r)),
      (''cost_model_hash'', POpt PStr (cost_model_hash r)),
      (''latency_bars'', PInt (ReplayOrderResult.latency_bars r)),
      (''eligible_event_index'', POpt PInt (eligible_event_index r)),
      (''fill_attempt_event_index'', POpt PInt (fill_attempt_event_index r)),
      (''arrival_reference_price'', POpt PDec (arrival_reference_price r)),
      (''effective_fill_price'', POpt PDec (effective_fill_price r)),
      (''reference_notional'', PDec (reference_notional r)),
      (''effective_notional'', PDec (effective_notional r)),
      (''fee_cost'', PDec (fee_cost r)), (''spread_cost'', PDec (spread_cost r)),
      (''slippage_cost'', PDec (slippage_cost r)), (''total_cost'', PDec (total_cost r))]"

definition build_replay_report_hash :: "digest \<Rightarrow> string \<Rightarrow> string \<Rightarrow> ReplayOrderResult list \<Rightarrow>
    string list \<Rightarrow> ReplayRejectionCount list \<Rightarrow> SimulatedAccountState option \<Rightarrow> string" where
  "build_replay_report_hash H run mdh rs reqs counts final = H (PObj
     [(''final_account_state'', POpt account_state_json final),
      (''market_data_hash'', PStr mdh),
      (''rejection_counts'', PList (map rejection_count_json counts)),
      (''requirement_ids'', PStrs reqs),
      (''results'', PList (map replay_result_json rs)),
      (''run_id'', PStr run)])"

definition build_replay_report_id :: "digest \<Rightarrow> string \<Rightarrow> string" where
  "build_replay_report_id H h = stable_id H ''REPLAYREPORT'' (PObj [(''replay_report_hash'', PStr h)])"

definition construct_ReplayReport :: "digest \<Rightarrow> ReplayReport \<Rightarrow> ReplayReport result" where
  "construct_ReplayReport H r =
     (let expected = build_replay_report_hash H (ReplayReport.run_id r) (market_data_hash r)
            (results r) (ReplayReport.requirement_ids r) (rejection_counts r) (final_account_state r)
      in checked
     [(canonical_id (replay_report_id r), ''replay_report_id''),
      (hex64 (replay_report_hash r), ''replay_report_hash''),
      (canonical_id (ReplayReport.run_id r), ''run_id''),
      (hex64 (market_data_hash r), ''market_data_hash''),
      (list_all canonical_id (result_ids r), ''result_ids''),
      (list_all non_empty_string (ReplayReport.requirement_ids r), ''requirement_ids''),
      (result_ids r = map replay_order_result_id (results r), ''result_ids must match results''),
      (rejection_counts r = build_rejection_counts (results r),
        ''rejection_counts must match result reasons''),
      (replay_report_hash r = expected, ''replay_report_hash is not deterministic''),
      (replay_report_id r = build_replay_report_id H (replay_report_hash r),
        ''replay_report_id is not deterministic'')] r)"

end
