(* ===== verification/Streaming.thy ===== *)
theory Streaming
  imports Simulation
begin

text \<open>
  The streaming contracts of \<open>contracts/streaming.py\<close>: the approval a source needs before
  a subscription may stream, the event envelopes with their field constraints and crossed-price
  validators, and the heartbeat policy.  A \<open>timedelta\<close> is its number of microseconds.
  \<open>RetryBackoffPolicy.delay_for_attempt\<close> computes with binary floats and is not modelled;
  the policy's field constraints are.
\<close>

section \<open>Enumerations\<close>

datatype TradeSide = BUYER | SELLER
datatype LicenseReviewStatus =
    NOT_STARTED | IN_REVIEW | APPROVED | APPROVED_WITH_RESTRICTIONS | BLOCKED | EXPIRED
datatype ApprovedUseStatus =
    BLOCKED_PENDING_REVIEW | EXPLORATION_ONLY | RESEARCH_APPROVED | BACKTEST_APPROVED
  | PAPER_APPROVED | BLOCKED
datatype ProductionUseStatus =
    NOT_APPROVED_FOR_PRODUCTION | PAPER_ONLY | APPROVED_WITH_RESTRICTIONS | PRODUCTION_APPROVED
  | BLOCKED
datatype StreamChannel = TRADES | QUOTES | ORDER_BOOK
datatype StreamEventType = TRADE | QUOTE | ORDER_BOOK | HEARTBEAT | LIFECYCLE
datatype ConnectorStatus =
    DISCONNECTED | CONNECTING | CONNECTED | RECONNECTING | SOURCE_BLOCKED | FAILED | CLOSED
datatype HeartbeatStatus = OBSERVED | MISSED
datatype DisconnectReason =
    HEARTBEAT_MISSED | SOURCE_BLOCKED | TRANSPORT_CLOSED | RETRY_EXHAUSTED | OPERATOR_REQUEST
  | FIXTURE_COMPLETE
datatype StreamQualityFlag = GAP | STALE | DUPLICATE | CROSSED | REPAIRED | LATE | ESTIMATED

primrec StreamChannel_value :: "StreamChannel \<Rightarrow> string" where
  "StreamChannel_value TRADES = ''trades''"
| "StreamChannel_value QUOTES = ''quotes''"
| "StreamChannel_value StreamChannel.ORDER_BOOK = ''order_book''"

primrec StreamEventType_value :: "StreamEventType \<Rightarrow> string" where
  "StreamEventType_value TRADE = ''trade''"
| "StreamEventType_value QUOTE = ''quote''"
| "StreamEventType_value StreamEventType.ORDER_BOOK = ''order_book''"
| "StreamEventType_value HEARTBEAT = ''heartbeat''"
| "StreamEventType_value LIFECYCLE = ''lifecycle''"

section \<open>Source approval\<close>

text \<open>\<open>SourceId\<close>: pattern \<open>^[A-Za-z0-9][A-Za-z0-9._:-]*$\<close>, at most 128 characters.\<close>

definition lower_char :: "char \<Rightarrow> bool" where
  "lower_char c \<longleftrightarrow> c \<in> set ''abcdefghijklmnopqrstuvwxyz''"

definition source_id_ok :: "string \<Rightarrow> bool" where
  "source_id_ok s \<longleftrightarrow>
     (case s of [] \<Rightarrow> False
      | c # cs \<Rightarrow> (upper_char c \<or> lower_char c \<or> digit_char c) \<and> length s \<le> 128 \<and>
          list_all (\<lambda>d. upper_char d \<or> lower_char d \<or> digit_char d \<or> d \<in> set ''._:-'') cs)"

record StreamSubscription =
  subscription_id :: string
  source_id :: string
  venue_id :: string
  instrument_ids :: "string list"
  channels :: "StreamChannel list"
  requested_at :: datetime
  synthetic_only :: bool

definition construct_StreamSubscription :: "StreamSubscription \<Rightarrow> StreamSubscription result" where
  "construct_StreamSubscription s = checked
     [(canonical_id (StreamSubscription.subscription_id s), ''subscription_id''),
      (source_id_ok (StreamSubscription.source_id s), ''source_id''),
      (canonical_id (StreamSubscription.venue_id s), ''venue_id''),
      (list_all canonical_id (instrument_ids s), ''instrument_ids''),
      (instrument_ids s \<noteq> [], ''at least one instrument_id is required''),
      (channels s \<noteq> [], ''at least one stream channel is required'')] s"

record StreamingSourceApproval =
  source_id :: string
  license_review_status :: LicenseReviewStatus
  approved_use_status :: ApprovedUseStatus
  production_use_status :: ProductionUseStatus
  fixture_only :: bool
  evidence_link :: "string option"
  approved_by :: "string option"
  decision_notes :: "string option"
  checked_at :: datetime

definition permits_subscription :: "StreamingSourceApproval \<Rightarrow> StreamSubscription \<Rightarrow> bool" where
  "permits_subscription a s =
     (if StreamingSourceApproval.source_id a \<noteq> StreamSubscription.source_id s then False
      else if synthetic_only s then fixture_only a
      else \<not> fixture_only a
        \<and> license_review_status a
            \<in> {LicenseReviewStatus.APPROVED, LicenseReviewStatus.APPROVED_WITH_RESTRICTIONS}
        \<and> approved_use_status a = PAPER_APPROVED
        \<and> production_use_status a
            \<in> {PAPER_ONLY, ProductionUseStatus.APPROVED_WITH_RESTRICTIONS, PRODUCTION_APPROVED}
        \<and> evidence_link a \<noteq> None
        \<and> approved_by a \<noteq> None)"

section \<open>Event envelopes\<close>

record StreamEnvelopeBase =
  subscription_id :: string
  source_id :: string
  venue_id :: string
  event_ts :: datetime
  source_ts :: "datetime option"
  ingest_ts :: datetime
  raw_payload_id :: string

record TradeEvent = StreamEnvelopeBase +
  trade_id :: string
  instrument_id :: string
  price :: decimal
  quantity :: decimal
  side :: "TradeSide option"
  sequence :: "int option"

record QuoteEvent = StreamEnvelopeBase +
  quote_id :: string
  instrument_id :: string
  best_bid :: decimal
  best_ask :: decimal
  sequence :: "int option"
  quality_flags :: "StreamQualityFlag list"

record BookLevel =
  price :: decimal
  quantity :: decimal

record OrderBookEvent = StreamEnvelopeBase +
  book_event_id :: string
  instrument_id :: string
  sequence :: "int option"
  is_snapshot :: bool
  bids :: "BookLevel list"
  asks :: "BookLevel list"
  best_bid :: "decimal option"
  best_ask :: "decimal option"
  quality_flags :: "StreamQualityFlag list"

record HeartbeatEvent = StreamEnvelopeBase +
  status :: HeartbeatStatus
  last_observed_ts :: "datetime option"
  timeout :: int

record LifecycleEvent = StreamEnvelopeBase +
  status :: ConnectorStatus
  reason :: "DisconnectReason option"
  attempt :: int

text \<open>The union of the envelope families, tagged with the class of the event.\<close>

datatype StreamEvent =
    Trade TradeEvent
  | Quote QuoteEvent
  | OrderBook OrderBookEvent
  | Heartbeat HeartbeatEvent
  | Lifecycle LifecycleEvent

definition envelope_fields :: "'a StreamEnvelopeBase_scheme \<Rightarrow> (bool \<times> string) list" where
  "envelope_fields e =
     [(canonical_id (StreamEnvelopeBase.subscription_id e), ''subscription_id''),
      (source_id_ok (StreamEnvelopeBase.source_id e), ''source_id''),
      (canonical_id (StreamEnvelopeBase.venue_id e), ''venue_id''),
      (non_empty_string (raw_payload_id e), ''raw_payload_id'')]"

definition sequence_field :: "int option \<Rightarrow> bool \<times> string" where
  "sequence_field n = (opt_all (\<lambda>k. 0 \<le> k) n, ''sequence'')"

definition construct_TradeEvent :: "TradeEvent \<Rightarrow> TradeEvent result" where
  "construct_TradeEvent e = checked (envelope_fields e @
     [(non_empty_string (trade_id e), ''trade_id''),
      (canonical_id (TradeEvent.instrument_id e), ''instrument_id''),
      (0 < TradeEvent.price e, ''price''),
      (0 < TradeEvent.quantity e, ''quantity''),
      sequence_field (TradeEvent.sequence e)]) e"

definition construct_QuoteEvent :: "QuoteEvent \<Rightarrow> QuoteEvent result" where
  "construct_QuoteEvent e = checked (envelope_fields e @
     [(non_empty_string (quote_id e), ''quote_id''),
      (canonical_id (QuoteEvent.instrument_id e), ''instrument_id''),
      (0 \<le> QuoteEvent.best_bid e, ''best_bid''),
      (0 \<le> QuoteEvent.best_ask e, ''best_ask''),
      sequence_field (QuoteEvent.sequence e),
      (QuoteEvent.best_ask e < QuoteEvent.best_bid e \<longrightarrow> CROSSED \<in> set (QuoteEvent.quality_flags e),
        ''crossed quote requires crossed quality flag'')]) e"

definition valid_BookLevel :: "BookLevel \<Rightarrow> bool" where
  "valid_BookLevel l \<longleftrightarrow> 0 < BookLevel.price l \<and> 0 \<le> BookLevel.quantity l"

definition construct_OrderBookEvent :: "OrderBookEvent \<Rightarrow> OrderBookEvent result" where
  "construct_OrderBookEvent e = checked (envelope_fields e @
     [(non_empty_string (book_event_id e), ''book_event_id''),
      (canonical_id (OrderBookEvent.instrument_id e), ''instrument_id''),
      sequence_field (OrderBookEvent.sequence e),
      (list_all valid_BookLevel (bids e), ''bids''),
      (list_all valid_BookLevel (asks e), ''asks''),
      (opt_all (\<lambda>p. 0 \<le> p) (OrderBookEvent.best_bid e), ''best_bid''),
      (opt_all (\<lambda>p. 0 \<le> p) (OrderBookEvent.best_ask e), ''best_ask''),
      (opt_all (\<lambda>b. opt_all (\<lambda>a. a < b \<longrightarrow> CROSSED \<in> set (OrderBookEvent.quality_flags e))
                      (OrderBookEvent.best_ask e)) (OrderBookEvent.best_bid e),
        ''crossed book requires crossed quality flag'')]) e"

definition construct_HeartbeatEvent :: "HeartbeatEvent \<Rightarrow> HeartbeatEvent result" where
  "construct_HeartbeatEvent e = checked (envelope_fields e @ [(0 < timeout e, ''timeout'')]) e"

definition construct_LifecycleEvent :: "LifecycleEvent \<Rightarrow> LifecycleEvent result" where
  "construct_LifecycleEvent e = checked (envelope_fields e @ [(0 \<le> attempt e, ''attempt'')]) e"

primrec valid_StreamEvent :: "StreamEvent \<Rightarrow> bool" where
  "valid_StreamEvent (Trade e) \<longleftrightarrow> construct_TradeEvent e = Inr e"
| "valid_StreamEvent (Quote e) \<longleftrightarrow> construct_QuoteEvent e = Inr e"
| "valid_StreamEvent (OrderBook e) \<longleftrightarrow> construct_OrderBookEvent e = Inr e"
| "valid_StreamEvent (Heartbeat e) \<longleftrightarrow> construct_HeartbeatEvent e = Inr e"
| "valid_StreamEvent (Lifecycle e) \<longleftrightarrow> construct_LifecycleEvent e = Inr e"

text \<open>The envelope fields of any event, and its constant \<open>event_type\<close>.\<close>

primrec envelope :: "StreamEvent \<Rightarrow> StreamEnvelopeBase" where
  "envelope (Trade e) = StreamEnvelopeBase.truncate e"
| "envelope (Quote e) = StreamEnvelopeBase.truncate e"
| "envelope (OrderBook e) = StreamEnvelopeBase.truncate e"
| "envelope (Heartbeat e) = StreamEnvelopeBase.truncate e"
| "envelope (Lifecycle e) = StreamEnvelopeBase.truncate e"

primrec event_type :: "StreamEvent \<Rightarrow> StreamEventType" where
  "event_type (Trade e) = TRADE"
| "event_type (Quote e) = QUOTE"
| "event_type (OrderBook e) = StreamEventType.ORDER_BOOK"
| "event_type (Heartbeat e) = HEARTBEAT"
| "event_type (Lifecycle e) = LIFECYCLE"

lemma valid_envelope: "valid_StreamEvent e \<Longrightarrow> list_all fst (envelope_fields (envelope e))"
  by (cases e) (auto simp: construct_TradeEvent_def construct_QuoteEvent_def construct_OrderBookEvent_def
      construct_HeartbeatEvent_def construct_LifecycleEvent_def envelope_fields_def
      StreamEnvelopeBase.truncate_def)

section \<open>Heartbeat policy\<close>

record HeartbeatPolicy =
  interval :: int
  timeout :: int

definition construct_HeartbeatPolicy :: "HeartbeatPolicy \<Rightarrow> HeartbeatPolicy result" where
  "construct_HeartbeatPolicy p = checked
     [(0 < interval p, ''interval''), (0 < HeartbeatPolicy.timeout p, ''timeout''),
      (interval p \<le> HeartbeatPolicy.timeout p, ''timeout must be >= interval'')] p"

definition status_at :: "HeartbeatPolicy \<Rightarrow> datetime \<Rightarrow> datetime option \<Rightarrow> HeartbeatStatus" where
  "status_at p now last_observed =
     (case last_observed of None \<Rightarrow> MISSED
      | Some t \<Rightarrow> if HeartbeatPolicy.timeout p < dt_diff now t then MISSED else OBSERVED)"

end
