(* ===== verification/StreamHealth.thy ===== *)
theory StreamHealth
  imports Streaming
begin

text \<open>
  The stream-health evaluator and the data-health gate of \<open>contracts/stream_health.py\<close>.
  The evaluator keeps, per scope key, the greatest sequence number and the event ids and
  sequence numbers it has seen; \<open>evaluate\<close> returns the record for one event with the
  updated state.  The gate turns a record into the scoped signal the risk engine reads.
\<close>

section \<open>Enumerations and records\<close>

datatype StreamHealthStatus = HEALTHY | DEGRADED
datatype DataHealthStatus = HEALTHY | DEGRADED | BLOCKED
datatype DataHealthReasonCode =
    STREAM_HEALTHY | CRITICAL_FRESHNESS_STALE | CRITICAL_STREAM_HEALTH_BREACH
  | NON_CRITICAL_STREAM_DEGRADED
datatype StreamHealthCheck = FRESHNESS | SEQUENCE_GAP | DUPLICATE | TIMESTAMP_DRIFT
datatype StreamHealthMetricName =
    FRESHNESS_AGE_SECONDS | STALE_EVENT | SEQUENCE_GAP_SIZE | DUPLICATE_EVENT
  | TIMESTAMP_DRIFT_SECONDS

primrec StreamHealthStatus_value :: "StreamHealthStatus \<Rightarrow> string" where
  "StreamHealthStatus_value StreamHealthStatus.HEALTHY = ''healthy''"
| "StreamHealthStatus_value StreamHealthStatus.DEGRADED = ''degraded''"

primrec DataHealthStatus_value :: "DataHealthStatus \<Rightarrow> string" where
  "DataHealthStatus_value DataHealthStatus.HEALTHY = ''healthy''"
| "DataHealthStatus_value DataHealthStatus.DEGRADED = ''degraded''"
| "DataHealthStatus_value DataHealthStatus.BLOCKED = ''blocked''"

primrec DataHealthReasonCode_value :: "DataHealthReasonCode \<Rightarrow> string" where
  "DataHealthReasonCode_value STREAM_HEALTHY = ''stream_healthy''"
| "DataHealthReasonCode_value CRITICAL_FRESHNESS_STALE = ''critical_freshness_stale''"
| "DataHealthReasonCode_value CRITICAL_STREAM_HEALTH_BREACH = ''critical_stream_health_breach''"
| "DataHealthReasonCode_value NON_CRITICAL_STREAM_DEGRADED = ''non_critical_stream_degraded''"

primrec StreamHealthCheck_value :: "StreamHealthCheck \<Rightarrow> string" where
  "StreamHealthCheck_value FRESHNESS = ''freshness''"
| "StreamHealthCheck_value SEQUENCE_GAP = ''sequence_gap''"
| "StreamHealthCheck_value StreamHealthCheck.DUPLICATE = ''duplicate''"
| "StreamHealthCheck_value TIMESTAMP_DRIFT = ''timestamp_drift''"

primrec StreamHealthMetricName_value :: "StreamHealthMetricName \<Rightarrow> string" where
  "StreamHealthMetricName_value FRESHNESS_AGE_SECONDS = ''stream.freshness.age_seconds''"
| "StreamHealthMetricName_value STALE_EVENT = ''stream.freshness.stale_event''"
| "StreamHealthMetricName_value SEQUENCE_GAP_SIZE = ''stream.sequence.gap_size''"
| "StreamHealthMetricName_value DUPLICATE_EVENT = ''stream.duplicate.event''"
| "StreamHealthMetricName_value TIMESTAMP_DRIFT_SECONDS = ''stream.timestamp.drift_seconds''"

record StreamHealthPolicy =
  max_event_age :: int
  max_timestamp_drift :: int

text \<open>The field \<open>channel\<close> is a \<open>StreamChannel\<close> or a \<open>StreamEventType\<close>.\<close>

datatype scope_channel = Channel StreamChannel | EventType StreamEventType

primrec scope_channel_value :: "scope_channel \<Rightarrow> string" where
  "scope_channel_value (Channel c) = StreamChannel_value c"
| "scope_channel_value (EventType t) = StreamEventType_value t"

record StreamHealthScope =
  subscription_id :: string
  source_id :: string
  venue_id :: string
  channel :: scope_channel
  instrument_id :: "string option"

type_synonym scope_key = "string \<times> string \<times> string \<times> string \<times> string option"

definition StreamHealthScope_key :: "StreamHealthScope \<Rightarrow> scope_key" where
  "StreamHealthScope_key s =
     (StreamHealthScope.subscription_id s, StreamHealthScope.source_id s,
      StreamHealthScope.venue_id s, scope_channel_value (channel s),
      StreamHealthScope.instrument_id s)"

record StreamHealthMetric =
  name :: StreamHealthMetricName
  metric_value :: decimal       \<comment> \<open>\<open>value\<close>\<close>
  threshold :: "decimal option"
  breached :: bool
  check :: StreamHealthCheck
  scope :: StreamHealthScope
  evaluation_ts :: datetime

record StreamHealthIssue =
  check :: StreamHealthCheck
  metric_name :: StreamHealthMetricName
  observed_value :: decimal
  threshold :: "decimal option"
  description :: string

record StreamHealthRecord =
  event_type :: StreamEventType
  event_id :: string
  sequence :: "int option"
  scope :: StreamHealthScope
  evaluation_ts :: datetime
  event_ts :: datetime
  source_ts :: "datetime option"
  status :: StreamHealthStatus
  metrics :: "StreamHealthMetric list"
  issues :: "StreamHealthIssue list"

record DataHealthSignal =
  signal_id :: string
  status :: DataHealthStatus
  reason_codes :: "DataHealthReasonCode list"
  blocks_trading :: bool
  blocked_instrument_id :: "string option"
  source_health_event_id :: string
  source_health_status :: StreamHealthStatus
  source_scope :: StreamHealthScope
  source_checks :: "StreamHealthCheck list"
  source_metric_names :: "StreamHealthMetricName list"
  evaluation_ts :: datetime

definition construct_StreamHealthScope :: "StreamHealthScope \<Rightarrow> StreamHealthScope result" where
  "construct_StreamHealthScope s = checked
     [(canonical_id (StreamHealthScope.subscription_id s), ''subscription_id''),
      (source_id_ok (StreamHealthScope.source_id s), ''source_id''),
      (canonical_id (StreamHealthScope.venue_id s), ''venue_id''),
      (opt_all canonical_id (StreamHealthScope.instrument_id s), ''instrument_id'')] s"

definition construct_StreamHealthMetric :: "StreamHealthMetric \<Rightarrow> StreamHealthMetric result" where
  "construct_StreamHealthMetric m = checked
     [(0 \<le> metric_value m, ''value''),
      (opt_all (\<lambda>t. 0 \<le> t) (StreamHealthMetric.threshold m), ''threshold'')] m"

definition construct_StreamHealthIssue :: "StreamHealthIssue \<Rightarrow> StreamHealthIssue result" where
  "construct_StreamHealthIssue i = checked
     [(0 \<le> observed_value i, ''observed_value''),
      (opt_all (\<lambda>t. 0 \<le> t) (StreamHealthIssue.threshold i), ''threshold''),
      (non_empty_string (description i), ''description'')] i"

definition construct_StreamHealthRecord :: "StreamHealthRecord \<Rightarrow> StreamHealthRecord result" where
  "construct_StreamHealthRecord r = checked
     [(non_empty_string (event_id r), ''event_id''),
      (\<not> (StreamHealthRecord.status r = StreamHealthStatus.DEGRADED \<and> issues r = []),
        ''degraded stream health record requires at least one issue'')] r"

definition construct_DataHealthSignal :: "DataHealthSignal \<Rightarrow> DataHealthSignal result" where
  "construct_DataHealthSignal s = checked
     [(non_empty_string (signal_id s), ''signal_id''),
      (opt_all canonical_id (blocked_instrument_id s), ''blocked_instrument_id''),
      (non_empty_string (source_health_event_id s), ''source_health_event_id''),
      (\<not> (DataHealthSignal.status s = DataHealthStatus.BLOCKED \<and> \<not> blocks_trading s),
        ''blocked data-health signal must set blocks_trading''),
      (\<not> (blocks_trading s \<and> DataHealthSignal.status s \<noteq> DataHealthStatus.BLOCKED),
        ''only blocked data-health signals may set blocks_trading'')] s"

section \<open>The evaluator\<close>

text \<open>The scope \<open>_scope_for\<close> builds, before and after its field checks.\<close>

primrec event_scope :: "StreamEvent \<Rightarrow> StreamHealthScope" where
  "event_scope (Trade e) =
     \<lparr>StreamHealthScope.subscription_id = StreamEnvelopeBase.subscription_id e,
      source_id = StreamEnvelopeBase.source_id e, venue_id = StreamEnvelopeBase.venue_id e,
      channel = Channel TRADES, instrument_id = Some (TradeEvent.instrument_id e)\<rparr>"
| "event_scope (Quote e) =
     \<lparr>StreamHealthScope.subscription_id = StreamEnvelopeBase.subscription_id e,
      source_id = StreamEnvelopeBase.source_id e, venue_id = StreamEnvelopeBase.venue_id e,
      channel = Channel QUOTES, instrument_id = Some (QuoteEvent.instrument_id e)\<rparr>"
| "event_scope (OrderBook e) =
     \<lparr>StreamHealthScope.subscription_id = StreamEnvelopeBase.subscription_id e,
      source_id = StreamEnvelopeBase.source_id e, venue_id = StreamEnvelopeBase.venue_id e,
      channel = Channel StreamChannel.ORDER_BOOK, instrument_id = Some (OrderBookEvent.instrument_id e)\<rparr>"
| "event_scope (Heartbeat e) =
     \<lparr>StreamHealthScope.subscription_id = StreamEnvelopeBase.subscription_id e,
      source_id = StreamEnvelopeBase.source_id e, venue_id = StreamEnvelopeBase.venue_id e,
      channel = EventType HEARTBEAT, instrument_id = None\<rparr>"
| "event_scope (Lifecycle e) =
     \<lparr>StreamHealthScope.subscription_id = StreamEnvelopeBase.subscription_id e,
      source_id = StreamEnvelopeBase.source_id e, venue_id = StreamEnvelopeBase.venue_id e,
      channel = EventType LIFECYCLE, instrument_id = None\<rparr>"

definition scope_for :: "StreamEvent \<Rightarrow> StreamHealthScope result" where
  "scope_for e = construct_StreamHealthScope (event_scope e)"

primrec event_id_for :: "StreamEvent \<Rightarrow> string" where
  "event_id_for (Trade e) = trade_id e"
| "event_id_for (Quote e) = quote_id e"
| "event_id_for (OrderBook e) = book_event_id e"
| "event_id_for (Heartbeat e) = raw_payload_id e"
| "event_id_for (Lifecycle e) = raw_payload_id e"

primrec sequence_for :: "StreamEvent \<Rightarrow> int option" where
  "sequence_for (Trade e) = TradeEvent.sequence e"
| "sequence_for (Quote e) = QuoteEvent.sequence e"
| "sequence_for (OrderBook e) = OrderBookEvent.sequence e"
| "sequence_for (Heartbeat e) = None"
| "sequence_for (Lifecycle e) = None"

record StreamHealthEvaluator =
  last_sequence_by_scope :: "scope_key \<rightharpoonup> int"
  seen_event_ids_by_scope :: "scope_key \<Rightarrow> string set"
  seen_sequences_by_scope :: "scope_key \<Rightarrow> int set"

text \<open>The two \<open>setdefault(scope_key, set())\<close> dicts are total maps to the empty set.\<close>

definition fresh_evaluator :: StreamHealthEvaluator where
  "fresh_evaluator = \<lparr>last_sequence_by_scope = (\<lambda>_. None),
     seen_event_ids_by_scope = (\<lambda>_. {}), seen_sequences_by_scope = (\<lambda>_. {})\<rparr>"

definition health_metric :: "StreamHealthMetricName \<Rightarrow> decimal \<Rightarrow> decimal \<Rightarrow> bool \<Rightarrow> StreamHealthCheck \<Rightarrow>
    StreamHealthScope \<Rightarrow> datetime \<Rightarrow> StreamHealthMetric result" where
  "health_metric n v t b c sc ts = construct_StreamHealthMetric
     \<lparr>StreamHealthMetric.name = n, metric_value = v, threshold = Some t, breached = b, check = c,
      scope = sc, evaluation_ts = ts\<rparr>"

text \<open>\<open>if b: issues.append(StreamHealthIssue(...))\<close>.\<close>

definition health_issue :: "bool \<Rightarrow> StreamHealthCheck \<Rightarrow> StreamHealthMetricName \<Rightarrow> decimal \<Rightarrow> decimal \<Rightarrow>
    string \<Rightarrow> StreamHealthIssue list result" where
  "health_issue b c n v t d =
     (if b then bindE (construct_StreamHealthIssue
        \<lparr>StreamHealthIssue.check = c, metric_name = n, observed_value = v, threshold = Some t,
         description = d\<rparr>) (\<lambda>i. Inr [i]) else Inr [])"

definition flag_decimal :: "bool \<Rightarrow> decimal" where
  "flag_decimal b = Dec (if b then 1 else 0) 0"

definition gap_size :: "int option \<Rightarrow> int option \<Rightarrow> int" where
  "gap_size prev n = (case (n, prev) of
     (Some k, Some p) \<Rightarrow> (if p + 1 < k then k - p - 1 else 0) | _ \<Rightarrow> 0)"

definition record_seen :: "StreamHealthEvaluator \<Rightarrow> scope_key \<Rightarrow> string \<Rightarrow> int option \<Rightarrow> StreamHealthEvaluator" where
  "record_seen s k i n =
     (let s1 = s\<lparr>seen_event_ids_by_scope :=
                   (seen_event_ids_by_scope s)(k := insert i (seen_event_ids_by_scope s k))\<rparr>
      in case n of None \<Rightarrow> s1
         | Some m \<Rightarrow>
             let s2 = s1\<lparr>seen_sequences_by_scope :=
                   (seen_sequences_by_scope s)(k := insert m (seen_sequences_by_scope s k))\<rparr>
             in (case last_sequence_by_scope s k of
                   None \<Rightarrow> s2\<lparr>last_sequence_by_scope := (last_sequence_by_scope s)(k \<mapsto> m)\<rparr>
                 | Some p \<Rightarrow> if p < m
                     then s2\<lparr>last_sequence_by_scope := (last_sequence_by_scope s)(k \<mapsto> m)\<rparr> else s2))"

definition duplicate_event :: "StreamHealthEvaluator \<Rightarrow> scope_key \<Rightarrow> string \<Rightarrow> int option \<Rightarrow> bool" where
  "duplicate_event s k i n \<longleftrightarrow>
     i \<in> seen_event_ids_by_scope s k
     \<or> (case n of None \<Rightarrow> False | Some m \<Rightarrow> m \<in> seen_sequences_by_scope s k)"

definition evaluate_health :: "StreamHealthPolicy \<Rightarrow> StreamHealthEvaluator \<Rightarrow> StreamEvent \<Rightarrow> datetime \<Rightarrow>
    (StreamHealthRecord \<times> StreamHealthEvaluator) result" where
  "evaluate_health pol s e ts =
     bindE (scope_for e) (\<lambda>sc.
     let k = StreamHealthScope_key sc; i = event_id_for e; n = sequence_for e;
         ets = StreamEnvelopeBase.event_ts (envelope e);
         sts = StreamEnvelopeBase.source_ts (envelope e);
         age = py_max (dt_diff ts ets) 0;
         age_value = total_seconds_decimal age;
         stale_threshold = total_seconds_decimal (max_event_age pol);
         stale = max_event_age pol < age;
         drift = \<bar>dt_diff ts (case sts of Some t \<Rightarrow> t | None \<Rightarrow> ets)\<bar>;
         drift_value = total_seconds_decimal drift;
         drift_threshold = total_seconds_decimal (max_timestamp_drift pol);
         drifted = max_timestamp_drift pol < drift;
         dup = duplicate_event s k i n;
         gap = gap_size (last_sequence_by_scope s k) n
     in bindE (health_metric FRESHNESS_AGE_SECONDS age_value stale_threshold stale FRESHNESS sc ts)
     (\<lambda>m1. bindE (health_metric STALE_EVENT (flag_decimal stale) (Dec 0 0) stale FRESHNESS sc ts)
     (\<lambda>m2. bindE (health_issue stale FRESHNESS STALE_EVENT age_value stale_threshold
                    ''event_ts is older than max_event_age at evaluation_ts'')
     (\<lambda>i1. bindE (health_metric TIMESTAMP_DRIFT_SECONDS drift_value drift_threshold drifted
                    TIMESTAMP_DRIFT sc ts)
     (\<lambda>m3. bindE (health_issue drifted TIMESTAMP_DRIFT TIMESTAMP_DRIFT_SECONDS drift_value drift_threshold
                    ''source_ts/event_ts is outside max_timestamp_drift at evaluation_ts'')
     (\<lambda>i2. bindE (health_metric DUPLICATE_EVENT (flag_decimal dup) (Dec 0 0) dup
                    StreamHealthCheck.DUPLICATE sc ts)
     (\<lambda>m4. bindE (health_issue dup StreamHealthCheck.DUPLICATE DUPLICATE_EVENT (Dec 1 0) (Dec 0 0)
                    ''event_id or sequence was already observed in this stream scope'')
     (\<lambda>i3. bindE (health_metric SEQUENCE_GAP_SIZE (Dec gap 0) (Dec 0 0) (0 < gap) SEQUENCE_GAP sc ts)
     (\<lambda>m5. bindE (health_issue (0 < gap) SEQUENCE_GAP SEQUENCE_GAP_SIZE (Dec gap 0) (Dec 0 0)
                    ''sequence advanced by more than one in this stream scope'')
     (\<lambda>i4. let iss = i1 @ i2 @ i3 @ i4 in
           bindE (construct_StreamHealthRecord
             \<lparr>StreamHealthRecord.event_type = Streaming.event_type e, event_id = i, sequence = n,
              scope = sc, evaluation_ts = ts, event_ts = ets, source_ts = sts,
              status = (if iss \<noteq> [] then StreamHealthStatus.DEGRADED else StreamHealthStatus.HEALTHY),
              metrics = [m1, m2, m3, m4, m5], issues = iss\<rparr>)
           (\<lambda>r. Inr (r, record_seen s k i n))))))))))))"

fun evaluate_many_health :: "StreamHealthPolicy \<Rightarrow> StreamHealthEvaluator \<Rightarrow> StreamEvent list \<Rightarrow> datetime \<Rightarrow>
    (StreamHealthRecord list \<times> StreamHealthEvaluator) result" where
  "evaluate_many_health pol s [] ts = Inr ([], s)"
| "evaluate_many_health pol s (e # es) ts =
     bindE (evaluate_health pol s e ts) (\<lambda>(r, s').
     bindE (evaluate_many_health pol s' es ts) (\<lambda>(rs, s''). Inr (r # rs, s'')))"

section \<open>The gate\<close>

record DataHealthGatePolicy =
  critical_checks :: "StreamHealthCheck list"

definition default_gate_policy :: DataHealthGatePolicy where
  "default_gate_policy = \<lparr>critical_checks = [FRESHNESS]\<rparr>"

definition critical_reason_code :: "StreamHealthCheck list \<Rightarrow> DataHealthReasonCode" where
  "critical_reason_code cs =
     (if FRESHNESS \<in> set cs then CRITICAL_FRESHNESS_STALE else CRITICAL_STREAM_HEALTH_BREACH)"

definition data_health_signal_id :: "digest \<Rightarrow> StreamHealthRecord \<Rightarrow> string" where
  "data_health_signal_id H r =
     (let sc = StreamHealthRecord.scope r
      in ''data-health:'' @ H (PObj
           [(''channel'', PStr (scope_channel_value (channel sc))),
            (''event_id'', PStr (event_id r)),
            (''instrument_id'', POpt PStr (StreamHealthScope.instrument_id sc)),
            (''source_id'', PStr (StreamHealthScope.source_id sc)),
            (''subscription_id'', PStr (StreamHealthScope.subscription_id sc)),
            (''venue_id'', PStr (StreamHealthScope.venue_id sc))]))"

definition gate_evaluate :: "digest \<Rightarrow> DataHealthGatePolicy \<Rightarrow> StreamHealthRecord \<Rightarrow> DataHealthSignal result" where
  "gate_evaluate H gp r =
     (let checks = map StreamHealthIssue.check (issues r);
          metric_names = map StreamHealthMetric.name (filter breached (metrics r));
          critical_breached = list_ex (\<lambda>c. c \<in> set (critical_checks gp)) checks;
          (st, codes, blocks) =
            (if StreamHealthRecord.status r = StreamHealthStatus.HEALTHY
             then (DataHealthStatus.HEALTHY, [STREAM_HEALTHY], False)
             else if critical_breached
             then (DataHealthStatus.BLOCKED, [critical_reason_code checks], True)
             else (DataHealthStatus.DEGRADED, [NON_CRITICAL_STREAM_DEGRADED], False))
      in construct_DataHealthSignal
        \<lparr>DataHealthSignal.signal_id = data_health_signal_id H r, status = st, reason_codes = codes,
         blocks_trading = blocks,
         blocked_instrument_id =
           (if blocks then StreamHealthScope.instrument_id (StreamHealthRecord.scope r) else None),
         source_health_event_id = event_id r, source_health_status = StreamHealthRecord.status r,
         source_scope = StreamHealthRecord.scope r, source_checks = checks,
         source_metric_names = metric_names,
         evaluation_ts = StreamHealthRecord.evaluation_ts r\<rparr>)"

definition gate_evaluate_many :: "digest \<Rightarrow> DataHealthGatePolicy \<Rightarrow> StreamHealthRecord list \<Rightarrow>
    DataHealthSignal list result" where
  "gate_evaluate_many H gp rs = mapE (gate_evaluate H gp) rs"

section \<open>What one evaluation reports\<close>

text \<open>The checks an event fails, in the order the evaluator looks at them.\<close>

definition event_age :: "StreamEvent \<Rightarrow> datetime \<Rightarrow> int" where
  "event_age e ts = max 0 (dt_diff ts (StreamEnvelopeBase.event_ts (envelope e)))"

definition event_drift :: "StreamEvent \<Rightarrow> datetime \<Rightarrow> int" where
  "event_drift e ts = \<bar>dt_diff ts (case StreamEnvelopeBase.source_ts (envelope e) of
     Some t \<Rightarrow> t | None \<Rightarrow> StreamEnvelopeBase.event_ts (envelope e))\<bar>"

definition event_key :: "StreamEvent \<Rightarrow> scope_key" where
  "event_key e = StreamHealthScope_key (event_scope e)"

definition failed_checks :: "StreamHealthPolicy \<Rightarrow> StreamHealthEvaluator \<Rightarrow> StreamEvent \<Rightarrow> datetime \<Rightarrow>
    StreamHealthCheck list" where
  "failed_checks pol s e ts =
     (if max_event_age pol < event_age e ts then [FRESHNESS] else [])
     @ (if max_timestamp_drift pol < event_drift e ts then [TIMESTAMP_DRIFT] else [])
     @ (if duplicate_event s (event_key e) (event_id_for e) (sequence_for e)
        then [StreamHealthCheck.DUPLICATE] else [])
     @ (if 0 < gap_size (last_sequence_by_scope s (event_key e)) (sequence_for e)
        then [SEQUENCE_GAP] else [])"

definition valid_health_policy :: "StreamHealthPolicy \<Rightarrow> bool" where
  "valid_health_policy pol \<longleftrightarrow> 0 < max_event_age pol \<and> 0 < max_timestamp_drift pol"

lemma scope_for_valid: "valid_StreamEvent e \<Longrightarrow> scope_for e = Inr (event_scope e)"
  using valid_envelope [of e]
  by (cases e) (auto simp: scope_for_def construct_StreamHealthScope_def envelope_fields_def
      StreamEnvelopeBase.truncate_def construct_TradeEvent_def construct_QuoteEvent_def
      construct_OrderBookEvent_def)

lemma event_id_valid: "valid_StreamEvent e \<Longrightarrow> non_empty_string (event_id_for e)"
  by (cases e) (auto simp: envelope_fields_def construct_TradeEvent_def construct_QuoteEvent_def
      construct_OrderBookEvent_def construct_HeartbeatEvent_def construct_LifecycleEvent_def)

lemma scope_instrument_valid:
  "valid_StreamEvent e \<Longrightarrow> opt_all canonical_id (StreamHealthScope.instrument_id (event_scope e))"
  by (cases e) (auto simp: envelope_fields_def construct_TradeEvent_def construct_QuoteEvent_def
      construct_OrderBookEvent_def)

lemma health_metric_ok: "0 \<le> v \<Longrightarrow> 0 \<le> t \<Longrightarrow> health_metric n v t b c sc ts = Inr
    \<lparr>StreamHealthMetric.name = n, metric_value = v, threshold = Some t, breached = b, check = c,
     scope = sc, evaluation_ts = ts\<rparr>"
  by (simp add: health_metric_def construct_StreamHealthMetric_def)

lemma health_issue_ok: "0 \<le> v \<Longrightarrow> 0 \<le> t \<Longrightarrow> non_empty_string d \<Longrightarrow> health_issue b c n v t d = Inr
    (if b then [\<lparr>StreamHealthIssue.check = c, metric_name = n, observed_value = v, threshold = Some t,
     description = d\<rparr>] else [])"
  by (simp add: health_issue_def construct_StreamHealthIssue_def)

lemma seconds_nonneg: "0 \<le> us \<Longrightarrow> 0 \<le> total_seconds_decimal us"
  by (simp add: le_dval dval_total_seconds)

lemma flag_nonneg: "0 \<le> flag_decimal b" "0 \<le> Dec 0 0" "0 \<le> Dec 1 0"
  by (simp_all add: flag_decimal_def le_dval dval_Dec)

lemma gap_nonneg: "0 \<le> gap_size p n" "0 \<le> Dec (gap_size p n) 0"
  by (auto simp: gap_size_def le_dval dval_Dec split: option.splits)

lemma health_descriptions:
  "non_empty_string ''event_ts is older than max_event_age at evaluation_ts''"
  "non_empty_string ''source_ts/event_ts is outside max_timestamp_drift at evaluation_ts''"
  "non_empty_string ''event_id or sequence was already observed in this stream scope''"
  "non_empty_string ''sequence advanced by more than one in this stream scope''"
  by (simp_all add: non_empty_string_def strip_def py_space_def)

text \<open>The record of an event that passes its own field checks, without the error monad.\<close>

definition health_metric_of :: "StreamHealthMetricName \<Rightarrow> decimal \<Rightarrow> decimal \<Rightarrow> bool \<Rightarrow> StreamHealthCheck \<Rightarrow>
    StreamHealthScope \<Rightarrow> datetime \<Rightarrow> StreamHealthMetric" where
  "health_metric_of n v t b c sc ts = \<lparr>StreamHealthMetric.name = n, metric_value = v,
     threshold = Some t, breached = b, check = c, scope = sc, evaluation_ts = ts\<rparr>"

definition health_record :: "StreamHealthPolicy \<Rightarrow> StreamHealthEvaluator \<Rightarrow> StreamEvent \<Rightarrow> datetime \<Rightarrow>
    StreamHealthIssue list \<Rightarrow> StreamHealthRecord" where
  "health_record pol s e ts iss =
     (let sc = event_scope e; n = sequence_for e;
          stale = max_event_age pol < event_age e ts;
          drifted = max_timestamp_drift pol < event_drift e ts;
          dup = duplicate_event s (event_key e) (event_id_for e) n;
          gap = gap_size (last_sequence_by_scope s (event_key e)) n
      in \<lparr>StreamHealthRecord.event_type = Streaming.event_type e, event_id = event_id_for e,
          sequence = n, scope = sc, evaluation_ts = ts,
          event_ts = StreamEnvelopeBase.event_ts (envelope e),
          source_ts = StreamEnvelopeBase.source_ts (envelope e),
          status = (if iss \<noteq> [] then StreamHealthStatus.DEGRADED else StreamHealthStatus.HEALTHY),
          metrics =
           [health_metric_of FRESHNESS_AGE_SECONDS (total_seconds_decimal (event_age e ts))
              (total_seconds_decimal (max_event_age pol)) stale FRESHNESS sc ts,
            health_metric_of STALE_EVENT (flag_decimal stale) (Dec 0 0) stale FRESHNESS sc ts,
            health_metric_of TIMESTAMP_DRIFT_SECONDS (total_seconds_decimal (event_drift e ts))
              (total_seconds_decimal (max_timestamp_drift pol)) drifted TIMESTAMP_DRIFT sc ts,
            health_metric_of DUPLICATE_EVENT (flag_decimal dup) (Dec 0 0) dup
              StreamHealthCheck.DUPLICATE sc ts,
            health_metric_of SEQUENCE_GAP_SIZE (Dec gap 0) (Dec 0 0) (0 < gap) SEQUENCE_GAP sc ts],
          issues = iss\<rparr>)"

lemma evaluate_health_ok:
  assumes "valid_StreamEvent e" "valid_health_policy pol"
  shows "\<exists>iss. evaluate_health pol s e ts = Inr (health_record pol s e ts iss,
      record_seen s (event_key e) (event_id_for e) (sequence_for e))
    \<and> map StreamHealthIssue.check iss = failed_checks pol s e ts"
proof -
  have age: "py_max (dt_diff ts (StreamEnvelopeBase.event_ts (envelope e))) 0 = event_age e ts"
    by (simp add: py_max_def event_age_def)
  have nn: "0 \<le> total_seconds_decimal (event_age e ts)" "0 \<le> total_seconds_decimal (event_drift e ts)"
    "0 \<le> total_seconds_decimal (max_event_age pol)" "0 \<le> total_seconds_decimal (max_timestamp_drift pol)"
    using assms(2) by (simp_all add: seconds_nonneg event_age_def event_drift_def valid_health_policy_def)
  note ok = health_metric_ok health_issue_ok nn flag_nonneg gap_nonneg health_descriptions
  show ?thesis
    unfolding evaluate_health_def scope_for_valid [OF assms(1)] bindE_simps Let_def age
      event_drift_def [symmetric] event_key_def [symmetric] health_record_def health_metric_of_def
    apply (simp only: ok bindE_simps)
    apply (simp add: construct_StreamHealthRecord_def event_id_valid [OF assms(1)] failed_checks_def)
    done
qed

text \<open>The breached metrics name the failed checks, and the status says whether there is one.\<close>

lemma health_record_checks:
  "remdups (map StreamHealthMetric.check (filter breached (metrics (health_record pol s e ts iss))))
    = failed_checks pol s e ts"
  by (simp add: health_record_def Let_def health_metric_of_def failed_checks_def)

lemma health_record_fields [simp]:
  "StreamHealthRecord.scope (health_record pol s e ts iss) = event_scope e"
  "StreamHealthRecord.event_id (health_record pol s e ts iss) = event_id_for e"
  "StreamHealthRecord.evaluation_ts (health_record pol s e ts iss) = ts"
  "issues (health_record pol s e ts iss) = iss"
  "StreamHealthRecord.status (health_record pol s e ts iss)
     = (if iss = [] then StreamHealthStatus.HEALTHY else StreamHealthStatus.DEGRADED)"
  by (simp_all add: health_record_def Let_def)

section \<open>The state as an abstraction of the history\<close>

text \<open>
  \<open>observed s es\<close>: the evaluator's dicts hold, for each scope key, the event ids and
  sequence numbers of the events \<open>es\<close> with that key, and the greatest sequence number.
\<close>

definition observed :: "StreamHealthEvaluator \<Rightarrow> StreamEvent list \<Rightarrow> bool" where
  "observed s es \<longleftrightarrow> (\<forall>k.
     seen_event_ids_by_scope s k = event_id_for ` {e \<in> set es. event_key e = k}
     \<and> seen_sequences_by_scope s k = {n. \<exists>e \<in> set es. event_key e = k \<and> sequence_for e = Some n}
     \<and> (case last_sequence_by_scope s k of
          None \<Rightarrow> \<forall>n. n \<notin> seen_sequences_by_scope s k
        | Some m \<Rightarrow> m \<in> seen_sequences_by_scope s k \<and> (\<forall>n \<in> seen_sequences_by_scope s k. n \<le> m)))"

lemma observed_fresh: "observed fresh_evaluator []"
  by (simp add: observed_def fresh_evaluator_def)

lemma observed_record:
  assumes "observed s es"
  shows "observed (record_seen s (event_key e) (event_id_for e) (sequence_for e)) (e # es)"
  unfolding observed_def
proof (intro allI conjI)
  fix k
  let ?s = "record_seen s (event_key e) (event_id_for e) (sequence_for e)"
  note o = assms [unfolded observed_def, rule_format]
  show "seen_event_ids_by_scope ?s k = event_id_for ` {x \<in> set (e # es). event_key x = k}"
    using o [of k] by (auto simp: record_seen_def Let_def split: option.splits)
  show "seen_sequences_by_scope ?s k = {n. \<exists>x \<in> set (e # es). event_key x = k \<and> sequence_for x = Some n}"
    using o [of k] by (auto simp: record_seen_def Let_def split: option.splits)
  show "case last_sequence_by_scope ?s k of None \<Rightarrow> \<forall>n. n \<notin> seen_sequences_by_scope ?s k
      | Some m \<Rightarrow> m \<in> seen_sequences_by_scope ?s k \<and> (\<forall>n \<in> seen_sequences_by_scope ?s k. n \<le> m)"
    using o [of k] by (force simp: record_seen_def Let_def split: option.splits)
qed

lemma observed_ids: "observed s es \<Longrightarrow> i \<in> seen_event_ids_by_scope s k \<longleftrightarrow>
    (\<exists>x \<in> set es. event_key x = k \<and> event_id_for x = i)"
  unfolding observed_def by (drule spec [where x = k]) force

lemma observed_seqs: "observed s es \<Longrightarrow> n \<in> seen_sequences_by_scope s k \<longleftrightarrow>
    (\<exists>x \<in> set es. event_key x = k \<and> sequence_for x = Some n)"
  unfolding observed_def by (drule spec [where x = k]) simp

lemma observed_last: "observed s es \<Longrightarrow> case last_sequence_by_scope s k of
      None \<Rightarrow> \<forall>n. n \<notin> seen_sequences_by_scope s k
    | Some m \<Rightarrow> m \<in> seen_sequences_by_scope s k \<and> (\<forall>n \<in> seen_sequences_by_scope s k. n \<le> m)"
  unfolding observed_def by blast

lemma observed_duplicate:
  assumes "observed s es"
  shows "duplicate_event s (event_key e) (event_id_for e) (sequence_for e) \<longleftrightarrow>
    (\<exists>x \<in> set es. event_key x = event_key e \<and> (event_id_for x = event_id_for e
        \<or> (sequence_for e \<noteq> None \<and> sequence_for x = sequence_for e)))"
  unfolding duplicate_event_def observed_ids [OF assms] observed_seqs [OF assms]
  by (cases "sequence_for e") auto

lemma observed_gap:
  assumes "observed s es"
  shows "0 < gap_size (last_sequence_by_scope s (event_key e)) (sequence_for e) \<longleftrightarrow>
    (\<exists>n. sequence_for e = Some n
       \<and> (\<exists>x \<in> set es. event_key x = event_key e \<and> sequence_for x \<noteq> None)
       \<and> (\<forall>x \<in> set es. \<forall>m. event_key x = event_key e \<longrightarrow> sequence_for x = Some m \<longrightarrow> m + 1 < n))"
proof (cases "sequence_for e")
  case None
  then show ?thesis by (simp add: gap_size_def)
next
  case (Some n)
  note last = observed_last [OF assms, of "event_key e", unfolded observed_seqs [OF assms]]
  show ?thesis
  proof (cases "last_sequence_by_scope s (event_key e)")
    case None
    then have "\<forall>x \<in> set es. event_key x = event_key e \<longrightarrow> sequence_for x = None"
      using last by simp (metis option.exhaust)
    then show ?thesis using None Some by (auto simp: gap_size_def)
  next
    case (Some p)
    then obtain y where y: "y \<in> set es" "event_key y = event_key e" "sequence_for y = Some p"
      using last by auto
    have le: "m \<le> p" if "x \<in> set es" "event_key x = event_key e" "sequence_for x = Some m" for x m
    proof -
      have "m \<in> seen_sequences_by_scope s (event_key e)"
        unfolding observed_seqs [OF assms] using that by blast
      then show ?thesis using observed_last [OF assms, of "event_key e"] Some by simp
    qed
    have "(\<exists>x \<in> set es. event_key x = event_key e \<and> sequence_for x \<noteq> None)
        \<and> (\<forall>x \<in> set es. \<forall>m. event_key x = event_key e \<longrightarrow> sequence_for x = Some m \<longrightarrow> m + 1 < n)
        \<longleftrightarrow> p + 1 < n" (is "?seen \<and> ?all \<longleftrightarrow> _")
    proof
      assume "?seen \<and> ?all"
      then show "p + 1 < n" using y by blast
    next
      assume p: "p + 1 < n"
      have ?seen using y by blast
      moreover have ?all using le p by (meson add_right_mono le_less_trans)
      ultimately show "?seen \<and> ?all" ..
    qed
    then show ?thesis using Some \<open>sequence_for e = Some n\<close> by (simp add: gap_size_def)
  qed
qed

text \<open>A batch returns a record per event and leaves the state of the extended history.\<close>

lemma evaluate_many_observed:
  assumes "\<forall>e \<in> set es. valid_StreamEvent e" "valid_health_policy pol" "observed s hist"
  obtains rs s' where "evaluate_many_health pol s es ts = Inr (rs, s')"
    "observed s' (rev es @ hist)" "length rs = length es"
  using assms(1,3)
proof (induction es arbitrary: s hist thesis)
  case Nil
  then show ?case by simp
next
  case (Cons e es)
  obtain iss where ev: "evaluate_health pol s e ts = Inr (health_record pol s e ts iss,
      record_seen s (event_key e) (event_id_for e) (sequence_for e))"
    using evaluate_health_ok [OF _ assms(2)] Cons.prems(2) by (metis list.set_intros(1))
  have "observed (record_seen s (event_key e) (event_id_for e) (sequence_for e)) (e # hist)"
    using Cons.prems(3) by (rule observed_record)
  then obtain rs s' where "evaluate_many_health pol
      (record_seen s (event_key e) (event_id_for e) (sequence_for e)) es ts = Inr (rs, s')"
      "observed s' (rev es @ e # hist)" "length rs = length es"
    using Cons.IH Cons.prems(2) by (metis list.set_intros(2))
  then show ?case using Cons.prems(1) ev by simp
qed

section \<open>Properties of the gate\<close>

lemma signal_id_ok:
  assumes "digest_ok H"
  shows "non_empty_string (data_health_signal_id H r)"
proof -
  have h: "list_all (\<lambda>c. \<not> py_space c) (H p)" for p
    using digest_hex [OF assms(1)] id_chars_no_space unfolding hex64_def list_all_iff by metis
  have "list_all (\<lambda>c. \<not> py_space c) (data_health_signal_id H r)"
    using h by (simp add: data_health_signal_id_def Let_def py_space_def)
  then show ?thesis
    by (simp add: non_empty_string_def strip_id) (simp add: data_health_signal_id_def Let_def)
qed

lemma gate_evaluate_ok:
  assumes "digest_ok H" "non_empty_string (event_id r)"
    "opt_all canonical_id (StreamHealthScope.instrument_id (StreamHealthRecord.scope r))"
  shows "\<exists>g. gate_evaluate H gp r = Inr g
    \<and> (blocks_trading g \<longleftrightarrow> StreamHealthRecord.status r = StreamHealthStatus.DEGRADED
       \<and> (\<exists>i \<in> set (issues r). StreamHealthIssue.check i \<in> set (critical_checks gp)))
    \<and> (DataHealthSignal.status g = DataHealthStatus.BLOCKED \<longleftrightarrow> blocks_trading g)
    \<and> source_scope g = StreamHealthRecord.scope r
    \<and> blocked_instrument_id g
       = (if blocks_trading g then StreamHealthScope.instrument_id (StreamHealthRecord.scope r) else None)"
  using assms(2,3) signal_id_ok [OF assms(1), of r]
  by (cases "StreamHealthRecord.status r";
      cases "\<exists>i \<in> set (issues r). StreamHealthIssue.check i \<in> set (critical_checks gp)")
    (simp_all add: gate_evaluate_def construct_DataHealthSignal_def list_ex_iff Let_def)

section \<open>Evaluator and gate against the event history\<close>

text \<open>C9: From a fresh evaluator, after any batch of valid events, evaluating one more event
  never raises; the record reports a duplicate exactly when an earlier event of the same scope
  has its id or its sequence number, a gap exactly when its sequence number is more than one
  above every earlier one of the scope (and there is one), staleness exactly when the event is
  older than the policy allows, and it is healthy exactly when no check failed.\<close>

theorem health_record_matches_history:
  assumes "\<forall>x \<in> set es. valid_StreamEvent x" "valid_StreamEvent e" "valid_health_policy pol"
  shows "\<exists>rs s r s'. evaluate_many_health pol fresh_evaluator es t0 = Inr (rs, s)
    \<and> length rs = length es
    \<and> evaluate_health pol s e ts = Inr (r, s')
    \<and> (StreamHealthCheck.DUPLICATE \<in> StreamHealthIssue.check ` set (issues r) \<longleftrightarrow>
        (\<exists>x \<in> set es. event_key x = event_key e \<and> (event_id_for x = event_id_for e
           \<or> (sequence_for e \<noteq> None \<and> sequence_for x = sequence_for e))))
    \<and> (SEQUENCE_GAP \<in> StreamHealthIssue.check ` set (issues r) \<longleftrightarrow>
        (\<exists>n. sequence_for e = Some n
          \<and> (\<exists>x \<in> set es. event_key x = event_key e \<and> sequence_for x \<noteq> None)
          \<and> (\<forall>x \<in> set es. \<forall>m. event_key x = event_key e \<longrightarrow> sequence_for x = Some m \<longrightarrow> m + 1 < n)))
    \<and> (FRESHNESS \<in> StreamHealthIssue.check ` set (issues r) \<longleftrightarrow>
        max_event_age pol < dt_diff ts (StreamEnvelopeBase.event_ts (envelope e)))
    \<and> (StreamHealthRecord.status r = StreamHealthStatus.HEALTHY \<longleftrightarrow> issues r = [])"
proof -
  obtain rs s where b: "evaluate_many_health pol fresh_evaluator es t0 = Inr (rs, s)"
    "observed s (rev es)" "length rs = length es"
    using evaluate_many_observed [OF assms(1,3) observed_fresh] by auto
  obtain iss where r: "evaluate_health pol s e ts = Inr (health_record pol s e ts iss,
      record_seen s (event_key e) (event_id_for e) (sequence_for e))"
    "map StreamHealthIssue.check iss = failed_checks pol s e ts"
    using evaluate_health_ok [OF assms(2,3)] by blast
  have c: "StreamHealthIssue.check ` set iss = set (failed_checks pol s e ts)"
    unfolding r(2) [symmetric] by simp
  have age: "max_event_age pol < event_age e ts \<longleftrightarrow>
      max_event_age pol < dt_diff ts (StreamEnvelopeBase.event_ts (envelope e))"
    using assms(3) by (auto simp: event_age_def valid_health_policy_def)
  show ?thesis
    by (intro exI conjI, rule b(1), rule b(3), rule r(1))
      (simp_all add: c failed_checks_def age observed_duplicate [OF b(2)] observed_gap [OF b(2)])
qed

definition example_trade :: "string \<Rightarrow> int \<Rightarrow> int \<Rightarrow> StreamEvent" where
  "example_trade i n us = Trade
     \<lparr>StreamEnvelopeBase.subscription_id = ''SUB:1'', source_id = ''fixture-source'',
      venue_id = ''VENUE:1'', event_ts = DT us 0, source_ts = None, ingest_ts = DT us 0,
      raw_payload_id = ''RAW'', trade_id = i, instrument_id = ''BTC-USD'', price = Dec 100 0,
      quantity = Dec 1 0, side = None, sequence = Some n\<rparr>"

definition example_health_policy :: StreamHealthPolicy where
  "example_health_policy = \<lparr>max_event_age = 5000000, max_timestamp_drift = 1000000\<rparr>"

lemma example_trade_valid:
  "valid_StreamEvent (example_trade ''T1'' 1 0)" "valid_StreamEvent (example_trade ''T2'' 5 0)"
  "valid_health_policy example_health_policy"
  by (simp_all add: example_trade_def construct_TradeEvent_def envelope_fields_def canonical_id_def
      source_id_ok_def non_empty_string_def strip_def py_space_def sequence_field_def upper_char_def
      lower_char_def digit_char_def less_dval dval_Dec valid_health_policy_def
      example_health_policy_def)

theorem health_record_matches_history_witness:
  "\<exists>rs s r s'. evaluate_many_health example_health_policy fresh_evaluator
      [example_trade ''T1'' 1 0] (DT 0 0) = Inr (rs, s)
    \<and> evaluate_health example_health_policy s (example_trade ''T2'' 5 0) (DT 9000000 0) = Inr (r, s')
    \<and> SEQUENCE_GAP \<in> StreamHealthIssue.check ` set (issues r)
    \<and> FRESHNESS \<in> StreamHealthIssue.check ` set (issues r)
    \<and> StreamHealthCheck.DUPLICATE \<notin> StreamHealthIssue.check ` set (issues r)"
proof -
  have v: "\<forall>x \<in> set [example_trade ''T1'' 1 0]. valid_StreamEvent x"
    using example_trade_valid(1) by simp
  have k: "event_key (example_trade ''T1'' 1 0) = event_key (example_trade ''T2'' 5 0)"
    by (simp add: event_key_def example_trade_def)
  have f: "event_id_for (example_trade i n us) = i" "sequence_for (example_trade i n us) = Some n"
    "StreamEnvelopeBase.event_ts (envelope (example_trade i n us)) = DT us 0" for i n us
    by (simp_all add: example_trade_def StreamEnvelopeBase.truncate_def)
  have a: "max_event_age example_health_policy = 5000000" by (simp add: example_health_policy_def)
  from health_record_matches_history [OF v example_trade_valid(2,3), of "DT 0 0" "DT 9000000 0"]
  show ?thesis
    apply (elim exE conjE)
    apply (intro exI conjI)
        apply assumption
       apply assumption
    apply (simp_all add: k f a dt_diff_def)
    done
qed

lemma gate_signal_valid: "gate_evaluate H gp r = Inr g \<Longrightarrow> construct_DataHealthSignal g = Inr g"
proof -
  have c: "construct_DataHealthSignal x = Inr y \<Longrightarrow> construct_DataHealthSignal y = Inr y" for x y
    unfolding construct_DataHealthSignal_def checked_Inr_iff by (elim conjE, hypsubst) simp
  show "gate_evaluate H gp r = Inr g \<Longrightarrow> construct_DataHealthSignal g = Inr g"
    unfolding gate_evaluate_def Let_def case_prod_beta by (rule c)
qed

lemma stale_signal_ex:
  assumes "digest_ok H" "valid_StreamEvent e" "valid_health_policy pol"
  shows "\<exists>r s' g. evaluate_health pol s e ts = Inr (r, s')
    \<and> gate_evaluate H default_gate_policy r = Inr g
    \<and> (blocks_trading g \<longleftrightarrow> max_event_age pol < dt_diff ts (StreamEnvelopeBase.event_ts (envelope e)))
    \<and> source_scope g = event_scope e
    \<and> blocked_instrument_id g =
        (if blocks_trading g then StreamHealthScope.instrument_id (event_scope e) else None)"
proof -
  obtain iss where r: "evaluate_health pol s e ts = Inr (health_record pol s e ts iss,
      record_seen s (event_key e) (event_id_for e) (sequence_for e))"
    "map StreamHealthIssue.check iss = failed_checks pol s e ts"
    using evaluate_health_ok [OF assms(2,3)] by blast
  let ?r = "health_record pol s e ts iss"
  have c: "(\<exists>i \<in> set iss. StreamHealthIssue.check i = FRESHNESS) \<longleftrightarrow>
      FRESHNESS \<in> set (failed_checks pol s e ts)"
    unfolding r(2) [symmetric] set_map image_iff by metis
  have age: "FRESHNESS \<in> set (failed_checks pol s e ts) \<longleftrightarrow>
      max_event_age pol < dt_diff ts (StreamEnvelopeBase.event_ts (envelope e))"
    using assms(3) by (auto simp: failed_checks_def event_age_def valid_health_policy_def)
  obtain g where g: "gate_evaluate H default_gate_policy ?r = Inr g"
    "blocks_trading g \<longleftrightarrow> StreamHealthRecord.status ?r = StreamHealthStatus.DEGRADED
       \<and> (\<exists>i \<in> set (issues ?r). StreamHealthIssue.check i \<in> set (critical_checks default_gate_policy))"
    "source_scope g = StreamHealthRecord.scope ?r"
    "blocked_instrument_id g
       = (if blocks_trading g then StreamHealthScope.instrument_id (StreamHealthRecord.scope ?r) else None)"
    using gate_evaluate_ok [OF assms(1), of ?r default_gate_policy,
        unfolded health_record_fields(1,2), OF event_id_valid [OF assms(2)]
        scope_instrument_valid [OF assms(2)]]
    unfolding health_record_fields(1) by blast
  have "blocks_trading g \<longleftrightarrow> FRESHNESS \<in> set (failed_checks pol s e ts)"
    unfolding g(2) c [symmetric] by (auto simp: default_gate_policy_def)
  then show ?thesis using r(1) g age by simp
qed

lemma stale_signal:
  assumes "digest_ok H" "valid_StreamEvent e" "valid_health_policy pol"
    and "evaluate_health pol s e ts = Inr (r, s')" "gate_evaluate H default_gate_policy r = Inr g"
  shows "blocks_trading g \<longleftrightarrow> max_event_age pol < dt_diff ts (StreamEnvelopeBase.event_ts (envelope e))"
    "blocked_instrument_id g =
        (if blocks_trading g then StreamHealthScope.instrument_id (event_scope e) else None)"
  using stale_signal_ex [OF assms(1-3), of s ts] assms(4,5) by auto

text \<open>C10: The evaluator followed by the default gate fails closed on staleness: for a valid event
  neither step raises, the signal blocks trading exactly when the event is older than the
  policy's maximum age, and it names the event's own scope and instrument, nothing broader.\<close>

theorem stale_feed_blocks_scope:
  assumes "digest_ok H" "valid_StreamEvent e" "valid_health_policy pol"
  shows "\<exists>r s' g. evaluate_health pol s e ts = Inr (r, s')
    \<and> gate_evaluate H default_gate_policy r = Inr g
    \<and> (blocks_trading g \<longleftrightarrow> max_event_age pol < dt_diff ts (StreamEnvelopeBase.event_ts (envelope e)))
    \<and> source_scope g = event_scope e
    \<and> blocked_instrument_id g =
        (if blocks_trading g then StreamHealthScope.instrument_id (event_scope e) else None)"
  using assms by (rule stale_signal_ex)

theorem stale_feed_blocks_scope_witness:
  "\<exists>r s' g. evaluate_health example_health_policy fresh_evaluator (example_trade ''T1'' 1 0) (DT 9000000 0)
       = Inr (r, s')
    \<and> gate_evaluate (\<lambda>p. zero_hash) default_gate_policy r = Inr g
    \<and> blocks_trading g \<and> blocked_instrument_id g = Some ''BTC-USD''"
  using stale_feed_blocks_scope [OF digest_ok_example example_trade_valid(1,3), of fresh_evaluator "DT 9000000 0"]
  by (auto simp: example_trade_def StreamEnvelopeBase.truncate_def dt_diff_def example_health_policy_def)

end
