(* ===== verification/RiskContracts.thy ===== *)
theory RiskContracts
  imports StreamHealth
begin

text \<open>
  The pre-trade risk contracts of \<open>contracts/risk.py\<close>: policies with their thresholds,
  kill-switch scopes, records and snapshots, order effects, limit evaluations, idempotency
  records, throttle and reject-burst windows, telemetry, risk-check requests and events, and
  the risk-gated replay result, each with its field constraints, its validator in the source's
  order, and the payload its identifier hashes.  Embedded objects are checked for validity;
  the instrument master snapshot is taken as validated (theory \<open>InstrumentMaster\<close>).
\<close>

section \<open>Enumerations\<close>

datatype RiskDecisionStatus =
    APPROVED | APPROVED_AFTER_CAP | REJECTED | NO_TRADE | CANCEL_REDUCE_ONLY_APPROVED

datatype RiskLimitStatus =
    PASS | SOFT_BREACH | HARD_BREACH

datatype RiskReasonCode =
    PASSED | REQUIRED_STATE_MISSING | OUTSIDE_MVP_SCOPE | UNKNOWN_KILL_STATE |
    KILL_SWITCH_ACTIVE | ORDER_MAX_NOTIONAL_SOFT | ORDER_MAX_NOTIONAL_HARD |
    ORDER_PRICE_COLLAR_SOFT | ORDER_PRICE_COLLAR_HARD | POSITION_INSTRUMENT_EXPOSURE_SOFT |
    POSITION_INSTRUMENT_EXPOSURE_HARD | POSITION_STRATEGY_EXPOSURE_SOFT |
    POSITION_STRATEGY_EXPOSURE_HARD | POSITION_TOTAL_SPOT_EXPOSURE_SOFT |
    POSITION_TOTAL_SPOT_EXPOSURE_HARD | CASH_RESERVE_HARD | NO_SHORT_OR_OVERSELL |
    DAILY_ACCOUNT_LOSS_SOFT | DAILY_ACCOUNT_LOSS_HARD | DAILY_STRATEGY_LOSS_SOFT |
    DAILY_STRATEGY_LOSS_HARD | MAX_DRAWDOWN_SOFT | MAX_DRAWDOWN_HARD |
    LIQUIDITY_PARTICIPATION_SOFT | LIQUIDITY_PARTICIPATION_HARD | LIQUIDITY_SPREAD_SOFT |
    LIQUIDITY_SPREAD_HARD | MARKET_VOLATILITY_SOFT | MARKET_VOLATILITY_HARD |
    DATA_HEALTH_BLOCK | VENUE_STATUS_HARD | VENUE_STATUS_SOFT | DUPLICATE_IDEMPOTENCY |
    ORDER_THROTTLE_SOFT | ORDER_THROTTLE_HARD | REJECT_BURST_SOFT | REJECT_BURST_HARD |
    ENGINE_LATENCY_SOFT | ENGINE_LATENCY_HARD | MODEL_DRIFT_OR_CALIBRATION_SOFT |
    MODEL_DRIFT_OR_CALIBRATION_HARD | TCA_COST_SLIPPAGE_SOFT | TCA_COST_SLIPPAGE_HARD

datatype KillSwitchScopeType =
    GLOBAL | ACCOUNT | VENUE | INSTRUMENT | STRATEGY

datatype KillSwitchState =
    UNKNOWN_FAIL_CLOSED | CLEAR | SOFT_LIMITED | PAUSE_NEW_ORDERS | REDUCE_ONLY |
    CANCEL_ONLY | HALTED

datatype KillSwitchTransitionSource =
    MANUAL | AUTOMATED

datatype OrderIdempotencyState =
    RECEIVED | ACCEPTED | PLACED | RECONCILED | REJECTED | UNKNOWN

datatype OrderThrottleScopeType =
    STRATEGY_INSTRUMENT | ACCOUNT | VENUE

primrec RiskDecisionStatus_value :: "RiskDecisionStatus \<Rightarrow> string" where
  "RiskDecisionStatus_value RiskDecisionStatus.APPROVED = ''approved''"
| "RiskDecisionStatus_value RiskDecisionStatus.APPROVED_AFTER_CAP = ''approved_after_cap''"
| "RiskDecisionStatus_value RiskDecisionStatus.REJECTED = ''rejected''"
| "RiskDecisionStatus_value RiskDecisionStatus.NO_TRADE = ''no_trade''"
| "RiskDecisionStatus_value RiskDecisionStatus.CANCEL_REDUCE_ONLY_APPROVED = ''cancel_reduce_only_approved''"

primrec RiskLimitStatus_value :: "RiskLimitStatus \<Rightarrow> string" where
  "RiskLimitStatus_value RiskLimitStatus.PASS = ''pass''"
| "RiskLimitStatus_value RiskLimitStatus.SOFT_BREACH = ''soft_breach''"
| "RiskLimitStatus_value RiskLimitStatus.HARD_BREACH = ''hard_breach''"

primrec RiskReasonCode_value :: "RiskReasonCode \<Rightarrow> string" where
  "RiskReasonCode_value RiskReasonCode.PASSED = ''passed''"
| "RiskReasonCode_value RiskReasonCode.REQUIRED_STATE_MISSING = ''required_state_missing''"
| "RiskReasonCode_value RiskReasonCode.OUTSIDE_MVP_SCOPE = ''outside_mvp_scope''"
| "RiskReasonCode_value RiskReasonCode.UNKNOWN_KILL_STATE = ''unknown_kill_state''"
| "RiskReasonCode_value RiskReasonCode.KILL_SWITCH_ACTIVE = ''kill_switch_active''"
| "RiskReasonCode_value RiskReasonCode.ORDER_MAX_NOTIONAL_SOFT = ''order_max_notional_soft''"
| "RiskReasonCode_value RiskReasonCode.ORDER_MAX_NOTIONAL_HARD = ''order_max_notional_hard''"
| "RiskReasonCode_value RiskReasonCode.ORDER_PRICE_COLLAR_SOFT = ''order_price_collar_soft''"
| "RiskReasonCode_value RiskReasonCode.ORDER_PRICE_COLLAR_HARD = ''order_price_collar_hard''"
| "RiskReasonCode_value RiskReasonCode.POSITION_INSTRUMENT_EXPOSURE_SOFT = ''position_instrument_exposure_soft''"
| "RiskReasonCode_value RiskReasonCode.POSITION_INSTRUMENT_EXPOSURE_HARD = ''position_instrument_exposure_hard''"
| "RiskReasonCode_value RiskReasonCode.POSITION_STRATEGY_EXPOSURE_SOFT = ''position_strategy_exposure_soft''"
| "RiskReasonCode_value RiskReasonCode.POSITION_STRATEGY_EXPOSURE_HARD = ''position_strategy_exposure_hard''"
| "RiskReasonCode_value RiskReasonCode.POSITION_TOTAL_SPOT_EXPOSURE_SOFT = ''position_total_spot_exposure_soft''"
| "RiskReasonCode_value RiskReasonCode.POSITION_TOTAL_SPOT_EXPOSURE_HARD = ''position_total_spot_exposure_hard''"
| "RiskReasonCode_value RiskReasonCode.CASH_RESERVE_HARD = ''cash_reserve_hard''"
| "RiskReasonCode_value RiskReasonCode.NO_SHORT_OR_OVERSELL = ''no_short_or_oversell''"
| "RiskReasonCode_value RiskReasonCode.DAILY_ACCOUNT_LOSS_SOFT = ''daily_account_loss_soft''"
| "RiskReasonCode_value RiskReasonCode.DAILY_ACCOUNT_LOSS_HARD = ''daily_account_loss_hard''"
| "RiskReasonCode_value RiskReasonCode.DAILY_STRATEGY_LOSS_SOFT = ''daily_strategy_loss_soft''"
| "RiskReasonCode_value RiskReasonCode.DAILY_STRATEGY_LOSS_HARD = ''daily_strategy_loss_hard''"
| "RiskReasonCode_value RiskReasonCode.MAX_DRAWDOWN_SOFT = ''max_drawdown_soft''"
| "RiskReasonCode_value RiskReasonCode.MAX_DRAWDOWN_HARD = ''max_drawdown_hard''"
| "RiskReasonCode_value RiskReasonCode.LIQUIDITY_PARTICIPATION_SOFT = ''liquidity_participation_soft''"
| "RiskReasonCode_value RiskReasonCode.LIQUIDITY_PARTICIPATION_HARD = ''liquidity_participation_hard''"
| "RiskReasonCode_value RiskReasonCode.LIQUIDITY_SPREAD_SOFT = ''liquidity_spread_soft''"
| "RiskReasonCode_value RiskReasonCode.LIQUIDITY_SPREAD_HARD = ''liquidity_spread_hard''"
| "RiskReasonCode_value RiskReasonCode.MARKET_VOLATILITY_SOFT = ''market_volatility_soft''"
| "RiskReasonCode_value RiskReasonCode.MARKET_VOLATILITY_HARD = ''market_volatility_hard''"
| "RiskReasonCode_value RiskReasonCode.DATA_HEALTH_BLOCK = ''data_health_block''"
| "RiskReasonCode_value RiskReasonCode.VENUE_STATUS_HARD = ''venue_status_hard''"
| "RiskReasonCode_value RiskReasonCode.VENUE_STATUS_SOFT = ''venue_status_soft''"
| "RiskReasonCode_value RiskReasonCode.DUPLICATE_IDEMPOTENCY = ''duplicate_idempotency''"
| "RiskReasonCode_value RiskReasonCode.ORDER_THROTTLE_SOFT = ''order_throttle_soft''"
| "RiskReasonCode_value RiskReasonCode.ORDER_THROTTLE_HARD = ''order_throttle_hard''"
| "RiskReasonCode_value RiskReasonCode.REJECT_BURST_SOFT = ''reject_burst_soft''"
| "RiskReasonCode_value RiskReasonCode.REJECT_BURST_HARD = ''reject_burst_hard''"
| "RiskReasonCode_value RiskReasonCode.ENGINE_LATENCY_SOFT = ''engine_latency_soft''"
| "RiskReasonCode_value RiskReasonCode.ENGINE_LATENCY_HARD = ''engine_latency_hard''"
| "RiskReasonCode_value RiskReasonCode.MODEL_DRIFT_OR_CALIBRATION_SOFT = ''model_drift_or_calibration_soft''"
| "RiskReasonCode_value RiskReasonCode.MODEL_DRIFT_OR_CALIBRATION_HARD = ''model_drift_or_calibration_hard''"
| "RiskReasonCode_value RiskReasonCode.TCA_COST_SLIPPAGE_SOFT = ''tca_cost_slippage_soft''"
| "RiskReasonCode_value RiskReasonCode.TCA_COST_SLIPPAGE_HARD = ''tca_cost_slippage_hard''"

primrec KillSwitchScopeType_value :: "KillSwitchScopeType \<Rightarrow> string" where
  "KillSwitchScopeType_value KillSwitchScopeType.GLOBAL = ''global''"
| "KillSwitchScopeType_value KillSwitchScopeType.ACCOUNT = ''account''"
| "KillSwitchScopeType_value KillSwitchScopeType.VENUE = ''venue''"
| "KillSwitchScopeType_value KillSwitchScopeType.INSTRUMENT = ''instrument''"
| "KillSwitchScopeType_value KillSwitchScopeType.STRATEGY = ''strategy''"

primrec KillSwitchState_value :: "KillSwitchState \<Rightarrow> string" where
  "KillSwitchState_value KillSwitchState.UNKNOWN_FAIL_CLOSED = ''unknown_fail_closed''"
| "KillSwitchState_value KillSwitchState.CLEAR = ''clear''"
| "KillSwitchState_value KillSwitchState.SOFT_LIMITED = ''soft_limited''"
| "KillSwitchState_value KillSwitchState.PAUSE_NEW_ORDERS = ''pause_new_orders''"
| "KillSwitchState_value KillSwitchState.REDUCE_ONLY = ''reduce_only''"
| "KillSwitchState_value KillSwitchState.CANCEL_ONLY = ''cancel_only''"
| "KillSwitchState_value KillSwitchState.HALTED = ''halted''"

primrec KillSwitchTransitionSource_value :: "KillSwitchTransitionSource \<Rightarrow> string" where
  "KillSwitchTransitionSource_value KillSwitchTransitionSource.MANUAL = ''manual''"
| "KillSwitchTransitionSource_value KillSwitchTransitionSource.AUTOMATED = ''automated''"

primrec OrderIdempotencyState_value :: "OrderIdempotencyState \<Rightarrow> string" where
  "OrderIdempotencyState_value OrderIdempotencyState.RECEIVED = ''received''"
| "OrderIdempotencyState_value OrderIdempotencyState.ACCEPTED = ''accepted''"
| "OrderIdempotencyState_value OrderIdempotencyState.PLACED = ''placed''"
| "OrderIdempotencyState_value OrderIdempotencyState.RECONCILED = ''reconciled''"
| "OrderIdempotencyState_value OrderIdempotencyState.REJECTED = ''rejected''"
| "OrderIdempotencyState_value OrderIdempotencyState.UNKNOWN = ''unknown''"

primrec OrderThrottleScopeType_value :: "OrderThrottleScopeType \<Rightarrow> string" where
  "OrderThrottleScopeType_value OrderThrottleScopeType.STRATEGY_INSTRUMENT = ''strategy_instrument''"
| "OrderThrottleScopeType_value OrderThrottleScopeType.ACCOUNT = ''account''"
| "OrderThrottleScopeType_value OrderThrottleScopeType.VENUE = ''venue''"

section \<open>Risk policy\<close>

record RiskPolicy =
  policy_id :: string
  policy_hash :: string
  name :: string
  paper_nav :: decimal
  max_order_notional_soft_pct :: decimal
  max_order_notional_hard_pct :: decimal
  max_instrument_exposure_soft_pct :: decimal
  max_instrument_exposure_hard_pct :: decimal
  max_strategy_exposure_soft_pct :: decimal
  max_strategy_exposure_hard_pct :: decimal
  max_total_spot_exposure_soft_pct :: decimal
  max_total_spot_exposure_hard_pct :: decimal
  min_cash_reserve_pct :: decimal
  price_collar_soft_bps :: decimal
  price_collar_hard_bps :: decimal
  max_daily_account_loss_soft_pct :: decimal
  max_daily_account_loss_hard_pct :: decimal
  max_daily_strategy_loss_soft_pct :: decimal
  max_daily_strategy_loss_hard_pct :: decimal
  max_drawdown_soft_pct :: decimal
  max_drawdown_hard_pct :: decimal
  max_participation_24h_quote_volume_soft_pct :: decimal
  max_participation_24h_quote_volume_hard_pct :: decimal
  max_participation_top_of_book_depth_soft_pct :: decimal
  max_participation_top_of_book_depth_hard_pct :: decimal
  max_spread_soft_bps :: decimal
  max_spread_hard_bps :: decimal
  max_volatility_envelope_soft_multiplier :: decimal
  max_volatility_envelope_hard_multiplier :: decimal
  tca_cost_slippage_soft_multiplier :: decimal
  tca_cost_slippage_hard_multiplier :: decimal
  requirement_ids :: "string list"

definition build_risk_policy_hash :: "digest \<Rightarrow> RiskPolicy \<Rightarrow> string" where
  "build_risk_policy_hash H p = H (PObj
     [(''max_instrument_exposure_hard_pct'', PDec (max_instrument_exposure_hard_pct p)),
      (''max_instrument_exposure_soft_pct'', PDec (max_instrument_exposure_soft_pct p)),
      (''max_order_notional_hard_pct'', PDec (max_order_notional_hard_pct p)),
      (''max_order_notional_soft_pct'', PDec (max_order_notional_soft_pct p)),
      (''max_daily_account_loss_hard_pct'', PDec (max_daily_account_loss_hard_pct p)),
      (''max_daily_account_loss_soft_pct'', PDec (max_daily_account_loss_soft_pct p)),
      (''max_daily_strategy_loss_hard_pct'', PDec (max_daily_strategy_loss_hard_pct p)),
      (''max_daily_strategy_loss_soft_pct'', PDec (max_daily_strategy_loss_soft_pct p)),
      (''max_drawdown_hard_pct'', PDec (max_drawdown_hard_pct p)),
      (''max_drawdown_soft_pct'', PDec (max_drawdown_soft_pct p)),
      (''max_participation_24h_quote_volume_hard_pct'', PDec (max_participation_24h_quote_volume_hard_pct p)),
      (''max_participation_24h_quote_volume_soft_pct'', PDec (max_participation_24h_quote_volume_soft_pct p)),
      (''max_participation_top_of_book_depth_hard_pct'', PDec (max_participation_top_of_book_depth_hard_pct p)),
      (''max_participation_top_of_book_depth_soft_pct'', PDec (max_participation_top_of_book_depth_soft_pct p)),
      (''max_spread_hard_bps'', PDec (max_spread_hard_bps p)),
      (''max_spread_soft_bps'', PDec (max_spread_soft_bps p)),
      (''max_strategy_exposure_hard_pct'', PDec (max_strategy_exposure_hard_pct p)),
      (''max_strategy_exposure_soft_pct'', PDec (max_strategy_exposure_soft_pct p)),
      (''max_total_spot_exposure_hard_pct'', PDec (max_total_spot_exposure_hard_pct p)),
      (''max_total_spot_exposure_soft_pct'', PDec (max_total_spot_exposure_soft_pct p)),
      (''max_volatility_envelope_hard_multiplier'', PDec (max_volatility_envelope_hard_multiplier p)),
      (''max_volatility_envelope_soft_multiplier'', PDec (max_volatility_envelope_soft_multiplier p)),
      (''min_cash_reserve_pct'', PDec (min_cash_reserve_pct p)),
      (''name'', PStr (RiskPolicy.name p)),
      (''paper_nav'', PDec (paper_nav p)),
      (''price_collar_hard_bps'', PDec (price_collar_hard_bps p)),
      (''price_collar_soft_bps'', PDec (price_collar_soft_bps p)),
      (''requirement_ids'', PStrs (RiskPolicy.requirement_ids p)),
      (''tca_cost_slippage_hard_multiplier'', PDec (tca_cost_slippage_hard_multiplier p)),
      (''tca_cost_slippage_soft_multiplier'', PDec (tca_cost_slippage_soft_multiplier p))])"

definition build_risk_policy_id :: "digest \<Rightarrow> string \<Rightarrow> string" where
  "build_risk_policy_id H h = stable_id H ''RISKPOLICY'' (PObj [(''policy_hash'', PStr h)])"

definition soft_above_hard :: "string \<Rightarrow> decimal \<Rightarrow> decimal \<Rightarrow> bool \<times> string" where
  "soft_above_hard label soft hard =
     (\<not> hard < soft, label @ '' soft threshold cannot exceed hard threshold'')"

definition risk_policy_fields :: "RiskPolicy \<Rightarrow> (bool \<times> string) list" where
  "risk_policy_fields p =
     [(canonical_id (policy_id p), ''policy_id''),
      (hex64 (policy_hash p), ''policy_hash''),
      (non_empty_string (RiskPolicy.name p), ''name''),
      (0 < paper_nav p, ''paper_nav''),
      (0 < max_order_notional_soft_pct p \<and> max_order_notional_soft_pct p \<le> 1, ''max_order_notional_soft_pct''),
      (0 < max_order_notional_hard_pct p \<and> max_order_notional_hard_pct p \<le> 1, ''max_order_notional_hard_pct''),
      (0 < max_instrument_exposure_soft_pct p \<and> max_instrument_exposure_soft_pct p \<le> 1, ''max_instrument_exposure_soft_pct''),
      (0 < max_instrument_exposure_hard_pct p \<and> max_instrument_exposure_hard_pct p \<le> 1, ''max_instrument_exposure_hard_pct''),
      (0 < max_strategy_exposure_soft_pct p \<and> max_strategy_exposure_soft_pct p \<le> 1, ''max_strategy_exposure_soft_pct''),
      (0 < max_strategy_exposure_hard_pct p \<and> max_strategy_exposure_hard_pct p \<le> 1, ''max_strategy_exposure_hard_pct''),
      (0 < max_total_spot_exposure_soft_pct p \<and> max_total_spot_exposure_soft_pct p \<le> 1, ''max_total_spot_exposure_soft_pct''),
      (0 < max_total_spot_exposure_hard_pct p \<and> max_total_spot_exposure_hard_pct p \<le> 1, ''max_total_spot_exposure_hard_pct''),
      (0 \<le> min_cash_reserve_pct p \<and> min_cash_reserve_pct p \<le> 1, ''min_cash_reserve_pct''),
      (0 < price_collar_soft_bps p, ''price_collar_soft_bps''),
      (0 < price_collar_hard_bps p, ''price_collar_hard_bps''),
      (0 < max_daily_account_loss_soft_pct p \<and> max_daily_account_loss_soft_pct p \<le> 1, ''max_daily_account_loss_soft_pct''),
      (0 < max_daily_account_loss_hard_pct p \<and> max_daily_account_loss_hard_pct p \<le> 1, ''max_daily_account_loss_hard_pct''),
      (0 < max_daily_strategy_loss_soft_pct p \<and> max_daily_strategy_loss_soft_pct p \<le> 1, ''max_daily_strategy_loss_soft_pct''),
      (0 < max_daily_strategy_loss_hard_pct p \<and> max_daily_strategy_loss_hard_pct p \<le> 1, ''max_daily_strategy_loss_hard_pct''),
      (0 < max_drawdown_soft_pct p \<and> max_drawdown_soft_pct p \<le> 1, ''max_drawdown_soft_pct''),
      (0 < max_drawdown_hard_pct p \<and> max_drawdown_hard_pct p \<le> 1, ''max_drawdown_hard_pct''),
      (0 < max_participation_24h_quote_volume_soft_pct p \<and> max_participation_24h_quote_volume_soft_pct p \<le> 1, ''max_participation_24h_quote_volume_soft_pct''),
      (0 < max_participation_24h_quote_volume_hard_pct p \<and> max_participation_24h_quote_volume_hard_pct p \<le> 1, ''max_participation_24h_quote_volume_hard_pct''),
      (0 < max_participation_top_of_book_depth_soft_pct p \<and> max_participation_top_of_book_depth_soft_pct p \<le> 1, ''max_participation_top_of_book_depth_soft_pct''),
      (0 < max_participation_top_of_book_depth_hard_pct p \<and> max_participation_top_of_book_depth_hard_pct p \<le> 1, ''max_participation_top_of_book_depth_hard_pct''),
      (0 < max_spread_soft_bps p, ''max_spread_soft_bps''),
      (0 < max_spread_hard_bps p, ''max_spread_hard_bps''),
      (0 < max_volatility_envelope_soft_multiplier p, ''max_volatility_envelope_soft_multiplier''),
      (0 < max_volatility_envelope_hard_multiplier p, ''max_volatility_envelope_hard_multiplier''),
      (0 < tca_cost_slippage_soft_multiplier p, ''tca_cost_slippage_soft_multiplier''),
      (0 < tca_cost_slippage_hard_multiplier p, ''tca_cost_slippage_hard_multiplier''),
      (list_all non_empty_string (RiskPolicy.requirement_ids p), ''requirement_ids'')]"

definition risk_policy_thresholds :: "RiskPolicy \<Rightarrow> (bool \<times> string) list" where
  "risk_policy_thresholds p =
     [soft_above_hard ''order notional'' (max_order_notional_soft_pct p) (max_order_notional_hard_pct p),
      soft_above_hard ''instrument exposure'' (max_instrument_exposure_soft_pct p) (max_instrument_exposure_hard_pct p),
      soft_above_hard ''strategy exposure'' (max_strategy_exposure_soft_pct p) (max_strategy_exposure_hard_pct p),
      soft_above_hard ''total spot exposure'' (max_total_spot_exposure_soft_pct p) (max_total_spot_exposure_hard_pct p),
      soft_above_hard ''price collar'' (price_collar_soft_bps p) (price_collar_hard_bps p),
      soft_above_hard ''daily account loss'' (max_daily_account_loss_soft_pct p) (max_daily_account_loss_hard_pct p),
      soft_above_hard ''daily strategy loss'' (max_daily_strategy_loss_soft_pct p) (max_daily_strategy_loss_hard_pct p),
      soft_above_hard ''max drawdown'' (max_drawdown_soft_pct p) (max_drawdown_hard_pct p),
      soft_above_hard ''24h quote-volume participation'' (max_participation_24h_quote_volume_soft_pct p) (max_participation_24h_quote_volume_hard_pct p),
      soft_above_hard ''top-of-book participation'' (max_participation_top_of_book_depth_soft_pct p) (max_participation_top_of_book_depth_hard_pct p),
      soft_above_hard ''spread'' (max_spread_soft_bps p) (max_spread_hard_bps p),
      soft_above_hard ''volatility envelope'' (max_volatility_envelope_soft_multiplier p) (max_volatility_envelope_hard_multiplier p),
      soft_above_hard ''TCA cost/slippage'' (tca_cost_slippage_soft_multiplier p) (tca_cost_slippage_hard_multiplier p)]"

definition construct_RiskPolicy :: "digest \<Rightarrow> RiskPolicy \<Rightarrow> RiskPolicy result" where
  "construct_RiskPolicy H p =
     (let expected = build_risk_policy_hash H p
      in checked (risk_policy_fields p @ risk_policy_thresholds p @
     [(policy_hash p = expected, ''risk policy_hash is not deterministic''),
      (policy_id p = build_risk_policy_id H expected, ''risk policy_id is not deterministic'')]) p)"

definition valid_policy :: "digest \<Rightarrow> RiskPolicy \<Rightarrow> bool" where
  "valid_policy H p \<longleftrightarrow> construct_RiskPolicy H p = Inr p"

definition default_policy_draft :: "decimal \<Rightarrow> string \<Rightarrow> RiskPolicy" where
  "default_policy_draft nav n =
     \<lparr>RiskPolicy.policy_id = ''RISKPOLICY:PLACEHOLDER'', policy_hash = zero_hash, name = n,
      paper_nav = nav,
      max_order_notional_soft_pct = Dec 1 (-2),
      max_order_notional_hard_pct = Dec 25 (-3),
      max_instrument_exposure_soft_pct = Dec 15 (-2),
      max_instrument_exposure_hard_pct = Dec 25 (-2),
      max_strategy_exposure_soft_pct = Dec 20 (-2),
      max_strategy_exposure_hard_pct = Dec 30 (-2),
      max_total_spot_exposure_soft_pct = Dec 45 (-2),
      max_total_spot_exposure_hard_pct = Dec 60 (-2),
      min_cash_reserve_pct = Dec 30 (-2),
      price_collar_soft_bps = Dec 50 0,
      price_collar_hard_bps = Dec 100 0,
      max_daily_account_loss_soft_pct = Dec 1 (-2),
      max_daily_account_loss_hard_pct = Dec 2 (-2),
      max_daily_strategy_loss_soft_pct = Dec 5 (-3),
      max_daily_strategy_loss_hard_pct = Dec 1 (-2),
      max_drawdown_soft_pct = Dec 5 (-2),
      max_drawdown_hard_pct = Dec 8 (-2),
      max_participation_24h_quote_volume_soft_pct = Dec 5 (-3),
      max_participation_24h_quote_volume_hard_pct = Dec 1 (-2),
      max_participation_top_of_book_depth_soft_pct = Dec 5 (-2),
      max_participation_top_of_book_depth_hard_pct = Dec 10 (-2),
      max_spread_soft_bps = Dec 25 0,
      max_spread_hard_bps = Dec 50 0,
      max_volatility_envelope_soft_multiplier = Dec 2 0,
      max_volatility_envelope_hard_multiplier = Dec 3 0,
      tca_cost_slippage_soft_multiplier = Dec 2 0,
      tca_cost_slippage_hard_multiplier = Dec 3 0,
      requirement_ids = [''FR-010'', ''FR-011'', ''NFR-004'']\<rparr>"

definition make_default_risk_policy :: "digest \<Rightarrow> decimal \<Rightarrow> string \<Rightarrow> RiskPolicy result" where
  "make_default_risk_policy H nav n =
     (let draft = default_policy_draft nav n; h = build_risk_policy_hash H draft
      in construct_RiskPolicy H (draft\<lparr>policy_id := build_risk_policy_id H h, policy_hash := h\<rparr>))"


section \<open>Kill switch\<close>

record KillSwitchScope =
  scope_type :: KillSwitchScopeType
  scope_id :: "string option"

definition construct_KillSwitchScope :: "KillSwitchScope \<Rightarrow> KillSwitchScope result" where
  "construct_KillSwitchScope s = checked
     [(opt_all canonical_id (KillSwitchScope.scope_id s), ''scope_id''),
      (\<not> (KillSwitchScope.scope_type s = GLOBAL \<and> KillSwitchScope.scope_id s \<noteq> None),
        ''global kill-switch scope must not set scope_id''),
      (\<not> (KillSwitchScope.scope_type s \<noteq> GLOBAL \<and> KillSwitchScope.scope_id s = None),
        ''non-global kill-switch scope requires scope_id'')] s"

definition KillSwitchScope_key :: "KillSwitchScope \<Rightarrow> KillSwitchScopeType \<times> string option" where
  "KillSwitchScope_key s = (KillSwitchScope.scope_type s, KillSwitchScope.scope_id s)"

record KillSwitchRecord =
  record_id :: string
  scope :: KillSwitchScope
  prior_state :: KillSwitchState
  new_state :: KillSwitchState
  actor :: string
  actor_role :: string
  transitioned_at :: datetime
  reason :: string
  cancel_open_orders :: bool
  source :: KillSwitchTransitionSource
  linked_incident_id :: "string option"
  requirement_ids :: "string list"

record KillSwitchSnapshot =
  snapshot_id :: string
  snapshot_hash :: string
  evaluated_at :: datetime
  evaluated_scopes :: "KillSwitchScope list"
  active_state :: KillSwitchState
  active_records :: "KillSwitchRecord list"
  store_available :: bool
  reason :: string
  requirement_ids :: "string list"

definition kill_switch_scope_json :: "KillSwitchScope \<Rightarrow> payload" where
  "kill_switch_scope_json s = PObj
     [(''scope_type'', PStr (KillSwitchScopeType_value (KillSwitchScope.scope_type s))),
      (''scope_id'', POpt PStr (KillSwitchScope.scope_id s))]"

definition kill_switch_record_json :: "KillSwitchRecord \<Rightarrow> payload" where
  "kill_switch_record_json r = PObj
     [(''record_id'', PStr (KillSwitchRecord.record_id r)),
      (''scope'', kill_switch_scope_json (KillSwitchRecord.scope r)),
      (''prior_state'', PStr (KillSwitchState_value (prior_state r))),
      (''new_state'', PStr (KillSwitchState_value (new_state r))),
      (''actor'', PStr (actor r)), (''actor_role'', PStr (actor_role r)),
      (''transitioned_at'', PJsonTime (transitioned_at r)),
      (''reason'', PStr (KillSwitchRecord.reason r)),
      (''cancel_open_orders'', PBool (cancel_open_orders r)),
      (''source'', PStr (KillSwitchTransitionSource_value (KillSwitchRecord.source r))),
      (''linked_incident_id'', POpt PStr (linked_incident_id r)),
      (''requirement_ids'', PStrs (KillSwitchRecord.requirement_ids r))]"

definition build_kill_switch_record_id :: "digest \<Rightarrow> KillSwitchRecord \<Rightarrow> string" where
  "build_kill_switch_record_id H r = stable_id H ''KILLRECORD'' (PObj
     [(''actor'', PStr (actor r)),
      (''actor_role'', PStr (actor_role r)),
      (''cancel_open_orders'', PBool (cancel_open_orders r)),
      (''linked_incident_id'', POpt PStr (linked_incident_id r)),
      (''new_state'', PStr (KillSwitchState_value (new_state r))),
      (''prior_state'', PStr (KillSwitchState_value (prior_state r))),
      (''reason'', PStr (KillSwitchRecord.reason r)),
      (''scope'', kill_switch_scope_json (KillSwitchRecord.scope r)),
      (''source'', PStr (KillSwitchTransitionSource_value (KillSwitchRecord.source r))),
      (''transitioned_at'', PIso (transitioned_at r))])"

definition construct_KillSwitchRecord :: "digest \<Rightarrow> KillSwitchRecord \<Rightarrow> KillSwitchRecord result" where
  "construct_KillSwitchRecord H r = checked
     [(canonical_id (KillSwitchRecord.record_id r), ''record_id''),
      (construct_KillSwitchScope (KillSwitchRecord.scope r) = Inr (KillSwitchRecord.scope r), ''scope''),
      (non_empty_string (actor r), ''actor''),
      (non_empty_string (actor_role r), ''actor_role''),
      (non_empty_string (KillSwitchRecord.reason r), ''reason''),
      (opt_all canonical_id (linked_incident_id r), ''linked_incident_id''),
      (list_all non_empty_string (KillSwitchRecord.requirement_ids r), ''requirement_ids''),
      (KillSwitchRecord.record_id r = build_kill_switch_record_id H r,
        ''kill-switch record_id is not deterministic'')] r"

definition make_kill_switch_record :: "digest \<Rightarrow> KillSwitchScope \<Rightarrow> KillSwitchState \<Rightarrow> KillSwitchState \<Rightarrow>
    string \<Rightarrow> string \<Rightarrow> datetime \<Rightarrow> string \<Rightarrow> bool \<Rightarrow> KillSwitchTransitionSource \<Rightarrow> string option \<Rightarrow>
    KillSwitchRecord result" where
  "make_kill_switch_record H sc prior new act role at_ts why cancel src incident =
     (let draft = \<lparr>KillSwitchRecord.record_id = ''KILLRECORD:PLACEHOLDER'', scope = sc,
            prior_state = prior, new_state = new, actor = act, actor_role = role,
            transitioned_at = at_ts, reason = why, cancel_open_orders = cancel, source = src,
            linked_incident_id = incident, requirement_ids = [''FR-011'', ''NFR-004'']\<rparr>
      in construct_KillSwitchRecord H
           (draft\<lparr>KillSwitchRecord.record_id := build_kill_switch_record_id H draft\<rparr>))"

definition build_kill_switch_snapshot_hash :: "digest \<Rightarrow> KillSwitchSnapshot \<Rightarrow> string" where
  "build_kill_switch_snapshot_hash H s = H (PObj
     [(''active_records'', PList (map kill_switch_record_json (active_records s))),
      (''active_state'', PStr (KillSwitchState_value (active_state s))),
      (''evaluated_at'', PIso (evaluated_at s)),
      (''evaluated_scopes'', PList (map kill_switch_scope_json (evaluated_scopes s))),
      (''reason'', PStr (KillSwitchSnapshot.reason s)),
      (''requirement_ids'', PStrs (KillSwitchSnapshot.requirement_ids s)),
      (''store_available'', PBool (store_available s))])"

definition build_kill_switch_snapshot_id :: "digest \<Rightarrow> string \<Rightarrow> string" where
  "build_kill_switch_snapshot_id H h = stable_id H ''KILLSNAPSHOT'' (PObj [(''snapshot_hash'', PStr h)])"

definition construct_KillSwitchSnapshot :: "digest \<Rightarrow> KillSwitchSnapshot \<Rightarrow> KillSwitchSnapshot result" where
  "construct_KillSwitchSnapshot H s =
     (let expected = build_kill_switch_snapshot_hash H s
      in checked
     [(canonical_id (KillSwitchSnapshot.snapshot_id s), ''snapshot_id''),
      (hex64 (snapshot_hash s), ''snapshot_hash''),
      (list_all (\<lambda>c. construct_KillSwitchScope c = Inr c) (evaluated_scopes s), ''evaluated_scopes''),
      (list_all (\<lambda>r. construct_KillSwitchRecord H r = Inr r) (active_records s), ''active_records''),
      (non_empty_string (KillSwitchSnapshot.reason s), ''reason''),
      (list_all non_empty_string (KillSwitchSnapshot.requirement_ids s), ''requirement_ids''),
      (\<not> (active_state s \<noteq> UNKNOWN_FAIL_CLOSED \<and> active_records s = []),
        ''non-unknown kill-switch snapshot requires an active record''),
      (snapshot_hash s = expected, ''kill-switch snapshot_hash is not deterministic''),
      (KillSwitchSnapshot.snapshot_id s = build_kill_switch_snapshot_id H expected,
        ''kill-switch snapshot_id is not deterministic'')] s)"

definition make_kill_switch_snapshot :: "digest \<Rightarrow> datetime \<Rightarrow> KillSwitchScope list \<Rightarrow> KillSwitchState \<Rightarrow>
    KillSwitchRecord list \<Rightarrow> bool \<Rightarrow> string \<Rightarrow> KillSwitchSnapshot result" where
  "make_kill_switch_snapshot H at_ts scopes st records avail why =
     (let draft = \<lparr>KillSwitchSnapshot.snapshot_id = ''KILLSNAPSHOT:PLACEHOLDER'', snapshot_hash = zero_hash,
            evaluated_at = at_ts, evaluated_scopes = scopes, active_state = st,
            active_records = records, store_available = avail, reason = why,
            requirement_ids = [''FR-011'', ''NFR-004'']\<rparr>;
          h = build_kill_switch_snapshot_hash H draft
      in construct_KillSwitchSnapshot H
           (draft\<lparr>KillSwitchSnapshot.snapshot_id := build_kill_switch_snapshot_id H h, snapshot_hash := h\<rparr>))"

definition make_unknown_kill_switch_snapshot :: "digest \<Rightarrow> datetime \<Rightarrow> KillSwitchScope list \<Rightarrow> bool \<Rightarrow> string \<Rightarrow>
    KillSwitchSnapshot result" where
  "make_unknown_kill_switch_snapshot H at_ts scopes avail why =
     make_kill_switch_snapshot H at_ts scopes UNKNOWN_FAIL_CLOSED [] avail why"


section \<open>Order effects, limit evaluations and telemetry\<close>

record OrderEffect =
  side :: OrderSide
  quantity :: decimal
  reference_price :: decimal
  proposed_notional :: decimal
  resulting_position_quantity :: decimal
  resulting_position_notional :: decimal
  resulting_cash :: decimal
  resulting_instrument_exposure_notional :: decimal
  resulting_strategy_exposure_notional :: decimal
  resulting_total_spot_exposure_notional :: decimal
  cash_reserve_pct :: decimal
  risk_increasing :: bool

definition construct_OrderEffect :: "OrderEffect \<Rightarrow> OrderEffect result" where
  "construct_OrderEffect f = checked
     [(0 < OrderEffect.quantity f, ''quantity''),
      (0 < OrderEffect.reference_price f, ''reference_price''),
      (0 \<le> proposed_notional f, ''proposed_notional''),
      (0 \<le> resulting_position_notional f, ''resulting_position_notional''),
      (0 \<le> resulting_instrument_exposure_notional f, ''resulting_instrument_exposure_notional''),
      (0 \<le> resulting_strategy_exposure_notional f, ''resulting_strategy_exposure_notional''),
      (0 \<le> resulting_total_spot_exposure_notional f, ''resulting_total_spot_exposure_notional'')] f"

record RiskLimitEvaluation =
  limit_id :: string
  owner :: string
  status :: RiskLimitStatus
  passed :: bool
  current_value :: decimal
  soft_threshold :: "decimal option"
  hard_threshold :: "decimal option"
  capped_value :: "decimal option"
  reason_code :: RiskReasonCode

definition construct_RiskLimitEvaluation :: "RiskLimitEvaluation \<Rightarrow> RiskLimitEvaluation result" where
  "construct_RiskLimitEvaluation e = checked
     [(non_empty_string (limit_id e), ''limit_id''),
      (non_empty_string (owner e), ''owner''),
      (RiskLimitEvaluation.passed e = (RiskLimitEvaluation.status e = PASS),
        ''risk limit passed flag must match pass status''),
      (\<not> (RiskLimitEvaluation.status e = PASS \<and> reason_code e \<noteq> PASSED),
        ''passing risk limit evaluations must use passed reason code''),
      (\<not> (RiskLimitEvaluation.status e \<noteq> PASS \<and> reason_code e = PASSED),
        ''breached risk limit evaluations require a non-passed reason code'')] e"

record OrderIdempotencyRecord =
  record_id :: string
  idempotency_key :: string
  client_order_id :: string
  trace_id :: string
  order_intent_hash :: string
  state :: OrderIdempotencyState
  first_seen_at :: datetime
  updated_at :: datetime
  owner :: string
  requirement_ids :: "string list"

definition build_order_idempotency_record_id :: "digest \<Rightarrow> OrderIdempotencyRecord \<Rightarrow> string" where
  "build_order_idempotency_record_id H r = stable_id H ''IDEMPOTENCY'' (PObj
     [(''client_order_id'', PStr (OrderIdempotencyRecord.client_order_id r)),
      (''first_seen_at'', PIso (first_seen_at r)),
      (''idempotency_key'', PStr (OrderIdempotencyRecord.idempotency_key r)),
      (''order_intent_hash'', PStr (order_intent_hash r)),
      (''state'', PStr (OrderIdempotencyState_value (state r))),
      (''trace_id'', PStr (OrderIdempotencyRecord.trace_id r)),
      (''updated_at'', PIso (updated_at r))])"

definition construct_OrderIdempotencyRecord :: "digest \<Rightarrow> OrderIdempotencyRecord \<Rightarrow> OrderIdempotencyRecord result" where
  "construct_OrderIdempotencyRecord H r = checked
     [(canonical_id (OrderIdempotencyRecord.record_id r), ''record_id''),
      (non_empty_string (OrderIdempotencyRecord.idempotency_key r), ''idempotency_key''),
      (canonical_id (OrderIdempotencyRecord.client_order_id r), ''client_order_id''),
      (canonical_id (OrderIdempotencyRecord.trace_id r), ''trace_id''),
      (hex64 (order_intent_hash r), ''order_intent_hash''),
      (non_empty_string (OrderIdempotencyRecord.owner r), ''owner''),
      (list_all non_empty_string (OrderIdempotencyRecord.requirement_ids r), ''requirement_ids''),
      (\<not> updated_at r < first_seen_at r, ''idempotency updated_at must not precede first_seen_at''),
      (OrderIdempotencyRecord.record_id r = build_order_idempotency_record_id H r,
        ''idempotency record_id is not deterministic'')] r"

definition make_order_idempotency_record :: "digest \<Rightarrow> string \<Rightarrow> string \<Rightarrow> string \<Rightarrow> string \<Rightarrow>
    OrderIdempotencyState \<Rightarrow> datetime \<Rightarrow> datetime \<Rightarrow> OrderIdempotencyRecord result" where
  "make_order_idempotency_record H key client trace h st seen updated =
     (let draft = \<lparr>OrderIdempotencyRecord.record_id = ''IDEMPOTENCY:PLACEHOLDER'', idempotency_key = key,
            client_order_id = client, trace_id = trace, order_intent_hash = h, state = st,
            first_seen_at = seen, updated_at = updated, owner = ''Execution / risk'',
            requirement_ids = [''FR-010'', ''NFR-004'']\<rparr>
      in construct_OrderIdempotencyRecord H
           (draft\<lparr>OrderIdempotencyRecord.record_id := build_order_idempotency_record_id H draft\<rparr>))"

record OrderThrottleWindow =
  scope_type :: OrderThrottleScopeType
  scope_id :: string
  observed_intent_count :: int
  soft_limit :: int
  hard_limit :: int
  window_started_at :: datetime
  window_seconds :: int
  owner :: string
  requirement_ids :: "string list"

definition construct_OrderThrottleWindow :: "OrderThrottleWindow \<Rightarrow> OrderThrottleWindow result" where
  "construct_OrderThrottleWindow w = checked
     [(canonical_id (OrderThrottleWindow.scope_id w), ''scope_id''),
      (0 \<le> observed_intent_count w, ''observed_intent_count''),
      (0 < OrderThrottleWindow.soft_limit w, ''soft_limit''),
      (0 < OrderThrottleWindow.hard_limit w, ''hard_limit''),
      (0 < OrderThrottleWindow.window_seconds w, ''window_seconds''),
      (non_empty_string (OrderThrottleWindow.owner w), ''owner''),
      (list_all non_empty_string (OrderThrottleWindow.requirement_ids w), ''requirement_ids''),
      (\<not> OrderThrottleWindow.hard_limit w < OrderThrottleWindow.soft_limit w,
        ''order throttle soft_limit cannot exceed hard_limit'')] w"

record PriceRiskTelemetry =
  reference_price_available :: bool
  price_deviation_bps :: decimal

record LossRiskTelemetry =
  daily_account_pnl :: decimal
  daily_strategy_pnl :: decimal
  max_drawdown_pct :: decimal

record LiquidityRiskTelemetry =
  rolling_24h_quote_volume_notional :: "decimal option"
  top_of_book_depth_notional :: "decimal option"
  depth_metric_required :: bool
  current_spread_bps :: "decimal option"
  spread_cost_model_envelope_bps :: "decimal option"

record MarketRiskTelemetry =
  volatility_envelope_available :: bool
  volatility_envelope_multiplier :: "decimal option"
  volatility_shock_active :: bool

record ExecutionRejectBurstWindow =
  scope_id :: string
  observed_reject_count :: int
  soft_limit :: int
  hard_limit :: int
  window_started_at :: datetime
  window_seconds :: int
  unknown_state_reject_observed :: bool
  owner :: string
  requirement_ids :: "string list"

record EngineLatencyTelemetry =
  latency_budget_ms :: decimal
  risk_to_gateway_latency_ms :: decimal
  event_time_validity_proven :: bool

record ModelRiskTelemetry =
  sustained_drift_detected :: bool
  severe_anomaly_detected :: bool
  calibrated_outputs :: bool

record TcaRiskTelemetry =
  tca_available :: bool
  fill_quality_known :: bool
  cost_slippage_multiplier :: "decimal option"

text \<open>The telemetry objects built with no arguments.\<close>

definition default_price_risk :: PriceRiskTelemetry where
  "default_price_risk = \<lparr>reference_price_available = True, price_deviation_bps = Dec 0 0\<rparr>"

definition default_loss_risk :: LossRiskTelemetry where
  "default_loss_risk = \<lparr>daily_account_pnl = Dec 0 0, daily_strategy_pnl = Dec 0 0,
     max_drawdown_pct = Dec 0 0\<rparr>"

definition default_liquidity_risk :: LiquidityRiskTelemetry where
  "default_liquidity_risk = \<lparr>rolling_24h_quote_volume_notional = None,
     top_of_book_depth_notional = None, depth_metric_required = False,
     current_spread_bps = Some (Dec 0 0), spread_cost_model_envelope_bps = None\<rparr>"

definition default_market_risk :: MarketRiskTelemetry where
  "default_market_risk = \<lparr>volatility_envelope_available = True,
     volatility_envelope_multiplier = Some (Dec 1 0), volatility_shock_active = False\<rparr>"

definition default_engine_latency :: EngineLatencyTelemetry where
  "default_engine_latency = \<lparr>latency_budget_ms = Dec 60000 0, risk_to_gateway_latency_ms = Dec 0 0,
     event_time_validity_proven = True\<rparr>"

definition default_model_risk :: ModelRiskTelemetry where
  "default_model_risk = \<lparr>sustained_drift_detected = False, severe_anomaly_detected = False,
     calibrated_outputs = True\<rparr>"

definition default_tca_risk :: TcaRiskTelemetry where
  "default_tca_risk = \<lparr>tca_available = True, fill_quality_known = True,
     cost_slippage_multiplier = Some (Dec 1 0)\<rparr>"

definition valid_price_risk :: "PriceRiskTelemetry \<Rightarrow> bool" where
  "valid_price_risk t \<longleftrightarrow> 0 \<le> price_deviation_bps t"

definition valid_loss_risk :: "LossRiskTelemetry \<Rightarrow> bool" where
  "valid_loss_risk t \<longleftrightarrow> 0 \<le> LossRiskTelemetry.max_drawdown_pct t"

definition valid_liquidity_risk :: "LiquidityRiskTelemetry \<Rightarrow> bool" where
  "valid_liquidity_risk t \<longleftrightarrow> opt_all (\<lambda>v. 0 < v) (rolling_24h_quote_volume_notional t)
     \<and> opt_all (\<lambda>v. 0 < v) (top_of_book_depth_notional t)
     \<and> opt_all (\<lambda>v. 0 \<le> v) (current_spread_bps t)
     \<and> opt_all (\<lambda>v. 0 \<le> v) (spread_cost_model_envelope_bps t)"

definition valid_market_risk :: "MarketRiskTelemetry \<Rightarrow> bool" where
  "valid_market_risk t \<longleftrightarrow> opt_all (\<lambda>v. 0 \<le> v) (volatility_envelope_multiplier t)"

definition construct_ExecutionRejectBurstWindow ::
  "ExecutionRejectBurstWindow \<Rightarrow> ExecutionRejectBurstWindow result" where
  "construct_ExecutionRejectBurstWindow w = checked
     [(canonical_id (ExecutionRejectBurstWindow.scope_id w), ''scope_id''),
      (0 \<le> observed_reject_count w, ''observed_reject_count''),
      (0 < ExecutionRejectBurstWindow.soft_limit w, ''soft_limit''),
      (0 < ExecutionRejectBurstWindow.hard_limit w, ''hard_limit''),
      (0 < ExecutionRejectBurstWindow.window_seconds w, ''window_seconds''),
      (non_empty_string (ExecutionRejectBurstWindow.owner w), ''owner''),
      (list_all non_empty_string (ExecutionRejectBurstWindow.requirement_ids w), ''requirement_ids''),
      (\<not> ExecutionRejectBurstWindow.hard_limit w < ExecutionRejectBurstWindow.soft_limit w,
        ''reject burst soft_limit cannot exceed hard_limit'')] w"

definition valid_engine_latency :: "EngineLatencyTelemetry \<Rightarrow> bool" where
  "valid_engine_latency t \<longleftrightarrow> 0 < latency_budget_ms t \<and> 0 \<le> risk_to_gateway_latency_ms t"

definition valid_tca_risk :: "TcaRiskTelemetry \<Rightarrow> bool" where
  "valid_tca_risk t \<longleftrightarrow> opt_all (\<lambda>v. 0 \<le> v) (cost_slippage_multiplier t)"

section \<open>Risk-check requests\<close>

record RiskCheckRequest =
  request_id :: string
  request_hash :: string
  run_id :: string
  trace_id :: string
  source_decision_id :: string
  decision_ts :: datetime
  risk_check_ts :: datetime
  strategy_version :: string
  account_id :: string
  order_intent :: OrderIntent
  idempotency_key :: string
  reference_price :: decimal
  account_equity :: decimal
  current_cash :: decimal
  current_instrument_position_quantity :: decimal
  current_instrument_exposure_notional :: decimal
  current_strategy_exposure_notional :: decimal
  current_total_spot_exposure_notional :: decimal
  instrument_master_snapshot :: InstrumentMasterSnapshot
  kill_switch_snapshot :: KillSwitchSnapshot
  price_risk :: PriceRiskTelemetry
  loss_risk :: LossRiskTelemetry
  liquidity_risk :: LiquidityRiskTelemetry
  market_risk :: MarketRiskTelemetry
  engine_latency :: EngineLatencyTelemetry
  model_risk :: ModelRiskTelemetry
  tca_risk :: TcaRiskTelemetry
  data_health_signals :: "DataHealthSignal list"
  idempotency_records :: "OrderIdempotencyRecord list"
  throttle_windows :: "OrderThrottleWindow list"
  reject_burst_windows :: "ExecutionRejectBurstWindow list"
  requirement_ids :: "string list"

text \<open>\<open>_model_json\<close> of the embedded models, with their own field names.\<close>

definition order_intent_json :: "OrderIntent \<Rightarrow> payload" where
  "order_intent_json i = PObj
     [(''client_order_id'', PStr (OrderIntent.client_order_id i)),
      (''trace_id'', PStr (OrderIntent.trace_id i)),
      (''source_decision_id'', PStr (OrderIntent.source_decision_id i)),
      (''instrument_id'', PStr (OrderIntent.instrument_id i)),
      (''venue_id'', PStr (OrderIntent.venue_id i)),
      (''side'', PStr (OrderSide_value (OrderIntent.side i))),
      (''order_type'', PStr (OrderType_value (OrderIntent.order_type i))),
      (''quantity'', PDec (OrderIntent.quantity i)),
      (''submitted_at'', PJsonTime (OrderIntent.submitted_at i)),
      (''limit_price'', POpt PDec (OrderIntent.limit_price i))]"

definition build_order_intent_hash :: "digest \<Rightarrow> OrderIntent \<Rightarrow> string" where
  "build_order_intent_hash H i = H (order_intent_json i)"

definition stream_health_scope_json :: "StreamHealthScope \<Rightarrow> payload" where
  "stream_health_scope_json s = PObj
     [(''subscription_id'', PStr (StreamHealthScope.subscription_id s)),
      (''source_id'', PStr (StreamHealthScope.source_id s)),
      (''venue_id'', PStr (StreamHealthScope.venue_id s)),
      (''channel'', PStr (scope_channel_value (channel s))),
      (''instrument_id'', POpt PStr (StreamHealthScope.instrument_id s))]"

definition data_health_signal_json :: "DataHealthSignal \<Rightarrow> payload" where
  "data_health_signal_json g = PObj
     [(''signal_id'', PStr (signal_id g)),
      (''status'', PStr (DataHealthStatus_value (DataHealthSignal.status g))),
      (''reason_codes'', PList (map (\<lambda>c. PStr (DataHealthReasonCode_value c)) (DataHealthSignal.reason_codes g))),
      (''blocks_trading'', PBool (blocks_trading g)),
      (''blocked_instrument_id'', POpt PStr (blocked_instrument_id g)),
      (''source_health_event_id'', PStr (source_health_event_id g)),
      (''source_health_status'', PStr (StreamHealthStatus_value (source_health_status g))),
      (''source_scope'', stream_health_scope_json (source_scope g)),
      (''source_checks'', PList (map (\<lambda>c. PStr (StreamHealthCheck_value c)) (source_checks g))),
      (''source_metric_names'', PList (map (\<lambda>n. PStr (StreamHealthMetricName_value n)) (source_metric_names g))),
      (''evaluation_ts'', PJsonTime (DataHealthSignal.evaluation_ts g))]"

definition kill_switch_snapshot_json :: "KillSwitchSnapshot \<Rightarrow> payload" where
  "kill_switch_snapshot_json s = PObj
     [(''snapshot_id'', PStr (KillSwitchSnapshot.snapshot_id s)),
      (''snapshot_hash'', PStr (snapshot_hash s)),
      (''evaluated_at'', PJsonTime (evaluated_at s)),
      (''evaluated_scopes'', PList (map kill_switch_scope_json (evaluated_scopes s))),
      (''active_state'', PStr (KillSwitchState_value (active_state s))),
      (''active_records'', PList (map kill_switch_record_json (active_records s))),
      (''store_available'', PBool (store_available s)),
      (''reason'', PStr (KillSwitchSnapshot.reason s)),
      (''requirement_ids'', PStrs (KillSwitchSnapshot.requirement_ids s))]"

definition idempotency_record_json :: "OrderIdempotencyRecord \<Rightarrow> payload" where
  "idempotency_record_json r = PObj
     [(''record_id'', PStr (OrderIdempotencyRecord.record_id r)),
      (''idempotency_key'', PStr (OrderIdempotencyRecord.idempotency_key r)),
      (''client_order_id'', PStr (OrderIdempotencyRecord.client_order_id r)),
      (''trace_id'', PStr (OrderIdempotencyRecord.trace_id r)),
      (''order_intent_hash'', PStr (order_intent_hash r)),
      (''state'', PStr (OrderIdempotencyState_value (state r))),
      (''first_seen_at'', PJsonTime (first_seen_at r)),
      (''updated_at'', PJsonTime (updated_at r)),
      (''owner'', PStr (OrderIdempotencyRecord.owner r)),
      (''requirement_ids'', PStrs (OrderIdempotencyRecord.requirement_ids r))]"

definition throttle_window_json :: "OrderThrottleWindow \<Rightarrow> payload" where
  "throttle_window_json w = PObj
     [(''scope_type'', PStr (OrderThrottleScopeType_value (OrderThrottleWindow.scope_type w))),
      (''scope_id'', PStr (OrderThrottleWindow.scope_id w)),
      (''observed_intent_count'', PInt (observed_intent_count w)),
      (''soft_limit'', PInt (OrderThrottleWindow.soft_limit w)),
      (''hard_limit'', PInt (OrderThrottleWindow.hard_limit w)),
      (''window_started_at'', PJsonTime (OrderThrottleWindow.window_started_at w)),
      (''window_seconds'', PInt (OrderThrottleWindow.window_seconds w)),
      (''owner'', PStr (OrderThrottleWindow.owner w)),
      (''requirement_ids'', PStrs (OrderThrottleWindow.requirement_ids w))]"

definition reject_burst_window_json :: "ExecutionRejectBurstWindow \<Rightarrow> payload" where
  "reject_burst_window_json w = PObj
     [(''scope_id'', PStr (ExecutionRejectBurstWindow.scope_id w)),
      (''observed_reject_count'', PInt (observed_reject_count w)),
      (''soft_limit'', PInt (ExecutionRejectBurstWindow.soft_limit w)),
      (''hard_limit'', PInt (ExecutionRejectBurstWindow.hard_limit w)),
      (''window_started_at'', PJsonTime (ExecutionRejectBurstWindow.window_started_at w)),
      (''window_seconds'', PInt (ExecutionRejectBurstWindow.window_seconds w)),
      (''unknown_state_reject_observed'', PBool (unknown_state_reject_observed w)),
      (''owner'', PStr (ExecutionRejectBurstWindow.owner w)),
      (''requirement_ids'', PStrs (ExecutionRejectBurstWindow.requirement_ids w))]"

definition price_risk_json :: "PriceRiskTelemetry \<Rightarrow> payload" where
  "price_risk_json t = PObj
     [(''reference_price_available'', PBool (reference_price_available t)),
      (''price_deviation_bps'', PDec (price_deviation_bps t))]"

definition loss_risk_json :: "LossRiskTelemetry \<Rightarrow> payload" where
  "loss_risk_json t = PObj
     [(''daily_account_pnl'', PDec (daily_account_pnl t)),
      (''daily_strategy_pnl'', PDec (daily_strategy_pnl t)),
      (''max_drawdown_pct'', PDec (LossRiskTelemetry.max_drawdown_pct t))]"

definition liquidity_risk_json :: "LiquidityRiskTelemetry \<Rightarrow> payload" where
  "liquidity_risk_json t = PObj
     [(''rolling_24h_quote_volume_notional'', POpt PDec (rolling_24h_quote_volume_notional t)),
      (''top_of_book_depth_notional'', POpt PDec (top_of_book_depth_notional t)),
      (''depth_metric_required'', PBool (depth_metric_required t)),
      (''current_spread_bps'', POpt PDec (current_spread_bps t)),
      (''spread_cost_model_envelope_bps'', POpt PDec (spread_cost_model_envelope_bps t))]"

definition market_risk_json :: "MarketRiskTelemetry \<Rightarrow> payload" where
  "market_risk_json t = PObj
     [(''volatility_envelope_available'', PBool (volatility_envelope_available t)),
      (''volatility_envelope_multiplier'', POpt PDec (volatility_envelope_multiplier t)),
      (''volatility_shock_active'', PBool (volatility_shock_active t))]"

definition engine_latency_json :: "EngineLatencyTelemetry \<Rightarrow> payload" where
  "engine_latency_json t = PObj
     [(''latency_budget_ms'', PDec (latency_budget_ms t)),
      (''risk_to_gateway_latency_ms'', PDec (risk_to_gateway_latency_ms t)),
      (''event_time_validity_proven'', PBool (event_time_validity_proven t))]"

definition model_risk_json :: "ModelRiskTelemetry \<Rightarrow> payload" where
  "model_risk_json t = PObj
     [(''sustained_drift_detected'', PBool (sustained_drift_detected t)),
      (''severe_anomaly_detected'', PBool (severe_anomaly_detected t)),
      (''calibrated_outputs'', PBool (calibrated_outputs t))]"

definition tca_risk_json :: "TcaRiskTelemetry \<Rightarrow> payload" where
  "tca_risk_json t = PObj
     [(''tca_available'', PBool (tca_available t)),
      (''fill_quality_known'', PBool (fill_quality_known t)),
      (''cost_slippage_multiplier'', POpt PDec (cost_slippage_multiplier t))]"


definition sorted_values :: "('a \<Rightarrow> string) \<Rightarrow> 'a set \<Rightarrow> payload" where
  "sorted_values f xs = PStrs (sorted_list_of_set (f ` xs))"

definition instrument_master_risk_payload :: "InstrumentMasterSnapshot \<Rightarrow> payload" where
  "instrument_master_risk_payload s = PObj
     [(''accounts'', PList (map (\<lambda>a. PObj
         [(''account_id'', PStr (Account.account_id a)),
          (''account_type'', PStr (AccountType_value (account_type a))),
          (''derivatives_enabled'', PBool (derivatives_enabled a)),
          (''live_capital_enabled'', PBool (live_capital_enabled a)),
          (''margin_enabled'', PBool (margin_enabled a)),
          (''risk_limits'', PObj
            [(''max_drawdown_pct'', PDec (AccountRiskLimits.max_drawdown_pct (risk_limits a))),
             (''max_instrument_exposure_pct'', PDec (max_instrument_exposure_pct (risk_limits a))),
             (''max_order_notional_pct'', PDec (max_order_notional_pct (risk_limits a))),
             (''max_strategy_exposure_pct'', PDec (max_strategy_exposure_pct (risk_limits a))),
             (''max_total_spot_exposure_pct'', PDec (max_total_spot_exposure_pct (risk_limits a))),
             (''min_cash_reserve_pct'', PDec (AccountRiskLimits.min_cash_reserve_pct (risk_limits a)))]),
          (''shorting_enabled'', PBool (shorting_enabled a)),
          (''status'', PStr (AccountStatus_value (Account.status a))),
          (''trading_permissions'', sorted_values TradingPermission_value (trading_permissions a)),
          (''venue_id'', PStr (Account.venue_id a))])
        (sort_key Account.account_id (accounts s)))),
      (''created_at'', PIso (created_at s)),
      (''instrument_constraints'', PList (map (\<lambda>c. PObj
         [(''constraint_id'', PStr (InstrumentConstraint.constraint_id c)),
          (''effective_from'', PIso (InstrumentConstraint.effective_from c)),
          (''effective_to'', POpt PIso (InstrumentConstraint.effective_to c)),
          (''instrument_id'', PStr (InstrumentConstraint.instrument_id c)),
          (''lot_size'', PDec (InstrumentConstraint.lot_size c)),
          (''max_order_notional'', POpt PDec (max_order_notional c)),
          (''max_order_quantity'', POpt PDec (max_order_quantity c)),
          (''min_notional'', PDec (InstrumentConstraint.min_notional c)),
          (''min_order_quantity'', POpt PDec (min_order_quantity c)),
          (''tick_size'', PDec (InstrumentConstraint.tick_size c))])
        (sort_key InstrumentConstraint.constraint_id (instrument_constraints s)))),
      (''instruments'', PList (map (\<lambda>i. PObj
         [(''instrument_id'', PStr (Instrument.instrument_id i)),
          (''instrument_type'', PStr (InstrumentType_value (instrument_type i))),
          (''is_derivative'', PBool (is_derivative i)),
          (''leverage_allowed'', PBool (leverage_allowed i)),
          (''lot_size'', PDec (Instrument.lot_size i)),
          (''margin_allowed'', PBool (margin_allowed i)),
          (''min_notional'', PDec (Instrument.min_notional i)),
          (''short_selling_allowed'', PBool (short_selling_allowed i)),
          (''status'', PStr (InstrumentStatus_value (Instrument.status i))),
          (''supported_order_types'', sorted_values OrderType_value (Instrument.supported_order_types i)),
          (''tick_size'', PDec (Instrument.tick_size i)),
          (''venue_id'', PStr (Instrument.venue_id i))])
        (sort_key Instrument.instrument_id (instruments s)))),
      (''snapshot_id'', PStr (InstrumentMasterSnapshot.snapshot_id s)),
      (''venues'', PList (map (\<lambda>v. PObj
         [(''status'', PStr (VenueStatus_value (Venue.status v))),
          (''supported_order_types'', sorted_values OrderType_value (Venue.supported_order_types v)),
          (''venue_id'', PStr (Venue.venue_id v))])
        (sort_key Venue.venue_id (venues s))))]"

definition build_risk_check_request_hash :: "digest \<Rightarrow> RiskCheckRequest \<Rightarrow> string" where
  "build_risk_check_request_hash H r = H (PObj
     [(''account_equity'', PDec (account_equity r)),
      (''account_id'', PStr (RiskCheckRequest.account_id r)),
      (''current_cash'', PDec (current_cash r)),
      (''current_instrument_exposure_notional'', PDec (current_instrument_exposure_notional r)),
      (''current_instrument_position_quantity'', PDec (current_instrument_position_quantity r)),
      (''current_strategy_exposure_notional'', PDec (current_strategy_exposure_notional r)),
      (''current_total_spot_exposure_notional'', PDec (current_total_spot_exposure_notional r)),
      (''data_health_signals'', PList (map data_health_signal_json (data_health_signals r))),
      (''decision_ts'', PIso (decision_ts r)),
      (''idempotency_key'', PStr (RiskCheckRequest.idempotency_key r)),
      (''idempotency_records'', PList (map idempotency_record_json (idempotency_records r))),
      (''engine_latency'', engine_latency_json (engine_latency r)),
      (''instrument_master_snapshot'', instrument_master_risk_payload (instrument_master_snapshot r)),
      (''kill_switch_snapshot'', kill_switch_snapshot_json (kill_switch_snapshot r)),
      (''liquidity_risk'', liquidity_risk_json (liquidity_risk r)),
      (''loss_risk'', loss_risk_json (loss_risk r)),
      (''market_risk'', market_risk_json (market_risk r)),
      (''model_risk'', model_risk_json (model_risk r)),
      (''order_intent'', order_intent_json (order_intent r)),
      (''price_risk'', price_risk_json (price_risk r)),
      (''reference_price'', PDec (RiskCheckRequest.reference_price r)),
      (''reject_burst_windows'', PList (map reject_burst_window_json (reject_burst_windows r))),
      (''requirement_ids'', PStrs (RiskCheckRequest.requirement_ids r)),
      (''risk_check_ts'', PIso (risk_check_ts r)),
      (''run_id'', PStr (RiskCheckRequest.run_id r)),
      (''source_decision_id'', PStr (RiskCheckRequest.source_decision_id r)),
      (''strategy_version'', PStr (strategy_version r)),
      (''tca_risk'', tca_risk_json (tca_risk r)),
      (''throttle_windows'', PList (map throttle_window_json (throttle_windows r))),
      (''trace_id'', PStr (RiskCheckRequest.trace_id r))])"

definition build_risk_check_request_id :: "digest \<Rightarrow> string \<Rightarrow> string" where
  "build_risk_check_request_id H h = stable_id H ''RISKREQUEST'' (PObj [(''request_hash'', PStr h)])"

text \<open>The field checks: the request's own fields, then those of the objects it embeds.\<close>

definition risk_request_fields :: "digest \<Rightarrow> RiskCheckRequest \<Rightarrow> (bool \<times> string) list" where
  "risk_request_fields H r =
     [(canonical_id (request_id r), ''request_id''),
      (hex64 (request_hash r), ''request_hash''),
      (canonical_id (RiskCheckRequest.run_id r), ''run_id''),
      (canonical_id (RiskCheckRequest.trace_id r), ''trace_id''),
      (canonical_id (RiskCheckRequest.source_decision_id r), ''source_decision_id''),
      (non_empty_string (strategy_version r), ''strategy_version''),
      (canonical_id (RiskCheckRequest.account_id r), ''account_id''),
      (valid_OrderIntent (order_intent r), ''order_intent''),
      (non_empty_string (RiskCheckRequest.idempotency_key r), ''idempotency_key''),
      (0 < RiskCheckRequest.reference_price r, ''reference_price''),
      (0 < account_equity r, ''account_equity''),
      (0 \<le> current_cash r, ''current_cash''),
      (0 \<le> current_instrument_position_quantity r, ''current_instrument_position_quantity''),
      (0 \<le> current_instrument_exposure_notional r, ''current_instrument_exposure_notional''),
      (0 \<le> current_strategy_exposure_notional r, ''current_strategy_exposure_notional''),
      (0 \<le> current_total_spot_exposure_notional r, ''current_total_spot_exposure_notional''),
      (construct_KillSwitchSnapshot H (kill_switch_snapshot r) = Inr (kill_switch_snapshot r),
        ''kill_switch_snapshot''),
      (valid_price_risk (price_risk r), ''price_risk''),
      (valid_loss_risk (loss_risk r), ''loss_risk''),
      (valid_liquidity_risk (liquidity_risk r), ''liquidity_risk''),
      (valid_market_risk (market_risk r), ''market_risk''),
      (valid_engine_latency (engine_latency r), ''engine_latency''),
      (valid_tca_risk (tca_risk r), ''tca_risk''),
      (list_all (\<lambda>g. construct_DataHealthSignal g = Inr g) (data_health_signals r),
        ''data_health_signals''),
      (list_all (\<lambda>x. construct_OrderIdempotencyRecord H x = Inr x) (idempotency_records r),
        ''idempotency_records''),
      (list_all (\<lambda>w. construct_OrderThrottleWindow w = Inr w) (throttle_windows r),
        ''throttle_windows''),
      (list_all (\<lambda>w. construct_ExecutionRejectBurstWindow w = Inr w) (reject_burst_windows r),
        ''reject_burst_windows''),
      (list_all non_empty_string (RiskCheckRequest.requirement_ids r), ''requirement_ids'')]"

definition construct_RiskCheckRequest :: "digest \<Rightarrow> RiskCheckRequest \<Rightarrow> RiskCheckRequest result" where
  "construct_RiskCheckRequest H r =
     (let expected = build_risk_check_request_hash H r; i = order_intent r
      in checked (risk_request_fields H r @
     [(\<not> risk_check_ts r < decision_ts r, ''risk_check_ts must not precede decision_ts''),
      (RiskCheckRequest.trace_id r = OrderIntent.trace_id i,
        ''risk-check trace_id must match order intent trace_id''),
      (RiskCheckRequest.source_decision_id r = OrderIntent.source_decision_id i,
        ''source_decision_id must match order intent source_decision_id''),
      (\<not> OrderIntent.submitted_at i < decision_ts r,
        ''order intent submitted_at must not precede decision_ts''),
      (OrderIntent.instrument_id i
          \<in> Instrument.instrument_id ` set (instruments (instrument_master_snapshot r)),
        ''order intent instrument_id must exist in instrument master snapshot''),
      (request_hash r = expected, ''risk-check request_hash is not deterministic''),
      (request_id r = build_risk_check_request_id H expected,
        ''risk-check request_id is not deterministic'')]) r)"

definition valid_request :: "digest \<Rightarrow> RiskCheckRequest \<Rightarrow> bool" where
  "valid_request H r \<longleftrightarrow> construct_RiskCheckRequest H r = Inr r"

definition optional_arg :: "'a option \<Rightarrow> 'a \<Rightarrow> 'a" where
  "optional_arg x d = (case x of Some y \<Rightarrow> y | None \<Rightarrow> d)"

text \<open>
  The arguments of \<open>make_risk_check_request\<close>: the required ones and those with plain
  defaults as the fields of \<open>args\<close>, the optional telemetry and key as options.
\<close>

definition make_risk_check_request :: "digest \<Rightarrow> RiskCheckRequest \<Rightarrow> PriceRiskTelemetry option \<Rightarrow>
    LossRiskTelemetry option \<Rightarrow> LiquidityRiskTelemetry option \<Rightarrow> MarketRiskTelemetry option \<Rightarrow>
    EngineLatencyTelemetry option \<Rightarrow> ModelRiskTelemetry option \<Rightarrow> TcaRiskTelemetry option \<Rightarrow>
    string option \<Rightarrow> RiskCheckRequest result" where
  "make_risk_check_request H args pr lr qr mr er dr tr key =
     (let i = order_intent args;
          draft = args\<lparr>request_id := ''RISKREQUEST:PLACEHOLDER'', request_hash := zero_hash,
            RiskCheckRequest.trace_id := OrderIntent.trace_id i,
            RiskCheckRequest.source_decision_id := OrderIntent.source_decision_id i,
            RiskCheckRequest.idempotency_key :=
              (case key of Some k \<Rightarrow> if k = [] then OrderIntent.client_order_id i else k
               | None \<Rightarrow> OrderIntent.client_order_id i),
            price_risk := optional_arg pr default_price_risk,
            loss_risk := optional_arg lr default_loss_risk,
            liquidity_risk := optional_arg qr default_liquidity_risk,
            market_risk := optional_arg mr default_market_risk,
            engine_latency := optional_arg er default_engine_latency,
            model_risk := optional_arg dr default_model_risk,
            tca_risk := optional_arg tr default_tca_risk,
            RiskCheckRequest.requirement_ids := [''FR-010'', ''FR-011'', ''NFR-004'']\<rparr>;
          h = build_risk_check_request_hash H draft
      in construct_RiskCheckRequest H
           (draft\<lparr>request_id := build_risk_check_request_id H h, request_hash := h\<rparr>))"

section \<open>Risk-check events\<close>

record RiskCheckEvent =
  risk_check_id :: string
  risk_check_hash :: string
  request :: RiskCheckRequest
  risk_policy_id :: string
  risk_policy_hash :: string
  order_effect :: OrderEffect
  limit_evaluations :: "RiskLimitEvaluation list"
  active_kill_state :: KillSwitchState
  final_decision :: RiskDecisionStatus
  reason_codes :: "RiskReasonCode list"
  approved_order_intent :: "OrderIntent option"
  requirement_ids :: "string list"

definition order_effect_json :: "OrderEffect \<Rightarrow> payload" where
  "order_effect_json f = PObj
     [(''side'', PStr (OrderSide_value (OrderEffect.side f))),
      (''quantity'', PDec (OrderEffect.quantity f)),
      (''reference_price'', PDec (OrderEffect.reference_price f)),
      (''proposed_notional'', PDec (proposed_notional f)),
      (''resulting_position_quantity'', PDec (resulting_position_quantity f)),
      (''resulting_position_notional'', PDec (resulting_position_notional f)),
      (''resulting_cash'', PDec (resulting_cash f)),
      (''resulting_instrument_exposure_notional'', PDec (resulting_instrument_exposure_notional f)),
      (''resulting_strategy_exposure_notional'', PDec (resulting_strategy_exposure_notional f)),
      (''resulting_total_spot_exposure_notional'', PDec (resulting_total_spot_exposure_notional f)),
      (''cash_reserve_pct'', PDec (cash_reserve_pct f)),
      (''risk_increasing'', PBool (risk_increasing f))]"

definition limit_evaluation_json :: "RiskLimitEvaluation \<Rightarrow> payload" where
  "limit_evaluation_json e = PObj
     [(''limit_id'', PStr (limit_id e)), (''owner'', PStr (RiskLimitEvaluation.owner e)),
      (''status'', PStr (RiskLimitStatus_value (RiskLimitEvaluation.status e))),
      (''passed'', PBool (RiskLimitEvaluation.passed e)),
      (''current_value'', PDec (current_value e)),
      (''soft_threshold'', POpt PDec (soft_threshold e)),
      (''hard_threshold'', POpt PDec (hard_threshold e)),
      (''capped_value'', POpt PDec (capped_value e)),
      (''reason_code'', PStr (RiskReasonCode_value (reason_code e)))]"

definition build_risk_check_event_hash :: "digest \<Rightarrow> RiskCheckEvent \<Rightarrow> string" where
  "build_risk_check_event_hash H e = H (PObj
     [(''active_kill_state'', PStr (KillSwitchState_value (active_kill_state e))),
      (''approved_order_intent'', POpt order_intent_json (approved_order_intent e)),
      (''final_decision'', PStr (RiskDecisionStatus_value (final_decision e))),
      (''limit_evaluations'', PList (map limit_evaluation_json (limit_evaluations e))),
      (''order_effect'', order_effect_json (order_effect e)),
      (''reason_codes'', PList (map (\<lambda>c. PStr (RiskReasonCode_value c)) (RiskCheckEvent.reason_codes e))),
      (''request_hash'', PStr (request_hash (request e))),
      (''request_id'', PStr (request_id (request e))),
      (''requirement_ids'', PStrs (RiskCheckEvent.requirement_ids e)),
      (''risk_policy_hash'', PStr (risk_policy_hash e)),
      (''risk_policy_id'', PStr (risk_policy_id e))])"

definition build_risk_check_event_id :: "digest \<Rightarrow> string \<Rightarrow> string" where
  "build_risk_check_event_id H h = stable_id H ''RISKCHECK'' (PObj [(''risk_check_hash'', PStr h)])"

definition breach_reasons :: "RiskLimitEvaluation list \<Rightarrow> RiskReasonCode list" where
  "breach_reasons es = filter (\<lambda>c. c \<noteq> PASSED) (map reason_code es)"

definition has_hard_breach :: "RiskLimitEvaluation list \<Rightarrow> bool" where
  "has_hard_breach es \<longleftrightarrow> list_ex (\<lambda>e. RiskLimitEvaluation.status e = HARD_BREACH) es"

definition approving :: "RiskDecisionStatus \<Rightarrow> bool" where
  "approving d \<longleftrightarrow> d \<in> {RiskDecisionStatus.APPROVED, APPROVED_AFTER_CAP, CANCEL_REDUCE_ONLY_APPROVED}"

definition construct_RiskCheckEvent :: "digest \<Rightarrow> RiskCheckEvent \<Rightarrow> RiskCheckEvent result" where
  "construct_RiskCheckEvent H e =
     (let expected = build_risk_check_event_hash H e in checked
     [(canonical_id (risk_check_id e), ''risk_check_id''),
      (hex64 (risk_check_hash e), ''risk_check_hash''),
      (valid_request H (request e), ''request''),
      (canonical_id (risk_policy_id e), ''risk_policy_id''),
      (hex64 (risk_policy_hash e), ''risk_policy_hash''),
      (construct_OrderEffect (order_effect e) = Inr (order_effect e), ''order_effect''),
      (list_all (\<lambda>x. construct_RiskLimitEvaluation x = Inr x) (limit_evaluations e),
        ''limit_evaluations''),
      (limit_evaluations e \<noteq> [], ''limit_evaluations''),
      (opt_all valid_OrderIntent (approved_order_intent e), ''approved_order_intent''),
      (list_all non_empty_string (RiskCheckEvent.requirement_ids e), ''requirement_ids''),
      (active_kill_state e = active_state (kill_switch_snapshot (request e)),
        ''active_kill_state must match kill-switch snapshot''),
      (RiskCheckEvent.reason_codes e = breach_reasons (limit_evaluations e),
        ''risk reason_codes must match breached limit evaluations''),
      (\<not> (has_hard_breach (limit_evaluations e) \<and> final_decision e \<noteq> RiskDecisionStatus.REJECTED),
        ''hard breaches must reject the risk check''),
      (\<not> (approving (final_decision e) \<and> approved_order_intent e = None),
        ''approved risk decisions require an approved order intent''),
      (\<not> (\<not> approving (final_decision e) \<and> approved_order_intent e \<noteq> None),
        ''rejected/no-trade risk decisions must not carry an approved intent''),
      (risk_check_hash e = expected, ''risk_check_hash is not deterministic''),
      (risk_check_id e = build_risk_check_event_id H expected, ''risk_check_id is not deterministic'')] e)"

definition valid_event :: "digest \<Rightarrow> RiskCheckEvent \<Rightarrow> bool" where
  "valid_event H e \<longleftrightarrow> construct_RiskCheckEvent H e = Inr e"

definition risk_check_event_draft :: "RiskCheckRequest \<Rightarrow> RiskPolicy \<Rightarrow> OrderEffect \<Rightarrow>
    RiskLimitEvaluation list \<Rightarrow> RiskDecisionStatus \<Rightarrow> OrderIntent option \<Rightarrow> RiskCheckEvent" where
  "risk_check_event_draft r p f es d i = \<lparr>RiskCheckEvent.risk_check_id = ''RISKCHECK:PLACEHOLDER'',
     risk_check_hash = zero_hash, request = r, risk_policy_id = policy_id p,
     risk_policy_hash = policy_hash p, order_effect = f, limit_evaluations = es,
     active_kill_state = active_state (kill_switch_snapshot r), final_decision = d,
     reason_codes = breach_reasons es, approved_order_intent = i,
     requirement_ids = [''FR-010'', ''FR-011'', ''NFR-004'']\<rparr>"

definition make_risk_check_event :: "digest \<Rightarrow> RiskCheckRequest \<Rightarrow> RiskPolicy \<Rightarrow> OrderEffect \<Rightarrow>
    RiskLimitEvaluation list \<Rightarrow> RiskDecisionStatus \<Rightarrow> OrderIntent option \<Rightarrow> RiskCheckEvent result" where
  "make_risk_check_event H r p f es d i =
     (let draft = risk_check_event_draft r p f es d i; h = build_risk_check_event_hash H draft
      in construct_RiskCheckEvent H
           (draft\<lparr>risk_check_id := build_risk_check_event_id H h, risk_check_hash := h\<rparr>))"

section \<open>Risk-gated replay results\<close>

record RiskGatedReplayResult =
  result_id :: string
  result_hash :: string
  run_id :: string
  risk_check_ids :: "string list"
  approved_risk_check_ids :: "string list"
  blocked_risk_check_ids :: "string list"
  replay_report :: "ReplayReport option"
  requirement_ids :: "string list"

definition replay_report_json :: "ReplayReport \<Rightarrow> payload" where
  "replay_report_json r = PObj
     [(''replay_report_id'', PStr (replay_report_id r)),
      (''replay_report_hash'', PStr (replay_report_hash r)),
      (''run_id'', PStr (ReplayReport.run_id r)),
      (''market_data_hash'', PStr (market_data_hash r)),
      (''result_ids'', PStrs (result_ids r)),
      (''results'', PList (map replay_result_json (results r))),
      (''requirement_ids'', PStrs (ReplayReport.requirement_ids r)),
      (''rejection_counts'', PList (map rejection_count_json (rejection_counts r))),
      (''final_account_state'', POpt account_state_json (final_account_state r))]"

definition build_risk_gated_replay_result_hash :: "digest \<Rightarrow> RiskGatedReplayResult \<Rightarrow> string" where
  "build_risk_gated_replay_result_hash H g = H (PObj
     [(''approved_risk_check_ids'', PStrs (approved_risk_check_ids g)),
      (''blocked_risk_check_ids'', PStrs (blocked_risk_check_ids g)),
      (''replay_report'', POpt replay_report_json (replay_report g)),
      (''requirement_ids'', PStrs (RiskGatedReplayResult.requirement_ids g)),
      (''risk_check_ids'', PStrs (risk_check_ids g)),
      (''run_id'', PStr (RiskGatedReplayResult.run_id g))])"

definition build_risk_gated_replay_result_id :: "digest \<Rightarrow> string \<Rightarrow> string" where
  "build_risk_gated_replay_result_id H h =
     stable_id H ''RISKGATEDREPLAY'' (PObj [(''result_hash'', PStr h)])"

definition construct_RiskGatedReplayResult :: "digest \<Rightarrow> RiskGatedReplayResult \<Rightarrow> RiskGatedReplayResult result" where
  "construct_RiskGatedReplayResult H g =
     (let partition = approved_risk_check_ids g @ blocked_risk_check_ids g;
          expected = build_risk_gated_replay_result_hash H g
      in checked
     [(canonical_id (result_id g), ''result_id''),
      (hex64 (result_hash g), ''result_hash''),
      (canonical_id (RiskGatedReplayResult.run_id g), ''run_id''),
      (list_all canonical_id (risk_check_ids g), ''risk_check_ids''),
      (list_all canonical_id (approved_risk_check_ids g), ''approved_risk_check_ids''),
      (list_all canonical_id (blocked_risk_check_ids g), ''blocked_risk_check_ids''),
      (opt_all (\<lambda>r. construct_ReplayReport H r = Inr r) (replay_report g), ''replay_report''),
      (list_all non_empty_string (RiskGatedReplayResult.requirement_ids g), ''requirement_ids''),
      (\<not> (length partition \<noteq> length (risk_check_ids g) \<or> set partition \<noteq> set (risk_check_ids g)),
        ''risk-gated replay ids must partition input risk checks''),
      (\<not> (approved_risk_check_ids g = [] \<and> replay_report g \<noteq> None),
        ''risk-gated replay must not create a replay report without approvals''),
      (\<not> (approved_risk_check_ids g \<noteq> [] \<and> replay_report g = None),
        ''approved risk checks require a replay report''),
      (result_hash g = expected, ''risk-gated replay result_hash is not deterministic''),
      (result_id g = build_risk_gated_replay_result_id H expected,
        ''risk-gated replay result_id is not deterministic'')] g)"

definition make_risk_gated_replay_result :: "digest \<Rightarrow> string \<Rightarrow> string list \<Rightarrow> string list \<Rightarrow> string list \<Rightarrow>
    ReplayReport option \<Rightarrow> RiskGatedReplayResult result" where
  "make_risk_gated_replay_result H run ids approved blocked report =
     (let draft = \<lparr>RiskGatedReplayResult.result_id = ''RISKGATEDREPLAY:PLACEHOLDER'',
            result_hash = zero_hash, run_id = run, risk_check_ids = ids,
            approved_risk_check_ids = approved, blocked_risk_check_ids = blocked,
            replay_report = report, requirement_ids = [''FR-010'', ''FR-012'', ''NFR-004'']\<rparr>;
          h = build_risk_gated_replay_result_hash H draft
      in construct_RiskGatedReplayResult H
           (draft\<lparr>result_id := build_risk_gated_replay_result_id H h, result_hash := h\<rparr>))"

end
