(* ===== verification/KillSwitch.thy ===== *)
theory KillSwitch
  imports RiskContracts "HOL-Library.AList"
begin

text \<open>
  The file-backed kill-switch store of \<open>risk/kill_switch.py\<close>.  The state is the content
  of the store's file: absent, not readable as JSON text, not decodable as UTF-8, a JSON value
  that is no object, or a document with a schema version and a list of items, each of which
  either has the shape of a record or has not.  Writing replaces the whole file
  (\<open>os.replace\<close>), so a write is one step; failures of the write itself are outside the
  model.  The theory shows what a read returns in terms of the transition log, that
  transitions only append to a readable log, and what happens to an unreadable one.
\<close>

section \<open>The store\<close>

datatype store_file =
    Absent
  | Unreadable                  \<comment> \<open>\<open>OSError\<close> or \<open>JSONDecodeError\<close>\<close>
  | Undecodable                 \<comment> \<open>not UTF-8: \<open>UnicodeDecodeError\<close>\<close>
  | NotAnObject                 \<comment> \<open>JSON, but \<open>payload.get\<close> is no attribute\<close>
  | Document "string option" "KillSwitchRecord option list option"

definition schema_version :: string where
  "schema_version = ''kill-switch-store.v1''"

text \<open>\<open>KillSwitchRecord.model_validate(item)\<close>; \<open>None\<close> is an item without the record's shape.\<close>

definition model_validate :: "digest \<Rightarrow> KillSwitchRecord option \<Rightarrow> KillSwitchRecord result" where
  "model_validate H item = (case item of None \<Rightarrow> Inl (ValidationError ''KillSwitchRecord'')
     | Some r \<Rightarrow> construct_KillSwitchRecord H r)"

text \<open>\<open>_read_records\<close>: \<open>Inr None\<close> is the returned \<open>None\<close>, \<open>Inl\<close> an exception it lets through.\<close>

fun read_records :: "digest \<Rightarrow> store_file \<Rightarrow> KillSwitchRecord list option result" where
  "read_records H Absent = Inr (Some [])"
| "read_records H Unreadable = Inr None"
| "read_records H Undecodable = Inl UnicodeDecodeError"
| "read_records H NotAnObject = Inl (AttributeError ''get'')"
| "read_records H (Document v items) =
     (if v \<noteq> Some schema_version then Inr None
      else case items of None \<Rightarrow> Inr None
        | Some xs \<Rightarrow> (case mapE (model_validate H) xs of Inr rs \<Rightarrow> Inr (Some rs)
            | Inl (ValidationError m) \<Rightarrow> Inr None
            | Inl e \<Rightarrow> Inl e))"

definition write_records :: "KillSwitchRecord list \<Rightarrow> store_file" where
  "write_records rs = Document (Some schema_version) (Some (map Some rs))"

definition record_key :: "KillSwitchRecord \<Rightarrow> KillSwitchScopeType \<times> string option" where
  "record_key r = KillSwitchScope_key (KillSwitchRecord.scope r)"

definition record_order :: "KillSwitchRecord \<Rightarrow> int \<times> string" where
  "record_order r = (instant (transitioned_at r), KillSwitchRecord.record_id r)"

definition latest_records_by_scope ::
  "KillSwitchRecord list \<Rightarrow> ((KillSwitchScopeType \<times> string option) \<times> KillSwitchRecord) list" where
  "latest_records_by_scope rs =
     fold (\<lambda>r d. AList.update (record_key r) r d) (sort_key record_order rs) []"

definition evaluated_keys :: "KillSwitchScope list \<Rightarrow> (KillSwitchScopeType \<times> string option) set" where
  "evaluated_keys scopes = insert (GLOBAL, None) (KillSwitchScope_key ` set scopes)"

definition matching_records ::
  "((KillSwitchScopeType \<times> string option) \<times> KillSwitchRecord) list \<Rightarrow> KillSwitchScope list \<Rightarrow>
   KillSwitchRecord list" where
  "matching_records latest scopes = map snd (filter (\<lambda>p. fst p \<in> evaluated_keys scopes) latest)"

primrec state_severity :: "KillSwitchState \<Rightarrow> int" where
  "state_severity CLEAR = 0"
| "state_severity SOFT_LIMITED = 1"
| "state_severity PAUSE_NEW_ORDERS = 2"
| "state_severity REDUCE_ONLY = 3"
| "state_severity CANCEL_ONLY = 4"
| "state_severity KillSwitchState.HALTED = 5"
| "state_severity UNKNOWN_FAIL_CLOSED = 6"

text \<open>\<open>max(xs, key=f)\<close>: the first greatest element of a non-empty sequence.\<close>

fun max_by :: "('a \<Rightarrow> 'b::ord) \<Rightarrow> 'a \<Rightarrow> 'a list \<Rightarrow> 'a" where
  "max_by f b [] = b"
| "max_by f b (x # xs) = max_by f (if f b < f x then x else b) xs"

definition load_snapshot :: "digest \<Rightarrow> store_file \<Rightarrow> datetime \<Rightarrow> KillSwitchScope list \<Rightarrow>
    KillSwitchSnapshot result" where
  "load_snapshot H s at_ts scopes = bindE (read_records H s) (\<lambda>records.
     case records of
       None \<Rightarrow> make_unknown_kill_switch_snapshot H at_ts scopes False
                 ''durable kill-switch state unavailable or invalid''
     | Some [] \<Rightarrow> make_unknown_kill_switch_snapshot H at_ts scopes True
                 ''durable kill-switch state uninitialized''
     | Some rs \<Rightarrow>
         (case matching_records (latest_records_by_scope rs) scopes of
            [] \<Rightarrow> make_unknown_kill_switch_snapshot H at_ts scopes True
                   ''no applicable kill-switch record for requested scopes''
          | m # ms \<Rightarrow> make_kill_switch_snapshot H at_ts scopes
                   (new_state (max_by (\<lambda>r. state_severity (new_state r)) m ms))
                   (sort_key KillSwitchRecord.record_id (m # ms)) True
                   ''durable kill-switch state loaded''))"

text \<open>\<open>self._read_records() or ()\<close>: an unreadable log counts as empty.\<close>

definition readable_or_empty :: "KillSwitchRecord list option \<Rightarrow> KillSwitchRecord list" where
  "readable_or_empty x = (case x of None \<Rightarrow> [] | Some rs \<Rightarrow> rs)"

definition transition :: "digest \<Rightarrow> store_file \<Rightarrow> KillSwitchScope \<Rightarrow> KillSwitchState \<Rightarrow> string \<Rightarrow> string \<Rightarrow>
    datetime \<Rightarrow> string \<Rightarrow> bool \<Rightarrow> KillSwitchTransitionSource \<Rightarrow> string option \<Rightarrow>
    (KillSwitchRecord \<times> store_file) result" where
  "transition H s sc new act role at_ts why cancel src incident =
     bindE (read_records H s) (\<lambda>records.
     let rs = readable_or_empty records;
         prior = (case map_of (latest_records_by_scope rs) (KillSwitchScope_key sc) of
                    Some l \<Rightarrow> new_state l | None \<Rightarrow> UNKNOWN_FAIL_CLOSED)
     in bindE (make_kill_switch_record H sc prior new act role at_ts why cancel src incident)
        (\<lambda>r. Inr (r, write_records (rs @ [r]))))"

section \<open>The log the store stands for\<close>

text \<open>
  The abstract view: the records of a readable log.  \<open>latest_in hist r\<close> says that \<open>r\<close> is the
  last record of its scope in the order of (time, id), the later in the log among equals; \<open>effective\<close> is the state a reader of
  some scopes must see: the most severe latest state among those scopes and the global one,
  and unknown when there is none.
\<close>

definition latest_in :: "KillSwitchRecord list \<Rightarrow> KillSwitchRecord \<Rightarrow> bool" where
  "latest_in hist r \<longleftrightarrow> (\<exists>before after. hist = before @ r # after
     \<and> (\<forall>x \<in> set before. record_key x = record_key r \<longrightarrow> record_order x \<le> record_order r)
     \<and> (\<forall>x \<in> set after. record_key x = record_key r \<longrightarrow> record_order x < record_order r))"

definition effective :: "KillSwitchRecord list \<Rightarrow> KillSwitchScope list \<Rightarrow> KillSwitchState \<Rightarrow> bool" where
  "effective hist scopes st \<longleftrightarrow>
     (let applicable = {r. latest_in hist r \<and> record_key r \<in> evaluated_keys scopes}
      in if applicable = {} then st = UNKNOWN_FAIL_CLOSED
         else st \<in> new_state ` applicable
           \<and> (\<forall>r \<in> applicable. state_severity (new_state r) \<le> state_severity st))"

definition valid_record :: "digest \<Rightarrow> KillSwitchRecord \<Rightarrow> bool" where
  "valid_record H r \<longleftrightarrow> construct_KillSwitchRecord H r = Inr r"

lemma state_severity_inject [simp]: "state_severity a = state_severity b \<longleftrightarrow> a = b"
  by (cases a; cases b) simp_all

lemma map_of_fold_update: "map_of (fold (\<lambda>r d. AList.update (f r) r d) rs d) k =
    (case find (\<lambda>r. f r = k) (rev rs) of Some r \<Rightarrow> Some r | None \<Rightarrow> map_of d k)"
proof (induction rs rule: rev_induct)
  case (snoc r rs)
  then show ?case by (simp add: AList.update_conv' fun_upd_apply)
qed simp

lemma distinct_fold_update:
  "distinct (map fst d) \<Longrightarrow> distinct (map fst (fold (\<lambda>r d. AList.update (f r) r d) rs d))"
  by (induction rs arbitrary: d) (simp_all add: AList.distinct_update)

lemma find_rev_sorted:
  assumes "sorted (map f xs)" "find p (rev xs) = Some r" "x \<in> set xs" "p x"
  shows "f x \<le> (f r :: 'b::linorder)"
  using assms
proof (induction xs rule: rev_induct)
  case (snoc y xs)
  show ?case
  proof (cases "p y")
    case True
    then have "r = y" using snoc.prems(2) by simp
    then show ?thesis using snoc.prems(1,3) by (auto simp: sorted_append)
  next
    case False
    then show ?thesis using snoc by (auto simp: sorted_append)
  qed
qed simp

lemma find_filter: "find p xs = Some r \<Longrightarrow> q r \<Longrightarrow> find (\<lambda>x. p x \<and> q x) xs = Some r"
  by (induction xs) (auto split: if_splits)

lemma find_split:
  "find p xs = Some r \<Longrightarrow> \<exists>us vs. xs = us @ r # vs \<and> (\<forall>u \<in> set us. \<not> p u) \<and> p r"
proof (induction xs)
  case (Cons x xs)
  show ?case
  proof (cases "p x")
    case True
    then show ?thesis using Cons.prems by (intro exI [where x = "[]"] exI [where x = xs]) simp
  next
    case False
    then obtain us vs where "xs = us @ r # vs" "\<forall>u \<in> set us. \<not> p u" "p r" using Cons by auto
    then show ?thesis using False by (intro exI [where x = "x # us"] exI [where x = vs]) simp
  qed
qed simp

lemma find_conj_filter: "find (\<lambda>x. p x \<and> q x) xs = find p (filter q xs)"
  by (induction xs) auto

lemma latest_in_bounds:
  assumes "latest_in hist r"
  shows "r \<in> set hist" "\<lbrakk>x \<in> set hist; record_key x = record_key r\<rbrakk> \<Longrightarrow> record_order x \<le> record_order r"
proof -
  obtain before after where h: "hist = before @ r # after"
    "\<forall>x \<in> set before. record_key x = record_key r \<longrightarrow> record_order x \<le> record_order r"
    "\<forall>x \<in> set after. record_key x = record_key r \<longrightarrow> record_order x < record_order r"
    using assms unfolding latest_in_def by blast
  show "r \<in> set hist" by (simp add: h(1))
  assume "x \<in> set hist" "record_key x = record_key r"
  then show "record_order x \<le> record_order r" using h by (auto intro: order.strict_implies_order)
qed

lemma latest_records_Some:
  assumes "map_of (latest_records_by_scope hist) k = Some r"
  shows "latest_in hist r \<and> record_key r = k"
proof -
  let ?s = "sort_key record_order hist"
  have f: "find (\<lambda>r. record_key r = k) (rev ?s) = Some r"
    using assms unfolding latest_records_by_scope_def map_of_fold_update by (auto split: option.splits)
  then have r: "r \<in> set ?s" "record_key r = k" by (auto dest: find_SomeD)
  have le: "record_order r' \<le> record_order r" if "r' \<in> set hist" "record_key r' = k" for r'
    by (rule find_rev_sorted [OF _ f]) (use that in simp_all)
  let ?q = "\<lambda>x. record_order x = record_order r"
  have "find (\<lambda>x. record_key x = k \<and> ?q x) (rev ?s) = Some r" by (rule find_filter [OF f]) simp
  moreover have "filter ?q (rev ?s) = filter ?q (rev hist)"
    by (simp only: rev_filter [symmetric] sort_key_stable)
  ultimately have "find (\<lambda>x. record_key x = k \<and> ?q x) (rev hist) = Some r"
    unfolding find_conj_filter by simp
  from find_split [OF this] obtain us vs where h: "rev hist = us @ r # vs"
    "\<forall>u \<in> set us. \<not> (record_key u = k \<and> ?q u)" by blast
  have "hist = rev vs @ r # rev us" using arg_cong [OF h(1), of rev] by simp
  moreover have "record_order x < record_order r" if "x \<in> set us" "record_key x = k" for x
  proof -
    have "x \<in> set hist" using h(1) that by (metis in_set_conv_decomp set_rev append_assoc append_Cons)
    then show ?thesis using le [of x] h(2) that by (auto simp: less_le)
  qed
  moreover have "record_order x \<le> record_order r" if "x \<in> set vs" "record_key x = k" for x
    using le [of x] \<open>hist = rev vs @ r # rev us\<close> that by auto
  ultimately show ?thesis unfolding latest_in_def using r(2)
    by (intro conjI exI [of _ "rev vs"] exI [of _ "rev us"]) auto
qed

lemma latest_records_None:
  assumes "map_of (latest_records_by_scope hist) k = None" "r \<in> set hist"
  shows "record_key r \<noteq> k"
  using assms unfolding latest_records_by_scope_def map_of_fold_update
  by (auto simp: find_None_all split: option.splits)

lemma latest_matching:
  assumes "r \<in> set (matching_records (latest_records_by_scope hist) scopes)"
  shows "latest_in hist r \<and> record_key r \<in> evaluated_keys scopes"
proof -
  obtain k where k: "(k, r) \<in> set (latest_records_by_scope hist)" "k \<in> evaluated_keys scopes"
    using assms by (auto simp: matching_records_def)
  have "distinct (map fst (latest_records_by_scope hist))"
    unfolding latest_records_by_scope_def by (rule distinct_fold_update) simp
  then have "map_of (latest_records_by_scope hist) k = Some r" using k(1) by simp
  then show ?thesis using latest_records_Some k(2) by blast
qed

text \<open>Every scope of the log that is asked for has one matching record, of the same order.\<close>

lemma matching_covers:
  assumes "r \<in> set hist" "record_key r \<in> evaluated_keys scopes"
  obtains r' where "r' \<in> set (matching_records (latest_records_by_scope hist) scopes)"
    "record_key r' = record_key r" "record_order r \<le> record_order r'"
proof -
  obtain r' where r': "map_of (latest_records_by_scope hist) (record_key r) = Some r'"
    using latest_records_None [OF _ assms(1)] by fastforce
  then have "(record_key r, r') \<in> set (latest_records_by_scope hist)" by (rule map_of_SomeD)
  then have "r' \<in> set (matching_records (latest_records_by_scope hist) scopes)"
    using assms(2) by (force simp: matching_records_def)
  moreover have "record_key r' = record_key r" "record_order r \<le> record_order r'"
    using latest_records_Some [OF r'] latest_in_bounds(2) assms(1) by metis+
  ultimately show ?thesis by (rule that)
qed

lemma max_by_in: "max_by f b xs \<in> set (b # xs)"
  by (induction xs arbitrary: b) auto

lemma max_by_ge: "x \<in> set (b # xs) \<Longrightarrow> f x \<le> (f (max_by f b xs) :: 'b::linorder)"
proof (induction xs arbitrary: b x)
  case (Cons y ys)
  let ?b = "if f b < f y then y else b"
  have "f z \<le> f (max_by f ?b ys)" if "z \<in> set (?b # ys)" for z
    using Cons.IH that by blast
  then have "f ?b \<le> f (max_by f ?b ys)" "\<forall>z \<in> set ys. f z \<le> f (max_by f ?b ys)" by simp_all
  moreover have "f b \<le> f ?b" "f y \<le> f ?b" by (simp_all add: not_less less_imp_le)
  ultimately show ?case using Cons.prems by force
qed simp

section \<open>Reads\<close>

definition valid_scope :: "KillSwitchScope \<Rightarrow> bool" where
  "valid_scope sc \<longleftrightarrow> construct_KillSwitchScope sc = Inr sc"

lemma read_records_valid:
  assumes "read_records H s = Inr (Some hist)" "r \<in> set hist"
  shows "valid_record H r"
proof (cases s)
  case (Document v items)
  then obtain xs where xs: "mapE (model_validate H) xs = Inr hist"
    using assms(1) by (auto split: if_splits option.splits sum.splits py_error.splits)
  obtain x where "model_validate H x = Inr r" using mapE_in_set [OF xs assms(2)] by blast
  then show ?thesis
    by (auto simp: model_validate_def valid_record_def construct_KillSwitchRecord_def split: option.splits)
qed (use assms in auto)

lemma read_write:
  assumes "\<And>r. r \<in> set rs \<Longrightarrow> valid_record H r"
  shows "read_records H (write_records rs) = Inr (Some rs)"
proof -
  have "mapE (model_validate H) (map Some rs) = Inr rs"
    unfolding mapE_Inr_iff list_all2_conv_all_nth using assms
    by (simp add: model_validate_def valid_record_def)
  then show ?thesis by (simp add: write_records_def)
qed

lemma make_snapshot_ok:
  assumes "digest_ok H" "list_all valid_scope scopes" "\<And>r. r \<in> set rs \<Longrightarrow> valid_record H r"
    "st = UNKNOWN_FAIL_CLOSED \<or> rs \<noteq> []" "non_empty_string why"
  shows "\<exists>snap. make_kill_switch_snapshot H t scopes st rs avail why = Inr snap
    \<and> active_state snap = st \<and> active_records snap = rs \<and> store_available snap = avail
    \<and> evaluated_scopes snap = scopes \<and> evaluated_at snap = t
    \<and> construct_KillSwitchSnapshot H snap = Inr snap"
proof -
  have "canonical_id (build_kill_switch_snapshot_id H h)" for h
    unfolding build_kill_switch_snapshot_id_def
    by (rule stable_id_canonical [OF assms(1)]) (simp_all add: canonical_id_def upper_char_def)
  moreover have "hex64 (H x)" for x using assms(1) by simp
  moreover have "list_all (\<lambda>c. construct_KillSwitchScope c = Inr c) scopes"
    using assms(2) by (simp add: list_all_iff valid_scope_def)
  moreover have "list_all (\<lambda>r. construct_KillSwitchRecord H r = Inr r) rs"
    using assms(3) by (simp add: list_all_iff valid_record_def)
  moreover have "non_empty_string ''FR-011''" "non_empty_string ''NFR-004''"
    by (simp_all add: non_empty_string_def strip_def py_space_def)
  ultimately show ?thesis
    using assms(4,5)
    by (simp add: make_kill_switch_snapshot_def construct_KillSwitchSnapshot_def Let_def
        build_kill_switch_snapshot_hash_def)
qed

lemma load_reasons:
  "non_empty_string ''durable kill-switch state unavailable or invalid''"
  "non_empty_string ''durable kill-switch state uninitialized''"
  "non_empty_string ''no applicable kill-switch record for requested scopes''"
  "non_empty_string ''durable kill-switch state loaded''"
  by (simp_all add: non_empty_string_def strip_def py_space_def)

lemma matching_empty_iff:
  "matching_records (latest_records_by_scope hist) scopes = [] \<longleftrightarrow>
    {r. latest_in hist r \<and> record_key r \<in> evaluated_keys scopes} = {}"
  (is "?m = [] \<longleftrightarrow> ?a = {}")
proof
  assume m: "?m = []"
  show "?a = {}"
  proof (rule ccontr)
    assume "?a \<noteq> {}"
    then obtain r where "r \<in> set hist" "record_key r \<in> evaluated_keys scopes"
      using latest_in_bounds(1) by blast
    then show False using m by (metis list.set(1) empty_iff matching_covers)
  qed
next
  assume "?a = {}"
  then have "\<not> r \<in> set ?m" for r using latest_matching [of r] by blast
  then show "?m = []" by (cases ?m) auto
qed

lemma latest_unique:
  assumes "latest_in hist r" "latest_in hist r'" "record_key r = record_key r'"
  shows "r = r'"
proof -
  obtain b a where h: "hist = b @ r # a"
    "\<forall>x \<in> set a. record_key x = record_key r \<longrightarrow> record_order x < record_order r"
    using assms(1) unfolding latest_in_def by blast
  obtain b' a' where h': "hist = b' @ r' # a'"
    "\<forall>x \<in> set a'. record_key x = record_key r' \<longrightarrow> record_order x < record_order r'"
    using assms(2) unfolding latest_in_def by blast
  have eq: "record_order r = record_order r'"
    using latest_in_bounds [OF assms(1)] latest_in_bounds [OF assms(2)] assms(3) by (metis antisym)
  from h(1) h'(1) have "b @ r # a = b' @ r' # a'" by simp
  then consider "b = b'" "r = r'" | us where "r' \<in> set a" | us where "r \<in> set a'"
    by (auto simp: append_eq_append_conv2 Cons_eq_append_conv append_eq_Cons_conv)
  then show ?thesis using h(2) h'(2) eq assms(3) by cases (auto simp: less_le)
qed

lemma latest_is_matching:
  assumes "latest_in hist r" "record_key r \<in> evaluated_keys scopes"
  shows "r \<in> set (matching_records (latest_records_by_scope hist) scopes)"
proof -
  obtain r' where "r' \<in> set (matching_records (latest_records_by_scope hist) scopes)"
    "record_key r' = record_key r"
    using matching_covers [OF latest_in_bounds(1) [OF assms(1)] assms(2)] by blast
  then show ?thesis using latest_matching latest_unique [OF assms(1)] by metis
qed

lemma load_snapshot_ok:
  assumes "digest_ok H" "read_records H s = Inr (Some hist)" "list_all valid_scope scopes"
  shows "\<exists>snap. load_snapshot H s t scopes = Inr snap \<and> store_available snap
    \<and> construct_KillSwitchSnapshot H snap = Inr snap
    \<and> effective hist scopes (active_state snap) \<and> evaluated_scopes snap = scopes
    \<and> set (active_records snap) = {r. latest_in hist r \<and> record_key r \<in> evaluated_keys scopes}"
proof -
  let ?app = "{r. latest_in hist r \<and> record_key r \<in> evaluated_keys scopes}"
  let ?ms = "matching_records (latest_records_by_scope hist) scopes"
  have ms: "set ?ms = ?app" using latest_matching latest_is_matching by blast
  have unknown: "\<exists>snap. make_unknown_kill_switch_snapshot H t scopes True why = Inr snap
      \<and> store_available snap \<and> construct_KillSwitchSnapshot H snap = Inr snap
      \<and> active_state snap = UNKNOWN_FAIL_CLOSED \<and> evaluated_scopes snap = scopes
      \<and> active_records snap = []"
    if "non_empty_string why" for why
    using make_snapshot_ok [OF assms(1,3), of "[]" UNKNOWN_FAIL_CLOSED why t True] that
    by (auto simp: make_unknown_kill_switch_snapshot_def)
  show ?thesis
  proof (cases ?ms)
    case Nil
    then have "?app = {}" using ms by simp
    then have e: "effective hist scopes UNKNOWN_FAIL_CLOSED" by (simp add: effective_def)
    show ?thesis
      using unknown [OF load_reasons(2)] unknown [OF load_reasons(3)] Nil e \<open>?app = {}\<close> assms(2)
      by (cases hist) (auto simp: load_snapshot_def)
  next
    case (Cons m ms')
    then have ne: "hist \<noteq> []" by (auto simp: latest_records_by_scope_def matching_records_def)
    let ?mx = "max_by (\<lambda>r. state_severity (new_state r)) m ms'"
    have mx: "?mx \<in> ?app" using max_by_in [of _ m ms'] Cons ms by auto
    have ge: "state_severity (new_state r) \<le> state_severity (new_state ?mx)" if "r \<in> ?app" for r
      using max_by_ge [of r m ms' "\<lambda>r. state_severity (new_state r)"] that ms Cons by auto
    have e: "effective hist scopes (new_state ?mx)"
      unfolding effective_def Let_def using mx ge by auto
    have v: "valid_record H r" if "r \<in> set (sort_key KillSwitchRecord.record_id (m # ms'))" for r
      using that read_records_valid [OF assms(2)] ms Cons latest_in_bounds(1) by (metis (mono_tags, lifting)
          mem_Collect_eq set_sort)
    have d: "new_state ?mx = UNKNOWN_FAIL_CLOSED \<or> sort_key KillSwitchRecord.record_id (m # ms') \<noteq> []"
      by (metis length_0_conv length_sort list.distinct(1))
    obtain snap where snap: "make_kill_switch_snapshot H t scopes (new_state ?mx)
        (sort_key KillSwitchRecord.record_id (m # ms')) True ''durable kill-switch state loaded'' = Inr snap"
      "active_state snap = new_state ?mx"
      "active_records snap = sort_key KillSwitchRecord.record_id (m # ms')"
      "store_available snap" "evaluated_scopes snap = scopes"
      "construct_KillSwitchSnapshot H snap = Inr snap"
      using make_snapshot_ok [OF assms(1,3) v d load_reasons(4), of t True] by blast
    have "set (active_records snap) = ?app" unfolding snap(3) set_sort using ms Cons by simp
    then show ?thesis using snap e ne Cons assms(2)
      by (cases hist) (simp_all add: load_snapshot_def)
  qed
qed

section \<open>Transitions\<close>

lemma make_record_fields:
  assumes "make_kill_switch_record H sc prior new act role at_ts why cancel src incident = Inr r"
  shows "valid_record H r" "KillSwitchRecord.scope r = sc" "prior_state r = prior" "new_state r = new"
    "transitioned_at r = at_ts" "actor r = act" "KillSwitchRecord.reason r = why"
  using assms
  by (auto simp: make_kill_switch_record_def valid_record_def construct_KillSwitchRecord_def
      build_kill_switch_record_id_def)

definition recorded_state :: "KillSwitchRecord list \<Rightarrow> KillSwitchScopeType \<times> string option \<Rightarrow> KillSwitchState" where
  "recorded_state hist k =
     (case map_of (latest_records_by_scope hist) k of Some l \<Rightarrow> new_state l | None \<Rightarrow> UNKNOWN_FAIL_CLOSED)"

lemma recorded_state_iff: "recorded_state hist k = st \<longleftrightarrow>
    (\<exists>l. latest_in hist l \<and> record_key l = k \<and> new_state l = st)
    \<or> ((\<forall>x \<in> set hist. record_key x \<noteq> k) \<and> st = UNKNOWN_FAIL_CLOSED)"
proof (cases "map_of (latest_records_by_scope hist) k")
  case None
  then have "\<forall>x \<in> set hist. record_key x \<noteq> k" using latest_records_None by blast
  moreover from this have "\<not> latest_in hist l" if "record_key l = k" for l
    using latest_in_bounds(1) that by blast
  ultimately show ?thesis using None by (auto simp: recorded_state_def)
next
  case (Some l)
  then have l: "latest_in hist l" "record_key l = k" using latest_records_Some by blast+
  have some: "\<not> (\<forall>x \<in> set hist. record_key x \<noteq> k)" using l latest_in_bounds(1) by blast
  have uniq: "l' = l" if "latest_in hist l'" "record_key l' = k" for l'
    using latest_unique [OF that(1) l(1)] that(2) l(2) by simp
  have ex: "(\<exists>l'. latest_in hist l' \<and> record_key l' = k \<and> new_state l' = st) \<longleftrightarrow> new_state l = st"
    using l uniq by blast
  have rs: "recorded_state hist k = new_state l" using Some by (simp add: recorded_state_def)
  show ?thesis unfolding ex rs using some by blast
qed

lemma transition_ok:
  assumes "transition H s sc new act role at_ts why cancel src incident = Inr (r, s')"
  obtains records where "read_records H s = Inr records"
    "read_records H s' = Inr (Some (readable_or_empty records @ [r]))"
    "prior_state r = recorded_state (readable_or_empty records) (KillSwitchScope_key sc)"
    "valid_record H r" "KillSwitchRecord.scope r = sc" "new_state r = new" "transitioned_at r = at_ts"
proof -
  obtain records where rd: "read_records H s = Inr records"
    and mk: "make_kill_switch_record H sc
        (recorded_state (readable_or_empty records) (KillSwitchScope_key sc)) new act role at_ts why
        cancel src incident = Inr r"
    and s': "s' = write_records (readable_or_empty records @ [r])"
    using assms by (auto simp: transition_def bindE_Inr_iff Let_def recorded_state_def)
  note r = make_record_fields [OF mk]
  have "valid_record H x" if "x \<in> set (readable_or_empty records @ [r])" for x
    using that r(1) read_records_valid [of H s] rd
    by (cases records) (auto simp: readable_or_empty_def)
  then have "read_records H s' = Inr (Some (readable_or_empty records @ [r]))"
    unfolding s' by (rule read_write)
  with rd r show ?thesis by (intro that)
qed

text \<open>A transition over an unreadable file is one over a missing file.\<close>

lemma readable_start:
  assumes "transition H s sc new act role t why cancel src incident = Inr (r, s')"
  obtains s0 hist where "read_records H s0 = Inr (Some hist)" "s0 = s \<or> hist = []"
    "transition H s0 sc new act role t why cancel src incident = Inr (r, s')"
proof -
  obtain records where rd: "read_records H s = Inr records" by (rule transition_ok [OF assms])
  show ?thesis
  proof (cases records)
    case None
    then have "transition H Absent sc new act role t why cancel src incident = Inr (r, s')"
      using assms rd by (simp add: transition_def readable_or_empty_def)
    then show ?thesis using that [of Absent "[]"] by simp
  next
    case (Some hist)
    then show ?thesis using that [of s hist] assms rd by simp
  qed
qed

section \<open>The interface the risk checks use\<close>

text \<open>
  A store of kill-switch transitions: the log it stands for (\<open>None\<close> when it cannot be read),
  reading the effective state for some scopes, and committing a transition.
\<close>

locale kill_switch_store =
  fixes H :: digest
    and log_of :: "'s \<Rightarrow> KillSwitchRecord list option"
    and load :: "'s \<Rightarrow> datetime \<Rightarrow> KillSwitchScope list \<Rightarrow> KillSwitchSnapshot result"
    and commit :: "'s \<Rightarrow> KillSwitchScope \<Rightarrow> KillSwitchState \<Rightarrow> datetime \<Rightarrow> (KillSwitchRecord \<times> 's) result"
  assumes load_effective: "digest_ok H \<Longrightarrow> log_of s = Some hist \<Longrightarrow> list_all valid_scope scopes \<Longrightarrow>
      \<exists>snap. load s t scopes = Inr snap \<and> effective hist scopes (active_state snap)"
    and load_closed: "log_of s = None \<Longrightarrow> load s t scopes = Inr snap \<Longrightarrow>
      active_state snap = UNKNOWN_FAIL_CLOSED"
    and commit_appends: "log_of s = Some hist \<Longrightarrow> commit s sc new t = Inr (r, s') \<Longrightarrow>
      log_of s' = Some (hist @ [r]) \<and> KillSwitchRecord.scope r = sc \<and> new_state r = new
      \<and> transitioned_at r = t"
begin

text \<open>A transition that is the latest of its scope bounds every later read of that scope from below.\<close>

lemma commit_then_load:
  assumes "digest_ok H" "log_of s = Some hist" "commit s sc new t = Inr (r, s')"
    and "\<And>x. x \<in> set hist \<Longrightarrow> record_key x = KillSwitchScope_key sc \<Longrightarrow> transitioned_at x < t"
    and "list_all valid_scope scopes" "KillSwitchScope_key sc \<in> evaluated_keys scopes"
  obtains snap where "load s' t' scopes = Inr snap"
    "state_severity new \<le> state_severity (active_state snap)"
proof -
  have r: "log_of s' = Some (hist @ [r])" "record_key r = KillSwitchScope_key sc" "new_state r = new"
    "transitioned_at r = t"
    using commit_appends [OF assms(2,3)] by (simp_all add: record_key_def)
  have l: "latest_in (hist @ [r]) r"
    unfolding latest_in_def
  proof (intro exI conjI ballI impI)
    show "hist @ [r] = hist @ r # []" by simp
    fix x assume "x \<in> set hist" "record_key x = record_key r"
    then have "transitioned_at x < t" using assms(4) r(2) by simp
    then show "record_order x \<le> record_order r"
      using r(4) by (simp add: record_order_def less_eq_prod_def less_datetime_def)
  qed simp
  obtain snap where "load s' t' scopes = Inr snap" "effective (hist @ [r]) scopes (active_state snap)"
    using load_effective [OF assms(1) r(1) assms(5)] by blast
  moreover from this(2) have "state_severity new \<le> state_severity (active_state snap)"
    using l r(2,3) assms(6) by (auto simp: effective_def Let_def split: if_splits)
  ultimately show ?thesis using that by blast
qed

end

definition file_log :: "digest \<Rightarrow> store_file \<Rightarrow> KillSwitchRecord list option" where
  "file_log H s = (case read_records H s of Inr x \<Rightarrow> x | Inl e \<Rightarrow> None)"

definition file_commit :: "digest \<Rightarrow> string \<Rightarrow> string \<Rightarrow> string \<Rightarrow> bool \<Rightarrow> KillSwitchTransitionSource \<Rightarrow>
    string option \<Rightarrow> store_file \<Rightarrow> KillSwitchScope \<Rightarrow> KillSwitchState \<Rightarrow> datetime \<Rightarrow>
    (KillSwitchRecord \<times> store_file) result" where
  "file_commit H act role why cancel src incident s sc new t =
     transition H s sc new act role t why cancel src incident"

lemma file_log_Some: "file_log H s = Some hist \<longleftrightarrow> read_records H s = Inr (Some hist)"
  by (auto simp: file_log_def split: sum.splits)

lemma load_unreadable:
  assumes "file_log H s = None" "load_snapshot H s t scopes = Inr snap"
  shows "active_state snap = UNKNOWN_FAIL_CLOSED"
  using assms
  by (auto simp: file_log_def load_snapshot_def make_unknown_kill_switch_snapshot_def
      make_kill_switch_snapshot_def construct_KillSwitchSnapshot_def Let_def split: sum.splits)

interpretation file_store: kill_switch_store H "file_log H" "load_snapshot H"
  "file_commit H act role why cancel src incident"
  for H act role why cancel src incident
proof
  show "digest_ok H \<Longrightarrow> file_log H s = Some hist \<Longrightarrow> list_all valid_scope scopes \<Longrightarrow>
      \<exists>snap. load_snapshot H s t scopes = Inr snap \<and> effective hist scopes (active_state snap)"
    for s hist scopes t
    using load_snapshot_ok [of H s hist scopes t] by (auto simp: file_log_Some)
  show "file_log H s = None \<Longrightarrow> load_snapshot H s t scopes = Inr snap \<Longrightarrow>
      active_state snap = UNKNOWN_FAIL_CLOSED" for s t scopes snap
    by (rule load_unreadable)
  show "file_log H s = Some hist \<Longrightarrow> file_commit H act role why cancel src incident s sc new t = Inr (r, s')
      \<Longrightarrow> file_log H s' = Some (hist @ [r]) \<and> KillSwitchRecord.scope r = sc \<and> new_state r = new
        \<and> transitioned_at r = t" for s hist sc new t r s'
    unfolding file_commit_def file_log_Some
    by (erule transition_ok) (simp add: readable_or_empty_def)
qed

section \<open>Runs of the store\<close>

text \<open>The states reached from a missing file by successful transitions.\<close>

inductive store_reachable :: "digest \<Rightarrow> store_file \<Rightarrow> bool" for H where
  initial: "store_reachable H Absent"
| step: "store_reachable H s \<Longrightarrow>
    transition H s sc new act role at_ts why cancel src incident = Inr (r, s') \<Longrightarrow>
    store_reachable H s'"

text \<open>Each record states, as its prior state, what the log before it recorded for its scope.\<close>

definition audit_chain :: "KillSwitchRecord list \<Rightarrow> bool" where
  "audit_chain hist \<longleftrightarrow> (\<forall>before r after. hist = before @ r # after \<longrightarrow>
     prior_state r = recorded_state before (record_key r))"

lemma audit_chain_snoc:
  "audit_chain (hist @ [r]) \<longleftrightarrow> audit_chain hist \<and> prior_state r = recorded_state hist (record_key r)"
proof
  assume a: "audit_chain (hist @ [r])"
  have "prior_state x = recorded_state b (record_key x)" if "hist = b @ x # c" for b x c
    using a that unfolding audit_chain_def by (metis append_Cons append_assoc)
  moreover have "prior_state r = recorded_state hist (record_key r)"
    using a unfolding audit_chain_def by blast
  ultimately show "audit_chain hist \<and> prior_state r = recorded_state hist (record_key r)"
    by (auto simp: audit_chain_def)
next
  assume a: "audit_chain hist \<and> prior_state r = recorded_state hist (record_key r)"
  show "audit_chain (hist @ [r])"
    unfolding audit_chain_def
  proof (intro allI impI)
    fix b x c assume e: "hist @ [r] = b @ x # c"
    show "prior_state x = recorded_state b (record_key x)"
    proof (cases c rule: rev_cases)
      case Nil
      then show ?thesis using a e by simp
    next
      case (snoc c' z)
      then have "hist = b @ x # c'" using e by simp
      then show ?thesis using a unfolding audit_chain_def by blast
    qed
  qed
qed

lemma reachable_log:
  assumes "store_reachable H s"
  shows "\<exists>hist. read_records H s = Inr (Some hist) \<and> audit_chain hist"
  using assms
proof (induction rule: store_reachable.induct)
  case initial
  then show ?case by (simp add: audit_chain_def)
next
  case (step s sc new act role at_ts why cancel src incident r s')
  from step.IH obtain hist where h: "read_records H s = Inr (Some hist)" "audit_chain hist" by blast
  from step.hyps(2) show ?case
    by (rule transition_ok) (use h in \<open>simp add: readable_or_empty_def audit_chain_snoc record_key_def\<close>)
qed

section \<open>Properties\<close>

text \<open>C5: A read of a readable log never raises for valid scopes, and returns a valid snapshot
  whose active records are exactly the latest records of the requested scopes and of the global
  one, and whose active state is the most severe state among them, or unknown when there is none.\<close>

theorem load_snapshot_most_restrictive:
  assumes "digest_ok H" "read_records H s = Inr (Some hist)" "list_all valid_scope scopes"
  shows "\<exists>snap. load_snapshot H s t scopes = Inr snap
    \<and> construct_KillSwitchSnapshot H snap = Inr snap
    \<and> effective hist scopes (active_state snap)
    \<and> set (active_records snap) = {r. latest_in hist r \<and> record_key r \<in> evaluated_keys scopes}"
  using load_snapshot_ok [OF assms, of t] by blast

text \<open>C11: Once a transition of a scope is committed with a time after every earlier one of that
  scope, every later read that asks for the scope (the global scope is always asked for) returns a
  state at least as severe as the committed one, whatever other records the log holds.\<close>

theorem transition_then_load:
  assumes "digest_ok H" "read_records H s = Inr (Some hist)"
    and "transition H s sc new act role t why cancel src incident = Inr (r, s')"
    and "\<And>x. x \<in> set hist \<Longrightarrow> record_key x = KillSwitchScope_key sc \<Longrightarrow> transitioned_at x < t"
    and "list_all valid_scope scopes" "KillSwitchScope_key sc \<in> evaluated_keys scopes"
  shows "\<exists>snap. load_snapshot H s' t' scopes = Inr snap
    \<and> state_severity new \<le> state_severity (active_state snap)"
  using file_store.commit_then_load [OF assms(1), of s hist act role why cancel src incident sc new t r s' scopes t']
    assms(2-) unfolding file_commit_def file_log_Some by blast

text \<open>C6: Every store reached from a missing file by transitions can be read, all its records are
  valid, and each record's prior state is the state the log before it records for the scope:
  the audit chain has no gap.\<close>

theorem reachable_store_audit_chain:
  assumes "store_reachable H s"
  shows "\<exists>hist. read_records H s = Inr (Some hist)
    \<and> (\<forall>r \<in> set hist. valid_record H r)
    \<and> (\<forall>before r after. hist = before @ r # after \<longrightarrow>
        (\<exists>l. latest_in before l \<and> record_key l = record_key r \<and> new_state l = prior_state r)
        \<or> ((\<forall>x \<in> set before. record_key x \<noteq> record_key r) \<and> prior_state r = UNKNOWN_FAIL_CLOSED))"
proof -
  obtain hist where h: "read_records H s = Inr (Some hist)" "audit_chain hist"
    using reachable_log [OF assms] by blast
  have "\<forall>before r after. hist = before @ r # after \<longrightarrow>
        (\<exists>l. latest_in before l \<and> record_key l = record_key r \<and> new_state l = prior_state r)
        \<or> ((\<forall>x \<in> set before. record_key x \<noteq> record_key r) \<and> prior_state r = UNKNOWN_FAIL_CLOSED)"
  proof (intro allI impI)
    fix before r after assume e: "hist = before @ r # after"
    have "recorded_state before (record_key r) = prior_state r"
      by (rule h(2) [unfolded audit_chain_def, rule_format, OF e, symmetric])
    then show "(\<exists>l. latest_in before l \<and> record_key l = record_key r \<and> new_state l = prior_state r)
        \<or> ((\<forall>x \<in> set before. record_key x \<noteq> record_key r) \<and> prior_state r = UNKNOWN_FAIL_CLOSED)"
      unfolding recorded_state_iff .
  qed
  then show ?thesis using h(1) read_records_valid by blast
qed

lemma make_record_returns:
  assumes "digest_ok H" "valid_scope sc" "non_empty_string act" "non_empty_string role" "non_empty_string why"
    "opt_all canonical_id incident"
  shows "\<exists>r. make_kill_switch_record H sc prior new act role t why cancel src incident = Inr r"
proof -
  have "canonical_id (stable_id H ''KILLRECORD'' p)" for p
    by (rule stable_id_canonical [OF assms(1)]) (simp_all add: canonical_id_def upper_char_def)
  moreover have "non_empty_string ''FR-011''" "non_empty_string ''NFR-004''"
    by (simp_all add: non_empty_string_def strip_def py_space_def)
  ultimately show ?thesis
    using assms(2-) by (simp add: make_kill_switch_record_def construct_KillSwitchRecord_def
        build_kill_switch_record_id_def valid_scope_def)
qed




subsection \<open>Instances\<close>

definition global_scope :: KillSwitchScope where
  "global_scope = \<lparr>KillSwitchScope.scope_type = GLOBAL, scope_id = None\<rparr>"

definition example_halt :: "store_file \<Rightarrow> datetime \<Rightarrow> (KillSwitchRecord \<times> store_file) result" where
  "example_halt s t = transition (\<lambda>p. zero_hash) s global_scope KillSwitchState.HALTED ''ops'' ''risk owner'' t
     ''drill'' True MANUAL None"

lemma global_scope_valid: "valid_scope global_scope"
  by (simp add: valid_scope_def construct_KillSwitchScope_def global_scope_def)

lemma example_texts_ok: "non_empty_string ''ops''" "non_empty_string ''risk owner''" "non_empty_string ''drill''"
  by (simp_all add: non_empty_string_def strip_def py_space_def)

lemma example_halt_ok: "\<exists>r. example_halt Absent (DT 0 0) = Inr (r, write_records [r])"
  using make_record_returns [OF digest_ok_example global_scope_valid example_texts_ok, of None UNKNOWN_FAIL_CLOSED
      KillSwitchState.HALTED "DT 0 0" True MANUAL]
  by (auto simp: example_halt_def transition_def readable_or_empty_def latest_records_by_scope_def)

theorem load_snapshot_most_restrictive_witness:
  "\<exists>snap. load_snapshot (\<lambda>p. zero_hash) Absent (DT 5 0) [global_scope] = Inr snap
    \<and> effective [] [global_scope] (active_state snap)"
  using load_snapshot_most_restrictive [OF digest_ok_example, of Absent "[]" "[global_scope]" "DT 5 0"]
    global_scope_valid by auto

theorem transition_then_load_witness:
  "\<exists>r s' snap. example_halt Absent (DT 0 0) = Inr (r, s')
    \<and> load_snapshot (\<lambda>p. zero_hash) s' (DT 5 0) [global_scope] = Inr snap \<and> 5 \<le> state_severity (active_state snap)"
proof -
  obtain r s' where r: "example_halt Absent (DT 0 0) = Inr (r, s')" using example_halt_ok by blast
  then have "\<exists>snap. load_snapshot (\<lambda>p. zero_hash) s' (DT 5 0) [global_scope] = Inr snap
      \<and> state_severity KillSwitchState.HALTED \<le> state_severity (active_state snap)"
    unfolding example_halt_def
    by (rule transition_then_load [OF digest_ok_example, where hist = "[]", rotated])
      (simp_all add: global_scope_valid evaluated_keys_def)
  with r show ?thesis by auto
qed

theorem reachable_store_audit_chain_witness:
  "\<exists>r s' hist. example_halt Absent (DT 0 0) = Inr (r, s')
    \<and> read_records (\<lambda>p. zero_hash) s' = Inr (Some hist) \<and> (\<forall>r \<in> set hist. valid_record (\<lambda>p. zero_hash) r)"
proof -
  obtain r s' where r: "example_halt Absent (DT 0 0) = Inr (r, s')" using example_halt_ok by blast
  have "store_reachable (\<lambda>p. zero_hash) s'"
    using r unfolding example_halt_def by (rule store_reachable.step [OF store_reachable.initial])
  from reachable_store_audit_chain [OF this] r show ?thesis by blast
qed


end
