(* ===== verification/RiskEngine.thy ===== *)
theory RiskEngine
  imports KillSwitch
begin

text \<open>
  The pure pre-trade risk engine of \<open>risk/engine.py\<close>: the metadata lookup, the effect of
  the order, the twenty-three limit evaluations with their thresholds and branch order, the
  caps of soft breaches and the final decision.  An evaluation is a value of the error monad,
  since building one looks up its owner and runs its validator; the theory shows when each
  limit passes, breaches softly or breaches hard, that none raises on a validated request, and
  what an approval implies.  Divisors are positive in validated requests, so \<open>Decimal\<close>
  division does not raise there.
\<close>

section \<open>Metadata and order effect\<close>

record MetadataView =
  venue :: "Venue option"
  instrument :: "Instrument option"
  account :: "Account option"
  "constraint" :: "InstrumentConstraint option"

definition active_constraint :: "InstrumentMasterSnapshot \<Rightarrow> string \<Rightarrow> InstrumentConstraint option" where
  "active_constraint s iid =
     (case active_constraints (instrument_constraints s) iid (created_at s) of
        [c] \<Rightarrow> Some c | _ \<Rightarrow> None)"

definition metadata_view :: "RiskCheckRequest \<Rightarrow> MetadataView" where
  "metadata_view r =
     (let s = instrument_master_snapshot r; i = order_intent r
      in \<lparr>MetadataView.venue =
            find (\<lambda>v. Venue.venue_id v = OrderIntent.venue_id i) (venues s),
          instrument =
            find (\<lambda>x. Instrument.instrument_id x = OrderIntent.instrument_id i
                    \<and> Instrument.venue_id x = OrderIntent.venue_id i) (instruments s),
          account =
            find (\<lambda>a. Account.account_id a = RiskCheckRequest.account_id r
                    \<and> Account.venue_id a = OrderIntent.venue_id i) (accounts s),
          constraint = active_constraint s (OrderIntent.instrument_id i)\<rparr>)"

definition order_effect_of :: "RiskCheckRequest \<Rightarrow> OrderEffect" where
  "order_effect_of r =
     (let i = order_intent r; q = OrderIntent.quantity i; p = RiskCheckRequest.reference_price r;
          n = q * p; buy = (OrderIntent.side i = BUY);
          pos = (if buy then current_instrument_position_quantity r + q
                 else current_instrument_position_quantity r - q);
          cash = (if buy then current_cash r - n else current_cash r + n);
          inst = (if buy then current_instrument_exposure_notional r + n
                  else py_max (Dec 0 0) (current_instrument_exposure_notional r - n));
          strat = (if buy then current_strategy_exposure_notional r + n
                   else py_max (Dec 0 0) (current_strategy_exposure_notional r - n));
          total = (if buy then current_total_spot_exposure_notional r + n
                   else py_max (Dec 0 0) (current_total_spot_exposure_notional r - n))
      in \<lparr>OrderEffect.side = OrderIntent.side i, quantity = q, reference_price = p,
          proposed_notional = n, resulting_position_quantity = pos,
          resulting_position_notional = py_max (Dec 0 0) (pos * p),
          resulting_cash = cash,
          resulting_instrument_exposure_notional = inst,
          resulting_strategy_exposure_notional = strat,
          resulting_total_spot_exposure_notional = total,
          cash_reserve_pct = cash / account_equity r,
          risk_increasing = (if buy then True else pos < 0)\<rparr>)"

definition build_order_effect :: "RiskCheckRequest \<Rightarrow> OrderEffect result" where
  "build_order_effect r = construct_OrderEffect (order_effect_of r)"

section \<open>Evaluations\<close>

definition limit_owners :: "(string \<times> string) list" where
  "limit_owners =
     [(''scope.product_mvp'', ''Product / risk''),
      (''config.required_state'', ''Risk / architecture''),
      (''kill_switch.active_state'', ''Risk / ops''),
      (''order.max_notional'', ''Risk / execution''),
      (''order.price_collar'', ''Execution / risk''),
      (''position.instrument_exposure'', ''Risk''),
      (''position.strategy_exposure'', ''Risk / strategy owner''),
      (''position.total_spot_exposure'', ''Risk / product''),
      (''position.no_short_or_oversell'', ''Risk / execution''),
      (''loss.daily_account'', ''Risk''),
      (''loss.daily_strategy'', ''Risk / strategy owner''),
      (''loss.max_drawdown'', ''Risk / product''),
      (''liquidity.participation'', ''Execution / risk''),
      (''liquidity.spread'', ''Execution / risk''),
      (''market.volatility'', ''Risk / quant''),
      (''data.freshness'', ''Data / risk''),
      (''venue.status'', ''Ops / execution''),
      (''execution.order_throttle'', ''Execution / ops''),
      (''execution.duplicate_idempotency'', ''Execution / risk''),
      (''execution.reject_burst'', ''Execution / ops''),
      (''engine.latency'', ''Ops / risk''),
      (''model.drift_or_calibration'', ''ML / risk''),
      (''tca.cost_slippage'', ''Execution / risk'')]"

text \<open>\<open>_evaluation\<close>; a missing status argument is \<open>None\<close>.\<close>

definition evaluation :: "string \<Rightarrow> decimal \<Rightarrow> decimal \<Rightarrow> RiskLimitStatus option \<Rightarrow> RiskReasonCode \<Rightarrow>
    decimal option \<Rightarrow> decimal option \<Rightarrow> RiskLimitEvaluation result" where
  "evaluation lid v hard st code soft cap =
     (let final = (case st of Some x \<Rightarrow> x | None \<Rightarrow> PASS)
      in case map_of limit_owners lid of
           None \<Rightarrow> Inl (KeyError lid)
         | Some o' \<Rightarrow> construct_RiskLimitEvaluation
             \<lparr>RiskLimitEvaluation.limit_id = lid, owner = o', status = final,
              passed = (final = PASS), current_value = v, soft_threshold = soft,
              hard_threshold = Some hard, capped_value = cap, reason_code = code\<rparr>)"

definition threshold_evaluation :: "string \<Rightarrow> decimal \<Rightarrow> decimal \<Rightarrow> decimal \<Rightarrow> RiskReasonCode \<Rightarrow>
    RiskReasonCode \<Rightarrow> RiskLimitEvaluation result" where
  "threshold_evaluation lid v soft hard soft_reason hard_reason =
     (if hard < v then evaluation lid v hard (Some HARD_BREACH) hard_reason (Some soft) None
      else if soft < v then evaluation lid v hard (Some SOFT_BREACH) soft_reason (Some soft) (Some soft)
      else evaluation lid v hard None PASSED (Some soft) None)"

definition negative_loss_evaluation :: "string \<Rightarrow> decimal \<Rightarrow> decimal \<Rightarrow> decimal \<Rightarrow> RiskReasonCode \<Rightarrow>
    RiskReasonCode \<Rightarrow> RiskLimitEvaluation result" where
  "negative_loss_evaluation lid v soft hard soft_reason hard_reason =
     (if v \<le> hard then evaluation lid v hard (Some HARD_BREACH) hard_reason (Some soft) None
      else if v \<le> soft then evaluation lid v hard (Some SOFT_BREACH) soft_reason (Some soft) None
      else evaluation lid v hard None PASSED (Some soft) None)"

definition orderable_metadata :: "MetadataView \<Rightarrow> bool" where
  "orderable_metadata md \<longleftrightarrow>
     (case instrument md of None \<Rightarrow> False
      | Some i \<Rightarrow> Instrument.status i = TRADING \<and> MARKET \<in> Instrument.supported_order_types i)
     \<and> (case account md of None \<Rightarrow> False
        | Some a \<Rightarrow> Account.status a = AccountStatus.ACTIVE \<and> PLACE_ORDERS \<in> trading_permissions a)"

definition required_state_evaluation ::
  "RiskCheckRequest \<Rightarrow> MetadataView \<Rightarrow> RiskLimitEvaluation result" where
  "required_state_evaluation r md =
     (if (venue md \<noteq> None \<and> instrument md \<noteq> None \<and> account md \<noteq> None \<and> constraint md \<noteq> None)
         \<and> orderable_metadata md
         \<and> active_state (kill_switch_snapshot r) \<noteq> UNKNOWN_FAIL_CLOSED
      then evaluation ''config.required_state'' (Dec 1 0) (Dec 1 0) None PASSED None None
      else evaluation ''config.required_state'' (Dec 0 0) (Dec 1 0) (Some HARD_BREACH)
             REQUIRED_STATE_MISSING None None)"

definition in_product_scope :: "MetadataView \<Rightarrow> bool" where
  "in_product_scope md \<longleftrightarrow>
     (case (instrument md, account md) of
        (Some i, Some a) \<Rightarrow> instrument_type i = SPOT \<and> \<not> is_derivative i \<and> \<not> margin_allowed i
          \<and> \<not> short_selling_allowed i \<and> \<not> leverage_allowed i
          \<and> account_type a \<in> {SIMULATION, AccountType.PAPER}
          \<and> \<not> live_capital_enabled a \<and> \<not> margin_enabled a \<and> \<not> derivatives_enabled a
          \<and> \<not> shorting_enabled a
      | _ \<Rightarrow> False)"

definition product_scope_evaluation :: "MetadataView \<Rightarrow> RiskLimitEvaluation result" where
  "product_scope_evaluation md =
     (if in_product_scope md
      then evaluation ''scope.product_mvp'' (Dec 1 0) (Dec 1 0) None PASSED None None
      else evaluation ''scope.product_mvp'' (Dec 0 0) (Dec 1 0) (Some HARD_BREACH)
             OUTSIDE_MVP_SCOPE None None)"

definition kill_switch_evaluation ::
  "RiskCheckRequest \<Rightarrow> OrderEffect \<Rightarrow> RiskLimitEvaluation result" where
  "kill_switch_evaluation r f =
     (let st = active_state (kill_switch_snapshot r); v = Dec (state_severity st) 0
      in if st = UNKNOWN_FAIL_CLOSED
         then evaluation ''kill_switch.active_state'' v (Dec 0 0) (Some HARD_BREACH)
                UNKNOWN_KILL_STATE None None
         else if st = CLEAR
         then evaluation ''kill_switch.active_state'' v (Dec 0 0) None PASSED None None
         else if st = SOFT_LIMITED
         then evaluation ''kill_switch.active_state'' v (Dec 0 0) (Some SOFT_BREACH)
                KILL_SWITCH_ACTIVE None None
         else if st \<in> {PAUSE_NEW_ORDERS, REDUCE_ONLY} \<and> \<not> risk_increasing f
         then evaluation ''kill_switch.active_state'' v (Dec 3 0) None PASSED None None
         else evaluation ''kill_switch.active_state'' v (Dec 0 0) (Some HARD_BREACH)
                KILL_SWITCH_ACTIVE None None)"

definition venue_status_evaluation :: "MetadataView \<Rightarrow> RiskLimitEvaluation result" where
  "venue_status_evaluation md =
     (case map_option Venue.status (venue md) of
        Some VenueStatus.ACTIVE \<Rightarrow>
          evaluation ''venue.status'' (Dec 1 0) (Dec 1 0) None PASSED None None
      | Some VenueStatus.DEGRADED \<Rightarrow>
          evaluation ''venue.status'' (Dec 5 (-1)) (Dec 1 0) (Some SOFT_BREACH) VENUE_STATUS_SOFT
            None None
      | _ \<Rightarrow> evaluation ''venue.status'' (Dec 0 0) (Dec 1 0) (Some HARD_BREACH) VENUE_STATUS_HARD
            None None)"

definition price_collar_evaluation :: "RiskCheckRequest \<Rightarrow> RiskPolicy \<Rightarrow> RiskLimitEvaluation result" where
  "price_collar_evaluation r p =
     (let t = price_risk r; hard = price_collar_hard_bps p; soft = price_collar_soft_bps p;
          v = price_deviation_bps t
      in if \<not> reference_price_available t
         then evaluation ''order.price_collar'' v hard (Some HARD_BREACH) ORDER_PRICE_COLLAR_HARD
                (Some soft) None
         else if hard < v \<or> (OrderIntent.order_type (order_intent r) = MARKET \<and> soft < v)
         then evaluation ''order.price_collar'' v hard (Some HARD_BREACH) ORDER_PRICE_COLLAR_HARD
                (Some soft) None
         else if soft < v
         then evaluation ''order.price_collar'' v hard (Some SOFT_BREACH) ORDER_PRICE_COLLAR_SOFT
                (Some soft) None
         else evaluation ''order.price_collar'' v hard None PASSED (Some soft) None)"

text \<open>\<open>metadata.account.risk_limits.<limit> if metadata.account is not None else <default>\<close>.\<close>

definition account_limit :: "MetadataView \<Rightarrow> (AccountRiskLimits \<Rightarrow> decimal) \<Rightarrow> decimal \<Rightarrow> decimal" where
  "account_limit md f d = (case account md of Some a \<Rightarrow> f (risk_limits a) | None \<Rightarrow> d)"

definition order_notional_hard :: "RiskPolicy \<Rightarrow> MetadataView \<Rightarrow> decimal" where
  "order_notional_hard p md =
     (let h = py_min (paper_nav p * max_order_notional_hard_pct p)
                (paper_nav p * account_limit md max_order_notional_pct (max_order_notional_hard_pct p))
      in case constraint md of None \<Rightarrow> h
         | Some c \<Rightarrow> (case max_order_notional c of None \<Rightarrow> h | Some m \<Rightarrow> py_min h m))"

definition order_notional_evaluation ::
  "RiskPolicy \<Rightarrow> MetadataView \<Rightarrow> OrderEffect \<Rightarrow> RiskLimitEvaluation result" where
  "order_notional_evaluation p md f =
     (let hard = order_notional_hard p md; soft = paper_nav p * max_order_notional_soft_pct p;
          v = proposed_notional f
      in if \<not> risk_increasing f
         then evaluation ''order.max_notional'' v hard None PASSED None None
         else threshold_evaluation ''order.max_notional'' v soft hard
                ORDER_MAX_NOTIONAL_SOFT ORDER_MAX_NOTIONAL_HARD)"

definition instrument_exposure_hard :: "RiskPolicy \<Rightarrow> MetadataView \<Rightarrow> decimal" where
  "instrument_exposure_hard p md = py_min (paper_nav p * max_instrument_exposure_hard_pct p)
     (paper_nav p * account_limit md max_instrument_exposure_pct (max_instrument_exposure_hard_pct p))"

definition instrument_exposure_evaluation ::
  "RiskPolicy \<Rightarrow> MetadataView \<Rightarrow> OrderEffect \<Rightarrow> RiskLimitEvaluation result" where
  "instrument_exposure_evaluation p md f =
     (let hard = instrument_exposure_hard p md; soft = paper_nav p * max_instrument_exposure_soft_pct p;
          v = resulting_instrument_exposure_notional f
      in if \<not> risk_increasing f
         then evaluation ''position.instrument_exposure'' v hard None PASSED (Some soft) None
         else threshold_evaluation ''position.instrument_exposure'' v soft hard
                POSITION_INSTRUMENT_EXPOSURE_SOFT POSITION_INSTRUMENT_EXPOSURE_HARD)"

definition strategy_exposure_hard :: "RiskPolicy \<Rightarrow> MetadataView \<Rightarrow> decimal" where
  "strategy_exposure_hard p md = py_min (paper_nav p * max_strategy_exposure_hard_pct p)
     (paper_nav p * account_limit md max_strategy_exposure_pct (max_strategy_exposure_hard_pct p))"

definition strategy_exposure_evaluation ::
  "RiskPolicy \<Rightarrow> MetadataView \<Rightarrow> OrderEffect \<Rightarrow> RiskLimitEvaluation result" where
  "strategy_exposure_evaluation p md f =
     (let hard = strategy_exposure_hard p md; soft = paper_nav p * max_strategy_exposure_soft_pct p;
          v = resulting_strategy_exposure_notional f
      in if \<not> risk_increasing f
         then evaluation ''position.strategy_exposure'' v hard None PASSED (Some soft) None
         else threshold_evaluation ''position.strategy_exposure'' v soft hard
                POSITION_STRATEGY_EXPOSURE_SOFT POSITION_STRATEGY_EXPOSURE_HARD)"

definition total_spot_exposure_hard :: "RiskPolicy \<Rightarrow> MetadataView \<Rightarrow> decimal" where
  "total_spot_exposure_hard p md = py_min (paper_nav p * max_total_spot_exposure_hard_pct p)
     (paper_nav p * account_limit md max_total_spot_exposure_pct (max_total_spot_exposure_hard_pct p))"

definition cash_reserve_threshold :: "RiskPolicy \<Rightarrow> MetadataView \<Rightarrow> decimal" where
  "cash_reserve_threshold p md = py_max (paper_nav p * RiskPolicy.min_cash_reserve_pct p)
     (paper_nav p * account_limit md AccountRiskLimits.min_cash_reserve_pct (RiskPolicy.min_cash_reserve_pct p))"

definition total_spot_exposure_evaluation ::
  "RiskPolicy \<Rightarrow> MetadataView \<Rightarrow> OrderEffect \<Rightarrow> RiskLimitEvaluation result" where
  "total_spot_exposure_evaluation p md f =
     (let hard = total_spot_exposure_hard p md; soft = paper_nav p * max_total_spot_exposure_soft_pct p;
          cash = cash_reserve_threshold p md; v = resulting_total_spot_exposure_notional f
      in if risk_increasing f \<and> resulting_cash f < cash
         then evaluation ''position.total_spot_exposure'' (resulting_cash f) cash (Some HARD_BREACH)
                CASH_RESERVE_HARD (Some soft) None
         else if \<not> risk_increasing f
         then evaluation ''position.total_spot_exposure'' v hard None PASSED (Some soft) None
         else threshold_evaluation ''position.total_spot_exposure'' v soft hard
                POSITION_TOTAL_SPOT_EXPOSURE_SOFT POSITION_TOTAL_SPOT_EXPOSURE_HARD)"

definition oversell_quantity :: "RiskCheckRequest \<Rightarrow> decimal" where
  "oversell_quantity r =
     (if OrderIntent.side (order_intent r) = SELL
      then py_max (Dec 0 0)
             (OrderIntent.quantity (order_intent r) - current_instrument_position_quantity r)
      else Dec 0 0)"

definition no_short_or_oversell_evaluation :: "RiskCheckRequest \<Rightarrow> RiskLimitEvaluation result" where
  "no_short_or_oversell_evaluation r =
     (if 0 < oversell_quantity r
      then evaluation ''position.no_short_or_oversell'' (oversell_quantity r) (Dec 0 0)
             (Some HARD_BREACH) NO_SHORT_OR_OVERSELL None None
      else evaluation ''position.no_short_or_oversell'' (oversell_quantity r) (Dec 0 0) None PASSED
             None None)"

definition daily_account_loss_evaluation ::
  "RiskCheckRequest \<Rightarrow> RiskPolicy \<Rightarrow> RiskLimitEvaluation result" where
  "daily_account_loss_evaluation r p =
     negative_loss_evaluation ''loss.daily_account'' (daily_account_pnl (loss_risk r))
       (- (paper_nav p * max_daily_account_loss_soft_pct p))
       (- (paper_nav p * max_daily_account_loss_hard_pct p))
       DAILY_ACCOUNT_LOSS_SOFT DAILY_ACCOUNT_LOSS_HARD"

definition daily_strategy_loss_evaluation ::
  "RiskCheckRequest \<Rightarrow> RiskPolicy \<Rightarrow> RiskLimitEvaluation result" where
  "daily_strategy_loss_evaluation r p =
     negative_loss_evaluation ''loss.daily_strategy'' (daily_strategy_pnl (loss_risk r))
       (- (paper_nav p * max_daily_strategy_loss_soft_pct p))
       (- (paper_nav p * max_daily_strategy_loss_hard_pct p))
       DAILY_STRATEGY_LOSS_SOFT DAILY_STRATEGY_LOSS_HARD"

definition max_drawdown_evaluation ::
  "RiskCheckRequest \<Rightarrow> RiskPolicy \<Rightarrow> RiskLimitEvaluation result" where
  "max_drawdown_evaluation r p =
     threshold_evaluation ''loss.max_drawdown'' (LossRiskTelemetry.max_drawdown_pct (loss_risk r))
       (max_drawdown_soft_pct p) (max_drawdown_hard_pct p) MAX_DRAWDOWN_SOFT MAX_DRAWDOWN_HARD"

text \<open>The tuples (value, soft, hard, soft cap) of the liquidity checks.\<close>

type_synonym participation_check = "decimal \<times> decimal \<times> decimal \<times> decimal"

definition participation_checks ::
  "LiquidityRiskTelemetry \<Rightarrow> RiskPolicy \<Rightarrow> OrderEffect \<Rightarrow> participation_check list" where
  "participation_checks t p f =
     (case rolling_24h_quote_volume_notional t of None \<Rightarrow> []
      | Some v \<Rightarrow> [(proposed_notional f / v, max_participation_24h_quote_volume_soft_pct p,
                 max_participation_24h_quote_volume_hard_pct p,
                 v * max_participation_24h_quote_volume_soft_pct p)])
     @ (case top_of_book_depth_notional t of None \<Rightarrow> []
        | Some v \<Rightarrow> [(proposed_notional f / v, max_participation_top_of_book_depth_soft_pct p,
                 max_participation_top_of_book_depth_hard_pct p,
                 v * max_participation_top_of_book_depth_soft_pct p)])"

definition liquidity_participation_evaluation ::
  "RiskCheckRequest \<Rightarrow> RiskPolicy \<Rightarrow> OrderEffect \<Rightarrow> RiskLimitEvaluation result" where
  "liquidity_participation_evaluation r p f =
     (let t = liquidity_risk r; checks = participation_checks t p f in
      if depth_metric_required t \<and> top_of_book_depth_notional t = None
      then evaluation ''liquidity.participation'' (Dec 1 0) (Dec 0 0) (Some HARD_BREACH)
             LIQUIDITY_PARTICIPATION_HARD None None
      else case checks of
        [] \<Rightarrow> evaluation ''liquidity.participation'' (Dec 0 0)
                (max_participation_24h_quote_volume_hard_pct p) None PASSED
                (Some (max_participation_24h_quote_volume_soft_pct p)) None
      | c # cs \<Rightarrow>
        (case find (\<lambda>(v, soft, hard, cap). hard < v) checks of
           Some (v, soft, hard, cap) \<Rightarrow>
             evaluation ''liquidity.participation'' v hard (Some HARD_BREACH)
               LIQUIDITY_PARTICIPATION_HARD (Some soft) None
         | None \<Rightarrow>
           (case find (\<lambda>(v, soft, hard, cap). soft < v) checks of
              Some (v, soft, hard, cap) \<Rightarrow>
                evaluation ''liquidity.participation'' v hard (Some SOFT_BREACH)
                  LIQUIDITY_PARTICIPATION_SOFT (Some soft) (Some cap)
            | None \<Rightarrow>
                (case max_by fst c cs of (v, soft, hard, cap) \<Rightarrow>
                   evaluation ''liquidity.participation'' v hard None PASSED (Some soft) None))))"

definition liquidity_spread_evaluation ::
  "RiskCheckRequest \<Rightarrow> RiskPolicy \<Rightarrow> RiskLimitEvaluation result" where
  "liquidity_spread_evaluation r p =
     (let t = liquidity_risk r; soft = max_spread_soft_bps p in
      case current_spread_bps t of
        None \<Rightarrow> evaluation ''liquidity.spread'' (Dec 0 0) (max_spread_hard_bps p) (Some HARD_BREACH)
                  LIQUIDITY_SPREAD_HARD (Some soft) None
      | Some v \<Rightarrow>
          threshold_evaluation ''liquidity.spread'' v soft
            (case spread_cost_model_envelope_bps t of None \<Rightarrow> max_spread_hard_bps p
             | Some e \<Rightarrow> py_min (max_spread_hard_bps p) e)
            LIQUIDITY_SPREAD_SOFT LIQUIDITY_SPREAD_HARD)"

text \<open>\<open>x or Decimal("0")\<close>: a zero of any exponent and a missing value are both \<open>Decimal("0")\<close>.\<close>

definition or_zero :: "decimal option \<Rightarrow> decimal" where
  "or_zero x = (case x of None \<Rightarrow> Dec 0 0 | Some v \<Rightarrow> if dec_eq v 0 then Dec 0 0 else v)"

definition market_volatility_evaluation ::
  "RiskCheckRequest \<Rightarrow> RiskPolicy \<Rightarrow> RiskLimitEvaluation result" where
  "market_volatility_evaluation r p =
     (let t = market_risk r; hard = max_volatility_envelope_hard_multiplier p;
          soft = max_volatility_envelope_soft_multiplier p;
          v = or_zero (volatility_envelope_multiplier t)
      in if \<not> volatility_envelope_available t \<or> volatility_envelope_multiplier t = None
            \<or> volatility_shock_active t
         then evaluation ''market.volatility'' v hard (Some HARD_BREACH) MARKET_VOLATILITY_HARD
                (Some soft) None
         else threshold_evaluation ''market.volatility'' v soft hard
                MARKET_VOLATILITY_SOFT MARKET_VOLATILITY_HARD)"

definition blocking_signals :: "RiskCheckRequest \<Rightarrow> DataHealthSignal list" where
  "blocking_signals r = filter (\<lambda>g. blocks_trading g
     \<and> (blocked_instrument_id g = None
        \<or> blocked_instrument_id g = Some (OrderIntent.instrument_id (order_intent r))))
     (data_health_signals r)"

definition data_freshness_evaluation :: "RiskCheckRequest \<Rightarrow> RiskLimitEvaluation result" where
  "data_freshness_evaluation r =
     (if blocking_signals r \<noteq> []
      then evaluation ''data.freshness'' (Dec (int (length (blocking_signals r))) 0) (Dec 0 0)
             (Some HARD_BREACH) DATA_HEALTH_BLOCK None None
      else evaluation ''data.freshness'' (Dec 0 0) (Dec 0 0) None PASSED None None)"

definition unresolved_state :: "OrderIdempotencyState \<Rightarrow> bool" where
  "unresolved_state st \<longleftrightarrow> st \<in> {RECEIVED, ACCEPTED, PLACED, OrderIdempotencyState.UNKNOWN}"

definition duplicate_records :: "digest \<Rightarrow> RiskCheckRequest \<Rightarrow> OrderIdempotencyRecord list" where
  "duplicate_records H r =
     (let h = build_order_intent_hash H (order_intent r)
      in filter (\<lambda>x. unresolved_state (state x)
           \<and> (OrderIdempotencyRecord.idempotency_key x = RiskCheckRequest.idempotency_key r
              \<or> OrderIdempotencyRecord.client_order_id x = OrderIntent.client_order_id (order_intent r)
              \<or> OrderIdempotencyRecord.trace_id x = RiskCheckRequest.trace_id r
              \<or> order_intent_hash x = h)) (idempotency_records r))"

definition idempotency_evaluation :: "digest \<Rightarrow> RiskCheckRequest \<Rightarrow> RiskLimitEvaluation result" where
  "idempotency_evaluation H r =
     (if duplicate_records H r \<noteq> []
      then evaluation ''execution.duplicate_idempotency''
             (Dec (int (length (duplicate_records H r))) 0) (Dec 0 0)
             (Some HARD_BREACH) DUPLICATE_IDEMPOTENCY None None
      else evaluation ''execution.duplicate_idempotency'' (Dec 0 0) (Dec 0 0) None PASSED None None)"

definition throttle_evaluation :: "OrderThrottleWindow \<Rightarrow> RiskLimitEvaluation result" where
  "throttle_evaluation w =
     (let v = Dec (observed_intent_count w + 1) 0; hard = Dec (OrderThrottleWindow.hard_limit w) 0;
          soft = Dec (OrderThrottleWindow.soft_limit w) 0
      in if hard < v
         then evaluation ''execution.order_throttle'' v hard (Some HARD_BREACH) ORDER_THROTTLE_HARD
                (Some soft) None
         else if soft < v
         then evaluation ''execution.order_throttle'' v hard (Some SOFT_BREACH) ORDER_THROTTLE_SOFT
                (Some soft) None
         else evaluation ''execution.order_throttle'' v hard None PASSED (Some soft) None)"

definition throttle_evaluations :: "RiskCheckRequest \<Rightarrow> RiskLimitEvaluation list result" where
  "throttle_evaluations r =
     (if throttle_windows r = []
      then mapE (\<lambda>_. evaluation ''execution.order_throttle'' (Dec 0 0) (Dec 0 0) None PASSED
                        (Some (Dec 0 0)) None) [()]
      else mapE throttle_evaluation (throttle_windows r))"

definition reject_burst_evaluation :: "ExecutionRejectBurstWindow \<Rightarrow> RiskLimitEvaluation result" where
  "reject_burst_evaluation w =
     (let v = Dec (observed_reject_count w) 0; hard = Dec (ExecutionRejectBurstWindow.hard_limit w) 0;
          soft = Dec (ExecutionRejectBurstWindow.soft_limit w) 0
      in if unknown_state_reject_observed w \<or> hard \<le> v
         then evaluation ''execution.reject_burst'' v hard (Some HARD_BREACH) REJECT_BURST_HARD
                (Some soft) None
         else if soft \<le> v
         then evaluation ''execution.reject_burst'' v hard (Some SOFT_BREACH) REJECT_BURST_SOFT
                (Some soft) None
         else evaluation ''execution.reject_burst'' v hard None PASSED (Some soft) None)"

definition reject_burst_evaluations :: "RiskCheckRequest \<Rightarrow> RiskLimitEvaluation list result" where
  "reject_burst_evaluations r =
     (if reject_burst_windows r = []
      then mapE (\<lambda>_. evaluation ''execution.reject_burst'' (Dec 0 0) (Dec 0 0) None PASSED None None) [()]
      else mapE reject_burst_evaluation (reject_burst_windows r))"

definition timedelta_ms :: "int \<Rightarrow> decimal" where
  "timedelta_ms delta = total_seconds_decimal delta * Dec 1000 0"

definition observed_latency :: "RiskCheckRequest \<Rightarrow> decimal" where
  "observed_latency r = py_max (timedelta_ms (dt_diff (risk_check_ts r) (decision_ts r)))
     (risk_to_gateway_latency_ms (engine_latency r))"

definition engine_latency_evaluation :: "RiskCheckRequest \<Rightarrow> RiskLimitEvaluation result" where
  "engine_latency_evaluation r =
     (let v = observed_latency r; hard = latency_budget_ms (engine_latency r);
          soft = hard * Dec 5 (-1)
      in if \<not> event_time_validity_proven (engine_latency r) \<or> hard < v
         then evaluation ''engine.latency'' v hard (Some HARD_BREACH) ENGINE_LATENCY_HARD (Some soft) None
         else if soft < v
         then evaluation ''engine.latency'' v hard (Some SOFT_BREACH) ENGINE_LATENCY_SOFT (Some soft) None
         else evaluation ''engine.latency'' v hard None PASSED (Some soft) None)"

definition model_drift_or_calibration_evaluation :: "RiskCheckRequest \<Rightarrow> RiskLimitEvaluation result" where
  "model_drift_or_calibration_evaluation r =
     (let t = model_risk r in
      if severe_anomaly_detected t \<or> \<not> calibrated_outputs t
      then evaluation ''model.drift_or_calibration'' (Dec 1 0) (Dec 0 0) (Some HARD_BREACH)
             MODEL_DRIFT_OR_CALIBRATION_HARD (Some (Dec 0 0)) None
      else if sustained_drift_detected t
      then evaluation ''model.drift_or_calibration'' (Dec 1 0) (Dec 0 0) (Some SOFT_BREACH)
             MODEL_DRIFT_OR_CALIBRATION_SOFT (Some (Dec 0 0)) None
      else evaluation ''model.drift_or_calibration'' (Dec 0 0) (Dec 0 0) None PASSED (Some (Dec 0 0)) None)"

definition tca_cost_slippage_evaluation ::
  "RiskCheckRequest \<Rightarrow> RiskPolicy \<Rightarrow> RiskLimitEvaluation result" where
  "tca_cost_slippage_evaluation r p =
     (let t = tca_risk r; hard = tca_cost_slippage_hard_multiplier p;
          soft = tca_cost_slippage_soft_multiplier p; v = or_zero (cost_slippage_multiplier t)
      in if \<not> tca_available t \<or> \<not> fill_quality_known t \<or> cost_slippage_multiplier t = None
         then evaluation ''tca.cost_slippage'' v hard (Some HARD_BREACH) TCA_COST_SLIPPAGE_HARD
                (Some soft) None
         else threshold_evaluation ''tca.cost_slippage'' v soft hard
                TCA_COST_SLIPPAGE_SOFT TCA_COST_SLIPPAGE_HARD)"

section \<open>The decision\<close>

definition allowed_incremental_notional ::
  "RiskCheckRequest \<Rightarrow> RiskLimitEvaluation \<Rightarrow> decimal option" where
  "allowed_incremental_notional r e =
     (if RiskLimitEvaluation.status e \<noteq> SOFT_BREACH then None
      else case capped_value e of None \<Rightarrow> None
      | Some c \<Rightarrow>
          if limit_id e = ''order.max_notional'' then Some c
          else if limit_id e = ''liquidity.participation'' then Some c
          else if limit_id e = ''position.instrument_exposure''
          then Some (c - current_instrument_exposure_notional r)
          else if limit_id e = ''position.strategy_exposure''
          then Some (c - current_strategy_exposure_notional r)
          else if limit_id e = ''position.total_spot_exposure''
               \<and> reason_code e = POSITION_TOTAL_SPOT_EXPOSURE_SOFT
          then Some (c - current_total_spot_exposure_notional r)
          else None)"

definition approval_after_soft_caps :: "RiskCheckRequest \<Rightarrow> OrderEffect \<Rightarrow> RiskLimitEvaluation list \<Rightarrow>
    (RiskDecisionStatus \<times> OrderIntent option) result" where
  "approval_after_soft_caps r f es =
     (let i = order_intent r;
          soft = filter (\<lambda>e. RiskLimitEvaluation.status e = SOFT_BREACH) es
      in if OrderIntent.side i \<noteq> BUY \<or> \<not> risk_increasing f
         then Inr (RiskDecisionStatus.APPROVED, Some i)
         else case those (map (allowed_incremental_notional r) soft) of
           None \<Rightarrow> Inr (NO_TRADE, None)
         | Some [] \<Rightarrow> Inr (RiskDecisionStatus.APPROVED, Some i)
         | Some (c # cs) \<Rightarrow>
             let allowed = fold (\<lambda>x m. py_min m x) cs c;
                 original = OrderIntent.quantity i * RiskCheckRequest.reference_price r;
                 capped = allowed / RiskCheckRequest.reference_price r
             in if allowed \<le> 0 then Inr (NO_TRADE, None)
                else if original \<le> allowed then Inr (RiskDecisionStatus.APPROVED, Some i)
                else if capped \<le> 0 then Inr (NO_TRADE, None)
                else bindE (construct_OrderIntent (i\<lparr>OrderIntent.quantity := capped\<rparr>))
                       (\<lambda>i'. Inr (APPROVED_AFTER_CAP, Some i')))"

text \<open>The items of a tuple are evaluated in order; the first exception stops it.\<close>

abbreviation sequenceE :: "'a result list \<Rightarrow> 'a list result" where
  "sequenceE \<equiv> mapE (\<lambda>m. m)"

definition limit_evaluations_of ::
  "digest \<Rightarrow> RiskCheckRequest \<Rightarrow> RiskPolicy \<Rightarrow> OrderEffect \<Rightarrow> RiskLimitEvaluation list result" where
  "limit_evaluations_of H r p f =
     (let md = metadata_view r in
      bindE (sequenceE
        [required_state_evaluation r md, product_scope_evaluation md, kill_switch_evaluation r f,
         venue_status_evaluation md, price_collar_evaluation r p, order_notional_evaluation p md f,
         instrument_exposure_evaluation p md f, strategy_exposure_evaluation p md f,
         total_spot_exposure_evaluation p md f, no_short_or_oversell_evaluation r,
         daily_account_loss_evaluation r p, daily_strategy_loss_evaluation r p,
         max_drawdown_evaluation r p, liquidity_participation_evaluation r p f,
         liquidity_spread_evaluation r p, market_volatility_evaluation r p,
         data_freshness_evaluation r, idempotency_evaluation H r])
      (\<lambda>a. bindE (throttle_evaluations r)
      (\<lambda>b. bindE (reject_burst_evaluations r)
      (\<lambda>c. bindE (sequenceE
        [engine_latency_evaluation r, model_drift_or_calibration_evaluation r,
         tca_cost_slippage_evaluation r p])
      (\<lambda>d. Inr (a @ b @ c @ d))))))"

definition evaluate_pre_trade_risk ::
  "digest \<Rightarrow> RiskCheckRequest \<Rightarrow> RiskPolicy \<Rightarrow> RiskCheckEvent result" where
  "evaluate_pre_trade_risk H r p =
     bindE (build_order_effect r) (\<lambda>f.
     bindE (limit_evaluations_of H r p f) (\<lambda>es.
     bindE (if has_hard_breach es then Inr (RiskDecisionStatus.REJECTED, None)
            else approval_after_soft_caps r f es) (\<lambda>(d, i).
     make_risk_check_event H r p f es d i)))"

section \<open>What an evaluation returns\<close>

definition known_limit :: "string \<Rightarrow> bool" where
  "known_limit lid \<longleftrightarrow> lid \<in> fst ` set limit_owners"

lemma known_limits [simp]:
  "known_limit ''scope.product_mvp''" "known_limit ''config.required_state''"
  "known_limit ''kill_switch.active_state''" "known_limit ''order.max_notional''"
  "known_limit ''order.price_collar''" "known_limit ''position.instrument_exposure''"
  "known_limit ''position.strategy_exposure''" "known_limit ''position.total_spot_exposure''"
  "known_limit ''position.no_short_or_oversell''" "known_limit ''loss.daily_account''"
  "known_limit ''loss.daily_strategy''" "known_limit ''loss.max_drawdown''"
  "known_limit ''liquidity.participation''" "known_limit ''liquidity.spread''"
  "known_limit ''market.volatility''" "known_limit ''data.freshness''" "known_limit ''venue.status''"
  "known_limit ''execution.order_throttle''" "known_limit ''execution.duplicate_idempotency''"
  "known_limit ''execution.reject_burst''" "known_limit ''engine.latency''"
  "known_limit ''model.drift_or_calibration''" "known_limit ''tca.cost_slippage''"
  by (simp_all add: known_limit_def limit_owners_def)

lemma limit_owner_texts:
  "list_all (\<lambda>(l, o'). non_empty_string l \<and> non_empty_string o') limit_owners"
  by (simp add: limit_owners_def non_empty_string_def strip_def py_space_def)

definition made :: "string \<Rightarrow> decimal \<Rightarrow> decimal \<Rightarrow> RiskLimitStatus \<Rightarrow> RiskReasonCode \<Rightarrow>
    decimal option \<Rightarrow> decimal option \<Rightarrow> RiskLimitEvaluation" where
  "made lid v hard st code soft cap =
     \<lparr>RiskLimitEvaluation.limit_id = lid, owner = the (map_of limit_owners lid), status = st,
      passed = (st = PASS), current_value = v, soft_threshold = soft, hard_threshold = Some hard,
      capped_value = cap, reason_code = code\<rparr>"

lemma made_fields [simp]:
  "limit_id (made lid v hard st code soft cap) = lid"
  "RiskLimitEvaluation.status (made lid v hard st code soft cap) = st"
  "capped_value (made lid v hard st code soft cap) = cap"
  "reason_code (made lid v hard st code soft cap) = code"
  "current_value (made lid v hard st code soft cap) = v"
  by (simp_all add: made_def)

lemma made_consistent [simp]:
  assumes "known_limit lid" "st = PASS \<longleftrightarrow> code = PASSED"
  shows "construct_RiskLimitEvaluation (made lid v hard st code soft cap)
     = Inr (made lid v hard st code soft cap)"
proof -
  obtain o' where o': "map_of limit_owners lid = Some o'"
    using assms(1) unfolding known_limit_def by (metis map_of_eq_None_iff option.exhaust)
  then have "non_empty_string lid" "non_empty_string o'"
    using limit_owner_texts map_of_SomeD [OF o'] by (auto simp: list_all_iff)
  then show ?thesis using assms(2) o'
    by (auto simp: construct_RiskLimitEvaluation_def made_def)
qed

lemma evaluation_made [simp]:
  assumes "known_limit lid" "(case st of Some x \<Rightarrow> x | None \<Rightarrow> PASS) = PASS \<longleftrightarrow> code = PASSED"
  shows "evaluation lid v hard st code soft cap
    = Inr (made lid v hard (case st of Some x \<Rightarrow> x | None \<Rightarrow> PASS) code soft cap)"
proof -
  obtain o' where o': "map_of limit_owners lid = Some o'"
    using assms(1) unfolding known_limit_def by (metis map_of_eq_None_iff option.exhaust)
  have "evaluation lid v hard st code soft cap = construct_RiskLimitEvaluation
      (made lid v hard (case st of Some x \<Rightarrow> x | None \<Rightarrow> PASS) code soft cap)"
    using o' by (simp add: evaluation_def made_def Let_def)
  also have "\<dots> = Inr (made lid v hard (case st of Some x \<Rightarrow> x | None \<Rightarrow> PASS) code soft cap)"
    using assms by (intro made_consistent) auto
  finally show ?thesis .
qed

section \<open>The contract of a limit check\<close>

text \<open>
  A limit check, run on whatever it reads: it always returns a consistent evaluation of its own
  limit, and its status is decided by one condition for a hard and one for a soft breach.
\<close>

definition evaluated :: "string \<Rightarrow> bool \<Rightarrow> bool \<Rightarrow> RiskLimitEvaluation \<Rightarrow> bool" where
  "evaluated lid h s e \<longleftrightarrow> limit_id e = lid
     \<and> RiskLimitEvaluation.status e = (if h then HARD_BREACH else if s then SOFT_BREACH else PASS)
     \<and> construct_RiskLimitEvaluation e = Inr e"

locale limit_check =
  fixes lid :: string
    and run :: "'c \<Rightarrow> RiskLimitEvaluation result"
    and hard :: "'c \<Rightarrow> bool"
    and soft :: "'c \<Rightarrow> bool"
  assumes outcome: "\<exists>e. run c = Inr e \<and> evaluated lid (hard c) (soft c) e"
begin

lemma run_evaluated: "run c = Inr e \<Longrightarrow> evaluated lid (hard c) (soft c) e"
  using outcome [of c] by auto

lemma run_returns: "\<exists>e. run c = Inr e"
  using outcome [of c] by blast

lemma run_hard_iff: "run c = Inr e \<Longrightarrow> RiskLimitEvaluation.status e = HARD_BREACH \<longleftrightarrow> hard c"
  using run_evaluated [of c e] by (auto simp: evaluated_def)

lemma run_soft_iff: "run c = Inr e \<Longrightarrow> RiskLimitEvaluation.status e = SOFT_BREACH \<longleftrightarrow> \<not> hard c \<and> soft c"
  using run_evaluated [of c e] by (auto simp: evaluated_def)

text \<open>A list of checks, one per window, breaches hard exactly when one of them does.\<close>

lemma run_all:
  obtains es where "mapE run cs = Inr es"
    "\<forall>e \<in> set es. construct_RiskLimitEvaluation e = Inr e \<and> limit_id e = lid"
    "has_hard_breach es \<longleftrightarrow> (\<exists>c \<in> set cs. hard c)"
    "(\<exists>e \<in> set es. RiskLimitEvaluation.status e = SOFT_BREACH) \<longleftrightarrow> (\<exists>c \<in> set cs. \<not> hard c \<and> soft c)"
    "length es = length cs"
proof -
  have "\<exists>es. mapE run cs = Inr es
    \<and> (\<forall>e \<in> set es. construct_RiskLimitEvaluation e = Inr e \<and> limit_id e = lid)
    \<and> (has_hard_breach es \<longleftrightarrow> (\<exists>c \<in> set cs. hard c))
    \<and> ((\<exists>e \<in> set es. RiskLimitEvaluation.status e = SOFT_BREACH) \<longleftrightarrow> (\<exists>c \<in> set cs. \<not> hard c \<and> soft c))
    \<and> length es = length cs"
  proof (induction cs)
    case (Cons c cs)
    obtain e where "run c = Inr e" "evaluated lid (hard c) (soft c) e" using outcome by blast
    then show ?case using Cons.IH by (auto simp: evaluated_def has_hard_breach_def)
  qed (simp add: has_hard_breach_def)
  then show ?thesis using that by blast
qed

end

text \<open>A check whose soft breach allows a reduced notional: \<open>increment\<close> reads it off the evaluation.\<close>

locale capped_check = limit_check +
  fixes increment :: "'c \<Rightarrow> RiskLimitEvaluation \<Rightarrow> decimal option"
    and cap :: "'c \<Rightarrow> decimal"
  assumes capped: "run c = Inr e \<Longrightarrow> \<not> hard c \<Longrightarrow> soft c \<Longrightarrow> increment c e = Some (cap c)"

lemma threshold_evaluated:
  assumes "known_limit lid" "soft_reason \<noteq> PASSED" "hard_reason \<noteq> PASSED"
  shows "\<exists>e. threshold_evaluation lid v s h soft_reason hard_reason = Inr e
    \<and> evaluated lid (h < v) (s < v) e
    \<and> (\<not> h < v \<longrightarrow> s < v \<longrightarrow> capped_value e = Some s \<and> reason_code e = soft_reason)"
  using assms by (auto simp: threshold_evaluation_def evaluated_def)

lemma negative_loss_evaluated:
  assumes "known_limit lid" "soft_reason \<noteq> PASSED" "hard_reason \<noteq> PASSED"
  shows "\<exists>e. negative_loss_evaluation lid v s h soft_reason hard_reason = Inr e
    \<and> evaluated lid (v \<le> h) (v \<le> s) e"
  using assms by (auto simp: negative_loss_evaluation_def evaluated_def)

section \<open>When each limit breaches\<close>

text \<open>
  The conditions of the twenty-three limits over a request and a policy, each the meaning of one
  evaluation: \<open>_hard\<close> rejects, \<open>_soft\<close> caps or stops a risk-increasing buy.
\<close>

definition state_missing :: "RiskCheckRequest \<Rightarrow> bool" where
  "state_missing r \<longleftrightarrow>
     (let md = metadata_view r
      in venue md = None \<or> instrument md = None \<or> account md = None \<or> constraint md = None
         \<or> \<not> orderable_metadata md
         \<or> active_state (kill_switch_snapshot r) = UNKNOWN_FAIL_CLOSED)"

definition kill_switch_blocks :: "KillSwitchState \<Rightarrow> bool \<Rightarrow> bool" where
  "kill_switch_blocks st increasing \<longleftrightarrow>
     st \<in> {UNKNOWN_FAIL_CLOSED, CANCEL_ONLY, KillSwitchState.HALTED}
     \<or> (st \<in> {PAUSE_NEW_ORDERS, REDUCE_ONLY} \<and> increasing)"

abbreviation venue_state :: "RiskCheckRequest \<Rightarrow> VenueStatus option" where
  "venue_state r \<equiv> map_option Venue.status (venue (metadata_view r))"

definition price_collar_hard :: "RiskCheckRequest \<Rightarrow> RiskPolicy \<Rightarrow> bool" where
  "price_collar_hard r p \<longleftrightarrow> \<not> reference_price_available (price_risk r)
     \<or> price_collar_hard_bps p < price_deviation_bps (price_risk r)
     \<or> (OrderIntent.order_type (order_intent r) = MARKET
        \<and> price_collar_soft_bps p < price_deviation_bps (price_risk r))"

text \<open>A limit on risk-increasing orders only.\<close>

definition above_limit :: "RiskCheckRequest \<Rightarrow> (OrderEffect \<Rightarrow> decimal) \<Rightarrow> decimal \<Rightarrow> bool" where
  "above_limit r v limit \<longleftrightarrow> risk_increasing (order_effect_of r) \<and> limit < v (order_effect_of r)"

definition cash_below_reserve :: "RiskCheckRequest \<Rightarrow> RiskPolicy \<Rightarrow> bool" where
  "cash_below_reserve r p \<longleftrightarrow> risk_increasing (order_effect_of r)
     \<and> resulting_cash (order_effect_of r) < cash_reserve_threshold p (metadata_view r)"

definition participation_hard :: "RiskCheckRequest \<Rightarrow> RiskPolicy \<Rightarrow> bool" where
  "participation_hard r p \<longleftrightarrow>
     (depth_metric_required (liquidity_risk r) \<and> top_of_book_depth_notional (liquidity_risk r) = None)
     \<or> (\<exists>(v, soft, hard, cap) \<in> set (participation_checks (liquidity_risk r) p (order_effect_of r)). hard < v)"

definition participation_soft :: "RiskCheckRequest \<Rightarrow> RiskPolicy \<Rightarrow> bool" where
  "participation_soft r p \<longleftrightarrow>
     (\<exists>(v, soft, hard, cap) \<in> set (participation_checks (liquidity_risk r) p (order_effect_of r)). soft < v)"

text \<open>The cap of the first participation check that breaches.\<close>

definition participation_cap :: "RiskCheckRequest \<Rightarrow> RiskPolicy \<Rightarrow> decimal" where
  "participation_cap r p =
     (case find (\<lambda>(v, soft, hard, cap). soft < v)
             (participation_checks (liquidity_risk r) p (order_effect_of r)) of
        Some (v, soft, hard, cap) \<Rightarrow> cap | None \<Rightarrow> Dec 0 0)"

definition spread_hard_threshold :: "RiskCheckRequest \<Rightarrow> RiskPolicy \<Rightarrow> decimal" where
  "spread_hard_threshold r p =
     (case spread_cost_model_envelope_bps (liquidity_risk r) of None \<Rightarrow> max_spread_hard_bps p
      | Some e \<Rightarrow> py_min (max_spread_hard_bps p) e)"

definition spread_hard :: "RiskCheckRequest \<Rightarrow> RiskPolicy \<Rightarrow> bool" where
  "spread_hard r p \<longleftrightarrow> (case current_spread_bps (liquidity_risk r) of None \<Rightarrow> True
     | Some v \<Rightarrow> spread_hard_threshold r p < v)"

definition spread_soft :: "RiskCheckRequest \<Rightarrow> RiskPolicy \<Rightarrow> bool" where
  "spread_soft r p \<longleftrightarrow> (case current_spread_bps (liquidity_risk r) of None \<Rightarrow> False
     | Some v \<Rightarrow> max_spread_soft_bps p < v)"

definition volatility_hard :: "RiskCheckRequest \<Rightarrow> RiskPolicy \<Rightarrow> bool" where
  "volatility_hard r p \<longleftrightarrow>
     \<not> volatility_envelope_available (market_risk r) \<or> volatility_shock_active (market_risk r)
     \<or> (case volatility_envelope_multiplier (market_risk r) of None \<Rightarrow> True
        | Some v \<Rightarrow> max_volatility_envelope_hard_multiplier p < v)"

definition volatility_soft :: "RiskCheckRequest \<Rightarrow> RiskPolicy \<Rightarrow> bool" where
  "volatility_soft r p \<longleftrightarrow> (case volatility_envelope_multiplier (market_risk r) of None \<Rightarrow> False
     | Some v \<Rightarrow> max_volatility_envelope_soft_multiplier p < v)"

definition latency_hard :: "RiskCheckRequest \<Rightarrow> bool" where
  "latency_hard r \<longleftrightarrow> \<not> event_time_validity_proven (engine_latency r)
     \<or> latency_budget_ms (engine_latency r) < observed_latency r"

definition model_hard :: "RiskCheckRequest \<Rightarrow> bool" where
  "model_hard r \<longleftrightarrow> severe_anomaly_detected (model_risk r) \<or> \<not> calibrated_outputs (model_risk r)"

definition tca_hard :: "RiskCheckRequest \<Rightarrow> RiskPolicy \<Rightarrow> bool" where
  "tca_hard r p \<longleftrightarrow> \<not> tca_available (tca_risk r) \<or> \<not> fill_quality_known (tca_risk r)
     \<or> (case cost_slippage_multiplier (tca_risk r) of None \<Rightarrow> True
        | Some v \<Rightarrow> tca_cost_slippage_hard_multiplier p < v)"

definition tca_soft :: "RiskCheckRequest \<Rightarrow> RiskPolicy \<Rightarrow> bool" where
  "tca_soft r p \<longleftrightarrow> (case cost_slippage_multiplier (tca_risk r) of None \<Rightarrow> False
     | Some v \<Rightarrow> tca_cost_slippage_soft_multiplier p < v)"

definition throttle_hard :: "OrderThrottleWindow \<Rightarrow> bool" where
  "throttle_hard w \<longleftrightarrow> OrderThrottleWindow.hard_limit w < observed_intent_count w + 1"

definition throttle_soft :: "OrderThrottleWindow \<Rightarrow> bool" where
  "throttle_soft w \<longleftrightarrow> OrderThrottleWindow.soft_limit w < observed_intent_count w + 1"

definition reject_burst_hard :: "ExecutionRejectBurstWindow \<Rightarrow> bool" where
  "reject_burst_hard w \<longleftrightarrow> unknown_state_reject_observed w
     \<or> ExecutionRejectBurstWindow.hard_limit w \<le> observed_reject_count w"

definition reject_burst_soft :: "ExecutionRejectBurstWindow \<Rightarrow> bool" where
  "reject_burst_soft w \<longleftrightarrow> ExecutionRejectBurstWindow.soft_limit w \<le> observed_reject_count w"

section \<open>The checks of the engine meet the contract\<close>

lemma or_zero_less: "h < or_zero (Some v) \<longleftrightarrow> h < v"
  by (auto simp: or_zero_def less_dval dec_eq_dval dval_Dec)

interpretation required_state: limit_check "''config.required_state''"
  "\<lambda>r. required_state_evaluation r (metadata_view r)" state_missing "\<lambda>r. False"
  by unfold_locales (simp add: required_state_evaluation_def evaluated_def state_missing_def Let_def)

interpretation product_scope: limit_check "''scope.product_mvp''"
  "\<lambda>r. product_scope_evaluation (metadata_view r)"
  "\<lambda>r. \<not> in_product_scope (metadata_view r)" "\<lambda>r. False"
  by unfold_locales (simp add: product_scope_evaluation_def evaluated_def)

interpretation kill_switch: limit_check "''kill_switch.active_state''"
  "\<lambda>r. kill_switch_evaluation r (order_effect_of r)"
  "\<lambda>r. kill_switch_blocks (active_state (kill_switch_snapshot r)) (risk_increasing (order_effect_of r))"
  "\<lambda>r. active_state (kill_switch_snapshot r) = SOFT_LIMITED"
proof
  show "\<exists>e. kill_switch_evaluation r (order_effect_of r) = Inr e
      \<and> evaluated ''kill_switch.active_state''
          (kill_switch_blocks (active_state (kill_switch_snapshot r)) (risk_increasing (order_effect_of r)))
          (active_state (kill_switch_snapshot r) = SOFT_LIMITED) e" for r
    by (cases "active_state (kill_switch_snapshot r)")
      (simp_all add: kill_switch_evaluation_def evaluated_def kill_switch_blocks_def Let_def)
qed

interpretation venue_status: limit_check "''venue.status''"
  "\<lambda>r. venue_status_evaluation (metadata_view r)"
  "\<lambda>r. venue_state r \<notin> {Some VenueStatus.ACTIVE, Some VenueStatus.DEGRADED}"
  "\<lambda>r. venue_state r = Some VenueStatus.DEGRADED"
  by unfold_locales
    (auto simp: venue_status_evaluation_def evaluated_def split: option.splits VenueStatus.splits)

interpretation price_collar: limit_check "''order.price_collar''"
  "\<lambda>(r, p). price_collar_evaluation r p" "\<lambda>(r, p). price_collar_hard r p"
  "\<lambda>(r, p). price_collar_soft_bps p < price_deviation_bps (price_risk r)"
  by unfold_locales (auto simp: price_collar_evaluation_def evaluated_def price_collar_hard_def Let_def)

interpretation order_notional: capped_check "''order.max_notional''"
  "\<lambda>(r, p). order_notional_evaluation p (metadata_view r) (order_effect_of r)"
  "\<lambda>(r, p). above_limit r proposed_notional (order_notional_hard p (metadata_view r))"
  "\<lambda>(r, p). above_limit r proposed_notional (paper_nav p * max_order_notional_soft_pct p)"
  "\<lambda>(r, p). allowed_incremental_notional r"
  "\<lambda>(r, p). paper_nav p * max_order_notional_soft_pct p"
  by unfold_locales
    (auto simp: order_notional_evaluation_def threshold_evaluation_def evaluated_def above_limit_def
      allowed_incremental_notional_def Let_def split: if_split_asm)

interpretation instrument_exposure: capped_check "''position.instrument_exposure''"
  "\<lambda>(r, p). instrument_exposure_evaluation p (metadata_view r) (order_effect_of r)"
  "\<lambda>(r, p). above_limit r resulting_instrument_exposure_notional (instrument_exposure_hard p (metadata_view r))"
  "\<lambda>(r, p). above_limit r resulting_instrument_exposure_notional (paper_nav p * max_instrument_exposure_soft_pct p)"
  "\<lambda>(r, p). allowed_incremental_notional r"
  "\<lambda>(r, p). paper_nav p * max_instrument_exposure_soft_pct p - current_instrument_exposure_notional r"
  by unfold_locales
    (auto simp: instrument_exposure_evaluation_def threshold_evaluation_def evaluated_def above_limit_def
      allowed_incremental_notional_def Let_def split: if_split_asm)

interpretation strategy_exposure: capped_check "''position.strategy_exposure''"
  "\<lambda>(r, p). strategy_exposure_evaluation p (metadata_view r) (order_effect_of r)"
  "\<lambda>(r, p). above_limit r resulting_strategy_exposure_notional (strategy_exposure_hard p (metadata_view r))"
  "\<lambda>(r, p). above_limit r resulting_strategy_exposure_notional (paper_nav p * max_strategy_exposure_soft_pct p)"
  "\<lambda>(r, p). allowed_incremental_notional r"
  "\<lambda>(r, p). paper_nav p * max_strategy_exposure_soft_pct p - current_strategy_exposure_notional r"
  by unfold_locales
    (auto simp: strategy_exposure_evaluation_def threshold_evaluation_def evaluated_def above_limit_def
      allowed_incremental_notional_def Let_def split: if_split_asm)

interpretation total_spot_exposure: capped_check "''position.total_spot_exposure''"
  "\<lambda>(r, p). total_spot_exposure_evaluation p (metadata_view r) (order_effect_of r)"
  "\<lambda>(r, p). cash_below_reserve r p
     \<or> above_limit r resulting_total_spot_exposure_notional (total_spot_exposure_hard p (metadata_view r))"
  "\<lambda>(r, p). above_limit r resulting_total_spot_exposure_notional (paper_nav p * max_total_spot_exposure_soft_pct p)"
  "\<lambda>(r, p). allowed_incremental_notional r"
  "\<lambda>(r, p). paper_nav p * max_total_spot_exposure_soft_pct p - current_total_spot_exposure_notional r"
  by unfold_locales
    (auto simp: total_spot_exposure_evaluation_def threshold_evaluation_def evaluated_def above_limit_def
      cash_below_reserve_def allowed_incremental_notional_def Let_def split: if_split_asm)

interpretation no_short_or_oversell: limit_check "''position.no_short_or_oversell''"
  no_short_or_oversell_evaluation "\<lambda>r. 0 < oversell_quantity r" "\<lambda>r. False"
  by unfold_locales (simp add: no_short_or_oversell_evaluation_def evaluated_def)

interpretation daily_account_loss: limit_check "''loss.daily_account''"
  "\<lambda>(r, p). daily_account_loss_evaluation r p"
  "\<lambda>(r, p). daily_account_pnl (loss_risk r) \<le> - (paper_nav p * max_daily_account_loss_hard_pct p)"
  "\<lambda>(r, p). daily_account_pnl (loss_risk r) \<le> - (paper_nav p * max_daily_account_loss_soft_pct p)"
  by unfold_locales (auto simp: daily_account_loss_evaluation_def intro!: negative_loss_evaluated)

interpretation daily_strategy_loss: limit_check "''loss.daily_strategy''"
  "\<lambda>(r, p). daily_strategy_loss_evaluation r p"
  "\<lambda>(r, p). daily_strategy_pnl (loss_risk r) \<le> - (paper_nav p * max_daily_strategy_loss_hard_pct p)"
  "\<lambda>(r, p). daily_strategy_pnl (loss_risk r) \<le> - (paper_nav p * max_daily_strategy_loss_soft_pct p)"
  by unfold_locales (auto simp: daily_strategy_loss_evaluation_def intro!: negative_loss_evaluated)

interpretation max_drawdown: limit_check "''loss.max_drawdown''"
  "\<lambda>(r, p). max_drawdown_evaluation r p"
  "\<lambda>(r, p). max_drawdown_hard_pct p < LossRiskTelemetry.max_drawdown_pct (loss_risk r)"
  "\<lambda>(r, p). max_drawdown_soft_pct p < LossRiskTelemetry.max_drawdown_pct (loss_risk r)"
  by unfold_locales (auto simp: max_drawdown_evaluation_def threshold_evaluation_def evaluated_def)

lemma liquidity_increment: "allowed_incremental_notional r
    (made ''liquidity.participation'' v h SOFT_BREACH code s (Some c)) = Some c"
  by (simp add: allowed_incremental_notional_def)

interpretation liquidity_participation: capped_check "''liquidity.participation''"
  "\<lambda>(r, p). liquidity_participation_evaluation r p (order_effect_of r)"
  "\<lambda>(r, p). participation_hard r p" "\<lambda>(r, p). participation_soft r p"
  "\<lambda>(r, p). allowed_incremental_notional r" "\<lambda>(r, p). participation_cap r p"
proof -
  have "\<exists>e. liquidity_participation_evaluation r p (order_effect_of r) = Inr e
      \<and> evaluated ''liquidity.participation'' (participation_hard r p) (participation_soft r p) e
      \<and> (\<not> participation_hard r p \<longrightarrow> participation_soft r p \<longrightarrow>
          allowed_incremental_notional r e = Some (participation_cap r p))" for r p
  proof (cases "depth_metric_required (liquidity_risk r) \<and> top_of_book_depth_notional (liquidity_risk r) = None")
    case True
    then show ?thesis
      by (simp add: liquidity_participation_evaluation_def evaluated_def participation_hard_def Let_def)
  next
    case False
    let ?cs = "participation_checks (liquidity_risk r) p (order_effect_of r)"
    let ?h = "\<lambda>(v, soft, hard, cap). (hard::decimal) < v" and ?s = "\<lambda>(v, soft, hard, cap). (soft::decimal) < v"
    have hard: "participation_hard r p \<longleftrightarrow> find ?h ?cs \<noteq> None"
      and soft: "participation_soft r p \<longleftrightarrow> find ?s ?cs \<noteq> None"
      using False unfolding participation_hard_def participation_soft_def find_None_all by auto
    show ?thesis
    proof (cases ?cs)
      case Nil
      then show ?thesis using False hard soft
        by (simp add: liquidity_participation_evaluation_def evaluated_def Let_def)
    next
      case (Cons c cs)
      show ?thesis
        using False hard soft Cons
        by (cases "find ?h ?cs"; cases "find ?s ?cs"; cases "max_by fst c cs")
          (auto simp: liquidity_participation_evaluation_def evaluated_def Let_def
            liquidity_increment participation_cap_def simp del: find.simps)
    qed
  qed
  then show "capped_check ''liquidity.participation''
      (\<lambda>(r, p). liquidity_participation_evaluation r p (order_effect_of r))
      (\<lambda>(r, p). participation_hard r p) (\<lambda>(r, p). participation_soft r p)
      (\<lambda>(r, p). allowed_incremental_notional r) (\<lambda>(r, p). participation_cap r p)"
    by unfold_locales (fastforce split: prod.splits)+
qed

interpretation liquidity_spread: limit_check "''liquidity.spread''"
  "\<lambda>(r, p). liquidity_spread_evaluation r p" "\<lambda>(r, p). spread_hard r p" "\<lambda>(r, p). spread_soft r p"
  by unfold_locales
    (auto simp: liquidity_spread_evaluation_def threshold_evaluation_def evaluated_def spread_hard_def
      spread_soft_def spread_hard_threshold_def Let_def split: option.splits)

interpretation market_volatility: limit_check "''market.volatility''"
  "\<lambda>(r, p). market_volatility_evaluation r p" "\<lambda>(r, p). volatility_hard r p" "\<lambda>(r, p). volatility_soft r p"
  by unfold_locales
    (auto simp: market_volatility_evaluation_def threshold_evaluation_def evaluated_def volatility_hard_def
      volatility_soft_def Let_def or_zero_less split: option.splits)

interpretation data_freshness: limit_check "''data.freshness''" data_freshness_evaluation
  "\<lambda>r. blocking_signals r \<noteq> []" "\<lambda>r. False"
  by unfold_locales (simp add: data_freshness_evaluation_def evaluated_def)

interpretation idempotency: limit_check "''execution.duplicate_idempotency''" "idempotency_evaluation H"
  "\<lambda>r. duplicate_records H r \<noteq> []" "\<lambda>r. False" for H
  by unfold_locales (simp add: idempotency_evaluation_def evaluated_def)

interpretation throttle: limit_check "''execution.order_throttle''" throttle_evaluation
  throttle_hard throttle_soft
  by unfold_locales
    (auto simp: throttle_evaluation_def evaluated_def throttle_hard_def throttle_soft_def Let_def
      less_dval dval_Dec)

interpretation reject_burst: limit_check "''execution.reject_burst''" reject_burst_evaluation
  reject_burst_hard reject_burst_soft
  by unfold_locales
    (auto simp: reject_burst_evaluation_def evaluated_def reject_burst_hard_def reject_burst_soft_def
      Let_def le_dval dval_Dec)

interpretation engine_latency: limit_check "''engine.latency''" engine_latency_evaluation latency_hard
  "\<lambda>r. latency_budget_ms (engine_latency r) * Dec 5 (-1) < observed_latency r"
  by unfold_locales (auto simp: engine_latency_evaluation_def evaluated_def latency_hard_def Let_def)

interpretation model_drift: limit_check "''model.drift_or_calibration''"
  model_drift_or_calibration_evaluation model_hard "\<lambda>r. sustained_drift_detected (model_risk r)"
  by unfold_locales (auto simp: model_drift_or_calibration_evaluation_def evaluated_def model_hard_def Let_def)

interpretation tca_cost_slippage: limit_check "''tca.cost_slippage''"
  "\<lambda>(r, p). tca_cost_slippage_evaluation r p" "\<lambda>(r, p). tca_hard r p" "\<lambda>(r, p). tca_soft r p"
  by unfold_locales
    (auto simp: tca_cost_slippage_evaluation_def threshold_evaluation_def evaluated_def tca_hard_def
      tca_soft_def Let_def or_zero_less split: option.splits)

section \<open>All checks together\<close>

definition cappable_limits :: "string set" where
  "cappable_limits = {''order.max_notional'', ''liquidity.participation'',
     ''position.instrument_exposure'', ''position.strategy_exposure'', ''position.total_spot_exposure''}"

text \<open>What an evaluation adds to the caps: nothing, a reduced notional, or a stop (\<open>None\<close>).\<close>

definition soft_part :: "RiskCheckRequest \<Rightarrow> RiskLimitEvaluation \<Rightarrow> decimal option list" where
  "soft_part r e = (if RiskLimitEvaluation.status e = SOFT_BREACH
     then [allowed_incremental_notional r e] else [])"

definition stop_if :: "bool \<Rightarrow> decimal option list" where
  "stop_if b = (if b then [None] else [])"

definition cap_if :: "bool \<Rightarrow> decimal \<Rightarrow> decimal option list" where
  "cap_if b c = (if b then [Some c] else [])"

definition check_meets :: "RiskCheckRequest \<Rightarrow> RiskLimitEvaluation result \<times> bool \<times> decimal option list \<Rightarrow> bool" where
  "check_meets r = (\<lambda>(m, h, part). \<exists>e. m = Inr e \<and> construct_RiskLimitEvaluation e = Inr e
     \<and> (RiskLimitEvaluation.status e = HARD_BREACH \<longleftrightarrow> h) \<and> (\<not> h \<longrightarrow> soft_part r e = part))"

lemma uncappable_increment: "limit_id e \<notin> cappable_limits \<Longrightarrow> allowed_incremental_notional r e = None"
  by (auto simp: allowed_incremental_notional_def cappable_limits_def split: option.splits)

context limit_check
begin

lemma meets_uncapped:
  assumes "lid \<notin> cappable_limits"
  shows "check_meets r (run c, hard c, stop_if (soft c))"
proof -
  obtain e where e: "run c = Inr e" "evaluated lid (hard c) (soft c) e" using outcome by blast
  then have "allowed_incremental_notional r e = None"
    using assms by (intro uncappable_increment) (simp add: evaluated_def)
  with e show ?thesis by (auto simp: check_meets_def evaluated_def soft_part_def stop_if_def cap_if_def)
qed

end

context capped_check
begin

lemma meets_capped:
  assumes "increment c = allowed_incremental_notional r"
  shows "check_meets r (run c, hard c, cap_if (soft c) (cap c))"
proof -
  obtain e where e: "run c = Inr e" "evaluated lid (hard c) (soft c) e" using outcome by blast
  with capped [OF e(1)] assms show ?thesis by (auto simp: check_meets_def evaluated_def soft_part_def stop_if_def cap_if_def)
qed

end

lemma mapE_append: "mapE f (xs @ ys) = bindE (mapE f xs) (\<lambda>a. bindE (mapE f ys) (\<lambda>b. Inr (a @ b)))"
proof (induction xs)
  case Nil
  then show ?case by (cases "mapE f ys") auto
next
  case (Cons x xs)
  then show ?case by (cases "f x"; cases "mapE f xs"; cases "mapE f ys") auto
qed

lemma mapE_map: "mapE g (map f xs) = mapE (\<lambda>x. g (f x)) xs"
  by (induction xs) simp_all

lemma checks_meet:
  assumes "list_all (check_meets r) cs"
  shows "\<exists>es. sequenceE (map fst cs) = Inr es \<and> length es = length cs
    \<and> list_all (\<lambda>e. construct_RiskLimitEvaluation e = Inr e) es
    \<and> (has_hard_breach es \<longleftrightarrow> list_ex (\<lambda>c. fst (snd c)) cs)
    \<and> (\<not> list_ex (\<lambda>c. fst (snd c)) cs \<longrightarrow>
        map (allowed_incremental_notional r) (filter (\<lambda>e. RiskLimitEvaluation.status e = SOFT_BREACH) es)
          = concat (map (\<lambda>c. snd (snd c)) cs))"
  using assms
proof (induction cs)
  case (Cons c cs)
  have "list_all (check_meets r) cs" using Cons.prems by simp
  from Cons.IH [OF this] obtain es where es: "sequenceE (map fst cs) = Inr es" "length es = length cs"
    "list_all (\<lambda>e. construct_RiskLimitEvaluation e = Inr e) es"
    "has_hard_breach es \<longleftrightarrow> list_ex (\<lambda>c. fst (snd c)) cs"
    "\<not> list_ex (\<lambda>c. fst (snd c)) cs \<longrightarrow>
        map (allowed_incremental_notional r) (filter (\<lambda>e. RiskLimitEvaluation.status e = SOFT_BREACH) es)
          = concat (map (\<lambda>c. snd (snd c)) cs)" by blast
  obtain m h part where c: "c = (m, h, part)" by (cases c)
  obtain e where e: "m = Inr e" "construct_RiskLimitEvaluation e = Inr e"
    "RiskLimitEvaluation.status e = HARD_BREACH \<longleftrightarrow> h" "\<not> h \<longrightarrow> soft_part r e = part"
    using Cons.prems by (auto simp: c check_meets_def)
  show ?case
    by (rule exI [where x = "e # es"])
      (use e es c in \<open>auto simp: has_hard_breach_def soft_part_def split: if_splits\<close>)
qed (simp add: has_hard_breach_def)

definition check_table :: "digest \<Rightarrow> RiskCheckRequest \<Rightarrow> RiskPolicy \<Rightarrow>
    (RiskLimitEvaluation result \<times> bool \<times> decimal option list) list" where
  "check_table H r p =
     (let md = metadata_view r; f = order_effect_of r in
     [(required_state_evaluation r md, state_missing r, []),
      (product_scope_evaluation md, \<not> in_product_scope md, []),
      (kill_switch_evaluation r f,
        kill_switch_blocks (active_state (kill_switch_snapshot r)) (risk_increasing f),
        stop_if (active_state (kill_switch_snapshot r) = SOFT_LIMITED)),
      (venue_status_evaluation md,
        venue_state r \<notin> {Some VenueStatus.ACTIVE, Some VenueStatus.DEGRADED},
        stop_if (venue_state r = Some VenueStatus.DEGRADED)),
      (price_collar_evaluation r p, price_collar_hard r p,
        stop_if (price_collar_soft_bps p < price_deviation_bps (price_risk r))),
      (order_notional_evaluation p md f,
        above_limit r proposed_notional (order_notional_hard p md),
        cap_if (above_limit r proposed_notional (paper_nav p * max_order_notional_soft_pct p))
          (paper_nav p * max_order_notional_soft_pct p)),
      (instrument_exposure_evaluation p md f,
        above_limit r resulting_instrument_exposure_notional (instrument_exposure_hard p md),
        cap_if (above_limit r resulting_instrument_exposure_notional
                  (paper_nav p * max_instrument_exposure_soft_pct p))
          (paper_nav p * max_instrument_exposure_soft_pct p - current_instrument_exposure_notional r)),
      (strategy_exposure_evaluation p md f,
        above_limit r resulting_strategy_exposure_notional (strategy_exposure_hard p md),
        cap_if (above_limit r resulting_strategy_exposure_notional
                  (paper_nav p * max_strategy_exposure_soft_pct p))
          (paper_nav p * max_strategy_exposure_soft_pct p - current_strategy_exposure_notional r)),
      (total_spot_exposure_evaluation p md f,
        cash_below_reserve r p
        \<or> above_limit r resulting_total_spot_exposure_notional (total_spot_exposure_hard p md),
        cap_if (above_limit r resulting_total_spot_exposure_notional
                  (paper_nav p * max_total_spot_exposure_soft_pct p))
          (paper_nav p * max_total_spot_exposure_soft_pct p - current_total_spot_exposure_notional r)),
      (no_short_or_oversell_evaluation r, 0 < oversell_quantity r, []),
      (daily_account_loss_evaluation r p,
        daily_account_pnl (loss_risk r) \<le> - (paper_nav p * max_daily_account_loss_hard_pct p),
        stop_if (daily_account_pnl (loss_risk r) \<le> - (paper_nav p * max_daily_account_loss_soft_pct p))),
      (daily_strategy_loss_evaluation r p,
        daily_strategy_pnl (loss_risk r) \<le> - (paper_nav p * max_daily_strategy_loss_hard_pct p),
        stop_if (daily_strategy_pnl (loss_risk r) \<le> - (paper_nav p * max_daily_strategy_loss_soft_pct p))),
      (max_drawdown_evaluation r p,
        max_drawdown_hard_pct p < LossRiskTelemetry.max_drawdown_pct (loss_risk r),
        stop_if (max_drawdown_soft_pct p < LossRiskTelemetry.max_drawdown_pct (loss_risk r))),
      (liquidity_participation_evaluation r p f, participation_hard r p,
        cap_if (participation_soft r p) (participation_cap r p)),
      (liquidity_spread_evaluation r p, spread_hard r p, stop_if (spread_soft r p)),
      (market_volatility_evaluation r p, volatility_hard r p, stop_if (volatility_soft r p)),
      (data_freshness_evaluation r, blocking_signals r \<noteq> [], []),
      (idempotency_evaluation H r, duplicate_records H r \<noteq> [], [])]
     @ (if throttle_windows r = []
        then [(evaluation ''execution.order_throttle'' (Dec 0 0) (Dec 0 0) None PASSED
                 (Some (Dec 0 0)) None, False, [])]
        else map (\<lambda>w. (throttle_evaluation w, throttle_hard w, stop_if (throttle_soft w)))
               (throttle_windows r))
     @ (if reject_burst_windows r = []
        then [(evaluation ''execution.reject_burst'' (Dec 0 0) (Dec 0 0) None PASSED None None, False, [])]
        else map (\<lambda>w. (reject_burst_evaluation w, reject_burst_hard w, stop_if (reject_burst_soft w)))
               (reject_burst_windows r))
     @ [(engine_latency_evaluation r, latency_hard r,
          stop_if (latency_budget_ms (engine_latency r) * Dec 5 (-1) < observed_latency r)),
        (model_drift_or_calibration_evaluation r, model_hard r,
          stop_if (sustained_drift_detected (model_risk r))),
        (tca_cost_slippage_evaluation r p, tca_hard r p, stop_if (tca_soft r p))])"

lemma table_evaluations:
  "limit_evaluations_of H r p (order_effect_of r) = sequenceE (map fst (check_table H r p))"
proof -
  have b: "bindE m Inr = m" for m :: "'z result" by (cases m) auto
  have a: "bindE (bindE m f) g = bindE m (\<lambda>x. bindE (f x) g)"
    for m :: "'x result" and f :: "'x \<Rightarrow> 'y result" and g :: "'y \<Rightarrow> 'z result" by (cases m) auto
  have t: "throttle_evaluations r = sequenceE (map fst
      (if throttle_windows r = []
        then [(evaluation ''execution.order_throttle'' (Dec 0 0) (Dec 0 0) None PASSED
                 (Some (Dec 0 0)) None, False, [])]
        else map (\<lambda>w. (throttle_evaluation w, throttle_hard w, stop_if (throttle_soft w)))
               (throttle_windows r)))"
    by (simp add: throttle_evaluations_def mapE_map)
  have j: "reject_burst_evaluations r = sequenceE (map fst
      (if reject_burst_windows r = []
        then [(evaluation ''execution.reject_burst'' (Dec 0 0) (Dec 0 0) None PASSED None None, False, [])]
        else map (\<lambda>w. (reject_burst_evaluation w, reject_burst_hard w, stop_if (reject_burst_soft w)))
               (reject_burst_windows r)))"
    by (simp add: reject_burst_evaluations_def mapE_map)
  show ?thesis
    unfolding limit_evaluations_of_def check_table_def Let_def map_append mapE_append a bindE_simps t j
      list.map fst_conv
    by simp
qed

lemma table_meets: "list_all (check_meets r) (check_table H r p)"
proof -
  have t: "list_all (check_meets r) (map (\<lambda>w. (throttle_evaluation w, throttle_hard w, stop_if (throttle_soft w))) ws)" for ws
    by (simp add: list_all_iff throttle.meets_uncapped cappable_limits_def)
  have j: "list_all (check_meets r) (map (\<lambda>w. (reject_burst_evaluation w, reject_burst_hard w, stop_if (reject_burst_soft w))) ws)" for ws
    by (simp add: list_all_iff reject_burst.meets_uncapped cappable_limits_def)
  have n: "check_meets r (evaluation ''execution.order_throttle'' (Dec 0 0) (Dec 0 0) None PASSED (Some (Dec 0 0)) None, False, [])"
    "check_meets r (evaluation ''execution.reject_burst'' (Dec 0 0) (Dec 0 0) None PASSED None None, False, [])"
    by (simp_all add: check_meets_def soft_part_def)
  note u = required_state.meets_uncapped [of r r] product_scope.meets_uncapped [of r r]
    kill_switch.meets_uncapped [of r r] venue_status.meets_uncapped [of r r]
    price_collar.meets_uncapped [of r "(r, p)"] no_short_or_oversell.meets_uncapped [of r r]
    daily_account_loss.meets_uncapped [of r "(r, p)"] daily_strategy_loss.meets_uncapped [of r "(r, p)"]
    max_drawdown.meets_uncapped [of r "(r, p)"] liquidity_spread.meets_uncapped [of r "(r, p)"]
    market_volatility.meets_uncapped [of r "(r, p)"] data_freshness.meets_uncapped [of r r]
    idempotency.meets_uncapped [of r H r] engine_latency.meets_uncapped [of r r]
    model_drift.meets_uncapped [of r r] tca_cost_slippage.meets_uncapped [of r "(r, p)"]
  note c = order_notional.meets_capped [of "(r, p)" r] instrument_exposure.meets_capped [of "(r, p)" r]
    strategy_exposure.meets_capped [of "(r, p)" r] total_spot_exposure.meets_capped [of "(r, p)" r]
    liquidity_participation.meets_capped [of "(r, p)" r]
  show ?thesis
    unfolding check_table_def Let_def list_all_append
    using u c t j n by (simp add: stop_if_def cappable_limits_def)
qed

section \<open>The decision, in terms of the conditions\<close>

text \<open>Some limit is breached hard.\<close>

definition rejects :: "digest \<Rightarrow> RiskCheckRequest \<Rightarrow> RiskPolicy \<Rightarrow> bool" where
  "rejects H r p \<longleftrightarrow>
     state_missing r
     \<or> \<not> in_product_scope (metadata_view r)
     \<or> kill_switch_blocks (active_state (kill_switch_snapshot r)) (risk_increasing (order_effect_of r))
     \<or> venue_state r \<notin> {Some VenueStatus.ACTIVE, Some VenueStatus.DEGRADED}
     \<or> price_collar_hard r p
     \<or> above_limit r proposed_notional (order_notional_hard p (metadata_view r))
     \<or> above_limit r resulting_instrument_exposure_notional (instrument_exposure_hard p (metadata_view r))
     \<or> above_limit r resulting_strategy_exposure_notional (strategy_exposure_hard p (metadata_view r))
     \<or> cash_below_reserve r p
     \<or> above_limit r resulting_total_spot_exposure_notional (total_spot_exposure_hard p (metadata_view r))
     \<or> 0 < oversell_quantity r
     \<or> daily_account_pnl (loss_risk r) \<le> - (paper_nav p * max_daily_account_loss_hard_pct p)
     \<or> daily_strategy_pnl (loss_risk r) \<le> - (paper_nav p * max_daily_strategy_loss_hard_pct p)
     \<or> max_drawdown_hard_pct p < LossRiskTelemetry.max_drawdown_pct (loss_risk r)
     \<or> participation_hard r p
     \<or> spread_hard r p
     \<or> volatility_hard r p
     \<or> blocking_signals r \<noteq> []
     \<or> duplicate_records H r \<noteq> []
     \<or> list_ex throttle_hard (throttle_windows r)
     \<or> list_ex reject_burst_hard (reject_burst_windows r)
     \<or> latency_hard r
     \<or> model_hard r
     \<or> tca_hard r p"

text \<open>Some limit that cannot be met by a smaller order is breached softly.\<close>

definition stops :: "RiskCheckRequest \<Rightarrow> RiskPolicy \<Rightarrow> bool" where
  "stops r p \<longleftrightarrow>
     active_state (kill_switch_snapshot r) = SOFT_LIMITED
     \<or> venue_state r = Some VenueStatus.DEGRADED
     \<or> price_collar_soft_bps p < price_deviation_bps (price_risk r)
     \<or> daily_account_pnl (loss_risk r) \<le> - (paper_nav p * max_daily_account_loss_soft_pct p)
     \<or> daily_strategy_pnl (loss_risk r) \<le> - (paper_nav p * max_daily_strategy_loss_soft_pct p)
     \<or> max_drawdown_soft_pct p < LossRiskTelemetry.max_drawdown_pct (loss_risk r)
     \<or> spread_soft r p
     \<or> volatility_soft r p
     \<or> list_ex throttle_soft (throttle_windows r)
     \<or> list_ex reject_burst_soft (reject_burst_windows r)
     \<or> latency_budget_ms (engine_latency r) * Dec 5 (-1) < observed_latency r
     \<or> sustained_drift_detected (model_risk r)
     \<or> tca_soft r p"

text \<open>The reduced notionals the remaining soft breaches allow, in the order of the evaluations.\<close>

definition soft_caps :: "RiskCheckRequest \<Rightarrow> RiskPolicy \<Rightarrow> decimal list" where
  "soft_caps r p =
     (if above_limit r proposed_notional (paper_nav p * max_order_notional_soft_pct p)
      then [paper_nav p * max_order_notional_soft_pct p] else [])
     @ (if above_limit r resulting_instrument_exposure_notional (paper_nav p * max_instrument_exposure_soft_pct p)
        then [paper_nav p * max_instrument_exposure_soft_pct p - current_instrument_exposure_notional r] else [])
     @ (if above_limit r resulting_strategy_exposure_notional (paper_nav p * max_strategy_exposure_soft_pct p)
        then [paper_nav p * max_strategy_exposure_soft_pct p - current_strategy_exposure_notional r] else [])
     @ (if above_limit r resulting_total_spot_exposure_notional (paper_nav p * max_total_spot_exposure_soft_pct p)
        then [paper_nav p * max_total_spot_exposure_soft_pct p - current_total_spot_exposure_notional r] else [])
     @ (if participation_soft r p then [participation_cap r p] else [])"

lemma table_hard: "list_ex (\<lambda>c. fst (snd c)) (check_table H r p) \<longleftrightarrow> rejects H r p"
proof -
  have t: "list_ex (\<lambda>c. fst (snd c)) (map (\<lambda>w. (throttle_evaluation w, throttle_hard w, stop_if (throttle_soft w))) ws)
      \<longleftrightarrow> list_ex throttle_hard ws" for ws by (induction ws) simp_all
  have j: "list_ex (\<lambda>c. fst (snd c)) (map (\<lambda>w. (reject_burst_evaluation w, reject_burst_hard w, stop_if (reject_burst_soft w))) ws)
      \<longleftrightarrow> list_ex reject_burst_hard ws" for ws by (induction ws) simp_all
  show ?thesis
    unfolding check_table_def Let_def list_ex_append rejects_def
    by (cases "throttle_windows r = []"; cases "reject_burst_windows r = []")
      (simp_all add: t j disj_assoc del: map_option_eq_Some disj_not1 disj_not2)
qed

lemma concat_stop_if:
  "None \<in> set (concat (map (\<lambda>w. stop_if (f w)) ws)) \<longleftrightarrow> list_ex f ws"
  "\<not> list_ex f ws \<Longrightarrow> concat (map (\<lambda>w. stop_if (f w)) ws) = []"
  by (induction ws) (auto simp: stop_if_def)

lemma table_parts:
  "concat (map (\<lambda>c. snd (snd c)) (check_table H r p)) = parts \<Longrightarrow>
     (None \<in> set parts \<longleftrightarrow> stops r p)
     \<and> (\<not> stops r p \<longrightarrow> parts = map Some (soft_caps r p))"
proof -
  assume "concat (map (\<lambda>c. snd (snd c)) (check_table H r p)) = parts"
  moreover have t: "concat (map (\<lambda>c. snd (snd c)) (if ws = [] then [(m, False, [])]
      else map (\<lambda>w. (ev w, hd w, stop_if (sf w))) ws)) = concat (map (\<lambda>w. stop_if (sf w)) ws)"
    for ws :: "'w list" and m :: "RiskLimitEvaluation result" and ev :: "'w \<Rightarrow> RiskLimitEvaluation result"
      and hd sf by (simp add: comp_def)
  ultimately have parts: "parts =
      stop_if (active_state (kill_switch_snapshot r) = SOFT_LIMITED)
      @ stop_if (venue_state r = Some VenueStatus.DEGRADED)
      @ stop_if (price_collar_soft_bps p < price_deviation_bps (price_risk r))
      @ cap_if (above_limit r proposed_notional (paper_nav p * max_order_notional_soft_pct p))
          (paper_nav p * max_order_notional_soft_pct p)
      @ cap_if (above_limit r resulting_instrument_exposure_notional (paper_nav p * max_instrument_exposure_soft_pct p))
          (paper_nav p * max_instrument_exposure_soft_pct p - current_instrument_exposure_notional r)
      @ cap_if (above_limit r resulting_strategy_exposure_notional (paper_nav p * max_strategy_exposure_soft_pct p))
          (paper_nav p * max_strategy_exposure_soft_pct p - current_strategy_exposure_notional r)
      @ cap_if (above_limit r resulting_total_spot_exposure_notional (paper_nav p * max_total_spot_exposure_soft_pct p))
          (paper_nav p * max_total_spot_exposure_soft_pct p - current_total_spot_exposure_notional r)
      @ stop_if (daily_account_pnl (loss_risk r) \<le> - (paper_nav p * max_daily_account_loss_soft_pct p))
      @ stop_if (daily_strategy_pnl (loss_risk r) \<le> - (paper_nav p * max_daily_strategy_loss_soft_pct p))
      @ stop_if (max_drawdown_soft_pct p < LossRiskTelemetry.max_drawdown_pct (loss_risk r))
      @ cap_if (participation_soft r p) (participation_cap r p)
      @ stop_if (spread_soft r p) @ stop_if (volatility_soft r p)
      @ concat (map (\<lambda>w. stop_if (throttle_soft w)) (throttle_windows r))
      @ concat (map (\<lambda>w. stop_if (reject_burst_soft w)) (reject_burst_windows r))
      @ stop_if (latency_budget_ms (engine_latency r) * Dec 5 (-1) < observed_latency r)
      @ stop_if (sustained_drift_detected (model_risk r)) @ stop_if (tca_soft r p)"
    unfolding check_table_def Let_def map_append concat_append by (simp only: t) simp
  have s: "None \<in> set (stop_if b) \<longleftrightarrow> b" "None \<notin> set (cap_if b c)" for b c
    by (simp_all add: stop_if_def cap_if_def)
  have "None \<in> set parts \<longleftrightarrow> stops r p"
    unfolding parts set_append Un_iff s concat_stop_if stops_def by (simp add: s(2))
  moreover have "parts = map Some (soft_caps r p)" if "\<not> stops r p"
  proof -
    have "stop_if False = []" "cap_if b c = map Some (if b then [c] else [])" for b c
      by (simp_all add: stop_if_def cap_if_def)
    then show ?thesis
      using that unfolding parts stops_def soft_caps_def map_append
      by (simp add: concat_stop_if(2) del: map_option_eq_Some)
  qed
  ultimately show ?thesis by blast
qed

lemma those_cases: "those xs = (if None \<in> set xs then None else Some (map the xs))"
  by (induction xs) (auto split: option.splits)

lemma engine_evaluations:
  obtains es where "limit_evaluations_of H r p (order_effect_of r) = Inr es" "es \<noteq> []"
    "list_all (\<lambda>e. construct_RiskLimitEvaluation e = Inr e) es"
    "has_hard_breach es \<longleftrightarrow> rejects H r p"
    "\<not> rejects H r p \<longrightarrow> those (map (allowed_incremental_notional r)
        (filter (\<lambda>e. RiskLimitEvaluation.status e = SOFT_BREACH) es))
      = (if stops r p then None else Some (soft_caps r p))"
proof -
  obtain es where es: "limit_evaluations_of H r p (order_effect_of r) = Inr es"
    "length es = length (check_table H r p)"
    "list_all (\<lambda>e. construct_RiskLimitEvaluation e = Inr e) es"
    "has_hard_breach es \<longleftrightarrow> rejects H r p"
    "\<not> rejects H r p \<longrightarrow> map (allowed_incremental_notional r)
        (filter (\<lambda>e. RiskLimitEvaluation.status e = SOFT_BREACH) es)
      = concat (map (\<lambda>c. snd (snd c)) (check_table H r p))"
    using checks_meet [OF table_meets [of r H p]] unfolding table_hard table_evaluations by blast
  have "es \<noteq> []" using es(2) by (auto simp: check_table_def Let_def)
  moreover have "those (map (allowed_incremental_notional r)
        (filter (\<lambda>e. RiskLimitEvaluation.status e = SOFT_BREACH) es))
      = (if stops r p then None else Some (soft_caps r p))" if "\<not> rejects H r p"
  proof -
    have m: "map (allowed_incremental_notional r)
        (filter (\<lambda>e. RiskLimitEvaluation.status e = SOFT_BREACH) es)
      = concat (map (\<lambda>c. snd (snd c)) (check_table H r p))" using es(5) that by blast
    show ?thesis
      unfolding m those_cases using table_parts [OF refl, of H r p] by (auto simp: comp_def)
  qed
  ultimately show ?thesis using es that by blast
qed

section \<open>The engine never raises on validated inputs\<close>

lemma valid_requestD:
  assumes "valid_request H r"
  shows "valid_OrderIntent (order_intent r)" "0 < RiskCheckRequest.reference_price r"
    "0 < account_equity r" "0 \<le> current_cash r"
    "0 \<le> current_instrument_exposure_notional r" "0 \<le> current_strategy_exposure_notional r"
    "0 \<le> current_total_spot_exposure_notional r" "0 \<le> current_instrument_position_quantity r"
    "construct_KillSwitchSnapshot H (kill_switch_snapshot r) = Inr (kill_switch_snapshot r)"
    "request_hash r = build_risk_check_request_hash H r"
    "RiskCheckRequest.trace_id r = OrderIntent.trace_id (order_intent r)"
    "\<not> OrderIntent.submitted_at (order_intent r) < decision_ts r"
    "\<not> risk_check_ts r < decision_ts r"
  using assms unfolding valid_request_def construct_RiskCheckRequest_def Let_def checked_Inr_iff
    risk_request_fields_def by simp_all

lemma valid_intentD:
  "valid_OrderIntent i \<Longrightarrow> 0 < OrderIntent.quantity i"
  "valid_OrderIntent i \<Longrightarrow> 0 < q \<Longrightarrow> valid_OrderIntent (i\<lparr>OrderIntent.quantity := q\<rparr>)"
  by (simp_all add: valid_OrderIntent_def construct_OrderIntent_def)

lemma not_le_decimal: "\<not> (a::decimal) \<le> b \<longleftrightarrow> b < a"
  by (simp add: le_dval less_dval not_le)

lemma pos_mult: "0 < a \<Longrightarrow> 0 < b \<Longrightarrow> 0 < a * (b :: decimal)"
  by (simp add: less_dval dval_signs)

lemma nonneg_add: "0 \<le> a \<Longrightarrow> 0 \<le> b \<Longrightarrow> 0 \<le> a + (b :: decimal)"
  by (simp add: le_dval dval_signs)

lemma nonneg_max: "0 \<le> py_max (Dec 0 0) x"
  by (simp add: le_dval dval_simps)

lemma order_effect_ok:
  assumes "valid_request H r"
  shows "build_order_effect r = Inr (order_effect_of r)"
proof -
  note v = valid_requestD [OF assms]
  have q: "0 < OrderIntent.quantity (order_intent r)" using v(1) by (rule valid_intentD)
  have n: "0 \<le> OrderIntent.quantity (order_intent r) * RiskCheckRequest.reference_price r"
    using pos_mult [OF q v(2)] by (simp add: less_dval le_dval)
  show ?thesis
    using v q n by (simp add: build_order_effect_def construct_OrderEffect_def order_effect_of_def
        Let_def nonneg_max nonneg_add)
qed

lemma order_effect_increasing:
  "OrderIntent.side (order_intent r) = BUY \<Longrightarrow> risk_increasing (order_effect_of r)"
  "OrderIntent.side (order_intent r) = SELL \<Longrightarrow> \<not> 0 < oversell_quantity r \<Longrightarrow>
     \<not> risk_increasing (order_effect_of r)"
proof -
  show "OrderIntent.side (order_intent r) = BUY \<Longrightarrow> risk_increasing (order_effect_of r)"
    by (simp add: order_effect_of_def Let_def)
  assume "OrderIntent.side (order_intent r) = SELL" "\<not> 0 < oversell_quantity r"
  then show "\<not> risk_increasing (order_effect_of r)"
    by (simp add: order_effect_of_def oversell_quantity_def Let_def less_dval dval_simps not_less
        dval_diff_sign) (metis dval_diff_sign(2) not_le)
qed

lemma make_event_ok:
  assumes "digest_ok H" "valid_request H r" "valid_policy H p"
    "construct_OrderEffect f = Inr f" "list_all (\<lambda>e. construct_RiskLimitEvaluation e = Inr e) es"
    "es \<noteq> []" "opt_all valid_OrderIntent i"
    "has_hard_breach es \<Longrightarrow> d = RiskDecisionStatus.REJECTED" "approving d \<longleftrightarrow> i \<noteq> None"
  shows "\<exists>e. make_risk_check_event H r p f es d i = Inr e \<and> valid_event H e \<and> request e = r
    \<and> final_decision e = d \<and> approved_order_intent e = i \<and> limit_evaluations e = es
    \<and> order_effect e = f \<and> RiskCheckEvent.reason_codes e = breach_reasons es
    \<and> risk_policy_id e = policy_id p"
proof -
  let ?d = "risk_check_event_draft r p f es d i"
  let ?h = "build_risk_check_event_hash H ?d"
  let ?e = "?d\<lparr>risk_check_id := build_risk_check_event_id H ?h, risk_check_hash := ?h\<rparr>"
  have "canonical_id (policy_id p)" "hex64 (policy_hash p)"
    using assms(3) unfolding valid_policy_def construct_RiskPolicy_def risk_policy_fields_def Let_def
      checked_Inr_iff list_all_append list.pred_inject(2) fst_conv by blast+
  moreover have "build_risk_check_event_hash H ?e = ?h"
    by (simp add: build_risk_check_event_hash_def)
  moreover have "hex64 ?h" using assms(1) by (simp add: build_risk_check_event_hash_def)
  moreover have "canonical_id (build_risk_check_event_id H ?h)"
    unfolding build_risk_check_event_id_def
    by (rule stable_id_canonical [OF assms(1)]) (simp_all add: canonical_id_def upper_char_def)
  moreover have "non_empty_string ''FR-010''" "non_empty_string ''FR-011''" "non_empty_string ''NFR-004''"
    by (simp_all add: non_empty_string_def strip_def py_space_def)
  ultimately have "construct_RiskCheckEvent H ?e = Inr ?e"
    using assms(2,4-9)
    by (cases i) (simp_all add: construct_RiskCheckEvent_def Let_def risk_check_event_draft_def)
  then show ?thesis
    by (simp add: make_risk_check_event_def Let_def valid_event_def risk_check_event_draft_def)
qed

section \<open>The reference decision\<close>

definition cap_minimum :: "decimal \<Rightarrow> decimal list \<Rightarrow> decimal" where
  "cap_minimum c cs = fold (\<lambda>x m. py_min m x) cs c"

text \<open>
  The decision as a function of the conditions: rejection, an unchanged sell, a stop, and the
  smallest allowed notional for a buy.
\<close>

definition decision :: "digest \<Rightarrow> RiskCheckRequest \<Rightarrow> RiskPolicy \<Rightarrow> RiskDecisionStatus \<times> OrderIntent option" where
  "decision H r p =
     (let i = order_intent r; price = RiskCheckRequest.reference_price r in
      if rejects H r p then (RiskDecisionStatus.REJECTED, None)
      else if OrderIntent.side i = SELL then (RiskDecisionStatus.APPROVED, Some i)
      else if stops r p then (NO_TRADE, None)
      else case soft_caps r p of
        [] \<Rightarrow> (RiskDecisionStatus.APPROVED, Some i)
      | c # cs \<Rightarrow>
          if cap_minimum c cs \<le> 0 then (NO_TRADE, None)
          else if OrderIntent.quantity i * price \<le> cap_minimum c cs
          then (RiskDecisionStatus.APPROVED, Some i)
          else (APPROVED_AFTER_CAP, Some (i\<lparr>OrderIntent.quantity := cap_minimum c cs / price\<rparr>)))"

lemma dec_div_pos: "0 < a \<Longrightarrow> 0 < b \<Longrightarrow> 0 < a / (b :: decimal)"
  by (simp add: less_dval ddiv_pos)

lemma approval_ok:
  assumes v: "valid_request H r" and nr: "\<not> rejects H r p"
    and th: "those (map (allowed_incremental_notional r)
        (filter (\<lambda>e. RiskLimitEvaluation.status e = SOFT_BREACH) es))
      = (if stops r p then None else Some (soft_caps r p))"
  shows "approval_after_soft_caps r (order_effect_of r) es = Inr (decision H r p)"
proof -
  have i: "valid_OrderIntent (order_intent r)" and pr: "0 < RiskCheckRequest.reference_price r"
    using valid_requestD [OF v] by simp_all
  have no: "\<not> 0 < oversell_quantity r" using nr by (simp add: rejects_def)
  show ?thesis
  proof (cases "OrderIntent.side (order_intent r)")
    case SELL
    then show ?thesis using nr by (simp add: approval_after_soft_caps_def decision_def Let_def)
  next
    case BUY
    then have inc: "risk_increasing (order_effect_of r)" by (rule order_effect_increasing)
    let ?q = "\<lambda>m. m / RiskCheckRequest.reference_price r"
    show ?thesis
    proof (cases "soft_caps r p")
      case Nil
      then show ?thesis using BUY inc nr th by (simp add: approval_after_soft_caps_def decision_def Let_def)
    next
      case (Cons c cs)
      let ?m = "cap_minimum c cs"
      have "\<not> ?q ?m \<le> 0 \<and> construct_OrderIntent (order_intent r\<lparr>OrderIntent.quantity := ?q ?m\<rparr>)
          = Inr (order_intent r\<lparr>OrderIntent.quantity := ?q ?m\<rparr>)" if "\<not> ?m \<le> 0"
      proof -
        have "0 < ?q ?m" using that pr by (intro dec_div_pos) (simp_all add: less_dval le_dval)
        then show ?thesis using valid_intentD(2) [OF i, of "?q ?m"]
          by (simp add: valid_OrderIntent_def less_dval le_dval)
      qed
      then show ?thesis
        using BUY inc nr th Cons
        by (simp add: approval_after_soft_caps_def decision_def Let_def cap_minimum_def)
    qed
  qed
qed

lemma decision_approving: "approving (fst (decision H r p)) \<longleftrightarrow> snd (decision H r p) \<noteq> None"
  by (auto simp: decision_def Let_def approving_def split: list.splits)

lemma decision_intent:
  assumes "valid_request H r"
  shows "opt_all valid_OrderIntent (snd (decision H r p))"
proof -
  have i: "valid_OrderIntent (order_intent r)" and pr: "0 < RiskCheckRequest.reference_price r"
    using valid_requestD [OF assms] by simp_all
  show ?thesis
    using valid_intentD(2) [OF i dec_div_pos [OF _ pr]] i
    by (auto simp: decision_def Let_def less_dval le_dval not_le split: list.splits)
qed

lemma engine_ok:
  assumes "digest_ok H" "valid_request H r" "valid_policy H p"
  shows "\<exists>e. evaluate_pre_trade_risk H r p = Inr e \<and> valid_event H e \<and> request e = r
    \<and> final_decision e = fst (decision H r p) \<and> approved_order_intent e = snd (decision H r p)
    \<and> order_effect e = order_effect_of r \<and> risk_policy_id e = policy_id p
    \<and> (has_hard_breach (limit_evaluations e) \<longleftrightarrow> rejects H r p)
    \<and> RiskCheckEvent.reason_codes e = breach_reasons (limit_evaluations e)"
proof -
  obtain es where es: "limit_evaluations_of H r p (order_effect_of r) = Inr es" "es \<noteq> []"
    "list_all (\<lambda>e. construct_RiskLimitEvaluation e = Inr e) es"
    "has_hard_breach es \<longleftrightarrow> rejects H r p"
    "\<not> rejects H r p \<longrightarrow> those (map (allowed_incremental_notional r)
        (filter (\<lambda>e. RiskLimitEvaluation.status e = SOFT_BREACH) es))
      = (if stops r p then None else Some (soft_caps r p))"
    by (rule engine_evaluations [of H r p])
  have d: "(if has_hard_breach es then Inr (RiskDecisionStatus.REJECTED, None)
      else approval_after_soft_caps r (order_effect_of r) es) = Inr (decision H r p)"
    using approval_ok [OF assms(2)] es(4,5) by (auto simp: decision_def)
  have f: "construct_OrderEffect (order_effect_of r) = Inr (order_effect_of r)"
    using order_effect_ok [OF assms(2)] by (simp add: build_order_effect_def)
  have h: "has_hard_breach es \<Longrightarrow> fst (decision H r p) = RiskDecisionStatus.REJECTED"
    using es(4) by (simp add: decision_def)
  obtain e where e: "make_risk_check_event H r p (order_effect_of r) es (fst (decision H r p))
      (snd (decision H r p)) = Inr e" "valid_event H e" "request e = r"
    "final_decision e = fst (decision H r p)" "approved_order_intent e = snd (decision H r p)"
    "limit_evaluations e = es" "order_effect e = order_effect_of r"
    "RiskCheckEvent.reason_codes e = breach_reasons es" "risk_policy_id e = policy_id p"
    using make_event_ok [OF assms f es(3,2) decision_intent [OF assms(2)] h decision_approving] by blast
  have "evaluate_pre_trade_risk H r p = Inr e"
    unfolding evaluate_pre_trade_risk_def order_effect_ok [OF assms(2)] bindE_simps es(1) d
    using e(1) by (simp add: case_prod_beta)
  then show ?thesis using e es(4) by simp
qed

section \<open>Properties\<close>

text \<open>C1: On every validated request and policy the engine returns (it never raises), the event it
  returns is valid, and its decision and approved intent are those of the reference decision:
  rejection exactly when some limit is breached hard, an unchanged sell otherwise, and for a buy a
  stop, the unchanged order or the order reduced to the smallest allowed notional.\<close>

theorem engine_implements_decision:
  assumes "digest_ok H" "valid_request H r" "valid_policy H p"
  shows "\<exists>e. evaluate_pre_trade_risk H r p = Inr e \<and> valid_event H e \<and> request e = r
    \<and> (final_decision e, approved_order_intent e) = decision H r p
    \<and> (final_decision e = RiskDecisionStatus.REJECTED \<longleftrightarrow> rejects H r p)
    \<and> (has_hard_breach (limit_evaluations e) \<longleftrightarrow> rejects H r p)"
proof -
  have "fst (decision H r p) = RiskDecisionStatus.REJECTED \<longleftrightarrow> rejects H r p"
    by (auto simp: decision_def Let_def split: list.splits)
  with engine_ok [OF assms] show ?thesis by (metis prod.collapse)
qed

text \<open>C3: An approving decision implies, for every order: known metadata, product scope, an
  active or degraded venue, no oversell, losses above the hard floors, drawdown, spread and
  volatility within bounds, no blocking health signal, no unresolved duplicate, free throttle
  windows; and for a buy also every notional, exposure and cash bound of policy, account and
  constraint.\<close>

theorem approval_respects_limits:
  assumes "valid_request H r" "valid_policy H p" "digest_ok H"
    and "evaluate_pre_trade_risk H r p = Inr e" "approving (final_decision e)"
  shows "\<not> state_missing r \<and> in_product_scope (metadata_view r)
    \<and> venue_state r \<in> {Some VenueStatus.ACTIVE, Some VenueStatus.DEGRADED}
    \<and> (OrderIntent.side (order_intent r) = SELL \<longrightarrow>
         OrderIntent.quantity (order_intent r) \<le> current_instrument_position_quantity r)
    \<and> - (paper_nav p * max_daily_account_loss_hard_pct p) < daily_account_pnl (loss_risk r)
    \<and> - (paper_nav p * max_daily_strategy_loss_hard_pct p) < daily_strategy_pnl (loss_risk r)
    \<and> LossRiskTelemetry.max_drawdown_pct (loss_risk r) \<le> max_drawdown_hard_pct p
    \<and> \<not> participation_hard r p \<and> \<not> spread_hard r p \<and> \<not> volatility_hard r p
    \<and> blocking_signals r = [] \<and> duplicate_records H r = []
    \<and> (\<forall>w \<in> set (throttle_windows r). observed_intent_count w < OrderThrottleWindow.hard_limit w)
    \<and> (OrderIntent.side (order_intent r) = BUY \<longrightarrow>
         proposed_notional (order_effect_of r) \<le> order_notional_hard p (metadata_view r)
         \<and> resulting_instrument_exposure_notional (order_effect_of r)
             \<le> instrument_exposure_hard p (metadata_view r)
         \<and> resulting_strategy_exposure_notional (order_effect_of r)
             \<le> strategy_exposure_hard p (metadata_view r)
         \<and> resulting_total_spot_exposure_notional (order_effect_of r)
             \<le> total_spot_exposure_hard p (metadata_view r)
         \<and> cash_reserve_threshold p (metadata_view r) \<le> resulting_cash (order_effect_of r))"
proof -
  have "approving (fst (decision H r p))"
    using engine_ok [OF assms(3,1,2)] assms(4,5) by auto
  then have nr: "\<not> rejects H r p" by (auto simp: decision_def approving_def)
  have os: "OrderIntent.quantity (order_intent r) \<le> current_instrument_position_quantity r"
    if "\<not> 0 < oversell_quantity r" "OrderIntent.side (order_intent r) = SELL"
    using that by (simp add: oversell_quantity_def less_dval le_dval dval_simps not_less)
      (metis dval_diff_sign(2) not_le)
  have th: "\<forall>w \<in> set (throttle_windows r). observed_intent_count w < OrderThrottleWindow.hard_limit w"
    using nr by (auto simp: rejects_def list_ex_iff throttle_hard_def)
  have le: "v \<le> limit" if "\<not> (risk_increasing (order_effect_of r) \<and> limit < v)"
    "OrderIntent.side (order_intent r) = BUY" for v limit :: decimal
    using that order_effect_increasing(1) [of r] by (simp add: not_less_decimal)
  note n = nr [unfolded rejects_def above_limit_def cash_below_reserve_def de_Morgan_disj not_not
      not_le_decimal]
  show ?thesis
    using n th by (elim conjE) (intro conjI impI;
      (assumption | (simp add: not_less_decimal; fail) | rule os | rule le); assumption?)
qed

lemma cap_minimum_Cons: "cap_minimum c (y # ys) = cap_minimum (py_min c y) ys"
  by (simp add: cap_minimum_def)

lemma cap_minimum_le: "x \<in> set (c # cs) \<Longrightarrow> dval (cap_minimum c cs) \<le> dval x"
proof (induction cs arbitrary: c x)
  case (Cons y ys)
  have "dval (cap_minimum (py_min c y) ys) \<le> dval (py_min c y)" by (rule Cons.IH) simp
  then have "dval (cap_minimum (py_min c y) ys) \<le> dval c" "dval (cap_minimum (py_min c y) ys) \<le> dval y"
    by (simp_all add: dval_simps)
  moreover have "x \<in> set ys \<Longrightarrow> dval (cap_minimum (py_min c y) ys) \<le> dval x" by (rule Cons.IH) simp
  ultimately show ?case using Cons.prems by (auto simp: cap_minimum_Cons)
qed (simp add: cap_minimum_def)

lemma cap_minimum_in: "cap_minimum c cs \<in> set (c # cs)"
proof (induction cs arbitrary: c)
  case (Cons y ys)
  have "cap_minimum (py_min c y) ys \<in> set (py_min c y # ys)" by (rule Cons.IH)
  then show ?case by (auto simp: cap_minimum_Cons py_min_def split: if_splits)
qed (simp add: cap_minimum_def)

lemma participation_cap_fits: "participation_soft r p \<Longrightarrow> fits (participation_cap r p)"
  by (auto simp: participation_soft_def participation_cap_def participation_checks_def
      split: option.splits)

lemma soft_caps_fit: "c \<in> set (soft_caps r p) \<Longrightarrow> fits c"
  by (auto simp: soft_caps_def participation_cap_fits split: if_splits)

lemma approved_bounds:
  assumes "valid_request H r" "valid_policy H p" "digest_ok H"
    and "evaluate_pre_trade_risk H r p = Inr e" "approved_order_intent e = Some i"
    and "fits (OrderIntent.quantity (order_intent r))"
  shows "i = order_intent r\<lparr>OrderIntent.quantity := OrderIntent.quantity i\<rparr>
    \<and> 0 < OrderIntent.quantity i
    \<and> OrderIntent.quantity i \<le> OrderIntent.quantity (order_intent r)
    \<and> (final_decision e = APPROVED_AFTER_CAP \<longrightarrow> (\<forall>c \<in> set (soft_caps r p).
        dval (OrderIntent.quantity i) * dval (RiskCheckRequest.reference_price r)
          \<le> (1 + 2 * dec_eps) * dval c))"
proof -
  let ?q = "OrderIntent.quantity (order_intent r)" and ?p = "RiskCheckRequest.reference_price r"
  have v: "valid_OrderIntent (order_intent r)" "0 < ?p" "0 < ?q"
    using valid_requestD [OF assms(1)] valid_intentD(1) by simp_all
  have d: "final_decision e = fst (decision H r p)" "Some i = snd (decision H r p)"
    using engine_ok [OF assms(3,1,2)] assms(4,5) by auto
  show ?thesis
  proof (cases "fst (decision H r p) = APPROVED_AFTER_CAP")
    case False
    then have "i = order_intent r" using d(2) by (auto simp: decision_def Let_def split: list.splits if_splits)
    then show ?thesis using v(3) d(1) False by (simp add: le_dval)
  next
    case True
    then obtain c cs where c: "soft_caps r p = c # cs" "\<not> cap_minimum c cs \<le> 0"
      "\<not> ?q * ?p \<le> cap_minimum c cs" "i = order_intent r\<lparr>OrderIntent.quantity := cap_minimum c cs / ?p\<rparr>"
      using d(2) by (auto simp: decision_def Let_def split: list.splits if_splits)
    let ?m = "cap_minimum c cs"
    have m: "0 < dval ?m" "0 < dval ?p" using c(2) v(2) by (simp_all add: le_dval less_dval)
    have fm: "fits ?m" using soft_caps_fit cap_minimum_in [of c cs] c(1) by metis
    have "dval ?m \<le> dval ?q * dval ?p"
    proof (rule ccontr)
      assume "\<not> dval ?m \<le> dval ?q * dval ?p"
      then have "dval (?q * ?p) \<le> dval ?m"
        using dfix_le_fits [OF fm, of "dmul_exact ?q ?p"] by (simp add: times_decimal_def dval_exact)
      then show False using c(3) by (simp add: le_dval)
    qed
    then have le: "dval (?m / ?p) \<le> dval ?q" using ddiv_le_fits [OF _ m(2) assms(6)] m(1) by simp
    have "dval (?m / ?p) * dval ?p \<le> (1 + 2 * dec_eps) * dval ?m"
    proof -
      have "dval (?m / ?p) \<le> (1 + 2 * dec_eps) * (dval ?m / dval ?p)"
        using abs_le_D1 [OF ddiv_error [OF m]] by (simp add: distrib_right add_divide_distrib)
      then show ?thesis using m(2) by (simp add: pos_le_divide_eq)
    qed
    moreover have "(1 + 2 * dec_eps) * dval ?m \<le> (1 + 2 * dec_eps) * dval x" if "x \<in> set (soft_caps r p)" for x
      using cap_minimum_le that c(1) by (intro mult_left_mono) (auto simp: dec_eps_def)
    ultimately have "dval (?m / ?p) * dval ?p \<le> (1 + 2 * dec_eps) * dval x" if "x \<in> set (soft_caps r p)" for x
      using that by fastforce
    then show ?thesis using c(4) le ddiv_pos [OF m] by (simp add: le_dval less_dval)
  qed
qed


text \<open>C4: The approved intent is the requested one except possibly for its quantity, which is
  positive and never above the requested quantity (a quantity of at most 28 digits); after a cap
  its notional at the reference price stays, up to a relative rounding error of two units in the
  28th digit, below every reduced notional the soft breaches allow.\<close>

theorem approved_quantity_bounds:
  assumes "valid_request H r" "valid_policy H p" "digest_ok H"
    and "evaluate_pre_trade_risk H r p = Inr e" "approved_order_intent e = Some i"
    and "fits (OrderIntent.quantity (order_intent r))"
  shows "i = order_intent r\<lparr>OrderIntent.quantity := OrderIntent.quantity i\<rparr>
    \<and> 0 < OrderIntent.quantity i
    \<and> OrderIntent.quantity i \<le> OrderIntent.quantity (order_intent r)
    \<and> (final_decision e = APPROVED_AFTER_CAP \<longrightarrow> (\<forall>c \<in> set (soft_caps r p).
        dval (OrderIntent.quantity i) * dval (RiskCheckRequest.reference_price r)
          \<le> (1 + 2 * dec_eps) * dval c))"
  using assms by (rule approved_bounds)

text \<open>C7: The kill switch decides as its states say: unknown, cancel-only and halted reject
  every order, pause and reduce-only reject every buy, and an order approved under pause or
  reduce-only is a sell of at most the held quantity; soft-limited never approves a buy.\<close>

theorem kill_switch_gates_orders:
  assumes "valid_request H r" "valid_policy H p" "digest_ok H"
    and "evaluate_pre_trade_risk H r p = Inr e"
  shows "(active_state (kill_switch_snapshot r) \<in> {UNKNOWN_FAIL_CLOSED, CANCEL_ONLY, KillSwitchState.HALTED}
       \<longrightarrow> final_decision e = RiskDecisionStatus.REJECTED \<and> approved_order_intent e = None)
    \<and> (active_state (kill_switch_snapshot r) \<in> {PAUSE_NEW_ORDERS, REDUCE_ONLY} \<and> approving (final_decision e)
       \<longrightarrow> OrderIntent.side (order_intent r) = SELL
         \<and> OrderIntent.quantity (order_intent r) \<le> current_instrument_position_quantity r
         \<and> approved_order_intent e = Some (order_intent r))
    \<and> (active_state (kill_switch_snapshot r) = SOFT_LIMITED \<and> OrderIntent.side (order_intent r) = BUY
       \<longrightarrow> approved_order_intent e = None)"
proof -
  have d: "final_decision e = fst (decision H r p)" "approved_order_intent e = snd (decision H r p)"
    using engine_ok [OF assms(3,1,2)] assms(4) by auto
  have os: "OrderIntent.quantity (order_intent r) \<le> current_instrument_position_quantity r"
    if "\<not> 0 < oversell_quantity r" "OrderIntent.side (order_intent r) = SELL"
    using that by (simp add: oversell_quantity_def less_dval le_dval dval_simps not_less)
      (metis dval_diff_sign(2) not_le)
  show ?thesis
  proof (intro conjI impI)
    assume "active_state (kill_switch_snapshot r) \<in> {UNKNOWN_FAIL_CLOSED, CANCEL_ONLY, KillSwitchState.HALTED}"
    then have "rejects H r p" by (auto simp: rejects_def kill_switch_blocks_def)
    then show "final_decision e = RiskDecisionStatus.REJECTED" "approved_order_intent e = None"
      by (simp_all add: d decision_def)
  next
    assume a: "active_state (kill_switch_snapshot r) \<in> {PAUSE_NEW_ORDERS, REDUCE_ONLY} \<and> approving (final_decision e)"
    then have nr: "\<not> rejects H r p" by (auto simp: d decision_def approving_def)
    then have "\<not> risk_increasing (order_effect_of r)" "\<not> 0 < oversell_quantity r"
      using a by (auto simp: rejects_def kill_switch_blocks_def)
    moreover from this have s: "OrderIntent.side (order_intent r) = SELL"
      using order_effect_increasing(1) by (cases "OrderIntent.side (order_intent r)") auto
    ultimately show "OrderIntent.side (order_intent r) = SELL"
      "OrderIntent.quantity (order_intent r) \<le> current_instrument_position_quantity r"
      "approved_order_intent e = Some (order_intent r)"
      using os nr by (simp_all add: d decision_def Let_def)
  next
    assume "active_state (kill_switch_snapshot r) = SOFT_LIMITED \<and> OrderIntent.side (order_intent r) = BUY"
    then show "approved_order_intent e = None" by (simp add: d decision_def Let_def stops_def)
  qed
qed

end
