(* ===== verification/Examples.thy ===== *)
theory Examples
  imports RiskEngine
begin

text \<open>
  One concrete market for the instances of the properties: a paper venue with one spot
  instrument, an account, an order constraint, a clear kill switch, the default policy over a
  book of 100000, and buys of that instrument at a reference price of 100.  The digest is the
  constant one; nothing below depends on which digest is used.
\<close>

abbreviation H0 :: digest where "H0 \<equiv> \<lambda>p. zero_hash"

definition example_venue :: Venue where
  "example_venue = \<lparr>SourceStampedModel.source_id = ''FIXTURE:1'', source_version = None,
     metadata_ts = DT 0 0, Venue.venue_id = ''VENUE:1'', name = ''Paper venue'', venue_type = VenueType.PAPER,
     timezone = ''UTC'',
     api_endpoint_group = \<lparr>group_id = ''API:1'', rest_base_url = Some ''https://venue.example'', websocket_url = None,
       status_url = None, documentation_url = None\<rparr>,
     status = VenueStatus.ACTIVE,
     rate_limits = [\<lparr>rate_limit_id = ''RATE:1'', rate_scope = REST, max_operations = 10, interval_seconds = 1,
       burst_limit = None\<rparr>],
     supported_order_types = {MARKET, LIMIT}\<rparr>"

definition example_asset :: "string \<Rightarrow> Asset" where
  "example_asset a = \<lparr>SourceStampedModel.source_id = ''FIXTURE:1'', source_version = None,
     metadata_ts = DT 0 0, Asset.asset_id = a, symbol = a, name = a, asset_type = AssetType.OTHER,
     classifications = {AssetClassification.CRYPTO}, issuer = None, category = None, status = AssetStatus.ACTIVE\<rparr>"

definition example_fees :: FeeSchedule where
  "example_fees = \<lparr>SourceStampedModel.source_id = ''FIXTURE:1'', source_version = None,
     metadata_ts = DT 0 0, FeeSchedule.fee_schedule_id = ''FEES:1'', venue_id = ''VENUE:1'', fee_tier_id = ''TIER:1'',
     maker_fee_rate = Dec 1 (-3), taker_fee_rate = Dec 1 (-3), fee_asset_id = None, min_fee = 0,
     effective_from = DT 0 0, effective_to = None\<rparr>"

definition example_trading_session :: TradingSession where
  "example_trading_session = \<lparr>SourceStampedModel.source_id = ''FIXTURE:1'', source_version = None,
     metadata_ts = DT 0 0, TradingSession.session_id = ''SESSION:1'', venue_id = ''VENUE:1'', name = ''always open'',
     timezone = ''UTC'', days_of_week = {MONDAY, TUESDAY, WEDNESDAY, THURSDAY, FRIDAY, SATURDAY, SUNDAY},
     is_24x7 = True, open_time = None, close_time = None, status = TradingSessionStatus.ACTIVE,
     effective_from = DT 0 0, effective_to = None\<rparr>"

definition example_instrument :: Instrument where
  "example_instrument = \<lparr>SourceStampedModel.source_id = ''FIXTURE:1'', source_version = None,
     metadata_ts = DT 0 0, Instrument.instrument_id = ''BTC-USD'', venue_id = ''VENUE:1'',
     base_asset_id = ''BTC'', quote_asset_id = ''USD'', venue_symbol = ''BTCUSD'',
     canonical_symbol = ''BTC/USD'', instrument_type = SPOT, status = TRADING,
     tick_size = Dec 1 (-2), lot_size = Dec 1 (-4), min_notional = Dec 1 0,
     fee_schedule_id = ''FEES:1'', supported_order_types = {MARKET, LIMIT},
     effective_from = DT 0 0, effective_to = None, is_derivative = False, margin_allowed = False,
     short_selling_allowed = False, leverage_allowed = False\<rparr>"

definition example_account :: Account where
  "example_account = \<lparr>SourceStampedModel.source_id = ''FIXTURE:1'', source_version = None,
     metadata_ts = DT 0 0, Account.account_id = ''ACCOUNT:1'', venue_id = ''VENUE:1'',
     account_type = AccountType.PAPER, status = AccountStatus.ACTIVE,
     trading_permissions = {PLACE_ORDERS}, fee_tier_id = ''FEES:1'',
     risk_limits = \<lparr>max_order_notional_pct = Dec 25 (-3), max_instrument_exposure_pct = Dec 25 (-2),
       max_strategy_exposure_pct = Dec 30 (-2), max_total_spot_exposure_pct = Dec 60 (-2),
       min_cash_reserve_pct = Dec 30 (-2), max_daily_loss_pct = Dec 2 (-2), max_drawdown_pct = Dec 8 (-2)\<rparr>,
     key_scope = PAPER_TRADE, live_capital_enabled = False, withdrawals_enabled = False,
     margin_enabled = False, derivatives_enabled = False, shorting_enabled = False\<rparr>"

definition example_constraint :: InstrumentConstraint where
  "example_constraint = \<lparr>SourceStampedModel.source_id = ''FIXTURE:1'', source_version = None,
     metadata_ts = DT 0 0, InstrumentConstraint.constraint_id = ''CONSTRAINT:1'', instrument_id = ''BTC-USD'',
     tick_size = Dec 1 (-2), lot_size = Dec 1 (-4), min_notional = Dec 1 0,
     min_order_quantity = None, max_order_quantity = None, max_order_notional = None,
     effective_from = DT 0 0, effective_to = None\<rparr>"

definition example_snapshot :: InstrumentMasterSnapshot where
  "example_snapshot = \<lparr>SourceStampedModel.source_id = ''FIXTURE:1'', source_version = None,
     metadata_ts = DT 0 0, InstrumentMasterSnapshot.snapshot_id = ''SNAPSHOT:1'', created_at = DT 10 0,
     assets = [example_asset ''BTC'', example_asset ''USD''], venues = [example_venue],
     fee_schedules = [example_fees], trading_sessions = [example_trading_session],
     instrument_constraints = [example_constraint], instruments = [example_instrument],
     accounts = [example_account]\<rparr>"

definition example_kill_record :: "KillSwitchState \<Rightarrow> KillSwitchRecord" where
  "example_kill_record st = \<lparr>KillSwitchRecord.record_id = stable_id H0 ''KILLRECORD'' PNull,
     scope = global_scope, prior_state = UNKNOWN_FAIL_CLOSED, new_state = st, actor = ''ops'',
     actor_role = ''owner'', transitioned_at = DT 0 0, reason = ''start'', cancel_open_orders = False,
     source = MANUAL, linked_incident_id = None, requirement_ids = []\<rparr>"

definition example_kill_snapshot :: "KillSwitchState \<Rightarrow> KillSwitchSnapshot" where
  "example_kill_snapshot st = \<lparr>KillSwitchSnapshot.snapshot_id = stable_id H0 ''KILLSNAPSHOT'' PNull,
     snapshot_hash = zero_hash, evaluated_at = DT 10 0, evaluated_scopes = [global_scope],
     active_state = st, active_records = [example_kill_record st], store_available = True,
     reason = ''loaded'', requirement_ids = []\<rparr>"

definition example_intent :: "OrderSide \<Rightarrow> decimal \<Rightarrow> OrderIntent" where
  "example_intent sd q = \<lparr>OrderIntent.client_order_id = ''ORDER:1'', trace_id = ''TRACE:1'',
     source_decision_id = ''DECISION:1'', instrument_id = ''BTC-USD'', venue_id = ''VENUE:1'',
     side = sd, order_type = MARKET, quantity = q, submitted_at = DT 20 0, limit_price = None\<rparr>"

definition example_request :: "KillSwitchSnapshot \<Rightarrow> DataHealthSignal list \<Rightarrow> OrderSide \<Rightarrow> decimal \<Rightarrow> RiskCheckRequest" where
  "example_request ks gs sd q = \<lparr>RiskCheckRequest.request_id = stable_id H0 ''RISKREQUEST'' PNull,
     request_hash = zero_hash, run_id = ''RUN:1'', trace_id = ''TRACE:1'',
     source_decision_id = ''DECISION:1'', decision_ts = DT 10 0, risk_check_ts = DT 20 0,
     strategy_version = ''v1'', account_id = ''ACCOUNT:1'', order_intent = example_intent sd q,
     idempotency_key = ''ORDER:1'', reference_price = Dec 100 0, account_equity = Dec 100000 0,
     current_cash = Dec 100000 0, current_instrument_position_quantity = Dec 2 0,
     current_instrument_exposure_notional = Dec 0 0, current_strategy_exposure_notional = Dec 0 0,
     current_total_spot_exposure_notional = Dec 0 0, instrument_master_snapshot = example_snapshot,
     kill_switch_snapshot = ks, price_risk = default_price_risk,
     loss_risk = default_loss_risk, liquidity_risk = default_liquidity_risk,
     market_risk = default_market_risk, engine_latency = default_engine_latency,
     model_risk = default_model_risk, tca_risk = default_tca_risk, data_health_signals = gs,
     idempotency_records = [], throttle_windows = [], reject_burst_windows = [],
     requirement_ids = [''FR-010'']\<rparr>"

definition example_policy :: RiskPolicy where
  "example_policy = (default_policy_draft (Dec 100000 0) ''default'')
     \<lparr>policy_id := stable_id H0 ''RISKPOLICY'' PNull, policy_hash := zero_hash\<rparr>"

lemma zero_hash_id: "stable_id H0 pre p = pre @ '':'' @ replicate 32 (CHR ''0'')"
  by (simp add: stable_id_def zero_hash_def take_replicate upper_of_def)

lemma zero_hash_hex [simp]: "hex64 zero_hash"
  using digest_ok_example by (simp add: digest_ok_def)

lemma stable_ids [simp]:
  "canonical_id (stable_id H0 ''KILLRECORD'' p)" "canonical_id (stable_id H0 ''KILLSNAPSHOT'' p)"
  "canonical_id (stable_id H0 ''RISKREQUEST'' p)" "canonical_id (stable_id H0 ''RISKPOLICY'' p)"
proof -
  have "canonical_id ''KILLRECORD''" "canonical_id ''KILLSNAPSHOT''" "canonical_id ''RISKREQUEST''"
    "canonical_id ''RISKPOLICY''" by (simp_all add: canonical_id_def upper_char_def)
  then show "canonical_id (stable_id H0 ''KILLRECORD'' p)" "canonical_id (stable_id H0 ''KILLSNAPSHOT'' p)"
    "canonical_id (stable_id H0 ''RISKREQUEST'' p)" "canonical_id (stable_id H0 ''RISKPOLICY'' p)"
    by (simp_all add: stable_id_canonical [OF digest_ok_example])
qed

lemma stable_id_any: "stable_id H0 pre p = stable_id H0 pre PNull"
  by (simp only: zero_hash_id)

lemmas text_defs = non_empty_string_def strip_def py_space_def

lemma example_kill_valid: "construct_KillSwitchSnapshot H0 (example_kill_snapshot st) = Inr (example_kill_snapshot st)"
  by (simp add: construct_KillSwitchSnapshot_def example_kill_snapshot_def Let_def
      construct_KillSwitchRecord_def example_kill_record_def build_kill_switch_record_id_def
      build_kill_switch_snapshot_hash_def build_kill_switch_snapshot_id_def
      stable_id_any [where p = "PObj ps" for ps] construct_KillSwitchScope_def global_scope_def)
    (simp add: text_defs)

lemma example_intent_valid: "0 < q \<Longrightarrow> valid_OrderIntent (example_intent sd q)"
  by (simp add: valid_OrderIntent_def construct_OrderIntent_def example_intent_def)
    (simp add: canonical_id_def upper_char_def digit_char_def)

lemma example_request_valid:
  assumes "0 < q" "construct_KillSwitchSnapshot H0 ks = Inr ks"
    "list_all (\<lambda>g. construct_DataHealthSignal g = Inr g) gs"
  shows "valid_request H0 (example_request ks gs sd q)"
proof -
  have "canonical_id ''RUN:1''" "canonical_id ''TRACE:1''" "canonical_id ''DECISION:1''"
    "canonical_id ''ACCOUNT:1''"
    by (simp_all add: canonical_id_def upper_char_def digit_char_def)
  moreover have "non_empty_string ''v1''" "non_empty_string ''ORDER:1''" "non_empty_string ''FR-010''"
    by (simp_all add: text_defs)
  ultimately show ?thesis
    using assms example_intent_valid [OF assms(1), of sd]
    by (simp add: valid_request_def construct_RiskCheckRequest_def risk_request_fields_def Let_def
        example_request_def build_risk_check_request_id_def build_risk_check_request_hash_def
        stable_id_any [where p = "PObj ps" for ps] less_datetime_def less_dval le_dval dval_Dec
        default_price_risk_def default_loss_risk_def default_liquidity_risk_def default_market_risk_def
        default_engine_latency_def default_model_risk_def default_tca_risk_def valid_price_risk_def
        valid_loss_risk_def valid_liquidity_risk_def valid_market_risk_def valid_engine_latency_def
        valid_tca_risk_def example_snapshot_def example_instrument_def)
      (simp add: example_intent_def less_datetime_def)
qed

lemma example_policy_valid: "valid_policy H0 example_policy"
proof -
  have "non_empty_string ''default''" "non_empty_string ''FR-010''" "non_empty_string ''FR-011''"
    "non_empty_string ''NFR-004''" by (simp_all add: text_defs)
  then show ?thesis
    by (simp add: valid_policy_def construct_RiskPolicy_def risk_policy_fields_def
        risk_policy_thresholds_def soft_above_hard_def Let_def example_policy_def default_policy_draft_def
        build_risk_policy_id_def build_risk_policy_hash_def stable_id_any [where p = "PObj ps" for ps]
        less_dval le_dval dval_Dec)
qed

section \<open>A capped order\<close>

text \<open>A buy of 15 at 100 under the default policy over 100000: above the soft limit on one order's
  notional (1000), below every hard limit, so the order is cut to 10.\<close>

definition example_order :: RiskCheckRequest where
  "example_order = example_request (example_kill_snapshot CLEAR) [] BUY (Dec 15 0)"

lemmas telemetry_defs = default_price_risk_def default_loss_risk_def default_liquidity_risk_def
  default_market_risk_def default_engine_latency_def default_model_risk_def default_tca_risk_def

lemmas example_request_defs = example_order_def example_request_def example_kill_snapshot_def
  example_intent_def example_policy_def default_policy_draft_def telemetry_defs

lemmas example_metadata_defs = example_venue_def example_instrument_def example_account_def
  example_constraint_def

lemmas latency_defs = observed_latency_def timedelta_ms_def dt_diff_def total_seconds_decimal_def

lemma example_metadata: "metadata_view (example_request ks gs sd q) =
  \<lparr>MetadataView.venue = Some example_venue, instrument = Some example_instrument,
   account = Some example_account, constraint = Some example_constraint\<rparr>"
  by (simp add: metadata_view_def example_request_def example_snapshot_def Let_def example_intent_def
    active_constraint_def active_constraints_def example_metadata_defs
    in_window_def constraint_effective_def less_eq_datetime_def less_datetime_def)

lemma example_order_metadata: "metadata_view example_order =
  \<lparr>MetadataView.venue = Some example_venue, instrument = Some example_instrument,
   account = Some example_account, constraint = Some example_constraint\<rparr>"
  by (simp add: example_order_def example_metadata)

lemma example_numbers: "Dec 15 0 * Dec 100 0 = Dec 1500 0" "Dec 2 0 + Dec 15 0 = Dec 17 0"
   "Dec 17 0 * Dec 100 0 = Dec 1700 0" "Dec 0 0 + Dec 1500 0 = Dec 1500 0"
   "Dec 100000 0 - Dec 1500 0 = Dec 98500 0" "Dec 0 0 < Dec 1700 0"
   "Dec 98500 0 / Dec 100000 0 = Dec 985 (-3)" "Dec 100000 (-2) / Dec 100 0 = Dec 1000 (-2)"
  by (simp_all add: dec_eval)

lemma example_effect: "order_effect_of example_order =
  \<lparr>OrderEffect.side = BUY, quantity = Dec 15 0, reference_price = Dec 100 0,
   proposed_notional = Dec 1500 0, resulting_position_quantity = Dec 17 0,
   resulting_position_notional = Dec 1700 0, resulting_cash = Dec 98500 0,
   resulting_instrument_exposure_notional = Dec 1500 0,
   resulting_strategy_exposure_notional = Dec 1500 0,
   resulting_total_spot_exposure_notional = Dec 1500 0, cash_reserve_pct = Dec 985 (-3),
   risk_increasing = True\<rparr>"
  by (simp add: order_effect_of_def example_order_def example_request_def example_intent_def
      example_numbers py_max_def Let_def)

lemma example_not_rejects: "\<not> rejects H0 example_order example_policy"
  unfolding rejects_def state_missing_def example_order_metadata
    example_effect Let_def above_limit_def cash_below_reserve_def participation_hard_def
    spread_hard_def price_collar_hard_def volatility_hard_def latency_hard_def model_hard_def
    tca_hard_def participation_checks_def
  by (simp add: example_request_defs kill_switch_blocks_def orderable_metadata_def
      example_metadata_defs in_product_scope_def order_notional_hard_def
      instrument_exposure_hard_def strategy_exposure_hard_def total_spot_exposure_hard_def
      cash_reserve_threshold_def account_limit_def oversell_quantity_def duplicate_records_def
      blocking_signals_def dec_eval py_max_def py_min_def latency_defs spread_hard_threshold_def
      or_zero_def)

lemma example_not_stops: "\<not> stops example_order example_policy"
  unfolding stops_def spread_soft_def volatility_soft_def tca_soft_def example_order_metadata
  by (simp add: example_request_defs example_venue_def dec_eval py_max_def latency_defs)

lemma example_caps: "soft_caps example_order example_policy = [Dec 100000 (-2)]"
  unfolding soft_caps_def above_limit_def example_effect participation_soft_def participation_checks_def
  by (simp add: example_request_defs dec_eval)

lemma example_decision: "decision H0 example_order example_policy =
   (APPROVED_AFTER_CAP, Some (example_intent BUY (Dec 1000 (-2))))"
proof -
  have c: "\<not> Dec 100000 (-2) \<le> (0 :: decimal)" "\<not> Dec 1500 0 \<le> Dec 100000 (-2)" by (simp_all add: dec_eval)
  have f: "OrderIntent.side (order_intent example_order) = BUY"
    "OrderIntent.quantity (order_intent example_order) = Dec 15 0"
    "order_intent example_order \<lparr>OrderIntent.quantity := q\<rparr> = example_intent BUY q"
    "RiskCheckRequest.reference_price example_order = Dec 100 0" for q
    by (simp_all add: example_order_def example_request_def example_intent_def)
  show ?thesis
    unfolding decision_def Let_def
    by (simp only: f)
      (simp add: example_not_rejects example_not_stops example_caps cap_minimum_def c f example_numbers)
qed

lemma example_order_valid: "valid_request H0 example_order"
  unfolding example_order_def
  by (rule example_request_valid) (simp_all add: example_kill_valid less_dval dval_Dec)

lemma example_evaluated:
  "\<exists>e. evaluate_pre_trade_risk H0 example_order example_policy = Inr e
     \<and> final_decision e = APPROVED_AFTER_CAP
     \<and> approved_order_intent e = Some (example_intent BUY (Dec 1000 (-2)))"
  using engine_ok [OF digest_ok_example example_order_valid example_policy_valid]
  by (auto simp: example_decision)

section \<open>Instances of the properties of the engine\<close>

theorem engine_implements_decision_witness:
  "\<exists>e. evaluate_pre_trade_risk H0 example_order example_policy = Inr e \<and> valid_event H0 e
     \<and> (final_decision e, approved_order_intent e)
         = (APPROVED_AFTER_CAP, Some (example_intent BUY (Dec 1000 (-2))))"
  using engine_implements_decision [OF digest_ok_example example_order_valid example_policy_valid]
  by (auto simp: example_decision)

theorem approval_respects_limits_witness:
  "\<exists>e. evaluate_pre_trade_risk H0 example_order example_policy = Inr e \<and> approving (final_decision e)
     \<and> \<not> state_missing example_order
     \<and> proposed_notional (order_effect_of example_order)
         \<le> order_notional_hard example_policy (metadata_view example_order)"
proof -
  obtain e where e: "evaluate_pre_trade_risk H0 example_order example_policy = Inr e"
    "final_decision e = APPROVED_AFTER_CAP" using example_evaluated by blast
  then have a: "approving (final_decision e)" by (simp add: approving_def)
  have "OrderIntent.side (order_intent example_order) = BUY"
    by (simp add: example_order_def example_request_def example_intent_def)
  with approval_respects_limits [OF example_order_valid example_policy_valid digest_ok_example e(1) a] a e(1)
  show ?thesis by blast
qed

theorem approved_quantity_bounds_witness:
  "\<exists>e i. evaluate_pre_trade_risk H0 example_order example_policy = Inr e
     \<and> approved_order_intent e = Some i \<and> OrderIntent.quantity i \<le> Dec 15 0
     \<and> dval (OrderIntent.quantity i) * 100 \<le> (1 + 2 * dec_eps) * 1000"
proof -
  obtain e i where e: "evaluate_pre_trade_risk H0 example_order example_policy = Inr e"
    "final_decision e = APPROVED_AFTER_CAP" "approved_order_intent e = Some i"
    using example_evaluated by blast
  have f: "RiskCheckRequest.reference_price example_order = Dec 100 0"
    "OrderIntent.quantity (order_intent example_order) = Dec 15 0"
    by (simp_all add: example_order_def example_request_def example_intent_def)
  have "fits (OrderIntent.quantity (order_intent example_order))"
    by (simp add: f fits_small dprec_def)
  from approved_quantity_bounds [OF example_order_valid example_policy_valid digest_ok_example e(1,3) this] e f
  show ?thesis by (auto simp: example_caps dval_Dec)
qed

theorem kill_switch_gates_orders_witness:
  "\<exists>e. evaluate_pre_trade_risk H0
       (example_request (example_kill_snapshot KillSwitchState.HALTED) [] SELL (Dec 1 0)) example_policy = Inr e
     \<and> final_decision e = RiskDecisionStatus.REJECTED \<and> approved_order_intent e = None"
proof -
  let ?r = "example_request (example_kill_snapshot KillSwitchState.HALTED) [] SELL (Dec 1 0)"
  have v: "valid_request H0 ?r"
    by (rule example_request_valid) (simp_all add: example_kill_valid less_dval dval_Dec)
  obtain e where e: "evaluate_pre_trade_risk H0 ?r example_policy = Inr e"
    using engine_ok [OF digest_ok_example v example_policy_valid] by blast
  have "active_state (kill_switch_snapshot ?r) = KillSwitchState.HALTED"
    by (simp add: example_request_def example_kill_snapshot_def)
  with kill_switch_gates_orders [OF v example_policy_valid digest_ok_example e] e
  show ?thesis by simp
qed

end
