(* ===== verification/Replay.thy ===== *)
theory Replay
  imports Simulation "HOL-Library.AList"
begin

text \<open>
  The event-time replay of \<open>simulation/replay.py\<close>: the safety checks of a bar stream, the
  fill of one market order against the next eligible bar, the balances the fills move, and the
  report.  The Python dict of balances is an association list with distinct keys in insertion
  order; it is passed and returned where the code mutates it.  The sets and dicts the bar check
  keeps are the fields of a scan state.
\<close>

section \<open>Safe bar streams\<close>

type_synonym stream_key = "string \<times> string \<times> string"

definition stream_key_of :: "OHLCTVBar \<Rightarrow> stream_key" where
  "stream_key_of b = (OHLCTVBar.instrument_id b, OHLCTVBar.venue_id b, timeframe b)"

definition market_key_of :: "OHLCTVBar \<Rightarrow> string \<times> string" where
  "market_key_of b = (OHLCTVBar.instrument_id b, OHLCTVBar.venue_id b)"

definition close_key_of :: "OHLCTVBar \<Rightarrow> stream_key \<times> string" where
  "close_key_of b = (stream_key_of b, isoformat (close_ts b))"

definition global_key_of :: "OHLCTVBar \<Rightarrow> string list" where
  "global_key_of b = [isoformat (close_ts b), OHLCTVBar.instrument_id b, OHLCTVBar.venue_id b, timeframe b]"

record BarScan =
  seen_close_keys :: "(stream_key \<times> string) set"
  last_by_stream :: "stream_key \<Rightarrow> OHLCTVBar option"
  timeframes_by_market :: "string \<times> string \<Rightarrow> string set"
  previous_global_key :: "string list option"

definition fresh_scan :: BarScan where
  "fresh_scan = \<lparr>seen_close_keys = {}, last_by_stream = Map.empty,
     timeframes_by_market = (\<lambda>k. {}), previous_global_key = None\<rparr>"

text \<open>The body of the loop.  A market whose set of timeframes would hold two elements is one that
  already has a different one.\<close>

definition scan_bar :: "BarScan \<Rightarrow> OHLCTVBar \<Rightarrow> BarScan result" where
  "scan_bar s b =
     guardE (\<not> close_ts b < source_ts b)
       (ReplayBuildError ''OHLCTV source_ts must not be after close_ts for replay'')
     (guardE (timeframes_by_market s (market_key_of b) \<subseteq> {timeframe b})
       (ReplayBuildError ''mixed OHLCTV timeframes for one instrument/venue are ambiguous for replay'')
     (guardE (close_key_of b \<notin> seen_close_keys s)
       (ReplayBuildError ''duplicate OHLCTV bars per instrument/venue/timeframe/close_ts'')
     (guardE (opt_all (\<lambda>k. \<not> global_key_of b < k) (previous_global_key s))
       (ReplayBuildError ''OHLCTV bars must be sorted by close_ts/instrument/venue/timeframe'')
     (guardE (opt_all (\<lambda>l. \<not> close_ts b \<le> close_ts l) (last_by_stream s (stream_key_of b)))
       (ReplayBuildError ''non-monotonic OHLCTV close_ts in stream'')
     (guardE (opt_all (\<lambda>l. \<not> open_ts b < close_ts l) (last_by_stream s (stream_key_of b)))
       (ReplayBuildError ''overlapping OHLCTV bars are ambiguous for replay'')
     (Inr \<lparr>seen_close_keys = insert (close_key_of b) (seen_close_keys s),
           last_by_stream = (last_by_stream s)(stream_key_of b \<mapsto> b),
           timeframes_by_market = (timeframes_by_market s)
             (market_key_of b := insert (timeframe b) (timeframes_by_market s (market_key_of b))),
           previous_global_key = Some (global_key_of b)\<rparr>))))))"

fun scan_bars :: "BarScan \<Rightarrow> OHLCTVBar list \<Rightarrow> BarScan result" where
  "scan_bars s [] = Inr s"
| "scan_bars s (b # bs) = bindE (scan_bar s b) (\<lambda>s'. scan_bars s' bs)"

definition validate_bars_are_safe :: "OHLCTVBar list \<Rightarrow> unit result" where
  "validate_bars_are_safe bs = bindE (scan_bars fresh_scan bs) (\<lambda>_. Inr ())"

section \<open>Ordered intents\<close>

definition order_key :: "OrderIntent \<Rightarrow> int \<times> string" where
  "order_key i = (instant (OrderIntent.submitted_at i), OrderIntent.client_order_id i)"

fun scan_intents :: "string set \<Rightarrow> (int \<times> string) option \<Rightarrow> OrderIntent list \<Rightarrow> unit result" where
  "scan_intents seen prev [] = Inr ()"
| "scan_intents seen prev (i # is) =
     guardE (OrderIntent.client_order_id i \<notin> seen)
       (ReplayBuildError ''duplicate client_order_id in replay order intents'')
     (guardE (opt_all (\<lambda>k. \<not> order_key i < k) prev)
       (ReplayBuildError ''order intents must be sorted by submitted_at/client_order_id for causal replay'')
     (scan_intents (insert (OrderIntent.client_order_id i) seen) (Some (order_key i)) is))"

definition validate_order_intents :: "OrderIntent list \<Rightarrow> unit result" where
  "validate_order_intents is = scan_intents {} None is"

section \<open>Reasons to reject\<close>

definition metadata_reject_reason ::
  "OrderIntent \<Rightarrow> InstrumentMasterSnapshot \<Rightarrow> SimulatedAccountState \<Rightarrow> ReplayRejectReason option" where
  "metadata_reject_reason i s a =
     (let v = find (\<lambda>x. Venue.venue_id x = OrderIntent.venue_id i) (venues s);
          x = find (\<lambda>x. Instrument.instrument_id x = OrderIntent.instrument_id i) (instruments s);
          c = find (\<lambda>x. Account.account_id x = SimulatedAccountState.account_id a) (accounts s)
      in if \<not> (case v of None \<Rightarrow> False | Some v \<Rightarrow> Venue.status v = VenueStatus.ACTIVE)
         then Some VENUE_NOT_TRADABLE
         else if OrderIntent.order_type i \<notin> Venue.supported_order_types (the v)
         then Some UNSUPPORTED_ORDER_TYPE
         else if \<not> (case x of None \<Rightarrow> False
               | Some x \<Rightarrow> Instrument.venue_id x = OrderIntent.venue_id i \<and> instrument_type x = SPOT
                   \<and> Instrument.status x = TRADING \<and> \<not> is_derivative x \<and> \<not> margin_allowed x
                   \<and> \<not> short_selling_allowed x \<and> \<not> leverage_allowed x)
         then Some INSTRUMENT_NOT_TRADABLE
         else if OrderIntent.order_type i \<notin> Instrument.supported_order_types (the x)
         then Some UNSUPPORTED_ORDER_TYPE
         else if \<not> (case c of None \<Rightarrow> False
               | Some c \<Rightarrow> Account.venue_id c = OrderIntent.venue_id i
                   \<and> Account.status c = AccountStatus.ACTIVE
                   \<and> account_type c \<in> {AccountType.SIMULATION, AccountType.PAPER}
                   \<and> PLACE_ORDERS \<in> trading_permissions c \<and> \<not> live_capital_enabled c
                   \<and> \<not> margin_enabled c \<and> \<not> derivatives_enabled c \<and> \<not> shorting_enabled c)
         then Some ACCOUNT_NOT_TRADABLE
         else None)"

definition constraint_reject_reason ::
  "OrderIntent \<Rightarrow> InstrumentMasterSnapshot \<Rightarrow> decimal \<Rightarrow> datetime \<Rightarrow> ReplayRejectReason option result" where
  "constraint_reject_reason i s p t =
     (case active_constraints (instrument_constraints s) (OrderIntent.instrument_id i) t of
        [c] \<Rightarrow> bindE (evaluate_order c p (OrderIntent.quantity i))
                 (\<lambda>r. Inr (if passed r then None else Some CONSTRAINT_VIOLATION))
      | _ \<Rightarrow> Inr (Some CONSTRAINT_VIOLATION))"

section \<open>Results\<close>

text \<open>\<open>ReplayOrderResult.model_construct\<close> with the fields copied from the intent and the
  defaults of the others.\<close>

definition result_draft :: "OrderIntent \<Rightarrow> ReplayFillStatus \<Rightarrow> ReplayOrderResult" where
  "result_draft i st =
     \<lparr>ReplayOrderResult.replay_order_result_id = ''REPLAYORDER:PLACEHOLDER'',
      client_order_id = OrderIntent.client_order_id i, trace_id = OrderIntent.trace_id i,
      source_decision_id = OrderIntent.source_decision_id i,
      instrument_id = OrderIntent.instrument_id i, venue_id = OrderIntent.venue_id i,
      side = OrderIntent.side i, order_type = OrderIntent.order_type i,
      quantity = OrderIntent.quantity i, submitted_at = OrderIntent.submitted_at i,
      status = st, reason = None, fill_price = None, filled_quantity = Dec 0 0,
      remaining_quantity = Dec 0 0, fill_event_open_ts = None, fill_event_close_ts = None,
      fill_event_source_ts = None, fill_raw_payload_id = None, cost_model_id = None,
      cost_model_hash = None, latency_bars = 0, eligible_event_index = None,
      fill_attempt_event_index = None, arrival_reference_price = None,
      effective_fill_price = None, reference_notional = Dec 0 0, effective_notional = Dec 0 0,
      fee_cost = Dec 0 0, spread_cost = Dec 0 0, slippage_cost = Dec 0 0, total_cost = Dec 0 0\<rparr>"

definition unfilled_status :: "ReplayRejectReason \<Rightarrow> ReplayFillStatus" where
  "unfilled_status why = (if why \<in> {NO_FUTURE_ELIGIBLE_EVENT, INSUFFICIENT_LIQUIDITY}
     then ReplayFillStatus.UNFILLED else ReplayFillStatus.REJECTED)"

definition with_cost_model :: "digest \<Rightarrow> ExecutionCostModel option \<Rightarrow> ReplayOrderResult \<Rightarrow> ReplayOrderResult" where
  "with_cost_model H m r =
     r\<lparr>ReplayOrderResult.cost_model_id := map_option ExecutionCostModel.cost_model_id m,
       cost_model_hash := map_option (build_execution_cost_model_hash H) m,
       latency_bars := (case m of None \<Rightarrow> 0 | Some m \<Rightarrow> ExecutionCostModel.latency_bars m)\<rparr>"

definition unfilled_result :: "digest \<Rightarrow> OrderIntent \<Rightarrow> ReplayRejectReason \<Rightarrow> ExecutionCostModel option \<Rightarrow>
    int option \<Rightarrow> int option \<Rightarrow> ReplayOrderResult result" where
  "unfilled_result H i why m eligible attempt = finish_replay_result H
     ((with_cost_model H m (result_draft i (unfilled_status why)))
       \<lparr>ReplayOrderResult.reason := Some why, remaining_quantity := OrderIntent.quantity i,
        eligible_event_index := eligible, fill_attempt_event_index := attempt\<rparr>)"

definition at_bar :: "OHLCTVBar \<Rightarrow> ReplayOrderResult \<Rightarrow> ReplayOrderResult" where
  "at_bar b r =
     r\<lparr>fill_event_open_ts := Some (open_ts b), fill_event_close_ts := Some (close_ts b),
       fill_event_source_ts := Some (OHLCTVBar.source_ts b),
       fill_raw_payload_id := Some (OHLCTVBar.raw_payload_id b),
       arrival_reference_price := Some (open_price b)\<rparr>"

text \<open>The fill without a cost model: the whole quantity at the open.\<close>

definition plain_fill :: "OrderIntent \<Rightarrow> OHLCTVBar \<Rightarrow> ReplayOrderResult" where
  "plain_fill i b =
     (let n = open_price b * OrderIntent.quantity i
      in (at_bar b (result_draft i FILLED))
       \<lparr>fill_price := Some (open_price b), filled_quantity := OrderIntent.quantity i,
        remaining_quantity := Dec 0 0, effective_fill_price := Some (open_price b),
        reference_notional := n, effective_notional := n\<rparr>)"

definition price_adjustment :: "ExecutionCostModel \<Rightarrow> decimal" where
  "price_adjustment m = (spread_bps m + slippage_bps m) / Dec 10000 0"

definition fill_price_of :: "ExecutionCostModel \<Rightarrow> OrderSide \<Rightarrow> decimal \<Rightarrow> decimal" where
  "fill_price_of m sd p =
     (if sd = BUY then p * (Dec 1 0 + price_adjustment m) else p * (Dec 1 0 - price_adjustment m))"

definition costed_fill :: "digest \<Rightarrow> ExecutionCostModel \<Rightarrow> OrderIntent \<Rightarrow> int \<Rightarrow> int \<Rightarrow> OHLCTVBar \<Rightarrow>
    decimal \<Rightarrow> ReplayOrderResult" where
  "costed_fill H m i eligible attempt b q =
     (let st = (if dec_eq q (OrderIntent.quantity i) then FILLED else PARTIALLY_FILLED);
          ref_price = open_price b; eff_price = fill_price_of m (OrderIntent.side i) ref_price;
          ref_notional = ref_price * q; eff_notional = eff_price * q;
          fee = copy_abs eff_notional * taker_fee_rate m;
          spread = copy_abs ref_notional * spread_bps m / Dec 10000 0;
          slip = copy_abs ref_notional * slippage_bps m / Dec 10000 0
      in (at_bar b (with_cost_model H (Some m) (result_draft i st)))
       \<lparr>fill_price := Some eff_price, filled_quantity := q,
        remaining_quantity := OrderIntent.quantity i - q,
        eligible_event_index := Some eligible, fill_attempt_event_index := Some attempt,
        effective_fill_price := Some eff_price, reference_notional := ref_notional,
        effective_notional := eff_notional, fee_cost := fee, spread_cost := spread,
        slippage_cost := slip, total_cost := fee + spread + slip\<rparr>)"

section \<open>Balances\<close>

type_synonym balance_dict = "((string \<times> string) \<times> decimal) list"

definition balance_get :: "balance_dict \<Rightarrow> string \<times> string \<Rightarrow> decimal" where
  "balance_get d k = (case map_of d k of Some v \<Rightarrow> v | None \<Rightarrow> Dec 0 0)"

definition balance_dict_of :: "SimulatedAccountState \<Rightarrow> balance_dict" where
  "balance_dict_of a = fold (\<lambda>b d. AList.update (SimulatedBalance.venue_id b, asset_id b) (available b) d)
     (balances a) []"

definition apply_balance_or_reject :: "digest \<Rightarrow> OrderIntent \<Rightarrow> ReplayOrderResult \<Rightarrow> InstrumentMasterSnapshot \<Rightarrow>
    balance_dict \<Rightarrow> (ReplayOrderResult \<times> balance_dict) result" where
  "apply_balance_or_reject H i r s d =
     (case find (\<lambda>x. Instrument.instrument_id x = OrderIntent.instrument_id i) (instruments s) of
        None \<Rightarrow> Inl StopIteration
      | Some x \<Rightarrow>
          let base_key = (OrderIntent.venue_id i, base_asset_id x);
              quote_key = (OrderIntent.venue_id i, quote_asset_id x);
              base = balance_get d base_key; quote = balance_get d quote_key
          in if OrderIntent.side i = BUY then
               (let debit = effective_notional r + fee_cost r
                in if quote < debit
                   then bindE (unfilled_result H i INSUFFICIENT_CASH None None None) (\<lambda>u. Inr (u, d))
                   else Inr (r, AList.update base_key (base + filled_quantity r)
                                  (AList.update quote_key (quote - debit) d)))
             else if base < filled_quantity r
             then bindE (unfilled_result H i INSUFFICIENT_INVENTORY None None None) (\<lambda>u. Inr (u, d))
             else Inr (r, AList.update quote_key (quote + effective_notional r - fee_cost r)
                            (AList.update base_key (base - filled_quantity r) d)))"

definition build_account_state :: "SimulatedAccountState \<Rightarrow> balance_dict \<Rightarrow> SimulatedAccountState result" where
  "build_account_state a d = construct_SimulatedAccountState
     \<lparr>SimulatedAccountState.account_id = SimulatedAccountState.account_id a,
      balances = map (\<lambda>((v, x), q). \<lparr>SimulatedBalance.account_id = SimulatedAccountState.account_id a,
          venue_id = v, asset_id = x, available = q\<rparr>) (sort_key fst d)\<rparr>"

section \<open>One order\<close>

definition eligible_for :: "OrderIntent \<Rightarrow> OHLCTVBar \<Rightarrow> bool" where
  "eligible_for i b \<longleftrightarrow> OHLCTVBar.instrument_id b = OrderIntent.instrument_id i
     \<and> OHLCTVBar.venue_id b = OrderIntent.venue_id i
     \<and> OrderIntent.submitted_at i \<le> open_ts b \<and> OrderIntent.submitted_at i < close_ts b"

definition eligible_bars :: "OrderIntent \<Rightarrow> OHLCTVBar list \<Rightarrow> (nat \<times> OHLCTVBar) list" where
  "eligible_bars i bs = filter (\<lambda>p. eligible_for i (snd p)) (enumerate 0 bs)"

text \<open>The snapshot and the account state with its balances, present together or not at all.\<close>

record Book =
  snapshot :: InstrumentMasterSnapshot
  account_state :: SimulatedAccountState
  balance_state :: balance_dict

definition settle :: "digest \<Rightarrow> OrderIntent \<Rightarrow> Book option \<Rightarrow> ReplayOrderResult \<Rightarrow>
    (ReplayOrderResult \<times> Book option) result" where
  "settle H i book draft =
     bindE (finish_replay_result H draft) (\<lambda>r.
     case book of None \<Rightarrow> Inr (r, None)
     | Some k \<Rightarrow> bindE (apply_balance_or_reject H i r (snapshot k) (balance_state k))
         (\<lambda>(r', d). Inr (r', Some (k\<lparr>balance_state := d\<rparr>))))"

definition constraint_check :: "OrderIntent \<Rightarrow> Book option \<Rightarrow> OHLCTVBar \<Rightarrow> ReplayRejectReason option result" where
  "constraint_check i book b = (case book of None \<Rightarrow> Inr None
     | Some k \<Rightarrow> constraint_reject_reason i (snapshot k) (open_price b) (open_ts b))"

definition replay_one :: "digest \<Rightarrow> OHLCTVBar list \<Rightarrow> ExecutionCostModel option \<Rightarrow> OrderIntent \<Rightarrow>
    Book option \<Rightarrow> (ReplayOrderResult \<times> Book option) result" where
  "replay_one H bs cost i book =
     (let unfilled = (\<lambda>why m e a. bindE (unfilled_result H i why m e a) (\<lambda>r. Inr (r, book)));
          meta = (case book of None \<Rightarrow> None
                  | Some k \<Rightarrow> metadata_reject_reason i (snapshot k) (account_state k))
      in case meta of Some why \<Rightarrow> unfilled why None None None
      | None \<Rightarrow>
        if OrderIntent.order_type i \<noteq> MARKET then unfilled UNSUPPORTED_ORDER_TYPE None None None
        else case eligible_bars i bs of [] \<Rightarrow> unfilled NO_FUTURE_ELIGIBLE_EVENT None None None
        | (e, b) # _ \<Rightarrow>
          (case cost of
             None \<Rightarrow> bindE (constraint_check i book b) (\<lambda>why.
               case why of Some w \<Rightarrow> unfilled w None None None
               | None \<Rightarrow> settle H i book (plain_fill i b))
           | Some m \<Rightarrow>
             if int (length (eligible_bars i bs)) \<le> ExecutionCostModel.latency_bars m
             then unfilled NO_FUTURE_ELIGIBLE_EVENT cost (Some (int e)) None
             else let (a, b') = eligible_bars i bs ! nat (ExecutionCostModel.latency_bars m);
                      room = base_volume b' * max_participation_rate m;
                      q = py_min (OrderIntent.quantity i) room
                  in bindE (constraint_check i book b') (\<lambda>why.
                  case why of Some w \<Rightarrow> unfilled w cost (Some (int e)) (Some (int a))
                  | None \<Rightarrow>
                    if room \<le> 0 \<or> (q < OrderIntent.quantity i \<and> \<not> allow_partial_fills m)
                    then unfilled INSUFFICIENT_LIQUIDITY cost (Some (int e)) (Some (int a))
                    else settle H i book (costed_fill H m i (int e) (int a) b' q))))"

section \<open>The report\<close>

fun replay_all :: "digest \<Rightarrow> OHLCTVBar list \<Rightarrow> ExecutionCostModel option \<Rightarrow> OrderIntent list \<Rightarrow>
    Book option \<Rightarrow> (ReplayOrderResult list \<times> Book option) result" where
  "replay_all H bs cost [] book = Inr ([], book)"
| "replay_all H bs cost (i # is) book =
     bindE (replay_one H bs cost i book) (\<lambda>(r, book').
     bindE (replay_all H bs cost is book') (\<lambda>(rs, book''). Inr (r # rs, book'')))"

definition bar_payload :: "OHLCTVBar \<Rightarrow> payload" where
  "bar_payload b = PObj
     [(''base_volume'', PDec (base_volume b)), (''close'', PDec (close_price b)),
      (''close_ts'', PIso (close_ts b)), (''high'', PDec (high b)),
      (''instrument_id'', PStr (OHLCTVBar.instrument_id b)), (''low'', PDec (low b)),
      (''open'', PDec (open_price b)), (''open_ts'', PIso (open_ts b)),
      (''quality_flags'', PStrs (map QualityFlag_value (quality_flags b))),
      (''quote_volume'', POpt PDec (quote_volume b)),
      (''raw_payload_id'', PStr (OHLCTVBar.raw_payload_id b)),
      (''source_ts'', PIso (OHLCTVBar.source_ts b)), (''timeframe'', PStr (timeframe b)),
      (''trade_count'', POpt PInt (trade_count b)), (''venue_id'', PStr (OHLCTVBar.venue_id b)),
      (''vwap'', POpt PDec (vwap b))]"

definition market_data_hash_of :: "digest \<Rightarrow> OHLCTVBar list \<Rightarrow> string" where
  "market_data_hash_of H bs = H (PList (map bar_payload bs))"

definition replay_requirement_ids :: "ExecutionCostModel option \<Rightarrow> InstrumentMasterSnapshot option \<Rightarrow> string list" where
  "replay_requirement_ids cost s = [''FR-012'', ''NFR-001'']
     @ (if cost \<noteq> None then [''RISK-005''] else [])
     @ (if s \<noteq> None then [''FR-003'', ''FR-010''] else [])"

definition book_of :: "InstrumentMasterSnapshot option \<Rightarrow> SimulatedAccountState option \<Rightarrow> Book option" where
  "book_of s a = (case (s, a) of
     (Some s, Some a) \<Rightarrow> Some \<lparr>Book.snapshot = s, account_state = a, balance_state = balance_dict_of a\<rparr>
   | _ \<Rightarrow> None)"

definition final_state :: "Book option \<Rightarrow> SimulatedAccountState option result" where
  "final_state book = (case book of None \<Rightarrow> Inr None
     | Some k \<Rightarrow> bindE (build_account_state (account_state k) (balance_state k)) (\<lambda>a. Inr (Some a)))"

definition replay_ohlctv_market_orders :: "digest \<Rightarrow> OHLCTVBar list \<Rightarrow> OrderIntent list \<Rightarrow> string \<Rightarrow>
    ExecutionCostModel option \<Rightarrow> InstrumentMasterSnapshot option \<Rightarrow> SimulatedAccountState option \<Rightarrow>
    ReplayReport result" where
  "replay_ohlctv_market_orders H bs is run cost s a =
     bindE (validate_bars_are_safe bs) (\<lambda>_.
     bindE (validate_order_intents is) (\<lambda>_.
     guardE ((s = None) = (a = None))
       (ReplayBuildError ''instrument master snapshot and simulated account state must be supplied together'')
     (bindE (replay_all H bs cost is (book_of s a)) (\<lambda>(rs, book).
      bindE (final_state book) (\<lambda>final.
      let counts = build_rejection_counts rs; mdh = market_data_hash_of H bs;
          reqs = replay_requirement_ids cost s;
          h = build_replay_report_hash H run mdh rs reqs counts final
      in construct_ReplayReport H
           \<lparr>ReplayReport.replay_report_id = build_replay_report_id H h, replay_report_hash = h,
            run_id = run, market_data_hash = mdh,
            result_ids = map replay_order_result_id rs, results = rs, requirement_ids = reqs,
            rejection_counts = counts, final_account_state = final\<rparr>)))))"

section \<open>What the bar check accepts\<close>

text \<open>
  A stream is safe when every bar is known at its close and every two bars, in list order, agree:
  one timeframe per market, closes in the order of the sort key, and in one stream the later bar
  opens only after the earlier one has closed.
\<close>

definition bar_before :: "OHLCTVBar \<Rightarrow> OHLCTVBar \<Rightarrow> bool" where
  "bar_before b c \<longleftrightarrow> global_key_of b \<le> global_key_of c
     \<and> (market_key_of b = market_key_of c \<longrightarrow> timeframe b = timeframe c
         \<and> close_ts b \<le> open_ts c \<and> close_ts b < close_ts c \<and> close_key_of b \<noteq> close_key_of c)"

definition safe_bars :: "OHLCTVBar list \<Rightarrow> bool" where
  "safe_bars bs \<longleftrightarrow> (\<forall>b \<in> set bs. OHLCTVBar.source_ts b \<le> close_ts b) \<and> sorted_wrt bar_before bs"

definition scanned :: "BarScan \<Rightarrow> OHLCTVBar list \<Rightarrow> bool" where
  "scanned s hist \<longleftrightarrow> seen_close_keys s = close_key_of ` set hist
     \<and> last_by_stream s = (\<lambda>k. find (\<lambda>b. stream_key_of b = k) (rev hist))
     \<and> timeframes_by_market s = (\<lambda>m. timeframe ` {b \<in> set hist. market_key_of b = m})
     \<and> previous_global_key s = (if hist = [] then None else Some (global_key_of (last hist)))"

lemma scanned_fresh: "scanned fresh_scan []"
  by (simp add: scanned_def fresh_scan_def)

lemma safe_bars_snoc: "safe_bars (hist @ [b]) \<longleftrightarrow>
    safe_bars hist \<and> OHLCTVBar.source_ts b \<le> close_ts b \<and> (\<forall>h \<in> set hist. bar_before h b)"
  by (auto simp: safe_bars_def sorted_wrt_append)

lemma same_stream: "stream_key_of h = stream_key_of b \<longleftrightarrow>
    market_key_of h = market_key_of b \<and> timeframe h = timeframe b"
  by (auto simp: stream_key_of_def market_key_of_def)

lemma last_of_stream:
  assumes "safe_bars hist" "find (\<lambda>h. stream_key_of h = k) (rev hist) = Some l"
    "h \<in> set hist" "stream_key_of h = k"
  shows "l \<in> set hist \<and> stream_key_of l = k \<and> (h = l \<or> bar_before h l)"
  using assms
proof (induction hist rule: rev_induct)
  case (snoc x hist)
  then show ?case by (auto simp: safe_bars_snoc split: if_splits)
qed simp

lemma last_global:
  assumes "safe_bars hist" "h \<in> set hist"
  shows "global_key_of h \<le> global_key_of (last hist)"
  using assms by (induction hist rule: rev_induct) (auto simp: safe_bars_snoc bar_before_def)

text \<open>The state of the scan decides exactly the safety of the next bar.\<close>

lemma scan_bar_iff:
  assumes s: "scanned s hist" and safe: "safe_bars hist"
    and v: "\<forall>h \<in> set hist. open_ts h < close_ts h" "open_ts b < close_ts b"
  shows "(\<exists>s'. scan_bar s b = Inr s') \<longleftrightarrow> safe_bars (hist @ [b])"
proof
  assume "\<exists>s'. scan_bar s b = Inr s'"
  then have c: "\<not> close_ts b < source_ts b"
    "timeframe ` {h \<in> set hist. market_key_of h = market_key_of b} \<subseteq> {timeframe b}"
    "close_key_of b \<notin> close_key_of ` set hist"
    "hist \<noteq> [] \<longrightarrow> \<not> global_key_of b < global_key_of (last hist)"
    "opt_all (\<lambda>l. close_ts l < close_ts b \<and> close_ts l \<le> open_ts b)
       (find (\<lambda>h. stream_key_of h = stream_key_of b) (rev hist))"
    using s by (auto simp: scan_bar_def scanned_def guardE_Inr_iff opt_all_def less_datetime_def
        less_eq_datetime_def split: if_splits option.splits)
  have "bar_before h b" if h: "h \<in> set hist" for h
  proof -
    have g: "global_key_of h \<le> global_key_of b"
      using last_global [OF safe h] c(4) h by fastforce
    have "close_ts h \<le> open_ts b \<and> close_ts h < close_ts b \<and> timeframe h = timeframe b"
      if m: "market_key_of h = market_key_of b"
    proof -
      have tf: "timeframe h = timeframe b" using c(2) h m by auto
      then have st: "stream_key_of h = stream_key_of b" using m by (simp add: same_stream)
      have "find (\<lambda>h. stream_key_of h = stream_key_of b) (rev hist) \<noteq> None"
        using h st by (auto simp: find_None_all)
      then obtain l where l: "find (\<lambda>h. stream_key_of h = stream_key_of b) (rev hist) = Some l" by blast
      have hl: "l \<in> set hist \<and> stream_key_of l = stream_key_of b \<and> (h = l \<or> bar_before h l)"
        by (rule last_of_stream [OF safe l h st])
      then have "market_key_of h = market_key_of l" using st unfolding same_stream by simp
      with hl have "h = l \<or> close_ts h < close_ts l" unfolding bar_before_def by blast
      then have "close_ts h \<le> close_ts l" by (auto intro: less_imp_le)
      then show ?thesis using c(5) l tf by (auto simp: less_datetime_def less_eq_datetime_def)
    qed
    moreover have "close_key_of h \<noteq> close_key_of b" using c(3) h by (metis image_eqI)
    ultimately show ?thesis using g by (simp add: bar_before_def)
  qed
  then show "safe_bars (hist @ [b])"
    using safe c(1) by (simp add: safe_bars_snoc not_less_datetime)
next
  assume "safe_bars (hist @ [b])"
  then have c: "OHLCTVBar.source_ts b \<le> close_ts b" "\<forall>h \<in> set hist. bar_before h b"
    by (simp_all add: safe_bars_snoc)
  have k: "close_key_of b \<notin> close_key_of ` set hist"
  proof
    assume "close_key_of b \<in> close_key_of ` set hist"
    then obtain h where h: "h \<in> set hist" "close_key_of h = close_key_of b" by auto
    then have "market_key_of h = market_key_of b" by (simp add: close_key_of_def same_stream)
    then show False using c(2) h unfolding bar_before_def by blast
  qed
  have l: "opt_all (\<lambda>l. \<not> close_ts b \<le> close_ts l \<and> \<not> open_ts b < close_ts l)
       (find (\<lambda>h. stream_key_of h = stream_key_of b) (rev hist))"
    using c(2) by (auto simp: opt_all_def bar_before_def same_stream less_datetime_def
        less_eq_datetime_def dest!: find_SomeD split: option.splits)
  have g: "hist \<noteq> [] \<longrightarrow> \<not> global_key_of b < global_key_of (last hist)"
    using c(2) by (auto simp: bar_before_def not_less)
  have m: "timeframe ` {h \<in> set hist. market_key_of h = market_key_of b} \<subseteq> {timeframe b}"
    using c(2) by (auto simp: bar_before_def)
  show "\<exists>s'. scan_bar s b = Inr s'"
    using s c(1) k l g m
    by (auto simp: scan_bar_def scanned_def guardE_Inr_iff opt_all_def not_less_datetime
        less_eq_datetime_def less_datetime_def split: option.splits)
qed

lemma scan_bar_scanned:
  assumes "scanned s hist" "scan_bar s b = Inr s'"
  shows "scanned s' (hist @ [b])"
proof -
  have i: "insert y (f ` {x \<in> A. P x}) = f ` {x \<in> insert b A. P x}" if "P b" "y = f b" for y f A P
    using that by auto
  have n: "f ` {x \<in> A. P x} = f ` {x \<in> insert b A. P x}" if "\<not> P b" for f A P
    using that by auto
  have s: "seen_close_keys s = close_key_of ` set hist"
    "last_by_stream s = (\<lambda>k. find (\<lambda>b. stream_key_of b = k) (rev hist))"
    "timeframes_by_market s = (\<lambda>m. timeframe ` {b \<in> set hist. market_key_of b = m})"
    using assms(1) by (simp_all add: scanned_def)
  have "s' = \<lparr>seen_close_keys = insert (close_key_of b) (seen_close_keys s),
      last_by_stream = (last_by_stream s)(stream_key_of b \<mapsto> b),
      timeframes_by_market = (timeframes_by_market s)
        (market_key_of b := insert (timeframe b) (timeframes_by_market s (market_key_of b))),
      previous_global_key = Some (global_key_of b)\<rparr>"
    using assms(2) by (simp add: scan_bar_def guardE_Inr_iff)
  then show ?thesis unfolding scanned_def s
    by (simp add: fun_upd_def fun_eq_iff i n)
qed

lemma scan_bars_iff:
  assumes "scanned s hist" "safe_bars hist" "\<forall>h \<in> set (hist @ bs). open_ts h < close_ts h"
  shows "(\<exists>s'. scan_bars s bs = Inr s') \<longleftrightarrow> safe_bars (hist @ bs)"
  using assms
proof (induction bs arbitrary: s hist)
  case (Cons b bs)
  show ?case
  proof (cases "scan_bar s b")
    case (Inl e)
    have "\<not> safe_bars (hist @ [b])" using scan_bar_iff [of s hist b] Cons.prems Inl by auto
    then have "\<not> safe_bars (hist @ b # bs)"
      by (auto simp: safe_bars_def sorted_wrt_append)
    with Inl show ?thesis by simp
  next
    case (Inr s')
    have "safe_bars (hist @ [b])" using scan_bar_iff [of s hist b] Cons.prems Inr by auto
    with Cons.IH [of s' "hist @ [b]"] scan_bar_scanned [OF Cons.prems(1) Inr] Cons.prems Inr
    show ?thesis by simp
  qed
qed simp

lemma validate_bars_iff:
  assumes "\<forall>b \<in> set bs. valid_OHLCTVBar b"
  shows "validate_bars_are_safe bs = Inr () \<longleftrightarrow> safe_bars bs"
proof -
  have "(\<exists>s'. scan_bars fresh_scan bs = Inr s') \<longleftrightarrow> safe_bars bs"
    using scan_bars_iff [OF scanned_fresh, of bs] assms
    by (simp add: safe_bars_def valid_OHLCTVBar_def)
  then show ?thesis by (auto simp: validate_bars_are_safe_def bindE_Inr_iff)
qed

section \<open>What one order can become\<close>

abbreviation filled :: "ReplayOrderResult \<Rightarrow> bool" where
  "filled r \<equiv> ReplayOrderResult.status r \<in> {FILLED, PARTIALLY_FILLED}"

definition copies_intent :: "OrderIntent \<Rightarrow> ReplayOrderResult \<Rightarrow> bool" where
  "copies_intent i r \<longleftrightarrow> ReplayOrderResult.client_order_id r = OrderIntent.client_order_id i
     \<and> ReplayOrderResult.trace_id r = OrderIntent.trace_id i
     \<and> ReplayOrderResult.source_decision_id r = OrderIntent.source_decision_id i
     \<and> ReplayOrderResult.instrument_id r = OrderIntent.instrument_id i
     \<and> ReplayOrderResult.venue_id r = OrderIntent.venue_id i
     \<and> ReplayOrderResult.side r = OrderIntent.side i
     \<and> ReplayOrderResult.quantity r = OrderIntent.quantity i
     \<and> ReplayOrderResult.submitted_at r = OrderIntent.submitted_at i"

text \<open>The bar an order is filled at, and the fill planned there.\<close>

definition fill_delay :: "ExecutionCostModel option \<Rightarrow> nat" where
  "fill_delay cost = (case cost of None \<Rightarrow> 0 | Some m \<Rightarrow> nat (ExecutionCostModel.latency_bars m))"

definition fill_slot :: "ExecutionCostModel option \<Rightarrow> OrderIntent \<Rightarrow> OHLCTVBar list \<Rightarrow> nat \<times> OHLCTVBar" where
  "fill_slot cost i bs = eligible_bars i bs ! fill_delay cost"

definition fill_quantity :: "ExecutionCostModel option \<Rightarrow> OrderIntent \<Rightarrow> OHLCTVBar \<Rightarrow> decimal" where
  "fill_quantity cost i b = (case cost of None \<Rightarrow> OrderIntent.quantity i
     | Some m \<Rightarrow> py_min (OrderIntent.quantity i) (base_volume b * max_participation_rate m))"

definition planned_fill :: "digest \<Rightarrow> ExecutionCostModel option \<Rightarrow> OrderIntent \<Rightarrow> OHLCTVBar list \<Rightarrow> ReplayOrderResult" where
  "planned_fill H cost i bs =
     (let (a, b) = fill_slot cost i bs
      in case cost of None \<Rightarrow> plain_fill i b
         | Some m \<Rightarrow> costed_fill H m i (int (fst (hd (eligible_bars i bs)))) (int a) b (fill_quantity cost i b))"

definition can_fill :: "ExecutionCostModel option \<Rightarrow> OrderIntent \<Rightarrow> OHLCTVBar list \<Rightarrow> bool" where
  "can_fill cost i bs \<longleftrightarrow> fill_delay cost < length (eligible_bars i bs)
     \<and> (case cost of None \<Rightarrow> True
        | Some m \<Rightarrow> 0 < base_volume (snd (fill_slot cost i bs)) * max_participation_rate m)"

lemma settle_cases:
  assumes "settle H i book draft = Inr (r, book')"
  shows "(\<exists>why m e a. unfilled_result H i why m e a = Inr r \<and> book' = book)
    \<or> (finish_replay_result H draft = Inr r
       \<and> (book = None \<and> book' = None
          \<or> (\<exists>k d. book = Some k \<and> apply_balance_or_reject H i r (snapshot k) (balance_state k) = Inr (r, d)
               \<and> book' = Some (k\<lparr>balance_state := d\<rparr>))))"
proof (cases book)
  case None
  then show ?thesis using assms by (auto simp: settle_def bindE_Inr_iff)
next
  case (Some k)
  then obtain x d where x: "finish_replay_result H draft = Inr x"
    "apply_balance_or_reject H i x (snapshot k) (balance_state k) = Inr (r, d)"
    "book' = Some (k\<lparr>balance_state := d\<rparr>)"
    using assms by (auto simp: settle_def bindE_Inr_iff)
  have "r = x \<or> (\<exists>why. unfilled_result H i why None None None = Inr r \<and> d = balance_state k)"
    using x(2) by (auto simp: apply_balance_or_reject_def Let_def bindE_Inr_iff split: option.splits if_splits)
  then show ?thesis using x Some by (cases "r = x") auto
qed

lemma replay_one_cases:
  assumes "replay_one H bs cost i book = Inr (r, book')"
  shows "(\<exists>why m e a. unfilled_result H i why m e a = Inr r \<and> book' = book)
    \<or> (can_fill cost i bs \<and> finish_replay_result H (planned_fill H cost i bs) = Inr r
       \<and> (book = None \<and> book' = None
          \<or> (\<exists>k d. book = Some k \<and> apply_balance_or_reject H i r (snapshot k) (balance_state k) = Inr (r, d)
               \<and> book' = Some (k\<lparr>balance_state := d\<rparr>))))"
    (is "?U \<or> ?F")
proof -
  let ?el = "eligible_bars i bs"
  have u: ?U if "bindE (unfilled_result H i why m e a) (\<lambda>r. Inr (r, book)) = Inr (r, book')" for why m e a
    using that by (auto simp: bindE_Inr_iff)
  define meta where "meta = (case book of None \<Rightarrow> None
      | Some k \<Rightarrow> metadata_reject_reason i (snapshot k) (account_state k))"
  note one = assms [unfolded replay_one_def Let_def, folded meta_def]
  show ?thesis
  proof (cases "meta \<noteq> None \<or> OrderIntent.order_type i \<noteq> MARKET \<or> ?el = []")
    case True
    then show ?thesis using one u by (auto split: option.splits if_splits)
  next
    case False
    then obtain e b rest where el: "?el = (e, b) # rest" by (cases ?el) auto
    show ?thesis
    proof (cases cost)
      case None
      with one False el obtain why where why: "constraint_check i book b = Inr why"
        "(case why of Some w \<Rightarrow> bindE (unfilled_result H i w None None None) (\<lambda>r. Inr (r, book))
          | None \<Rightarrow> settle H i book (plain_fill i b)) = Inr (r, book')"
        by (auto simp: bindE_Inr_iff)
      have p: "planned_fill H cost i bs = plain_fill i b" "can_fill cost i bs"
        using None el by (simp_all add: planned_fill_def fill_slot_def fill_delay_def can_fill_def)
      show ?thesis
      proof (cases why)
        case None
        then show ?thesis using why(2) settle_cases [of H i book "plain_fill i b" r book'] p by simp
      next
        case (Some w)
        then have ?U using why(2) by (intro u) simp
        then show ?thesis ..
      qed
    next
      case (Some m)
      obtain a b' where slot: "?el ! nat (ExecutionCostModel.latency_bars m) = (a, b')" by fastforce
      let ?room = "base_volume b' * max_participation_rate m"
      let ?q = "py_min (OrderIntent.quantity i) ?room"
      show ?thesis
      proof (cases "int (length ?el) \<le> ExecutionCostModel.latency_bars m")
        case True
        then have ?U using one False el Some by (intro u) auto
        then show ?thesis ..
      next
        case lat: False
        with one False el Some slot obtain why where why: "constraint_check i book b' = Inr why"
          "(case why of Some w \<Rightarrow> bindE (unfilled_result H i w cost (Some (int e)) (Some (int a))) (\<lambda>r. Inr (r, book))
            | None \<Rightarrow>
              if ?room \<le> 0 \<or> (?q < OrderIntent.quantity i \<and> \<not> allow_partial_fills m)
              then bindE (unfilled_result H i INSUFFICIENT_LIQUIDITY cost (Some (int e)) (Some (int a)))
                (\<lambda>r. Inr (r, book))
              else settle H i book (costed_fill H m i (int e) (int a) b' ?q)) = Inr (r, book')"
          by (auto simp: bindE_Inr_iff)
        have p: "planned_fill H cost i bs = costed_fill H m i (int e) (int a) b' ?q"
          "\<not> ?room \<le> 0 \<longrightarrow> can_fill cost i bs"
          using Some el lat slot
          by (auto simp: planned_fill_def fill_slot_def fill_delay_def can_fill_def fill_quantity_def
              le_dval less_dval not_le)
        show ?thesis
        proof (cases "why = None \<and> \<not> (?room \<le> 0 \<or> (?q < OrderIntent.quantity i \<and> \<not> allow_partial_fills m))")
          case True
          then show ?thesis
            using why(2) settle_cases [of H i book "costed_fill H m i (int e) (int a) b' ?q" r book'] p
            by auto
        next
          case False
          then have ?U using why(2) by (cases why) (auto simp: bindE_Inr_iff split: if_splits)
          then show ?thesis ..
        qed
      qed
    qed
  qed
qed

lemma finish_result:
  assumes "finish_replay_result H d = Inr r"
  shows "r = d\<lparr>replay_order_result_id := build_replay_order_result_id H d\<rparr>" "valid_replay_result H r"
proof -
  let ?r = "d\<lparr>replay_order_result_id := build_replay_order_result_id H d\<rparr>"
  show e: "r = ?r"
    using assms by (simp add: finish_replay_result_def construct_ReplayOrderResult_def)
  show "valid_replay_result H r"
    using assms unfolding valid_replay_result_def finish_replay_result_def e .
qed

lemma unfilled_fields:
  assumes "unfilled_result H i why m e a = Inr r"
  shows "\<not> filled r" "copies_intent i r" "ReplayOrderResult.reason r = Some why" "valid_replay_result H r"
  using finish_result [OF assms [unfolded unfilled_result_def]]
  by (auto simp: with_cost_model_def result_draft_def copies_intent_def unfilled_status_def)

lemma planned_fields:
  assumes "fill_slot cost i bs = (a, b)"
  shows "filled (planned_fill H cost i bs)" "copies_intent i (planned_fill H cost i bs)"
    "ReplayOrderResult.reason (planned_fill H cost i bs) = None"
    "fill_event_open_ts (planned_fill H cost i bs) = Some (open_ts b)"
    "fill_event_close_ts (planned_fill H cost i bs) = Some (close_ts b)"
    "fill_raw_payload_id (planned_fill H cost i bs) = Some (OHLCTVBar.raw_payload_id b)"
    "filled_quantity (planned_fill H cost i bs) = fill_quantity cost i b"
    "fill_price (planned_fill H cost i bs) = Some (case cost of None \<Rightarrow> open_price b
       | Some m \<Rightarrow> fill_price_of m (OrderIntent.side i) (open_price b))"
  using assms
  by (auto simp: planned_fill_def plain_fill_def costed_fill_def at_bar_def result_draft_def Let_def
      with_cost_model_def copies_intent_def fill_quantity_def split: option.splits)

section \<open>Runs over all orders\<close>

lemma replay_report_parts:
  assumes "replay_ohlctv_market_orders H bs is run cost s a = Inr rep"
  obtains book final where "validate_bars_are_safe bs = Inr ()" "validate_order_intents is = Inr ()"
    "replay_all H bs cost is (book_of s a) = Inr (results rep, book)" "final_state book = Inr final"
    "final_account_state rep = final" "rejection_counts rep = build_rejection_counts (results rep)"
    "(s = None) = (a = None)"
  using assms
  by (auto simp: replay_ohlctv_market_orders_def bindE_Inr_iff guardE_Inr_iff Let_def
      construct_ReplayReport_def)

lemma replay_all_pointwise:
  assumes "replay_all H bs cost is book = Inr (rs, book')"
    and "\<And>i r b b'. i \<in> set is \<Longrightarrow> replay_one H bs cost i b = Inr (r, b') \<Longrightarrow> P i r"
  shows "list_all2 P is rs"
  using assms
proof (induction "is" arbitrary: book rs)
  case (Cons i "is")
  from Cons.prems(1) obtain r b1 rs' where r: "replay_one H bs cost i book = Inr (r, b1)"
    "replay_all H bs cost is b1 = Inr (rs', book')" "rs = r # rs'"
    by (auto simp: bindE_Inr_iff)
  have "P i r" using Cons.prems(2) r(1) by simp
  moreover have "list_all2 P is rs'" using Cons.IH [OF r(2)] Cons.prems(2) by auto
  ultimately show ?case using r(3) by simp
qed simp

lemma slot_eligible:
  assumes "can_fill cost i bs" "fill_slot cost i bs = (a, b)"
  shows "a < length bs" "bs ! a = b" "eligible_for i b"
proof -
  have "(a, b) \<in> set (eligible_bars i bs)"
    using assms nth_mem unfolding can_fill_def fill_slot_def by metis
  then show "a < length bs" "bs ! a = b" "eligible_for i b"
    by (auto simp: eligible_bars_def in_set_enumerate_eq)
qed

text \<open>The result of an order is either a valid refusal or its planned fill.\<close>

lemma replay_one_result:
  assumes "replay_one H bs cost i book = Inr (r, book')"
  shows "valid_replay_result H r \<and> copies_intent i r
    \<and> (if filled r then can_fill cost i bs
          \<and> r = (planned_fill H cost i bs)\<lparr>replay_order_result_id := replay_order_result_id r\<rparr>
       else ReplayOrderResult.reason r \<noteq> None)"
proof -
  obtain a b where ab: "fill_slot cost i bs = (a, b)" by fastforce
  note f = planned_fields [OF ab, of H]
  from replay_one_cases [OF assms] show ?thesis
  proof (elim disjE exE conjE)
    fix why m e a assume "unfilled_result H i why m e a = Inr r"
    from unfilled_fields [OF this] show ?thesis by simp
  next
    assume c: "can_fill cost i bs" "finish_replay_result H (planned_fill H cost i bs) = Inr r"
    from finish_result [OF c(2)] have "filled r" "valid_replay_result H r" "copies_intent i r"
      "r = (planned_fill H cost i bs)\<lparr>replay_order_result_id := replay_order_result_id r\<rparr>"
      using f(1,2) by (auto simp: copies_intent_def)
    then show ?thesis using c(1) by simp
  next
    fix k d assume c: "can_fill cost i bs" "finish_replay_result H (planned_fill H cost i bs) = Inr r"
    from finish_result [OF c(2)] have "filled r" "valid_replay_result H r" "copies_intent i r"
      "r = (planned_fill H cost i bs)\<lparr>replay_order_result_id := replay_order_result_id r\<rparr>"
      using f(1,2) by (auto simp: copies_intent_def)
    then show ?thesis using c(1) by simp
  qed
qed

section \<open>Balances\<close>

definition available_in :: "SimulatedAccountState \<Rightarrow> string \<times> string \<Rightarrow> decimal" where
  "available_in a k = (case find (\<lambda>b. (SimulatedBalance.venue_id b, asset_id b) = k) (balances a) of
     Some b \<Rightarrow> available b | None \<Rightarrow> Dec 0 0)"

text \<open>What a result does to the account, read off the result alone.\<close>

definition ledger_step :: "InstrumentMasterSnapshot \<Rightarrow> ReplayOrderResult \<Rightarrow> (string \<times> string \<Rightarrow> decimal) \<Rightarrow>
    string \<times> string \<Rightarrow> decimal" where
  "ledger_step s r L =
     (if \<not> filled r then L
      else case find (\<lambda>x. Instrument.instrument_id x = ReplayOrderResult.instrument_id r) (instruments s) of
        None \<Rightarrow> L
      | Some x \<Rightarrow>
          let base_key = (ReplayOrderResult.venue_id r, base_asset_id x);
              quote_key = (ReplayOrderResult.venue_id r, quote_asset_id x)
          in if ReplayOrderResult.side r = BUY
             then L(quote_key := L quote_key - (effective_notional r + fee_cost r),
                    base_key := L base_key + filled_quantity r)
             else L(base_key := L base_key - filled_quantity r,
                    quote_key := L quote_key + effective_notional r - fee_cost r))"

lemma balance_get_update: "balance_get (AList.update k v d) = (balance_get d)(k := v)"
  by (auto simp: balance_get_def update_conv' fun_eq_iff)

lemma apply_balance_ledger:
  assumes "apply_balance_or_reject H i r s d = Inr (r, d')" "copies_intent i r" "filled r"
  shows "balance_get d' = ledger_step s r (balance_get d)"
proof -
  have n: "unfilled_result H i why m e a \<noteq> Inr r" for why m e a
    using unfilled_fields(1) assms(3) by blast
  from assms(1) obtain x where x:
    "find (\<lambda>x. Instrument.instrument_id x = OrderIntent.instrument_id i) (instruments s) = Some x"
    by (auto simp: apply_balance_or_reject_def split: option.splits)
  show ?thesis
    using assms n x
    by (auto simp: apply_balance_or_reject_def ledger_step_def Let_def copies_intent_def
        balance_get_update bindE_Inr_iff split: if_splits)
qed

lemma replay_all_ledger:
  assumes "replay_all H bs cost is (Some k) = Inr (rs, book')"
  shows "\<exists>d. book' = Some (k\<lparr>balance_state := d\<rparr>)
    \<and> balance_get d = fold (ledger_step (snapshot k)) rs (balance_get (balance_state k))"
  using assms
proof (induction "is" arbitrary: k rs)
  case Nil
  then show ?case by (intro exI [of _ "balance_state k"]) simp
next
  case (Cons i "is")
  from Cons.prems obtain r b1 rs' where r: "replay_one H bs cost i (Some k) = Inr (r, b1)"
    "replay_all H bs cost is b1 = Inr (rs', book')" "rs = r # rs'"
    by (auto simp: bindE_Inr_iff)
  have "\<exists>d. b1 = Some (k\<lparr>balance_state := d\<rparr>)
      \<and> balance_get d = ledger_step (snapshot k) r (balance_get (balance_state k))"
  proof -
    from replay_one_cases [OF r(1)] show ?thesis
    proof (elim disjE exE conjE)
      fix why m e a assume "unfilled_result H i why m e a = Inr r" and "b1 = Some k"
      with unfilled_fields(1) show ?thesis
        by (intro exI [of _ "balance_state k"]) (auto simp: ledger_step_def)
    next
      assume "Some k = None" then show ?thesis by simp
    next
      fix k' d assume c: "finish_replay_result H (planned_fill H cost i bs) = Inr r" "Some k = Some k'"
        "apply_balance_or_reject H i r (snapshot k') (balance_state k') = Inr (r, d)"
        "b1 = Some (k'\<lparr>balance_state := d\<rparr>)"
      obtain a b where ab: "fill_slot cost i bs = (a, b)" by fastforce
      have "filled r" "copies_intent i r"
        using finish_result(1) [OF c(1)] planned_fields(1,2) [OF ab, of H]
        by (simp_all add: copies_intent_def)
      then show ?thesis using apply_balance_ledger [OF c(3)] c by auto
    qed
  qed
  then obtain d where d: "b1 = Some (k\<lparr>balance_state := d\<rparr>)"
    "balance_get d = ledger_step (snapshot k) r (balance_get (balance_state k))" by blast
  from Cons.IH [of "k\<lparr>balance_state := d\<rparr>" rs'] r d show ?case by auto
qed

lemma balance_dict_get:
  assumes "distinct (map (\<lambda>b. (SimulatedBalance.venue_id b, asset_id b)) (balances a))"
  shows "balance_get (balance_dict_of a) = available_in a"
proof -
  have g: "balance_get (fold (\<lambda>b d. AList.update (SimulatedBalance.venue_id b, asset_id b) (available b) d) bs d) k
    = (case find (\<lambda>b. (SimulatedBalance.venue_id b, asset_id b) = k) bs of
         Some b \<Rightarrow> available b | None \<Rightarrow> balance_get d k)"
    if "distinct (map (\<lambda>b. (SimulatedBalance.venue_id b, asset_id b)) bs)" for bs d k
    using that
  proof (induction bs arbitrary: d)
    case (Cons b bs)
    let ?f = "\<lambda>b. (SimulatedBalance.venue_id b, asset_id b)"
    have nb: "?f b \<notin> ?f ` set bs" using Cons.prems by simp
    have "find (\<lambda>b. ?f b = k) bs = None" if e: "?f b = k"
      unfolding find_None_all
    proof (intro ballI notI)
      fix x assume x: "x \<in> set bs" "?f x = k"
      from x(1) have "?f x \<in> ?f ` set bs" by (rule imageI)
      then have "k \<in> ?f ` set bs" unfolding x(2) .
      then show False using nb unfolding e by blast
    qed
    with Cons show ?case by (auto simp: balance_get_update split: option.splits)
  qed simp
  show ?thesis
  proof
    fix k
    have "balance_get [] k = Dec 0 0" by (simp add: balance_get_def)
    then show "balance_get (balance_dict_of a) k = available_in a k"
      using g [OF assms, of "[]" k] by (simp add: balance_dict_of_def available_in_def split: option.splits)
  qed
qed

lemma balance_dict_distinct: "distinct (map fst (balance_dict_of a))"
proof -
  have dist: "distinct (map fst (fold (\<lambda>b d. AList.update (SimulatedBalance.venue_id b, asset_id b) (available b) d) bs d))"
    if "distinct (map fst d)" for bs and d :: balance_dict
    using that by (induction bs arbitrary: d) (simp_all add: distinct_update)
  show ?thesis using dist [of "[]" "balances a"] by (simp only: balance_dict_of_def list.map distinct.simps simp_thms)
qed

lemma apply_balance_distinct:
  "apply_balance_or_reject H i r s d = Inr (r', d') \<Longrightarrow> distinct (map fst d) \<Longrightarrow> distinct (map fst d')"
  by (auto simp: apply_balance_or_reject_def Let_def bindE_Inr_iff distinct_update
      split: option.splits if_splits)

lemma replay_one_distinct:
  assumes "replay_one H bs cost i (Some k) = Inr (r, book')" "distinct (map fst (balance_state k))"
  shows "\<exists>d. book' = Some (k\<lparr>balance_state := d\<rparr>) \<and> distinct (map fst d)"
  using replay_one_cases [OF assms(1)]
proof (elim disjE exE conjE)
  fix k' d assume "apply_balance_or_reject H i r (snapshot k') (balance_state k') = Inr (r, d)"
    "Some k = Some k'" "book' = Some (k'\<lparr>balance_state := d\<rparr>)"
  then show ?thesis using apply_balance_distinct assms(2) by blast
qed (use assms(2) in \<open>auto intro: exI [of _ "balance_state k"]\<close>)

lemma replay_all_distinct:
  assumes "replay_all H bs cost is (Some k) = Inr (rs, Some k')" "distinct (map fst (balance_state k))"
  shows "distinct (map fst (balance_state k'))"
  using assms
proof (induction "is" arbitrary: k rs)
  case (Cons i "is")
  from Cons.prems(1) obtain r b1 rs' where r: "replay_one H bs cost i (Some k) = Inr (r, b1)"
    "replay_all H bs cost is b1 = Inr (rs', Some k')"
    by (auto simp: bindE_Inr_iff)
  from replay_one_distinct [OF r(1) Cons.prems(2)] obtain d where
    "b1 = Some (k\<lparr>balance_state := d\<rparr>)" "distinct (map fst d)" by blast
  with Cons.IH [of "k\<lparr>balance_state := d\<rparr>" rs'] r(2) show ?case by simp
qed simp

lemma account_state_get:
  assumes "build_account_state a d = Inr a'" "distinct (map fst d)"
  shows "available_in a' = balance_get d" "valid_account_state a'"
    "SimulatedAccountState.account_id a' = SimulatedAccountState.account_id a"
proof -
  let ?b = "\<lambda>((v, x), q). \<lparr>SimulatedBalance.account_id = SimulatedAccountState.account_id a,
          venue_id = v, asset_id = x, available = q\<rparr>"
  let ?a = "\<lparr>SimulatedAccountState.account_id = SimulatedAccountState.account_id a,
      balances = map ?b (sort_key fst d)\<rparr>"
  have a': "a' = ?a"
    using assms(1) by (auto simp: build_account_state_def construct_SimulatedAccountState_def bindE_Inr_iff)
  then show "SimulatedAccountState.account_id a' = SimulatedAccountState.account_id a" by simp
  show "valid_account_state a'"
    using assms(1) unfolding a' build_account_state_def valid_account_state_def .
  have f: "(case find (\<lambda>b. (SimulatedBalance.venue_id b, asset_id b) = k) (map ?b e) of
      Some b \<Rightarrow> available b | None \<Rightarrow> Dec 0 0) = balance_get e k" for e k
    by (induction e) (auto simp: balance_get_def)
  have "balance_get (sort_key fst d) k = balance_get d k" for k
  proof -
    have "distinct (map fst (sort_key fst d))" using assms(2)
      by (metis mset_map mset_sort mset_eq_imp_distinct_iff)
    then have "map_of (sort_key fst d) = map_of d"
      using assms(2) map_of_inject_set [of "sort_key fst d" d] by simp
    then show ?thesis by (simp add: balance_get_def)
  qed
  then show "available_in a' = balance_get d"
    by (simp add: a' available_in_def f fun_eq_iff)
qed

section \<open>Fills are valid results\<close>

lemma fits_shift:
  assumes "fits x"
  obtains y where "fits y" "dval y = dval x / 10 ^ 4"
proof
  let ?z = "dfix x"
  show "fits (Dec (coef ?z) (expo ?z - 4))" using dfix_coef [of x] by (simp add: fits_small)
  have "(10::rat) powi (expo ?z - 4) = 10 powi expo ?z / 10 ^ 4"
    by (simp add: power_int_diff)
  moreover have "dval x = of_int (coef ?z) * 10 powi expo ?z" using assms by (simp add: fits_dval dval_def [of ?z])
  ultimately show "dval (Dec (coef ?z) (expo ?z - 4)) = dval x / 10 ^ 4"
    by (simp only: dval_Dec times_divide_eq_right)
qed

lemma basis_points:
  assumes "0 \<le> dval x" "fits x"
  shows "dval (x / Dec 10000 0) = dval x / 10 ^ 4"
proof -
  obtain y where y: "fits y" "dval y = dval x / 10 ^ 4" using fits_shift [OF assms(2)] .
  have "dval x = dval y * dval (Dec 10000 0)" "0 < dval (Dec 10000 0)" using y by (simp_all add: dval_Dec)
  then have "dval (x / Dec 10000 0) = dval y"
    using ddiv_le_fits [OF assms(1) _ y(1), of "Dec 10000 0"] ddiv_ge_fits [OF assms(1) _ y(1), of "Dec 10000 0"]
    by (simp add: order_antisym)
  then show ?thesis by (simp add: y)
qed

lemma cost_modelD:
  assumes "valid_cost_model H m"
  shows "0 \<le> dval (taker_fee_rate m)" "dval (taker_fee_rate m) \<le> 1" "0 \<le> dval (spread_bps m)"
    "0 \<le> dval (slippage_bps m)" "0 \<le> ExecutionCostModel.latency_bars m"
    "0 < dval (max_participation_rate m)" "dval (spread_bps m + slippage_bps m) < 10 ^ 4"
    "canonical_id (ExecutionCostModel.cost_model_id m)"
  using assms
  by (auto simp: valid_cost_model_def construct_ExecutionCostModel_def le_dval less_dval dval_Dec)

lemma price_adjustment_bounds:
  assumes "valid_cost_model H m"
  shows "0 \<le> dval (price_adjustment m)" "dval (price_adjustment m) < 1"
proof -
  have "0 \<le> dval (spread_bps m + slippage_bps m)"
    using cost_modelD(3,4) [OF assms] by (simp add: dval_signs)
  then show "0 \<le> dval (price_adjustment m)" "dval (price_adjustment m) < 1"
    using basis_points [of "spread_bps m + slippage_bps m"] cost_modelD(7) [OF assms]
    by (simp_all add: price_adjustment_def)
qed

lemma fill_price_pos:
  assumes "valid_cost_model H m" "0 < dval p"
  shows "0 < dval (fill_price_of m sd p)"
proof -
  have "0 < dval (Dec 1 0 + price_adjustment m)" "0 < dval (Dec 1 0 - price_adjustment m)"
    using price_adjustment_bounds [OF assms(1)] by (simp_all add: dval_signs dval_Dec)
  then show ?thesis using assms(2) by (simp add: fill_price_of_def dval_signs)
qed


lemma valid_intent_fields:
  assumes "valid_OrderIntent i"
  shows "canonical_id (OrderIntent.client_order_id i)" "canonical_id (OrderIntent.trace_id i)"
    "canonical_id (OrderIntent.source_decision_id i)" "canonical_id (OrderIntent.instrument_id i)"
    "canonical_id (OrderIntent.venue_id i)" "0 < OrderIntent.quantity i"
  using assms by (simp_all add: valid_OrderIntent_def construct_OrderIntent_def)

lemma result_id_ok: "digest_ok H \<Longrightarrow> canonical_id (build_replay_order_result_id H r)"
  unfolding build_replay_order_result_id_def
  by (rule stable_id_canonical) (simp_all add: canonical_id_def upper_char_def)

lemma result_id_update [simp]: "build_replay_order_result_id H (r\<lparr>replay_order_result_id := x\<rparr>)
    = build_replay_order_result_id H r"
  by (simp add: build_replay_order_result_id_def)

lemma finish_ok:
  assumes "digest_ok H" "list_all fst (tl (replay_result_fields d))" "list_all fst (replay_result_common d)"
    "if filled d then list_all fst (replay_result_filled d) else list_all fst (replay_result_unfilled d)"
  shows "\<exists>r. finish_replay_result H d = Inr r"
  using assms(2-) result_id_ok [OF assms(1), of d]
  unfolding finish_replay_result_def construct_ReplayOrderResult_def checked_Inr_iff result_id_update
  by (simp add: replay_result_fields_def replay_result_common_def replay_result_filled_def
      replay_result_unfilled_def split: if_splits)

lemmas result_checks = replay_result_fields_def replay_result_common_def replay_result_filled_def
  replay_result_unfilled_def result_draft_def with_cost_model_def at_bar_def

definition cost_ok :: "digest \<Rightarrow> ExecutionCostModel option \<Rightarrow> bool" where
  "cost_ok H cost \<longleftrightarrow> opt_all (valid_cost_model H) cost"

lemma minus_zero: "fits q \<Longrightarrow> dval (q - Dec 0 0) = dval q"
proof -
  assume "fits q"
  moreover have "dval (q - Dec 0 0) = dval (dfix q)"
    unfolding minus_decimal_def by (rule dfix_cong) (simp add: dval_exact dval_Dec)
  ultimately show ?thesis by (simp add: fits_dval)
qed

lemma zero_sums: "dval (Dec 0 0 + Dec 0 0 + Dec 0 0) = 0"
  by (simp add: dec_eval dval_Dec)

lemma unfilled_ok:
  assumes "digest_ok H" "valid_OrderIntent i" "cost_ok H m" "opt_all (\<lambda>n. 0 \<le> n) e" "opt_all (\<lambda>n. 0 \<le> n) a"
    "fits (OrderIntent.quantity i)"
  shows "\<exists>r. unfilled_result H i why m e a = Inr r"
proof -
  note q = minus_zero [OF assms(6)]
  have m: "opt_all canonical_id (map_option ExecutionCostModel.cost_model_id m)"
    "opt_all hex64 (map_option (build_execution_cost_model_hash H) m)"
    "0 \<le> (case m of None \<Rightarrow> 0 | Some m \<Rightarrow> ExecutionCostModel.latency_bars m)"
    using assms(1,3) cost_modelD [of H]
    by (cases m; simp add: cost_ok_def build_execution_cost_model_hash_def)+
  show ?thesis
    unfolding unfilled_result_def
    by (rule finish_ok [OF assms(1)])
      (use valid_intent_fields [OF assms(2)] m assms(4,5) in \<open>simp_all add: result_checks
        unfilled_status_def dec_eq_dval q zero_sums le_dval less_dval dval_Dec\<close>)
qed

lemma plain_ok:
  assumes "digest_ok H" "valid_OrderIntent i" "valid_OHLCTVBar b" "0 < open_price b"
  shows "\<exists>r. finish_replay_result H (plain_fill i b) = Inr r"
proof -
  have d: "dval (OrderIntent.quantity i - OrderIntent.quantity i) = 0" by (simp add: dval_signs)
  have n: "0 \<le> dval (open_price b * OrderIntent.quantity i)"
    using assms(4) valid_intent_fields(6) [OF assms(2)] by (simp add: dval_signs less_dval)
  have v: "canonical_id (OHLCTVBar.raw_payload_id b)" using assms(3) by (simp add: valid_OHLCTVBar_def)
  show ?thesis
    by (rule finish_ok [OF assms(1)])
      (use valid_intent_fields [OF assms(2)] assms(4) d n v in \<open>simp_all add: result_checks
        plain_fill_def Let_def dec_eq_dval zero_sums le_dval less_dval dval_Dec opt_dec_eq_def\<close>)
qed

lemma costed_ok:
  assumes "digest_ok H" "valid_OrderIntent i" "valid_OHLCTVBar b" "0 < open_price b"
    "valid_cost_model H m" "0 \<le> e" "0 \<le> a" "0 < q" "q \<le> OrderIntent.quantity i"
  shows "\<exists>r. finish_replay_result H (costed_fill H m i e a b q) = Inr r"
proof -
  let ?p = "fill_price_of m (OrderIntent.side i) (open_price b)"
  have p: "0 < dval ?p" using fill_price_pos [OF assms(5)] assms(4) by (simp add: less_dval)
  have c: "0 \<le> dval (open_price b * q)" "0 \<le> dval (?p * q)"
    using p assms(4,8) by (simp_all add: dval_signs less_dval)
  note m = cost_modelD [OF assms(5)]
  have f: "0 \<le> dval (copy_abs (?p * q) * taker_fee_rate m)"
    "0 \<le> dval (copy_abs (open_price b * q) * spread_bps m / Dec 10000 0)"
    "0 \<le> dval (copy_abs (open_price b * q) * slippage_bps m / Dec 10000 0)"
    using c m by (auto simp: dval_signs dval_Dec intro!: ddiv_nonneg)
  then have t: "0 \<le> dval (copy_abs (?p * q) * taker_fee_rate m
      + copy_abs (open_price b * q) * spread_bps m / Dec 10000 0
      + copy_abs (open_price b * q) * slippage_bps m / Dec 10000 0)"
    by (simp add: dval_signs)
  have r: "0 \<le> dval (OrderIntent.quantity i - q)" using assms(9) by (simp add: dval_signs le_dval)
  have v: "canonical_id (OHLCTVBar.raw_payload_id b)" using assms(3) by (simp add: valid_OHLCTVBar_def)
  have h: "hex64 (build_execution_cost_model_hash H m)"
    using assms(1) by (simp add: build_execution_cost_model_hash_def)
  show ?thesis
    by (rule finish_ok [OF assms(1)])
      (use valid_intent_fields [OF assms(2)] assms(4,6-9) c f t r v p h m(5,8) in \<open>simp_all add: result_checks
        costed_fill_def Let_def dec_eq_dval le_dval less_dval dval_Dec opt_dec_eq_def\<close>)
qed

section \<open>A replay of safe inputs returns\<close>

definition ledger_ok :: "balance_dict \<Rightarrow> bool" where
  "ledger_ok d \<longleftrightarrow> distinct (map fst d)
     \<and> (\<forall>((v, x), q) \<in> set d. canonical_id v \<and> canonical_id x \<and> 0 \<le> q)"

lemma set_alist_update: "set (AList.update k v d) \<subseteq> insert (k, v) (set d)"
  by (induction d) auto

lemma ledger_ok_update:
  "ledger_ok d \<Longrightarrow> canonical_id (fst k) \<Longrightarrow> canonical_id (snd k) \<Longrightarrow> 0 \<le> q \<Longrightarrow> ledger_ok (AList.update k q d)"
  using set_alist_update [of k q d] by (cases k) (fastforce simp: ledger_ok_def distinct_update)

lemma ledger_ok_get: "ledger_ok d \<Longrightarrow> 0 \<le> balance_get d k"
  by (auto simp: ledger_ok_def balance_get_def le_dval dval_Dec split: option.splits dest!: map_of_SomeD)

lemma zero_le_sums:
  "0 \<le> x \<Longrightarrow> 0 \<le> y \<Longrightarrow> 0 \<le> x + (y :: decimal)" "y \<le> x \<Longrightarrow> 0 \<le> x - (y :: decimal)"
  by (simp_all add: le_dval dval_signs)

lemma minus_covered:
  assumes "0 \<le> b" "0 \<le> n" "f \<le> n" "fits n"
  shows "0 \<le> b + n - (f :: decimal)"
proof -
  have "dval n \<le> dval (b + n)"
    using dfix_ge_fits [OF assms(4), of "dadd_exact b n"] assms(1) by (simp add: plus_decimal_def dval_exact le_dval)
  then show ?thesis using assms(3) by (intro zero_le_sums) (simp add: le_dval)
qed

definition book_ok :: "Book \<Rightarrow> bool" where
  "book_ok k \<longleftrightarrow> ledger_ok (balance_state k)
     \<and> canonical_id (SimulatedAccountState.account_id (account_state k))
     \<and> (\<forall>x \<in> set (instruments (snapshot k)). canonical_id (base_asset_id x) \<and> canonical_id (quote_asset_id x))"

lemma apply_balance_ok:
  assumes "digest_ok H" "valid_OrderIntent i" "fits (OrderIntent.quantity i)"
    "find (\<lambda>x. Instrument.instrument_id x = OrderIntent.instrument_id i) (instruments s) = Some x"
    "canonical_id (base_asset_id x)" "canonical_id (quote_asset_id x)" "ledger_ok d"
    "0 \<le> filled_quantity r" "0 \<le> effective_notional r" "0 \<le> fee_cost r"
    "fee_cost r \<le> effective_notional r" "fits (effective_notional r)"
  shows "\<exists>r' d'. apply_balance_or_reject H i r s d = Inr (r', d') \<and> ledger_ok d'"
proof -
  obtain u v where u: "unfilled_result H i INSUFFICIENT_CASH None None None = Inr u"
    "unfilled_result H i INSUFFICIENT_INVENTORY None None None = Inr v"
    using unfilled_ok [OF assms(1,2) _ _ _ assms(3), of None] by (fastforce simp: cost_ok_def)
  note v = valid_intent_fields(5) [OF assms(2)]
  have g: "0 \<le> balance_get d k" for k using ledger_ok_get [OF assms(7)] .
  have n: "0 \<le> balance_get d k + filled_quantity r"
    "0 \<le> balance_get d k + effective_notional r - fee_cost r" for k
    using g assms(8,9,11,12) by (simp_all add: zero_le_sums minus_covered)
  have c: "0 \<le> balance_get d k - z" if "\<not> balance_get d k < z" for k z
    using that by (intro zero_le_sums(2)) (simp add: not_less_decimal)
  show ?thesis
    using assms(4-7) u v n
    by (simp add: apply_balance_or_reject_def Let_def) (auto intro!: ledger_ok_update c)
qed

lemma costed_fee_covered:
  assumes "valid_cost_model H m" "0 \<le> effective_notional (costed_fill H m i e a b q)"
  shows "fee_cost (costed_fill H m i e a b q) \<le> effective_notional (costed_fill H m i e a b q)"
    "fits (effective_notional (costed_fill H m i e a b q))"
proof -
  let ?n = "fill_price_of m (OrderIntent.side i) (open_price b) * q"
  have n: "0 \<le> dval ?n" using assms(2) by (simp add: costed_fill_def Let_def le_dval)
  have "dval (dmul_exact (copy_abs ?n) (taker_fee_rate m)) \<le> dval ?n"
    using n cost_modelD(1,2) [OF assms(1)] by (simp add: dval_exact mult_left_le)
  then have "dval (copy_abs ?n * taker_fee_rate m) \<le> dval ?n"
    unfolding times_decimal_def [of "copy_abs _"] by (rule dfix_le_fits [rotated]) simp
  then show "fee_cost (costed_fill H m i e a b q) \<le> effective_notional (costed_fill H m i e a b q)"
    "fits (effective_notional (costed_fill H m i e a b q))"
    by (simp_all add: costed_fill_def Let_def le_dval)
qed

lemma metadata_instrument:
  "metadata_reject_reason i s a = None \<Longrightarrow>
    \<exists>x. find (\<lambda>x. Instrument.instrument_id x = OrderIntent.instrument_id i) (instruments s) = Some x"
  by (auto simp: metadata_reject_reason_def Let_def split: option.splits if_splits)

lemma planned_ok:
  assumes "digest_ok H" "valid_OrderIntent i" "cost_ok H cost" "can_fill cost i bs"
    "\<forall>b \<in> set bs. valid_OHLCTVBar b \<and> 0 < open_price b"
  shows "\<exists>r. finish_replay_result H (planned_fill H cost i bs) = Inr r"
    "0 \<le> effective_notional (planned_fill H cost i bs) \<Longrightarrow>
      fee_cost (planned_fill H cost i bs) \<le> effective_notional (planned_fill H cost i bs)
      \<and> fits (effective_notional (planned_fill H cost i bs))"
proof -
  obtain a b where ab: "fill_slot cost i bs = (a, b)" by fastforce
  have b: "b \<in> set bs" using slot_eligible(1,2) [OF assms(4) ab] by auto
  have v: "valid_OHLCTVBar b" "0 < open_price b" using assms(5) b by simp_all
  show "\<exists>r. finish_replay_result H (planned_fill H cost i bs) = Inr r"
  proof (cases cost)
    case None
    then show ?thesis using plain_ok [OF assms(1,2) v] ab by (simp add: planned_fill_def)
  next
    case (Some m)
    then have m: "valid_cost_model H m" using assms(3) by (simp add: cost_ok_def)
    have q: "0 < fill_quantity cost i b" "fill_quantity cost i b \<le> OrderIntent.quantity i"
      using Some assms(4) ab valid_intent_fields(6) [OF assms(2)]
      by (auto simp: fill_quantity_def can_fill_def py_min_def intro: less_imp_le)
    show ?thesis using costed_ok [OF assms(1,2) v m _ _ q] Some ab by (simp add: planned_fill_def)
  qed
  show "fee_cost (planned_fill H cost i bs) \<le> effective_notional (planned_fill H cost i bs)
      \<and> fits (effective_notional (planned_fill H cost i bs))"
    if n: "0 \<le> effective_notional (planned_fill H cost i bs)"
  proof (cases cost)
    case None
    have z: "Dec 0 0 \<le> x \<longleftrightarrow> 0 \<le> x" for x by (simp add: le_dval dval_Dec)
    show ?thesis using None n ab
      by (simp add: planned_fill_def plain_fill_def Let_def at_bar_def result_draft_def z)
  next
    case (Some m)
    then have "valid_cost_model H m" using assms(3) by (simp add: cost_ok_def)
    from costed_fee_covered [OF this] show ?thesis using Some n ab by (simp add: planned_fill_def)
  qed
qed

lemma settle_ok:
  assumes "digest_ok H" "valid_OrderIntent i" "fits (OrderIntent.quantity i)" "cost_ok H cost"
    "can_fill cost i bs" "\<forall>b \<in> set bs. valid_OHLCTVBar b \<and> 0 < open_price b"
    "opt_all book_ok book"
    "case book of None \<Rightarrow> True
     | Some k \<Rightarrow> metadata_reject_reason i (snapshot k) (account_state k) = None"
  shows "\<exists>r book'. settle H i book (planned_fill H cost i bs) = Inr (r, book') \<and> opt_all book_ok book'"
proof -
  obtain r where r: "finish_replay_result H (planned_fill H cost i bs) = Inr r"
    using planned_ok [OF assms(1,2,4-6)] by blast
  show ?thesis
  proof (cases book)
    case None
    then show ?thesis using r by (simp add: settle_def)
  next
    case (Some k)
    then obtain x where x: "find (\<lambda>x. Instrument.instrument_id x = OrderIntent.instrument_id i)
        (instruments (snapshot k)) = Some x"
      using assms(8) metadata_instrument [of i "snapshot k" "account_state k"] by auto
    then have "x \<in> set (instruments (snapshot k))" by (auto dest: find_SomeD)
    then have c: "canonical_id (base_asset_id x)" "canonical_id (quote_asset_id x)" "ledger_ok (balance_state k)"
      using assms(7) Some by (auto simp: book_ok_def)
    have nn: "0 \<le> filled_quantity r" "0 \<le> effective_notional r" "0 \<le> fee_cost r"
      using finish_result(2) [OF r]
      by (auto simp: valid_replay_result_def construct_ReplayOrderResult_def replay_result_fields_def)
    have "fee_cost r \<le> effective_notional r \<and> fits (effective_notional r)"
      using planned_ok(2) [OF assms(1,2,4-6)] finish_result(1) [OF r] nn(2) by simp
    with apply_balance_ok [OF assms(1-3) x c nn]
    obtain r' d' where "apply_balance_or_reject H i r (snapshot k) (balance_state k) = Inr (r', d')" "ledger_ok d'"
      by blast
    then show ?thesis using Some r assms(7) by (simp add: settle_def book_ok_def)
  qed
qed

text \<open>
  When a constraint check returns.  The remainder of a positive decimal by a positive increment
  exists when the quotient has at most 28 digits; otherwise decimal arithmetic raises.  So an
  order can be checked against the constraint active at a bar when the bar's open and the order's
  quantity stay below \<open>10^28\<close> ticks and lots.
\<close>

lemma int_div_less:
  assumes "0 < (y::int)"
  shows "x div y < n \<longleftrightarrow> x < n * y"
proof -
  have "n \<le> x div y" if "n * y \<le> x" using zdiv_mono1 [OF that assms] assms by simp
  moreover have "n * y \<le> x" if "n \<le> x div y"
  proof -
    have "n * y \<le> x div y * y" using that assms by (intro mult_right_mono) simp_all
    also have "\<dots> \<le> x" using assms pos_mod_sign [of y x] div_mult_mod_eq [of x y] by linarith
    finally show ?thesis .
  qed
  ultimately show ?thesis by (meson not_le)
qed

lemma dmod_returns:
  assumes "0 < dval a" "0 < dval b"
  shows "(\<exists>r. dmod a b = Inr r) \<longleftrightarrow> dval a < 10 ^ dprec * dval b"
proof -
  have pos: "0 < coef a" "0 < coef b" using assms by (simp_all add: dval_def zero_less_mult_iff)
  define i where "i = min (expo a) (expo b)"
  define x where "x = at_exp a i"
  define y where "y = at_exp b i"
  have xy: "0 < x" "0 < y" using pos by (simp_all add: x_def y_def at_exp_def)
  have v: "dval a = of_int x * 10 powi i" "dval b = of_int y * 10 powi i"
    by (simp_all add: x_def y_def i_def dval_at_exp)
  have "dval a < 10 ^ dprec * dval b \<longleftrightarrow> (of_int x :: rat) < of_int (10 ^ dprec * y)"
    by (simp add: v)
  also have "\<dots> \<longleftrightarrow> x < 10 ^ dprec * y" by (simp only: of_int_less_iff)
  also have "\<dots> \<longleftrightarrow> x div y < 10 ^ dprec" by (simp only: int_div_less [OF xy(2)] mult.commute)
  finally have q: "dval a < 10 ^ dprec * dval b \<longleftrightarrow> x div y < 10 ^ dprec" .
  note ba = adjusted_bounds [OF pos(1)] and bb = adjusted_bounds [OF pos(2)]
  have far: "adjusted a - adjusted b \<le> int dprec" if "dval a < 10 ^ dprec * dval b"
  proof -
    have "(10::rat) powi adjusted a < 10 ^ dprec * 10 powi (adjusted b + 1)"
      using ba(1) that bb(2) by (meson le_less_trans less_trans mult_strict_left_mono zero_less_numeral zero_less_power)
    also have "\<dots> = 10 powi (int dprec + (adjusted b + 1))" by (simp add: power_int_add)
    finally have "\<not> (10::rat) powi (int dprec + (adjusted b + 1)) \<le> 10 powi adjusted a" by simp
    then have "\<not> int dprec + (adjusted b + 1) \<le> adjusted a" using power_int_increasing [of _ _ "10::rat"] by fastforce
    then show ?thesis by simp
  qed
  have near: "dval a < 10 ^ dprec * dval b" if "adjusted a - adjusted b \<le> -2"
  proof -
    have "dval a < 10 powi (adjusted a + 1)" by (rule ba(2))
    also have "(10::rat) powi (adjusted a + 1) \<le> 10 powi adjusted b"
      using that by (intro power_int_increasing) simp_all
    also have "\<dots> \<le> dval b" by (rule bb(1))
    also have "\<dots> \<le> 10 ^ dprec * dval b" using assms(2) by (simp add: mult_le_cancel_right1)
    finally show ?thesis .
  qed
  have "\<bar>x\<bar> = x" "\<bar>y\<bar> = y" using xy by simp_all
  then show ?thesis
    using pos q far near
    by (auto simp: dmod_def Let_def i_def [symmetric] x_def [symmetric] y_def [symmetric])
qed

definition increment_fits :: "decimal \<Rightarrow> decimal \<Rightarrow> bool" where
  "increment_fits v inc \<longleftrightarrow> (0 < inc \<longrightarrow> dval v < 10 ^ dprec * dval inc)"

lemma is_decimal_multiple_returns:
  "0 < v \<Longrightarrow> (\<exists>w. is_decimal_multiple v inc = Inr w) \<longleftrightarrow> increment_fits v inc"
  by (auto simp: is_decimal_multiple_def increment_fits_def less_dval bindE_Inr_iff dmod_returns [symmetric])

lemma evaluate_order_returns:
  assumes "0 < p" "0 < q"
  shows "(\<exists>w. evaluate_order c p q = Inr w) \<longleftrightarrow>
    increment_fits p (InstrumentConstraint.tick_size c) \<and> increment_fits q (InstrumentConstraint.lot_size c)"
proof -
  have "\<not> p \<le> 0" "\<not> q \<le> 0" using assms by (simp_all add: le_dval less_dval)
  then show ?thesis
    unfolding is_decimal_multiple_returns [OF assms(1), symmetric] is_decimal_multiple_returns [OF assms(2), symmetric]
    by (cases "is_decimal_multiple p (InstrumentConstraint.tick_size c)";
        cases "is_decimal_multiple q (InstrumentConstraint.lot_size c)") (simp_all add: evaluate_order_def Let_def)
qed

definition increments_in_range :: "Book option \<Rightarrow> OHLCTVBar list \<Rightarrow> OrderIntent \<Rightarrow> bool" where
  "increments_in_range book bs i \<longleftrightarrow> (case book of None \<Rightarrow> True | Some k \<Rightarrow>
     \<forall>b \<in> set bs. \<forall>c. active_constraints (instrument_constraints (snapshot k)) (OrderIntent.instrument_id i) (open_ts b) = [c]
       \<longrightarrow> increment_fits (open_price b) (InstrumentConstraint.tick_size c)
         \<and> increment_fits (OrderIntent.quantity i) (InstrumentConstraint.lot_size c))"

lemma constraint_check_returns:
  assumes "0 < open_price b" "0 < OrderIntent.quantity i"
  shows "(\<exists>w. constraint_check i book b = Inr w) \<longleftrightarrow> increments_in_range book [b] i"
  using evaluate_order_returns [OF assms]
  by (cases book) (auto simp: constraint_check_def increments_in_range_def constraint_reject_reason_def
      bindE_Inr_iff split: list.splits)

lemma increments_in_range_each:
  "increments_in_range book bs i \<longleftrightarrow> (\<forall>b \<in> set bs. increments_in_range book [b] i)"
  by (cases book) (auto simp: increments_in_range_def)

lemma increments_in_range_None [simp]: "increments_in_range None bs i"
  by (simp add: increments_in_range_def)

lemma increments_in_range_book:
  "map_option snapshot book' = map_option snapshot book \<Longrightarrow> increments_in_range book bs i \<Longrightarrow> increments_in_range book' bs i"
  by (cases book; cases book') (simp_all add: increments_in_range_def)

lemma settle_snapshot:
  "settle H i book d = Inr (r, book') \<Longrightarrow> map_option snapshot book' = map_option snapshot book"
  by (auto simp: settle_def bindE_Inr_iff split: option.splits)

lemma replay_one_ok:
  assumes "digest_ok H" "valid_OrderIntent i" "fits (OrderIntent.quantity i)" "cost_ok H cost"
    "\<forall>b \<in> set bs. valid_OHLCTVBar b \<and> 0 < open_price b" "opt_all book_ok book" "increments_in_range book bs i"
  shows "\<exists>r book'. replay_one H bs cost i book = Inr (r, book') \<and> opt_all book_ok book'
    \<and> map_option snapshot book' = map_option snapshot book"
proof -
  have check: "\<exists>w. constraint_check i book b = Inr w" if "b \<in> set bs" for b
    using constraint_check_returns assms(5,7) valid_intent_fields(6) [OF assms(2)] that
      increments_in_range_each [of book bs i] by blast
  let ?el = "eligible_bars i bs"
  let ?goal = "\<lambda>m. \<exists>r book'. m = Inr (r, book') \<and> opt_all book_ok book'
    \<and> map_option snapshot book' = map_option snapshot book"
  have u: "?goal (bindE (unfilled_result H i why m e a) (\<lambda>r. Inr (r, book)))"
    if "m = None \<or> m = cost" "opt_all (\<lambda>n. 0 \<le> n) e" "opt_all (\<lambda>n. 0 \<le> n) a" for why m e a
  proof -
    have "cost_ok H m" using that(1) assms(4) by (auto simp: cost_ok_def)
    from unfilled_ok [OF assms(1,2) this that(2,3) assms(3), of why] assms(6) show ?thesis by auto
  qed
  define meta where "meta = (case book of None \<Rightarrow> None
      | Some k \<Rightarrow> metadata_reject_reason i (snapshot k) (account_state k))"
  have st: "?goal (settle H i book (planned_fill H cost i bs))" if "can_fill cost i bs" "meta = None"
  proof -
    have "case book of None \<Rightarrow> True
        | Some k \<Rightarrow> metadata_reject_reason i (snapshot k) (account_state k) = None"
      using that(2) by (auto simp: meta_def split: option.splits)
    from settle_ok [OF assms(1-4) that(1) assms(5,6) this] settle_snapshot show ?thesis by blast
  qed
  have mem: "b \<in> set bs" if "(a, b) \<in> set ?el" for a b
    using that by (auto simp: eligible_bars_def in_set_enumerate_eq)
  show ?thesis
  proof (cases "meta \<noteq> None \<or> OrderIntent.order_type i \<noteq> MARKET \<or> ?el = []")
    case True
    then show ?thesis unfolding replay_one_def Let_def meta_def [symmetric]
      by (auto intro!: u split: option.splits)
  next
    case False
    then obtain e b rest where el: "?el = (e, b) # rest" by (cases ?el) auto
    have b: "b \<in> set bs" using el mem by auto
    have one: "replay_one H bs cost i book = (case cost of
             None \<Rightarrow> bindE (constraint_check i book b) (\<lambda>why.
               case why of Some w \<Rightarrow> bindE (unfilled_result H i w None None None) (\<lambda>r. Inr (r, book))
               | None \<Rightarrow> settle H i book (plain_fill i b))
           | Some m \<Rightarrow>
             if int (length ?el) \<le> ExecutionCostModel.latency_bars m
             then bindE (unfilled_result H i NO_FUTURE_ELIGIBLE_EVENT cost (Some (int e)) None) (\<lambda>r. Inr (r, book))
             else let (a, b') = ?el ! nat (ExecutionCostModel.latency_bars m);
                      room = base_volume b' * max_participation_rate m;
                      q = py_min (OrderIntent.quantity i) room
                  in bindE (constraint_check i book b') (\<lambda>why.
                  case why of Some w \<Rightarrow>
                    bindE (unfilled_result H i w cost (Some (int e)) (Some (int a))) (\<lambda>r. Inr (r, book))
                  | None \<Rightarrow>
                    if room \<le> 0 \<or> (q < OrderIntent.quantity i \<and> \<not> allow_partial_fills m)
                    then bindE (unfilled_result H i INSUFFICIENT_LIQUIDITY cost (Some (int e)) (Some (int a)))
                      (\<lambda>r. Inr (r, book))
                    else settle H i book (costed_fill H m i (int e) (int a) b' q)))"
      using False el unfolding replay_one_def Let_def meta_def [symmetric] by simp
    show ?thesis
    proof (cases cost)
      case None
      have p: "planned_fill H cost i bs = plain_fill i b" "can_fill cost i bs"
        using None el by (simp_all add: planned_fill_def fill_slot_def fill_delay_def can_fill_def)
      obtain w where "constraint_check i book b = Inr w" using check [OF b(1)] by blast
      then show ?thesis unfolding one using None p st False u by (cases w) simp_all
    next
      case (Some m)
      show ?thesis
      proof (cases "int (length ?el) \<le> ExecutionCostModel.latency_bars m")
        case True
        then show ?thesis unfolding one using Some u by simp
      next
        case lat: False
        obtain a b' where slot: "?el ! nat (ExecutionCostModel.latency_bars m) = (a, b')" by fastforce
        have "nat (ExecutionCostModel.latency_bars m) < length ?el" using lat el by simp
        then have b': "b' \<in> set bs" using slot mem nth_mem by metis
        let ?room = "base_volume b' * max_participation_rate m"
        let ?q = "py_min (OrderIntent.quantity i) ?room"
        have p: "planned_fill H cost i bs = costed_fill H m i (int e) (int a) b' ?q"
          "\<not> ?room \<le> 0 \<Longrightarrow> can_fill cost i bs"
          using Some el lat slot
          by (auto simp: planned_fill_def fill_slot_def fill_delay_def can_fill_def fill_quantity_def
              le_dval less_dval not_le)
        obtain w where w: "constraint_check i book b' = Inr w" using check [OF b'] by blast
        have "?goal (settle H i book (costed_fill H m i (int e) (int a) b' ?q))" if "\<not> ?room \<le> 0"
          using st [OF p(2) [OF that]] False p(1) by simp
        then show ?thesis unfolding one using Some u lat slot w
          by (cases w; cases "?room \<le> 0 \<or> (?q < OrderIntent.quantity i \<and> \<not> allow_partial_fills m)")
            (auto simp: Let_def)
      qed
    qed
  qed
qed

lemma replay_all_ok:
  assumes "digest_ok H" "cost_ok H cost" "\<forall>b \<in> set bs. valid_OHLCTVBar b \<and> 0 < open_price b"
    "\<forall>i \<in> set is. valid_OrderIntent i \<and> fits (OrderIntent.quantity i) \<and> increments_in_range book bs i"
    "opt_all book_ok book"
  shows "\<exists>rs book'. replay_all H bs cost is book = Inr (rs, book') \<and> opt_all book_ok book'"
  using assms(4,5)
proof (induction "is" arbitrary: book)
  case (Cons i "is")
  from replay_one_ok [OF assms(1) _ _ assms(2,3), of i book] Cons.prems
  obtain r b where r: "replay_one H bs cost i book = Inr (r, b)" "opt_all book_ok b"
    "map_option snapshot b = map_option snapshot book" by auto
  have "\<forall>j \<in> set is. increments_in_range b bs j" using Cons.prems(1) increments_in_range_book [OF r(3)] by simp
  with Cons.IH [of b] r(1,2) Cons.prems(1) show ?case by auto
qed simp

lemma final_state_ok:
  assumes "opt_all book_ok book"
  shows "\<exists>final. final_state book = Inr final"
proof (cases book)
  case (Some k)
  let ?bs = "map (\<lambda>((v, x), q). \<lparr>SimulatedBalance.account_id = SimulatedAccountState.account_id (account_state k),
          venue_id = v, asset_id = x, available = q\<rparr>) (sort_key fst (balance_state k))"
  have k: "ledger_ok (balance_state k)" "canonical_id (SimulatedAccountState.account_id (account_state k))"
    using assms Some by (simp_all add: book_ok_def)
  have "distinct (map fst (sort_key fst (balance_state k)))" using k(1)
    by (metis ledger_ok_def mset_map mset_sort mset_eq_imp_distinct_iff)
  moreover have "map (\<lambda>b. (SimulatedBalance.venue_id b, asset_id b)) ?bs = map fst (sort_key fst (balance_state k))"
    by (auto simp: comp_def)
  ultimately have d: "distinct (map (\<lambda>b. (SimulatedBalance.venue_id b, asset_id b)) ?bs)" by (simp only:)
  let ?c = "\<lambda>b. checked
        [(canonical_id (SimulatedBalance.account_id b), ''account_id''),
         (canonical_id (SimulatedBalance.venue_id b), ''venue_id''),
         (canonical_id (asset_id b), ''asset_id''),
         (0 \<le> available b, ''available'')] b"
  have "mapE ?c ?bs = Inr (map (\<lambda>b. b) ?bs)"
    by (rule mapE_total) (use k in \<open>auto simp: ledger_ok_def\<close>)
  then have m: "mapE ?c ?bs = Inr ?bs" by simp
  show ?thesis
    unfolding final_state_def build_account_state_def construct_SimulatedAccountState_def Some option.case
      SimulatedAccountState.simps m
    using d k(2) by (auto simp: bindE_Inr_iff list_all_iff)
qed (simp add: final_state_def)

lemma mapE_checked: "mapE (\<lambda>b. checked (c b) b) xs = Inr ys \<Longrightarrow> ys = xs"
  by (induction xs arbitrary: ys) (auto simp: bindE_Inr_iff)

lemma account_state_distinct:
  assumes "valid_account_state a"
  shows "distinct (map (\<lambda>b. (SimulatedBalance.venue_id b, asset_id b)) (balances a))"
proof -
  obtain bs where bs: "mapE (\<lambda>b. checked
        [(canonical_id (SimulatedBalance.account_id b), ''account_id''),
         (canonical_id (SimulatedBalance.venue_id b), ''venue_id''),
         (canonical_id (asset_id b), ''asset_id''), (0 \<le> available b, ''available'')] b) (balances a) = Inr bs"
    "distinct (map (\<lambda>b. (SimulatedBalance.venue_id b, asset_id b)) bs)"
    using assms unfolding valid_account_state_def construct_SimulatedAccountState_def
    by (auto simp: bindE_Inr_iff)
  from mapE_checked [OF bs(1)] bs(2) show ?thesis by simp
qed

definition replay_inputs_ok :: "digest \<Rightarrow> OHLCTVBar list \<Rightarrow> OrderIntent list \<Rightarrow> ExecutionCostModel option \<Rightarrow>
    Book option \<Rightarrow> bool" where
  "replay_inputs_ok H bs is cost book \<longleftrightarrow> cost_ok H cost \<and> opt_all book_ok book
     \<and> (\<forall>b \<in> set bs. valid_OHLCTVBar b \<and> 0 < open_price b) \<and> safe_bars bs
     \<and> (\<forall>i \<in> set is. valid_OrderIntent i \<and> fits (OrderIntent.quantity i) \<and> increments_in_range book bs i)
     \<and> validate_order_intents is = Inr ()"

lemma valid_result_id:
  assumes "valid_replay_result H r"
  shows "canonical_id (replay_order_result_id r)"
proof -
  have "list_all fst (replay_result_fields r)"
    using assms by (simp add: valid_replay_result_def construct_ReplayOrderResult_def)
  then show ?thesis by (simp add: replay_result_fields_def)
qed

lemma requirement_ids_ok: "list_all non_empty_string (replay_requirement_ids cost s)"
proof -
  have "non_empty_string ''FR-012''" "non_empty_string ''NFR-001''" "non_empty_string ''RISK-005''"
    "non_empty_string ''FR-003''" "non_empty_string ''FR-010''"
    by (simp_all add: non_empty_string_def strip_def py_space_def)
  then show ?thesis by (simp add: replay_requirement_ids_def)
qed

lemma replay_ok:
  assumes "digest_ok H" "replay_inputs_ok H bs is cost (book_of s a)" "(s = None) = (a = None)" "canonical_id run"
  shows "\<exists>rep. replay_ohlctv_market_orders H bs is run cost s a = Inr rep
    \<and> construct_ReplayReport H rep = Inr rep"
proof -
  have bars: "validate_bars_are_safe bs = Inr ()"
    using validate_bars_iff assms(2) by (auto simp: replay_inputs_ok_def)
  obtain rs book where rs: "replay_all H bs cost is (book_of s a) = Inr (rs, book)" "opt_all book_ok book"
    using replay_all_ok [OF assms(1), of cost bs "is" "book_of s a"] assms(2)
    by (auto simp: replay_inputs_ok_def)
  obtain final where final: "final_state book = Inr final" using final_state_ok [OF rs(2)] by blast
  have ids: "list_all canonical_id (map replay_order_result_id rs)"
  proof -
    have "list_all2 (\<lambda>i r. canonical_id (replay_order_result_id r)) is rs"
    proof (rule replay_all_pointwise [OF rs(1)])
      fix i r b b' assume "replay_one H bs cost i b = Inr (r, b')"
      then have "valid_replay_result H r" using replay_one_result by blast
      then show "canonical_id (replay_order_result_id r)"
        by (rule valid_result_id)
    qed
    then show ?thesis by (auto simp: list_all_iff list_all2_conv_all_nth in_set_conv_nth)
  qed
  have rid: "canonical_id (build_replay_report_id H h)" for h
    unfolding build_replay_report_id_def
    by (rule stable_id_canonical [OF assms(1)]) (simp_all add: canonical_id_def upper_char_def)
  have hh: "hex64 (market_data_hash_of H bs)" "hex64 (build_replay_report_hash H run m rs q c f)" for m q c f
    using assms(1) by (simp_all add: market_data_hash_of_def build_replay_report_hash_def)
  have vi: "validate_order_intents is = Inr ()" using assms(2) by (simp add: replay_inputs_ok_def)
  show ?thesis
    using bars vi assms(3,4) rs(1) final ids rid hh requirement_ids_ok
    by (simp add: replay_ohlctv_market_orders_def construct_ReplayReport_def Let_def)
qed

section \<open>Properties\<close>

text \<open>C18: The bar check accepts exactly the safe streams: every bar known at its close, one
  timeframe per market, the closes in the order of the sort key, and within a market every later
  bar opening only after each earlier one has closed.\<close>

theorem bar_check_accepts_safe_streams:
  assumes "\<forall>b \<in> set bs. valid_OHLCTVBar b"
  shows "validate_bars_are_safe bs = Inr () \<longleftrightarrow>
    (\<forall>b \<in> set bs. OHLCTVBar.source_ts b \<le> close_ts b)
    \<and> (\<forall>j k. j < k \<and> k < length bs \<longrightarrow> bar_before (bs ! j) (bs ! k))"
  using validate_bars_iff [OF assms] by (auto simp: safe_bars_def sorted_wrt_iff_nth_less)

text \<open>C14: Replay has no lookahead: each result belongs to the intent at its place; a filled one is
  filled at the bar that lies the latency of the cost model after the first eligible one, a bar
  of the order's market that opens no earlier than the submission, for the quantity the
  participation limit leaves; every other result names its reason and no fill.\<close>

theorem replay_fills_are_causal:
  assumes "replay_ohlctv_market_orders H bs is run cost s a = Inr rep"
  shows "list_all2 (\<lambda>i r. copies_intent i r \<and> valid_replay_result H r
    \<and> (filled r \<longrightarrow> (\<exists>n b. fill_delay cost < length (eligible_bars i bs)
         \<and> eligible_bars i bs ! fill_delay cost = (n, b) \<and> n < length bs \<and> bs ! n = b
         \<and> OHLCTVBar.instrument_id b = OrderIntent.instrument_id i
         \<and> OHLCTVBar.venue_id b = OrderIntent.venue_id i
         \<and> OrderIntent.submitted_at i \<le> open_ts b
         \<and> fill_event_open_ts r = Some (open_ts b) \<and> fill_event_close_ts r = Some (close_ts b)
         \<and> filled_quantity r = fill_quantity cost i b))
    \<and> (\<not> filled r \<longrightarrow> ReplayOrderResult.reason r \<noteq> None \<and> fill_event_open_ts r = None)) is (results rep)"
proof -
  obtain book where "replay_all H bs cost is (book_of s a) = Inr (results rep, book)"
    using replay_report_parts [OF assms] by metis
  then show ?thesis
  proof (rule replay_all_pointwise)
    fix i r b b' assume "replay_one H bs cost i b = Inr (r, b')"
    note r = replay_one_result [OF this]
    show "copies_intent i r \<and> valid_replay_result H r
      \<and> (filled r \<longrightarrow> (\<exists>n b. fill_delay cost < length (eligible_bars i bs)
           \<and> eligible_bars i bs ! fill_delay cost = (n, b) \<and> n < length bs \<and> bs ! n = b
           \<and> OHLCTVBar.instrument_id b = OrderIntent.instrument_id i
           \<and> OHLCTVBar.venue_id b = OrderIntent.venue_id i
           \<and> OrderIntent.submitted_at i \<le> open_ts b
           \<and> fill_event_open_ts r = Some (open_ts b) \<and> fill_event_close_ts r = Some (close_ts b)
           \<and> filled_quantity r = fill_quantity cost i b))
      \<and> (\<not> filled r \<longrightarrow> ReplayOrderResult.reason r \<noteq> None \<and> fill_event_open_ts r = None)"
    proof (cases "filled r")
      case True
      obtain n b where nb: "fill_slot cost i bs = (n, b)" by fastforce
      have c: "can_fill cost i bs" and e: "r = (planned_fill H cost i bs)\<lparr>replay_order_result_id := replay_order_result_id r\<rparr>"
        using r True by simp_all
      have "fill_event_open_ts r = Some (open_ts b)" "fill_event_close_ts r = Some (close_ts b)"
        "filled_quantity r = fill_quantity cost i b"
        by (subst e, simp add: planned_fields [OF nb])+
      then show ?thesis
        using r True c slot_eligible [OF c nb] nb
        by (auto simp: can_fill_def fill_slot_def eligible_for_def)
    next
      case False
      then have "fill_event_open_ts r = None" "ReplayOrderResult.reason r \<noteq> None"
        using r by (simp_all add: valid_replay_result_def construct_ReplayOrderResult_def replay_result_unfilled_def)
      then show ?thesis using r False by simp
    qed
  qed
qed


text \<open>C15: The report explains the account: every final balance is what folding the reported results
  over the starting balances gives, a fill moving its notional, fee and quantity and every other
  result moving nothing; and the final state is a valid account state of the same account.\<close>

theorem replay_results_explain_balances:
  assumes "replay_ohlctv_market_orders H bs is run cost (Some s) (Some a) = Inr rep"
    and "valid_account_state a"
  shows "\<exists>a'. final_account_state rep = Some a' \<and> valid_account_state a'
    \<and> SimulatedAccountState.account_id a' = SimulatedAccountState.account_id a
    \<and> available_in a' = fold (ledger_step s) (results rep) (available_in a)"
proof -
  let ?k = "\<lparr>Book.snapshot = s, account_state = a, balance_state = balance_dict_of a\<rparr>"
  obtain book final where all: "replay_all H bs cost is (Some ?k) = Inr (results rep, book)"
    and fin: "final_state book = Inr final" "final_account_state rep = final"
    by (rule replay_report_parts [OF assms(1)]) (auto simp: book_of_def)
  obtain d where d: "book = Some (?k\<lparr>balance_state := d\<rparr>)"
    "balance_get d = fold (ledger_step s) (results rep) (balance_get (balance_dict_of a))"
    using replay_all_ledger [OF all] by auto
  have dist: "distinct (map fst d)"
    using replay_all_distinct [of H bs cost "is" ?k "results rep" "?k\<lparr>balance_state := d\<rparr>"] all d(1)
      balance_dict_distinct by simp
  note g = balance_dict_get [OF account_state_distinct [OF assms(2)]]
  obtain a' where a': "build_account_state a d = Inr a'" "final = Some a'"
    using fin(1) d(1) by (auto simp: final_state_def bindE_Inr_iff)
  from account_state_get [OF a'(1) dist] a'(2) fin(2) d(2) g show ?thesis by auto
qed

lemma sum_bump: "sum_list (map snd (bump k d)) = sum_list (map snd d) + 1"
  by (induction k d rule: bump.induct) auto

lemma sum_tally: "sum_list (map snd (tally ks)) = int (length ks)"
proof -
  have "sum_list (map snd (fold bump ks d)) = sum_list (map snd d) + int (length ks)" for d :: "('a \<times> int) list"
    by (induction ks arbitrary: d) (simp_all add: sum_bump)
  then show ?thesis by (simp add: tally_def)
qed

lemma sum_list_sort_key: "sum_list (map f (sort_key g xs)) = sum_list (map (f :: 'a \<Rightarrow> int) xs)"
  by (metis mset_map mset_sort sum_mset_sum_list)

lemma rejection_count_sum:
  "sum_list (map count (build_rejection_counts rs))
    = int (length (filter (\<lambda>r. ReplayOrderResult.reason r \<noteq> None) rs))"
proof -
  have "map count (build_rejection_counts rs) = map snd (sort_key (\<lambda>p. ReplayRejectReason_value (fst p))
         (tally (List.map_filter ReplayOrderResult.reason rs)))"
    by (simp add: build_rejection_counts_def comp_def case_prod_beta)
  then have "sum_list (map count (build_rejection_counts rs))
      = int (length (List.map_filter ReplayOrderResult.reason rs))"
    by (simp only: sum_list_sort_key sum_tally)
  then show ?thesis by (simp add: List.map_filter_def)
qed

text \<open>C19: No order disappears: the report holds one result per intent, and the rejection counts of
  the report add up to the intents that were not filled.\<close>

theorem replay_accounts_for_every_order:
  assumes "replay_ohlctv_market_orders H bs is run cost s a = Inr rep"
  shows "length (results rep) = length is
    \<and> sum_list (map count (rejection_counts rep)) = int (length (filter (\<lambda>r. \<not> filled r) (results rep)))"
proof -
  obtain book where all: "replay_all H bs cost is (book_of s a) = Inr (results rep, book)"
    and c: "rejection_counts rep = build_rejection_counts (results rep)"
    using replay_report_parts [OF assms] by metis
  have "list_all2 (\<lambda>i r. ReplayOrderResult.reason r \<noteq> None \<longleftrightarrow> \<not> filled r) is (results rep)"
  proof (rule replay_all_pointwise [OF all])
    fix i r b b' assume "replay_one H bs cost i b = Inr (r, b')"
    note r = replay_one_result [OF this]
    show "ReplayOrderResult.reason r \<noteq> None \<longleftrightarrow> \<not> filled r"
    proof (cases "filled r")
      case True
      then have "ReplayOrderResult.reason r = None"
        using r by (simp add: valid_replay_result_def construct_ReplayOrderResult_def replay_result_filled_def)
      then show ?thesis using True by simp
    qed (use r in simp)
  qed
  then have "\<forall>r \<in> set (results rep). ReplayOrderResult.reason r \<noteq> None \<longleftrightarrow> \<not> filled r"
    "length (results rep) = length is"
    by (simp_all add: list_all2_conv_all_nth all_set_conv_all_nth)
  moreover from this(1) have "filter (\<lambda>r. ReplayOrderResult.reason r \<noteq> None) (results rep)
      = filter (\<lambda>r. \<not> filled r) (results rep)" by (intro filter_cong) simp_all
  ultimately show ?thesis by (simp only: c rejection_count_sum simp_thms)
qed

text \<open>C16: The replay never raises when the bars are valid, safe and open at positive prices; the intents
  are valid, in submission order with distinct ids, and of at most 28 digits; a cost model, where
  given, is valid; snapshot and account are given together, with canonical asset ids and an
  account of canonical ids and distinct non-negative balances, or not at all; and open prices and quantities stay below \<open>10^28\<close> ticks and
  lots of the active constraint, so that its remainders exist.  The report it returns passes its contract: no
  validator of a result or of the account state fails, so no balance it writes is negative.\<close>

theorem replay_returns:
  assumes "digest_ok H" "replay_inputs_ok H bs is cost (book_of s a)" "(s = None) = (a = None)" "canonical_id run"
  shows "\<exists>rep. replay_ohlctv_market_orders H bs is run cost s a = Inr rep
    \<and> construct_ReplayReport H rep = Inr rep"
  using assms by (rule replay_ok)

end
