(* ===== verification/RiskGate.thy ===== *)
theory RiskGate
  imports Replay RiskEngine
begin

text \<open>
  The gate between the risk engine and the replay, \<open>risk/replay.py\<close>: risk events are split into
  approved and blocked ones, only the approved intents are replayed, and the result names both
  groups.  The theory shows that nothing reaches the replay but approved intents, and, for events
  the engine itself produced, that nothing is filled beyond what the engine approved.
\<close>

definition forwarded :: "RiskCheckEvent \<Rightarrow> bool" where
  "forwarded e \<longleftrightarrow> approving (final_decision e) \<and> approved_order_intent e \<noteq> None"

text \<open>The loop over the events: approved events, blocked events and approved intents, in order.\<close>

fun split_events :: "RiskCheckEvent list \<Rightarrow> RiskCheckEvent list \<times> RiskCheckEvent list \<times> OrderIntent list" where
  "split_events [] = ([], [], [])"
| "split_events (e # es) =
     (let (yes, no, is) = split_events es
      in if forwarded e then (e # yes, no, the (approved_order_intent e) # is) else (yes, e # no, is))"

definition replay_risk_approved_market_orders :: "digest \<Rightarrow> OHLCTVBar list \<Rightarrow> RiskCheckEvent list \<Rightarrow> string \<Rightarrow>
    ExecutionCostModel option \<Rightarrow> InstrumentMasterSnapshot option \<Rightarrow> SimulatedAccountState option \<Rightarrow>
    RiskGatedReplayResult result" where
  "replay_risk_approved_market_orders H bs es run cost s a =
     (let (yes, no, is) = split_events es in
      bindE (if is = [] then Inr None
             else bindE (replay_ohlctv_market_orders H bs is run cost s a) (\<lambda>rep. Inr (Some rep)))
      (\<lambda>report. make_risk_gated_replay_result H run (map risk_check_id es)
         (map risk_check_id yes) (map risk_check_id no) report))"

section \<open>The split\<close>

lemma split_events_filter:
  "split_events es = (filter forwarded es, filter (\<lambda>e. \<not> forwarded e) es,
     map (\<lambda>e. the (approved_order_intent e)) (filter forwarded es))"
  by (induction es) auto

lemma gate_parts:
  assumes "replay_risk_approved_market_orders H bs es run cost s a = Inr g"
  shows "approved_risk_check_ids g = map risk_check_id (filter forwarded es)"
    "blocked_risk_check_ids g = map risk_check_id (filter (\<lambda>e. \<not> forwarded e) es)"
    "risk_check_ids g = map risk_check_id es"
    "case replay_report g of None \<Rightarrow> filter forwarded es = []
     | Some rep \<Rightarrow> filter forwarded es \<noteq> [] \<and> replay_ohlctv_market_orders H bs
         (map (\<lambda>e. the (approved_order_intent e)) (filter forwarded es)) run cost s a = Inr rep"
  using assms
  by (auto simp: replay_risk_approved_market_orders_def split_events_filter Let_def
      make_risk_gated_replay_result_def construct_RiskGatedReplayResult_def bindE_Inr_iff split: if_splits)

lemma gate_results:
  assumes "replay_risk_approved_market_orders H bs es run cost s a = Inr g" "replay_report g = Some rep"
  shows "list_all2 (\<lambda>e r. \<exists>i. approved_order_intent e = Some i \<and> copies_intent i r
      \<and> (filled r \<longrightarrow> can_fill cost i bs \<and> (\<exists>n b. fill_slot cost i bs = (n, b) \<and> filled_quantity r = fill_quantity cost i b)))
    (filter forwarded es) (results rep)"
proof -
  let ?is = "map (\<lambda>e. the (approved_order_intent e)) (filter forwarded es)"
  have "replay_ohlctv_market_orders H bs ?is run cost s a = Inr rep"
    using gate_parts(4) [OF assms(1)] assms(2) by simp
  then obtain book where "replay_all H bs cost ?is (book_of s a) = Inr (results rep, book)"
    by (rule replay_report_parts)
  then have "list_all2 (\<lambda>i r. copies_intent i r \<and> (filled r \<longrightarrow> can_fill cost i bs
      \<and> (\<exists>n b. fill_slot cost i bs = (n, b) \<and> filled_quantity r = fill_quantity cost i b))) ?is (results rep)"
  proof (rule replay_all_pointwise)
    fix i r b b' assume "replay_one H bs cost i b = Inr (r, b')"
    note r = replay_one_result [OF this]
    obtain n c where nc: "fill_slot cost i bs = (n, c)" by fastforce
    show "copies_intent i r \<and> (filled r \<longrightarrow> can_fill cost i bs
      \<and> (\<exists>n b. fill_slot cost i bs = (n, b) \<and> filled_quantity r = fill_quantity cost i b))"
    proof (intro conjI impI)
      show "copies_intent i r" using r by simp
      assume f: "filled r"
      then have e: "r = (planned_fill H cost i bs)\<lparr>replay_order_result_id := replay_order_result_id r\<rparr>"
        using r by simp
      show "can_fill cost i bs" using r f by simp
      have "filled_quantity r = fill_quantity cost i c" by (subst e) (simp add: planned_fields [OF nc])
      with nc show "\<exists>n b. fill_slot cost i bs = (n, b) \<and> filled_quantity r = fill_quantity cost i b" by blast
    qed
  qed
  then show ?thesis
    unfolding list_all2_map1
  proof (rule list.rel_mono_strong)
    fix e r assume "e \<in> set (filter forwarded es)"
      and a: "copies_intent (the (approved_order_intent e)) r \<and> (filled r \<longrightarrow> can_fill cost (the (approved_order_intent e)) bs
      \<and> (\<exists>n b. fill_slot cost (the (approved_order_intent e)) bs = (n, b)
            \<and> filled_quantity r = fill_quantity cost (the (approved_order_intent e)) b))"
    then obtain i where "approved_order_intent e = Some i" by (auto simp: forwarded_def)
    with a show "\<exists>i. approved_order_intent e = Some i \<and> copies_intent i r
      \<and> (filled r \<longrightarrow> can_fill cost i bs \<and> (\<exists>n b. fill_slot cost i bs = (n, b) \<and> filled_quantity r = fill_quantity cost i b))"
      by simp
  qed
qed

lemma fill_quantity_le: "fill_quantity cost i b \<le> OrderIntent.quantity i"
  by (auto simp: fill_quantity_def py_min_def less_imp_le split: option.splits)

lemma list_all2_right: "list_all2 P xs ys \<Longrightarrow> y \<in> set ys \<Longrightarrow> \<exists>x \<in> set xs. P x y"
  by (induction rule: list_all2_induct) auto

lemma requantified:
  assumes "i = j\<lparr>OrderIntent.quantity := q\<rparr>"
  shows "OrderIntent.client_order_id i = OrderIntent.client_order_id j"
    "OrderIntent.instrument_id i = OrderIntent.instrument_id j" "OrderIntent.side i = OrderIntent.side j"
  by (simp_all add: assms)

lemma gate_ok:
  assumes "digest_ok H" "\<forall>e \<in> set es. valid_event H e" "(s = None) = (a = None)" "canonical_id run"
    and "replay_inputs_ok H bs (map (\<lambda>e. the (approved_order_intent e)) (filter forwarded es)) cost (book_of s a)"
  shows "\<exists>g. replay_risk_approved_market_orders H bs es run cost s a = Inr g"
proof -
  let ?is = "map (\<lambda>e. the (approved_order_intent e)) (filter forwarded es)"
  obtain rep where rep: "replay_ohlctv_market_orders H bs ?is run cost s a = Inr rep" "construct_ReplayReport H rep = Inr rep"
    using replay_ok [OF assms(1,5,3,4)] by blast
  have ids: "\<forall>e \<in> set es. canonical_id (risk_check_id e)"
    using assms(2) by (auto simp: valid_event_def construct_RiskCheckEvent_def Let_def)
  have part: "length (filter forwarded es) + length (filter (\<lambda>e. \<not> forwarded e) es) = length es"
    by (rule sum_length_filter_compl)
  have sets: "risk_check_id ` {x \<in> set es. forwarded x} \<union> risk_check_id ` {x \<in> set es. \<not> forwarded x}
      = risk_check_id ` set es" by auto
  have rid: "canonical_id (build_risk_gated_replay_result_id H h)" "hex64 (build_risk_gated_replay_result_hash H d)" for h d
  proof -
    show "canonical_id (build_risk_gated_replay_result_id H h)"
      unfolding build_risk_gated_replay_result_id_def
      by (rule stable_id_canonical [OF assms(1)]) (simp_all add: canonical_id_def upper_char_def)
    show "hex64 (build_risk_gated_replay_result_hash H d)"
      using assms(1) by (simp add: build_risk_gated_replay_result_hash_def)
  qed
  have req: "non_empty_string ''FR-010''" "non_empty_string ''FR-012''" "non_empty_string ''NFR-004''"
    by (simp_all add: non_empty_string_def strip_def py_space_def)
  have h: "build_risk_gated_replay_result_hash H (d\<lparr>result_id := x, result_hash := y\<rparr>)
      = build_risk_gated_replay_result_hash H d" for d x y
    by (simp add: build_risk_gated_replay_result_hash_def)
  define report where "report = (if ?is = [] then None else Some rep)"
  define draft where "draft = \<lparr>RiskGatedReplayResult.result_id = ''RISKGATEDREPLAY:PLACEHOLDER'',
      result_hash = zero_hash, run_id = run, risk_check_ids = map risk_check_id es,
      approved_risk_check_ids = map risk_check_id (filter forwarded es),
      blocked_risk_check_ids = map risk_check_id (filter (\<lambda>e. \<not> forwarded e) es),
      replay_report = report, requirement_ids = [''FR-010'', ''FR-012'', ''NFR-004'']\<rparr>"
  have d: "list_all canonical_id (risk_check_ids draft)" "list_all canonical_id (approved_risk_check_ids draft)"
    "list_all canonical_id (blocked_risk_check_ids draft)"
    "length (approved_risk_check_ids draft @ blocked_risk_check_ids draft) = length (risk_check_ids draft)"
    "set (approved_risk_check_ids draft @ blocked_risk_check_ids draft) = set (risk_check_ids draft)"
    "approved_risk_check_ids draft = [] \<longleftrightarrow> replay_report draft = None"
    "opt_all (\<lambda>r. construct_ReplayReport H r = Inr r) (replay_report draft)"
    "list_all non_empty_string (RiskGatedReplayResult.requirement_ids draft)"
    "RiskGatedReplayResult.run_id draft = run"
    using ids part sets rep(2) req
    by (auto simp: draft_def report_def list_all_iff image_iff simp flip: image_Un)
  have "make_risk_gated_replay_result H run (map risk_check_id es) (map risk_check_id (filter forwarded es))
      (map risk_check_id (filter (\<lambda>e. \<not> forwarded e) es)) report
    = Inr (draft\<lparr>result_id := build_risk_gated_replay_result_id H (build_risk_gated_replay_result_hash H draft),
        result_hash := build_risk_gated_replay_result_hash H draft\<rparr>)"
    unfolding make_risk_gated_replay_result_def Let_def draft_def [symmetric] construct_RiskGatedReplayResult_def h
    using d rid assms(4) by (cases "replay_report draft") simp_all
  then show ?thesis using rep(1)
    by (cases "filter forwarded es = []")
      (simp_all add: replay_risk_approved_market_orders_def split_events_filter Let_def report_def)
qed

section \<open>Properties\<close>

text \<open>C20: The gate forwards approvals and nothing else: the approved ids are those of the events
  that approve and carry an intent, the blocked ids all the others, in order; there is a replay
  exactly when something was approved; and its results answer the approved intents one by one.\<close>

theorem gate_forwards_only_approvals:
  assumes "replay_risk_approved_market_orders H bs es run cost s a = Inr g"
  shows "approved_risk_check_ids g = map risk_check_id (filter forwarded es)
    \<and> blocked_risk_check_ids g = map risk_check_id (filter (\<lambda>e. \<not> forwarded e) es)
    \<and> (replay_report g = None \<longleftrightarrow> (\<forall>e \<in> set es. \<not> forwarded e))
    \<and> (\<forall>rep. replay_report g = Some rep \<longrightarrow>
        list_all2 (\<lambda>e r. \<exists>i. approved_order_intent e = Some i \<and> copies_intent i r)
          (filter forwarded es) (results rep))"
proof -
  have "replay_report g = None \<longleftrightarrow> (\<forall>e \<in> set es. \<not> forwarded e)"
    using gate_parts(4) [OF assms] by (auto simp: filter_empty_conv split: option.splits)
  moreover have "list_all2 (\<lambda>e r. \<exists>i. approved_order_intent e = Some i \<and> copies_intent i r)
      (filter forwarded es) (results rep)" if "replay_report g = Some rep" for rep
    by (rule list_all2_mono [OF gate_results [OF assms that]]) blast
  ultimately show ?thesis using gate_parts(1,2) [OF assms] by blast
qed

text \<open>C13: End to end: when the events are the engine's own answers, every fill of the gated replay
  belongs to a request the engine did not reject, is on the requested side and instrument, and
  is for at most the requested quantity.\<close>

theorem gated_fills_stay_within_requests:
  assumes "digest_ok H" "valid_policy H p"
    and "\<forall>e \<in> set es. valid_request H (request e) \<and> fits (OrderIntent.quantity (order_intent (request e)))
      \<and> evaluate_pre_trade_risk H (request e) p = Inr e"
    and "replay_risk_approved_market_orders H bs es run cost s a = Inr g" "replay_report g = Some rep"
  shows "\<forall>r \<in> set (results rep). filled r \<longrightarrow> (\<exists>e \<in> set es. \<not> rejects H (request e) p
    \<and> ReplayOrderResult.client_order_id r = OrderIntent.client_order_id (order_intent (request e))
    \<and> ReplayOrderResult.instrument_id r = OrderIntent.instrument_id (order_intent (request e))
    \<and> ReplayOrderResult.side r = OrderIntent.side (order_intent (request e))
    \<and> filled_quantity r \<le> OrderIntent.quantity (order_intent (request e)))"
proof (intro ballI impI)
  fix r assume r: "r \<in> set (results rep)" "filled r"
  have "\<exists>e \<in> set (filter forwarded es). \<exists>i. approved_order_intent e = Some i \<and> copies_intent i r
      \<and> (filled r \<longrightarrow> can_fill cost i bs \<and> (\<exists>n b. fill_slot cost i bs = (n, b) \<and> filled_quantity r = fill_quantity cost i b))"
    using gate_results [OF assms(4,5)] r(1) by (rule list_all2_right)
  then obtain e i b where e: "e \<in> set es" "forwarded e" "approved_order_intent e = Some i" "copies_intent i r"
    "filled_quantity r = fill_quantity cost i b"
    using r(2) by auto
  have v: "valid_request H (request e)" "fits (OrderIntent.quantity (order_intent (request e)))"
    "evaluate_pre_trade_risk H (request e) p = Inr e" using assms(3) e(1) by simp_all
  have d: "approved_order_intent e = snd (decision H (request e) p)" "final_decision e = fst (decision H (request e) p)"
    using engine_ok [OF assms(1) v(1) assms(2)] v(3) by auto
  have "\<not> rejects H (request e) p" using d e(3) by (auto simp: decision_def)
  moreover have b: "i = order_intent (request e)\<lparr>OrderIntent.quantity := OrderIntent.quantity i\<rparr>"
      "OrderIntent.quantity i \<le> OrderIntent.quantity (order_intent (request e))"
    using approved_bounds [OF v(1) assms(2,1) v(3) e(3) v(2)] by blast+
  moreover have "filled_quantity r \<le> OrderIntent.quantity (order_intent (request e))"
    using fill_quantity_le [of cost i b] b(2) e(5) order_trans by simp
  moreover note requantified [OF b(1)]
  ultimately show "\<exists>e \<in> set es. \<not> rejects H (request e) p
    \<and> ReplayOrderResult.client_order_id r = OrderIntent.client_order_id (order_intent (request e))
    \<and> ReplayOrderResult.instrument_id r = OrderIntent.instrument_id (order_intent (request e))
    \<and> ReplayOrderResult.side r = OrderIntent.side (order_intent (request e))
    \<and> filled_quantity r \<le> OrderIntent.quantity (order_intent (request e))"
    using e(1,4) unfolding copies_intent_def by metis
qed

end
