(* ===== verification/ReplayExamples.thy ===== *)
theory ReplayExamples
  imports Examples RiskGate
begin

text \<open>
  Instances of the replay properties: one bar of the example market that opens after the example
  order is submitted, a cost model with fees, spread, slippage and a participation limit, and an
  account with 1000 units of the quote asset.
\<close>

definition example_bar :: OHLCTVBar where
  "example_bar = \<lparr>OHLCTVBar.instrument_id = ''BTC-USD'', venue_id = ''VENUE:1'', timeframe = ''1m'',
     open_ts = DT 60 0, close_ts = DT 120 0, open_price = Dec 100 0, high = Dec 110 0,
     low = Dec 90 0, close_price = Dec 105 0, base_volume = Dec 10 0, quote_volume = None,
     trade_count = None, vwap = None, source_ts = DT 120 0, ingest_ts = DT 120 0,
     quality_flags = [], raw_payload_id = ''RAW:1''\<rparr>"

definition example_cost_draft :: ExecutionCostModel where
  "example_cost_draft = \<lparr>ExecutionCostModel.cost_model_id = ''COSTMODEL:PLACEHOLDER'',
     taker_fee_rate = Dec 1 (-3), spread_bps = Dec 10 0, slippage_bps = Dec 10 0, latency_bars = 0,
     max_participation_rate = Dec 5 (-1), allow_partial_fills = True\<rparr>"

definition example_cost :: ExecutionCostModel where
  "example_cost = example_cost_draft\<lparr>ExecutionCostModel.cost_model_id :=
     build_execution_cost_model_id H0 example_cost_draft\<rparr>"

definition example_state :: SimulatedAccountState where
  "example_state = \<lparr>SimulatedAccountState.account_id = ''ACCOUNT:1'',
     balances = [\<lparr>SimulatedBalance.account_id = ''ACCOUNT:1'', venue_id = ''VENUE:1'',
                 asset_id = ''USD'', available = Dec 1000 0\<rparr>]\<rparr>"

lemma example_ids [simp]:
  "canonical_id ''BTC-USD''" "canonical_id ''VENUE:1''" "canonical_id ''RAW:1''" "canonical_id ''ACCOUNT:1''"
  "canonical_id ''USD''" "canonical_id ''BTC''" "canonical_id ''RUN:1''"
  by (simp_all add: canonical_id_def upper_char_def digit_char_def)

lemma example_bar_valid: "valid_OHLCTVBar example_bar" "0 < open_price example_bar" "fits (open_price example_bar)"
  by (simp_all add: valid_OHLCTVBar_def example_bar_def less_datetime_def le_dval less_dval dval_Dec
      fits_small dprec_def)

lemma example_cost_valid: "valid_cost_model H0 example_cost"
proof -
  have "canonical_id (stable_id H0 ''COSTMODEL'' p)" for p
    by (rule stable_id_canonical [OF digest_ok_example]) (simp_all add: canonical_id_def upper_char_def)
  moreover have "Dec 10 0 + Dec 10 0 < Dec 10000 0" by (simp add: dec_eval)
  moreover have "build_execution_cost_model_id H0 example_cost = build_execution_cost_model_id H0 example_cost_draft"
    by (simp add: build_execution_cost_model_id_def build_execution_cost_model_hash_def example_cost_def)
  ultimately show ?thesis
    by (simp add: valid_cost_model_def construct_ExecutionCostModel_def example_cost_def
        build_execution_cost_model_id_def build_execution_cost_model_hash_def example_cost_draft_def
        le_dval less_dval dval_Dec)
qed

lemma example_state_valid: "valid_account_state example_state"
  by (simp add: valid_account_state_def construct_SimulatedAccountState_def example_state_def le_dval dval_Dec)

abbreviation example_buy :: OrderIntent where "example_buy \<equiv> example_intent BUY (Dec 2 0)"

lemma example_buy_ok: "valid_OrderIntent example_buy" "fits (OrderIntent.quantity example_buy)"
  by (rule example_intent_valid, simp add: less_dval dval_Dec)
    (simp add: example_intent_def fits_small dprec_def)

lemma example_safe: "safe_bars [example_bar]" "validate_order_intents [example_buy] = Inr ()"
  by (simp_all add: safe_bars_def example_bar_def less_eq_datetime_def validate_order_intents_def)

abbreviation example_book :: "Book option" where
  "example_book \<equiv> book_of (Some example_snapshot) (Some example_state)"

lemma example_book_ok: "opt_all book_ok example_book"
  by (simp add: book_of_def book_ok_def ledger_ok_def balance_dict_of_def example_state_def
      example_snapshot_def example_instrument_def le_dval dval_Dec)

lemma example_check: "increments_in_range example_book [example_bar] example_buy"
  by (simp add: increments_in_range_def increment_fits_def book_of_def active_constraints_def example_snapshot_def
      example_constraint_def example_bar_def example_intent_def dval_Dec dprec_def)

lemma example_inputs: "replay_inputs_ok H0 [example_bar] [example_buy] (Some example_cost) example_book"
  using example_bar_valid example_cost_valid example_buy_ok example_safe example_book_ok example_check
  by (simp add: replay_inputs_ok_def cost_ok_def)

lemma example_eligible: "eligible_bars example_buy [example_bar] = [(0, example_bar)]"
  by (simp add: eligible_bars_def eligible_for_def example_bar_def example_intent_def
      less_eq_datetime_def less_datetime_def)

lemma example_room: "\<not> base_volume example_bar * max_participation_rate example_cost \<le> 0"
  "py_min (OrderIntent.quantity example_buy) (base_volume example_bar * max_participation_rate example_cost) = Dec 2 0"
  "ExecutionCostModel.latency_bars example_cost = 0"
  by (simp_all add: example_bar_def example_cost_def example_cost_draft_def example_intent_def dec_eval py_min_def)

lemma example_can_fill: "can_fill None example_buy [example_bar]" "can_fill (Some example_cost) example_buy [example_bar]"
  using example_room(1,3)
  by (simp_all add: can_fill_def fill_delay_def fill_slot_def example_eligible less_dval le_dval not_le)

lemma example_one:
  assumes "cost = None \<or> cost = Some example_cost"
  shows "\<exists>r. replay_one H0 [example_bar] cost example_buy None = Inr (r, None) \<and> filled r"
proof -
  have m: "OrderIntent.order_type example_buy = MARKET" by (simp add: example_intent_def)
  have "can_fill cost example_buy [example_bar]" "cost_ok H0 cost"
    using assms example_can_fill example_cost_valid by (auto simp: cost_ok_def)
  then obtain r where r: "finish_replay_result H0 (planned_fill H0 cost example_buy [example_bar]) = Inr r"
    using planned_ok(1) [OF digest_ok_example example_buy_ok(1), of cost "[example_bar]"] example_bar_valid by auto
  obtain n b where nb: "fill_slot cost example_buy [example_bar] = (n, b)" by fastforce
  have "filled r"
    using finish_result(1) [OF r] planned_fields(1) [OF nb, of H0] by simp
  moreover have "\<not> (py_min (OrderIntent.quantity example_buy)
      (base_volume example_bar * max_participation_rate example_cost) < OrderIntent.quantity example_buy)"
    unfolding example_room(2) by (simp add: example_intent_def less_dval)
  then have "replay_one H0 [example_bar] cost example_buy None = Inr (r, None)"
    using r assms m example_room
    by (auto simp: replay_one_def example_eligible constraint_check_def settle_def planned_fill_def
        fill_slot_def fill_delay_def fill_quantity_def Let_def)
  ultimately show ?thesis by blast
qed

lemma example_replay:
  assumes "cost = None \<or> cost = Some example_cost"
  shows "\<exists>rep r. replay_ohlctv_market_orders H0 [example_bar] [example_buy] ''RUN:1'' cost None None = Inr rep
    \<and> results rep = [r] \<and> filled r"
proof -
  have "replay_inputs_ok H0 [example_bar] [example_buy] cost (book_of None None)"
    using assms example_bar_valid example_cost_valid example_buy_ok example_safe
    by (auto simp: replay_inputs_ok_def cost_ok_def book_of_def)
  then obtain rep where
    rep: "replay_ohlctv_market_orders H0 [example_bar] [example_buy] ''RUN:1'' cost None None = Inr rep"
    using replay_ok [OF digest_ok_example, where run = "''RUN:1''"] by fastforce
  obtain r where r: "replay_one H0 [example_bar] cost example_buy None = Inr (r, None)" "filled r"
    using example_one [OF assms] by blast
  have "results rep = [r]"
    by (rule replay_report_parts [OF rep]) (use r in \<open>simp add: book_of_def\<close>)
  with rep r show ?thesis by blast
qed

lemma example_book_replay:
  "\<exists>rep. replay_ohlctv_market_orders H0 [example_bar] [example_buy] ''RUN:1'' (Some example_cost)
     (Some example_snapshot) (Some example_state) = Inr rep"
  using replay_ok [OF digest_ok_example example_inputs, where run = "''RUN:1''"] by auto

theorem bar_check_accepts_safe_streams_witness: "validate_bars_are_safe [example_bar] = Inr ()"
  using bar_check_accepts_safe_streams [of "[example_bar]"] example_bar_valid
  by (simp add: example_bar_def less_eq_datetime_def)

theorem replay_fills_are_causal_witness:
  "\<exists>rep r. replay_ohlctv_market_orders H0 [example_bar] [example_buy] ''RUN:1'' None None None = Inr rep
    \<and> results rep = [r] \<and> filled r \<and> fill_event_open_ts r = Some (open_ts example_bar)
    \<and> OrderIntent.submitted_at example_buy \<le> open_ts example_bar"
proof -
  obtain rep r where r: "replay_ohlctv_market_orders H0 [example_bar] [example_buy] ''RUN:1'' None None None = Inr rep"
    "results rep = [r]" "filled r" using example_replay [of None] by blast
  from replay_fills_are_causal [OF r(1)] r show ?thesis
    by (auto simp: example_eligible fill_delay_def)
qed


theorem replay_results_explain_balances_witness:
  "\<exists>rep a'. replay_ohlctv_market_orders H0 [example_bar] [example_buy] ''RUN:1'' (Some example_cost)
      (Some example_snapshot) (Some example_state) = Inr rep
    \<and> final_account_state rep = Some a'
    \<and> available_in a' = fold (ledger_step example_snapshot) (results rep) (available_in example_state)"
  using example_book_replay replay_results_explain_balances [OF _ example_state_valid] by blast

theorem replay_accounts_for_every_order_witness:
  "\<exists>rep. replay_ohlctv_market_orders H0 [example_bar] [example_buy] ''RUN:1'' (Some example_cost)
      (Some example_snapshot) (Some example_state) = Inr rep \<and> length (results rep) = 1"
  using example_book_replay replay_accounts_for_every_order by fastforce

theorem replay_returns_witness:
  "\<exists>rep. replay_ohlctv_market_orders H0 [example_bar] [example_buy] ''RUN:1'' (Some example_cost)
      (Some example_snapshot) (Some example_state) = Inr rep \<and> construct_ReplayReport H0 rep = Inr rep"
  using replay_returns [OF digest_ok_example example_inputs] by simp

section \<open>Through the risk gate\<close>

lemma example_approved:
  "\<exists>e. evaluate_pre_trade_risk H0 example_order example_policy = Inr e \<and> request e = example_order
     \<and> forwarded e \<and> valid_event H0 e
     \<and> replay_inputs_ok H0 [example_bar] (map (\<lambda>e. the (approved_order_intent e)) (filter forwarded [e]))
         None (book_of None None)"
proof -
  obtain e where e: "evaluate_pre_trade_risk H0 example_order example_policy = Inr e" "valid_event H0 e"
    "request e = example_order" "approved_order_intent e = Some (example_intent BUY (Dec 1000 (-2)))"
    "final_decision e = APPROVED_AFTER_CAP"
    using engine_ok [OF digest_ok_example example_order_valid example_policy_valid]
    by (auto simp: example_decision)
  have f: "forwarded e" using e by (simp add: forwarded_def approving_def)
  have "valid_OrderIntent (example_intent BUY (Dec 1000 (-2)))" "fits (OrderIntent.quantity (example_intent BUY (Dec 1000 (-2))))"
    by (rule example_intent_valid, simp add: less_dval dval_Dec)
      (simp add: example_intent_def fits_small dprec_def)
  then have "replay_inputs_ok H0 [example_bar]
      (map (\<lambda>e. the (approved_order_intent e)) (filter forwarded [e])) None (book_of None None)"
    using example_bar_valid example_safe(1) e(4) f
    by (simp add: replay_inputs_ok_def cost_ok_def book_of_def
        validate_order_intents_def)
  with e f show ?thesis by blast
qed

lemma example_gate:
  "\<exists>e g rep. evaluate_pre_trade_risk H0 example_order example_policy = Inr e \<and> request e = example_order
     \<and> forwarded e
     \<and> replay_risk_approved_market_orders H0 [example_bar] [e] ''RUN:1'' None None None = Inr g
     \<and> replay_report g = Some rep"
proof -
  obtain e where e: "evaluate_pre_trade_risk H0 example_order example_policy = Inr e" "valid_event H0 e"
    "request e = example_order" "forwarded e" "replay_inputs_ok H0 [example_bar]
      (map (\<lambda>e. the (approved_order_intent e)) (filter forwarded [e])) None (book_of None None)"
    using example_approved by blast
  then obtain g where g: "replay_risk_approved_market_orders H0 [example_bar] [e] ''RUN:1'' None None None = Inr g"
    using gate_ok [OF digest_ok_example, of "[e]" None None "''RUN:1''"] by fastforce
  obtain rep where "replay_report g = Some rep"
    using gate_parts(4) [OF g] e(4) by (cases "replay_report g") auto
  with e g show ?thesis by blast
qed

theorem gate_forwards_only_approvals_witness:
  "\<exists>e g. evaluate_pre_trade_risk H0 example_order example_policy = Inr e
     \<and> replay_risk_approved_market_orders H0 [example_bar] [e] ''RUN:1'' None None None = Inr g
     \<and> approved_risk_check_ids g = [risk_check_id e] \<and> blocked_risk_check_ids g = []"
proof -
  obtain e g where e: "evaluate_pre_trade_risk H0 example_order example_policy = Inr e" "forwarded e"
    "replay_risk_approved_market_orders H0 [example_bar] [e] ''RUN:1'' None None None = Inr g"
    using example_gate by blast
  from gate_forwards_only_approvals [OF e(3)] e show ?thesis by auto
qed

theorem gated_fills_stay_within_requests_witness:
  "\<exists>e g rep. evaluate_pre_trade_risk H0 example_order example_policy = Inr e
     \<and> replay_risk_approved_market_orders H0 [example_bar] [e] ''RUN:1'' None None None = Inr g
     \<and> replay_report g = Some rep
     \<and> (\<forall>r \<in> set (results rep). filled r \<longrightarrow> filled_quantity r \<le> Dec 15 0)"
proof -
  obtain e g rep where e: "evaluate_pre_trade_risk H0 example_order example_policy = Inr e"
    "request e = example_order"
    "replay_risk_approved_market_orders H0 [example_bar] [e] ''RUN:1'' None None None = Inr g"
    "replay_report g = Some rep"
    using example_gate by blast
  have q: "OrderIntent.quantity (order_intent example_order) = Dec 15 0"
    by (simp add: example_order_def example_request_def example_intent_def)
  have "\<forall>x \<in> set [e]. valid_request H0 (request x) \<and> fits (OrderIntent.quantity (order_intent (request x)))
      \<and> evaluate_pre_trade_risk H0 (request x) example_policy = Inr x"
    using e(1,2) example_order_valid by (simp add: q fits_small dprec_def)
  from gated_fills_stay_within_requests [OF digest_ok_example example_policy_valid this e(3,4)] e
  show ?thesis using q by (intro exI [of _ e] exI [of _ g] exI [of _ rep]) auto
qed

end
