(* ===== verification/GatewayContracts.thy ===== *)
theory GatewayContracts
  imports RiskContracts
begin

text \<open>
  The lifecycle contracts the simulator and the paper gateway share, \<open>contracts/execution.py\<close>:
  one event for each risk check (blocked, or backed by a replay result), the report over a run,
  their validators, hashes and identifiers, and the \<open>make_*\<close> functions that build them.
\<close>

section \<open>Enumerations\<close>

datatype ExecutionGatewayKind =
    SIMULATOR | PAPER

datatype ExecutionFillMode =
    EVENT_TIME_REPLAY | PAPER_SIMULATED_FILL

datatype ExecutionGatewayOrderStatus =
    BLOCKED | REJECTED | UNFILLED | PARTIALLY_FILLED | FILLED

primrec ExecutionGatewayKind_value :: "ExecutionGatewayKind \<Rightarrow> string" where
  "ExecutionGatewayKind_value ExecutionGatewayKind.SIMULATOR = ''simulator''"
| "ExecutionGatewayKind_value ExecutionGatewayKind.PAPER = ''paper''"

primrec ExecutionFillMode_value :: "ExecutionFillMode \<Rightarrow> string" where
  "ExecutionFillMode_value ExecutionFillMode.EVENT_TIME_REPLAY = ''event_time_replay''"
| "ExecutionFillMode_value ExecutionFillMode.PAPER_SIMULATED_FILL = ''paper_simulated_fill''"

primrec ExecutionGatewayOrderStatus_value :: "ExecutionGatewayOrderStatus \<Rightarrow> string" where
  "ExecutionGatewayOrderStatus_value ExecutionGatewayOrderStatus.BLOCKED = ''blocked''"
| "ExecutionGatewayOrderStatus_value ExecutionGatewayOrderStatus.REJECTED = ''rejected''"
| "ExecutionGatewayOrderStatus_value ExecutionGatewayOrderStatus.UNFILLED = ''unfilled''"
| "ExecutionGatewayOrderStatus_value ExecutionGatewayOrderStatus.PARTIALLY_FILLED = ''partially_filled''"
| "ExecutionGatewayOrderStatus_value ExecutionGatewayOrderStatus.FILLED = ''filled''"

text \<open>The table \<open>_REPLAY_TO_GATEWAY_STATUS\<close>.\<close>

primrec replay_to_gateway_status :: "ReplayFillStatus \<Rightarrow> ExecutionGatewayOrderStatus" where
  "replay_to_gateway_status ReplayFillStatus.FILLED = ExecutionGatewayOrderStatus.FILLED"
| "replay_to_gateway_status ReplayFillStatus.PARTIALLY_FILLED = ExecutionGatewayOrderStatus.PARTIALLY_FILLED"
| "replay_to_gateway_status ReplayFillStatus.UNFILLED = ExecutionGatewayOrderStatus.UNFILLED"
| "replay_to_gateway_status ReplayFillStatus.REJECTED = ExecutionGatewayOrderStatus.REJECTED"

definition gateway_fill_mode_checks :: "ExecutionGatewayKind \<Rightarrow> ExecutionFillMode \<Rightarrow> (bool \<times> string) list" where
  "gateway_fill_mode_checks k m =
     [(k = PAPER \<longrightarrow> m = PAPER_SIMULATED_FILL,
        ''paper gateway reports must use paper_simulated_fill mode''),
      (k \<noteq> PAPER \<longrightarrow> m = EVENT_TIME_REPLAY,
        ''simulator gateway reports must use event_time_replay mode'')]"

definition validate_gateway_fill_mode :: "ExecutionGatewayKind \<Rightarrow> ExecutionFillMode \<Rightarrow> unit result" where
  "validate_gateway_fill_mode k m = checked (gateway_fill_mode_checks k m) ()"

section \<open>Lifecycle events\<close>

record ExecutionGatewayLifecycleEvent =
  gateway_event_id :: string
  gateway_event_hash :: string
  gateway_order_id :: "string option"
  gateway_kind :: ExecutionGatewayKind
  fill_mode :: ExecutionFillMode
  run_id :: string
  risk_check_id :: string
  risk_check_hash :: string
  risk_decision :: RiskDecisionStatus
  risk_reason_codes :: "RiskReasonCode list"
  client_order_id :: string
  trace_id :: string
  source_decision_id :: string
  instrument_id :: string
  venue_id :: string
  side :: OrderSide
  order_type :: OrderType
  requested_quantity :: decimal
  gateway_quantity :: decimal
  submitted_at :: datetime
  status :: ExecutionGatewayOrderStatus
  replay_order_result_id :: "string option"
  replay_status :: "ReplayFillStatus option"
  replay_reject_reason :: "ReplayRejectReason option"
  fill_price :: "decimal option"
  filled_quantity :: decimal
  remaining_quantity :: decimal
  fill_event_open_ts :: "datetime option"
  fill_event_close_ts :: "datetime option"
  fill_event_source_ts :: "datetime option"
  fill_raw_payload_id :: "string option"
  cost_model_id :: "string option"
  cost_model_hash :: "string option"
  latency_bars :: int
  eligible_event_index :: "int option"
  fill_attempt_event_index :: "int option"
  arrival_reference_price :: "decimal option"
  effective_fill_price :: "decimal option"
  reference_notional :: decimal
  effective_notional :: decimal
  fee_cost :: decimal
  spread_cost :: decimal
  slippage_cost :: decimal
  total_cost :: decimal
  requirement_ids :: "string list"

definition gateway_event_fields :: "ExecutionGatewayLifecycleEvent \<Rightarrow> (bool \<times> string) list" where
  "gateway_event_fields r =
     [(canonical_id (gateway_event_id r), ''gateway_event_id''),
      (hex64 (gateway_event_hash r), ''gateway_event_hash''),
      (opt_all canonical_id (gateway_order_id r), ''gateway_order_id''),
      (canonical_id (run_id r), ''run_id''),
      (canonical_id (risk_check_id r), ''risk_check_id''),
      (hex64 (risk_check_hash r), ''risk_check_hash''),
      (canonical_id (client_order_id r), ''client_order_id''),
      (canonical_id (trace_id r), ''trace_id''),
      (canonical_id (source_decision_id r), ''source_decision_id''),
      (canonical_id (instrument_id r), ''instrument_id''),
      (canonical_id (venue_id r), ''venue_id''),
      (0 < requested_quantity r, ''requested_quantity''),
      (0 < gateway_quantity r, ''gateway_quantity''),
      (opt_all canonical_id (replay_order_result_id r), ''replay_order_result_id''),
      (opt_all (\<lambda>x. 0 \<le> x) (fill_price r), ''fill_price''),
      (0 \<le> filled_quantity r, ''filled_quantity''),
      (0 \<le> remaining_quantity r, ''remaining_quantity''),
      (opt_all canonical_id (fill_raw_payload_id r), ''fill_raw_payload_id''),
      (opt_all canonical_id (cost_model_id r), ''cost_model_id''),
      (opt_all hex64 (cost_model_hash r), ''cost_model_hash''),
      (0 \<le> latency_bars r, ''latency_bars''),
      (opt_all (\<lambda>x. 0 \<le> x) (eligible_event_index r), ''eligible_event_index''),
      (opt_all (\<lambda>x. 0 \<le> x) (fill_attempt_event_index r), ''fill_attempt_event_index''),
      (opt_all (\<lambda>x. 0 \<le> x) (arrival_reference_price r), ''arrival_reference_price''),
      (opt_all (\<lambda>x. 0 \<le> x) (effective_fill_price r), ''effective_fill_price''),
      (0 \<le> reference_notional r, ''reference_notional''),
      (0 \<le> effective_notional r, ''effective_notional''),
      (0 \<le> fee_cost r, ''fee_cost''),
      (0 \<le> spread_cost r, ''spread_cost''),
      (0 \<le> slippage_cost r, ''slippage_cost''),
      (0 \<le> total_cost r, ''total_cost''),
      (list_all non_empty_string (requirement_ids r), ''requirement_ids'')]"

text \<open>The checks of \<open>_validate_blocked_event\<close>.\<close>

definition blocked_event_checks :: "ExecutionGatewayLifecycleEvent \<Rightarrow> (bool \<times> string) list" where
  "blocked_event_checks r =
     [(gateway_order_id r = None, ''blocked risk events must not create a gateway_order_id''),
      (replay_order_result_id r = None \<and> replay_status r = None,
        ''blocked risk events must not carry replay result evidence''),
      (replay_reject_reason r = None,
        ''blocked risk events use risk reasons, not replay reject reasons''),
      (dec_eq (filled_quantity r) 0 \<and> dec_eq (remaining_quantity r) (gateway_quantity r),
        ''blocked risk events must not carry fills''),
      (fill_price r = None \<and> fill_event_open_ts r = None \<and> fill_event_close_ts r = None
         \<and> fill_event_source_ts r = None \<and> fill_raw_payload_id r = None \<and> cost_model_id r = None
         \<and> cost_model_hash r = None \<and> latency_bars r = 0 \<and> eligible_event_index r = None
         \<and> fill_attempt_event_index r = None \<and> arrival_reference_price r = None
         \<and> effective_fill_price r = None \<and> dec_eq (reference_notional r) 0
         \<and> dec_eq (effective_notional r) 0 \<and> dec_eq (fee_cost r) 0 \<and> dec_eq (spread_cost r) 0
         \<and> dec_eq (slippage_cost r) 0 \<and> dec_eq (total_cost r) 0,
        ''blocked risk events must not carry placement or fill attribution'')]"

definition filled_event_checks :: "ExecutionGatewayLifecycleEvent \<Rightarrow> (bool \<times> string) list" where
  "filled_event_checks r =
     [(replay_reject_reason r = None, ''filled gateway event must not set replay_reject_reason''),
      (case fill_price r of None \<Rightarrow> False | Some p \<Rightarrow> 0 < p,
        ''filled gateway event requires positive fill_price''),
      (status r = ExecutionGatewayOrderStatus.FILLED \<longrightarrow> dec_eq (filled_quantity r) (gateway_quantity r),
        ''filled gateway event must fill full gateway quantity''),
      (status r \<noteq> ExecutionGatewayOrderStatus.FILLED \<longrightarrow>
         0 < filled_quantity r \<and> filled_quantity r < gateway_quantity r,
        ''partially filled gateway event requires partial quantity''),
      (fill_event_open_ts r \<noteq> None \<and> fill_event_close_ts r \<noteq> None \<and> fill_event_source_ts r \<noteq> None
         \<and> fill_raw_payload_id r \<noteq> None, ''filled gateway event requires fill event lineage''),
      (arrival_reference_price r \<noteq> None \<and> effective_fill_price r \<noteq> None,
        ''filled gateway event requires price attribution''),
      (opt_dec_eq (effective_fill_price r) (fill_price r),
        ''effective_fill_price must match fill_price when present''),
      (opt_all (\<lambda>p. dec_eq (reference_notional r) (p * filled_quantity r)) (arrival_reference_price r),
        ''reference_notional must match arrival price times fill quantity''),
      (opt_all (\<lambda>p. dec_eq (effective_notional r) (p * filled_quantity r)) (effective_fill_price r),
        ''effective_notional must match effective price times fill quantity'')]"

definition unfilled_event_checks :: "ExecutionGatewayLifecycleEvent \<Rightarrow> (bool \<times> string) list" where
  "unfilled_event_checks r =
     [(replay_reject_reason r \<noteq> None, ''unfilled/rejected gateway event requires replay_reject_reason''),
      (fill_price r = None \<and> dec_eq (filled_quantity r) 0,
        ''unfilled/rejected gateway event must not carry a fill''),
      (fill_event_open_ts r = None \<and> fill_event_close_ts r = None \<and> fill_event_source_ts r = None
         \<and> fill_raw_payload_id r = None \<and> arrival_reference_price r = None
         \<and> effective_fill_price r = None \<and> dec_eq (reference_notional r) 0
         \<and> dec_eq (effective_notional r) 0 \<and> dec_eq (fee_cost r) 0 \<and> dec_eq (spread_cost r) 0
         \<and> dec_eq (slippage_cost r) 0 \<and> dec_eq (total_cost r) 0,
        ''unfilled/rejected gateway event must not carry fill attribution''),
      (dec_eq (remaining_quantity r) (gateway_quantity r),
        ''unfilled/rejected gateway event must leave full quantity remaining'')]"

definition build_execution_gateway_order_id_from_parts :: "digest \<Rightarrow> ExecutionGatewayKind \<Rightarrow> string \<Rightarrow>
    string \<Rightarrow> string \<Rightarrow> string" where
  "build_execution_gateway_order_id_from_parts H k run rid cid = stable_id H ''GATEWAYORDER'' (PObj
     [(''client_order_id'', PStr cid), (''gateway_kind'', PStr (ExecutionGatewayKind_value k)),
      (''risk_check_id'', PStr rid), (''run_id'', PStr run)])"

definition build_execution_gateway_order_id :: "digest \<Rightarrow> ExecutionGatewayLifecycleEvent \<Rightarrow> string" where
  "build_execution_gateway_order_id H r = build_execution_gateway_order_id_from_parts H
     (gateway_kind r) (run_id r) (risk_check_id r) (client_order_id r)"

text \<open>The checks of \<open>_validate_replay_backed_event\<close>.\<close>

definition replay_backed_event_checks :: "digest \<Rightarrow> ExecutionGatewayLifecycleEvent \<Rightarrow> (bool \<times> string) list" where
  "replay_backed_event_checks H r =
     [(gateway_order_id r \<noteq> None, ''approved gateway events require a gateway_order_id''),
      (gateway_order_id r = Some (build_execution_gateway_order_id H r),
        ''gateway_order_id is not deterministic''),
      (replay_order_result_id r \<noteq> None \<and> replay_status r \<noteq> None,
        ''approved gateway events require replay result evidence''),
      (opt_all (\<lambda>s. status r = replay_to_gateway_status s) (replay_status r),
        ''gateway status must match replay result status'')]
     @ (if status r \<in> {ExecutionGatewayOrderStatus.FILLED, ExecutionGatewayOrderStatus.PARTIALLY_FILLED}
        then filled_event_checks r else unfilled_event_checks r)"

definition build_execution_gateway_event_hash :: "digest \<Rightarrow> ExecutionGatewayLifecycleEvent \<Rightarrow> string" where
  "build_execution_gateway_event_hash H r = H (PObj
     [(''arrival_reference_price'', POpt PDec (arrival_reference_price r)),
      (''client_order_id'', PStr (client_order_id r)),
      (''cost_model_hash'', POpt PStr (cost_model_hash r)),
      (''cost_model_id'', POpt PStr (cost_model_id r)),
      (''effective_fill_price'', POpt PDec (effective_fill_price r)),
      (''effective_notional'', PDec (effective_notional r)),
      (''eligible_event_index'', POpt PInt (eligible_event_index r)),
      (''fee_cost'', PDec (fee_cost r)),
      (''fill_attempt_event_index'', POpt PInt (fill_attempt_event_index r)),
      (''fill_event_close_ts'', POpt PIso (fill_event_close_ts r)),
      (''fill_event_open_ts'', POpt PIso (fill_event_open_ts r)),
      (''fill_event_source_ts'', POpt PIso (fill_event_source_ts r)),
      (''fill_mode'', PStr (ExecutionFillMode_value (fill_mode r))),
      (''fill_price'', POpt PDec (fill_price r)),
      (''fill_raw_payload_id'', POpt PStr (fill_raw_payload_id r)),
      (''filled_quantity'', PDec (filled_quantity r)),
      (''gateway_kind'', PStr (ExecutionGatewayKind_value (gateway_kind r))),
      (''gateway_order_id'', POpt PStr (gateway_order_id r)),
      (''gateway_quantity'', PDec (gateway_quantity r)),
      (''instrument_id'', PStr (instrument_id r)),
      (''latency_bars'', PInt (latency_bars r)),
      (''order_type'', PStr (OrderType_value (order_type r))),
      (''reference_notional'', PDec (reference_notional r)),
      (''remaining_quantity'', PDec (remaining_quantity r)),
      (''replay_order_result_id'', POpt PStr (replay_order_result_id r)),
      (''replay_reject_reason'', POpt (\<lambda>x. PStr (ReplayRejectReason_value x)) (replay_reject_reason r)),
      (''replay_status'', POpt (\<lambda>x. PStr (ReplayFillStatus_value x)) (replay_status r)),
      (''requested_quantity'', PDec (requested_quantity r)),
      (''requirement_ids'', PStrs (requirement_ids r)),
      (''risk_check_hash'', PStr (risk_check_hash r)),
      (''risk_check_id'', PStr (risk_check_id r)),
      (''risk_decision'', PStr (RiskDecisionStatus_value (risk_decision r))),
      (''risk_reason_codes'', PList (map (\<lambda>x. PStr (RiskReasonCode_value x)) (risk_reason_codes r))),
      (''run_id'', PStr (run_id r)),
      (''side'', PStr (OrderSide_value (side r))),
      (''slippage_cost'', PDec (slippage_cost r)),
      (''source_decision_id'', PStr (source_decision_id r)),
      (''spread_cost'', PDec (spread_cost r)),
      (''status'', PStr (ExecutionGatewayOrderStatus_value (status r))),
      (''submitted_at'', PIso (submitted_at r)),
      (''total_cost'', PDec (total_cost r)),
      (''trace_id'', PStr (trace_id r)),
      (''venue_id'', PStr (venue_id r))])"

definition build_execution_gateway_event_id :: "digest \<Rightarrow> string \<Rightarrow> string" where
  "build_execution_gateway_event_id H h = stable_id H ''GATEWAYEVENT'' (PObj [(''gateway_event_hash'', PStr h)])"

text \<open>The field constraints and the validator \<open>lifecycle_event_is_consistent_and_deterministic\<close>.\<close>

definition gateway_event_checks :: "digest \<Rightarrow> ExecutionGatewayLifecycleEvent \<Rightarrow> (bool \<times> string) list" where
  "gateway_event_checks H r =
     (let expected = build_execution_gateway_event_hash H r in
      gateway_event_fields r
      @ gateway_fill_mode_checks (gateway_kind r) (fill_mode r)
      @ [((cost_model_id r = None) = (cost_model_hash r = None),
           ''cost_model_id and cost_model_hash must be set together''),
         (dec_eq (total_cost r) (fee_cost r + spread_cost r + slippage_cost r),
           ''total_cost must equal fee_cost plus spread_cost plus slippage_cost''),
         (\<not> (0 < total_cost r \<and> (cost_model_id r = None \<or> cost_model_hash r = None)),
           ''positive execution costs require cost model identity''),
         (dec_eq (remaining_quantity r) (gateway_quantity r - filled_quantity r),
           ''remaining_quantity must equal gateway_quantity minus filled_quantity'')]
      @ (if status r = BLOCKED
         then (\<not> approving (risk_decision r), ''approved risk decisions cannot emit blocked gateway events'')
              # blocked_event_checks r
         else (approving (risk_decision r), ''non-blocked gateway events require approved risk evidence'')
              # replay_backed_event_checks H r)
      @ [(gateway_event_hash r = expected, ''gateway_event_hash is not deterministic''),
         (gateway_event_id r = build_execution_gateway_event_id H expected,
           ''gateway_event_id is not deterministic'')])"

definition construct_ExecutionGatewayLifecycleEvent :: "digest \<Rightarrow> ExecutionGatewayLifecycleEvent \<Rightarrow>
    ExecutionGatewayLifecycleEvent result" where
  "construct_ExecutionGatewayLifecycleEvent H r = checked (gateway_event_checks H r) r"

definition valid_gateway_event :: "digest \<Rightarrow> ExecutionGatewayLifecycleEvent \<Rightarrow> bool" where
  "valid_gateway_event H r \<longleftrightarrow> construct_ExecutionGatewayLifecycleEvent H r = Inr r"

definition gateway_event_json :: "ExecutionGatewayLifecycleEvent \<Rightarrow> payload" where
  "gateway_event_json r = PObj
     [(''gateway_event_id'', PStr (gateway_event_id r)),
      (''gateway_event_hash'', PStr (gateway_event_hash r)),
      (''gateway_order_id'', POpt PStr (gateway_order_id r)),
      (''gateway_kind'', PStr (ExecutionGatewayKind_value (gateway_kind r))),
      (''fill_mode'', PStr (ExecutionFillMode_value (fill_mode r))),
      (''run_id'', PStr (run_id r)),
      (''risk_check_id'', PStr (risk_check_id r)),
      (''risk_check_hash'', PStr (risk_check_hash r)),
      (''risk_decision'', PStr (RiskDecisionStatus_value (risk_decision r))),
      (''risk_reason_codes'', PList (map (\<lambda>x. PStr (RiskReasonCode_value x)) (risk_reason_codes r))),
      (''client_order_id'', PStr (client_order_id r)),
      (''trace_id'', PStr (trace_id r)),
      (''source_decision_id'', PStr (source_decision_id r)),
      (''instrument_id'', PStr (instrument_id r)),
      (''venue_id'', PStr (venue_id r)),
      (''side'', PStr (OrderSide_value (side r))),
      (''order_type'', PStr (OrderType_value (order_type r))),
      (''requested_quantity'', PDec (requested_quantity r)),
      (''gateway_quantity'', PDec (gateway_quantity r)),
      (''submitted_at'', PJsonTime (submitted_at r)),
      (''status'', PStr (ExecutionGatewayOrderStatus_value (status r))),
      (''replay_order_result_id'', POpt PStr (replay_order_result_id r)),
      (''replay_status'', POpt (\<lambda>x. PStr (ReplayFillStatus_value x)) (replay_status r)),
      (''replay_reject_reason'', POpt (\<lambda>x. PStr (ReplayRejectReason_value x)) (replay_reject_reason r)),
      (''fill_price'', POpt PDec (fill_price r)),
      (''filled_quantity'', PDec (filled_quantity r)),
      (''remaining_quantity'', PDec (remaining_quantity r)),
      (''fill_event_open_ts'', POpt PJsonTime (fill_event_open_ts r)),
      (''fill_event_close_ts'', POpt PJsonTime (fill_event_close_ts r)),
      (''fill_event_source_ts'', POpt PJsonTime (fill_event_source_ts r)),
      (''fill_raw_payload_id'', POpt PStr (fill_raw_payload_id r)),
      (''cost_model_id'', POpt PStr (cost_model_id r)),
      (''cost_model_hash'', POpt PStr (cost_model_hash r)),
      (''latency_bars'', PInt (latency_bars r)),
      (''eligible_event_index'', POpt PInt (eligible_event_index r)),
      (''fill_attempt_event_index'', POpt PInt (fill_attempt_event_index r)),
      (''arrival_reference_price'', POpt PDec (arrival_reference_price r)),
      (''effective_fill_price'', POpt PDec (effective_fill_price r)),
      (''reference_notional'', PDec (reference_notional r)),
      (''effective_notional'', PDec (effective_notional r)),
      (''fee_cost'', PDec (fee_cost r)),
      (''spread_cost'', PDec (spread_cost r)),
      (''slippage_cost'', PDec (slippage_cost r)),
      (''total_cost'', PDec (total_cost r)),
      (''requirement_ids'', PStrs (requirement_ids r))]"

text \<open>The draft of \<open>make_execution_gateway_lifecycle_event\<close>: a blocked event without a replay
  result, otherwise one that copies the result.\<close>

definition blocked_event_draft :: "ExecutionGatewayKind \<Rightarrow> ExecutionFillMode \<Rightarrow> string \<Rightarrow> RiskCheckEvent \<Rightarrow>
    OrderIntent \<Rightarrow> string list \<Rightarrow> ExecutionGatewayLifecycleEvent" where
  "blocked_event_draft k m run e i reqs =
     \<lparr>ExecutionGatewayLifecycleEvent.gateway_event_id = ''GATEWAYEVENT:PLACEHOLDER'',
      gateway_event_hash = zero_hash, gateway_order_id = None, gateway_kind = k, fill_mode = m,
      run_id = run, risk_check_id = RiskCheckEvent.risk_check_id e,
      risk_check_hash = RiskCheckEvent.risk_check_hash e, risk_decision = final_decision e,
      risk_reason_codes = RiskCheckEvent.reason_codes e, client_order_id = OrderIntent.client_order_id i,
      trace_id = OrderIntent.trace_id i, source_decision_id = OrderIntent.source_decision_id i,
      instrument_id = OrderIntent.instrument_id i, venue_id = OrderIntent.venue_id i,
      side = OrderIntent.side i, order_type = OrderIntent.order_type i,
      requested_quantity = OrderIntent.quantity (order_intent (request e)),
      gateway_quantity = OrderIntent.quantity i, submitted_at = OrderIntent.submitted_at i,
      status = BLOCKED, replay_order_result_id = None, replay_status = None,
      replay_reject_reason = None, fill_price = None, filled_quantity = 0,
      remaining_quantity = OrderIntent.quantity i, fill_event_open_ts = None,
      fill_event_close_ts = None, fill_event_source_ts = None, fill_raw_payload_id = None,
      cost_model_id = None, cost_model_hash = None, latency_bars = 0, eligible_event_index = None,
      fill_attempt_event_index = None, arrival_reference_price = None, effective_fill_price = None,
      reference_notional = 0, effective_notional = 0, fee_cost = 0, spread_cost = 0,
      slippage_cost = 0, total_cost = 0, requirement_ids = reqs\<rparr>"

definition replayed_event_draft :: "ReplayOrderResult \<Rightarrow> string \<Rightarrow> ExecutionGatewayLifecycleEvent \<Rightarrow>
    ExecutionGatewayLifecycleEvent" where
  "replayed_event_draft x oid d = d\<lparr>gateway_order_id := Some oid,
      status := replay_to_gateway_status (ReplayOrderResult.status x),
      replay_order_result_id := Some (ReplayOrderResult.replay_order_result_id x),
      replay_status := Some (ReplayOrderResult.status x),
      replay_reject_reason := ReplayOrderResult.reason x,
      fill_price := ReplayOrderResult.fill_price x,
      filled_quantity := ReplayOrderResult.filled_quantity x,
      remaining_quantity := ReplayOrderResult.remaining_quantity x,
      fill_event_open_ts := ReplayOrderResult.fill_event_open_ts x,
      fill_event_close_ts := ReplayOrderResult.fill_event_close_ts x,
      fill_event_source_ts := ReplayOrderResult.fill_event_source_ts x,
      fill_raw_payload_id := ReplayOrderResult.fill_raw_payload_id x,
      cost_model_id := ReplayOrderResult.cost_model_id x,
      cost_model_hash := ReplayOrderResult.cost_model_hash x,
      latency_bars := ReplayOrderResult.latency_bars x,
      eligible_event_index := ReplayOrderResult.eligible_event_index x,
      fill_attempt_event_index := ReplayOrderResult.fill_attempt_event_index x,
      arrival_reference_price := ReplayOrderResult.arrival_reference_price x,
      effective_fill_price := ReplayOrderResult.effective_fill_price x,
      reference_notional := ReplayOrderResult.reference_notional x,
      effective_notional := ReplayOrderResult.effective_notional x,
      fee_cost := ReplayOrderResult.fee_cost x, spread_cost := ReplayOrderResult.spread_cost x,
      slippage_cost := ReplayOrderResult.slippage_cost x, total_cost := ReplayOrderResult.total_cost x\<rparr>"

definition finish_gateway_event :: "digest \<Rightarrow> ExecutionGatewayLifecycleEvent \<Rightarrow> ExecutionGatewayLifecycleEvent result" where
  "finish_gateway_event H d =
     (let h = build_execution_gateway_event_hash H d in construct_ExecutionGatewayLifecycleEvent H
        (d\<lparr>gateway_event_id := build_execution_gateway_event_id H h, gateway_event_hash := h\<rparr>))"

definition make_execution_gateway_lifecycle_event :: "digest \<Rightarrow> ExecutionGatewayKind \<Rightarrow> ExecutionFillMode \<Rightarrow>
    string \<Rightarrow> RiskCheckEvent \<Rightarrow> ReplayOrderResult option \<Rightarrow> string list \<Rightarrow>
    ExecutionGatewayLifecycleEvent result" where
  "make_execution_gateway_lifecycle_event H k m run e x reqs =
     bindE (validate_gateway_fill_mode k m) (\<lambda>_.
     case x of
       None \<Rightarrow> finish_gateway_event H (blocked_event_draft k m run e (order_intent (request e)) reqs)
     | Some y \<Rightarrow>
         (case approved_order_intent e of
            None \<Rightarrow> Inl (ValueError ''replay-backed gateway events require approved risk intent'')
          | Some i \<Rightarrow> finish_gateway_event H (replayed_event_draft y
              (build_execution_gateway_order_id_from_parts H k run (RiskCheckEvent.risk_check_id e)
                 (OrderIntent.client_order_id i)) (blocked_event_draft k m run e i reqs))))"

section \<open>Gateway reports\<close>

record ExecutionGatewayReport =
  gateway_report_id :: string
  gateway_report_hash :: string
  run_id :: string
  gateway_kind :: ExecutionGatewayKind
  fill_mode :: ExecutionFillMode
  risk_check_ids :: "string list"
  approved_risk_check_ids :: "string list"
  blocked_risk_check_ids :: "string list"
  gateway_event_ids :: "string list"
  events :: "ExecutionGatewayLifecycleEvent list"
  source_risk_gated_replay_result_id :: string
  source_risk_gated_replay_result_hash :: string
  source_replay_report_id :: "string option"
  source_replay_report_hash :: "string option"
  source_replay_final_account_state_id :: "string option"
  source_replay_final_account_state_hash :: "string option"
  source_replay_final_account_state :: "SimulatedAccountState option"
  requirement_ids :: "string list"

definition gateway_report_fields :: "digest \<Rightarrow> ExecutionGatewayReport \<Rightarrow> (bool \<times> string) list" where
  "gateway_report_fields H r =
     [(canonical_id (gateway_report_id r), ''gateway_report_id''),
      (hex64 (gateway_report_hash r), ''gateway_report_hash''),
      (canonical_id (run_id r), ''run_id''),
      (list_all canonical_id (risk_check_ids r), ''risk_check_ids''),
      (list_all canonical_id (approved_risk_check_ids r), ''approved_risk_check_ids''),
      (list_all canonical_id (blocked_risk_check_ids r), ''blocked_risk_check_ids''),
      (list_all canonical_id (gateway_event_ids r), ''gateway_event_ids''),
      (list_all (valid_gateway_event H) (events r), ''events''),
      (canonical_id (source_risk_gated_replay_result_id r), ''source_risk_gated_replay_result_id''),
      (hex64 (source_risk_gated_replay_result_hash r), ''source_risk_gated_replay_result_hash''),
      (opt_all canonical_id (source_replay_report_id r), ''source_replay_report_id''),
      (opt_all hex64 (source_replay_report_hash r), ''source_replay_report_hash''),
      (opt_all canonical_id (source_replay_final_account_state_id r), ''source_replay_final_account_state_id''),
      (opt_all hex64 (source_replay_final_account_state_hash r), ''source_replay_final_account_state_hash''),
      (opt_all valid_account_state (source_replay_final_account_state r), ''source_replay_final_account_state''),
      (list_all non_empty_string (requirement_ids r), ''requirement_ids'')]"

definition build_execution_gateway_report_hash :: "digest \<Rightarrow> ExecutionGatewayReport \<Rightarrow> string" where
  "build_execution_gateway_report_hash H r = H (PObj
     [(''approved_risk_check_ids'', PStrs (approved_risk_check_ids r)),
      (''blocked_risk_check_ids'', PStrs (blocked_risk_check_ids r)),
      (''events'', PList (map gateway_event_json (events r))),
      (''fill_mode'', PStr (ExecutionFillMode_value (fill_mode r))),
      (''gateway_event_ids'', PStrs (gateway_event_ids r)),
      (''gateway_kind'', PStr (ExecutionGatewayKind_value (gateway_kind r))),
      (''requirement_ids'', PStrs (requirement_ids r)),
      (''risk_check_ids'', PStrs (risk_check_ids r)),
      (''run_id'', PStr (run_id r)),
      (''source_replay_final_account_state'', POpt account_state_json (source_replay_final_account_state r)),
      (''source_replay_final_account_state_hash'', POpt PStr (source_replay_final_account_state_hash r)),
      (''source_replay_final_account_state_id'', POpt PStr (source_replay_final_account_state_id r)),
      (''source_replay_report_hash'', POpt PStr (source_replay_report_hash r)),
      (''source_replay_report_id'', POpt PStr (source_replay_report_id r)),
      (''source_risk_gated_replay_result_hash'', PStr (source_risk_gated_replay_result_hash r)),
      (''source_risk_gated_replay_result_id'', PStr (source_risk_gated_replay_result_id r))])"

definition gateway_report_json :: "ExecutionGatewayReport \<Rightarrow> payload" where
  "gateway_report_json r = PObj
     [(''gateway_report_id'', PStr (gateway_report_id r)),
      (''gateway_report_hash'', PStr (gateway_report_hash r)),
      (''run_id'', PStr (run_id r)),
      (''gateway_kind'', PStr (ExecutionGatewayKind_value (gateway_kind r))),
      (''fill_mode'', PStr (ExecutionFillMode_value (fill_mode r))),
      (''risk_check_ids'', PStrs (risk_check_ids r)),
      (''approved_risk_check_ids'', PStrs (approved_risk_check_ids r)),
      (''blocked_risk_check_ids'', PStrs (blocked_risk_check_ids r)),
      (''gateway_event_ids'', PStrs (gateway_event_ids r)),
      (''events'', PList (map gateway_event_json (events r))),
      (''source_risk_gated_replay_result_id'', PStr (source_risk_gated_replay_result_id r)),
      (''source_risk_gated_replay_result_hash'', PStr (source_risk_gated_replay_result_hash r)),
      (''source_replay_report_id'', POpt PStr (source_replay_report_id r)),
      (''source_replay_report_hash'', POpt PStr (source_replay_report_hash r)),
      (''source_replay_final_account_state_id'', POpt PStr (source_replay_final_account_state_id r)),
      (''source_replay_final_account_state_hash'', POpt PStr (source_replay_final_account_state_hash r)),
      (''source_replay_final_account_state'', POpt account_state_json (source_replay_final_account_state r)),
      (''requirement_ids'', PStrs (requirement_ids r))]"

definition build_execution_gateway_report_id :: "digest \<Rightarrow> string \<Rightarrow> string" where
  "build_execution_gateway_report_id H h = stable_id H ''GATEWAYREPORT'' (PObj [(''gateway_report_hash'', PStr h)])"

definition build_execution_gateway_account_state_hash :: "digest \<Rightarrow> SimulatedAccountState \<Rightarrow> string" where
  "build_execution_gateway_account_state_hash H a = H (account_state_json a)"

definition build_execution_gateway_account_state_id :: "digest \<Rightarrow> string \<Rightarrow> string" where
  "build_execution_gateway_account_state_id H h =
     stable_id H ''GATEWAYACCOUNTSTATE'' (PObj [(''account_state_hash'', PStr h)])"

text \<open>The checks of \<open>_validate_final_account_state_linkage\<close>.\<close>

definition account_linkage_checks :: "digest \<Rightarrow> ExecutionGatewayReport \<Rightarrow> (bool \<times> string) list" where
  "account_linkage_checks H r =
     (if source_replay_report_id r = None then
        [(source_replay_final_account_state_id r = None \<and> source_replay_final_account_state_hash r = None
            \<and> source_replay_final_account_state r = None,
          ''blocked-only gateway reports must not carry source replay account state'')]
      else (case source_replay_final_account_state r of
        None \<Rightarrow>
          [(source_replay_final_account_state_id r = None \<and> source_replay_final_account_state_hash r = None,
            ''source replay account state id/hash require embedded account state'')]
      | Some a \<Rightarrow> let expected = build_execution_gateway_account_state_hash H a in
          [(source_replay_final_account_state_hash r = Some expected,
            ''source replay final account state hash is not deterministic''),
           (source_replay_final_account_state_id r = Some (build_execution_gateway_account_state_id H expected),
            ''source replay final account state id is not deterministic'')]))"

definition is_blocked :: "ExecutionGatewayLifecycleEvent \<Rightarrow> bool" where
  "is_blocked v \<longleftrightarrow> ExecutionGatewayLifecycleEvent.status v = BLOCKED"

definition report_event_checks :: "ExecutionGatewayReport \<Rightarrow> (bool \<times> string) list" where
  "report_event_checks r = concat (map (\<lambda>v.
     [(ExecutionGatewayLifecycleEvent.run_id v = run_id r, ''event run_id must match gateway report''),
      (ExecutionGatewayLifecycleEvent.gateway_kind v = gateway_kind r
         \<and> ExecutionGatewayLifecycleEvent.fill_mode v = fill_mode r,
        ''event gateway kind/fill mode must match gateway report''),
      (ExecutionGatewayLifecycleEvent.requirement_ids v = requirement_ids r,
        ''event requirement_ids must match gateway report'')]) (events r))"

text \<open>The field constraints and the validator \<open>lifecycle_report_is_consistent_and_deterministic\<close>.\<close>

definition gateway_report_checks :: "digest \<Rightarrow> ExecutionGatewayReport \<Rightarrow> (bool \<times> string) list" where
  "gateway_report_checks H r =
     (let partition = approved_risk_check_ids r @ blocked_risk_check_ids r;
          expected = build_execution_gateway_report_hash H r
      in
      gateway_report_fields H r
      @ gateway_fill_mode_checks (gateway_kind r) (fill_mode r)
      @ [(gateway_event_ids r = map gateway_event_id (events r), ''gateway_event_ids must match events''),
         (risk_check_ids r = map ExecutionGatewayLifecycleEvent.risk_check_id (events r),
           ''risk_check_ids must match lifecycle events''),
         (approved_risk_check_ids r = map ExecutionGatewayLifecycleEvent.risk_check_id
             (filter (\<lambda>v. \<not> is_blocked v) (events r)),
           ''approved_risk_check_ids must match non-blocked events''),
         (blocked_risk_check_ids r = map ExecutionGatewayLifecycleEvent.risk_check_id
             (filter is_blocked (events r)),
           ''blocked_risk_check_ids must match blocked events''),
         (\<not> (length partition \<noteq> length (risk_check_ids r) \<or> set partition \<noteq> set (risk_check_ids r)),
           ''gateway risk ids must partition input risk checks'')]
      @ report_event_checks r
      @ [((source_replay_report_id r = None) = (source_replay_report_hash r = None),
           ''source replay report id/hash must be set together'')]
      @ account_linkage_checks H r
      @ [(\<not> (approved_risk_check_ids r \<noteq> [] \<and> source_replay_report_id r = None),
           ''approved gateway reports require a source replay report''),
         (\<not> (approved_risk_check_ids r = [] \<and> source_replay_report_id r \<noteq> None),
           ''blocked-only gateway reports must not carry a source replay report''),
         (gateway_report_hash r = expected, ''gateway_report_hash is not deterministic''),
         (gateway_report_id r = build_execution_gateway_report_id H expected,
           ''gateway_report_id is not deterministic'')])"

definition construct_ExecutionGatewayReport :: "digest \<Rightarrow> ExecutionGatewayReport \<Rightarrow> ExecutionGatewayReport result" where
  "construct_ExecutionGatewayReport H r = checked (gateway_report_checks H r) r"

definition valid_gateway_report :: "digest \<Rightarrow> ExecutionGatewayReport \<Rightarrow> bool" where
  "valid_gateway_report H r \<longleftrightarrow> construct_ExecutionGatewayReport H r = Inr r"

definition gateway_report_draft :: "digest \<Rightarrow> string \<Rightarrow> ExecutionGatewayKind \<Rightarrow> ExecutionFillMode \<Rightarrow>
    RiskGatedReplayResult \<Rightarrow> ExecutionGatewayLifecycleEvent list \<Rightarrow> string list \<Rightarrow> ExecutionGatewayReport" where
  "gateway_report_draft H run k m g evs reqs =
     (let final = Option.bind (replay_report g) final_account_state;
          final_hash = map_option (build_execution_gateway_account_state_hash H) final
      in \<lparr>ExecutionGatewayReport.gateway_report_id = ''GATEWAYREPORT:PLACEHOLDER'',
           gateway_report_hash = zero_hash, run_id = run, gateway_kind = k, fill_mode = m,
           risk_check_ids = RiskGatedReplayResult.risk_check_ids g,
           approved_risk_check_ids = RiskGatedReplayResult.approved_risk_check_ids g,
           blocked_risk_check_ids = RiskGatedReplayResult.blocked_risk_check_ids g,
           gateway_event_ids = map gateway_event_id evs, events = evs,
           source_risk_gated_replay_result_id = result_id g,
           source_risk_gated_replay_result_hash = result_hash g,
           source_replay_report_id = map_option replay_report_id (replay_report g),
           source_replay_report_hash = map_option replay_report_hash (replay_report g),
           source_replay_final_account_state_id =
             map_option (build_execution_gateway_account_state_id H) final_hash,
           source_replay_final_account_state_hash = final_hash,
           source_replay_final_account_state = final, requirement_ids = reqs\<rparr>)"

definition make_execution_gateway_report :: "digest \<Rightarrow> string \<Rightarrow> ExecutionGatewayKind \<Rightarrow> ExecutionFillMode \<Rightarrow>
    RiskGatedReplayResult \<Rightarrow> ExecutionGatewayLifecycleEvent list \<Rightarrow> string list \<Rightarrow> ExecutionGatewayReport result" where
  "make_execution_gateway_report H run k m g evs reqs =
     bindE (validate_gateway_fill_mode k m) (\<lambda>_.
     let draft = gateway_report_draft H run k m g evs reqs;
         h = build_execution_gateway_report_hash H draft
     in construct_ExecutionGatewayReport H
          (draft\<lparr>gateway_report_id := build_execution_gateway_report_id H h, gateway_report_hash := h\<rparr>))"

end
