(* ===== verification/Gateway.thy ===== *)
theory Gateway
  imports RiskGate GatewayContracts
begin

text \<open>
  The simulator and paper gateways, \<open>execution/gateway.py\<close>: both run the risk-gated replay,
  pair its results with the approved risk checks and report one lifecycle event for each check.
  The theory shows what the events say, that the two gateways cannot differ in outcome, and that
  a run over valid inputs returns.
\<close>

section \<open>The gateways\<close>

text \<open>The dictionary from approved risk ids to replay results; a repeated id keeps the last.\<close>

definition replay_results_by_risk_id :: "RiskCheckEvent list \<Rightarrow> ReplayOrderResult list \<Rightarrow>
    (string \<rightharpoonup> ReplayOrderResult) result" where
  "replay_results_by_risk_id es rs =
     (let ids = map RiskCheckEvent.risk_check_id (filter forwarded es)
      in guardE (length ids = length rs)
           (ValueError ''approved risk events and replay results must align'')
           (Inr (map_of (rev (zip ids rs)))))"

definition run_risk_gated_gateway :: "digest \<Rightarrow> OHLCTVBar list \<Rightarrow> RiskCheckEvent list \<Rightarrow> string \<Rightarrow>
    ExecutionGatewayKind \<Rightarrow> ExecutionFillMode \<Rightarrow> string list \<Rightarrow> ExecutionCostModel option \<Rightarrow>
    InstrumentMasterSnapshot option \<Rightarrow> SimulatedAccountState option \<Rightarrow> ExecutionGatewayReport result" where
  "run_risk_gated_gateway H bs es run k m reqs cost s a =
     bindE (replay_risk_approved_market_orders H bs es run cost s a) (\<lambda>g.
     bindE (replay_results_by_risk_id es
              (case replay_report g of None \<Rightarrow> [] | Some rep \<Rightarrow> results rep)) (\<lambda>by_id.
     bindE (mapE (\<lambda>e. make_execution_gateway_lifecycle_event H k m run e
              (by_id (RiskCheckEvent.risk_check_id e)) reqs) es) (\<lambda>evs.
     make_execution_gateway_report H run k m g evs reqs)))"

definition simulator_requirements :: "string list" where
  "simulator_requirements = [''FR-010'', ''FR-012'', ''NFR-004'', ''TFR-008'']"

definition paper_requirements :: "string list" where
  "paper_requirements = [''FR-010'', ''FR-013'', ''NFR-004'', ''TFR-008'']"

definition run_simulator_gateway_replay :: "digest \<Rightarrow> OHLCTVBar list \<Rightarrow> RiskCheckEvent list \<Rightarrow> string \<Rightarrow>
    ExecutionCostModel option \<Rightarrow> InstrumentMasterSnapshot option \<Rightarrow> SimulatedAccountState option \<Rightarrow>
    ExecutionGatewayReport result" where
  "run_simulator_gateway_replay H bs es run =
     run_risk_gated_gateway H bs es run SIMULATOR EVENT_TIME_REPLAY simulator_requirements"

definition run_paper_gateway_replay :: "digest \<Rightarrow> OHLCTVBar list \<Rightarrow> RiskCheckEvent list \<Rightarrow> string \<Rightarrow>
    ExecutionCostModel option \<Rightarrow> InstrumentMasterSnapshot option \<Rightarrow> SimulatedAccountState option \<Rightarrow>
    ExecutionGatewayReport result" where
  "run_paper_gateway_replay H bs es run =
     run_risk_gated_gateway H bs es run PAPER PAPER_SIMULATED_FILL paper_requirements"

section \<open>What an event says\<close>

definition with_event_identity :: "digest \<Rightarrow> ExecutionGatewayLifecycleEvent \<Rightarrow> ExecutionGatewayLifecycleEvent" where
  "with_event_identity H d = d\<lparr>gateway_event_id := build_execution_gateway_event_id H (build_execution_gateway_event_hash H d),
     gateway_event_hash := build_execution_gateway_event_hash H d\<rparr>"

lemma event_hash_draft [simp]:
  "build_execution_gateway_event_hash H (d\<lparr>gateway_event_id := x, gateway_event_hash := y\<rparr>)
     = build_execution_gateway_event_hash H d"
  by (simp add: build_execution_gateway_event_hash_def)

lemma finish_event_Inr: "finish_gateway_event H d = Inr v \<Longrightarrow>
    v = with_event_identity H d \<and> valid_gateway_event H v"
  by (auto simp: finish_gateway_event_def with_event_identity_def valid_gateway_event_def Let_def
      construct_ExecutionGatewayLifecycleEvent_def)

lemma make_event_cases:
  assumes "make_execution_gateway_lifecycle_event H k m run e x reqs = Inr v"
  obtains (blocked) "x = None" "v = with_event_identity H (blocked_event_draft k m run e (order_intent (request e)) reqs)"
      "\<not> approving (final_decision e)" "valid_gateway_event H v"
  | (replayed) y i where "x = Some y" "approved_order_intent e = Some i" "approving (final_decision e)"
      "v = with_event_identity H (replayed_event_draft y
         (build_execution_gateway_order_id_from_parts H k run (RiskCheckEvent.risk_check_id e)
            (OrderIntent.client_order_id i)) (blocked_event_draft k m run e i reqs))" "valid_gateway_event H v"
proof (cases x)
  case None
  then have f: "finish_gateway_event H (blocked_event_draft k m run e (order_intent (request e)) reqs) = Inr v"
    using assms by (simp add: make_execution_gateway_lifecycle_event_def bindE_Inr_iff)
  have "\<not> approving (final_decision e)"
    using finish_event_Inr [OF f] by (auto simp: with_event_identity_def valid_gateway_event_def
        construct_ExecutionGatewayLifecycleEvent_def gateway_event_checks_def Let_def blocked_event_draft_def)
  then show ?thesis using finish_event_Inr [OF f] blocked None by blast
next
  case (Some y)
  then obtain i where i: "approved_order_intent e = Some i"
    using assms by (cases "approved_order_intent e")
      (auto simp: make_execution_gateway_lifecycle_event_def bindE_Inr_iff)
  have f: "finish_gateway_event H (replayed_event_draft y
      (build_execution_gateway_order_id_from_parts H k run (RiskCheckEvent.risk_check_id e)
         (OrderIntent.client_order_id i)) (blocked_event_draft k m run e i reqs)) = Inr v"
    using assms Some i by (simp add: make_execution_gateway_lifecycle_event_def bindE_Inr_iff)
  have "replay_to_gateway_status (ReplayOrderResult.status y) \<noteq> BLOCKED"
    by (cases "ReplayOrderResult.status y") simp_all
  then have "approving (final_decision e)"
    using finish_event_Inr [OF f] by (auto simp: with_event_identity_def valid_gateway_event_def
        construct_ExecutionGatewayLifecycleEvent_def gateway_event_checks_def Let_def blocked_event_draft_def replayed_event_draft_def)
  then show ?thesis using finish_event_Inr [OF f] replayed Some i by blast
qed

text \<open>What an event shows of a risk check the gate stopped, and of one it replayed.\<close>

definition shows_block :: "RiskCheckEvent \<Rightarrow> ExecutionGatewayLifecycleEvent \<Rightarrow> bool" where
  "shows_block e v \<longleftrightarrow> is_blocked v \<and> gateway_order_id v = None
     \<and> ExecutionGatewayLifecycleEvent.filled_quantity v = 0
     \<and> ExecutionGatewayLifecycleEvent.client_order_id v = OrderIntent.client_order_id (order_intent (request e))"

definition shows_result :: "OrderIntent \<Rightarrow> ReplayOrderResult \<Rightarrow> ExecutionGatewayLifecycleEvent \<Rightarrow> bool" where
  "shows_result i x v \<longleftrightarrow> gateway_order_id v \<noteq> None
     \<and> ExecutionGatewayLifecycleEvent.client_order_id v = OrderIntent.client_order_id i
     \<and> gateway_quantity v = OrderIntent.quantity i
     \<and> ExecutionGatewayLifecycleEvent.replay_order_result_id v = Some (ReplayOrderResult.replay_order_result_id x)
     \<and> ExecutionGatewayLifecycleEvent.status v = replay_to_gateway_status (ReplayOrderResult.status x)
     \<and> replay_reject_reason v = ReplayOrderResult.reason x
     \<and> ExecutionGatewayLifecycleEvent.filled_quantity v = ReplayOrderResult.filled_quantity x
     \<and> ExecutionGatewayLifecycleEvent.fill_price v = ReplayOrderResult.fill_price x
     \<and> ExecutionGatewayLifecycleEvent.total_cost v = ReplayOrderResult.total_cost x"

lemma shows_result_unblocked: "shows_result i x v \<Longrightarrow> \<not> is_blocked v"
  by (cases "ReplayOrderResult.status x") (simp_all add: shows_result_def is_blocked_def)

lemma make_event_shows:
  assumes "make_execution_gateway_lifecycle_event H k m run e x reqs = Inr v"
  shows "case x of None \<Rightarrow> \<not> forwarded e \<and> shows_block e v
    | Some y \<Rightarrow> \<exists>i. approved_order_intent e = Some i \<and> forwarded e \<and> shows_result i y v"
    and "ExecutionGatewayLifecycleEvent.risk_check_id v = RiskCheckEvent.risk_check_id e"
    and "requested_quantity v = OrderIntent.quantity (order_intent (request e))"
    and "valid_gateway_event H v"
  using assms by (cases rule: make_event_cases;
      simp add: shows_block_def shows_result_def forwarded_def is_blocked_def with_event_identity_def
        blocked_event_draft_def replayed_event_draft_def)+

lemma lookup_result:
  assumes "list_all2 P xs rs" "distinct (map f xs)" "e \<in> set xs"
  shows "\<exists>x \<in> set rs. map_of (rev (zip (map f xs) rs)) (f e) = Some x \<and> P e x"
proof -
  have len: "length xs = length rs" using assms(1) by (rule list_all2_lengthD)
  obtain n where n: "n < length xs" "e = xs ! n" using assms(3) by (metis in_set_conv_nth)
  have "(f e, rs ! n) \<in> set (zip (map f xs) rs)" using n len
    by (auto simp: set_zip intro!: exI [of _ n])
  moreover have "distinct (map fst (rev (zip (map f xs) rs)))" using assms(2) len by (simp add: rev_map [symmetric])
  ultimately have "map_of (rev (zip (map f xs) rs)) (f e) = Some (rs ! n)"
    by (intro map_of_is_SomeI) simp_all
  then show ?thesis using n len list_all2_nthD [OF assms(1), of n] by auto
qed

lemma gateway_parts:
  assumes "run_risk_gated_gateway H bs es run k m reqs cost s a = Inr r"
  obtains g where "replay_risk_approved_market_orders H bs es run cost s a = Inr g"
    "length (filter forwarded es) = length (case replay_report g of None \<Rightarrow> [] | Some rep \<Rightarrow> results rep)"
    "list_all2 (\<lambda>e v. make_execution_gateway_lifecycle_event H k m run e
       (map_of (rev (zip (map RiskCheckEvent.risk_check_id (filter forwarded es))
          (case replay_report g of None \<Rightarrow> [] | Some rep \<Rightarrow> results rep))) (RiskCheckEvent.risk_check_id e)) reqs = Inr v)
     es (events r)"
    "make_execution_gateway_report H run k m g (events r) reqs = Inr r"
proof -
  have ev: "make_execution_gateway_report H run k m g evs reqs = Inr r \<Longrightarrow> events r = evs" for g evs
    by (auto simp: make_execution_gateway_report_def construct_ExecutionGatewayReport_def gateway_report_draft_def Let_def bindE_Inr_iff)
  obtain g where g: "replay_risk_approved_market_orders H bs es run cost s a = Inr g"
    "bindE (replay_results_by_risk_id es (case replay_report g of None \<Rightarrow> [] | Some rep \<Rightarrow> results rep)) (\<lambda>by_id.
     bindE (mapE (\<lambda>e. make_execution_gateway_lifecycle_event H k m run e
              (by_id (RiskCheckEvent.risk_check_id e)) reqs) es) (\<lambda>evs.
     make_execution_gateway_report H run k m g evs reqs)) = Inr r"
    using assms unfolding run_risk_gated_gateway_def bindE_Inr_iff by blast
  obtain by_id evs where e: "replay_results_by_risk_id es (case replay_report g of None \<Rightarrow> [] | Some rep \<Rightarrow> results rep) = Inr by_id"
    "mapE (\<lambda>e. make_execution_gateway_lifecycle_event H k m run e
              (by_id (RiskCheckEvent.risk_check_id e)) reqs) es = Inr evs"
    "make_execution_gateway_report H run k m g evs reqs = Inr r"
    using g(2) unfolding bindE_Inr_iff by blast
  note e(1) [unfolded replay_results_by_risk_id_def Let_def guardE_Inr_iff length_map]
  then show thesis
    using that [OF g(1)] e(2,3) ev [OF e(3)] unfolding mapE_Inr_iff by simp
qed

text \<open>An event with its identity, the gateway's name and the requirements blanked.\<close>

definition outcome :: "ExecutionGatewayLifecycleEvent \<Rightarrow> ExecutionGatewayLifecycleEvent" where
  "outcome v = v\<lparr>gateway_event_id := [], gateway_event_hash := [],
     gateway_order_id := map_option (\<lambda>_. []) (gateway_order_id v),
     ExecutionGatewayLifecycleEvent.gateway_kind := SIMULATOR,
     ExecutionGatewayLifecycleEvent.fill_mode := EVENT_TIME_REPLAY,
     ExecutionGatewayLifecycleEvent.requirement_ids := []\<rparr>"

definition stamped :: "digest \<Rightarrow> string \<Rightarrow> ExecutionGatewayKind \<Rightarrow> ExecutionFillMode \<Rightarrow> string list \<Rightarrow>
    ExecutionGatewayLifecycleEvent \<Rightarrow> bool" where
  "stamped H run k m reqs v \<longleftrightarrow> valid_gateway_event H v \<and> ExecutionGatewayLifecycleEvent.run_id v = run
     \<and> ExecutionGatewayLifecycleEvent.gateway_kind v = k \<and> ExecutionGatewayLifecycleEvent.fill_mode v = m
     \<and> ExecutionGatewayLifecycleEvent.requirement_ids v = reqs"

section \<open>Two runs side by side\<close>

lemma checked_fails: "\<not> list_all fst cs \<Longrightarrow> \<exists>m. checked cs x = Inl m \<and> checked cs y = Inl m"
  by (induction cs) (auto simp: checked.simps)

lemma rel_checked:
  assumes "list_all fst cs \<Longrightarrow> R x y"
  shows "rel_sum (=) R (checked cs x) (checked cs y)"
proof (cases "list_all fst cs")
  case True then show ?thesis using assms by (simp add: checked_returns)
next
  case False then show ?thesis using checked_fails [of cs x y] by auto
qed

lemma rel_bindE:
  assumes "rel_sum (=) R m n" "\<And>x y. m = Inr x \<Longrightarrow> n = Inr y \<Longrightarrow> R x y \<Longrightarrow> rel_sum (=) S (f x) (g y)"
  shows "rel_sum (=) S (bindE m f) (bindE n g)"
  using assms by (cases m; cases n) auto

lemma rel_mapE:
  assumes "\<And>x. x \<in> set xs \<Longrightarrow> rel_sum (=) R (f x) (g x)"
  shows "rel_sum (=) (list_all2 R) (mapE f xs) (mapE g xs)"
  using assms by (induction xs) (auto intro!: rel_bindE)

lemma list_all2_map_eq: "list_all2 R xs ys \<Longrightarrow> (\<And>x y. R x y \<Longrightarrow> f x = g y) \<Longrightarrow> map f xs = map g ys"
  by (induction rule: list_all2_induct) auto

lemma list_all2_filter_eq: "list_all2 R xs ys \<Longrightarrow> (\<And>x y. R x y \<Longrightarrow> f x = f y \<and> P x = P y) \<Longrightarrow>
    map f (filter P xs) = map f (filter P ys)"
  by (induction rule: list_all2_induct) auto

lemma gateway_ids_ok:
  assumes "digest_ok H"
  shows "canonical_id (build_execution_gateway_event_id H h)"
    "canonical_id (build_execution_gateway_order_id_from_parts H k run rid cid)"
    "canonical_id (build_execution_gateway_report_id H h)"
    "canonical_id (build_execution_gateway_account_state_id H h)"
  unfolding build_execution_gateway_event_id_def build_execution_gateway_order_id_from_parts_def
    build_execution_gateway_report_id_def build_execution_gateway_account_state_id_def
  by (rule stable_id_canonical [OF assms]; simp add: canonical_id_def upper_char_def)+

lemma gateway_hashes_ok:
  assumes "digest_ok H"
  shows "hex64 (build_execution_gateway_event_hash H v)" "hex64 (build_execution_gateway_report_hash H r)"
    "hex64 (build_execution_gateway_account_state_hash H a)"
  using assms by (simp_all add: build_execution_gateway_event_hash_def build_execution_gateway_report_hash_def
      build_execution_gateway_account_state_hash_def)

lemma requirements_ok: "list_all non_empty_string simulator_requirements" "list_all non_empty_string paper_requirements"
  by (simp_all add: simulator_requirements_def paper_requirements_def non_empty_string_def strip_def py_space_def)

lemmas gateway_event_defs = construct_ExecutionGatewayLifecycleEvent_def gateway_event_fields_def
  gateway_fill_mode_checks_def blocked_event_checks_def replay_backed_event_checks_def
  filled_event_checks_def unfilled_event_checks_def blocked_event_draft_def replayed_event_draft_def
  build_execution_gateway_order_id_def

lemma order_id_stamped [simp]:
  "build_execution_gateway_order_id H (d\<lparr>gateway_event_id := x, gateway_event_hash := y\<rparr>)
     = build_execution_gateway_order_id H d"
  by (simp add: build_execution_gateway_order_id_def)

definition paired :: "digest \<Rightarrow> string \<Rightarrow> ExecutionGatewayLifecycleEvent \<Rightarrow> ExecutionGatewayLifecycleEvent \<Rightarrow> bool" where
  "paired H run v w \<longleftrightarrow> outcome v = outcome w \<and> stamped H run SIMULATOR EVENT_TIME_REPLAY simulator_requirements v
     \<and> stamped H run PAPER PAPER_SIMULATED_FILL paper_requirements w"

lemma twin_checks:
  assumes "digest_ok H"
    and "c = b\<lparr>gateway_order_id := oid, ExecutionGatewayLifecycleEvent.gateway_kind := PAPER,
      ExecutionGatewayLifecycleEvent.fill_mode := PAPER_SIMULATED_FILL,
      ExecutionGatewayLifecycleEvent.requirement_ids := paper_requirements\<rparr>"
    and "ExecutionGatewayLifecycleEvent.gateway_kind b = SIMULATOR"
      "ExecutionGatewayLifecycleEvent.fill_mode b = EVENT_TIME_REPLAY"
      "ExecutionGatewayLifecycleEvent.requirement_ids b = simulator_requirements"
    and "gateway_order_id b = None \<and> oid = None \<or>
      gateway_order_id b = Some (build_execution_gateway_order_id H b) \<and>
      oid = Some (build_execution_gateway_order_id H c)"
  shows "gateway_event_checks H (with_event_identity H b) = gateway_event_checks H (with_event_identity H c)"
proof -
  note ids = gateway_ids_ok [OF assms(1)] gateway_hashes_ok [OF assms(1)] requirements_ok
  have o: "canonical_id (build_execution_gateway_order_id H v)" for v
    unfolding build_execution_gateway_order_id_def by (rule ids)
  show ?thesis
    using assms(3-6) unfolding assms(2)
    by (auto simp: with_event_identity_def gateway_event_defs gateway_event_checks_def Let_def ids o)
qed

lemma finish_event_twin:
  assumes "digest_ok H"
    and "c = b\<lparr>gateway_order_id := oid, ExecutionGatewayLifecycleEvent.gateway_kind := PAPER,
      ExecutionGatewayLifecycleEvent.fill_mode := PAPER_SIMULATED_FILL,
      ExecutionGatewayLifecycleEvent.requirement_ids := paper_requirements\<rparr>"
    and "ExecutionGatewayLifecycleEvent.run_id b = run"
      "ExecutionGatewayLifecycleEvent.gateway_kind b = SIMULATOR"
      "ExecutionGatewayLifecycleEvent.fill_mode b = EVENT_TIME_REPLAY"
      "ExecutionGatewayLifecycleEvent.requirement_ids b = simulator_requirements"
    and "gateway_order_id b = None \<and> oid = None \<or>
      gateway_order_id b = Some (build_execution_gateway_order_id H b) \<and>
      oid = Some (build_execution_gateway_order_id H c)"
  shows "rel_sum (=) (paired H run) (finish_gateway_event H b) (finish_gateway_event H c)"
proof -
  have f: "finish_gateway_event H d = checked (gateway_event_checks H (with_event_identity H d)) (with_event_identity H d)" for d
    by (simp add: finish_gateway_event_def with_event_identity_def Let_def construct_ExecutionGatewayLifecycleEvent_def)
  note t = twin_checks [OF assms(1,2,4-7)]
  show ?thesis unfolding f t [symmetric]
  proof (rule rel_checked)
    assume "list_all fst (gateway_event_checks H (with_event_identity H b))"
    then have v: "valid_gateway_event H (with_event_identity H b)" "valid_gateway_event H (with_event_identity H c)"
      using t by (simp_all add: valid_gateway_event_def construct_ExecutionGatewayLifecycleEvent_def)
    have "outcome (with_event_identity H b) = outcome (with_event_identity H c)"
    proof -
      have m: "map_option (\<lambda>_. []) oid = map_option (\<lambda>_. []) (gateway_order_id b)" using assms(7) by auto
      show ?thesis unfolding assms(2) by (simp add: outcome_def with_event_identity_def m)
    qed
    then show "paired H run (with_event_identity H b) (with_event_identity H c)"
      using v assms(3-6) by (simp add: paired_def stamped_def) (simp add: assms(2) with_event_identity_def)
  qed
qed

lemma make_event_twin:
  assumes "digest_ok H"
  shows "rel_sum (=) (paired H run)
    (make_execution_gateway_lifecycle_event H SIMULATOR EVENT_TIME_REPLAY run e x simulator_requirements)
    (make_execution_gateway_lifecycle_event H PAPER PAPER_SIMULATED_FILL run e x paper_requirements)"
proof (cases x)
  case None
  have "rel_sum (=) (paired H run)
      (finish_gateway_event H (blocked_event_draft SIMULATOR EVENT_TIME_REPLAY run e i simulator_requirements))
      (finish_gateway_event H (blocked_event_draft PAPER PAPER_SIMULATED_FILL run e i paper_requirements))" for i
    by (rule finish_event_twin [OF assms, where oid = None]) (simp_all add: blocked_event_draft_def)
  with None show ?thesis
    by (simp add: make_execution_gateway_lifecycle_event_def validate_gateway_fill_mode_def gateway_fill_mode_checks_def)
next
  case (Some y)
  let ?oid = "\<lambda>k i. build_execution_gateway_order_id_from_parts H k run (RiskCheckEvent.risk_check_id e)
      (OrderIntent.client_order_id i)"
  have "rel_sum (=) (paired H run)
      (finish_gateway_event H (replayed_event_draft y (?oid SIMULATOR i)
         (blocked_event_draft SIMULATOR EVENT_TIME_REPLAY run e i simulator_requirements)))
      (finish_gateway_event H (replayed_event_draft y (?oid PAPER i)
         (blocked_event_draft PAPER PAPER_SIMULATED_FILL run e i paper_requirements)))" for i
    by (rule finish_event_twin [OF assms, where oid = "Some (?oid PAPER i)"])
      (simp_all add: blocked_event_draft_def replayed_event_draft_def build_execution_gateway_order_id_def)
  with Some show ?thesis
    by (cases "approved_order_intent e")
      (simp_all add: make_execution_gateway_lifecycle_event_def validate_gateway_fill_mode_def gateway_fill_mode_checks_def)
qed

text \<open>Two reports whose events and sources agree.\<close>

definition same_report :: "ExecutionGatewayReport \<Rightarrow> ExecutionGatewayReport \<Rightarrow> bool" where
  "same_report r q \<longleftrightarrow> map outcome (events r) = map outcome (events q)
     \<and> ExecutionGatewayReport.risk_check_ids r = ExecutionGatewayReport.risk_check_ids q
     \<and> ExecutionGatewayReport.approved_risk_check_ids r = ExecutionGatewayReport.approved_risk_check_ids q
     \<and> ExecutionGatewayReport.blocked_risk_check_ids r = ExecutionGatewayReport.blocked_risk_check_ids q
     \<and> source_replay_report_id r = source_replay_report_id q
     \<and> source_replay_final_account_state r = source_replay_final_account_state q"

lemma report_hash_draft [simp]:
  "build_execution_gateway_report_hash H (d\<lparr>gateway_report_id := x, gateway_report_hash := y\<rparr>)
     = build_execution_gateway_report_hash H d"
  by (simp add: build_execution_gateway_report_hash_def)

definition with_report_identity :: "digest \<Rightarrow> ExecutionGatewayReport \<Rightarrow> ExecutionGatewayReport" where
  "with_report_identity H d = d\<lparr>gateway_report_id := build_execution_gateway_report_id H (build_execution_gateway_report_hash H d),
     gateway_report_hash := build_execution_gateway_report_hash H d\<rparr>"

lemma report_identity [simp]:
  "build_execution_gateway_report_hash H (with_report_identity H d) = build_execution_gateway_report_hash H d"
  "gateway_report_hash (with_report_identity H d) = build_execution_gateway_report_hash H d"
  "gateway_report_id (with_report_identity H d) = build_execution_gateway_report_id H (build_execution_gateway_report_hash H d)"
  by (simp_all add: with_report_identity_def)

lemma stamped_events:
  assumes "list_all (stamped H run k m reqs) evs"
  shows "list_all (valid_gateway_event H) evs" "list_all canonical_id (map gateway_event_id evs)"
  using assms
  by (auto simp: list_all_iff stamped_def valid_gateway_event_def
      construct_ExecutionGatewayLifecycleEvent_def gateway_event_checks_def gateway_event_fields_def Let_def)

lemma stamped_report_checks:
  assumes "list_all (stamped H (ExecutionGatewayReport.run_id r) (ExecutionGatewayReport.gateway_kind r)
    (ExecutionGatewayReport.fill_mode r) (ExecutionGatewayReport.requirement_ids r)) (events r)"
  shows "report_event_checks r = concat (replicate (length (events r))
     [(True, ''event run_id must match gateway report''),
      (True, ''event gateway kind/fill mode must match gateway report''),
      (True, ''event requirement_ids must match gateway report'')])"
proof -
  have m: "map f xs = replicate (length xs) c" if "\<And>v. v \<in> set xs \<Longrightarrow> f v = c"
    for f and c :: "(bool \<times> string) list" and xs :: "ExecutionGatewayLifecycleEvent list"
    using that by (induction xs) simp_all
  show ?thesis
    unfolding report_event_checks_def
    by (rule arg_cong [OF m]) (use assms in \<open>simp add: list_all_iff stamped_def\<close>)
qed

lemma report_twin_checks:
  assumes "digest_ok H" and "list_all2 (paired H run) vs ws"
    and "r = with_report_identity H (gateway_report_draft H run SIMULATOR EVENT_TIME_REPLAY g vs simulator_requirements)"
    and "q = with_report_identity H (gateway_report_draft H run PAPER PAPER_SIMULATED_FILL g ws paper_requirements)"
  shows "gateway_report_checks H r = gateway_report_checks H q" "same_report r q"
proof -
  have l: "list_all (stamped H run SIMULATOR EVENT_TIME_REPLAY simulator_requirements) vs"
      "list_all (stamped H run PAPER PAPER_SIMULATED_FILL paper_requirements) ws" "length vs = length ws"
      "map outcome vs = map outcome ws"
    using assms(2) by (induction rule: list_all2_induct) (simp_all add: paired_def)
  have o: "ExecutionGatewayLifecycleEvent.risk_check_id v = ExecutionGatewayLifecycleEvent.risk_check_id w
      \<and> is_blocked v = is_blocked w" if "paired H run v w" for v w
  proof -
    have e: "outcome v = outcome w" using that by (simp add: paired_def)
    have "ExecutionGatewayLifecycleEvent.risk_check_id (outcome v) = ExecutionGatewayLifecycleEvent.risk_check_id (outcome w)"
      "ExecutionGatewayLifecycleEvent.status (outcome v) = ExecutionGatewayLifecycleEvent.status (outcome w)"
      unfolding e by (rule refl)+
    then show ?thesis by (simp add: outcome_def is_blocked_def)
  qed
  note s = stamped_events [OF l(1)] stamped_events [OF l(2)]
  have c: "report_event_checks r = report_event_checks q"
    using l by (subst (1 2) stamped_report_checks)
      (simp_all add: assms(3,4) with_report_identity_def gateway_report_draft_def Let_def)
  have m: "map ExecutionGatewayLifecycleEvent.risk_check_id vs = map ExecutionGatewayLifecycleEvent.risk_check_id ws"
    by (rule list_all2_map_eq [OF assms(2)]) (simp add: o)
  have f: "map ExecutionGatewayLifecycleEvent.risk_check_id (filter is_blocked vs)
        = map ExecutionGatewayLifecycleEvent.risk_check_id (filter is_blocked ws)"
    "map ExecutionGatewayLifecycleEvent.risk_check_id (filter (\<lambda>v. \<not> is_blocked v) vs)
        = map ExecutionGatewayLifecycleEvent.risk_check_id (filter (\<lambda>v. \<not> is_blocked v) ws)"
    by (rule list_all2_filter_eq [OF assms(2)]; simp add: o)+
  note ids = gateway_ids_ok [OF assms(1)] gateway_hashes_ok [OF assms(1)] requirements_ok
  have sr: "ExecutionGatewayReport.run_id r = run" "ExecutionGatewayReport.gateway_kind r = SIMULATOR"
    "ExecutionGatewayReport.fill_mode r = EVENT_TIME_REPLAY" "events r = vs" "gateway_event_ids r = map gateway_event_id vs"
    "ExecutionGatewayReport.requirement_ids r = simulator_requirements"
    by (simp_all add: assms(3,4) with_report_identity_def gateway_report_draft_def Let_def)
  have ir: "gateway_report_hash r = build_execution_gateway_report_hash H r"
    "gateway_report_id r = build_execution_gateway_report_id H (build_execution_gateway_report_hash H r)"
    by (simp_all add: assms(3,4))
  have sq: "ExecutionGatewayReport.run_id q = run" "ExecutionGatewayReport.gateway_kind q = PAPER"
    "ExecutionGatewayReport.fill_mode q = PAPER_SIMULATED_FILL" "events q = ws" "gateway_event_ids q = map gateway_event_id ws"
    "ExecutionGatewayReport.requirement_ids q = paper_requirements"
    by (simp_all add: assms(3,4) with_report_identity_def gateway_report_draft_def Let_def)
  have iq: "gateway_report_hash q = build_execution_gateway_report_hash H q"
    "gateway_report_id q = build_execution_gateway_report_id H (build_execution_gateway_report_hash H q)"
    by (simp_all add: assms(3,4))
  have same: "ExecutionGatewayReport.risk_check_ids r = ExecutionGatewayReport.risk_check_ids q"
    "ExecutionGatewayReport.approved_risk_check_ids r = ExecutionGatewayReport.approved_risk_check_ids q"
    "ExecutionGatewayReport.blocked_risk_check_ids r = ExecutionGatewayReport.blocked_risk_check_ids q"
    "source_risk_gated_replay_result_id r = source_risk_gated_replay_result_id q"
    "source_risk_gated_replay_result_hash r = source_risk_gated_replay_result_hash q"
    "source_replay_report_id r = source_replay_report_id q" "source_replay_report_hash r = source_replay_report_hash q"
    "source_replay_final_account_state_id r = source_replay_final_account_state_id q"
    "source_replay_final_account_state_hash r = source_replay_final_account_state_hash q"
    "source_replay_final_account_state r = source_replay_final_account_state q"
    by (simp_all add: assms(3,4) with_report_identity_def gateway_report_draft_def Let_def)
  have t: "list_all canonical_id (map gateway_event_id vs) = True" "list_all canonical_id (map gateway_event_id ws) = True"
      "list_all (valid_gateway_event H) vs = True" "list_all (valid_gateway_event H) ws = True"
    using s by simp_all
  have fl: "gateway_report_fields H r = gateway_report_fields H q"
    unfolding gateway_report_fields_def sr sq ir iq same t by (simp add: ids)
  have ln: "account_linkage_checks H r = account_linkage_checks H q"
    unfolding account_linkage_checks_def same by (rule refl)
  show "gateway_report_checks H r = gateway_report_checks H q"
    unfolding gateway_report_checks_def Let_def c fl ln sr sq ir iq same m f gateway_fill_mode_checks_def by simp
  show "same_report r q"
    using l(4) by (simp add: same_report_def sr sq same)
qed

lemma report_twin:
  assumes "digest_ok H" "list_all2 (paired H run) vs ws"
  shows "rel_sum (=) same_report
    (make_execution_gateway_report H run SIMULATOR EVENT_TIME_REPLAY g vs simulator_requirements)
    (make_execution_gateway_report H run PAPER PAPER_SIMULATED_FILL g ws paper_requirements)"
proof -
  have m: "make_execution_gateway_report H run k m g evs reqs =
      checked (gateway_report_checks H (with_report_identity H (gateway_report_draft H run k m g evs reqs)))
        (with_report_identity H (gateway_report_draft H run k m g evs reqs))"
    if "validate_gateway_fill_mode k m = Inr ()" for k m evs reqs
    using that by (simp add: make_execution_gateway_report_def with_report_identity_def
        construct_ExecutionGatewayReport_def Let_def)
  note t = report_twin_checks [OF assms refl refl, of g]
  show ?thesis
    by (simp add: m validate_gateway_fill_mode_def gateway_fill_mode_checks_def t(1))
      (rule rel_checked, rule t(2))
qed

section \<open>A run over valid inputs returns\<close>

lemma event_identity [simp]:
  "gateway_event_hash (with_event_identity H d) = build_execution_gateway_event_hash H d"
  "gateway_event_id (with_event_identity H d) = build_execution_gateway_event_id H (build_execution_gateway_event_hash H d)"
  "build_execution_gateway_event_hash H (with_event_identity H d) = build_execution_gateway_event_hash H d"
  "build_execution_gateway_order_id H (with_event_identity H d) = build_execution_gateway_order_id H d"
  "ExecutionGatewayLifecycleEvent.gateway_order_id (with_event_identity H d) = ExecutionGatewayLifecycleEvent.gateway_order_id d"
  "ExecutionGatewayLifecycleEvent.gateway_kind (with_event_identity H d) = ExecutionGatewayLifecycleEvent.gateway_kind d"
  "ExecutionGatewayLifecycleEvent.fill_mode (with_event_identity H d) = ExecutionGatewayLifecycleEvent.fill_mode d"
  "ExecutionGatewayLifecycleEvent.run_id (with_event_identity H d) = ExecutionGatewayLifecycleEvent.run_id d"
  "ExecutionGatewayLifecycleEvent.risk_check_id (with_event_identity H d) = ExecutionGatewayLifecycleEvent.risk_check_id d"
  "ExecutionGatewayLifecycleEvent.risk_check_hash (with_event_identity H d) = ExecutionGatewayLifecycleEvent.risk_check_hash d"
  "ExecutionGatewayLifecycleEvent.risk_decision (with_event_identity H d) = ExecutionGatewayLifecycleEvent.risk_decision d"
  "ExecutionGatewayLifecycleEvent.risk_reason_codes (with_event_identity H d) = ExecutionGatewayLifecycleEvent.risk_reason_codes d"
  "ExecutionGatewayLifecycleEvent.client_order_id (with_event_identity H d) = ExecutionGatewayLifecycleEvent.client_order_id d"
  "ExecutionGatewayLifecycleEvent.trace_id (with_event_identity H d) = ExecutionGatewayLifecycleEvent.trace_id d"
  "ExecutionGatewayLifecycleEvent.source_decision_id (with_event_identity H d) = ExecutionGatewayLifecycleEvent.source_decision_id d"
  "ExecutionGatewayLifecycleEvent.instrument_id (with_event_identity H d) = ExecutionGatewayLifecycleEvent.instrument_id d"
  "ExecutionGatewayLifecycleEvent.venue_id (with_event_identity H d) = ExecutionGatewayLifecycleEvent.venue_id d"
  "ExecutionGatewayLifecycleEvent.side (with_event_identity H d) = ExecutionGatewayLifecycleEvent.side d"
  "ExecutionGatewayLifecycleEvent.order_type (with_event_identity H d) = ExecutionGatewayLifecycleEvent.order_type d"
  "ExecutionGatewayLifecycleEvent.requested_quantity (with_event_identity H d) = ExecutionGatewayLifecycleEvent.requested_quantity d"
  "ExecutionGatewayLifecycleEvent.gateway_quantity (with_event_identity H d) = ExecutionGatewayLifecycleEvent.gateway_quantity d"
  "ExecutionGatewayLifecycleEvent.submitted_at (with_event_identity H d) = ExecutionGatewayLifecycleEvent.submitted_at d"
  "ExecutionGatewayLifecycleEvent.status (with_event_identity H d) = ExecutionGatewayLifecycleEvent.status d"
  "ExecutionGatewayLifecycleEvent.replay_order_result_id (with_event_identity H d) = ExecutionGatewayLifecycleEvent.replay_order_result_id d"
  "ExecutionGatewayLifecycleEvent.replay_status (with_event_identity H d) = ExecutionGatewayLifecycleEvent.replay_status d"
  "ExecutionGatewayLifecycleEvent.replay_reject_reason (with_event_identity H d) = ExecutionGatewayLifecycleEvent.replay_reject_reason d"
  "ExecutionGatewayLifecycleEvent.fill_price (with_event_identity H d) = ExecutionGatewayLifecycleEvent.fill_price d"
  "ExecutionGatewayLifecycleEvent.filled_quantity (with_event_identity H d) = ExecutionGatewayLifecycleEvent.filled_quantity d"
  "ExecutionGatewayLifecycleEvent.remaining_quantity (with_event_identity H d) = ExecutionGatewayLifecycleEvent.remaining_quantity d"
  "ExecutionGatewayLifecycleEvent.fill_event_open_ts (with_event_identity H d) = ExecutionGatewayLifecycleEvent.fill_event_open_ts d"
  "ExecutionGatewayLifecycleEvent.fill_event_close_ts (with_event_identity H d) = ExecutionGatewayLifecycleEvent.fill_event_close_ts d"
  "ExecutionGatewayLifecycleEvent.fill_event_source_ts (with_event_identity H d) = ExecutionGatewayLifecycleEvent.fill_event_source_ts d"
  "ExecutionGatewayLifecycleEvent.fill_raw_payload_id (with_event_identity H d) = ExecutionGatewayLifecycleEvent.fill_raw_payload_id d"
  "ExecutionGatewayLifecycleEvent.cost_model_id (with_event_identity H d) = ExecutionGatewayLifecycleEvent.cost_model_id d"
  "ExecutionGatewayLifecycleEvent.cost_model_hash (with_event_identity H d) = ExecutionGatewayLifecycleEvent.cost_model_hash d"
  "ExecutionGatewayLifecycleEvent.latency_bars (with_event_identity H d) = ExecutionGatewayLifecycleEvent.latency_bars d"
  "ExecutionGatewayLifecycleEvent.eligible_event_index (with_event_identity H d) = ExecutionGatewayLifecycleEvent.eligible_event_index d"
  "ExecutionGatewayLifecycleEvent.fill_attempt_event_index (with_event_identity H d) = ExecutionGatewayLifecycleEvent.fill_attempt_event_index d"
  "ExecutionGatewayLifecycleEvent.arrival_reference_price (with_event_identity H d) = ExecutionGatewayLifecycleEvent.arrival_reference_price d"
  "ExecutionGatewayLifecycleEvent.effective_fill_price (with_event_identity H d) = ExecutionGatewayLifecycleEvent.effective_fill_price d"
  "ExecutionGatewayLifecycleEvent.reference_notional (with_event_identity H d) = ExecutionGatewayLifecycleEvent.reference_notional d"
  "ExecutionGatewayLifecycleEvent.effective_notional (with_event_identity H d) = ExecutionGatewayLifecycleEvent.effective_notional d"
  "ExecutionGatewayLifecycleEvent.fee_cost (with_event_identity H d) = ExecutionGatewayLifecycleEvent.fee_cost d"
  "ExecutionGatewayLifecycleEvent.spread_cost (with_event_identity H d) = ExecutionGatewayLifecycleEvent.spread_cost d"
  "ExecutionGatewayLifecycleEvent.slippage_cost (with_event_identity H d) = ExecutionGatewayLifecycleEvent.slippage_cost d"
  "ExecutionGatewayLifecycleEvent.total_cost (with_event_identity H d) = ExecutionGatewayLifecycleEvent.total_cost d"
  "ExecutionGatewayLifecycleEvent.requirement_ids (with_event_identity H d) = ExecutionGatewayLifecycleEvent.requirement_ids d"
  by (simp_all add: with_event_identity_def build_execution_gateway_event_hash_def build_execution_gateway_order_id_def)

lemma finish_event_ok:
  assumes "list_all fst (gateway_event_checks H (with_event_identity H d))"
  shows "finish_gateway_event H d = Inr (with_event_identity H d)"
proof -
  have "finish_gateway_event H d = checked (gateway_event_checks H (with_event_identity H d)) (with_event_identity H d)"
    by (simp add: finish_gateway_event_def with_event_identity_def Let_def construct_ExecutionGatewayLifecycleEvent_def)
  with assms show ?thesis by simp
qed

lemma valid_event_parts:
  assumes "valid_event H e"
  shows "canonical_id (RiskCheckEvent.risk_check_id e)" "hex64 (RiskCheckEvent.risk_check_hash e)"
    "forwarded e = approving (final_decision e)" "valid_OrderIntent (order_intent (request e))"
    "approved_order_intent e = Some i \<Longrightarrow> valid_OrderIntent i"
  using assms by (auto simp: valid_event_def construct_RiskCheckEvent_def Let_def forwarded_def valid_request_def
        construct_RiskCheckRequest_def risk_request_fields_def)

lemma make_blocked_ok:
  assumes "digest_ok H" "valid_event H e" "\<not> forwarded e" "fits (OrderIntent.quantity (order_intent (request e)))"
    "canonical_id run" "list_all non_empty_string reqs" "validate_gateway_fill_mode k m = Inr ()"
  shows "\<exists>v. make_execution_gateway_lifecycle_event H k m run e None reqs = Inr v"
proof -
  let ?d = "blocked_event_draft k m run e (order_intent (request e)) reqs"
  note ids = gateway_ids_ok [OF assms(1)] gateway_hashes_ok [OF assms(1)]
  note e = valid_event_parts [OF assms(2)]
  have f: "list_all fst (gateway_fill_mode_checks k m)"
    using assms(7) by (simp add: validate_gateway_fill_mode_def)
  have "list_all fst (gateway_event_checks H (with_event_identity H ?d))"
    using e(1-3) assms(3,5,6) f valid_intent_fields [OF e(4)] minus_zero [OF assms(4)] zero_sums
    by (simp add: gateway_event_checks_def gateway_event_fields_def blocked_event_checks_def Let_def
        blocked_event_draft_def ids dec_eq_dval zero_decimal_def le_dval less_dval dval_Dec)
  then show ?thesis
    using assms(7) finish_event_ok by (auto simp: make_execution_gateway_lifecycle_event_def)
qed

lemma make_replayed_ok:
  assumes "digest_ok H" "valid_event H e" "approved_order_intent e = Some i" "forwarded e"
    "valid_replay_result H x" "copies_intent i x"
    "canonical_id run" "list_all non_empty_string reqs" "validate_gateway_fill_mode k m = Inr ()"
  shows "\<exists>v. make_execution_gateway_lifecycle_event H k m run e (Some x) reqs = Inr v"
proof -
  let ?oid = "build_execution_gateway_order_id_from_parts H k run (RiskCheckEvent.risk_check_id e) (OrderIntent.client_order_id i)"
  let ?d = "replayed_event_draft x ?oid (blocked_event_draft k m run e i reqs)"
  note ids = gateway_ids_ok [OF assms(1)] gateway_hashes_ok [OF assms(1)]
  note e = valid_event_parts [OF assms(2)]
  have f: "list_all fst (gateway_fill_mode_checks k m)"
    using assms(9) by (simp add: validate_gateway_fill_mode_def)
  have "list_all fst (gateway_event_checks H (with_event_identity H ?d))"
  proof -
    have x: "list_all fst (replay_result_fields x)" "list_all fst (replay_result_common x)"
      "list_all fst (if ReplayOrderResult.status x \<in> {ReplayFillStatus.FILLED, ReplayFillStatus.PARTIALLY_FILLED} then replay_result_filled x
         else replay_result_unfilled x)"
      using assms(5) by (simp_all add: valid_replay_result_def construct_ReplayOrderResult_def)
    have r: "list_all fst (replay_backed_event_checks H ?d)"
      using x(3) assms(6)
      by (cases "ReplayOrderResult.status x")
        (simp_all add: replay_backed_event_checks_def replayed_event_draft_def blocked_event_draft_def
          filled_event_checks_def unfilled_event_checks_def replay_result_filled_def replay_result_unfilled_def
          build_execution_gateway_order_id_def copies_intent_def)
    have s: "ExecutionGatewayLifecycleEvent.status ?d \<noteq> BLOCKED"
      by (cases "ReplayOrderResult.status x") (simp_all add: replayed_event_draft_def)
    have o: "gateway_order_id ?d = Some (build_execution_gateway_order_id H ?d)"
      by (simp add: replayed_event_draft_def blocked_event_draft_def build_execution_gateway_order_id_def)
    have b: "replay_backed_event_checks H (with_event_identity H ?d) = replay_backed_event_checks H ?d"
      by (simp add: replay_backed_event_checks_def filled_event_checks_def unfilled_event_checks_def)
    show ?thesis
      using x(1,2) e(1-3) assms(4,6-8) f valid_intent_fields [OF e(4)] valid_intent_fields [OF e(5) [OF assms(3)]] r s
      by (simp add: gateway_event_checks_def b gateway_event_fields_def Let_def ids)
        (simp add: replayed_event_draft_def blocked_event_draft_def ids replay_result_fields_def replay_result_common_def
          copies_intent_def)
  qed
  then show ?thesis
    using assms(3,9) finish_event_ok by (auto simp: make_execution_gateway_lifecycle_event_def)
qed

lemma make_event_stamped:
  assumes "make_execution_gateway_lifecycle_event H k m run e x reqs = Inr v"
  shows "stamped H run k m reqs v"
  using assms by (cases rule: make_event_cases)
    (simp_all add: stamped_def blocked_event_draft_def replayed_event_draft_def)

lemma gate_valid:
  assumes "replay_risk_approved_market_orders H bs es run cost s a = Inr g"
  shows "construct_RiskGatedReplayResult H g = Inr g"
proof -
  have "\<exists>x. construct_RiskGatedReplayResult H x = Inr g"
    using assms by (auto simp: replay_risk_approved_market_orders_def split_events_filter Let_def
        make_risk_gated_replay_result_def bindE_Inr_iff)
  then show ?thesis by (auto simp: construct_RiskGatedReplayResult_def Let_def)
qed

lemma final_account_valid:
  assumes "replay_ohlctv_market_orders H bs is run cost s a = Inr rep" "final_account_state rep = Some f"
  shows "valid_account_state f"
proof -
  have c: "construct_SimulatedAccountState x = Inr y \<Longrightarrow> valid_account_state y" for x y
    by (auto simp: valid_account_state_def construct_SimulatedAccountState_def bindE_Inr_iff)
  obtain book where "final_state book = Inr (Some f)"
    by (rule replay_report_parts [OF assms(1)]) (use assms(2) in simp)
  then show ?thesis
    by (auto simp: final_state_def build_account_state_def bindE_Inr_iff split: option.splits intro: c)
qed

lemma gate_answers:
  assumes "replay_risk_approved_market_orders H bs es run cost s a = Inr g"
  shows "list_all2 (\<lambda>e r. \<exists>i. approved_order_intent e = Some i \<and> copies_intent i r \<and> valid_replay_result H r)
    (filter forwarded es) (case replay_report g of None \<Rightarrow> [] | Some rep \<Rightarrow> results rep)"
proof (cases "replay_report g")
  case None then show ?thesis using gate_parts(4) [OF assms] by simp
next
  case (Some rep)
  let ?is = "map (\<lambda>e. the (approved_order_intent e)) (filter forwarded es)"
  have "replay_ohlctv_market_orders H bs ?is run cost s a = Inr rep"
    using gate_parts(4) [OF assms] Some by simp
  then obtain book where "replay_all H bs cost ?is (book_of s a) = Inr (results rep, book)"
    by (rule replay_report_parts)
  then have "list_all2 (\<lambda>i r. copies_intent i r \<and> valid_replay_result H r) ?is (results rep)"
    by (rule replay_all_pointwise) (use replay_one_result in blast)
  then show ?thesis
    unfolding list_all2_map1 Some option.case by (rule list.rel_mono_strong) (auto simp: forwarded_def)
qed

lemma make_report_ok:
  assumes "digest_ok H" "replay_risk_approved_market_orders H bs es run cost s a = Inr g"
    "list_all2 (\<lambda>e v. ExecutionGatewayLifecycleEvent.risk_check_id v = RiskCheckEvent.risk_check_id e
       \<and> is_blocked v = (\<not> forwarded e) \<and> stamped H run k m reqs v) es evs"
    "canonical_id run" "list_all non_empty_string reqs" "validate_gateway_fill_mode k m = Inr ()"
  shows "\<exists>r. make_execution_gateway_report H run k m g evs reqs = Inr r"
proof -
  define r where "r = with_report_identity H (gateway_report_draft H run k m g evs reqs)"
  note ids = gateway_ids_ok [OF assms(1)] gateway_hashes_ok [OF assms(1)]
  note gp = gate_parts [OF assms(2)]
  have st: "list_all (stamped H run k m reqs) evs" using assms(3) by (induction rule: list_all2_induct) auto
  have l: "map RiskCheckEvent.risk_check_id es = map ExecutionGatewayLifecycleEvent.risk_check_id evs"
    by (rule list_all2_map_eq [OF assms(3)]) simp
  have fl: "map RiskCheckEvent.risk_check_id (filter forwarded es)
      = map ExecutionGatewayLifecycleEvent.risk_check_id (filter (\<lambda>v. \<not> is_blocked v) evs)"
    "map RiskCheckEvent.risk_check_id (filter (\<lambda>e. \<not> forwarded e) es)
      = map ExecutionGatewayLifecycleEvent.risk_check_id (filter is_blocked evs)"
    using assms(3) by (induction rule: list_all2_induct) auto
  have g: "canonical_id (result_id g)" "hex64 (result_hash g)" "list_all canonical_id (RiskGatedReplayResult.risk_check_ids g)"
    "list_all canonical_id (RiskGatedReplayResult.approved_risk_check_ids g)" "list_all canonical_id (RiskGatedReplayResult.blocked_risk_check_ids g)"
    "length (RiskGatedReplayResult.approved_risk_check_ids g @ RiskGatedReplayResult.blocked_risk_check_ids g) = length (RiskGatedReplayResult.risk_check_ids g)"
    "set (RiskGatedReplayResult.approved_risk_check_ids g @ RiskGatedReplayResult.blocked_risk_check_ids g) = set (RiskGatedReplayResult.risk_check_ids g)"
    "RiskGatedReplayResult.approved_risk_check_ids g = [] \<longleftrightarrow> replay_report g = None"
    "opt_all (\<lambda>r. construct_ReplayReport H r = Inr r) (replay_report g)"
    using gate_valid [OF assms(2)] by (auto simp: construct_RiskGatedReplayResult_def Let_def)
  have rep: "opt_all canonical_id (map_option replay_report_id (replay_report g))"
    "opt_all hex64 (map_option replay_report_hash (replay_report g))"
    using g(9) by (auto simp: construct_ReplayReport_def Let_def opt_all_def split: option.splits)
  have acc: "opt_all valid_account_state (Option.bind (replay_report g) final_account_state)"
  proof (cases "replay_report g")
    case (Some x)
    then have "replay_ohlctv_market_orders H bs (map (\<lambda>e. the (approved_order_intent e)) (filter forwarded es)) run cost s a = Inr x"
      using gp(4) by simp
    then show ?thesis using final_account_valid Some by (auto simp: opt_all_def split: option.splits)
  qed simp
  have r: "ExecutionGatewayReport.run_id r = run" "ExecutionGatewayReport.gateway_kind r = k"
    "ExecutionGatewayReport.fill_mode r = m" "events r = evs" "gateway_event_ids r = map gateway_event_id evs"
    "ExecutionGatewayReport.requirement_ids r = reqs"
    "ExecutionGatewayReport.risk_check_ids r = RiskGatedReplayResult.risk_check_ids g"
    "ExecutionGatewayReport.approved_risk_check_ids r = RiskGatedReplayResult.approved_risk_check_ids g"
    "ExecutionGatewayReport.blocked_risk_check_ids r = RiskGatedReplayResult.blocked_risk_check_ids g"
    "source_risk_gated_replay_result_id r = result_id g" "source_risk_gated_replay_result_hash r = result_hash g"
    "source_replay_report_id r = map_option replay_report_id (replay_report g)"
    "source_replay_report_hash r = map_option replay_report_hash (replay_report g)"
    "source_replay_final_account_state r = Option.bind (replay_report g) final_account_state"
    "source_replay_final_account_state_hash r = map_option (build_execution_gateway_account_state_hash H)
       (Option.bind (replay_report g) final_account_state)"
    "source_replay_final_account_state_id r = map_option (build_execution_gateway_account_state_id H)
       (map_option (build_execution_gateway_account_state_hash H) (Option.bind (replay_report g) final_account_state))"
    by (simp_all add: r_def with_report_identity_def gateway_report_draft_def Let_def)
  have h: "gateway_report_hash r = build_execution_gateway_report_hash H r"
    "gateway_report_id r = build_execution_gateway_report_id H (build_execution_gateway_report_hash H r)"
    by (simp_all add: r_def)
  have ev: "list_all fst (report_event_checks r)"
    using st by (subst stamped_report_checks) (simp_all add: r list_all_iff)
  have acc_ids: "opt_all hex64 (map_option (build_execution_gateway_account_state_hash H) x)"
    "opt_all canonical_id (map_option (build_execution_gateway_account_state_id H) y)" for x y
    by (cases x; simp add: ids) (cases y; simp add: ids)
  have fields: "list_all fst (gateway_report_fields H r)"
    unfolding gateway_report_fields_def r h
    using ids assms(4,5) g(1-5) rep acc acc_ids stamped_events [OF st] by simp
  have link: "list_all fst (account_linkage_checks H r)"
    by (cases "replay_report g"; cases "Option.bind (replay_report g) final_account_state")
      (simp_all add: account_linkage_checks_def r Let_def)
  have "list_all fst (gateway_report_checks H r)"
    unfolding gateway_report_checks_def Let_def list_all_append
    using fields link ev g(6-8) gp(1-3) l fl assms(6) h
    by (simp add: r validate_gateway_fill_mode_def) (metis option.exhaust)
  then have "make_execution_gateway_report H run k m g evs reqs = Inr r"
    using assms(6) by (simp add: make_execution_gateway_report_def with_report_identity_def [symmetric] r_def
        construct_ExecutionGatewayReport_def Let_def)
  then show ?thesis by blast
qed

definition gateway_inputs_ok :: "digest \<Rightarrow> OHLCTVBar list \<Rightarrow> RiskCheckEvent list \<Rightarrow> string \<Rightarrow>
    ExecutionCostModel option \<Rightarrow> InstrumentMasterSnapshot option \<Rightarrow> SimulatedAccountState option \<Rightarrow> bool" where
  "gateway_inputs_ok H bs es run cost s a \<longleftrightarrow> (\<forall>e \<in> set es. valid_event H e \<and>
       fits (OrderIntent.quantity (order_intent (request e))))
     \<and> distinct (map RiskCheckEvent.risk_check_id es) \<and> (s = None) = (a = None) \<and> canonical_id run
     \<and> replay_inputs_ok H bs (map (\<lambda>e. the (approved_order_intent e)) (filter forwarded es)) cost (book_of s a)"

lemma gateway_ok:
  assumes "digest_ok H" "gateway_inputs_ok H bs es run cost s a" "list_all non_empty_string reqs"
    "validate_gateway_fill_mode k m = Inr ()"
  shows "\<exists>r. run_risk_gated_gateway H bs es run k m reqs cost s a = Inr r"
proof -
  have i: "\<forall>e \<in> set es. valid_event H e" "distinct (map RiskCheckEvent.risk_check_id es)" "canonical_id run"
    "(s = None) = (a = None)" "\<And>e. e \<in> set es \<Longrightarrow> fits (OrderIntent.quantity (order_intent (request e)))"
    "replay_inputs_ok H bs (map (\<lambda>e. the (approved_order_intent e)) (filter forwarded es)) cost (book_of s a)"
    using assms(2) by (simp_all add: gateway_inputs_ok_def)
  obtain g where g: "replay_risk_approved_market_orders H bs es run cost s a = Inr g"
    using gate_ok [OF assms(1) i(1,4,3,6)] by blast
  define rs where "rs = (case replay_report g of None \<Rightarrow> [] | Some rep \<Rightarrow> results rep)"
  define ids where "ids = map RiskCheckEvent.risk_check_id (filter forwarded es)"
  define look where "look = map_of (rev (zip ids rs))"
  note ans = gate_answers [OF g, folded rs_def]
  have len: "length ids = length rs" using list_all2_lengthD [OF ans] by (simp add: ids_def)
  have d: "distinct ids" using i(2) unfolding ids_def by (rule distinct_map_filter)
  have one: "\<exists>v. make_execution_gateway_lifecycle_event H k m run e (look (RiskCheckEvent.risk_check_id e)) reqs = Inr v"
    if e: "e \<in> set es" for e
  proof (cases "forwarded e")
    case True
    then obtain x j where "look (RiskCheckEvent.risk_check_id e) = Some x" "approved_order_intent e = Some j"
      "copies_intent j x" "valid_replay_result H x"
      using lookup_result [OF ans d [unfolded ids_def], of e] e unfolding look_def ids_def by auto
    then show ?thesis using make_replayed_ok [OF assms(1)] i(1,3) e True assms(3,4) by simp
  next
    case False
    have "RiskCheckEvent.risk_check_id e \<notin> set ids"
      using inj_onD [OF distinct_map [THEN iffD1, OF i(2), THEN conjunct2]] e False by (auto simp: ids_def)
    then have "look (RiskCheckEvent.risk_check_id e) = None"
      using len by (simp add: look_def map_of_eq_None_iff del: map_of_eq_None_iff set_map)
        (auto simp: map_of_eq_None_iff dest: set_zip_leftD)
    then show ?thesis using make_blocked_ok [OF assms(1)] i(1,3,5) e False assms(3,4) by simp
  qed
  then obtain f where f: "\<And>e. e \<in> set es \<Longrightarrow>
      make_execution_gateway_lifecycle_event H k m run e (look (RiskCheckEvent.risk_check_id e)) reqs = Inr (f e)"
    by metis
  have mk: "mapE (\<lambda>e. make_execution_gateway_lifecycle_event H k m run e (look (RiskCheckEvent.risk_check_id e)) reqs) es
      = Inr (map f es)"
    by (rule mapE_total) (rule f)
  have "list_all2 (\<lambda>e v. ExecutionGatewayLifecycleEvent.risk_check_id v = RiskCheckEvent.risk_check_id e
       \<and> is_blocked v = (\<not> forwarded e) \<and> stamped H run k m reqs v) es (map f es)"
    unfolding list_all2_map2
  proof (rule list.rel_refl_strong)
    fix e assume e: "e \<in> set es"
    note s = make_event_shows [OF f [OF e]]
    have "is_blocked (f e) = (\<not> forwarded e)"
      using s(1) shows_result_unblocked by (auto simp: shows_block_def split: option.splits)
    moreover have "stamped H run k m reqs (f e)"
      using make_event_stamped [OF f [OF e]] .
    ultimately show "ExecutionGatewayLifecycleEvent.risk_check_id (f e) = RiskCheckEvent.risk_check_id e
       \<and> is_blocked (f e) = (\<not> forwarded e) \<and> stamped H run k m reqs (f e)" using s(2) by simp
  qed
  then obtain r where "make_execution_gateway_report H run k m g (map f es) reqs = Inr r"
    using make_report_ok [OF assms(1) g _ i(3) assms(3,4)] by blast
  then show ?thesis
    using g mk len by (simp add: run_risk_gated_gateway_def replay_results_by_risk_id_def Let_def
        rs_def look_def ids_def)
qed

lemma unblocked_fill:
  assumes "valid_gateway_event H v" "\<not> is_blocked v"
  shows "ExecutionGatewayLifecycleEvent.filled_quantity v \<le> gateway_quantity v"
proof -
  have "list_all fst (gateway_event_checks H v)"
    using assms(1) by (simp add: valid_gateway_event_def construct_ExecutionGatewayLifecycleEvent_def)
  then have c: "0 < gateway_quantity v" "list_all fst (replay_backed_event_checks H v)"
    using assms(2) by (simp_all add: gateway_event_checks_def gateway_event_fields_def Let_def is_blocked_def)
  show ?thesis
    using c by (cases "ExecutionGatewayLifecycleEvent.status v")
      (auto simp: replay_backed_event_checks_def filled_event_checks_def unfilled_event_checks_def
        dec_eq_dval le_dval less_dval zero_decimal_def dval_Dec split: if_splits)
qed

section \<open>Properties\<close>

text \<open>C22: A gateway report has exactly one event for each risk check, in order: a check the gate
  stopped is reported as blocked, with no order id and no fill, and a check it forwarded is
  reported with the status, the reason, the price, the quantity and the cost of the replay result
  of that check's own approved intent.\<close>

theorem gateway_events_answer_checks:
  assumes "run_risk_gated_gateway H bs es run k m reqs cost s a = Inr r"
    and "distinct (map RiskCheckEvent.risk_check_id (filter forwarded es))"
  shows "\<exists>g. replay_risk_approved_market_orders H bs es run cost s a = Inr g
    \<and> list_all2 (\<lambda>e v. ExecutionGatewayLifecycleEvent.risk_check_id v = RiskCheckEvent.risk_check_id e
        \<and> (if forwarded e
           then \<exists>i rep. \<exists>x \<in> set (results rep). replay_report g = Some rep \<and> approved_order_intent e = Some i
             \<and> copies_intent i x \<and> shows_result i x v
           else shows_block e v)) es (events r)"
proof (rule gateway_parts [OF assms(1)])
  fix g :: RiskGatedReplayResult
  let ?rs = "case replay_report g of None \<Rightarrow> [] | Some rep \<Rightarrow> results rep"
  let ?look = "map_of (rev (zip (map RiskCheckEvent.risk_check_id (filter forwarded es)) ?rs))"
  assume g: "replay_risk_approved_market_orders H bs es run cost s a = Inr g"
    and ev: "list_all2 (\<lambda>e v. make_execution_gateway_lifecycle_event H k m run e
       (?look (RiskCheckEvent.risk_check_id e)) reqs = Inr v) es (events r)"
  have "list_all2 (\<lambda>e v. ExecutionGatewayLifecycleEvent.risk_check_id v = RiskCheckEvent.risk_check_id e
        \<and> (if forwarded e
           then \<exists>i rep. \<exists>x \<in> set (results rep). replay_report g = Some rep \<and> approved_order_intent e = Some i
             \<and> copies_intent i x \<and> shows_result i x v
           else shows_block e v)) es (events r)"
  proof (rule list.rel_mono_strong [OF ev])
    fix e v assume e: "e \<in> set es"
      and mk: "make_execution_gateway_lifecycle_event H k m run e (?look (RiskCheckEvent.risk_check_id e)) reqs = Inr v"
    note sh = make_event_shows [OF mk]
    show "ExecutionGatewayLifecycleEvent.risk_check_id v = RiskCheckEvent.risk_check_id e
        \<and> (if forwarded e
           then \<exists>i rep. \<exists>x \<in> set (results rep). replay_report g = Some rep \<and> approved_order_intent e = Some i
             \<and> copies_intent i x \<and> shows_result i x v
           else shows_block e v)"
    proof (cases "forwarded e")
      case True
      obtain x i where x: "x \<in> set ?rs" "?look (RiskCheckEvent.risk_check_id e) = Some x"
        "approved_order_intent e = Some i" "copies_intent i x"
        using lookup_result [OF gate_answers [OF g] assms(2), of e] e True by auto
      obtain rep where "replay_report g = Some rep" "x \<in> set (results rep)"
        using x(1) by (cases "replay_report g") simp_all
      then show ?thesis using sh(1,2) x True by auto
    next
      case False then show ?thesis using sh(1,2) by (auto split: option.splits)
    qed
  qed
  with g show ?thesis by blast
qed

text \<open>C21: No gateway trades more than the risk engine allowed: when the events are the engine's
  own answers, every lifecycle event that is not blocked belongs to a request the engine did not
  reject, keeps its order, side and instrument, and neither places nor fills more than was requested.\<close>

theorem gateway_fills_within_request:
  assumes "digest_ok H" "valid_policy H p"
    and "\<forall>e \<in> set es. valid_request H (request e) \<and> fits (OrderIntent.quantity (order_intent (request e)))
      \<and> evaluate_pre_trade_risk H (request e) p = Inr e"
    and "run_risk_gated_gateway H bs es run k m reqs cost s a = Inr r"
  shows "list_all2 (\<lambda>e v. is_blocked v \<or> (\<not> rejects H (request e) p
      \<and> ExecutionGatewayLifecycleEvent.client_order_id v = OrderIntent.client_order_id (order_intent (request e))
      \<and> ExecutionGatewayLifecycleEvent.instrument_id v = OrderIntent.instrument_id (order_intent (request e))
      \<and> ExecutionGatewayLifecycleEvent.side v = OrderIntent.side (order_intent (request e))
      \<and> gateway_quantity v \<le> OrderIntent.quantity (order_intent (request e))
      \<and> ExecutionGatewayLifecycleEvent.filled_quantity v \<le> gateway_quantity v)) es (events r)"
proof (rule gateway_parts [OF assms(4)])
  fix g :: RiskGatedReplayResult
  let ?look = "map_of (rev (zip (map RiskCheckEvent.risk_check_id (filter forwarded es))
    (case replay_report g of None \<Rightarrow> [] | Some rep \<Rightarrow> results rep)))"
  assume "list_all2 (\<lambda>e v. make_execution_gateway_lifecycle_event H k m run e
       (?look (RiskCheckEvent.risk_check_id e)) reqs = Inr v) es (events r)"
  then show ?thesis
  proof (rule list.rel_mono_strong)
    fix e v assume "e \<in> set es"
      and mk: "make_execution_gateway_lifecycle_event H k m run e (?look (RiskCheckEvent.risk_check_id e)) reqs = Inr v"
    then have v: "valid_request H (request e)" "fits (OrderIntent.quantity (order_intent (request e)))"
      "evaluate_pre_trade_risk H (request e) p = Inr e" using assms(3) by simp_all
    show "is_blocked v \<or> (\<not> rejects H (request e) p
      \<and> ExecutionGatewayLifecycleEvent.client_order_id v = OrderIntent.client_order_id (order_intent (request e))
      \<and> ExecutionGatewayLifecycleEvent.instrument_id v = OrderIntent.instrument_id (order_intent (request e))
      \<and> ExecutionGatewayLifecycleEvent.side v = OrderIntent.side (order_intent (request e))
      \<and> gateway_quantity v \<le> OrderIntent.quantity (order_intent (request e))
      \<and> ExecutionGatewayLifecycleEvent.filled_quantity v \<le> gateway_quantity v)"
    proof (cases "is_blocked v")
      case False
      obtain i where i: "approved_order_intent e = Some i" "ExecutionGatewayLifecycleEvent.client_order_id v = OrderIntent.client_order_id i"
        "ExecutionGatewayLifecycleEvent.instrument_id v = OrderIntent.instrument_id i"
        "ExecutionGatewayLifecycleEvent.side v = OrderIntent.side i" "gateway_quantity v = OrderIntent.quantity i"
        by (rule make_event_cases [OF mk])
          (use False in \<open>simp_all add: is_blocked_def blocked_event_draft_def replayed_event_draft_def\<close>)
      have d: "approved_order_intent e = snd (decision H (request e) p)"
        using engine_ok [OF assms(1) v(1) assms(2)] v(3) by auto
      have "\<not> rejects H (request e) p" using d i(1) by (auto simp: decision_def)
      moreover have b: "i = order_intent (request e)\<lparr>OrderIntent.quantity := OrderIntent.quantity i\<rparr>"
        "OrderIntent.quantity i \<le> OrderIntent.quantity (order_intent (request e))"
        using approved_bounds [OF v(1) assms(2,1) v(3) i(1) v(2)] by blast+
      moreover note requantified [OF b(1)]
      moreover have "ExecutionGatewayLifecycleEvent.filled_quantity v \<le> gateway_quantity v"
        using unblocked_fill [OF make_event_shows(4) [OF mk] False] .
      ultimately show ?thesis using i by simp
    qed simp
  qed
qed

text \<open>C23: Paper trading cannot drift from simulation: on the same inputs the paper gateway and the
  simulator gateway raise the same exception or return reports that agree on every event (but for
  identifiers, hashes, the gateway's name and the requirement list), on the approved and blocked
  checks, on the source replay and on the final account state.\<close>

theorem gateways_agree:
  assumes "digest_ok H"
  shows "rel_sum (=) same_report (run_simulator_gateway_replay H bs es run cost s a)
    (run_paper_gateway_replay H bs es run cost s a)"
proof -
  have e: "rel_sum (=) (=) x x" for x :: "'x result" by (cases x) simp_all
  show ?thesis
    unfolding run_simulator_gateway_replay_def run_paper_gateway_replay_def run_risk_gated_gateway_def
    by (intro rel_bindE [where R = "(=)", OF e], hypsubst, rule rel_bindE [where R = "(=)", OF e], hypsubst,
        rule rel_bindE [OF rel_mapE [OF make_event_twin [OF assms]]], rule report_twin [OF assms])
qed

text \<open>C24: A run of either gateway over valid risk events with distinct ids and valid replay inputs
  returns a report: no check of an event, of the pairing or of the report fails.\<close>

theorem gateway_returns:
  assumes "digest_ok H" "gateway_inputs_ok H bs es run cost s a"
  shows "(\<exists>r. run_simulator_gateway_replay H bs es run cost s a = Inr r)
    \<and> (\<exists>r. run_paper_gateway_replay H bs es run cost s a = Inr r)"
proof -
  have "validate_gateway_fill_mode SIMULATOR EVENT_TIME_REPLAY = Inr ()" "validate_gateway_fill_mode PAPER PAPER_SIMULATED_FILL = Inr ()"
    by (simp_all add: validate_gateway_fill_mode_def gateway_fill_mode_checks_def)
  then show ?thesis
    using gateway_ok [OF assms requirements_ok(1)] gateway_ok [OF assms requirements_ok(2)]
    by (simp add: run_simulator_gateway_replay_def run_paper_gateway_replay_def)
qed

end
