(* ===== verification/GatewayExamples.thy ===== *)
theory GatewayExamples
  imports ReplayExamples Gateway
begin

text \<open>
  A gateway run on a concrete order: the risk engine's answer to \<open>example_order\<close> through both
  gateways, as witness of the gateway properties.
\<close>

lemma run_1: "canonical_id ''RUN:1''"
  by (simp add: canonical_id_def upper_char_def digit_char_def)

lemma example_order_fits: "fits (OrderIntent.quantity (order_intent example_order))"
  by (simp add: example_order_def example_request_def example_intent_def fits_small dprec_def)

lemma example_gateway_inputs:
  "\<exists>e. evaluate_pre_trade_risk H0 example_order example_policy = Inr e \<and> request e = example_order
     \<and> forwarded e \<and> gateway_inputs_ok H0 [example_bar] [e] ''RUN:1'' None None None"
  using example_approved run_1 example_order_fits by (fastforce simp: gateway_inputs_ok_def)

theorem gateway_returns_witness:
  "\<exists>e r. evaluate_pre_trade_risk H0 example_order example_policy = Inr e
     \<and> run_paper_gateway_replay H0 [example_bar] [e] ''RUN:1'' None None None = Inr r"
  using example_gateway_inputs gateway_returns [OF digest_ok_example] by blast

lemma example_paper_run:
  "\<exists>e r. evaluate_pre_trade_risk H0 example_order example_policy = Inr e \<and> request e = example_order
     \<and> forwarded e \<and> run_risk_gated_gateway H0 [example_bar] [e] ''RUN:1'' PAPER PAPER_SIMULATED_FILL
         paper_requirements None None None = Inr r"
  using example_gateway_inputs gateway_ok [OF digest_ok_example _ requirements_ok(2), of _ _ _ _ _ _ PAPER PAPER_SIMULATED_FILL]
  by (fastforce simp: validate_gateway_fill_mode_def gateway_fill_mode_checks_def)

theorem gateway_events_answer_checks_witness:
  "\<exists>e r v i x. evaluate_pre_trade_risk H0 example_order example_policy = Inr e
     \<and> run_risk_gated_gateway H0 [example_bar] [e] ''RUN:1'' PAPER PAPER_SIMULATED_FILL paper_requirements
         None None None = Inr r
     \<and> events r = [v] \<and> approved_order_intent e = Some i \<and> shows_result i x v"
proof -
  obtain e r where e: "evaluate_pre_trade_risk H0 example_order example_policy = Inr e" "forwarded e"
    "run_risk_gated_gateway H0 [example_bar] [e] ''RUN:1'' PAPER PAPER_SIMULATED_FILL
         paper_requirements None None None = Inr r"
    using example_paper_run by blast
  from gateway_events_answer_checks [OF e(3)] e show ?thesis
    by (auto simp: list_all2_Cons1)
qed

theorem gateway_fills_within_request_witness:
  "\<exists>e r v. evaluate_pre_trade_risk H0 example_order example_policy = Inr e
     \<and> run_risk_gated_gateway H0 [example_bar] [e] ''RUN:1'' PAPER PAPER_SIMULATED_FILL paper_requirements
         None None None = Inr r
     \<and> events r = [v]
     \<and> (is_blocked v \<or> gateway_quantity v \<le> OrderIntent.quantity (order_intent example_order))"
proof -
  obtain e r where e: "evaluate_pre_trade_risk H0 example_order example_policy = Inr e" "request e = example_order"
    "run_risk_gated_gateway H0 [example_bar] [e] ''RUN:1'' PAPER PAPER_SIMULATED_FILL
         paper_requirements None None None = Inr r"
    using example_paper_run by blast
  have "\<forall>x \<in> set [e]. valid_request H0 (request x) \<and> fits (OrderIntent.quantity (order_intent (request x)))
      \<and> evaluate_pre_trade_risk H0 (request x) example_policy = Inr x"
    using e(1,2) example_order_valid example_order_fits by simp
  from gateway_fills_within_request [OF digest_ok_example example_policy_valid this e(3)] e show ?thesis
    by (auto simp: list_all2_Cons1)
qed

theorem gateways_agree_witness:
  "\<exists>e r q. evaluate_pre_trade_risk H0 example_order example_policy = Inr e
     \<and> run_simulator_gateway_replay H0 [example_bar] [e] ''RUN:1'' None None None = Inr r
     \<and> run_paper_gateway_replay H0 [example_bar] [e] ''RUN:1'' None None None = Inr q \<and> same_report r q"
proof -
  obtain e q where e: "evaluate_pre_trade_risk H0 example_order example_policy = Inr e"
    "run_paper_gateway_replay H0 [example_bar] [e] ''RUN:1'' None None None = Inr q"
    using example_paper_run unfolding run_paper_gateway_replay_def by blast
  from gateways_agree [OF digest_ok_example, of "[example_bar]" "[e]" "''RUN:1''" None None None] e
  show ?thesis by (cases "run_simulator_gateway_replay H0 [example_bar] [e] ''RUN:1'' None None None") auto
qed

end
