(* ===== verification/ObservabilityContracts.thy ===== *)
theory ObservabilityContracts
  imports Payloads
begin

text \<open>
  Paper-readiness observability contracts, \<open>contracts/observability.py\<close>: dashboard panels and
  specifications, alert routes and rules, metric evidence, alert events and the report that
  ties them together, each with its identity scheme, and the functions that make them.
\<close>

section \<open>Texts\<close>

text \<open>\<open>str(n)\<close> for a natural number, and \<open>str(d)\<close> for a finite decimal (\<open>Decimal.__str__\<close>).\<close>

fun nat_text :: "nat \<Rightarrow> string" where
  "nat_text n = (if n < 10 then [''0123456789'' ! n] else nat_text (n div 10) @ [''0123456789'' ! (n mod 10)])"

declare nat_text.simps [simp del]

definition signed_text :: "int \<Rightarrow> string" where
  "signed_text i = (if i < 0 then ''-'' @ nat_text (nat (- i)) else ''+'' @ nat_text (nat i))"

definition decimal_text :: "decimal \<Rightarrow> string" where
  "decimal_text d =
     (let digits = nat_text (nat \<bar>coef d\<bar>);
          n = int (length digits);
          left = expo d + n;
          point = (if expo d \<le> 0 \<and> -6 < left then left else 1);
          body = (if point \<le> 0 then ''0.'' @ replicate (nat (- point)) (CHR ''0'') @ digits
                  else if n \<le> point then digits @ replicate (nat (point - n)) (CHR ''0'')
                  else take (nat point) digits @ ''.'' @ drop (nat point) digits)
      in (if coef d < 0 then ''-'' else '''') @ body
         @ (if left = point then '''' else ''E'' @ signed_text (left - point)))"

text \<open>\<open>_unique_sorted\<close>: the values that are set, without repetition, in order.\<close>

definition unique_sorted :: "string option list \<Rightarrow> string list" where
  "unique_sorted xs = sort (remdups (List.map_filter id xs))"

text \<open>\<open>s.startswith(p)\<close>, and \<open>_validate_runbook_link\<close>.\<close>

definition starts_with :: "string \<Rightarrow> string \<Rightarrow> bool" where
  "starts_with s p \<longleftrightarrow> take (length p) s = p"

definition runbook_link :: "string \<Rightarrow> bool" where
  "runbook_link s \<longleftrightarrow> starts_with s ''docs/runbooks/'' \<or> starts_with s ''https://''"

definition validate_runbook_link :: "string \<Rightarrow> bool \<times> string" where
  "validate_runbook_link s =
     (runbook_link s, ''alert/dashboard runbook_url must be a docs/runbooks/ path or https URL'')"

section \<open>Enumerations\<close>

datatype PaperReadinessSignalGroup =
    DATA_HEALTH | MODEL_VALIDATION | STRATEGY | PORTFOLIO | EXECUTION | RISK

datatype PaperReadinessMetricStatus =
    HEALTHY | BREACHED | UNAVAILABLE

datatype PaperReadinessAlertSeverity =
    WARNING | CRITICAL

datatype PaperReadinessAlertCategory =
    DATA_STALE | EXECUTION_TCA_ERROR | ORDER_REJECT | PORTFOLIO_DRAWDOWN |
    PORTFOLIO_ACCOUNTING | RISK_KILL_SWITCH | RISK_PRE_TRADE_BLOCK

datatype PaperReadinessAlertOperator =
    GREATER_THAN | GREATER_THAN_OR_EQUAL | LESS_THAN | LESS_THAN_OR_EQUAL | EQUAL

primrec PaperReadinessSignalGroup_value :: "PaperReadinessSignalGroup \<Rightarrow> string" where
  "PaperReadinessSignalGroup_value PaperReadinessSignalGroup.DATA_HEALTH = ''data_health''"
| "PaperReadinessSignalGroup_value PaperReadinessSignalGroup.MODEL_VALIDATION = ''model_validation''"
| "PaperReadinessSignalGroup_value PaperReadinessSignalGroup.STRATEGY = ''strategy''"
| "PaperReadinessSignalGroup_value PaperReadinessSignalGroup.PORTFOLIO = ''portfolio''"
| "PaperReadinessSignalGroup_value PaperReadinessSignalGroup.EXECUTION = ''execution''"
| "PaperReadinessSignalGroup_value PaperReadinessSignalGroup.RISK = ''risk''"

primrec PaperReadinessMetricStatus_value :: "PaperReadinessMetricStatus \<Rightarrow> string" where
  "PaperReadinessMetricStatus_value PaperReadinessMetricStatus.HEALTHY = ''healthy''"
| "PaperReadinessMetricStatus_value PaperReadinessMetricStatus.BREACHED = ''breached''"
| "PaperReadinessMetricStatus_value PaperReadinessMetricStatus.UNAVAILABLE = ''unavailable''"

primrec PaperReadinessAlertSeverity_value :: "PaperReadinessAlertSeverity \<Rightarrow> string" where
  "PaperReadinessAlertSeverity_value PaperReadinessAlertSeverity.WARNING = ''warning''"
| "PaperReadinessAlertSeverity_value PaperReadinessAlertSeverity.CRITICAL = ''critical''"

primrec PaperReadinessAlertCategory_value :: "PaperReadinessAlertCategory \<Rightarrow> string" where
  "PaperReadinessAlertCategory_value PaperReadinessAlertCategory.DATA_STALE = ''data_stale''"
| "PaperReadinessAlertCategory_value PaperReadinessAlertCategory.EXECUTION_TCA_ERROR = ''execution_tca_error''"
| "PaperReadinessAlertCategory_value PaperReadinessAlertCategory.ORDER_REJECT = ''order_reject''"
| "PaperReadinessAlertCategory_value PaperReadinessAlertCategory.PORTFOLIO_DRAWDOWN = ''portfolio_drawdown''"
| "PaperReadinessAlertCategory_value PaperReadinessAlertCategory.PORTFOLIO_ACCOUNTING = ''portfolio_accounting''"
| "PaperReadinessAlertCategory_value PaperReadinessAlertCategory.RISK_KILL_SWITCH = ''risk_kill_switch''"
| "PaperReadinessAlertCategory_value PaperReadinessAlertCategory.RISK_PRE_TRADE_BLOCK = ''risk_pre_trade_block''"

primrec PaperReadinessAlertOperator_value :: "PaperReadinessAlertOperator \<Rightarrow> string" where
  "PaperReadinessAlertOperator_value PaperReadinessAlertOperator.GREATER_THAN = ''gt''"
| "PaperReadinessAlertOperator_value PaperReadinessAlertOperator.GREATER_THAN_OR_EQUAL = ''gte''"
| "PaperReadinessAlertOperator_value PaperReadinessAlertOperator.LESS_THAN = ''lt''"
| "PaperReadinessAlertOperator_value PaperReadinessAlertOperator.LESS_THAN_OR_EQUAL = ''lte''"
| "PaperReadinessAlertOperator_value PaperReadinessAlertOperator.EQUAL = ''eq''"

section \<open>Source links\<close>

record PaperReadinessMetricSourceLink =
  source_contract :: string
  source_id :: string
  source_hash :: "string option"
  report_id :: "string option"
  report_hash :: "string option"
  run_id :: "string option"
  trace_id :: "string option"
  source_event_id :: "string option"
  source_metric_ids :: "string list"
  source_fields :: "string list"
  requirement_ids :: "string list"

definition source_link_fields :: "PaperReadinessMetricSourceLink \<Rightarrow> (bool \<times> string) list" where
  "source_link_fields r =
     [(non_empty_string (source_contract r), ''source_contract''),
      (non_empty_string (source_id r), ''source_id''),
      (opt_all hex64 (source_hash r), ''source_hash''),
      (opt_all non_empty_string (report_id r), ''report_id''),
      (opt_all hex64 (report_hash r), ''report_hash''),
      (opt_all non_empty_string (run_id r), ''run_id''),
      (opt_all non_empty_string (trace_id r), ''trace_id''),
      (opt_all non_empty_string (source_event_id r), ''source_event_id''),
      (list_all non_empty_string (source_metric_ids r), ''source_metric_ids''),
      (list_all non_empty_string (source_fields r) \<and> 1 \<le> length (source_fields r), ''source_fields''),
      (list_all non_empty_string (requirement_ids r), ''requirement_ids'')]"

definition construct_PaperReadinessMetricSourceLink :: "PaperReadinessMetricSourceLink \<Rightarrow> PaperReadinessMetricSourceLink result" where
  "construct_PaperReadinessMetricSourceLink r = checked (source_link_fields r @ [((report_id r = None) = (report_hash r = None),
     ''report_id and report_hash must be set together'')]) r"

definition valid_PaperReadinessMetricSourceLink :: "PaperReadinessMetricSourceLink \<Rightarrow> bool" where
  "valid_PaperReadinessMetricSourceLink r \<longleftrightarrow> construct_PaperReadinessMetricSourceLink r = Inr r"

definition source_link_items :: "PaperReadinessMetricSourceLink \<Rightarrow> (string \<times> payload) list" where
  "source_link_items r =
     [(''source_contract'', PStr (source_contract r)),
      (''source_id'', PStr (source_id r)),
      (''source_hash'', POpt PStr (source_hash r)),
      (''report_id'', POpt PStr (report_id r)),
      (''report_hash'', POpt PStr (report_hash r)),
      (''run_id'', POpt PStr (run_id r)),
      (''trace_id'', POpt PStr (trace_id r)),
      (''source_event_id'', POpt PStr (source_event_id r)),
      (''source_metric_ids'', PStrs (source_metric_ids r)),
      (''source_fields'', PStrs (source_fields r)),
      (''requirement_ids'', PStrs (requirement_ids r))]"

definition source_link_json :: "PaperReadinessMetricSourceLink \<Rightarrow> payload" where
  "source_link_json r = PObj (source_link_items r)"

section \<open>Dashboard\<close>

record PaperReadinessDashboardPanel =
  panel_id :: string
  panel_hash :: string
  group :: PaperReadinessSignalGroup
  title :: string
  description :: string
  metric_ids :: "string list"
  source_contracts :: "string list"
  runbook_url :: string
  requirement_ids :: "string list"

definition dashboard_panel_fields :: "PaperReadinessDashboardPanel \<Rightarrow> (bool \<times> string) list" where
  "dashboard_panel_fields r =
     [(canonical_id (panel_id r), ''panel_id''),
      (hex64 (panel_hash r), ''panel_hash''),
      (non_empty_string (title r), ''title''),
      (non_empty_string (description r), ''description''),
      (list_all non_empty_string (metric_ids r) \<and> 1 \<le> length (metric_ids r), ''metric_ids''),
      (list_all non_empty_string (source_contracts r) \<and> 1 \<le> length (source_contracts r), ''source_contracts''),
      (non_empty_string (runbook_url r), ''runbook_url''),
      (list_all non_empty_string (requirement_ids r), ''requirement_ids'')]"

definition dashboard_panel_items :: "PaperReadinessDashboardPanel \<Rightarrow> (string \<times> payload) list" where
  "dashboard_panel_items r =
     [(''panel_id'', PStr (panel_id r)),
      (''panel_hash'', PStr (panel_hash r)),
      (''group'', PStr (PaperReadinessSignalGroup_value (group r))),
      (''title'', PStr (title r)),
      (''description'', PStr (description r)),
      (''metric_ids'', PStrs (metric_ids r)),
      (''source_contracts'', PStrs (source_contracts r)),
      (''runbook_url'', PStr (runbook_url r)),
      (''requirement_ids'', PStrs (requirement_ids r))]"

definition dashboard_panel_json :: "PaperReadinessDashboardPanel \<Rightarrow> payload" where
  "dashboard_panel_json r = PObj (dashboard_panel_items r)"

definition build_paper_readiness_dashboard_panel_hash :: "digest \<Rightarrow> PaperReadinessDashboardPanel \<Rightarrow> string" where
  "build_paper_readiness_dashboard_panel_hash H r = H (PObj (drop 2 (dashboard_panel_items r)))"

definition build_paper_readiness_dashboard_panel_id :: "digest \<Rightarrow> string \<Rightarrow> string" where
  "build_paper_readiness_dashboard_panel_id H h = stable_id H ''PAPERDASHPANEL'' (PObj [(''panel_hash'', PStr h)])"

definition construct_PaperReadinessDashboardPanel :: "digest \<Rightarrow> PaperReadinessDashboardPanel \<Rightarrow> PaperReadinessDashboardPanel result" where
  "construct_PaperReadinessDashboardPanel H r =
     (let expected = build_paper_readiness_dashboard_panel_hash H r in checked
      (dashboard_panel_fields r
       @ [validate_runbook_link (runbook_url r),
          (distinct (metric_ids r), ''dashboard panel metric_ids must be unique'')]
       @ [(panel_hash r = expected, ''panel_hash is not deterministic''),
          (panel_id r = build_paper_readiness_dashboard_panel_id H expected, ''panel_id is not deterministic'')]) r)"

definition valid_PaperReadinessDashboardPanel :: "digest \<Rightarrow> PaperReadinessDashboardPanel \<Rightarrow> bool" where
  "valid_PaperReadinessDashboardPanel H r \<longleftrightarrow> construct_PaperReadinessDashboardPanel H r = Inr r"

record PaperReadinessDashboardSpec =
  dashboard_id :: string
  dashboard_hash :: string
  title :: string
  version :: string
  panel_ids :: "string list"
  panels :: "PaperReadinessDashboardPanel list"
  requirement_ids :: "string list"

definition dashboard_spec_fields :: "digest \<Rightarrow> PaperReadinessDashboardSpec \<Rightarrow> (bool \<times> string) list" where
  "dashboard_spec_fields H r =
     [(canonical_id (dashboard_id r), ''dashboard_id''),
      (hex64 (dashboard_hash r), ''dashboard_hash''),
      (non_empty_string (title r), ''title''),
      (non_empty_string (version r), ''version''),
      (list_all canonical_id (panel_ids r), ''panel_ids''),
      (list_all (valid_PaperReadinessDashboardPanel H) (panels r) \<and> 1 \<le> length (panels r), ''panels''),
      (list_all non_empty_string (requirement_ids r), ''requirement_ids'')]"

definition dashboard_spec_items :: "PaperReadinessDashboardSpec \<Rightarrow> (string \<times> payload) list" where
  "dashboard_spec_items r =
     [(''dashboard_id'', PStr (dashboard_id r)),
      (''dashboard_hash'', PStr (dashboard_hash r)),
      (''title'', PStr (title r)),
      (''version'', PStr (version r)),
      (''panel_ids'', PStrs (panel_ids r)),
      (''panels'', PList (map dashboard_panel_json (panels r))),
      (''requirement_ids'', PStrs (requirement_ids r))]"

definition dashboard_spec_json :: "PaperReadinessDashboardSpec \<Rightarrow> payload" where
  "dashboard_spec_json r = PObj (dashboard_spec_items r)"

definition build_paper_readiness_dashboard_spec_hash :: "digest \<Rightarrow> PaperReadinessDashboardSpec \<Rightarrow> string" where
  "build_paper_readiness_dashboard_spec_hash H r = H (PObj (drop 2 (dashboard_spec_items r)))"

definition build_paper_readiness_dashboard_spec_id :: "digest \<Rightarrow> string \<Rightarrow> string" where
  "build_paper_readiness_dashboard_spec_id H h = stable_id H ''PAPERDASHBOARD'' (PObj [(''dashboard_hash'', PStr h)])"

definition required_groups :: "PaperReadinessSignalGroup list" where
  "required_groups = [DATA_HEALTH, MODEL_VALIDATION, STRATEGY, PORTFOLIO, EXECUTION, RISK]"

definition dashboard_metric_ids :: "PaperReadinessDashboardSpec \<Rightarrow> string list" where
  "dashboard_metric_ids r = concat (map metric_ids (panels r))"

definition construct_PaperReadinessDashboardSpec :: "digest \<Rightarrow> PaperReadinessDashboardSpec \<Rightarrow> PaperReadinessDashboardSpec result" where
  "construct_PaperReadinessDashboardSpec H r =
     (let expected = build_paper_readiness_dashboard_spec_hash H r in checked
      (dashboard_spec_fields H r
       @ [(panel_ids r = map panel_id (panels r), ''dashboard panel_ids must match panels''),
          (set (map group (panels r)) = set required_groups,
            ''paper-readiness dashboard must cover all six signal groups''),
          (distinct (dashboard_metric_ids r), ''dashboard metric IDs must be unique across panels'')]
       @ [(dashboard_hash r = expected, ''dashboard_hash is not deterministic''),
          (dashboard_id r = build_paper_readiness_dashboard_spec_id H expected, ''dashboard_id is not deterministic'')]) r)"

definition valid_PaperReadinessDashboardSpec :: "digest \<Rightarrow> PaperReadinessDashboardSpec \<Rightarrow> bool" where
  "valid_PaperReadinessDashboardSpec H r \<longleftrightarrow> construct_PaperReadinessDashboardSpec H r = Inr r"

section \<open>Alert routes and rules\<close>

record PaperReadinessAlertRoute =
  route_id :: string
  route_hash :: string
  category :: PaperReadinessAlertCategory
  owner :: string
  severity :: PaperReadinessAlertSeverity
  channel :: string
  runbook_url :: string
  requirement_ids :: "string list"

definition alert_route_fields :: "PaperReadinessAlertRoute \<Rightarrow> (bool \<times> string) list" where
  "alert_route_fields r =
     [(canonical_id (route_id r), ''route_id''),
      (hex64 (route_hash r), ''route_hash''),
      (non_empty_string (owner r), ''owner''),
      (non_empty_string (channel r), ''channel''),
      (non_empty_string (runbook_url r), ''runbook_url''),
      (list_all non_empty_string (requirement_ids r), ''requirement_ids'')]"

definition alert_route_items :: "PaperReadinessAlertRoute \<Rightarrow> (string \<times> payload) list" where
  "alert_route_items r =
     [(''route_id'', PStr (route_id r)),
      (''route_hash'', PStr (route_hash r)),
      (''category'', PStr (PaperReadinessAlertCategory_value (category r))),
      (''owner'', PStr (owner r)),
      (''severity'', PStr (PaperReadinessAlertSeverity_value (severity r))),
      (''channel'', PStr (channel r)),
      (''runbook_url'', PStr (runbook_url r)),
      (''requirement_ids'', PStrs (requirement_ids r))]"

definition alert_route_json :: "PaperReadinessAlertRoute \<Rightarrow> payload" where
  "alert_route_json r = PObj (alert_route_items r)"

definition build_paper_readiness_alert_route_hash :: "digest \<Rightarrow> PaperReadinessAlertRoute \<Rightarrow> string" where
  "build_paper_readiness_alert_route_hash H r = H (PObj (drop 2 (alert_route_items r)))"

definition build_paper_readiness_alert_route_id :: "digest \<Rightarrow> string \<Rightarrow> string" where
  "build_paper_readiness_alert_route_id H h = stable_id H ''PAPERALERTROUTE'' (PObj [(''route_hash'', PStr h)])"

definition construct_PaperReadinessAlertRoute :: "digest \<Rightarrow> PaperReadinessAlertRoute \<Rightarrow> PaperReadinessAlertRoute result" where
  "construct_PaperReadinessAlertRoute H r =
     (let expected = build_paper_readiness_alert_route_hash H r in checked
      (alert_route_fields r
       @ [validate_runbook_link (runbook_url r)]
       @ [(route_hash r = expected, ''route_hash is not deterministic''),
          (route_id r = build_paper_readiness_alert_route_id H expected, ''route_id is not deterministic'')]) r)"

definition valid_PaperReadinessAlertRoute :: "digest \<Rightarrow> PaperReadinessAlertRoute \<Rightarrow> bool" where
  "valid_PaperReadinessAlertRoute H r \<longleftrightarrow> construct_PaperReadinessAlertRoute H r = Inr r"

record PaperReadinessAlertRule =
  rule_id :: string
  rule_hash :: string
  category :: PaperReadinessAlertCategory
  group :: PaperReadinessSignalGroup
  metric_id :: string
  operator :: PaperReadinessAlertOperator
  threshold :: decimal
  route :: PaperReadinessAlertRoute
  description :: string
  source_contracts :: "string list"
  requirement_ids :: "string list"

definition alert_rule_fields :: "digest \<Rightarrow> PaperReadinessAlertRule \<Rightarrow> (bool \<times> string) list" where
  "alert_rule_fields H r =
     [(canonical_id (rule_id r), ''rule_id''),
      (hex64 (rule_hash r), ''rule_hash''),
      (non_empty_string (metric_id r), ''metric_id''),
      (valid_PaperReadinessAlertRoute H (route r), ''route''),
      (non_empty_string (description r), ''description''),
      (list_all non_empty_string (source_contracts r) \<and> 1 \<le> length (source_contracts r), ''source_contracts''),
      (list_all non_empty_string (requirement_ids r), ''requirement_ids'')]"

definition alert_rule_items :: "PaperReadinessAlertRule \<Rightarrow> (string \<times> payload) list" where
  "alert_rule_items r =
     [(''rule_id'', PStr (rule_id r)),
      (''rule_hash'', PStr (rule_hash r)),
      (''category'', PStr (PaperReadinessAlertCategory_value (category r))),
      (''group'', PStr (PaperReadinessSignalGroup_value (group r))),
      (''metric_id'', PStr (metric_id r)),
      (''operator'', PStr (PaperReadinessAlertOperator_value (operator r))),
      (''threshold'', PDec (threshold r)),
      (''route'', alert_route_json (route r)),
      (''description'', PStr (description r)),
      (''source_contracts'', PStrs (source_contracts r)),
      (''requirement_ids'', PStrs (requirement_ids r))]"

definition alert_rule_json :: "PaperReadinessAlertRule \<Rightarrow> payload" where
  "alert_rule_json r = PObj (alert_rule_items r)"

definition build_paper_readiness_alert_rule_hash :: "digest \<Rightarrow> PaperReadinessAlertRule \<Rightarrow> string" where
  "build_paper_readiness_alert_rule_hash H r = H (PObj (drop 2 (alert_rule_items r)))"

definition build_paper_readiness_alert_rule_id :: "digest \<Rightarrow> string \<Rightarrow> string" where
  "build_paper_readiness_alert_rule_id H h = stable_id H ''PAPERALERTRULE'' (PObj [(''rule_hash'', PStr h)])"

definition construct_PaperReadinessAlertRule :: "digest \<Rightarrow> PaperReadinessAlertRule \<Rightarrow> PaperReadinessAlertRule result" where
  "construct_PaperReadinessAlertRule H r =
     (let expected = build_paper_readiness_alert_rule_hash H r in checked
      (alert_rule_fields H r
       @ [(PaperReadinessAlertRoute.category (route r) = category r,
            ''alert route category must match rule category'')]
       @ [(rule_hash r = expected, ''rule_hash is not deterministic''),
          (rule_id r = build_paper_readiness_alert_rule_id H expected, ''rule_id is not deterministic'')]) r)"

definition valid_PaperReadinessAlertRule :: "digest \<Rightarrow> PaperReadinessAlertRule \<Rightarrow> bool" where
  "valid_PaperReadinessAlertRule H r \<longleftrightarrow> construct_PaperReadinessAlertRule H r = Inr r"

section \<open>Metric evidence\<close>

record PaperReadinessMetricEvidence =
  metric_id :: string
  group :: PaperReadinessSignalGroup
  label :: string
  current_value :: decimal
  threshold :: "decimal option"
  status :: PaperReadinessMetricStatus
  source_links :: "PaperReadinessMetricSourceLink list"
  requirement_ids :: "string list"

definition metric_evidence_fields :: "PaperReadinessMetricEvidence \<Rightarrow> (bool \<times> string) list" where
  "metric_evidence_fields r =
     [(non_empty_string (metric_id r), ''metric_id''),
      (non_empty_string (label r), ''label''),
      (list_all valid_PaperReadinessMetricSourceLink (source_links r) \<and> 1 \<le> length (source_links r), ''source_links''),
      (list_all non_empty_string (requirement_ids r), ''requirement_ids'')]"

definition construct_PaperReadinessMetricEvidence :: "PaperReadinessMetricEvidence \<Rightarrow> PaperReadinessMetricEvidence result" where
  "construct_PaperReadinessMetricEvidence r = checked (metric_evidence_fields r @ [(status r = BREACHED \<longrightarrow> threshold r \<noteq> None,
     ''breached metric evidence requires threshold'')]) r"

definition valid_PaperReadinessMetricEvidence :: "PaperReadinessMetricEvidence \<Rightarrow> bool" where
  "valid_PaperReadinessMetricEvidence r \<longleftrightarrow> construct_PaperReadinessMetricEvidence r = Inr r"

definition metric_evidence_items :: "PaperReadinessMetricEvidence \<Rightarrow> (string \<times> payload) list" where
  "metric_evidence_items r =
     [(''metric_id'', PStr (metric_id r)),
      (''group'', PStr (PaperReadinessSignalGroup_value (group r))),
      (''label'', PStr (label r)),
      (''current_value'', PDec (current_value r)),
      (''threshold'', POpt PDec (threshold r)),
      (''status'', PStr (PaperReadinessMetricStatus_value (status r))),
      (''source_links'', PList (map source_link_json (source_links r))),
      (''requirement_ids'', PStrs (requirement_ids r))]"

definition metric_evidence_json :: "PaperReadinessMetricEvidence \<Rightarrow> payload" where
  "metric_evidence_json r = PObj (metric_evidence_items r)"

section \<open>Alert events\<close>

record PaperReadinessAlertEvent =
  alert_id :: string
  alert_hash :: string
  category :: PaperReadinessAlertCategory
  group :: PaperReadinessSignalGroup
  rule_id :: string
  route_id :: string
  metric_id :: string
  owner :: string
  severity :: PaperReadinessAlertSeverity
  current_value :: decimal
  threshold :: decimal
  operator :: PaperReadinessAlertOperator
  runbook_url :: string
  source_links :: "PaperReadinessMetricSourceLink list"
  run_ids :: "string list"
  trace_ids :: "string list"
  report_ids :: "string list"
  source_ids :: "string list"
  message :: string
  requirement_ids :: "string list"

definition alert_event_fields :: "PaperReadinessAlertEvent \<Rightarrow> (bool \<times> string) list" where
  "alert_event_fields r =
     [(canonical_id (alert_id r), ''alert_id''),
      (hex64 (alert_hash r), ''alert_hash''),
      (canonical_id (rule_id r), ''rule_id''),
      (canonical_id (route_id r), ''route_id''),
      (non_empty_string (metric_id r), ''metric_id''),
      (non_empty_string (owner r), ''owner''),
      (non_empty_string (runbook_url r), ''runbook_url''),
      (list_all valid_PaperReadinessMetricSourceLink (source_links r) \<and> 1 \<le> length (source_links r), ''source_links''),
      (list_all non_empty_string (run_ids r), ''run_ids''),
      (list_all non_empty_string (trace_ids r), ''trace_ids''),
      (list_all non_empty_string (report_ids r), ''report_ids''),
      (list_all non_empty_string (source_ids r), ''source_ids''),
      (non_empty_string (message r), ''message''),
      (list_all non_empty_string (requirement_ids r), ''requirement_ids'')]"

definition alert_event_items :: "PaperReadinessAlertEvent \<Rightarrow> (string \<times> payload) list" where
  "alert_event_items r =
     [(''alert_id'', PStr (alert_id r)),
      (''alert_hash'', PStr (alert_hash r)),
      (''category'', PStr (PaperReadinessAlertCategory_value (category r))),
      (''group'', PStr (PaperReadinessSignalGroup_value (group r))),
      (''rule_id'', PStr (rule_id r)),
      (''route_id'', PStr (route_id r)),
      (''metric_id'', PStr (metric_id r)),
      (''owner'', PStr (owner r)),
      (''severity'', PStr (PaperReadinessAlertSeverity_value (severity r))),
      (''current_value'', PDec (current_value r)),
      (''threshold'', PDec (threshold r)),
      (''operator'', PStr (PaperReadinessAlertOperator_value (operator r))),
      (''runbook_url'', PStr (runbook_url r)),
      (''source_links'', PList (map source_link_json (source_links r))),
      (''run_ids'', PStrs (run_ids r)),
      (''trace_ids'', PStrs (trace_ids r)),
      (''report_ids'', PStrs (report_ids r)),
      (''source_ids'', PStrs (source_ids r)),
      (''message'', PStr (message r)),
      (''requirement_ids'', PStrs (requirement_ids r))]"

definition alert_event_json :: "PaperReadinessAlertEvent \<Rightarrow> payload" where
  "alert_event_json r = PObj (alert_event_items r)"

definition build_paper_readiness_alert_event_hash :: "digest \<Rightarrow> PaperReadinessAlertEvent \<Rightarrow> string" where
  "build_paper_readiness_alert_event_hash H r = H (PObj (drop 2 (alert_event_items r)))"

definition build_paper_readiness_alert_event_id :: "digest \<Rightarrow> string \<Rightarrow> string" where
  "build_paper_readiness_alert_event_id H h = stable_id H ''PAPERALERT'' (PObj [(''alert_hash'', PStr h)])"

text \<open>The runs, traces, reports and sources a list of links names.\<close>

definition link_run_ids :: "PaperReadinessMetricSourceLink list \<Rightarrow> string list" where
  "link_run_ids ls = unique_sorted (map PaperReadinessMetricSourceLink.run_id ls)"

definition link_trace_ids :: "PaperReadinessMetricSourceLink list \<Rightarrow> string list" where
  "link_trace_ids ls = unique_sorted (map PaperReadinessMetricSourceLink.trace_id ls)"

definition link_report_ids :: "PaperReadinessMetricSourceLink list \<Rightarrow> string list" where
  "link_report_ids ls = unique_sorted (map PaperReadinessMetricSourceLink.report_id ls)"

definition link_source_ids :: "PaperReadinessMetricSourceLink list \<Rightarrow> string list" where
  "link_source_ids ls = unique_sorted (map (\<lambda>l. Some (PaperReadinessMetricSourceLink.source_id l)) ls)"

definition construct_PaperReadinessAlertEvent :: "digest \<Rightarrow> PaperReadinessAlertEvent \<Rightarrow> PaperReadinessAlertEvent result" where
  "construct_PaperReadinessAlertEvent H r =
     (let expected = build_paper_readiness_alert_event_hash H r in checked
      (alert_event_fields r
       @ [validate_runbook_link (runbook_url r),
          (run_ids r = link_run_ids (source_links r), ''alert run_ids must match source links''),
          (trace_ids r = link_trace_ids (source_links r), ''alert trace_ids must match source links''),
          (report_ids r = link_report_ids (source_links r), ''alert report_ids must match source links''),
          (source_ids r = link_source_ids (source_links r), ''alert source_ids must match source links'')]
       @ [(alert_hash r = expected, ''alert_hash is not deterministic''),
          (alert_id r = build_paper_readiness_alert_event_id H expected, ''alert_id is not deterministic'')]) r)"

definition valid_PaperReadinessAlertEvent :: "digest \<Rightarrow> PaperReadinessAlertEvent \<Rightarrow> bool" where
  "valid_PaperReadinessAlertEvent H r \<longleftrightarrow> construct_PaperReadinessAlertEvent H r = Inr r"

section \<open>The observability report\<close>

record PaperReadinessObservabilityReport =
  observability_report_id :: string
  observability_report_hash :: string
  generated_at :: datetime
  dashboard :: PaperReadinessDashboardSpec
  alert_rule_ids :: "string list"
  alert_rules :: "PaperReadinessAlertRule list"
  metric_ids :: "string list"
  metric_evidence :: "PaperReadinessMetricEvidence list"
  routed_alert_ids :: "string list"
  routed_alerts :: "PaperReadinessAlertEvent list"
  source_report_ids :: "string list"
  source_run_ids :: "string list"
  requirement_ids :: "string list"

definition observability_report_fields :: "digest \<Rightarrow> PaperReadinessObservabilityReport \<Rightarrow> (bool \<times> string) list" where
  "observability_report_fields H r =
     [(canonical_id (observability_report_id r), ''observability_report_id''),
      (hex64 (observability_report_hash r), ''observability_report_hash''),
      (valid_PaperReadinessDashboardSpec H (dashboard r), ''dashboard''),
      (list_all canonical_id (alert_rule_ids r), ''alert_rule_ids''),
      (list_all (valid_PaperReadinessAlertRule H) (alert_rules r), ''alert_rules''),
      (list_all non_empty_string (metric_ids r), ''metric_ids''),
      (list_all valid_PaperReadinessMetricEvidence (metric_evidence r), ''metric_evidence''),
      (list_all canonical_id (routed_alert_ids r), ''routed_alert_ids''),
      (list_all (valid_PaperReadinessAlertEvent H) (routed_alerts r), ''routed_alerts''),
      (list_all non_empty_string (source_report_ids r), ''source_report_ids''),
      (list_all non_empty_string (source_run_ids r), ''source_run_ids''),
      (list_all non_empty_string (requirement_ids r), ''requirement_ids'')]"

definition observability_report_items :: "PaperReadinessObservabilityReport \<Rightarrow> (string \<times> payload) list" where
  "observability_report_items r =
     [(''observability_report_id'', PStr (observability_report_id r)),
      (''observability_report_hash'', PStr (observability_report_hash r)),
      (''generated_at'', PJsonTime (generated_at r)),
      (''dashboard'', dashboard_spec_json (dashboard r)),
      (''alert_rule_ids'', PStrs (alert_rule_ids r)),
      (''alert_rules'', PList (map alert_rule_json (alert_rules r))),
      (''metric_ids'', PStrs (metric_ids r)),
      (''metric_evidence'', PList (map metric_evidence_json (metric_evidence r))),
      (''routed_alert_ids'', PStrs (routed_alert_ids r)),
      (''routed_alerts'', PList (map alert_event_json (routed_alerts r))),
      (''source_report_ids'', PStrs (source_report_ids r)),
      (''source_run_ids'', PStrs (source_run_ids r)),
      (''requirement_ids'', PStrs (requirement_ids r))]"

definition build_paper_readiness_observability_report_hash :: "digest \<Rightarrow> PaperReadinessObservabilityReport \<Rightarrow> string" where
  "build_paper_readiness_observability_report_hash H r = H (PObj (drop 2 (observability_report_items r)))"

definition build_paper_readiness_observability_report_id :: "digest \<Rightarrow> string \<Rightarrow> string" where
  "build_paper_readiness_observability_report_id H h = stable_id H ''PAPEROBS'' (PObj [(''report_hash'', PStr h)])"

definition evidence_links :: "PaperReadinessMetricEvidence list \<Rightarrow> PaperReadinessMetricSourceLink list" where
  "evidence_links ms = concat (map PaperReadinessMetricEvidence.source_links ms)"

text \<open>The loop over the alerts stops at the first that refers to no rule or no metric.\<close>

definition alert_references :: "PaperReadinessObservabilityReport \<Rightarrow> (bool \<times> string) list" where
  "alert_references r = concat (map (\<lambda>a.
     [(PaperReadinessAlertEvent.rule_id a \<in> set (alert_rule_ids r),
        ''routed alerts must reference configured alert rules''),
      (PaperReadinessAlertEvent.metric_id a \<in> set (metric_ids r),
        ''routed alerts must reference dashboard metric evidence'')]) (routed_alerts r))"

definition observability_report_checks :: "PaperReadinessObservabilityReport \<Rightarrow> (bool \<times> string) list" where
  "observability_report_checks r =
     [(alert_rule_ids r = map PaperReadinessAlertRule.rule_id (alert_rules r),
        ''alert_rule_ids must match alert_rules''),
      (metric_ids r = map PaperReadinessMetricEvidence.metric_id (metric_evidence r),
        ''metric_ids must match metric_evidence''),
      (routed_alert_ids r = map PaperReadinessAlertEvent.alert_id (routed_alerts r),
        ''routed_alert_ids must match routed_alerts''),
      (set (dashboard_metric_ids (dashboard r)) = set (metric_ids r),
        ''metric evidence must cover every dashboard metric'')]
     @ alert_references r
     @ [(source_report_ids r = link_report_ids (evidence_links (metric_evidence r)),
          ''source_report_ids must match metric source links''),
        (source_run_ids r = link_run_ids (evidence_links (metric_evidence r)),
          ''source_run_ids must match metric source links'')]"

definition construct_PaperReadinessObservabilityReport :: "digest \<Rightarrow> PaperReadinessObservabilityReport \<Rightarrow> PaperReadinessObservabilityReport result" where
  "construct_PaperReadinessObservabilityReport H r =
     (let expected = build_paper_readiness_observability_report_hash H r in checked
      (observability_report_fields H r @ observability_report_checks r
       @ [(observability_report_hash r = expected, ''observability_report_hash is not deterministic''),
          (observability_report_id r = build_paper_readiness_observability_report_id H expected, ''observability_report_id is not deterministic'')]) r)"

definition valid_PaperReadinessObservabilityReport :: "digest \<Rightarrow> PaperReadinessObservabilityReport \<Rightarrow> bool" where
  "valid_PaperReadinessObservabilityReport H r \<longleftrightarrow> construct_PaperReadinessObservabilityReport H r = Inr r"


end
