(* ===== verification/Alerts.thy ===== *)
theory Alerts
  imports ObservabilityContracts
begin

text \<open>
  How the observability contracts are made (\<open>make_paper_readiness_...\<close> of
  \<open>contracts/observability.py\<close>): a draft with placeholder identity is hashed and then constructed
  with the identity that follows from the hash.  The locale states that scheme once; its
  interpretations give, for each contract, when making it cannot fail and what comes out.
\<close>

section \<open>The makers\<close>

definition make_paper_readiness_dashboard_panel ::
  "digest \<Rightarrow> PaperReadinessSignalGroup \<Rightarrow> string \<Rightarrow> string \<Rightarrow> string list \<Rightarrow> string list \<Rightarrow> string
   \<Rightarrow> string list \<Rightarrow> PaperReadinessDashboardPanel result" where
  "make_paper_readiness_dashboard_panel H grp ttl descr mids srcs url reqs =
     (let d = \<lparr>PaperReadinessDashboardPanel.panel_id = ''PAPERDASHPANEL:PLACEHOLDER'', panel_hash = zero_hash,
            group = grp, title = ttl, description = descr, metric_ids = mids,
            source_contracts = srcs, runbook_url = url, requirement_ids = reqs\<rparr>;
          h = build_paper_readiness_dashboard_panel_hash H d
      in construct_PaperReadinessDashboardPanel H
           (d\<lparr>panel_id := build_paper_readiness_dashboard_panel_id H h, panel_hash := h\<rparr>))"

definition make_paper_readiness_dashboard_spec ::
  "digest \<Rightarrow> string \<Rightarrow> string \<Rightarrow> PaperReadinessDashboardPanel list \<Rightarrow> string list \<Rightarrow> PaperReadinessDashboardSpec result" where
  "make_paper_readiness_dashboard_spec H ttl ver ps reqs =
     (let d = \<lparr>PaperReadinessDashboardSpec.dashboard_id = ''PAPERDASHBOARD:PLACEHOLDER'',
            dashboard_hash = zero_hash, title = ttl, version = ver, panel_ids = map panel_id ps,
            panels = ps, requirement_ids = reqs\<rparr>;
          h = build_paper_readiness_dashboard_spec_hash H d
      in construct_PaperReadinessDashboardSpec H
           (d\<lparr>dashboard_id := build_paper_readiness_dashboard_spec_id H h, dashboard_hash := h\<rparr>))"

definition make_paper_readiness_alert_route ::
  "digest \<Rightarrow> PaperReadinessAlertCategory \<Rightarrow> string \<Rightarrow> PaperReadinessAlertSeverity \<Rightarrow> string \<Rightarrow> string
   \<Rightarrow> string list \<Rightarrow> PaperReadinessAlertRoute result" where
  "make_paper_readiness_alert_route H cat own sev chan url reqs =
     (let d = \<lparr>PaperReadinessAlertRoute.route_id = ''PAPERALERTROUTE:PLACEHOLDER'', route_hash = zero_hash,
            category = cat, owner = own, severity = sev, channel = chan, runbook_url = url,
            requirement_ids = reqs\<rparr>;
          h = build_paper_readiness_alert_route_hash H d
      in construct_PaperReadinessAlertRoute H
           (d\<lparr>PaperReadinessAlertRoute.route_id := build_paper_readiness_alert_route_id H h, route_hash := h\<rparr>))"

definition make_paper_readiness_alert_rule ::
  "digest \<Rightarrow> PaperReadinessAlertCategory \<Rightarrow> PaperReadinessSignalGroup \<Rightarrow> string \<Rightarrow> PaperReadinessAlertOperator
   \<Rightarrow> decimal \<Rightarrow> PaperReadinessAlertRoute \<Rightarrow> string \<Rightarrow> string list \<Rightarrow> string list
   \<Rightarrow> PaperReadinessAlertRule result" where
  "make_paper_readiness_alert_rule H cat grp mid oper thr t descr srcs reqs =
     (let d = \<lparr>PaperReadinessAlertRule.rule_id = ''PAPERALERTRULE:PLACEHOLDER'', rule_hash = zero_hash,
            category = cat, group = grp, metric_id = mid, operator = oper, threshold = thr, route = t,
            description = descr, source_contracts = srcs, requirement_ids = reqs\<rparr>;
          h = build_paper_readiness_alert_rule_hash H d
      in construct_PaperReadinessAlertRule H
           (d\<lparr>PaperReadinessAlertRule.rule_id := build_paper_readiness_alert_rule_id H h, rule_hash := h\<rparr>))"

definition alert_message :: "PaperReadinessAlertRule \<Rightarrow> PaperReadinessMetricEvidence \<Rightarrow> string" where
  "alert_message u m =
     PaperReadinessAlertCategory_value (PaperReadinessAlertRule.category u) @ '' breached: ''
     @ PaperReadinessAlertRule.metric_id u @ ''='' @ decimal_text (PaperReadinessMetricEvidence.current_value m)
     @ '' '' @ PaperReadinessAlertOperator_value (PaperReadinessAlertRule.operator u) @ '' ''
     @ decimal_text (PaperReadinessAlertRule.threshold u)"

definition alert_draft ::
  "PaperReadinessAlertRule \<Rightarrow> PaperReadinessMetricEvidence \<Rightarrow> PaperReadinessAlertEvent" where
  "alert_draft u m =
     (let t = PaperReadinessAlertRule.route u; ls = PaperReadinessMetricEvidence.source_links m in
     \<lparr>PaperReadinessAlertEvent.alert_id = ''PAPERALERT:PLACEHOLDER'', alert_hash = zero_hash,
      category = PaperReadinessAlertRule.category u, group = PaperReadinessAlertRule.group u,
      rule_id = PaperReadinessAlertRule.rule_id u, route_id = PaperReadinessAlertRoute.route_id t,
      metric_id = PaperReadinessAlertRule.metric_id u, owner = PaperReadinessAlertRoute.owner t,
      severity = PaperReadinessAlertRoute.severity t,
      current_value = PaperReadinessMetricEvidence.current_value m,
      threshold = PaperReadinessAlertRule.threshold u, operator = PaperReadinessAlertRule.operator u,
      runbook_url = PaperReadinessAlertRoute.runbook_url t,
      source_links = ls, run_ids = link_run_ids ls, trace_ids = link_trace_ids ls,
      report_ids = link_report_ids ls, source_ids = link_source_ids ls, message = alert_message u m,
      requirement_ids = PaperReadinessAlertRule.requirement_ids u\<rparr>)"

definition make_paper_readiness_alert_event ::
  "digest \<Rightarrow> PaperReadinessAlertRule \<Rightarrow> PaperReadinessMetricEvidence \<Rightarrow> PaperReadinessAlertEvent result" where
  "make_paper_readiness_alert_event H u m =
     (let d = alert_draft u m; h = build_paper_readiness_alert_event_hash H d
      in construct_PaperReadinessAlertEvent H
           (d\<lparr>alert_id := build_paper_readiness_alert_event_id H h, alert_hash := h\<rparr>))"

definition observability_draft ::
  "datetime \<Rightarrow> PaperReadinessDashboardSpec \<Rightarrow> PaperReadinessAlertRule list \<Rightarrow> PaperReadinessMetricEvidence list
   \<Rightarrow> PaperReadinessAlertEvent list \<Rightarrow> string list \<Rightarrow> PaperReadinessObservabilityReport" where
  "observability_draft ts b us ms al reqs =
     \<lparr>PaperReadinessObservabilityReport.observability_report_id = ''PAPEROBS:PLACEHOLDER'',
      observability_report_hash = zero_hash, generated_at = ts, dashboard = b,
      alert_rule_ids = map PaperReadinessAlertRule.rule_id us, alert_rules = us,
      metric_ids = map PaperReadinessMetricEvidence.metric_id ms, metric_evidence = ms,
      routed_alert_ids = map alert_id al, routed_alerts = al,
      source_report_ids = link_report_ids (evidence_links ms),
      source_run_ids = link_run_ids (evidence_links ms), requirement_ids = reqs\<rparr>"

definition make_paper_readiness_observability_report ::
  "digest \<Rightarrow> datetime \<Rightarrow> PaperReadinessDashboardSpec \<Rightarrow> PaperReadinessAlertRule list
   \<Rightarrow> PaperReadinessMetricEvidence list \<Rightarrow> PaperReadinessAlertEvent list \<Rightarrow> string list
   \<Rightarrow> PaperReadinessObservabilityReport result" where
  "make_paper_readiness_observability_report H ts b us ms al reqs =
     (let d = observability_draft ts b us ms al reqs;
          h = build_paper_readiness_observability_report_hash H d
      in construct_PaperReadinessObservabilityReport H
           (d\<lparr>observability_report_id := build_paper_readiness_observability_report_id H h,
              observability_report_hash := h\<rparr>))"

section \<open>The identity scheme\<close>

text \<open>
  \<open>identify i h r\<close> is \<open>r\<close> with that identifier and hash; \<open>sound r\<close> collects what the contract
  requires of the other fields.
\<close>

locale identified_contract =
  fixes construct :: "'r \<Rightarrow> 'r result"
    and identify :: "string \<Rightarrow> string \<Rightarrow> 'r \<Rightarrow> 'r"
    and hash_of :: "'r \<Rightarrow> string"
    and id_of :: "string \<Rightarrow> string"
    and sound :: "'r \<Rightarrow> bool"
  assumes identified: "sound r \<Longrightarrow>
      construct (identify (id_of (hash_of r)) (hash_of r) r) = Inr (identify (id_of (hash_of r)) (hash_of r) r)"
    and construct_returns: "construct r = Inr s \<Longrightarrow> s = r"
begin

lemma made:
  assumes "sound d"
  shows "(let h = hash_of d in construct (identify (id_of h) h d)) = Inr (identify (id_of (hash_of d)) (hash_of d) d)"
  using identified [OF assms] by (simp add: Let_def)

lemma made_Inr:
  assumes "(let h = hash_of d in construct (identify (id_of h) h d)) = Inr r"
  shows "r = identify (id_of (hash_of d)) (hash_of d) d" "construct r = Inr r"
proof -
  have c: "construct (identify (id_of (hash_of d)) (hash_of d) d) = Inr r" using assms by (simp add: Let_def)
  then show e: "r = identify (id_of (hash_of d)) (hash_of d) d" by (rule construct_returns)
  show "construct r = Inr r" using c by (simp only: e [symmetric])
qed

end

definition sound_panel :: "digest \<Rightarrow> PaperReadinessDashboardPanel \<Rightarrow> bool" where
  "sound_panel H r \<longleftrightarrow> digest_ok H \<and> list_all fst (drop 2 (dashboard_panel_fields r))
     \<and> runbook_link (PaperReadinessDashboardPanel.runbook_url r) \<and> distinct (PaperReadinessDashboardPanel.metric_ids r)"

definition sound_spec :: "digest \<Rightarrow> PaperReadinessDashboardSpec \<Rightarrow> bool" where
  "sound_spec H r \<longleftrightarrow> digest_ok H \<and> list_all fst (drop 2 (dashboard_spec_fields H r))
     \<and> panel_ids r = map panel_id (panels r)
     \<and> set (map PaperReadinessDashboardPanel.group (panels r)) = set required_groups
     \<and> distinct (dashboard_metric_ids r)"

definition sound_route :: "digest \<Rightarrow> PaperReadinessAlertRoute \<Rightarrow> bool" where
  "sound_route H r \<longleftrightarrow> digest_ok H \<and> list_all fst (drop 2 (alert_route_fields r))
     \<and> runbook_link (PaperReadinessAlertRoute.runbook_url r)"

definition sound_rule :: "digest \<Rightarrow> PaperReadinessAlertRule \<Rightarrow> bool" where
  "sound_rule H r \<longleftrightarrow> digest_ok H \<and> list_all fst (drop 2 (alert_rule_fields H r))
     \<and> PaperReadinessAlertRoute.category (route r) = PaperReadinessAlertRule.category r"

definition sound_alert :: "digest \<Rightarrow> PaperReadinessAlertEvent \<Rightarrow> bool" where
  "sound_alert H r \<longleftrightarrow> digest_ok H \<and> list_all fst (drop 2 (alert_event_fields r))
     \<and> runbook_link (PaperReadinessAlertEvent.runbook_url r)
     \<and> run_ids r = link_run_ids (PaperReadinessAlertEvent.source_links r)
     \<and> trace_ids r = link_trace_ids (PaperReadinessAlertEvent.source_links r)
     \<and> report_ids r = link_report_ids (PaperReadinessAlertEvent.source_links r)
     \<and> source_ids r = link_source_ids (PaperReadinessAlertEvent.source_links r)"

definition sound_observability :: "digest \<Rightarrow> PaperReadinessObservabilityReport \<Rightarrow> bool" where
  "sound_observability H r \<longleftrightarrow> digest_ok H \<and> list_all fst (drop 2 (observability_report_fields H r))
     \<and> list_all fst (observability_report_checks r)"

text \<open>The identity fields do not enter the hash, nor any other condition.\<close>

lemma panel_identity [simp]:
  "build_paper_readiness_dashboard_panel_hash H (r\<lparr>panel_id := x, panel_hash := y\<rparr>) = build_paper_readiness_dashboard_panel_hash H r"
  by (simp add: build_paper_readiness_dashboard_panel_hash_def dashboard_panel_items_def)

lemma spec_identity [simp]:
  "build_paper_readiness_dashboard_spec_hash H (r\<lparr>dashboard_id := x, dashboard_hash := y\<rparr>) = build_paper_readiness_dashboard_spec_hash H r"
  by (simp add: build_paper_readiness_dashboard_spec_hash_def dashboard_spec_items_def)

lemma route_identity [simp]:
  "build_paper_readiness_alert_route_hash H (r\<lparr>PaperReadinessAlertRoute.route_id := x, route_hash := y\<rparr>) = build_paper_readiness_alert_route_hash H r"
  by (simp add: build_paper_readiness_alert_route_hash_def alert_route_items_def)

lemma rule_identity [simp]:
  "build_paper_readiness_alert_rule_hash H (r\<lparr>PaperReadinessAlertRule.rule_id := x, rule_hash := y\<rparr>) = build_paper_readiness_alert_rule_hash H r"
  by (simp add: build_paper_readiness_alert_rule_hash_def alert_rule_items_def)

lemma alert_identity [simp]:
  "build_paper_readiness_alert_event_hash H (r\<lparr>alert_id := x, alert_hash := y\<rparr>) = build_paper_readiness_alert_event_hash H r"
  by (simp add: build_paper_readiness_alert_event_hash_def alert_event_items_def)

lemma observability_identity [simp]:
  "build_paper_readiness_observability_report_hash H (r\<lparr>observability_report_id := x, observability_report_hash := y\<rparr>) = build_paper_readiness_observability_report_hash H r"
  by (simp add: build_paper_readiness_observability_report_hash_def observability_report_items_def)

lemma stable_prefixes:
  assumes "digest_ok H"
  shows "canonical_id (stable_id H ''PAPERDASHPANEL'' p)" "canonical_id (stable_id H ''PAPERDASHBOARD'' p)"
    "canonical_id (stable_id H ''PAPERALERTROUTE'' p)" "canonical_id (stable_id H ''PAPERALERTRULE'' p)"
    "canonical_id (stable_id H ''PAPERALERT'' p)" "canonical_id (stable_id H ''PAPEROBS'' p)"
  by (rule stable_id_canonical [OF assms]; simp add: canonical_id_def upper_char_def)+

lemma unidentified [simp]:
  "dashboard_metric_ids (r\<lparr>dashboard_id := x, dashboard_hash := y\<rparr>) = dashboard_metric_ids r"
  "observability_report_checks (o'\<lparr>observability_report_id := x, observability_report_hash := y\<rparr>)
     = observability_report_checks o'"
  by (simp_all add: dashboard_metric_ids_def observability_report_checks_def alert_references_def)

interpretation panel_contract: identified_contract "construct_PaperReadinessDashboardPanel H"
  "\<lambda>i h r. r\<lparr>panel_id := i, panel_hash := h\<rparr>"
  "build_paper_readiness_dashboard_panel_hash H" "build_paper_readiness_dashboard_panel_id H" "sound_panel H" for H
proof unfold_locales
  fix r :: PaperReadinessDashboardPanel
  let ?h = "build_paper_readiness_dashboard_panel_hash H r"
  let ?r = "r\<lparr>panel_id := build_paper_readiness_dashboard_panel_id H ?h, panel_hash := ?h\<rparr>"
  assume s: "sound_panel H r"
  then have "hex64 ?h" "canonical_id (build_paper_readiness_dashboard_panel_id H ?h)"
    by (simp_all add: sound_panel_def build_paper_readiness_dashboard_panel_hash_def build_paper_readiness_dashboard_panel_id_def stable_prefixes)
  with s show "construct_PaperReadinessDashboardPanel H ?r = Inr ?r"
    by (auto simp: sound_panel_def construct_PaperReadinessDashboardPanel_def Let_def dashboard_panel_fields_def validate_runbook_link_def)
qed (simp add: construct_PaperReadinessDashboardPanel_def Let_def)

interpretation spec_contract: identified_contract "construct_PaperReadinessDashboardSpec H"
  "\<lambda>i h r. r\<lparr>dashboard_id := i, dashboard_hash := h\<rparr>"
  "build_paper_readiness_dashboard_spec_hash H" "build_paper_readiness_dashboard_spec_id H" "sound_spec H" for H
proof unfold_locales
  fix r :: PaperReadinessDashboardSpec
  let ?h = "build_paper_readiness_dashboard_spec_hash H r"
  let ?r = "r\<lparr>dashboard_id := build_paper_readiness_dashboard_spec_id H ?h, dashboard_hash := ?h\<rparr>"
  assume s: "sound_spec H r"
  then have "hex64 ?h" "canonical_id (build_paper_readiness_dashboard_spec_id H ?h)"
    by (simp_all add: sound_spec_def build_paper_readiness_dashboard_spec_hash_def build_paper_readiness_dashboard_spec_id_def stable_prefixes)
  with s show "construct_PaperReadinessDashboardSpec H ?r = Inr ?r"
    by (auto simp: sound_spec_def construct_PaperReadinessDashboardSpec_def Let_def dashboard_spec_fields_def validate_runbook_link_def)
qed (simp add: construct_PaperReadinessDashboardSpec_def Let_def)

interpretation route_contract: identified_contract "construct_PaperReadinessAlertRoute H"
  "\<lambda>i h r. r\<lparr>PaperReadinessAlertRoute.route_id := i, route_hash := h\<rparr>"
  "build_paper_readiness_alert_route_hash H" "build_paper_readiness_alert_route_id H" "sound_route H" for H
proof unfold_locales
  fix r :: PaperReadinessAlertRoute
  let ?h = "build_paper_readiness_alert_route_hash H r"
  let ?r = "r\<lparr>PaperReadinessAlertRoute.route_id := build_paper_readiness_alert_route_id H ?h, route_hash := ?h\<rparr>"
  assume s: "sound_route H r"
  then have "hex64 ?h" "canonical_id (build_paper_readiness_alert_route_id H ?h)"
    by (simp_all add: sound_route_def build_paper_readiness_alert_route_hash_def build_paper_readiness_alert_route_id_def stable_prefixes)
  with s show "construct_PaperReadinessAlertRoute H ?r = Inr ?r"
    by (auto simp: sound_route_def construct_PaperReadinessAlertRoute_def Let_def alert_route_fields_def validate_runbook_link_def)
qed (simp add: construct_PaperReadinessAlertRoute_def Let_def)

interpretation rule_contract: identified_contract "construct_PaperReadinessAlertRule H"
  "\<lambda>i h r. r\<lparr>PaperReadinessAlertRule.rule_id := i, rule_hash := h\<rparr>"
  "build_paper_readiness_alert_rule_hash H" "build_paper_readiness_alert_rule_id H" "sound_rule H" for H
proof unfold_locales
  fix r :: PaperReadinessAlertRule
  let ?h = "build_paper_readiness_alert_rule_hash H r"
  let ?r = "r\<lparr>PaperReadinessAlertRule.rule_id := build_paper_readiness_alert_rule_id H ?h, rule_hash := ?h\<rparr>"
  assume s: "sound_rule H r"
  then have "hex64 ?h" "canonical_id (build_paper_readiness_alert_rule_id H ?h)"
    by (simp_all add: sound_rule_def build_paper_readiness_alert_rule_hash_def build_paper_readiness_alert_rule_id_def stable_prefixes)
  with s show "construct_PaperReadinessAlertRule H ?r = Inr ?r"
    by (auto simp: sound_rule_def construct_PaperReadinessAlertRule_def Let_def alert_rule_fields_def validate_runbook_link_def)
qed (simp add: construct_PaperReadinessAlertRule_def Let_def)

interpretation alert_contract: identified_contract "construct_PaperReadinessAlertEvent H"
  "\<lambda>i h r. r\<lparr>alert_id := i, alert_hash := h\<rparr>"
  "build_paper_readiness_alert_event_hash H" "build_paper_readiness_alert_event_id H" "sound_alert H" for H
proof unfold_locales
  fix r :: PaperReadinessAlertEvent
  let ?h = "build_paper_readiness_alert_event_hash H r"
  let ?r = "r\<lparr>alert_id := build_paper_readiness_alert_event_id H ?h, alert_hash := ?h\<rparr>"
  assume s: "sound_alert H r"
  then have "hex64 ?h" "canonical_id (build_paper_readiness_alert_event_id H ?h)"
    by (simp_all add: sound_alert_def build_paper_readiness_alert_event_hash_def build_paper_readiness_alert_event_id_def stable_prefixes)
  with s show "construct_PaperReadinessAlertEvent H ?r = Inr ?r"
    by (auto simp: sound_alert_def construct_PaperReadinessAlertEvent_def Let_def alert_event_fields_def validate_runbook_link_def)
qed (simp add: construct_PaperReadinessAlertEvent_def Let_def)

interpretation observability_contract: identified_contract "construct_PaperReadinessObservabilityReport H"
  "\<lambda>i h r. r\<lparr>observability_report_id := i, observability_report_hash := h\<rparr>"
  "build_paper_readiness_observability_report_hash H" "build_paper_readiness_observability_report_id H" "sound_observability H" for H
proof unfold_locales
  fix r :: PaperReadinessObservabilityReport
  let ?h = "build_paper_readiness_observability_report_hash H r"
  let ?r = "r\<lparr>observability_report_id := build_paper_readiness_observability_report_id H ?h, observability_report_hash := ?h\<rparr>"
  assume s: "sound_observability H r"
  then have "hex64 ?h" "canonical_id (build_paper_readiness_observability_report_id H ?h)"
    by (simp_all add: sound_observability_def build_paper_readiness_observability_report_hash_def build_paper_readiness_observability_report_id_def stable_prefixes)
  with s show "construct_PaperReadinessObservabilityReport H ?r = Inr ?r"
    by (auto simp: sound_observability_def construct_PaperReadinessObservabilityReport_def Let_def observability_report_fields_def validate_runbook_link_def)
qed (simp add: construct_PaperReadinessObservabilityReport_def Let_def)

end
