(* ===== verification/ReadinessConfig.thy ===== *)
theory ReadinessConfig
  imports Alerts
begin

text \<open>
  The configuration of paper readiness, first half of \<open>observability/paper_readiness.py\<close>: metric
  identifiers, the built-in dashboard and alert configurations, and the functions that turn a
  configuration into panels, a dashboard, routes and rules.  A configuration enters as the typed
  record that \<open>model_validate\<close> reads from the mapping.  The theory shows that the built-in
  configurations are accepted, whatever the digest.
\<close>

section \<open>Metric identifiers\<close>

definition METRIC_DATA_STALE_COUNT :: string where
  "METRIC_DATA_STALE_COUNT = ''paper.data.stale_critical_feed_count''"

definition METRIC_DATA_BLOCKED_COUNT :: string where
  "METRIC_DATA_BLOCKED_COUNT = ''paper.data.blocked_signal_count''"

definition METRIC_MODEL_CALIBRATION_ERROR :: string where
  "METRIC_MODEL_CALIBRATION_ERROR = ''paper.model.calibration_error''"

definition METRIC_MODEL_VALIDATION_BLOCKER_COUNT :: string where
  "METRIC_MODEL_VALIDATION_BLOCKER_COUNT = ''paper.model.validation_blocker_count''"

definition METRIC_STRATEGY_NO_TRADE_QUALITY_DELTA :: string where
  "METRIC_STRATEGY_NO_TRADE_QUALITY_DELTA = ''paper.strategy.no_trade_quality_delta''"

definition METRIC_STRATEGY_COST_DRAG_NOTIONAL :: string where
  "METRIC_STRATEGY_COST_DRAG_NOTIONAL = ''paper.strategy.cost_drag_notional''"

definition METRIC_PORTFOLIO_TOTAL_EXECUTION_COST :: string where
  "METRIC_PORTFOLIO_TOTAL_EXECUTION_COST = ''paper.portfolio.total_execution_cost''"

definition METRIC_PORTFOLIO_MAX_DRAWDOWN_PCT :: string where
  "METRIC_PORTFOLIO_MAX_DRAWDOWN_PCT = ''paper.portfolio.max_drawdown_pct''"

definition METRIC_PORTFOLIO_ACCOUNT_STATE_LINKAGE_GAP :: string where
  "METRIC_PORTFOLIO_ACCOUNT_STATE_LINKAGE_GAP = ''paper.portfolio.account_state_linkage_gap''"

definition METRIC_EXECUTION_TCA_ERROR_COUNT :: string where
  "METRIC_EXECUTION_TCA_ERROR_COUNT = ''paper.execution.tca_error_count''"

definition METRIC_EXECUTION_ORDER_REJECT_COUNT :: string where
  "METRIC_EXECUTION_ORDER_REJECT_COUNT = ''paper.execution.order_reject_count''"

definition METRIC_EXECUTION_COST_PREDICTION_ERROR_ABS :: string where
  "METRIC_EXECUTION_COST_PREDICTION_ERROR_ABS = ''paper.execution.cost_prediction_error_abs''"

definition METRIC_RISK_KILL_SWITCH_BLOCK_COUNT :: string where
  "METRIC_RISK_KILL_SWITCH_BLOCK_COUNT = ''paper.risk.kill_switch_block_count''"

definition METRIC_RISK_PRE_TRADE_BLOCK_COUNT :: string where
  "METRIC_RISK_PRE_TRADE_BLOCK_COUNT = ''paper.risk.pre_trade_block_count''"

definition METRIC_RISK_HARD_BREACH_COUNT :: string where
  "METRIC_RISK_HARD_BREACH_COUNT = ''paper.risk.hard_breach_count''"

section \<open>Configurations\<close>

record DashboardPanelConfig =
  group :: PaperReadinessSignalGroup
  title :: string
  description :: string
  metric_ids :: "string list"
  source_contracts :: "string list"
  runbook_url :: string
  requirement_ids :: "string list"

definition panel_config_fields :: "DashboardPanelConfig \<Rightarrow> (bool \<times> string) list" where
  "panel_config_fields r =
     [(non_empty_string (title r), ''title''),
      (non_empty_string (description r), ''description''),
      (list_all non_empty_string (metric_ids r) \<and> 1 \<le> length (metric_ids r), ''metric_ids''),
      (list_all non_empty_string (source_contracts r) \<and> 1 \<le> length (source_contracts r), ''source_contracts''),
      (non_empty_string (runbook_url r), ''runbook_url''),
      (list_all non_empty_string (requirement_ids r) \<and> 1 \<le> length (requirement_ids r), ''requirement_ids'')]"

definition construct_DashboardPanelConfig :: "DashboardPanelConfig \<Rightarrow> DashboardPanelConfig result" where
  "construct_DashboardPanelConfig r = checked (panel_config_fields r) r"

definition valid_DashboardPanelConfig :: "DashboardPanelConfig \<Rightarrow> bool" where
  "valid_DashboardPanelConfig r \<longleftrightarrow> construct_DashboardPanelConfig r = Inr r"

record DashboardConfig =
  title :: string
  version :: string
  panels :: "DashboardPanelConfig list"

definition dashboard_config_fields :: "DashboardConfig \<Rightarrow> (bool \<times> string) list" where
  "dashboard_config_fields r =
     [(non_empty_string (title r), ''title''),
      (non_empty_string (version r), ''version''),
      (list_all valid_DashboardPanelConfig (panels r) \<and> 1 \<le> length (panels r), ''panels'')]"

definition construct_DashboardConfig :: "DashboardConfig \<Rightarrow> DashboardConfig result" where
  "construct_DashboardConfig r = checked (dashboard_config_fields r) r"

definition valid_DashboardConfig :: "DashboardConfig \<Rightarrow> bool" where
  "valid_DashboardConfig r \<longleftrightarrow> construct_DashboardConfig r = Inr r"

record AlertRuleConfig =
  category :: PaperReadinessAlertCategory
  group :: PaperReadinessSignalGroup
  metric_id :: string
  operator :: PaperReadinessAlertOperator
  threshold :: decimal
  owner :: string
  severity :: PaperReadinessAlertSeverity
  channel :: string
  runbook_url :: string
  description :: string
  source_contracts :: "string list"
  requirement_ids :: "string list"

definition rule_config_fields :: "AlertRuleConfig \<Rightarrow> (bool \<times> string) list" where
  "rule_config_fields r =
     [(non_empty_string (metric_id r), ''metric_id''),
      (non_empty_string (owner r), ''owner''),
      (non_empty_string (channel r), ''channel''),
      (non_empty_string (runbook_url r), ''runbook_url''),
      (non_empty_string (description r), ''description''),
      (list_all non_empty_string (source_contracts r) \<and> 1 \<le> length (source_contracts r), ''source_contracts''),
      (list_all non_empty_string (requirement_ids r) \<and> 1 \<le> length (requirement_ids r), ''requirement_ids'')]"

definition construct_AlertRuleConfig :: "AlertRuleConfig \<Rightarrow> AlertRuleConfig result" where
  "construct_AlertRuleConfig r = checked (rule_config_fields r) r"

definition valid_AlertRuleConfig :: "AlertRuleConfig \<Rightarrow> bool" where
  "valid_AlertRuleConfig r \<longleftrightarrow> construct_AlertRuleConfig r = Inr r"

record AlertConfig =
  rules :: "AlertRuleConfig list"

definition alert_config_fields :: "AlertConfig \<Rightarrow> (bool \<times> string) list" where
  "alert_config_fields r =
     [(list_all valid_AlertRuleConfig (rules r) \<and> 1 \<le> length (rules r), ''rules'')]"

definition construct_AlertConfig :: "AlertConfig \<Rightarrow> AlertConfig result" where
  "construct_AlertConfig r = checked (alert_config_fields r @
     [(distinct (map (\<lambda>u. (AlertRuleConfig.category u, AlertRuleConfig.metric_id u)) (rules r)),
        ''alert config contains duplicate category/metric rules'')]) r"

definition valid_AlertConfig :: "AlertConfig \<Rightarrow> bool" where
  "valid_AlertConfig r \<longleftrightarrow> construct_AlertConfig r = Inr r"

text \<open>The built-in dashboard, \<open>_DEFAULT_DASHBOARD_CONFIG\<close>, as the parsed configuration.\<close>

definition default_data_health_panel :: DashboardPanelConfig where
  "default_data_health_panel =
     \<lparr>DashboardPanelConfig.group = DATA_HEALTH, title = ''Data health and freshness'',
      description = ''Critical stream freshness and fail-closed data-health signals.'',
      metric_ids = [METRIC_DATA_STALE_COUNT, METRIC_DATA_BLOCKED_COUNT],
      source_contracts = [''DataHealthSignal'', ''StreamHealthRecord''],
      runbook_url = ''docs/runbooks/paper-readiness/README.md#data-health-and-stale-feeds'',
      requirement_ids = [''FR-002'', ''NFR-006'', ''RISK-014'']\<rparr>"

definition default_model_validation_panel :: DashboardPanelConfig where
  "default_model_validation_panel =
     \<lparr>DashboardPanelConfig.group = MODEL_VALIDATION,
      title = ''Model validation, calibration, and drift readiness'',
      description = ''Forecast validation and calibration readiness from model gate reports.'',
      metric_ids = [METRIC_MODEL_CALIBRATION_ERROR, METRIC_MODEL_VALIDATION_BLOCKER_COUNT],
      source_contracts = [''ModelValidationReport''],
      runbook_url = ''docs/runbooks/paper-readiness/README.md#model-validation-readiness'',
      requirement_ids = [''FR-014'', ''RISK-014'']\<rparr>"

definition default_strategy_panel :: DashboardPanelConfig where
  "default_strategy_panel =
     \<lparr>DashboardPanelConfig.group = STRATEGY, title = ''Strategy and no-trade quality'',
      description = ''No-trade utility and cost-drag evidence from strategy gate reports.'',
      metric_ids = [METRIC_STRATEGY_NO_TRADE_QUALITY_DELTA, METRIC_STRATEGY_COST_DRAG_NOTIONAL],
      source_contracts = [''StrategyGateReport''],
      runbook_url = ''docs/runbooks/paper-readiness/README.md#strategy-gate-and-no-trade-quality'',
      requirement_ids = [''FR-009'', ''FR-014'', ''RISK-014'']\<rparr>"

definition default_portfolio_panel :: DashboardPanelConfig where
  "default_portfolio_panel =
     \<lparr>DashboardPanelConfig.group = PORTFOLIO, title = ''Portfolio and paper account state'',
      description = ''Account-state linkage, execution cost totals, and drawdown-like risk telemetry.'',
      metric_ids = [METRIC_PORTFOLIO_TOTAL_EXECUTION_COST, METRIC_PORTFOLIO_MAX_DRAWDOWN_PCT, METRIC_PORTFOLIO_ACCOUNT_STATE_LINKAGE_GAP],
      source_contracts = [''PaperAccountSessionReport'', ''RiskCheckEvent''],
      runbook_url = ''docs/runbooks/paper-readiness/README.md#portfolio-accounting-and-drawdown'',
      requirement_ids = [''FR-013'', ''FR-014'', ''RISK-014'']\<rparr>"

definition default_execution_panel :: DashboardPanelConfig where
  "default_execution_panel =
     \<lparr>DashboardPanelConfig.group = EXECUTION, title = ''Execution, TCA, rejects, and slippage'',
      description = ''Paper TCA errors, order rejects, and cost prediction error evidence.'',
      metric_ids = [METRIC_EXECUTION_TCA_ERROR_COUNT, METRIC_EXECUTION_ORDER_REJECT_COUNT, METRIC_EXECUTION_COST_PREDICTION_ERROR_ABS],
      source_contracts = [''ExecutionGatewayReport'', ''PaperAccountSessionReport'', ''PaperTcaReport''],
      runbook_url = ''docs/runbooks/paper-readiness/README.md#execution-tca-and-order-rejects'',
      requirement_ids = [''FR-013'', ''FR-014'', ''US-011'', ''RISK-014'']\<rparr>"

definition default_risk_panel :: DashboardPanelConfig where
  "default_risk_panel =
     \<lparr>DashboardPanelConfig.group = RISK, title = ''Risk, kill-switch, and pre-trade blocks'',
      description = ''Independent risk, kill-switch, and hard-breach evidence before paper gateway.'',
      metric_ids = [METRIC_RISK_KILL_SWITCH_BLOCK_COUNT, METRIC_RISK_PRE_TRADE_BLOCK_COUNT, METRIC_RISK_HARD_BREACH_COUNT],
      source_contracts = [''RiskCheckEvent'', ''PaperAccountSessionReport''],
      runbook_url = ''docs/runbooks/paper-readiness/README.md#risk-kill-switch-and-pre-trade-blocks'',
      requirement_ids = [''FR-010'', ''FR-011'', ''NFR-004'', ''RISK-014'']\<rparr>"

definition DEFAULT_DASHBOARD_CONFIG :: DashboardConfig where
  "DEFAULT_DASHBOARD_CONFIG =
     \<lparr>DashboardConfig.title = ''S10 paper-readiness dashboard'', version = ''s10-004-v1'',
      panels = [default_data_health_panel, default_model_validation_panel, default_strategy_panel, 
        default_portfolio_panel, default_execution_panel, default_risk_panel]\<rparr>"

text \<open>The built-in alert rules, \<open>_DEFAULT_ALERT_CONFIG\<close>.\<close>

definition default_data_stale_rule :: AlertRuleConfig where
  "default_data_stale_rule =
     \<lparr>AlertRuleConfig.category = PaperReadinessAlertCategory.DATA_STALE,
      group = PaperReadinessSignalGroup.DATA_HEALTH, metric_id = METRIC_DATA_STALE_COUNT, operator = GREATER_THAN,
      threshold = Dec 0 0, owner = ''Data / risk'', severity = PaperReadinessAlertSeverity.CRITICAL,
      channel = ''paper-readiness-ops'',
      runbook_url = ''docs/runbooks/paper-readiness/README.md#data-health-and-stale-feeds'',
      description = ''Critical feed stale signal must fail closed for affected scope.'',
      source_contracts = [''DataHealthSignal''], requirement_ids = [''NFR-006'', ''RISK-014'']\<rparr>"

definition default_execution_tca_error_rule :: AlertRuleConfig where
  "default_execution_tca_error_rule =
     \<lparr>AlertRuleConfig.category = PaperReadinessAlertCategory.EXECUTION_TCA_ERROR,
      group = PaperReadinessSignalGroup.EXECUTION, metric_id = METRIC_EXECUTION_TCA_ERROR_COUNT,
      operator = GREATER_THAN, threshold = Dec 0 0, owner = ''Execution / risk'',
      severity = PaperReadinessAlertSeverity.CRITICAL, channel = ''paper-readiness-ops'',
      runbook_url = ''docs/runbooks/paper-readiness/README.md#execution-tca-and-order-rejects'',
      description = ''Paper TCA errors require execution review before paper-readiness claim.'',
      source_contracts = [''PaperTcaReport''], requirement_ids = [''FR-014'', ''US-011'', ''RISK-014'']\<rparr>"

definition default_order_reject_rule :: AlertRuleConfig where
  "default_order_reject_rule =
     \<lparr>AlertRuleConfig.category = PaperReadinessAlertCategory.ORDER_REJECT,
      group = PaperReadinessSignalGroup.EXECUTION, metric_id = METRIC_EXECUTION_ORDER_REJECT_COUNT,
      operator = GREATER_THAN, threshold = Dec 0 0, owner = ''Execution / ops'',
      severity = PaperReadinessAlertSeverity.WARNING, channel = ''paper-readiness-ops'',
      runbook_url = ''docs/runbooks/paper-readiness/README.md#execution-tca-and-order-rejects'',
      description = ''Gateway replay rejects require routing to execution operations.'',
      source_contracts = [''PaperAccountSessionReport'', ''ExecutionGatewayReport''],
      requirement_ids = [''FR-013'', ''FR-014'', ''RISK-014'']\<rparr>"

definition default_portfolio_drawdown_rule :: AlertRuleConfig where
  "default_portfolio_drawdown_rule =
     \<lparr>AlertRuleConfig.category = PaperReadinessAlertCategory.PORTFOLIO_DRAWDOWN,
      group = PaperReadinessSignalGroup.PORTFOLIO, metric_id = METRIC_PORTFOLIO_MAX_DRAWDOWN_PCT,
      operator = GREATER_THAN, threshold = Dec 5 (-2), owner = ''Risk / product'',
      severity = PaperReadinessAlertSeverity.WARNING, channel = ''paper-readiness-ops'',
      runbook_url = ''docs/runbooks/paper-readiness/README.md#portfolio-accounting-and-drawdown'',
      description = ''Drawdown-like portfolio risk telemetry crossed paper soft threshold.'',
      source_contracts = [''RiskCheckEvent''], requirement_ids = [''FR-014'', ''RISK-014'']\<rparr>"

definition default_portfolio_accounting_rule :: AlertRuleConfig where
  "default_portfolio_accounting_rule =
     \<lparr>AlertRuleConfig.category = PaperReadinessAlertCategory.PORTFOLIO_ACCOUNTING,
      group = PaperReadinessSignalGroup.PORTFOLIO, metric_id = METRIC_PORTFOLIO_ACCOUNT_STATE_LINKAGE_GAP,
      operator = GREATER_THAN, threshold = Dec 0 0, owner = ''Portfolio / ops'',
      severity = PaperReadinessAlertSeverity.WARNING, channel = ''paper-readiness-ops'',
      runbook_url = ''docs/runbooks/paper-readiness/README.md#portfolio-accounting-and-drawdown'',
      description = ''Paper account final state needs stronger computed/replay linkage.'',
      source_contracts = [''PaperAccountSessionReport''],
      requirement_ids = [''FR-013'', ''FR-014'', ''RISK-014'']\<rparr>"

definition default_risk_kill_switch_rule :: AlertRuleConfig where
  "default_risk_kill_switch_rule =
     \<lparr>AlertRuleConfig.category = PaperReadinessAlertCategory.RISK_KILL_SWITCH,
      group = PaperReadinessSignalGroup.RISK, metric_id = METRIC_RISK_KILL_SWITCH_BLOCK_COUNT,
      operator = GREATER_THAN, threshold = Dec 0 0, owner = ''Risk / ops'',
      severity = PaperReadinessAlertSeverity.CRITICAL, channel = ''paper-readiness-ops'',
      runbook_url = ''docs/runbooks/paper-readiness/README.md#risk-kill-switch-and-pre-trade-blocks'',
      description = ''Kill-switch or unknown kill state blocked paper-path risk checks.'',
      source_contracts = [''RiskCheckEvent''],
      requirement_ids = [''FR-010'', ''FR-011'', ''NFR-004'', ''RISK-014'']\<rparr>"

definition default_risk_pre_trade_block_rule :: AlertRuleConfig where
  "default_risk_pre_trade_block_rule =
     \<lparr>AlertRuleConfig.category = PaperReadinessAlertCategory.RISK_PRE_TRADE_BLOCK,
      group = PaperReadinessSignalGroup.RISK, metric_id = METRIC_RISK_PRE_TRADE_BLOCK_COUNT, operator = GREATER_THAN,
      threshold = Dec 0 0, owner = ''Risk'', severity = PaperReadinessAlertSeverity.WARNING,
      channel = ''paper-readiness-ops'',
      runbook_url = ''docs/runbooks/paper-readiness/README.md#risk-kill-switch-and-pre-trade-blocks'',
      description = ''Independent risk engine blocked or no-traded paper-path requests.'',
      source_contracts = [''RiskCheckEvent''], requirement_ids = [''FR-010'', ''NFR-004'', ''RISK-014'']\<rparr>"

definition DEFAULT_ALERT_CONFIG :: AlertConfig where
  "DEFAULT_ALERT_CONFIG =
     \<lparr>AlertConfig.rules = [default_data_stale_rule,
        default_execution_tca_error_rule,
        default_order_reject_rule,
        default_portfolio_drawdown_rule,
        default_portfolio_accounting_rule,
        default_risk_kill_switch_rule,
        default_risk_pre_trade_block_rule]\<rparr>"

section \<open>From a configuration to contracts\<close>

definition default_requirements :: "string list" where
  "default_requirements = [''FR-014'', ''RISK-014'']"

definition panel_from_config :: "digest \<Rightarrow> DashboardPanelConfig \<Rightarrow> PaperReadinessDashboardPanel result" where
  "panel_from_config H c = make_paper_readiness_dashboard_panel H (DashboardPanelConfig.group c)
     (DashboardPanelConfig.title c) (DashboardPanelConfig.description c) (DashboardPanelConfig.metric_ids c)
     (DashboardPanelConfig.source_contracts c) (DashboardPanelConfig.runbook_url c)
     (DashboardPanelConfig.requirement_ids c)"

definition make_paper_readiness_dashboard_spec_from_config ::
  "digest \<Rightarrow> DashboardConfig \<Rightarrow> PaperReadinessDashboardSpec result" where
  "make_paper_readiness_dashboard_spec_from_config H c =
     bindE (construct_DashboardConfig c) (\<lambda>parsed.
       bindE (mapE (panel_from_config H) (DashboardConfig.panels parsed)) (\<lambda>ps.
         make_paper_readiness_dashboard_spec H (DashboardConfig.title parsed) (DashboardConfig.version parsed)
           ps default_requirements))"

definition rule_from_config :: "digest \<Rightarrow> AlertRuleConfig \<Rightarrow> PaperReadinessAlertRule result" where
  "rule_from_config H c =
     bindE (make_paper_readiness_alert_route H (AlertRuleConfig.category c) (AlertRuleConfig.owner c)
         (AlertRuleConfig.severity c) (AlertRuleConfig.channel c) (AlertRuleConfig.runbook_url c)
         (AlertRuleConfig.requirement_ids c)) (\<lambda>t.
       make_paper_readiness_alert_rule H (AlertRuleConfig.category c) (AlertRuleConfig.group c)
         (AlertRuleConfig.metric_id c) (AlertRuleConfig.operator c) (AlertRuleConfig.threshold c) t
         (AlertRuleConfig.description c) (AlertRuleConfig.source_contracts c) (AlertRuleConfig.requirement_ids c))"

definition make_paper_readiness_alert_rules_from_config ::
  "digest \<Rightarrow> AlertConfig \<Rightarrow> PaperReadinessAlertRule list result" where
  "make_paper_readiness_alert_rules_from_config H c =
     bindE (construct_AlertConfig c) (\<lambda>parsed. mapE (rule_from_config H) (AlertConfig.rules parsed))"

definition make_default_paper_readiness_dashboard_spec :: "digest \<Rightarrow> PaperReadinessDashboardSpec result" where
  "make_default_paper_readiness_dashboard_spec H =
     make_paper_readiness_dashboard_spec_from_config H DEFAULT_DASHBOARD_CONFIG"

definition make_default_paper_readiness_alert_rules :: "digest \<Rightarrow> PaperReadinessAlertRule list result" where
  "make_default_paper_readiness_alert_rules H =
     make_paper_readiness_alert_rules_from_config H DEFAULT_ALERT_CONFIG"

section \<open>What a configuration gives\<close>

lemma non_empty_stringI:
  assumes "s \<noteq> []" "\<not> py_space (hd s)" "\<not> py_space (last s)"
  shows "non_empty_string s"
proof -
  have "dropWhile py_space s = s" using assms(1,2) by (cases s) simp_all
  moreover have "dropWhile py_space (rev s) = rev s"
    using assms(1,3) by (cases s rule: rev_cases) simp_all
  ultimately show ?thesis using assms(1) by (simp add: non_empty_string_def strip_def)
qed

lemma panel_from_config_Inr:
  assumes "digest_ok H" "valid_DashboardPanelConfig c" "runbook_link (DashboardPanelConfig.runbook_url c)"
    "distinct (DashboardPanelConfig.metric_ids c)"
  shows "\<exists>p. panel_from_config H c = Inr p \<and> valid_PaperReadinessDashboardPanel H p
    \<and> PaperReadinessDashboardPanel.group p = DashboardPanelConfig.group c
    \<and> PaperReadinessDashboardPanel.metric_ids p = DashboardPanelConfig.metric_ids c"
proof -
  define d where "d = \<lparr>PaperReadinessDashboardPanel.panel_id = ''PAPERDASHPANEL:PLACEHOLDER'',
     panel_hash = zero_hash, group = DashboardPanelConfig.group c, title = DashboardPanelConfig.title c,
     description = DashboardPanelConfig.description c, metric_ids = DashboardPanelConfig.metric_ids c,
     source_contracts = DashboardPanelConfig.source_contracts c, runbook_url = DashboardPanelConfig.runbook_url c,
     requirement_ids = DashboardPanelConfig.requirement_ids c\<rparr>"
  have s: "sound_panel H d"
    using assms by (simp add: sound_panel_def d_def dashboard_panel_fields_def valid_DashboardPanelConfig_def
        construct_DashboardPanelConfig_def panel_config_fields_def)
  let ?h = "build_paper_readiness_dashboard_panel_hash H d"
  let ?p = "d\<lparr>panel_id := build_paper_readiness_dashboard_panel_id H ?h, panel_hash := ?h\<rparr>"
  have e: "panel_from_config H c = Inr ?p"
    unfolding panel_from_config_def make_paper_readiness_dashboard_panel_def d_def [symmetric]
    using panel_contract.made [OF s] by (simp add: Let_def)
  have v: "valid_PaperReadinessDashboardPanel H ?p"
    using panel_contract.identified [OF s] by (simp add: valid_PaperReadinessDashboardPanel_def)
  have "PaperReadinessDashboardPanel.group ?p = DashboardPanelConfig.group c"
    "PaperReadinessDashboardPanel.metric_ids ?p = DashboardPanelConfig.metric_ids c"
    by (simp_all add: d_def)
  with e v show ?thesis by blast
qed

lemma rule_from_config_Inr:
  assumes "digest_ok H" "valid_AlertRuleConfig c" "runbook_link (AlertRuleConfig.runbook_url c)"
  shows "\<exists>u. rule_from_config H c = Inr u \<and> valid_PaperReadinessAlertRule H u
    \<and> PaperReadinessAlertRule.category u = AlertRuleConfig.category c
    \<and> PaperReadinessAlertRule.metric_id u = AlertRuleConfig.metric_id c
    \<and> PaperReadinessAlertRule.operator u = AlertRuleConfig.operator c
    \<and> PaperReadinessAlertRule.threshold u = AlertRuleConfig.threshold c
    \<and> PaperReadinessAlertRoute.severity (PaperReadinessAlertRule.route u) = AlertRuleConfig.severity c"
proof -
  define d where "d = \<lparr>PaperReadinessAlertRoute.route_id = ''PAPERALERTROUTE:PLACEHOLDER'', route_hash = zero_hash,
     category = AlertRuleConfig.category c, owner = AlertRuleConfig.owner c, severity = AlertRuleConfig.severity c,
     channel = AlertRuleConfig.channel c, runbook_url = AlertRuleConfig.runbook_url c,
     requirement_ids = AlertRuleConfig.requirement_ids c\<rparr>"
  define t where "t = d\<lparr>PaperReadinessAlertRoute.route_id := build_paper_readiness_alert_route_id H (build_paper_readiness_alert_route_hash H d),
      route_hash := build_paper_readiness_alert_route_hash H d\<rparr>"
  have s: "sound_route H d"
    using assms by (simp add: sound_route_def d_def alert_route_fields_def valid_AlertRuleConfig_def
        construct_AlertRuleConfig_def rule_config_fields_def)
  have t: "valid_PaperReadinessAlertRoute H t"
    using route_contract.identified [OF s] by (simp add: valid_PaperReadinessAlertRoute_def t_def)
  define g where "g = \<lparr>PaperReadinessAlertRule.rule_id = ''PAPERALERTRULE:PLACEHOLDER'', rule_hash = zero_hash,
     category = AlertRuleConfig.category c, group = AlertRuleConfig.group c, metric_id = AlertRuleConfig.metric_id c,
     operator = AlertRuleConfig.operator c, threshold = AlertRuleConfig.threshold c, route = t,
     description = AlertRuleConfig.description c, source_contracts = AlertRuleConfig.source_contracts c,
     requirement_ids = AlertRuleConfig.requirement_ids c\<rparr>"
  have r: "sound_rule H g"
    using assms t by (simp add: sound_rule_def g_def t_def d_def alert_rule_fields_def valid_AlertRuleConfig_def
        construct_AlertRuleConfig_def rule_config_fields_def)
  let ?h = "build_paper_readiness_alert_rule_hash H g"
  let ?u = "g\<lparr>PaperReadinessAlertRule.rule_id := build_paper_readiness_alert_rule_id H ?h, rule_hash := ?h\<rparr>"
  have m1: "make_paper_readiness_alert_route H (AlertRuleConfig.category c) (AlertRuleConfig.owner c)
      (AlertRuleConfig.severity c) (AlertRuleConfig.channel c) (AlertRuleConfig.runbook_url c)
      (AlertRuleConfig.requirement_ids c) = Inr t"
    unfolding make_paper_readiness_alert_route_def d_def [symmetric] t_def Let_def by (rule route_contract.identified [OF s])
  have m2: "make_paper_readiness_alert_rule H (AlertRuleConfig.category c) (AlertRuleConfig.group c)
      (AlertRuleConfig.metric_id c) (AlertRuleConfig.operator c) (AlertRuleConfig.threshold c) t
      (AlertRuleConfig.description c) (AlertRuleConfig.source_contracts c) (AlertRuleConfig.requirement_ids c) = Inr ?u"
    unfolding make_paper_readiness_alert_rule_def g_def [symmetric] Let_def by (rule rule_contract.identified [OF r])
  have e: "rule_from_config H c = Inr ?u"
    unfolding rule_from_config_def using m1 m2 by simp
  have v: "valid_PaperReadinessAlertRule H ?u"
    using rule_contract.identified [OF r] by (simp add: valid_PaperReadinessAlertRule_def)
  have "PaperReadinessAlertRule.category ?u = AlertRuleConfig.category c"
    "PaperReadinessAlertRule.metric_id ?u = AlertRuleConfig.metric_id c"
    "PaperReadinessAlertRule.operator ?u = AlertRuleConfig.operator c"
    "PaperReadinessAlertRule.threshold ?u = AlertRuleConfig.threshold c"
    "PaperReadinessAlertRoute.severity (PaperReadinessAlertRule.route ?u) = AlertRuleConfig.severity c"
    by (simp_all add: g_def t_def d_def)
  with e v show ?thesis by blast
qed

section \<open>The built-in configuration\<close>

lemmas metric_names = METRIC_DATA_STALE_COUNT_def METRIC_DATA_BLOCKED_COUNT_def METRIC_MODEL_CALIBRATION_ERROR_def
  METRIC_MODEL_VALIDATION_BLOCKER_COUNT_def METRIC_STRATEGY_NO_TRADE_QUALITY_DELTA_def
  METRIC_STRATEGY_COST_DRAG_NOTIONAL_def METRIC_PORTFOLIO_TOTAL_EXECUTION_COST_def
  METRIC_PORTFOLIO_MAX_DRAWDOWN_PCT_def METRIC_PORTFOLIO_ACCOUNT_STATE_LINKAGE_GAP_def
  METRIC_EXECUTION_TCA_ERROR_COUNT_def METRIC_EXECUTION_ORDER_REJECT_COUNT_def
  METRIC_EXECUTION_COST_PREDICTION_ERROR_ABS_def METRIC_RISK_KILL_SWITCH_BLOCK_COUNT_def
  METRIC_RISK_PRE_TRADE_BLOCK_COUNT_def METRIC_RISK_HARD_BREACH_COUNT_def

lemmas default_panels = default_data_health_panel_def default_model_validation_panel_def default_strategy_panel_def
  default_portfolio_panel_def default_execution_panel_def default_risk_panel_def

lemmas default_rules = default_data_stale_rule_def default_execution_tca_error_rule_def default_order_reject_rule_def
  default_portfolio_drawdown_rule_def default_portfolio_accounting_rule_def default_risk_kill_switch_rule_def
  default_risk_pre_trade_block_rule_def

definition all_metric_ids :: "string list" where
  "all_metric_ids =
     [METRIC_DATA_STALE_COUNT, METRIC_DATA_BLOCKED_COUNT, METRIC_MODEL_CALIBRATION_ERROR,
      METRIC_MODEL_VALIDATION_BLOCKER_COUNT, METRIC_STRATEGY_NO_TRADE_QUALITY_DELTA,
      METRIC_STRATEGY_COST_DRAG_NOTIONAL, METRIC_PORTFOLIO_TOTAL_EXECUTION_COST, METRIC_PORTFOLIO_MAX_DRAWDOWN_PCT,
      METRIC_PORTFOLIO_ACCOUNT_STATE_LINKAGE_GAP, METRIC_EXECUTION_TCA_ERROR_COUNT,
      METRIC_EXECUTION_ORDER_REJECT_COUNT, METRIC_EXECUTION_COST_PREDICTION_ERROR_ABS,
      METRIC_RISK_KILL_SWITCH_BLOCK_COUNT, METRIC_RISK_PRE_TRADE_BLOCK_COUNT, METRIC_RISK_HARD_BREACH_COUNT]"

lemma metric_texts: "list_all non_empty_string all_metric_ids"
  unfolding all_metric_ids_def metric_names by (simp add: non_empty_stringI py_space_def)

lemma metric_ids_distinct: "distinct all_metric_ids"
  unfolding all_metric_ids_def metric_names by simp

lemma default_panels_valid:
  "list_all (\<lambda>c. valid_DashboardPanelConfig c \<and> runbook_link (DashboardPanelConfig.runbook_url c))
     (DashboardConfig.panels DEFAULT_DASHBOARD_CONFIG)"
  using metric_texts
  unfolding DEFAULT_DASHBOARD_CONFIG_def default_panels all_metric_ids_def
  by (simp add: valid_DashboardPanelConfig_def construct_DashboardPanelConfig_def panel_config_fields_def
      non_empty_stringI py_space_def runbook_link_def starts_with_def)

lemma default_panels_cover:
  "concat (map DashboardPanelConfig.metric_ids (DashboardConfig.panels DEFAULT_DASHBOARD_CONFIG)) = all_metric_ids"
  "map DashboardPanelConfig.group (DashboardConfig.panels DEFAULT_DASHBOARD_CONFIG) = required_groups"
  by (simp_all add: DEFAULT_DASHBOARD_CONFIG_def default_panels all_metric_ids_def required_groups_def)

lemma default_rules_valid:
  "list_all (\<lambda>c. valid_AlertRuleConfig c \<and> runbook_link (AlertRuleConfig.runbook_url c))
     (AlertConfig.rules DEFAULT_ALERT_CONFIG)"
  using metric_texts
  unfolding DEFAULT_ALERT_CONFIG_def default_rules all_metric_ids_def
  by (simp add: valid_AlertRuleConfig_def construct_AlertRuleConfig_def rule_config_fields_def
      non_empty_stringI py_space_def runbook_link_def starts_with_def)

lemma default_panels_made:
  assumes "digest_ok H"
  obtains ps where "mapE (panel_from_config H) (DashboardConfig.panels DEFAULT_DASHBOARD_CONFIG) = Inr ps"
    "map PaperReadinessDashboardPanel.group ps = required_groups"
    "concat (map PaperReadinessDashboardPanel.metric_ids ps) = all_metric_ids"
    "list_all (valid_PaperReadinessDashboardPanel H) ps" "1 \<le> length ps"
proof -
  let ?cs = "DashboardConfig.panels DEFAULT_DASHBOARD_CONFIG"
  have dist: "distinct (DashboardPanelConfig.metric_ids c)" if "c \<in> set ?cs" for c
    using that metric_ids_distinct unfolding default_panels_cover(1) [symmetric] by (auto simp: distinct_concat_iff)
  have "\<forall>c \<in> set ?cs. \<exists>p. panel_from_config H c = Inr p \<and> valid_PaperReadinessDashboardPanel H p
      \<and> PaperReadinessDashboardPanel.group p = DashboardPanelConfig.group c
      \<and> PaperReadinessDashboardPanel.metric_ids p = DashboardPanelConfig.metric_ids c"
    using panel_from_config_Inr [OF assms] dist default_panels_valid by (auto simp: list_all_iff)
  then obtain f where f: "\<And>c. c \<in> set ?cs \<Longrightarrow> panel_from_config H c = Inr (f c)
      \<and> valid_PaperReadinessDashboardPanel H (f c)
      \<and> PaperReadinessDashboardPanel.group (f c) = DashboardPanelConfig.group c
      \<and> PaperReadinessDashboardPanel.metric_ids (f c) = DashboardPanelConfig.metric_ids c"
    by metis
  have "mapE (panel_from_config H) ?cs = Inr (map f ?cs)" using f by (intro mapE_total) simp
  moreover have "map PaperReadinessDashboardPanel.group (map f ?cs) = required_groups"
    "concat (map PaperReadinessDashboardPanel.metric_ids (map f ?cs)) = all_metric_ids"
    "list_all (valid_PaperReadinessDashboardPanel H) (map f ?cs)"
    using f by (simp_all add: list_all_iff comp_def default_panels_cover [symmetric] cong: map_cong)
  moreover have "1 \<le> length (map f ?cs)" by (simp add: DEFAULT_DASHBOARD_CONFIG_def)
  ultimately show ?thesis by (rule that)
qed

lemma default_dashboard_config: "construct_DashboardConfig DEFAULT_DASHBOARD_CONFIG = Inr DEFAULT_DASHBOARD_CONFIG"
  using default_panels_valid
  by (simp add: construct_DashboardConfig_def dashboard_config_fields_def list_all_iff)
    (simp add: DEFAULT_DASHBOARD_CONFIG_def non_empty_stringI py_space_def)

lemma default_dashboard:
  assumes "digest_ok H"
  shows "\<exists>b. make_default_paper_readiness_dashboard_spec H = Inr b \<and> valid_PaperReadinessDashboardSpec H b
    \<and> dashboard_metric_ids b = all_metric_ids"
proof -
  obtain ps where ps: "mapE (panel_from_config H) (DashboardConfig.panels DEFAULT_DASHBOARD_CONFIG) = Inr ps"
    and g: "map PaperReadinessDashboardPanel.group ps = required_groups"
      "concat (map PaperReadinessDashboardPanel.metric_ids ps) = all_metric_ids"
      "list_all (valid_PaperReadinessDashboardPanel H) ps" "1 \<le> length ps"
    by (rule default_panels_made [OF assms])
  define d where "d = \<lparr>PaperReadinessDashboardSpec.dashboard_id = ''PAPERDASHBOARD:PLACEHOLDER'',
     dashboard_hash = zero_hash, title = DashboardConfig.title DEFAULT_DASHBOARD_CONFIG,
     version = DashboardConfig.version DEFAULT_DASHBOARD_CONFIG, panel_ids = map panel_id ps,
     panels = ps, requirement_ids = default_requirements\<rparr>"
  have pid: "list_all canonical_id (map panel_id ps)"
    using g(3) by (auto simp: list_all_iff valid_PaperReadinessDashboardPanel_def
        construct_PaperReadinessDashboardPanel_def Let_def dashboard_panel_fields_def)
  have s: "sound_spec H d"
    using assms default_dashboard_config g pid arg_cong [OF g(1), of set] metric_ids_distinct
    by (simp add: sound_spec_def d_def dashboard_spec_fields_def construct_DashboardConfig_def
        dashboard_config_fields_def default_requirements_def dashboard_metric_ids_def non_empty_stringI py_space_def)
  let ?h = "build_paper_readiness_dashboard_spec_hash H d"
  let ?b = "d\<lparr>dashboard_id := build_paper_readiness_dashboard_spec_id H ?h, dashboard_hash := ?h\<rparr>"
  have "make_paper_readiness_dashboard_spec H (DashboardConfig.title DEFAULT_DASHBOARD_CONFIG)
      (DashboardConfig.version DEFAULT_DASHBOARD_CONFIG) ps default_requirements = Inr ?b"
    unfolding make_paper_readiness_dashboard_spec_def d_def [symmetric] Let_def by (rule spec_contract.identified [OF s])
  then have "make_default_paper_readiness_dashboard_spec H = Inr ?b"
    using default_dashboard_config ps
    by (simp add: make_default_paper_readiness_dashboard_spec_def make_paper_readiness_dashboard_spec_from_config_def)
  moreover have "valid_PaperReadinessDashboardSpec H ?b"
    using spec_contract.identified [OF s] by (simp add: valid_PaperReadinessDashboardSpec_def)
  moreover have "dashboard_metric_ids ?b = all_metric_ids"
    using g(2) by (simp add: d_def dashboard_metric_ids_def)
  ultimately show ?thesis by blast
qed

abbreviation rule_of_config :: "AlertRuleConfig \<Rightarrow> PaperReadinessAlertRule \<Rightarrow> bool" where
  "rule_of_config c u \<equiv>
     PaperReadinessAlertRule.category u = AlertRuleConfig.category c
     \<and> PaperReadinessAlertRule.metric_id u = AlertRuleConfig.metric_id c
     \<and> PaperReadinessAlertRule.operator u = AlertRuleConfig.operator c
     \<and> PaperReadinessAlertRule.threshold u = AlertRuleConfig.threshold c
     \<and> PaperReadinessAlertRoute.severity (PaperReadinessAlertRule.route u) = AlertRuleConfig.severity c"

lemma default_alert_rules:
  assumes "digest_ok H"
  shows "\<exists>us. make_default_paper_readiness_alert_rules H = Inr us \<and> list_all (valid_PaperReadinessAlertRule H) us
    \<and> list_all2 rule_of_config (AlertConfig.rules DEFAULT_ALERT_CONFIG) us"
proof -
  let ?cs = "AlertConfig.rules DEFAULT_ALERT_CONFIG"
  have "\<forall>c \<in> set ?cs. \<exists>u. rule_from_config H c = Inr u \<and> valid_PaperReadinessAlertRule H u \<and> rule_of_config c u"
    using rule_from_config_Inr [OF assms] default_rules_valid by (auto simp: list_all_iff)
  then obtain f where f: "\<And>c. c \<in> set ?cs \<Longrightarrow> rule_from_config H c = Inr (f c)
      \<and> valid_PaperReadinessAlertRule H (f c) \<and> rule_of_config c (f c)"
    by metis
  have us: "mapE (rule_from_config H) ?cs = Inr (map f ?cs)" using f by (intro mapE_total) simp
  have d: "distinct (map (\<lambda>u. (AlertRuleConfig.category u, AlertRuleConfig.metric_id u)) ?cs)"
    by (simp add: DEFAULT_ALERT_CONFIG_def default_rules)
  have n: "1 \<le> length ?cs" by (simp add: DEFAULT_ALERT_CONFIG_def)
  have "construct_AlertConfig DEFAULT_ALERT_CONFIG = Inr DEFAULT_ALERT_CONFIG"
    using default_rules_valid d n by (simp add: construct_AlertConfig_def alert_config_fields_def list_all_iff)
  then have "make_default_paper_readiness_alert_rules H = Inr (map f ?cs)"
    using us by (simp add: make_default_paper_readiness_alert_rules_def make_paper_readiness_alert_rules_from_config_def)
  moreover have "list_all (valid_PaperReadinessAlertRule H) (map f ?cs)" "list_all2 rule_of_config ?cs (map f ?cs)"
    using f by (auto simp: list_all_iff list_all2_map2 intro!: list_all2_same [THEN iffD2])
  ultimately show ?thesis by blast
qed

end
