(* ===== verification/Forecasts.thy ===== *)
theory Forecasts
  imports Payloads
begin

text \<open>
  Probabilistic forecasts, \<open>contracts/forecasts.py\<close>: quantiles, one forecast with its lineage,
  the candidate output that collects them, their validators and identities.  Dictionaries are
  association lists with distinct keys.  Every decimal of the model is finite, so the
  \<open>is_finite\<close> validators of the source hold of all its values.
\<close>

section \<open>Enumerations\<close>

datatype DatasetSplit =
    TRAIN | VALIDATION | TEST

primrec DatasetSplit_value :: "DatasetSplit \<Rightarrow> string" where
  "DatasetSplit_value DatasetSplit.TRAIN = ''train''"
| "DatasetSplit_value DatasetSplit.VALIDATION = ''validation''"
| "DatasetSplit_value DatasetSplit.TEST = ''test''"
datatype CalibrationStatus =
    UNCALIBRATED | TRAIN_PRIOR_ONLY | SEQUENCE_CONDITIONED_TRAIN_ONLY | CALIBRATED

primrec CalibrationStatus_value :: "CalibrationStatus \<Rightarrow> string" where
  "CalibrationStatus_value CalibrationStatus.UNCALIBRATED = ''uncalibrated''"
| "CalibrationStatus_value CalibrationStatus.TRAIN_PRIOR_ONLY = ''train_prior_only''"
| "CalibrationStatus_value CalibrationStatus.SEQUENCE_CONDITIONED_TRAIN_ONLY = ''sequence_conditioned_train_only''"
| "CalibrationStatus_value CalibrationStatus.CALIBRATED = ''calibrated''"

section \<open>Forecasts\<close>

record ForecastQuantile =
  level :: decimal
  quantile_value :: decimal

definition valid_ForecastQuantile :: "ForecastQuantile \<Rightarrow> bool" where
  "valid_ForecastQuantile q \<longleftrightarrow> 0 < level q \<and> level q < 1"

definition forecast_quantile_json :: "ForecastQuantile \<Rightarrow> payload" where
  "forecast_quantile_json r = PObj
     [(''level'', PDec (level r)),
      (''value'', PDec (quantile_value r))]"

record Forecast =
  forecast_id :: string
  dataset_snapshot_id :: string
  dataset_hash :: string
  dataset_row_id :: string
  feature_vector_id :: string
  feature_input_snapshot_id :: string
  feature_version :: string
  source_feature_snapshot_ids :: "string list"
  instrument_id :: string
  venue_id :: string
  feature_ts :: datetime
  label_rule_id :: string
  split :: DatasetSplit
  training_run_id :: string
  training_run_hash :: string
  model_version_id :: string
  model_version_hash :: string
  probabilities :: "(string \<times> decimal) list"
  quantiles :: "ForecastQuantile list"
  uncertainty :: decimal
  calibration_status :: CalibrationStatus
  calibration_metadata :: "(string \<times> string) list"

definition forecast_fields :: "Forecast \<Rightarrow> (bool \<times> string) list" where
  "forecast_fields r =
     [(canonical_id (forecast_id r), ''forecast_id''),
      (canonical_id (dataset_snapshot_id r), ''dataset_snapshot_id''),
      (hex64 (dataset_hash r), ''dataset_hash''),
      (canonical_id (dataset_row_id r), ''dataset_row_id''),
      (canonical_id (feature_vector_id r), ''feature_vector_id''),
      (canonical_id (feature_input_snapshot_id r), ''feature_input_snapshot_id''),
      (non_empty_string (feature_version r), ''feature_version''),
      (list_all canonical_id (source_feature_snapshot_ids r), ''source_feature_snapshot_ids''),
      (canonical_id (instrument_id r), ''instrument_id''),
      (canonical_id (venue_id r), ''venue_id''),
      (canonical_id (label_rule_id r), ''label_rule_id''),
      (canonical_id (training_run_id r), ''training_run_id''),
      (hex64 (training_run_hash r), ''training_run_hash''),
      (canonical_id (model_version_id r), ''model_version_id''),
      (hex64 (model_version_hash r), ''model_version_hash''),
      (list_all (\<lambda>(k, v). non_empty_string k) (probabilities r) \<and> 2 \<le> length (probabilities r), ''probabilities''),
      (list_all valid_ForecastQuantile (quantiles r) \<and> 1 \<le> length (quantiles r), ''quantiles''),
      (0 \<le> uncertainty r, ''uncertainty''),
      (list_all (\<lambda>(k, v). non_empty_string k \<and> non_empty_string v) (calibration_metadata r) \<and> 1 \<le> length (calibration_metadata r), ''calibration_metadata'')]"

definition forecast_json :: "Forecast \<Rightarrow> payload" where
  "forecast_json r = PObj
     [(''forecast_id'', PStr (forecast_id r)),
      (''dataset_snapshot_id'', PStr (dataset_snapshot_id r)),
      (''dataset_hash'', PStr (dataset_hash r)),
      (''dataset_row_id'', PStr (dataset_row_id r)),
      (''feature_vector_id'', PStr (feature_vector_id r)),
      (''feature_input_snapshot_id'', PStr (feature_input_snapshot_id r)),
      (''feature_version'', PStr (feature_version r)),
      (''source_feature_snapshot_ids'', PStrs (source_feature_snapshot_ids r)),
      (''instrument_id'', PStr (instrument_id r)),
      (''venue_id'', PStr (venue_id r)),
      (''feature_ts'', PJsonTime (feature_ts r)),
      (''label_rule_id'', PStr (label_rule_id r)),
      (''split'', PStr (DatasetSplit_value (split r))),
      (''training_run_id'', PStr (training_run_id r)),
      (''training_run_hash'', PStr (training_run_hash r)),
      (''model_version_id'', PStr (model_version_id r)),
      (''model_version_hash'', PStr (model_version_hash r)),
      (''probabilities'', PDict PDec (probabilities r)),
      (''quantiles'', PList (map forecast_quantile_json (quantiles r))),
      (''uncertainty'', PDec (uncertainty r)),
      (''calibration_status'', PStr (CalibrationStatus_value (calibration_status r))),
      (''calibration_metadata'', PDict PStr (calibration_metadata r))]"

text \<open>The validator of the probabilities: each lies between 0 and 1 and they add up to 1.\<close>

definition probability_checks :: "(string \<times> decimal) list \<Rightarrow> (bool \<times> string) list" where
  "probability_checks ps =
     map (\<lambda>(_, p). (\<not> (p < 0 \<or> 1 < p), ''probabilities must be between 0 and 1'')) ps
     @ [(dec_eq (fold (\<lambda>(_, p) t. t + p) ps 0) 1, ''probabilities must sum to 1'')]"

text \<open>The loop over the quantiles, with the previous level and value.\<close>

fun quantile_checks :: "ForecastQuantile option \<Rightarrow> ForecastQuantile list \<Rightarrow> (bool \<times> string) list" where
  "quantile_checks prev [] = []"
| "quantile_checks prev (q # qs) =
     [(opt_all (\<lambda>p. \<not> level q \<le> level p) prev, ''quantile levels must be strictly increasing''),
      (opt_all (\<lambda>p. \<not> quantile_value q < quantile_value p) prev, ''quantile values must be monotonic'')]
     @ quantile_checks (Some q) qs"

definition build_training_run_id :: "digest \<Rightarrow> string \<Rightarrow> string" where
  "build_training_run_id H h = stable_id H ''TRAINRUN'' (PObj [(''training_run_hash'', PStr h)])"

definition build_model_version_hash :: "digest \<Rightarrow> string \<Rightarrow> string \<Rightarrow> string \<Rightarrow> string" where
  "build_model_version_hash H rid rh name = H (PObj
     [(''candidate_name'', PStr name),
      (''scope'', PStr ''s7-002-non-promotable-probabilistic-candidate''),
      (''training_run_hash'', PStr rh), (''training_run_id'', PStr rid)])"

definition build_model_version_id :: "digest \<Rightarrow> string \<Rightarrow> string" where
  "build_model_version_id H h = stable_id H ''MODELVERSION'' (PObj [(''model_version_hash'', PStr h)])"

definition build_forecast_id :: "digest \<Rightarrow> Forecast \<Rightarrow> string" where
  "build_forecast_id H r = stable_id H ''FORECAST'' (PObj
     [(''calibration_metadata'', PDict PStr (calibration_metadata r)),
      (''calibration_status'', PStr (CalibrationStatus_value (calibration_status r))),
      (''dataset_hash'', PStr (dataset_hash r)),
      (''dataset_row_id'', PStr (dataset_row_id r)),
      (''dataset_snapshot_id'', PStr (dataset_snapshot_id r)),
      (''model_version_hash'', PStr (model_version_hash r)),
      (''model_version_id'', PStr (model_version_id r)),
      (''probabilities'', PDict PDec (probabilities r)),
      (''quantiles'', PList (map forecast_quantile_json (quantiles r))),
      (''split'', PStr (DatasetSplit_value (split r))),
      (''training_run_hash'', PStr (training_run_hash r)),
      (''training_run_id'', PStr (training_run_id r)),
      (''uncertainty'', PDec (uncertainty r))])"

definition candidate_name_of :: "Forecast \<Rightarrow> string option" where
  "candidate_name_of r = map_of (calibration_metadata r) ''candidate_name''"

definition construct_Forecast :: "digest \<Rightarrow> Forecast \<Rightarrow> Forecast result" where
  "construct_Forecast H r = checked
     (forecast_fields r
      @ [(distinct (map fst (probabilities r)), ''probabilities''),
         (distinct (map fst (calibration_metadata r)), ''calibration_metadata'')]
      @ probability_checks (probabilities r)
      @ quantile_checks None (quantiles r)
      @ [(split r \<noteq> TRAIN, ''forecasts must be out-of-sample''),
         (training_run_id r = build_training_run_id H (training_run_hash r),
           ''training_run_id must match training_run_hash''),
         (candidate_name_of r \<noteq> None, ''calibration_metadata requires candidate_name''),
         (opt_all (\<lambda>n. model_version_hash r
             = build_model_version_hash H (training_run_id r) (training_run_hash r) n) (candidate_name_of r),
           ''model_version_hash must match training run and candidate''),
         (model_version_id r = build_model_version_id H (model_version_hash r),
           ''model_version_id must match model_version_hash''),
         (forecast_id r = build_forecast_id H r, ''forecast_id is not deterministic'')]) r"

definition valid_Forecast :: "digest \<Rightarrow> Forecast \<Rightarrow> bool" where
  "valid_Forecast H r \<longleftrightarrow> construct_Forecast H r = Inr r"

section \<open>Candidate outputs\<close>

record ProbabilisticCandidateOutput =
  output_id :: string
  output_hash :: string
  dataset_snapshot_id :: string
  dataset_hash :: string
  training_run_id :: string
  training_run_hash :: string
  model_version_id :: string
  model_version_hash :: string
  forecast_ids :: "string list"
  forecasts :: "Forecast list"

definition candidate_output_fields :: "digest \<Rightarrow> ProbabilisticCandidateOutput \<Rightarrow> (bool \<times> string) list" where
  "candidate_output_fields H r =
     [(canonical_id (output_id r), ''output_id''),
      (hex64 (output_hash r), ''output_hash''),
      (canonical_id (dataset_snapshot_id r), ''dataset_snapshot_id''),
      (hex64 (dataset_hash r), ''dataset_hash''),
      (canonical_id (training_run_id r), ''training_run_id''),
      (hex64 (training_run_hash r), ''training_run_hash''),
      (canonical_id (model_version_id r), ''model_version_id''),
      (hex64 (model_version_hash r), ''model_version_hash''),
      (list_all canonical_id (forecast_ids r) \<and> 1 \<le> length (forecast_ids r), ''forecast_ids''),
      (list_all (valid_Forecast H) (forecasts r) \<and> 1 \<le> length (forecasts r), ''forecasts'')]"

definition build_probabilistic_output_hash :: "digest \<Rightarrow> ProbabilisticCandidateOutput \<Rightarrow> string" where
  "build_probabilistic_output_hash H r = H (PObj
     [(''dataset_hash'', PStr (dataset_hash r)),
      (''dataset_snapshot_id'', PStr (dataset_snapshot_id r)),
      (''forecasts'', PList (map forecast_json (forecasts r))),
      (''model_version_hash'', PStr (model_version_hash r)),
      (''model_version_id'', PStr (model_version_id r)),
      (''training_run_hash'', PStr (training_run_hash r)),
      (''training_run_id'', PStr (training_run_id r))])"

definition build_probabilistic_output_id :: "digest \<Rightarrow> string \<Rightarrow> string" where
  "build_probabilistic_output_id H h = stable_id H ''PROBOUTPUT'' (PObj [(''output_hash'', PStr h)])"

definition output_forecast_checks :: "ProbabilisticCandidateOutput \<Rightarrow> (bool \<times> string) list" where
  "output_forecast_checks r = concat (map (\<lambda>f.
     [(Forecast.dataset_snapshot_id f = dataset_snapshot_id r, ''forecast dataset_snapshot_id must match output''),
      (Forecast.dataset_hash f = dataset_hash r, ''forecast dataset_hash must match output''),
      (Forecast.training_run_id f = training_run_id r, ''forecast training_run_id must match output''),
      (Forecast.training_run_hash f = training_run_hash r, ''forecast training_run_hash must match output''),
      (Forecast.model_version_id f = model_version_id r, ''forecast model_version_id must match output''),
      (Forecast.model_version_hash f = model_version_hash r, ''forecast model_version_hash must match output'')])
     (forecasts r))"

definition construct_ProbabilisticCandidateOutput :: "digest \<Rightarrow> ProbabilisticCandidateOutput \<Rightarrow>
    ProbabilisticCandidateOutput result" where
  "construct_ProbabilisticCandidateOutput H r =
     (let expected = build_probabilistic_output_hash H r in checked
     (candidate_output_fields H r
      @ [(forecast_ids r = map forecast_id (forecasts r), ''forecast_ids must match forecasts'')]
      @ output_forecast_checks r
      @ [(output_hash r = expected, ''output_hash is not deterministic''),
         (output_id r = build_probabilistic_output_id H expected, ''output_id is not deterministic'')]) r)"

section \<open>What a valid forecast guarantees\<close>

lemma quantile_levels_sorted:
  assumes "list_all fst (quantile_checks p qs)"
  shows "sorted_wrt (\<lambda>a b. level a < level b) (case p of None \<Rightarrow> qs | Some q \<Rightarrow> q # qs)"
  using assms
proof (induction qs arbitrary: p)
  case (Cons q qs)
  from Cons.prems Cons.IH [of "Some q"] have "sorted_wrt (\<lambda>a b. level a < level b) (q # qs)" by simp
  moreover have "level a < level q" if "p = Some a" for a
    using Cons.prems that by (simp add: less_dval le_dval)
  ultimately show ?case by (fastforce simp: less_dval split: option.splits)
qed (simp split: option.splits)

lemma quantile_values_sorted:
  assumes "list_all fst (quantile_checks p qs)"
  shows "sorted_wrt (\<lambda>a b. quantile_value a \<le> quantile_value b) (case p of None \<Rightarrow> qs | Some q \<Rightarrow> q # qs)"
  using assms
proof (induction qs arbitrary: p)
  case (Cons q qs)
  from Cons.prems Cons.IH [of "Some q"] have "sorted_wrt (\<lambda>a b. quantile_value a \<le> quantile_value b) (q # qs)" by simp
  moreover have "quantile_value a \<le> quantile_value q" if "p = Some a" for a
    using Cons.prems that by (simp add: less_dval le_dval)
  ultimately show ?case by (fastforce simp: le_dval split: option.splits)
qed (simp split: option.splits)

lemma valid_forecast_checks:
  assumes "valid_Forecast H f"
  shows "list_all fst (forecast_fields f)" "list_all fst (probability_checks (probabilities f))"
    "list_all fst (quantile_checks None (quantiles f))" "split f \<noteq> TRAIN"
  using assms by (simp_all add: valid_Forecast_def construct_Forecast_def)

text \<open>Levels are distinct, so at most one quantile has a given level.\<close>

lemma quantile_at_level:
  assumes "sorted_wrt (\<lambda>a b. level a < level b) qs" "q \<in> set qs" "dec_eq (level q) l"
  shows "filter (\<lambda>q. dec_eq (level q) l) qs = [q]"
  using assms
proof (induction qs)
  case (Cons a qs)
  have other: "\<not> dec_eq (level b) l" if "b \<in> set qs" "dec_eq (level a) l" for b
    using Cons.prems(1) that by (auto simp: dec_eq_dval less_dval)
  show ?case
  proof (cases "dec_eq (level a) l")
    case True
    then have "filter (\<lambda>q. dec_eq (level q) l) qs = []" using other by (auto simp: filter_empty_conv)
    moreover have "q = a" using Cons.prems(2,3) other True by auto
    ultimately show ?thesis using True by simp
  next
    case False
    then have "q \<in> set qs" using Cons.prems(2,3) by auto
    then show ?thesis using Cons False by simp
  qed
qed simp

end
