(* ===== verification/ModelReports.thy ===== *)
theory ModelReports
  imports Forecasts
begin

text \<open>
  Model validation reports, \<open>contracts/model_validation.py\<close>: metrics, quantile coverage,
  uncertainty, comparisons, baseline evidence, registry metadata and the report that gates a model.
  A field whose type is a literal is checked against it.
\<close>

section \<open>Values\<close>

text \<open>\<open>abs\<close> on decimals rounds like every other operation.\<close>

definition dec_abs :: "decimal \<Rightarrow> decimal" where
  "dec_abs d = (if coef d < 0 then - d else dfix d)"

text \<open>\<open>s.lower()\<close> on the letters of the source's texts, and \<open>p in s\<close>.\<close>

definition lower_of :: "char \<Rightarrow> char" where
  "lower_of c = (case map_of (zip ''ABCDEFGHIJKLMNOPQRSTUVWXYZ'' ''abcdefghijklmnopqrstuvwxyz'') c of
     None \<Rightarrow> c | Some d \<Rightarrow> d)"

definition lower_text :: "string \<Rightarrow> string" where
  "lower_text s = map lower_of s"

definition contains_text :: "string \<Rightarrow> string \<Rightarrow> bool" where
  "contains_text p s \<longleftrightarrow> list_ex (\<lambda>n. take (length p) (drop n s) = p) [0..<Suc (length s)]"

definition build_dataset_snapshot_id :: "digest \<Rightarrow> string \<Rightarrow> string" where
  "build_dataset_snapshot_id H h = stable_id H ''DATASETSNAPSHOT'' (PObj [(''dataset_hash'', PStr h)])"

datatype ModelGateRecommendation =
    PASS | FAIL | CONTINUE_RESEARCH | BLOCKED

primrec ModelGateRecommendation_value :: "ModelGateRecommendation \<Rightarrow> string" where
  "ModelGateRecommendation_value ModelGateRecommendation.PASS = ''pass''"
| "ModelGateRecommendation_value ModelGateRecommendation.FAIL = ''fail''"
| "ModelGateRecommendation_value ModelGateRecommendation.CONTINUE_RESEARCH = ''continue_research''"
| "ModelGateRecommendation_value ModelGateRecommendation.BLOCKED = ''blocked''"

section \<open>Metrics and references\<close>

record ModelMetricSet =
  observation_count :: int
  nll :: decimal
  brier :: decimal
  calibration_error :: decimal

definition model_metric_set_fields :: "ModelMetricSet \<Rightarrow> (bool \<times> string) list" where
  "model_metric_set_fields r =
     [(0 < observation_count r, ''observation_count''),
      (0 \<le> calibration_error r, ''calibration_error'')]"

definition construct_ModelMetricSet :: "ModelMetricSet \<Rightarrow> ModelMetricSet result" where
  "construct_ModelMetricSet r = checked (model_metric_set_fields r) r"

definition valid_ModelMetricSet :: "ModelMetricSet \<Rightarrow> bool" where
  "valid_ModelMetricSet r \<longleftrightarrow> construct_ModelMetricSet r = Inr r"

definition model_metric_set_json :: "ModelMetricSet \<Rightarrow> payload" where
  "model_metric_set_json r = PObj
     [(''observation_count'', PInt (observation_count r)),
      (''nll'', PDec (nll r)),
      (''brier'', PDec (brier r)),
      (''calibration_error'', PDec (calibration_error r))]"

record QuantileCoverageMetric =
  level :: decimal
  observed_coverage :: decimal
  coverage_error :: decimal

definition quantile_coverage_metric_fields :: "QuantileCoverageMetric \<Rightarrow> (bool \<times> string) list" where
  "quantile_coverage_metric_fields r =
     [(0 < (level r) \<and> (level r) < 1, ''level''),
      (0 \<le> (observed_coverage r) \<and> (observed_coverage r) \<le> 1, ''observed_coverage''),
      (0 \<le> (coverage_error r) \<and> (coverage_error r) \<le> 1, ''coverage_error'')]"

definition construct_QuantileCoverageMetric :: "QuantileCoverageMetric \<Rightarrow> QuantileCoverageMetric result" where
  "construct_QuantileCoverageMetric r = checked (quantile_coverage_metric_fields r @
     [(dec_eq (coverage_error r) (dec_abs (observed_coverage r - level r)),
        ''coverage_error must equal abs(observed_coverage - level)'')]) r"

definition valid_QuantileCoverageMetric :: "QuantileCoverageMetric \<Rightarrow> bool" where
  "valid_QuantileCoverageMetric r \<longleftrightarrow> construct_QuantileCoverageMetric r = Inr r"

definition quantile_coverage_metric_json :: "QuantileCoverageMetric \<Rightarrow> payload" where
  "quantile_coverage_metric_json r = PObj
     [(''level'', PDec (level r)),
      (''observed_coverage'', PDec (observed_coverage r)),
      (''coverage_error'', PDec (coverage_error r))]"

record UncertaintySummary =
  mean_uncertainty :: decimal
  min_uncertainty :: decimal
  max_uncertainty :: decimal

definition uncertainty_summary_fields :: "UncertaintySummary \<Rightarrow> (bool \<times> string) list" where
  "uncertainty_summary_fields r =
     [(0 \<le> mean_uncertainty r, ''mean_uncertainty''),
      (0 \<le> min_uncertainty r, ''min_uncertainty''),
      (0 \<le> max_uncertainty r, ''max_uncertainty'')]"

definition construct_UncertaintySummary :: "UncertaintySummary \<Rightarrow> UncertaintySummary result" where
  "construct_UncertaintySummary r = checked (uncertainty_summary_fields r @
     [(\<not> (mean_uncertainty r < min_uncertainty r \<or> max_uncertainty r < mean_uncertainty r),
        ''uncertainty summary must satisfy min <= mean <= max'')]) r"

definition valid_UncertaintySummary :: "UncertaintySummary \<Rightarrow> bool" where
  "valid_UncertaintySummary r \<longleftrightarrow> construct_UncertaintySummary r = Inr r"

definition uncertainty_summary_json :: "UncertaintySummary \<Rightarrow> payload" where
  "uncertainty_summary_json r = PObj
     [(''mean_uncertainty'', PDec (mean_uncertainty r)),
      (''min_uncertainty'', PDec (min_uncertainty r)),
      (''max_uncertainty'', PDec (max_uncertainty r))]"

record BaselineEvidenceReference =
  scorecard_id :: string
  scorecard_hash :: string
  gate_report_path :: string
  scorecard_report_path :: string
  baseline_gate_status :: string

definition baseline_evidence_reference_fields :: "BaselineEvidenceReference \<Rightarrow> (bool \<times> string) list" where
  "baseline_evidence_reference_fields r =
     [(canonical_id (scorecard_id r), ''scorecard_id''),
      (hex64 (scorecard_hash r), ''scorecard_hash''),
      (non_empty_string (gate_report_path r), ''gate_report_path''),
      (non_empty_string (scorecard_report_path r), ''scorecard_report_path''),
      (baseline_gate_status r = ''PASS'', ''baseline_gate_status'')]"

definition construct_BaselineEvidenceReference :: "BaselineEvidenceReference \<Rightarrow> BaselineEvidenceReference result" where
  "construct_BaselineEvidenceReference r = checked (baseline_evidence_reference_fields r) r"

definition valid_BaselineEvidenceReference :: "BaselineEvidenceReference \<Rightarrow> bool" where
  "valid_BaselineEvidenceReference r \<longleftrightarrow> construct_BaselineEvidenceReference r = Inr r"

definition baseline_evidence_reference_json :: "BaselineEvidenceReference \<Rightarrow> payload" where
  "baseline_evidence_reference_json r = PObj
     [(''scorecard_id'', PStr (scorecard_id r)),
      (''scorecard_hash'', PStr (scorecard_hash r)),
      (''gate_report_path'', PStr (gate_report_path r)),
      (''scorecard_report_path'', PStr (scorecard_report_path r)),
      (''baseline_gate_status'', PStr (baseline_gate_status r))]"

record ModelComparison =
  comparator_name :: string
  comparator_description :: string
  metrics :: ModelMetricSet
  candidate_nll_delta :: decimal
  candidate_brier_delta :: decimal
  candidate_improved_nll :: bool
  candidate_improved_brier :: bool

definition model_comparison_fields :: "ModelComparison \<Rightarrow> (bool \<times> string) list" where
  "model_comparison_fields r =
     [(non_empty_string (comparator_name r), ''comparator_name''),
      (non_empty_string (comparator_description r), ''comparator_description''),
      (valid_ModelMetricSet (metrics r), ''metrics'')]"

definition construct_ModelComparison :: "ModelComparison \<Rightarrow> ModelComparison result" where
  "construct_ModelComparison r = checked (model_comparison_fields r) r"

definition valid_ModelComparison :: "ModelComparison \<Rightarrow> bool" where
  "valid_ModelComparison r \<longleftrightarrow> construct_ModelComparison r = Inr r"

definition model_comparison_json :: "ModelComparison \<Rightarrow> payload" where
  "model_comparison_json r = PObj
     [(''comparator_name'', PStr (comparator_name r)),
      (''comparator_description'', PStr (comparator_description r)),
      (''metrics'', model_metric_set_json (metrics r)),
      (''candidate_nll_delta'', PDec (candidate_nll_delta r)),
      (''candidate_brier_delta'', PDec (candidate_brier_delta r)),
      (''candidate_improved_nll'', PBool (candidate_improved_nll r)),
      (''candidate_improved_brier'', PBool (candidate_improved_brier r))]"

record RegistryMetadataReference =
  registry_record_id :: string
  registry_record_hash :: string
  model_version_id :: string
  source_model_version_id :: string
  source_model_version_hash :: string
  current_state :: string
  auto_promotion_enabled :: bool

definition registry_metadata_reference_fields :: "RegistryMetadataReference \<Rightarrow> (bool \<times> string) list" where
  "registry_metadata_reference_fields r =
     [(canonical_id (registry_record_id r), ''registry_record_id''),
      (hex64 (registry_record_hash r), ''registry_record_hash''),
      (canonical_id (model_version_id r), ''model_version_id''),
      (canonical_id (source_model_version_id r), ''source_model_version_id''),
      (hex64 (source_model_version_hash r), ''source_model_version_hash''),
      (non_empty_string (current_state r), ''current_state''),
      (\<not> auto_promotion_enabled r, ''auto_promotion_enabled'')]"

definition construct_RegistryMetadataReference :: "RegistryMetadataReference \<Rightarrow> RegistryMetadataReference result" where
  "construct_RegistryMetadataReference r = checked (registry_metadata_reference_fields r) r"

definition valid_RegistryMetadataReference :: "RegistryMetadataReference \<Rightarrow> bool" where
  "valid_RegistryMetadataReference r \<longleftrightarrow> construct_RegistryMetadataReference r = Inr r"

definition registry_metadata_reference_json :: "RegistryMetadataReference \<Rightarrow> payload" where
  "registry_metadata_reference_json r = PObj
     [(''registry_record_id'', PStr (registry_record_id r)),
      (''registry_record_hash'', PStr (registry_record_hash r)),
      (''model_version_id'', PStr (model_version_id r)),
      (''source_model_version_id'', PStr (source_model_version_id r)),
      (''source_model_version_hash'', PStr (source_model_version_hash r)),
      (''current_state'', PStr (current_state r)),
      (''auto_promotion_enabled'', PBool (auto_promotion_enabled r))]"

record ModelValidationReport =
  report_id :: string
  report_hash :: string
  requirement_ids :: "string list"
  dataset_snapshot_id :: string
  dataset_hash :: string
  training_run_id :: string
  training_run_hash :: string
  model_version_id :: string
  model_version_hash :: string
  forecast_output_id :: string
  forecast_output_hash :: string
  evaluated_splits :: "DatasetSplit list"
  evaluated_forecast_ids :: "string list"
  candidate_metrics :: ModelMetricSet
  quantile_coverage :: "QuantileCoverageMetric list"
  uncertainty_summary :: UncertaintySummary
  train_prior_baseline :: ModelComparison
  sequence_ablation :: ModelComparison
  baseline_evidence :: BaselineEvidenceReference
  registry_metadata :: "RegistryMetadataReference option"
  recommendation :: ModelGateRecommendation
  reasons :: "string list"
  caveats :: "string list"
  no_auto_promotion :: bool

definition model_validation_report_fields :: "ModelValidationReport \<Rightarrow> (bool \<times> string) list" where
  "model_validation_report_fields r =
     [(canonical_id (report_id r), ''report_id''),
      (hex64 (report_hash r), ''report_hash''),
      (list_all non_empty_string (requirement_ids r), ''requirement_ids''),
      (canonical_id (dataset_snapshot_id r), ''dataset_snapshot_id''),
      (hex64 (dataset_hash r), ''dataset_hash''),
      (canonical_id (training_run_id r), ''training_run_id''),
      (hex64 (training_run_hash r), ''training_run_hash''),
      (canonical_id (model_version_id r), ''model_version_id''),
      (hex64 (model_version_hash r), ''model_version_hash''),
      (canonical_id (forecast_output_id r), ''forecast_output_id''),
      (hex64 (forecast_output_hash r), ''forecast_output_hash''),
      (list_all canonical_id (evaluated_forecast_ids r), ''evaluated_forecast_ids''),
      (valid_ModelMetricSet (candidate_metrics r), ''candidate_metrics''),
      (list_all valid_QuantileCoverageMetric (quantile_coverage r), ''quantile_coverage''),
      (valid_UncertaintySummary (uncertainty_summary r), ''uncertainty_summary''),
      (valid_ModelComparison (train_prior_baseline r), ''train_prior_baseline''),
      (valid_ModelComparison (sequence_ablation r), ''sequence_ablation''),
      (valid_BaselineEvidenceReference (baseline_evidence r), ''baseline_evidence''),
      (opt_all valid_RegistryMetadataReference (registry_metadata r), ''registry_metadata''),
      (list_all non_empty_string (reasons r), ''reasons''),
      (list_all non_empty_string (caveats r), ''caveats''),
      (no_auto_promotion r, ''no_auto_promotion'')]"

definition model_validation_report_json :: "ModelValidationReport \<Rightarrow> payload" where
  "model_validation_report_json r = PObj
     [(''report_id'', PStr (report_id r)),
      (''report_hash'', PStr (report_hash r)),
      (''requirement_ids'', PStrs (requirement_ids r)),
      (''dataset_snapshot_id'', PStr (dataset_snapshot_id r)),
      (''dataset_hash'', PStr (dataset_hash r)),
      (''training_run_id'', PStr (training_run_id r)),
      (''training_run_hash'', PStr (training_run_hash r)),
      (''model_version_id'', PStr (model_version_id r)),
      (''model_version_hash'', PStr (model_version_hash r)),
      (''forecast_output_id'', PStr (forecast_output_id r)),
      (''forecast_output_hash'', PStr (forecast_output_hash r)),
      (''evaluated_splits'', PList (map (\<lambda>x. PStr (DatasetSplit_value x)) (evaluated_splits r))),
      (''evaluated_forecast_ids'', PStrs (evaluated_forecast_ids r)),
      (''candidate_metrics'', model_metric_set_json (candidate_metrics r)),
      (''quantile_coverage'', PList (map quantile_coverage_metric_json (quantile_coverage r))),
      (''uncertainty_summary'', uncertainty_summary_json (uncertainty_summary r)),
      (''train_prior_baseline'', model_comparison_json (train_prior_baseline r)),
      (''sequence_ablation'', model_comparison_json (sequence_ablation r)),
      (''baseline_evidence'', baseline_evidence_reference_json (baseline_evidence r)),
      (''registry_metadata'', POpt registry_metadata_reference_json (registry_metadata r)),
      (''recommendation'', PStr (ModelGateRecommendation_value (recommendation r))),
      (''reasons'', PStrs (reasons r)),
      (''caveats'', PStrs (caveats r)),
      (''no_auto_promotion'', PBool (no_auto_promotion r))]"

definition build_model_validation_report_hash :: "digest \<Rightarrow> ModelValidationReport \<Rightarrow> string" where
  "build_model_validation_report_hash H r = H (PObj
     [(''baseline_evidence'', baseline_evidence_reference_json (baseline_evidence r)),
      (''candidate_metrics'', model_metric_set_json (candidate_metrics r)),
      (''caveats'', PStrs (caveats r)),
      (''dataset_hash'', PStr (dataset_hash r)),
      (''dataset_snapshot_id'', PStr (dataset_snapshot_id r)),
      (''evaluated_forecast_ids'', PStrs (evaluated_forecast_ids r)),
      (''evaluated_splits'', PList (map (\<lambda>x. PStr (DatasetSplit_value x)) (evaluated_splits r))),
      (''forecast_output_hash'', PStr (forecast_output_hash r)),
      (''forecast_output_id'', PStr (forecast_output_id r)),
      (''model_version_hash'', PStr (model_version_hash r)),
      (''model_version_id'', PStr (model_version_id r)),
      (''quantile_coverage'', PList (map quantile_coverage_metric_json (quantile_coverage r))),
      (''reasons'', PStrs (reasons r)),
      (''recommendation'', PStr (ModelGateRecommendation_value (recommendation r))),
      (''registry_metadata'', POpt registry_metadata_reference_json (registry_metadata r)),
      (''requirement_ids'', PStrs (requirement_ids r)),
      (''scope'', PStr ''s7-004-forecast-only-model-validation-report''),
      (''sequence_ablation'', model_comparison_json (sequence_ablation r)),
      (''train_prior_baseline'', model_comparison_json (train_prior_baseline r)),
      (''training_run_hash'', PStr (training_run_hash r)),
      (''training_run_id'', PStr (training_run_id r)),
      (''uncertainty_summary'', uncertainty_summary_json (uncertainty_summary r))])"

definition build_model_validation_report_id :: "digest \<Rightarrow> string \<Rightarrow> string" where
  "build_model_validation_report_id H h = stable_id H ''MODELVALIDATION'' (PObj [(''report_hash'', PStr h)])"

text \<open>The validator \<open>report_identity_is_deterministic\<close>, in its order.\<close>

definition model_validation_report_checks :: "digest \<Rightarrow> ModelValidationReport \<Rightarrow> (bool \<times> string) list" where
  "model_validation_report_checks H r =
     [(evaluated_splits r \<noteq> [], ''model validation reports require evaluated_splits''),
      (evaluated_forecast_ids r \<noteq> [], ''model validation reports require forecast IDs''),
      (distinct (evaluated_forecast_ids r), ''evaluated_forecast_ids must be unique''),
      (dataset_snapshot_id r = build_dataset_snapshot_id H (dataset_hash r),
        ''dataset_snapshot_id does not match dataset_hash''),
      (training_run_id r = build_training_run_id H (training_run_hash r),
        ''training_run_id does not match training_run_hash''),
      (ModelValidationReport.model_version_id r = build_model_version_id H (model_version_hash r),
        ''model_version_id does not match model_version_hash''),
      (forecast_output_id r = build_probabilistic_output_id H (forecast_output_hash r),
        ''forecast_output_id does not match forecast_output_hash'')]
     @ (case registry_metadata r of None \<Rightarrow> []
        | Some m \<Rightarrow>
          [(source_model_version_id m = ModelValidationReport.model_version_id r,
             ''registry source_model_version_id does not match report''),
           (source_model_version_hash m = model_version_hash r,
             ''registry source_model_version_hash does not match report'')])
     @ [(\<not> (recommendation r = PASS \<and> list_ex (\<lambda>c. contains_text ''forecast-only'' (lower_text c)) (caveats r)),
          ''forecast-only reports cannot be pass recommendations''),
        (\<not> (recommendation r \<noteq> PASS \<and> reasons r = []), ''non-pass recommendations require reasons'')]"

definition construct_ModelValidationReport :: "digest \<Rightarrow> ModelValidationReport \<Rightarrow> ModelValidationReport result" where
  "construct_ModelValidationReport H r =
     (let expected = build_model_validation_report_hash H r in checked
     (model_validation_report_fields r @ model_validation_report_checks H r
      @ [(report_hash r = expected, ''report_hash is not deterministic''),
         (report_id r = build_model_validation_report_id H expected, ''report_id is not deterministic'')]) r)"

definition valid_ModelValidationReport :: "digest \<Rightarrow> ModelValidationReport \<Rightarrow> bool" where
  "valid_ModelValidationReport H r \<longleftrightarrow> construct_ModelValidationReport H r = Inr r"

end
