(* ===== verification/Decisions.thy ===== *)
theory Decisions
  imports Forecasts
begin

text \<open>
  Strategy decision contracts, \<open>contracts/decisions.py\<close>: sizing inputs and proposals, the decision
  policy, the decision, their validators and identities, and the reason-code counts.
\<close>

section \<open>Enumerations\<close>

datatype StrategyDecisionAction =
    BUY | NO_TRADE

datatype StrategyDecisionReasonCode =
    TRADE_POSITIVE_NET_EDGE | INSUFFICIENT_NET_EDGE | COST_THRESHOLD | UNCERTAINTY_THRESHOLD
    | DRAWDOWN_THRESHOLD | NON_POSITIVE_EXPECTED_RETURN | UNSUPPORTED_FORECAST

datatype ExpectedReturnSource =
    MEDIAN_QUANTILE

datatype StrategySizingStatus =
    PLACEHOLDER_PENDING_RISK | PROPOSED_PENDING_INDEPENDENT_RISK |
    BLOCKED_BEFORE_INDEPENDENT_RISK

datatype StrategySizingReasonCode =
    NO_SIZING_INPUTS | NO_TRADE_ACTION | POSITIVE_PRE_RISK_SIZE | ZERO_RISK_BUDGET |
    COST_REDUCTION | COST_BLOCK | UNCERTAINTY_REDUCTION | UNCERTAINTY_BLOCK |
    DRAWDOWN_REDUCTION | DRAWDOWN_BLOCK

datatype StrategyRiskApprovalStatus =
    NOT_EVALUATED

primrec StrategyDecisionAction_value :: "StrategyDecisionAction \<Rightarrow> string" where
  "StrategyDecisionAction_value StrategyDecisionAction.BUY = ''buy''"
| "StrategyDecisionAction_value StrategyDecisionAction.NO_TRADE = ''no_trade''"

primrec StrategyDecisionReasonCode_value :: "StrategyDecisionReasonCode \<Rightarrow> string" where
  "StrategyDecisionReasonCode_value StrategyDecisionReasonCode.TRADE_POSITIVE_NET_EDGE = ''trade_positive_net_edge''"
| "StrategyDecisionReasonCode_value StrategyDecisionReasonCode.INSUFFICIENT_NET_EDGE = ''insufficient_net_edge''"
| "StrategyDecisionReasonCode_value StrategyDecisionReasonCode.COST_THRESHOLD = ''cost_threshold''"
| "StrategyDecisionReasonCode_value StrategyDecisionReasonCode.UNCERTAINTY_THRESHOLD = ''uncertainty_threshold''"
| "StrategyDecisionReasonCode_value StrategyDecisionReasonCode.DRAWDOWN_THRESHOLD = ''drawdown_threshold''"
| "StrategyDecisionReasonCode_value StrategyDecisionReasonCode.NON_POSITIVE_EXPECTED_RETURN = ''non_positive_expected_return''"
| "StrategyDecisionReasonCode_value StrategyDecisionReasonCode.UNSUPPORTED_FORECAST = ''unsupported_forecast''"

primrec ExpectedReturnSource_value :: "ExpectedReturnSource \<Rightarrow> string" where
  "ExpectedReturnSource_value ExpectedReturnSource.MEDIAN_QUANTILE = ''median_quantile''"

primrec StrategySizingStatus_value :: "StrategySizingStatus \<Rightarrow> string" where
  "StrategySizingStatus_value StrategySizingStatus.PLACEHOLDER_PENDING_RISK = ''placeholder_pending_independent_risk''"
| "StrategySizingStatus_value StrategySizingStatus.PROPOSED_PENDING_INDEPENDENT_RISK = ''proposed_pending_independent_risk''"
| "StrategySizingStatus_value StrategySizingStatus.BLOCKED_BEFORE_INDEPENDENT_RISK = ''blocked_before_independent_risk''"

primrec StrategySizingReasonCode_value :: "StrategySizingReasonCode \<Rightarrow> string" where
  "StrategySizingReasonCode_value StrategySizingReasonCode.NO_SIZING_INPUTS = ''no_sizing_inputs''"
| "StrategySizingReasonCode_value StrategySizingReasonCode.NO_TRADE_ACTION = ''no_trade_action''"
| "StrategySizingReasonCode_value StrategySizingReasonCode.POSITIVE_PRE_RISK_SIZE = ''positive_pre_risk_size''"
| "StrategySizingReasonCode_value StrategySizingReasonCode.ZERO_RISK_BUDGET = ''zero_risk_budget''"
| "StrategySizingReasonCode_value StrategySizingReasonCode.COST_REDUCTION = ''cost_reduction''"
| "StrategySizingReasonCode_value StrategySizingReasonCode.COST_BLOCK = ''cost_block''"
| "StrategySizingReasonCode_value StrategySizingReasonCode.UNCERTAINTY_REDUCTION = ''uncertainty_reduction''"
| "StrategySizingReasonCode_value StrategySizingReasonCode.UNCERTAINTY_BLOCK = ''uncertainty_block''"
| "StrategySizingReasonCode_value StrategySizingReasonCode.DRAWDOWN_REDUCTION = ''drawdown_reduction''"
| "StrategySizingReasonCode_value StrategySizingReasonCode.DRAWDOWN_BLOCK = ''drawdown_block''"

primrec StrategyRiskApprovalStatus_value :: "StrategyRiskApprovalStatus \<Rightarrow> string" where
  "StrategyRiskApprovalStatus_value StrategyRiskApprovalStatus.NOT_EVALUATED = ''not_evaluated''"

section \<open>Sizing inputs and the policy\<close>

record StrategySizingInputs =
  risk_budget_notional :: decimal
  reference_price :: decimal
  current_drawdown :: decimal
  max_drawdown :: decimal
  requirement_ids :: "string list"

definition strategy_sizing_inputs_fields :: "StrategySizingInputs \<Rightarrow> (bool \<times> string) list" where
  "strategy_sizing_inputs_fields r =
     [(0 \<le> risk_budget_notional r, ''risk_budget_notional''),
      (0 < reference_price r, ''reference_price''),
      (0 \<le> current_drawdown r, ''current_drawdown''),
      (0 < max_drawdown r, ''max_drawdown''),
      (list_all non_empty_string (requirement_ids r), ''requirement_ids'')]"

definition strategy_sizing_inputs_json :: "StrategySizingInputs \<Rightarrow> payload" where
  "strategy_sizing_inputs_json r = PObj
     [(''risk_budget_notional'', PDec (risk_budget_notional r)),
      (''reference_price'', PDec (reference_price r)),
      (''current_drawdown'', PDec (current_drawdown r)),
      (''max_drawdown'', PDec (max_drawdown r)),
      (''requirement_ids'', PStrs (requirement_ids r))]"

definition valid_StrategySizingInputs :: "StrategySizingInputs \<Rightarrow> bool" where
  "valid_StrategySizingInputs r \<longleftrightarrow> list_all fst (strategy_sizing_inputs_fields r)"

record StrategyDecisionPolicy =
  policy_id :: string
  policy_hash :: string
  name :: string
  expected_return_source :: ExpectedReturnSource
  expected_return_quantile :: decimal
  expected_cost :: decimal
  max_expected_cost :: decimal
  uncertainty_buffer_multiplier :: decimal
  max_uncertainty :: decimal
  min_net_edge :: decimal
  requirement_ids :: "string list"

definition strategy_decision_policy_fields :: "StrategyDecisionPolicy \<Rightarrow> (bool \<times> string) list" where
  "strategy_decision_policy_fields r =
     [(canonical_id (policy_id r), ''policy_id''),
      (hex64 (policy_hash r), ''policy_hash''),
      (non_empty_string (name r), ''name''),
      (0 < expected_return_quantile r \<and> (expected_return_quantile r) < 1, ''expected_return_quantile''),
      (0 \<le> expected_cost r, ''expected_cost''),
      (0 \<le> max_expected_cost r, ''max_expected_cost''),
      (0 \<le> uncertainty_buffer_multiplier r, ''uncertainty_buffer_multiplier''),
      (0 \<le> max_uncertainty r, ''max_uncertainty''),
      (0 \<le> min_net_edge r, ''min_net_edge''),
      (list_all non_empty_string (requirement_ids r), ''requirement_ids'')]"

definition build_strategy_decision_policy_hash :: "digest \<Rightarrow> StrategyDecisionPolicy \<Rightarrow> string" where
  "build_strategy_decision_policy_hash H r = H (PObj
     [(''expected_cost'', PDec (expected_cost r)),
      (''expected_return_quantile'', PDec (expected_return_quantile r)),
      (''expected_return_source'', PStr (ExpectedReturnSource_value (expected_return_source r))),
      (''max_expected_cost'', PDec (max_expected_cost r)),
      (''max_uncertainty'', PDec (max_uncertainty r)),
      (''min_net_edge'', PDec (min_net_edge r)),
      (''name'', PStr (name r)),
      (''requirement_ids'', PStrs (requirement_ids r)),
      (''uncertainty_buffer_multiplier'', PDec (uncertainty_buffer_multiplier r))])"

definition build_strategy_decision_policy_id :: "digest \<Rightarrow> string \<Rightarrow> string" where
  "build_strategy_decision_policy_id H h = stable_id H ''STRATEGYPOLICY'' (PObj [(''policy_hash'', PStr h)])"

definition construct_StrategyDecisionPolicy :: "digest \<Rightarrow> StrategyDecisionPolicy \<Rightarrow> StrategyDecisionPolicy result" where
  "construct_StrategyDecisionPolicy H r =
     (let expected = build_strategy_decision_policy_hash H r in checked
     (strategy_decision_policy_fields r
      @ [(policy_hash r = expected, ''policy_hash is not deterministic''),
         (policy_id r = build_strategy_decision_policy_id H expected, ''policy_id is not deterministic'')]) r)"

definition valid_StrategyDecisionPolicy :: "digest \<Rightarrow> StrategyDecisionPolicy \<Rightarrow> bool" where
  "valid_StrategyDecisionPolicy H r \<longleftrightarrow> construct_StrategyDecisionPolicy H r = Inr r"

definition make_strategy_decision_policy :: "digest \<Rightarrow> string \<Rightarrow> decimal \<Rightarrow> decimal \<Rightarrow> decimal \<Rightarrow> decimal \<Rightarrow>
    decimal \<Rightarrow> decimal \<Rightarrow> ExpectedReturnSource \<Rightarrow> string list \<Rightarrow> StrategyDecisionPolicy result" where
  "make_strategy_decision_policy H nm cost max_cost max_unc min_edge mult quantile src reqs =
     (let draft = \<lparr>StrategyDecisionPolicy.policy_id = ''STRATEGYPOLICY:PLACEHOLDER'', policy_hash = zero_hash,
            name = nm, expected_return_source = src, expected_return_quantile = quantile,
            expected_cost = cost, max_expected_cost = max_cost, uncertainty_buffer_multiplier = mult,
            max_uncertainty = max_unc, min_net_edge = min_edge, requirement_ids = reqs\<rparr>;
          h = build_strategy_decision_policy_hash H draft
      in construct_StrategyDecisionPolicy H
           (draft\<lparr>policy_id := build_strategy_decision_policy_id H h, policy_hash := h\<rparr>))"

section \<open>Sizing proposals\<close>

record StrategySizingProposal =
  sizing_status :: StrategySizingStatus
  sizing_inputs :: "StrategySizingInputs option"
  sizing_reason_codes :: "StrategySizingReasonCode list"
  pre_risk_multiplier :: decimal
  proposed_notional :: decimal
  proposed_quantity :: decimal
  approved_notional :: "decimal option"
  approved_quantity :: "decimal option"
  risk_approval_status :: StrategyRiskApprovalStatus
  risk_approval_id :: "string option"

definition strategy_sizing_proposal_fields :: "StrategySizingProposal \<Rightarrow> (bool \<times> string) list" where
  "strategy_sizing_proposal_fields r =
     [(opt_all valid_StrategySizingInputs (sizing_inputs r), ''sizing_inputs''),
      (0 \<le> pre_risk_multiplier r \<and> (pre_risk_multiplier r) \<le> 1, ''pre_risk_multiplier''),
      (0 \<le> proposed_notional r, ''proposed_notional''),
      (0 \<le> proposed_quantity r, ''proposed_quantity''),
      (opt_all (\<lambda>x. 0 \<le> x) (approved_notional r), ''approved_notional''),
      (opt_all (\<lambda>x. 0 \<le> x) (approved_quantity r), ''approved_quantity''),
      (opt_all canonical_id (risk_approval_id r), ''risk_approval_id'')]"

definition strategy_sizing_proposal_json :: "StrategySizingProposal \<Rightarrow> payload" where
  "strategy_sizing_proposal_json r = PObj
     [(''sizing_status'', PStr (StrategySizingStatus_value (sizing_status r))),
      (''sizing_inputs'', POpt strategy_sizing_inputs_json (sizing_inputs r)),
      (''sizing_reason_codes'', PList (map (\<lambda>x. PStr (StrategySizingReasonCode_value x)) (sizing_reason_codes r))),
      (''pre_risk_multiplier'', PDec (pre_risk_multiplier r)),
      (''proposed_notional'', PDec (proposed_notional r)),
      (''proposed_quantity'', PDec (proposed_quantity r)),
      (''approved_notional'', POpt PDec (approved_notional r)),
      (''approved_quantity'', POpt PDec (approved_quantity r)),
      (''risk_approval_status'', PStr (StrategyRiskApprovalStatus_value (risk_approval_status r))),
      (''risk_approval_id'', POpt PStr (risk_approval_id r))]"

definition has_positive_size :: "StrategySizingProposal \<Rightarrow> bool" where
  "has_positive_size r \<longleftrightarrow> 0 < proposed_notional r \<and> 0 < proposed_quantity r"

definition has_zero_size :: "StrategySizingProposal \<Rightarrow> bool" where
  "has_zero_size r \<longleftrightarrow> dec_eq (proposed_notional r) 0 \<and> dec_eq (proposed_quantity r) 0"

text \<open>The validator \<open>s8_does_not_approve_risk\<close>.\<close>

definition sizing_proposal_checks :: "StrategySizingProposal \<Rightarrow> (bool \<times> string) list" where
  "sizing_proposal_checks r =
     [(sizing_reason_codes r \<noteq> [], ''sizing proposals require at least one reason code''),
      (approved_notional r = None \<and> approved_quantity r = None \<and> risk_approval_id r = None
         \<and> risk_approval_status r = NOT_EVALUATED,
        ''S8 decisions must not carry independent risk approval''),
      (has_positive_size r \<or> has_zero_size r,
        ''proposed notional and quantity must both be zero or both positive'')]
     @ (if sizing_inputs r = None then
          [(\<not> has_positive_size r, ''positive pre-risk sizing requires explicit sizing inputs''),
           (sizing_status r = PLACEHOLDER_PENDING_RISK,
             ''missing sizing inputs require placeholder sizing status''),
           (sizing_reason_codes r = [NO_SIZING_INPUTS],
             ''missing sizing inputs require no_sizing_inputs reason'')]
        else
          [(NO_SIZING_INPUTS \<notin> set (sizing_reason_codes r),
             ''explicit sizing inputs cannot use no_sizing_inputs reason'')])
     @ (if sizing_status r = PROPOSED_PENDING_INDEPENDENT_RISK then
          [(has_positive_size r, ''proposed sizing status requires positive proposed size''),
           (0 < pre_risk_multiplier r, ''positive proposed size requires positive pre-risk multiplier'')]
        else
          [(\<not> has_positive_size r, ''positive proposed size requires proposed pending risk status'')])"

definition construct_StrategySizingProposal :: "StrategySizingProposal \<Rightarrow> StrategySizingProposal result" where
  "construct_StrategySizingProposal r =
     checked (strategy_sizing_proposal_fields r @ sizing_proposal_checks r) r"

definition valid_StrategySizingProposal :: "StrategySizingProposal \<Rightarrow> bool" where
  "valid_StrategySizingProposal r \<longleftrightarrow> construct_StrategySizingProposal r = Inr r"

text \<open>\<open>StrategySizingProposal()\<close> with the defaults of its fields.\<close>

definition default_sizing_proposal :: StrategySizingProposal where
  "default_sizing_proposal =
     \<lparr>StrategySizingProposal.sizing_status = PLACEHOLDER_PENDING_RISK, sizing_inputs = None,
      sizing_reason_codes = [NO_SIZING_INPUTS], pre_risk_multiplier = 0, proposed_notional = 0,
      proposed_quantity = 0, approved_notional = None, approved_quantity = None,
      risk_approval_status = NOT_EVALUATED, risk_approval_id = None\<rparr>"

section \<open>Decisions\<close>

record StrategyDecision =
  decision_id :: string
  decision_hash :: string
  trace_id :: string
  strategy_run_id :: string
  policy_id :: string
  policy_hash :: string
  source_forecast_id :: string
  dataset_snapshot_id :: string
  dataset_row_id :: string
  feature_vector_id :: string
  feature_input_snapshot_id :: string
  feature_version :: string
  source_feature_snapshot_ids :: "string list"
  instrument_id :: string
  venue_id :: string
  feature_ts :: datetime
  decision_ts :: datetime
  label_rule_id :: string
  split :: DatasetSplit
  training_run_id :: string
  model_version_id :: string
  model_version_hash :: string
  action :: StrategyDecisionAction
  expected_return :: decimal
  expected_cost :: decimal
  uncertainty :: decimal
  uncertainty_buffer :: decimal
  net_edge :: decimal
  reason_code :: StrategyDecisionReasonCode
  sizing :: StrategySizingProposal
  requirement_ids :: "string list"

definition strategy_decision_fields :: "StrategyDecision \<Rightarrow> (bool \<times> string) list" where
  "strategy_decision_fields r =
     [(canonical_id (decision_id r), ''decision_id''),
      (hex64 (decision_hash r), ''decision_hash''),
      (canonical_id (trace_id r), ''trace_id''),
      (canonical_id (strategy_run_id r), ''strategy_run_id''),
      (canonical_id (policy_id r), ''policy_id''),
      (hex64 (policy_hash r), ''policy_hash''),
      (canonical_id (source_forecast_id r), ''source_forecast_id''),
      (canonical_id (dataset_snapshot_id r), ''dataset_snapshot_id''),
      (canonical_id (dataset_row_id r), ''dataset_row_id''),
      (canonical_id (feature_vector_id r), ''feature_vector_id''),
      (canonical_id (feature_input_snapshot_id r), ''feature_input_snapshot_id''),
      (non_empty_string (feature_version r), ''feature_version''),
      (list_all canonical_id (source_feature_snapshot_ids r), ''source_feature_snapshot_ids''),
      (canonical_id (instrument_id r), ''instrument_id''),
      (canonical_id (venue_id r), ''venue_id''),
      (canonical_id (label_rule_id r), ''label_rule_id''),
      (canonical_id (training_run_id r), ''training_run_id''),
      (canonical_id (model_version_id r), ''model_version_id''),
      (hex64 (model_version_hash r), ''model_version_hash''),
      (0 \<le> expected_cost r, ''expected_cost''),
      (0 \<le> uncertainty r, ''uncertainty''),
      (0 \<le> uncertainty_buffer r, ''uncertainty_buffer''),
      (valid_StrategySizingProposal (sizing r), ''sizing''),
      (list_all non_empty_string (requirement_ids r), ''requirement_ids'')]"

definition strategy_decision_json :: "StrategyDecision \<Rightarrow> payload" where
  "strategy_decision_json r = PObj
     [(''decision_id'', PStr (decision_id r)),
      (''decision_hash'', PStr (decision_hash r)),
      (''trace_id'', PStr (trace_id r)),
      (''strategy_run_id'', PStr (strategy_run_id r)),
      (''policy_id'', PStr (policy_id r)),
      (''policy_hash'', PStr (policy_hash r)),
      (''source_forecast_id'', PStr (source_forecast_id r)),
      (''dataset_snapshot_id'', PStr (dataset_snapshot_id r)),
      (''dataset_row_id'', PStr (dataset_row_id r)),
      (''feature_vector_id'', PStr (feature_vector_id r)),
      (''feature_input_snapshot_id'', PStr (feature_input_snapshot_id r)),
      (''feature_version'', PStr (feature_version r)),
      (''source_feature_snapshot_ids'', PStrs (source_feature_snapshot_ids r)),
      (''instrument_id'', PStr (instrument_id r)),
      (''venue_id'', PStr (venue_id r)),
      (''feature_ts'', PJsonTime (feature_ts r)),
      (''decision_ts'', PJsonTime (decision_ts r)),
      (''label_rule_id'', PStr (label_rule_id r)),
      (''split'', PStr (DatasetSplit_value (split r))),
      (''training_run_id'', PStr (training_run_id r)),
      (''model_version_id'', PStr (model_version_id r)),
      (''model_version_hash'', PStr (model_version_hash r)),
      (''action'', PStr (StrategyDecisionAction_value (action r))),
      (''expected_return'', PDec (expected_return r)),
      (''expected_cost'', PDec (expected_cost r)),
      (''uncertainty'', PDec (uncertainty r)),
      (''uncertainty_buffer'', PDec (uncertainty_buffer r)),
      (''net_edge'', PDec (net_edge r)),
      (''reason_code'', PStr (StrategyDecisionReasonCode_value (reason_code r))),
      (''sizing'', strategy_sizing_proposal_json (sizing r)),
      (''requirement_ids'', PStrs (requirement_ids r))]"

definition build_strategy_trace_id :: "digest \<Rightarrow> string \<Rightarrow> string \<Rightarrow> string \<Rightarrow> datetime \<Rightarrow> string" where
  "build_strategy_trace_id H run fid ph t = stable_id H ''TRACE'' (PObj
     [(''decision_ts'', PIso t), (''policy_hash'', PStr ph), (''source_forecast_id'', PStr fid),
      (''strategy_run_id'', PStr run)])"

definition build_strategy_decision_hash :: "digest \<Rightarrow> StrategyDecision \<Rightarrow> string" where
  "build_strategy_decision_hash H r = H (PObj
     [(''action'', PStr (StrategyDecisionAction_value (action r))),
      (''dataset_row_id'', PStr (dataset_row_id r)),
      (''dataset_snapshot_id'', PStr (dataset_snapshot_id r)),
      (''decision_ts'', PIso (decision_ts r)),
      (''expected_cost'', PDec (expected_cost r)),
      (''expected_return'', PDec (expected_return r)),
      (''feature_input_snapshot_id'', PStr (feature_input_snapshot_id r)),
      (''feature_ts'', PIso (feature_ts r)),
      (''feature_vector_id'', PStr (feature_vector_id r)),
      (''feature_version'', PStr (feature_version r)),
      (''instrument_id'', PStr (instrument_id r)),
      (''label_rule_id'', PStr (label_rule_id r)),
      (''model_version_hash'', PStr (model_version_hash r)),
      (''model_version_id'', PStr (model_version_id r)),
      (''net_edge'', PDec (net_edge r)),
      (''policy_hash'', PStr (policy_hash r)),
      (''policy_id'', PStr (policy_id r)),
      (''reason_code'', PStr (StrategyDecisionReasonCode_value (reason_code r))),
      (''requirement_ids'', PStrs (requirement_ids r)),
      (''sizing'', strategy_sizing_proposal_json (sizing r)),
      (''source_feature_snapshot_ids'', PStrs (source_feature_snapshot_ids r)),
      (''source_forecast_id'', PStr (source_forecast_id r)),
      (''split'', PStr (DatasetSplit_value (split r))),
      (''strategy_run_id'', PStr (strategy_run_id r)),
      (''trace_id'', PStr (trace_id r)),
      (''training_run_id'', PStr (training_run_id r)),
      (''uncertainty'', PDec (uncertainty r)),
      (''uncertainty_buffer'', PDec (uncertainty_buffer r)),
      (''venue_id'', PStr (venue_id r))])"

definition build_strategy_decision_id :: "digest \<Rightarrow> string \<Rightarrow> string" where
  "build_strategy_decision_id H h = stable_id H ''STRATEGYDECISION'' (PObj [(''decision_hash'', PStr h)])"

text \<open>The validator \<open>decision_is_consistent_and_deterministic\<close>.\<close>

definition strategy_decision_checks :: "digest \<Rightarrow> StrategyDecision \<Rightarrow> (bool \<times> string) list" where
  "strategy_decision_checks H r =
     (let expected = build_strategy_decision_hash H r; s = sizing r in
     [(split r \<noteq> TRAIN, ''strategy decisions require out-of-sample forecasts''),
      (\<not> decision_ts r < feature_ts r, ''decision_ts must not precede feature_ts''),
      (dec_eq (net_edge r) (expected_return r - expected_cost r - uncertainty_buffer r),
        ''net_edge must equal expected_return minus expected_cost minus uncertainty_buffer''),
      (trace_id r = build_strategy_trace_id H (strategy_run_id r) (source_forecast_id r) (policy_hash r)
         (decision_ts r), ''trace_id is not deterministic'')]
     @ (if action r = StrategyDecisionAction.BUY then
          [(reason_code r = TRADE_POSITIVE_NET_EDGE, ''buy decisions require trade_positive_net_edge reason''),
           (\<not> (expected_return r \<le> 0 \<or> net_edge r \<le> 0),
             ''buy decisions require positive expected return and net edge''),
           (StrategySizingProposal.sizing_inputs s \<noteq> None \<longrightarrow>
              sizing_status s = PROPOSED_PENDING_INDEPENDENT_RISK
              \<and> \<not> proposed_notional s \<le> 0 \<and> \<not> proposed_quantity s \<le> 0,
             ''buy decisions with sizing inputs require positive proposed size'')]
        else
          [(reason_code r \<noteq> TRADE_POSITIVE_NET_EDGE, ''no-trade decisions require a no-trade reason''),
           (dec_eq (proposed_notional s) 0 \<and> dec_eq (proposed_quantity s) 0,
             ''no-trade decisions must keep proposed size at zero'')])
     @ [(decision_hash r = expected, ''decision_hash is not deterministic''),
        (decision_id r = build_strategy_decision_id H expected, ''decision_id is not deterministic'')])"

definition construct_StrategyDecision :: "digest \<Rightarrow> StrategyDecision \<Rightarrow> StrategyDecision result" where
  "construct_StrategyDecision H r = checked (strategy_decision_fields r @ strategy_decision_checks H r) r"

definition valid_StrategyDecision :: "digest \<Rightarrow> StrategyDecision \<Rightarrow> bool" where
  "valid_StrategyDecision H r \<longleftrightarrow> construct_StrategyDecision H r = Inr r"

section \<open>Reason counts\<close>

record StrategyDecisionReasonCount =
  reason_code :: StrategyDecisionReasonCode
  count :: int

definition build_strategy_decision_reason_counts :: "StrategyDecision list \<Rightarrow> StrategyDecisionReasonCount list" where
  "build_strategy_decision_reason_counts ds =
     map (\<lambda>(c, n). \<lparr>StrategyDecisionReasonCount.reason_code = c, count = n\<rparr>)
       (sort_key (\<lambda>p. StrategyDecisionReasonCode_value (fst p))
         (tally (map StrategyDecision.reason_code ds)))"

end
