(* ===== verification/Evaluation.thy ===== *)
theory Evaluation
  imports Decisions
begin

text \<open>
  Evaluation contracts, \<open>contracts/evaluation.py\<close>: scorecard metrics and scores of the baselines, the
  decision of the baseline gate, and the strategy gate report.  Decimals are finite by
  construction, so the finiteness validators have no case here.
\<close>

section \<open>Baseline scorecards\<close>

datatype BaselineKind =
    CASH | BUY_AND_HOLD | EQUAL_WEIGHT_BASKET | TA_HEURISTIC | SIMPLE_ML

primrec BaselineKind_value :: "BaselineKind \<Rightarrow> string" where
  "BaselineKind_value BaselineKind.CASH = ''cash_no_trade''"
| "BaselineKind_value BaselineKind.BUY_AND_HOLD = ''buy_and_hold''"
| "BaselineKind_value BaselineKind.EQUAL_WEIGHT_BASKET = ''equal_weight_basket''"
| "BaselineKind_value BaselineKind.TA_HEURISTIC = ''ta_heuristic''"
| "BaselineKind_value BaselineKind.SIMPLE_ML = ''simple_ml''"

datatype MetricStatus =
    AVAILABLE | NOT_APPLICABLE | BLOCKED

datatype BaselineGateStatus =
    PASS | FAIL | BLOCKED

primrec MetricStatus_value :: "MetricStatus \<Rightarrow> string" where
  "MetricStatus_value MetricStatus.AVAILABLE = ''available''"
| "MetricStatus_value MetricStatus.NOT_APPLICABLE = ''not_applicable''"
| "MetricStatus_value MetricStatus.BLOCKED = ''blocked''"

primrec BaselineGateStatus_value :: "BaselineGateStatus \<Rightarrow> string" where
  "BaselineGateStatus_value BaselineGateStatus.PASS = ''PASS''"
| "BaselineGateStatus_value BaselineGateStatus.FAIL = ''FAIL''"
| "BaselineGateStatus_value BaselineGateStatus.BLOCKED = ''BLOCKED''"

record EvaluationMetric =
  metric_value :: "decimal option"
  status :: MetricStatus
  reason :: "string option"

definition evaluation_metric_fields :: "EvaluationMetric \<Rightarrow> (bool \<times> string) list" where
  "evaluation_metric_fields r =
     [(opt_all non_empty_string (reason r), ''reason'')]"


definition construct_EvaluationMetric :: "EvaluationMetric \<Rightarrow> EvaluationMetric result" where
  "construct_EvaluationMetric r = checked (evaluation_metric_fields r @
     [(status r = AVAILABLE \<longrightarrow> metric_value r \<noteq> None, ''available metrics require a value''),
      (status r \<noteq> AVAILABLE \<longrightarrow> reason r \<noteq> None, ''undefined metrics require a reason'')]) r"

definition valid_EvaluationMetric :: "EvaluationMetric \<Rightarrow> bool" where
  "valid_EvaluationMetric r \<longleftrightarrow> construct_EvaluationMetric r = Inr r"

definition evaluation_metric_json :: "EvaluationMetric \<Rightarrow> payload" where
  "evaluation_metric_json r = PObj
     [(''value'', POpt PDec (metric_value r)),
      (''status'', PStr (MetricStatus_value (status r))),
      (''reason'', POpt PStr (reason r))]"


record BenchmarkConfig =
  benchmark_report_id :: string
  benchmark_report_hash :: string
  benchmark_name :: string
  alignment :: string

definition benchmark_config_fields :: "BenchmarkConfig \<Rightarrow> (bool \<times> string) list" where
  "benchmark_config_fields r =
     [(canonical_id (benchmark_report_id r), ''benchmark_report_id''),
      (hex64 (benchmark_report_hash r), ''benchmark_report_hash''),
      (non_empty_string (benchmark_name r), ''benchmark_name''),
      (non_empty_string (alignment r), ''alignment'')]"


definition construct_BenchmarkConfig :: "BenchmarkConfig \<Rightarrow> BenchmarkConfig result" where
  "construct_BenchmarkConfig r = checked (benchmark_config_fields r) r"

definition valid_BenchmarkConfig :: "BenchmarkConfig \<Rightarrow> bool" where
  "valid_BenchmarkConfig r \<longleftrightarrow> construct_BenchmarkConfig r = Inr r"

definition benchmark_config_json :: "BenchmarkConfig \<Rightarrow> payload" where
  "benchmark_config_json r = PObj
     [(''benchmark_report_id'', PStr (benchmark_report_id r)),
      (''benchmark_report_hash'', PStr (benchmark_report_hash r)),
      (''benchmark_name'', PStr (benchmark_name r)),
      (''alignment'', PStr (alignment r))]"


record MetricAssumptions =
  net_return_formula :: string
  mean_return_formula :: string
  volatility_formula :: string
  sharpe_formula :: string
  sortino_formula :: string
  calmar_formula :: string
  max_drawdown_formula :: string
  cvar_formula :: string
  cvar_tail_probability :: decimal
  cost_scope :: string

definition metric_assumptions_fields :: "MetricAssumptions \<Rightarrow> (bool \<times> string) list" where
  "metric_assumptions_fields r =
     [(non_empty_string (net_return_formula r), ''net_return_formula''),
      (non_empty_string (mean_return_formula r), ''mean_return_formula''),
      (non_empty_string (volatility_formula r), ''volatility_formula''),
      (non_empty_string (sharpe_formula r), ''sharpe_formula''),
      (non_empty_string (sortino_formula r), ''sortino_formula''),
      (non_empty_string (calmar_formula r), ''calmar_formula''),
      (non_empty_string (max_drawdown_formula r), ''max_drawdown_formula''),
      (non_empty_string (cvar_formula r), ''cvar_formula''),
      (0 < (cvar_tail_probability r) \<and> (cvar_tail_probability r) \<le> 1, ''cvar_tail_probability''),
      (non_empty_string (cost_scope r), ''cost_scope'')]"


definition construct_MetricAssumptions :: "MetricAssumptions \<Rightarrow> MetricAssumptions result" where
  "construct_MetricAssumptions r = checked (metric_assumptions_fields r) r"

definition valid_MetricAssumptions :: "MetricAssumptions \<Rightarrow> bool" where
  "valid_MetricAssumptions r \<longleftrightarrow> construct_MetricAssumptions r = Inr r"

definition metric_assumptions_json :: "MetricAssumptions \<Rightarrow> payload" where
  "metric_assumptions_json r = PObj
     [(''net_return_formula'', PStr (net_return_formula r)),
      (''mean_return_formula'', PStr (mean_return_formula r)),
      (''volatility_formula'', PStr (volatility_formula r)),
      (''sharpe_formula'', PStr (sharpe_formula r)),
      (''sortino_formula'', PStr (sortino_formula r)),
      (''calmar_formula'', PStr (calmar_formula r)),
      (''max_drawdown_formula'', PStr (max_drawdown_formula r)),
      (''cvar_formula'', PStr (cvar_formula r)),
      (''cvar_tail_probability'', PDec (cvar_tail_probability r)),
      (''cost_scope'', PStr (cost_scope r))]"


record BaselineSplitScore =
  baseline_report_id :: string
  baseline_name :: string
  baseline_kind :: BaselineKind
  split :: DatasetSplit
  observation_count :: int
  net_return :: EvaluationMetric
  mean_net_return :: EvaluationMetric
  sharpe :: EvaluationMetric
  sortino :: EvaluationMetric
  calmar :: EvaluationMetric
  max_drawdown :: EvaluationMetric
  cvar :: EvaluationMetric
  turnover_sum :: EvaluationMetric
  average_exposure :: EvaluationMetric
  cost_return_sum :: EvaluationMetric
  benchmark_relative_net_return :: EvaluationMetric

definition baseline_split_score_fields :: "BaselineSplitScore \<Rightarrow> (bool \<times> string) list" where
  "baseline_split_score_fields r =
     [(canonical_id (baseline_report_id r), ''baseline_report_id''),
      (non_empty_string (baseline_name r), ''baseline_name''),
      (0 \<le> observation_count r, ''observation_count''),
      (valid_EvaluationMetric (net_return r), ''net_return''),
      (valid_EvaluationMetric (mean_net_return r), ''mean_net_return''),
      (valid_EvaluationMetric (sharpe r), ''sharpe''),
      (valid_EvaluationMetric (sortino r), ''sortino''),
      (valid_EvaluationMetric (calmar r), ''calmar''),
      (valid_EvaluationMetric (max_drawdown r), ''max_drawdown''),
      (valid_EvaluationMetric (cvar r), ''cvar''),
      (valid_EvaluationMetric (turnover_sum r), ''turnover_sum''),
      (valid_EvaluationMetric (average_exposure r), ''average_exposure''),
      (valid_EvaluationMetric (cost_return_sum r), ''cost_return_sum''),
      (valid_EvaluationMetric (benchmark_relative_net_return r), ''benchmark_relative_net_return'')]"


definition construct_BaselineSplitScore :: "BaselineSplitScore \<Rightarrow> BaselineSplitScore result" where
  "construct_BaselineSplitScore r = checked (baseline_split_score_fields r) r"

definition valid_BaselineSplitScore :: "BaselineSplitScore \<Rightarrow> bool" where
  "valid_BaselineSplitScore r \<longleftrightarrow> construct_BaselineSplitScore r = Inr r"

definition baseline_split_score_json :: "BaselineSplitScore \<Rightarrow> payload" where
  "baseline_split_score_json r = PObj
     [(''baseline_report_id'', PStr (baseline_report_id r)),
      (''baseline_name'', PStr (baseline_name r)),
      (''baseline_kind'', PStr (BaselineKind_value (baseline_kind r))),
      (''split'', PStr (DatasetSplit_value (split r))),
      (''observation_count'', PInt (observation_count r)),
      (''net_return'', evaluation_metric_json (net_return r)),
      (''mean_net_return'', evaluation_metric_json (mean_net_return r)),
      (''sharpe'', evaluation_metric_json (sharpe r)),
      (''sortino'', evaluation_metric_json (sortino r)),
      (''calmar'', evaluation_metric_json (calmar r)),
      (''max_drawdown'', evaluation_metric_json (max_drawdown r)),
      (''cvar'', evaluation_metric_json (cvar r)),
      (''turnover_sum'', evaluation_metric_json (turnover_sum r)),
      (''average_exposure'', evaluation_metric_json (average_exposure r)),
      (''cost_return_sum'', evaluation_metric_json (cost_return_sum r)),
      (''benchmark_relative_net_return'', evaluation_metric_json (benchmark_relative_net_return r))]"


record EvaluationScorecard =
  scorecard_id :: string
  scorecard_hash :: string
  input_baseline_report_ids :: "string list"
  input_baseline_report_hashes :: "string list"
  benchmark_config :: BenchmarkConfig
  metric_assumptions :: MetricAssumptions
  scores :: "BaselineSplitScore list"

definition evaluation_scorecard_fields :: "EvaluationScorecard \<Rightarrow> (bool \<times> string) list" where
  "evaluation_scorecard_fields r =
     [(canonical_id (scorecard_id r), ''scorecard_id''),
      (hex64 (scorecard_hash r), ''scorecard_hash''),
      (list_all canonical_id (input_baseline_report_ids r), ''input_baseline_report_ids''),
      (valid_BenchmarkConfig (benchmark_config r), ''benchmark_config''),
      (valid_MetricAssumptions (metric_assumptions r), ''metric_assumptions''),
      (list_all valid_BaselineSplitScore (scores r), ''scores'')]"


definition build_scorecard_hash :: "digest \<Rightarrow> string list \<Rightarrow> string list \<Rightarrow> BenchmarkConfig \<Rightarrow> MetricAssumptions \<Rightarrow> BaselineSplitScore list \<Rightarrow> string" where
  "build_scorecard_hash H ids hashes b m ss = H (PObj
     [(''benchmark_config'', benchmark_config_json b),
      (''input_baseline_report_hashes'', PStrs hashes),
      (''input_baseline_report_ids'', PStrs ids),
      (''metric_assumptions'', metric_assumptions_json m),
      (''scores'', PList (map baseline_split_score_json ss))])"

definition build_scorecard_id :: "digest \<Rightarrow> string \<Rightarrow> string" where
  "build_scorecard_id H h = stable_id H ''EVALSCORECARD'' (PObj [(''scorecard_hash'', PStr h)])"

definition construct_EvaluationScorecard :: "digest \<Rightarrow> EvaluationScorecard \<Rightarrow> EvaluationScorecard result" where
  "construct_EvaluationScorecard H r = checked (evaluation_scorecard_fields r @
     [(scorecard_hash r = build_scorecard_hash H (input_baseline_report_ids r)
         (input_baseline_report_hashes r) (benchmark_config r) (metric_assumptions r) (scores r),
        ''scorecard_hash is not deterministic''),
      (scorecard_id r = build_scorecard_id H (scorecard_hash r), ''scorecard_id is not deterministic'')]) r"

definition valid_EvaluationScorecard :: "digest \<Rightarrow> EvaluationScorecard \<Rightarrow> bool" where
  "valid_EvaluationScorecard H r \<longleftrightarrow> construct_EvaluationScorecard H r = Inr r"

section \<open>The baseline gate\<close>

record BaselineGateDecision =
  status :: BaselineGateStatus
  scorecard_id :: string
  scorecard_hash :: string
  required_baselines :: "string list"
  required_metric_families :: "string list"
  evidence_paths :: "string list"
  blockers :: "string list"
  caveats :: "string list"

definition baseline_gate_decision_fields :: "BaselineGateDecision \<Rightarrow> (bool \<times> string) list" where
  "baseline_gate_decision_fields r =
     [(canonical_id (scorecard_id r), ''scorecard_id''),
      (hex64 (scorecard_hash r), ''scorecard_hash''),
      (list_all non_empty_string (required_baselines r), ''required_baselines''),
      (list_all non_empty_string (required_metric_families r), ''required_metric_families''),
      (list_all non_empty_string (evidence_paths r), ''evidence_paths''),
      (list_all non_empty_string (blockers r), ''blockers''),
      (list_all non_empty_string (caveats r), ''caveats'')]"


definition construct_BaselineGateDecision :: "BaselineGateDecision \<Rightarrow> BaselineGateDecision result" where
  "construct_BaselineGateDecision r = checked (baseline_gate_decision_fields r @
     [(status r = BaselineGateStatus.PASS \<longrightarrow> blockers r = [], ''passing baseline gates cannot include blockers''),
      (status r \<noteq> BaselineGateStatus.PASS \<longrightarrow> blockers r \<noteq> [], ''non-passing baseline gates require blockers'')]) r"

definition valid_BaselineGateDecision :: "BaselineGateDecision \<Rightarrow> bool" where
  "valid_BaselineGateDecision r \<longleftrightarrow> construct_BaselineGateDecision r = Inr r"

section \<open>The strategy gate\<close>

definition construct_StrategyDecisionReasonCount :: "StrategyDecisionReasonCount \<Rightarrow> StrategyDecisionReasonCount result" where
  "construct_StrategyDecisionReasonCount r = checked [(0 < StrategyDecisionReasonCount.count r, ''count'')] r"

definition valid_StrategyDecisionReasonCount :: "StrategyDecisionReasonCount \<Rightarrow> bool" where
  "valid_StrategyDecisionReasonCount r \<longleftrightarrow> construct_StrategyDecisionReasonCount r = Inr r"

definition strategy_decision_reason_count_json :: "StrategyDecisionReasonCount \<Rightarrow> payload" where
  "strategy_decision_reason_count_json r = PObj
     [(''reason_code'', PStr (StrategyDecisionReasonCode_value (StrategyDecisionReasonCount.reason_code r))),
      (''count'', PInt (StrategyDecisionReasonCount.count r))]"

record StrategyGateUtilityObservation =
  decision_id :: string
  realized_return :: decimal
  cash_return :: decimal
  source :: string

definition strategy_gate_utility_observation_fields :: "StrategyGateUtilityObservation \<Rightarrow> (bool \<times> string) list" where
  "strategy_gate_utility_observation_fields r =
     [(canonical_id (decision_id r), ''decision_id''),
      (non_empty_string (source r), ''source'')]"


definition construct_StrategyGateUtilityObservation :: "StrategyGateUtilityObservation \<Rightarrow> StrategyGateUtilityObservation result" where
  "construct_StrategyGateUtilityObservation r = checked (strategy_gate_utility_observation_fields r) r"

definition valid_StrategyGateUtilityObservation :: "StrategyGateUtilityObservation \<Rightarrow> bool" where
  "valid_StrategyGateUtilityObservation r \<longleftrightarrow> construct_StrategyGateUtilityObservation r = Inr r"

definition strategy_gate_utility_observation_json :: "StrategyGateUtilityObservation \<Rightarrow> payload" where
  "strategy_gate_utility_observation_json r = PObj
     [(''decision_id'', PStr (decision_id r)),
      (''realized_return'', PDec (realized_return r)),
      (''cash_return'', PDec (cash_return r)),
      (''source'', PStr (source r))]"


record StrategyGateReport =
  report_id :: string
  report_hash :: string
  input_decision_ids :: "string list"
  input_decision_hashes :: "string list"
  observation_count :: int
  taken_count :: int
  skipped_count :: int
  taken_mean_utility :: decimal
  skipped_mean_opportunity_utility :: decimal
  skipped_vs_taken_mean_utility :: decimal
  turnover_proxy_notional :: decimal
  cost_drag_notional :: decimal
  reason_counts :: "StrategyDecisionReasonCount list"
  utility_observations :: "StrategyGateUtilityObservation list"
  requirement_ids :: "string list"
  caveats :: "string list"

definition strategy_gate_report_fields :: "StrategyGateReport \<Rightarrow> (bool \<times> string) list" where
  "strategy_gate_report_fields r =
     [(canonical_id (report_id r), ''report_id''),
      (hex64 (report_hash r), ''report_hash''),
      (list_all canonical_id (input_decision_ids r), ''input_decision_ids''),
      (0 < observation_count r, ''observation_count''),
      (0 \<le> taken_count r, ''taken_count''),
      (0 \<le> skipped_count r, ''skipped_count''),
      (0 \<le> turnover_proxy_notional r, ''turnover_proxy_notional''),
      (0 \<le> cost_drag_notional r, ''cost_drag_notional''),
      (list_all valid_StrategyDecisionReasonCount (reason_counts r), ''reason_counts''),
      (list_all valid_StrategyGateUtilityObservation (utility_observations r), ''utility_observations''),
      (list_all non_empty_string (requirement_ids r), ''requirement_ids''),
      (list_all non_empty_string (caveats r), ''caveats'')]"


definition build_strategy_gate_report_hash :: "digest \<Rightarrow> StrategyGateReport \<Rightarrow> string" where
  "build_strategy_gate_report_hash H r = H (PObj
     [(''caveats'', PStrs (caveats r)),
      (''cost_drag_notional'', PDec (cost_drag_notional r)),
      (''input_decision_hashes'', PStrs (input_decision_hashes r)),
      (''input_decision_ids'', PStrs (input_decision_ids r)),
      (''observation_count'', PInt (observation_count r)),
      (''reason_counts'', PList (map strategy_decision_reason_count_json (reason_counts r))),
      (''requirement_ids'', PStrs (requirement_ids r)),
      (''skipped_count'', PInt (skipped_count r)),
      (''skipped_mean_opportunity_utility'', PDec (skipped_mean_opportunity_utility r)),
      (''skipped_vs_taken_mean_utility'', PDec (skipped_vs_taken_mean_utility r)),
      (''taken_count'', PInt (taken_count r)),
      (''taken_mean_utility'', PDec (taken_mean_utility r)),
      (''turnover_proxy_notional'', PDec (turnover_proxy_notional r)),
      (''utility_observations'', PList (map strategy_gate_utility_observation_json (utility_observations r)))])"

definition build_strategy_gate_report_id :: "digest \<Rightarrow> string \<Rightarrow> string" where
  "build_strategy_gate_report_id H h = stable_id H ''STRATEGYGATE'' (PObj [(''report_hash'', PStr h)])"

text \<open>The validator \<open>strategy_gate_report_identity_is_deterministic\<close>.\<close>

definition strategy_gate_report_checks :: "StrategyGateReport \<Rightarrow> (bool \<times> string) list" where
  "strategy_gate_report_checks r =
     [(observation_count r = int (length (input_decision_ids r)),
        ''observation_count must match input decisions''),
      (observation_count r = int (length (utility_observations r)),
        ''observation_count must match utility observations''),
      (taken_count r + skipped_count r = observation_count r,
        ''taken_count plus skipped_count must equal observation_count'')]"

definition construct_StrategyGateReport :: "digest \<Rightarrow> StrategyGateReport \<Rightarrow> StrategyGateReport result" where
  "construct_StrategyGateReport H r =
     checked (strategy_gate_report_fields r @ strategy_gate_report_checks r @
       [(report_hash r = build_strategy_gate_report_hash H r, ''strategy gate report_hash is not deterministic''),
        (report_id r = build_strategy_gate_report_id H (report_hash r),
          ''strategy gate report_id is not deterministic'')]) r"

definition valid_StrategyGateReport :: "digest \<Rightarrow> StrategyGateReport \<Rightarrow> bool" where
  "valid_StrategyGateReport H r \<longleftrightarrow> construct_StrategyGateReport H r = Inr r"

lemma strategy_gate_identity [simp]:
  "build_strategy_gate_report_hash H (d\<lparr>report_id := x, report_hash := y\<rparr>) = build_strategy_gate_report_hash H d"
  by (simp add: build_strategy_gate_report_hash_def)

end
