(* ===== verification/StrategyGate.thy ===== *)
theory StrategyGate
  imports Evaluation "HOL-Library.Multiset"
begin

text \<open>
  The strategy gate, \<open>evaluation/strategy_gate.py\<close>: decisions and their realized utilities become one
  report that compares the trades taken with the trades skipped.  The theory shows when the
  report is built, what it holds, and that the order of the inputs does not matter.
\<close>

section \<open>The report\<close>

definition strategy_gate_error :: "string \<Rightarrow> py_error" where
  "strategy_gate_error m = BuildError ''StrategyGateReportBuildError'' m"

text \<open>\<open>_observations_by_decision_id\<close>: a dictionary in insertion order, which refuses a second key.\<close>

fun observations_from ::
  "(string \<times> StrategyGateUtilityObservation) list \<Rightarrow> StrategyGateUtilityObservation list
   \<Rightarrow> (string \<times> StrategyGateUtilityObservation) list result" where
  "observations_from d [] = Inr d"
| "observations_from d (u # us) =
     guardE (map_of d (StrategyGateUtilityObservation.decision_id u) = None)
       (strategy_gate_error ''duplicate utility observation decision_id'')
       (observations_from (d @ [(StrategyGateUtilityObservation.decision_id u, u)]) us)"

definition observations_by_decision_id ::
  "StrategyGateUtilityObservation list \<Rightarrow> (string \<times> StrategyGateUtilityObservation) list result" where
  "observations_by_decision_id us = observations_from [] us"

definition decision_taken :: "StrategyDecision \<Rightarrow> bool" where
  "decision_taken d \<longleftrightarrow> StrategyDecision.action d = StrategyDecisionAction.BUY"

definition net_utility :: "StrategyDecision \<times> StrategyGateUtilityObservation \<Rightarrow> decimal" where
  "net_utility p = realized_return (snd p) - StrategyDecision.expected_cost (fst p) - cash_return (snd p)"

definition decision_notional :: "StrategyDecision \<Rightarrow> decimal" where
  "decision_notional d = StrategySizingProposal.proposed_notional (StrategyDecision.sizing d)"

text \<open>
  The loop over the ordered pairs: the utilities of the taken and of the skipped decisions, the
  notional proposed and its expected cost.
\<close>

fun gate_step ::
  "StrategyDecision \<times> StrategyGateUtilityObservation
   \<Rightarrow> decimal list \<times> decimal list \<times> decimal \<times> decimal
   \<Rightarrow> decimal list \<times> decimal list \<times> decimal \<times> decimal" where
  "gate_step p (taken, skipped, turnover, drag) =
     (if decision_taken (fst p)
      then (taken @ [net_utility p], skipped, turnover + decision_notional (fst p),
        drag + decision_notional (fst p) * StrategyDecision.expected_cost (fst p))
      else (taken, skipped @ [net_utility p], turnover, drag))"

definition mean_utility :: "decimal list \<Rightarrow> decimal" where
  "mean_utility us = foldl (+) 0 us / Dec (int (length us)) 0"

definition default_gate_caveats :: "string list" where
  "default_gate_caveats =
     [''S8 strategy gate consumes StrategyDecision proposals only; it does not approve risk.'',
      ''Turnover and cost drag are pre-risk proposal proxies, not gateway fills or TCA.'']"

definition strategy_gate_draft ::
  "StrategyDecision list \<Rightarrow> StrategyGateUtilityObservation list
   \<Rightarrow> decimal list \<Rightarrow> decimal list \<Rightarrow> decimal \<Rightarrow> decimal \<Rightarrow> StrategyGateReport" where
  "strategy_gate_draft ds us taken skipped turnover drag =
     \<lparr>StrategyGateReport.report_id = ''STRATEGYGATE:PLACEHOLDER'',
      report_hash = zero_hash,
      input_decision_ids = map StrategyDecision.decision_id ds,
      input_decision_hashes = map StrategyDecision.decision_hash ds,
      observation_count = int (length ds),
      taken_count = int (length taken),
      skipped_count = int (length skipped),
      taken_mean_utility = mean_utility taken,
      skipped_mean_opportunity_utility = mean_utility skipped,
      skipped_vs_taken_mean_utility = mean_utility skipped - mean_utility taken,
      turnover_proxy_notional = turnover,
      cost_drag_notional = drag,
      reason_counts = build_strategy_decision_reason_counts ds,
      utility_observations = us,
      requirement_ids = [''FR-009'', ''FR-014''],
      caveats = default_gate_caveats\<rparr>"

text \<open>The report proper, from decisions and observations already matched and ordered.\<close>

definition make_strategy_gate_report ::
  "digest \<Rightarrow> (StrategyDecision \<times> StrategyGateUtilityObservation) list \<Rightarrow> StrategyGateReport result" where
  "make_strategy_gate_report H ps =
     (case fold gate_step ps ([], [], 0, 0) of (taken, skipped, turnover, drag) \<Rightarrow>
       guardE (taken \<noteq> [] \<and> skipped \<noteq> [])
         (strategy_gate_error ''strategy gate report requires at least one taken and one skipped decision'')
         (let d = strategy_gate_draft (map fst ps) (map snd ps) taken skipped turnover drag;
              h = build_strategy_gate_report_hash H d
          in construct_StrategyGateReport H
               (d\<lparr>StrategyGateReport.report_id := build_strategy_gate_report_id H h, report_hash := h\<rparr>)))"

definition build_strategy_gate_report ::
  "digest \<Rightarrow> StrategyDecision list \<Rightarrow> StrategyGateUtilityObservation list \<Rightarrow> StrategyGateReport result" where
  "build_strategy_gate_report H ds us =
     guardE (ds \<noteq> []) (strategy_gate_error ''at least one strategy decision is required'')
      (bindE (observations_by_decision_id us) (\<lambda>obs.
        guardE (list_all (\<lambda>d. map_of obs (StrategyDecision.decision_id d) \<noteq> None) ds)
          (strategy_gate_error ''utility observations must cover every decision'')
        (guardE (list_all (\<lambda>(k, _). k \<in> set (map StrategyDecision.decision_id ds)) obs)
          (strategy_gate_error ''utility observations include unknown decisions'')
        (make_strategy_gate_report H
          (map (\<lambda>d. (d, the (map_of obs (StrategyDecision.decision_id d))))
            (sort_key StrategyDecision.decision_id ds))))))"

section \<open>The observations\<close>

abbreviation observation_key :: "StrategyGateUtilityObservation \<Rightarrow> string \<times> StrategyGateUtilityObservation" where
  "observation_key u \<equiv> (StrategyGateUtilityObservation.decision_id u, u)"

lemma observations_from_Inr:
  "observations_from d us = Inr e \<longleftrightarrow>
     e = d @ map observation_key us
     \<and> distinct (map StrategyGateUtilityObservation.decision_id us)
     \<and> set (map StrategyGateUtilityObservation.decision_id us) \<inter> fst ` set d = {}"
proof (induction us arbitrary: d)
  case (Cons u us)
  then show ?case by (auto simp: guardE_Inr_iff map_of_eq_None_iff)
qed auto

lemma observations_from_Inl:
  "observations_from d us = Inl e \<Longrightarrow>
     e = strategy_gate_error ''duplicate utility observation decision_id''"
  by (induction us arbitrary: d) (auto simp: guardE_Inl_iff)

lemma observations_Inr:
  "observations_by_decision_id us = Inr e \<longleftrightarrow>
     e = map observation_key us \<and> distinct (map StrategyGateUtilityObservation.decision_id us)"
  by (simp add: observations_by_decision_id_def observations_from_Inr)

lemma observations_cases:
  "observations_by_decision_id us =
     (if distinct (map StrategyGateUtilityObservation.decision_id us) then Inr (map observation_key us)
      else Inl (strategy_gate_error ''duplicate utility observation decision_id''))"
proof (cases "observations_by_decision_id us")
  case (Inl e)
  moreover from this have "\<not> distinct (map StrategyGateUtilityObservation.decision_id us)"
    using observations_Inr [of us "map observation_key us"] by auto
  moreover have "e = strategy_gate_error ''duplicate utility observation decision_id''"
    using Inl by (simp add: observations_by_decision_id_def observations_from_Inl)
  ultimately show ?thesis by simp
next
  case (Inr e)
  then show ?thesis using observations_Inr [of us e] by simp
qed

section \<open>The sums of the loop\<close>

abbreviation taken_pairs ::
  "(StrategyDecision \<times> StrategyGateUtilityObservation) list \<Rightarrow> (StrategyDecision \<times> StrategyGateUtilityObservation) list" where
  "taken_pairs ps \<equiv> filter (\<lambda>p. decision_taken (fst p)) ps"

abbreviation skipped_pairs ::
  "(StrategyDecision \<times> StrategyGateUtilityObservation) list \<Rightarrow> (StrategyDecision \<times> StrategyGateUtilityObservation) list" where
  "skipped_pairs ps \<equiv> filter (\<lambda>p. \<not> decision_taken (fst p)) ps"

definition taken_notional :: "(StrategyDecision \<times> StrategyGateUtilityObservation) list \<Rightarrow> decimal" where
  "taken_notional ps = foldl (+) 0 (map (\<lambda>p. decision_notional (fst p)) (taken_pairs ps))"

definition taken_cost :: "(StrategyDecision \<times> StrategyGateUtilityObservation) list \<Rightarrow> decimal" where
  "taken_cost ps = foldl (+) 0 (map (\<lambda>p. decision_notional (fst p) * StrategyDecision.expected_cost (fst p)) (taken_pairs ps))"

lemma gate_fold:
  "fold gate_step ps (t, s, n, c) =
     (t @ map net_utility (taken_pairs ps), s @ map net_utility (skipped_pairs ps),
      foldl (+) n (map (\<lambda>p. decision_notional (fst p)) (taken_pairs ps)),
      foldl (+) c (map (\<lambda>p. decision_notional (fst p) * StrategyDecision.expected_cost (fst p)) (taken_pairs ps)))"
  by (induction ps arbitrary: t s n c) simp_all

definition gate_draft :: "(StrategyDecision \<times> StrategyGateUtilityObservation) list \<Rightarrow> StrategyGateReport" where
  "gate_draft ps = strategy_gate_draft (map fst ps) (map snd ps)
     (map net_utility (taken_pairs ps)) (map net_utility (skipped_pairs ps))
     (taken_notional ps) (taken_cost ps)"

definition gate_report :: "digest \<Rightarrow> (StrategyDecision \<times> StrategyGateUtilityObservation) list \<Rightarrow> StrategyGateReport" where
  "gate_report H ps = (let h = build_strategy_gate_report_hash H (gate_draft ps)
     in (gate_draft ps)\<lparr>StrategyGateReport.report_id := build_strategy_gate_report_id H h, report_hash := h\<rparr>)"

lemma make_gate_report:
  "make_strategy_gate_report H ps =
     (if taken_pairs ps \<noteq> [] \<and> skipped_pairs ps \<noteq> [] then construct_StrategyGateReport H (gate_report H ps)
      else Inl (strategy_gate_error ''strategy gate report requires at least one taken and one skipped decision''))"
  by (simp add: make_strategy_gate_report_def gate_fold guardE_def gate_report_def gate_draft_def Let_def
      taken_notional_def taken_cost_def)

section \<open>The report is valid\<close>

lemma foldl_add_nonneg:
  assumes "\<And>x. x \<in> set xs \<Longrightarrow> 0 \<le> (x::decimal)"
  shows "0 \<le> foldl (+) 0 xs"
proof -
  have "list_all (\<lambda>x. 0 \<le> x) xs \<Longrightarrow> 0 \<le> y \<Longrightarrow> 0 \<le> foldl (+) y xs" for y :: decimal
    by (induction xs arbitrary: y) (simp_all add: le_dval dval_signs)
  then show ?thesis using assms by (simp add: list_all_iff le_dval)
qed

lemma valid_decision_parts:
  assumes "valid_StrategyDecision H d"
  shows "canonical_id (StrategyDecision.decision_id d)" "0 \<le> StrategyDecision.expected_cost d"
    "0 \<le> decision_notional d"
  using assms
  by (simp_all add: valid_StrategyDecision_def construct_StrategyDecision_def strategy_decision_fields_def
      valid_StrategySizingProposal_def construct_StrategySizingProposal_def strategy_sizing_proposal_fields_def
      decision_notional_def)

lemma reason_counts_valid:
  "list_all valid_StrategyDecisionReasonCount (build_strategy_decision_reason_counts ds)"
proof -
  have "0 < n" if "(c, n) \<in> set (tally (map StrategyDecision.reason_code ds))" for c n
    using that count_list_0_iff [of "map StrategyDecision.reason_code ds" c]
    by (metis bot_nat_0.not_eq_extremum of_nat_0_less_iff tally_count)
  then show ?thesis
    by (auto simp: build_strategy_decision_reason_counts_def list_all_iff valid_StrategyDecisionReasonCount_def
        construct_StrategyDecisionReasonCount_def)
qed

lemma taken_sums_nonneg:
  assumes "\<And>p. p \<in> set ps \<Longrightarrow> valid_StrategyDecision H (fst p)"
  shows "0 \<le> taken_notional ps" "0 \<le> taken_cost ps"
proof -
  have n: "0 \<le> decision_notional (fst p)" "0 \<le> StrategyDecision.expected_cost (fst p)" if "p \<in> set ps" for p
    using valid_decision_parts [OF assms [OF that]] by simp_all
  then have "0 \<le> decision_notional (fst p) * StrategyDecision.expected_cost (fst p)" if "p \<in> set ps" for p
    using that by (simp add: le_dval dval_signs)
  with n show "0 \<le> taken_notional ps" "0 \<le> taken_cost ps"
    unfolding taken_notional_def taken_cost_def
    by (auto intro!: foldl_add_nonneg)
qed

lemma pairs_partition: "length (taken_pairs ps) + length (skipped_pairs ps) = length ps"
  by (rule sum_length_filter_compl)

lemma gate_draft_fields:
  "StrategyGateReport.input_decision_ids (gate_draft ps) = map (\<lambda>p. StrategyDecision.decision_id (fst p)) ps"
  "StrategyGateReport.observation_count (gate_draft ps) = int (length ps)"
  "StrategyGateReport.taken_count (gate_draft ps) = int (length (taken_pairs ps))"
  "StrategyGateReport.skipped_count (gate_draft ps) = int (length (skipped_pairs ps))"
  "StrategyGateReport.taken_mean_utility (gate_draft ps) = mean_utility (map net_utility (taken_pairs ps))"
  "StrategyGateReport.skipped_mean_opportunity_utility (gate_draft ps) = mean_utility (map net_utility (skipped_pairs ps))"
  "StrategyGateReport.turnover_proxy_notional (gate_draft ps) = taken_notional ps"
  "StrategyGateReport.cost_drag_notional (gate_draft ps) = taken_cost ps"
  "StrategyGateReport.reason_counts (gate_draft ps) = build_strategy_decision_reason_counts (map fst ps)"
  "StrategyGateReport.utility_observations (gate_draft ps) = map snd ps"
  "StrategyGateReport.requirement_ids (gate_draft ps) = [''FR-009'', ''FR-014'']"
  "StrategyGateReport.caveats (gate_draft ps) = default_gate_caveats"
  by (simp_all add: gate_draft_def strategy_gate_draft_def)

lemma default_gate_texts:
  "list_all non_empty_string [''FR-009'', ''FR-014'']" "list_all non_empty_string default_gate_caveats"
  by (simp_all add: default_gate_caveats_def non_empty_string_def strip_def py_space_def)

lemma gate_report_valid:
  assumes "digest_ok H" "ps \<noteq> []"
    and d: "\<And>p. p \<in> set ps \<Longrightarrow> valid_StrategyDecision H (fst p)"
    and u: "\<And>p. p \<in> set ps \<Longrightarrow> valid_StrategyGateUtilityObservation (snd p)"
  shows "construct_StrategyGateReport H (gate_report H ps) = Inr (gate_report H ps)"
proof -
  define g where "g = gate_draft ps"
  define h where "h = build_strategy_gate_report_hash H g"
  have f: "list_all canonical_id (StrategyGateReport.input_decision_ids g)"
    "list_all valid_StrategyGateUtilityObservation (StrategyGateReport.utility_observations g)"
    "0 \<le> StrategyGateReport.turnover_proxy_notional g" "0 \<le> StrategyGateReport.cost_drag_notional g"
    using valid_decision_parts(1) [OF d] u taken_sums_nonneg [OF d]
    by (auto simp: g_def gate_draft_fields list_all_iff)
  have i: "canonical_id (build_strategy_gate_report_id H h)"
    unfolding build_strategy_gate_report_id_def
    by (rule stable_id_canonical [OF assms(1)]; simp add: canonical_id_def upper_char_def)
  have c: "0 < StrategyGateReport.observation_count g" using assms(2) by (simp add: g_def gate_draft_fields)
  have l: "StrategyGateReport.observation_count g = int (length (StrategyGateReport.input_decision_ids g))"
    "StrategyGateReport.observation_count g = int (length (StrategyGateReport.utility_observations g))"
    "StrategyGateReport.taken_count g + StrategyGateReport.skipped_count g = StrategyGateReport.observation_count g"
    "0 \<le> StrategyGateReport.taken_count g" "0 \<le> StrategyGateReport.skipped_count g"
    "list_all valid_StrategyDecisionReasonCount (StrategyGateReport.reason_counts g)"
    "list_all non_empty_string (StrategyGateReport.requirement_ids g)"
    "list_all non_empty_string (StrategyGateReport.caveats g)"
    using pairs_partition [of ps] reason_counts_valid default_gate_texts
    by (simp_all add: g_def gate_draft_fields flip: of_nat_add)
  have x: "hex64 (build_strategy_gate_report_hash H g)"
    using assms(1) by (simp add: build_strategy_gate_report_hash_def)
  show ?thesis
    unfolding gate_report_def Let_def construct_StrategyGateReport_def g_def [symmetric] h_def [symmetric]
    using f i c l x
    by (simp add: strategy_gate_report_fields_def strategy_gate_report_checks_def h_def)
qed

section \<open>What the gate does\<close>

text \<open>The pairs the gate works on, when every decision has an observation.\<close>

definition matched_pairs ::
  "StrategyDecision list \<Rightarrow> StrategyGateUtilityObservation list \<Rightarrow> (StrategyDecision \<times> StrategyGateUtilityObservation) list" where
  "matched_pairs ds us =
     map (\<lambda>d. (d, the (map_of (map observation_key us) (StrategyDecision.decision_id d))))
       (sort_key StrategyDecision.decision_id ds)"

abbreviation observations_match :: "StrategyDecision list \<Rightarrow> StrategyGateUtilityObservation list \<Rightarrow> bool" where
  "observations_match ds us \<equiv>
     distinct (map StrategyGateUtilityObservation.decision_id us)
     \<and> set (map StrategyGateUtilityObservation.decision_id us) = set (map StrategyDecision.decision_id ds)"

lemma observation_keys: "fst ` set (map observation_key us) = set (map StrategyGateUtilityObservation.decision_id us)"
  by force

lemma matched_pairs_in:
  assumes "observations_match ds us" "p \<in> set (matched_pairs ds us)"
  shows "fst p \<in> set ds" "snd p \<in> set us"
    "StrategyGateUtilityObservation.decision_id (snd p) = StrategyDecision.decision_id (fst p)"
proof -
  obtain d where d: "d \<in> set ds" "p = (d, the (map_of (map observation_key us) (StrategyDecision.decision_id d)))"
    using assms(2) by (auto simp: matched_pairs_def)
  then have "StrategyDecision.decision_id d \<in> fst ` set (map observation_key us)"
    unfolding observation_keys using assms(1) by simp
  then obtain u where "map_of (map observation_key us) (StrategyDecision.decision_id d) = Some u"
    by (metis domD dom_map_of_conv_image_fst)
  moreover from this have "(StrategyDecision.decision_id d, u) \<in> set (map observation_key us)" by (rule map_of_SomeD)
  ultimately show "fst p \<in> set ds" "snd p \<in> set us"
    "StrategyGateUtilityObservation.decision_id (snd p) = StrategyDecision.decision_id (fst p)"
    using d by auto
qed

lemma matched_decisions: "map fst (matched_pairs ds us) = sort_key StrategyDecision.decision_id ds"
  by (simp add: matched_pairs_def comp_def)

lemma taken_pairs_empty: "taken_pairs ps = [] \<longleftrightarrow> (\<forall>d \<in> set (map fst ps). \<not> decision_taken d)"
  "skipped_pairs ps = [] \<longleftrightarrow> (\<forall>d \<in> set (map fst ps). decision_taken d)"
  by (auto simp: filter_empty_conv)

lemma gate_Inr:
  assumes "build_strategy_gate_report H ds us = Inr r"
  shows "observations_match ds us" "make_strategy_gate_report H (matched_pairs ds us) = Inr r"
proof -
  have p: "distinct (map StrategyGateUtilityObservation.decision_id us)"
    "list_all (\<lambda>d. map_of (map observation_key us) (StrategyDecision.decision_id d) \<noteq> None) ds"
    "list_all (\<lambda>(k, _). k \<in> set (map StrategyDecision.decision_id ds)) (map observation_key us)"
    "make_strategy_gate_report H (matched_pairs ds us) = Inr r"
    using assms by (auto simp: build_strategy_gate_report_def observations_cases guardE_Inr_iff
        matched_pairs_def split: if_splits)
  then show "observations_match ds us" "make_strategy_gate_report H (matched_pairs ds us) = Inr r"
    by (auto simp: list_all_iff map_of_eq_None_iff)
qed

lemma gate_matched:
  assumes "ds \<noteq> []" "observations_match ds us"
  shows "build_strategy_gate_report H ds us = make_strategy_gate_report H (matched_pairs ds us)"
proof -
  have "list_all (\<lambda>d. map_of (map observation_key us) (StrategyDecision.decision_id d) \<noteq> None) ds"
    "list_all (\<lambda>(k, _). k \<in> set (map StrategyDecision.decision_id ds)) (map observation_key us)"
    using assms(2) unfolding list_all_iff map_of_eq_None_iff observation_keys by auto
  then show ?thesis
    using assms by (simp add: build_strategy_gate_report_def observations_cases guardE_def matched_pairs_def)
qed

lemma matched_counts: "length (filter (\<lambda>p. P (fst p)) (matched_pairs ds us)) = length (filter P ds)"
proof -
  have "length (filter (\<lambda>p. P (fst p)) (matched_pairs ds us)) = length (filter P (map fst (matched_pairs ds us)))"
    by (simp add: filter_map comp_def)
  also have "\<dots> = size (filter_mset P (mset (map fst (matched_pairs ds us))))" by (metis mset_filter size_mset)
  also have "mset (map fst (matched_pairs ds us)) = mset ds" by (simp only: matched_decisions mset_sort)
  finally show ?thesis by (metis mset_filter size_mset)
qed

lemma sort_key_map: "map f (sort_key f xs) = sort (map f xs)"
  by (rule properties_for_sort [symmetric]) simp_all

lemma matched_ids:
  "map (\<lambda>p. StrategyDecision.decision_id (fst p)) (matched_pairs ds us) = sort (map StrategyDecision.decision_id ds)"
  by (simp add: matched_pairs_def comp_def flip: sort_key_map)

text \<open>C32: The strategy gate report exists exactly for inputs worth comparing.  For valid decisions and
  valid observations, \<open>build_strategy_gate_report\<close> returns if and only if there is one observation
  for each decision and no other (no observation is repeated, none is missing, none is unknown)
  and at least one decision bought and at least one did not; the report then counts the
  buys and the others, and its means are those of their realized utilities in the order of the
  decision identifiers.
\<close>

theorem strategy_gate_reports:
  assumes "digest_ok H" and "list_all (valid_StrategyDecision H) ds"
    and "list_all valid_StrategyGateUtilityObservation us"
  shows "case build_strategy_gate_report H ds us of
      Inl e \<Rightarrow> \<not> observations_match ds us \<or> (\<forall>d \<in> set ds. decision_taken d) \<or> (\<forall>d \<in> set ds. \<not> decision_taken d)
    | Inr r \<Rightarrow> observations_match ds us
        \<and> (\<exists>d \<in> set ds. decision_taken d) \<and> (\<exists>d \<in> set ds. \<not> decision_taken d)
        \<and> valid_StrategyGateReport H r
        \<and> StrategyGateReport.input_decision_ids r = sort (map StrategyDecision.decision_id ds)
        \<and> StrategyGateReport.taken_count r = int (length (filter decision_taken ds))
        \<and> StrategyGateReport.skipped_count r = int (length (filter (\<lambda>d. \<not> decision_taken d) ds))
        \<and> StrategyGateReport.taken_mean_utility r = mean_utility (map net_utility (taken_pairs (matched_pairs ds us)))
        \<and> StrategyGateReport.skipped_mean_opportunity_utility r
            = mean_utility (map net_utility (skipped_pairs (matched_pairs ds us)))"
proof (cases "build_strategy_gate_report H ds us")
  case (Inl e)
  have "False" if "observations_match ds us" "\<exists>d \<in> set ds. decision_taken d" "\<exists>d \<in> set ds. \<not> decision_taken d"
  proof -
    have "ds \<noteq> []" using that by auto
    have "length (matched_pairs ds us) = length ds" by (simp add: matched_pairs_def)
    then have "matched_pairs ds us \<noteq> []" using \<open>ds \<noteq> []\<close> by (metis length_0_conv)
    moreover have "taken_pairs (matched_pairs ds us) \<noteq> []" "skipped_pairs (matched_pairs ds us) \<noteq> []"
      using that unfolding taken_pairs_empty matched_decisions by auto
    moreover have "construct_StrategyGateReport H (gate_report H (matched_pairs ds us)) = Inr (gate_report H (matched_pairs ds us))"
      using matched_pairs_in [OF that(1)] assms calculation(1)
      by (intro gate_report_valid) (auto simp: list_all_iff)
    ultimately show False
      using Inl \<open>ds \<noteq> []\<close> that(1) by (simp add: gate_matched make_gate_report)
  qed
  with Inl show ?thesis by auto
next
  case (Inr r)
  let ?ps = "matched_pairs ds us"
  have m: "observations_match ds us" "taken_pairs ?ps \<noteq> []" "skipped_pairs ?ps \<noteq> []"
    "construct_StrategyGateReport H (gate_report H ?ps) = Inr r"
    using gate_Inr [OF Inr] by (auto simp: make_gate_report split: if_splits)
  then have e: "r = gate_report H ?ps" "valid_StrategyGateReport H r"
    by (auto simp: construct_StrategyGateReport_def valid_StrategyGateReport_def)
  have "\<exists>d \<in> set ds. decision_taken d" "\<exists>d \<in> set ds. \<not> decision_taken d"
    using m(2,3) unfolding taken_pairs_empty matched_decisions by auto
  then show ?thesis
    using Inr m(1) e(2)
    by (simp add: e(1) gate_report_def Let_def gate_draft_fields matched_counts [of decision_taken]
        matched_counts [of "\<lambda>d. \<not> decision_taken d"] matched_ids)
qed

lemma distinct_observations_cong:
  "mset us = mset vs \<Longrightarrow> distinct (map StrategyGateUtilityObservation.decision_id us)
     \<longleftrightarrow> distinct (map StrategyGateUtilityObservation.decision_id vs)"
  by (metis mset_eq_imp_distinct_iff mset_map)

lemma map_of_mset:
  assumes "mset us = mset vs" "distinct (map StrategyGateUtilityObservation.decision_id us)"
  shows "map_of (map observation_key us) = map_of (map observation_key vs)"
  using assms distinct_observations_cong [OF assms(1)]
  by (subst map_of_inject_set) (auto simp: comp_def dest: mset_eq_setD)

text \<open>The strategy gate does not depend on the order of its inputs.  For decisions with distinct
  identifiers, any reordering of the decisions and of the observations gives the same report,
  or the same error.
\<close>

theorem strategy_gate_order_independent:
  assumes "mset ds = mset es" and "mset us = mset vs" and "distinct (map StrategyDecision.decision_id ds)"
  shows "build_strategy_gate_report H ds us = build_strategy_gate_report H es vs"
proof (cases "distinct (map StrategyGateUtilityObservation.decision_id us)")
  case True
  have sets: "set ds = set es" "set us = set vs" "ds = [] \<longleftrightarrow> es = []"
    using assms(1,2) by (auto dest: mset_eq_setD)
  have "sort_key StrategyDecision.decision_id ds = sort_key StrategyDecision.decision_id es"
    using assms(1,3) by (intro sort_key_inj_key_eq) (simp_all add: distinct_map)
  moreover have "list_all P ds = list_all P es" "list_all Q (map observation_key us) = list_all Q (map observation_key vs)" for P Q
    by (simp_all add: list_all_iff sets)
  moreover have "set (map StrategyDecision.decision_id ds) = set (map StrategyDecision.decision_id es)"
    by (simp add: sets)
  ultimately show ?thesis
    using True sets(3) map_of_mset [OF assms(2) True] distinct_observations_cong [OF assms(2)]
    by (simp add: build_strategy_gate_report_def observations_cases)
next
  case False
  then show ?thesis
    using assms(1,2) distinct_observations_cong [OF assms(2)]
    by (simp add: build_strategy_gate_report_def observations_cases guardE_def)
      (metis mset_zero_iff_right)
qed

end
