(* ===== verification/PaperContracts.thy ===== *)
theory PaperContracts
  imports GatewayContracts
begin

text \<open>
  Paper accounting and transaction-cost contracts, \<open>contracts/paper.py\<close>: the order, fill and
  rejection logs of a paper session, the session report, the cost rows and issues and their report.
  The hash of each covers all its fields but its own identifier and hash, which come first.
\<close>

section \<open>Enumerations\<close>

datatype PaperRejectionSource =
    RISK | GATEWAY_REPLAY

datatype PaperAccountStateSource =
    GATEWAY_REPLAY | UNCHANGED_FROM_INITIAL | EXPLICIT_LINKAGE

datatype TcaReferencePriceSource =
    ARRIVAL_QUOTE_MID | REPLAY_ARRIVAL_REFERENCE

datatype PaperTcaIssueSeverity =
    ERROR

datatype PaperTcaIssueCode =
    MISSING_ARRIVAL_QUOTE | RISK_BLOCKED | GATEWAY_REJECTED | GATEWAY_UNFILLED

primrec PaperRejectionSource_value :: "PaperRejectionSource \<Rightarrow> string" where
  "PaperRejectionSource_value PaperRejectionSource.RISK = ''risk''"
| "PaperRejectionSource_value PaperRejectionSource.GATEWAY_REPLAY = ''gateway_replay''"

primrec PaperAccountStateSource_value :: "PaperAccountStateSource \<Rightarrow> string" where
  "PaperAccountStateSource_value PaperAccountStateSource.GATEWAY_REPLAY = ''gateway_replay''"
| "PaperAccountStateSource_value PaperAccountStateSource.UNCHANGED_FROM_INITIAL = ''unchanged_from_initial''"
| "PaperAccountStateSource_value PaperAccountStateSource.EXPLICIT_LINKAGE = ''explicit_linkage''"

primrec TcaReferencePriceSource_value :: "TcaReferencePriceSource \<Rightarrow> string" where
  "TcaReferencePriceSource_value TcaReferencePriceSource.ARRIVAL_QUOTE_MID = ''arrival_quote_mid''"
| "TcaReferencePriceSource_value TcaReferencePriceSource.REPLAY_ARRIVAL_REFERENCE = ''replay_arrival_reference''"

primrec PaperTcaIssueSeverity_value :: "PaperTcaIssueSeverity \<Rightarrow> string" where
  "PaperTcaIssueSeverity_value PaperTcaIssueSeverity.ERROR = ''error''"

primrec PaperTcaIssueCode_value :: "PaperTcaIssueCode \<Rightarrow> string" where
  "PaperTcaIssueCode_value PaperTcaIssueCode.MISSING_ARRIVAL_QUOTE = ''missing_arrival_quote''"
| "PaperTcaIssueCode_value PaperTcaIssueCode.RISK_BLOCKED = ''risk_blocked''"
| "PaperTcaIssueCode_value PaperTcaIssueCode.GATEWAY_REJECTED = ''gateway_rejected''"
| "PaperTcaIssueCode_value PaperTcaIssueCode.GATEWAY_UNFILLED = ''gateway_unfilled''"

definition filled_status :: "ExecutionGatewayOrderStatus \<Rightarrow> bool" where
  "filled_status s \<longleftrightarrow> s \<in> {ExecutionGatewayOrderStatus.FILLED, ExecutionGatewayOrderStatus.PARTIALLY_FILLED}"

definition rejection_status :: "ExecutionGatewayOrderStatus \<Rightarrow> bool" where
  "rejection_status s \<longleftrightarrow> s \<in> {BLOCKED, ExecutionGatewayOrderStatus.REJECTED, ExecutionGatewayOrderStatus.UNFILLED}"

text \<open>\<open>sum(values, Decimal("0"))\<close>.\<close>

definition dec_sum :: "decimal list \<Rightarrow> decimal" where
  "dec_sum xs = foldl (+) 0 xs"

section \<open>Order lifecycle log\<close>

record PaperOrderLifecycleLogEntry =
  order_log_id :: string
  order_log_hash :: string
  gateway_report_id :: string
  gateway_report_hash :: string
  gateway_event_id :: string
  gateway_event_hash :: string
  gateway_order_id :: "string option"
  run_id :: string
  risk_check_id :: string
  risk_check_hash :: string
  risk_decision :: RiskDecisionStatus
  risk_reason_codes :: "RiskReasonCode list"
  client_order_id :: string
  trace_id :: string
  source_decision_id :: string
  instrument_id :: string
  venue_id :: string
  side :: OrderSide
  order_type :: OrderType
  requested_quantity :: decimal
  gateway_quantity :: decimal
  submitted_at :: datetime
  status :: ExecutionGatewayOrderStatus
  replay_status :: "ReplayFillStatus option"
  replay_reject_reason :: "ReplayRejectReason option"
  requirement_ids :: "string list"

definition order_log_fields :: "PaperOrderLifecycleLogEntry \<Rightarrow> (bool \<times> string) list" where
  "order_log_fields r =
     [(canonical_id (order_log_id r), ''order_log_id''),
      (hex64 (order_log_hash r), ''order_log_hash''),
      (canonical_id (gateway_report_id r), ''gateway_report_id''),
      (hex64 (gateway_report_hash r), ''gateway_report_hash''),
      (canonical_id (gateway_event_id r), ''gateway_event_id''),
      (hex64 (gateway_event_hash r), ''gateway_event_hash''),
      (opt_all canonical_id (gateway_order_id r), ''gateway_order_id''),
      (canonical_id (run_id r), ''run_id''),
      (canonical_id (risk_check_id r), ''risk_check_id''),
      (hex64 (risk_check_hash r), ''risk_check_hash''),
      (canonical_id (client_order_id r), ''client_order_id''),
      (canonical_id (trace_id r), ''trace_id''),
      (canonical_id (source_decision_id r), ''source_decision_id''),
      (canonical_id (instrument_id r), ''instrument_id''),
      (canonical_id (venue_id r), ''venue_id''),
      (0 < requested_quantity r, ''requested_quantity''),
      (0 < gateway_quantity r, ''gateway_quantity''),
      (list_all non_empty_string (requirement_ids r), ''requirement_ids'')]"

definition order_log_items :: "PaperOrderLifecycleLogEntry \<Rightarrow> (string \<times> payload) list" where
  "order_log_items r =
     [(''order_log_id'', PStr (order_log_id r)),
      (''order_log_hash'', PStr (order_log_hash r)),
      (''gateway_report_id'', PStr (gateway_report_id r)),
      (''gateway_report_hash'', PStr (gateway_report_hash r)),
      (''gateway_event_id'', PStr (gateway_event_id r)),
      (''gateway_event_hash'', PStr (gateway_event_hash r)),
      (''gateway_order_id'', POpt PStr (gateway_order_id r)),
      (''run_id'', PStr (run_id r)),
      (''risk_check_id'', PStr (risk_check_id r)),
      (''risk_check_hash'', PStr (risk_check_hash r)),
      (''risk_decision'', PStr (RiskDecisionStatus_value (risk_decision r))),
      (''risk_reason_codes'', PList (map (\<lambda>x. PStr (RiskReasonCode_value x)) (risk_reason_codes r))),
      (''client_order_id'', PStr (client_order_id r)),
      (''trace_id'', PStr (trace_id r)),
      (''source_decision_id'', PStr (source_decision_id r)),
      (''instrument_id'', PStr (instrument_id r)),
      (''venue_id'', PStr (venue_id r)),
      (''side'', PStr (OrderSide_value (side r))),
      (''order_type'', PStr (OrderType_value (order_type r))),
      (''requested_quantity'', PDec (requested_quantity r)),
      (''gateway_quantity'', PDec (gateway_quantity r)),
      (''submitted_at'', PJsonTime (submitted_at r)),
      (''status'', PStr (ExecutionGatewayOrderStatus_value (status r))),
      (''replay_status'', POpt (\<lambda>x. PStr (ReplayFillStatus_value x)) (replay_status r)),
      (''replay_reject_reason'', POpt (\<lambda>x. PStr (ReplayRejectReason_value x)) (replay_reject_reason r)),
      (''requirement_ids'', PStrs (requirement_ids r))]"

definition build_paper_order_lifecycle_log_hash :: "digest \<Rightarrow> PaperOrderLifecycleLogEntry \<Rightarrow> string" where
  "build_paper_order_lifecycle_log_hash H r = H (PObj (drop 2 (order_log_items r)))"

definition build_paper_order_lifecycle_log_id :: "digest \<Rightarrow> string \<Rightarrow> string" where
  "build_paper_order_lifecycle_log_id H h = stable_id H ''PAPERORDERLOG'' (PObj [(''order_log_hash'', PStr h)])"

definition order_log_checks :: "PaperOrderLifecycleLogEntry \<Rightarrow> (bool \<times> string) list" where
  "order_log_checks r =
     (if status r = BLOCKED then
        [(gateway_order_id r = None \<and> replay_status r = None,
           ''blocked lifecycle logs must not carry placement evidence'')]
      else
        [(gateway_order_id r \<noteq> None \<and> replay_status r \<noteq> None,
           ''non-blocked lifecycle logs require gateway/replay evidence'')])"

definition construct_PaperOrderLifecycleLogEntry :: "digest \<Rightarrow> PaperOrderLifecycleLogEntry \<Rightarrow> PaperOrderLifecycleLogEntry result" where
  "construct_PaperOrderLifecycleLogEntry H r = checked
     (order_log_fields r @ order_log_checks r
      @ [(order_log_hash r = build_paper_order_lifecycle_log_hash H r, ''order_log_hash is not deterministic''),
         (order_log_id r = build_paper_order_lifecycle_log_id H (build_paper_order_lifecycle_log_hash H r), ''order_log_id is not deterministic'')]) r"

definition valid_PaperOrderLifecycleLogEntry :: "digest \<Rightarrow> PaperOrderLifecycleLogEntry \<Rightarrow> bool" where
  "valid_PaperOrderLifecycleLogEntry H r \<longleftrightarrow> construct_PaperOrderLifecycleLogEntry H r = Inr r"

section \<open>Fill log\<close>

record PaperFillLogEntry =
  fill_log_id :: string
  fill_log_hash :: string
  gateway_report_id :: string
  gateway_report_hash :: string
  gateway_event_id :: string
  gateway_event_hash :: string
  gateway_order_id :: string
  run_id :: string
  risk_check_id :: string
  risk_check_hash :: string
  client_order_id :: string
  trace_id :: string
  source_decision_id :: string
  instrument_id :: string
  venue_id :: string
  side :: OrderSide
  order_type :: OrderType
  status :: ExecutionGatewayOrderStatus
  replay_order_result_id :: string
  fill_price :: decimal
  filled_quantity :: decimal
  remaining_quantity :: decimal
  fill_event_open_ts :: datetime
  fill_event_close_ts :: datetime
  fill_event_source_ts :: datetime
  fill_raw_payload_id :: string
  cost_model_id :: "string option"
  cost_model_hash :: "string option"
  latency_bars :: int
  eligible_event_index :: "int option"
  fill_attempt_event_index :: "int option"
  arrival_reference_price :: decimal
  effective_fill_price :: decimal
  reference_notional :: decimal
  effective_notional :: decimal
  fee_cost :: decimal
  spread_cost :: decimal
  slippage_cost :: decimal
  total_cost :: decimal
  requirement_ids :: "string list"

definition fill_log_fields :: "PaperFillLogEntry \<Rightarrow> (bool \<times> string) list" where
  "fill_log_fields r =
     [(canonical_id (fill_log_id r), ''fill_log_id''),
      (hex64 (fill_log_hash r), ''fill_log_hash''),
      (canonical_id (gateway_report_id r), ''gateway_report_id''),
      (hex64 (gateway_report_hash r), ''gateway_report_hash''),
      (canonical_id (gateway_event_id r), ''gateway_event_id''),
      (hex64 (gateway_event_hash r), ''gateway_event_hash''),
      (canonical_id (gateway_order_id r), ''gateway_order_id''),
      (canonical_id (run_id r), ''run_id''),
      (canonical_id (risk_check_id r), ''risk_check_id''),
      (hex64 (risk_check_hash r), ''risk_check_hash''),
      (canonical_id (client_order_id r), ''client_order_id''),
      (canonical_id (trace_id r), ''trace_id''),
      (canonical_id (source_decision_id r), ''source_decision_id''),
      (canonical_id (instrument_id r), ''instrument_id''),
      (canonical_id (venue_id r), ''venue_id''),
      (canonical_id (replay_order_result_id r), ''replay_order_result_id''),
      (0 < fill_price r, ''fill_price''),
      (0 < filled_quantity r, ''filled_quantity''),
      (0 \<le> remaining_quantity r, ''remaining_quantity''),
      (canonical_id (fill_raw_payload_id r), ''fill_raw_payload_id''),
      (opt_all canonical_id (cost_model_id r), ''cost_model_id''),
      (opt_all hex64 (cost_model_hash r), ''cost_model_hash''),
      (0 \<le> latency_bars r, ''latency_bars''),
      (opt_all (\<lambda>x. 0 \<le> x) (eligible_event_index r), ''eligible_event_index''),
      (opt_all (\<lambda>x. 0 \<le> x) (fill_attempt_event_index r), ''fill_attempt_event_index''),
      (0 < arrival_reference_price r, ''arrival_reference_price''),
      (0 < effective_fill_price r, ''effective_fill_price''),
      (0 \<le> reference_notional r, ''reference_notional''),
      (0 \<le> effective_notional r, ''effective_notional''),
      (0 \<le> fee_cost r, ''fee_cost''),
      (0 \<le> spread_cost r, ''spread_cost''),
      (0 \<le> slippage_cost r, ''slippage_cost''),
      (0 \<le> total_cost r, ''total_cost''),
      (list_all non_empty_string (requirement_ids r), ''requirement_ids'')]"

definition fill_log_items :: "PaperFillLogEntry \<Rightarrow> (string \<times> payload) list" where
  "fill_log_items r =
     [(''fill_log_id'', PStr (fill_log_id r)),
      (''fill_log_hash'', PStr (fill_log_hash r)),
      (''gateway_report_id'', PStr (gateway_report_id r)),
      (''gateway_report_hash'', PStr (gateway_report_hash r)),
      (''gateway_event_id'', PStr (gateway_event_id r)),
      (''gateway_event_hash'', PStr (gateway_event_hash r)),
      (''gateway_order_id'', PStr (gateway_order_id r)),
      (''run_id'', PStr (run_id r)),
      (''risk_check_id'', PStr (risk_check_id r)),
      (''risk_check_hash'', PStr (risk_check_hash r)),
      (''client_order_id'', PStr (client_order_id r)),
      (''trace_id'', PStr (trace_id r)),
      (''source_decision_id'', PStr (source_decision_id r)),
      (''instrument_id'', PStr (instrument_id r)),
      (''venue_id'', PStr (venue_id r)),
      (''side'', PStr (OrderSide_value (side r))),
      (''order_type'', PStr (OrderType_value (order_type r))),
      (''status'', PStr (ExecutionGatewayOrderStatus_value (status r))),
      (''replay_order_result_id'', PStr (replay_order_result_id r)),
      (''fill_price'', PDec (fill_price r)),
      (''filled_quantity'', PDec (filled_quantity r)),
      (''remaining_quantity'', PDec (remaining_quantity r)),
      (''fill_event_open_ts'', PJsonTime (fill_event_open_ts r)),
      (''fill_event_close_ts'', PJsonTime (fill_event_close_ts r)),
      (''fill_event_source_ts'', PJsonTime (fill_event_source_ts r)),
      (''fill_raw_payload_id'', PStr (fill_raw_payload_id r)),
      (''cost_model_id'', POpt PStr (cost_model_id r)),
      (''cost_model_hash'', POpt PStr (cost_model_hash r)),
      (''latency_bars'', PInt (latency_bars r)),
      (''eligible_event_index'', POpt PInt (eligible_event_index r)),
      (''fill_attempt_event_index'', POpt PInt (fill_attempt_event_index r)),
      (''arrival_reference_price'', PDec (arrival_reference_price r)),
      (''effective_fill_price'', PDec (effective_fill_price r)),
      (''reference_notional'', PDec (reference_notional r)),
      (''effective_notional'', PDec (effective_notional r)),
      (''fee_cost'', PDec (fee_cost r)),
      (''spread_cost'', PDec (spread_cost r)),
      (''slippage_cost'', PDec (slippage_cost r)),
      (''total_cost'', PDec (total_cost r)),
      (''requirement_ids'', PStrs (requirement_ids r))]"

definition build_paper_fill_log_hash :: "digest \<Rightarrow> PaperFillLogEntry \<Rightarrow> string" where
  "build_paper_fill_log_hash H r = H (PObj (drop 2 (fill_log_items r)))"

definition build_paper_fill_log_id :: "digest \<Rightarrow> string \<Rightarrow> string" where
  "build_paper_fill_log_id H h = stable_id H ''PAPERFILLLOG'' (PObj [(''fill_log_hash'', PStr h)])"

definition fill_log_checks :: "PaperFillLogEntry \<Rightarrow> (bool \<times> string) list" where
  "fill_log_checks r =
     [(filled_status (status r), ''fill logs require filled or partially_filled gateway status''),
      ((cost_model_id r = None) = (cost_model_hash r = None),
        ''cost_model_id and cost_model_hash must be set together''),
      (dec_eq (effective_fill_price r) (fill_price r), ''effective_fill_price must match fill_price''),
      (dec_eq (reference_notional r) (arrival_reference_price r * filled_quantity r),
        ''reference_notional must match arrival price times fill quantity''),
      (dec_eq (effective_notional r) (effective_fill_price r * filled_quantity r),
        ''effective_notional must match effective price times fill quantity''),
      (dec_eq (total_cost r) (fee_cost r + spread_cost r + slippage_cost r),
        ''total_cost must equal fee_cost plus spread_cost plus slippage_cost'')]"

definition construct_PaperFillLogEntry :: "digest \<Rightarrow> PaperFillLogEntry \<Rightarrow> PaperFillLogEntry result" where
  "construct_PaperFillLogEntry H r = checked
     (fill_log_fields r @ fill_log_checks r
      @ [(fill_log_hash r = build_paper_fill_log_hash H r, ''fill_log_hash is not deterministic''),
         (fill_log_id r = build_paper_fill_log_id H (build_paper_fill_log_hash H r), ''fill_log_id is not deterministic'')]) r"

definition valid_PaperFillLogEntry :: "digest \<Rightarrow> PaperFillLogEntry \<Rightarrow> bool" where
  "valid_PaperFillLogEntry H r \<longleftrightarrow> construct_PaperFillLogEntry H r = Inr r"

section \<open>Rejection log\<close>

record PaperRejectionLogEntry =
  rejection_log_id :: string
  rejection_log_hash :: string
  gateway_report_id :: string
  gateway_report_hash :: string
  gateway_event_id :: string
  gateway_event_hash :: string
  gateway_order_id :: "string option"
  run_id :: string
  risk_check_id :: string
  risk_check_hash :: string
  risk_decision :: RiskDecisionStatus
  risk_reason_codes :: "RiskReasonCode list"
  replay_reject_reason :: "ReplayRejectReason option"
  rejection_source :: PaperRejectionSource
  client_order_id :: string
  trace_id :: string
  source_decision_id :: string
  instrument_id :: string
  venue_id :: string
  side :: OrderSide
  order_type :: OrderType
  requested_quantity :: decimal
  gateway_quantity :: decimal
  remaining_quantity :: decimal
  submitted_at :: datetime
  status :: ExecutionGatewayOrderStatus
  requirement_ids :: "string list"

definition rejection_log_fields :: "PaperRejectionLogEntry \<Rightarrow> (bool \<times> string) list" where
  "rejection_log_fields r =
     [(canonical_id (rejection_log_id r), ''rejection_log_id''),
      (hex64 (rejection_log_hash r), ''rejection_log_hash''),
      (canonical_id (gateway_report_id r), ''gateway_report_id''),
      (hex64 (gateway_report_hash r), ''gateway_report_hash''),
      (canonical_id (gateway_event_id r), ''gateway_event_id''),
      (hex64 (gateway_event_hash r), ''gateway_event_hash''),
      (opt_all canonical_id (gateway_order_id r), ''gateway_order_id''),
      (canonical_id (run_id r), ''run_id''),
      (canonical_id (risk_check_id r), ''risk_check_id''),
      (hex64 (risk_check_hash r), ''risk_check_hash''),
      (canonical_id (client_order_id r), ''client_order_id''),
      (canonical_id (trace_id r), ''trace_id''),
      (canonical_id (source_decision_id r), ''source_decision_id''),
      (canonical_id (instrument_id r), ''instrument_id''),
      (canonical_id (venue_id r), ''venue_id''),
      (0 < requested_quantity r, ''requested_quantity''),
      (0 < gateway_quantity r, ''gateway_quantity''),
      (0 \<le> remaining_quantity r, ''remaining_quantity''),
      (list_all non_empty_string (requirement_ids r), ''requirement_ids'')]"

definition rejection_log_items :: "PaperRejectionLogEntry \<Rightarrow> (string \<times> payload) list" where
  "rejection_log_items r =
     [(''rejection_log_id'', PStr (rejection_log_id r)),
      (''rejection_log_hash'', PStr (rejection_log_hash r)),
      (''gateway_report_id'', PStr (gateway_report_id r)),
      (''gateway_report_hash'', PStr (gateway_report_hash r)),
      (''gateway_event_id'', PStr (gateway_event_id r)),
      (''gateway_event_hash'', PStr (gateway_event_hash r)),
      (''gateway_order_id'', POpt PStr (gateway_order_id r)),
      (''run_id'', PStr (run_id r)),
      (''risk_check_id'', PStr (risk_check_id r)),
      (''risk_check_hash'', PStr (risk_check_hash r)),
      (''risk_decision'', PStr (RiskDecisionStatus_value (risk_decision r))),
      (''risk_reason_codes'', PList (map (\<lambda>x. PStr (RiskReasonCode_value x)) (risk_reason_codes r))),
      (''replay_reject_reason'', POpt (\<lambda>x. PStr (ReplayRejectReason_value x)) (replay_reject_reason r)),
      (''rejection_source'', PStr (PaperRejectionSource_value (rejection_source r))),
      (''client_order_id'', PStr (client_order_id r)),
      (''trace_id'', PStr (trace_id r)),
      (''source_decision_id'', PStr (source_decision_id r)),
      (''instrument_id'', PStr (instrument_id r)),
      (''venue_id'', PStr (venue_id r)),
      (''side'', PStr (OrderSide_value (side r))),
      (''order_type'', PStr (OrderType_value (order_type r))),
      (''requested_quantity'', PDec (requested_quantity r)),
      (''gateway_quantity'', PDec (gateway_quantity r)),
      (''remaining_quantity'', PDec (remaining_quantity r)),
      (''submitted_at'', PJsonTime (submitted_at r)),
      (''status'', PStr (ExecutionGatewayOrderStatus_value (status r))),
      (''requirement_ids'', PStrs (requirement_ids r))]"

definition build_paper_rejection_log_hash :: "digest \<Rightarrow> PaperRejectionLogEntry \<Rightarrow> string" where
  "build_paper_rejection_log_hash H r = H (PObj (drop 2 (rejection_log_items r)))"

definition build_paper_rejection_log_id :: "digest \<Rightarrow> string \<Rightarrow> string" where
  "build_paper_rejection_log_id H h = stable_id H ''PAPERREJECTLOG'' (PObj [(''rejection_log_hash'', PStr h)])"

definition rejection_log_checks :: "PaperRejectionLogEntry \<Rightarrow> (bool \<times> string) list" where
  "rejection_log_checks r =
     (rejection_status (status r), ''rejection logs require blocked, rejected, or unfilled status'')
     # (if rejection_source r = RISK then
          [(status r = BLOCKED, ''risk-sourced rejection logs must be blocked gateway events''),
           (replay_reject_reason r = None, ''risk-sourced rejection logs require risk/no-trade reasons only'')]
        else
          [(status r \<noteq> BLOCKED, ''gateway replay rejection logs cannot be risk-blocked events''),
           (replay_reject_reason r \<noteq> None, ''gateway replay rejection logs require replay_reject_reason'')])"

definition construct_PaperRejectionLogEntry :: "digest \<Rightarrow> PaperRejectionLogEntry \<Rightarrow> PaperRejectionLogEntry result" where
  "construct_PaperRejectionLogEntry H r = checked
     (rejection_log_fields r @ rejection_log_checks r
      @ [(rejection_log_hash r = build_paper_rejection_log_hash H r, ''rejection_log_hash is not deterministic''),
         (rejection_log_id r = build_paper_rejection_log_id H (build_paper_rejection_log_hash H r), ''rejection_log_id is not deterministic'')]) r"

definition valid_PaperRejectionLogEntry :: "digest \<Rightarrow> PaperRejectionLogEntry \<Rightarrow> bool" where
  "valid_PaperRejectionLogEntry H r \<longleftrightarrow> construct_PaperRejectionLogEntry H r = Inr r"

section \<open>Session report\<close>

definition order_log_json :: "PaperOrderLifecycleLogEntry \<Rightarrow> payload" where
  "order_log_json r = PObj (order_log_items r)"

definition fill_log_json :: "PaperFillLogEntry \<Rightarrow> payload" where
  "fill_log_json r = PObj (fill_log_items r)"

definition rejection_log_json :: "PaperRejectionLogEntry \<Rightarrow> payload" where
  "rejection_log_json r = PObj (rejection_log_items r)"

record PaperAccountSessionReport =
  session_report_id :: string
  session_report_hash :: string
  run_id :: string
  gateway_report_id :: string
  gateway_report_hash :: string
  gateway_kind :: ExecutionGatewayKind
  fill_mode :: ExecutionFillMode
  source_risk_gated_replay_result_id :: string
  source_risk_gated_replay_result_hash :: string
  source_replay_report_id :: "string option"
  source_replay_report_hash :: "string option"
  initial_account_state_id :: string
  initial_account_state_hash :: string
  final_account_state_id :: string
  final_account_state_hash :: string
  final_account_state_source :: PaperAccountStateSource
  initial_account_state :: "SimulatedAccountState option"
  final_account_state :: "SimulatedAccountState option"
  order_log_ids :: "string list"
  fill_log_ids :: "string list"
  rejection_log_ids :: "string list"
  order_logs :: "PaperOrderLifecycleLogEntry list"
  fill_logs :: "PaperFillLogEntry list"
  rejection_logs :: "PaperRejectionLogEntry list"
  total_order_count :: int
  filled_order_count :: int
  partially_filled_order_count :: int
  blocked_order_count :: int
  rejected_order_count :: int
  unfilled_order_count :: int
  filled_quantity_total :: decimal
  fee_cost_total :: decimal
  spread_cost_total :: decimal
  slippage_cost_total :: decimal
  total_execution_cost :: decimal
  requirement_ids :: "string list"

definition session_report_fields :: "digest \<Rightarrow> PaperAccountSessionReport \<Rightarrow> (bool \<times> string) list" where
  "session_report_fields H r =
     [(canonical_id (session_report_id r), ''session_report_id''),
      (hex64 (session_report_hash r), ''session_report_hash''),
      (canonical_id (run_id r), ''run_id''),
      (canonical_id (gateway_report_id r), ''gateway_report_id''),
      (hex64 (gateway_report_hash r), ''gateway_report_hash''),
      (canonical_id (source_risk_gated_replay_result_id r), ''source_risk_gated_replay_result_id''),
      (hex64 (source_risk_gated_replay_result_hash r), ''source_risk_gated_replay_result_hash''),
      (opt_all canonical_id (source_replay_report_id r), ''source_replay_report_id''),
      (opt_all hex64 (source_replay_report_hash r), ''source_replay_report_hash''),
      (canonical_id (initial_account_state_id r), ''initial_account_state_id''),
      (hex64 (initial_account_state_hash r), ''initial_account_state_hash''),
      (canonical_id (final_account_state_id r), ''final_account_state_id''),
      (hex64 (final_account_state_hash r), ''final_account_state_hash''),
      (opt_all valid_account_state (initial_account_state r), ''initial_account_state''),
      (opt_all valid_account_state (final_account_state r), ''final_account_state''),
      (list_all canonical_id (order_log_ids r), ''order_log_ids''),
      (list_all canonical_id (fill_log_ids r), ''fill_log_ids''),
      (list_all canonical_id (rejection_log_ids r), ''rejection_log_ids''),
      (list_all (valid_PaperOrderLifecycleLogEntry H) (order_logs r), ''order_logs''),
      (list_all (valid_PaperFillLogEntry H) (fill_logs r), ''fill_logs''),
      (list_all (valid_PaperRejectionLogEntry H) (rejection_logs r), ''rejection_logs''),
      (0 \<le> total_order_count r, ''total_order_count''),
      (0 \<le> filled_order_count r, ''filled_order_count''),
      (0 \<le> partially_filled_order_count r, ''partially_filled_order_count''),
      (0 \<le> blocked_order_count r, ''blocked_order_count''),
      (0 \<le> rejected_order_count r, ''rejected_order_count''),
      (0 \<le> unfilled_order_count r, ''unfilled_order_count''),
      (0 \<le> filled_quantity_total r, ''filled_quantity_total''),
      (0 \<le> fee_cost_total r, ''fee_cost_total''),
      (0 \<le> spread_cost_total r, ''spread_cost_total''),
      (0 \<le> slippage_cost_total r, ''slippage_cost_total''),
      (0 \<le> total_execution_cost r, ''total_execution_cost''),
      (list_all non_empty_string (requirement_ids r), ''requirement_ids'')]"

definition session_report_items :: "PaperAccountSessionReport \<Rightarrow> (string \<times> payload) list" where
  "session_report_items r =
     [(''session_report_id'', PStr (session_report_id r)),
      (''session_report_hash'', PStr (session_report_hash r)),
      (''run_id'', PStr (run_id r)),
      (''gateway_report_id'', PStr (gateway_report_id r)),
      (''gateway_report_hash'', PStr (gateway_report_hash r)),
      (''gateway_kind'', PStr (ExecutionGatewayKind_value (gateway_kind r))),
      (''fill_mode'', PStr (ExecutionFillMode_value (fill_mode r))),
      (''source_risk_gated_replay_result_id'', PStr (source_risk_gated_replay_result_id r)),
      (''source_risk_gated_replay_result_hash'', PStr (source_risk_gated_replay_result_hash r)),
      (''source_replay_report_id'', POpt PStr (source_replay_report_id r)),
      (''source_replay_report_hash'', POpt PStr (source_replay_report_hash r)),
      (''initial_account_state_id'', PStr (initial_account_state_id r)),
      (''initial_account_state_hash'', PStr (initial_account_state_hash r)),
      (''final_account_state_id'', PStr (final_account_state_id r)),
      (''final_account_state_hash'', PStr (final_account_state_hash r)),
      (''final_account_state_source'', PStr (PaperAccountStateSource_value (final_account_state_source r))),
      (''initial_account_state'', POpt account_state_json (initial_account_state r)),
      (''final_account_state'', POpt account_state_json (final_account_state r)),
      (''order_log_ids'', PStrs (order_log_ids r)),
      (''fill_log_ids'', PStrs (fill_log_ids r)),
      (''rejection_log_ids'', PStrs (rejection_log_ids r)),
      (''order_logs'', PList (map order_log_json (order_logs r))),
      (''fill_logs'', PList (map fill_log_json (fill_logs r))),
      (''rejection_logs'', PList (map rejection_log_json (rejection_logs r))),
      (''total_order_count'', PInt (total_order_count r)),
      (''filled_order_count'', PInt (filled_order_count r)),
      (''partially_filled_order_count'', PInt (partially_filled_order_count r)),
      (''blocked_order_count'', PInt (blocked_order_count r)),
      (''rejected_order_count'', PInt (rejected_order_count r)),
      (''unfilled_order_count'', PInt (unfilled_order_count r)),
      (''filled_quantity_total'', PDec (filled_quantity_total r)),
      (''fee_cost_total'', PDec (fee_cost_total r)),
      (''spread_cost_total'', PDec (spread_cost_total r)),
      (''slippage_cost_total'', PDec (slippage_cost_total r)),
      (''total_execution_cost'', PDec (total_execution_cost r)),
      (''requirement_ids'', PStrs (requirement_ids r))]"

definition build_paper_account_session_report_hash :: "digest \<Rightarrow> PaperAccountSessionReport \<Rightarrow> string" where
  "build_paper_account_session_report_hash H r = H (PObj (drop 2 (session_report_items r)))"

definition build_paper_account_session_report_id :: "digest \<Rightarrow> string \<Rightarrow> string" where
  "build_paper_account_session_report_id H h = stable_id H ''PAPERSESSION'' (PObj [(''session_report_hash'', PStr h)])"

definition build_paper_account_state_hash :: "digest \<Rightarrow> SimulatedAccountState \<Rightarrow> string" where
  "build_paper_account_state_hash H a = H (account_state_json a)"

definition build_paper_account_state_id :: "digest \<Rightarrow> string \<Rightarrow> string" where
  "build_paper_account_state_id H h = stable_id H ''PAPERACCOUNTSTATE'' (PObj [(''account_state_hash'', PStr h)])"

text \<open>The checks of \<open>_validate_account_state_linkage\<close>.\<close>

definition session_state_checks :: "digest \<Rightarrow> PaperAccountSessionReport \<Rightarrow> (bool \<times> string) list" where
  "session_state_checks H r =
     (case initial_account_state r of None \<Rightarrow> []
      | Some a \<Rightarrow> let expected = build_paper_account_state_hash H a in
          [(initial_account_state_hash r = expected, ''initial_account_state_hash does not match embedded state''),
           (initial_account_state_id r = build_paper_account_state_id H expected,
             ''initial_account_state_id does not match embedded state'')])
     @ (case final_account_state r of None \<Rightarrow> []
        | Some a \<Rightarrow> let expected = build_paper_account_state_hash H a in
          [(final_account_state_hash r = expected, ''final_account_state_hash does not match embedded state''),
           (final_account_state_id r = build_paper_account_state_id H expected,
             ''final_account_state_id does not match embedded state'')])
     @ (case (initial_account_state r, final_account_state r) of
          (Some a, Some b) \<Rightarrow> [(SimulatedAccountState.account_id a = SimulatedAccountState.account_id b,
             ''initial/final account states must refer to the same account'')]
        | _ \<Rightarrow> [])
     @ (case final_account_state_source r of
          GATEWAY_REPLAY \<Rightarrow>
            [(final_account_state r \<noteq> None, ''gateway-replay final account state requires embedded state'')]
        | UNCHANGED_FROM_INITIAL \<Rightarrow>
            [(initial_account_state r \<noteq> None \<and> final_account_state r \<noteq> None,
               ''unchanged final account state requires embedded states''),
             (initial_account_state_hash r = final_account_state_hash r,
               ''unchanged final account state must match initial state hash''),
             (initial_account_state_id r = final_account_state_id r,
               ''unchanged final account state must match initial state id'')]
        | EXPLICIT_LINKAGE \<Rightarrow> [])"

definition count_status :: "PaperOrderLifecycleLogEntry list \<Rightarrow> ExecutionGatewayOrderStatus \<Rightarrow> int" where
  "count_status es s = int (length (filter (\<lambda>e. PaperOrderLifecycleLogEntry.status e = s) es))"

definition one_log_linkage :: "PaperAccountSessionReport \<Rightarrow> string \<Rightarrow> string \<Rightarrow> string \<Rightarrow> (bool \<times> string) list" where
  "one_log_linkage r run gid gh =
     [(run = run_id r, ''log run_id must match session report''),
      (gid = gateway_report_id r, ''log gateway_report_id must match session report''),
      (gh = gateway_report_hash r, ''log gateway_report_hash must match session report'')]"

definition session_linkage_checks :: "PaperAccountSessionReport \<Rightarrow> (bool \<times> string) list" where
  "session_linkage_checks r =
     concat (map (\<lambda>e. one_log_linkage r (PaperOrderLifecycleLogEntry.run_id e)
       (PaperOrderLifecycleLogEntry.gateway_report_id e) (PaperOrderLifecycleLogEntry.gateway_report_hash e)) (order_logs r))
     @ concat (map (\<lambda>e. one_log_linkage r (PaperFillLogEntry.run_id e)
       (PaperFillLogEntry.gateway_report_id e) (PaperFillLogEntry.gateway_report_hash e)) (fill_logs r))
     @ concat (map (\<lambda>e. one_log_linkage r (PaperRejectionLogEntry.run_id e)
       (PaperRejectionLogEntry.gateway_report_id e) (PaperRejectionLogEntry.gateway_report_hash e)) (rejection_logs r))"

text \<open>The checks of \<open>_validate_logs_and_totals\<close>.\<close>

definition session_log_checks :: "PaperAccountSessionReport \<Rightarrow> (bool \<times> string) list" where
  "session_log_checks r =
     [(order_log_ids r = map order_log_id (order_logs r), ''order_log_ids must match order_logs''),
      (fill_log_ids r = map fill_log_id (fill_logs r), ''fill_log_ids must match fill_logs''),
      (rejection_log_ids r = map rejection_log_id (rejection_logs r), ''rejection_log_ids must match rejection_logs'')]
     @ session_linkage_checks r
     @ [(total_order_count r = int (length (order_logs r)), ''total_order_count must match order_logs''),
        (filled_order_count r = count_status (order_logs r) ExecutionGatewayOrderStatus.FILLED,
          ''filled_order_count must match order_logs''),
        (partially_filled_order_count r = count_status (order_logs r) ExecutionGatewayOrderStatus.PARTIALLY_FILLED,
          ''partially_filled_order_count must match order_logs''),
        (blocked_order_count r = count_status (order_logs r) BLOCKED, ''blocked_order_count must match order_logs''),
        (rejected_order_count r = count_status (order_logs r) ExecutionGatewayOrderStatus.REJECTED,
          ''rejected_order_count must match order_logs''),
        (unfilled_order_count r = count_status (order_logs r) ExecutionGatewayOrderStatus.UNFILLED,
          ''unfilled_order_count must match order_logs''),
        (dec_eq (filled_quantity_total r) (dec_sum (map PaperFillLogEntry.filled_quantity (fill_logs r))),
          ''filled_quantity_total must match fill logs''),
        (dec_eq (fee_cost_total r) (dec_sum (map PaperFillLogEntry.fee_cost (fill_logs r))),
          ''fee_cost_total must match fill logs''),
        (dec_eq (spread_cost_total r) (dec_sum (map PaperFillLogEntry.spread_cost (fill_logs r))),
          ''spread_cost_total must match fill logs''),
        (dec_eq (slippage_cost_total r) (dec_sum (map PaperFillLogEntry.slippage_cost (fill_logs r))),
          ''slippage_cost_total must match fill logs''),
        (dec_eq (total_execution_cost r) (dec_sum (map PaperFillLogEntry.total_cost (fill_logs r))),
          ''total_execution_cost must match fill logs'')]"

definition session_report_checks :: "digest \<Rightarrow> PaperAccountSessionReport \<Rightarrow> (bool \<times> string) list" where
  "session_report_checks H r =
     [(gateway_kind r = PAPER, ''paper account session reports require paper gateway kind''),
      (fill_mode r = PAPER_SIMULATED_FILL, ''paper account session reports require paper_simulated_fill mode''),
      ((source_replay_report_id r = None) = (source_replay_report_hash r = None),
        ''source replay report id/hash must be set together'')]
     @ session_state_checks H r @ session_log_checks r"

definition construct_PaperAccountSessionReport :: "digest \<Rightarrow> PaperAccountSessionReport \<Rightarrow> PaperAccountSessionReport result" where
  "construct_PaperAccountSessionReport H r = checked
     (session_report_fields H r @ session_report_checks H r
      @ [(session_report_hash r = build_paper_account_session_report_hash H r, ''session_report_hash is not deterministic''),
         (session_report_id r = build_paper_account_session_report_id H (build_paper_account_session_report_hash H r), ''session_report_id is not deterministic'')]) r"

definition valid_PaperAccountSessionReport :: "digest \<Rightarrow> PaperAccountSessionReport \<Rightarrow> bool" where
  "valid_PaperAccountSessionReport H r \<longleftrightarrow> construct_PaperAccountSessionReport H r = Inr r"

section \<open>Transaction-cost rows\<close>

record PaperTcaRow =
  tca_row_id :: string
  tca_row_hash :: string
  gateway_report_id :: string
  gateway_report_hash :: string
  gateway_event_id :: string
  gateway_event_hash :: string
  gateway_order_id :: string
  run_id :: string
  risk_check_id :: string
  risk_check_hash :: string
  client_order_id :: string
  trace_id :: string
  source_decision_id :: string
  instrument_id :: string
  venue_id :: string
  side :: OrderSide
  status :: ExecutionGatewayOrderStatus
  submitted_at :: datetime
  quote_id :: "string option"
  quote_event_ts :: "datetime option"
  quote_source_ts :: "datetime option"
  quote_ingest_ts :: "datetime option"
  arrival_bid :: "decimal option"
  arrival_ask :: "decimal option"
  arrival_mid :: "decimal option"
  fallback_reference_price :: decimal
  reference_price_source :: TcaReferencePriceSource
  fill_price :: decimal
  filled_quantity :: decimal
  fill_event_open_ts :: datetime
  fill_event_close_ts :: datetime
  fill_event_source_ts :: datetime
  fee_cost :: decimal
  predicted_spread_cost :: decimal
  predicted_slippage_cost :: decimal
  predicted_spread_slippage_cost :: decimal
  predicted_total_cost :: decimal
  realized_spread_slippage_cost :: decimal
  realized_total_cost :: decimal
  spread_slippage_prediction_error :: decimal
  total_cost_prediction_error :: decimal
  requirement_ids :: "string list"

definition tca_row_fields :: "PaperTcaRow \<Rightarrow> (bool \<times> string) list" where
  "tca_row_fields r =
     [(canonical_id (tca_row_id r), ''tca_row_id''),
      (hex64 (tca_row_hash r), ''tca_row_hash''),
      (canonical_id (gateway_report_id r), ''gateway_report_id''),
      (hex64 (gateway_report_hash r), ''gateway_report_hash''),
      (canonical_id (gateway_event_id r), ''gateway_event_id''),
      (hex64 (gateway_event_hash r), ''gateway_event_hash''),
      (canonical_id (gateway_order_id r), ''gateway_order_id''),
      (canonical_id (run_id r), ''run_id''),
      (canonical_id (risk_check_id r), ''risk_check_id''),
      (hex64 (risk_check_hash r), ''risk_check_hash''),
      (canonical_id (client_order_id r), ''client_order_id''),
      (canonical_id (trace_id r), ''trace_id''),
      (canonical_id (source_decision_id r), ''source_decision_id''),
      (canonical_id (instrument_id r), ''instrument_id''),
      (canonical_id (venue_id r), ''venue_id''),
      (opt_all non_empty_string (quote_id r), ''quote_id''),
      (opt_all (\<lambda>x. 0 \<le> x) (arrival_bid r), ''arrival_bid''),
      (opt_all (\<lambda>x. 0 \<le> x) (arrival_ask r), ''arrival_ask''),
      (opt_all (\<lambda>x. 0 \<le> x) (arrival_mid r), ''arrival_mid''),
      (0 < fallback_reference_price r, ''fallback_reference_price''),
      (0 < fill_price r, ''fill_price''),
      (0 < filled_quantity r, ''filled_quantity''),
      (0 \<le> fee_cost r, ''fee_cost''),
      (0 \<le> predicted_spread_cost r, ''predicted_spread_cost''),
      (0 \<le> predicted_slippage_cost r, ''predicted_slippage_cost''),
      (0 \<le> predicted_spread_slippage_cost r, ''predicted_spread_slippage_cost''),
      (0 \<le> predicted_total_cost r, ''predicted_total_cost''),
      (list_all non_empty_string (requirement_ids r), ''requirement_ids'')]"

definition tca_row_items :: "PaperTcaRow \<Rightarrow> (string \<times> payload) list" where
  "tca_row_items r =
     [(''tca_row_id'', PStr (tca_row_id r)),
      (''tca_row_hash'', PStr (tca_row_hash r)),
      (''gateway_report_id'', PStr (gateway_report_id r)),
      (''gateway_report_hash'', PStr (gateway_report_hash r)),
      (''gateway_event_id'', PStr (gateway_event_id r)),
      (''gateway_event_hash'', PStr (gateway_event_hash r)),
      (''gateway_order_id'', PStr (gateway_order_id r)),
      (''run_id'', PStr (run_id r)),
      (''risk_check_id'', PStr (risk_check_id r)),
      (''risk_check_hash'', PStr (risk_check_hash r)),
      (''client_order_id'', PStr (client_order_id r)),
      (''trace_id'', PStr (trace_id r)),
      (''source_decision_id'', PStr (source_decision_id r)),
      (''instrument_id'', PStr (instrument_id r)),
      (''venue_id'', PStr (venue_id r)),
      (''side'', PStr (OrderSide_value (side r))),
      (''status'', PStr (ExecutionGatewayOrderStatus_value (status r))),
      (''submitted_at'', PJsonTime (submitted_at r)),
      (''quote_id'', POpt PStr (quote_id r)),
      (''quote_event_ts'', POpt PJsonTime (quote_event_ts r)),
      (''quote_source_ts'', POpt PJsonTime (quote_source_ts r)),
      (''quote_ingest_ts'', POpt PJsonTime (quote_ingest_ts r)),
      (''arrival_bid'', POpt PDec (arrival_bid r)),
      (''arrival_ask'', POpt PDec (arrival_ask r)),
      (''arrival_mid'', POpt PDec (arrival_mid r)),
      (''fallback_reference_price'', PDec (fallback_reference_price r)),
      (''reference_price_source'', PStr (TcaReferencePriceSource_value (reference_price_source r))),
      (''fill_price'', PDec (fill_price r)),
      (''filled_quantity'', PDec (filled_quantity r)),
      (''fill_event_open_ts'', PJsonTime (fill_event_open_ts r)),
      (''fill_event_close_ts'', PJsonTime (fill_event_close_ts r)),
      (''fill_event_source_ts'', PJsonTime (fill_event_source_ts r)),
      (''fee_cost'', PDec (fee_cost r)),
      (''predicted_spread_cost'', PDec (predicted_spread_cost r)),
      (''predicted_slippage_cost'', PDec (predicted_slippage_cost r)),
      (''predicted_spread_slippage_cost'', PDec (predicted_spread_slippage_cost r)),
      (''predicted_total_cost'', PDec (predicted_total_cost r)),
      (''realized_spread_slippage_cost'', PDec (realized_spread_slippage_cost r)),
      (''realized_total_cost'', PDec (realized_total_cost r)),
      (''spread_slippage_prediction_error'', PDec (spread_slippage_prediction_error r)),
      (''total_cost_prediction_error'', PDec (total_cost_prediction_error r)),
      (''requirement_ids'', PStrs (requirement_ids r))]"

definition build_paper_tca_row_hash :: "digest \<Rightarrow> PaperTcaRow \<Rightarrow> string" where
  "build_paper_tca_row_hash H r = H (PObj (drop 2 (tca_row_items r)))"

definition build_paper_tca_row_id :: "digest \<Rightarrow> string \<Rightarrow> string" where
  "build_paper_tca_row_id H h = stable_id H ''PAPERTCAROW'' (PObj [(''tca_row_hash'', PStr h)])"

definition tca_row_json :: "PaperTcaRow \<Rightarrow> payload" where
  "tca_row_json r = PObj (tca_row_items r)"

definition tca_row_checks :: "PaperTcaRow \<Rightarrow> (bool \<times> string) list" where
  "tca_row_checks r =
     (filled_status (status r), ''TCA rows require filled or partially_filled gateway status'')
     # (if reference_price_source r = ARRIVAL_QUOTE_MID then
          [(quote_id r \<noteq> None \<and> quote_event_ts r \<noteq> None \<and> quote_ingest_ts r \<noteq> None
              \<and> arrival_bid r \<noteq> None \<and> arrival_ask r \<noteq> None \<and> arrival_mid r \<noteq> None,
             ''arrival quote reference rows require complete quote fields'')]
        else
          [(quote_source_ts r = None \<and> quote_id r = None \<and> quote_event_ts r = None \<and> quote_ingest_ts r = None
              \<and> arrival_bid r = None \<and> arrival_ask r = None \<and> arrival_mid r = None,
             ''fallback reference rows must not carry arrival quote fields'')])
     @ [(dec_eq (predicted_spread_slippage_cost r) (predicted_spread_cost r + predicted_slippage_cost r),
          ''predicted_spread_slippage_cost must match predicted components''),
        (dec_eq (predicted_total_cost r) (fee_cost r + predicted_spread_slippage_cost r),
          ''predicted_total_cost must equal fees plus predicted spread/slippage''),
        (dec_eq (realized_total_cost r) (fee_cost r + realized_spread_slippage_cost r),
          ''realized_total_cost must equal fees plus realized spread/slippage''),
        (dec_eq (spread_slippage_prediction_error r) (realized_spread_slippage_cost r - predicted_spread_slippage_cost r),
          ''spread_slippage_prediction_error must match realized-predicted''),
        (dec_eq (total_cost_prediction_error r) (realized_total_cost r - predicted_total_cost r),
          ''total_cost_prediction_error must match realized-predicted'')]"

definition construct_PaperTcaRow :: "digest \<Rightarrow> PaperTcaRow \<Rightarrow> PaperTcaRow result" where
  "construct_PaperTcaRow H r = checked
     (tca_row_fields r @ tca_row_checks r
      @ [(tca_row_hash r = build_paper_tca_row_hash H r, ''tca_row_hash is not deterministic''),
         (tca_row_id r = build_paper_tca_row_id H (build_paper_tca_row_hash H r), ''tca_row_id is not deterministic'')]) r"

definition valid_PaperTcaRow :: "digest \<Rightarrow> PaperTcaRow \<Rightarrow> bool" where
  "valid_PaperTcaRow H r \<longleftrightarrow> construct_PaperTcaRow H r = Inr r"

section \<open>Transaction-cost issues\<close>

record PaperTcaIssue =
  issue_id :: string
  issue_hash :: string
  severity :: PaperTcaIssueSeverity
  code :: PaperTcaIssueCode
  message :: string
  gateway_report_id :: string
  gateway_report_hash :: string
  gateway_event_id :: string
  gateway_event_hash :: string
  run_id :: string
  risk_check_id :: string
  client_order_id :: string
  trace_id :: string
  instrument_id :: string
  venue_id :: string
  status :: ExecutionGatewayOrderStatus
  requirement_ids :: "string list"

definition tca_issue_fields :: "PaperTcaIssue \<Rightarrow> (bool \<times> string) list" where
  "tca_issue_fields r =
     [(canonical_id (issue_id r), ''issue_id''),
      (hex64 (issue_hash r), ''issue_hash''),
      (non_empty_string (message r), ''message''),
      (canonical_id (gateway_report_id r), ''gateway_report_id''),
      (hex64 (gateway_report_hash r), ''gateway_report_hash''),
      (canonical_id (gateway_event_id r), ''gateway_event_id''),
      (hex64 (gateway_event_hash r), ''gateway_event_hash''),
      (canonical_id (run_id r), ''run_id''),
      (canonical_id (risk_check_id r), ''risk_check_id''),
      (canonical_id (client_order_id r), ''client_order_id''),
      (canonical_id (trace_id r), ''trace_id''),
      (canonical_id (instrument_id r), ''instrument_id''),
      (canonical_id (venue_id r), ''venue_id''),
      (list_all non_empty_string (requirement_ids r), ''requirement_ids'')]"

definition tca_issue_items :: "PaperTcaIssue \<Rightarrow> (string \<times> payload) list" where
  "tca_issue_items r =
     [(''issue_id'', PStr (issue_id r)),
      (''issue_hash'', PStr (issue_hash r)),
      (''severity'', PStr (PaperTcaIssueSeverity_value (severity r))),
      (''code'', PStr (PaperTcaIssueCode_value (code r))),
      (''message'', PStr (message r)),
      (''gateway_report_id'', PStr (gateway_report_id r)),
      (''gateway_report_hash'', PStr (gateway_report_hash r)),
      (''gateway_event_id'', PStr (gateway_event_id r)),
      (''gateway_event_hash'', PStr (gateway_event_hash r)),
      (''run_id'', PStr (run_id r)),
      (''risk_check_id'', PStr (risk_check_id r)),
      (''client_order_id'', PStr (client_order_id r)),
      (''trace_id'', PStr (trace_id r)),
      (''instrument_id'', PStr (instrument_id r)),
      (''venue_id'', PStr (venue_id r)),
      (''status'', PStr (ExecutionGatewayOrderStatus_value (status r))),
      (''requirement_ids'', PStrs (requirement_ids r))]"

definition build_paper_tca_issue_hash :: "digest \<Rightarrow> PaperTcaIssue \<Rightarrow> string" where
  "build_paper_tca_issue_hash H r = H (PObj (drop 2 (tca_issue_items r)))"

definition build_paper_tca_issue_id :: "digest \<Rightarrow> string \<Rightarrow> string" where
  "build_paper_tca_issue_id H h = stable_id H ''PAPERTCAISSUE'' (PObj [(''issue_hash'', PStr h)])"

definition tca_issue_json :: "PaperTcaIssue \<Rightarrow> payload" where
  "tca_issue_json r = PObj (tca_issue_items r)"

definition tca_issue_checks :: "PaperTcaIssue \<Rightarrow> (bool \<times> string) list" where
  "tca_issue_checks r =
     [case code r of
        MISSING_ARRIVAL_QUOTE \<Rightarrow>
          (filled_status (status r), ''missing quote TCA issues require a filled gateway event'')
      | RISK_BLOCKED \<Rightarrow> (status r = BLOCKED, ''risk-blocked TCA issues require blocked gateway status'')
      | GATEWAY_REJECTED \<Rightarrow>
          (status r = ExecutionGatewayOrderStatus.REJECTED, ''gateway-rejected TCA issues require rejected gateway status'')
      | GATEWAY_UNFILLED \<Rightarrow>
          (status r = ExecutionGatewayOrderStatus.UNFILLED, ''gateway-unfilled TCA issues require unfilled gateway status'')]"

definition construct_PaperTcaIssue :: "digest \<Rightarrow> PaperTcaIssue \<Rightarrow> PaperTcaIssue result" where
  "construct_PaperTcaIssue H r = checked
     (tca_issue_fields r @ tca_issue_checks r
      @ [(issue_hash r = build_paper_tca_issue_hash H r, ''issue_hash is not deterministic''),
         (issue_id r = build_paper_tca_issue_id H (build_paper_tca_issue_hash H r), ''issue_id is not deterministic'')]) r"

definition valid_PaperTcaIssue :: "digest \<Rightarrow> PaperTcaIssue \<Rightarrow> bool" where
  "valid_PaperTcaIssue H r \<longleftrightarrow> construct_PaperTcaIssue H r = Inr r"

section \<open>Transaction-cost report\<close>

record PaperTcaReport =
  tca_report_id :: string
  tca_report_hash :: string
  run_id :: string
  gateway_report_id :: string
  gateway_report_hash :: string
  gateway_kind :: ExecutionGatewayKind
  fill_mode :: ExecutionFillMode
  row_ids :: "string list"
  issue_ids :: "string list"
  rows :: "PaperTcaRow list"
  issues :: "PaperTcaIssue list"
  filled_row_count :: int
  issue_count :: int
  error_count :: int
  fee_cost_total :: decimal
  predicted_total_cost :: decimal
  realized_total_cost :: decimal
  total_cost_prediction_error :: decimal
  requirement_ids :: "string list"

definition tca_report_fields :: "digest \<Rightarrow> PaperTcaReport \<Rightarrow> (bool \<times> string) list" where
  "tca_report_fields H r =
     [(canonical_id (tca_report_id r), ''tca_report_id''),
      (hex64 (tca_report_hash r), ''tca_report_hash''),
      (canonical_id (run_id r), ''run_id''),
      (canonical_id (gateway_report_id r), ''gateway_report_id''),
      (hex64 (gateway_report_hash r), ''gateway_report_hash''),
      (list_all canonical_id (row_ids r), ''row_ids''),
      (list_all canonical_id (issue_ids r), ''issue_ids''),
      (list_all (valid_PaperTcaRow H) (rows r), ''rows''),
      (list_all (valid_PaperTcaIssue H) (issues r), ''issues''),
      (0 \<le> filled_row_count r, ''filled_row_count''),
      (0 \<le> issue_count r, ''issue_count''),
      (0 \<le> error_count r, ''error_count''),
      (0 \<le> fee_cost_total r, ''fee_cost_total''),
      (0 \<le> predicted_total_cost r, ''predicted_total_cost''),
      (list_all non_empty_string (requirement_ids r), ''requirement_ids'')]"

definition tca_report_items :: "PaperTcaReport \<Rightarrow> (string \<times> payload) list" where
  "tca_report_items r =
     [(''tca_report_id'', PStr (tca_report_id r)),
      (''tca_report_hash'', PStr (tca_report_hash r)),
      (''run_id'', PStr (run_id r)),
      (''gateway_report_id'', PStr (gateway_report_id r)),
      (''gateway_report_hash'', PStr (gateway_report_hash r)),
      (''gateway_kind'', PStr (ExecutionGatewayKind_value (gateway_kind r))),
      (''fill_mode'', PStr (ExecutionFillMode_value (fill_mode r))),
      (''row_ids'', PStrs (row_ids r)),
      (''issue_ids'', PStrs (issue_ids r)),
      (''rows'', PList (map tca_row_json (rows r))),
      (''issues'', PList (map tca_issue_json (issues r))),
      (''filled_row_count'', PInt (filled_row_count r)),
      (''issue_count'', PInt (issue_count r)),
      (''error_count'', PInt (error_count r)),
      (''fee_cost_total'', PDec (fee_cost_total r)),
      (''predicted_total_cost'', PDec (predicted_total_cost r)),
      (''realized_total_cost'', PDec (realized_total_cost r)),
      (''total_cost_prediction_error'', PDec (total_cost_prediction_error r)),
      (''requirement_ids'', PStrs (requirement_ids r))]"

definition build_paper_tca_report_hash :: "digest \<Rightarrow> PaperTcaReport \<Rightarrow> string" where
  "build_paper_tca_report_hash H r = H (PObj (drop 2 (tca_report_items r)))"

definition build_paper_tca_report_id :: "digest \<Rightarrow> string \<Rightarrow> string" where
  "build_paper_tca_report_id H h = stable_id H ''PAPERTCAREPORT'' (PObj [(''tca_report_hash'', PStr h)])"

definition tca_linkage_checks :: "PaperTcaReport \<Rightarrow> (bool \<times> string) list" where
  "tca_linkage_checks r =
     concat (map (\<lambda>x.
       [(PaperTcaRow.run_id x = run_id r, ''TCA row run_id must match report''),
        (PaperTcaRow.gateway_report_id x = gateway_report_id r, ''TCA row gateway_report_id must match report''),
        (PaperTcaRow.gateway_report_hash x = gateway_report_hash r,
          ''TCA row gateway_report_hash must match report'')]) (rows r))
     @ concat (map (\<lambda>x.
       [(PaperTcaIssue.run_id x = run_id r, ''TCA issue run_id must match report''),
        (PaperTcaIssue.gateway_report_id x = gateway_report_id r, ''TCA issue gateway_report_id must match report''),
        (PaperTcaIssue.gateway_report_hash x = gateway_report_hash r,
          ''TCA issue gateway_report_hash must match report'')]) (issues r))"

definition tca_report_checks :: "PaperTcaReport \<Rightarrow> (bool \<times> string) list" where
  "tca_report_checks r =
     [(gateway_kind r = PAPER, ''paper TCA reports require paper gateway kind''),
      (fill_mode r = PAPER_SIMULATED_FILL, ''paper TCA reports require paper_simulated_fill mode''),
      (row_ids r = map tca_row_id (rows r), ''row_ids must match rows''),
      (issue_ids r = map issue_id (issues r), ''issue_ids must match issues'')]
     @ tca_linkage_checks r
     @ [(filled_row_count r = int (length (rows r)), ''filled_row_count must match rows''),
        (issue_count r = int (length (issues r)), ''issue_count must match issues''),
        (error_count r = int (length (filter (\<lambda>x. severity x = ERROR) (issues r))),
          ''error_count must match error issues''),
        (dec_eq (fee_cost_total r) (dec_sum (map PaperTcaRow.fee_cost (rows r))), ''fee_cost_total must match rows''),
        (dec_eq (predicted_total_cost r) (dec_sum (map PaperTcaRow.predicted_total_cost (rows r))),
          ''predicted_total_cost must match rows''),
        (dec_eq (realized_total_cost r) (dec_sum (map PaperTcaRow.realized_total_cost (rows r))),
          ''realized_total_cost must match rows''),
        (dec_eq (total_cost_prediction_error r) (dec_sum (map PaperTcaRow.total_cost_prediction_error (rows r))),
          ''total_cost_prediction_error must match rows'')]"

definition construct_PaperTcaReport :: "digest \<Rightarrow> PaperTcaReport \<Rightarrow> PaperTcaReport result" where
  "construct_PaperTcaReport H r = checked
     (tca_report_fields H r @ tca_report_checks r
      @ [(tca_report_hash r = build_paper_tca_report_hash H r, ''tca_report_hash is not deterministic''),
         (tca_report_id r = build_paper_tca_report_id H (build_paper_tca_report_hash H r), ''tca_report_id is not deterministic'')]) r"

definition valid_PaperTcaReport :: "digest \<Rightarrow> PaperTcaReport \<Rightarrow> bool" where
  "valid_PaperTcaReport H r \<longleftrightarrow> construct_PaperTcaReport H r = Inr r"

end
