(* ===== verification/Paper.thy ===== *)
theory Paper
  imports Gateway PaperContracts
begin

text \<open>
  Paper accounting, \<open>execution/paper.py\<close>: from the report of a paper gateway, the session report
  (one order log for each event, a fill log for each fill, a rejection log for every other event,
  totals and the account state the session ends in) and the transaction-cost report (realised
  against predicted cost of each fill, an issue for each event that cannot be measured).
\<close>

section \<open>Log entries\<close>

definition order_log_requirements :: "string list" where
  "order_log_requirements = [''FR-013'', ''FR-015'', ''NFR-004'']"

definition fill_log_requirements :: "string list" where
  "fill_log_requirements = [''FR-013'', ''FR-014'', ''FR-015'']"

definition rejection_log_requirements :: "string list" where
  "rejection_log_requirements = [''FR-010'', ''FR-013'', ''FR-015'']"

definition tca_requirements :: "string list" where
  "tca_requirements = [''FR-013'', ''FR-014'', ''US-011'']"

definition account_report_requirements :: "string list" where
  "account_report_requirements = [''FR-010'', ''FR-013'', ''FR-015'', ''NFR-004'']"

definition order_log_draft :: "ExecutionGatewayReport \<Rightarrow> ExecutionGatewayLifecycleEvent \<Rightarrow> PaperOrderLifecycleLogEntry" where
  "order_log_draft g v =
     \<lparr>PaperOrderLifecycleLogEntry.order_log_id = ''PAPERORDERLOG:PLACEHOLDER'',
      order_log_hash = zero_hash, gateway_report_id = ExecutionGatewayReport.gateway_report_id g,
      gateway_report_hash = ExecutionGatewayReport.gateway_report_hash g,
      gateway_event_id = ExecutionGatewayLifecycleEvent.gateway_event_id v,
      gateway_event_hash = ExecutionGatewayLifecycleEvent.gateway_event_hash v,
      gateway_order_id = ExecutionGatewayLifecycleEvent.gateway_order_id v,
      run_id = ExecutionGatewayLifecycleEvent.run_id v,
      risk_check_id = ExecutionGatewayLifecycleEvent.risk_check_id v,
      risk_check_hash = ExecutionGatewayLifecycleEvent.risk_check_hash v,
      risk_decision = ExecutionGatewayLifecycleEvent.risk_decision v,
      risk_reason_codes = ExecutionGatewayLifecycleEvent.risk_reason_codes v,
      client_order_id = ExecutionGatewayLifecycleEvent.client_order_id v,
      trace_id = ExecutionGatewayLifecycleEvent.trace_id v,
      source_decision_id = ExecutionGatewayLifecycleEvent.source_decision_id v,
      instrument_id = ExecutionGatewayLifecycleEvent.instrument_id v,
      venue_id = ExecutionGatewayLifecycleEvent.venue_id v, side = ExecutionGatewayLifecycleEvent.side v,
      order_type = ExecutionGatewayLifecycleEvent.order_type v,
      requested_quantity = ExecutionGatewayLifecycleEvent.requested_quantity v,
      gateway_quantity = ExecutionGatewayLifecycleEvent.gateway_quantity v,
      submitted_at = ExecutionGatewayLifecycleEvent.submitted_at v,
      status = ExecutionGatewayLifecycleEvent.status v,
      replay_status = ExecutionGatewayLifecycleEvent.replay_status v,
      replay_reject_reason = ExecutionGatewayLifecycleEvent.replay_reject_reason v,
      requirement_ids = order_log_requirements\<rparr>"

definition make_order_lifecycle_log_entry :: "digest \<Rightarrow> ExecutionGatewayReport \<Rightarrow> ExecutionGatewayLifecycleEvent \<Rightarrow>
    PaperOrderLifecycleLogEntry result" where
  "make_order_lifecycle_log_entry H g v =
     (let d = order_log_draft g v; h = build_paper_order_lifecycle_log_hash H d
      in construct_PaperOrderLifecycleLogEntry H
           (d\<lparr>order_log_id := build_paper_order_lifecycle_log_id H h, order_log_hash := h\<rparr>))"

definition fill_log_draft :: "ExecutionGatewayReport \<Rightarrow> ExecutionGatewayLifecycleEvent \<Rightarrow> PaperFillLogEntry" where
  "fill_log_draft g v =
     \<lparr>PaperFillLogEntry.fill_log_id = ''PAPERFILLLOG:PLACEHOLDER'', fill_log_hash = zero_hash,
      gateway_report_id = ExecutionGatewayReport.gateway_report_id g,
      gateway_report_hash = ExecutionGatewayReport.gateway_report_hash g,
      gateway_event_id = ExecutionGatewayLifecycleEvent.gateway_event_id v,
      gateway_event_hash = ExecutionGatewayLifecycleEvent.gateway_event_hash v,
      gateway_order_id = the (ExecutionGatewayLifecycleEvent.gateway_order_id v),
      run_id = ExecutionGatewayLifecycleEvent.run_id v,
      risk_check_id = ExecutionGatewayLifecycleEvent.risk_check_id v,
      risk_check_hash = ExecutionGatewayLifecycleEvent.risk_check_hash v,
      client_order_id = ExecutionGatewayLifecycleEvent.client_order_id v,
      trace_id = ExecutionGatewayLifecycleEvent.trace_id v,
      source_decision_id = ExecutionGatewayLifecycleEvent.source_decision_id v,
      instrument_id = ExecutionGatewayLifecycleEvent.instrument_id v,
      venue_id = ExecutionGatewayLifecycleEvent.venue_id v, side = ExecutionGatewayLifecycleEvent.side v,
      order_type = ExecutionGatewayLifecycleEvent.order_type v,
      status = ExecutionGatewayLifecycleEvent.status v,
      replay_order_result_id = the (ExecutionGatewayLifecycleEvent.replay_order_result_id v),
      fill_price = the (ExecutionGatewayLifecycleEvent.fill_price v),
      filled_quantity = ExecutionGatewayLifecycleEvent.filled_quantity v,
      remaining_quantity = ExecutionGatewayLifecycleEvent.remaining_quantity v,
      fill_event_open_ts = the (ExecutionGatewayLifecycleEvent.fill_event_open_ts v),
      fill_event_close_ts = the (ExecutionGatewayLifecycleEvent.fill_event_close_ts v),
      fill_event_source_ts = the (ExecutionGatewayLifecycleEvent.fill_event_source_ts v),
      fill_raw_payload_id = the (ExecutionGatewayLifecycleEvent.fill_raw_payload_id v),
      cost_model_id = ExecutionGatewayLifecycleEvent.cost_model_id v,
      cost_model_hash = ExecutionGatewayLifecycleEvent.cost_model_hash v,
      latency_bars = ExecutionGatewayLifecycleEvent.latency_bars v,
      eligible_event_index = ExecutionGatewayLifecycleEvent.eligible_event_index v,
      fill_attempt_event_index = ExecutionGatewayLifecycleEvent.fill_attempt_event_index v,
      arrival_reference_price = the (ExecutionGatewayLifecycleEvent.arrival_reference_price v),
      effective_fill_price = the (ExecutionGatewayLifecycleEvent.effective_fill_price v),
      reference_notional = ExecutionGatewayLifecycleEvent.reference_notional v,
      effective_notional = ExecutionGatewayLifecycleEvent.effective_notional v,
      fee_cost = ExecutionGatewayLifecycleEvent.fee_cost v,
      spread_cost = ExecutionGatewayLifecycleEvent.spread_cost v,
      slippage_cost = ExecutionGatewayLifecycleEvent.slippage_cost v,
      total_cost = ExecutionGatewayLifecycleEvent.total_cost v,
      requirement_ids = fill_log_requirements\<rparr>"

definition make_fill_log_entry :: "digest \<Rightarrow> ExecutionGatewayReport \<Rightarrow> ExecutionGatewayLifecycleEvent \<Rightarrow>
    PaperFillLogEntry result" where
  "make_fill_log_entry H g v =
     guardE (filled_status (ExecutionGatewayLifecycleEvent.status v))
       (ValueError ''fill logs require filled gateway status'')
     (guardE (ExecutionGatewayLifecycleEvent.gateway_order_id v \<noteq> None
          \<and> ExecutionGatewayLifecycleEvent.replay_order_result_id v \<noteq> None)
       (ValueError ''filled paper events require gateway order and replay result ids'')
     (guardE (ExecutionGatewayLifecycleEvent.fill_price v \<noteq> None
          \<and> ExecutionGatewayLifecycleEvent.fill_event_open_ts v \<noteq> None
          \<and> ExecutionGatewayLifecycleEvent.fill_event_close_ts v \<noteq> None
          \<and> ExecutionGatewayLifecycleEvent.fill_event_source_ts v \<noteq> None
          \<and> ExecutionGatewayLifecycleEvent.fill_raw_payload_id v \<noteq> None
          \<and> ExecutionGatewayLifecycleEvent.arrival_reference_price v \<noteq> None
          \<and> ExecutionGatewayLifecycleEvent.effective_fill_price v \<noteq> None)
       (ValueError ''filled paper events require complete fill attribution'')
     (let d = fill_log_draft g v; h = build_paper_fill_log_hash H d
      in construct_PaperFillLogEntry H
           (d\<lparr>fill_log_id := build_paper_fill_log_id H h, fill_log_hash := h\<rparr>))))"

definition rejection_source_of :: "ExecutionGatewayOrderStatus \<Rightarrow> PaperRejectionSource" where
  "rejection_source_of s = (if s = BLOCKED then RISK else PaperRejectionSource.GATEWAY_REPLAY)"

definition rejection_log_draft :: "ExecutionGatewayReport \<Rightarrow> ExecutionGatewayLifecycleEvent \<Rightarrow> PaperRejectionLogEntry" where
  "rejection_log_draft g v =
     \<lparr>PaperRejectionLogEntry.rejection_log_id = ''PAPERREJECTLOG:PLACEHOLDER'',
      rejection_log_hash = zero_hash, gateway_report_id = ExecutionGatewayReport.gateway_report_id g,
      gateway_report_hash = ExecutionGatewayReport.gateway_report_hash g,
      gateway_event_id = ExecutionGatewayLifecycleEvent.gateway_event_id v,
      gateway_event_hash = ExecutionGatewayLifecycleEvent.gateway_event_hash v,
      gateway_order_id = ExecutionGatewayLifecycleEvent.gateway_order_id v,
      run_id = ExecutionGatewayLifecycleEvent.run_id v,
      risk_check_id = ExecutionGatewayLifecycleEvent.risk_check_id v,
      risk_check_hash = ExecutionGatewayLifecycleEvent.risk_check_hash v,
      risk_decision = ExecutionGatewayLifecycleEvent.risk_decision v,
      risk_reason_codes = ExecutionGatewayLifecycleEvent.risk_reason_codes v,
      replay_reject_reason = ExecutionGatewayLifecycleEvent.replay_reject_reason v,
      rejection_source = rejection_source_of (ExecutionGatewayLifecycleEvent.status v),
      client_order_id = ExecutionGatewayLifecycleEvent.client_order_id v,
      trace_id = ExecutionGatewayLifecycleEvent.trace_id v,
      source_decision_id = ExecutionGatewayLifecycleEvent.source_decision_id v,
      instrument_id = ExecutionGatewayLifecycleEvent.instrument_id v,
      venue_id = ExecutionGatewayLifecycleEvent.venue_id v, side = ExecutionGatewayLifecycleEvent.side v,
      order_type = ExecutionGatewayLifecycleEvent.order_type v,
      requested_quantity = ExecutionGatewayLifecycleEvent.requested_quantity v,
      gateway_quantity = ExecutionGatewayLifecycleEvent.gateway_quantity v,
      remaining_quantity = ExecutionGatewayLifecycleEvent.remaining_quantity v,
      submitted_at = ExecutionGatewayLifecycleEvent.submitted_at v,
      status = ExecutionGatewayLifecycleEvent.status v,
      requirement_ids = rejection_log_requirements\<rparr>"

definition make_rejection_log_entry :: "digest \<Rightarrow> ExecutionGatewayReport \<Rightarrow> ExecutionGatewayLifecycleEvent \<Rightarrow>
    PaperRejectionLogEntry result" where
  "make_rejection_log_entry H g v =
     guardE (rejection_status (ExecutionGatewayLifecycleEvent.status v))
       (ValueError ''rejection logs require blocked/rejected/unfilled gateway status'')
     (let d = rejection_log_draft g v; h = build_paper_rejection_log_hash H d
      in construct_PaperRejectionLogEntry H
           (d\<lparr>rejection_log_id := build_paper_rejection_log_id H h, rejection_log_hash := h\<rparr>))"

section \<open>The account state a session ends in\<close>

definition resolve_account_state_identity :: "digest \<Rightarrow> SimulatedAccountState option \<Rightarrow> string option \<Rightarrow>
    string option \<Rightarrow> string \<Rightarrow> (string \<times> string) result" where
  "resolve_account_state_identity H a aid ah label =
     (case a of
        Some x \<Rightarrow> let ch = build_paper_account_state_hash H x; cid = build_paper_account_state_id H ch in
          guardE (opt_all (\<lambda>h. h = ch) ah)
            (ValueError (label @ ''_account_state_hash does not match embedded state''))
          (guardE (opt_all (\<lambda>i. i = cid) aid)
            (ValueError (label @ ''_account_state_id does not match embedded state''))
          (Inr (cid, ch)))
      | None \<Rightarrow>
          (case (aid, ah) of
             (Some i, Some h) \<Rightarrow> Inr (i, h)
           | _ \<Rightarrow> Inl (ValueError (label
               @ '' account state requires an embedded state or explicit id/hash linkage''))))"

definition has_filled_events :: "ExecutionGatewayReport \<Rightarrow> bool" where
  "has_filled_events g \<longleftrightarrow> list_ex (\<lambda>v. filled_status (ExecutionGatewayLifecycleEvent.status v)) (events g)"

definition raise_if_supplied_final_conflicts_with_gateway :: "digest \<Rightarrow> SimulatedAccountState \<Rightarrow>
    SimulatedAccountState option \<Rightarrow> string option \<Rightarrow> string option \<Rightarrow> unit result" where
  "raise_if_supplied_final_conflicts_with_gateway H gs a aid ah =
     (let gh = build_paper_account_state_hash H gs; gid = build_paper_account_state_id H gh in
      guardE (opt_all (\<lambda>x. build_paper_account_state_hash H x = gh) a)
        (ValueError ''supplied final account state conflicts with gateway-derived state'')
      (guardE (opt_all (\<lambda>h. h = gh) ah)
        (ValueError ''supplied final account state hash conflicts with gateway-derived state'')
      (guardE (opt_all (\<lambda>i. i = gid) aid)
        (ValueError ''supplied final account state id conflicts with gateway-derived state'')
      (Inr ()))))"

type_synonym resolved_state = "SimulatedAccountState option \<times> string \<times> string \<times> PaperAccountStateSource"

definition resolve_final_account_state :: "digest \<Rightarrow> ExecutionGatewayReport \<Rightarrow> SimulatedAccountState option \<Rightarrow>
    SimulatedAccountState option \<Rightarrow> string option \<Rightarrow> string option \<Rightarrow> resolved_state result" where
  "resolve_final_account_state H g init final fid fh =
     (case source_replay_final_account_state g of
        Some gs \<Rightarrow> bindE (raise_if_supplied_final_conflicts_with_gateway H gs final fid fh) (\<lambda>_.
          let h = build_paper_account_state_hash H gs
          in Inr (Some gs, build_paper_account_state_id H h, h, PaperAccountStateSource.GATEWAY_REPLAY))
      | None \<Rightarrow>
          if has_filled_events g then
            (case (fid, fh) of
               (Some i, Some h) \<Rightarrow>
                 guardE (opt_all (\<lambda>x. let sh = build_paper_account_state_hash H x
                      in h = sh \<and> i = build_paper_account_state_id H sh) final)
                   (ValueError ''explicit final account-state linkage conflicts with supplied state'')
                 (Inr (final, i, h, EXPLICIT_LINKAGE))
             | _ \<Rightarrow> Inl (ValueError ''approved paper fills without replay-derived final account state require explicit final account-state id/hash linkage''))
          else if final \<noteq> None \<or> fid \<noteq> None \<or> fh \<noteq> None then
            bindE (resolve_account_state_identity H final fid fh ''final'') (\<lambda>(i, h).
              Inr (final, i, h, EXPLICIT_LINKAGE))
          else (case init of
              None \<Rightarrow> Inl (ValueError ''unchanged paper accounting requires initial account state or explicit final linkage'')
            | Some a \<Rightarrow> let h = build_paper_account_state_hash H a
                in Inr (Some a, build_paper_account_state_id H h, h, UNCHANGED_FROM_INITIAL)))"

section \<open>The session report\<close>

definition require_paper_gateway_report :: "ExecutionGatewayReport \<Rightarrow> unit result" where
  "require_paper_gateway_report g =
     guardE (ExecutionGatewayReport.gateway_kind g = PAPER)
       (ValueError ''paper accounting/TCA builders require paper gateway reports'')
     (guardE (ExecutionGatewayReport.fill_mode g = PAPER_SIMULATED_FILL)
       (ValueError ''paper accounting/TCA builders require paper_simulated_fill reports'')
     (Inr ()))"

definition session_report_draft :: "ExecutionGatewayReport \<Rightarrow> SimulatedAccountState option \<Rightarrow> string \<times> string \<Rightarrow>
    resolved_state \<Rightarrow> PaperOrderLifecycleLogEntry list \<Rightarrow> PaperFillLogEntry list \<Rightarrow> PaperRejectionLogEntry list \<Rightarrow>
    PaperAccountSessionReport" where
  "session_report_draft g init ini fin os fs rs =
     \<lparr>PaperAccountSessionReport.session_report_id = ''PAPERSESSION:PLACEHOLDER'',
      session_report_hash = zero_hash, run_id = ExecutionGatewayReport.run_id g,
      gateway_report_id = ExecutionGatewayReport.gateway_report_id g,
      gateway_report_hash = ExecutionGatewayReport.gateway_report_hash g,
      gateway_kind = ExecutionGatewayReport.gateway_kind g,
      fill_mode = ExecutionGatewayReport.fill_mode g,
      source_risk_gated_replay_result_id = ExecutionGatewayReport.source_risk_gated_replay_result_id g,
      source_risk_gated_replay_result_hash = ExecutionGatewayReport.source_risk_gated_replay_result_hash g,
      source_replay_report_id = ExecutionGatewayReport.source_replay_report_id g,
      source_replay_report_hash = ExecutionGatewayReport.source_replay_report_hash g,
      initial_account_state_id = fst ini, initial_account_state_hash = snd ini,
      final_account_state_id = fst (snd fin), final_account_state_hash = fst (snd (snd fin)),
      final_account_state_source = snd (snd (snd fin)), initial_account_state = init,
      final_account_state = fst fin,
      order_log_ids = map order_log_id os,
      fill_log_ids = map fill_log_id fs,
      rejection_log_ids = map rejection_log_id rs,
      order_logs = os, fill_logs = fs, rejection_logs = rs, total_order_count = int (length os),
      filled_order_count = count_status os ExecutionGatewayOrderStatus.FILLED,
      partially_filled_order_count = count_status os ExecutionGatewayOrderStatus.PARTIALLY_FILLED,
      blocked_order_count = count_status os ExecutionGatewayOrderStatus.BLOCKED,
      rejected_order_count = count_status os ExecutionGatewayOrderStatus.REJECTED,
      unfilled_order_count = count_status os ExecutionGatewayOrderStatus.UNFILLED,
      filled_quantity_total = dec_sum (map PaperFillLogEntry.filled_quantity fs),
      fee_cost_total = dec_sum (map PaperFillLogEntry.fee_cost fs),
      spread_cost_total = dec_sum (map PaperFillLogEntry.spread_cost fs),
      slippage_cost_total = dec_sum (map PaperFillLogEntry.slippage_cost fs),
      total_execution_cost = dec_sum (map PaperFillLogEntry.total_cost fs),
      requirement_ids = account_report_requirements\<rparr>"

definition make_paper_account_session_report :: "digest \<Rightarrow> ExecutionGatewayReport \<Rightarrow> SimulatedAccountState option \<Rightarrow>
    SimulatedAccountState option \<Rightarrow> string option \<Rightarrow> string option \<Rightarrow> string option \<Rightarrow> string option \<Rightarrow>
    PaperAccountSessionReport result" where
  "make_paper_account_session_report H g init final iid ih fid fh =
     bindE (require_paper_gateway_report g) (\<lambda>_.
     bindE (resolve_account_state_identity H init iid ih ''initial'') (\<lambda>ini.
     bindE (resolve_final_account_state H g init final fid fh) (\<lambda>fin.
     bindE (mapE (make_order_lifecycle_log_entry H g) (events g)) (\<lambda>os.
     bindE (mapE (make_fill_log_entry H g)
       (filter (\<lambda>v. filled_status (ExecutionGatewayLifecycleEvent.status v)) (events g))) (\<lambda>fs.
     bindE (mapE (make_rejection_log_entry H g)
       (filter (\<lambda>v. rejection_status (ExecutionGatewayLifecycleEvent.status v)) (events g))) (\<lambda>rs.
     let d = session_report_draft g init ini fin os fs rs; h = build_paper_account_session_report_hash H d
     in construct_PaperAccountSessionReport H
          (d\<lparr>session_report_id := build_paper_account_session_report_id H h, session_report_hash := h\<rparr>)))))))"

section \<open>Transaction costs\<close>

text \<open>\<open>max(candidates, key=...)\<close> keeps the first of equal keys.\<close>

definition quote_key :: "QuoteEvent \<Rightarrow> int \<times> string" where
  "quote_key q = (instant (StreamEnvelopeBase.event_ts q), QuoteEvent.quote_id q)"

definition arrival_quote_for_event :: "ExecutionGatewayLifecycleEvent \<Rightarrow> QuoteEvent list \<Rightarrow> QuoteEvent option" where
  "arrival_quote_for_event v qs =
     (case filter (\<lambda>q. QuoteEvent.instrument_id q = ExecutionGatewayLifecycleEvent.instrument_id v
          \<and> StreamEnvelopeBase.venue_id q = ExecutionGatewayLifecycleEvent.venue_id v
          \<and> StreamEnvelopeBase.event_ts q \<le> ExecutionGatewayLifecycleEvent.submitted_at v) qs of
        [] \<Rightarrow> None
      | q # rest \<Rightarrow> Some (max_by quote_key q rest))"

definition adverse_cost :: "OrderSide \<Rightarrow> decimal \<Rightarrow> decimal \<Rightarrow> decimal \<Rightarrow> decimal" where
  "adverse_cost sd reference fill qty =
     (if sd = OrderSide.BUY then (fill - reference) * qty else (reference - fill) * qty)"

text \<open>The midpoint of the arrival quote, and the reference price of a fill.\<close>

definition quote_mid :: "QuoteEvent \<Rightarrow> decimal" where
  "quote_mid q = (QuoteEvent.best_bid q + QuoteEvent.best_ask q) / Dec 2 0"

definition tca_reference :: "ExecutionGatewayLifecycleEvent \<Rightarrow> QuoteEvent option \<Rightarrow> decimal" where
  "tca_reference v q = (case q of Some x \<Rightarrow> quote_mid x
     | None \<Rightarrow> the (ExecutionGatewayLifecycleEvent.arrival_reference_price v))"

definition realized_cost :: "ExecutionGatewayLifecycleEvent \<Rightarrow> QuoteEvent option \<Rightarrow> decimal" where
  "realized_cost v q = adverse_cost (ExecutionGatewayLifecycleEvent.side v) (tca_reference v q)
     (the (ExecutionGatewayLifecycleEvent.fill_price v)) (ExecutionGatewayLifecycleEvent.filled_quantity v)"

definition predicted_cost :: "ExecutionGatewayLifecycleEvent \<Rightarrow> decimal" where
  "predicted_cost v = ExecutionGatewayLifecycleEvent.spread_cost v + ExecutionGatewayLifecycleEvent.slippage_cost v"

definition tca_row_draft :: "ExecutionGatewayReport \<Rightarrow> ExecutionGatewayLifecycleEvent \<Rightarrow> QuoteEvent option \<Rightarrow> PaperTcaRow" where
  "tca_row_draft g v q =
     \<lparr>PaperTcaRow.tca_row_id = ''PAPERTCAROW:PLACEHOLDER'', tca_row_hash = zero_hash,
      gateway_report_id = ExecutionGatewayReport.gateway_report_id g,
      gateway_report_hash = ExecutionGatewayReport.gateway_report_hash g,
      gateway_event_id = ExecutionGatewayLifecycleEvent.gateway_event_id v,
      gateway_event_hash = ExecutionGatewayLifecycleEvent.gateway_event_hash v,
      gateway_order_id = the (ExecutionGatewayLifecycleEvent.gateway_order_id v),
      run_id = ExecutionGatewayLifecycleEvent.run_id v,
      risk_check_id = ExecutionGatewayLifecycleEvent.risk_check_id v,
      risk_check_hash = ExecutionGatewayLifecycleEvent.risk_check_hash v,
      client_order_id = ExecutionGatewayLifecycleEvent.client_order_id v,
      trace_id = ExecutionGatewayLifecycleEvent.trace_id v,
      source_decision_id = ExecutionGatewayLifecycleEvent.source_decision_id v,
      instrument_id = ExecutionGatewayLifecycleEvent.instrument_id v,
      venue_id = ExecutionGatewayLifecycleEvent.venue_id v, side = ExecutionGatewayLifecycleEvent.side v,
      status = ExecutionGatewayLifecycleEvent.status v,
      submitted_at = ExecutionGatewayLifecycleEvent.submitted_at v,
      quote_id = map_option QuoteEvent.quote_id q,
      quote_event_ts = map_option StreamEnvelopeBase.event_ts q,
      quote_source_ts = Option.bind q StreamEnvelopeBase.source_ts,
      quote_ingest_ts = map_option StreamEnvelopeBase.ingest_ts q,
      arrival_bid = map_option QuoteEvent.best_bid q, arrival_ask = map_option QuoteEvent.best_ask q,
      arrival_mid = map_option quote_mid q,
      fallback_reference_price = the (ExecutionGatewayLifecycleEvent.arrival_reference_price v),
      reference_price_source = (if q = None then REPLAY_ARRIVAL_REFERENCE else ARRIVAL_QUOTE_MID),
      fill_price = the (ExecutionGatewayLifecycleEvent.fill_price v),
      filled_quantity = ExecutionGatewayLifecycleEvent.filled_quantity v,
      fill_event_open_ts = the (ExecutionGatewayLifecycleEvent.fill_event_open_ts v),
      fill_event_close_ts = the (ExecutionGatewayLifecycleEvent.fill_event_close_ts v),
      fill_event_source_ts = the (ExecutionGatewayLifecycleEvent.fill_event_source_ts v),
      fee_cost = ExecutionGatewayLifecycleEvent.fee_cost v,
      predicted_spread_cost = ExecutionGatewayLifecycleEvent.spread_cost v,
      predicted_slippage_cost = ExecutionGatewayLifecycleEvent.slippage_cost v,
      predicted_spread_slippage_cost = predicted_cost v,
      predicted_total_cost = ExecutionGatewayLifecycleEvent.fee_cost v + predicted_cost v,
      realized_spread_slippage_cost = realized_cost v q,
      realized_total_cost = ExecutionGatewayLifecycleEvent.fee_cost v + realized_cost v q,
      spread_slippage_prediction_error = realized_cost v q - predicted_cost v,
      total_cost_prediction_error = (ExecutionGatewayLifecycleEvent.fee_cost v + realized_cost v q)
        - (ExecutionGatewayLifecycleEvent.fee_cost v + predicted_cost v),
      requirement_ids = tca_requirements\<rparr>"

definition make_tca_row :: "digest \<Rightarrow> ExecutionGatewayReport \<Rightarrow> ExecutionGatewayLifecycleEvent \<Rightarrow> QuoteEvent option \<Rightarrow>
    PaperTcaRow result" where
  "make_tca_row H g v q =
     guardE (filled_status (ExecutionGatewayLifecycleEvent.status v))
       (ValueError ''TCA rows require filled gateway status'')
     (guardE (ExecutionGatewayLifecycleEvent.gateway_order_id v \<noteq> None)
       (ValueError ''TCA rows require gateway order id'')
     (guardE (ExecutionGatewayLifecycleEvent.fill_price v \<noteq> None
          \<and> ExecutionGatewayLifecycleEvent.fill_event_open_ts v \<noteq> None
          \<and> ExecutionGatewayLifecycleEvent.fill_event_close_ts v \<noteq> None
          \<and> ExecutionGatewayLifecycleEvent.fill_event_source_ts v \<noteq> None
          \<and> ExecutionGatewayLifecycleEvent.arrival_reference_price v \<noteq> None)
       (ValueError ''TCA rows require filled price and reference attribution'')
     (let d = tca_row_draft g v q; h = build_paper_tca_row_hash H d
      in construct_PaperTcaRow H (d\<lparr>tca_row_id := build_paper_tca_row_id H h, tca_row_hash := h\<rparr>))))"

definition tca_issue_draft :: "ExecutionGatewayReport \<Rightarrow> ExecutionGatewayLifecycleEvent \<Rightarrow> PaperTcaIssueCode \<Rightarrow>
    string \<Rightarrow> PaperTcaIssue" where
  "tca_issue_draft g v c msg =
     \<lparr>PaperTcaIssue.issue_id = ''PAPERTCAISSUE:PLACEHOLDER'', issue_hash = zero_hash,
      severity = ERROR, code = c, message = msg,
      gateway_report_id = ExecutionGatewayReport.gateway_report_id g,
      gateway_report_hash = ExecutionGatewayReport.gateway_report_hash g,
      gateway_event_id = ExecutionGatewayLifecycleEvent.gateway_event_id v,
      gateway_event_hash = ExecutionGatewayLifecycleEvent.gateway_event_hash v,
      run_id = ExecutionGatewayLifecycleEvent.run_id v,
      risk_check_id = ExecutionGatewayLifecycleEvent.risk_check_id v,
      client_order_id = ExecutionGatewayLifecycleEvent.client_order_id v,
      trace_id = ExecutionGatewayLifecycleEvent.trace_id v,
      instrument_id = ExecutionGatewayLifecycleEvent.instrument_id v,
      venue_id = ExecutionGatewayLifecycleEvent.venue_id v,
      status = ExecutionGatewayLifecycleEvent.status v, requirement_ids = tca_requirements\<rparr>"

definition make_tca_issue :: "digest \<Rightarrow> ExecutionGatewayReport \<Rightarrow> ExecutionGatewayLifecycleEvent \<Rightarrow> PaperTcaIssueCode \<Rightarrow>
    string \<Rightarrow> PaperTcaIssue result" where
  "make_tca_issue H g v c msg =
     (let d = tca_issue_draft g v c msg; h = build_paper_tca_issue_hash H d
      in construct_PaperTcaIssue H (d\<lparr>issue_id := build_paper_tca_issue_id H h, issue_hash := h\<rparr>))"

text \<open>One turn of the loop over the events: the rows and the issues an event adds.\<close>

definition tca_step :: "digest \<Rightarrow> ExecutionGatewayReport \<Rightarrow> QuoteEvent list \<Rightarrow> ExecutionGatewayLifecycleEvent \<Rightarrow>
    (PaperTcaRow list \<times> PaperTcaIssue list) result" where
  "tca_step H g qs v =
     (case ExecutionGatewayLifecycleEvent.status v of
        BLOCKED \<Rightarrow> bindE (make_tca_issue H g v RISK_BLOCKED
          ''risk-blocked/no-trade gateway event has no fill for TCA'') (\<lambda>i. Inr ([], [i]))
      | ExecutionGatewayOrderStatus.REJECTED \<Rightarrow> bindE (make_tca_issue H g v GATEWAY_REJECTED
          ''gateway replay rejected the approved paper order; no fill for TCA'') (\<lambda>i. Inr ([], [i]))
      | ExecutionGatewayOrderStatus.UNFILLED \<Rightarrow> bindE (make_tca_issue H g v GATEWAY_UNFILLED
          ''gateway replay left the approved paper order unfilled; no fill for TCA'') (\<lambda>i. Inr ([], [i]))
      | _ \<Rightarrow> let q = arrival_quote_for_event v qs in
          bindE (if q = None then bindE (make_tca_issue H g v MISSING_ARRIVAL_QUOTE
              ''no arrival quote at or before submitted_at; using replay arrival_reference_price fallback'')
              (\<lambda>i. Inr [i]) else Inr []) (\<lambda>is.
          bindE (make_tca_row H g v q) (\<lambda>r. Inr ([r], is))))"

definition tca_report_draft :: "ExecutionGatewayReport \<Rightarrow> PaperTcaRow list \<Rightarrow> PaperTcaIssue list \<Rightarrow> PaperTcaReport" where
  "tca_report_draft g rs is =
     \<lparr>PaperTcaReport.tca_report_id = ''PAPERTCAREPORT:PLACEHOLDER'', tca_report_hash = zero_hash,
      run_id = ExecutionGatewayReport.run_id g,
      gateway_report_id = ExecutionGatewayReport.gateway_report_id g,
      gateway_report_hash = ExecutionGatewayReport.gateway_report_hash g,
      gateway_kind = ExecutionGatewayReport.gateway_kind g,
      fill_mode = ExecutionGatewayReport.fill_mode g,
      row_ids = map tca_row_id rs,
      issue_ids = map issue_id is, rows = rs, issues = is,
      filled_row_count = int (length rs), issue_count = int (length is),
      error_count = int (length (filter (\<lambda>i. severity i = ERROR) is)),
      fee_cost_total = dec_sum (map PaperTcaRow.fee_cost rs),
      predicted_total_cost = dec_sum (map PaperTcaRow.predicted_total_cost rs),
      realized_total_cost = dec_sum (map PaperTcaRow.realized_total_cost rs),
      total_cost_prediction_error = dec_sum (map PaperTcaRow.total_cost_prediction_error rs),
      requirement_ids = tca_requirements\<rparr>"

definition make_paper_tca_report :: "digest \<Rightarrow> ExecutionGatewayReport \<Rightarrow> QuoteEvent list \<Rightarrow> PaperTcaReport result" where
  "make_paper_tca_report H g qs =
     bindE (require_paper_gateway_report g) (\<lambda>_.
     bindE (mapE (tca_step H g qs) (events g)) (\<lambda>parts.
     let d = tca_report_draft g (concat (map fst parts)) (concat (map snd parts));
         h = build_paper_tca_report_hash H d
     in construct_PaperTcaReport H (d\<lparr>tca_report_id := build_paper_tca_report_id H h, tca_report_hash := h\<rparr>)))"

end
