(* ===== verification/PaperAccounting.thy ===== *)
theory PaperAccounting
  imports Paper
begin

text \<open>
  What the reports of \<open>execution/paper.py\<close> promise: the session report accounts for every gateway
  event exactly once and ends in the account state of the replay; the transaction-cost report
  measures each fill against the latest quote known when the order was sent; and both reports are
  produced for every valid paper gateway report.
\<close>

section \<open>Hashes and identifiers\<close>

lemma paper_hash_drafts [simp]:
  "build_paper_order_lifecycle_log_hash H (a\<lparr>order_log_id := x, order_log_hash := y\<rparr>)
     = build_paper_order_lifecycle_log_hash H a"
  "build_paper_fill_log_hash H (b\<lparr>fill_log_id := x, fill_log_hash := y\<rparr>) = build_paper_fill_log_hash H b"
  "build_paper_rejection_log_hash H (c\<lparr>rejection_log_id := x, rejection_log_hash := y\<rparr>)
     = build_paper_rejection_log_hash H c"
  "build_paper_account_session_report_hash H (d\<lparr>session_report_id := x, session_report_hash := y\<rparr>)
     = build_paper_account_session_report_hash H d"
  "build_paper_tca_row_hash H (e\<lparr>tca_row_id := x, tca_row_hash := y\<rparr>) = build_paper_tca_row_hash H e"
  "build_paper_tca_issue_hash H (f\<lparr>issue_id := x, issue_hash := y\<rparr>) = build_paper_tca_issue_hash H f"
  "build_paper_tca_report_hash H (g\<lparr>tca_report_id := x, tca_report_hash := y\<rparr>) = build_paper_tca_report_hash H g"
  by (simp_all add: build_paper_order_lifecycle_log_hash_def order_log_items_def
      build_paper_fill_log_hash_def fill_log_items_def
      build_paper_rejection_log_hash_def rejection_log_items_def
      build_paper_account_session_report_hash_def session_report_items_def
      build_paper_tca_row_hash_def tca_row_items_def
      build_paper_tca_issue_hash_def tca_issue_items_def
      build_paper_tca_report_hash_def tca_report_items_def)

lemma paper_ids_ok:
  assumes "digest_ok H"
  shows "canonical_id (build_paper_order_lifecycle_log_id H h)" "canonical_id (build_paper_fill_log_id H h)"
    "canonical_id (build_paper_rejection_log_id H h)" "canonical_id (build_paper_account_session_report_id H h)"
    "canonical_id (build_paper_account_state_id H h)" "canonical_id (build_paper_tca_row_id H h)"
    "canonical_id (build_paper_tca_issue_id H h)" "canonical_id (build_paper_tca_report_id H h)"
  unfolding build_paper_order_lifecycle_log_id_def build_paper_fill_log_id_def build_paper_rejection_log_id_def
    build_paper_account_session_report_id_def build_paper_account_state_id_def build_paper_tca_row_id_def
    build_paper_tca_issue_id_def build_paper_tca_report_id_def
  by (rule stable_id_canonical [OF assms]; simp add: canonical_id_def upper_char_def)+

lemma paper_hashes_ok:
  assumes "digest_ok H"
  shows "hex64 (build_paper_order_lifecycle_log_hash H a)" "hex64 (build_paper_fill_log_hash H b)"
    "hex64 (build_paper_rejection_log_hash H c)" "hex64 (build_paper_account_session_report_hash H d)"
    "hex64 (build_paper_account_state_hash H s)" "hex64 (build_paper_tca_row_hash H e)"
    "hex64 (build_paper_tca_issue_hash H f)" "hex64 (build_paper_tca_report_hash H g)"
  using assms by (simp_all add: build_paper_order_lifecycle_log_hash_def build_paper_fill_log_hash_def
      build_paper_rejection_log_hash_def build_paper_account_session_report_hash_def build_paper_account_state_hash_def
      build_paper_tca_row_hash_def build_paper_tca_issue_hash_def build_paper_tca_report_hash_def)

lemma paper_requirement_strings:
  "list_all non_empty_string order_log_requirements" "list_all non_empty_string fill_log_requirements"
  "list_all non_empty_string rejection_log_requirements" "list_all non_empty_string tca_requirements"
  "list_all non_empty_string account_report_requirements"
  by (simp_all add: order_log_requirements_def fill_log_requirements_def rejection_log_requirements_def
      tca_requirements_def account_report_requirements_def non_empty_string_def strip_def py_space_def)

lemma filled_or_rejected: "rejection_status s \<longleftrightarrow> \<not> filled_status s"
  by (cases s) (simp_all add: rejection_status_def filled_status_def)

section \<open>What a log entry says of its event\<close>

lemma order_log_made:
  assumes "make_order_lifecycle_log_entry H g v = Inr e"
  shows "valid_PaperOrderLifecycleLogEntry H e"
    "\<exists>i h. e = (order_log_draft g v)\<lparr>order_log_id := i, order_log_hash := h\<rparr>"
  using assms by (auto simp: make_order_lifecycle_log_entry_def Let_def construct_PaperOrderLifecycleLogEntry_def
      valid_PaperOrderLifecycleLogEntry_def)

lemma order_log_shows:
  assumes "make_order_lifecycle_log_entry H g v = Inr e"
  shows "PaperOrderLifecycleLogEntry.gateway_event_id e = ExecutionGatewayLifecycleEvent.gateway_event_id v"
    "PaperOrderLifecycleLogEntry.status e = ExecutionGatewayLifecycleEvent.status v"
    "PaperOrderLifecycleLogEntry.gateway_quantity e = ExecutionGatewayLifecycleEvent.gateway_quantity v"
    "PaperOrderLifecycleLogEntry.run_id e = ExecutionGatewayLifecycleEvent.run_id v"
    "PaperOrderLifecycleLogEntry.gateway_report_id e = ExecutionGatewayReport.gateway_report_id g"
    "PaperOrderLifecycleLogEntry.gateway_report_hash e = ExecutionGatewayReport.gateway_report_hash g"
  using order_log_made(2) [OF assms] by (auto simp: order_log_draft_def)

lemma fill_log_made:
  assumes "make_fill_log_entry H g v = Inr e"
  shows "valid_PaperFillLogEntry H e" "\<exists>i h. e = (fill_log_draft g v)\<lparr>fill_log_id := i, fill_log_hash := h\<rparr>"
    "ExecutionGatewayLifecycleEvent.fill_price v \<noteq> None"
  using assms by (auto simp: make_fill_log_entry_def guardE_Inr_iff Let_def construct_PaperFillLogEntry_def
      valid_PaperFillLogEntry_def)

lemma fill_log_shows:
  assumes "make_fill_log_entry H g v = Inr e"
  shows "PaperFillLogEntry.gateway_event_id e = ExecutionGatewayLifecycleEvent.gateway_event_id v"
    "ExecutionGatewayLifecycleEvent.fill_price v = Some (PaperFillLogEntry.fill_price e)"
    "PaperFillLogEntry.filled_quantity e = ExecutionGatewayLifecycleEvent.filled_quantity v"
    "PaperFillLogEntry.total_cost e = ExecutionGatewayLifecycleEvent.total_cost v"
    "PaperFillLogEntry.fee_cost e = ExecutionGatewayLifecycleEvent.fee_cost v"
    "PaperFillLogEntry.spread_cost e = ExecutionGatewayLifecycleEvent.spread_cost v"
    "PaperFillLogEntry.slippage_cost e = ExecutionGatewayLifecycleEvent.slippage_cost v"
    "PaperFillLogEntry.run_id e = ExecutionGatewayLifecycleEvent.run_id v"
    "PaperFillLogEntry.gateway_report_id e = ExecutionGatewayReport.gateway_report_id g"
    "PaperFillLogEntry.gateway_report_hash e = ExecutionGatewayReport.gateway_report_hash g"
  using fill_log_made(2,3) [OF assms] by (auto simp: fill_log_draft_def)

lemma rejection_log_made:
  assumes "make_rejection_log_entry H g v = Inr e"
  shows "valid_PaperRejectionLogEntry H e"
    "\<exists>i h. e = (rejection_log_draft g v)\<lparr>rejection_log_id := i, rejection_log_hash := h\<rparr>"
  using assms by (auto simp: make_rejection_log_entry_def guardE_Inr_iff Let_def construct_PaperRejectionLogEntry_def
      valid_PaperRejectionLogEntry_def)

lemma rejection_log_shows:
  assumes "make_rejection_log_entry H g v = Inr e"
  shows "PaperRejectionLogEntry.gateway_event_id e = ExecutionGatewayLifecycleEvent.gateway_event_id v"
    "PaperRejectionLogEntry.risk_reason_codes e = ExecutionGatewayLifecycleEvent.risk_reason_codes v"
    "PaperRejectionLogEntry.replay_reject_reason e = ExecutionGatewayLifecycleEvent.replay_reject_reason v"
    "rejection_source e = rejection_source_of (ExecutionGatewayLifecycleEvent.status v)"
    "PaperRejectionLogEntry.run_id e = ExecutionGatewayLifecycleEvent.run_id v"
    "PaperRejectionLogEntry.gateway_report_id e = ExecutionGatewayReport.gateway_report_id g"
    "PaperRejectionLogEntry.gateway_report_hash e = ExecutionGatewayReport.gateway_report_hash g"
  using rejection_log_made(2) [OF assms] by (auto simp: rejection_log_draft_def)

section \<open>The parts of a session report\<close>

abbreviation event_filled :: "ExecutionGatewayLifecycleEvent \<Rightarrow> bool" where
  "event_filled v \<equiv> filled_status (ExecutionGatewayLifecycleEvent.status v)"

lemma session_parts:
  assumes "make_paper_account_session_report H g init final iid ih fid fh = Inr r"
  obtains ini fin os fs rs i h where
    "require_paper_gateway_report g = Inr ()"
    "resolve_account_state_identity H init iid ih ''initial'' = Inr ini"
    "resolve_final_account_state H g init final fid fh = Inr fin"
    "list_all2 (\<lambda>v e. make_order_lifecycle_log_entry H g v = Inr e) (events g) os"
    "list_all2 (\<lambda>v e. make_fill_log_entry H g v = Inr e) (filter event_filled (events g)) fs"
    "list_all2 (\<lambda>v e. make_rejection_log_entry H g v = Inr e) (filter (\<lambda>v. \<not> event_filled v) (events g)) rs"
    "r = (session_report_draft g init ini fin os fs rs)\<lparr>session_report_id := i, session_report_hash := h\<rparr>"
  using assms
  by (auto simp: make_paper_account_session_report_def bindE_Inr_iff mapE_Inr_iff Let_def
      construct_PaperAccountSessionReport_def filled_or_rejected)

lemma session_draft_parts [simp]:
  "order_logs (session_report_draft g init ini fin os fs rs) = os"
  "fill_logs (session_report_draft g init ini fin os fs rs) = fs"
  "rejection_logs (session_report_draft g init ini fin os fs rs) = rs"
  "PaperAccountSessionReport.final_account_state (session_report_draft g init ini fin os fs rs) = fst fin"
  "final_account_state_id (session_report_draft g init ini fin os fs rs) = fst (snd fin)"
  "final_account_state_hash (session_report_draft g init ini fin os fs rs) = fst (snd (snd fin))"
  "final_account_state_source (session_report_draft g init ini fin os fs rs) = snd (snd (snd fin))"
  "initial_account_state_hash (session_report_draft g init ini fin os fs rs) = snd ini"
  "initial_account_state_id (session_report_draft g init ini fin os fs rs) = fst ini"
  "total_order_count (session_report_draft g init ini fin os fs rs) = int (length os)"
  "filled_order_count (session_report_draft g init ini fin os fs rs) = count_status os ExecutionGatewayOrderStatus.FILLED"
  "partially_filled_order_count (session_report_draft g init ini fin os fs rs)
     = count_status os ExecutionGatewayOrderStatus.PARTIALLY_FILLED"
  "blocked_order_count (session_report_draft g init ini fin os fs rs) = count_status os BLOCKED"
  "rejected_order_count (session_report_draft g init ini fin os fs rs) = count_status os ExecutionGatewayOrderStatus.REJECTED"
  "unfilled_order_count (session_report_draft g init ini fin os fs rs) = count_status os ExecutionGatewayOrderStatus.UNFILLED"
  "filled_quantity_total (session_report_draft g init ini fin os fs rs) = dec_sum (map PaperFillLogEntry.filled_quantity fs)"
  "total_execution_cost (session_report_draft g init ini fin os fs rs) = dec_sum (map PaperFillLogEntry.total_cost fs)"
  "PaperAccountSessionReport.fee_cost_total (session_report_draft g init ini fin os fs rs) = dec_sum (map PaperFillLogEntry.fee_cost fs)"
  "PaperAccountSessionReport.spread_cost_total (session_report_draft g init ini fin os fs rs) = dec_sum (map PaperFillLogEntry.spread_cost fs)"
  "PaperAccountSessionReport.slippage_cost_total (session_report_draft g init ini fin os fs rs) = dec_sum (map PaperFillLogEntry.slippage_cost fs)"
  by (simp_all add: session_report_draft_def)

section \<open>The parts of a transaction-cost report\<close>

text \<open>The quotes an event may be measured against: its instrument and venue, and known when it was sent.\<close>

definition known_quote :: "ExecutionGatewayLifecycleEvent \<Rightarrow> QuoteEvent \<Rightarrow> bool" where
  "known_quote v q \<longleftrightarrow> QuoteEvent.instrument_id q = ExecutionGatewayLifecycleEvent.instrument_id v
     \<and> StreamEnvelopeBase.venue_id q = ExecutionGatewayLifecycleEvent.venue_id v
     \<and> StreamEnvelopeBase.event_ts q \<le> ExecutionGatewayLifecycleEvent.submitted_at v"

lemma arrival_quote_None: "arrival_quote_for_event v qs = None \<longleftrightarrow> (\<forall>q \<in> set qs. \<not> known_quote v q)"
  by (simp add: arrival_quote_for_event_def known_quote_def [symmetric] filter_empty_conv split: list.splits)
    (metis (no_types, lifting) filter_empty_conv list.distinct(1))

lemma arrival_quote_latest:
  assumes "arrival_quote_for_event v qs = Some q"
  shows "q \<in> set qs" "known_quote v q"
    "\<And>p. p \<in> set qs \<Longrightarrow> known_quote v p \<Longrightarrow> StreamEnvelopeBase.event_ts p \<le> StreamEnvelopeBase.event_ts q"
proof -
  obtain x xs where f: "filter (known_quote v) qs = x # xs" "q = max_by quote_key x xs"
    using assms by (auto simp: arrival_quote_for_event_def known_quote_def [abs_def] split: list.splits)
  have "q \<in> set (filter (known_quote v) qs)" unfolding f by (rule max_by_in)
  then show "q \<in> set qs" "known_quote v q" by simp_all
  show "StreamEnvelopeBase.event_ts p \<le> StreamEnvelopeBase.event_ts q" if "p \<in> set qs" "known_quote v p" for p
  proof -
    have "p \<in> set (x # xs)" using that by (simp add: f(1) [symmetric])
    then have "quote_key p \<le> quote_key q" unfolding f(2) by (rule max_by_ge)
    then show ?thesis by (auto simp: quote_key_def less_eq_datetime_def)
  qed
qed

text \<open>What the row of a fill states: its reference is the midpoint of the latest known quote or, with
  none, the replay's own reference, and its realised cost is measured from that reference.\<close>

definition measures :: "QuoteEvent list \<Rightarrow> ExecutionGatewayLifecycleEvent \<Rightarrow> PaperTcaRow \<Rightarrow> bool" where
  "measures qs v w \<longleftrightarrow> (\<exists>reference.
     (case arrival_quote_for_event v qs of
        Some q \<Rightarrow> PaperTcaRow.quote_id w = Some (QuoteEvent.quote_id q) \<and> arrival_mid w = Some (quote_mid q)
          \<and> reference = quote_mid q
      | None \<Rightarrow> PaperTcaRow.quote_id w = None \<and> arrival_mid w = None
          \<and> ExecutionGatewayLifecycleEvent.arrival_reference_price v = Some reference)
     \<and> PaperTcaRow.gateway_event_id w = ExecutionGatewayLifecycleEvent.gateway_event_id v
     \<and> PaperTcaRow.realized_total_cost w = ExecutionGatewayLifecycleEvent.fee_cost v
         + adverse_cost (ExecutionGatewayLifecycleEvent.side v) reference
             (the (ExecutionGatewayLifecycleEvent.fill_price v)) (ExecutionGatewayLifecycleEvent.filled_quantity v))"

lemma tca_row_made:
  assumes "make_tca_row H g v q = Inr w"
  shows "valid_PaperTcaRow H w" "\<exists>i h. w = (tca_row_draft g v q)\<lparr>tca_row_id := i, tca_row_hash := h\<rparr>"
    "ExecutionGatewayLifecycleEvent.arrival_reference_price v \<noteq> None" "event_filled v"
  using assms by (auto simp: make_tca_row_def guardE_Inr_iff Let_def construct_PaperTcaRow_def valid_PaperTcaRow_def)

lemma tca_row_measures:
  assumes "make_tca_row H g v q = Inr w" "arrival_quote_for_event v qs = q"
  shows "measures qs v w"
  using tca_row_made(2,3) [OF assms(1)] assms(2)
  by (cases q)
    (auto simp: measures_def tca_row_draft_def realized_cost_def tca_reference_def)

lemma tca_issue_made:
  assumes "make_tca_issue H g v c m = Inr i"
  shows "valid_PaperTcaIssue H i" "\<exists>x h. i = (tca_issue_draft g v c m)\<lparr>issue_id := x, issue_hash := h\<rparr>"
  using assms by (auto simp: make_tca_issue_def Let_def construct_PaperTcaIssue_def valid_PaperTcaIssue_def)

lemma tca_issue_shows:
  "make_tca_issue H g v c m = Inr i \<Longrightarrow>
     PaperTcaIssue.gateway_event_id i = ExecutionGatewayLifecycleEvent.gateway_event_id v"
  by (auto simp: tca_issue_draft_def dest!: tca_issue_made(2))

definition unmeasured :: "QuoteEvent list \<Rightarrow> ExecutionGatewayLifecycleEvent \<Rightarrow> bool" where
  "unmeasured qs v \<longleftrightarrow> \<not> event_filled v \<or> arrival_quote_for_event v qs = None"

lemma tca_step_cases:
  assumes "tca_step H g qs v = Inr (ws, js)"
  shows "if event_filled v then \<exists>w. ws = [w] \<and> measures qs v w else ws = []"
    "if unmeasured qs v then \<exists>j. js = [j] \<and> PaperTcaIssue.gateway_event_id j = ExecutionGatewayLifecycleEvent.gateway_event_id v
     else js = []"
  using assms
  by (auto simp: tca_step_def Let_def filled_status_def unmeasured_def bindE_Inr_iff
      dest: tca_issue_shows split: ExecutionGatewayOrderStatus.splits if_splits intro: tca_row_measures)

lemma tca_steps:
  assumes "list_all2 (\<lambda>v p. tca_step H g qs v = Inr p) vs ps"
  shows "list_all2 (measures qs) (filter event_filled vs) (concat (map fst ps))"
    "map PaperTcaIssue.gateway_event_id (concat (map snd ps))
       = map ExecutionGatewayLifecycleEvent.gateway_event_id (filter (unmeasured qs) vs)"
  using assms
proof (induction rule: list_all2_induct)
  case (Cons v vs p ps)
  obtain ws js where p: "p = (ws, js)" by (cases p)
  note c = tca_step_cases [OF Cons.hyps(1) [unfolded p]]
  { case 1 show ?case using c(1) Cons.IH(1) by (auto simp: p split: if_splits) }
  { case 2 show ?case using c(2) Cons.IH(2) by (auto simp: p split: if_splits) }
qed simp_all

lemma tca_parts:
  assumes "make_paper_tca_report H g qs = Inr r"
  obtains ps i h where "require_paper_gateway_report g = Inr ()"
    "list_all2 (\<lambda>v p. tca_step H g qs v = Inr p) (events g) ps"
    "r = (tca_report_draft g (concat (map fst ps)) (concat (map snd ps)))\<lparr>tca_report_id := i, tca_report_hash := h\<rparr>"
  using assms
  by (auto simp: make_paper_tca_report_def bindE_Inr_iff mapE_Inr_iff Let_def construct_PaperTcaReport_def)

lemma status_counts:
  "int (length (filter event_filled vs)) = (\<Sum>s \<leftarrow> [ExecutionGatewayOrderStatus.FILLED,
     ExecutionGatewayOrderStatus.PARTIALLY_FILLED]. int (count_list (map ExecutionGatewayLifecycleEvent.status vs) s))"
  "int (length (filter (\<lambda>v. \<not> event_filled v) vs)) = (\<Sum>s \<leftarrow> [BLOCKED, ExecutionGatewayOrderStatus.REJECTED,
     ExecutionGatewayOrderStatus.UNFILLED]. int (count_list (map ExecutionGatewayLifecycleEvent.status vs) s))"
  by (induction vs) (auto simp: filled_status_def intro: ExecutionGatewayOrderStatus.exhaust)

lemma count_status_list: "count_status os s = int (count_list (map PaperOrderLifecycleLogEntry.status os) s)"
  by (induction os) (auto simp: count_status_def)

text \<open>The number of gateway events of a status, and the sum of a figure over the filled ones.\<close>

definition events_with :: "ExecutionGatewayOrderStatus \<Rightarrow> ExecutionGatewayReport \<Rightarrow> int" where
  "events_with x g = int (count_list (map ExecutionGatewayLifecycleEvent.status (events g)) x)"

definition fill_sum :: "(ExecutionGatewayLifecycleEvent \<Rightarrow> decimal) \<Rightarrow> ExecutionGatewayReport \<Rightarrow> decimal" where
  "fill_sum figure g = dec_sum (map figure (filter event_filled (events g)))"

section \<open>Valid paper reports always produce their accounts\<close>

lemma valid_gateway_event_parts:
  assumes "valid_gateway_event H v"
  shows "list_all fst (gateway_event_fields v)" "list_all fst (if is_blocked v then blocked_event_checks v
      else replay_backed_event_checks H v)"
    "(ExecutionGatewayLifecycleEvent.cost_model_id v = None) = (ExecutionGatewayLifecycleEvent.cost_model_hash v = None)"
    "dec_eq (ExecutionGatewayLifecycleEvent.total_cost v) (ExecutionGatewayLifecycleEvent.fee_cost v
       + ExecutionGatewayLifecycleEvent.spread_cost v + ExecutionGatewayLifecycleEvent.slippage_cost v)"
    "canonical_id (ExecutionGatewayLifecycleEvent.gateway_event_id v)" "hex64 (ExecutionGatewayLifecycleEvent.gateway_event_hash v)"
  using assms
  by (auto simp: valid_gateway_event_def construct_ExecutionGatewayLifecycleEvent_def gateway_event_checks_def
      Let_def is_blocked_def gateway_event_fields_def split: if_splits)

lemma filled_unblocked: "event_filled v \<Longrightarrow> \<not> is_blocked v"
  by (auto simp: filled_status_def is_blocked_def)

lemma valid_fill:
  assumes "valid_gateway_event H v" "event_filled v"
  obtains oid rid p o' c s pay a f where
    "ExecutionGatewayLifecycleEvent.gateway_order_id v = Some oid" "canonical_id oid"
    "ExecutionGatewayLifecycleEvent.replay_order_result_id v = Some rid" "canonical_id rid"
    "ExecutionGatewayLifecycleEvent.fill_price v = Some p" "0 < p"
    "ExecutionGatewayLifecycleEvent.fill_event_open_ts v = Some o'"
    "ExecutionGatewayLifecycleEvent.fill_event_close_ts v = Some c"
    "ExecutionGatewayLifecycleEvent.fill_event_source_ts v = Some s"
    "ExecutionGatewayLifecycleEvent.fill_raw_payload_id v = Some pay" "canonical_id pay"
    "ExecutionGatewayLifecycleEvent.arrival_reference_price v = Some a"
    "ExecutionGatewayLifecycleEvent.effective_fill_price v = Some f" "dec_eq f p"
    "dec_eq (ExecutionGatewayLifecycleEvent.reference_notional v) (a * ExecutionGatewayLifecycleEvent.filled_quantity v)"
    "dec_eq (ExecutionGatewayLifecycleEvent.effective_notional v) (f * ExecutionGatewayLifecycleEvent.filled_quantity v)"
    "0 < ExecutionGatewayLifecycleEvent.filled_quantity v"
proof -
  note p = valid_gateway_event_parts [OF assms(1)]
  have b: "list_all fst (replay_backed_event_checks H v)" using p(2) filled_unblocked [OF assms(2)] by simp
  then have r: "ExecutionGatewayLifecycleEvent.gateway_order_id v \<noteq> None" "ExecutionGatewayLifecycleEvent.replay_order_result_id v \<noteq> None" "list_all fst (filled_event_checks v)"
    using assms(2) by (auto simp: replay_backed_event_checks_def filled_status_def)
  have q: "0 < ExecutionGatewayLifecycleEvent.gateway_quantity v" "opt_all canonical_id (ExecutionGatewayLifecycleEvent.gateway_order_id v)" "opt_all canonical_id (ExecutionGatewayLifecycleEvent.replay_order_result_id v)"
    "opt_all canonical_id (ExecutionGatewayLifecycleEvent.fill_raw_payload_id v)"
    using p(1) by (simp_all add: gateway_event_fields_def)
  have f: "0 < ExecutionGatewayLifecycleEvent.filled_quantity v"
  proof (cases "ExecutionGatewayLifecycleEvent.status v = ExecutionGatewayOrderStatus.FILLED")
    case True then show ?thesis using r(3) q(1) by (simp add: filled_event_checks_def dec_eq_dval less_dval)
  next
    case False then show ?thesis using r(3) by (simp add: filled_event_checks_def)
  qed
  show thesis
    using r q f by (auto simp: filled_event_checks_def opt_dec_eq_def split: option.splits if_splits intro!: that)
qed

definition references_positive :: "ExecutionGatewayReport \<Rightarrow> bool" where
  "references_positive g \<longleftrightarrow> list_all (\<lambda>v. opt_all (\<lambda>p. 0 < p)
     (ExecutionGatewayLifecycleEvent.arrival_reference_price v)) (events g)"

lemma order_log_ok:
  assumes "digest_ok H" "valid_gateway_event H v" "canonical_id (ExecutionGatewayReport.gateway_report_id g)"
    "hex64 (ExecutionGatewayReport.gateway_report_hash g)"
  shows "\<exists>e. make_order_lifecycle_log_entry H g v = Inr e"
proof -
  define d where "d = order_log_draft g v"
  note p = valid_gateway_event_parts [OF assms(2)]
  have f: "list_all fst (order_log_fields (d\<lparr>order_log_id := build_paper_order_lifecycle_log_id H h,
      order_log_hash := build_paper_order_lifecycle_log_hash H d\<rparr>))" for h
    using p(1) assms(3,4) paper_ids_ok [OF assms(1)] paper_hashes_ok [OF assms(1)] paper_requirement_strings
    by (simp add: order_log_fields_def d_def order_log_draft_def gateway_event_fields_def)
  have c: "list_all fst (order_log_checks (d\<lparr>order_log_id := i, order_log_hash := h\<rparr>))" for i h
    using p(2) by (auto simp: order_log_checks_def d_def order_log_draft_def is_blocked_def
        blocked_event_checks_def replay_backed_event_checks_def split: if_splits)
  show ?thesis
    using f c by (simp add: make_order_lifecycle_log_entry_def d_def [symmetric] Let_def
        construct_PaperOrderLifecycleLogEntry_def)
qed

lemma fill_log_ok:
  assumes "digest_ok H" "valid_gateway_event H v" "event_filled v" "canonical_id (ExecutionGatewayReport.gateway_report_id g)"
    "hex64 (ExecutionGatewayReport.gateway_report_hash g)"
    "opt_all (\<lambda>p. 0 < p) (ExecutionGatewayLifecycleEvent.arrival_reference_price v)"
  shows "\<exists>e. make_fill_log_entry H g v = Inr e"
proof (rule valid_fill [OF assms(2,3)])
  fix oid rid p o' c s pay a f
  assume v: "ExecutionGatewayLifecycleEvent.gateway_order_id v = Some oid" "canonical_id oid" "ExecutionGatewayLifecycleEvent.replay_order_result_id v = Some rid" "canonical_id rid"
    "ExecutionGatewayLifecycleEvent.fill_price v = Some p" "0 < p" "ExecutionGatewayLifecycleEvent.fill_event_open_ts v = Some o'" "ExecutionGatewayLifecycleEvent.fill_event_close_ts v = Some c"
    "ExecutionGatewayLifecycleEvent.fill_event_source_ts v = Some s" "ExecutionGatewayLifecycleEvent.fill_raw_payload_id v = Some pay" "canonical_id pay"
    "ExecutionGatewayLifecycleEvent.arrival_reference_price v = Some a" "ExecutionGatewayLifecycleEvent.effective_fill_price v = Some f" "dec_eq f p"
    "dec_eq (ExecutionGatewayLifecycleEvent.reference_notional v) (a * ExecutionGatewayLifecycleEvent.filled_quantity v)" "dec_eq (ExecutionGatewayLifecycleEvent.effective_notional v) (f * ExecutionGatewayLifecycleEvent.filled_quantity v)"
    "0 < ExecutionGatewayLifecycleEvent.filled_quantity v"
  define d where "d = fill_log_draft g v"
  note q = valid_gateway_event_parts [OF assms(2)]
  have e: "0 < f" "0 < a" using v(6,14,12) assms(6) by (simp_all add: less_dval dec_eq_dval)
  have x: "list_all fst (fill_log_fields (d\<lparr>fill_log_id := build_paper_fill_log_id H h,
      fill_log_hash := build_paper_fill_log_hash H d\<rparr>))" for h
    using q(1) assms(4,5) e v paper_ids_ok [OF assms(1)] paper_hashes_ok [OF assms(1)] paper_requirement_strings
    by (simp add: fill_log_fields_def d_def fill_log_draft_def gateway_event_fields_def)
  have c: "list_all fst (fill_log_checks (d\<lparr>fill_log_id := i, fill_log_hash := h\<rparr>))" for i h
    using q(3,4) v assms(3) by (simp add: fill_log_checks_def d_def fill_log_draft_def)
  show ?thesis
    using x c v assms(3) by (simp add: make_fill_log_entry_def d_def [symmetric] Let_def construct_PaperFillLogEntry_def)
qed

lemma rejection_log_ok:
  assumes "digest_ok H" "valid_gateway_event H v" "\<not> event_filled v" "canonical_id (ExecutionGatewayReport.gateway_report_id g)"
    "hex64 (ExecutionGatewayReport.gateway_report_hash g)"
  shows "\<exists>e. make_rejection_log_entry H g v = Inr e"
proof -
  define d where "d = rejection_log_draft g v"
  note p = valid_gateway_event_parts [OF assms(2)]
  have f: "list_all fst (rejection_log_fields (d\<lparr>rejection_log_id := build_paper_rejection_log_id H h,
      rejection_log_hash := build_paper_rejection_log_hash H d\<rparr>))" for h
    using p(1) assms(4,5) paper_ids_ok [OF assms(1)] paper_hashes_ok [OF assms(1)] paper_requirement_strings
    by (simp add: rejection_log_fields_def d_def rejection_log_draft_def gateway_event_fields_def)
  have c: "list_all fst (rejection_log_checks (d\<lparr>rejection_log_id := i, rejection_log_hash := h\<rparr>))" for i h
    using p(2) assms(3) by (auto simp: rejection_log_checks_def d_def rejection_log_draft_def is_blocked_def
        filled_or_rejected rejection_source_of_def filled_status_def
        blocked_event_checks_def replay_backed_event_checks_def unfilled_event_checks_def split: if_splits)
  show ?thesis
    using f c assms(3) by (simp add: make_rejection_log_entry_def d_def [symmetric] Let_def filled_or_rejected
        construct_PaperRejectionLogEntry_def)
qed

lemma dec_sum_nonneg: "list_all (\<lambda>x. 0 \<le> x) xs \<Longrightarrow> 0 \<le> dec_sum xs"
proof -
  have "list_all (\<lambda>x. 0 \<le> x) xs \<Longrightarrow> 0 \<le> y \<Longrightarrow> 0 \<le> foldl (+) y xs" for y :: decimal
    by (induction xs arbitrary: y) (simp_all add: le_dval dval_signs)
  from this [of 0] show "list_all (\<lambda>x. 0 \<le> x) xs \<Longrightarrow> 0 \<le> dec_sum xs"
    by (simp add: dec_sum_def le_dval)
qed

lemma valid_gateway_report_parts:
  assumes "valid_gateway_report H g"
  shows "list_all fst (gateway_report_fields H g)" "list_all (valid_gateway_event H) (events g)"
    "\<And>v. v \<in> set (events g) \<Longrightarrow> ExecutionGatewayLifecycleEvent.run_id v = ExecutionGatewayReport.run_id g"
    "(ExecutionGatewayReport.source_replay_report_id g = None) = (ExecutionGatewayReport.source_replay_report_hash g = None)"
    "canonical_id (ExecutionGatewayReport.gateway_report_id g)" "hex64 (ExecutionGatewayReport.gateway_report_hash g)"
    "canonical_id (ExecutionGatewayReport.run_id g)"
    "opt_all valid_account_state (source_replay_final_account_state g)"
proof -
  have c: "list_all fst (gateway_report_checks H g)"
    using assms by (simp add: valid_gateway_report_def construct_ExecutionGatewayReport_def)
  then show f: "list_all fst (gateway_report_fields H g)"
    "(ExecutionGatewayReport.source_replay_report_id g = None) = (ExecutionGatewayReport.source_replay_report_hash g = None)"
    by (simp_all add: gateway_report_checks_def Let_def)
  from f(1) show "list_all (valid_gateway_event H) (events g)" "canonical_id (ExecutionGatewayReport.gateway_report_id g)"
    "hex64 (ExecutionGatewayReport.gateway_report_hash g)" "canonical_id (ExecutionGatewayReport.run_id g)"
    "opt_all valid_account_state (source_replay_final_account_state g)"
    by (simp_all add: gateway_report_fields_def)
  have "list_all fst (report_event_checks g)" using c by (simp add: gateway_report_checks_def Let_def)
  then show "ExecutionGatewayLifecycleEvent.run_id v = ExecutionGatewayReport.run_id g" if "v \<in> set (events g)" for v
    using that by (auto simp: report_event_checks_def list_all_iff)
qed

lemma valid_log_costs:
  assumes "valid_PaperFillLogEntry H e"
  shows "0 \<le> PaperFillLogEntry.filled_quantity e" "0 \<le> PaperFillLogEntry.fee_cost e" "0 \<le> PaperFillLogEntry.spread_cost e"
    "0 \<le> PaperFillLogEntry.slippage_cost e" "0 \<le> PaperFillLogEntry.total_cost e" "canonical_id (fill_log_id e)"
  using assms
  by (auto simp: valid_PaperFillLogEntry_def construct_PaperFillLogEntry_def fill_log_fields_def le_dval less_dval)

lemma valid_log_ids:
  "valid_PaperOrderLifecycleLogEntry H a \<Longrightarrow> canonical_id (order_log_id a)"
  "valid_PaperRejectionLogEntry H b \<Longrightarrow> canonical_id (rejection_log_id b)"
  by (auto simp: valid_PaperOrderLifecycleLogEntry_def construct_PaperOrderLifecycleLogEntry_def order_log_fields_def
      valid_PaperRejectionLogEntry_def construct_PaperRejectionLogEntry_def rejection_log_fields_def)

lemma mapE_ok:
  assumes "\<And>x. x \<in> set xs \<Longrightarrow> \<exists>y. f x = Inr y"
  shows "\<exists>ys. mapE f xs = Inr ys \<and> (\<forall>y \<in> set ys. \<exists>x \<in> set xs. f x = Inr y)"
proof -
  obtain h where "\<And>x. x \<in> set xs \<Longrightarrow> f x = Inr (h x)" using assms by metis
  then have "mapE f xs = Inr (map h xs)" "\<forall>y \<in> set (map h xs). \<exists>x \<in> set xs. f x = Inr y"
    using mapE_total [of xs f h] by auto
  then show ?thesis by blast
qed

text \<open>The logs of a session, with the facts its report checks.\<close>

definition logs_ok :: "digest \<Rightarrow> ExecutionGatewayReport \<Rightarrow> PaperOrderLifecycleLogEntry list \<Rightarrow> PaperFillLogEntry list \<Rightarrow>
    PaperRejectionLogEntry list \<Rightarrow> bool" where
  "logs_ok H g os fs rs \<longleftrightarrow>
     list_all (\<lambda>e. valid_PaperOrderLifecycleLogEntry H e \<and> PaperOrderLifecycleLogEntry.run_id e = ExecutionGatewayReport.run_id g
       \<and> PaperOrderLifecycleLogEntry.gateway_report_id e = ExecutionGatewayReport.gateway_report_id g
       \<and> PaperOrderLifecycleLogEntry.gateway_report_hash e = ExecutionGatewayReport.gateway_report_hash g) os
   \<and> list_all (\<lambda>e. valid_PaperFillLogEntry H e \<and> PaperFillLogEntry.run_id e = ExecutionGatewayReport.run_id g
       \<and> PaperFillLogEntry.gateway_report_id e = ExecutionGatewayReport.gateway_report_id g
       \<and> PaperFillLogEntry.gateway_report_hash e = ExecutionGatewayReport.gateway_report_hash g) fs
   \<and> list_all (\<lambda>e. valid_PaperRejectionLogEntry H e \<and> PaperRejectionLogEntry.run_id e = ExecutionGatewayReport.run_id g
       \<and> PaperRejectionLogEntry.gateway_report_id e = ExecutionGatewayReport.gateway_report_id g
       \<and> PaperRejectionLogEntry.gateway_report_hash e = ExecutionGatewayReport.gateway_report_hash g) rs"

lemma session_logs_ok:
  assumes "digest_ok H" "valid_gateway_report H g" "references_positive g"
  obtains os fs rs where "mapE (make_order_lifecycle_log_entry H g) (events g) = Inr os"
    "mapE (make_fill_log_entry H g) (filter event_filled (events g)) = Inr fs"
    "mapE (make_rejection_log_entry H g)
       (filter (\<lambda>v. rejection_status (ExecutionGatewayLifecycleEvent.status v)) (events g)) = Inr rs"
    "logs_ok H g os fs rs"
proof -
  note p = valid_gateway_report_parts [OF assms(2)]
  have v: "valid_gateway_event H v" "opt_all (\<lambda>p. 0 < p) (ExecutionGatewayLifecycleEvent.arrival_reference_price v)"
    if "v \<in> set (events g)" for v
    using that p(2) assms(3) by (simp_all add: list_all_iff references_positive_def)
  obtain os where os: "mapE (make_order_lifecycle_log_entry H g) (events g) = Inr os"
    "\<forall>e \<in> set os. \<exists>v \<in> set (events g). make_order_lifecycle_log_entry H g v = Inr e"
    using mapE_ok [of "events g" "make_order_lifecycle_log_entry H g"] order_log_ok [OF assms(1) v(1) p(5,6)] by blast
  obtain fs where fs: "mapE (make_fill_log_entry H g) (filter event_filled (events g)) = Inr fs"
    "\<forall>e \<in> set fs. \<exists>v \<in> set (filter event_filled (events g)). make_fill_log_entry H g v = Inr e"
    using mapE_ok [of "filter event_filled (events g)" "make_fill_log_entry H g"]
      fill_log_ok [OF assms(1) v(1) _ p(5,6) v(2)] by auto
  obtain rs where rs: "mapE (make_rejection_log_entry H g)
       (filter (\<lambda>v. rejection_status (ExecutionGatewayLifecycleEvent.status v)) (events g)) = Inr rs"
    "\<forall>e \<in> set rs. \<exists>v \<in> set (filter (\<lambda>v. rejection_status (ExecutionGatewayLifecycleEvent.status v)) (events g)).
       make_rejection_log_entry H g v = Inr e"
    using mapE_ok [of "filter (\<lambda>v. rejection_status (ExecutionGatewayLifecycleEvent.status v)) (events g)"
        "make_rejection_log_entry H g"] rejection_log_ok [OF assms(1) v(1) _ p(5,6)]
    by (auto simp: filled_or_rejected)
  have "logs_ok H g os fs rs"
    unfolding logs_ok_def list_all_iff
  proof (intro conjI ballI)
    fix e assume "e \<in> set os"
    then obtain v where "v \<in> set (events g)" and m: "make_order_lifecycle_log_entry H g v = Inr e" using os(2) by blast
    then show "valid_PaperOrderLifecycleLogEntry H e" "PaperOrderLifecycleLogEntry.run_id e = ExecutionGatewayReport.run_id g"
      "PaperOrderLifecycleLogEntry.gateway_report_id e = ExecutionGatewayReport.gateway_report_id g"
      "PaperOrderLifecycleLogEntry.gateway_report_hash e = ExecutionGatewayReport.gateway_report_hash g"
      using order_log_made(1) [OF m] order_log_shows [OF m] p(3) by simp_all
  next
    fix e assume "e \<in> set fs"
    then obtain v where "v \<in> set (events g)" and m: "make_fill_log_entry H g v = Inr e" using fs(2) by auto
    then show "valid_PaperFillLogEntry H e" "PaperFillLogEntry.run_id e = ExecutionGatewayReport.run_id g"
      "PaperFillLogEntry.gateway_report_id e = ExecutionGatewayReport.gateway_report_id g"
      "PaperFillLogEntry.gateway_report_hash e = ExecutionGatewayReport.gateway_report_hash g"
      using fill_log_made(1) [OF m] fill_log_shows [OF m] p(3) by simp_all
  next
    fix e assume "e \<in> set rs"
    then obtain v where "v \<in> set (events g)" and m: "make_rejection_log_entry H g v = Inr e" using rs(2) by auto
    then show "valid_PaperRejectionLogEntry H e" "PaperRejectionLogEntry.run_id e = ExecutionGatewayReport.run_id g"
      "PaperRejectionLogEntry.gateway_report_id e = ExecutionGatewayReport.gateway_report_id g"
      "PaperRejectionLogEntry.gateway_report_hash e = ExecutionGatewayReport.gateway_report_hash g"
      using rejection_log_made(1) [OF m] rejection_log_shows [OF m] p(3) by simp_all
  qed
  with os fs rs that show thesis by blast
qed

lemma session_log_checks_ok:
  assumes "logs_ok H g os fs rs"
    and "d = (session_report_draft g init ini fin os fs rs)\<lparr>session_report_id := i, session_report_hash := h\<rparr>"
  shows "list_all fst (session_log_checks d)"
proof -
  have k: "PaperAccountSessionReport.run_id d = ExecutionGatewayReport.run_id g"
    "PaperAccountSessionReport.gateway_report_id d = ExecutionGatewayReport.gateway_report_id g"
    "PaperAccountSessionReport.gateway_report_hash d = ExecutionGatewayReport.gateway_report_hash g"
    "order_logs d = os" "fill_logs d = fs" "rejection_logs d = rs"
    by (simp_all add: assms(2) session_report_draft_def)
  have "list_all fst (session_linkage_checks d)"
    using assms(1) by (auto simp: session_linkage_checks_def k one_log_linkage_def logs_ok_def list_all_iff)
  then show ?thesis
    by (simp add: session_log_checks_def k) (simp add: assms(2) session_report_draft_def dec_eq_dval)
qed

lemma session_fields_ok:
  assumes "digest_ok H" "valid_gateway_report H g" "logs_ok H g os fs rs" "opt_all valid_account_state init"
    "opt_all valid_account_state (fst fin)" "canonical_id (fst ini)" "hex64 (snd ini)"
    "canonical_id (fst (snd fin))" "hex64 (fst (snd (snd fin)))" "canonical_id i" "hex64 h"
  shows "list_all fst (session_report_fields H
    ((session_report_draft g init ini fin os fs rs)\<lparr>session_report_id := i, session_report_hash := h\<rparr>))"
proof -
  note p = valid_gateway_report_parts [OF assms(2)]
  have s: "0 \<le> dec_sum (map PaperFillLogEntry.filled_quantity fs)" "0 \<le> dec_sum (map PaperFillLogEntry.fee_cost fs)"
    "0 \<le> dec_sum (map PaperFillLogEntry.spread_cost fs)" "0 \<le> dec_sum (map PaperFillLogEntry.slippage_cost fs)"
    "0 \<le> dec_sum (map PaperFillLogEntry.total_cost fs)"
    by (rule dec_sum_nonneg, use assms(3) valid_log_costs in \<open>auto simp: logs_ok_def list_all_iff\<close>)+
  have c: "0 \<le> count_status os st" for st by (simp add: count_status_def)
  have l: "list_all canonical_id (map order_log_id os)" "list_all canonical_id (map fill_log_id fs)"
    "list_all canonical_id (map rejection_log_id rs)" "list_all (valid_PaperOrderLifecycleLogEntry H) os"
    "list_all (valid_PaperFillLogEntry H) fs" "list_all (valid_PaperRejectionLogEntry H) rs"
    using assms(3) valid_log_costs(6) valid_log_ids by (auto simp: logs_ok_def list_all_iff)
  show ?thesis
    using p(1) s c l assms(4-11) paper_requirement_strings
    by (simp add: session_report_fields_def session_report_draft_def gateway_report_fields_def)
qed

text \<open>The account states a session can start from and end in without further evidence: an embedded
  valid initial state, and, when the gateway replayed a final state, one of the same account;
  fills need such a replayed state.\<close>

definition session_states_ok :: "ExecutionGatewayReport \<Rightarrow> SimulatedAccountState \<Rightarrow> bool" where
  "session_states_ok g a \<longleftrightarrow> valid_account_state a
     \<and> opt_all (\<lambda>f. SimulatedAccountState.account_id f = SimulatedAccountState.account_id a)
         (source_replay_final_account_state g)
     \<and> (has_filled_events g \<longrightarrow> source_replay_final_account_state g \<noteq> None)"

definition paper_report :: "digest \<Rightarrow> ExecutionGatewayReport \<Rightarrow> bool" where
  "paper_report H g \<longleftrightarrow> valid_gateway_report H g \<and> ExecutionGatewayReport.gateway_kind g = PAPER
     \<and> ExecutionGatewayReport.fill_mode g = PAPER_SIMULATED_FILL \<and> references_positive g"

lemma paper_report_required: "paper_report H g \<Longrightarrow> require_paper_gateway_report g = Inr ()"
  by (simp add: paper_report_def require_paper_gateway_report_def)

lemma session_ok:
  assumes "digest_ok H" "paper_report H g" "session_states_ok g a"
  shows "\<exists>r. make_paper_account_session_report H g (Some a) None None None None None = Inr r"
proof -
  have g: "valid_gateway_report H g" "references_positive g" using assms(2) by (simp_all add: paper_report_def)
  note p = valid_gateway_report_parts [OF g(1)]
  let ?h = "build_paper_account_state_hash H" and ?i = "build_paper_account_state_id H"
  obtain os fs rs where l: "mapE (make_order_lifecycle_log_entry H g) (events g) = Inr os"
    "mapE (make_fill_log_entry H g) (filter event_filled (events g)) = Inr fs"
    "mapE (make_rejection_log_entry H g)
       (filter (\<lambda>v. rejection_status (ExecutionGatewayLifecycleEvent.status v)) (events g)) = Inr rs"
    "logs_ok H g os fs rs"
    using session_logs_ok [OF assms(1) g] by blast
  define src where "src = (case source_replay_final_account_state g of
      Some f \<Rightarrow> PaperAccountStateSource.GATEWAY_REPLAY | None \<Rightarrow> UNCHANGED_FROM_INITIAL)"
  define f where "f = (case source_replay_final_account_state g of Some f \<Rightarrow> f | None \<Rightarrow> a)"
  have f: "valid_account_state f" "SimulatedAccountState.account_id f = SimulatedAccountState.account_id a"
    using assms(3) p(8) by (auto simp: f_def session_states_ok_def split: option.splits)
  have ini: "resolve_account_state_identity H (Some a) None None ''initial'' = Inr (?i (?h a), ?h a)"
    by (simp add: resolve_account_state_identity_def Let_def)
  have fin: "resolve_final_account_state H g (Some a) None None None = Inr (Some f, ?i (?h f), ?h f, src)"
    using assms(3) by (auto simp: resolve_final_account_state_def f_def src_def session_states_ok_def Let_def
        raise_if_supplied_final_conflicts_with_gateway_def split: option.splits)
  define d where "d = session_report_draft g (Some a) (?i (?h a), ?h a) (Some f, ?i (?h f), ?h f, src) os fs rs"
  define r where "r = d\<lparr>session_report_id := build_paper_account_session_report_id H
      (build_paper_account_session_report_hash H d),
    session_report_hash := build_paper_account_session_report_hash H d\<rparr>"
  have fields: "list_all fst (session_report_fields H r)"
    unfolding r_def d_def
    by (rule session_fields_ok [OF assms(1) g(1) l(4)])
      (use assms(3) f paper_ids_ok [OF assms(1)] paper_hashes_ok [OF assms(1)] in \<open>simp_all add: session_states_ok_def\<close>)
  have logs: "list_all fst (session_log_checks r)"
    by (rule session_log_checks_ok [OF l(4)]) (unfold r_def d_def, rule refl)
  have k: "PaperAccountSessionReport.initial_account_state r = Some a"
    "PaperAccountSessionReport.final_account_state r = Some f" "initial_account_state_hash r = ?h a"
    "initial_account_state_id r = ?i (?h a)" "final_account_state_hash r = ?h f" "final_account_state_id r = ?i (?h f)"
    "final_account_state_source r = src"
    "PaperAccountSessionReport.gateway_kind r = ExecutionGatewayReport.gateway_kind g"
    "PaperAccountSessionReport.fill_mode r = ExecutionGatewayReport.fill_mode g"
    "PaperAccountSessionReport.source_replay_report_id r = ExecutionGatewayReport.source_replay_report_id g"
    "PaperAccountSessionReport.source_replay_report_hash r = ExecutionGatewayReport.source_replay_report_hash g"
    by (simp_all add: r_def d_def session_report_draft_def)
  have "list_all fst (session_report_checks H r)"
    using logs assms(2) f(2) p(4)
    by (cases "source_replay_final_account_state g")
      (simp_all add: session_report_checks_def session_state_checks_def k Let_def paper_report_def src_def f_def)
  moreover have "build_paper_account_session_report_hash H r = build_paper_account_session_report_hash H d"
    by (simp add: r_def)
  ultimately have "construct_PaperAccountSessionReport H r = Inr r"
    using fields by (simp add: construct_PaperAccountSessionReport_def) (simp add: r_def)
  then have "make_paper_account_session_report H g (Some a) None None None None None = Inr r"
    using paper_report_required [OF assms(2)] ini fin l(1-3)
    by (simp add: make_paper_account_session_report_def Let_def r_def d_def)
  then show ?thesis by blast
qed

lemma tca_row_ok:
  assumes "digest_ok H" "valid_gateway_event H v" "event_filled v" "canonical_id (ExecutionGatewayReport.gateway_report_id g)"
    "hex64 (ExecutionGatewayReport.gateway_report_hash g)"
    "opt_all (\<lambda>p. 0 < p) (ExecutionGatewayLifecycleEvent.arrival_reference_price v)"
    "opt_all (\<lambda>q. construct_QuoteEvent q = Inr q) q"
  shows "\<exists>w. make_tca_row H g v q = Inr w"
proof (rule valid_fill [OF assms(2,3)])
  fix oid rid p o' c s pay a f
  assume v: "ExecutionGatewayLifecycleEvent.gateway_order_id v = Some oid" "canonical_id oid"
    "ExecutionGatewayLifecycleEvent.fill_price v = Some p" "0 < p"
    "ExecutionGatewayLifecycleEvent.fill_event_open_ts v = Some o'"
    "ExecutionGatewayLifecycleEvent.fill_event_close_ts v = Some c"
    "ExecutionGatewayLifecycleEvent.fill_event_source_ts v = Some s"
    "ExecutionGatewayLifecycleEvent.arrival_reference_price v = Some a"
    "0 < ExecutionGatewayLifecycleEvent.filled_quantity v"
  define d where "d = tca_row_draft g v q"
  have mid: "opt_all (\<lambda>x. 0 \<le> quote_mid x) q"
    using assms(7) by (cases q) (simp_all add: construct_QuoteEvent_def quote_mid_def le_dval ddiv_nonneg dval_signs dval_Dec)
  have quo: "opt_all non_empty_string (map_option QuoteEvent.quote_id q)" "opt_all (\<lambda>x. 0 \<le> x) (map_option QuoteEvent.best_bid q)"
    "opt_all (\<lambda>x. 0 \<le> x) (map_option QuoteEvent.best_ask q)" "opt_all (\<lambda>x. 0 \<le> x) (map_option quote_mid q)"
    using assms(7) mid by (cases q; simp add: construct_QuoteEvent_def)+
  have cost: "0 \<le> ExecutionGatewayLifecycleEvent.spread_cost v + ExecutionGatewayLifecycleEvent.slippage_cost v"
    "0 \<le> ExecutionGatewayLifecycleEvent.fee_cost v
       + (ExecutionGatewayLifecycleEvent.spread_cost v + ExecutionGatewayLifecycleEvent.slippage_cost v)"
    using valid_gateway_event_parts(1) [OF assms(2)] by (simp_all add: gateway_event_fields_def le_dval dval_signs)
  have x: "list_all fst (tca_row_fields (d\<lparr>tca_row_id := build_paper_tca_row_id H h,
      tca_row_hash := build_paper_tca_row_hash H d\<rparr>))" for h
    using valid_gateway_event_parts(1) [OF assms(2)] assms(4-6) v quo cost paper_ids_ok [OF assms(1)]
      paper_hashes_ok [OF assms(1)] paper_requirement_strings
    by (simp add: tca_row_fields_def d_def tca_row_draft_def predicted_cost_def gateway_event_fields_def)
  have k: "list_all fst (tca_row_checks (d\<lparr>tca_row_id := i, tca_row_hash := h\<rparr>))" for i h
    using assms(3) by (cases q) (simp_all add: tca_row_checks_def d_def tca_row_draft_def predicted_cost_def dec_eq_dval)
  show ?thesis
    using x k v assms(3) by (simp add: make_tca_row_def d_def [symmetric] Let_def construct_PaperTcaRow_def)
qed

definition issue_fits :: "PaperTcaIssueCode \<Rightarrow> ExecutionGatewayLifecycleEvent \<Rightarrow> bool" where
  "issue_fits c v \<longleftrightarrow> (case c of MISSING_ARRIVAL_QUOTE \<Rightarrow> event_filled v | RISK_BLOCKED \<Rightarrow> is_blocked v
     | GATEWAY_REJECTED \<Rightarrow> ExecutionGatewayLifecycleEvent.status v = ExecutionGatewayOrderStatus.REJECTED
     | GATEWAY_UNFILLED \<Rightarrow> ExecutionGatewayLifecycleEvent.status v = ExecutionGatewayOrderStatus.UNFILLED)"

lemma tca_issue_ok:
  assumes "digest_ok H" "valid_gateway_event H v" "canonical_id (ExecutionGatewayReport.gateway_report_id g)"
    "hex64 (ExecutionGatewayReport.gateway_report_hash g)" "non_empty_string m" "issue_fits c v"
  shows "\<exists>i. make_tca_issue H g v c m = Inr i"
proof -
  define d where "d = tca_issue_draft g v c m"
  have f: "list_all fst (tca_issue_fields (d\<lparr>issue_id := build_paper_tca_issue_id H h,
      issue_hash := build_paper_tca_issue_hash H d\<rparr>))" for h
    using valid_gateway_event_parts(1) [OF assms(2)] assms(3-5) paper_ids_ok [OF assms(1)] paper_hashes_ok [OF assms(1)]
      paper_requirement_strings
    by (simp add: tca_issue_fields_def d_def tca_issue_draft_def gateway_event_fields_def)
  have k: "list_all fst (tca_issue_checks (d\<lparr>issue_id := x, issue_hash := h\<rparr>))" for x h
    using assms(6) by (cases c) (simp_all add: tca_issue_checks_def d_def tca_issue_draft_def issue_fits_def is_blocked_def)
  show ?thesis using f k by (simp add: make_tca_issue_def d_def [symmetric] Let_def construct_PaperTcaIssue_def)
qed

lemma tca_messages:
  "non_empty_string ''risk-blocked/no-trade gateway event has no fill for TCA''"
  "non_empty_string ''gateway replay rejected the approved paper order; no fill for TCA''"
  "non_empty_string ''gateway replay left the approved paper order unfilled; no fill for TCA''"
  "non_empty_string ''no arrival quote at or before submitted_at; using replay arrival_reference_price fallback''"
  by (simp_all add: non_empty_string_def strip_def py_space_def)

lemma tca_step_ok:
  assumes "digest_ok H" "valid_gateway_event H v" "canonical_id (ExecutionGatewayReport.gateway_report_id g)"
    "hex64 (ExecutionGatewayReport.gateway_report_hash g)"
    "opt_all (\<lambda>p. 0 < p) (ExecutionGatewayLifecycleEvent.arrival_reference_price v)"
    "list_all (\<lambda>q. construct_QuoteEvent q = Inr q) qs"
  shows "\<exists>p. tca_step H g qs v = Inr p"
proof -
  note i = tca_issue_ok [OF assms(1-4) tca_messages(1)] tca_issue_ok [OF assms(1-4) tca_messages(2)]
    tca_issue_ok [OF assms(1-4) tca_messages(3)] tca_issue_ok [OF assms(1-4) tca_messages(4)]
  define q where "q = arrival_quote_for_event v qs"
  have "opt_all (\<lambda>q. construct_QuoteEvent q = Inr q) q"
    using arrival_quote_latest(1) [of v qs] assms(6) by (cases q) (simp_all add: q_def list_all_iff)
  note w = tca_row_ok [OF assms(1,2) _ assms(3-5) this]
  have "\<exists>p. bindE (if q = None then bindE (make_tca_issue H g v MISSING_ARRIVAL_QUOTE
        ''no arrival quote at or before submitted_at; using replay arrival_reference_price fallback'') (\<lambda>i. Inr [i])
      else Inr []) (\<lambda>is. bindE (make_tca_row H g v q) (\<lambda>r. Inr ([r], is))) = Inr p" if f: "event_filled v"
  proof -
    obtain r where "make_tca_row H g v q = Inr r" using w f by blast
    moreover obtain j where "make_tca_issue H g v MISSING_ARRIVAL_QUOTE
        ''no arrival quote at or before submitted_at; using replay arrival_reference_price fallback'' = Inr j"
      using i(4) [of MISSING_ARRIVAL_QUOTE] f by (auto simp: issue_fits_def)
    ultimately show ?thesis by simp
  qed
  moreover have "\<exists>j. make_tca_issue H g v RISK_BLOCKED ''risk-blocked/no-trade gateway event has no fill for TCA'' = Inr j"
    if "ExecutionGatewayLifecycleEvent.status v = BLOCKED"
    using i(1) [of RISK_BLOCKED] that by (simp add: issue_fits_def is_blocked_def)
  moreover have "\<exists>j. make_tca_issue H g v GATEWAY_REJECTED
      ''gateway replay rejected the approved paper order; no fill for TCA'' = Inr j"
    if "ExecutionGatewayLifecycleEvent.status v = ExecutionGatewayOrderStatus.REJECTED"
    using i(2) [of GATEWAY_REJECTED] that by (simp add: issue_fits_def)
  moreover have "\<exists>j. make_tca_issue H g v GATEWAY_UNFILLED
      ''gateway replay left the approved paper order unfilled; no fill for TCA'' = Inr j"
    if "ExecutionGatewayLifecycleEvent.status v = ExecutionGatewayOrderStatus.UNFILLED"
    using i(3) [of GATEWAY_UNFILLED] that by (simp add: issue_fits_def)
  ultimately show ?thesis
    by (cases "ExecutionGatewayLifecycleEvent.status v")
      (auto simp: tca_step_def Let_def q_def [symmetric] filled_status_def)
qed

text \<open>What the report checks of each row and of each issue.\<close>

definition row_ok :: "digest \<Rightarrow> ExecutionGatewayReport \<Rightarrow> PaperTcaRow \<Rightarrow> bool" where
  "row_ok H g w \<longleftrightarrow> valid_PaperTcaRow H w \<and> PaperTcaRow.run_id w = ExecutionGatewayReport.run_id g
     \<and> PaperTcaRow.gateway_report_id w = ExecutionGatewayReport.gateway_report_id g
     \<and> PaperTcaRow.gateway_report_hash w = ExecutionGatewayReport.gateway_report_hash g"

definition issue_ok :: "digest \<Rightarrow> ExecutionGatewayReport \<Rightarrow> PaperTcaIssue \<Rightarrow> bool" where
  "issue_ok H g j \<longleftrightarrow> valid_PaperTcaIssue H j \<and> PaperTcaIssue.run_id j = ExecutionGatewayReport.run_id g
     \<and> PaperTcaIssue.gateway_report_id j = ExecutionGatewayReport.gateway_report_id g
     \<and> PaperTcaIssue.gateway_report_hash j = ExecutionGatewayReport.gateway_report_hash g"

lemma row_made_ok:
  assumes "make_tca_row H g v q = Inr w" "ExecutionGatewayLifecycleEvent.run_id v = ExecutionGatewayReport.run_id g"
  shows "row_ok H g w"
  using tca_row_made(1,2) [OF assms(1)] assms(2) by (auto simp: row_ok_def tca_row_draft_def)

lemma issue_made_ok:
  assumes "make_tca_issue H g v c m = Inr j" "ExecutionGatewayLifecycleEvent.run_id v = ExecutionGatewayReport.run_id g"
  shows "issue_ok H g j"
  using tca_issue_made [OF assms(1)] assms(2) by (auto simp: issue_ok_def tca_issue_draft_def)

lemma tca_step_made:
  assumes "tca_step H g qs v = Inr (ws, js)" "ExecutionGatewayLifecycleEvent.run_id v = ExecutionGatewayReport.run_id g"
  shows "list_all (row_ok H g) ws" "list_all (issue_ok H g) js"
  using assms
  by (auto simp: tca_step_def Let_def bindE_Inr_iff split: ExecutionGatewayOrderStatus.splits if_splits
      intro: row_made_ok issue_made_ok)

lemma row_ok_costs:
  assumes "row_ok H g w"
  shows "0 \<le> PaperTcaRow.fee_cost w" "0 \<le> PaperTcaRow.predicted_total_cost w" "canonical_id (tca_row_id w)"
  using assms by (auto simp: row_ok_def valid_PaperTcaRow_def construct_PaperTcaRow_def tca_row_fields_def)

lemma issue_ok_id: "issue_ok H g j \<Longrightarrow> canonical_id (issue_id j)"
  by (auto simp: issue_ok_def valid_PaperTcaIssue_def construct_PaperTcaIssue_def tca_issue_fields_def)

lemma tca_report_ok:
  assumes "digest_ok H" "valid_gateway_report H g" "ExecutionGatewayReport.gateway_kind g = PAPER"
    "ExecutionGatewayReport.fill_mode g = PAPER_SIMULATED_FILL"
    "list_all (row_ok H g) ws" "list_all (issue_ok H g) js" "d = tca_report_draft g ws js"
  shows "construct_PaperTcaReport H (d\<lparr>tca_report_id := build_paper_tca_report_id H (build_paper_tca_report_hash H d),
      tca_report_hash := build_paper_tca_report_hash H d\<rparr>)
    = Inr (d\<lparr>tca_report_id := build_paper_tca_report_id H (build_paper_tca_report_hash H d),
      tca_report_hash := build_paper_tca_report_hash H d\<rparr>)"
    (is "construct_PaperTcaReport H ?r = _")
proof -
  note p = valid_gateway_report_parts [OF assms(2)]
  have s: "0 \<le> dec_sum (map PaperTcaRow.fee_cost ws)" "0 \<le> dec_sum (map PaperTcaRow.predicted_total_cost ws)"
    by (rule dec_sum_nonneg, use assms(5) row_ok_costs in \<open>auto simp: list_all_iff\<close>)+
  have l: "list_all canonical_id (map tca_row_id ws)" "list_all canonical_id (map issue_id js)"
    "list_all (valid_PaperTcaRow H) ws" "list_all (valid_PaperTcaIssue H) js"
    using assms(5,6) row_ok_costs(3) issue_ok_id by (auto simp: list_all_iff row_ok_def issue_ok_def)
  have f: "list_all fst (tca_report_fields H ?r)"
    using s l p(1) paper_ids_ok [OF assms(1)] paper_hashes_ok [OF assms(1)] paper_requirement_strings
    by (simp add: tca_report_fields_def assms(7) tca_report_draft_def gateway_report_fields_def)
  have k: "list_all fst (tca_linkage_checks ?r)"
    using assms(5,6) by (auto simp: tca_linkage_checks_def assms(7) tca_report_draft_def list_all_iff row_ok_def issue_ok_def)
  have c: "list_all fst (tca_report_checks ?r)"
    using k assms(3,4) by (simp add: tca_report_checks_def) (simp add: assms(7) tca_report_draft_def dec_eq_dval)
  show ?thesis using f c by (simp add: construct_PaperTcaReport_def)
qed

lemma tca_ok:
  assumes "digest_ok H" "paper_report H g" "list_all (\<lambda>q. construct_QuoteEvent q = Inr q) qs"
  shows "\<exists>r. make_paper_tca_report H g qs = Inr r"
proof -
  have g: "valid_gateway_report H g" "ExecutionGatewayReport.gateway_kind g = PAPER"
    "ExecutionGatewayReport.fill_mode g = PAPER_SIMULATED_FILL" "references_positive g"
    using assms(2) by (simp_all add: paper_report_def)
  note p = valid_gateway_report_parts [OF g(1)]
  have v: "valid_gateway_event H v" "opt_all (\<lambda>p. 0 < p) (ExecutionGatewayLifecycleEvent.arrival_reference_price v)"
    if "v \<in> set (events g)" for v
    using that p(2) g(4) by (simp_all add: list_all_iff references_positive_def)
  obtain ps where ps: "mapE (tca_step H g qs) (events g) = Inr ps"
    "\<forall>x \<in> set ps. \<exists>v \<in> set (events g). tca_step H g qs v = Inr x"
    using mapE_ok [of "events g" "tca_step H g qs"] tca_step_ok [OF assms(1) v(1) p(5,6) v(2) assms(3)] by blast
  have "list_all (row_ok H g) (fst x) \<and> list_all (issue_ok H g) (snd x)" if "x \<in> set ps" for x
    using that ps(2) tca_step_made p(3) by (metis prod.collapse)
  then have "list_all (row_ok H g) (concat (map fst ps))" "list_all (issue_ok H g) (concat (map snd ps))"
    by (auto simp: list_all_iff)
  from tca_report_ok [OF assms(1) g(1-3) this refl] show ?thesis
    using paper_report_required [OF assms(2)] ps(1) by (simp add: make_paper_tca_report_def Let_def)
qed

section \<open>From the risk engine to the reports\<close>

lemma result_reference:
  assumes "replay_one H bs cost i book = Inr (r, book')"
  shows "opt_all (\<lambda>p. \<exists>b \<in> set bs. p = open_price b) (ReplayOrderResult.arrival_reference_price r)"
proof (cases "filled r")
  case True
  note r = replay_one_result [OF assms]
  obtain a b where ab: "fill_slot cost i bs = (a, b)" by fastforce
  have "b \<in> set bs" using slot_eligible(1,2) [OF _ ab] r True by (auto simp: in_set_conv_nth)
  moreover have "ReplayOrderResult.arrival_reference_price (planned_fill H cost i bs) = Some (open_price b)"
    using ab by (simp add: planned_fill_def plain_fill_def costed_fill_def at_bar_def Let_def split: option.splits)
  moreover have "ReplayOrderResult.arrival_reference_price r
      = ReplayOrderResult.arrival_reference_price (planned_fill H cost i bs)"
  proof -
    have "r = (planned_fill H cost i bs)\<lparr>ReplayOrderResult.replay_order_result_id := ReplayOrderResult.replay_order_result_id r\<rparr>" using r True by simp
    from arg_cong [OF this, of ReplayOrderResult.arrival_reference_price] show ?thesis by simp
  qed
  ultimately show ?thesis by auto
next
  case False
  then have "list_all fst (replay_result_unfilled r)"
    using replay_one_result [OF assms] by (cases "ReplayOrderResult.status r")
      (simp_all add: valid_replay_result_def construct_ReplayOrderResult_def)
  then show ?thesis by (simp add: replay_result_unfilled_def)
qed

lemma replay_references:
  assumes "replay_ohlctv_market_orders H bs is run cost s a = Inr rep" "r \<in> set (results rep)"
  shows "opt_all (\<lambda>p. \<exists>b \<in> set bs. p = open_price b) (ReplayOrderResult.arrival_reference_price r)"
proof -
  obtain book where "replay_all H bs cost is (book_of s a) = Inr (results rep, book)"
    using assms(1) by (rule replay_report_parts)
  then have "list_all2 (\<lambda>i r. opt_all (\<lambda>p. \<exists>b \<in> set bs. p = open_price b)
      (ReplayOrderResult.arrival_reference_price r)) is (results rep)"
    by (rule replay_all_pointwise) (use result_reference in blast)
  with assms(2) show ?thesis by (auto simp: list_all2_conv_all_nth in_set_conv_nth)
qed

lemma event_references:
  assumes "run_risk_gated_gateway H bs es run k m reqs cost s a = Inr r" "v \<in> set (events r)"
    "\<forall>b \<in> set bs. 0 < open_price b"
  shows "opt_all (\<lambda>p. 0 < p) (ExecutionGatewayLifecycleEvent.arrival_reference_price v)"
proof (rule gateway_parts [OF assms(1)])
  fix g :: RiskGatedReplayResult
  let ?rs = "case replay_report g of None \<Rightarrow> [] | Some rep \<Rightarrow> results rep"
  let ?look = "map_of (rev (zip (map RiskCheckEvent.risk_check_id (filter forwarded es)) ?rs))"
  assume g: "replay_risk_approved_market_orders H bs es run cost s a = Inr g"
    and ev: "list_all2 (\<lambda>e v. make_execution_gateway_lifecycle_event H k m run e
       (?look (RiskCheckEvent.risk_check_id e)) reqs = Inr v) es (events r)"
  obtain e where mk: "make_execution_gateway_lifecycle_event H k m run e (?look (RiskCheckEvent.risk_check_id e)) reqs = Inr v"
    using ev assms(2) by (auto simp: list_all2_conv_all_nth in_set_conv_nth)
  from mk show ?thesis
  proof (cases rule: make_event_cases)
    case blocked
    then show ?thesis by (simp add: blocked_event_draft_def)
  next
    case (replayed y i)
    have "y \<in> set ?rs" using map_of_SomeD [OF replayed(1)] by (auto dest: set_zip_rightD)
    then obtain rep where rep: "replay_report g = Some rep" "y \<in> set (results rep)"
      by (cases "replay_report g") simp_all
    then have "opt_all (\<lambda>p. \<exists>b \<in> set bs. p = open_price b) (ReplayOrderResult.arrival_reference_price y)"
      using gate_parts(4) [OF g] by (intro replay_references) auto
    then show ?thesis using replayed(4) assms(3) by (auto simp: replayed_event_draft_def opt_all_def split: option.splits)
  qed
qed

lemma report_states:
  assumes "run_risk_gated_gateway H bs es run k m reqs cost s a = Inr r"
  obtains g where "replay_risk_approved_market_orders H bs es run cost s a = Inr g"
    "source_replay_final_account_state r = Option.bind (replay_report g) ReplayReport.final_account_state"
    "valid_gateway_report H r" "ExecutionGatewayReport.gateway_kind r = k" "ExecutionGatewayReport.fill_mode r = m"
proof (rule gateway_parts [OF assms])
  fix g :: RiskGatedReplayResult
  assume g: "replay_risk_approved_market_orders H bs es run cost s a = Inr g"
    and mk: "make_execution_gateway_report H run k m g (events r) reqs = Inr r"
  define d where "d = gateway_report_draft H run k m g (events r) reqs"
  have r: "\<exists>i h. r = d\<lparr>ExecutionGatewayReport.gateway_report_id := i, ExecutionGatewayReport.gateway_report_hash := h\<rparr>" "valid_gateway_report H r"
    using mk by (auto simp: make_execution_gateway_report_def d_def [symmetric] Let_def bindE_Inr_iff
        construct_ExecutionGatewayReport_def valid_gateway_report_def)
  then obtain i h where e: "r = d\<lparr>ExecutionGatewayReport.gateway_report_id := i,
      ExecutionGatewayReport.gateway_report_hash := h\<rparr>" by blast
  have "source_replay_final_account_state r = source_replay_final_account_state d"
    "ExecutionGatewayReport.gateway_kind r = ExecutionGatewayReport.gateway_kind d"
    "ExecutionGatewayReport.fill_mode r = ExecutionGatewayReport.fill_mode d"
    using arg_cong [OF e, of source_replay_final_account_state] arg_cong [OF e, of ExecutionGatewayReport.gateway_kind]
      arg_cong [OF e, of ExecutionGatewayReport.fill_mode] by simp_all
  then show thesis using that [OF g _ r(2)] by (simp add: d_def gateway_report_draft_def Let_def)
qed

lemma build_account_state_id:
  "build_account_state a d = Inr x \<Longrightarrow> SimulatedAccountState.account_id x = SimulatedAccountState.account_id a"
  by (auto simp: build_account_state_def construct_SimulatedAccountState_def bindE_Inr_iff)

lemma final_account_continues:
  assumes "replay_ohlctv_market_orders H bs is run cost (Some s) (Some a) = Inr rep"
  shows "\<exists>f. ReplayReport.final_account_state rep = Some f \<and> SimulatedAccountState.account_id f = SimulatedAccountState.account_id a"
proof (rule replay_report_parts [OF assms])
  fix book final
  let ?k = "\<lparr>Book.snapshot = s, account_state = a, balance_state = balance_dict_of a\<rparr>"
  assume run: "replay_all H bs cost is (book_of (Some s) (Some a)) = Inr (results rep, book)"
    and f: "final_state book = Inr final" "ReplayReport.final_account_state rep = final"
  have "replay_all H bs cost is (Some ?k) = Inr (results rep, book)" using run by (simp add: book_of_def)
  from replay_all_ledger [OF this] obtain d where b: "book = Some (?k\<lparr>balance_state := d\<rparr>)" by blast
  then show ?thesis
    using f by (simp add: b final_state_def bindE_Inr_iff) (metis build_account_state_id)
qed

lemma paper_run_states:
  assumes "run_risk_gated_gateway H bs es run k m reqs cost (Some s) (Some a) = Inr r" "valid_account_state a"
  shows "session_states_ok r a"
proof (rule report_states [OF assms(1)])
  fix g :: RiskGatedReplayResult
  assume g: "replay_risk_approved_market_orders H bs es run cost (Some s) (Some a) = Inr g"
    and st: "source_replay_final_account_state r = Option.bind (replay_report g) ReplayReport.final_account_state"
  have f: "\<exists>f. ReplayReport.final_account_state rep = Some f \<and> SimulatedAccountState.account_id f = SimulatedAccountState.account_id a"
    if "replay_report g = Some rep" for rep
    using gate_parts(4) [OF g] that final_account_continues by auto
  have "replay_report g \<noteq> None" if fl: "has_filled_events r"
  proof (rule gateway_parts [OF assms(1)])
    fix g' :: RiskGatedReplayResult
    assume g': "replay_risk_approved_market_orders H bs es run cost (Some s) (Some a) = Inr g'"
      and ev: "list_all2 (\<lambda>e v. make_execution_gateway_lifecycle_event H k m run e
       (map_of (rev (zip (map RiskCheckEvent.risk_check_id (filter forwarded es))
          (case replay_report g' of None \<Rightarrow> [] | Some rep \<Rightarrow> results rep))) (RiskCheckEvent.risk_check_id e)) reqs = Inr v)
     es (events r)"
    have e: "g' = g" using g g' by simp
    from fl obtain v where v: "v \<in> set (events r)" "event_filled v" by (auto simp: has_filled_events_def list_ex_iff)
    then obtain e where "make_execution_gateway_lifecycle_event H k m run e
       (map_of (rev (zip (map RiskCheckEvent.risk_check_id (filter forwarded es))
          (case replay_report g of None \<Rightarrow> [] | Some rep \<Rightarrow> results rep))) (RiskCheckEvent.risk_check_id e)) reqs = Inr v"
      using ev by (auto simp: e list_all2_conv_all_nth in_set_conv_nth)
    from make_event_shows(1) [OF this] show ?thesis
      using filled_unblocked [OF v(2)] by (cases "replay_report g") (auto simp: shows_block_def)
  qed
  then show ?thesis using assms(2) f by (cases "replay_report g") (auto simp: session_states_ok_def st)
qed

section \<open>Properties\<close>

text \<open>C30: A session report accounts for every gateway event exactly once: one order log each, in order
  and with the event's status, a fill log for each fill, with its price and quantity, and a rejection
  log for every other event.  Each of its counts is the number of gateway events of that status,
  so the filled and partially filled ones add up to the fill logs and the blocked, rejected and
  unfilled ones to the rejection logs; its quantity and cost totals are the sums over the fills.\<close>

theorem session_accounts_every_event:
  assumes "make_paper_account_session_report H g init final iid ih fid fh = Inr r"
  shows "map (\<lambda>l. (PaperOrderLifecycleLogEntry.gateway_event_id l, PaperOrderLifecycleLogEntry.status l)) (order_logs r)
      = map (\<lambda>v. (ExecutionGatewayLifecycleEvent.gateway_event_id v, ExecutionGatewayLifecycleEvent.status v)) (events g)
    \<and> list_all2 (\<lambda>v l. PaperFillLogEntry.gateway_event_id l = ExecutionGatewayLifecycleEvent.gateway_event_id v
        \<and> ExecutionGatewayLifecycleEvent.fill_price v = Some (PaperFillLogEntry.fill_price l)
        \<and> PaperFillLogEntry.filled_quantity l = ExecutionGatewayLifecycleEvent.filled_quantity v)
        (filter event_filled (events g)) (fill_logs r)
    \<and> list_all2 (\<lambda>v l. PaperRejectionLogEntry.gateway_event_id l = ExecutionGatewayLifecycleEvent.gateway_event_id v
        \<and> (rejection_source l = RISK \<longleftrightarrow> is_blocked v))
        (filter (\<lambda>v. \<not> event_filled v) (events g)) (rejection_logs r)
    \<and> total_order_count r = int (length (events g))
    \<and> filled_order_count r = events_with ExecutionGatewayOrderStatus.FILLED g
    \<and> partially_filled_order_count r = events_with ExecutionGatewayOrderStatus.PARTIALLY_FILLED g
    \<and> blocked_order_count r = events_with BLOCKED g
    \<and> rejected_order_count r = events_with ExecutionGatewayOrderStatus.REJECTED g
    \<and> unfilled_order_count r = events_with ExecutionGatewayOrderStatus.UNFILLED g
    \<and> filled_order_count r + partially_filled_order_count r = int (length (fill_logs r))
    \<and> blocked_order_count r + rejected_order_count r + unfilled_order_count r = int (length (rejection_logs r))
    \<and> filled_quantity_total r = fill_sum ExecutionGatewayLifecycleEvent.filled_quantity g
    \<and> PaperAccountSessionReport.fee_cost_total r = fill_sum ExecutionGatewayLifecycleEvent.fee_cost g
    \<and> PaperAccountSessionReport.spread_cost_total r = fill_sum ExecutionGatewayLifecycleEvent.spread_cost g
    \<and> PaperAccountSessionReport.slippage_cost_total r = fill_sum ExecutionGatewayLifecycleEvent.slippage_cost g
    \<and> total_execution_cost r = fill_sum ExecutionGatewayLifecycleEvent.total_cost g"
proof (rule session_parts [OF assms])
  fix ini fin os fs rs i h
  assume os: "list_all2 (\<lambda>v e. make_order_lifecycle_log_entry H g v = Inr e) (events g) os"
    and fs: "list_all2 (\<lambda>v e. make_fill_log_entry H g v = Inr e) (filter event_filled (events g)) fs"
    and rs: "list_all2 (\<lambda>v e. make_rejection_log_entry H g v = Inr e) (filter (\<lambda>v. \<not> event_filled v) (events g)) rs"
    and r: "r = (session_report_draft g init ini fin os fs rs)\<lparr>session_report_id := i, session_report_hash := h\<rparr>"
  have st: "map PaperOrderLifecycleLogEntry.status os = map ExecutionGatewayLifecycleEvent.status (events g)"
    by (rule list_all2_map_eq [OF os, symmetric]) (simp add: order_log_shows)
  have m: "map (\<lambda>l. (PaperOrderLifecycleLogEntry.gateway_event_id l, PaperOrderLifecycleLogEntry.status l)) os
      = map (\<lambda>v. (ExecutionGatewayLifecycleEvent.gateway_event_id v, ExecutionGatewayLifecycleEvent.status v)) (events g)"
    by (rule list_all2_map_eq [OF os, symmetric]) (simp add: order_log_shows)
  have n: "count_status os x = events_with x g" for x
    by (simp add: count_status_list events_with_def st)
  have t: "dec_sum (map PaperFillLogEntry.filled_quantity fs) = fill_sum ExecutionGatewayLifecycleEvent.filled_quantity g"
    "dec_sum (map PaperFillLogEntry.fee_cost fs) = fill_sum ExecutionGatewayLifecycleEvent.fee_cost g"
    "dec_sum (map PaperFillLogEntry.spread_cost fs) = fill_sum ExecutionGatewayLifecycleEvent.spread_cost g"
    "dec_sum (map PaperFillLogEntry.slippage_cost fs) = fill_sum ExecutionGatewayLifecycleEvent.slippage_cost g"
    "dec_sum (map PaperFillLogEntry.total_cost fs) = fill_sum ExecutionGatewayLifecycleEvent.total_cost g"
    unfolding fill_sum_def
    by (rule arg_cong [where f = dec_sum], rule list_all2_map_eq [OF fs, symmetric], simp add: fill_log_shows)+
  have f: "list_all2 (\<lambda>v l. PaperFillLogEntry.gateway_event_id l = ExecutionGatewayLifecycleEvent.gateway_event_id v
        \<and> ExecutionGatewayLifecycleEvent.fill_price v = Some (PaperFillLogEntry.fill_price l)
        \<and> PaperFillLogEntry.filled_quantity l = ExecutionGatewayLifecycleEvent.filled_quantity v)
        (filter event_filled (events g)) fs"
    using fs by (rule list.rel_mono_strong) (simp add: fill_log_shows)
  have x: "list_all2 (\<lambda>v l. PaperRejectionLogEntry.gateway_event_id l = ExecutionGatewayLifecycleEvent.gateway_event_id v
        \<and> (rejection_source l = RISK \<longleftrightarrow> is_blocked v)) (filter (\<lambda>v. \<not> event_filled v) (events g)) rs"
    using rs by (rule list.rel_mono_strong) (simp add: rejection_log_shows rejection_source_of_def is_blocked_def)
  show ?thesis
    using m t f x status_counts [of "events g"] list_all2_lengthD [OF fs] list_all2_lengthD [OF rs] list_all2_lengthD [OF os]
    by (simp add: r n) (simp add: events_with_def)
qed

text \<open>C29: The final account state of a session is never invented: when the gateway replayed one, the
  report carries it and anything the caller supplied agrees with it; with fills and no replayed state
  the caller must have named the state; and a session without fills ends as the caller says or,
  when it says nothing, as it began.\<close>

theorem session_final_state:
  assumes "make_paper_account_session_report H g init final iid ih fid fh = Inr r"
  shows "case source_replay_final_account_state g of
      Some a \<Rightarrow> PaperAccountSessionReport.final_account_state r = Some a
        \<and> final_account_state_source r = PaperAccountStateSource.GATEWAY_REPLAY
        \<and> final_account_state_hash r = build_paper_account_state_hash H a
        \<and> opt_all (\<lambda>b. build_paper_account_state_hash H b = build_paper_account_state_hash H a) final
        \<and> opt_all (\<lambda>x. x = final_account_state_hash r) fh \<and> opt_all (\<lambda>x. x = final_account_state_id r) fid
    | None \<Rightarrow>
        if final_account_state_source r = UNCHANGED_FROM_INITIAL
        then \<not> has_filled_events g \<and> final = None \<and> fid = None \<and> fh = None \<and> init \<noteq> None
          \<and> PaperAccountSessionReport.final_account_state r = init
          \<and> final_account_state_hash r = initial_account_state_hash r
        else final_account_state_source r = EXPLICIT_LINKAGE
          \<and> PaperAccountSessionReport.final_account_state r = final
          \<and> opt_all (\<lambda>b. final_account_state_hash r = build_paper_account_state_hash H b) final
          \<and> opt_all (\<lambda>x. x = final_account_state_hash r) fh \<and> opt_all (\<lambda>x. x = final_account_state_id r) fid
          \<and> (has_filled_events g \<longrightarrow> fid \<noteq> None \<and> fh \<noteq> None)"
proof (rule session_parts [OF assms])
  fix ini fin os fs rs i h
  assume a: "resolve_account_state_identity H init iid ih ''initial'' = Inr ini"
    and b: "resolve_final_account_state H g init final fid fh = Inr fin"
    and r: "r = (session_report_draft g init ini fin os fs rs)\<lparr>session_report_id := i, session_report_hash := h\<rparr>"
  show ?thesis
    using a b
    by (auto simp: r resolve_final_account_state_def resolve_account_state_identity_def guardE_Inr_iff bindE_Inr_iff
        raise_if_supplied_final_conflicts_with_gateway_def Let_def opt_all_def split: option.splits if_splits)
qed

text \<open>C28: No look-ahead in the cost report: it has one row for each fill, in order, whose reference is the
  midpoint of a quote of the fill's instrument and venue that was known when the order was sent, with
  no later such quote, or the replay's reference when there is no such quote; every fill without a
  quote and every event without a fill has exactly one issue.\<close>

theorem tca_no_lookahead:
  assumes "make_paper_tca_report H g qs = Inr r"
  shows "list_all2 (\<lambda>v w. measures qs v w
        \<and> (\<forall>q. arrival_quote_for_event v qs = Some q \<longrightarrow> q \<in> set qs \<and> known_quote v q
             \<and> (\<forall>p \<in> set qs. known_quote v p \<longrightarrow> StreamEnvelopeBase.event_ts p \<le> StreamEnvelopeBase.event_ts q))
        \<and> (arrival_quote_for_event v qs = None \<longrightarrow> (\<forall>q \<in> set qs. \<not> known_quote v q)))
      (filter event_filled (events g)) (rows r)
    \<and> map PaperTcaIssue.gateway_event_id (issues r)
        = map ExecutionGatewayLifecycleEvent.gateway_event_id (filter (unmeasured qs) (events g))"
proof (rule tca_parts [OF assms])
  fix ps i h
  assume st: "list_all2 (\<lambda>v p. tca_step H g qs v = Inr p) (events g) ps"
    and r: "r = (tca_report_draft g (concat (map fst ps)) (concat (map snd ps)))\<lparr>tca_report_id := i, tca_report_hash := h\<rparr>"
  have p: "rows r = concat (map fst ps)" "issues r = concat (map snd ps)"
    by (simp_all add: r tca_report_draft_def)
  show ?thesis
    unfolding p using tca_steps(2) [OF st]
    by (intro conjI list.rel_mono_strong [OF tca_steps(1) [OF st]])
      (blast dest: arrival_quote_latest arrival_quote_None [THEN iffD1])+
qed

lemma paper_trading_ok:
  assumes "digest_ok H" "gateway_inputs_ok H bs es run cost (Some s) (Some a)" "valid_account_state a"
    and "list_all (\<lambda>q. construct_QuoteEvent q = Inr q) qs"
  shows "\<exists>g r t. run_paper_gateway_replay H bs es run cost (Some s) (Some a) = Inr g \<and> valid_gateway_report H g
    \<and> make_paper_account_session_report H g (Some a) None None None None None = Inr r
    \<and> make_paper_tca_report H g qs = Inr t"
proof -
  obtain g where g: "run_risk_gated_gateway H bs es run PAPER PAPER_SIMULATED_FILL paper_requirements cost
      (Some s) (Some a) = Inr g"
    using gateway_ok [OF assms(1,2) requirements_ok(2), of PAPER PAPER_SIMULATED_FILL]
    by (auto simp: validate_gateway_fill_mode_def gateway_fill_mode_checks_def)
  have "\<forall>b \<in> set bs. 0 < open_price b" using assms(2) by (simp add: gateway_inputs_ok_def replay_inputs_ok_def)
  then have "references_positive g" using event_references [OF g] by (simp add: references_positive_def list_all_iff)
  then have "paper_report H g" by (rule_tac report_states [OF g]) (simp add: paper_report_def)
  then show ?thesis
    using session_ok [OF assms(1)] tca_ok [OF assms(1) _ assms(4)] paper_run_states [OF g assms(3)] g
    by (fastforce simp: run_paper_gateway_replay_def paper_report_def)
qed

text \<open>C31: Paper trading ends with its accounts.  Let the risk events be valid with distinct check ids
  and requested quantities of at most 28 digits; let the approved intents be valid, in submission
  order with distinct order ids and of at most 28 digits; let the bars be valid, safe and open at positive
  prices, the cost model, where given, and the account be valid, and the quotes valid; and let open prices and
  approved quantities stay below \<open>10^28\<close> ticks and lots of the active constraint.  Then the
  paper gateway run, its session report and its cost report are all produced: no check of any
  contract on the way fails.\<close>

theorem paper_trading_reports:
  assumes "digest_ok H" "gateway_inputs_ok H bs es run cost (Some s) (Some a)" "valid_account_state a"
    and "list_all (\<lambda>q. construct_QuoteEvent q = Inr q) qs"
  shows "\<exists>g r t. run_paper_gateway_replay H bs es run cost (Some s) (Some a) = Inr g
    \<and> make_paper_account_session_report H g (Some a) None None None None None = Inr r
    \<and> make_paper_tca_report H g qs = Inr t"
  using paper_trading_ok [OF assms] by blast

end
