(* ===== verification/Readiness.thy ===== *)
theory Readiness
  imports ReadinessConfig ModelReports StrategyGate PaperAccounting
begin

text \<open>
  The paper-readiness report, second half of \<open>observability/paper_readiness.py\<close>: fifteen metrics are
  read off the reports of the other components, each configured rule whose metric breaches its
  threshold becomes a routed alert, and the report carries both.  The theory shows that the
  report is always produced for valid, linked inputs under the built-in configuration, that its
  alerts are exactly the rules breached, and which conditions can therefore not pass unseen.
\<close>

section \<open>Links to the sources\<close>

definition report_link ::
  "string \<Rightarrow> string \<Rightarrow> string \<Rightarrow> string list \<Rightarrow> string list \<Rightarrow> string option \<Rightarrow> string list
   \<Rightarrow> PaperReadinessMetricSourceLink result" where
  "report_link contract rid rhash flds reqs run mids = construct_PaperReadinessMetricSourceLink
     \<lparr>PaperReadinessMetricSourceLink.source_contract = contract, source_id = rid, source_hash = Some rhash,
      report_id = Some rid, report_hash = Some rhash, run_id = run, trace_id = None, source_event_id = None,
      source_metric_ids = mids, source_fields = flds, requirement_ids = reqs\<rparr>"

definition paper_account_report_link :: "PaperAccountSessionReport \<Rightarrow> PaperReadinessMetricSourceLink result" where
  "paper_account_report_link r = report_link ''PaperAccountSessionReport'' (session_report_id r) (session_report_hash r)
     [''total_execution_cost'', ''rejected_order_count'', ''blocked_order_count'', ''final_account_state_source'']
     (PaperAccountSessionReport.requirement_ids r) (Some (PaperAccountSessionReport.run_id r))
     [''total_execution_cost'', ''rejected_order_count'', ''final_account_state_source'']"

definition paper_tca_report_link :: "PaperTcaReport \<Rightarrow> PaperReadinessMetricSourceLink result" where
  "paper_tca_report_link r = report_link ''PaperTcaReport'' (tca_report_id r) (tca_report_hash r)
     [''error_count'', ''issue_ids'', ''total_cost_prediction_error'']
     (PaperTcaReport.requirement_ids r) (Some (PaperTcaReport.run_id r))
     [''error_count'', ''total_cost_prediction_error'']"

text \<open>\<open>model_copy\<close> sets the trace of the gateway link, without validation, when the events share one.\<close>

definition gateway_report_link :: "ExecutionGatewayReport \<Rightarrow> PaperReadinessMetricSourceLink result" where
  "gateway_report_link r =
     (let traces = unique_sorted (map (\<lambda>v. Some (ExecutionGatewayLifecycleEvent.trace_id v)) (events r)) in
      bindE (report_link ''ExecutionGatewayReport'' (ExecutionGatewayReport.gateway_report_id r)
        (ExecutionGatewayReport.gateway_report_hash r)
        [''events.status'', ''gateway_event_ids''] (ExecutionGatewayReport.requirement_ids r)
        (Some (ExecutionGatewayReport.run_id r))
        (map (\<lambda>v. ExecutionGatewayOrderStatus_value (ExecutionGatewayLifecycleEvent.status v)) (events r))) (\<lambda>l.
      Inr (l\<lparr>PaperReadinessMetricSourceLink.trace_id := (if length traces = 1 then Some (hd traces) else None)\<rparr>)))"

definition data_health_links :: "DataHealthSignal list \<Rightarrow> PaperReadinessMetricSourceLink list result" where
  "data_health_links ss =
     (if ss = [] then bindE (construct_PaperReadinessMetricSourceLink
        \<lparr>PaperReadinessMetricSourceLink.source_contract = ''DataHealthSignal'',
         source_id = ''DATAHEALTH:NO-SIGNALS'', source_hash = None, report_id = None, report_hash = None,
         run_id = None, trace_id = None, source_event_id = None, source_metric_ids = [],
         source_fields = [''data_health_signals''], requirement_ids = [''NFR-006'', ''RISK-014'']\<rparr>)
       (\<lambda>l. Inr [l])
      else mapE (\<lambda>s. construct_PaperReadinessMetricSourceLink
        \<lparr>PaperReadinessMetricSourceLink.source_contract = ''DataHealthSignal'',
         source_id = signal_id s, source_hash = None, report_id = None, report_hash = None,
         run_id = None, trace_id = None, source_event_id = Some (source_health_event_id s),
         source_metric_ids = map StreamHealthMetricName_value (source_metric_names s),
         source_fields = [''status'', ''reason_codes'', ''blocks_trading''],
         requirement_ids = [''NFR-006'', ''RISK-014'']\<rparr>) ss)"

definition risk_event_links :: "RiskCheckEvent list \<Rightarrow> PaperReadinessMetricSourceLink list result" where
  "risk_event_links vs =
     (if vs = [] then bindE (construct_PaperReadinessMetricSourceLink
        \<lparr>PaperReadinessMetricSourceLink.source_contract = ''RiskCheckEvent'',
         source_id = ''RISKCHECK:NO-EVENTS'', source_hash = None, report_id = None, report_hash = None,
         run_id = None, trace_id = None, source_event_id = None, source_metric_ids = [],
         source_fields = [''risk_events''], requirement_ids = [''FR-010'', ''NFR-004'', ''RISK-014'']\<rparr>)
       (\<lambda>l. Inr [l])
      else mapE (\<lambda>v. construct_PaperReadinessMetricSourceLink
        \<lparr>PaperReadinessMetricSourceLink.source_contract = ''RiskCheckEvent'',
         source_id = RiskCheckEvent.risk_check_id v, source_hash = Some (RiskCheckEvent.risk_check_hash v),
         report_id = None, report_hash = None,
         run_id = Some (RiskCheckRequest.run_id (RiskCheckEvent.request v)),
         trace_id = Some (RiskCheckRequest.trace_id (RiskCheckEvent.request v)),
         source_event_id = Some (RiskCheckEvent.risk_check_id v),
         source_metric_ids = map RiskLimitEvaluation.limit_id (RiskCheckEvent.limit_evaluations v),
         source_fields = [''active_kill_state'', ''final_decision'', ''reason_codes'', ''limit_evaluations'',
           ''request.loss_risk.max_drawdown_pct''],
         requirement_ids = RiskCheckEvent.requirement_ids v\<rparr>) vs)"

section \<open>What the metrics count\<close>

definition stale_signal :: "DataHealthSignal \<Rightarrow> bool" where
  "stale_signal s \<longleftrightarrow> CRITICAL_FRESHNESS_STALE \<in> set (DataHealthSignal.reason_codes s)"

definition kill_switch_blocked :: "RiskCheckEvent \<Rightarrow> bool" where
  "kill_switch_blocked v \<longleftrightarrow> RiskReasonCode.KILL_SWITCH_ACTIVE \<in> set (RiskCheckEvent.reason_codes v)
     \<or> active_kill_state v \<notin> {KillSwitchState.CLEAR, KillSwitchState.SOFT_LIMITED}"

definition pre_trade_blocked :: "RiskCheckEvent \<Rightarrow> bool" where
  "pre_trade_blocked v \<longleftrightarrow> final_decision v \<in> {RiskDecisionStatus.REJECTED, RiskDecisionStatus.NO_TRADE}"

definition hard_breaches :: "RiskCheckEvent list \<Rightarrow> RiskLimitEvaluation list" where
  "hard_breaches vs = filter (\<lambda>x. RiskLimitEvaluation.status x = HARD_BREACH)
     (concat (map RiskCheckEvent.limit_evaluations vs))"

definition gateway_rejection :: "PaperRejectionLogEntry \<Rightarrow> bool" where
  "gateway_rejection e \<longleftrightarrow> rejection_source e = PaperRejectionSource.GATEWAY_REPLAY"

definition count_of :: "('a \<Rightarrow> bool) \<Rightarrow> 'a list \<Rightarrow> decimal" where
  "count_of p xs = Dec (int (length (filter p xs))) 0"

definition flag_of :: "bool \<Rightarrow> decimal" where
  "flag_of b = (if b then Dec 1 0 else Dec 0 0)"

text \<open>\<open>max(..., default=Decimal("0"))\<close> keeps the first of equal values.\<close>

definition max_drawdown_of :: "RiskCheckEvent list \<Rightarrow> decimal" where
  "max_drawdown_of vs =
     (case map (\<lambda>v. max_drawdown_pct (RiskCheckRequest.loss_risk (RiskCheckEvent.request v))) vs of
        [] \<Rightarrow> 0 | x # xs \<Rightarrow> foldl py_max x xs)"

section \<open>Metrics\<close>

definition metric ::
  "string \<Rightarrow> PaperReadinessSignalGroup \<Rightarrow> string \<Rightarrow> decimal \<Rightarrow> decimal option
   \<Rightarrow> PaperReadinessMetricSourceLink list \<Rightarrow> PaperReadinessMetricEvidence result" where
  "metric mid grp lbl v thr ls = construct_PaperReadinessMetricEvidence
     \<lparr>PaperReadinessMetricEvidence.metric_id = mid, group = grp, label = lbl, current_value = v, threshold = thr,
      status = (if (case thr of None \<Rightarrow> False | Some t \<Rightarrow> t < v) then PaperReadinessMetricStatus.BREACHED
        else PaperReadinessMetricStatus.HEALTHY),
      source_links = ls, requirement_ids = default_requirements\<rparr>"

type_synonym metric_row =
  "string \<times> PaperReadinessSignalGroup \<times> string \<times> decimal \<times> decimal option \<times> PaperReadinessMetricSourceLink list"

text \<open>The rows of the returned tuple, in the source's order.\<close>

definition metric_rows ::
  "DataHealthSignal list \<Rightarrow> ModelValidationReport \<Rightarrow> StrategyGateReport \<Rightarrow> PaperAccountSessionReport
   \<Rightarrow> PaperTcaReport \<Rightarrow> RiskCheckEvent list
   \<Rightarrow> PaperReadinessMetricSourceLink list \<Rightarrow> PaperReadinessMetricSourceLink \<Rightarrow> PaperReadinessMetricSourceLink
   \<Rightarrow> PaperReadinessMetricSourceLink \<Rightarrow> PaperReadinessMetricSourceLink \<Rightarrow> PaperReadinessMetricSourceLink
   \<Rightarrow> PaperReadinessMetricSourceLink list \<Rightarrow> metric_row list" where
  "metric_rows ss m g a t vs dl ml sl al cl gl rl =
     [(METRIC_DATA_STALE_COUNT, PaperReadinessSignalGroup.DATA_HEALTH, ''Critical stale feed signals'',
        count_of stale_signal ss, Some (Dec 0 0), dl),
      (METRIC_DATA_BLOCKED_COUNT, PaperReadinessSignalGroup.DATA_HEALTH, ''Data-health blocks'',
        count_of blocks_trading ss, Some (Dec 0 0), dl),
      (METRIC_MODEL_CALIBRATION_ERROR, PaperReadinessSignalGroup.MODEL_VALIDATION, ''Model calibration error'',
        ModelMetricSet.calibration_error (candidate_metrics m), Some (Dec 5 (-2)), [ml]),
      (METRIC_MODEL_VALIDATION_BLOCKER_COUNT, PaperReadinessSignalGroup.MODEL_VALIDATION, ''Model validation blockers'',
        flag_of (recommendation m = ModelGateRecommendation.BLOCKED), Some (Dec 0 0), [ml]),
      (METRIC_STRATEGY_NO_TRADE_QUALITY_DELTA, PaperReadinessSignalGroup.STRATEGY,
        ''Skipped-vs-taken no-trade utility delta'', skipped_vs_taken_mean_utility g, Some (Dec 5 (-3)), [sl]),
      (METRIC_STRATEGY_COST_DRAG_NOTIONAL, PaperReadinessSignalGroup.STRATEGY, ''Strategy cost-drag notional'',
        cost_drag_notional g, None, [sl]),
      (METRIC_PORTFOLIO_TOTAL_EXECUTION_COST, PaperReadinessSignalGroup.PORTFOLIO,
        ''Paper account execution-cost total'', PaperAccountSessionReport.total_execution_cost a, None, [al]),
      (METRIC_PORTFOLIO_MAX_DRAWDOWN_PCT, PaperReadinessSignalGroup.PORTFOLIO, ''Max drawdown telemetry'',
        max_drawdown_of vs, Some (Dec 5 (-2)), rl),
      (METRIC_PORTFOLIO_ACCOUNT_STATE_LINKAGE_GAP, PaperReadinessSignalGroup.PORTFOLIO,
        ''Explicit-only account-state linkage gap'', flag_of (final_account_state_source a = EXPLICIT_LINKAGE),
        Some (Dec 0 0), [al]),
      (METRIC_EXECUTION_TCA_ERROR_COUNT, PaperReadinessSignalGroup.EXECUTION, ''Paper TCA error rows'',
        Dec (error_count t) 0, Some (Dec 0 0), [cl, gl]),
      (METRIC_EXECUTION_ORDER_REJECT_COUNT, PaperReadinessSignalGroup.EXECUTION, ''Gateway replay order rejects'',
        count_of gateway_rejection (rejection_logs a), Some (Dec 0 0), [al, gl]),
      (METRIC_EXECUTION_COST_PREDICTION_ERROR_ABS, PaperReadinessSignalGroup.EXECUTION,
        ''Absolute paper TCA cost prediction error'', dec_abs (PaperTcaReport.total_cost_prediction_error t), None, [cl]),
      (METRIC_RISK_KILL_SWITCH_BLOCK_COUNT, PaperReadinessSignalGroup.RISK, ''Kill-switch risk blocks'',
        count_of kill_switch_blocked vs, Some (Dec 0 0), rl),
      (METRIC_RISK_PRE_TRADE_BLOCK_COUNT, PaperReadinessSignalGroup.RISK,
        ''Independent pre-trade blocked/no-trade events'', count_of pre_trade_blocked vs, Some (Dec 0 0), rl),
      (METRIC_RISK_HARD_BREACH_COUNT, PaperReadinessSignalGroup.RISK, ''Risk hard-breach evaluations'',
        Dec (int (length (hard_breaches vs))) 0, Some (Dec 0 0), rl)]"

definition build_metric_evidence ::
  "DataHealthSignal list \<Rightarrow> ModelValidationReport \<Rightarrow> StrategyGateReport \<Rightarrow> PaperAccountSessionReport
   \<Rightarrow> PaperTcaReport \<Rightarrow> ExecutionGatewayReport \<Rightarrow> RiskCheckEvent list \<Rightarrow> PaperReadinessMetricEvidence list result" where
  "build_metric_evidence ss m g a t x vs =
     bindE (data_health_links ss) (\<lambda>dl.
     bindE (report_link ''ModelValidationReport'' (ModelValidationReport.report_id m) (ModelValidationReport.report_hash m)
       [''candidate_metrics'', ''recommendation''] (ModelValidationReport.requirement_ids m) None []) (\<lambda>ml.
     bindE (report_link ''StrategyGateReport'' (StrategyGateReport.report_id g) (StrategyGateReport.report_hash g)
       [''skipped_vs_taken_mean_utility'', ''cost_drag_notional''] (StrategyGateReport.requirement_ids g) None []) (\<lambda>sl.
     bindE (paper_account_report_link a) (\<lambda>al.
     bindE (paper_tca_report_link t) (\<lambda>cl.
     bindE (gateway_report_link x) (\<lambda>gl.
     bindE (risk_event_links vs) (\<lambda>rl.
       mapE (\<lambda>(mid, grp, lbl, v, thr, ls). metric mid grp lbl v thr ls)
         (metric_rows ss m g a t vs dl ml sl al cl gl rl))))))))"

section \<open>The report\<close>

definition rule_breaches :: "PaperReadinessAlertRule \<Rightarrow> PaperReadinessMetricEvidence \<Rightarrow> bool" where
  "rule_breaches u e =
     (let v = PaperReadinessMetricEvidence.current_value e; t = PaperReadinessAlertRule.threshold u in
      case PaperReadinessAlertRule.operator u of
        GREATER_THAN \<Rightarrow> t < v
      | GREATER_THAN_OR_EQUAL \<Rightarrow> t \<le> v
      | LESS_THAN \<Rightarrow> v < t
      | LESS_THAN_OR_EQUAL \<Rightarrow> v \<le> t
      | EQUAL \<Rightarrow> dec_eq v t)"

definition validate_report_linkage ::
  "ExecutionGatewayReport \<Rightarrow> PaperAccountSessionReport \<Rightarrow> PaperTcaReport \<Rightarrow> unit result" where
  "validate_report_linkage x a t =
     guardE (PaperAccountSessionReport.gateway_report_id a = ExecutionGatewayReport.gateway_report_id x)
       (ValueError ''paper account report does not link to execution gateway report'')
    (guardE (PaperAccountSessionReport.gateway_report_hash a = ExecutionGatewayReport.gateway_report_hash x)
       (ValueError ''paper account report hash does not link to execution gateway report'')
    (guardE (PaperTcaReport.gateway_report_id t = ExecutionGatewayReport.gateway_report_id x)
       (ValueError ''paper TCA report does not link to execution gateway report'')
    (guardE (PaperTcaReport.gateway_report_hash t = ExecutionGatewayReport.gateway_report_hash x)
       (ValueError ''paper TCA report hash does not link to execution gateway report'')
       (Inr ()))))"

text \<open>\<open>{metric.metric_id: metric for ...}\<close>: the last metric with an identifier wins.\<close>

definition metric_by_id :: "PaperReadinessMetricEvidence list \<Rightarrow> string \<Rightarrow> PaperReadinessMetricEvidence option" where
  "metric_by_id ms = map_of (rev (map (\<lambda>e. (PaperReadinessMetricEvidence.metric_id e, e)) ms))"

definition breached_rule :: "PaperReadinessMetricEvidence list \<Rightarrow> PaperReadinessAlertRule \<Rightarrow> bool" where
  "breached_rule ms u \<longleftrightarrow> (case metric_by_id ms (PaperReadinessAlertRule.metric_id u) of
     None \<Rightarrow> False | Some e \<Rightarrow> rule_breaches u e)"

definition route_alerts ::
  "digest \<Rightarrow> PaperReadinessAlertRule list \<Rightarrow> PaperReadinessMetricEvidence list \<Rightarrow> PaperReadinessAlertEvent list result" where
  "route_alerts H us ms =
     mapE (\<lambda>u. make_paper_readiness_alert_event H u (the (metric_by_id ms (PaperReadinessAlertRule.metric_id u))))
       (filter (breached_rule ms) us)"

text \<open>An empty tuple of rules is falsy, so it selects the built-in rules like \<open>None\<close>.\<close>

definition selected_rules :: "digest \<Rightarrow> PaperReadinessAlertRule list option \<Rightarrow> PaperReadinessAlertRule list result" where
  "selected_rules H us = (case us of
     Some (u # us') \<Rightarrow> Inr (u # us') | _ \<Rightarrow> make_default_paper_readiness_alert_rules H)"

definition selected_dashboard :: "digest \<Rightarrow> PaperReadinessDashboardSpec option \<Rightarrow> PaperReadinessDashboardSpec result" where
  "selected_dashboard H b = (case b of
     Some b' \<Rightarrow> Inr b' | None \<Rightarrow> make_default_paper_readiness_dashboard_spec H)"

definition build_paper_readiness_observability_report ::
  "digest \<Rightarrow> datetime \<Rightarrow> DataHealthSignal list \<Rightarrow> ModelValidationReport \<Rightarrow> StrategyGateReport
   \<Rightarrow> PaperAccountSessionReport \<Rightarrow> PaperTcaReport \<Rightarrow> ExecutionGatewayReport \<Rightarrow> RiskCheckEvent list
   \<Rightarrow> PaperReadinessDashboardSpec option \<Rightarrow> PaperReadinessAlertRule list option
   \<Rightarrow> PaperReadinessObservabilityReport result" where
  "build_paper_readiness_observability_report H ts ss m g a t x vs dash us' =
     bindE (validate_report_linkage x a t) (\<lambda>_.
     bindE (selected_dashboard H dash) (\<lambda>b.
     bindE (selected_rules H us') (\<lambda>us.
     bindE (build_metric_evidence ss m g a t x vs) (\<lambda>ms.
     bindE (route_alerts H us ms) (\<lambda>al.
       make_paper_readiness_observability_report H ts b us ms al default_requirements)))))"

section \<open>The values of the metrics\<close>

text \<open>Each metric identifier with the value it must have.\<close>

definition metric_list ::
  "DataHealthSignal list \<Rightarrow> ModelValidationReport \<Rightarrow> StrategyGateReport \<Rightarrow> PaperAccountSessionReport
   \<Rightarrow> PaperTcaReport \<Rightarrow> RiskCheckEvent list \<Rightarrow> decimal list" where
  "metric_list ss m g a t vs =
     [count_of stale_signal ss, count_of blocks_trading ss, ModelMetricSet.calibration_error (candidate_metrics m),
      flag_of (recommendation m = ModelGateRecommendation.BLOCKED), skipped_vs_taken_mean_utility g,
      cost_drag_notional g, PaperAccountSessionReport.total_execution_cost a, max_drawdown_of vs,
      flag_of (final_account_state_source a = EXPLICIT_LINKAGE), Dec (error_count t) 0,
      count_of gateway_rejection (rejection_logs a), dec_abs (PaperTcaReport.total_cost_prediction_error t),
      count_of kill_switch_blocked vs, count_of pre_trade_blocked vs, Dec (int (length (hard_breaches vs))) 0]"

definition metric_values ::
  "DataHealthSignal list \<Rightarrow> ModelValidationReport \<Rightarrow> StrategyGateReport \<Rightarrow> PaperAccountSessionReport
   \<Rightarrow> PaperTcaReport \<Rightarrow> RiskCheckEvent list \<Rightarrow> (string \<times> decimal) list" where
  "metric_values ss m g a t vs = zip all_metric_ids (metric_list ss m g a t vs)"

lemma metric_Inr:
  assumes "metric mid grp lbl v thr ls = Inr e"
  shows "PaperReadinessMetricEvidence.metric_id e = mid \<and> PaperReadinessMetricEvidence.current_value e = v
    \<and> PaperReadinessMetricEvidence.source_links e = ls"
  using assms by (auto simp: metric_def construct_PaperReadinessMetricEvidence_def)

lemma metric_rows_values:
  assumes "mapE (\<lambda>(mid, grp, lbl, v, thr, ls). metric mid grp lbl v thr ls)
      (metric_rows ss m g a t vs dl ml sl al cl gl rl) = Inr ms"
  shows "map (\<lambda>e. (PaperReadinessMetricEvidence.metric_id e, PaperReadinessMetricEvidence.current_value e)) ms
    = metric_values ss m g a t vs"
proof -
  let ?rows = "metric_rows ss m g a t vs dl ml sl al cl gl rl"
  have "list_all2 (\<lambda>r e. (PaperReadinessMetricEvidence.metric_id e, PaperReadinessMetricEvidence.current_value e)
      = (fst r, fst (snd (snd (snd r))))) ?rows ms"
    using assms unfolding mapE_Inr_iff
    by (rule list_all2_mono) (auto dest: metric_Inr split: prod.splits)
  then have "map (\<lambda>e. (PaperReadinessMetricEvidence.metric_id e, PaperReadinessMetricEvidence.current_value e)) ms
      = map (\<lambda>r. (fst r, fst (snd (snd (snd r))))) ?rows"
    by (rule list_all2_map_eq [symmetric]) simp
  also have "\<dots> = metric_values ss m g a t vs"
    by (simp add: metric_rows_def metric_values_def metric_list_def all_metric_ids_def)
  finally show ?thesis .
qed

lemma evidence_values:
  assumes "build_metric_evidence ss m g a t x vs = Inr ms"
  shows "map (\<lambda>e. (PaperReadinessMetricEvidence.metric_id e, PaperReadinessMetricEvidence.current_value e)) ms
    = metric_values ss m g a t vs"
  using assms unfolding build_metric_evidence_def by (elim bindE_InrE) (rule metric_rows_values)

lemma metric_values_keys: "map fst (metric_values ss m g a t vs) = all_metric_ids"
  by (simp add: metric_values_def metric_list_def all_metric_ids_def)

lemma evidence_ids:
  assumes "build_metric_evidence ss m g a t x vs = Inr ms"
  shows "map PaperReadinessMetricEvidence.metric_id ms = all_metric_ids"
  using arg_cong [OF evidence_values [OF assms], of "map fst"] by (simp add: comp_def metric_values_keys)

lemma metric_by_id_Some:
  assumes "distinct (map PaperReadinessMetricEvidence.metric_id ms)"
  shows "metric_by_id ms i = Some e \<longleftrightarrow> e \<in> set ms \<and> PaperReadinessMetricEvidence.metric_id e = i"
proof -
  have "distinct (map fst (rev (map (\<lambda>e. (PaperReadinessMetricEvidence.metric_id e, e)) ms)))"
    using assms by (simp add: comp_def rev_map [symmetric])
  then show ?thesis unfolding metric_by_id_def by (auto simp: map_of_eq_Some_iff)
qed

text \<open>What a rule says of a value.\<close>

definition crosses :: "PaperReadinessAlertOperator \<Rightarrow> decimal \<Rightarrow> decimal \<Rightarrow> bool" where
  "crosses oper v t = (case oper of
     GREATER_THAN \<Rightarrow> t < v | GREATER_THAN_OR_EQUAL \<Rightarrow> t \<le> v | LESS_THAN \<Rightarrow> v < t
   | LESS_THAN_OR_EQUAL \<Rightarrow> v \<le> t | EQUAL \<Rightarrow> dec_eq v t)"

definition rule_fires :: "(string \<times> decimal) list \<Rightarrow> PaperReadinessAlertRule \<Rightarrow> bool" where
  "rule_fires values u \<longleftrightarrow> (case map_of values (PaperReadinessAlertRule.metric_id u) of
     None \<Rightarrow> False
   | Some v \<Rightarrow> crosses (PaperReadinessAlertRule.operator u) v (PaperReadinessAlertRule.threshold u))"

lemma metric_by_id_value:
  assumes "build_metric_evidence ss m g a t x vs = Inr ms"
  shows "map_option PaperReadinessMetricEvidence.current_value (metric_by_id ms i)
    = map_of (metric_values ss m g a t vs) i"
proof -
  let ?kv = "\<lambda>e. (PaperReadinessMetricEvidence.metric_id e, PaperReadinessMetricEvidence.current_value e)"
  have d: "distinct (map PaperReadinessMetricEvidence.metric_id ms)"
    by (simp add: evidence_ids [OF assms] metric_ids_distinct)
  then have dk: "distinct (map fst (map ?kv ms))" by (simp add: comp_def)
  have e: "map_of (metric_values ss m g a t vs) i = map_of (map ?kv ms) i"
    by (simp only: evidence_values [OF assms])
  show ?thesis
  proof (cases "metric_by_id ms i")
    case None
    then have "\<not> (y \<in> set ms \<and> PaperReadinessMetricEvidence.metric_id y = i)" for y
      using metric_by_id_Some [OF d, of i y] by simp
    then have "\<forall>y \<in> set ms. PaperReadinessMetricEvidence.metric_id y \<noteq> i" by blast
    then have "i \<notin> fst ` set (map ?kv ms)" by auto
    then have "map_of (map ?kv ms) i = None" unfolding map_of_eq_None_iff .
    with None e show ?thesis by simp
  next
    case (Some y)
    then have "(i, PaperReadinessMetricEvidence.current_value y) \<in> set (map ?kv ms)"
      using metric_by_id_Some [OF d] by auto
    then have "map_of (map ?kv ms) i = Some (PaperReadinessMetricEvidence.current_value y)"
      by (rule map_of_is_SomeI [OF dk])
    then show ?thesis unfolding e Some by simp
  qed
qed

lemma rule_breaches_crosses: "rule_breaches u e \<longleftrightarrow>
    crosses (PaperReadinessAlertRule.operator u) (PaperReadinessMetricEvidence.current_value e) (PaperReadinessAlertRule.threshold u)"
  by (simp add: rule_breaches_def crosses_def Let_def)

lemma breached_rule_fires:
  assumes "build_metric_evidence ss m g a t x vs = Inr ms"
  shows "breached_rule ms u \<longleftrightarrow> rule_fires (metric_values ss m g a t vs) u"
  unfolding breached_rule_def rule_fires_def metric_by_id_value [OF assms, symmetric] rule_breaches_crosses
  by (simp split: option.splits)

text \<open>An alert of a rule, with the value that crossed its threshold.\<close>

definition alert_of :: "(string \<times> decimal) list \<Rightarrow> PaperReadinessAlertRule \<Rightarrow> PaperReadinessAlertEvent \<Rightarrow> bool" where
  "alert_of values u e \<longleftrightarrow>
     PaperReadinessAlertEvent.rule_id e = PaperReadinessAlertRule.rule_id u
     \<and> PaperReadinessAlertEvent.metric_id e = PaperReadinessAlertRule.metric_id u
     \<and> PaperReadinessAlertEvent.category e = PaperReadinessAlertRule.category u
     \<and> PaperReadinessAlertEvent.severity e = PaperReadinessAlertRoute.severity (PaperReadinessAlertRule.route u)
     \<and> PaperReadinessAlertEvent.runbook_url e = PaperReadinessAlertRoute.runbook_url (PaperReadinessAlertRule.route u)
     \<and> map_of values (PaperReadinessAlertRule.metric_id u) = Some (PaperReadinessAlertEvent.current_value e)"

lemma alert_made:
  assumes "make_paper_readiness_alert_event H u e = Inr r"
  shows "valid_PaperReadinessAlertEvent H r" "\<exists>i h. r = (alert_draft u e)\<lparr>alert_id := i, alert_hash := h\<rparr>"
proof -
  let ?d = "alert_draft u e"
  have "(let h = build_paper_readiness_alert_event_hash H ?d in construct_PaperReadinessAlertEvent H
      (?d\<lparr>alert_id := build_paper_readiness_alert_event_id H h, alert_hash := h\<rparr>)) = Inr r"
    using assms by (simp add: make_paper_readiness_alert_event_def Let_def)
  from alert_contract.made_Inr [OF this]
  show "valid_PaperReadinessAlertEvent H r" "\<exists>i h. r = (alert_draft u e)\<lparr>alert_id := i, alert_hash := h\<rparr>"
    by (auto simp: valid_PaperReadinessAlertEvent_def)
qed

lemma alert_shows:
  assumes "make_paper_readiness_alert_event H u e = Inr r"
    and "map_of values (PaperReadinessAlertRule.metric_id u) = Some (PaperReadinessMetricEvidence.current_value e)"
  shows "alert_of values u r"
  using alert_made(2) [OF assms(1)] assms(2) by (auto simp: alert_of_def alert_draft_def Let_def)

lemma routed:
  assumes "build_metric_evidence ss m g a t x vs = Inr ms" "route_alerts H us ms = Inr al"
  shows "list_all2 (alert_of (metric_values ss m g a t vs)) (filter (rule_fires (metric_values ss m g a t vs)) us) al"
proof -
  let ?vals = "metric_values ss m g a t vs"
  have f: "filter (breached_rule ms) us = filter (rule_fires ?vals) us"
    using breached_rule_fires [OF assms(1)] by (intro filter_cong) simp_all
  have "list_all2 (\<lambda>u r. make_paper_readiness_alert_event H u
      (the (metric_by_id ms (PaperReadinessAlertRule.metric_id u))) = Inr r) (filter (rule_fires ?vals) us) al"
    using assms(2) unfolding route_alerts_def f mapE_Inr_iff .
  then show ?thesis
  proof (rule list.rel_mono_strong)
    fix u r assume "u \<in> set (filter (rule_fires ?vals) us)"
      and r: "make_paper_readiness_alert_event H u (the (metric_by_id ms (PaperReadinessAlertRule.metric_id u))) = Inr r"
    then have u: "rule_fires ?vals u" by simp
    obtain e where e: "metric_by_id ms (PaperReadinessAlertRule.metric_id u) = Some e"
      using u by (auto simp: breached_rule_fires [OF assms(1), symmetric] breached_rule_def split: option.splits)
    have "map_of ?vals (PaperReadinessAlertRule.metric_id u) = Some (PaperReadinessMetricEvidence.current_value e)"
      using metric_by_id_value [OF assms(1), of "PaperReadinessAlertRule.metric_id u"] by (simp add: e)
    then show "alert_of ?vals u r" using r by (simp add: e alert_shows)
  qed
qed

section \<open>Reports always come out\<close>

lemma canonical_non_empty: "canonical_id s \<Longrightarrow> non_empty_string s"
  by (cases s) (simp_all add: non_empty_string_def canonical_id_def [of "[]"])

lemma nat_text_digits: "nat_text n \<noteq> [] \<and> list_all digit_char (nat_text n)"
proof (induction n rule: nat_text.induct)
  case (1 n)
  have d: "digit_char (''0123456789'' ! k)" if "k < 10" for k :: nat
    unfolding digit_char_def using that by (intro nth_mem) simp
  show ?case
  proof (cases "n < 10")
    case True
    then show ?thesis using d by (subst (1 2) nat_text.simps) simp
  next
    case False
    then show ?thesis using 1 d [of "n mod 10"] by (subst (1 2) nat_text.simps) simp
  qed
qed

lemma digits_end:
  assumes "list_all digit_char s" "s \<noteq> []"
  shows "p @ s \<noteq> [] \<and> digit_char (last (p @ s))"
  using assms by (simp add: list_all_iff last_in_set)

text \<open>The digits with their point, and the whole text, end in a digit.\<close>

lemma decimal_body_end:
  assumes ds: "ds \<noteq> []" "list_all digit_char ds"
  shows "(let n = int (length ds); body = (if pt \<le> 0 then ''0.'' @ replicate (nat (- pt)) (CHR ''0'') @ ds
      else if n \<le> pt then ds @ replicate (nat (pt - n)) (CHR ''0'')
      else take (nat pt) ds @ ''.'' @ drop (nat pt) ds) in body \<noteq> [] \<and> digit_char (last body))"
proof -
  have z: "list_all digit_char (replicate k (CHR ''0''))" for k by (simp add: list_all_iff digit_char_def)
  consider "pt \<le> 0" | "0 < pt" "int (length ds) \<le> pt" | "0 < pt" "pt < int (length ds)" by linarith
  then show ?thesis
  proof cases
    case 1
    then show ?thesis
      using digits_end [OF ds(2,1), of "''0.'' @ replicate (nat (- pt)) (CHR ''0'')"] by (simp add: Let_def)
  next
    case 2
    then show ?thesis
      using digits_end [of "ds @ replicate (nat (pt - int (length ds))) (CHR ''0'')" "[]"] ds z by (simp add: Let_def)
  next
    case 3
    then have "drop (nat pt) ds \<noteq> []" by simp
    moreover have "list_all digit_char (drop (nat pt) ds)" using ds(2) by (auto simp: list_all_iff dest: in_set_dropD)
    ultimately show ?thesis
      using 3 digits_end [of "drop (nat pt) ds" "take (nat pt) ds @ ''.''"] by (simp add: Let_def)
  qed
qed

lemma signed_text_end: "signed_text i \<noteq> [] \<and> digit_char (last (signed_text i))"
  using nat_text_digits digits_end by (simp add: signed_text_def)

lemma decimal_text_end: "decimal_text d \<noteq> [] \<and> digit_char (last (decimal_text d))"
proof -
  define ds where "ds = nat_text (nat \<bar>coef d\<bar>)"
  define left where "left = expo d + int (length ds)"
  define pt where "pt = (if expo d \<le> 0 \<and> -6 < left then left else 1)"
  define body where "body = (if pt \<le> 0 then ''0.'' @ replicate (nat (- pt)) (CHR ''0'') @ ds
      else if int (length ds) \<le> pt then ds @ replicate (nat (pt - int (length ds))) (CHR ''0'')
      else take (nat pt) ds @ ''.'' @ drop (nat pt) ds)"
  have b: "body \<noteq> [] \<and> digit_char (last body)"
    using decimal_body_end [of ds pt] nat_text_digits by (simp only: ds_def body_def Let_def simp_thms)
  have e: "decimal_text d = (if coef d < 0 then ''-'' else []) @ body
      @ (if left = pt then [] else ''E'' @ signed_text (left - pt))"
    by (simp only: decimal_text_def Let_def body_def pt_def left_def ds_def)
  show ?thesis using b signed_text_end [of "left - pt"] unfolding e by simp
qed

lemma alert_message_text: "non_empty_string (alert_message u e)"
proof -
  have d: "decimal_text x \<noteq> []" "\<not> py_space (last (decimal_text x))" for x
    using decimal_text_end [of x] id_chars_no_space(2) by simp_all
  then show ?thesis
    by (intro non_empty_stringI)
      (cases "PaperReadinessAlertRule.category u"; simp add: alert_message_def py_space_def)+
qed

subsection \<open>Links\<close>

abbreviation link_ok :: "PaperReadinessMetricSourceLink \<Rightarrow> bool" where
  "link_ok l \<equiv> valid_PaperReadinessMetricSourceLink l"

definition links_ok :: "PaperReadinessMetricSourceLink list \<Rightarrow> bool" where
  "links_ok ls \<longleftrightarrow> ls \<noteq> [] \<and> list_all link_ok ls"

lemmas link_defs = valid_PaperReadinessMetricSourceLink_def construct_PaperReadinessMetricSourceLink_def
  source_link_fields_def

lemma report_link_ok:
  assumes "non_empty_string c" "canonical_id rid" "hex64 rhash" "list_all non_empty_string flds" "flds \<noteq> []"
    "list_all non_empty_string reqs" "opt_all canonical_id run" "list_all non_empty_string mids"
  shows "\<exists>l. report_link c rid rhash flds reqs run mids = Inr l \<and> link_ok l"
  using assms by (cases run; cases flds) (simp_all add: report_link_def link_defs canonical_non_empty)

lemma value_texts:
  "non_empty_string (StreamHealthMetricName_value n)"
  "non_empty_string (ExecutionGatewayOrderStatus_value st)"
  by (cases n; simp add: non_empty_stringI py_space_def) (cases st; simp add: non_empty_stringI py_space_def)

lemma unique_sorted_set: "set (unique_sorted xs) = {v. Some v \<in> set xs}"
  by (force simp: unique_sorted_def List.map_filter_def)

lemma link_texts:
  assumes "list_all link_ok ls"
  shows "list_all non_empty_string (link_run_ids ls)" "list_all non_empty_string (link_trace_ids ls)"
    "list_all non_empty_string (link_report_ids ls)" "list_all non_empty_string (link_source_ids ls)"
proof -
  have l: "opt_all non_empty_string (PaperReadinessMetricSourceLink.run_id l)"
    "opt_all non_empty_string (PaperReadinessMetricSourceLink.trace_id l)"
    "opt_all non_empty_string (PaperReadinessMetricSourceLink.report_id l)"
    "non_empty_string (PaperReadinessMetricSourceLink.source_id l)" if "l \<in> set ls" for l
    using assms that by (auto simp: list_all_iff link_defs)
  then show "list_all non_empty_string (link_run_ids ls)" "list_all non_empty_string (link_trace_ids ls)"
    "list_all non_empty_string (link_report_ids ls)" "list_all non_empty_string (link_source_ids ls)"
    by (auto simp: list_all_iff link_run_ids_def link_trace_ids_def link_report_ids_def link_source_ids_def
        unique_sorted_set) (metis opt_all_simps(2))+
qed

abbreviation valid_signal :: "DataHealthSignal \<Rightarrow> bool" where
  "valid_signal s \<equiv> construct_DataHealthSignal s = Inr s"

lemma data_health_links_ok:
  assumes "list_all valid_signal ss"
  shows "\<exists>ls. data_health_links ss = Inr ls \<and> links_ok ls"
proof (cases "ss = []")
  case True
  then show ?thesis
    by (simp add: data_health_links_def links_ok_def link_defs non_empty_stringI py_space_def)
next
  case False
  let ?f = "\<lambda>s. construct_PaperReadinessMetricSourceLink
        \<lparr>PaperReadinessMetricSourceLink.source_contract = ''DataHealthSignal'',
         source_id = signal_id s, source_hash = None, report_id = None, report_hash = None,
         run_id = None, trace_id = None, source_event_id = Some (source_health_event_id s),
         source_metric_ids = map StreamHealthMetricName_value (source_metric_names s),
         source_fields = [''status'', ''reason_codes'', ''blocks_trading''],
         requirement_ids = [''NFR-006'', ''RISK-014'']\<rparr>"
  have "\<exists>l. ?f s = Inr l" if "s \<in> set ss" for s
    using assms that by (simp add: list_all_iff construct_DataHealthSignal_def
        construct_PaperReadinessMetricSourceLink_def source_link_fields_def value_texts non_empty_stringI py_space_def)
  then obtain ls where ls: "mapE ?f ss = Inr ls" "\<forall>l \<in> set ls. \<exists>s \<in> set ss. ?f s = Inr l"
    using mapE_ok [of ss ?f] by blast
  have "link_ok l" if "l \<in> set ls" for l
    using ls(2) that by (auto simp: valid_PaperReadinessMetricSourceLink_def construct_PaperReadinessMetricSourceLink_def)
  moreover have "ls \<noteq> []" using mapE_length [OF ls(1)] False by auto
  ultimately show ?thesis
    using ls(1) False by (simp add: data_health_links_def links_ok_def list_all_iff)
qed

lemma mapE_links_ok:
  assumes "xs \<noteq> []"
    and "\<And>x. x \<in> set xs \<Longrightarrow> \<exists>l. construct_PaperReadinessMetricSourceLink (f x) = Inr l"
  shows "\<exists>ls. mapE (\<lambda>x. construct_PaperReadinessMetricSourceLink (f x)) xs = Inr ls \<and> links_ok ls"
proof -
  obtain ls where ls: "mapE (\<lambda>x. construct_PaperReadinessMetricSourceLink (f x)) xs = Inr ls"
      "\<forall>l \<in> set ls. \<exists>x \<in> set xs. construct_PaperReadinessMetricSourceLink (f x) = Inr l"
    using mapE_ok [of xs "\<lambda>x. construct_PaperReadinessMetricSourceLink (f x)"] assms(2) by blast
  have "link_ok l" if "l \<in> set ls" for l
    using ls(2) that by (auto simp: valid_PaperReadinessMetricSourceLink_def construct_PaperReadinessMetricSourceLink_def)
  moreover have "ls \<noteq> []" using mapE_length [OF ls(1)] assms(1) by auto
  ultimately show ?thesis using ls(1) by (simp add: links_ok_def list_all_iff)
qed

lemma valid_event_links:
  assumes "valid_event H v"
  shows "canonical_id (RiskCheckRequest.run_id (RiskCheckEvent.request v))"
    "canonical_id (RiskCheckRequest.trace_id (RiskCheckEvent.request v))"
    "list_all non_empty_string (map RiskLimitEvaluation.limit_id (RiskCheckEvent.limit_evaluations v))"
    "list_all non_empty_string (RiskCheckEvent.requirement_ids v)"
proof -
  have l: "list_all (\<lambda>x. construct_RiskLimitEvaluation x = Inr x) (RiskCheckEvent.limit_evaluations v)"
    and r: "valid_request H (RiskCheckEvent.request v)" "list_all non_empty_string (RiskCheckEvent.requirement_ids v)"
    using assms by (auto simp: valid_event_def construct_RiskCheckEvent_def Let_def)
  from l have "non_empty_string (RiskLimitEvaluation.limit_id x)" if "x \<in> set (RiskCheckEvent.limit_evaluations v)" for x
    using that by (auto simp: list_all_iff construct_RiskLimitEvaluation_def)
  with r(2) show "list_all non_empty_string (map RiskLimitEvaluation.limit_id (RiskCheckEvent.limit_evaluations v))"
    "list_all non_empty_string (RiskCheckEvent.requirement_ids v)"
    by (auto simp: list_all_iff)
  have f: "list_all fst (risk_request_fields H (RiskCheckEvent.request v))"
    using r(1) by (simp add: valid_request_def construct_RiskCheckRequest_def Let_def)
  then show "canonical_id (RiskCheckRequest.run_id (RiskCheckEvent.request v))"
    "canonical_id (RiskCheckRequest.trace_id (RiskCheckEvent.request v))"
    by (simp_all add: risk_request_fields_def)
qed

lemma risk_event_links_ok:
  assumes "list_all (valid_event H) vs"
  shows "\<exists>ls. risk_event_links vs = Inr ls \<and> links_ok ls"
proof (cases "vs = []")
  case True
  then show ?thesis
    by (simp add: risk_event_links_def links_ok_def link_defs non_empty_stringI py_space_def)
next
  case False
  show ?thesis
    unfolding risk_event_links_def if_not_P [OF False]
    by (rule mapE_links_ok [OF False])
      (use assms valid_event_links valid_event_parts(1,2) in \<open>auto simp: list_all_iff construct_PaperReadinessMetricSourceLink_def
        source_link_fields_def canonical_non_empty non_empty_stringI py_space_def\<close>)
qed

lemma valid_session_parts:
  assumes "valid_PaperAccountSessionReport H r"
  shows "canonical_id (session_report_id r)" "hex64 (session_report_hash r)" "canonical_id (PaperAccountSessionReport.run_id r)"
    "list_all non_empty_string (PaperAccountSessionReport.requirement_ids r)"
  using assms by (auto simp: valid_PaperAccountSessionReport_def construct_PaperAccountSessionReport_def session_report_fields_def)

lemma valid_tca_parts:
  assumes "valid_PaperTcaReport H r"
  shows "canonical_id (tca_report_id r)" "hex64 (tca_report_hash r)" "canonical_id (PaperTcaReport.run_id r)"
    "list_all non_empty_string (PaperTcaReport.requirement_ids r)"
  using assms by (auto simp: valid_PaperTcaReport_def construct_PaperTcaReport_def tca_report_fields_def)

lemma valid_model_report_parts:
  assumes "valid_ModelValidationReport H r"
  shows "canonical_id (ModelValidationReport.report_id r)" "hex64 (ModelValidationReport.report_hash r)"
    "list_all non_empty_string (ModelValidationReport.requirement_ids r)"
  using assms by (auto simp: valid_ModelValidationReport_def construct_ModelValidationReport_def Let_def
      model_validation_report_fields_def)

lemma valid_strategy_report_parts:
  assumes "valid_StrategyGateReport H r"
  shows "canonical_id (StrategyGateReport.report_id r)" "hex64 (StrategyGateReport.report_hash r)"
    "list_all non_empty_string (StrategyGateReport.requirement_ids r)"
  using assms by (auto simp: valid_StrategyGateReport_def construct_StrategyGateReport_def strategy_gate_report_fields_def)

lemma gateway_link_ok:
  assumes "valid_gateway_report H x"
  shows "\<exists>l. gateway_report_link x = Inr l \<and> link_ok l"
proof -
  note p = valid_gateway_report_parts [OF assms]
  let ?ts = "unique_sorted (map (\<lambda>v. Some (ExecutionGatewayLifecycleEvent.trace_id v)) (events x))"
  have "canonical_id (ExecutionGatewayLifecycleEvent.trace_id v)" if "v \<in> set (events x)" for v
    using p(2) that by (auto simp: list_all_iff valid_gateway_event_def construct_ExecutionGatewayLifecycleEvent_def
        gateway_event_checks_def Let_def gateway_event_fields_def)
  then have "\<forall>i \<in> set ?ts. non_empty_string i" by (auto simp: unique_sorted_set canonical_non_empty)
  then have t: "opt_all non_empty_string (if length ?ts = 1 then Some (hd ?ts) else None)"
    by (cases ?ts) simp_all
  have r: "list_all non_empty_string (ExecutionGatewayReport.requirement_ids x)"
    using p(1) by (simp add: gateway_report_fields_def)
  have m: "list_all non_empty_string
      (map (\<lambda>v. ExecutionGatewayOrderStatus_value (ExecutionGatewayLifecycleEvent.status v)) (events x))"
    by (simp add: list_all_iff value_texts)
  obtain l where l: "report_link ''ExecutionGatewayReport'' (ExecutionGatewayReport.gateway_report_id x)
        (ExecutionGatewayReport.gateway_report_hash x)
        [''events.status'', ''gateway_event_ids''] (ExecutionGatewayReport.requirement_ids x)
        (Some (ExecutionGatewayReport.run_id x))
        (map (\<lambda>v. ExecutionGatewayOrderStatus_value (ExecutionGatewayLifecycleEvent.status v)) (events x)) = Inr l" "link_ok l"
    using report_link_ok [OF _ p(5,6) _ _ r _ m, of "''ExecutionGatewayReport''" "[''events.status'', ''gateway_event_ids'']"
        "Some (ExecutionGatewayReport.run_id x)"] p(7) by (auto simp: non_empty_stringI py_space_def)
  have "link_ok (l\<lparr>PaperReadinessMetricSourceLink.trace_id := tr\<rparr>)" if "opt_all non_empty_string tr" for tr
    using l(2) that by (simp add: link_defs)
  with l(1) t show ?thesis by (simp add: gateway_report_link_def Let_def)
qed

lemma account_link_ok:
  assumes "valid_PaperAccountSessionReport H a"
  shows "\<exists>l. paper_account_report_link a = Inr l \<and> link_ok l"
  unfolding paper_account_report_link_def
  by (rule report_link_ok; use valid_session_parts [OF assms] in \<open>simp add: non_empty_stringI py_space_def\<close>)

lemma tca_link_ok:
  assumes "valid_PaperTcaReport H t"
  shows "\<exists>l. paper_tca_report_link t = Inr l \<and> link_ok l"
  unfolding paper_tca_report_link_def
  by (rule report_link_ok; use valid_tca_parts [OF assms] in \<open>simp add: non_empty_stringI py_space_def\<close>)

subsection \<open>Metrics, alerts and the report\<close>

lemma metric_ok:
  assumes "non_empty_string mid" "non_empty_string lbl" "links_ok ls"
  shows "\<exists>e. metric mid grp lbl v thr ls = Inr e"
  using assms by (cases thr; cases ls)
    (auto simp: metric_def construct_PaperReadinessMetricEvidence_def metric_evidence_fields_def links_ok_def
      default_requirements_def non_empty_stringI py_space_def)

lemma metric_valid:
  "metric mid grp lbl v thr ls = Inr e \<Longrightarrow> valid_PaperReadinessMetricEvidence e"
  by (auto simp: metric_def construct_PaperReadinessMetricEvidence_def valid_PaperReadinessMetricEvidence_def)

lemma metric_rows_ok:
  assumes "links_ok dl" "link_ok ml" "link_ok sl" "link_ok al" "link_ok cl" "link_ok gl" "links_ok rl"
  shows "\<exists>ms. mapE (\<lambda>(mid, grp, lbl, v, thr, ls). metric mid grp lbl v thr ls)
      (metric_rows ss m g a t vs dl ml sl al cl gl rl) = Inr ms \<and> list_all valid_PaperReadinessMetricEvidence ms"
proof -
  let ?rows = "metric_rows ss m g a t vs dl ml sl al cl gl rl"
  let ?f = "\<lambda>(mid, grp, lbl, v, thr, ls). metric mid grp lbl v thr ls"
  have l: "links_ok [ml]" "links_ok [sl]" "links_ok [al]" "links_ok [cl]" "links_ok [cl, gl]" "links_ok [al, gl]"
    using assms by (simp_all add: links_ok_def)
  have "list_all (\<lambda>(mid, grp, lbl, v, thr, ls). non_empty_string mid \<and> non_empty_string lbl \<and> links_ok ls) ?rows"
    using l assms metric_texts
    by (simp add: metric_rows_def all_metric_ids_def non_empty_stringI py_space_def)
  then have "\<exists>e. ?f r = Inr e" if "r \<in> set ?rows" for r
    using that metric_ok by (auto simp: list_all_iff)
  then obtain ms where ms: "mapE ?f ?rows = Inr ms" "\<forall>e \<in> set ms. \<exists>r \<in> set ?rows. ?f r = Inr e"
    using mapE_ok [of ?rows ?f] by blast
  have "valid_PaperReadinessMetricEvidence e" if "e \<in> set ms" for e
    using ms(2) that by (auto intro: metric_valid)
  with ms(1) show ?thesis by (auto simp: list_all_iff)
qed

lemma evidence_ok:
  assumes "list_all valid_signal ss" "valid_ModelValidationReport H m" "valid_StrategyGateReport H g"
    "valid_PaperAccountSessionReport H a" "valid_PaperTcaReport H t" "valid_gateway_report H x"
    "list_all (valid_event H) vs"
  shows "\<exists>ms. build_metric_evidence ss m g a t x vs = Inr ms \<and> list_all valid_PaperReadinessMetricEvidence ms"
proof -
  obtain dl where dl: "data_health_links ss = Inr dl" "links_ok dl" using data_health_links_ok [OF assms(1)] by blast
  obtain rl where rl: "risk_event_links vs = Inr rl" "links_ok rl" using risk_event_links_ok [OF assms(7)] by blast
  obtain gl where gl: "gateway_report_link x = Inr gl" "link_ok gl" using gateway_link_ok [OF assms(6)] by blast
  obtain ml where ml: "report_link ''ModelValidationReport'' (ModelValidationReport.report_id m)
      (ModelValidationReport.report_hash m) [''candidate_metrics'', ''recommendation'']
      (ModelValidationReport.requirement_ids m) None [] = Inr ml" "link_ok ml"
    using report_link_ok [OF _ valid_model_report_parts(1,2) [OF assms(2)] _ _ valid_model_report_parts(3) [OF assms(2)],
        of "''ModelValidationReport''" "[''candidate_metrics'', ''recommendation'']" None "[]"]
    by (auto simp: non_empty_stringI py_space_def)
  obtain sl where sl: "report_link ''StrategyGateReport'' (StrategyGateReport.report_id g)
      (StrategyGateReport.report_hash g) [''skipped_vs_taken_mean_utility'', ''cost_drag_notional'']
      (StrategyGateReport.requirement_ids g) None [] = Inr sl" "link_ok sl"
    using report_link_ok [OF _ valid_strategy_report_parts(1,2) [OF assms(3)] _ _ valid_strategy_report_parts(3) [OF assms(3)],
        of "''StrategyGateReport''" "[''skipped_vs_taken_mean_utility'', ''cost_drag_notional'']" None "[]"]
    by (auto simp: non_empty_stringI py_space_def)
  obtain al where al: "paper_account_report_link a = Inr al" "link_ok al" using account_link_ok [OF assms(4)] by blast
  obtain cl where cl: "paper_tca_report_link t = Inr cl" "link_ok cl" using tca_link_ok [OF assms(5)] by blast
  show ?thesis
    using metric_rows_ok [OF dl(2) ml(2) sl(2) al(2) cl(2) gl(2) rl(2)] dl(1) ml(1) sl(1) al(1) cl(1) gl(1) rl(1)
    by (simp add: build_metric_evidence_def)
qed

lemma valid_rule_parts:
  assumes "valid_PaperReadinessAlertRule H u"
  shows "canonical_id (PaperReadinessAlertRule.rule_id u)" "non_empty_string (PaperReadinessAlertRule.metric_id u)"
    "list_all non_empty_string (PaperReadinessAlertRule.requirement_ids u)"
    "valid_PaperReadinessAlertRoute H (PaperReadinessAlertRule.route u)"
proof -
  have "list_all fst (alert_rule_fields H u)"
    using assms by (simp add: valid_PaperReadinessAlertRule_def construct_PaperReadinessAlertRule_def Let_def)
  then show "canonical_id (PaperReadinessAlertRule.rule_id u)" "non_empty_string (PaperReadinessAlertRule.metric_id u)"
    "list_all non_empty_string (PaperReadinessAlertRule.requirement_ids u)"
    "valid_PaperReadinessAlertRoute H (PaperReadinessAlertRule.route u)"
    by (simp_all add: alert_rule_fields_def)
qed

lemma valid_route_parts:
  assumes "valid_PaperReadinessAlertRoute H t"
  shows "canonical_id (PaperReadinessAlertRoute.route_id t)" "non_empty_string (PaperReadinessAlertRoute.owner t)"
    "non_empty_string (PaperReadinessAlertRoute.runbook_url t)" "runbook_link (PaperReadinessAlertRoute.runbook_url t)"
proof -
  have "list_all fst (alert_route_fields t)" "runbook_link (PaperReadinessAlertRoute.runbook_url t)"
    using assms by (simp_all add: valid_PaperReadinessAlertRoute_def construct_PaperReadinessAlertRoute_def Let_def
        validate_runbook_link_def)
  then show "canonical_id (PaperReadinessAlertRoute.route_id t)" "non_empty_string (PaperReadinessAlertRoute.owner t)"
    "non_empty_string (PaperReadinessAlertRoute.runbook_url t)" "runbook_link (PaperReadinessAlertRoute.runbook_url t)"
    by (simp_all add: alert_route_fields_def)
qed

lemma alert_ok:
  assumes "digest_ok H" "valid_PaperReadinessAlertRule H u" "valid_PaperReadinessMetricEvidence e"
  shows "\<exists>r. make_paper_readiness_alert_event H u e = Inr r"
proof -
  note u = valid_rule_parts [OF assms(2)] and t = valid_route_parts [OF valid_rule_parts(4) [OF assms(2)]]
  have l: "list_all link_ok (PaperReadinessMetricEvidence.source_links e)"
    "1 \<le> length (PaperReadinessMetricEvidence.source_links e)"
    using assms(3) by (simp_all add: valid_PaperReadinessMetricEvidence_def construct_PaperReadinessMetricEvidence_def
        metric_evidence_fields_def)
  have "sound_alert H (alert_draft u e)"
    using assms(1) u t l link_texts [OF l(1)] alert_message_text
    by (simp add: sound_alert_def alert_draft_def Let_def alert_event_fields_def)
  from alert_contract.identified [OF this] show ?thesis
    by (auto simp: make_paper_readiness_alert_event_def Let_def)
qed

lemma valid_alert_id:
  assumes "valid_PaperReadinessAlertEvent H r"
  shows "canonical_id (alert_id r)"
proof -
  have "list_all fst (alert_event_fields r)"
    using assms by (simp add: valid_PaperReadinessAlertEvent_def construct_PaperReadinessAlertEvent_def Let_def)
  then show ?thesis by (simp add: alert_event_fields_def)
qed

lemma route_alerts_ok:
  assumes "digest_ok H" "build_metric_evidence ss m g a t x vs = Inr ms"
    "list_all valid_PaperReadinessMetricEvidence ms" "list_all (valid_PaperReadinessAlertRule H) us"
  shows "\<exists>al. route_alerts H us ms = Inr al \<and> list_all (valid_PaperReadinessAlertEvent H) al"
proof -
  let ?f = "\<lambda>u. make_paper_readiness_alert_event H u (the (metric_by_id ms (PaperReadinessAlertRule.metric_id u)))"
  have d: "distinct (map PaperReadinessMetricEvidence.metric_id ms)"
    by (simp add: evidence_ids [OF assms(2)] metric_ids_distinct)
  have "\<exists>r. ?f u = Inr r" if "u \<in> set (filter (breached_rule ms) us)" for u
  proof -
    from that obtain e where e: "metric_by_id ms (PaperReadinessAlertRule.metric_id u) = Some e" and u: "u \<in> set us"
      by (auto simp: breached_rule_def split: option.splits)
    then have "e \<in> set ms" using metric_by_id_Some [OF d] by blast
    then show ?thesis using alert_ok [OF assms(1)] assms(3,4) u e by (simp add: list_all_iff)
  qed
  then obtain al where al: "mapE ?f (filter (breached_rule ms) us) = Inr al"
      "\<forall>r \<in> set al. \<exists>u \<in> set (filter (breached_rule ms) us). ?f u = Inr r"
    using mapE_ok [of "filter (breached_rule ms) us" ?f] by blast
  have "valid_PaperReadinessAlertEvent H r" if "r \<in> set al" for r
    using al(2) that alert_made(1) by blast
  with al(1) show ?thesis by (auto simp: route_alerts_def list_all_iff)
qed

lemma list_all2_left: "list_all2 R xs ys \<Longrightarrow> x \<in> set xs \<Longrightarrow> \<exists>y \<in> set ys. R x y"
  by (induction rule: list_all2_induct) auto

lemma observability_report_ok:
  assumes "digest_ok H" "build_metric_evidence ss m g a t x vs = Inr ms" "list_all valid_PaperReadinessMetricEvidence ms"
    and us: "list_all (valid_PaperReadinessAlertRule H) us"
    and al: "route_alerts H us ms = Inr al" "list_all (valid_PaperReadinessAlertEvent H) al"
    and b: "valid_PaperReadinessDashboardSpec H b" "dashboard_metric_ids b = all_metric_ids"
  shows "returns (make_paper_readiness_observability_report H ts b us ms al default_requirements)"
proof -
  let ?vals = "metric_values ss m g a t vs"
  have refs: "PaperReadinessAlertEvent.rule_id r \<in> PaperReadinessAlertRule.rule_id ` set us
      \<and> PaperReadinessAlertEvent.metric_id r \<in> set all_metric_ids" if r: "r \<in> set al" for r
  proof -
    obtain u where u: "u \<in> set us" "alert_of ?vals u r"
      using list_all2_right [OF routed [OF assms(2) al(1)] r] by auto
    then have "PaperReadinessAlertRule.metric_id u \<in> set (map fst ?vals)"
      by (auto simp: alert_of_def dest: map_of_SomeD intro: rev_image_eqI)
    then show ?thesis using u unfolding metric_values_keys by (simp add: alert_of_def)
  qed
  define d where "d = observability_draft ts b us ms al default_requirements"
  have ids: "list_all canonical_id (map PaperReadinessAlertRule.rule_id us)" "list_all canonical_id (map alert_id al)"
    using us al(2) valid_rule_parts(1) valid_alert_id by (auto simp: list_all_iff)
  have "list_all link_ok (PaperReadinessMetricEvidence.source_links e)" if "e \<in> set ms" for e
    using assms(3) that by (auto simp: list_all_iff valid_PaperReadinessMetricEvidence_def
        construct_PaperReadinessMetricEvidence_def metric_evidence_fields_def)
  then have l: "list_all link_ok (evidence_links ms)" by (auto simp: evidence_links_def list_all_iff)
  have chk: "list_all fst (observability_report_checks d)"
    using refs b(2) by (simp add: observability_report_checks_def d_def observability_draft_def alert_references_def
        evidence_ids [OF assms(2)] list_all_iff)
  have "sound_observability H d"
    using assms(1,3) chk b us al(2) ids link_texts [OF l] metric_texts
    by (simp add: sound_observability_def observability_report_fields_def)
      (simp add: d_def observability_draft_def evidence_ids [OF assms(2)] default_requirements_def non_empty_stringI py_space_def)
  from observability_contract.identified [OF this] show ?thesis
    by (simp add: make_paper_readiness_observability_report_def d_def [symmetric] Let_def)
qed

text \<open>The account and TCA reports of the paper component are valid and carry the link.\<close>

lemma session_links:
  assumes "make_paper_account_session_report H g init final iid ih fid fh = Inr r"
  shows "valid_PaperAccountSessionReport H r"
    "PaperAccountSessionReport.gateway_report_id r = ExecutionGatewayReport.gateway_report_id g"
    "PaperAccountSessionReport.gateway_report_hash r = ExecutionGatewayReport.gateway_report_hash g"
proof -
  show "valid_PaperAccountSessionReport H r"
    using assms by (auto simp: make_paper_account_session_report_def bindE_Inr_iff Let_def
        valid_PaperAccountSessionReport_def construct_PaperAccountSessionReport_def)
  obtain ini fin os fs rs i h where
    r: "r = (session_report_draft g init ini fin os fs rs)\<lparr>session_report_id := i, session_report_hash := h\<rparr>"
    by (rule session_parts [OF assms])
  show "PaperAccountSessionReport.gateway_report_id r = ExecutionGatewayReport.gateway_report_id g"
    "PaperAccountSessionReport.gateway_report_hash r = ExecutionGatewayReport.gateway_report_hash g"
    by (simp_all add: r session_report_draft_def)
qed

lemma tca_links:
  assumes "make_paper_tca_report H g qs = Inr r"
  shows "valid_PaperTcaReport H r"
    "PaperTcaReport.gateway_report_id r = ExecutionGatewayReport.gateway_report_id g"
    "PaperTcaReport.gateway_report_hash r = ExecutionGatewayReport.gateway_report_hash g"
proof -
  show "valid_PaperTcaReport H r"
    using assms by (auto simp: make_paper_tca_report_def bindE_Inr_iff Let_def
        valid_PaperTcaReport_def construct_PaperTcaReport_def)
  obtain ps i h where
    r: "r = (tca_report_draft g (concat (map fst ps)) (concat (map snd ps)))\<lparr>tca_report_id := i, tca_report_hash := h\<rparr>"
    by (rule tca_parts [OF assms])
  show "PaperTcaReport.gateway_report_id r = ExecutionGatewayReport.gateway_report_id g"
    "PaperTcaReport.gateway_report_hash r = ExecutionGatewayReport.gateway_report_hash g"
    by (simp_all add: r tca_report_draft_def)
qed

section \<open>What the report shows\<close>

lemma readiness_Inr:
  assumes "build_paper_readiness_observability_report H ts ss m g a t x vs dash us' = Inr r"
  obtains b us ms al where "validate_report_linkage x a t = Inr ()" "selected_dashboard H dash = Inr b"
    "selected_rules H us' = Inr us" "build_metric_evidence ss m g a t x vs = Inr ms" "route_alerts H us ms = Inr al"
    "alert_rules r = us" "metric_evidence r = ms" "routed_alerts r = al" "valid_PaperReadinessObservabilityReport H r"
proof -
  obtain b us ms al where p: "validate_report_linkage x a t = Inr ()" "selected_dashboard H dash = Inr b"
    "selected_rules H us' = Inr us" "build_metric_evidence ss m g a t x vs = Inr ms" "route_alerts H us ms = Inr al"
    and k: "make_paper_readiness_observability_report H ts b us ms al default_requirements = Inr r"
    using assms unfolding build_paper_readiness_observability_report_def by (auto elim!: bindE_InrE)
  let ?d = "observability_draft ts b us ms al default_requirements"
  have "(let h = build_paper_readiness_observability_report_hash H ?d in construct_PaperReadinessObservabilityReport H
      (?d\<lparr>observability_report_id := build_paper_readiness_observability_report_id H h, observability_report_hash := h\<rparr>)) = Inr r"
    using k by (simp add: make_paper_readiness_observability_report_def Let_def)
  note made = observability_contract.made_Inr [OF this]
  have "alert_rules r = us" "metric_evidence r = ms" "routed_alerts r = al"
    using arg_cong [OF made(1), of alert_rules] arg_cong [OF made(1), of metric_evidence]
      arg_cong [OF made(1), of routed_alerts] by (simp_all add: observability_draft_def)
  with p made(2) show ?thesis by (intro that) (auto simp: valid_PaperReadinessObservabilityReport_def)
qed

text \<open>C33: The readiness report routes an alert for exactly the rules that fire.  When
  \<open>build_paper_readiness_observability_report\<close> returns, its evidence gives every metric the value
  counted from the inputs, and its alerts are, in the order of the configured rules, one for
  each rule whose metric crosses the rule's threshold and none for the others; an alert carries
  its rule's identity, category, severity and runbook and the value that fired it.
\<close>

theorem readiness_alerts_exact:
  assumes "build_paper_readiness_observability_report H ts ss m g a t x vs dash us = Inr r"
  shows "map (\<lambda>e. (PaperReadinessMetricEvidence.metric_id e, PaperReadinessMetricEvidence.current_value e)) (metric_evidence r)
      = metric_values ss m g a t vs
    \<and> list_all2 (alert_of (metric_values ss m g a t vs))
        (filter (rule_fires (metric_values ss m g a t vs)) (alert_rules r)) (routed_alerts r)"
proof -
  obtain us' ms al where "build_metric_evidence ss m g a t x vs = Inr ms" "route_alerts H us' ms = Inr al"
    "alert_rules r = us'" "metric_evidence r = ms" "routed_alerts r = al"
    by (rule readiness_Inr [OF assms])
  then show ?thesis using evidence_values routed by blast
qed

definition reports_linked ::
  "PaperAccountSessionReport \<Rightarrow> PaperTcaReport \<Rightarrow> ExecutionGatewayReport \<Rightarrow> bool" where
  "reports_linked a t x \<longleftrightarrow>
      PaperAccountSessionReport.gateway_report_id a = ExecutionGatewayReport.gateway_report_id x
      \<and> PaperAccountSessionReport.gateway_report_hash a = ExecutionGatewayReport.gateway_report_hash x
      \<and> PaperTcaReport.gateway_report_id t = ExecutionGatewayReport.gateway_report_id x
      \<and> PaperTcaReport.gateway_report_hash t = ExecutionGatewayReport.gateway_report_hash x"

definition readiness_inputs_ok ::
  "digest \<Rightarrow> DataHealthSignal list \<Rightarrow> ModelValidationReport \<Rightarrow> StrategyGateReport \<Rightarrow> PaperAccountSessionReport
   \<Rightarrow> PaperTcaReport \<Rightarrow> ExecutionGatewayReport \<Rightarrow> RiskCheckEvent list \<Rightarrow> bool" where
  "readiness_inputs_ok H ss m g a t x vs \<longleftrightarrow> list_all valid_signal ss \<and> valid_ModelValidationReport H m
     \<and> valid_StrategyGateReport H g \<and> valid_PaperAccountSessionReport H a \<and> valid_PaperTcaReport H t
     \<and> valid_gateway_report H x \<and> list_all (valid_event H) vs"

lemma readiness_ok:
  assumes "digest_ok H" and i: "readiness_inputs_ok H ss m g a t x vs"
  shows "returns (build_paper_readiness_observability_report H ts ss m g a t x vs None None) \<longleftrightarrow> reports_linked a t x"
proof -
  obtain ms where ms: "build_metric_evidence ss m g a t x vs = Inr ms" "list_all valid_PaperReadinessMetricEvidence ms"
    using evidence_ok i unfolding readiness_inputs_ok_def by blast
  obtain b where b: "make_default_paper_readiness_dashboard_spec H = Inr b" "valid_PaperReadinessDashboardSpec H b"
      "dashboard_metric_ids b = all_metric_ids"
    using default_dashboard [OF assms(1)] by blast
  obtain us where us: "make_default_paper_readiness_alert_rules H = Inr us" "list_all (valid_PaperReadinessAlertRule H) us"
    using default_alert_rules [OF assms(1)] by blast
  obtain al where al: "route_alerts H us ms = Inr al" "list_all (valid_PaperReadinessAlertEvent H) al"
    using route_alerts_ok [OF assms(1) ms us(2)] by blast
  have "returns (make_paper_readiness_observability_report H ts b us ms al default_requirements)"
    by (rule observability_report_ok [OF assms(1) ms us(2) al b(2,3)])
  then show ?thesis
    using ms(1) b(1) us(1) al(1)
    by (simp add: build_paper_readiness_observability_report_def validate_report_linkage_def guardE_def reports_linked_def
        selected_dashboard_def selected_rules_def)
qed

text \<open>C34: The readiness report exists for every linked set of valid inputs.  With the built-in
  dashboard and rules, valid data-health signals, risk events and reports, and an account and
  a TCA report that name the gateway report, \<open>build_paper_readiness_observability_report\<close> returns,
  whatever the digest; without the link it raises.
\<close>

theorem readiness_report_returns:
  assumes "digest_ok H" "readiness_inputs_ok H ss m g a t x vs"
  shows "returns (build_paper_readiness_observability_report H ts ss m g a t x vs None None) \<longleftrightarrow> reports_linked a t x"
  using assms by (rule readiness_ok)

text \<open>An alert of a category and severity is among those routed.\<close>

definition alerted ::
  "PaperReadinessObservabilityReport \<Rightarrow> PaperReadinessAlertCategory \<Rightarrow> PaperReadinessAlertSeverity \<Rightarrow> bool" where
  "alerted r cat sev \<longleftrightarrow> list_ex (\<lambda>y. PaperReadinessAlertEvent.category y = cat
     \<and> PaperReadinessAlertEvent.severity y = sev) (routed_alerts r)"

definition config_fires :: "(string \<times> decimal) list \<Rightarrow> AlertRuleConfig \<Rightarrow> bool" where
  "config_fires values c \<longleftrightarrow> (case map_of values (AlertRuleConfig.metric_id c) of
     None \<Rightarrow> False | Some v \<Rightarrow> crosses (AlertRuleConfig.operator c) v (AlertRuleConfig.threshold c))"

lemma default_alerted:
  assumes "digest_ok H" "build_paper_readiness_observability_report H ts ss m g a t x vs dash None = Inr r"
  shows "alerted r cat sev \<longleftrightarrow> list_ex (\<lambda>c. AlertRuleConfig.category c = cat \<and> AlertRuleConfig.severity c = sev
      \<and> config_fires (metric_values ss m g a t vs) c) (AlertConfig.rules DEFAULT_ALERT_CONFIG)"
proof -
  let ?vals = "metric_values ss m g a t vs"
  obtain us where us: "make_default_paper_readiness_alert_rules H = Inr us"
      "list_all2 rule_of_config (AlertConfig.rules DEFAULT_ALERT_CONFIG) us"
    using default_alert_rules [OF assms(1)] by blast
  obtain ms al where r: "build_metric_evidence ss m g a t x vs = Inr ms" "route_alerts H us ms = Inr al" "routed_alerts r = al"
    by (rule readiness_Inr [OF assms(2)]) (use us(1) in \<open>simp add: selected_rules_def\<close>)
  note rt = routed [OF r(1,2)]
  have fires: "rule_fires ?vals u = config_fires ?vals c" if "rule_of_config c u" for c u
    using that by (auto simp: rule_fires_def config_fires_def split: option.splits)
  show ?thesis
  proof
    assume "alerted r cat sev"
    then obtain y where y: "y \<in> set al" "PaperReadinessAlertEvent.category y = cat" "PaperReadinessAlertEvent.severity y = sev"
      by (auto simp: alerted_def r(3) list_ex_iff)
    obtain u where u: "u \<in> set us" "rule_fires ?vals u" "alert_of ?vals u y"
      using list_all2_right [OF rt y(1)] by auto
    obtain c where "c \<in> set (AlertConfig.rules DEFAULT_ALERT_CONFIG)" "rule_of_config c u"
      using list_all2_right [OF us(2) u(1)] by auto
    then show "list_ex (\<lambda>c. AlertRuleConfig.category c = cat \<and> AlertRuleConfig.severity c = sev \<and> config_fires ?vals c)
        (AlertConfig.rules DEFAULT_ALERT_CONFIG)"
      using y u fires [where c = c and u = u] by (auto simp: list_ex_iff alert_of_def)
  next
    assume "list_ex (\<lambda>c. AlertRuleConfig.category c = cat \<and> AlertRuleConfig.severity c = sev \<and> config_fires ?vals c)
        (AlertConfig.rules DEFAULT_ALERT_CONFIG)"
    then obtain c where c: "c \<in> set (AlertConfig.rules DEFAULT_ALERT_CONFIG)" "AlertRuleConfig.category c = cat"
        "AlertRuleConfig.severity c = sev" "config_fires ?vals c"
      by (auto simp: list_ex_iff)
    obtain u where u: "u \<in> set us" "rule_of_config c u" using list_all2_left [OF us(2) c(1)] by auto
    then have "u \<in> set (filter (rule_fires ?vals) us)" using fires c(4) by simp
    then obtain y where "y \<in> set al" "alert_of ?vals u y" using list_all2_left [OF rt] by blast
    then show "alerted r cat sev" using u c by (auto simp: alerted_def r(3) list_ex_iff alert_of_def)
  qed
qed

lemma count_positive: "Dec 0 0 < count_of p xs \<longleftrightarrow> list_ex p xs"
  by (auto simp: count_of_def less_dval dval_Dec list_ex_iff filter_empty_conv)

lemma flag_positive: "Dec 0 0 < flag_of b \<longleftrightarrow> b"
  by (simp add: flag_of_def less_dval dval_Dec)

lemma max_exceeds: "t < foldl py_max x xs \<longleftrightarrow> t < x \<or> list_ex (\<lambda>y. t < y) (xs :: decimal list)"
proof -
  have "dval t < dval (foldl py_max x xs) \<longleftrightarrow> dval t < dval x \<or> (\<exists>y \<in> set xs. dval t < dval y)"
    by (induction xs arbitrary: x) (simp_all add: dval_py_max less_max_iff_disj)
  then show ?thesis by (simp add: less_dval list_ex_iff)
qed

lemma drawdown_exceeds:
  "Dec 5 (-2) < max_drawdown_of vs \<longleftrightarrow>
     list_ex (\<lambda>v. Dec 5 (-2) < max_drawdown_pct (RiskCheckRequest.loss_risk (RiskCheckEvent.request v))) vs"
proof (cases vs)
  case Nil
  then show ?thesis by (simp add: max_drawdown_of_def less_dval dval_Dec)
next
  case (Cons v ws)
  then show ?thesis by (simp add: max_drawdown_of_def max_exceeds list_ex_iff)
qed

lemma metric_value_of:
  "map_of (metric_values ss m g a t vs) METRIC_DATA_STALE_COUNT = Some (count_of stale_signal ss)"
  "map_of (metric_values ss m g a t vs) METRIC_EXECUTION_TCA_ERROR_COUNT = Some (Dec (error_count t) 0)"
  "map_of (metric_values ss m g a t vs) METRIC_EXECUTION_ORDER_REJECT_COUNT = Some (count_of gateway_rejection (rejection_logs a))"
  "map_of (metric_values ss m g a t vs) METRIC_PORTFOLIO_MAX_DRAWDOWN_PCT = Some (max_drawdown_of vs)"
  "map_of (metric_values ss m g a t vs) METRIC_PORTFOLIO_ACCOUNT_STATE_LINKAGE_GAP = Some (flag_of (final_account_state_source a = EXPLICIT_LINKAGE))"
  "map_of (metric_values ss m g a t vs) METRIC_RISK_KILL_SWITCH_BLOCK_COUNT = Some (count_of kill_switch_blocked vs)"
  "map_of (metric_values ss m g a t vs) METRIC_RISK_PRE_TRADE_BLOCK_COUNT = Some (count_of pre_trade_blocked vs)"
proof -
  have v: "map_of (metric_values ss m g a t vs) (all_metric_ids ! i) = Some (metric_list ss m g a t vs ! i)" if "i < 15" for i
    unfolding metric_values_def
    using that metric_ids_distinct by (intro map_of_zip_nth) (simp_all add: all_metric_ids_def metric_list_def)
  from v [of 0] v [of 9] v [of 10] v [of 7] v [of 8] v [of 12] v [of 13]
  show "map_of (metric_values ss m g a t vs) METRIC_DATA_STALE_COUNT = Some (count_of stale_signal ss)"
    "map_of (metric_values ss m g a t vs) METRIC_EXECUTION_TCA_ERROR_COUNT = Some (Dec (error_count t) 0)"
    "map_of (metric_values ss m g a t vs) METRIC_EXECUTION_ORDER_REJECT_COUNT = Some (count_of gateway_rejection (rejection_logs a))"
    "map_of (metric_values ss m g a t vs) METRIC_PORTFOLIO_MAX_DRAWDOWN_PCT = Some (max_drawdown_of vs)"
    "map_of (metric_values ss m g a t vs) METRIC_PORTFOLIO_ACCOUNT_STATE_LINKAGE_GAP
      = Some (flag_of (final_account_state_source a = EXPLICIT_LINKAGE))"
    "map_of (metric_values ss m g a t vs) METRIC_RISK_KILL_SWITCH_BLOCK_COUNT = Some (count_of kill_switch_blocked vs)"
    "map_of (metric_values ss m g a t vs) METRIC_RISK_PRE_TRADE_BLOCK_COUNT = Some (count_of pre_trade_blocked vs)"
    by (simp_all add: all_metric_ids_def metric_list_def)
qed

text \<open>C35: No blind spot under the built-in rules.  In a report built with the default rules, a
  critical alert is routed if and only if a critical feed is stale, a risk event met a kill switch
  (or a kill state other than clear and soft-limited), or the TCA report has errors, and a warning if and only if the
  gateway rejected an order, a drawdown above five percent was seen, the final account state
  is only explicitly linked, or a risk event ended rejected or in no trade; each in its
  own category.
\<close>

theorem readiness_default_alerts:
  assumes "digest_ok H" "build_paper_readiness_observability_report H ts ss m g a t x vs dash None = Inr r"
  shows "(alerted r DATA_STALE CRITICAL \<longleftrightarrow> list_ex stale_signal ss)
    \<and> (alerted r RISK_KILL_SWITCH CRITICAL \<longleftrightarrow> list_ex kill_switch_blocked vs)
    \<and> (alerted r EXECUTION_TCA_ERROR CRITICAL \<longleftrightarrow> 0 < error_count t)
    \<and> (alerted r ORDER_REJECT WARNING \<longleftrightarrow> list_ex gateway_rejection (rejection_logs a))
    \<and> (alerted r PORTFOLIO_DRAWDOWN WARNING \<longleftrightarrow>
        list_ex (\<lambda>v. Dec 5 (-2) < max_drawdown_pct (RiskCheckRequest.loss_risk (RiskCheckEvent.request v))) vs)
    \<and> (alerted r PORTFOLIO_ACCOUNTING WARNING \<longleftrightarrow> final_account_state_source a = EXPLICIT_LINKAGE)
    \<and> (alerted r RISK_PRE_TRADE_BLOCK WARNING \<longleftrightarrow> list_ex pre_trade_blocked vs)"
  unfolding default_alerted [OF assms] DEFAULT_ALERT_CONFIG_def
  by (simp add: default_rules config_fires_def metric_value_of crosses_def count_positive flag_positive drawdown_exceeds)
    (simp add: less_dval dval_Dec)

end
