(* ===== verification/PaperExamples.thy ===== *)
theory PaperExamples
  imports GatewayExamples PaperAccounting
begin

text \<open>
  A paper session on the example order: the risk engine's answer is traded through the paper gateway
  against an account of 1000 units of the quote asset, and its reports are the witnesses of the
  paper properties.
\<close>

definition example_quote :: QuoteEvent where
  "example_quote = \<lparr>StreamEnvelopeBase.subscription_id = ''SUB:1'', source_id = ''SRC-001'', venue_id = ''VENUE:1'',
     event_ts = DT 15 0, source_ts = None, ingest_ts = DT 16 0, raw_payload_id = ''RAW:2'',
     QuoteEvent.quote_id = ''QUOTE:1'', instrument_id = ''BTC-USD'', best_bid = Dec 99 0, best_ask = Dec 101 0,
     sequence = None, quality_flags = []\<rparr>"

lemma example_quote_valid: "construct_QuoteEvent example_quote = Inr example_quote"
  by (simp add: construct_QuoteEvent_def example_quote_def envelope_fields_def sequence_field_def source_id_ok_def
      canonical_id_def upper_char_def digit_char_def non_empty_string_def strip_def py_space_def less_eq_datetime_def
      le_dval less_dval dval_Dec)

abbreviation example_capped :: OrderIntent where "example_capped \<equiv> example_intent BUY (Dec 1000 (-2))"

lemma example_capped_check: "increments_in_range example_book [example_bar] example_capped"
  by (simp add: increments_in_range_def increment_fits_def book_of_def active_constraints_def example_snapshot_def
      example_constraint_def example_bar_def example_intent_def dval_Dec dprec_def)

lemma example_paper_inputs:
  "\<exists>e. evaluate_pre_trade_risk H0 example_order example_policy = Inr e \<and> request e = example_order \<and> forwarded e
     \<and> gateway_inputs_ok H0 [example_bar] [e] ''RUN:1'' None (Some example_snapshot) (Some example_state)"
proof -
  obtain e where e: "evaluate_pre_trade_risk H0 example_order example_policy = Inr e" "valid_event H0 e"
    "request e = example_order" "approved_order_intent e = Some example_capped"
    "final_decision e = APPROVED_AFTER_CAP"
    using engine_ok [OF digest_ok_example example_order_valid example_policy_valid]
    by (auto simp: example_decision)
  have f: "forwarded e" using e by (simp add: forwarded_def approving_def)
  have "valid_OrderIntent example_capped" "fits (OrderIntent.quantity example_capped)"
    by (rule example_intent_valid, simp add: less_dval dval_Dec)
      (simp add: example_intent_def fits_small dprec_def)
  then have "gateway_inputs_ok H0 [example_bar] [e] ''RUN:1'' None (Some example_snapshot) (Some example_state)"
    using example_bar_valid example_safe(1) e f example_book_ok example_capped_check example_order_fits
    by (simp add: gateway_inputs_ok_def replay_inputs_ok_def cost_ok_def validate_order_intents_def)
  with e f show ?thesis by blast
qed

theorem paper_trading_reports_witness:
  "\<exists>e g r t. evaluate_pre_trade_risk H0 example_order example_policy = Inr e
     \<and> run_paper_gateway_replay H0 [example_bar] [e] ''RUN:1'' None (Some example_snapshot) (Some example_state) = Inr g
     \<and> make_paper_account_session_report H0 g (Some example_state) None None None None None = Inr r
     \<and> make_paper_tca_report H0 g [example_quote] = Inr t"
  using example_paper_inputs paper_trading_reports [OF digest_ok_example _ example_state_valid, of _ _ _ _ _ "[example_quote]"]
    example_quote_valid by (simp, blast)

lemma example_session:
  "\<exists>g r t. make_paper_account_session_report H0 g (Some example_state) None None None None None = Inr r
     \<and> make_paper_tca_report H0 g [example_quote] = Inr t
     \<and> length (events g) = 1 \<and> source_replay_final_account_state g \<noteq> None \<and> valid_gateway_report H0 g"
proof -
  obtain e g where e: "forwarded e"
    "run_risk_gated_gateway H0 [example_bar] [e] ''RUN:1'' PAPER PAPER_SIMULATED_FILL paper_requirements None
       (Some example_snapshot) (Some example_state) = Inr g"
    "gateway_inputs_ok H0 [example_bar] [e] ''RUN:1'' None (Some example_snapshot) (Some example_state)"
    using example_paper_inputs gateway_ok [OF digest_ok_example _ requirements_ok(2), of _ _ _ _ _ _ PAPER PAPER_SIMULATED_FILL]
    by (fastforce simp: validate_gateway_fill_mode_def gateway_fill_mode_checks_def)
  have l: "length (events g) = 1"
    by (rule gateway_parts [OF e(2)]) (auto dest: list_all2_lengthD)
  have "references_positive g"
    using event_references [OF e(2)] example_bar_valid(2) by (simp add: references_positive_def list_all_iff)
  then have p: "paper_report H0 g" by (rule_tac report_states [OF e(2)]) (simp add: paper_report_def)
  have s: "source_replay_final_account_state g \<noteq> None"
  proof (rule report_states [OF e(2)])
    fix x :: RiskGatedReplayResult
    assume x: "replay_risk_approved_market_orders H0 [example_bar] [e] ''RUN:1'' None (Some example_snapshot)
        (Some example_state) = Inr x"
      "source_replay_final_account_state g = Option.bind (replay_report x) ReplayReport.final_account_state"
    show ?thesis using gate_parts(4) [OF x(1)] e(1) x(2) final_account_continues
      by (cases "replay_report x") fastforce+
  qed
  show ?thesis
    using session_ok [OF digest_ok_example p paper_run_states [OF e(2) example_state_valid]]
      tca_ok [OF digest_ok_example p, of "[example_quote]"] example_quote_valid l s
      p [unfolded paper_report_def, THEN conjunct1] by (simp, blast)
qed

theorem session_accounts_every_event_witness:
  "\<exists>g r. make_paper_account_session_report H0 g (Some example_state) None None None None None = Inr r
     \<and> total_order_count r = 1 \<and> length (order_logs r) = 1"
proof -
  obtain g r where g: "make_paper_account_session_report H0 g (Some example_state) None None None None None = Inr r"
    "length (events g) = 1" using example_session by blast
  have "total_order_count r = int (length (events g))"
    "map (\<lambda>l. (PaperOrderLifecycleLogEntry.gateway_event_id l, PaperOrderLifecycleLogEntry.status l)) (order_logs r)
      = map (\<lambda>v. (ExecutionGatewayLifecycleEvent.gateway_event_id v, ExecutionGatewayLifecycleEvent.status v)) (events g)"
    using session_accounts_every_event [OF g(1)] by blast+
  moreover from this(2) have "length (order_logs r) = length (events g)" by (rule map_eq_imp_length_eq)
  ultimately show ?thesis using g by auto
qed

theorem session_final_state_witness:
  "\<exists>g r a. make_paper_account_session_report H0 g (Some example_state) None None None None None = Inr r
     \<and> final_account_state_source r = PaperAccountStateSource.GATEWAY_REPLAY
     \<and> PaperAccountSessionReport.final_account_state r = Some a"
proof -
  obtain g r where g: "make_paper_account_session_report H0 g (Some example_state) None None None None None = Inr r"
    "source_replay_final_account_state g \<noteq> None" using example_session by blast
  from g(2) obtain a where "source_replay_final_account_state g = Some a" by blast
  with session_final_state [OF g(1)] have "final_account_state_source r = PaperAccountStateSource.GATEWAY_REPLAY"
    "PaperAccountSessionReport.final_account_state r = Some a" by simp_all
  with g(1) show ?thesis by blast
qed

theorem tca_no_lookahead_witness:
  "\<exists>g t. make_paper_tca_report H0 g [example_quote] = Inr t \<and> length (events g) = 1
     \<and> length (rows t) = length (filter event_filled (events g))"
proof -
  obtain g t where g: "make_paper_tca_report H0 g [example_quote] = Inr t" "length (events g) = 1"
    using example_session by blast
  have "length (rows t) = length (filter event_filled (events g))"
    using tca_no_lookahead [OF g(1), THEN conjunct1, THEN list_all2_lengthD] by (rule sym)
  with g show ?thesis by blast
qed

end
