(* ===== verification/Strategy.thy ===== *)
theory Strategy
  imports Decisions
begin

text \<open>
  The expected-net-edge strategy, \<open>strategy/decisions.py\<close>: one forecast becomes a buy or no-trade
  decision with a pre-risk size.  The theory shows exactly when a decision buys, how large the
  proposed size can be, and when the function raises on valid inputs.
\<close>

section \<open>The decision\<close>

definition expected_return_from_forecast :: "Forecast \<Rightarrow> StrategyDecisionPolicy \<Rightarrow> decimal option" where
  "expected_return_from_forecast f p =
     (if expected_return_source p \<noteq> MEDIAN_QUANTILE then None
      else (case map quantile_value (filter (\<lambda>q. dec_eq (level q) (expected_return_quantile p)) (quantiles f)) of
              [v] \<Rightarrow> Some v | _ \<Rightarrow> None))"

definition breaches_threshold :: "decimal \<Rightarrow> decimal \<Rightarrow> bool" where
  "breaches_threshold v t = (if dec_eq t 0 then 0 < v else t \<le> v)"

definition classify_decision :: "decimal \<Rightarrow> decimal \<Rightarrow> decimal \<Rightarrow> decimal \<Rightarrow> StrategyDecisionPolicy \<Rightarrow> bool \<Rightarrow>
    StrategyDecisionAction \<times> StrategyDecisionReasonCode" where
  "classify_decision ret cost unc edge p unsupported =
     (if unsupported then (NO_TRADE, UNSUPPORTED_FORECAST)
      else if ret \<le> 0 then (NO_TRADE, NON_POSITIVE_EXPECTED_RETURN)
      else if breaches_threshold cost (max_expected_cost p) then (NO_TRADE, COST_THRESHOLD)
      else if breaches_threshold unc (max_uncertainty p) then (NO_TRADE, UNCERTAINTY_THRESHOLD)
      else if edge \<le> min_net_edge p then (NO_TRADE, INSUFFICIENT_NET_EDGE)
      else (StrategyDecisionAction.BUY, TRADE_POSITIVE_NET_EDGE))"

definition drawdown_blocks_size :: "StrategyDecisionAction \<Rightarrow> StrategySizingInputs option \<Rightarrow> bool" where
  "drawdown_blocks_size a s \<longleftrightarrow> a = StrategyDecisionAction.BUY \<and>
     (case s of None \<Rightarrow> False | Some x \<Rightarrow> max_drawdown x \<le> current_drawdown x)"

definition threshold_multiplier :: "decimal \<Rightarrow> decimal \<Rightarrow> decimal" where
  "threshold_multiplier v t =
     (if dec_eq t 0 then (if dec_eq v 0 then 1 else 0)
      else let m = 1 - v / t in if m \<le> 0 then 0 else if 1 \<le> m then 1 else m)"

definition sizing_reduction_reasons :: "decimal \<Rightarrow> decimal \<Rightarrow> decimal \<Rightarrow> decimal \<Rightarrow> decimal \<Rightarrow> decimal \<Rightarrow>
    StrategySizingReasonCode list" where
  "sizing_reduction_reasons cost cm unc um dd dm =
     (if 0 < cost then [if dec_eq cm 0 then COST_BLOCK else COST_REDUCTION] else [])
     @ (if 0 < unc then [if dec_eq um 0 then UNCERTAINTY_BLOCK else UNCERTAINTY_REDUCTION] else [])
     @ (if 0 < dd then [if dec_eq dm 0 then DRAWDOWN_BLOCK else DRAWDOWN_REDUCTION] else [])"

fun sizing_block_reason :: "StrategyDecisionReasonCode \<Rightarrow> StrategySizingReasonCode" where
  "sizing_block_reason COST_THRESHOLD = COST_BLOCK"
| "sizing_block_reason UNCERTAINTY_THRESHOLD = UNCERTAINTY_BLOCK"
| "sizing_block_reason DRAWDOWN_THRESHOLD = DRAWDOWN_BLOCK"
| "sizing_block_reason _ = NO_TRADE_ACTION"

text \<open>A proposal without size, with the reasons that blocked it.\<close>

definition blocked_proposal :: "StrategySizingInputs \<Rightarrow> StrategySizingReasonCode list \<Rightarrow> decimal \<Rightarrow>
    StrategySizingProposal" where
  "blocked_proposal s why m = default_sizing_proposal
     \<lparr>sizing_status := BLOCKED_BEFORE_INDEPENDENT_RISK, sizing_inputs := Some s, sizing_reason_codes := why,
      pre_risk_multiplier := m, proposed_notional := 0, proposed_quantity := 0\<rparr>"

definition pre_risk_multiplier_of :: "decimal \<Rightarrow> decimal \<Rightarrow> StrategyDecisionPolicy \<Rightarrow> StrategySizingInputs \<Rightarrow> decimal" where
  "pre_risk_multiplier_of cost unc p s =
     threshold_multiplier cost (max_expected_cost p) * threshold_multiplier unc (max_uncertainty p)
     * threshold_multiplier (current_drawdown s) (max_drawdown s)"

definition pre_risk_reasons :: "decimal \<Rightarrow> decimal \<Rightarrow> StrategyDecisionPolicy \<Rightarrow> StrategySizingInputs \<Rightarrow>
    StrategySizingReasonCode list" where
  "pre_risk_reasons cost unc p s = sizing_reduction_reasons cost (threshold_multiplier cost (max_expected_cost p))
     unc (threshold_multiplier unc (max_uncertainty p))
     (current_drawdown s) (threshold_multiplier (current_drawdown s) (max_drawdown s))"

definition pre_risk_draft :: "StrategyDecisionAction \<Rightarrow> StrategyDecisionReasonCode \<Rightarrow> decimal \<Rightarrow> decimal \<Rightarrow>
    StrategyDecisionPolicy \<Rightarrow> StrategySizingInputs option \<Rightarrow> StrategySizingProposal" where
  "pre_risk_draft a why cost unc p inputs =
     (case inputs of
        None \<Rightarrow> default_sizing_proposal
      | Some s \<Rightarrow>
          if a = NO_TRADE then blocked_proposal s [sizing_block_reason why] 0
          else if dec_eq (risk_budget_notional s) 0 then blocked_proposal s [ZERO_RISK_BUDGET] 0
          else
            let m = pre_risk_multiplier_of cost unc p s; reasons = pre_risk_reasons cost unc p s
            in if dec_eq m 0 then blocked_proposal s reasons m
               else let n = risk_budget_notional s * m in default_sizing_proposal
                    \<lparr>sizing_status := PROPOSED_PENDING_INDEPENDENT_RISK, sizing_inputs := Some s,
                     sizing_reason_codes := reasons @ [POSITIVE_PRE_RISK_SIZE], pre_risk_multiplier := m,
                     proposed_notional := n, proposed_quantity := n / reference_price s\<rparr>)"

definition propose_pre_risk_size :: "StrategyDecisionAction \<Rightarrow> StrategyDecisionReasonCode \<Rightarrow> decimal \<Rightarrow> decimal \<Rightarrow>
    StrategyDecisionPolicy \<Rightarrow> StrategySizingInputs option \<Rightarrow> StrategySizingProposal result" where
  "propose_pre_risk_size a why cost unc p inputs =
     construct_StrategySizingProposal (pre_risk_draft a why cost unc p inputs)"

definition decision_requirement_ids :: "StrategyDecisionPolicy \<Rightarrow> StrategySizingInputs option \<Rightarrow> string list" where
  "decision_requirement_ids p s =
     (case s of None \<Rightarrow> StrategyDecisionPolicy.requirement_ids p
      | Some x \<Rightarrow> rev (remdups (rev (StrategyDecisionPolicy.requirement_ids p @ StrategySizingInputs.requirement_ids x))))"

definition summarize_decision_reason_codes :: "StrategyDecision list \<Rightarrow> StrategyDecisionReasonCount list" where
  "summarize_decision_reason_codes ds = build_strategy_decision_reason_counts ds"

text \<open>The figures of a forecast under a policy: expected return, uncertainty buffer and net edge.\<close>

definition forecast_return :: "Forecast \<Rightarrow> StrategyDecisionPolicy \<Rightarrow> decimal" where
  "forecast_return f p = (case expected_return_from_forecast f p of None \<Rightarrow> 0 | Some v \<Rightarrow> v)"

definition forecast_buffer :: "Forecast \<Rightarrow> StrategyDecisionPolicy \<Rightarrow> decimal" where
  "forecast_buffer f p = Forecast.uncertainty f * uncertainty_buffer_multiplier p"

definition forecast_edge :: "Forecast \<Rightarrow> StrategyDecisionPolicy \<Rightarrow> decimal" where
  "forecast_edge f p = forecast_return f p - StrategyDecisionPolicy.expected_cost p - forecast_buffer f p"

text \<open>The action and its reason, after the drawdown override.\<close>

definition decided_action :: "Forecast \<Rightarrow> StrategyDecisionPolicy \<Rightarrow> StrategySizingInputs option \<Rightarrow>
    StrategyDecisionAction \<times> StrategyDecisionReasonCode" where
  "decided_action f p s =
     (let (a, why) = classify_decision (forecast_return f p) (StrategyDecisionPolicy.expected_cost p)
            (Forecast.uncertainty f) (forecast_edge f p) p (expected_return_from_forecast f p = None)
      in if drawdown_blocks_size a s then (NO_TRADE, DRAWDOWN_THRESHOLD) else (a, why))"

definition strategy_decision_draft :: "digest \<Rightarrow> Forecast \<Rightarrow> StrategyDecisionPolicy \<Rightarrow> string \<Rightarrow> datetime \<Rightarrow>
    StrategySizingInputs option \<Rightarrow> StrategySizingProposal \<Rightarrow> StrategyDecision" where
  "strategy_decision_draft H f p run ts s sz =
     \<lparr>StrategyDecision.decision_id = ''STRATEGYDECISION:PLACEHOLDER'', decision_hash = zero_hash,
      trace_id = build_strategy_trace_id H run (forecast_id f) (StrategyDecisionPolicy.policy_hash p) ts,
      strategy_run_id = run, policy_id = StrategyDecisionPolicy.policy_id p,
      policy_hash = StrategyDecisionPolicy.policy_hash p, source_forecast_id = forecast_id f,
      dataset_snapshot_id = Forecast.dataset_snapshot_id f, dataset_row_id = Forecast.dataset_row_id f,
      feature_vector_id = Forecast.feature_vector_id f,
      feature_input_snapshot_id = Forecast.feature_input_snapshot_id f,
      feature_version = Forecast.feature_version f,
      source_feature_snapshot_ids = Forecast.source_feature_snapshot_ids f,
      instrument_id = Forecast.instrument_id f, venue_id = Forecast.venue_id f,
      feature_ts = Forecast.feature_ts f, decision_ts = ts, label_rule_id = Forecast.label_rule_id f,
      split = Forecast.split f, training_run_id = Forecast.training_run_id f,
      model_version_id = Forecast.model_version_id f, model_version_hash = Forecast.model_version_hash f,
      action = fst (decided_action f p s), expected_return = forecast_return f p,
      expected_cost = StrategyDecisionPolicy.expected_cost p, uncertainty = Forecast.uncertainty f,
      uncertainty_buffer = forecast_buffer f p, net_edge = forecast_edge f p,
      reason_code = snd (decided_action f p s), sizing = sz,
      requirement_ids = decision_requirement_ids p s\<rparr>"

definition decide_expected_net_edge :: "digest \<Rightarrow> Forecast \<Rightarrow> StrategyDecisionPolicy \<Rightarrow> string \<Rightarrow> datetime \<Rightarrow>
    StrategySizingInputs option \<Rightarrow> StrategyDecision result" where
  "decide_expected_net_edge H f p run ts s =
     guardE (Forecast.split f \<noteq> TRAIN)
       (StrategyDecisionError ''strategy decisions require out-of-sample forecasts'')
     (bindE (propose_pre_risk_size (fst (decided_action f p s)) (snd (decided_action f p s))
              (StrategyDecisionPolicy.expected_cost p) (Forecast.uncertainty f) p s) (\<lambda>sz.
      let draft = strategy_decision_draft H f p run ts s sz;
          h = build_strategy_decision_hash H draft
      in construct_StrategyDecision H
           (draft\<lparr>decision_id := build_strategy_decision_id H h, decision_hash := h\<rparr>)))"

section \<open>Quantiles, thresholds and sizes\<close>

lemma expected_return_iff:
  assumes "valid_Forecast H f"
  shows "expected_return_from_forecast f p = Some v \<longleftrightarrow>
    (\<exists>q \<in> set (quantiles f). dec_eq (level q) (expected_return_quantile p) \<and> quantile_value q = v)"
proof -
  have s: "sorted_wrt (\<lambda>a b. level a < level b) (quantiles f)"
    using quantile_levels_sorted [OF valid_forecast_checks(3) [OF assms]] by simp
  have m: "expected_return_source p = MEDIAN_QUANTILE" by (cases "expected_return_source p") simp
  show ?thesis
  proof (cases "filter (\<lambda>q. dec_eq (level q) (expected_return_quantile p)) (quantiles f)")
    case Nil then show ?thesis by (auto simp: expected_return_from_forecast_def filter_empty_conv)
  next
    case (Cons q qs)
    then have "q \<in> set (quantiles f)" "dec_eq (level q) (expected_return_quantile p)"
      by (auto simp: filter_eq_Cons_iff)
    from quantile_at_level [OF s this] have e: "filter (\<lambda>q. dec_eq (level q) (expected_return_quantile p)) (quantiles f) = [q]" .
    then have "r = q" if "r \<in> set (quantiles f)" "dec_eq (level r) (expected_return_quantile p)" for r
      using quantile_at_level [OF s that] by simp
    then have u: "\<And>r. r \<in> set (quantiles f) \<Longrightarrow> dec_eq (level r) (expected_return_quantile p) \<Longrightarrow> r = q" .
    have v: "expected_return_from_forecast f p = Some (quantile_value q)"
      by (simp add: expected_return_from_forecast_def m e)
    show ?thesis
    proof
      assume "expected_return_from_forecast f p = Some v"
      then have "quantile_value q = v" using v by simp
      then show "\<exists>q \<in> set (quantiles f). dec_eq (level q) (expected_return_quantile p) \<and> quantile_value q = v"
        using \<open>q \<in> set (quantiles f)\<close> \<open>dec_eq (level q) (expected_return_quantile p)\<close> by blast
    next
      assume "\<exists>q \<in> set (quantiles f). dec_eq (level q) (expected_return_quantile p) \<and> quantile_value q = v"
      then obtain r where "r \<in> set (quantiles f)" "dec_eq (level r) (expected_return_quantile p)" "quantile_value r = v" by blast
      then show "expected_return_from_forecast f p = Some v" using u v by blast
    qed
  qed
qed

lemma threshold_multiplier_bounds: "0 \<le> dval (threshold_multiplier v t)" "dval (threshold_multiplier v t) \<le> 1"
  by (auto simp: threshold_multiplier_def Let_def le_dval)

lemma multiplier_bounds:
  "0 \<le> dval (pre_risk_multiplier_of cost unc p s)" "dval (pre_risk_multiplier_of cost unc p s) \<le> 1"
proof -
  let ?a = "threshold_multiplier cost (max_expected_cost p)" and ?b = "threshold_multiplier unc (max_uncertainty p)"
    and ?c = "threshold_multiplier (current_drawdown s) (max_drawdown s)"
  have one: "dval (1 * 1 :: decimal) = 1" by (simp add: dec_eval dval_Dec)
  have "dval (?a * ?b) \<le> dval (1 * 1)"
    by (rule dec_mult_mono) (use threshold_multiplier_bounds in \<open>simp add: mult_le_one\<close>)
  then have ab: "0 \<le> dval (?a * ?b)" "dval (?a * ?b) \<le> 1"
    using threshold_multiplier_bounds one by (simp_all add: dval_mult_sign)
  have "dval (?a * ?b * ?c) \<le> dval (1 * 1)"
    by (rule dec_mult_mono) (use threshold_multiplier_bounds ab in \<open>simp add: mult_le_one\<close>)
  then show "dval (pre_risk_multiplier_of cost unc p s) \<le> 1" "0 \<le> dval (pre_risk_multiplier_of cost unc p s)"
    using threshold_multiplier_bounds ab one
    by (simp_all add: pre_risk_multiplier_of_def dval_mult_sign)
qed

text \<open>Every proposal the function drafts passes its contract.\<close>

lemma valid_sizing_inputs:
  assumes "valid_StrategySizingInputs s"
  shows "0 \<le> dval (risk_budget_notional s)" "0 < dval (reference_price s)" "0 < dval (max_drawdown s)"
    "list_all non_empty_string (StrategySizingInputs.requirement_ids s)"
  using assms by (simp_all add: valid_StrategySizingInputs_def strategy_sizing_inputs_fields_def le_dval less_dval)

lemma no_sizing_inputs_reason: "NO_SIZING_INPUTS \<notin> set (pre_risk_reasons cost unc p s)"
  "sizing_block_reason why \<noteq> NO_SIZING_INPUTS"
  by (simp add: pre_risk_reasons_def sizing_reduction_reasons_def) (cases why; simp)

lemma no_reduction:
  assumes "dval v = 0" "0 \<le> dval t"
  shows "dval (threshold_multiplier v t) = 1"
proof (cases "dval t = 0")
  case False
  then have t: "0 < dval t" using assms(2) by simp
  have "dval (v / t) = 0"
    using ddiv_ge_fits [of v t 0] ddiv_le_fits [of v t 0] assms(1) t by simp
  then have "dval (1 - v / t) = dval (dfix 1)"
    unfolding minus_decimal_def by (intro dfix_cong) (simp add: dval_exact)
  then have "dval (1 - v / t) = 1" using fits_literals(2) by (simp add: fits_dval)
  then show ?thesis using False by (simp add: threshold_multiplier_def dec_eq_dval Let_def le_dval)
qed (use assms in \<open>simp add: threshold_multiplier_def dec_eq_dval\<close>)

lemma zero_multiplier_reasons:
  assumes "0 \<le> dval cost" "0 \<le> dval unc" "0 \<le> dval (current_drawdown s)" "0 \<le> dval (max_expected_cost p)"
    "0 \<le> dval (max_uncertainty p)" "0 \<le> dval (max_drawdown s)"
    and "dec_eq (pre_risk_multiplier_of cost unc p s) 0"
  shows "pre_risk_reasons cost unc p s \<noteq> []"
proof
  assume "pre_risk_reasons cost unc p s = []"
  then have "dval cost = 0" "dval unc = 0" "dval (current_drawdown s) = 0"
    using assms(1-3) by (auto simp: pre_risk_reasons_def sizing_reduction_reasons_def less_dval split: if_splits)
  then have "dval (pre_risk_multiplier_of cost unc p s) \<noteq> 0"
    using no_reduction assms(4-6) by (simp add: pre_risk_multiplier_of_def dval_mult_sign)
  then show False using assms(7) by (simp add: dec_eq_dval)
qed

text \<open>A size is blocked by a zero budget or a multiplier that vanishes.\<close>

definition size_blocked :: "decimal \<Rightarrow> decimal \<Rightarrow> StrategyDecisionPolicy \<Rightarrow> StrategySizingInputs \<Rightarrow> bool" where
  "size_blocked cost unc p s \<longleftrightarrow>
     dec_eq (risk_budget_notional s) 0 \<or> dec_eq (pre_risk_multiplier_of cost unc p s) 0"

lemma valid_policy_fields:
  assumes "valid_StrategyDecisionPolicy H p"
  shows "0 \<le> dval (StrategyDecisionPolicy.expected_cost p)" "0 \<le> dval (max_expected_cost p)" "0 \<le> dval (max_uncertainty p)"
    "0 \<le> dval (min_net_edge p)" "0 \<le> dval (uncertainty_buffer_multiplier p)"
    "canonical_id (StrategyDecisionPolicy.policy_id p)" "hex64 (StrategyDecisionPolicy.policy_hash p)"
    "list_all non_empty_string (StrategyDecisionPolicy.requirement_ids p)"
proof -
  have f: "list_all fst (strategy_decision_policy_fields p)"
    using assms by (simp add: valid_StrategyDecisionPolicy_def construct_StrategyDecisionPolicy_def Let_def)
  show "0 \<le> dval (StrategyDecisionPolicy.expected_cost p)" "0 \<le> dval (max_expected_cost p)" "0 \<le> dval (max_uncertainty p)"
    "0 \<le> dval (min_net_edge p)" "0 \<le> dval (uncertainty_buffer_multiplier p)"
    "canonical_id (StrategyDecisionPolicy.policy_id p)" "hex64 (StrategyDecisionPolicy.policy_hash p)"
    "list_all non_empty_string (StrategyDecisionPolicy.requirement_ids p)"
    using f by (simp_all add: strategy_decision_policy_fields_def le_dval)
qed

lemma pre_risk_draft_ok:
  assumes "opt_all valid_StrategySizingInputs s" "valid_StrategyDecisionPolicy H p" "0 \<le> dval cost" "0 \<le> dval unc"
  shows "construct_StrategySizingProposal (pre_risk_draft a why cost unc p s) = Inr (pre_risk_draft a why cost unc p s)"
proof (cases s)
  case None
  then show ?thesis
    by (simp add: pre_risk_draft_def construct_StrategySizingProposal_def strategy_sizing_proposal_fields_def
        sizing_proposal_checks_def default_sizing_proposal_def has_positive_size_def has_zero_size_def
        dec_eq_dval le_dval less_dval)
next
  case (Some x)
  then have v: "valid_StrategySizingInputs x" using assms(1) by simp
  note x = valid_sizing_inputs [OF v] and p = valid_policy_fields [OF assms(2)]
  have dd: "0 \<le> dval (current_drawdown x)"
    using v by (simp add: valid_StrategySizingInputs_def strategy_sizing_inputs_fields_def le_dval)
  let ?m = "pre_risk_multiplier_of cost unc p x"
  have b: "construct_StrategySizingProposal (blocked_proposal x why m) = Inr (blocked_proposal x why m)"
    if "why \<noteq> []" "NO_SIZING_INPUTS \<notin> set why" "0 \<le> dval m" "dval m \<le> 1" for why m
    using that v
    by (simp add: construct_StrategySizingProposal_def strategy_sizing_proposal_fields_def blocked_proposal_def
        sizing_proposal_checks_def default_sizing_proposal_def has_positive_size_def has_zero_size_def
        dec_eq_dval le_dval less_dval)
  consider "a = NO_TRADE" | "a \<noteq> NO_TRADE" "dec_eq (risk_budget_notional x) 0"
    | "a \<noteq> NO_TRADE" "\<not> dec_eq (risk_budget_notional x) 0" "dec_eq ?m 0"
    | "a \<noteq> NO_TRADE" "\<not> dec_eq (risk_budget_notional x) 0" "\<not> dec_eq ?m 0" by blast
  then show ?thesis
  proof cases
    case 1 then show ?thesis using b [of "[sizing_block_reason why]" 0] no_sizing_inputs_reason(2) [of why]
      by (simp add: pre_risk_draft_def Some)
  next
    case 2 then show ?thesis using b [of "[ZERO_RISK_BUDGET]" 0] by (simp add: pre_risk_draft_def Some)
  next
    case 3 then show ?thesis
      using b [of "pre_risk_reasons cost unc p x" ?m] no_sizing_inputs_reason(1) multiplier_bounds
        zero_multiplier_reasons [OF assms(3,4) dd p(2,3) less_imp_le [OF x(3)]]
      by (simp add: pre_risk_draft_def Some Let_def)
  next
    case 4
    have m: "0 < dval ?m" "dval ?m \<le> 1" using 4(3) multiplier_bounds [of cost unc p x] by (simp_all add: dec_eq_dval)
    have n: "0 < dval (risk_budget_notional x * ?m)"
      using 4(2) x(1) m(1) by (simp add: dval_mult_sign dec_eq_dval)
    have q: "0 < dval (risk_budget_notional x * ?m / reference_price x)" using n x(2) by (rule ddiv_pos)
    show ?thesis
      using 4 m n q v no_sizing_inputs_reason(1)
      by (simp add: pre_risk_draft_def Some Let_def construct_StrategySizingProposal_def
          strategy_sizing_proposal_fields_def sizing_proposal_checks_def default_sizing_proposal_def
          has_positive_size_def has_zero_size_def le_dval less_dval less_imp_le)
  qed
qed

section \<open>The outcome of a decision\<close>

definition with_decision_identity :: "digest \<Rightarrow> StrategyDecision \<Rightarrow> StrategyDecision" where
  "with_decision_identity H d = d\<lparr>decision_id := build_strategy_decision_id H (build_strategy_decision_hash H d),
     decision_hash := build_strategy_decision_hash H d\<rparr>"

lemma decision_identity [simp]:
  "build_strategy_decision_hash H (with_decision_identity H d) = build_strategy_decision_hash H d"
  "decision_hash (with_decision_identity H d) = build_strategy_decision_hash H d"
  "decision_id (with_decision_identity H d) = build_strategy_decision_id H (build_strategy_decision_hash H d)"
  by (simp_all add: with_decision_identity_def build_strategy_decision_hash_def)

definition decided_size :: "Forecast \<Rightarrow> StrategyDecisionPolicy \<Rightarrow> StrategySizingInputs option \<Rightarrow> StrategySizingProposal" where
  "decided_size f p s = pre_risk_draft (fst (decided_action f p s)) (snd (decided_action f p s))
     (StrategyDecisionPolicy.expected_cost p) (Forecast.uncertainty f) p s"

definition decided :: "digest \<Rightarrow> Forecast \<Rightarrow> StrategyDecisionPolicy \<Rightarrow> string \<Rightarrow> datetime \<Rightarrow>
    StrategySizingInputs option \<Rightarrow> StrategyDecision" where
  "decided H f p run ts s = with_decision_identity H (strategy_decision_draft H f p run ts s (decided_size f p s))"

lemma decide_Inr:
  assumes "decide_expected_net_edge H f p run ts s = Inr d"
  shows "d = decided H f p run ts s" "construct_StrategySizingProposal (decided_size f p s) = Inr (decided_size f p s)"
    "construct_StrategyDecision H d = Inr d"
  using assms by (auto simp: decide_expected_net_edge_def decided_def decided_size_def bindE_Inr_iff guardE_Inr_iff Let_def
      propose_pre_risk_size_def construct_StrategySizingProposal_def construct_StrategyDecision_def with_decision_identity_def)

lemma decided_fields:
  "action (decided H f p run ts s) = fst (decided_action f p s)"
  "StrategyDecision.reason_code (decided H f p run ts s) = snd (decided_action f p s)"
  "net_edge (decided H f p run ts s) = forecast_edge f p"
  "expected_return (decided H f p run ts s) = forecast_return f p"
  "sizing (decided H f p run ts s) = decided_size f p s"
  by (simp_all add: decided_def with_decision_identity_def strategy_decision_draft_def)

lemma buys_iff: "fst (decided_action f p s) = StrategyDecisionAction.BUY \<longleftrightarrow>
    (\<exists>v. expected_return_from_forecast f p = Some v \<and> \<not> v \<le> 0)
    \<and> \<not> breaches_threshold (StrategyDecisionPolicy.expected_cost p) (max_expected_cost p)
    \<and> \<not> breaches_threshold (Forecast.uncertainty f) (max_uncertainty p)
    \<and> \<not> forecast_edge f p \<le> min_net_edge p
    \<and> opt_all (\<lambda>x. \<not> max_drawdown x \<le> current_drawdown x) s"
  by (auto simp: decided_action_def classify_decision_def drawdown_blocks_size_def forecast_return_def
      split: option.splits if_splits)

lemma buy_reason: "(snd (decided_action f p s) = TRADE_POSITIVE_NET_EDGE) = (fst (decided_action f p s) = StrategyDecisionAction.BUY)"
  by (auto simp: decided_action_def classify_decision_def drawdown_blocks_size_def Let_def split: if_splits)

lemma no_trade_iff: "a = NO_TRADE \<longleftrightarrow> a \<noteq> StrategyDecisionAction.BUY"
  by (cases a) simp_all

lemma decided_size_cases:
  "if fst (decided_action f p (Some x)) = StrategyDecisionAction.BUY
      \<and> \<not> size_blocked (StrategyDecisionPolicy.expected_cost p) (Forecast.uncertainty f) p x
   then sizing_status (decided_size f p (Some x)) = PROPOSED_PENDING_INDEPENDENT_RISK
     \<and> proposed_notional (decided_size f p (Some x)) = risk_budget_notional x
          * pre_risk_multiplier_of (StrategyDecisionPolicy.expected_cost p) (Forecast.uncertainty f) p x
     \<and> proposed_quantity (decided_size f p (Some x)) = proposed_notional (decided_size f p (Some x)) / reference_price x
   else sizing_status (decided_size f p (Some x)) = BLOCKED_BEFORE_INDEPENDENT_RISK
     \<and> proposed_notional (decided_size f p (Some x)) = 0 \<and> proposed_quantity (decided_size f p (Some x)) = 0"
  by (auto simp: decided_size_def pre_risk_draft_def size_blocked_def Let_def no_trade_iff blocked_proposal_def
      default_sizing_proposal_def)

lemma decided_size_None: "decided_size f p None = default_sizing_proposal"
  by (simp add: decided_size_def pre_risk_draft_def)

lemma decided_inputs: "StrategySizingProposal.sizing_inputs (decided_size f p s) = s"
  by (cases s) (auto simp: decided_size_def pre_risk_draft_def Let_def blocked_proposal_def default_sizing_proposal_def)

lemma decided_requirements:
  assumes "valid_StrategyDecisionPolicy H p" "opt_all valid_StrategySizingInputs s"
  shows "list_all non_empty_string (decision_requirement_ids p s)"
  using valid_policy_fields(8) [OF assms(1)] assms(2) valid_sizing_inputs(4)
  by (cases s) (auto simp: decision_requirement_ids_def list_all_iff)

lemma decided_fields_ok:
  assumes "digest_ok H" "valid_Forecast H f" "valid_StrategyDecisionPolicy H p" "opt_all valid_StrategySizingInputs s"
    "canonical_id run"
  shows "list_all fst (strategy_decision_fields (decided H f p run ts s))"
proof -
  have ids: "canonical_id (build_strategy_decision_id H h)" "canonical_id (build_strategy_trace_id H run i h ts)" for i h
    unfolding build_strategy_decision_id_def build_strategy_trace_id_def
    by (rule stable_id_canonical [OF assms(1)]; simp add: canonical_id_def upper_char_def)+
  have h: "hex64 (build_strategy_decision_hash H d)" for d
    using assms(1) by (simp add: build_strategy_decision_hash_def)
  note p = valid_policy_fields [OF assms(3)]
  have f: "list_all fst (forecast_fields f)" using valid_forecast_checks(1) [OF assms(2)] .
  then have u: "0 \<le> dval (Forecast.uncertainty f)" by (simp add: forecast_fields_def le_dval)
  have v: "valid_StrategySizingProposal (decided_size f p s)"
    using pre_risk_draft_ok [OF assms(4,3) p(1) u] by (simp add: valid_StrategySizingProposal_def decided_size_def)
  have b: "0 \<le> dval (forecast_buffer f p)"
    using u p(5) by (simp add: forecast_buffer_def dval_mult_sign)
  show ?thesis
    using f p u b v ids h assms(5) decided_requirements [OF assms(3,4)]
    by (simp add: strategy_decision_fields_def decided_def with_decision_identity_def strategy_decision_draft_def
        forecast_fields_def le_dval)
qed

lemma decide_outcome:
  assumes "digest_ok H" "valid_Forecast H f" "valid_StrategyDecisionPolicy H p" "opt_all valid_StrategySizingInputs s"
    "canonical_id run" "Forecast.feature_ts f \<le> ts"
  shows "decide_expected_net_edge H f p run ts s =
    (if fst (decided_action f p s) = StrategyDecisionAction.BUY \<and> s \<noteq> None
        \<and> size_blocked (StrategyDecisionPolicy.expected_cost p) (Forecast.uncertainty f) p (the s)
     then Inl (ValidationError ''buy decisions with sizing inputs require positive proposed size'')
     else Inr (decided H f p run ts s))"
proof -
  let ?d = "decided H f p run ts s" and ?z = "decided_size f p s"
  note p = valid_policy_fields [OF assms(3)]
  have u: "0 \<le> dval (Forecast.uncertainty f)"
    using valid_forecast_checks(1) [OF assms(2)] by (simp add: forecast_fields_def le_dval)
  have z: "construct_StrategySizingProposal ?z = Inr ?z"
    using pre_risk_draft_ok [OF assms(4,3) p(1) u] by (simp add: decided_size_def)
  have "decide_expected_net_edge H f p run ts s = construct_StrategyDecision H ?d"
    using valid_forecast_checks(4) [OF assms(2)] z
    by (simp add: decide_expected_net_edge_def propose_pre_risk_size_def decided_size_def [symmetric]
        decided_def with_decision_identity_def Let_def)
  also have "\<dots> = checked (strategy_decision_checks H ?d) ?d"
    using decided_fields_ok [OF assms(1-5)] by (simp add: construct_StrategyDecision_def checked_append checked_returns)
  finally have c: "decide_expected_net_edge H f p run ts s = checked (strategy_decision_checks H ?d) ?d" .
  have fields: "split ?d = Forecast.split f" "decision_ts ?d = ts" "StrategyDecision.feature_ts ?d = Forecast.feature_ts f"
    "dec_eq (net_edge ?d) (expected_return ?d - StrategyDecision.expected_cost ?d - uncertainty_buffer ?d)"
    "trace_id ?d = build_strategy_trace_id H (strategy_run_id ?d) (source_forecast_id ?d) (StrategyDecision.policy_hash ?d) (decision_ts ?d)"
    "decision_hash ?d = build_strategy_decision_hash H ?d"
    "decision_id ?d = build_strategy_decision_id H (build_strategy_decision_hash H ?d)"
    by (simp_all add: decided_def with_decision_identity_def strategy_decision_draft_def forecast_edge_def dec_eq_dval)
      (simp_all add: build_strategy_decision_hash_def)
  have ts: "\<not> ts < Forecast.feature_ts f" using assms(6) not_less_datetime by blast
  have edge: "0 < dval (forecast_return f p) \<and> 0 < dval (forecast_edge f p)"
    if "fst (decided_action f p s) = StrategyDecisionAction.BUY"
    using that p(4) by (auto simp: buys_iff forecast_return_def le_dval)
  have why: "(StrategyDecision.reason_code ?d = TRADE_POSITIVE_NET_EDGE) = (action ?d = StrategyDecisionAction.BUY)"
    by (simp add: decided_fields buy_reason)
  show ?thesis
  proof (cases "fst (decided_action f p s) = StrategyDecisionAction.BUY")
    case True
    have third: "(StrategySizingProposal.sizing_inputs ?z \<noteq> None \<longrightarrow>
          sizing_status ?z = PROPOSED_PENDING_INDEPENDENT_RISK \<and> \<not> proposed_notional ?z \<le> 0 \<and> \<not> proposed_quantity ?z \<le> 0)
        \<longleftrightarrow> \<not> (s \<noteq> None \<and> size_blocked (StrategyDecisionPolicy.expected_cost p) (Forecast.uncertainty f) p (the s))"
    proof (cases s)
      case (Some x)
      have "sizing_status ?z = PROPOSED_PENDING_INDEPENDENT_RISK \<Longrightarrow> has_positive_size ?z"
        using z by (simp add: construct_StrategySizingProposal_def sizing_proposal_checks_def)
      then have "sizing_status ?z = PROPOSED_PENDING_INDEPENDENT_RISK \<Longrightarrow>
          \<not> proposed_notional ?z \<le> 0 \<and> \<not> proposed_quantity ?z \<le> 0"
        by (auto simp: has_positive_size_def less_dval le_dval)
      then show ?thesis
        using decided_size_cases [of f p x] True Some by (auto simp: decided_inputs split: if_splits)
    qed (simp add: decided_inputs)
    have "checked (strategy_decision_checks H ?d) ?d
        = (if \<not> (s \<noteq> None \<and> size_blocked (StrategyDecisionPolicy.expected_cost p) (Forecast.uncertainty f) p (the s))
           then Inr ?d else Inl (ValidationError ''buy decisions with sizing inputs require positive proposed size''))"
      unfolding third [symmetric]
      using True edge ts valid_forecast_checks(4) [OF assms(2)] why fields(4,5,6,7)
      by (simp add: strategy_decision_checks_def Let_def checked.simps fields(1-3) decided_fields le_dval)
    then show ?thesis using True c by simp
  next
    case False
    have "dval (proposed_notional ?z) = 0" "dval (proposed_quantity ?z) = 0"
      using decided_size_cases [of f p "the s"] False
      by (cases s; simp add: decided_size_None default_sizing_proposal_def)+
    then have "checked (strategy_decision_checks H ?d) ?d = Inr ?d"
      using False ts valid_forecast_checks(4) [OF assms(2)] why fields(4,5,6,7)
      by (simp add: strategy_decision_checks_def Let_def fields(1-3) decided_fields dec_eq_dval)
    then show ?thesis using False c by simp
  qed
qed

section \<open>Properties\<close>

text \<open>C25: The strategy buys exactly when the forecast has a positive return at the policy's
  quantile level, neither the cost nor the uncertainty breaches its threshold, the net edge exceeds
  the minimum edge and the drawdown is below its maximum; the edge is the return less the cost and
  the uncertainty buffer.\<close>

theorem strategy_buys_on_positive_edge:
  assumes "valid_Forecast H f" "decide_expected_net_edge H f p run ts s = Inr d"
  shows "(action d = StrategyDecisionAction.BUY \<longleftrightarrow>
      (\<exists>q \<in> set (quantiles f). dec_eq (level q) (expected_return_quantile p) \<and> 0 < quantile_value q)
      \<and> \<not> breaches_threshold (StrategyDecisionPolicy.expected_cost p) (max_expected_cost p)
      \<and> \<not> breaches_threshold (Forecast.uncertainty f) (max_uncertainty p)
      \<and> min_net_edge p < net_edge d \<and> opt_all (\<lambda>x. current_drawdown x < max_drawdown x) s)
    \<and> (\<forall>q \<in> set (quantiles f). dec_eq (level q) (expected_return_quantile p) \<longrightarrow>
      net_edge d = quantile_value q - StrategyDecisionPolicy.expected_cost p
        - Forecast.uncertainty f * uncertainty_buffer_multiplier p)"
proof -
  note d = decide_Inr(1) [OF assms(2)]
  have "expected_return_from_forecast f p = Some (quantile_value q)"
    if "q \<in> set (quantiles f)" "dec_eq (level q) (expected_return_quantile p)" for q
    using expected_return_iff [OF assms(1)] that by blast
  then have e: "\<forall>q \<in> set (quantiles f). dec_eq (level q) (expected_return_quantile p) \<longrightarrow>
      net_edge d = quantile_value q - StrategyDecisionPolicy.expected_cost p
        - Forecast.uncertainty f * uncertainty_buffer_multiplier p"
    by (simp add: d decided_fields forecast_edge_def forecast_buffer_def forecast_return_def)
  have "action d = StrategyDecisionAction.BUY \<longleftrightarrow>
      (\<exists>q \<in> set (quantiles f). dec_eq (level q) (expected_return_quantile p) \<and> 0 < quantile_value q)
      \<and> \<not> breaches_threshold (StrategyDecisionPolicy.expected_cost p) (max_expected_cost p)
      \<and> \<not> breaches_threshold (Forecast.uncertainty f) (max_uncertainty p)
      \<and> min_net_edge p < net_edge d \<and> opt_all (\<lambda>x. current_drawdown x < max_drawdown x) s"
    unfolding d decided_fields buys_iff expected_return_iff [OF assms(1)]
    by (cases s) (auto simp: le_dval less_dval)
  with e show ?thesis by blast
qed

text \<open>C26: Without sizing inputs a decision carries no proposed size, whether it buys or not.  With
  sizing inputs the proposed notional is positive exactly for a buy and zero otherwise, and never
  above the risk budget (above the budget rounded to the 28 digits of the decimal context, when
  the budget has more).  The reduction multiplier lies between 0 and 1, and no proposal carries a
  risk approval.\<close>

theorem strategy_size_within_budget:
  assumes "decide_expected_net_edge H f p run ts s = Inr d"
  shows "(case s of
        None \<Rightarrow> proposed_notional (sizing d) = 0 \<and> proposed_quantity (sizing d) = 0
      | Some x \<Rightarrow> (if action d = StrategyDecisionAction.BUY then 0 < proposed_notional (sizing d)
                   else dec_eq (proposed_notional (sizing d)) 0)
          \<and> proposed_notional (sizing d) \<le> dfix (risk_budget_notional x)
          \<and> (fits (risk_budget_notional x) \<longrightarrow> proposed_notional (sizing d) \<le> risk_budget_notional x))
    \<and> 0 \<le> pre_risk_multiplier (sizing d) \<and> pre_risk_multiplier (sizing d) \<le> 1
    \<and> approved_notional (sizing d) = None \<and> approved_quantity (sizing d) = None
    \<and> risk_approval_id (sizing d) = None"
proof -
  note d = decide_Inr [OF assms(1)]
  have z: "sizing d = decided_size f p s" by (simp add: d(1) decided_fields)
  have c: "list_all fst (strategy_sizing_proposal_fields (sizing d) @ sizing_proposal_checks (sizing d))"
    using d(2) by (simp add: z construct_StrategySizingProposal_def)
  have i: "StrategySizingProposal.sizing_inputs (sizing d) = s" by (simp add: z decided_inputs)
  have "case s of
        None \<Rightarrow> proposed_notional (sizing d) = 0 \<and> proposed_quantity (sizing d) = 0
      | Some x \<Rightarrow> (if action d = StrategyDecisionAction.BUY then 0 < proposed_notional (sizing d)
                   else dec_eq (proposed_notional (sizing d)) 0)
          \<and> proposed_notional (sizing d) \<le> dfix (risk_budget_notional x)
          \<and> (fits (risk_budget_notional x) \<longrightarrow> proposed_notional (sizing d) \<le> risk_budget_notional x)"
  proof (cases s)
    case None
    then show ?thesis by (simp add: z decided_size_None default_sizing_proposal_def)
  next
    case (Some x)
    have "valid_StrategySizingInputs x"
      using c i Some by (simp add: strategy_sizing_proposal_fields_def)
    then have x: "0 \<le> dval (risk_budget_notional x)" by (rule valid_sizing_inputs)
    have "list_all fst (strategy_decision_checks H d)"
      using d(3) by (simp add: construct_StrategyDecision_def)
    then have buy: "if action d = StrategyDecisionAction.BUY then 0 < proposed_notional (sizing d)
        else dec_eq (proposed_notional (sizing d)) 0"
      using i Some by (auto simp: strategy_decision_checks_def Let_def le_dval less_dval split: if_splits)
    let ?m = "pre_risk_multiplier_of (StrategyDecisionPolicy.expected_cost p) (Forecast.uncertainty f) p x"
    have "dval (risk_budget_notional x * ?m) \<le> dval (dfix (risk_budget_notional x))"
      unfolding times_decimal_def
      by (rule dfix_mono) (use multiplier_bounds x in \<open>simp add: dval_exact mult_left_le\<close>)
    moreover have "0 \<le> dval (dfix (risk_budget_notional x))" using x by (simp add: dfix_sign)
    ultimately have "dval (proposed_notional (sizing d)) \<le> dval (dfix (risk_budget_notional x))"
      using decided_size_cases [of f p x] by (simp add: z Some split: if_splits)
    then show ?thesis using buy Some by (simp add: le_dval fits_dval)
  qed
  then show ?thesis
    using c by (simp add: strategy_sizing_proposal_fields_def sizing_proposal_checks_def)
qed

text \<open>C27: On valid inputs the strategy returns a valid decision except in one case, where it raises:
  a forecast worth buying with sizing inputs whose size comes out as zero, because the budget is
  zero or a multiplier rounds to zero.  The contract of the decision then refuses the buy.\<close>

theorem strategy_raises_only_on_zero_size:
  assumes "digest_ok H" "valid_Forecast H f" "valid_StrategyDecisionPolicy H p" "opt_all valid_StrategySizingInputs s"
    "canonical_id run" "Forecast.feature_ts f \<le> ts"
  shows "decide_expected_net_edge H f p run ts s =
    (if fst (decided_action f p s) = StrategyDecisionAction.BUY \<and> s \<noteq> None
        \<and> size_blocked (StrategyDecisionPolicy.expected_cost p) (Forecast.uncertainty f) p (the s)
     then Inl (ValidationError ''buy decisions with sizing inputs require positive proposed size'')
     else Inr (decided H f p run ts s))"
  using assms by (rule decide_outcome)

end
