(* ===== verification/StrategyExamples.thy ===== *)
theory StrategyExamples
  imports Strategy
begin

text \<open>
  A forecast, a policy and sizing inputs that satisfy the hypotheses of the strategy properties,
  under the digest that returns the zero hash: a buy with a positive size, and the buy a zero
  budget refuses.
\<close>

definition zero_digest :: digest where
  "zero_digest = (\<lambda>p. zero_hash)"

lemma zero_digest_ok: "digest_ok zero_digest"
  unfolding zero_digest_def by (rule digest_ok_example)

definition zero_id :: "string \<Rightarrow> string" where
  "zero_id prefix = prefix @ '':'' @ replicate 32 (CHR ''0'')"

lemma stable_zero_id: "stable_id zero_digest prefix p = zero_id prefix"
  by (simp add: stable_id_def zero_id_def zero_digest_def zero_hash_def upper_of_def)

definition example_forecast :: Forecast where
  "example_forecast = \<lparr>Forecast.forecast_id = zero_id ''FORECAST'',
     dataset_snapshot_id = ''DATA:1'', dataset_hash = zero_hash, dataset_row_id = ''ROW:1'',
     feature_vector_id = ''FEATURE:1'', feature_input_snapshot_id = ''INPUT:1'', feature_version = ''v1'',
     source_feature_snapshot_ids = [], instrument_id = ''BTC-USD'', venue_id = ''VENUE:1'', feature_ts = DT 0 0,
     label_rule_id = ''LABEL:1'', split = TEST, training_run_id = zero_id ''TRAINRUN'',
     training_run_hash = zero_hash, model_version_id = zero_id ''MODELVERSION'',
     model_version_hash = zero_hash, probabilities = [(''up'', Dec 6 (-1)), (''down'', Dec 4 (-1))],
     quantiles = [\<lparr>level = Dec 1 (-1), quantile_value = Dec (-3) (-2)\<rparr>, \<lparr>level = Dec 5 (-1), quantile_value = Dec 5 (-2)\<rparr>],
     uncertainty = Dec 2 (-2), calibration_status = CALIBRATED,
     calibration_metadata = [(''candidate_name'', ''prior'')]\<rparr>"

definition example_strategy :: StrategyDecisionPolicy where
  "example_strategy = \<lparr>StrategyDecisionPolicy.policy_id = zero_id ''STRATEGYPOLICY'',
     policy_hash = zero_hash, name = ''net edge'', expected_return_source = MEDIAN_QUANTILE,
     expected_return_quantile = Dec 5 (-1), expected_cost = Dec 1 (-2), max_expected_cost = Dec 5 (-2),
     uncertainty_buffer_multiplier = Dec 1 0, max_uncertainty = Dec 1 (-1), min_net_edge = Dec 0 0,
     requirement_ids = [''FR-009'', ''FR-015'']\<rparr>"

definition example_sizing :: "decimal \<Rightarrow> StrategySizingInputs" where
  "example_sizing b = \<lparr>risk_budget_notional = b, reference_price = Dec 100 0, current_drawdown = Dec 0 0,
     max_drawdown = Dec 2 (-1), requirement_ids = [''FR-009'', ''FR-010'']\<rparr>"

lemma zero_ids:
  "canonical_id (zero_id ''FORECAST'')" "canonical_id (zero_id ''TRAINRUN'')"
  "canonical_id (zero_id ''MODELVERSION'')" "canonical_id (zero_id ''STRATEGYPOLICY'')"
  unfolding stable_zero_id [of _ PNull, symmetric]
  by (rule stable_id_canonical [OF zero_digest_ok]; simp add: canonical_id_def upper_char_def)+

lemma zero_digest_hex: "hex64 zero_hash"
  using digest_hex [OF zero_digest_ok] by (simp add: zero_digest_def)

lemma example_texts:
  "canonical_id ''DATA:1''" "canonical_id ''ROW:1''" "canonical_id ''FEATURE:1''" "canonical_id ''INPUT:1''"
  "canonical_id ''BTC-USD''" "canonical_id ''VENUE:1''" "canonical_id ''LABEL:1''" "canonical_id ''RUN:1''"
  "non_empty_string ''v1''" "non_empty_string ''up''" "non_empty_string ''down''" "non_empty_string ''candidate_name''"
  "non_empty_string ''prior''" "non_empty_string ''net edge''" "non_empty_string ''FR-009''"
  "non_empty_string ''FR-010''" "non_empty_string ''FR-015''"
  by (simp_all add: canonical_id_def upper_char_def digit_char_def non_empty_string_def strip_def py_space_def)

lemma example_forecast_valid: "valid_Forecast zero_digest example_forecast"
proof -
  have s: "dec_eq (fold (\<lambda>(_, p) t. t + p) [(''up'', Dec 6 (-1)), (''down'', Dec 4 (-1))] 0) 1"
    by (simp add: dec_eval dec_eq_dval dval_Dec)
  show ?thesis
    unfolding valid_Forecast_def construct_Forecast_def checked_Inr_iff
    using s by (simp add: example_forecast_def forecast_fields_def probability_checks_def
        valid_ForecastQuantile_def candidate_name_of_def build_training_run_id_def build_model_version_id_def
        build_model_version_hash_def build_forecast_id_def stable_zero_id zero_ids example_texts zero_digest_hex
        less_dval le_dval dval_Dec) (simp add: zero_digest_def)
qed

lemma example_strategy_valid: "valid_StrategyDecisionPolicy zero_digest example_strategy"
  unfolding valid_StrategyDecisionPolicy_def construct_StrategyDecisionPolicy_def Let_def checked_Inr_iff
  by (simp add: example_strategy_def strategy_decision_policy_fields_def build_strategy_decision_policy_id_def
      stable_zero_id zero_ids example_texts zero_digest_hex less_dval le_dval dval_Dec)
    (simp add: build_strategy_decision_policy_hash_def zero_digest_def)

lemma example_sizing_valid: "0 \<le> dval b \<Longrightarrow> valid_StrategySizingInputs (example_sizing b)"
  by (simp add: valid_StrategySizingInputs_def strategy_sizing_inputs_fields_def example_sizing_def
      example_texts le_dval less_dval dval_Dec)

lemma example_return: "expected_return_from_forecast example_forecast example_strategy = Some (Dec 5 (-2))"
  unfolding expected_return_iff [OF example_forecast_valid]
  by (simp add: example_forecast_def example_strategy_def dec_eq_dval dval_Dec)

lemma example_buys:
  assumes "opt_all (\<lambda>x. \<not> max_drawdown x \<le> current_drawdown x) s"
  shows "fst (decided_action example_forecast example_strategy s) = StrategyDecisionAction.BUY"
  using assms
  by (simp add: buys_iff example_return breaches_threshold_def forecast_edge_def forecast_return_def forecast_buffer_def
      dec_eq_dval le_dval less_dval dval_Dec)
    (simp add: example_forecast_def example_strategy_def dec_eval dval_Dec)

lemma example_drawdown: "opt_all (\<lambda>x. \<not> max_drawdown x \<le> current_drawdown x) (Some (example_sizing b))"
  by (simp add: example_sizing_def le_dval dval_Dec)

lemma example_not_blocked:
  "\<not> size_blocked (StrategyDecisionPolicy.expected_cost example_strategy) (Forecast.uncertainty example_forecast)
     example_strategy (example_sizing (Dec 1000 0))"
  by (simp add: size_blocked_def pre_risk_multiplier_of_def dec_eq_dval dval_mult_sign)
    (simp add: example_strategy_def example_forecast_def example_sizing_def threshold_multiplier_def dec_eq_dval le_dval
      Let_def dec_eval ddiv_exact_def dval_Dec)

lemma example_strategy_decision:
  assumes "s = None \<or> s = Some (example_sizing (Dec 1000 0))"
  shows "decide_expected_net_edge zero_digest example_forecast example_strategy ''RUN:1'' (DT 1 0) s
    = Inr (decided zero_digest example_forecast example_strategy ''RUN:1'' (DT 1 0) s)"
proof -
  have "opt_all valid_StrategySizingInputs s"
    using assms example_sizing_valid [of "Dec 1000 0"] by (auto simp: dval_Dec)
  then show ?thesis
    using decide_outcome [OF zero_digest_ok example_forecast_valid example_strategy_valid, of s "''RUN:1''" "DT 1 0"]
      assms example_not_blocked
    by (auto simp: example_texts) (simp_all add: example_forecast_def less_eq_datetime_def)
qed

theorem strategy_buys_on_positive_edge_witness:
  "\<exists>d. decide_expected_net_edge zero_digest example_forecast example_strategy ''RUN:1'' (DT 1 0) None = Inr d
    \<and> net_edge d = Dec 5 (-2) - Dec 1 (-2) - Dec 2 (-2) * Dec 1 0
    \<and> (action d = StrategyDecisionAction.BUY \<longrightarrow> min_net_edge example_strategy < net_edge d)"
  using strategy_buys_on_positive_edge [OF example_forecast_valid example_strategy_decision [of None]] example_strategy_decision [of None]
  by (auto simp: example_forecast_def example_strategy_def dec_eq_dval dval_Dec)

theorem strategy_size_within_budget_witness:
  "\<exists>d. decide_expected_net_edge zero_digest example_forecast example_strategy ''RUN:1'' (DT 1 0)
       (Some (example_sizing (Dec 1000 0))) = Inr d
    \<and> action d = StrategyDecisionAction.BUY \<and> 0 < proposed_notional (sizing d)
    \<and> proposed_notional (sizing d) \<le> Dec 1000 0"
proof -
  let ?s = "Some (example_sizing (Dec 1000 0))"
  let ?d = "decided zero_digest example_forecast example_strategy ''RUN:1'' (DT 1 0) ?s"
  have b: "action ?d = StrategyDecisionAction.BUY"
    unfolding decided_fields by (rule example_buys [OF example_drawdown])
  have q: "risk_budget_notional (example_sizing (Dec 1000 0)) = Dec 1000 0" by (simp add: example_sizing_def)
  have "fits (Dec 1000 0)" by (simp add: fits_small dprec_def)
  then show ?thesis
    using strategy_size_within_budget [OF example_strategy_decision [of ?s]] b example_strategy_decision [of ?s] q by simp
qed

theorem strategy_raises_only_on_zero_size_witness:
  "decide_expected_net_edge zero_digest example_forecast example_strategy ''RUN:1'' (DT 1 0)
     (Some (example_sizing (Dec 0 0)))
   = Inl (ValidationError ''buy decisions with sizing inputs require positive proposed size'')"
proof -
  have "valid_StrategySizingInputs (example_sizing (Dec 0 0))" by (rule example_sizing_valid) (simp add: dval_Dec)
  moreover have "Forecast.feature_ts example_forecast \<le> DT 1 0"
    by (simp add: example_forecast_def less_eq_datetime_def)
  ultimately show ?thesis
    using strategy_raises_only_on_zero_size [OF zero_digest_ok example_forecast_valid example_strategy_valid,
        of "Some (example_sizing (Dec 0 0))" "''RUN:1''" "DT 1 0"]
      example_buys [OF example_drawdown [of "Dec 0 0"]]
    by (simp add: example_texts size_blocked_def) (simp add: example_sizing_def dec_eq_dval dval_Dec)
qed

end
