(* ===== verification/StrategyGateExamples.thy ===== *)
theory StrategyGateExamples
  imports StrategyGate StrategyExamples
begin

text \<open>
  One decision that buys and one that a drawdown stops, with the observations the strategy gate
  needs: the hypotheses of its properties hold, and the report is built.
\<close>

definition drawn_down_sizing :: StrategySizingInputs where
  "drawn_down_sizing = (example_sizing (Dec 1000 0))\<lparr>current_drawdown := Dec 3 (-1)\<rparr>"

definition example_buy :: StrategyDecision where
  "example_buy = decided zero_digest example_forecast example_strategy ''RUN:1'' (DT 1 0)
     (Some (example_sizing (Dec 1000 0)))"

definition example_skip :: StrategyDecision where
  "example_skip = decided zero_digest example_forecast example_strategy ''RUN:1'' (DT 1 0) (Some drawn_down_sizing)"

definition example_observation :: "string \<Rightarrow> StrategyGateUtilityObservation" where
  "example_observation i = \<lparr>StrategyGateUtilityObservation.decision_id = i, realized_return = Dec 3 (-2),
     cash_return = Dec 0 0, source = ''fixture''\<rparr>"

lemma decided_valid:
  assumes "decide_expected_net_edge H f p run ts s = Inr d"
  shows "valid_StrategyDecision H d"
  using decide_Inr(3) [OF assms] by (simp add: valid_StrategyDecision_def)

lemma example_buy_valid: "valid_StrategyDecision zero_digest example_buy" "decision_taken example_buy"
proof -
  show "valid_StrategyDecision zero_digest example_buy"
    unfolding example_buy_def by (rule decided_valid [OF example_strategy_decision]) simp
  show "decision_taken example_buy"
    unfolding decision_taken_def example_buy_def decided_fields by (rule example_buys [OF example_drawdown])
qed

lemma example_skip_valid: "valid_StrategyDecision zero_digest example_skip" "\<not> decision_taken example_skip"
proof -
  let ?s = "Some drawn_down_sizing"
  have s: "opt_all valid_StrategySizingInputs ?s"
    using example_sizing_valid [of "Dec 1000 0"]
    by (simp add: drawn_down_sizing_def valid_StrategySizingInputs_def strategy_sizing_inputs_fields_def
        example_sizing_def le_dval dval_Dec)
  have n: "fst (decided_action example_forecast example_strategy ?s) \<noteq> StrategyDecisionAction.BUY"
    by (simp add: buys_iff drawn_down_sizing_def example_sizing_def le_dval dval_Dec power_int_def)
  then have "decide_expected_net_edge zero_digest example_forecast example_strategy ''RUN:1'' (DT 1 0) ?s = Inr example_skip"
    using decide_outcome [OF zero_digest_ok example_forecast_valid example_strategy_valid s, of "''RUN:1''" "DT 1 0"]
    by (simp add: example_texts example_skip_def) (simp add: example_forecast_def less_eq_datetime_def)
  then show "valid_StrategyDecision zero_digest example_skip" by (rule decided_valid)
  show "\<not> decision_taken example_skip"
    using n by (simp add: decision_taken_def example_skip_def decided_fields)
qed

lemma example_decision_ids:
  "StrategyDecision.decision_id example_buy = zero_id ''STRATEGYDECISION''"
  "StrategyDecision.decision_id example_skip = zero_id ''STRATEGYDECISION''"
  by (simp_all add: example_buy_def example_skip_def decided_def with_decision_identity_def
      build_strategy_decision_id_def stable_zero_id)

lemma example_observation_valid: "canonical_id i \<Longrightarrow> valid_StrategyGateUtilityObservation (example_observation i)"
  by (simp add: valid_StrategyGateUtilityObservation_def construct_StrategyGateUtilityObservation_def
      strategy_gate_utility_observation_fields_def example_observation_def non_empty_string_def strip_def py_space_def)

theorem strategy_gate_reports_witness:
  "\<exists>r. build_strategy_gate_report zero_digest [example_buy, example_skip]
      [example_observation (zero_id ''STRATEGYDECISION'')] = Inr r
    \<and> StrategyGateReport.taken_count r = 1 \<and> StrategyGateReport.skipped_count r = 1"
proof -
  let ?ds = "[example_buy, example_skip]" and ?us = "[example_observation (zero_id ''STRATEGYDECISION'')]"
  have d: "list_all (valid_StrategyDecision zero_digest) ?ds"
    using example_buy_valid(1) example_skip_valid(1) by simp
  have "canonical_id (zero_id ''STRATEGYDECISION'')"
    using valid_decision_parts(1) [OF example_buy_valid(1)] by (simp add: example_decision_ids)
  then have u: "list_all valid_StrategyGateUtilityObservation ?us"
    using example_observation_valid by simp
  have m: "observations_match ?ds ?us"
    by (simp add: example_decision_ids) (simp add: example_observation_def)
  show ?thesis
    using strategy_gate_reports [OF zero_digest_ok d u] m example_buy_valid(2) example_skip_valid(2)
    by (cases "build_strategy_gate_report zero_digest ?ds ?us") auto
qed

theorem strategy_gate_order_independent_witness:
  "build_strategy_gate_report zero_digest
     [example_buy, example_skip\<lparr>StrategyDecision.decision_id := ''OTHER''\<rparr>]
     [example_observation ''OTHER'', example_observation (zero_id ''STRATEGYDECISION'')]
   = build_strategy_gate_report zero_digest
     [example_skip\<lparr>StrategyDecision.decision_id := ''OTHER''\<rparr>, example_buy]
     [example_observation (zero_id ''STRATEGYDECISION''), example_observation ''OTHER'']"
  by (rule strategy_gate_order_independent) (simp_all add: add_mset_commute example_decision_ids zero_id_def)

end
