(* ===== verification/ReadinessExamples.thy ===== *)
theory ReadinessExamples
  imports Readiness PaperExamples StrategyGateExamples
begin

text \<open>
  One run through the whole program: the example order passes the risk engine, the paper gateway
  fills it, the session and TCA reports account for it, and together with a model validation
  report, the strategy gate report and a stale data-health signal they give a readiness report.
\<close>

definition example_metrics :: ModelMetricSet where
  "example_metrics = \<lparr>ModelMetricSet.observation_count = 10, nll = Dec 6 (-1), brier = Dec 2 (-1),
     calibration_error = Dec 2 (-2)\<rparr>"

definition example_comparison :: ModelComparison where
  "example_comparison = \<lparr>ModelComparison.comparator_name = ''prior'', comparator_description = ''train prior'',
     metrics = example_metrics, candidate_nll_delta = Dec 0 0, candidate_brier_delta = Dec 0 0,
     candidate_improved_nll = False, candidate_improved_brier = False\<rparr>"

definition example_model_report :: ModelValidationReport where
  "example_model_report = \<lparr>ModelValidationReport.report_id = zero_id ''MODELVALIDATION'', report_hash = zero_hash,
     requirement_ids = [''FR-014''], dataset_snapshot_id = zero_id ''DATASETSNAPSHOT'', dataset_hash = zero_hash,
     training_run_id = zero_id ''TRAINRUN'', training_run_hash = zero_hash,
     model_version_id = zero_id ''MODELVERSION'', model_version_hash = zero_hash,
     forecast_output_id = zero_id ''PROBOUTPUT'', forecast_output_hash = zero_hash, evaluated_splits = [TEST],
     evaluated_forecast_ids = [zero_id ''FORECAST''], candidate_metrics = example_metrics, quantile_coverage = [],
     uncertainty_summary = \<lparr>mean_uncertainty = Dec 1 (-1), min_uncertainty = Dec 1 (-1), max_uncertainty = Dec 1 (-1)\<rparr>,
     train_prior_baseline = example_comparison, sequence_ablation = example_comparison,
     baseline_evidence = \<lparr>BaselineEvidenceReference.scorecard_id = zero_id ''EVALSCORECARD'', scorecard_hash = zero_hash,
       gate_report_path = ''gate.json'', scorecard_report_path = ''scorecard.json'', baseline_gate_status = ''PASS''\<rparr>,
     registry_metadata = None, recommendation = ModelGateRecommendation.BLOCKED, reasons = [''calibration''],
     caveats = [], no_auto_promotion = True\<rparr>"

definition example_signal :: DataHealthSignal where
  "example_signal = \<lparr>DataHealthSignal.signal_id = ''SIGNAL:1'', status = DataHealthStatus.BLOCKED,
     reason_codes = [CRITICAL_FRESHNESS_STALE], blocks_trading = True, blocked_instrument_id = Some ''BTC-USD'',
     source_health_event_id = ''EVENT:1'', source_health_status = StreamHealthStatus.DEGRADED,
     source_scope = \<lparr>StreamHealthScope.subscription_id = ''SUB:1'', source_id = ''SRC'', venue_id = ''V'',
       channel = Channel TRADES, instrument_id = Some ''BTC-USD''\<rparr>,
     source_checks = [FRESHNESS], source_metric_names = [STALE_EVENT], evaluation_ts = DT 0 0\<rparr>"

lemma H0_zero: "H0 = zero_digest"
  by (simp add: zero_digest_def)

lemma zero_ids_2:
  "canonical_id (zero_id ''MODELVALIDATION'')" "canonical_id (zero_id ''DATASETSNAPSHOT'')"
  "canonical_id (zero_id ''PROBOUTPUT'')" "canonical_id (zero_id ''EVALSCORECARD'')"
  unfolding stable_zero_id [of _ PNull, symmetric]
  by (rule stable_id_canonical [OF zero_digest_ok]; simp add: canonical_id_def upper_char_def)+

lemma example_model_report_valid: "valid_ModelValidationReport zero_digest example_model_report"
proof -
  have m: "valid_ModelMetricSet example_metrics"
    by (simp add: example_metrics_def valid_ModelMetricSet_def construct_ModelMetricSet_def model_metric_set_fields_def
        le_dval dval_Dec)
  then have c: "valid_ModelComparison example_comparison"
    by (simp add: example_comparison_def valid_ModelComparison_def construct_ModelComparison_def
        model_comparison_fields_def non_empty_stringI py_space_def)
  show ?thesis
    unfolding valid_ModelValidationReport_def construct_ModelValidationReport_def Let_def checked_Inr_iff
    using m c
    by (simp add: example_model_report_def model_validation_report_fields_def model_validation_report_checks_def
        zero_ids zero_ids_2 zero_digest_hex non_empty_stringI py_space_def
        valid_UncertaintySummary_def construct_UncertaintySummary_def uncertainty_summary_fields_def
        valid_BaselineEvidenceReference_def construct_BaselineEvidenceReference_def baseline_evidence_reference_fields_def
        build_dataset_snapshot_id_def build_training_run_id_def build_model_version_id_def
        build_probabilistic_output_id_def build_model_validation_report_id_def stable_zero_id
        le_dval less_dval dval_Dec) (simp add: build_model_validation_report_hash_def zero_digest_def)
qed

lemma example_signal_valid: "valid_signal example_signal" "stale_signal example_signal"
  by (simp_all add: construct_DataHealthSignal_def example_signal_def stale_signal_def non_empty_stringI py_space_def
      canonical_id_def upper_char_def digit_char_def)

text \<open>The reports of the example run, with what links them.\<close>

lemma example_reports:
  "\<exists>e x a t. valid_event zero_digest e \<and> valid_gateway_report zero_digest x
     \<and> make_paper_account_session_report zero_digest x (Some example_state) None None None None None = Inr a
     \<and> make_paper_tca_report zero_digest x [example_quote] = Inr t"
proof -
  obtain e where e: "evaluate_pre_trade_risk H0 example_order example_policy = Inr e" by (use example_paper_inputs in blast)
  then have v: "valid_event H0 e"
    using engine_ok [OF digest_ok_example example_order_valid example_policy_valid] by auto
  obtain g r t where g: "make_paper_account_session_report H0 g (Some example_state) None None None None None = Inr r"
      "make_paper_tca_report H0 g [example_quote] = Inr t" "valid_gateway_report H0 g"
    using example_session by blast
  then show ?thesis using v unfolding H0_zero [symmetric] by blast
qed

lemma example_strategy_report: "\<exists>g. valid_StrategyGateReport zero_digest g"
proof -
  let ?p = "[(example_buy, example_observation ''OBS''), (example_skip, example_observation ''OBS'')]"
  have "canonical_id ''OBS''" by (simp add: canonical_id_def upper_char_def)
  then have "construct_StrategyGateReport zero_digest (gate_report zero_digest ?p) = Inr (gate_report zero_digest ?p)"
    using example_buy_valid(1) example_skip_valid(1) example_observation_valid
    by (intro gate_report_valid [OF zero_digest_ok]) auto
  then show ?thesis by (auto simp: valid_StrategyGateReport_def)
qed

lemma example_readiness_inputs:
  "\<exists>g a t x e. readiness_inputs_ok zero_digest [example_signal] example_model_report g a t x [e] \<and> reports_linked a t x"
proof -
  obtain e x a t where r: "valid_event zero_digest e" "valid_gateway_report zero_digest x"
     "make_paper_account_session_report zero_digest x (Some example_state) None None None None None = Inr a"
     "make_paper_tca_report zero_digest x [example_quote] = Inr t"
    using example_reports by blast
  obtain g where g: "valid_StrategyGateReport zero_digest g" using example_strategy_report by blast
  have "readiness_inputs_ok zero_digest [example_signal] example_model_report g a t x [e]"
    using example_signal_valid(1) example_model_report_valid g session_links(1) [OF r(3)] tca_links(1) [OF r(4)] r(1,2)
    by (simp add: readiness_inputs_ok_def)
  moreover have "reports_linked a t x"
    using session_links(2,3) [OF r(3)] tca_links(2,3) [OF r(4)] by (simp add: reports_linked_def)
  ultimately show ?thesis by blast
qed

theorem readiness_report_returns_witness:
  "\<exists>g a t x e r. build_paper_readiness_observability_report zero_digest (DT 0 0) [example_signal] example_model_report
     g a t x [e] None None = Inr r"
  using example_readiness_inputs readiness_report_returns [OF zero_digest_ok] unfolding returns_def by blast

lemma example_readiness:
  "\<exists>g a t x e r. build_paper_readiness_observability_report zero_digest (DT 0 0) [example_signal] example_model_report
     g a t x [e] None None = Inr r"
  using example_readiness_inputs readiness_ok [OF zero_digest_ok] unfolding returns_def by blast

theorem readiness_alerts_exact_witness:
  "\<exists>g a t x e r. build_paper_readiness_observability_report zero_digest (DT 0 0) [example_signal] example_model_report
     g a t x [e] None None = Inr r
   \<and> list_all2 (alert_of (metric_values [example_signal] example_model_report g a t [e]))
        (filter (rule_fires (metric_values [example_signal] example_model_report g a t [e])) (alert_rules r)) (routed_alerts r)"
proof -
  obtain g a t x e r where r: "build_paper_readiness_observability_report zero_digest (DT 0 0) [example_signal]
     example_model_report g a t x [e] None None = Inr r"
    using example_readiness by blast
  then show ?thesis using readiness_alerts_exact [OF r] by blast
qed

theorem readiness_default_alerts_witness:
  "\<exists>g a t x e r. build_paper_readiness_observability_report zero_digest (DT 0 0) [example_signal] example_model_report
     g a t x [e] None None = Inr r \<and> alerted r DATA_STALE CRITICAL"
proof -
  obtain g a t x e r where r: "build_paper_readiness_observability_report zero_digest (DT 0 0) [example_signal]
     example_model_report g a t x [e] None None = Inr r"
    using example_readiness by blast
  have "alerted r DATA_STALE CRITICAL"
    using readiness_default_alerts [OF zero_digest_ok r, THEN conjunct1] example_signal_valid(2) by simp
  with r show ?thesis by blast
qed

end
