(* ===== verification/AuditTrace.thy ===== *)
theory AuditTrace
  imports PaperAccounting Strategy
begin

text \<open>
  The audit trace, \<open>audit/trace.py\<close>: the seam that turns a strategy decision into an order intent,
  and the envelope that ties one trace identifier to the forecast, the decision, the order, its
  risk check, its gateway event and its paper logs and cost rows.  An envelope is built only
  from artifacts that agree with each other; the theory shows what it then guarantees and
  that artifacts produced by the pipeline always have one.
\<close>

section \<open>Comparisons\<close>

text \<open>
  Python compares aware datetimes by instant and decimals by value; two pydantic models are equal
  when their fields are.
\<close>

definition same_time :: "datetime \<Rightarrow> datetime \<Rightarrow> bool" where
  "same_time s t \<longleftrightarrow> instant s = instant t"

definition same_intent :: "OrderIntent \<Rightarrow> OrderIntent \<Rightarrow> bool" where
  "same_intent i j \<longleftrightarrow> OrderIntent.client_order_id i = OrderIntent.client_order_id j
     \<and> OrderIntent.trace_id i = OrderIntent.trace_id j
     \<and> OrderIntent.source_decision_id i = OrderIntent.source_decision_id j
     \<and> OrderIntent.instrument_id i = OrderIntent.instrument_id j
     \<and> OrderIntent.venue_id i = OrderIntent.venue_id j
     \<and> OrderIntent.side i = OrderIntent.side j \<and> OrderIntent.order_type i = OrderIntent.order_type j
     \<and> dec_eq (OrderIntent.quantity i) (OrderIntent.quantity j)
     \<and> same_time (OrderIntent.submitted_at i) (OrderIntent.submitted_at j)
     \<and> rel_option dec_eq (OrderIntent.limit_price i) (OrderIntent.limit_price j)"

text \<open>The loops \<open>for actual, expected, label in checks\<close>: the first mismatch raises.\<close>

fun raise_on_mismatches :: "(string \<Rightarrow> string) \<Rightarrow> (bool \<times> string) list \<Rightarrow> unit result" where
  "raise_on_mismatches msg [] = Inr ()"
| "raise_on_mismatches msg ((p, l) # cs) = (if p then raise_on_mismatches msg cs else Inl (ValueError (msg l)))"

section \<open>The envelope\<close>

record ForecastTraceReference =
  forecast_id :: string
  dataset_snapshot_id :: string
  dataset_hash :: string
  dataset_row_id :: string
  feature_vector_id :: string
  feature_input_snapshot_id :: string
  feature_version :: string
  source_feature_snapshot_ids :: "string list"
  training_run_id :: string
  training_run_hash :: string
  model_version_id :: string
  model_version_hash :: string

definition forecast_reference_fields :: "ForecastTraceReference \<Rightarrow> (bool \<times> string) list" where
  "forecast_reference_fields r =
     [(canonical_id (forecast_id r), ''forecast_id''),
      (canonical_id (dataset_snapshot_id r), ''dataset_snapshot_id''),
      (hex64 (dataset_hash r), ''dataset_hash''),
      (canonical_id (dataset_row_id r), ''dataset_row_id''),
      (canonical_id (feature_vector_id r), ''feature_vector_id''),
      (canonical_id (feature_input_snapshot_id r), ''feature_input_snapshot_id''),
      (non_empty_string (feature_version r), ''feature_version''),
      (list_all canonical_id (source_feature_snapshot_ids r), ''source_feature_snapshot_ids''),
      (canonical_id (training_run_id r), ''training_run_id''),
      (hex64 (training_run_hash r), ''training_run_hash''),
      (canonical_id (model_version_id r), ''model_version_id''),
      (hex64 (model_version_hash r), ''model_version_hash'')]"

definition construct_ForecastTraceReference :: "ForecastTraceReference \<Rightarrow> ForecastTraceReference result" where
  "construct_ForecastTraceReference r = checked (forecast_reference_fields r) r"

definition valid_ForecastTraceReference :: "ForecastTraceReference \<Rightarrow> bool" where
  "valid_ForecastTraceReference r \<longleftrightarrow> construct_ForecastTraceReference r = Inr r"

definition forecast_trace_reference_json :: "ForecastTraceReference \<Rightarrow> payload" where
  "forecast_trace_reference_json r = PObj
     [(''forecast_id'', PStr (forecast_id r)),
      (''dataset_snapshot_id'', PStr (dataset_snapshot_id r)),
      (''dataset_hash'', PStr (dataset_hash r)),
      (''dataset_row_id'', PStr (dataset_row_id r)),
      (''feature_vector_id'', PStr (feature_vector_id r)),
      (''feature_input_snapshot_id'', PStr (feature_input_snapshot_id r)),
      (''feature_version'', PStr (feature_version r)),
      (''source_feature_snapshot_ids'', PStrs (source_feature_snapshot_ids r)),
      (''training_run_id'', PStr (training_run_id r)),
      (''training_run_hash'', PStr (training_run_hash r)),
      (''model_version_id'', PStr (model_version_id r)),
      (''model_version_hash'', PStr (model_version_hash r))]"

record DecisionTraceEnvelope =
  trace_envelope_id :: string
  trace_envelope_hash :: string
  trace_id :: string
  forecast :: ForecastTraceReference
  strategy_decision_id :: string
  strategy_decision_hash :: string
  strategy_run_id :: string
  policy_id :: string
  policy_hash :: string
  no_order_reason :: "string option"
  order_intent_id :: "string option"
  order_intent_hash :: "string option"
  risk_run_id :: "string option"
  risk_request_id :: "string option"
  risk_request_hash :: "string option"
  risk_check_id :: "string option"
  risk_check_hash :: "string option"
  risk_decision :: "RiskDecisionStatus option"
  gateway_run_id :: "string option"
  gateway_report_id :: "string option"
  gateway_report_hash :: "string option"
  gateway_event_id :: "string option"
  gateway_event_hash :: "string option"
  gateway_order_id :: "string option"
  paper_run_id :: "string option"
  paper_session_report_id :: "string option"
  paper_session_report_hash :: "string option"
  paper_order_log_ids :: "string list"
  paper_fill_log_ids :: "string list"
  paper_rejection_log_ids :: "string list"
  paper_tca_report_id :: "string option"
  paper_tca_report_hash :: "string option"
  paper_tca_row_ids :: "string list"
  paper_tca_issue_ids :: "string list"
  requirement_ids :: "string list"

definition trace_envelope_fields :: "DecisionTraceEnvelope \<Rightarrow> (bool \<times> string) list" where
  "trace_envelope_fields r =
     [(canonical_id (trace_envelope_id r), ''trace_envelope_id''),
      (hex64 (trace_envelope_hash r), ''trace_envelope_hash''),
      (canonical_id (trace_id r), ''trace_id''),
      (valid_ForecastTraceReference (forecast r), ''forecast''),
      (canonical_id (strategy_decision_id r), ''strategy_decision_id''),
      (hex64 (strategy_decision_hash r), ''strategy_decision_hash''),
      (canonical_id (strategy_run_id r), ''strategy_run_id''),
      (canonical_id (policy_id r), ''policy_id''),
      (hex64 (policy_hash r), ''policy_hash''),
      (opt_all non_empty_string (no_order_reason r), ''no_order_reason''),
      (opt_all canonical_id (order_intent_id r), ''order_intent_id''),
      (opt_all hex64 (order_intent_hash r), ''order_intent_hash''),
      (opt_all canonical_id (risk_run_id r), ''risk_run_id''),
      (opt_all canonical_id (risk_request_id r), ''risk_request_id''),
      (opt_all hex64 (risk_request_hash r), ''risk_request_hash''),
      (opt_all canonical_id (risk_check_id r), ''risk_check_id''),
      (opt_all hex64 (risk_check_hash r), ''risk_check_hash''),
      (opt_all canonical_id (gateway_run_id r), ''gateway_run_id''),
      (opt_all canonical_id (gateway_report_id r), ''gateway_report_id''),
      (opt_all hex64 (gateway_report_hash r), ''gateway_report_hash''),
      (opt_all canonical_id (gateway_event_id r), ''gateway_event_id''),
      (opt_all hex64 (gateway_event_hash r), ''gateway_event_hash''),
      (opt_all canonical_id (gateway_order_id r), ''gateway_order_id''),
      (opt_all canonical_id (paper_run_id r), ''paper_run_id''),
      (opt_all canonical_id (paper_session_report_id r), ''paper_session_report_id''),
      (opt_all hex64 (paper_session_report_hash r), ''paper_session_report_hash''),
      (list_all canonical_id (paper_order_log_ids r), ''paper_order_log_ids''),
      (list_all canonical_id (paper_fill_log_ids r), ''paper_fill_log_ids''),
      (list_all canonical_id (paper_rejection_log_ids r), ''paper_rejection_log_ids''),
      (opt_all canonical_id (paper_tca_report_id r), ''paper_tca_report_id''),
      (opt_all hex64 (paper_tca_report_hash r), ''paper_tca_report_hash''),
      (list_all canonical_id (paper_tca_row_ids r), ''paper_tca_row_ids''),
      (list_all canonical_id (paper_tca_issue_ids r), ''paper_tca_issue_ids''),
      (list_all non_empty_string (requirement_ids r), ''requirement_ids'')]"

definition validate_ref_pair :: "string option \<Rightarrow> string option \<Rightarrow> string \<Rightarrow> bool \<Rightarrow> (bool \<times> string) list" where
  "validate_ref_pair i h label required =
     [((i = None) = (h = None), label @ '' id/hash must be set together''),
      (required \<longrightarrow> i \<noteq> None, label @ '' id/hash are required'')]"

definition order_trace_checks :: "DecisionTraceEnvelope \<Rightarrow> (bool \<times> string) list" where
  "order_trace_checks r =
     [(no_order_reason r = None, ''order trace envelopes must not set no_order_reason''),
      (risk_run_id r \<noteq> None \<and> gateway_run_id r \<noteq> None \<and> paper_run_id r \<noteq> None,
       ''order trace envelopes require risk, gateway, and paper run IDs''),
      (risk_decision r \<noteq> None, ''order trace envelopes require a risk decision'')]
     @ validate_ref_pair (risk_request_id r) (risk_request_hash r) ''risk request'' True
     @ validate_ref_pair (risk_check_id r) (risk_check_hash r) ''risk check'' True
     @ validate_ref_pair (gateway_report_id r) (gateway_report_hash r) ''gateway report'' True
     @ validate_ref_pair (gateway_event_id r) (gateway_event_hash r) ''gateway event'' True
     @ validate_ref_pair (paper_session_report_id r) (paper_session_report_hash r) ''paper session report'' True
     @ validate_ref_pair (paper_tca_report_id r) (paper_tca_report_hash r) ''TCA report'' True
     @ [(paper_order_log_ids r \<noteq> [], ''order trace envelopes require at least one paper order log'')]"

definition downstream_values :: "DecisionTraceEnvelope \<Rightarrow> string option list" where
  "downstream_values r =
     [risk_run_id r, risk_request_id r, risk_request_hash r, risk_check_id r, risk_check_hash r,
      map_option RiskDecisionStatus_value (risk_decision r), gateway_run_id r, gateway_report_id r,
      gateway_report_hash r, gateway_event_id r, gateway_event_hash r, gateway_order_id r, paper_run_id r,
      paper_session_report_id r, paper_session_report_hash r, paper_tca_report_id r, paper_tca_report_hash r]"

definition downstream_ids :: "DecisionTraceEnvelope \<Rightarrow> string list" where
  "downstream_ids r = paper_order_log_ids r @ paper_fill_log_ids r @ paper_rejection_log_ids r
     @ paper_tca_row_ids r @ paper_tca_issue_ids r"

definition no_order_trace_checks :: "DecisionTraceEnvelope \<Rightarrow> (bool \<times> string) list" where
  "no_order_trace_checks r =
     [(no_order_reason r \<noteq> None, ''no-order trace envelopes require no_order_reason''),
      (list_all (\<lambda>x. x = None) (downstream_values r),
       ''no-order trace envelopes must not carry downstream order artifacts''),
      (downstream_ids r = [], ''no-order trace envelopes must not carry paper log/TCA IDs'')]"

definition envelope_items :: "DecisionTraceEnvelope \<Rightarrow> (string \<times> payload) list" where
  "envelope_items r =
     [(''trace_envelope_id'', PStr (trace_envelope_id r)),
      (''trace_envelope_hash'', PStr (trace_envelope_hash r)),
      (''trace_id'', PStr (trace_id r)),
      (''forecast'', forecast_trace_reference_json (forecast r)),
      (''strategy_decision_id'', PStr (strategy_decision_id r)),
      (''strategy_decision_hash'', PStr (strategy_decision_hash r)),
      (''strategy_run_id'', PStr (strategy_run_id r)),
      (''policy_id'', PStr (policy_id r)),
      (''policy_hash'', PStr (policy_hash r)),
      (''no_order_reason'', POpt PStr (no_order_reason r)),
      (''order_intent_id'', POpt PStr (order_intent_id r)),
      (''order_intent_hash'', POpt PStr (order_intent_hash r)),
      (''risk_run_id'', POpt PStr (risk_run_id r)),
      (''risk_request_id'', POpt PStr (risk_request_id r)),
      (''risk_request_hash'', POpt PStr (risk_request_hash r)),
      (''risk_check_id'', POpt PStr (risk_check_id r)),
      (''risk_check_hash'', POpt PStr (risk_check_hash r)),
      (''risk_decision'', POpt (\<lambda>x. PStr (RiskDecisionStatus_value x)) (risk_decision r)),
      (''gateway_run_id'', POpt PStr (gateway_run_id r)),
      (''gateway_report_id'', POpt PStr (gateway_report_id r)),
      (''gateway_report_hash'', POpt PStr (gateway_report_hash r)),
      (''gateway_event_id'', POpt PStr (gateway_event_id r)),
      (''gateway_event_hash'', POpt PStr (gateway_event_hash r)),
      (''gateway_order_id'', POpt PStr (gateway_order_id r)),
      (''paper_run_id'', POpt PStr (paper_run_id r)),
      (''paper_session_report_id'', POpt PStr (paper_session_report_id r)),
      (''paper_session_report_hash'', POpt PStr (paper_session_report_hash r)),
      (''paper_order_log_ids'', PStrs (paper_order_log_ids r)),
      (''paper_fill_log_ids'', PStrs (paper_fill_log_ids r)),
      (''paper_rejection_log_ids'', PStrs (paper_rejection_log_ids r)),
      (''paper_tca_report_id'', POpt PStr (paper_tca_report_id r)),
      (''paper_tca_report_hash'', POpt PStr (paper_tca_report_hash r)),
      (''paper_tca_row_ids'', PStrs (paper_tca_row_ids r)),
      (''paper_tca_issue_ids'', PStrs (paper_tca_issue_ids r)),
      (''requirement_ids'', PStrs (requirement_ids r))]"

definition build_decision_trace_envelope_hash :: "digest \<Rightarrow> DecisionTraceEnvelope \<Rightarrow> string" where
  "build_decision_trace_envelope_hash H r = H (PObj (drop 2 (envelope_items r)))"

definition build_decision_trace_envelope_id :: "digest \<Rightarrow> string \<Rightarrow> string" where
  "build_decision_trace_envelope_id H h = stable_id H ''AUDITTRACE'' (PObj [(''trace_envelope_hash'', PStr h)])"

definition envelope_checks :: "DecisionTraceEnvelope \<Rightarrow> (bool \<times> string) list" where
  "envelope_checks r =
     validate_ref_pair (order_intent_id r) (order_intent_hash r) ''order intent'' False
     @ (if order_intent_id r \<noteq> None then order_trace_checks r else no_order_trace_checks r)
     @ [(gateway_run_id r \<noteq> None \<and> paper_run_id r \<noteq> None \<longrightarrow> gateway_run_id r = paper_run_id r,
         ''paper_run_id must match gateway_run_id'')]"

definition construct_DecisionTraceEnvelope :: "digest \<Rightarrow> DecisionTraceEnvelope \<Rightarrow> DecisionTraceEnvelope result" where
  "construct_DecisionTraceEnvelope H r = checked (trace_envelope_fields r @ envelope_checks r @
     (let h = build_decision_trace_envelope_hash H r in
      [(trace_envelope_hash r = h, ''trace_envelope_hash is not deterministic''),
       (trace_envelope_id r = build_decision_trace_envelope_id H h, ''trace_envelope_id is not deterministic'')])) r"

definition valid_DecisionTraceEnvelope :: "digest \<Rightarrow> DecisionTraceEnvelope \<Rightarrow> bool" where
  "valid_DecisionTraceEnvelope H r \<longleftrightarrow> construct_DecisionTraceEnvelope H r = Inr r"

section \<open>From a decision to an order intent\<close>

definition build_order_intent_client_order_id ::
  "digest \<Rightarrow> StrategyDecision \<Rightarrow> datetime \<Rightarrow> OrderType \<Rightarrow> decimal option \<Rightarrow> string" where
  "build_order_intent_client_order_id H d t ot lp = stable_id H ''ORDERINTENT'' (PObj
     [(''decision_hash'', PStr (decision_hash d)),
      (''decision_id'', PStr (StrategyDecision.decision_id d)),
      (''instrument_id'', PStr (StrategyDecision.instrument_id d)),
      (''limit_price'', POpt PDec lp),
      (''order_type'', PStr (OrderType_value ot)),
      (''proposed_quantity'', PDec (StrategySizingProposal.proposed_quantity (StrategyDecision.sizing d))),
      (''submitted_at'', PIso t),
      (''trace_id'', PStr (StrategyDecision.trace_id d)),
      (''venue_id'', PStr (StrategyDecision.venue_id d))])"

definition order_intent_error :: "string \<Rightarrow> py_error" where
  "order_intent_error m = BuildError ''StrategyOrderIntentBuildError'' m"

definition build_order_intent_from_strategy_decision ::
  "digest \<Rightarrow> StrategyDecision \<Rightarrow> datetime option \<Rightarrow> OrderType \<Rightarrow> decimal option \<Rightarrow> OrderIntent result" where
  "build_order_intent_from_strategy_decision H d submitted ot lp =
     (let sz = StrategyDecision.sizing d;
          t = (case submitted of None \<Rightarrow> StrategyDecision.decision_ts d | Some x \<Rightarrow> x) in
      guardE (StrategyDecision.action d \<noteq> StrategyDecisionAction.NO_TRADE)
        (order_intent_error ''no-trade decisions cannot create order intents'')
      (guardE (StrategySizingProposal.sizing_status sz = PROPOSED_PENDING_INDEPENDENT_RISK)
        (order_intent_error ''positive pre-risk sizing is required to create an order intent'')
      (guardE (\<not> (StrategySizingProposal.proposed_notional sz \<le> 0 \<or> StrategySizingProposal.proposed_quantity sz \<le> 0))
        (order_intent_error ''positive pre-risk sizing is required to create an order intent'')
      (guardE (\<not> t < StrategyDecision.decision_ts d)
        (order_intent_error ''submitted_at must not precede decision_ts'')
      (construct_OrderIntent
         \<lparr>OrderIntent.client_order_id = build_order_intent_client_order_id H d t ot lp,
          trace_id = StrategyDecision.trace_id d, source_decision_id = StrategyDecision.decision_id d,
          instrument_id = StrategyDecision.instrument_id d, venue_id = StrategyDecision.venue_id d,
          side = OrderSide.BUY, order_type = ot, quantity = StrategySizingProposal.proposed_quantity sz,
          submitted_at = t, limit_price = lp\<rparr>)))))"

section \<open>Agreement of the artifacts\<close>

definition forecast_reference_from_forecast :: "Forecast \<Rightarrow> ForecastTraceReference result" where
  "forecast_reference_from_forecast f = construct_ForecastTraceReference
     \<lparr>ForecastTraceReference.forecast_id = Forecast.forecast_id f,
      dataset_snapshot_id = Forecast.dataset_snapshot_id f, dataset_hash = Forecast.dataset_hash f,
      dataset_row_id = Forecast.dataset_row_id f, feature_vector_id = Forecast.feature_vector_id f,
      feature_input_snapshot_id = Forecast.feature_input_snapshot_id f, feature_version = Forecast.feature_version f,
      source_feature_snapshot_ids = Forecast.source_feature_snapshot_ids f,
      training_run_id = Forecast.training_run_id f, training_run_hash = Forecast.training_run_hash f,
      model_version_id = Forecast.model_version_id f, model_version_hash = Forecast.model_version_hash f\<rparr>"

definition lineage_matches :: "Forecast \<Rightarrow> StrategyDecision \<Rightarrow> (bool \<times> string) list" where
  "lineage_matches f d =
     [(Forecast.forecast_id f = StrategyDecision.source_forecast_id d, ''forecast_id''),
      (Forecast.dataset_snapshot_id f = StrategyDecision.dataset_snapshot_id d, ''dataset_snapshot_id''),
      (Forecast.dataset_row_id f = StrategyDecision.dataset_row_id d, ''dataset_row_id''),
      (Forecast.feature_vector_id f = StrategyDecision.feature_vector_id d, ''feature_vector_id''),
      (Forecast.feature_input_snapshot_id f = StrategyDecision.feature_input_snapshot_id d, ''feature_input_snapshot_id''),
      (Forecast.feature_version f = StrategyDecision.feature_version d, ''feature_version''),
      (Forecast.source_feature_snapshot_ids f = StrategyDecision.source_feature_snapshot_ids d,
       ''source_feature_snapshot_ids''),
      (Forecast.instrument_id f = StrategyDecision.instrument_id d, ''instrument_id''),
      (Forecast.venue_id f = StrategyDecision.venue_id d, ''venue_id''),
      (same_time (Forecast.feature_ts f) (StrategyDecision.feature_ts d), ''feature_ts''),
      (Forecast.label_rule_id f = StrategyDecision.label_rule_id d, ''label_rule_id''),
      (Forecast.split f = StrategyDecision.split d, ''split''),
      (Forecast.training_run_id f = StrategyDecision.training_run_id d, ''training_run_id''),
      (Forecast.model_version_id f = StrategyDecision.model_version_id d, ''model_version_id''),
      (Forecast.model_version_hash f = StrategyDecision.model_version_hash d, ''model_version_hash'')]"

definition validate_forecast_decision_lineage :: "Forecast \<Rightarrow> StrategyDecision \<Rightarrow> unit result" where
  "validate_forecast_decision_lineage f d =
     raise_on_mismatches (\<lambda>l. ''forecast '' @ l @ '' must match strategy decision lineage'') (lineage_matches f d)"

definition intent_decision_checks :: "digest \<Rightarrow> OrderIntent \<Rightarrow> StrategyDecision \<Rightarrow> (bool \<times> string) list" where
  "intent_decision_checks H i d =
     [(OrderIntent.trace_id i = StrategyDecision.trace_id d,
       ''order intent trace_id must match strategy decision trace_id''),
      (OrderIntent.source_decision_id i = StrategyDecision.decision_id d,
       ''order intent source_decision_id must match strategy decision_id''),
      (OrderIntent.instrument_id i = StrategyDecision.instrument_id d,
       ''order intent instrument_id must match strategy decision''),
      (OrderIntent.venue_id i = StrategyDecision.venue_id d, ''order intent venue_id must match strategy decision''),
      (OrderIntent.side i = OrderSide.BUY, ''MVP strategy order intents must be BUY only''),
      (dec_eq (OrderIntent.quantity i) (StrategySizingProposal.proposed_quantity (StrategyDecision.sizing d)),
       ''order intent quantity must match proposed pre-risk quantity''),
      (\<not> OrderIntent.submitted_at i < StrategyDecision.decision_ts d,
       ''order intent submitted_at must not precede decision_ts''),
      (OrderIntent.client_order_id i = build_order_intent_client_order_id H d (OrderIntent.submitted_at i)
         (OrderIntent.order_type i) (OrderIntent.limit_price i), ''order intent client_order_id is not deterministic'')]"

definition validate_order_intent_matches_decision :: "digest \<Rightarrow> OrderIntent \<Rightarrow> StrategyDecision \<Rightarrow> unit result" where
  "validate_order_intent_matches_decision H i d = raise_on_mismatches id (intent_decision_checks H i d)"

definition approved_intent_checks :: "OrderIntent \<Rightarrow> OrderIntent \<Rightarrow> StrategyDecision \<Rightarrow> (bool \<times> string) list" where
  "approved_intent_checks a i d =
     [(OrderIntent.trace_id a = StrategyDecision.trace_id d, ''approved risk intent trace_id must match strategy decision''),
      (OrderIntent.source_decision_id a = StrategyDecision.decision_id d,
       ''approved risk intent source_decision_id must match decision''),
      (OrderIntent.client_order_id a = OrderIntent.client_order_id i,
       ''approved risk intent client_order_id must match audited order intent''),
      (OrderIntent.instrument_id a = OrderIntent.instrument_id i,
       ''approved risk intent instrument_id must match audited order intent''),
      (OrderIntent.venue_id a = OrderIntent.venue_id i, ''approved risk intent venue_id must match audited order intent''),
      (OrderIntent.side a = OrderIntent.side i, ''approved risk intent side must match audited order intent''),
      (OrderIntent.order_type a = OrderIntent.order_type i,
       ''approved risk intent order_type must match audited order intent''),
      (same_time (OrderIntent.submitted_at a) (OrderIntent.submitted_at i),
       ''approved risk intent submitted_at must match audited order intent'')]"

definition risk_event_checks :: "RiskCheckEvent \<Rightarrow> OrderIntent \<Rightarrow> StrategyDecision \<Rightarrow> (bool \<times> string) list" where
  "risk_event_checks e i d =
     [(RiskCheckRequest.trace_id (request e) = StrategyDecision.trace_id d,
       ''risk event trace_id must match strategy decision trace_id''),
      (RiskCheckRequest.source_decision_id (request e) = StrategyDecision.decision_id d,
       ''risk event source_decision_id must match strategy decision_id''),
      (same_intent (order_intent (request e)) i, ''risk event request must embed the audited order intent'')]
     @ (case approved_order_intent e of None \<Rightarrow> [] | Some a \<Rightarrow> approved_intent_checks a i d)"

definition validate_risk_event_matches_order :: "RiskCheckEvent \<Rightarrow> OrderIntent \<Rightarrow> StrategyDecision \<Rightarrow> unit result" where
  "validate_risk_event_matches_order e i d = raise_on_mismatches id (risk_event_checks e i d)"

definition event_traces :: "RiskCheckEvent \<Rightarrow> StrategyDecision \<Rightarrow> ExecutionGatewayLifecycleEvent \<Rightarrow> bool" where
  "event_traces e d v \<longleftrightarrow>
     ExecutionGatewayLifecycleEvent.risk_check_id v = RiskCheckEvent.risk_check_id e
     \<and> ExecutionGatewayLifecycleEvent.risk_check_hash v = RiskCheckEvent.risk_check_hash e
     \<and> ExecutionGatewayLifecycleEvent.trace_id v = StrategyDecision.trace_id d
     \<and> ExecutionGatewayLifecycleEvent.source_decision_id v = StrategyDecision.decision_id d"

definition matching_gateway_event ::
  "ExecutionGatewayReport \<Rightarrow> RiskCheckEvent \<Rightarrow> StrategyDecision \<Rightarrow> ExecutionGatewayLifecycleEvent result" where
  "matching_gateway_event g e d =
     (case filter (event_traces e d) (events g) of
        [v] \<Rightarrow> Inr v
      | _ \<Rightarrow> Inl (ValueError ''gateway report must contain exactly one matching trace event''))"

definition gateway_event_matches ::
  "ExecutionGatewayLifecycleEvent \<Rightarrow> RiskCheckEvent \<Rightarrow> OrderIntent \<Rightarrow> (bool \<times> string) list" where
  "gateway_event_matches v e i =
     (let r = order_intent (request e);
          x = (case approved_order_intent e of None \<Rightarrow> r | Some a \<Rightarrow> a) in
      [(ExecutionGatewayLifecycleEvent.client_order_id v = OrderIntent.client_order_id x, ''gateway client_order_id''),
       (ExecutionGatewayLifecycleEvent.instrument_id v = OrderIntent.instrument_id x, ''gateway instrument_id''),
       (ExecutionGatewayLifecycleEvent.venue_id v = OrderIntent.venue_id x, ''gateway venue_id''),
       (ExecutionGatewayLifecycleEvent.side v = OrderIntent.side x, ''gateway side''),
       (ExecutionGatewayLifecycleEvent.order_type v = OrderIntent.order_type x, ''gateway order_type''),
       (same_time (ExecutionGatewayLifecycleEvent.submitted_at v) (OrderIntent.submitted_at x), ''gateway submitted_at''),
       (dec_eq (ExecutionGatewayLifecycleEvent.requested_quantity v) (OrderIntent.quantity r), ''gateway requested_quantity''),
       (dec_eq (ExecutionGatewayLifecycleEvent.requested_quantity v) (OrderIntent.quantity i), ''gateway requested_quantity''),
       (dec_eq (ExecutionGatewayLifecycleEvent.gateway_quantity v) (OrderIntent.quantity x), ''gateway quantity''),
       (ExecutionGatewayLifecycleEvent.risk_decision v = final_decision e, ''gateway risk_decision''),
       (ExecutionGatewayLifecycleEvent.risk_reason_codes v = RiskCheckEvent.reason_codes e, ''gateway risk_reason_codes'')])"

definition validate_gateway_event_matches_risk_order ::
  "ExecutionGatewayLifecycleEvent \<Rightarrow> RiskCheckEvent \<Rightarrow> OrderIntent \<Rightarrow> unit result" where
  "validate_gateway_event_matches_risk_order v e i =
     raise_on_mismatches (\<lambda>l. l @ '' must match audited risk/order evidence'') (gateway_event_matches v e i)"

section \<open>Paper logs and cost rows of the event\<close>

definition order_log_matches :: "PaperOrderLifecycleLogEntry \<Rightarrow> ExecutionGatewayLifecycleEvent \<Rightarrow> (bool \<times> string) list" where
  "order_log_matches e v =
     [(PaperOrderLifecycleLogEntry.run_id e = ExecutionGatewayLifecycleEvent.run_id v,
       ''paper order log run_id''),
      (PaperOrderLifecycleLogEntry.gateway_order_id e = ExecutionGatewayLifecycleEvent.gateway_order_id v,
       ''paper order log gateway_order_id''),
      (PaperOrderLifecycleLogEntry.risk_check_id e = ExecutionGatewayLifecycleEvent.risk_check_id v,
       ''paper order log risk_check_id''),
      (PaperOrderLifecycleLogEntry.risk_check_hash e = ExecutionGatewayLifecycleEvent.risk_check_hash v,
       ''paper order log risk_check_hash''),
      (PaperOrderLifecycleLogEntry.risk_decision e = ExecutionGatewayLifecycleEvent.risk_decision v,
       ''paper order log risk_decision''),
      (PaperOrderLifecycleLogEntry.risk_reason_codes e = ExecutionGatewayLifecycleEvent.risk_reason_codes v,
       ''paper order log risk_reason_codes''),
      (PaperOrderLifecycleLogEntry.client_order_id e = ExecutionGatewayLifecycleEvent.client_order_id v,
       ''paper order log client_order_id''),
      (PaperOrderLifecycleLogEntry.trace_id e = ExecutionGatewayLifecycleEvent.trace_id v,
       ''paper order log trace_id''),
      (PaperOrderLifecycleLogEntry.source_decision_id e = ExecutionGatewayLifecycleEvent.source_decision_id v,
       ''paper order log source_decision_id''),
      (PaperOrderLifecycleLogEntry.instrument_id e = ExecutionGatewayLifecycleEvent.instrument_id v,
       ''paper order log instrument_id''),
      (PaperOrderLifecycleLogEntry.venue_id e = ExecutionGatewayLifecycleEvent.venue_id v,
       ''paper order log venue_id''),
      (PaperOrderLifecycleLogEntry.side e = ExecutionGatewayLifecycleEvent.side v,
       ''paper order log side''),
      (PaperOrderLifecycleLogEntry.order_type e = ExecutionGatewayLifecycleEvent.order_type v,
       ''paper order log order_type''),
      (dec_eq (PaperOrderLifecycleLogEntry.requested_quantity e) (ExecutionGatewayLifecycleEvent.requested_quantity v),
       ''paper order log requested_quantity''),
      (dec_eq (PaperOrderLifecycleLogEntry.gateway_quantity e) (ExecutionGatewayLifecycleEvent.gateway_quantity v),
       ''paper order log gateway_quantity''),
      (same_time (PaperOrderLifecycleLogEntry.submitted_at e) (ExecutionGatewayLifecycleEvent.submitted_at v),
       ''paper order log submitted_at''),
      (PaperOrderLifecycleLogEntry.status e = ExecutionGatewayLifecycleEvent.status v,
       ''paper order log status''),
      (PaperOrderLifecycleLogEntry.replay_status e = ExecutionGatewayLifecycleEvent.replay_status v,
       ''paper order log replay_status''),
      (PaperOrderLifecycleLogEntry.replay_reject_reason e = ExecutionGatewayLifecycleEvent.replay_reject_reason v,
       ''paper order log replay_reject_reason'')]"

definition fill_log_matches :: "PaperFillLogEntry \<Rightarrow> ExecutionGatewayLifecycleEvent \<Rightarrow> (bool \<times> string) list" where
  "fill_log_matches e v =
     [(PaperFillLogEntry.run_id e = ExecutionGatewayLifecycleEvent.run_id v, ''paper fill log run_id''),
      (Some (PaperFillLogEntry.gateway_order_id e) = ExecutionGatewayLifecycleEvent.gateway_order_id v,
       ''paper fill log gateway_order_id''),
      (PaperFillLogEntry.risk_check_id e = ExecutionGatewayLifecycleEvent.risk_check_id v,
       ''paper fill log risk_check_id''),
      (PaperFillLogEntry.risk_check_hash e = ExecutionGatewayLifecycleEvent.risk_check_hash v,
       ''paper fill log risk_check_hash''),
      (PaperFillLogEntry.client_order_id e = ExecutionGatewayLifecycleEvent.client_order_id v,
       ''paper fill log client_order_id''),
      (PaperFillLogEntry.trace_id e = ExecutionGatewayLifecycleEvent.trace_id v,
       ''paper fill log trace_id''),
      (PaperFillLogEntry.source_decision_id e = ExecutionGatewayLifecycleEvent.source_decision_id v,
       ''paper fill log source_decision_id''),
      (PaperFillLogEntry.instrument_id e = ExecutionGatewayLifecycleEvent.instrument_id v,
       ''paper fill log instrument_id''),
      (PaperFillLogEntry.venue_id e = ExecutionGatewayLifecycleEvent.venue_id v,
       ''paper fill log venue_id''),
      (PaperFillLogEntry.side e = ExecutionGatewayLifecycleEvent.side v, ''paper fill log side''),
      (PaperFillLogEntry.order_type e = ExecutionGatewayLifecycleEvent.order_type v,
       ''paper fill log order_type''),
      (PaperFillLogEntry.status e = ExecutionGatewayLifecycleEvent.status v, ''paper fill log status''),
      (Some (PaperFillLogEntry.replay_order_result_id e) = ExecutionGatewayLifecycleEvent.replay_order_result_id v,
       ''paper fill log replay_order_result_id'')]"

definition rejection_log_matches :: "PaperRejectionLogEntry \<Rightarrow> ExecutionGatewayLifecycleEvent \<Rightarrow> (bool \<times> string) list" where
  "rejection_log_matches e v =
     [(PaperRejectionLogEntry.run_id e = ExecutionGatewayLifecycleEvent.run_id v,
       ''paper rejection log run_id''),
      (PaperRejectionLogEntry.gateway_order_id e = ExecutionGatewayLifecycleEvent.gateway_order_id v,
       ''paper rejection log gateway_order_id''),
      (PaperRejectionLogEntry.risk_check_id e = ExecutionGatewayLifecycleEvent.risk_check_id v,
       ''paper rejection log risk_check_id''),
      (PaperRejectionLogEntry.risk_check_hash e = ExecutionGatewayLifecycleEvent.risk_check_hash v,
       ''paper rejection log risk_check_hash''),
      (PaperRejectionLogEntry.risk_decision e = ExecutionGatewayLifecycleEvent.risk_decision v,
       ''paper rejection log risk_decision''),
      (PaperRejectionLogEntry.risk_reason_codes e = ExecutionGatewayLifecycleEvent.risk_reason_codes v,
       ''paper rejection log risk_reason_codes''),
      (PaperRejectionLogEntry.replay_reject_reason e = ExecutionGatewayLifecycleEvent.replay_reject_reason v,
       ''paper rejection log replay_reject_reason''),
      (PaperRejectionLogEntry.client_order_id e = ExecutionGatewayLifecycleEvent.client_order_id v,
       ''paper rejection log client_order_id''),
      (PaperRejectionLogEntry.trace_id e = ExecutionGatewayLifecycleEvent.trace_id v,
       ''paper rejection log trace_id''),
      (PaperRejectionLogEntry.source_decision_id e = ExecutionGatewayLifecycleEvent.source_decision_id v,
       ''paper rejection log source_decision_id''),
      (PaperRejectionLogEntry.instrument_id e = ExecutionGatewayLifecycleEvent.instrument_id v,
       ''paper rejection log instrument_id''),
      (PaperRejectionLogEntry.venue_id e = ExecutionGatewayLifecycleEvent.venue_id v,
       ''paper rejection log venue_id''),
      (PaperRejectionLogEntry.side e = ExecutionGatewayLifecycleEvent.side v,
       ''paper rejection log side''),
      (PaperRejectionLogEntry.order_type e = ExecutionGatewayLifecycleEvent.order_type v,
       ''paper rejection log order_type''),
      (dec_eq (PaperRejectionLogEntry.requested_quantity e) (ExecutionGatewayLifecycleEvent.requested_quantity v),
       ''paper rejection log requested_quantity''),
      (dec_eq (PaperRejectionLogEntry.gateway_quantity e) (ExecutionGatewayLifecycleEvent.gateway_quantity v),
       ''paper rejection log gateway_quantity''),
      (same_time (PaperRejectionLogEntry.submitted_at e) (ExecutionGatewayLifecycleEvent.submitted_at v),
       ''paper rejection log submitted_at''),
      (PaperRejectionLogEntry.status e = ExecutionGatewayLifecycleEvent.status v,
       ''paper rejection log status'')]"

definition tca_row_matches :: "PaperTcaRow \<Rightarrow> ExecutionGatewayLifecycleEvent \<Rightarrow> (bool \<times> string) list" where
  "tca_row_matches w v =
     [(PaperTcaRow.run_id w = ExecutionGatewayLifecycleEvent.run_id v, ''paper TCA row run_id''),
      (Some (PaperTcaRow.gateway_order_id w) = ExecutionGatewayLifecycleEvent.gateway_order_id v,
       ''paper TCA row gateway_order_id''),
      (PaperTcaRow.risk_check_id w = ExecutionGatewayLifecycleEvent.risk_check_id v,
       ''paper TCA row risk_check_id''),
      (PaperTcaRow.risk_check_hash w = ExecutionGatewayLifecycleEvent.risk_check_hash v,
       ''paper TCA row risk_check_hash''),
      (PaperTcaRow.client_order_id w = ExecutionGatewayLifecycleEvent.client_order_id v,
       ''paper TCA row client_order_id''),
      (PaperTcaRow.trace_id w = ExecutionGatewayLifecycleEvent.trace_id v, ''paper TCA row trace_id''),
      (PaperTcaRow.source_decision_id w = ExecutionGatewayLifecycleEvent.source_decision_id v,
       ''paper TCA row source_decision_id''),
      (PaperTcaRow.instrument_id w = ExecutionGatewayLifecycleEvent.instrument_id v,
       ''paper TCA row instrument_id''),
      (PaperTcaRow.venue_id w = ExecutionGatewayLifecycleEvent.venue_id v, ''paper TCA row venue_id''),
      (PaperTcaRow.side w = ExecutionGatewayLifecycleEvent.side v, ''paper TCA row side''),
      (PaperTcaRow.status w = ExecutionGatewayLifecycleEvent.status v, ''paper TCA row status''),
      (same_time (PaperTcaRow.submitted_at w) (ExecutionGatewayLifecycleEvent.submitted_at v),
       ''paper TCA row submitted_at'')]"

definition tca_issue_matches :: "PaperTcaIssue \<Rightarrow> ExecutionGatewayLifecycleEvent \<Rightarrow> (bool \<times> string) list" where
  "tca_issue_matches j v =
     [(PaperTcaIssue.run_id j = ExecutionGatewayLifecycleEvent.run_id v, ''paper TCA issue run_id''),
      (PaperTcaIssue.risk_check_id j = ExecutionGatewayLifecycleEvent.risk_check_id v,
       ''paper TCA issue risk_check_id''),
      (PaperTcaIssue.client_order_id j = ExecutionGatewayLifecycleEvent.client_order_id v,
       ''paper TCA issue client_order_id''),
      (PaperTcaIssue.trace_id j = ExecutionGatewayLifecycleEvent.trace_id v,
       ''paper TCA issue trace_id''),
      (PaperTcaIssue.instrument_id j = ExecutionGatewayLifecycleEvent.instrument_id v,
       ''paper TCA issue instrument_id''),
      (PaperTcaIssue.venue_id j = ExecutionGatewayLifecycleEvent.venue_id v,
       ''paper TCA issue venue_id''),
      (PaperTcaIssue.status j = ExecutionGatewayLifecycleEvent.status v, ''paper TCA issue status'')]"

text \<open>\<open>_raise_on_mismatches\<close> over every entry.\<close>

definition all_match :: "('a \<Rightarrow> (bool \<times> string) list) \<Rightarrow> 'a list \<Rightarrow> unit result" where
  "all_match f xs = bindE (mapE (\<lambda>x. raise_on_mismatches (\<lambda>l. l @ '' must match gateway event'') (f x)) xs) (\<lambda>_. Inr ())"

definition logs_event ::
  "string \<Rightarrow> string \<Rightarrow> string \<Rightarrow> string \<Rightarrow> ExecutionGatewayLifecycleEvent \<Rightarrow> bool" where
  "logs_event i h t s v \<longleftrightarrow> i = ExecutionGatewayLifecycleEvent.gateway_event_id v
     \<and> h = ExecutionGatewayLifecycleEvent.gateway_event_hash v \<and> t = ExecutionGatewayLifecycleEvent.trace_id v
     \<and> s = ExecutionGatewayLifecycleEvent.source_decision_id v"

definition order_logs_of :: "PaperAccountSessionReport \<Rightarrow> ExecutionGatewayLifecycleEvent \<Rightarrow> PaperOrderLifecycleLogEntry list" where
  "order_logs_of p v = filter (\<lambda>e. logs_event (PaperOrderLifecycleLogEntry.gateway_event_id e)
     (PaperOrderLifecycleLogEntry.gateway_event_hash e) (PaperOrderLifecycleLogEntry.trace_id e)
     (PaperOrderLifecycleLogEntry.source_decision_id e) v) (order_logs p)"

definition fill_logs_of :: "PaperAccountSessionReport \<Rightarrow> ExecutionGatewayLifecycleEvent \<Rightarrow> PaperFillLogEntry list" where
  "fill_logs_of p v = filter (\<lambda>e. logs_event (PaperFillLogEntry.gateway_event_id e)
     (PaperFillLogEntry.gateway_event_hash e) (PaperFillLogEntry.trace_id e)
     (PaperFillLogEntry.source_decision_id e) v) (fill_logs p)"

definition rejection_logs_of :: "PaperAccountSessionReport \<Rightarrow> ExecutionGatewayLifecycleEvent \<Rightarrow> PaperRejectionLogEntry list" where
  "rejection_logs_of p v = filter (\<lambda>e. logs_event (PaperRejectionLogEntry.gateway_event_id e)
     (PaperRejectionLogEntry.gateway_event_hash e) (PaperRejectionLogEntry.trace_id e)
     (PaperRejectionLogEntry.source_decision_id e) v) (rejection_logs p)"

definition rows_of :: "PaperTcaReport \<Rightarrow> ExecutionGatewayLifecycleEvent \<Rightarrow> PaperTcaRow list" where
  "rows_of t v = filter (\<lambda>w. logs_event (PaperTcaRow.gateway_event_id w) (PaperTcaRow.gateway_event_hash w)
     (PaperTcaRow.trace_id w) (PaperTcaRow.source_decision_id w) v) (rows t)"

definition issues_of :: "PaperTcaReport \<Rightarrow> ExecutionGatewayLifecycleEvent \<Rightarrow> PaperTcaIssue list" where
  "issues_of t v = filter (\<lambda>j. PaperTcaIssue.gateway_event_id j = ExecutionGatewayLifecycleEvent.gateway_event_id v
     \<and> PaperTcaIssue.gateway_event_hash j = ExecutionGatewayLifecycleEvent.gateway_event_hash v
     \<and> PaperTcaIssue.trace_id j = ExecutionGatewayLifecycleEvent.trace_id v) (issues t)"

definition paper_account_ids_for_event ::
  "PaperAccountSessionReport \<Rightarrow> ExecutionGatewayReport \<Rightarrow> ExecutionGatewayLifecycleEvent
   \<Rightarrow> (string list \<times> string list \<times> string list) result" where
  "paper_account_ids_for_event p g v =
     (let os = order_logs_of p v; fs = fill_logs_of p v; rs = rejection_logs_of p v in
      guardE (PaperAccountSessionReport.gateway_report_id p = ExecutionGatewayReport.gateway_report_id g)
        (ValueError ''paper account report gateway_report_id must match gateway report'')
      (guardE (PaperAccountSessionReport.gateway_report_hash p = ExecutionGatewayReport.gateway_report_hash g)
        (ValueError ''paper account report gateway_report_hash must match gateway report'')
      (guardE (length os = 1) (ValueError ''paper account report must contain one matching order log'')
      (guardE (filled_status (ExecutionGatewayLifecycleEvent.status v) \<longrightarrow> fs \<noteq> [])
        (ValueError ''filled paper trace requires a matching fill log'')
      (guardE (\<not> filled_status (ExecutionGatewayLifecycleEvent.status v) \<longrightarrow> rs \<noteq> [])
        (ValueError ''blocked/rejected paper trace requires a matching rejection log'')
      (bindE (all_match (\<lambda>e. order_log_matches e v) os) (\<lambda>_.
       bindE (all_match (\<lambda>e. fill_log_matches e v) fs) (\<lambda>_.
       bindE (all_match (\<lambda>e. rejection_log_matches e v) rs) (\<lambda>_.
       Inr (map order_log_id os, map fill_log_id fs, map rejection_log_id rs))))))))))"

definition paper_tca_ids_for_event ::
  "PaperTcaReport \<Rightarrow> ExecutionGatewayReport \<Rightarrow> ExecutionGatewayLifecycleEvent \<Rightarrow> (string list \<times> string list) result" where
  "paper_tca_ids_for_event t g v =
     (let ws = rows_of t v; js = issues_of t v in
      guardE (PaperTcaReport.gateway_report_id t = ExecutionGatewayReport.gateway_report_id g)
        (ValueError ''paper TCA report gateway_report_id must match gateway report'')
      (guardE (PaperTcaReport.gateway_report_hash t = ExecutionGatewayReport.gateway_report_hash g)
        (ValueError ''paper TCA report gateway_report_hash must match gateway report'')
      (guardE (filled_status (ExecutionGatewayLifecycleEvent.status v) \<longrightarrow> ws \<noteq> [])
        (ValueError ''filled paper trace requires a matching TCA row'')
      (guardE (\<not> filled_status (ExecutionGatewayLifecycleEvent.status v) \<longrightarrow> js \<noteq> [])
        (ValueError ''blocked/rejected paper trace requires a matching TCA issue'')
      (bindE (all_match (\<lambda>w. tca_row_matches w v) ws) (\<lambda>_.
       bindE (all_match (\<lambda>j. tca_issue_matches j v) js) (\<lambda>_.
       Inr (map tca_row_id ws, map issue_id js))))))))"

section \<open>Building the envelope\<close>

definition audit_requirements :: "string list" where
  "audit_requirements = [''FR-015'', ''NFR-004'']"

definition trace_no_order_reason :: "StrategyDecision \<Rightarrow> string option" where
  "trace_no_order_reason d =
     (let sz = StrategyDecision.sizing d in
      if StrategyDecision.action d = StrategyDecisionAction.NO_TRADE
      then Some (''strategy_no_trade:'' @ StrategyDecisionReasonCode_value (StrategyDecision.reason_code d))
      else if dec_eq (StrategySizingProposal.proposed_notional sz) 0 \<or> dec_eq (StrategySizingProposal.proposed_quantity sz) 0
      then Some (''zero_pre_risk_size:'' @ StrategySizingStatus_value (StrategySizingProposal.sizing_status sz))
      else None)"

text \<open>The artifacts of an order, from its intent to the identifiers of its paper logs.\<close>

record order_evidence =
  audited_intent :: OrderIntent
  audited_risk :: RiskCheckEvent
  audited_gateway :: ExecutionGatewayReport
  audited_event :: ExecutionGatewayLifecycleEvent
  audited_session :: PaperAccountSessionReport
  audited_tca :: PaperTcaReport
  audited_logs :: "string list \<times> string list \<times> string list"
  audited_costs :: "string list \<times> string list"

definition trace_envelope_draft ::
  "digest \<Rightarrow> ForecastTraceReference \<Rightarrow> StrategyDecision \<Rightarrow> string option \<Rightarrow> order_evidence option \<Rightarrow> DecisionTraceEnvelope" where
  "trace_envelope_draft H f d why ev =
     \<lparr>trace_envelope_id = ''AUDITTRACE:PLACEHOLDER'', trace_envelope_hash = zero_hash,
      trace_id = StrategyDecision.trace_id d, forecast = f,
      strategy_decision_id = StrategyDecision.decision_id d, strategy_decision_hash = decision_hash d,
      strategy_run_id = StrategyDecision.strategy_run_id d, policy_id = StrategyDecision.policy_id d,
      policy_hash = StrategyDecision.policy_hash d, no_order_reason = why,
      order_intent_id = map_option (\<lambda>x. OrderIntent.client_order_id (audited_intent x)) ev,
      order_intent_hash = map_option (\<lambda>x. build_order_intent_hash H (audited_intent x)) ev,
      risk_run_id = map_option (\<lambda>x. RiskCheckRequest.run_id (request (audited_risk x))) ev,
      risk_request_id = map_option (\<lambda>x. RiskCheckRequest.request_id (request (audited_risk x))) ev,
      risk_request_hash = map_option (\<lambda>x. RiskCheckRequest.request_hash (request (audited_risk x))) ev,
      risk_check_id = map_option (\<lambda>x. RiskCheckEvent.risk_check_id (audited_risk x)) ev,
      risk_check_hash = map_option (\<lambda>x. RiskCheckEvent.risk_check_hash (audited_risk x)) ev,
      risk_decision = map_option (\<lambda>x. final_decision (audited_risk x)) ev,
      gateway_run_id = map_option (\<lambda>x. ExecutionGatewayReport.run_id (audited_gateway x)) ev,
      gateway_report_id = map_option (\<lambda>x. ExecutionGatewayReport.gateway_report_id (audited_gateway x)) ev,
      gateway_report_hash = map_option (\<lambda>x. ExecutionGatewayReport.gateway_report_hash (audited_gateway x)) ev,
      gateway_event_id = map_option (\<lambda>x. ExecutionGatewayLifecycleEvent.gateway_event_id (audited_event x)) ev,
      gateway_event_hash = map_option (\<lambda>x. ExecutionGatewayLifecycleEvent.gateway_event_hash (audited_event x)) ev,
      gateway_order_id = Option.bind ev (\<lambda>x. ExecutionGatewayLifecycleEvent.gateway_order_id (audited_event x)),
      paper_run_id = map_option (\<lambda>x. PaperAccountSessionReport.run_id (audited_session x)) ev,
      paper_session_report_id = map_option (\<lambda>x. session_report_id (audited_session x)) ev,
      paper_session_report_hash = map_option (\<lambda>x. session_report_hash (audited_session x)) ev,
      paper_order_log_ids = (case ev of None \<Rightarrow> [] | Some x \<Rightarrow> fst (audited_logs x)),
      paper_fill_log_ids = (case ev of None \<Rightarrow> [] | Some x \<Rightarrow> fst (snd (audited_logs x))),
      paper_rejection_log_ids = (case ev of None \<Rightarrow> [] | Some x \<Rightarrow> snd (snd (audited_logs x))),
      paper_tca_report_id = map_option (\<lambda>x. tca_report_id (audited_tca x)) ev,
      paper_tca_report_hash = map_option (\<lambda>x. tca_report_hash (audited_tca x)) ev,
      paper_tca_row_ids = (case ev of None \<Rightarrow> [] | Some x \<Rightarrow> fst (audited_costs x)),
      paper_tca_issue_ids = (case ev of None \<Rightarrow> [] | Some x \<Rightarrow> snd (audited_costs x)),
      requirement_ids = audit_requirements\<rparr>"

definition build_trace_envelope ::
  "digest \<Rightarrow> ForecastTraceReference \<Rightarrow> StrategyDecision \<Rightarrow> string option \<Rightarrow> order_evidence option
   \<Rightarrow> DecisionTraceEnvelope result" where
  "build_trace_envelope H f d why ev =
     (let r = trace_envelope_draft H f d why ev; h = build_decision_trace_envelope_hash H r
      in construct_DecisionTraceEnvelope H
           (r\<lparr>trace_envelope_id := build_decision_trace_envelope_id H h, trace_envelope_hash := h\<rparr>))"

definition make_order_envelope ::
  "digest \<Rightarrow> ForecastTraceReference \<Rightarrow> StrategyDecision \<Rightarrow> OrderIntent \<Rightarrow> RiskCheckEvent \<Rightarrow> ExecutionGatewayReport
   \<Rightarrow> PaperAccountSessionReport \<Rightarrow> PaperTcaReport \<Rightarrow> DecisionTraceEnvelope result" where
  "make_order_envelope H f d i e g p t =
     bindE (validate_order_intent_matches_decision H i d) (\<lambda>_.
     bindE (validate_risk_event_matches_order e i d) (\<lambda>_.
     bindE (matching_gateway_event g e d) (\<lambda>v.
     bindE (validate_gateway_event_matches_risk_order v e i) (\<lambda>_.
     bindE (paper_account_ids_for_event p g v) (\<lambda>logs.
     bindE (paper_tca_ids_for_event t g v) (\<lambda>costs.
     build_trace_envelope H f d None (Some
       \<lparr>audited_intent = i, audited_risk = e, audited_gateway = g, audited_event = v, audited_session = p,
        audited_tca = t, audited_logs = logs, audited_costs = costs\<rparr>)))))))"

definition make_decision_trace_envelope ::
  "digest \<Rightarrow> Forecast \<Rightarrow> StrategyDecision \<Rightarrow> OrderIntent option \<Rightarrow> RiskCheckEvent option \<Rightarrow> ExecutionGatewayReport option
   \<Rightarrow> PaperAccountSessionReport option \<Rightarrow> PaperTcaReport option \<Rightarrow> DecisionTraceEnvelope result" where
  "make_decision_trace_envelope H f d oi oe og op ot =
     bindE (validate_forecast_decision_lineage f d) (\<lambda>_.
     bindE (forecast_reference_from_forecast f) (\<lambda>ref.
     (case oi of
        None \<Rightarrow>
          guardE (oe = None \<and> og = None \<and> op = None \<and> ot = None)
            (ValueError ''no-order trace envelopes cannot include downstream artifacts'')
          (case trace_no_order_reason d of
             None \<Rightarrow> Inl (ValueError ''no-order trace envelopes require no-trade or zero-size decision'')
           | Some why \<Rightarrow> build_trace_envelope H ref d (Some why) None)
      | Some i \<Rightarrow>
          (case (oe, og) of
             (Some e, Some g) \<Rightarrow>
               (case (op, ot) of
                  (Some p, Some t) \<Rightarrow> make_order_envelope H ref d i e g p t
                | _ \<Rightarrow> Inl (ValueError ''order trace envelopes require paper account and TCA evidence''))
           | _ \<Rightarrow> Inl (ValueError ''order trace envelopes require risk and gateway evidence'')))))"

end
