(* ===== verification/AuditReplay.thy ===== *)
theory AuditReplay
  imports AuditTrace ObservabilityContracts
begin

text \<open>
  The decision replay, \<open>audit/replay.py\<close>: given a trace identifier and a resolver of stored evidence,
  the stored envelope and artifacts are validated again, the envelope is rebuilt from them, the
  order is replayed through the paper gateway from its risk check, its accounts and costs are
  rebuilt, and the results are compared with the stored ones.  Expected failures become
  blockers of a failed report.  Two arguments stand for code outside the repository: \<open>Z\<close>, the
  time zone database, and \<open>describe\<close>, the text of a caught exception.
\<close>

section \<open>Reports\<close>

datatype DecisionTraceReplayStatus =
    PASSED | NO_ORDER | FAILED

datatype DecisionTraceReplayBlockerCode =
    MISSING_TRACE_ID | DUPLICATE_TRACE_EVIDENCE | MISMATCHED_REQUESTED_TRACE |
    TAMPERED_EVIDENCE | MISSING_REPLAY_INPUT | RISK_GATEWAY_REPLAY_MISMATCH |
    PAPER_REPLAY_MISMATCH | TCA_REPLAY_MISMATCH

primrec DecisionTraceReplayStatus_value :: "DecisionTraceReplayStatus \<Rightarrow> string" where
  "DecisionTraceReplayStatus_value DecisionTraceReplayStatus.PASSED = ''passed''"
| "DecisionTraceReplayStatus_value DecisionTraceReplayStatus.NO_ORDER = ''no_order''"
| "DecisionTraceReplayStatus_value DecisionTraceReplayStatus.FAILED = ''failed''"

primrec DecisionTraceReplayBlockerCode_value :: "DecisionTraceReplayBlockerCode \<Rightarrow> string" where
  "DecisionTraceReplayBlockerCode_value DecisionTraceReplayBlockerCode.MISSING_TRACE_ID = ''missing_trace_id''"
| "DecisionTraceReplayBlockerCode_value DecisionTraceReplayBlockerCode.DUPLICATE_TRACE_EVIDENCE = ''duplicate_trace_evidence''"
| "DecisionTraceReplayBlockerCode_value DecisionTraceReplayBlockerCode.MISMATCHED_REQUESTED_TRACE = ''mismatched_requested_trace''"
| "DecisionTraceReplayBlockerCode_value DecisionTraceReplayBlockerCode.TAMPERED_EVIDENCE = ''tampered_envelope_or_evidence''"
| "DecisionTraceReplayBlockerCode_value DecisionTraceReplayBlockerCode.MISSING_REPLAY_INPUT = ''missing_replay_input''"
| "DecisionTraceReplayBlockerCode_value DecisionTraceReplayBlockerCode.RISK_GATEWAY_REPLAY_MISMATCH = ''risk_gateway_replay_mismatch''"
| "DecisionTraceReplayBlockerCode_value DecisionTraceReplayBlockerCode.PAPER_REPLAY_MISMATCH = ''paper_replay_mismatch''"
| "DecisionTraceReplayBlockerCode_value DecisionTraceReplayBlockerCode.TCA_REPLAY_MISMATCH = ''tca_replay_mismatch''"

record DecisionTraceReplayBlocker =
  code :: DecisionTraceReplayBlockerCode
  message :: string
  expected :: "string option"
  actual :: "string option"

text \<open>The texts of a blocker may hold foreign text, so their outer whitespace is stripped here.\<close>

definition construct_DecisionTraceReplayBlocker :: "DecisionTraceReplayBlocker \<Rightarrow> DecisionTraceReplayBlocker result" where
  "construct_DecisionTraceReplayBlocker b =
     (let r = b\<lparr>message := strip (message b), expected := map_option strip (expected b), actual := map_option strip (actual b)\<rparr>
      in checked [(message r \<noteq> '''', ''message''), (opt_all (\<lambda>x. x \<noteq> '''') (expected r), ''expected''),
           (opt_all (\<lambda>x. x \<noteq> '''') (actual r), ''actual'')] r)"

definition blocker ::
  "DecisionTraceReplayBlockerCode \<Rightarrow> string \<Rightarrow> string option \<Rightarrow> string option \<Rightarrow> DecisionTraceReplayBlocker result" where
  "blocker c m x y = construct_DecisionTraceReplayBlocker
     \<lparr>DecisionTraceReplayBlocker.code = c, message = m, expected = x, actual = y\<rparr>"

record DecisionTraceReplayEvidence =
  trace_id :: string
  envelope :: DecisionTraceEnvelope
  forecast :: Forecast
  decision :: StrategyDecision
  order_intent :: "OrderIntent option"
  risk_event :: "RiskCheckEvent option"
  gateway_report :: "ExecutionGatewayReport option"
  paper_account_report :: "PaperAccountSessionReport option"
  paper_tca_report :: "PaperTcaReport option"
  bars :: "OHLCTVBar list"
  execution_cost_model :: "ExecutionCostModel option"
  instrument_master_snapshot :: "InstrumentMasterSnapshot option"
  starting_account_state :: "SimulatedAccountState option"
  quotes :: "QuoteEvent list"
  requirement_ids :: "string list"

record DecisionTraceReplayReport =
  trace_id :: string
  status :: DecisionTraceReplayStatus
  forecast_id :: "string option"
  strategy_decision_id :: "string option"
  strategy_decision_hash :: "string option"
  strategy_run_id :: "string option"
  risk_run_id :: "string option"
  original_gateway_run_id :: "string option"
  replayed_gateway_run_id :: "string option"
  stored_trace_envelope_id :: "string option"
  stored_trace_envelope_hash :: "string option"
  reconstructed_trace_envelope_id :: "string option"
  reconstructed_trace_envelope_hash :: "string option"
  stored_no_order_reason :: "string option"
  reconstructed_no_order_reason :: "string option"
  original_gateway_report_id :: "string option"
  original_gateway_report_hash :: "string option"
  replayed_gateway_report_id :: "string option"
  replayed_gateway_report_hash :: "string option"
  original_gateway_event_id :: "string option"
  original_gateway_event_hash :: "string option"
  replayed_gateway_event_id :: "string option"
  replayed_gateway_event_hash :: "string option"
  original_gateway_order_id :: "string option"
  replayed_gateway_order_id :: "string option"
  original_paper_session_report_id :: "string option"
  original_paper_session_report_hash :: "string option"
  replayed_paper_session_report_id :: "string option"
  replayed_paper_session_report_hash :: "string option"
  original_paper_order_log_ids :: "string list"
  replayed_paper_order_log_ids :: "string list"
  original_paper_fill_log_ids :: "string list"
  replayed_paper_fill_log_ids :: "string list"
  original_paper_rejection_log_ids :: "string list"
  replayed_paper_rejection_log_ids :: "string list"
  original_paper_tca_report_id :: "string option"
  original_paper_tca_report_hash :: "string option"
  replayed_paper_tca_report_id :: "string option"
  replayed_paper_tca_report_hash :: "string option"
  original_paper_tca_row_ids :: "string list"
  replayed_paper_tca_row_ids :: "string list"
  original_paper_tca_issue_ids :: "string list"
  replayed_paper_tca_issue_ids :: "string list"
  blockers :: "DecisionTraceReplayBlocker list"
  requirement_ids :: "string list"

definition valid_DecisionTraceReplayBlocker :: "DecisionTraceReplayBlocker \<Rightarrow> bool" where
  "valid_DecisionTraceReplayBlocker b \<longleftrightarrow> construct_DecisionTraceReplayBlocker b = Inr b"

definition replay_report_fields :: "DecisionTraceReplayReport \<Rightarrow> (bool \<times> string) list" where
  "replay_report_fields r =
     [(canonical_id (trace_id r), ''trace_id''),
      (opt_all canonical_id (forecast_id r), ''forecast_id''),
      (opt_all canonical_id (strategy_decision_id r), ''strategy_decision_id''),
      (opt_all canonical_id (strategy_run_id r), ''strategy_run_id''),
      (opt_all canonical_id (risk_run_id r), ''risk_run_id''),
      (opt_all canonical_id (original_gateway_run_id r), ''original_gateway_run_id''),
      (opt_all canonical_id (replayed_gateway_run_id r), ''replayed_gateway_run_id''),
      (opt_all canonical_id (stored_trace_envelope_id r), ''stored_trace_envelope_id''),
      (opt_all canonical_id (reconstructed_trace_envelope_id r), ''reconstructed_trace_envelope_id''),
      (opt_all non_empty_string (stored_no_order_reason r), ''stored_no_order_reason''),
      (opt_all non_empty_string (reconstructed_no_order_reason r), ''reconstructed_no_order_reason''),
      (opt_all canonical_id (original_gateway_report_id r), ''original_gateway_report_id''),
      (opt_all canonical_id (replayed_gateway_report_id r), ''replayed_gateway_report_id''),
      (opt_all canonical_id (original_gateway_event_id r), ''original_gateway_event_id''),
      (opt_all canonical_id (replayed_gateway_event_id r), ''replayed_gateway_event_id''),
      (opt_all canonical_id (original_gateway_order_id r), ''original_gateway_order_id''),
      (opt_all canonical_id (replayed_gateway_order_id r), ''replayed_gateway_order_id''),
      (opt_all canonical_id (original_paper_session_report_id r), ''original_paper_session_report_id''),
      (opt_all canonical_id (replayed_paper_session_report_id r), ''replayed_paper_session_report_id''),
      (list_all canonical_id (original_paper_order_log_ids r), ''original_paper_order_log_ids''),
      (list_all canonical_id (replayed_paper_order_log_ids r), ''replayed_paper_order_log_ids''),
      (list_all canonical_id (original_paper_fill_log_ids r), ''original_paper_fill_log_ids''),
      (list_all canonical_id (replayed_paper_fill_log_ids r), ''replayed_paper_fill_log_ids''),
      (list_all canonical_id (original_paper_rejection_log_ids r), ''original_paper_rejection_log_ids''),
      (list_all canonical_id (replayed_paper_rejection_log_ids r), ''replayed_paper_rejection_log_ids''),
      (opt_all canonical_id (original_paper_tca_report_id r), ''original_paper_tca_report_id''),
      (opt_all canonical_id (replayed_paper_tca_report_id r), ''replayed_paper_tca_report_id''),
      (list_all canonical_id (original_paper_tca_row_ids r), ''original_paper_tca_row_ids''),
      (list_all canonical_id (replayed_paper_tca_row_ids r), ''replayed_paper_tca_row_ids''),
      (list_all canonical_id (original_paper_tca_issue_ids r), ''original_paper_tca_issue_ids''),
      (list_all canonical_id (replayed_paper_tca_issue_ids r), ''replayed_paper_tca_issue_ids''),
      (list_all valid_DecisionTraceReplayBlocker (blockers r), ''blockers''),
      (list_all non_empty_string (requirement_ids r), ''requirement_ids'')]"

definition construct_DecisionTraceReplayReport :: "DecisionTraceReplayReport \<Rightarrow> DecisionTraceReplayReport result" where
  "construct_DecisionTraceReplayReport r = checked (replay_report_fields r) r"

type_synonym resolver = "string \<Rightarrow> DecisionTraceReplayEvidence list"

text \<open>\<open>InMemoryDecisionTraceEvidenceStore.resolve_trace_evidence\<close>.\<close>

definition resolve_trace_evidence :: "DecisionTraceReplayEvidence list \<Rightarrow> resolver" where
  "resolve_trace_evidence store tid = filter (\<lambda>x. DecisionTraceReplayEvidence.trace_id x = tid) store"

section \<open>Comparison of stored and replayed values\<close>

datatype compared = CText "string option" | CTexts "string list" | CDecimal "decimal option" | CInt int

fun same_value :: "compared \<Rightarrow> compared \<Rightarrow> bool" where
  "same_value (CDecimal x) (CDecimal y) \<longleftrightarrow> rel_option dec_eq x y"
| "same_value x y \<longleftrightarrow> x = y"

fun join_comma :: "string list \<Rightarrow> string" where
  "join_comma [] = ''''"
| "join_comma [x] = x"
| "join_comma (x # y # xs) = x @ '','' @ join_comma (y # xs)"

definition int_text :: "int \<Rightarrow> string" where
  "int_text i = (if i < 0 then ''-'' @ nat_text (nat (- i)) else nat_text (nat i))"

text \<open>\<open>_display\<close>; the empty tuple is shown as the empty text.\<close>

primrec display :: "compared \<Rightarrow> string option" where
  "display (CText x) = x"
| "display (CTexts xs) = Some (join_comma (map (\<lambda>x. if x = '''' then ''None'' else x) xs))"
| "display (CDecimal x) = map_option decimal_text x"
| "display (CInt i) = Some (int_text i)"

definition compare_fields ::
  "DecisionTraceReplayBlockerCode \<Rightarrow> string \<Rightarrow> (string \<times> compared \<times> compared) list
   \<Rightarrow> DecisionTraceReplayBlocker list result" where
  "compare_fields c prefix fs =
     mapE (\<lambda>(n, x, y). blocker c (prefix @ '' '' @ n @ '' did not reproduce'') (display x) (display y))
       (filter (\<lambda>(n, x, y). \<not> same_value x y) fs)"

definition envelope_compared ::
  "DecisionTraceEnvelope \<Rightarrow> DecisionTraceEnvelope \<Rightarrow> (string \<times> compared \<times> compared) list" where
  "envelope_compared x y =
     [(''trace_envelope_id'', CText (Some (DecisionTraceEnvelope.trace_envelope_id x)),
       CText (Some (DecisionTraceEnvelope.trace_envelope_id y))),
      (''trace_envelope_hash'', CText (Some (DecisionTraceEnvelope.trace_envelope_hash x)),
       CText (Some (DecisionTraceEnvelope.trace_envelope_hash y))),
      (''trace_id'', CText (Some (DecisionTraceEnvelope.trace_id x)),
       CText (Some (DecisionTraceEnvelope.trace_id y))),
      (''strategy_decision_id'', CText (Some (DecisionTraceEnvelope.strategy_decision_id x)),
       CText (Some (DecisionTraceEnvelope.strategy_decision_id y))),
      (''order_intent_id'', CText (DecisionTraceEnvelope.order_intent_id x),
       CText (DecisionTraceEnvelope.order_intent_id y)),
      (''risk_check_id'', CText (DecisionTraceEnvelope.risk_check_id x),
       CText (DecisionTraceEnvelope.risk_check_id y)),
      (''gateway_report_id'', CText (DecisionTraceEnvelope.gateway_report_id x),
       CText (DecisionTraceEnvelope.gateway_report_id y)),
      (''gateway_event_id'', CText (DecisionTraceEnvelope.gateway_event_id x),
       CText (DecisionTraceEnvelope.gateway_event_id y)),
      (''paper_session_report_id'', CText (DecisionTraceEnvelope.paper_session_report_id x),
       CText (DecisionTraceEnvelope.paper_session_report_id y)),
      (''paper_tca_report_id'', CText (DecisionTraceEnvelope.paper_tca_report_id x),
       CText (DecisionTraceEnvelope.paper_tca_report_id y)),
      (''paper_fill_log_ids'', CTexts (DecisionTraceEnvelope.paper_fill_log_ids x),
       CTexts (DecisionTraceEnvelope.paper_fill_log_ids y)),
      (''paper_rejection_log_ids'', CTexts (DecisionTraceEnvelope.paper_rejection_log_ids x),
       CTexts (DecisionTraceEnvelope.paper_rejection_log_ids y)),
      (''paper_tca_row_ids'', CTexts (DecisionTraceEnvelope.paper_tca_row_ids x),
       CTexts (DecisionTraceEnvelope.paper_tca_row_ids y)),
      (''paper_tca_issue_ids'', CTexts (DecisionTraceEnvelope.paper_tca_issue_ids x),
       CTexts (DecisionTraceEnvelope.paper_tca_issue_ids y))]"

definition compare_envelope ::
  "DecisionTraceReplayBlockerCode \<Rightarrow> DecisionTraceEnvelope \<Rightarrow> DecisionTraceEnvelope
   \<Rightarrow> DecisionTraceReplayBlocker list result" where
  "compare_envelope c x y = compare_fields c ''trace envelope'' (envelope_compared x y)"

definition gateway_compared ::
  "ExecutionGatewayReport \<Rightarrow> ExecutionGatewayReport \<Rightarrow> (string \<times> compared \<times> compared) list" where
  "gateway_compared x y =
     [(''gateway_report_id'', CText (Some (ExecutionGatewayReport.gateway_report_id x)),
       CText (Some (ExecutionGatewayReport.gateway_report_id y))),
      (''gateway_report_hash'', CText (Some (ExecutionGatewayReport.gateway_report_hash x)),
       CText (Some (ExecutionGatewayReport.gateway_report_hash y))),
      (''risk_check_ids'', CTexts (ExecutionGatewayReport.risk_check_ids x),
       CTexts (ExecutionGatewayReport.risk_check_ids y)),
      (''approved_risk_check_ids'', CTexts (ExecutionGatewayReport.approved_risk_check_ids x),
       CTexts (ExecutionGatewayReport.approved_risk_check_ids y)),
      (''blocked_risk_check_ids'', CTexts (ExecutionGatewayReport.blocked_risk_check_ids x),
       CTexts (ExecutionGatewayReport.blocked_risk_check_ids y))]"

definition event_compared ::
  "ExecutionGatewayLifecycleEvent \<Rightarrow> ExecutionGatewayLifecycleEvent \<Rightarrow> (string \<times> compared \<times> compared) list" where
  "event_compared v w =
     [(''gateway_event_id'', CText (Some (ExecutionGatewayLifecycleEvent.gateway_event_id v)),
       CText (Some (ExecutionGatewayLifecycleEvent.gateway_event_id w))),
      (''gateway_event_hash'', CText (Some (ExecutionGatewayLifecycleEvent.gateway_event_hash v)),
       CText (Some (ExecutionGatewayLifecycleEvent.gateway_event_hash w))),
      (''gateway_order_id'', CText (ExecutionGatewayLifecycleEvent.gateway_order_id v),
       CText (ExecutionGatewayLifecycleEvent.gateway_order_id w)),
      (''status'', CText (Some (ExecutionGatewayOrderStatus_value (ExecutionGatewayLifecycleEvent.status v))),
       CText (Some (ExecutionGatewayOrderStatus_value (ExecutionGatewayLifecycleEvent.status w)))),
      (''replay_order_result_id'', CText (ExecutionGatewayLifecycleEvent.replay_order_result_id v),
       CText (ExecutionGatewayLifecycleEvent.replay_order_result_id w)),
      (''filled_quantity'', CDecimal (Some (ExecutionGatewayLifecycleEvent.filled_quantity v)),
       CDecimal (Some (ExecutionGatewayLifecycleEvent.filled_quantity w))),
      (''remaining_quantity'', CDecimal (Some (ExecutionGatewayLifecycleEvent.remaining_quantity v)),
       CDecimal (Some (ExecutionGatewayLifecycleEvent.remaining_quantity w))),
      (''fill_price'', CDecimal (ExecutionGatewayLifecycleEvent.fill_price v),
       CDecimal (ExecutionGatewayLifecycleEvent.fill_price w)),
      (''total_cost'', CDecimal (Some (ExecutionGatewayLifecycleEvent.total_cost v)),
       CDecimal (Some (ExecutionGatewayLifecycleEvent.total_cost w)))]"

definition compare_gateway_reports ::
  "ExecutionGatewayReport \<Rightarrow> ExecutionGatewayReport \<Rightarrow> DecisionTraceReplayBlocker list result" where
  "compare_gateway_reports x y =
     bindE (compare_fields RISK_GATEWAY_REPLAY_MISMATCH ''gateway replay'' (gateway_compared x y)) (\<lambda>bs.
     (case (events x, events y) of
        ([v], [w]) \<Rightarrow>
          bindE (compare_fields RISK_GATEWAY_REPLAY_MISMATCH ''gateway replay'' (event_compared v w)) (\<lambda>cs. Inr (bs @ cs))
      | _ \<Rightarrow>
          bindE (blocker RISK_GATEWAY_REPLAY_MISMATCH ''gateway replay event count did not reproduce one trace event''
              (Some (nat_text (length (events x)))) (Some (nat_text (length (events y))))) (\<lambda>b. Inr (bs @ [b]))))"

definition paper_compared ::
  "PaperAccountSessionReport \<Rightarrow> PaperAccountSessionReport \<Rightarrow> (string \<times> compared \<times> compared) list" where
  "paper_compared x y =
     [(''session_report_id'', CText (Some (PaperAccountSessionReport.session_report_id x)),
       CText (Some (PaperAccountSessionReport.session_report_id y))),
      (''session_report_hash'', CText (Some (PaperAccountSessionReport.session_report_hash x)),
       CText (Some (PaperAccountSessionReport.session_report_hash y))),
      (''order_log_ids'', CTexts (PaperAccountSessionReport.order_log_ids x),
       CTexts (PaperAccountSessionReport.order_log_ids y)),
      (''fill_log_ids'', CTexts (PaperAccountSessionReport.fill_log_ids x),
       CTexts (PaperAccountSessionReport.fill_log_ids y)),
      (''rejection_log_ids'', CTexts (PaperAccountSessionReport.rejection_log_ids x),
       CTexts (PaperAccountSessionReport.rejection_log_ids y)),
      (''total_order_count'', CInt (PaperAccountSessionReport.total_order_count x),
       CInt (PaperAccountSessionReport.total_order_count y)),
      (''filled_order_count'', CInt (PaperAccountSessionReport.filled_order_count x),
       CInt (PaperAccountSessionReport.filled_order_count y)),
      (''blocked_order_count'', CInt (PaperAccountSessionReport.blocked_order_count x),
       CInt (PaperAccountSessionReport.blocked_order_count y)),
      (''rejected_order_count'', CInt (PaperAccountSessionReport.rejected_order_count x),
       CInt (PaperAccountSessionReport.rejected_order_count y)),
      (''unfilled_order_count'', CInt (PaperAccountSessionReport.unfilled_order_count x),
       CInt (PaperAccountSessionReport.unfilled_order_count y)),
      (''filled_quantity_total'', CDecimal (Some (PaperAccountSessionReport.filled_quantity_total x)),
       CDecimal (Some (PaperAccountSessionReport.filled_quantity_total y))),
      (''total_execution_cost'', CDecimal (Some (PaperAccountSessionReport.total_execution_cost x)),
       CDecimal (Some (PaperAccountSessionReport.total_execution_cost y)))]"

definition compare_paper_reports ::
  "PaperAccountSessionReport \<Rightarrow> PaperAccountSessionReport \<Rightarrow> DecisionTraceReplayBlocker list result" where
  "compare_paper_reports x y = compare_fields PAPER_REPLAY_MISMATCH ''paper account replay'' (paper_compared x y)"

definition tca_compared ::
  "PaperTcaReport \<Rightarrow> PaperTcaReport \<Rightarrow> (string \<times> compared \<times> compared) list" where
  "tca_compared x y =
     [(''tca_report_id'', CText (Some (PaperTcaReport.tca_report_id x)),
       CText (Some (PaperTcaReport.tca_report_id y))),
      (''tca_report_hash'', CText (Some (PaperTcaReport.tca_report_hash x)),
       CText (Some (PaperTcaReport.tca_report_hash y))),
      (''row_ids'', CTexts (PaperTcaReport.row_ids x), CTexts (PaperTcaReport.row_ids y)),
      (''issue_ids'', CTexts (PaperTcaReport.issue_ids x), CTexts (PaperTcaReport.issue_ids y)),
      (''filled_row_count'', CInt (PaperTcaReport.filled_row_count x),
       CInt (PaperTcaReport.filled_row_count y)),
      (''issue_count'', CInt (PaperTcaReport.issue_count x), CInt (PaperTcaReport.issue_count y)),
      (''error_count'', CInt (PaperTcaReport.error_count x), CInt (PaperTcaReport.error_count y)),
      (''fee_cost_total'', CDecimal (Some (PaperTcaReport.fee_cost_total x)),
       CDecimal (Some (PaperTcaReport.fee_cost_total y))),
      (''predicted_total_cost'', CDecimal (Some (PaperTcaReport.predicted_total_cost x)),
       CDecimal (Some (PaperTcaReport.predicted_total_cost y))),
      (''realized_total_cost'', CDecimal (Some (PaperTcaReport.realized_total_cost x)),
       CDecimal (Some (PaperTcaReport.realized_total_cost y))),
      (''total_cost_prediction_error'', CDecimal (Some (PaperTcaReport.total_cost_prediction_error x)),
       CDecimal (Some (PaperTcaReport.total_cost_prediction_error y)))]"

definition compare_tca_reports :: "PaperTcaReport \<Rightarrow> PaperTcaReport \<Rightarrow> DecisionTraceReplayBlocker list result" where
  "compare_tca_reports x y = compare_fields TCA_REPLAY_MISMATCH ''paper TCA replay'' (tca_compared x y)"

section \<open>The report of a replay\<close>

definition replay_requirements :: "string list" where
  "replay_requirements = [''FR-015'', ''NFR-004'']"

text \<open>The fields a failed lookup leaves at their defaults.\<close>

definition empty_replay_report :: "string \<Rightarrow> DecisionTraceReplayStatus \<Rightarrow> DecisionTraceReplayBlocker list \<Rightarrow> DecisionTraceReplayReport" where
  "empty_replay_report tid st bs =
     \<lparr>DecisionTraceReplayReport.trace_id = tid, status = st, forecast_id = None,
      strategy_decision_id = None, strategy_decision_hash = None, strategy_run_id = None,
      risk_run_id = None, original_gateway_run_id = None, replayed_gateway_run_id = None,
      stored_trace_envelope_id = None, stored_trace_envelope_hash = None,
      reconstructed_trace_envelope_id = None, reconstructed_trace_envelope_hash = None,
      stored_no_order_reason = None, reconstructed_no_order_reason = None,
      original_gateway_report_id = None, original_gateway_report_hash = None,
      replayed_gateway_report_id = None, replayed_gateway_report_hash = None,
      original_gateway_event_id = None, original_gateway_event_hash = None,
      replayed_gateway_event_id = None, replayed_gateway_event_hash = None,
      original_gateway_order_id = None, replayed_gateway_order_id = None,
      original_paper_session_report_id = None, original_paper_session_report_hash = None,
      replayed_paper_session_report_id = None, replayed_paper_session_report_hash = None,
      original_paper_order_log_ids = [], replayed_paper_order_log_ids = [],
      original_paper_fill_log_ids = [], replayed_paper_fill_log_ids = [],
      original_paper_rejection_log_ids = [], replayed_paper_rejection_log_ids = [],
      original_paper_tca_report_id = None, original_paper_tca_report_hash = None,
      replayed_paper_tca_report_id = None, replayed_paper_tca_report_hash = None,
      original_paper_tca_row_ids = [], replayed_paper_tca_row_ids = [],
      original_paper_tca_issue_ids = [], replayed_paper_tca_issue_ids = [], blockers = bs,
      requirement_ids = replay_requirements\<rparr>"

definition failure_report :: "string \<Rightarrow> DecisionTraceReplayBlocker \<Rightarrow> DecisionTraceReplayReport result" where
  "failure_report tid b = construct_DecisionTraceReplayReport (empty_replay_report tid FAILED [b])"

definition matching_report_event ::
  "ExecutionGatewayReport option \<Rightarrow> RiskCheckEvent option \<Rightarrow> StrategyDecision \<Rightarrow> ExecutionGatewayLifecycleEvent option" where
  "matching_report_event og oe d =
     (case (og, oe) of
        (Some g, Some e) \<Rightarrow> (case filter (event_traces e d) (events g) of [v] \<Rightarrow> Some v | _ \<Rightarrow> None)
      | _ \<Rightarrow> None)"

text \<open>
  The later artifacts of a replay, each there once the replay has come that far: the stored
  envelope as validated, the rebuilt one, and the replayed reports.
\<close>

record replay_progress =
  stored :: "DecisionTraceEnvelope option"
  rebuilt :: "DecisionTraceEnvelope option"
  replayed_gateway :: "ExecutionGatewayReport option"
  replayed_paper :: "PaperAccountSessionReport option"
  replayed_tca :: "PaperTcaReport option"

definition no_progress :: replay_progress where
  "no_progress = \<lparr>stored = None, rebuilt = None, replayed_gateway = None, replayed_paper = None, replayed_tca = None\<rparr>"

definition trace_report_draft ::
  "string \<Rightarrow> DecisionTraceReplayStatus \<Rightarrow> DecisionTraceReplayEvidence \<Rightarrow> replay_progress
   \<Rightarrow> DecisionTraceReplayBlocker list \<Rightarrow> DecisionTraceReplayReport" where
  "trace_report_draft tid st x pr bs =
     (let d = DecisionTraceReplayEvidence.decision x;
          og = DecisionTraceReplayEvidence.gateway_report x;
          oe = DecisionTraceReplayEvidence.risk_event x;
          ov = matching_report_event og oe d;
          rv = matching_report_event (replayed_gateway pr) oe d;
          oenv = (case stored pr of None \<Rightarrow> DecisionTraceReplayEvidence.envelope x | Some r \<Rightarrow> r);
          renv = rebuilt pr;
          op = DecisionTraceReplayEvidence.paper_account_report x;
          ot = DecisionTraceReplayEvidence.paper_tca_report x;
          ids = (\<lambda>f. case renv of None \<Rightarrow> [] | Some r \<Rightarrow> f r) in
      (empty_replay_report tid st bs)
        \<lparr>forecast_id := Some (Forecast.forecast_id (DecisionTraceReplayEvidence.forecast x)),
         strategy_decision_id := Some (StrategyDecision.decision_id d),
         strategy_decision_hash := Some (decision_hash d),
         strategy_run_id := Some (StrategyDecision.strategy_run_id d),
         risk_run_id := map_option (\<lambda>e. RiskCheckRequest.run_id (request e)) oe,
         original_gateway_run_id := map_option ExecutionGatewayReport.run_id og,
         replayed_gateway_run_id := map_option ExecutionGatewayReport.run_id (replayed_gateway pr),
         stored_trace_envelope_id := Some (trace_envelope_id oenv),
         stored_trace_envelope_hash := Some (trace_envelope_hash oenv),
         reconstructed_trace_envelope_id := map_option trace_envelope_id renv,
         reconstructed_trace_envelope_hash := map_option trace_envelope_hash renv,
         stored_no_order_reason := no_order_reason oenv,
         reconstructed_no_order_reason := Option.bind renv no_order_reason,
         original_gateway_report_id := map_option ExecutionGatewayReport.gateway_report_id og,
         original_gateway_report_hash := map_option ExecutionGatewayReport.gateway_report_hash og,
         replayed_gateway_report_id := map_option ExecutionGatewayReport.gateway_report_id (replayed_gateway pr),
         replayed_gateway_report_hash := map_option ExecutionGatewayReport.gateway_report_hash (replayed_gateway pr),
         original_gateway_event_id := map_option ExecutionGatewayLifecycleEvent.gateway_event_id ov,
         original_gateway_event_hash := map_option ExecutionGatewayLifecycleEvent.gateway_event_hash ov,
         replayed_gateway_event_id := map_option ExecutionGatewayLifecycleEvent.gateway_event_id rv,
         replayed_gateway_event_hash := map_option ExecutionGatewayLifecycleEvent.gateway_event_hash rv,
         original_gateway_order_id := Option.bind ov ExecutionGatewayLifecycleEvent.gateway_order_id,
         replayed_gateway_order_id := Option.bind rv ExecutionGatewayLifecycleEvent.gateway_order_id,
         original_paper_session_report_id := map_option session_report_id op,
         original_paper_session_report_hash := map_option session_report_hash op,
         replayed_paper_session_report_id := map_option session_report_id (replayed_paper pr),
         replayed_paper_session_report_hash := map_option session_report_hash (replayed_paper pr),
         original_paper_order_log_ids := paper_order_log_ids oenv,
         replayed_paper_order_log_ids := ids paper_order_log_ids,
         original_paper_fill_log_ids := paper_fill_log_ids oenv,
         replayed_paper_fill_log_ids := ids paper_fill_log_ids,
         original_paper_rejection_log_ids := paper_rejection_log_ids oenv,
         replayed_paper_rejection_log_ids := ids paper_rejection_log_ids,
         original_paper_tca_report_id := map_option tca_report_id ot,
         original_paper_tca_report_hash := map_option tca_report_hash ot,
         replayed_paper_tca_report_id := map_option tca_report_id (replayed_tca pr),
         replayed_paper_tca_report_hash := map_option tca_report_hash (replayed_tca pr),
         original_paper_tca_row_ids := paper_tca_row_ids oenv,
         replayed_paper_tca_row_ids := ids paper_tca_row_ids,
         original_paper_tca_issue_ids := paper_tca_issue_ids oenv,
         replayed_paper_tca_issue_ids := ids paper_tca_issue_ids\<rparr>)"

definition trace_report ::
  "string \<Rightarrow> DecisionTraceReplayStatus \<Rightarrow> DecisionTraceReplayEvidence \<Rightarrow> replay_progress
   \<Rightarrow> DecisionTraceReplayBlocker list \<Rightarrow> DecisionTraceReplayReport result" where
  "trace_report tid st x pr bs = construct_DecisionTraceReplayReport (trace_report_draft tid st x pr bs)"

section \<open>Validation of the stored evidence\<close>

text \<open>The classes \<open>except (ValueError, ValidationError)\<close> catches, and the statement itself.\<close>

fun value_error :: "py_error \<Rightarrow> bool" where
  "value_error (ValidationError m) \<longleftrightarrow> True"
| "value_error (ValueError m) \<longleftrightarrow> True"
| "value_error (ReplayBuildError m) \<longleftrightarrow> True"
| "value_error (StrategyDecisionError m) \<longleftrightarrow> True"
| "value_error (BuildError c m) \<longleftrightarrow> True"
| "value_error UnicodeDecodeError \<longleftrightarrow> True"
| "value_error _ \<longleftrightarrow> False"

definition tryE :: "'a result \<Rightarrow> (py_error \<Rightarrow> 'b result) \<Rightarrow> ('a \<Rightarrow> 'b result) \<Rightarrow> 'b result" where
  "tryE m h k = (case m of Inr x \<Rightarrow> k x | Inl e \<Rightarrow> if value_error e then h e else Inl e)"

definition requested_trace_blockers :: "string \<Rightarrow> DecisionTraceReplayEvidence \<Rightarrow> DecisionTraceReplayBlocker list result" where
  "requested_trace_blockers tid x =
     mapE (\<lambda>(l, a). blocker MISMATCHED_REQUESTED_TRACE (l @ '' does not match requested trace_id'') (Some tid) (Some a))
       (filter (\<lambda>(l, a). a \<noteq> tid)
         [(''evidence.trace_id'', DecisionTraceReplayEvidence.trace_id x),
          (''envelope.trace_id'', DecisionTraceEnvelope.trace_id (DecisionTraceReplayEvidence.envelope x)),
          (''decision.trace_id'', StrategyDecision.trace_id (DecisionTraceReplayEvidence.decision x))])"

definition discard :: "'a result \<Rightarrow> unit result" where
  "discard m = bindE m (\<lambda>_. Inr ())"

text \<open>
  \<open>model_validate(model_dump())\<close> of a risk event or request validates the instrument master in it as well.
\<close>

definition revalidate_request :: "digest \<Rightarrow> zones \<Rightarrow> RiskCheckRequest \<Rightarrow> unit result" where
  "revalidate_request H Z r =
     bindE (construct_InstrumentMasterSnapshot Z (RiskCheckRequest.instrument_master_snapshot r)) (\<lambda>_.
       discard (construct_RiskCheckRequest H r))"

definition revalidate_event :: "digest \<Rightarrow> zones \<Rightarrow> RiskCheckEvent \<Rightarrow> unit result" where
  "revalidate_event H Z e =
     bindE (construct_InstrumentMasterSnapshot Z (RiskCheckRequest.instrument_master_snapshot (request e))) (\<lambda>_.
       discard (construct_RiskCheckEvent H e))"

definition when_given :: "string \<Rightarrow> ('a \<Rightarrow> unit result) \<Rightarrow> 'a option \<Rightarrow> (string \<times> unit result) list" where
  "when_given l f o' = (case o' of None \<Rightarrow> [] | Some x \<Rightarrow> [(l, f x)])"

definition indexed :: "string \<Rightarrow> ('a \<Rightarrow> unit result) \<Rightarrow> 'a list \<Rightarrow> (string \<times> unit result) list" where
  "indexed l f xs = map (\<lambda>(n, x). (l @ ''['' @ nat_text n @ '']'', f x)) (enumerate 0 xs)"

definition artifact_checks :: "digest \<Rightarrow> zones \<Rightarrow> DecisionTraceReplayEvidence \<Rightarrow> (string \<times> unit result) list" where
  "artifact_checks H Z x =
     [(''forecast'', discard (construct_Forecast H (DecisionTraceReplayEvidence.forecast x))),
      (''strategy_decision'', discard (construct_StrategyDecision H (DecisionTraceReplayEvidence.decision x)))]
     @ when_given ''order_intent'' (\<lambda>i. discard (construct_OrderIntent i)) (DecisionTraceReplayEvidence.order_intent x)
     @ when_given ''risk_event'' (revalidate_event H Z) (DecisionTraceReplayEvidence.risk_event x)
     @ when_given ''risk_event.request'' (\<lambda>e. revalidate_request H Z (request e)) (DecisionTraceReplayEvidence.risk_event x)
     @ when_given ''gateway_report'' (\<lambda>g. discard (construct_ExecutionGatewayReport H g)) (DecisionTraceReplayEvidence.gateway_report x)
     @ when_given ''paper_account_report'' (\<lambda>p. discard (construct_PaperAccountSessionReport H p))
         (DecisionTraceReplayEvidence.paper_account_report x)
     @ when_given ''paper_tca_report'' (\<lambda>t. discard (construct_PaperTcaReport H t)) (DecisionTraceReplayEvidence.paper_tca_report x)
     @ when_given ''execution_cost_model'' (\<lambda>m. discard (construct_ExecutionCostModel H m))
         (DecisionTraceReplayEvidence.execution_cost_model x)
     @ when_given ''instrument_master_snapshot'' (\<lambda>s. discard (construct_InstrumentMasterSnapshot Z s))
         (DecisionTraceReplayEvidence.instrument_master_snapshot x)
     @ when_given ''starting_account_state'' (\<lambda>a. discard (construct_SimulatedAccountState a))
         (DecisionTraceReplayEvidence.starting_account_state x)
     @ indexed ''bar'' (\<lambda>b. checked [(valid_OHLCTVBar b, ''OHLCTVBar'')] ()) (DecisionTraceReplayEvidence.bars x)
     @ indexed ''quote'' (\<lambda>q. discard (construct_QuoteEvent q)) (DecisionTraceReplayEvidence.quotes x)"

definition validate_contract_artifact ::
  "(py_error \<Rightarrow> string) \<Rightarrow> string \<times> unit result \<Rightarrow> DecisionTraceReplayBlocker list result" where
  "validate_contract_artifact describe c =
     tryE (snd c) (\<lambda>e. bindE (blocker TAMPERED_EVIDENCE
         (''stored '' @ fst c @ '' artifact failed deterministic validation: '' @ describe e) None None) (\<lambda>b. Inr [b]))
       (\<lambda>_. Inr [])"

definition validate_replay_evidence_artifacts ::
  "digest \<Rightarrow> zones \<Rightarrow> (py_error \<Rightarrow> string) \<Rightarrow> DecisionTraceReplayEvidence \<Rightarrow> DecisionTraceReplayBlocker list result" where
  "validate_replay_evidence_artifacts H Z describe x =
     bindE (mapE (validate_contract_artifact describe) (artifact_checks H Z x)) (\<lambda>bs. Inr (concat bs))"

definition missing_order_input_blockers ::
  "DecisionTraceReplayEvidence \<Rightarrow> DecisionTraceEnvelope \<Rightarrow> DecisionTraceReplayBlocker list result" where
  "missing_order_input_blockers x r =
     (let missing = map fst (filter snd
            [(''order_intent'', DecisionTraceReplayEvidence.order_intent x = None),
             (''risk_event'', DecisionTraceReplayEvidence.risk_event x = None),
             (''gateway_report'', DecisionTraceReplayEvidence.gateway_report x = None),
             (''paper_account_report'', DecisionTraceReplayEvidence.paper_account_report x = None),
             (''paper_tca_report'', DecisionTraceReplayEvidence.paper_tca_report x = None),
             (''bars'', DecisionTraceReplayEvidence.bars x = [])]) in
      if (DecisionTraceReplayEvidence.order_intent x = None \<and> order_intent_id r = None) \<or> missing = [] then Inr []
      else bindE (blocker MISSING_REPLAY_INPUT ''order trace evidence is missing required replay inputs''
          (Some ''order_intent,risk_event,gateway_report,paper_account_report,paper_tca_report,bars'')
          (Some (join_comma missing))) (\<lambda>b. Inr [b]))"

definition make_envelope_from_evidence :: "digest \<Rightarrow> DecisionTraceReplayEvidence \<Rightarrow> DecisionTraceEnvelope result" where
  "make_envelope_from_evidence H x =
     (let make = make_decision_trace_envelope H (DecisionTraceReplayEvidence.forecast x) (DecisionTraceReplayEvidence.decision x) in
      if DecisionTraceReplayEvidence.order_intent x = None then make None None None None None
      else guardE (DecisionTraceReplayEvidence.risk_event x \<noteq> None \<and> DecisionTraceReplayEvidence.gateway_report x \<noteq> None
          \<and> DecisionTraceReplayEvidence.paper_account_report x \<noteq> None \<and> DecisionTraceReplayEvidence.paper_tca_report x \<noteq> None)
        (ValueError ''order trace evidence is missing downstream artifacts'')
        (make (DecisionTraceReplayEvidence.order_intent x) (DecisionTraceReplayEvidence.risk_event x)
          (DecisionTraceReplayEvidence.gateway_report x) (DecisionTraceReplayEvidence.paper_account_report x)
          (DecisionTraceReplayEvidence.paper_tca_report x)))"

section \<open>The replay\<close>

definition rebuild_paper_account_report ::
  "digest \<Rightarrow> PaperAccountSessionReport \<Rightarrow> ExecutionGatewayReport \<Rightarrow> PaperAccountSessionReport result" where
  "rebuild_paper_account_report H p g =
     (let init = PaperAccountSessionReport.initial_account_state p;
          explicit = (source_replay_final_account_state g = None \<and> final_account_state_source p = EXPLICIT_LINKAGE);
          final = (if explicit then PaperAccountSessionReport.final_account_state p else None) in
      make_paper_account_session_report H g init final
        (if init \<noteq> None then None else Some (initial_account_state_id p))
        (if init \<noteq> None then None else Some (initial_account_state_hash p))
        (if explicit \<and> final = None then Some (final_account_state_id p) else None)
        (if explicit \<and> final = None then Some (final_account_state_hash p) else None))"

text \<open>The replay of an order whose evidence is complete, from the gateway on.\<close>

definition replay_order ::
  "digest \<Rightarrow> (py_error \<Rightarrow> string) \<Rightarrow> string \<Rightarrow> DecisionTraceReplayEvidence \<Rightarrow> DecisionTraceEnvelope \<Rightarrow> replay_progress
   \<Rightarrow> OrderIntent \<Rightarrow> RiskCheckEvent \<Rightarrow> ExecutionGatewayReport \<Rightarrow> PaperAccountSessionReport \<Rightarrow> PaperTcaReport
   \<Rightarrow> DecisionTraceReplayReport result" where
  "replay_order H describe tid x env pr i e g p t =
     (let failed = (\<lambda>c m pr ex. bindE (blocker c (m @ describe ex) None None) (\<lambda>b. trace_report tid FAILED x pr [b])) in
      tryE (run_paper_gateway_replay H (DecisionTraceReplayEvidence.bars x) [e] (ExecutionGatewayReport.run_id g)
          (DecisionTraceReplayEvidence.execution_cost_model x) (DecisionTraceReplayEvidence.instrument_master_snapshot x)
          (DecisionTraceReplayEvidence.starting_account_state x))
        (failed RISK_GATEWAY_REPLAY_MISMATCH ''paper gateway replay failed from stored risk evidence: '' pr) (\<lambda>g'.
      tryE (rebuild_paper_account_report H p g')
        (failed PAPER_REPLAY_MISMATCH ''paper account report rebuild failed: '' (pr\<lparr>replayed_gateway := Some g'\<rparr>)) (\<lambda>p'.
      tryE (bindE (make_paper_tca_report H g' (DecisionTraceReplayEvidence.quotes x)) (\<lambda>t'.
            bindE (make_decision_trace_envelope H (DecisionTraceReplayEvidence.forecast x) (DecisionTraceReplayEvidence.decision x)
              (Some i) (Some e) (Some g') (Some p') (Some t')) (\<lambda>env'. Inr (t', env'))))
        (failed TCA_REPLAY_MISMATCH ''TCA report or replay envelope rebuild failed: ''
          (pr\<lparr>replayed_gateway := Some g', replayed_paper := Some p'\<rparr>)) (\<lambda>(t', env').
      bindE (compare_gateway_reports g g') (\<lambda>b1.
      bindE (compare_paper_reports p p') (\<lambda>b2.
      bindE (compare_tca_reports t t') (\<lambda>b3.
      bindE (compare_envelope TAMPERED_EVIDENCE env env') (\<lambda>b4.
      let bs = b1 @ b2 @ b3 @ b4 in
      trace_report tid (if bs \<noteq> [] then FAILED else PASSED) x
        (pr\<lparr>rebuilt := Some env', replayed_gateway := Some g', replayed_paper := Some p', replayed_tca := Some t'\<rparr>) bs))))))))"

text \<open>The steps of \<open>replay_decision_trace_by_id\<close> once the resolver has found one record.\<close>

definition replay_evidence ::
  "digest \<Rightarrow> zones \<Rightarrow> (py_error \<Rightarrow> string) \<Rightarrow> string \<Rightarrow> DecisionTraceReplayEvidence \<Rightarrow> DecisionTraceReplayReport result" where
  "replay_evidence H Z describe tid x =
     (let env = DecisionTraceReplayEvidence.envelope x; pr = no_progress\<lparr>stored := Some env\<rparr> in
      bindE (requested_trace_blockers tid x) (\<lambda>bs.
      if bs \<noteq> [] then trace_report tid FAILED x no_progress bs else
      tryE (construct_DecisionTraceEnvelope H env)
        (\<lambda>ex. bindE (blocker TAMPERED_EVIDENCE (''stored trace envelope failed deterministic validation: '' @ describe ex) None None)
          (\<lambda>b. trace_report tid FAILED x no_progress [b])) (\<lambda>_.
      bindE (validate_replay_evidence_artifacts H Z describe x) (\<lambda>bs.
      if bs \<noteq> [] then trace_report tid FAILED x pr bs else
      bindE (missing_order_input_blockers x env) (\<lambda>bs.
      if bs \<noteq> [] then trace_report tid FAILED x pr bs else
      tryE (make_envelope_from_evidence H x)
        (\<lambda>ex. bindE (blocker TAMPERED_EVIDENCE (''stored trace evidence failed envelope reconstruction: '' @ describe ex) None None)
          (\<lambda>b. trace_report tid FAILED x pr [b])) (\<lambda>env'.
      bindE (compare_envelope TAMPERED_EVIDENCE env env') (\<lambda>bs.
      let pr' = pr\<lparr>rebuilt := Some env'\<rparr> in
      if bs \<noteq> [] then trace_report tid FAILED x pr' bs else
      (case DecisionTraceReplayEvidence.order_intent x of
         None \<Rightarrow> trace_report tid NO_ORDER x pr' []
       | Some i \<Rightarrow>
           (case (DecisionTraceReplayEvidence.risk_event x, DecisionTraceReplayEvidence.gateway_report x) of
              (Some e, Some g) \<Rightarrow>
                (case (DecisionTraceReplayEvidence.paper_account_report x, DecisionTraceReplayEvidence.paper_tca_report x) of
                   (Some p, Some t) \<Rightarrow> replay_order H describe tid x env pr' i e g p t
                 | _ \<Rightarrow> Inl (AssertionError ''order replay input validation failed to require paper evidence''))
            | _ \<Rightarrow> Inl (AssertionError ''order replay input validation failed to require risk/gateway''))))))))))"

definition replay_decision_trace_by_id ::
  "digest \<Rightarrow> zones \<Rightarrow> (py_error \<Rightarrow> string) \<Rightarrow> resolver \<Rightarrow> string \<Rightarrow> DecisionTraceReplayReport result" where
  "replay_decision_trace_by_id H Z describe resolve trace =
     (let tid = strip trace in
      if tid = '''' then
        bindE (blocker MISSING_TRACE_ID ''trace_id is required for decision replay'' None None) (failure_report ''TRACE:MISSING'')
      else
        (case resolve tid of
           [] \<Rightarrow> bindE (blocker MISSING_TRACE_ID ''no trace evidence matched requested trace_id'' (Some tid) (Some ''0 matches''))
                   (failure_report tid)
         | [x] \<Rightarrow> replay_evidence H Z describe tid x
         | xs \<Rightarrow> bindE (blocker DUPLICATE_TRACE_EVIDENCE ''multiple trace evidence records matched requested trace_id''
                   (Some ''1 match'') (Some (nat_text (length xs)))) (failure_report tid)))"

end
