(* ===== verification/AuditGate.thy ===== *)
theory AuditGate
  imports AuditReplay
begin

text \<open>
  The audit gate, \<open>audit/gate.py\<close>: a list of trace identifiers is written into a run manifest,
  every one is replayed (\<open>AuditReplay\<close>), the replay reports are wrapped as samples with
  their own hashes, and the gate report passes when neither the sample policy nor a replay
  leaves a blocker.  Configuration texts with outer whitespace are rejected here; the code strips
  them after it has hashed them, so its configuration hash check rejects them as well.
\<close>

section \<open>Configuration, manifest and samples\<close>

datatype AuditGateSampleMethod =
    EXPLICIT_TRACE_IDS

datatype AuditGateToleranceMode =
    EXACT

datatype AuditGateValidationStatus =
    PASSED | FAILED

datatype AuditGateRecommendation =
    READY_FOR_REVIEW | BLOCKED

datatype AuditGateValidationBlockerCode =
    SAMPLE_REPLAY_FAILED | SAMPLE_REPLAY_EVIDENCE_INVALID | SAMPLE_MANIFEST_MISMATCH |
    SAMPLE_POLICY_NOT_MET

primrec AuditGateSampleMethod_value :: "AuditGateSampleMethod \<Rightarrow> string" where
  "AuditGateSampleMethod_value AuditGateSampleMethod.EXPLICIT_TRACE_IDS = ''explicit_trace_ids''"

primrec AuditGateToleranceMode_value :: "AuditGateToleranceMode \<Rightarrow> string" where
  "AuditGateToleranceMode_value AuditGateToleranceMode.EXACT = ''exact''"

primrec AuditGateValidationStatus_value :: "AuditGateValidationStatus \<Rightarrow> string" where
  "AuditGateValidationStatus_value AuditGateValidationStatus.PASSED = ''passed''"
| "AuditGateValidationStatus_value AuditGateValidationStatus.FAILED = ''failed''"

primrec AuditGateRecommendation_value :: "AuditGateRecommendation \<Rightarrow> string" where
  "AuditGateRecommendation_value AuditGateRecommendation.READY_FOR_REVIEW = ''ready_for_audit_review''"
| "AuditGateRecommendation_value AuditGateRecommendation.BLOCKED = ''blocked_until_replay_blockers_resolved''"

primrec AuditGateValidationBlockerCode_value :: "AuditGateValidationBlockerCode \<Rightarrow> string" where
  "AuditGateValidationBlockerCode_value AuditGateValidationBlockerCode.SAMPLE_REPLAY_FAILED = ''sample_replay_failed''"
| "AuditGateValidationBlockerCode_value AuditGateValidationBlockerCode.SAMPLE_REPLAY_EVIDENCE_INVALID = ''sample_replay_evidence_invalid''"
| "AuditGateValidationBlockerCode_value AuditGateValidationBlockerCode.SAMPLE_MANIFEST_MISMATCH = ''sample_manifest_mismatch''"
| "AuditGateValidationBlockerCode_value AuditGateValidationBlockerCode.SAMPLE_POLICY_NOT_MET = ''sample_policy_not_met''"

definition audit_gate_requirements :: "string list" where
  "audit_gate_requirements = [''FR-015'', ''NFR-004'', ''NFR-005'']"

record AuditGateSamplePolicy =
  sample_method :: AuditGateSampleMethod
  description :: string
  minimum_sample_count :: int
  require_no_order_sample :: bool
  require_all_replays_passing :: bool

definition sample_policy_fields :: "AuditGateSamplePolicy \<Rightarrow> (bool \<times> string) list" where
  "sample_policy_fields r =
     [(non_empty_string (description r), ''description''),
      (1 \<le> (minimum_sample_count r), ''minimum_sample_count'')]"

definition audit_gate_sample_policy_json :: "AuditGateSamplePolicy \<Rightarrow> payload" where
  "audit_gate_sample_policy_json r = PObj
     [(''method'', PStr (AuditGateSampleMethod_value (sample_method r))),
      (''description'', PStr (description r)),
      (''minimum_sample_count'', PInt (minimum_sample_count r)),
      (''require_no_order_sample'', PBool (require_no_order_sample r)),
      (''require_all_replays_passing'', PBool (require_all_replays_passing r))]"

definition valid_AuditGateSamplePolicy :: "AuditGateSamplePolicy \<Rightarrow> bool" where
  "valid_AuditGateSamplePolicy r \<longleftrightarrow> list_all fst (sample_policy_fields r)"

record AuditGateTolerancePolicy =
  mode :: AuditGateToleranceMode
  metric_tolerance :: string
  description :: string

definition tolerance_policy_fields :: "AuditGateTolerancePolicy \<Rightarrow> (bool \<times> string) list" where
  "tolerance_policy_fields r =
     [(non_empty_string (metric_tolerance r), ''metric_tolerance''),
      (non_empty_string (description r), ''description'')]"

definition audit_gate_tolerance_policy_json :: "AuditGateTolerancePolicy \<Rightarrow> payload" where
  "audit_gate_tolerance_policy_json r = PObj
     [(''mode'', PStr (AuditGateToleranceMode_value (mode r))),
      (''metric_tolerance'', PStr (metric_tolerance r)),
      (''description'', PStr (description r))]"

definition valid_AuditGateTolerancePolicy :: "AuditGateTolerancePolicy \<Rightarrow> bool" where
  "valid_AuditGateTolerancePolicy r \<longleftrightarrow> list_all fst (tolerance_policy_fields r)"

definition default_sample_policy :: AuditGateSamplePolicy where
  "default_sample_policy = \<lparr>AuditGateSamplePolicy.sample_method = EXPLICIT_TRACE_IDS,
     description = ''explicit deterministic S11 trace sample'', minimum_sample_count = 1,
     require_no_order_sample = False, require_all_replays_passing = True\<rparr>"

definition default_tolerance_policy :: AuditGateTolerancePolicy where
  "default_tolerance_policy = \<lparr>AuditGateTolerancePolicy.mode = EXACT, metric_tolerance = ''0'',
     description = ''exact equality for deterministic fixture replay''\<rparr>"

record AuditGateRunConfig =
  config_hash :: string
  code_commit :: string
  code_ref :: string
  sample_policy :: AuditGateSamplePolicy
  tolerance_policy :: AuditGateTolerancePolicy
  requirement_ids :: "string list"

definition run_config_fields :: "AuditGateRunConfig \<Rightarrow> (bool \<times> string) list" where
  "run_config_fields r =
     [(hex64 (config_hash r), ''config_hash''),
      (non_empty_string (code_commit r), ''code_commit''),
      (non_empty_string (code_ref r), ''code_ref''),
      (valid_AuditGateSamplePolicy (sample_policy r), ''sample_policy''),
      (valid_AuditGateTolerancePolicy (tolerance_policy r), ''tolerance_policy''),
      (list_all non_empty_string (requirement_ids r), ''requirement_ids'')]"

definition run_config_items :: "AuditGateRunConfig \<Rightarrow> (string \<times> payload) list" where
  "run_config_items r =
     [(''config_hash'', PStr (config_hash r)),
      (''code_commit'', PStr (code_commit r)),
      (''code_ref'', PStr (code_ref r)),
      (''sample_policy'', audit_gate_sample_policy_json (sample_policy r)),
      (''tolerance_policy'', audit_gate_tolerance_policy_json (tolerance_policy r)),
      (''requirement_ids'', PStrs (requirement_ids r))]"

definition build_audit_gate_config_hash :: "digest \<Rightarrow> AuditGateRunConfig \<Rightarrow> string" where
  "build_audit_gate_config_hash H r = H (PObj (filter (\<lambda>(k, v). k \<noteq> ''config_hash'') (run_config_items r)))"

definition construct_AuditGateRunConfig :: "digest \<Rightarrow> AuditGateRunConfig \<Rightarrow> AuditGateRunConfig result" where
  "construct_AuditGateRunConfig H r = checked (run_config_fields r
     @ [(AuditGateRunConfig.config_hash r = build_audit_gate_config_hash H r, ''config_hash is not deterministic'')]) r"

definition make_audit_gate_run_config ::
  "digest \<Rightarrow> string \<Rightarrow> string \<Rightarrow> AuditGateSamplePolicy option \<Rightarrow> AuditGateTolerancePolicy option \<Rightarrow> string list
   \<Rightarrow> AuditGateRunConfig result" where
  "make_audit_gate_run_config H commit ref sp tp reqs =
     (let draft = \<lparr>AuditGateRunConfig.config_hash = zero_hash, code_commit = commit, code_ref = ref,
            sample_policy = (case sp of None \<Rightarrow> default_sample_policy | Some x \<Rightarrow> x),
            tolerance_policy = (case tp of None \<Rightarrow> default_tolerance_policy | Some x \<Rightarrow> x), requirement_ids = reqs\<rparr> in
      construct_AuditGateRunConfig H (draft\<lparr>AuditGateRunConfig.config_hash := build_audit_gate_config_hash H draft\<rparr>))"

record AuditGateRunManifest =
  audit_run_id :: string
  manifest_hash :: string
  config_hash :: string
  code_commit :: string
  code_ref :: string
  sample_policy :: AuditGateSamplePolicy
  tolerance_policy :: AuditGateTolerancePolicy
  trace_ids :: "string list"
  trace_id_policy_errors :: "string list"
  requirement_ids :: "string list"

definition run_manifest_fields :: "AuditGateRunManifest \<Rightarrow> (bool \<times> string) list" where
  "run_manifest_fields r =
     [(canonical_id (audit_run_id r), ''audit_run_id''),
      (hex64 (manifest_hash r), ''manifest_hash''),
      (hex64 (config_hash r), ''config_hash''),
      (non_empty_string (code_commit r), ''code_commit''),
      (non_empty_string (code_ref r), ''code_ref''),
      (valid_AuditGateSamplePolicy (sample_policy r), ''sample_policy''),
      (valid_AuditGateTolerancePolicy (tolerance_policy r), ''tolerance_policy''),
      (list_all canonical_id (trace_ids r), ''trace_ids''),
      (list_all non_empty_string (trace_id_policy_errors r), ''trace_id_policy_errors''),
      (list_all non_empty_string (requirement_ids r), ''requirement_ids'')]"

definition run_manifest_items :: "AuditGateRunManifest \<Rightarrow> (string \<times> payload) list" where
  "run_manifest_items r =
     [(''audit_run_id'', PStr (audit_run_id r)),
      (''manifest_hash'', PStr (manifest_hash r)),
      (''config_hash'', PStr (config_hash r)),
      (''code_commit'', PStr (code_commit r)),
      (''code_ref'', PStr (code_ref r)),
      (''sample_policy'', audit_gate_sample_policy_json (sample_policy r)),
      (''tolerance_policy'', audit_gate_tolerance_policy_json (tolerance_policy r)),
      (''trace_ids'', PStrs (trace_ids r)),
      (''trace_id_policy_errors'', PStrs (trace_id_policy_errors r)),
      (''requirement_ids'', PStrs (requirement_ids r))]"

definition build_audit_gate_run_manifest_hash :: "digest \<Rightarrow> AuditGateRunManifest \<Rightarrow> string" where
  "build_audit_gate_run_manifest_hash H r =
     H (PObj (filter (\<lambda>(k, v). k \<notin> {''audit_run_id'', ''manifest_hash''}) (run_manifest_items r)))"

definition build_audit_run_id :: "digest \<Rightarrow> string \<Rightarrow> string" where
  "build_audit_run_id H h = stable_id H ''AUDITRUN'' (PObj [(''manifest_hash'', PStr h)])"

definition embedded_config :: "AuditGateRunManifest \<Rightarrow> AuditGateRunConfig" where
  "embedded_config r = \<lparr>AuditGateRunConfig.config_hash = AuditGateRunManifest.config_hash r,
     code_commit = AuditGateRunManifest.code_commit r, code_ref = AuditGateRunManifest.code_ref r,
     sample_policy = AuditGateRunManifest.sample_policy r, tolerance_policy = AuditGateRunManifest.tolerance_policy r,
     requirement_ids = AuditGateRunManifest.requirement_ids r\<rparr>"

definition construct_AuditGateRunManifest :: "digest \<Rightarrow> AuditGateRunManifest \<Rightarrow> AuditGateRunManifest result" where
  "construct_AuditGateRunManifest H r = checked (run_manifest_fields r @
     (let h = build_audit_gate_run_manifest_hash H r in
      [(AuditGateRunManifest.config_hash r = build_audit_gate_config_hash H (embedded_config r),
          ''manifest config_hash does not match embedded config''),
       (manifest_hash r = h, ''manifest_hash is not deterministic''),
       (audit_run_id r = build_audit_run_id H h, ''audit_run_id is not deterministic'')])) r"

definition valid_AuditGateRunManifest :: "digest \<Rightarrow> AuditGateRunManifest \<Rightarrow> bool" where
  "valid_AuditGateRunManifest H r \<longleftrightarrow> construct_AuditGateRunManifest H r = Inr r"

text \<open>\<open>_normalize_trace_ids\<close>: a blank identifier becomes a marked one and a policy error.\<close>

definition blank_trace_id_prefix :: string where
  "blank_trace_id_prefix = ''TRACE:INVALID-BLANK''"

definition normalize_trace_ids :: "string list \<Rightarrow> string list \<times> string list" where
  "normalize_trace_ids ids =
     (map (\<lambda>(n, x). if strip x \<noteq> '''' then strip x else blank_trace_id_prefix @ '':'' @ nat_text n) (enumerate 0 ids),
      map (\<lambda>(n, x). ''explicit trace_id at sample index '' @ nat_text n @ '' must be non-empty'')
        (filter (\<lambda>(n, x). strip x = '''') (enumerate 0 ids)))"

definition make_audit_gate_run_manifest ::
  "digest \<Rightarrow> AuditGateRunConfig \<Rightarrow> string list \<Rightarrow> AuditGateRunManifest result" where
  "make_audit_gate_run_manifest H c ids =
     (let n = normalize_trace_ids ids;
          draft = \<lparr>AuditGateRunManifest.audit_run_id = ''AUDITRUN:PLACEHOLDER'', manifest_hash = zero_hash,
            config_hash = AuditGateRunConfig.config_hash c, code_commit = AuditGateRunConfig.code_commit c,
            code_ref = AuditGateRunConfig.code_ref c, sample_policy = AuditGateRunConfig.sample_policy c,
            tolerance_policy = AuditGateRunConfig.tolerance_policy c, trace_ids = fst n, trace_id_policy_errors = snd n,
            requirement_ids = AuditGateRunConfig.requirement_ids c\<rparr>;
          h = build_audit_gate_run_manifest_hash H draft in
      construct_AuditGateRunManifest H (draft\<lparr>audit_run_id := build_audit_run_id H h, manifest_hash := h\<rparr>))"

record AuditGateValidationBlocker =
  code :: AuditGateValidationBlockerCode
  message :: string
  trace_id :: "string option"
  replay_blocker_code :: "string option"
  expected :: "string option"
  actual :: "string option"

definition gate_blocker_fields :: "AuditGateValidationBlocker \<Rightarrow> (bool \<times> string) list" where
  "gate_blocker_fields r =
     [(non_empty_string (message r), ''message''),
      (opt_all canonical_id (trace_id r), ''trace_id''),
      (opt_all non_empty_string (replay_blocker_code r), ''replay_blocker_code''),
      (opt_all non_empty_string (expected r), ''expected''),
      (opt_all non_empty_string (actual r), ''actual'')]"

definition audit_gate_validation_blocker_json :: "AuditGateValidationBlocker \<Rightarrow> payload" where
  "audit_gate_validation_blocker_json r = PObj
     [(''code'', PStr (AuditGateValidationBlockerCode_value (code r))),
      (''message'', PStr (message r)),
      (''trace_id'', POpt PStr (trace_id r)),
      (''replay_blocker_code'', POpt PStr (replay_blocker_code r)),
      (''expected'', POpt PStr (expected r)),
      (''actual'', POpt PStr (actual r))]"

definition construct_AuditGateValidationBlocker :: "AuditGateValidationBlocker \<Rightarrow> AuditGateValidationBlocker result" where
  "construct_AuditGateValidationBlocker b = checked (gate_blocker_fields b) b"

definition valid_AuditGateValidationBlocker :: "AuditGateValidationBlocker \<Rightarrow> bool" where
  "valid_AuditGateValidationBlocker b \<longleftrightarrow> construct_AuditGateValidationBlocker b = Inr b"

definition gate_blocker ::
  "AuditGateValidationBlockerCode \<Rightarrow> string \<Rightarrow> string option \<Rightarrow> string option \<Rightarrow> string option \<Rightarrow> string option
   \<Rightarrow> AuditGateValidationBlocker result" where
  "gate_blocker c m tid rc x y = construct_AuditGateValidationBlocker
     \<lparr>AuditGateValidationBlocker.code = c, message = m, trace_id = tid, replay_blocker_code = rc, expected = x, actual = y\<rparr>"

definition decision_trace_replay_blocker_json :: "DecisionTraceReplayBlocker \<Rightarrow> payload" where
  "decision_trace_replay_blocker_json r = PObj
     [(''code'', PStr (DecisionTraceReplayBlockerCode_value (DecisionTraceReplayBlocker.code r))),
      (''message'', PStr (DecisionTraceReplayBlocker.message r)),
      (''expected'', POpt PStr (DecisionTraceReplayBlocker.expected r)),
      (''actual'', POpt PStr (DecisionTraceReplayBlocker.actual r))]"

definition decision_trace_replay_report_json :: "DecisionTraceReplayReport \<Rightarrow> payload" where
  "decision_trace_replay_report_json r = PObj
     [(''trace_id'', PStr (DecisionTraceReplayReport.trace_id r)),
      (''status'', PStr (DecisionTraceReplayStatus_value (DecisionTraceReplayReport.status r))),
      (''forecast_id'', POpt PStr (DecisionTraceReplayReport.forecast_id r)),
      (''strategy_decision_id'', POpt PStr (DecisionTraceReplayReport.strategy_decision_id r)),
      (''strategy_decision_hash'', POpt PStr (DecisionTraceReplayReport.strategy_decision_hash r)),
      (''strategy_run_id'', POpt PStr (DecisionTraceReplayReport.strategy_run_id r)),
      (''risk_run_id'', POpt PStr (DecisionTraceReplayReport.risk_run_id r)),
      (''original_gateway_run_id'', POpt PStr (DecisionTraceReplayReport.original_gateway_run_id r)),
      (''replayed_gateway_run_id'', POpt PStr (DecisionTraceReplayReport.replayed_gateway_run_id r)),
      (''stored_trace_envelope_id'', POpt PStr (DecisionTraceReplayReport.stored_trace_envelope_id r)),
      (''stored_trace_envelope_hash'', POpt PStr (DecisionTraceReplayReport.stored_trace_envelope_hash r)),
      (''reconstructed_trace_envelope_id'', POpt PStr (DecisionTraceReplayReport.reconstructed_trace_envelope_id r)),
      (''reconstructed_trace_envelope_hash'', POpt PStr (DecisionTraceReplayReport.reconstructed_trace_envelope_hash r)),
      (''stored_no_order_reason'', POpt PStr (DecisionTraceReplayReport.stored_no_order_reason r)),
      (''reconstructed_no_order_reason'', POpt PStr (DecisionTraceReplayReport.reconstructed_no_order_reason r)),
      (''original_gateway_report_id'', POpt PStr (DecisionTraceReplayReport.original_gateway_report_id r)),
      (''original_gateway_report_hash'', POpt PStr (DecisionTraceReplayReport.original_gateway_report_hash r)),
      (''replayed_gateway_report_id'', POpt PStr (DecisionTraceReplayReport.replayed_gateway_report_id r)),
      (''replayed_gateway_report_hash'', POpt PStr (DecisionTraceReplayReport.replayed_gateway_report_hash r)),
      (''original_gateway_event_id'', POpt PStr (DecisionTraceReplayReport.original_gateway_event_id r)),
      (''original_gateway_event_hash'', POpt PStr (DecisionTraceReplayReport.original_gateway_event_hash r)),
      (''replayed_gateway_event_id'', POpt PStr (DecisionTraceReplayReport.replayed_gateway_event_id r)),
      (''replayed_gateway_event_hash'', POpt PStr (DecisionTraceReplayReport.replayed_gateway_event_hash r)),
      (''original_gateway_order_id'', POpt PStr (DecisionTraceReplayReport.original_gateway_order_id r)),
      (''replayed_gateway_order_id'', POpt PStr (DecisionTraceReplayReport.replayed_gateway_order_id r)),
      (''original_paper_session_report_id'', POpt PStr (DecisionTraceReplayReport.original_paper_session_report_id r)),
      (''original_paper_session_report_hash'', POpt PStr (DecisionTraceReplayReport.original_paper_session_report_hash r)),
      (''replayed_paper_session_report_id'', POpt PStr (DecisionTraceReplayReport.replayed_paper_session_report_id r)),
      (''replayed_paper_session_report_hash'', POpt PStr (DecisionTraceReplayReport.replayed_paper_session_report_hash r)),
      (''original_paper_order_log_ids'', PStrs (DecisionTraceReplayReport.original_paper_order_log_ids r)),
      (''replayed_paper_order_log_ids'', PStrs (DecisionTraceReplayReport.replayed_paper_order_log_ids r)),
      (''original_paper_fill_log_ids'', PStrs (DecisionTraceReplayReport.original_paper_fill_log_ids r)),
      (''replayed_paper_fill_log_ids'', PStrs (DecisionTraceReplayReport.replayed_paper_fill_log_ids r)),
      (''original_paper_rejection_log_ids'', PStrs (DecisionTraceReplayReport.original_paper_rejection_log_ids r)),
      (''replayed_paper_rejection_log_ids'', PStrs (DecisionTraceReplayReport.replayed_paper_rejection_log_ids r)),
      (''original_paper_tca_report_id'', POpt PStr (DecisionTraceReplayReport.original_paper_tca_report_id r)),
      (''original_paper_tca_report_hash'', POpt PStr (DecisionTraceReplayReport.original_paper_tca_report_hash r)),
      (''replayed_paper_tca_report_id'', POpt PStr (DecisionTraceReplayReport.replayed_paper_tca_report_id r)),
      (''replayed_paper_tca_report_hash'', POpt PStr (DecisionTraceReplayReport.replayed_paper_tca_report_hash r)),
      (''original_paper_tca_row_ids'', PStrs (DecisionTraceReplayReport.original_paper_tca_row_ids r)),
      (''replayed_paper_tca_row_ids'', PStrs (DecisionTraceReplayReport.replayed_paper_tca_row_ids r)),
      (''original_paper_tca_issue_ids'', PStrs (DecisionTraceReplayReport.original_paper_tca_issue_ids r)),
      (''replayed_paper_tca_issue_ids'', PStrs (DecisionTraceReplayReport.replayed_paper_tca_issue_ids r)),
      (''blockers'', PList (map decision_trace_replay_blocker_json (DecisionTraceReplayReport.blockers r))),
      (''requirement_ids'', PStrs (DecisionTraceReplayReport.requirement_ids r))]"

definition valid_DecisionTraceReplayReport :: "DecisionTraceReplayReport \<Rightarrow> bool" where
  "valid_DecisionTraceReplayReport r \<longleftrightarrow> construct_DecisionTraceReplayReport r = Inr r"

definition build_decision_trace_replay_report_hash :: "digest \<Rightarrow> DecisionTraceReplayReport \<Rightarrow> string" where
  "build_decision_trace_replay_report_hash H r = H (decision_trace_replay_report_json r)"

definition build_decision_trace_replay_report_id :: "digest \<Rightarrow> string \<Rightarrow> string" where
  "build_decision_trace_replay_report_id H h = stable_id H ''AUDITREPLAY'' (PObj [(''report_hash'', PStr h)])"

record AuditGateTraceSampleResult =
  sample_result_id :: string
  sample_result_hash :: string
  sample_index :: int
  trace_id :: string
  replay_status :: DecisionTraceReplayStatus
  replay_report_id :: string
  replay_report_hash :: string
  stored_trace_envelope_id :: "string option"
  stored_trace_envelope_hash :: "string option"
  reconstructed_trace_envelope_id :: "string option"
  reconstructed_trace_envelope_hash :: "string option"
  replay_report :: DecisionTraceReplayReport
  requirement_ids :: "string list"

definition sample_result_fields :: "AuditGateTraceSampleResult \<Rightarrow> (bool \<times> string) list" where
  "sample_result_fields r =
     [(canonical_id (sample_result_id r), ''sample_result_id''),
      (hex64 (sample_result_hash r), ''sample_result_hash''),
      (0 \<le> sample_index r, ''sample_index''),
      (canonical_id (trace_id r), ''trace_id''),
      (canonical_id (replay_report_id r), ''replay_report_id''),
      (hex64 (replay_report_hash r), ''replay_report_hash''),
      (opt_all canonical_id (stored_trace_envelope_id r), ''stored_trace_envelope_id''),
      (opt_all hex64 (stored_trace_envelope_hash r), ''stored_trace_envelope_hash''),
      (opt_all canonical_id (reconstructed_trace_envelope_id r), ''reconstructed_trace_envelope_id''),
      (opt_all hex64 (reconstructed_trace_envelope_hash r), ''reconstructed_trace_envelope_hash''),
      (valid_DecisionTraceReplayReport (replay_report r), ''replay_report''),
      (list_all non_empty_string (requirement_ids r), ''requirement_ids'')]"

definition sample_result_items :: "AuditGateTraceSampleResult \<Rightarrow> (string \<times> payload) list" where
  "sample_result_items r =
     [(''sample_result_id'', PStr (sample_result_id r)),
      (''sample_result_hash'', PStr (sample_result_hash r)),
      (''sample_index'', PInt (sample_index r)),
      (''trace_id'', PStr (trace_id r)),
      (''replay_status'', PStr (DecisionTraceReplayStatus_value (replay_status r))),
      (''replay_report_id'', PStr (replay_report_id r)),
      (''replay_report_hash'', PStr (replay_report_hash r)),
      (''stored_trace_envelope_id'', POpt PStr (stored_trace_envelope_id r)),
      (''stored_trace_envelope_hash'', POpt PStr (stored_trace_envelope_hash r)),
      (''reconstructed_trace_envelope_id'', POpt PStr (reconstructed_trace_envelope_id r)),
      (''reconstructed_trace_envelope_hash'', POpt PStr (reconstructed_trace_envelope_hash r)),
      (''replay_report'', decision_trace_replay_report_json (replay_report r)),
      (''requirement_ids'', PStrs (requirement_ids r))]"

definition audit_gate_trace_sample_result_json :: "AuditGateTraceSampleResult \<Rightarrow> payload" where
  "audit_gate_trace_sample_result_json r = PObj (sample_result_items r)"

section \<open>What a sample must show\<close>

definition missing_fields :: "(string \<times> string option) list \<Rightarrow> string list" where
  "missing_fields fs = map fst (filter (\<lambda>(l, v). v = None) fs)"

definition has_fill_or_rejection_evidence :: "DecisionTraceReplayReport \<Rightarrow> bool" where
  "has_fill_or_rejection_evidence r \<longleftrightarrow>
     (original_paper_fill_log_ids r \<noteq> [] \<and> replayed_paper_fill_log_ids r \<noteq> []
      \<and> original_paper_tca_row_ids r \<noteq> [] \<and> replayed_paper_tca_row_ids r \<noteq> [])
     \<or> (original_paper_rejection_log_ids r \<noteq> [] \<and> replayed_paper_rejection_log_ids r \<noteq> []
      \<and> original_paper_tca_issue_ids r \<noteq> [] \<and> replayed_paper_tca_issue_ids r \<noteq> [])"

definition has_gateway_paper_or_tca_evidence :: "DecisionTraceReplayReport \<Rightarrow> bool" where
  "has_gateway_paper_or_tca_evidence r \<longleftrightarrow>
     list_ex (\<lambda>v. v \<noteq> None)
       [DecisionTraceReplayReport.risk_run_id r, original_gateway_run_id r, replayed_gateway_run_id r,
        original_gateway_report_id r, original_gateway_report_hash r, replayed_gateway_report_id r,
        replayed_gateway_report_hash r, original_gateway_event_id r, original_gateway_event_hash r,
        replayed_gateway_event_id r, replayed_gateway_event_hash r, original_gateway_order_id r,
        replayed_gateway_order_id r, original_paper_session_report_id r, original_paper_session_report_hash r,
        replayed_paper_session_report_id r, replayed_paper_session_report_hash r, original_paper_tca_report_id r,
        original_paper_tca_report_hash r, replayed_paper_tca_report_id r, replayed_paper_tca_report_hash r]
     \<or> original_paper_order_log_ids r @ replayed_paper_order_log_ids r @ original_paper_fill_log_ids r
        @ replayed_paper_fill_log_ids r @ original_paper_rejection_log_ids r @ replayed_paper_rejection_log_ids r
        @ original_paper_tca_row_ids r @ replayed_paper_tca_row_ids r @ original_paper_tca_issue_ids r
        @ replayed_paper_tca_issue_ids r \<noteq> []"

definition passed_replay_sample_evidence_error :: "DecisionTraceReplayReport \<Rightarrow> string option" where
  "passed_replay_sample_evidence_error r =
     (let missing = missing_fields
        [(''strategy_run_id'', strategy_run_id r), (''risk_run_id'', risk_run_id r),
         (''original_gateway_report_id'', original_gateway_report_id r),
         (''original_gateway_report_hash'', original_gateway_report_hash r),
         (''replayed_gateway_report_id'', replayed_gateway_report_id r),
         (''replayed_gateway_report_hash'', replayed_gateway_report_hash r),
         (''original_gateway_event_id'', original_gateway_event_id r),
         (''original_gateway_event_hash'', original_gateway_event_hash r),
         (''replayed_gateway_event_id'', replayed_gateway_event_id r),
         (''replayed_gateway_event_hash'', replayed_gateway_event_hash r),
         (''original_paper_session_report_id'', original_paper_session_report_id r),
         (''original_paper_session_report_hash'', original_paper_session_report_hash r),
         (''replayed_paper_session_report_id'', replayed_paper_session_report_id r),
         (''replayed_paper_session_report_hash'', replayed_paper_session_report_hash r),
         (''original_paper_tca_report_id'', original_paper_tca_report_id r),
         (''original_paper_tca_report_hash'', original_paper_tca_report_hash r),
         (''replayed_paper_tca_report_id'', replayed_paper_tca_report_id r),
         (''replayed_paper_tca_report_hash'', replayed_paper_tca_report_hash r)] in
      if missing \<noteq> [] then Some (''passed replay samples require order replay evidence: '' @ join_comma missing)
      else if original_paper_order_log_ids r = [] \<or> replayed_paper_order_log_ids r = []
      then Some ''passed replay samples require original and replayed paper order log IDs''
      else if \<not> has_fill_or_rejection_evidence r
      then Some ''passed replay samples require either fill log/TCA row or rejection log/TCA issue evidence''
      else None)"

definition no_order_sample_evidence_error :: "DecisionTraceReplayReport \<Rightarrow> string option" where
  "no_order_sample_evidence_error r =
     (let missing = missing_fields
        [(''forecast_id'', DecisionTraceReplayReport.forecast_id r),
         (''strategy_decision_id'', DecisionTraceReplayReport.strategy_decision_id r),
         (''strategy_decision_hash'', DecisionTraceReplayReport.strategy_decision_hash r),
         (''strategy_run_id'', DecisionTraceReplayReport.strategy_run_id r),
         (''stored_no_order_reason'', stored_no_order_reason r),
         (''reconstructed_no_order_reason'', reconstructed_no_order_reason r)] in
      if missing \<noteq> [] then Some (''no-order replay samples require decision evidence: '' @ join_comma missing)
      else if DecisionTraceReplayReport.stored_trace_envelope_id r \<noteq> DecisionTraceReplayReport.reconstructed_trace_envelope_id r
      then Some ''no-order replay samples require matching stored/reconstructed trace envelope IDs''
      else if DecisionTraceReplayReport.stored_trace_envelope_hash r \<noteq> DecisionTraceReplayReport.reconstructed_trace_envelope_hash r
      then Some ''no-order replay samples require matching stored/reconstructed trace envelope hashes''
      else if stored_no_order_reason r \<noteq> reconstructed_no_order_reason r
      then Some ''no-order replay samples require matching stored/reconstructed no_order_reason''
      else if has_gateway_paper_or_tca_evidence r
      then Some ''no-order replay samples must not include gateway, paper, or TCA evidence''
      else None)"

text \<open>Called once all four envelope fields are known to be present.\<close>

definition trace_envelope_identity_error :: "digest \<Rightarrow> DecisionTraceReplayReport \<Rightarrow> string option" where
  "trace_envelope_identity_error H r =
     (if DecisionTraceReplayReport.stored_trace_envelope_id r
        \<noteq> map_option (build_decision_trace_envelope_id H) (DecisionTraceReplayReport.stored_trace_envelope_hash r)
      then Some ''replay samples require stored trace envelope ID to match its hash''
      else if DecisionTraceReplayReport.reconstructed_trace_envelope_id r
        \<noteq> map_option (build_decision_trace_envelope_id H) (DecisionTraceReplayReport.reconstructed_trace_envelope_hash r)
      then Some ''replay samples require reconstructed trace envelope ID to match its hash''
      else None)"

definition first_error :: "string option \<Rightarrow> string option \<Rightarrow> string option" where
  "first_error x y = (case x of None \<Rightarrow> y | Some m \<Rightarrow> Some m)"

definition sample_replay_evidence_error :: "digest \<Rightarrow> AuditGateTraceSampleResult \<Rightarrow> string option" where
  "sample_replay_evidence_error H s =
     (let r = replay_report s; st = replay_status s in
      first_error
        (if st \<noteq> DecisionTraceReplayStatus.PASSED \<and> st \<noteq> NO_ORDER then None
         else if DecisionTraceReplayReport.blockers r \<noteq> []
         then Some ''passed/no-order replay samples must not include replay blockers''
         else if stored_trace_envelope_id s = None \<or> stored_trace_envelope_hash s = None
           \<or> reconstructed_trace_envelope_id s = None \<or> reconstructed_trace_envelope_hash s = None
         then Some ''passed/no-order replay samples require stored and reconstructed trace envelope IDs/hashes''
         else trace_envelope_identity_error H r)
        (case st of
           DecisionTraceReplayStatus.PASSED \<Rightarrow> passed_replay_sample_evidence_error r
         | NO_ORDER \<Rightarrow> no_order_sample_evidence_error r
         | DecisionTraceReplayStatus.FAILED \<Rightarrow>
             (if DecisionTraceReplayReport.blockers r = [] then Some ''failed replay samples require replay blockers'' else None)))"

definition sample_alignment_checks :: "AuditGateTraceSampleResult \<Rightarrow> (bool \<times> string) list" where
  "sample_alignment_checks s = (let r = replay_report s in
     [(stored_trace_envelope_id s = DecisionTraceReplayReport.stored_trace_envelope_id r,
         ''sample stored_trace_envelope_id must match replay report''),
      (stored_trace_envelope_hash s = DecisionTraceReplayReport.stored_trace_envelope_hash r,
         ''sample stored_trace_envelope_hash must match replay report''),
      (reconstructed_trace_envelope_id s = DecisionTraceReplayReport.reconstructed_trace_envelope_id r,
         ''sample reconstructed_trace_envelope_id must match replay report''),
      (reconstructed_trace_envelope_hash s = DecisionTraceReplayReport.reconstructed_trace_envelope_hash r,
         ''sample reconstructed_trace_envelope_hash must match replay report'')])"

definition build_audit_gate_trace_sample_result_hash :: "digest \<Rightarrow> AuditGateTraceSampleResult \<Rightarrow> string" where
  "build_audit_gate_trace_sample_result_hash H s =
     H (PObj (filter (\<lambda>(k, v). k \<notin> {''sample_result_id'', ''sample_result_hash''}) (sample_result_items s)))"

definition build_audit_gate_trace_sample_result_id :: "digest \<Rightarrow> string \<Rightarrow> string" where
  "build_audit_gate_trace_sample_result_id H h = stable_id H ''AUDITSAMPLE'' (PObj [(''sample_result_hash'', PStr h)])"

definition sample_result_checks :: "digest \<Rightarrow> AuditGateTraceSampleResult \<Rightarrow> (bool \<times> string) list" where
  "sample_result_checks H s =
     (let rh = build_decision_trace_replay_report_hash H (replay_report s);
          h = build_audit_gate_trace_sample_result_hash H s; err = sample_replay_evidence_error H s in
      [(AuditGateTraceSampleResult.trace_id s = DecisionTraceReplayReport.trace_id (replay_report s),
          ''sample trace_id must match replay report trace_id''),
       (replay_status s = DecisionTraceReplayReport.status (replay_report s),
          ''sample replay_status must match replay report status'')]
      @ sample_alignment_checks s @
      [(err = None, case err of None \<Rightarrow> '''' | Some m \<Rightarrow> m),
       (replay_report_hash s = rh, ''replay_report_hash is not deterministic''),
       (replay_report_id s = build_decision_trace_replay_report_id H rh, ''replay_report_id is not deterministic''),
       (sample_result_hash s = h, ''sample_result_hash is not deterministic''),
       (sample_result_id s = build_audit_gate_trace_sample_result_id H h, ''sample_result_id is not deterministic'')])"

definition construct_AuditGateTraceSampleResult ::
  "digest \<Rightarrow> AuditGateTraceSampleResult \<Rightarrow> AuditGateTraceSampleResult result" where
  "construct_AuditGateTraceSampleResult H s = checked (sample_result_fields s @ sample_result_checks H s) s"

definition valid_AuditGateTraceSampleResult :: "digest \<Rightarrow> AuditGateTraceSampleResult \<Rightarrow> bool" where
  "valid_AuditGateTraceSampleResult H s \<longleftrightarrow> construct_AuditGateTraceSampleResult H s = Inr s"

definition sample_draft :: "digest \<Rightarrow> nat \<Rightarrow> DecisionTraceReplayReport \<Rightarrow> AuditGateTraceSampleResult" where
  "sample_draft H n r =
     (let rh = build_decision_trace_replay_report_hash H r in
      \<lparr>AuditGateTraceSampleResult.sample_result_id = ''AUDITSAMPLE:PLACEHOLDER'', sample_result_hash = zero_hash,
       sample_index = int n, trace_id = DecisionTraceReplayReport.trace_id r,
       replay_status = DecisionTraceReplayReport.status r,
       replay_report_id = build_decision_trace_replay_report_id H rh, replay_report_hash = rh,
       stored_trace_envelope_id = DecisionTraceReplayReport.stored_trace_envelope_id r,
       stored_trace_envelope_hash = DecisionTraceReplayReport.stored_trace_envelope_hash r,
       reconstructed_trace_envelope_id = DecisionTraceReplayReport.reconstructed_trace_envelope_id r,
       reconstructed_trace_envelope_hash = DecisionTraceReplayReport.reconstructed_trace_envelope_hash r,
       replay_report = r, requirement_ids = audit_gate_requirements\<rparr>)"

definition make_audit_gate_trace_sample_result ::
  "digest \<Rightarrow> nat \<Rightarrow> DecisionTraceReplayReport \<Rightarrow> AuditGateTraceSampleResult result" where
  "make_audit_gate_trace_sample_result H n r =
     (let draft = sample_draft H n r; h = build_audit_gate_trace_sample_result_hash H draft in
      construct_AuditGateTraceSampleResult H
        (draft\<lparr>sample_result_id := build_audit_gate_trace_sample_result_id H h, sample_result_hash := h\<rparr>))"

section \<open>The gate report\<close>

definition count_samples :: "DecisionTraceReplayStatus \<Rightarrow> AuditGateTraceSampleResult list \<Rightarrow> int" where
  "count_samples st ss = int (length (filter (\<lambda>s. replay_status s = st) ss))"

fun duplicates_after :: "string list \<Rightarrow> string list \<Rightarrow> string list \<Rightarrow> string list" where
  "duplicates_after seen found [] = found"
| "duplicates_after seen found (x # xs) =
     duplicates_after (x # seen) (if x \<in> set seen \<and> x \<notin> set found then found @ [x] else found) xs"

definition duplicate_trace_ids :: "string list \<Rightarrow> string list" where
  "duplicate_trace_ids ids = duplicates_after [] [] ids"

fun unique_from :: "string list \<Rightarrow> string list \<Rightarrow> string list" where
  "unique_from found [] = found"
| "unique_from found (x # xs) = unique_from (if x \<in> set found then found else found @ [x]) xs"

definition marked_blank :: "string \<Rightarrow> bool" where
  "marked_blank x \<longleftrightarrow> (let p = blank_trace_id_prefix @ '':'' in take (length p) x = p)"

definition eligible_unique_trace_ids :: "AuditGateRunManifest \<Rightarrow> string list" where
  "eligible_unique_trace_ids m = unique_from [] (filter (\<lambda>x. \<not> marked_blank x) (AuditGateRunManifest.trace_ids m))"

record AuditGateValidationReport =
  report_id :: string
  report_hash :: string
  audit_run_id :: string
  manifest :: AuditGateRunManifest
  sample_count :: int
  passed_count :: int
  no_order_count :: int
  failed_count :: int
  blocker_count :: int
  samples :: "AuditGateTraceSampleResult list"
  blockers :: "AuditGateValidationBlocker list"
  status :: AuditGateValidationStatus
  recommendation :: AuditGateRecommendation
  requirement_ids :: "string list"

definition gate_report_fields :: "digest \<Rightarrow> AuditGateValidationReport \<Rightarrow> (bool \<times> string) list" where
  "gate_report_fields H r =
     [(canonical_id (report_id r), ''report_id''),
      (hex64 (report_hash r), ''report_hash''),
      (canonical_id (audit_run_id r), ''audit_run_id''),
      ((valid_AuditGateRunManifest H) (manifest r), ''manifest''),
      (0 \<le> sample_count r, ''sample_count''),
      (0 \<le> passed_count r, ''passed_count''),
      (0 \<le> no_order_count r, ''no_order_count''),
      (0 \<le> failed_count r, ''failed_count''),
      (0 \<le> blocker_count r, ''blocker_count''),
      (list_all (valid_AuditGateTraceSampleResult H) (samples r), ''samples''),
      (list_all valid_AuditGateValidationBlocker (blockers r), ''blockers''),
      (list_all non_empty_string (requirement_ids r), ''requirement_ids'')]"

definition audit_gate_run_manifest_json :: "AuditGateRunManifest \<Rightarrow> payload" where
  "audit_gate_run_manifest_json r = PObj (run_manifest_items r)"

definition gate_report_items :: "AuditGateValidationReport \<Rightarrow> (string \<times> payload) list" where
  "gate_report_items r =
     [(''report_id'', PStr (report_id r)),
      (''report_hash'', PStr (report_hash r)),
      (''audit_run_id'', PStr (audit_run_id r)),
      (''manifest'', audit_gate_run_manifest_json (manifest r)),
      (''sample_count'', PInt (sample_count r)),
      (''passed_count'', PInt (passed_count r)),
      (''no_order_count'', PInt (no_order_count r)),
      (''failed_count'', PInt (failed_count r)),
      (''blocker_count'', PInt (blocker_count r)),
      (''samples'', PList (map audit_gate_trace_sample_result_json (samples r))),
      (''blockers'', PList (map audit_gate_validation_blocker_json (blockers r))),
      (''status'', PStr (AuditGateValidationStatus_value (status r))),
      (''recommendation'', PStr (AuditGateRecommendation_value (recommendation r))),
      (''requirement_ids'', PStrs (requirement_ids r))]"

definition build_audit_gate_validation_report_hash :: "digest \<Rightarrow> AuditGateValidationReport \<Rightarrow> string" where
  "build_audit_gate_validation_report_hash H r =
     H (PObj (filter (\<lambda>(k, v). k \<notin> {''report_id'', ''report_hash''}) (gate_report_items r)))"

definition build_audit_gate_validation_report_id :: "digest \<Rightarrow> string \<Rightarrow> string" where
  "build_audit_gate_validation_report_id H h = stable_id H ''AUDITGATEREPORT'' (PObj [(''report_hash'', PStr h)])"

definition recommendation_for :: "AuditGateValidationStatus \<Rightarrow> AuditGateRecommendation" where
  "recommendation_for st = (if st = AuditGateValidationStatus.FAILED then BLOCKED else READY_FOR_REVIEW)"

text \<open>\<open>_validate_passing_report_has_valid_policy_and_samples\<close>.\<close>

definition passing_report_checks :: "digest \<Rightarrow> AuditGateValidationReport \<Rightarrow> (bool \<times> string) list" where
  "passing_report_checks H r =
     [(trace_id_policy_errors (manifest r) = [], ''passing audit gate reports require non-empty trace IDs''),
      (duplicate_trace_ids (AuditGateRunManifest.trace_ids (manifest r)) = [],
         ''passing audit gate reports require unique trace IDs''),
      (\<not> int (length (eligible_unique_trace_ids (manifest r)))
         < minimum_sample_count (AuditGateRunManifest.sample_policy (manifest r)),
         ''passing audit gate reports require enough unique non-empty trace IDs'')]
     @ map (\<lambda>s. (sample_replay_evidence_error H s = None, ''passing audit gate reports require valid samples'')) (samples r)"

definition gate_report_checks :: "digest \<Rightarrow> AuditGateValidationReport \<Rightarrow> (bool \<times> string) list" where
  "gate_report_checks H r =
     (let st = (if blockers r \<noteq> [] \<or> failed_count r \<noteq> 0 then AuditGateValidationStatus.FAILED else AuditGateValidationStatus.PASSED);
          h = build_audit_gate_validation_report_hash H r in
      [(AuditGateValidationReport.audit_run_id r = AuditGateRunManifest.audit_run_id (manifest r),
          ''report audit_run_id must match manifest''),
       (map AuditGateTraceSampleResult.trace_id (samples r) = AuditGateRunManifest.trace_ids (manifest r),
          ''sample trace IDs must match manifest trace_ids in order''),
       (sample_count r = int (length (samples r)), ''sample_count must match samples''),
       (passed_count r = count_samples DecisionTraceReplayStatus.PASSED (samples r), ''passed_count must match samples''),
       (no_order_count r = count_samples NO_ORDER (samples r), ''no_order_count must match samples''),
       (failed_count r = count_samples DecisionTraceReplayStatus.FAILED (samples r), ''failed_count must match samples''),
       (blocker_count r = int (length (blockers r)), ''blocker_count must match blockers''),
       (AuditGateValidationReport.status r = st, ''status must be derived from blockers and failed_count''),
       (recommendation r = recommendation_for st, ''recommendation must be derived from status'')]
      @ (if AuditGateValidationReport.status r = AuditGateValidationStatus.PASSED then passing_report_checks H r else [])
      @ [(report_hash r = h, ''report_hash is not deterministic''),
         (report_id r = build_audit_gate_validation_report_id H h, ''report_id is not deterministic'')])"

definition construct_AuditGateValidationReport ::
  "digest \<Rightarrow> AuditGateValidationReport \<Rightarrow> AuditGateValidationReport result" where
  "construct_AuditGateValidationReport H r = checked (gate_report_fields H r @ gate_report_checks H r) r"

definition manifest_trace_policy_blockers :: "AuditGateRunManifest \<Rightarrow> AuditGateValidationBlocker list result" where
  "manifest_trace_policy_blockers m =
     bindE (mapE (\<lambda>e. gate_blocker SAMPLE_POLICY_NOT_MET e None None (Some ''non-empty trace_id'') (Some ''blank trace_id''))
         (trace_id_policy_errors m)) (\<lambda>bs.
       let dups = duplicate_trace_ids (AuditGateRunManifest.trace_ids m) in
       if dups = [] then Inr bs
       else bindE (gate_blocker SAMPLE_POLICY_NOT_MET ''explicit audit gate trace IDs must be unique'' None None
           (Some ''unique trace_ids'') (Some (join_comma dups))) (\<lambda>b. Inr (bs @ [b])))"

definition sample_manifest_mismatch_blockers ::
  "AuditGateRunManifest \<Rightarrow> AuditGateTraceSampleResult list \<Rightarrow> AuditGateValidationBlocker list result" where
  "sample_manifest_mismatch_blockers m ss =
     (let ids = map AuditGateTraceSampleResult.trace_id ss in
      if ids = AuditGateRunManifest.trace_ids m then Inr []
      else bindE (gate_blocker SAMPLE_MANIFEST_MISMATCH ''sample trace IDs must match manifest trace_ids in order'' None None
          (Some (join_comma (AuditGateRunManifest.trace_ids m))) (Some (join_comma ids))) (\<lambda>b. Inr [b]))"

definition replay_blockers :: "AuditGateTraceSampleResult \<Rightarrow> AuditGateValidationBlocker list result" where
  "replay_blockers s =
     mapE (\<lambda>b. gate_blocker SAMPLE_REPLAY_FAILED (DecisionTraceReplayBlocker.message b)
         (Some (AuditGateTraceSampleResult.trace_id s))
         (Some (DecisionTraceReplayBlockerCode_value (DecisionTraceReplayBlocker.code b)))
         (DecisionTraceReplayBlocker.expected b) (DecisionTraceReplayBlocker.actual b))
       (DecisionTraceReplayReport.blockers (replay_report s))"

text \<open>The blockers of one sample, the body of the loop of \<open>_gate_blockers\<close>.\<close>

definition sample_blockers :: "digest \<Rightarrow> AuditGateTraceSampleResult \<Rightarrow> AuditGateValidationBlocker list result" where
  "sample_blockers H s =
     (let tid = AuditGateTraceSampleResult.trace_id s in
      bindE (case sample_replay_evidence_error H s of None \<Rightarrow> Inr []
          | Some m \<Rightarrow> bindE (gate_blocker SAMPLE_REPLAY_EVIDENCE_INVALID m (Some tid) None None None) (\<lambda>b. Inr [b])) (\<lambda>bs.
      bindE (if replay_status s \<noteq> DecisionTraceReplayStatus.FAILED then Inr []
          else if DecisionTraceReplayReport.blockers (replay_report s) \<noteq> [] then replay_blockers s
          else bindE (gate_blocker SAMPLE_REPLAY_FAILED ''sample replay failed without a replay blocker'' (Some tid) None None None)
            (\<lambda>b. Inr [b])) (\<lambda>cs. Inr (bs @ cs))))"

definition blocker_if ::
  "bool \<Rightarrow> string \<Rightarrow> string \<Rightarrow> string \<Rightarrow> AuditGateValidationBlocker list result" where
  "blocker_if c m x y =
     (if c then bindE (gate_blocker SAMPLE_POLICY_NOT_MET m None None (Some x) (Some y)) (\<lambda>b. Inr [b]) else Inr [])"

definition gate_blockers ::
  "digest \<Rightarrow> AuditGateRunManifest \<Rightarrow> AuditGateTraceSampleResult list \<Rightarrow> AuditGateValidationBlocker list result" where
  "gate_blockers H m ss =
     (let pol = AuditGateRunManifest.sample_policy m; eligible = int (length (eligible_unique_trace_ids m)) in
      bindE (manifest_trace_policy_blockers m) (\<lambda>b1.
      bindE (sample_manifest_mismatch_blockers m ss) (\<lambda>b2.
      bindE (mapE (sample_blockers H) ss) (\<lambda>b3.
      bindE (blocker_if (eligible < minimum_sample_count pol)
          ''unique non-empty sample count is below the configured minimum''
          (int_text (minimum_sample_count pol)) (int_text eligible)) (\<lambda>b4.
      bindE (blocker_if (require_no_order_sample pol \<and> count_samples NO_ORDER ss = 0)
          ''sample policy requires at least one no-order/no-trade trace'' ''at least 1 no_order sample'' ''0'') (\<lambda>b5.
      bindE (blocker_if (require_all_replays_passing pol \<and> list_ex (\<lambda>s. replay_status s = DecisionTraceReplayStatus.FAILED) ss)
          ''sample policy requires all replay samples to pass or no-order'' ''0 failed samples''
          (int_text (count_samples DecisionTraceReplayStatus.FAILED ss))) (\<lambda>b6.
      Inr (b1 @ b2 @ concat b3 @ b4 @ b5 @ b6))))))))"

definition gate_report_draft ::
  "AuditGateRunManifest \<Rightarrow> AuditGateTraceSampleResult list \<Rightarrow> AuditGateValidationBlocker list \<Rightarrow> AuditGateValidationReport" where
  "gate_report_draft m ss bs =
     (let failed = count_samples DecisionTraceReplayStatus.FAILED ss;
          st = (if bs \<noteq> [] \<or> failed \<noteq> 0 then AuditGateValidationStatus.FAILED else AuditGateValidationStatus.PASSED) in
      \<lparr>AuditGateValidationReport.report_id = ''AUDITGATEREPORT:PLACEHOLDER'', report_hash = zero_hash,
       audit_run_id = AuditGateRunManifest.audit_run_id m, manifest = m, sample_count = int (length ss),
       passed_count = count_samples DecisionTraceReplayStatus.PASSED ss, no_order_count = count_samples NO_ORDER ss,
       failed_count = failed, blocker_count = int (length bs), samples = ss, blockers = bs, status = st,
       recommendation = recommendation_for st, requirement_ids = AuditGateRunManifest.requirement_ids m\<rparr>)"

definition make_audit_gate_validation_report ::
  "digest \<Rightarrow> AuditGateRunManifest \<Rightarrow> AuditGateTraceSampleResult list \<Rightarrow> AuditGateValidationReport result" where
  "make_audit_gate_validation_report H m ss =
     bindE (gate_blockers H m ss) (\<lambda>bs.
       let draft = gate_report_draft m ss bs; h = build_audit_gate_validation_report_hash H draft in
       construct_AuditGateValidationReport H
         (draft\<lparr>report_id := build_audit_gate_validation_report_id H h, report_hash := h\<rparr>))"

definition run_audit_gate_validation ::
  "digest \<Rightarrow> zones \<Rightarrow> (py_error \<Rightarrow> string) \<Rightarrow> string list \<Rightarrow> resolver \<Rightarrow> AuditGateRunConfig \<Rightarrow> AuditGateValidationReport result" where
  "run_audit_gate_validation H Z describe ids resolve c =
     bindE (make_audit_gate_run_manifest H c ids) (\<lambda>m.
     bindE (mapE (\<lambda>(n, tid). bindE (replay_decision_trace_by_id H Z describe resolve tid) (make_audit_gate_trace_sample_result H n))
         (enumerate 0 (AuditGateRunManifest.trace_ids m)))
       (make_audit_gate_validation_report H m))"

end
