(* ===== verification/AuditEvidence.thy ===== *)
theory AuditEvidence
  imports AuditTrace
begin

text \<open>
  What the audit envelope guarantees, and that it exists: the logs and cost rows that paper
  accounting writes for a gateway event agree with the event, the event agrees with its risk
  check, and the risk check with the order the strategy asked for.
\<close>

section \<open>Checks\<close>

lemma raise_on_mismatches_Inr [simp]: "raise_on_mismatches msg cs = Inr () \<longleftrightarrow> list_all fst cs"
  by (induction msg cs rule: raise_on_mismatches.induct) auto

declare raise_on_mismatches.simps [simp del]

lemma all_match_Inr: "all_match f xs = Inr () \<longleftrightarrow> (\<forall>x \<in> set xs. list_all fst (f x))"
proof -
  have "(\<exists>ys. mapE (\<lambda>x. raise_on_mismatches msg (f x)) xs = Inr ys) \<longleftrightarrow> (\<forall>x \<in> set xs. list_all fst (f x))" for msg
    by (induction xs) (auto simp: bindE_Inr_iff)
  then show ?thesis by (auto simp: all_match_def bindE_Inr_iff)
qed

lemma dec_eq_same [simp]: "dec_eq x x"
  by (simp add: dec_eq_dval)

lemma same_time_same [simp]: "same_time t t"
  by (simp add: same_time_def)

lemma same_intent_same [simp]: "same_intent i i"
  by (simp add: same_intent_def option.rel_refl)

section \<open>Logs agree with their event\<close>

lemma order_log_agrees:
  assumes "make_order_lifecycle_log_entry H g v = Inr e"
  shows "list_all fst (order_log_matches e v)"
    "logs_event (PaperOrderLifecycleLogEntry.gateway_event_id e) (PaperOrderLifecycleLogEntry.gateway_event_hash e)
       (PaperOrderLifecycleLogEntry.trace_id e) (PaperOrderLifecycleLogEntry.source_decision_id e) v"
  using order_log_made(2) [OF assms] by (auto simp: order_log_draft_def order_log_matches_def logs_event_def)

lemma fill_log_agrees:
  assumes "make_fill_log_entry H g v = Inr e"
  shows "list_all fst (fill_log_matches e v)"
    "logs_event (PaperFillLogEntry.gateway_event_id e) (PaperFillLogEntry.gateway_event_hash e)
       (PaperFillLogEntry.trace_id e) (PaperFillLogEntry.source_decision_id e) v"
proof -
  have "ExecutionGatewayLifecycleEvent.gateway_order_id v \<noteq> None"
    "ExecutionGatewayLifecycleEvent.replay_order_result_id v \<noteq> None"
    using assms by (auto simp: make_fill_log_entry_def guardE_Inr_iff)
  then show "list_all fst (fill_log_matches e v)"
    "logs_event (PaperFillLogEntry.gateway_event_id e) (PaperFillLogEntry.gateway_event_hash e)
       (PaperFillLogEntry.trace_id e) (PaperFillLogEntry.source_decision_id e) v"
    using fill_log_made(2) [OF assms] by (auto simp: fill_log_draft_def fill_log_matches_def logs_event_def)
qed

lemma rejection_log_agrees:
  assumes "make_rejection_log_entry H g v = Inr e"
  shows "list_all fst (rejection_log_matches e v)"
    "logs_event (PaperRejectionLogEntry.gateway_event_id e) (PaperRejectionLogEntry.gateway_event_hash e)
       (PaperRejectionLogEntry.trace_id e) (PaperRejectionLogEntry.source_decision_id e) v"
  using rejection_log_made(2) [OF assms]
  by (auto simp: rejection_log_draft_def rejection_log_matches_def logs_event_def)

lemma tca_row_agrees:
  assumes "make_tca_row H g v q = Inr w"
  shows "list_all fst (tca_row_matches w v)"
    "logs_event (PaperTcaRow.gateway_event_id w) (PaperTcaRow.gateway_event_hash w)
       (PaperTcaRow.trace_id w) (PaperTcaRow.source_decision_id w) v"
proof -
  have "ExecutionGatewayLifecycleEvent.gateway_order_id v \<noteq> None"
    using assms by (auto simp: make_tca_row_def guardE_Inr_iff)
  then show "list_all fst (tca_row_matches w v)"
    "logs_event (PaperTcaRow.gateway_event_id w) (PaperTcaRow.gateway_event_hash w)
       (PaperTcaRow.trace_id w) (PaperTcaRow.source_decision_id w) v"
    using tca_row_made(2) [OF assms] by (auto simp: tca_row_draft_def tca_row_matches_def logs_event_def)
qed

definition issue_agrees :: "PaperTcaIssue \<Rightarrow> ExecutionGatewayLifecycleEvent \<Rightarrow> bool" where
  "issue_agrees j v \<longleftrightarrow> list_all fst (tca_issue_matches j v)
     \<and> PaperTcaIssue.gateway_event_id j = ExecutionGatewayLifecycleEvent.gateway_event_id v
     \<and> PaperTcaIssue.gateway_event_hash j = ExecutionGatewayLifecycleEvent.gateway_event_hash v
     \<and> PaperTcaIssue.trace_id j = ExecutionGatewayLifecycleEvent.trace_id v"

lemma tca_issue_agrees: "make_tca_issue H g v c m = Inr j \<Longrightarrow> issue_agrees j v"
  by (auto simp: tca_issue_draft_def issue_agrees_def tca_issue_matches_def dest!: tca_issue_made(2))

lemma tca_step_agrees:
  assumes "tca_step H g qs v = Inr (ws, js)"
  shows "\<forall>w \<in> set ws. list_all fst (tca_row_matches w v)
      \<and> logs_event (PaperTcaRow.gateway_event_id w) (PaperTcaRow.gateway_event_hash w)
          (PaperTcaRow.trace_id w) (PaperTcaRow.source_decision_id w) v"
    "\<forall>j \<in> set js. issue_agrees j v" "event_filled v \<longleftrightarrow> ws \<noteq> []" "\<not> event_filled v \<Longrightarrow> js \<noteq> []"
  using assms
  by (auto simp: tca_step_def Let_def filled_status_def bindE_Inr_iff
      intro: tca_row_agrees tca_issue_agrees split: ExecutionGatewayOrderStatus.splits if_splits)

section \<open>A session of one event\<close>

lemma one_event_logs:
  assumes "make_paper_account_session_report H g init final iid ih fid fh = Inr p" "events g = [v]"
  shows "\<exists>os fs rs. paper_account_ids_for_event p g v = Inr (os, fs, rs) \<and> os \<noteq> []
     \<and> os = PaperAccountSessionReport.order_log_ids p \<and> fs = PaperAccountSessionReport.fill_log_ids p
     \<and> rs = PaperAccountSessionReport.rejection_log_ids p
     \<and> (if event_filled v then fs \<noteq> [] else rs \<noteq> [])"
proof (rule session_parts [OF assms(1)])
  fix ini fin os fs rs i h
  assume os: "list_all2 (\<lambda>v e. make_order_lifecycle_log_entry H g v = Inr e) (events g) os"
    and fs: "list_all2 (\<lambda>v e. make_fill_log_entry H g v = Inr e) (filter event_filled (events g)) fs"
    and rs: "list_all2 (\<lambda>v e. make_rejection_log_entry H g v = Inr e) (filter (\<lambda>v. \<not> event_filled v) (events g)) rs"
    and p: "p = (session_report_draft g init ini fin os fs rs)\<lparr>session_report_id := i, session_report_hash := h\<rparr>"
  obtain o' where o': "os = [o']" "make_order_lifecycle_log_entry H g v = Inr o'"
    using os by (auto simp: assms(2) list_all2_Cons1)
  have f: "\<forall>e \<in> set fs. make_fill_log_entry H g v = Inr e" "event_filled v \<longleftrightarrow> fs \<noteq> []"
    using fs by (auto simp: assms(2) list_all2_Cons1 split: if_splits)
  have r: "\<forall>e \<in> set rs. make_rejection_log_entry H g v = Inr e" "\<not> event_filled v \<longleftrightarrow> rs \<noteq> []"
    using rs by (auto simp: assms(2) list_all2_Cons1 split: if_splits)
  have "order_logs_of p v = os" "fill_logs_of p v = fs" "rejection_logs_of p v = rs"
    using o' f(1) r(1) unfolding order_logs_of_def fill_logs_of_def rejection_logs_of_def
    by (auto simp: p filter_id_conv session_report_draft_def intro: order_log_agrees fill_log_agrees rejection_log_agrees)
  moreover have "all_match (\<lambda>e. order_log_matches e v) os = Inr ()" "all_match (\<lambda>e. fill_log_matches e v) fs = Inr ()"
    "all_match (\<lambda>e. rejection_log_matches e v) rs = Inr ()"
    using o' f(1) r(1) unfolding all_match_Inr
    by (auto intro: order_log_agrees fill_log_agrees rejection_log_agrees)
  ultimately show ?thesis
    using o' f(2) r(2) by (simp add: paper_account_ids_for_event_def Let_def p session_report_draft_def guardE_def)
qed

lemma one_event_costs:
  assumes "make_paper_tca_report H g qs = Inr t" "events g = [v]"
  shows "\<exists>ws js. paper_tca_ids_for_event t g v = Inr (ws, js)
     \<and> ws = PaperTcaReport.row_ids t \<and> js = PaperTcaReport.issue_ids t
     \<and> (if event_filled v then ws \<noteq> [] else js \<noteq> [])"
proof (rule tca_parts [OF assms(1)])
  fix ps i h
  assume st: "list_all2 (\<lambda>v p. tca_step H g qs v = Inr p) (events g) ps"
    and t: "t = (tca_report_draft g (concat (map fst ps)) (concat (map snd ps)))\<lparr>tca_report_id := i, tca_report_hash := h\<rparr>"
  obtain ws js where s: "ps = [(ws, js)]" "tca_step H g qs v = Inr (ws, js)"
    using st by (auto simp: assms(2) list_all2_Cons1)
  note a = tca_step_agrees [OF s(2)]
  have "rows_of t v = ws" "issues_of t v = js"
    using a(1,2) by (auto simp: rows_of_def issues_of_def t s(1) tca_report_draft_def issue_agrees_def intro!: filter_True)
  moreover have "all_match (\<lambda>w. tca_row_matches w v) ws = Inr ()" "all_match (\<lambda>j. tca_issue_matches j v) js = Inr ()"
    using a(1,2) by (auto simp: all_match_Inr issue_agrees_def)
  ultimately show ?thesis
    using a(3,4) by (auto simp: paper_tca_ids_for_event_def Let_def t s(1) tca_report_draft_def guardE_def)
qed

section \<open>The gateway event agrees with its risk check\<close>

text \<open>A risk event that approves, if anything, the requested order with another quantity.\<close>

definition approves_requested :: "RiskCheckEvent \<Rightarrow> bool" where
  "approves_requested e \<longleftrightarrow> opt_all (\<lambda>i. i = order_intent (request e)\<lparr>OrderIntent.quantity := OrderIntent.quantity i\<rparr>)
     (approved_order_intent e)"

lemma engine_approves_requested:
  assumes "digest_ok H" "valid_policy H p" "valid_request H (request e)"
    "evaluate_pre_trade_risk H (request e) p = Inr e" "fits (OrderIntent.quantity (order_intent (request e)))"
  shows "approves_requested e"
  using approved_bounds [OF assms(3,2,1,4) _ assms(5)] by (auto simp: approves_requested_def opt_all_def split: option.splits)

lemma approved_fields:
  assumes "approves_requested e" "approved_order_intent e = Some i"
  shows "OrderIntent.trace_id i = OrderIntent.trace_id (order_intent (request e))"
    "OrderIntent.source_decision_id i = OrderIntent.source_decision_id (order_intent (request e))"
    "OrderIntent.venue_id i = OrderIntent.venue_id (order_intent (request e))"
    "OrderIntent.order_type i = OrderIntent.order_type (order_intent (request e))"
    "OrderIntent.submitted_at i = OrderIntent.submitted_at (order_intent (request e))"
    "OrderIntent.client_order_id i = OrderIntent.client_order_id (order_intent (request e))"
    "OrderIntent.instrument_id i = OrderIntent.instrument_id (order_intent (request e))"
    "OrderIntent.side i = OrderIntent.side (order_intent (request e))"
proof -
  have i: "i = order_intent (request e)\<lparr>OrderIntent.quantity := OrderIntent.quantity i\<rparr>"
    using assms by (simp add: approves_requested_def)
  show "OrderIntent.trace_id i = OrderIntent.trace_id (order_intent (request e))"
    "OrderIntent.source_decision_id i = OrderIntent.source_decision_id (order_intent (request e))"
    "OrderIntent.venue_id i = OrderIntent.venue_id (order_intent (request e))"
    "OrderIntent.order_type i = OrderIntent.order_type (order_intent (request e))"
    "OrderIntent.submitted_at i = OrderIntent.submitted_at (order_intent (request e))"
    "OrderIntent.client_order_id i = OrderIntent.client_order_id (order_intent (request e))"
    "OrderIntent.instrument_id i = OrderIntent.instrument_id (order_intent (request e))"
    "OrderIntent.side i = OrderIntent.side (order_intent (request e))"
    by (subst i, simp)+
qed

lemma valid_event_no_intent:
  assumes "valid_event H e" "\<not> approving (final_decision e)"
  shows "approved_order_intent e = None"
  using assms by (auto simp: valid_event_def construct_RiskCheckEvent_def Let_def)

lemma event_agrees:
  assumes "make_execution_gateway_lifecycle_event H k m run e x reqs = Inr v" "valid_event H e" "approves_requested e"
  shows "list_all fst (gateway_event_matches v e (order_intent (request e)))
    \<and> ExecutionGatewayLifecycleEvent.risk_check_id v = RiskCheckEvent.risk_check_id e
    \<and> ExecutionGatewayLifecycleEvent.risk_check_hash v = RiskCheckEvent.risk_check_hash e
    \<and> ExecutionGatewayLifecycleEvent.trace_id v = OrderIntent.trace_id (order_intent (request e))
    \<and> ExecutionGatewayLifecycleEvent.source_decision_id v = OrderIntent.source_decision_id (order_intent (request e))"
  using assms(1)
proof (cases rule: make_event_cases)
  case blocked
  have "approved_order_intent e = None" using valid_event_no_intent [OF assms(2) blocked(3)] .
  then show ?thesis
    by (simp add: blocked(2) gateway_event_matches_def with_event_identity_def blocked_event_draft_def)
next
  case (replayed y i)
  then show ?thesis
    by (simp add: gateway_event_matches_def with_event_identity_def blocked_event_draft_def replayed_event_draft_def
        approved_fields [OF assms(3) replayed(2)])
qed

lemma gateway_one_event:
  assumes "run_paper_gateway_replay H bs [e] run cost s a = Inr g"
  obtains v x where "events g = [v]"
    "make_execution_gateway_lifecycle_event H PAPER PAPER_SIMULATED_FILL run e x paper_requirements = Inr v"
  using assms unfolding run_paper_gateway_replay_def
  by (elim gateway_parts) (auto simp: list_all2_Cons1)

section \<open>The envelope of a complete set of artifacts\<close>

lemma session_report_ids:
  assumes "valid_PaperAccountSessionReport H p"
  shows "canonical_id (session_report_id p) \<and> hex64 (session_report_hash p) \<and> canonical_id (PaperAccountSessionReport.run_id p)
    \<and> list_all canonical_id (PaperAccountSessionReport.order_log_ids p)
    \<and> list_all canonical_id (PaperAccountSessionReport.fill_log_ids p)
    \<and> list_all canonical_id (PaperAccountSessionReport.rejection_log_ids p)"
proof -
  have "list_all fst (session_report_fields H p)"
    using assms by (simp add: valid_PaperAccountSessionReport_def construct_PaperAccountSessionReport_def)
  then show ?thesis by (simp add: session_report_fields_def)
qed

lemma tca_report_ids:
  assumes "valid_PaperTcaReport H t"
  shows "canonical_id (tca_report_id t) \<and> hex64 (tca_report_hash t)
    \<and> list_all canonical_id (PaperTcaReport.row_ids t) \<and> list_all canonical_id (PaperTcaReport.issue_ids t)"
proof -
  have "list_all fst (tca_report_fields H t)"
    using assms by (simp add: valid_PaperTcaReport_def construct_PaperTcaReport_def)
  then show ?thesis by (simp add: tca_report_fields_def)
qed

lemma risk_event_ids:
  assumes "valid_event H e"
  shows "canonical_id (RiskCheckEvent.risk_check_id e) \<and> hex64 (RiskCheckEvent.risk_check_hash e)
    \<and> valid_request H (request e) \<and> canonical_id (RiskCheckRequest.run_id (request e))
    \<and> canonical_id (RiskCheckRequest.request_id (request e)) \<and> hex64 (RiskCheckRequest.request_hash (request e))
    \<and> RiskCheckRequest.trace_id (request e) = OrderIntent.trace_id (order_intent (request e))
    \<and> RiskCheckRequest.source_decision_id (request e) = OrderIntent.source_decision_id (order_intent (request e))"
proof -
  have e: "canonical_id (RiskCheckEvent.risk_check_id e)" "hex64 (RiskCheckEvent.risk_check_hash e)" "valid_request H (request e)"
    using assms by (auto simp: valid_event_def construct_RiskCheckEvent_def Let_def)
  then have "list_all fst (risk_request_fields H (request e))"
    by (simp add: valid_request_def construct_RiskCheckRequest_def Let_def)
  then show ?thesis
    using e by (simp add: risk_request_fields_def valid_request_def construct_RiskCheckRequest_def Let_def)
qed

lemma gateway_event_ids:
  assumes "valid_gateway_event H v"
  shows "canonical_id (ExecutionGatewayLifecycleEvent.gateway_event_id v)
    \<and> hex64 (ExecutionGatewayLifecycleEvent.gateway_event_hash v)
    \<and> opt_all canonical_id (ExecutionGatewayLifecycleEvent.gateway_order_id v)"
  using valid_gateway_event_parts(1,5,6) [OF assms] by (simp add: gateway_event_fields_def)

lemma decision_ids:
  assumes "valid_StrategyDecision H d"
  shows "canonical_id (StrategyDecision.decision_id d) \<and> hex64 (decision_hash d) \<and> canonical_id (StrategyDecision.trace_id d)
    \<and> canonical_id (StrategyDecision.strategy_run_id d) \<and> canonical_id (StrategyDecision.policy_id d)
    \<and> hex64 (StrategyDecision.policy_hash d)"
proof -
  have "list_all fst (strategy_decision_fields d)"
    using assms by (simp add: valid_StrategyDecision_def construct_StrategyDecision_def)
  then show ?thesis by (simp add: strategy_decision_fields_def)
qed

definition with_envelope_identity :: "digest \<Rightarrow> DecisionTraceEnvelope \<Rightarrow> DecisionTraceEnvelope" where
  "with_envelope_identity H r = r\<lparr>trace_envelope_id := build_decision_trace_envelope_id H (build_decision_trace_envelope_hash H r),
     trace_envelope_hash := build_decision_trace_envelope_hash H r\<rparr>"

lemma envelope_hash_draft [simp]:
  "build_decision_trace_envelope_hash H (r\<lparr>trace_envelope_id := i, trace_envelope_hash := h\<rparr>)
     = build_decision_trace_envelope_hash H r"
  by (simp add: build_decision_trace_envelope_hash_def envelope_items_def)

lemma envelope_identified:
  assumes "digest_ok H" "list_all fst (drop 2 (trace_envelope_fields r))" "list_all fst (envelope_checks r)"
  shows "construct_DecisionTraceEnvelope H (with_envelope_identity H r) = Inr (with_envelope_identity H r)"
proof -
  have "canonical_id (build_decision_trace_envelope_id H h)" for h
    unfolding build_decision_trace_envelope_id_def by (rule stable_id_canonical [OF assms(1)]) (simp_all add: canonical_id_def upper_char_def digit_char_def)
  moreover have "hex64 (build_decision_trace_envelope_hash H r)"
    by (simp add: build_decision_trace_envelope_hash_def digest_hex [OF assms(1)])
  moreover have "trace_envelope_fields (with_envelope_identity H r) = take 2 (trace_envelope_fields (with_envelope_identity H r)) @ drop 2 (trace_envelope_fields r)"
    by (simp add: trace_envelope_fields_def with_envelope_identity_def)
  moreover have "list_all fst (take 2 (trace_envelope_fields (with_envelope_identity H r)))"
    using calculation(1,2) by (simp add: trace_envelope_fields_def with_envelope_identity_def)
  ultimately have "list_all fst (trace_envelope_fields (with_envelope_identity H r))"
    using assms(2) by (metis list_all_append)
  moreover have "envelope_checks (with_envelope_identity H r) = envelope_checks r"
    by (simp add: envelope_checks_def with_envelope_identity_def order_trace_checks_def no_order_trace_checks_def
        downstream_values_def downstream_ids_def)
  ultimately show ?thesis
    using assms(3) by (simp add: construct_DecisionTraceEnvelope_def Let_def) (simp add: with_envelope_identity_def)
qed

lemma build_trace_envelope_identity:
  "build_trace_envelope H f d why ev =
     construct_DecisionTraceEnvelope H (with_envelope_identity H (trace_envelope_draft H f d why ev))"
  by (simp add: build_trace_envelope_def Let_def with_envelope_identity_def)

lemma audit_requirements_ok: "list_all non_empty_string audit_requirements"
  by (simp add: audit_requirements_def non_empty_string_def strip_def py_space_def)

text \<open>Valid artifacts with a log give a valid envelope.\<close>

definition evidence_ok :: "digest \<Rightarrow> order_evidence \<Rightarrow> bool" where
  "evidence_ok H x \<longleftrightarrow> valid_OrderIntent (audited_intent x) \<and> valid_event H (audited_risk x)
     \<and> valid_gateway_report H (audited_gateway x) \<and> valid_gateway_event H (audited_event x)
     \<and> valid_PaperAccountSessionReport H (audited_session x) \<and> valid_PaperTcaReport H (audited_tca x)
     \<and> PaperAccountSessionReport.run_id (audited_session x) = ExecutionGatewayReport.run_id (audited_gateway x)
     \<and> fst (audited_logs x) \<noteq> []
     \<and> list_all canonical_id (fst (audited_logs x) @ fst (snd (audited_logs x)) @ snd (snd (audited_logs x)))
     \<and> list_all canonical_id (fst (audited_costs x) @ snd (audited_costs x))"

lemma order_envelope_ok:
  assumes "digest_ok H" "valid_ForecastTraceReference f" "valid_StrategyDecision H d" "evidence_ok H x"
  shows "build_trace_envelope H f d None (Some x)
    = Inr (with_envelope_identity H (trace_envelope_draft H f d None (Some x)))"
proof -
  have i: "canonical_id (OrderIntent.client_order_id (audited_intent x))" "hex64 (build_order_intent_hash H (audited_intent x))"
    using assms(1,4) by (auto simp: evidence_ok_def valid_OrderIntent_def construct_OrderIntent_def
        build_order_intent_hash_def digest_hex)
  have o: "valid_event H (audited_risk x)" "valid_gateway_report H (audited_gateway x)" "valid_gateway_event H (audited_event x)"
    "valid_PaperAccountSessionReport H (audited_session x)" "valid_PaperTcaReport H (audited_tca x)"
    "PaperAccountSessionReport.run_id (audited_session x) = ExecutionGatewayReport.run_id (audited_gateway x)"
    "fst (audited_logs x) \<noteq> []"
    "list_all canonical_id (fst (audited_logs x))" "list_all canonical_id (fst (snd (audited_logs x)))"
    "list_all canonical_id (snd (snd (audited_logs x)))"
    "list_all canonical_id (fst (audited_costs x))" "list_all canonical_id (snd (audited_costs x))"
    using assms(4) by (simp_all add: evidence_ok_def)
  note ids = i decision_ids [OF assms(3)] risk_event_ids [OF o(1)] valid_gateway_report_parts(5-7) [OF o(2)]
    gateway_event_ids [OF o(3)] session_report_ids [OF o(4)] tca_report_ids [OF o(5)] o(6-12)
  have "list_all fst (drop 2 (trace_envelope_fields (trace_envelope_draft H f d None (Some x))))"
    using ids audit_requirements_ok assms(2) by (simp add: trace_envelope_fields_def trace_envelope_draft_def)
  moreover have "list_all fst (envelope_checks (trace_envelope_draft H f d None (Some x)))"
    using o(6,7) by (simp add: envelope_checks_def validate_ref_pair_def order_trace_checks_def trace_envelope_draft_def)
  ultimately show ?thesis
    by (simp add: build_trace_envelope_identity envelope_identified [OF assms(1)])
qed

section \<open>The artifacts of one order\<close>

lemma session_made:
  assumes "make_paper_account_session_report H g init final iid ih fid fh = Inr p"
  shows "valid_PaperAccountSessionReport H p" "PaperAccountSessionReport.run_id p = ExecutionGatewayReport.run_id g"
    "PaperAccountSessionReport.gateway_report_id p = ExecutionGatewayReport.gateway_report_id g"
    "PaperAccountSessionReport.initial_account_state p = init"
proof -
  show "valid_PaperAccountSessionReport H p"
    using assms by (auto simp: make_paper_account_session_report_def bindE_Inr_iff Let_def
        construct_PaperAccountSessionReport_def valid_PaperAccountSessionReport_def)
  show "PaperAccountSessionReport.run_id p = ExecutionGatewayReport.run_id g"
    "PaperAccountSessionReport.gateway_report_id p = ExecutionGatewayReport.gateway_report_id g"
    "PaperAccountSessionReport.initial_account_state p = init"
    by (rule session_parts [OF assms]; simp add: session_report_draft_def)+
qed

lemma tca_made:
  assumes "make_paper_tca_report H g qs = Inr t"
  shows "valid_PaperTcaReport H t"
  using assms by (auto simp: make_paper_tca_report_def bindE_Inr_iff Let_def construct_PaperTcaReport_def valid_PaperTcaReport_def)

lemma intent_made:
  assumes "build_order_intent_from_strategy_decision H d submitted ot lp = Inr i"
  shows "validate_order_intent_matches_decision H i d = Inr ()" "valid_OrderIntent i"
    "OrderIntent.trace_id i = StrategyDecision.trace_id d" "OrderIntent.source_decision_id i = StrategyDecision.decision_id d"
  using assms
  by (auto simp: build_order_intent_from_strategy_decision_def Let_def guardE_Inr_iff construct_OrderIntent_def
      valid_OrderIntent_def validate_order_intent_matches_decision_def intent_decision_checks_def)

lemma forecast_reference_ok:
  assumes "valid_Forecast H f"
  obtains ref where "forecast_reference_from_forecast f = Inr ref" "valid_ForecastTraceReference ref"
  using valid_forecast_checks(1) [OF assms]
  by (simp add: forecast_reference_from_forecast_def construct_ForecastTraceReference_def forecast_reference_fields_def
      forecast_fields_def valid_ForecastTraceReference_def)

lemma lineage_ok:
  assumes "decide_expected_net_edge H f p run ts s = Inr d"
  shows "validate_forecast_decision_lineage f d = Inr ()"
  unfolding decide_Inr(1) [OF assms]
  by (simp add: validate_forecast_decision_lineage_def lineage_matches_def decided_def with_decision_identity_def
      strategy_decision_draft_def)

lemma order_envelope:
  assumes "digest_ok H" "valid_Forecast H f" "validate_forecast_decision_lineage f d = Inr ()" "valid_StrategyDecision H d"
    and "validate_order_intent_matches_decision H i d = Inr ()" "valid_OrderIntent i"
    and "valid_event H e" "approves_requested e" "order_intent (request e) = i"
    and g: "run_paper_gateway_replay H bs [e] run cost s a = Inr g" "valid_gateway_report H g"
    and p: "make_paper_account_session_report H g init final iid ih fid fh = Inr p"
    and t: "make_paper_tca_report H g qs = Inr t"
  shows "\<exists>r v. events g = [v] \<and> make_decision_trace_envelope H f d (Some i) (Some e) (Some g) (Some p) (Some t) = Inr r
    \<and> event_traces e d v \<and> valid_DecisionTraceEnvelope H r
    \<and> paper_order_log_ids r = PaperAccountSessionReport.order_log_ids p
    \<and> paper_fill_log_ids r = PaperAccountSessionReport.fill_log_ids p
    \<and> paper_rejection_log_ids r = PaperAccountSessionReport.rejection_log_ids p
    \<and> paper_tca_row_ids r = PaperTcaReport.row_ids t \<and> paper_tca_issue_ids r = PaperTcaReport.issue_ids t
    \<and> paper_order_log_ids r \<noteq> []
    \<and> (if event_filled v then paper_fill_log_ids r \<noteq> [] \<and> paper_tca_row_ids r \<noteq> []
       else paper_rejection_log_ids r \<noteq> [] \<and> paper_tca_issue_ids r \<noteq> [])
    \<and> DecisionTraceEnvelope.trace_id r = StrategyDecision.trace_id d \<and> no_order_reason r = None
    \<and> order_intent_id r \<noteq> None"
proof -
  obtain v x where v: "events g = [v]"
    "make_execution_gateway_lifecycle_event H PAPER PAPER_SIMULATED_FILL run e x paper_requirements = Inr v"
    by (rule gateway_one_event [OF g(1)])
  have im: "OrderIntent.trace_id i = StrategyDecision.trace_id d" "OrderIntent.source_decision_id i = StrategyDecision.decision_id d"
    using assms(5) by (simp_all add: validate_order_intent_matches_decision_def intent_decision_checks_def)
  note ev = event_agrees [OF v(2) assms(7,8), unfolded assms(9)]
  have tr: "event_traces e d v" using ev im by (simp add: event_traces_def)
  have m: "matching_gateway_event g e d = Inr v" using tr v(1) by (simp add: matching_gateway_event_def)
  have gv: "validate_gateway_event_matches_risk_order v e i = Inr ()"
    using ev by (simp add: validate_gateway_event_matches_risk_order_def)
  have rq: "RiskCheckRequest.trace_id (request e) = StrategyDecision.trace_id d"
    "RiskCheckRequest.source_decision_id (request e) = StrategyDecision.decision_id d"
    using risk_event_ids [OF assms(7)] im unfolding assms(9) by simp_all
  have "list_all fst (approved_intent_checks b i d)" if b: "approved_order_intent e = Some b" for b
    unfolding approved_intent_checks_def approved_fields [OF assms(8) b] assms(9) im by simp
  then have re: "validate_risk_event_matches_order e i d = Inr ()"
    using rq by (cases "approved_order_intent e") (simp_all add: validate_risk_event_matches_order_def risk_event_checks_def assms(9))
  obtain os fs rs where l: "paper_account_ids_for_event p g v = Inr (os, fs, rs)" "os \<noteq> []"
    "os = PaperAccountSessionReport.order_log_ids p" "fs = PaperAccountSessionReport.fill_log_ids p"
    "rs = PaperAccountSessionReport.rejection_log_ids p" "if event_filled v then fs \<noteq> [] else rs \<noteq> []"
    using one_event_logs [OF p v(1)] by blast
  obtain ws js where c: "paper_tca_ids_for_event t g v = Inr (ws, js)" "ws = PaperTcaReport.row_ids t"
    "js = PaperTcaReport.issue_ids t" "if event_filled v then ws \<noteq> [] else js \<noteq> []"
    using one_event_costs [OF t v(1)] by blast
  obtain ref where ref: "forecast_reference_from_forecast f = Inr ref" "valid_ForecastTraceReference ref"
    by (rule forecast_reference_ok [OF assms(2)])
  define x where "x = \<lparr>audited_intent = i, audited_risk = e, audited_gateway = g, audited_event = v, audited_session = p,
        audited_tca = t, audited_logs = (os, fs, rs), audited_costs = (ws, js)\<rparr>"
  have "valid_gateway_event H v" using valid_gateway_report_parts(2) [OF g(2)] v(1) by simp
  then have "evidence_ok H x"
    using assms(6,7) g(2) session_made(1,2) [OF p] tca_made [OF t] l(2-5) c(2,3)
      session_report_ids [OF session_made(1) [OF p]] tca_report_ids [OF tca_made [OF t]]
    by (simp add: evidence_ok_def x_def)
  note b = order_envelope_ok [OF assms(1) ref(2) assms(4) this]
  define r where "r = with_envelope_identity H (trace_envelope_draft H ref d None (Some x))"
  have mk: "make_decision_trace_envelope H f d (Some i) (Some e) (Some g) (Some p) (Some t) = Inr r"
    using assms(3,5) ref(1) re m gv l(1) c(1) b
    by (simp add: make_decision_trace_envelope_def make_order_envelope_def r_def x_def)
  have "construct_DecisionTraceEnvelope H r = Inr r"
    using b by (simp add: build_trace_envelope_identity r_def construct_DecisionTraceEnvelope_def)
  then have "valid_DecisionTraceEnvelope H r" by (simp add: valid_DecisionTraceEnvelope_def)
  moreover have "paper_order_log_ids r = os" "paper_fill_log_ids r = fs" "paper_rejection_log_ids r = rs"
    "paper_tca_row_ids r = ws" "paper_tca_issue_ids r = js" "DecisionTraceEnvelope.trace_id r = StrategyDecision.trace_id d"
    "no_order_reason r = None" "order_intent_id r \<noteq> None"
    by (simp_all add: r_def with_envelope_identity_def trace_envelope_draft_def x_def)
  ultimately show ?thesis using mk v(1) tr l(2-6) c(2-4) by auto
qed

section \<open>Properties\<close>


text \<open>C40: Every valid strategy decision either becomes an order or has its reason not to.  At market,
  \<open>build_order_intent_from_strategy_decision\<close> returns exactly when \<open>_no_order_reason\<close> finds no
  reason for an orderless trace; the intent it returns is a buy of the proposed positive quantity
  which passes the audit's own comparison with the decision.
\<close>

theorem decision_orders_or_explains:
  assumes "digest_ok H" "valid_StrategyDecision H d"
  shows "case build_order_intent_from_strategy_decision H d None MARKET None of
      Inl x \<Rightarrow> trace_no_order_reason d \<noteq> None
    | Inr i \<Rightarrow> trace_no_order_reason d = None \<and> validate_order_intent_matches_decision H i d = Inr ()
        \<and> OrderIntent.side i = OrderSide.BUY \<and> 0 < OrderIntent.quantity i
        \<and> OrderIntent.quantity i = StrategySizingProposal.proposed_quantity (StrategyDecision.sizing d)"
proof -
  let ?s = "StrategyDecision.sizing d"
  have c: "list_all fst (strategy_decision_fields d)" "list_all fst (strategy_decision_checks H d)"
    using assms(2) by (simp_all add: valid_StrategyDecision_def construct_StrategyDecision_def)
  have f: "canonical_id (StrategyDecision.trace_id d)" "canonical_id (StrategyDecision.decision_id d)"
    "canonical_id (StrategyDecision.instrument_id d)" "canonical_id (StrategyDecision.venue_id d)"
    "valid_StrategySizingProposal ?s"
    using c(1) by (simp_all add: strategy_decision_fields_def)
  have cid: "canonical_id (build_order_intent_client_order_id H d t ot lp)" for t ot lp
    unfolding build_order_intent_client_order_id_def
    by (rule stable_id_canonical [OF assms(1)]) (simp_all add: canonical_id_def upper_char_def digit_char_def)
  have "list_all fst (sizing_proposal_checks ?s)"
    using f(5) by (simp add: valid_StrategySizingProposal_def construct_StrategySizingProposal_def)
  then have sz: "has_positive_size ?s \<longleftrightarrow> StrategySizingProposal.sizing_status ?s = PROPOSED_PENDING_INDEPENDENT_RISK"
    "has_positive_size ?s \<or> has_zero_size ?s"
    by (auto simp: sizing_proposal_checks_def split: if_splits)
  have pos: "has_positive_size ?s \<longleftrightarrow> \<not> (StrategySizingProposal.proposed_notional ?s \<le> 0 \<or> StrategySizingProposal.proposed_quantity ?s \<le> 0)"
    by (auto simp: has_positive_size_def le_dval less_dval)
  have zero: "\<not> has_positive_size ?s \<longleftrightarrow> dec_eq (StrategySizingProposal.proposed_notional ?s) 0 \<or> dec_eq (StrategySizingProposal.proposed_quantity ?s) 0"
    using sz(2) by (auto simp: has_positive_size_def has_zero_size_def less_dval dec_eq_dval)
  show ?thesis
    using f cid sz(1) pos zero
    by (cases "StrategyDecision.action d = StrategyDecisionAction.NO_TRADE"; cases "has_positive_size ?s")
      (auto simp: build_order_intent_from_strategy_decision_def trace_no_order_reason_def Let_def construct_OrderIntent_def
        has_positive_size_def validate_order_intent_matches_decision_def intent_decision_checks_def less_datetime_def guardE_def)
qed



subsection \<open>What it means for the paper records to belong to an event\<close>



















end
