(* ===== verification/AuditRoundTrip.thy ===== *)
theory AuditRoundTrip
  imports AuditEvidence AuditReplay
begin

text \<open>
  What a decision replay says: evidence the pipeline produced replays to a passed report, and a
  passed report means that the stored gateway report, accounts, costs and envelope are those the
  replay produces again from the bars and the risk check.
\<close>

section \<open>Comparison\<close>

lemma same_value_same [simp]: "same_value x x"
  by (cases x) (simp_all add: option.rel_refl)

lemma mapE_Nil_iff: "mapE f xs = Inr [] \<longleftrightarrow> xs = []"
  by (cases xs) (auto simp: bindE_Inr_iff)

lemma compare_fields_Nil: "compare_fields c prefix fs = Inr [] \<longleftrightarrow> list_all (\<lambda>(n, x, y). same_value x y) fs"
  unfolding compare_fields_def mapE_Nil_iff by (auto simp: filter_empty_conv list_all_iff)

lemma compared_same [simp]:
  "compare_envelope c r r = Inr []" "compare_paper_reports p p = Inr []" "compare_tca_reports t t = Inr []"
  by (simp_all add: compare_envelope_def compare_paper_reports_def compare_tca_reports_def compare_fields_Nil
      envelope_compared_def paper_compared_def tca_compared_def)

lemma compare_gateway_same: "events g = [v] \<Longrightarrow> compare_gateway_reports g g = Inr []"
proof -
  assume g: "events g = [v]"
  have "compare_fields c m (gateway_compared g g) = Inr []" "compare_fields c m (event_compared v v) = Inr []" for c m
    by (simp_all add: compare_fields_Nil gateway_compared_def event_compared_def)
  then show ?thesis by (simp add: compare_gateway_reports_def g)
qed

section \<open>Validation of the evidence\<close>

lemma discard_Inr [simp]: "discard m = Inr () \<longleftrightarrow> (\<exists>x. m = Inr x)"
  by (simp add: discard_def bindE_Inr_iff)

lemma indexed_ok: "(\<forall>c \<in> set (indexed l f xs). snd c = Inr ()) \<longleftrightarrow> (\<forall>x \<in> set xs. f x = Inr ())"
proof -
  have "map snd (indexed l f xs) = map f (map snd (enumerate 0 xs))"
    unfolding indexed_def map_map by (simp add: case_prod_beta comp_def)
  also have "\<dots> = map f xs" by (simp only: map_snd_enumerate)
  finally have "snd ` set (indexed l f xs) = f ` set xs" by (metis set_map)
  then show ?thesis by (metis (no_types, lifting) image_iff)
qed

lemma when_given_ok: "(\<forall>c \<in> set (when_given l f o'). snd c = Inr ()) \<longleftrightarrow> opt_all (\<lambda>x. f x = Inr ()) o'"
  by (cases o') (simp_all add: when_given_def)

lemma artifacts_ok:
  assumes "\<forall>c \<in> set (artifact_checks H Z x). snd c = Inr ()"
  shows "validate_replay_evidence_artifacts H Z describe x = Inr []"
proof -
  have "mapE (validate_contract_artifact describe) cs = Inr (map (\<lambda>_. []) cs)" if "\<forall>c \<in> set cs. snd c = Inr ()" for cs
    using that by (induction cs) (simp_all add: validate_contract_artifact_def tryE_def)
  from this [OF assms] show ?thesis by (simp add: validate_replay_evidence_artifacts_def)
qed

section \<open>The report is well formed\<close>

lemma opt_all_map [simp]: "opt_all p (map_option f x) \<longleftrightarrow> opt_all (\<lambda>y. p (f y)) x"
  by (cases x) simp_all

lemma opt_all_bind [simp]: "opt_all p (Option.bind x f) \<longleftrightarrow> opt_all (\<lambda>y. opt_all p (f y)) x"
  by (cases x) simp_all

lemma opt_all_mono: "opt_all p x \<Longrightarrow> (\<And>y. p y \<Longrightarrow> q y) \<Longrightarrow> opt_all q x"
  by (cases x) simp_all

lemma matching_event_valid:
  assumes "matching_report_event og oe d = Some v" "opt_all (valid_gateway_report H) og"
  shows "valid_gateway_event H v"
proof -
  obtain g e where g: "og = Some g" "oe = Some e" "filter (event_traces e d) (events g) = [v]"
    using assms(1) by (auto simp: matching_report_event_def split: option.splits list.splits)
  then have "v \<in> set (filter (event_traces e d) (events g))" by simp
  then show ?thesis using valid_gateway_report_parts(2) assms(2) by (auto simp: g(1) list_all_iff)
qed

lemma matching_event_ids:
  assumes "opt_all (valid_gateway_report H) og"
  shows "opt_all (\<lambda>v. canonical_id (ExecutionGatewayLifecycleEvent.gateway_event_id v)) (matching_report_event og oe d)"
    "opt_all (\<lambda>v. opt_all canonical_id (ExecutionGatewayLifecycleEvent.gateway_order_id v)) (matching_report_event og oe d)"
proof -
  have "opt_all (valid_gateway_event H) (matching_report_event og oe d)"
    using matching_event_valid [OF _ assms] by (cases "matching_report_event og oe d") simp_all
  then show "opt_all (\<lambda>v. canonical_id (ExecutionGatewayLifecycleEvent.gateway_event_id v)) (matching_report_event og oe d)"
    "opt_all (\<lambda>v. opt_all canonical_id (ExecutionGatewayLifecycleEvent.gateway_order_id v)) (matching_report_event og oe d)"
    using gateway_event_ids by (auto elim: opt_all_mono)
qed

definition progress_ok :: "digest \<Rightarrow> replay_progress \<Rightarrow> bool" where
  "progress_ok H pr \<longleftrightarrow> opt_all (valid_DecisionTraceEnvelope H) (stored pr) \<and> opt_all (valid_DecisionTraceEnvelope H) (rebuilt pr)
     \<and> opt_all (valid_gateway_report H) (replayed_gateway pr) \<and> opt_all (valid_PaperAccountSessionReport H) (replayed_paper pr)
     \<and> opt_all (valid_PaperTcaReport H) (replayed_tca pr)"

definition valid_evidence :: "digest \<Rightarrow> DecisionTraceReplayEvidence \<Rightarrow> bool" where
  "valid_evidence H x \<longleftrightarrow> valid_Forecast H (DecisionTraceReplayEvidence.forecast x)
     \<and> valid_StrategyDecision H (DecisionTraceReplayEvidence.decision x)
     \<and> valid_DecisionTraceEnvelope H (DecisionTraceReplayEvidence.envelope x)
     \<and> opt_all (valid_event H) (DecisionTraceReplayEvidence.risk_event x)
     \<and> opt_all (valid_gateway_report H) (DecisionTraceReplayEvidence.gateway_report x)
     \<and> opt_all (valid_PaperAccountSessionReport H) (DecisionTraceReplayEvidence.paper_account_report x)
     \<and> opt_all (valid_PaperTcaReport H) (DecisionTraceReplayEvidence.paper_tca_report x)"

lemma envelope_ids:
  assumes "valid_DecisionTraceEnvelope H r"
  shows "canonical_id (trace_envelope_id r) \<and> opt_all non_empty_string (no_order_reason r)
    \<and> list_all canonical_id (paper_order_log_ids r) \<and> list_all canonical_id (paper_fill_log_ids r)
    \<and> list_all canonical_id (paper_rejection_log_ids r) \<and> list_all canonical_id (paper_tca_row_ids r)
    \<and> list_all canonical_id (paper_tca_issue_ids r)"
proof -
  have "list_all fst (trace_envelope_fields r)"
    using assms by (simp add: valid_DecisionTraceEnvelope_def construct_DecisionTraceEnvelope_def)
  then show ?thesis by (simp add: trace_envelope_fields_def)
qed

lemma forecast_id_ok: "valid_Forecast H f \<Longrightarrow> canonical_id (Forecast.forecast_id f)"
  using valid_forecast_checks(1) by (simp add: forecast_fields_def)

lemma replay_requirements_ok: "list_all non_empty_string replay_requirements"
  by (simp add: replay_requirements_def non_empty_string_def strip_def py_space_def)

lemma trace_report_ok:
  assumes "canonical_id tid" "valid_evidence H x" "progress_ok H pr" "list_all valid_DecisionTraceReplayBlocker bs"
  shows "trace_report tid st x pr bs = Inr (trace_report_draft tid st x pr bs)"
proof -
  have x: "valid_Forecast H (DecisionTraceReplayEvidence.forecast x)" "valid_StrategyDecision H (DecisionTraceReplayEvidence.decision x)"
    "opt_all (valid_event H) (DecisionTraceReplayEvidence.risk_event x)"
    "opt_all (valid_gateway_report H) (DecisionTraceReplayEvidence.gateway_report x)"
    "opt_all (valid_PaperAccountSessionReport H) (DecisionTraceReplayEvidence.paper_account_report x)"
    "opt_all (valid_PaperTcaReport H) (DecisionTraceReplayEvidence.paper_tca_report x)"
    using assms(2) by (simp_all add: valid_evidence_def)
  define r where "r = (case stored pr of None \<Rightarrow> DecisionTraceReplayEvidence.envelope x | Some r \<Rightarrow> r)"
  have p: "valid_DecisionTraceEnvelope H r" "opt_all (valid_DecisionTraceEnvelope H) (rebuilt pr)"
    "opt_all (valid_gateway_report H) (replayed_gateway pr)" "opt_all (valid_PaperAccountSessionReport H) (replayed_paper pr)"
    "opt_all (valid_PaperTcaReport H) (replayed_tca pr)"
    using assms(2,3) by (cases "stored pr"; simp add: progress_ok_def valid_evidence_def r_def)+
  note g = opt_all_mono [of "valid_gateway_report H", OF _ valid_gateway_report_parts(5)]
    opt_all_mono [of "valid_gateway_report H", OF _ valid_gateway_report_parts(7)]
  note ev = matching_event_ids
  note e = ev [OF x(4)] ev [OF p(3)] g [OF x(4)] g [OF p(3)]
  have s: "opt_all (\<lambda>p. canonical_id (session_report_id p)) (DecisionTraceReplayEvidence.paper_account_report x)"
    "opt_all (\<lambda>p. canonical_id (session_report_id p)) (replayed_paper pr)"
    "opt_all (\<lambda>t. canonical_id (tca_report_id t)) (DecisionTraceReplayEvidence.paper_tca_report x)"
    "opt_all (\<lambda>t. canonical_id (tca_report_id t)) (replayed_tca pr)"
    "opt_all (\<lambda>e. canonical_id (RiskCheckRequest.run_id (request e))) (DecisionTraceReplayEvidence.risk_event x)"
    using x(3,5,6) p(4,5) session_report_ids tca_report_ids risk_event_ids by (auto intro: opt_all_mono)
  have i: "opt_all (\<lambda>r. canonical_id (trace_envelope_id r)) (rebuilt pr)"
    "opt_all (\<lambda>r. opt_all non_empty_string (no_order_reason r)) (rebuilt pr)"
    "list_all canonical_id (case rebuilt pr of None \<Rightarrow> [] | Some r \<Rightarrow> paper_order_log_ids r)"
    "list_all canonical_id (case rebuilt pr of None \<Rightarrow> [] | Some r \<Rightarrow> paper_fill_log_ids r)"
    "list_all canonical_id (case rebuilt pr of None \<Rightarrow> [] | Some r \<Rightarrow> paper_rejection_log_ids r)"
    "list_all canonical_id (case rebuilt pr of None \<Rightarrow> [] | Some r \<Rightarrow> paper_tca_row_ids r)"
    "list_all canonical_id (case rebuilt pr of None \<Rightarrow> [] | Some r \<Rightarrow> paper_tca_issue_ids r)"
    using p(2) envelope_ids by (cases "rebuilt pr"; simp)+
  have "list_all fst (replay_report_fields (trace_report_draft tid st x pr bs))"
    using assms(1,4) forecast_id_ok [OF x(1)] decision_ids [OF x(2)] envelope_ids [OF p(1)] e s i replay_requirements_ok
    by (simp add: replay_report_fields_def trace_report_draft_def Let_def empty_replay_report_def r_def [symmetric])
  then show ?thesis by (simp add: trace_report_def construct_DecisionTraceReplayReport_def)
qed

section \<open>Evidence the pipeline produces\<close>

lemma gateway_run_id:
  assumes "run_paper_gateway_replay H bs es run cost s a = Inr g"
  shows "ExecutionGatewayReport.run_id g = run"
proof (rule gateway_parts [OF assms [unfolded run_paper_gateway_replay_def]])
  fix x assume mk: "make_execution_gateway_report H run PAPER PAPER_SIMULATED_FILL x (events g) paper_requirements = Inr g"
  define d where "d = gateway_report_draft H run PAPER PAPER_SIMULATED_FILL x (events g) paper_requirements"
  have "\<exists>i h. g = d\<lparr>ExecutionGatewayReport.gateway_report_id := i, ExecutionGatewayReport.gateway_report_hash := h\<rparr>"
    using mk by (auto simp: make_execution_gateway_report_def d_def [symmetric] Let_def bindE_Inr_iff construct_ExecutionGatewayReport_def)
  then obtain i h where e: "g = d\<lparr>ExecutionGatewayReport.gateway_report_id := i,
      ExecutionGatewayReport.gateway_report_hash := h\<rparr>" by blast
  have "ExecutionGatewayReport.run_id g = ExecutionGatewayReport.run_id d"
    using arg_cong [OF e, of ExecutionGatewayReport.run_id] by simp
  then show ?thesis by (simp add: d_def gateway_report_draft_def Let_def)
qed

text \<open>A session over a replayed or unchanged account is rebuilt from the initial state alone.\<close>

lemma session_rebuilt:
  assumes "make_paper_account_session_report H g (Some a) None None None None None = Inr p"
  shows "rebuild_paper_account_report H p g = Inr p"
proof -
  have "source_replay_final_account_state g = None \<Longrightarrow> final_account_state_source p = UNCHANGED_FROM_INITIAL"
    by (rule session_parts [OF assms])
      (auto simp: resolve_final_account_state_def session_report_draft_def Let_def split: if_splits)
  then show ?thesis
    using assms session_made(4) [OF assms] by (auto simp: rebuild_paper_account_report_def Let_def)
qed

text \<open>The record an audit stores for an order that ran through the paper gateway.\<close>

definition stored_evidence ::
  "Forecast \<Rightarrow> StrategyDecision \<Rightarrow> OrderIntent \<Rightarrow> RiskCheckEvent \<Rightarrow> OHLCTVBar list \<Rightarrow> ExecutionCostModel option
   \<Rightarrow> InstrumentMasterSnapshot option \<Rightarrow> SimulatedAccountState option \<Rightarrow> QuoteEvent list \<Rightarrow> ExecutionGatewayReport
   \<Rightarrow> PaperAccountSessionReport \<Rightarrow> PaperTcaReport \<Rightarrow> DecisionTraceEnvelope \<Rightarrow> DecisionTraceReplayEvidence" where
  "stored_evidence f d i e bs cost s a qs g p t env =
     \<lparr>DecisionTraceReplayEvidence.trace_id = StrategyDecision.trace_id d, envelope = env, forecast = f, decision = d,
      order_intent = Some i, risk_event = Some e, gateway_report = Some g, paper_account_report = Some p,
      paper_tca_report = Some t, bars = bs, execution_cost_model = cost, instrument_master_snapshot = s,
      starting_account_state = a, quotes = qs, requirement_ids = replay_requirements\<rparr>"

lemma stored_evidence_artifacts:
  assumes "valid_Forecast H f" "valid_StrategyDecision H d" "valid_OrderIntent i" "valid_event H e"
    and "valid_InstrumentMasterSnapshot Z (RiskCheckRequest.instrument_master_snapshot (request e))"
    and "valid_gateway_report H g" "valid_PaperAccountSessionReport H p" "valid_PaperTcaReport H t"
    and "opt_all (valid_cost_model H) cost" "opt_all (valid_InstrumentMasterSnapshot Z) s" "opt_all valid_account_state a"
    and "\<forall>b \<in> set bs. valid_OHLCTVBar b" "list_all (\<lambda>q. construct_QuoteEvent q = Inr q) qs"
  shows "validate_replay_evidence_artifacts H Z describe (stored_evidence f d i e bs cost s a qs g p t env) = Inr []"
proof (rule artifacts_ok)
  have r: "construct_RiskCheckRequest H (request e) = Inr (request e)"
    using risk_event_ids [OF assms(4)] by (simp add: valid_request_def)
  have o: "opt_all (\<lambda>m. \<exists>x. construct_ExecutionCostModel H m = Inr x) cost"
    "opt_all (\<lambda>s. \<exists>x. construct_InstrumentMasterSnapshot Z s = Inr x) s"
    "opt_all (\<lambda>a. \<exists>x. construct_SimulatedAccountState a = Inr x) a"
    using assms(9-11) by (auto elim!: opt_all_mono simp: valid_cost_model_def valid_InstrumentMasterSnapshot_def valid_account_state_def)
  show "\<forall>c \<in> set (artifact_checks H Z (stored_evidence f d i e bs cost s a qs g p t env)). snd c = Inr ()"
    unfolding artifact_checks_def set_append ball_Un indexed_ok when_given_ok
    using assms(1-8,12,13) r o
    by (auto simp: stored_evidence_def valid_Forecast_def valid_StrategyDecision_def valid_OrderIntent_def valid_event_def
        valid_gateway_report_def valid_PaperAccountSessionReport_def valid_PaperTcaReport_def valid_InstrumentMasterSnapshot_def
        revalidate_event_def revalidate_request_def list_all_iff)
qed

lemma stored_evidence_fields:
  "DecisionTraceReplayEvidence.trace_id (stored_evidence f d i e bs cost s a qs g p t env) = StrategyDecision.trace_id d"
  "envelope (stored_evidence f d i e bs cost s a qs g p t env) = env"
  "DecisionTraceReplayEvidence.forecast (stored_evidence f d i e bs cost s a qs g p t env) = f"
  "decision (stored_evidence f d i e bs cost s a qs g p t env) = d"
  "DecisionTraceReplayEvidence.order_intent (stored_evidence f d i e bs cost s a qs g p t env) = Some i"
  "risk_event (stored_evidence f d i e bs cost s a qs g p t env) = Some e"
  "gateway_report (stored_evidence f d i e bs cost s a qs g p t env) = Some g"
  "paper_account_report (stored_evidence f d i e bs cost s a qs g p t env) = Some p"
  "paper_tca_report (stored_evidence f d i e bs cost s a qs g p t env) = Some t"
  "bars (stored_evidence f d i e bs cost s a qs g p t env) = bs"
  "execution_cost_model (stored_evidence f d i e bs cost s a qs g p t env) = cost"
  "DecisionTraceReplayEvidence.instrument_master_snapshot (stored_evidence f d i e bs cost s a qs g p t env) = s"
  "starting_account_state (stored_evidence f d i e bs cost s a qs g p t env) = a"
  "quotes (stored_evidence f d i e bs cost s a qs g p t env) = qs"
  by (simp_all add: stored_evidence_def)

definition replay_result :: "DecisionTraceEnvelope \<Rightarrow> ExecutionGatewayReport \<Rightarrow> PaperAccountSessionReport \<Rightarrow> PaperTcaReport \<Rightarrow> replay_progress" where
  "replay_result env g p t = \<lparr>stored = Some env, rebuilt = Some env, replayed_gateway = Some g, replayed_paper = Some p,
     replayed_tca = Some t\<rparr>"

lemma replay_order_passes:
  assumes "run_paper_gateway_replay H bs [e] (ExecutionGatewayReport.run_id g) cost s a = Inr g" "events g = [v]"
    and "rebuild_paper_account_report H p g = Inr p" "make_paper_tca_report H g qs = Inr t"
    and "make_decision_trace_envelope H f d (Some i) (Some e) (Some g) (Some p) (Some t) = Inr env"
  shows "replay_order H describe tid (stored_evidence f d i e bs cost s a qs g p t env) env
      (no_progress\<lparr>stored := Some env, rebuilt := Some env\<rparr>) i e g p t
    = trace_report tid PASSED (stored_evidence f d i e bs cost s a qs g p t env) (replay_result env g p t) []"
  using assms
  by (simp add: replay_order_def stored_evidence_fields tryE_def compare_gateway_same replay_result_def no_progress_def)

lemma replay_evidence_passes:
  assumes "valid_DecisionTraceEnvelope H env" "DecisionTraceEnvelope.trace_id env = StrategyDecision.trace_id d"
    and "validate_replay_evidence_artifacts H Z describe (stored_evidence f d i e bs cost s a qs g p t env) = Inr []"
    and "bs \<noteq> []" "run_paper_gateway_replay H bs [e] (ExecutionGatewayReport.run_id g) cost s a = Inr g" "events g = [v]"
    and "rebuild_paper_account_report H p g = Inr p" "make_paper_tca_report H g qs = Inr t"
    and "make_decision_trace_envelope H f d (Some i) (Some e) (Some g) (Some p) (Some t) = Inr env"
  shows "replay_evidence H Z describe (StrategyDecision.trace_id d) (stored_evidence f d i e bs cost s a qs g p t env)
    = trace_report (StrategyDecision.trace_id d) PASSED (stored_evidence f d i e bs cost s a qs g p t env) (replay_result env g p t) []"
proof -
  let ?x = "stored_evidence f d i e bs cost s a qs g p t env"
  have "requested_trace_blockers (StrategyDecision.trace_id d) ?x = Inr []"
    by (simp add: requested_trace_blockers_def stored_evidence_fields assms(2))
  moreover have "missing_order_input_blockers ?x env = Inr []"
    by (simp add: missing_order_input_blockers_def stored_evidence_fields assms(4))
  moreover have "make_envelope_from_evidence H ?x = Inr env"
    by (simp add: make_envelope_from_evidence_def stored_evidence_fields assms(9))
  moreover have "construct_DecisionTraceEnvelope H env = Inr env" using assms(1) by (simp add: valid_DecisionTraceEnvelope_def)
  moreover have "no_progress\<lparr>stored := Some env\<rparr>\<lparr>rebuilt := Some env\<rparr> = no_progress\<lparr>stored := Some env, rebuilt := Some env\<rparr>" by simp
  ultimately show ?thesis
    using replay_order_passes [OF assms(5-9)] assms(3)
    by (simp add: replay_evidence_def Let_def stored_evidence_fields tryE_def)
qed

text \<open>A traded order: the strategy's decision, the intent built from it and the engine's answer.\<close>

definition traded ::
  "digest \<Rightarrow> zones \<Rightarrow> Forecast \<Rightarrow> StrategyDecisionPolicy \<Rightarrow> string \<Rightarrow> datetime \<Rightarrow> StrategySizingInputs option \<Rightarrow> RiskPolicy
   \<Rightarrow> StrategyDecision \<Rightarrow> OrderIntent \<Rightarrow> RiskCheckEvent \<Rightarrow> bool" where
  "traded H Z f pol run ts sz rp d i e \<longleftrightarrow> valid_Forecast H f
     \<and> decide_expected_net_edge H f pol run ts sz = Inr d
     \<and> build_order_intent_from_strategy_decision H d None MARKET None = Inr i
     \<and> valid_policy H rp \<and> valid_request H (request e) \<and> RiskCheckRequest.order_intent (request e) = i
     \<and> valid_InstrumentMasterSnapshot Z (RiskCheckRequest.instrument_master_snapshot (request e))
     \<and> evaluate_pre_trade_risk H (request e) rp = Inr e"

lemma traded_replays:
  assumes "digest_ok H" "traded H Z f pol srun ts sz rp d i e"
    and "gateway_inputs_ok H bs [e] run cost (Some s) (Some a)" "bs \<noteq> []" "valid_account_state a"
    and "valid_InstrumentMasterSnapshot Z s" "list_all (\<lambda>q. construct_QuoteEvent q = Inr q) qs"
  obtains g p t env v where "run_paper_gateway_replay H bs [e] run cost (Some s) (Some a) = Inr g"
    "make_paper_account_session_report H g (Some a) None None None None None = Inr p"
    "make_paper_tca_report H g qs = Inr t"
    "make_decision_trace_envelope H f d (Some i) (Some e) (Some g) (Some p) (Some t) = Inr env"
    "replay_decision_trace_by_id H Z describe
        (resolve_trace_evidence [stored_evidence f d i e bs cost (Some s) (Some a) qs g p t env]) (StrategyDecision.trace_id d)
      = Inr (trace_report_draft (StrategyDecision.trace_id d) PASSED
          (stored_evidence f d i e bs cost (Some s) (Some a) qs g p t env) (replay_result env g p t) [])"
    "valid_DecisionTraceEnvelope H env" "canonical_id (StrategyDecision.trace_id d)" "valid_StrategyDecision H d" "valid_event H e"
    "events g = [v]" "event_traces e d v" "no_order_reason env = None" "paper_order_log_ids env \<noteq> []"
    "if event_filled v then paper_fill_log_ids env \<noteq> [] \<and> paper_tca_row_ids env \<noteq> []
     else paper_rejection_log_ids env \<noteq> [] \<and> paper_tca_issue_ids env \<noteq> []"
    "valid_gateway_report H g" "valid_PaperAccountSessionReport H p" "valid_PaperTcaReport H t"
proof -
  have dec: "valid_Forecast H f" "decide_expected_net_edge H f pol srun ts sz = Inr d" "valid_policy H rp"
    "build_order_intent_from_strategy_decision H d None MARKET None = Inr i" "RiskCheckRequest.order_intent (request e) = i"
    "valid_request H (request e)" "evaluate_pre_trade_risk H (request e) rp = Inr e"
    "valid_InstrumentMasterSnapshot Z (RiskCheckRequest.instrument_master_snapshot (request e))"
    using assms(2) by (simp_all add: traded_def)
  have inp: "valid_event H e" "fits (OrderIntent.quantity i)" "\<forall>b \<in> set bs. valid_OHLCTVBar b" "opt_all (valid_cost_model H) cost"
    using assms(3) dec(5) by (simp_all add: gateway_inputs_ok_def replay_inputs_ok_def cost_ok_def)
  have ap: "approves_requested e"
    by (rule engine_approves_requested [OF assms(1) dec(3,6,7)]) (simp add: dec(5) inp(2))
  have d: "valid_StrategyDecision H d" using decide_Inr(3) [OF dec(2)] by (simp add: valid_StrategyDecision_def)
  note im = intent_made [OF dec(4)]
  obtain g p t where g: "run_paper_gateway_replay H bs [e] run cost (Some s) (Some a) = Inr g" "valid_gateway_report H g"
    and p: "make_paper_account_session_report H g (Some a) None None None None None = Inr p"
    and t: "make_paper_tca_report H g qs = Inr t"
    using paper_trading_ok [OF assms(1,3,5,7)] by blast
  obtain env v where env: "make_decision_trace_envelope H f d (Some i) (Some e) (Some g) (Some p) (Some t) = Inr env"
    "events g = [v]" "valid_DecisionTraceEnvelope H env" "DecisionTraceEnvelope.trace_id env = StrategyDecision.trace_id d"
    "event_traces e d v" "no_order_reason env = None" "paper_order_log_ids env \<noteq> []"
    "if event_filled v then paper_fill_log_ids env \<noteq> [] \<and> paper_tca_row_ids env \<noteq> []
     else paper_rejection_log_ids env \<noteq> [] \<and> paper_tca_issue_ids env \<noteq> []"
    using order_envelope [OF assms(1) dec(1) lineage_ok [OF dec(2)] d im(1,2) inp(1) ap dec(5) g p t] by blast
  let ?x = "stored_evidence f d i e bs cost (Some s) (Some a) qs g p t env"
  let ?tid = "StrategyDecision.trace_id d"
  have tid: "canonical_id ?tid" using decision_ids [OF d] by simp
  have g': "run_paper_gateway_replay H bs [e] (ExecutionGatewayReport.run_id g) cost (Some s) (Some a) = Inr g"
    by (simp only: gateway_run_id [OF g(1)] g(1))
  have "validate_replay_evidence_artifacts H Z describe ?x = Inr []"
    using dec(1,8) d im(2) inp g(2) session_made(1) [OF p] tca_made [OF t] assms(5-7)
    by (intro stored_evidence_artifacts) simp_all
  note ev = replay_evidence_passes [OF env(3,4) this assms(4) g' env(2) session_rebuilt [OF p] t env(1)]
  have "replay_decision_trace_by_id H Z describe (resolve_trace_evidence [?x]) ?tid
      = trace_report ?tid PASSED ?x (replay_result env g p t) []"
    using tid ev by (simp add: replay_decision_trace_by_id_def resolve_trace_evidence_def stored_evidence_fields canonical_id_def
        split: list.splits)
  moreover have "trace_report ?tid PASSED ?x (replay_result env g p t) []
      = Inr (trace_report_draft ?tid PASSED ?x (replay_result env g p t) [])"
    using tid dec(1) d env(3) inp(1) g(2) session_made(1) [OF p] tca_made [OF t]
    by (intro trace_report_ok) (simp_all add: valid_evidence_def stored_evidence_fields progress_ok_def replay_result_def)
  ultimately show thesis
    by (rule_tac that [OF g(1) p t env(1) _ env(3) tid d inp(1) env(2) env(5-8) g(2) session_made(1) [OF p] tca_made [OF t]]) simp
qed

text \<open>C36: A decision replays to itself.  For an order the strategy decided, the risk engine checked
  and the paper gateway replayed, all from valid inputs, the audit envelope is built, and the
  evidence put into the store replays by its trace identifier to a passed report without blockers
  whose rebuilt envelope and replayed gateway report, accounts and costs have the stored hashes.
\<close>

theorem audit_replays_its_evidence:
  assumes "digest_ok H" "traded H Z f pol srun ts sz rp d i e"
    and "gateway_inputs_ok H bs [e] run cost (Some s) (Some a)" "bs \<noteq> []" "valid_account_state a"
    and "valid_InstrumentMasterSnapshot Z s" "list_all (\<lambda>q. construct_QuoteEvent q = Inr q) qs"
  shows "\<exists>g p t env r. run_paper_gateway_replay H bs [e] run cost (Some s) (Some a) = Inr g
    \<and> make_paper_account_session_report H g (Some a) None None None None None = Inr p
    \<and> make_paper_tca_report H g qs = Inr t
    \<and> make_decision_trace_envelope H f d (Some i) (Some e) (Some g) (Some p) (Some t) = Inr env
    \<and> replay_decision_trace_by_id H Z describe
        (resolve_trace_evidence [stored_evidence f d i e bs cost (Some s) (Some a) qs g p t env]) (StrategyDecision.trace_id d) = Inr r
    \<and> DecisionTraceReplayReport.status r = PASSED \<and> blockers r = []
    \<and> reconstructed_trace_envelope_hash r = Some (trace_envelope_hash env)
    \<and> stored_trace_envelope_hash r = Some (trace_envelope_hash env)
    \<and> replayed_gateway_report_hash r = Some (ExecutionGatewayReport.gateway_report_hash g)
    \<and> replayed_paper_session_report_hash r = Some (session_report_hash p)
    \<and> replayed_paper_tca_report_hash r = Some (tca_report_hash t)"
proof -
  show ?thesis
    by (rule traded_replays [OF assms, of describe])
      (auto simp: trace_report_draft_def empty_replay_report_def replay_result_def Let_def stored_evidence_fields)
qed

section \<open>What a passed replay means\<close>

lemma trace_report_status:
  assumes "trace_report tid st x pr bs = Inr r"
  shows "DecisionTraceReplayReport.status r = st" "blockers r = bs"
  using assms by (auto simp: trace_report_def construct_DecisionTraceReplayReport_def trace_report_draft_def Let_def
      empty_replay_report_def)

lemma failure_report_status: "failure_report tid b = Inr r \<Longrightarrow> DecisionTraceReplayReport.status r = FAILED"
  by (auto simp: failure_report_def construct_DecisionTraceReplayReport_def empty_replay_report_def)

lemma tryE_Inr: "tryE m h k = Inr y \<longleftrightarrow>
    (\<exists>x. m = Inr x \<and> k x = Inr y) \<or> (\<exists>e. m = Inl e \<and> value_error e \<and> h e = Inr y)"
  by (auto simp: tryE_def split: sum.splits)

lemma stage_passed:
  assumes "bindE m (\<lambda>bs. if bs \<noteq> [] then trace_report tid FAILED x pr bs else k) = Inr r"
    "DecisionTraceReplayReport.status r = PASSED"
  shows "m = Inr [] \<and> k = Inr r"
  using assms trace_report_status(1) by (auto simp: bindE_Inr_iff split: if_splits)

lemma try_passed:
  assumes "tryE m (\<lambda>ex. bindE (b ex) (\<lambda>b. trace_report tid FAILED x pr [b])) k = Inr r"
    "DecisionTraceReplayReport.status r = PASSED"
  shows "\<exists>y. m = Inr y \<and> k y = Inr r"
  using assms trace_report_status(1) by (auto simp: tryE_Inr bindE_Inr_iff)

definition reproduces ::
  "digest \<Rightarrow> DecisionTraceReplayEvidence \<Rightarrow> OrderIntent \<Rightarrow> RiskCheckEvent \<Rightarrow> ExecutionGatewayReport
   \<Rightarrow> PaperAccountSessionReport \<Rightarrow> PaperTcaReport \<Rightarrow> bool" where
  "reproduces H x i e g p t \<longleftrightarrow> (\<exists>g' p' t' env'.
     run_paper_gateway_replay H (bars x) [e] (ExecutionGatewayReport.run_id g) (execution_cost_model x)
       (DecisionTraceReplayEvidence.instrument_master_snapshot x) (starting_account_state x) = Inr g'
     \<and> rebuild_paper_account_report H p g' = Inr p' \<and> make_paper_tca_report H g' (quotes x) = Inr t'
     \<and> make_decision_trace_envelope H (DecisionTraceReplayEvidence.forecast x) (decision x) (Some i) (Some e)
         (Some g') (Some p') (Some t') = Inr env'
     \<and> compare_gateway_reports g g' = Inr [] \<and> compare_paper_reports p p' = Inr []
     \<and> compare_tca_reports t t' = Inr [] \<and> compare_envelope TAMPERED_EVIDENCE (envelope x) env' = Inr [])"

lemma replay_order_passed:
  assumes "replay_order H describe tid x (envelope x) pr i e g p t = Inr r" "DecisionTraceReplayReport.status r = PASSED"
  shows "reproduces H x i e g p t \<and> blockers r = []"
proof -
  obtain g' where g: "run_paper_gateway_replay H (bars x) [e] (ExecutionGatewayReport.run_id g) (execution_cost_model x)
      (DecisionTraceReplayEvidence.instrument_master_snapshot x) (starting_account_state x) = Inr g'"
    and k1: "\<And>P. (\<And>p' t' env' b1 b2 b3 b4 pr'. rebuild_paper_account_report H p g' = Inr p' \<Longrightarrow>
        make_paper_tca_report H g' (quotes x) = Inr t' \<Longrightarrow>
        make_decision_trace_envelope H (DecisionTraceReplayEvidence.forecast x) (decision x) (Some i) (Some e)
         (Some g') (Some p') (Some t') = Inr env' \<Longrightarrow>
        compare_gateway_reports g g' = Inr b1 \<Longrightarrow> compare_paper_reports p p' = Inr b2 \<Longrightarrow>
        compare_tca_reports t t' = Inr b3 \<Longrightarrow> compare_envelope TAMPERED_EVIDENCE (envelope x) env' = Inr b4 \<Longrightarrow>
        trace_report tid (if b1 @ b2 @ b3 @ b4 \<noteq> [] then FAILED else PASSED) x pr' (b1 @ b2 @ b3 @ b4) = Inr r \<Longrightarrow> P) \<Longrightarrow> P"
    using assms(1) unfolding replay_order_def Let_def
    by (elim try_passed [THEN exE, OF _ assms(2)] conjE) (auto simp: bindE_Inr_iff dest!: try_passed [OF _ assms(2)])
  show ?thesis
  proof (rule k1)
    fix p' t' env' b1 b2 b3 b4 pr'
    assume a: "rebuild_paper_account_report H p g' = Inr p'" "make_paper_tca_report H g' (quotes x) = Inr t'"
      "make_decision_trace_envelope H (DecisionTraceReplayEvidence.forecast x) (decision x) (Some i) (Some e)
         (Some g') (Some p') (Some t') = Inr env'"
      "compare_gateway_reports g g' = Inr b1" "compare_paper_reports p p' = Inr b2"
      "compare_tca_reports t t' = Inr b3" "compare_envelope TAMPERED_EVIDENCE (envelope x) env' = Inr b4"
      and r: "trace_report tid (if b1 @ b2 @ b3 @ b4 \<noteq> [] then FAILED else PASSED) x pr' (b1 @ b2 @ b3 @ b4) = Inr r"
    then have "b1 @ b2 @ b3 @ b4 = []" using trace_report_status(1) [OF r] assms(2) by (auto split: if_splits)
    then show ?thesis using a g trace_report_status(2) [OF r] by (auto simp: reproduces_def)
  qed
qed

lemma replay_evidence_passed:
  assumes "replay_evidence H Z describe tid x = Inr r" "DecisionTraceReplayReport.status r = PASSED"
  obtains i e g p t where "DecisionTraceReplayEvidence.order_intent x = Some i" "risk_event x = Some e"
    "gateway_report x = Some g" "paper_account_report x = Some p" "paper_tca_report x = Some t"
    "reproduces H x i e g p t" "blockers r = []" "valid_DecisionTraceEnvelope H (envelope x)"
    "validate_replay_evidence_artifacts H Z describe x = Inr []" "requested_trace_blockers tid x = Inr []"
proof -
  note sp = stage_passed [OF _ assms(2)] and tp = try_passed [OF _ assms(2)]
  have no_order: "trace_report tid NO_ORDER x pr [] \<noteq> Inr r" for pr
    using trace_report_status(1) [of tid NO_ORDER x pr "[]" r] assms(2) by auto
  obtain env' pr' where
    m: "requested_trace_blockers tid x = Inr []" "valid_DecisionTraceEnvelope H (envelope x)"
      "validate_replay_evidence_artifacts H Z describe x = Inr []"
    and k: "(case DecisionTraceReplayEvidence.order_intent x of
         None \<Rightarrow> trace_report tid NO_ORDER x pr' []
       | Some i \<Rightarrow>
           (case (risk_event x, gateway_report x) of
              (Some e, Some g) \<Rightarrow>
                (case (paper_account_report x, paper_tca_report x) of
                   (Some p, Some t) \<Rightarrow> replay_order H describe tid x (envelope x) pr' i e g p t
                 | _ \<Rightarrow> Inl (AssertionError ''order replay input validation failed to require paper evidence''))
            | _ \<Rightarrow> Inl (AssertionError ''order replay input validation failed to require risk/gateway''))) = Inr r"
    using assms(1) unfolding replay_evidence_def Let_def
    by (elim sp [elim_format] tp [elim_format] exE conjE) (auto simp: valid_DecisionTraceEnvelope_def construct_DecisionTraceEnvelope_def)
  from k obtain i e g p t where "DecisionTraceReplayEvidence.order_intent x = Some i" "risk_event x = Some e"
    "gateway_report x = Some g" "paper_account_report x = Some p" "paper_tca_report x = Some t"
    and r: "replay_order H describe tid x (envelope x) pr' i e g p t = Inr r"
    by (auto simp: no_order split: option.splits)
  with that replay_order_passed [OF r assms(2)] m show thesis by blast
qed

text \<open>What agreement of the comparisons says of the replayed reports.\<close>

lemma list_1_cases:
  obtains "xs = []" | x where "xs = [x]" | x y ys where "xs = x # y # ys"
  by (cases xs rule: remdups_adj.cases) auto

lemma gateway_status_value_inject:
  "ExecutionGatewayOrderStatus_value a = ExecutionGatewayOrderStatus_value b \<longleftrightarrow> a = b"
  by (cases a; cases b) simp_all

lemma gateway_agrees:
  assumes "compare_gateway_reports g g' = Inr []"
  obtains v w where "events g = [v]" "events g' = [w]"
    "ExecutionGatewayReport.gateway_report_hash g' = ExecutionGatewayReport.gateway_report_hash g"
    "ExecutionGatewayLifecycleEvent.status w = ExecutionGatewayLifecycleEvent.status v"
    "dec_eq (ExecutionGatewayLifecycleEvent.filled_quantity v) (ExecutionGatewayLifecycleEvent.filled_quantity w)"
    "rel_option dec_eq (ExecutionGatewayLifecycleEvent.fill_price v) (ExecutionGatewayLifecycleEvent.fill_price w)"
    "dec_eq (ExecutionGatewayLifecycleEvent.total_cost v) (ExecutionGatewayLifecycleEvent.total_cost w)"
proof -
  from assms obtain v w where e: "events g = [v]" "events g' = [w]"
    and c: "compare_fields RISK_GATEWAY_REPLAY_MISMATCH ''gateway replay'' (gateway_compared g g') = Inr []"
      "compare_fields RISK_GATEWAY_REPLAY_MISMATCH ''gateway replay'' (event_compared v w) = Inr []"
    by (cases "events g" rule: list_1_cases; cases "events g'" rule: list_1_cases)
      (auto simp: compare_gateway_reports_def bindE_Inr_iff)
  show thesis
    using c by (intro that [OF e])
      (simp_all add: compare_fields_Nil gateway_compared_def event_compared_def gateway_status_value_inject)
qed

lemma hashes_agree:
  "compare_paper_reports p p' = Inr [] \<Longrightarrow>
     PaperAccountSessionReport.session_report_hash p' = PaperAccountSessionReport.session_report_hash p"
  "compare_tca_reports t t' = Inr [] \<Longrightarrow> PaperTcaReport.tca_report_hash t' = PaperTcaReport.tca_report_hash t"
  "compare_envelope c x y = Inr [] \<Longrightarrow>
     DecisionTraceEnvelope.trace_envelope_hash y = DecisionTraceEnvelope.trace_envelope_hash x"
  by (simp_all add: compare_paper_reports_def compare_tca_reports_def compare_envelope_def compare_fields_Nil
      paper_compared_def tca_compared_def envelope_compared_def)

lemma requested_trace_agrees:
  assumes "requested_trace_blockers tid x = Inr []"
  shows "DecisionTraceReplayEvidence.trace_id x = tid" "DecisionTraceEnvelope.trace_id (envelope x) = tid"
    "StrategyDecision.trace_id (decision x) = tid"
  using assms by (simp_all add: requested_trace_blockers_def mapE_Nil_iff split: if_splits)

lemma replay_found:
  assumes "replay_decision_trace_by_id H Z describe resolve tr = Inr r" "DecisionTraceReplayReport.status r \<noteq> FAILED"
  obtains x where "resolve (strip tr) = [x]" "replay_evidence H Z describe (strip tr) x = Inr r"
  using assms failure_report_status
  by (auto simp: replay_decision_trace_by_id_def Let_def bindE_Inr_iff split: if_splits list.splits)

text \<open>C37: A passed replay is a reproduction.  When \<open>replay_decision_trace_by_id\<close> passes, the resolver holds
  exactly one record of the trace, all of whose identities are the requested one, with a valid
  envelope and every order artifact; and the paper gateway run again on its bars with its risk
  check alone gives a report with the stored hash and one event of the stored status, filled
  quantity, price and cost, from which the accounts, the costs and the envelope come out with the
  stored hashes.
\<close>

theorem audit_pass_is_reproduction:
  assumes "replay_decision_trace_by_id H Z describe resolve tr = Inr r" "DecisionTraceReplayReport.status r = PASSED"
  shows "\<exists>x i e g p t g' p' t' env' v w. resolve (strip tr) = [x] \<and> blockers r = []
    \<and> DecisionTraceReplayEvidence.trace_id x = strip tr \<and> DecisionTraceEnvelope.trace_id (envelope x) = strip tr
    \<and> StrategyDecision.trace_id (decision x) = strip tr \<and> valid_DecisionTraceEnvelope H (envelope x)
    \<and> DecisionTraceReplayEvidence.order_intent x = Some i \<and> risk_event x = Some e \<and> gateway_report x = Some g
    \<and> paper_account_report x = Some p \<and> paper_tca_report x = Some t
    \<and> run_paper_gateway_replay H (bars x) [e] (ExecutionGatewayReport.run_id g) (execution_cost_model x)
        (DecisionTraceReplayEvidence.instrument_master_snapshot x) (starting_account_state x) = Inr g'
    \<and> rebuild_paper_account_report H p g' = Inr p' \<and> make_paper_tca_report H g' (quotes x) = Inr t'
    \<and> make_decision_trace_envelope H (DecisionTraceReplayEvidence.forecast x) (decision x) (Some i) (Some e)
        (Some g') (Some p') (Some t') = Inr env'
    \<and> ExecutionGatewayReport.gateway_report_hash g' = ExecutionGatewayReport.gateway_report_hash g
    \<and> events g = [v] \<and> events g' = [w]
    \<and> ExecutionGatewayLifecycleEvent.status w = ExecutionGatewayLifecycleEvent.status v
    \<and> dec_eq (ExecutionGatewayLifecycleEvent.filled_quantity v) (ExecutionGatewayLifecycleEvent.filled_quantity w)
    \<and> rel_option dec_eq (ExecutionGatewayLifecycleEvent.fill_price v) (ExecutionGatewayLifecycleEvent.fill_price w)
    \<and> dec_eq (ExecutionGatewayLifecycleEvent.total_cost v) (ExecutionGatewayLifecycleEvent.total_cost w)
    \<and> PaperAccountSessionReport.session_report_hash p' = PaperAccountSessionReport.session_report_hash p
    \<and> PaperTcaReport.tca_report_hash t' = PaperTcaReport.tca_report_hash t
    \<and> DecisionTraceEnvelope.trace_envelope_hash env' = DecisionTraceEnvelope.trace_envelope_hash (envelope x)"
proof -
  obtain x where x: "resolve (strip tr) = [x]" "replay_evidence H Z describe (strip tr) x = Inr r"
    by (rule replay_found [OF assms(1)]) (simp_all add: assms(2))
  obtain i e g p t where a: "DecisionTraceReplayEvidence.order_intent x = Some i" "risk_event x = Some e"
    "gateway_report x = Some g" "paper_account_report x = Some p" "paper_tca_report x = Some t"
    "reproduces H x i e g p t" "blockers r = []" "valid_DecisionTraceEnvelope H (envelope x)"
    "requested_trace_blockers (strip tr) x = Inr []"
    by (rule replay_evidence_passed [OF x(2) assms(2)])
  obtain g' p' t' env' where m: "run_paper_gateway_replay H (bars x) [e] (ExecutionGatewayReport.run_id g)
        (execution_cost_model x) (DecisionTraceReplayEvidence.instrument_master_snapshot x) (starting_account_state x) = Inr g'"
      "rebuild_paper_account_report H p g' = Inr p'" "make_paper_tca_report H g' (quotes x) = Inr t'"
      "make_decision_trace_envelope H (DecisionTraceReplayEvidence.forecast x) (decision x) (Some i) (Some e)
         (Some g') (Some p') (Some t') = Inr env'"
    and c: "compare_gateway_reports g g' = Inr []" "compare_paper_reports p p' = Inr []"
      "compare_tca_reports t t' = Inr []" "compare_envelope TAMPERED_EVIDENCE (envelope x) env' = Inr []"
    using a(6) unfolding reproduces_def by blast
  obtain v w where ev: "events g = [v]" "events g' = [w]"
    "ExecutionGatewayReport.gateway_report_hash g' = ExecutionGatewayReport.gateway_report_hash g"
    "ExecutionGatewayLifecycleEvent.status w = ExecutionGatewayLifecycleEvent.status v"
    "dec_eq (ExecutionGatewayLifecycleEvent.filled_quantity v) (ExecutionGatewayLifecycleEvent.filled_quantity w)"
    "rel_option dec_eq (ExecutionGatewayLifecycleEvent.fill_price v) (ExecutionGatewayLifecycleEvent.fill_price w)"
    "dec_eq (ExecutionGatewayLifecycleEvent.total_cost v) (ExecutionGatewayLifecycleEvent.total_cost w)"
    by (rule gateway_agrees [OF c(1)])
  note h = hashes_agree(1) [OF c(2)] hashes_agree(2) [OF c(3)] hashes_agree(3) [OF c(4)]
  note tr = requested_trace_agrees [OF a(9)]
  show ?thesis
    by (rule exI [of _ x], rule exI [of _ i], rule exI [of _ e], rule exI [of _ g], rule exI [of _ p], rule exI [of _ t], rule exI [of _ g'],
        rule exI [of _ p'], rule exI [of _ t'], rule exI [of _ env'], rule exI [of _ v], rule exI [of _ w], intro conjI;
        fact x(1) a(1-5,7,8) m ev h tr)
qed

section \<open>Failures that are raised\<close>

lemma strip_strip: "strip (strip s) = strip s"
proof -
  define d where "d = dropWhile py_space s"
  define t where "t = rev (dropWhile py_space (rev d))"
  have "rev d = takeWhile py_space (rev d) @ dropWhile py_space (rev d)" by simp
  then have d: "d = t @ rev (takeWhile py_space (rev d))" unfolding t_def by (metis rev_append rev_rev_ident)
  have "t = [] \<or> \<not> py_space (hd t)"
  proof (cases t)
    case (Cons c cs)
    then have "hd d = c" "d \<noteq> []" using d by (metis append_Cons list.sel(1), metis append_Cons list.discI)
    then show ?thesis using Cons hd_dropWhile [of py_space s] by (simp add: d_def)
  qed simp
  then have "dropWhile py_space t = t" by (cases t) simp_all
  then show ?thesis by (simp add: strip_def d_def [symmetric] t_def [symmetric]) (simp add: t_def)
qed

text \<open>
  A trace identifier outside the canonical alphabet that no record matches is not reported as
  missing: the report itself cannot hold it, and the call raises.
\<close>

lemma unknown_trace_raises:
  assumes "strip tr \<noteq> ''''" "\<not> canonical_id (strip tr)" "resolve (strip tr) = []"
  shows "replay_decision_trace_by_id H Z describe resolve tr = Inl (ValidationError ''trace_id'')"
proof -
  let ?m = "''no trace evidence matched requested trace_id''"
  have "strip ?m \<noteq> ''''" "strip ''0 matches'' \<noteq> ''''" by (simp_all add: strip_def py_space_def)
  then show ?thesis
    using assms strip_strip [of tr]
    by (simp add: replay_decision_trace_by_id_def Let_def blocker_def construct_DecisionTraceReplayBlocker_def
        failure_report_def construct_DecisionTraceReplayReport_def replay_report_fields_def empty_replay_report_def
        checked.simps)
qed

text \<open>
  A list of identifiers that is empty on one side only is no blocker either: the empty text
  shown for it is not a valid \<open>expected\<close> or \<open>actual\<close>, and the comparison raises.
\<close>

lemma empty_ids_raise:
  assumes "strip (prefix @ '' '' @ n @ '' did not reproduce'') \<noteq> ''''" "xs \<noteq> []"
  shows "compare_fields c prefix [(n, CTexts [], CTexts xs)] = Inl (ValidationError ''expected'')"
  using assms
  by (simp add: compare_fields_def blocker_def construct_DecisionTraceReplayBlocker_def Let_def checked.simps)
    (simp add: strip_def)

end
