(* ===== verification/AuditGateResults.thy ===== *)
theory AuditGateResults
  imports AuditGate AuditRoundTrip
begin

text \<open>
  When the audit gate passes: exactly when the sampled identifiers are given, distinct and enough,
  every one of them replays without failing, and a required no-order sample is among them; and
  that evidence of the pipeline passes the gate.
\<close>

section \<open>Trace identifiers\<close>

lemma normalized_ids:
  "snd (normalize_trace_ids ids) = [] \<longleftrightarrow> (\<forall>x \<in> set ids. strip x \<noteq> '''')"
  "\<forall>x \<in> set ids. strip x \<noteq> '''' \<Longrightarrow> fst (normalize_trace_ids ids) = map strip ids"
proof -
  have e: "filter (\<lambda>(n, x). strip x = '''') (enumerate k ids) = [] \<longleftrightarrow> (\<forall>x \<in> set ids. strip x \<noteq> '''')" for k
    by (induction ids arbitrary: k) simp_all
  show "snd (normalize_trace_ids ids) = [] \<longleftrightarrow> (\<forall>x \<in> set ids. strip x \<noteq> '''')"
    using e [of 0] by (simp add: normalize_trace_ids_def)
  have "\<forall>x \<in> set ids. strip x \<noteq> '''' \<Longrightarrow> map (\<lambda>(n, x). if strip x \<noteq> '''' then strip x
      else blank_trace_id_prefix @ '':'' @ nat_text n) (enumerate k ids) = map strip ids" for k
    by (induction ids arbitrary: k) simp_all
  then show "\<forall>x \<in> set ids. strip x \<noteq> '''' \<Longrightarrow> fst (normalize_trace_ids ids) = map strip ids"
    by (simp add: normalize_trace_ids_def)
qed

lemma duplicates_after_Nil: "duplicates_after seen found xs = [] \<longleftrightarrow> found = [] \<and> distinct xs \<and> set seen \<inter> set xs = {}"
  by (induction seen found xs rule: duplicates_after.induct) (auto split: if_splits)

lemma duplicate_trace_ids_Nil: "duplicate_trace_ids ids = [] \<longleftrightarrow> distinct ids"
  by (simp add: duplicate_trace_ids_def duplicates_after_Nil)

lemma unique_from_distinct: "distinct (found @ xs) \<Longrightarrow> unique_from found xs = found @ xs"
  by (induction found xs rule: unique_from.induct) auto

lemma eligible_ids:
  assumes "distinct (AuditGateRunManifest.trace_ids m)"
  shows "eligible_unique_trace_ids m = filter (\<lambda>x. \<not> marked_blank x) (AuditGateRunManifest.trace_ids m)"
  unfolding eligible_unique_trace_ids_def
  by (subst unique_from_distinct) (simp_all add: assms)

section \<open>Blockers\<close>

lemma gate_blocker_one: "bindE (gate_blocker c m tid rc x y) (\<lambda>b. Inr [b]) \<noteq> Inr []"
  by (auto simp: bindE_Inr_iff)

lemma blocker_if_Nil: "blocker_if c m x y = Inr [] \<longleftrightarrow> \<not> c"
  by (auto simp: blocker_if_def gate_blocker_one)

lemma policy_blockers_Nil:
  "manifest_trace_policy_blockers m = Inr [] \<longleftrightarrow>
     trace_id_policy_errors m = [] \<and> distinct (AuditGateRunManifest.trace_ids m)"
  by (auto simp: manifest_trace_policy_blockers_def bindE_Inr_iff Let_def mapE_Nil_iff duplicate_trace_ids_Nil)

lemma mismatch_blockers_Nil:
  "sample_manifest_mismatch_blockers m ss = Inr [] \<longleftrightarrow>
     map AuditGateTraceSampleResult.trace_id ss = AuditGateRunManifest.trace_ids m"
  by (auto simp: sample_manifest_mismatch_blockers_def bindE_Inr_iff Let_def)

lemma sample_blockers_Nil:
  assumes "sample_replay_evidence_error H s = None"
  shows "sample_blockers H s = Inr [] \<longleftrightarrow> replay_status s \<noteq> DecisionTraceReplayStatus.FAILED"
  using assms by (auto simp: sample_blockers_def bindE_Inr_iff Let_def replay_blockers_def mapE_Nil_iff)

lemma all_sample_blockers_Nil:
  assumes "\<forall>s \<in> set ss. sample_replay_evidence_error H s = None"
  shows "mapE (sample_blockers H) ss = Inr bss \<and> concat bss = [] \<longleftrightarrow>
    bss = map (\<lambda>_. []) ss \<and> (\<forall>s \<in> set ss. replay_status s \<noteq> DecisionTraceReplayStatus.FAILED)"
  using assms
proof (induction ss arbitrary: bss)
  case Nil
  then show ?case by auto
next
  case (Cons s ss)
  have s: "sample_blockers H s = Inr [] \<longleftrightarrow> replay_status s \<noteq> DecisionTraceReplayStatus.FAILED"
    by (rule sample_blockers_Nil) (use Cons.prems in simp)
  have "\<forall>s \<in> set ss. sample_replay_evidence_error H s = None" using Cons.prems by simp
  note ih = Cons.IH [OF this]
  show ?case using s ih by (cases bss) (auto simp: bindE_Inr_iff)
qed

lemma count_samples_0: "count_samples st ss = 0 \<longleftrightarrow> (\<forall>s \<in> set ss. replay_status s \<noteq> st)"
  by (auto simp: count_samples_def filter_empty_conv)

lemma gate_blockers_Nil:
  assumes "\<forall>s \<in> set ss. sample_replay_evidence_error H s = None"
    "map AuditGateTraceSampleResult.trace_id ss = AuditGateRunManifest.trace_ids m"
  shows "gate_blockers H m ss = Inr [] \<longleftrightarrow> trace_id_policy_errors m = [] \<and> distinct (AuditGateRunManifest.trace_ids m)
    \<and> (\<forall>s \<in> set ss. replay_status s \<noteq> DecisionTraceReplayStatus.FAILED)
    \<and> minimum_sample_count (AuditGateRunManifest.sample_policy m) \<le> int (length (eligible_unique_trace_ids m))
    \<and> (require_no_order_sample (AuditGateRunManifest.sample_policy m) \<longrightarrow> (\<exists>s \<in> set ss. replay_status s = NO_ORDER))"
    (is "_ \<longleftrightarrow> ?r")
proof
  assume "gate_blockers H m ss = Inr []"
  then have "manifest_trace_policy_blockers m = Inr []" "\<exists>bss. mapE (sample_blockers H) ss = Inr bss \<and> concat bss = []"
    "\<not> int (length (eligible_unique_trace_ids m)) < minimum_sample_count (AuditGateRunManifest.sample_policy m)"
    "\<not> (require_no_order_sample (AuditGateRunManifest.sample_policy m) \<and> count_samples NO_ORDER ss = 0)"
    unfolding gate_blockers_def Let_def by (auto simp: bindE_Inr_iff blocker_if_Nil)
  then show ?r using all_sample_blockers_Nil [OF assms(1)] by (auto simp: policy_blockers_Nil count_samples_0)
next
  assume r: ?r
  then have "mapE (sample_blockers H) ss = Inr (map (\<lambda>_. []) ss)" using all_sample_blockers_Nil [OF assms(1)] by blast
  moreover have "concat (map (\<lambda>_. []) ss) = ([] :: AuditGateValidationBlocker list)" by (induction ss) simp_all
  moreover have "manifest_trace_policy_blockers m = Inr []" using r by (simp add: policy_blockers_Nil)
  moreover have "sample_manifest_mismatch_blockers m ss = Inr []" using assms(2) by (simp add: mismatch_blockers_Nil)
  ultimately show "gate_blockers H m ss = Inr []"
    using r by (auto simp: gate_blockers_def Let_def blocker_if_def count_samples_0 list_ex_iff)
qed

section \<open>Samples\<close>

lemma sample_made:
  assumes "make_audit_gate_trace_sample_result H n q = Inr s"
  shows "replay_status s = DecisionTraceReplayReport.status q" "sample_replay_evidence_error H s = None" "replay_report s = q"
  using assms by (auto simp: make_audit_gate_trace_sample_result_def Let_def construct_AuditGateTraceSampleResult_def
      sample_result_checks_def sample_draft_def)

lemma samples_made:
  assumes "mapE (\<lambda>(n, tid). bindE (replay tid) (make_audit_gate_trace_sample_result H n)) (enumerate k tids) = Inr ss"
  shows "list_all2 (\<lambda>tid s. \<exists>q. replay tid = Inr q \<and> replay_report s = q \<and> replay_status s = DecisionTraceReplayReport.status q
    \<and> sample_replay_evidence_error H s = None) tids ss"
  using assms
proof (induction tids arbitrary: k ss)
  case Nil
  then show ?case by simp
next
  case (Cons tid tids)
  then obtain q s ss' where s: "replay tid = Inr q" "make_audit_gate_trace_sample_result H k q = Inr s" "ss = s # ss'"
    "mapE (\<lambda>(n, tid). bindE (replay tid) (make_audit_gate_trace_sample_result H n)) (enumerate (Suc k) tids) = Inr ss'"
    by (auto simp: bindE_Inr_iff)
  then show ?case using Cons.IH [OF s(4)] sample_made [OF s(2)] by auto
qed

lemma samples_of:
  assumes "list_all2 (\<lambda>tid s. \<exists>q. replay tid = Inr q \<and> replay_report s = q \<and> replay_status s = DecisionTraceReplayReport.status q
    \<and> sample_replay_evidence_error H s = None) tids ss"
  shows "\<forall>s \<in> set ss. sample_replay_evidence_error H s = None"
    "(\<forall>s \<in> set ss. P (replay_status s)) \<longleftrightarrow> (\<forall>tid \<in> set tids. \<exists>q. replay tid = Inr q \<and> P (DecisionTraceReplayReport.status q))"
  using assms by (induction rule: list_all2_induct) auto

section \<open>The gate\<close>

lemma manifest_made:
  assumes "make_audit_gate_run_manifest H c ids = Inr m"
  shows "AuditGateRunManifest.trace_ids m = fst (normalize_trace_ids ids)" "trace_id_policy_errors m = snd (normalize_trace_ids ids)"
    "AuditGateRunManifest.sample_policy m = AuditGateRunConfig.sample_policy c"
    "list_all canonical_id (AuditGateRunManifest.trace_ids m)"
  using assms by (auto simp: make_audit_gate_run_manifest_def Let_def construct_AuditGateRunManifest_def run_manifest_fields_def)

lemma gate_report_made:
  assumes "make_audit_gate_validation_report H m ss = Inr r"
  shows "\<exists>bs. gate_blockers H m ss = Inr bs \<and> (AuditGateValidationReport.status r = AuditGateValidationStatus.PASSED \<longleftrightarrow>
      bs = [] \<and> count_samples DecisionTraceReplayStatus.FAILED ss = 0)"
    "map AuditGateTraceSampleResult.trace_id ss = AuditGateRunManifest.trace_ids m"
  using assms by (auto simp: make_audit_gate_validation_report_def Let_def bindE_Inr_iff
      construct_AuditGateValidationReport_def gate_report_checks_def gate_report_draft_def)

lemma gate_run:
  assumes "run_audit_gate_validation H Z describe ids resolve c = Inr r"
  obtains m ss where "make_audit_gate_run_manifest H c ids = Inr m"
    "list_all2 (\<lambda>tid s. \<exists>q. replay_decision_trace_by_id H Z describe resolve tid = Inr q \<and> replay_report s = q
       \<and> replay_status s = DecisionTraceReplayReport.status q
       \<and> sample_replay_evidence_error H s = None) (AuditGateRunManifest.trace_ids m) ss"
    "make_audit_gate_validation_report H m ss = Inr r"
  using assms samples_made by (fastforce simp: run_audit_gate_validation_def bindE_Inr_iff)

lemma replay_stripped:
  "canonical_id (strip tr) \<Longrightarrow>
    replay_decision_trace_by_id H Z describe resolve (strip tr) = replay_decision_trace_by_id H Z describe resolve tr"
  by (simp add: replay_decision_trace_by_id_def)

text \<open>C38: The audit gate passes exactly when it should.  When \<open>run_audit_gate_validation\<close> returns, its
  status is passed if and only if every trace identifier is non-blank, no two are equal once
  stripped, those the policy counts reach the configured minimum, each of them replays to a report that has
  not failed, and, where the policy asks for one, some replay is a no-order; whether the policy
  requires all replays to pass makes no difference.
\<close>

theorem audit_gate_passes_exactly:
  assumes "run_audit_gate_validation H Z describe ids resolve c = Inr r"
  shows "AuditGateValidationReport.status r = AuditGateValidationStatus.PASSED \<longleftrightarrow>
    (\<forall>x \<in> set ids. strip x \<noteq> '''') \<and> distinct (map strip ids)
    \<and> minimum_sample_count (AuditGateRunConfig.sample_policy c)
        \<le> int (length (filter (\<lambda>x. \<not> marked_blank (strip x)) ids))
    \<and> (\<forall>x \<in> set ids. \<exists>q. replay_decision_trace_by_id H Z describe resolve x = Inr q
        \<and> DecisionTraceReplayReport.status q \<noteq> DecisionTraceReplayStatus.FAILED)
    \<and> (require_no_order_sample (AuditGateRunConfig.sample_policy c) \<longrightarrow>
        (\<exists>x \<in> set ids. \<exists>q. replay_decision_trace_by_id H Z describe resolve x = Inr q
          \<and> DecisionTraceReplayReport.status q = NO_ORDER))"
proof -
  obtain m ss where m: "make_audit_gate_run_manifest H c ids = Inr m"
    and ss: "list_all2 (\<lambda>tid s. \<exists>q. replay_decision_trace_by_id H Z describe resolve tid = Inr q \<and> replay_report s = q
       \<and> replay_status s = DecisionTraceReplayReport.status q
       \<and> sample_replay_evidence_error H s = None) (AuditGateRunManifest.trace_ids m) ss"
    and r: "make_audit_gate_validation_report H m ss = Inr r"
    by (rule gate_run [OF assms])
  note mm = manifest_made [OF m] and so = samples_of [OF ss]
  obtain bs where "gate_blockers H m ss = Inr bs" "AuditGateValidationReport.status r = AuditGateValidationStatus.PASSED \<longleftrightarrow>
      bs = [] \<and> count_samples DecisionTraceReplayStatus.FAILED ss = 0"
    using gate_report_made(1) [OF r] by blast
  then have st: "AuditGateValidationReport.status r = AuditGateValidationStatus.PASSED \<longleftrightarrow> gate_blockers H m ss = Inr []"
    using gate_blockers_Nil [OF so(1) gate_report_made(2) [OF r]] by (auto simp: count_samples_0)
  show ?thesis
  proof (cases "\<forall>x \<in> set ids. strip x \<noteq> ''''")
    case True
    then have ids: "AuditGateRunManifest.trace_ids m = map strip ids" by (simp add: mm normalized_ids(2))
    then have can: "canonical_id (strip x)" if "x \<in> set ids" for x using mm(4) that by (simp add: list_all_iff)
    have e: "eligible_unique_trace_ids m = filter (\<lambda>x. \<not> marked_blank x) (map strip ids)" if "distinct (map strip ids)"
      using eligible_ids [of m] that by (simp add: ids)
    have no: "(\<exists>s \<in> set ss. replay_status s = NO_ORDER) \<longleftrightarrow> (\<exists>x \<in> set ids. \<exists>q.
        replay_decision_trace_by_id H Z describe resolve x = Inr q \<and> DecisionTraceReplayReport.status q = NO_ORDER)"
      using so(2) [of "\<lambda>st. st \<noteq> NO_ORDER"] so(2) [of "\<lambda>_. True"] by (fastforce simp: ids replay_stripped can)
    have fl: "(\<forall>s \<in> set ss. replay_status s \<noteq> DecisionTraceReplayStatus.FAILED) \<longleftrightarrow> (\<forall>x \<in> set ids. \<exists>q.
        replay_decision_trace_by_id H Z describe resolve x = Inr q \<and> DecisionTraceReplayReport.status q \<noteq> DecisionTraceReplayStatus.FAILED)"
      using so(2) [of "\<lambda>st. st \<noteq> DecisionTraceReplayStatus.FAILED"] by (simp add: ids replay_stripped can)
    have "trace_id_policy_errors m = []" using True by (simp add: mm(2) normalized_ids(1))
    then show ?thesis
      using True e unfolding st gate_blockers_Nil [OF so(1) gate_report_made(2) [OF r]] no fl
      by (auto simp: mm(3) ids filter_map comp_def)
  next
    case False
    then have "trace_id_policy_errors m \<noteq> []" by (simp add: mm(2) normalized_ids(1))
    then show ?thesis
      using False unfolding st gate_blockers_Nil [OF so(1) gate_report_made(2) [OF r]] by blast
  qed
qed

section \<open>Evidence of the pipeline passes the gate\<close>

lemma gate_ids_ok:
  assumes "digest_ok H"
  shows "canonical_id (stable_id H ''AUDITRUN'' p)" "canonical_id (stable_id H ''AUDITREPLAY'' p)"
    "canonical_id (stable_id H ''AUDITSAMPLE'' p)" "canonical_id (stable_id H ''AUDITGATEREPORT'' p)"
  by (rule stable_id_canonical [OF assms]; simp add: canonical_id_def upper_char_def)+

lemma gate_requirements_ok: "list_all non_empty_string audit_gate_requirements"
  by (simp add: audit_gate_requirements_def non_empty_string_def strip_def py_space_def)

lemma manifest_ok:
  assumes "digest_ok H" "construct_AuditGateRunConfig H c = Inr c" "list_all canonical_id ids"
  shows "\<exists>m. make_audit_gate_run_manifest H c ids = Inr m \<and> valid_AuditGateRunManifest H m \<and> AuditGateRunManifest.trace_ids m = ids
    \<and> AuditGateRunManifest.requirement_ids m = AuditGateRunConfig.requirement_ids c"
proof -
  define d where "d = \<lparr>AuditGateRunManifest.audit_run_id = ''AUDITRUN:PLACEHOLDER'', manifest_hash = zero_hash,
    config_hash = AuditGateRunConfig.config_hash c, code_commit = AuditGateRunConfig.code_commit c,
    code_ref = AuditGateRunConfig.code_ref c, sample_policy = AuditGateRunConfig.sample_policy c,
    tolerance_policy = AuditGateRunConfig.tolerance_policy c, trace_ids = ids, trace_id_policy_errors = [],
    requirement_ids = AuditGateRunConfig.requirement_ids c\<rparr>"
  define h where "h = build_audit_gate_run_manifest_hash H d"
  define m where "m = d\<lparr>AuditGateRunManifest.audit_run_id := build_audit_run_id H h, manifest_hash := h\<rparr>"
  have ne: "\<forall>x \<in> set ids. strip x \<noteq> ''''" and st: "map strip ids = ids"
    using assms(3) by (auto simp: list_all_iff canonical_id_def intro!: map_idI)
  have n: "normalize_trace_ids ids = (ids, [])"
    using normalized_ids [of ids] ne st by (simp add: prod_eq_iff)
  have c: "list_all fst (run_config_fields c)" "AuditGateRunConfig.config_hash c = build_audit_gate_config_hash H c"
    using assms(2) by (simp_all add: construct_AuditGateRunConfig_def)
  have "embedded_config m = c" by (simp add: embedded_config_def m_def d_def)
  moreover have "build_audit_gate_run_manifest_hash H m = h"
    by (simp add: m_def h_def d_def build_audit_gate_run_manifest_hash_def run_manifest_items_def)
  moreover have "list_all fst (run_manifest_fields m)"
    using c(1) assms(1,3) gate_ids_ok(1) [OF assms(1)]
    by (simp add: run_manifest_fields_def run_config_fields_def m_def d_def h_def build_audit_run_id_def build_audit_gate_run_manifest_hash_def)
  ultimately have "construct_AuditGateRunManifest H m = Inr m"
    using c(2) by (simp add: construct_AuditGateRunManifest_def Let_def) (simp add: m_def d_def)
  moreover have "make_audit_gate_run_manifest H c ids = construct_AuditGateRunManifest H m"
    by (simp add: make_audit_gate_run_manifest_def n m_def h_def d_def Let_def)
  ultimately show ?thesis
    by (intro exI [of _ m]) (simp add: valid_AuditGateRunManifest_def, simp add: m_def d_def)
qed

lemma sample_ok:
  assumes "digest_ok H" "construct_DecisionTraceReplayReport q = Inr q" "sample_replay_evidence_error H (sample_draft H n q) = None"
    and "opt_all canonical_id (DecisionTraceReplayReport.stored_trace_envelope_id q)"
      "opt_all canonical_id (DecisionTraceReplayReport.reconstructed_trace_envelope_id q)"
      "opt_all hex64 (DecisionTraceReplayReport.stored_trace_envelope_hash q)"
      "opt_all hex64 (DecisionTraceReplayReport.reconstructed_trace_envelope_hash q)"
  shows "\<exists>s. make_audit_gate_trace_sample_result H n q = Inr s \<and> valid_AuditGateTraceSampleResult H s
    \<and> AuditGateTraceSampleResult.trace_id s = DecisionTraceReplayReport.trace_id q"
proof -
  define d where "d = sample_draft H n q"
  define h where "h = build_audit_gate_trace_sample_result_hash H d"
  define s where "s = d\<lparr>sample_result_id := build_audit_gate_trace_sample_result_id H h, sample_result_hash := h\<rparr>"
  have q: "canonical_id (DecisionTraceReplayReport.trace_id q)"
    using assms(2) by (simp add: construct_DecisionTraceReplayReport_def replay_report_fields_def)
  have "build_audit_gate_trace_sample_result_hash H s = h"
    by (simp add: s_def h_def build_audit_gate_trace_sample_result_hash_def sample_result_items_def)
  moreover have "sample_replay_evidence_error H s = None"
    using assms(3) by (simp add: s_def d_def sample_replay_evidence_error_def cong: if_cong)
  moreover have "list_all fst (sample_result_fields s)"
    using assms q gate_ids_ok [OF assms(1)] gate_requirements_ok
    by (simp add: sample_result_fields_def s_def d_def h_def sample_draft_def Let_def valid_DecisionTraceReplayReport_def
        build_audit_gate_trace_sample_result_hash_def build_audit_gate_trace_sample_result_id_def
        build_decision_trace_replay_report_id_def build_decision_trace_replay_report_hash_def)
  ultimately have "construct_AuditGateTraceSampleResult H s = Inr s"
    by (simp add: construct_AuditGateTraceSampleResult_def sample_result_checks_def Let_def sample_alignment_checks_def)
      (simp add: s_def d_def sample_draft_def Let_def)
  then show ?thesis
    by (intro exI [of _ s]) (simp add: make_audit_gate_trace_sample_result_def valid_AuditGateTraceSampleResult_def Let_def
        s_def h_def d_def, simp add: sample_draft_def Let_def)
qed

lemma gate_report_ok:
  assumes "digest_ok H" "valid_AuditGateRunManifest H m" "list_all (valid_AuditGateTraceSampleResult H) ss"
    and "gate_blockers H m ss = Inr []" "map AuditGateTraceSampleResult.trace_id ss = AuditGateRunManifest.trace_ids m"
  shows "\<exists>r. make_audit_gate_validation_report H m ss = Inr r"
proof -
  define d where "d = gate_report_draft m ss []"
  define h where "h = build_audit_gate_validation_report_hash H d"
  define r where "r = d\<lparr>report_id := build_audit_gate_validation_report_id H h, report_hash := h\<rparr>"
  have e: "\<forall>s \<in> set ss. sample_replay_evidence_error H s = None"
    using assms(3) by (auto simp: list_all_iff valid_AuditGateTraceSampleResult_def construct_AuditGateTraceSampleResult_def
        sample_result_checks_def Let_def)
  note b = gate_blockers_Nil [OF e assms(5), THEN iffD1, OF assms(4)]
  have m: "canonical_id (AuditGateRunManifest.audit_run_id m)" "list_all non_empty_string (AuditGateRunManifest.requirement_ids m)"
    using assms(2) by (simp_all add: valid_AuditGateRunManifest_def construct_AuditGateRunManifest_def run_manifest_fields_def)
  have "list_all fst (gate_report_fields H r)"
    using m assms(1-3) gate_ids_ok(4) [OF assms(1)]
    by (simp add: gate_report_fields_def r_def h_def d_def gate_report_draft_def Let_def count_samples_def
        build_audit_gate_validation_report_id_def build_audit_gate_validation_report_hash_def)
  moreover have "build_audit_gate_validation_report_hash H r = h"
    by (simp add: r_def h_def build_audit_gate_validation_report_hash_def gate_report_items_def)
  moreover have "list_all fst (passing_report_checks H r)"
    using b e by (simp add: passing_report_checks_def r_def d_def gate_report_draft_def Let_def duplicate_trace_ids_Nil
        list_all_iff)
  ultimately have "construct_AuditGateValidationReport H r = Inr r"
    using b assms(5) by (simp add: construct_AuditGateValidationReport_def gate_report_checks_def Let_def)
      (simp add: r_def d_def gate_report_draft_def Let_def)
  then show ?thesis
    by (intro exI [of _ r]) (simp add: make_audit_gate_validation_report_def assms(4) Let_def r_def h_def d_def)
qed

lemma upper_hex: "digit_char c \<or> lower_hex_letter c \<Longrightarrow> upper_of c \<noteq> CHR ''I''"
  by (auto simp: digit_char_def lower_hex_letter_def upper_of_def)

lemma trace_id_not_blank:
  assumes "digest_ok H"
  shows "\<not> marked_blank (stable_id H ''TRACE'' p)"
proof -
  have "hex64 (H p)" by (rule digest_hex [OF assms])
  then obtain c cs where "H p = c # cs" "digit_char c \<or> lower_hex_letter c"
    by (cases "H p") (auto simp: hex64_def)
  then show ?thesis
    using upper_hex by (simp add: marked_blank_def blank_trace_id_prefix_def stable_id_def Let_def)
qed

lemma traded_evidence_passes_gate:
  assumes "digest_ok H" "traded H Z f pol srun ts sz rp d i e"
    and "gateway_inputs_ok H bs [e] run cost (Some s) (Some a)" "bs \<noteq> []" "valid_account_state a"
    and "valid_InstrumentMasterSnapshot Z s" "list_all (\<lambda>q. construct_QuoteEvent q = Inr q) qs"
    and "construct_AuditGateRunConfig H c = Inr c" "minimum_sample_count (AuditGateRunConfig.sample_policy c) = 1"
      "\<not> require_no_order_sample (AuditGateRunConfig.sample_policy c)"
  shows "\<exists>x r q. run_audit_gate_validation H Z describe [StrategyDecision.trace_id d] (resolve_trace_evidence [x]) c = Inr r
    \<and> replay_decision_trace_by_id H Z describe (resolve_trace_evidence [x]) (StrategyDecision.trace_id d) = Inr q
    \<and> DecisionTraceReplayReport.status q = DecisionTraceReplayStatus.PASSED"
proof (rule traded_replays [OF assms(1-7), of describe])
  fix g p t env v
  let ?tid = "StrategyDecision.trace_id d" and ?x = "stored_evidence f d i e bs cost (Some s) (Some a) qs g p t env"
  let ?q = "trace_report_draft ?tid DecisionTraceReplayStatus.PASSED ?x (replay_result env g p t) []"
  assume rep: "replay_decision_trace_by_id H Z describe (resolve_trace_evidence [?x]) ?tid = Inr ?q"
    and v: "valid_DecisionTraceEnvelope H env" "canonical_id ?tid" "valid_StrategyDecision H d" "valid_event H e"
    and ev: "events g = [v]" "event_traces e d v" and logs: "paper_order_log_ids env \<noteq> []"
      "if event_filled v then paper_fill_log_ids env \<noteq> [] \<and> paper_tca_row_ids env \<noteq> []
       else paper_rejection_log_ids env \<noteq> [] \<and> paper_tca_issue_ids env \<noteq> []"
    and valid: "valid_gateway_report H g" "valid_PaperAccountSessionReport H p" "valid_PaperTcaReport H t"
  have f: "valid_Forecast H f" using assms(2) by (simp add: traded_def)
  have "trace_report ?tid DecisionTraceReplayStatus.PASSED ?x (replay_result env g p t) [] = Inr ?q"
    using v f valid by (intro trace_report_ok)
      (simp_all add: valid_evidence_def stored_evidence_fields progress_ok_def replay_result_def stored_evidence_def)
  then have q: "construct_DecisionTraceReplayReport ?q = Inr ?q" by (simp add: trace_report_def)
  have c: "list_all fst (trace_envelope_fields env)"
    "trace_envelope_id env = build_decision_trace_envelope_id H (trace_envelope_hash env)"
    using v(1) by (auto simp: valid_DecisionTraceEnvelope_def construct_DecisionTraceEnvelope_def Let_def)
  then have en: "canonical_id (trace_envelope_id env)" "hex64 (trace_envelope_hash env)"
    "trace_envelope_id env = build_decision_trace_envelope_id H (trace_envelope_hash env)"
    by (simp_all add: trace_envelope_fields_def)
  have m: "matching_report_event (Some g) (Some e) d = Some v" using ev by (simp add: matching_report_event_def)
  note qf = trace_report_draft_def empty_replay_report_def replay_result_def Let_def stored_evidence_fields
  have "sample_replay_evidence_error H (sample_draft H 0 ?q) = None"
    using en(3) logs m
    by (simp add: sample_replay_evidence_error_def sample_draft_def qf first_error_def trace_envelope_identity_error_def
        passed_replay_sample_evidence_error_def missing_fields_def has_fill_or_rejection_evidence_def split: if_splits)
  then obtain x where x: "make_audit_gate_trace_sample_result H 0 ?q = Inr x" "valid_AuditGateTraceSampleResult H x"
    "AuditGateTraceSampleResult.trace_id x = ?tid"
    using sample_ok [OF assms(1) q, of 0] en by (auto simp: qf)
  obtain m where m: "make_audit_gate_run_manifest H c [?tid] = Inr m" "valid_AuditGateRunManifest H m"
    "AuditGateRunManifest.trace_ids m = [?tid]"
    using manifest_ok [OF assms(1,8), of "[?tid]"] v(2) by auto
  note xs = sample_made [OF x(1)] and ms = manifest_made [OF m(1)]
  have n: "normalize_trace_ids [?tid] = ([?tid], [])"
    using normalized_ids [of "[?tid]"] v(2) by (auto simp: prod_eq_iff canonical_id_def)
  have "list_all fst (strategy_decision_checks H d)"
    using v(3) by (simp add: valid_StrategyDecision_def construct_StrategyDecision_def)
  then have "?tid = build_strategy_trace_id H (StrategyDecision.strategy_run_id d) (source_forecast_id d)
      (StrategyDecision.policy_hash d) (StrategyDecision.decision_ts d)"
    by (simp add: strategy_decision_checks_def Let_def)
  then have "\<not> marked_blank ?tid"
    using trace_id_not_blank [OF assms(1)] by (simp only: build_strategy_trace_id_def not_False_eq_True)
  then have "eligible_unique_trace_ids m = [?tid]" using eligible_ids [of m] m(3) by simp
  then have "gate_blockers H m [x] = Inr []"
    using gate_blockers_Nil [of "[x]" H m] xs x(3) m(3) ms n assms(9,10) by (simp add: qf)
  then obtain r where "make_audit_gate_validation_report H m [x] = Inr r"
    using gate_report_ok [OF assms(1) m(2), of "[x]"] x(2,3) m(3) by auto
  then have "run_audit_gate_validation H Z describe [?tid] (resolve_trace_evidence [?x]) c = Inr r"
    using rep x(1) m by (simp add: run_audit_gate_validation_def)
  with rep show ?thesis by (intro exI [of _ ?x] exI [of _ r] exI [of _ ?q]) (simp add: qf)
qed

end
