(* ===== verification/AuditExamples.thy ===== *)
theory AuditExamples
  imports StrategyExamples PaperExamples AuditGateResults
begin

text \<open>
  One decision from forecast to audit: the example forecast is bought for 640, the engine approves
  the order, it is traded on the example bar, and its evidence replays and passes the gate.
\<close>

section \<open>The instrument master is valid\<close>

lemma audit_texts:
  "canonical_id ''FIXTURE:1''" "canonical_id ''API:1''" "canonical_id ''RATE:1''" "canonical_id ''FEES:1''"
  "canonical_id ''TIER:1''" "canonical_id ''SESSION:1''" "canonical_id ''CONSTRAINT:1''" "canonical_id ''SNAPSHOT:1''"
  "non_empty_string ''UTC''" "non_empty_string ''Paper venue''" "non_empty_string ''https://venue.example''"
  "non_empty_string ''always open''" "symbol_text ''BTC''" "symbol_text ''USD''" "symbol_text ''BTCUSD''" "symbol_text ''BTC/USD''"
  "non_empty_string ''BTC''" "non_empty_string ''USD''"
  by (simp_all add: canonical_id_def symbol_text_def upper_char_def digit_char_def non_empty_string_def strip_def py_space_def)

lemma audit_stamps:
  "list_all fst (source_stamp_fields example_venue)" "list_all fst (source_stamp_fields (example_asset a))"
  "list_all fst (source_stamp_fields example_fees)" "list_all fst (source_stamp_fields example_trading_session)"
  "list_all fst (source_stamp_fields example_instrument)" "list_all fst (source_stamp_fields example_account)"
  "list_all fst (source_stamp_fields example_constraint)" "list_all fst (source_stamp_fields example_snapshot)"
  by (simp_all add: source_stamp_fields_def audit_texts example_venue_def example_asset_def example_fees_def
      example_trading_session_def example_instrument_def example_account_def example_constraint_def example_snapshot_def)

lemma audit_venue: "valid_Venue (\<lambda>_. True) example_venue"
  using audit_stamps(1)
  by (simp add: valid_Venue_def construct_Venue_def timezone_must_be_valid_iana_name_def)
    (simp add: example_venue_def audit_texts valid_ApiEndpointGroup_def construct_ApiEndpointGroup_def valid_RateLimit_def
      construct_RateLimit_def)

lemma audit_assets: "valid_Asset (example_asset ''BTC'')" "valid_Asset (example_asset ''USD'')"
  using audit_stamps(2)
  by (simp_all add: valid_Asset_def construct_Asset_def asset_fields_def asset_checks_def)
    (simp_all add: example_asset_def audit_texts)

lemma audit_fees: "valid_FeeSchedule example_fees"
  using audit_stamps(3)
  by (simp add: valid_FeeSchedule_def construct_FeeSchedule_def bounded_fee_rate_def)
    (simp add: example_fees_def audit_texts valid_effective_window_def le_dval less_dval dval_Dec)

lemma audit_session: "valid_TradingSession (\<lambda>_. True) example_trading_session"
  using audit_stamps(4)
  by (simp add: valid_TradingSession_def construct_TradingSession_def timezone_must_be_valid_iana_name_def
      session_window_checks_def)
    (simp add: example_trading_session_def audit_texts valid_effective_window_def)

lemma audit_instrument: "valid_Instrument example_instrument"
  using audit_stamps(5)
  by (simp add: valid_Instrument_def construct_Instrument_def)
    (simp add: example_instrument_def audit_texts valid_effective_window_def less_dval dval_Dec)

lemma audit_account: "valid_Account example_account"
  using audit_stamps(6)
  by (simp add: valid_Account_def construct_Account_def)
    (simp add: example_account_def audit_texts valid_AccountRiskLimits_def construct_AccountRiskLimits_def
      bounded_risk_fraction_def le_dval less_dval dval_Dec)

lemma audit_constraint: "valid_InstrumentConstraint example_constraint"
  using audit_stamps(7)
  by (simp add: valid_InstrumentConstraint_def construct_InstrumentConstraint_def)
    (simp add: example_constraint_def audit_texts valid_effective_window_def less_dval dval_Dec)

lemma audit_references: "validate_references example_snapshot = Inr example_snapshot"
proof -
  have l: "assets example_snapshot = [example_asset ''BTC'', example_asset ''USD'']" "venues example_snapshot = [example_venue]"
    "fee_schedules example_snapshot = [example_fees]" "trading_sessions example_snapshot = [example_trading_session]"
    "instrument_constraints example_snapshot = [example_constraint]" "instruments example_snapshot = [example_instrument]"
    "accounts example_snapshot = [example_account]" "created_at example_snapshot = DT 10 0"
    by (simp_all add: example_snapshot_def)
  have f: "Asset.asset_id (example_asset a) = a" "Venue.venue_id example_venue = ''VENUE:1''"
    "FeeSchedule.venue_id example_fees = ''VENUE:1''" "FeeSchedule.fee_schedule_id example_fees = ''FEES:1''"
    "fee_asset_id example_fees = None" "TradingSession.venue_id example_trading_session = ''VENUE:1''"
    "TradingSession.status example_trading_session = TradingSessionStatus.ACTIVE"
    "InstrumentConstraint.instrument_id example_constraint = ''BTC-USD''"
    "Instrument.instrument_id example_instrument = ''BTC-USD''" "Instrument.venue_id example_instrument = ''VENUE:1''"
    "base_asset_id example_instrument = ''BTC''" "quote_asset_id example_instrument = ''USD''"
    "Instrument.fee_schedule_id example_instrument = ''FEES:1''"
    "Account.venue_id example_account = ''VENUE:1''" "Account.fee_tier_id example_account = ''FEES:1''" for a
    by (simp_all add: example_venue_def example_asset_def example_fees_def example_trading_session_def
        example_instrument_def example_account_def example_constraint_def)
  have w: "fee_effective example_fees (DT 10 0)" "session_effective example_trading_session (DT 10 0)"
    "constraint_effective example_constraint (DT 10 0)"
    by (simp_all add: fee_effective_def session_effective_def constraint_effective_def in_window_def example_fees_def
        example_trading_session_def example_constraint_def less_eq_datetime_def)
  have i: "check_instrument example_snapshot example_instrument = Inr ()"
    using f w by (simp add: check_instrument_def l active_constraints_def dec_eq_dval)
      (simp add: example_instrument_def example_venue_def example_constraint_def)
  have o: "no_overlapping_windows k g h [x]" for k and g :: "'a \<Rightarrow> datetime" and h x
    by (simp add: no_overlapping_windows_def)
  show ?thesis by (simp add: validate_references_def Let_def l f w o i)
qed

lemma audit_snapshot: "valid_InstrumentMasterSnapshot (\<lambda>_. True) example_snapshot"
proof -
  have "list_all fst (snapshot_fields (\<lambda>_. True) example_snapshot)"
    using audit_stamps(8) audit_venue audit_assets audit_fees audit_session audit_instrument audit_account audit_constraint
    by (simp add: snapshot_fields_def) (simp add: example_snapshot_def audit_texts)
  then show ?thesis using audit_references
    by (simp add: valid_InstrumentMasterSnapshot_def construct_InstrumentMasterSnapshot_def bindE_Inr_iff)
qed

section \<open>The decision and its order\<close>

definition audit_sizing :: StrategySizingInputs where
  "audit_sizing = example_sizing (Dec 1000 0)"

definition audit_decision :: StrategyDecision where
  "audit_decision = decided H0 example_forecast example_strategy ''RUN:1'' (DT 10 0) (Some audit_sizing)"

definition audit_intent :: OrderIntent where
  "audit_intent = \<lparr>OrderIntent.client_order_id = zero_id ''ORDERINTENT'', trace_id = zero_id ''TRACE'',
     source_decision_id = zero_id ''STRATEGYDECISION'', instrument_id = ''BTC-USD'', venue_id = ''VENUE:1'',
     side = BUY, order_type = MARKET, quantity = Dec 640 (-2), submitted_at = DT 10 0, limit_price = None\<rparr>"

lemma audit_decided:
  "decide_expected_net_edge H0 example_forecast example_strategy ''RUN:1'' (DT 10 0) (Some audit_sizing) = Inr audit_decision"
proof -
  have s: "opt_all valid_StrategySizingInputs (Some audit_sizing)"
    using example_sizing_valid [of "Dec 1000 0"] by (simp add: audit_sizing_def dval_Dec)
  have "Forecast.feature_ts example_forecast \<le> DT 10 0" by (simp add: example_forecast_def less_eq_datetime_def)
  then show ?thesis
    using decide_outcome [OF zero_digest_ok example_forecast_valid example_strategy_valid s, of "''RUN:1''" "DT 10 0"]
      example_not_blocked
    by (auto simp: example_texts audit_sizing_def audit_decision_def zero_digest_def)
qed

lemma audit_multiplier:
  "pre_risk_multiplier_of (StrategyDecisionPolicy.expected_cost example_strategy) (Forecast.uncertainty example_forecast)
     example_strategy audit_sizing = Dec 64 (-2)"
  by (simp add: pre_risk_multiplier_of_def audit_sizing_def)
    (simp add: example_strategy_def example_forecast_def example_sizing_def threshold_multiplier_def dec_eq_dval le_dval
      Let_def dec_eval ddiv_exact_def dval_Dec)

lemma audit_size: "StrategySizingProposal.proposed_quantity (StrategyDecision.sizing audit_decision) = Dec 640 (-2)"
  "StrategySizingProposal.proposed_notional (StrategyDecision.sizing audit_decision) = Dec 64000 (-2)"
  "sizing_status (StrategyDecision.sizing audit_decision) = PROPOSED_PENDING_INDEPENDENT_RISK"
  "StrategyDecision.action audit_decision = StrategyDecisionAction.BUY"
proof -
  have b: "fst (decided_action example_forecast example_strategy (Some audit_sizing)) = StrategyDecisionAction.BUY"
    by (rule example_buys) (simp add: audit_sizing_def example_sizing_def le_dval dval_Dec)
  have r: "risk_budget_notional audit_sizing = Dec 1000 0" "StrategySizingInputs.reference_price audit_sizing = Dec 100 0"
    by (simp_all add: audit_sizing_def example_sizing_def)
  have q: "Dec 1000 0 * Dec 64 (-2) = Dec 64000 (-2)" "Dec 64000 (-2) / Dec 100 0 = Dec 640 (-2)"
    by (simp_all add: dec_eval)
  show "StrategySizingProposal.proposed_quantity (StrategyDecision.sizing audit_decision) = Dec 640 (-2)"
    "StrategySizingProposal.proposed_notional (StrategyDecision.sizing audit_decision) = Dec 64000 (-2)"
    "sizing_status (StrategyDecision.sizing audit_decision) = PROPOSED_PENDING_INDEPENDENT_RISK"
    "StrategyDecision.action audit_decision = StrategyDecisionAction.BUY"
    using decided_size_cases [of example_forecast example_strategy audit_sizing] b example_not_blocked
    unfolding audit_decision_def decided_fields audit_multiplier r
    by (simp_all add: q audit_sizing_def)
qed

lemma audit_ids:
  "StrategyDecision.trace_id audit_decision = zero_id ''TRACE''"
  "StrategyDecision.decision_id audit_decision = zero_id ''STRATEGYDECISION''"
  "StrategyDecision.instrument_id audit_decision = ''BTC-USD''" "StrategyDecision.venue_id audit_decision = ''VENUE:1''"
  "StrategyDecision.decision_ts audit_decision = DT 10 0"
  by (simp_all add: audit_decision_def decided_def with_decision_identity_def strategy_decision_draft_def
      build_strategy_trace_id_def build_strategy_decision_id_def stable_zero_id [unfolded zero_digest_def])
    (simp_all add: example_forecast_def)

lemma audit_id_texts: "canonical_id (zero_id ''ORDERINTENT'')" "canonical_id (zero_id ''TRACE'')"
  "canonical_id (zero_id ''STRATEGYDECISION'')"
  unfolding stable_zero_id [of _ PNull, symmetric]
  by (rule stable_id_canonical [OF zero_digest_ok]; simp add: canonical_id_def upper_char_def)+

lemma audit_intent_valid: "valid_OrderIntent audit_intent" "fits (OrderIntent.quantity audit_intent)"
  by (simp_all add: valid_OrderIntent_def construct_OrderIntent_def audit_intent_def audit_id_texts less_dval dval_Dec
      fits_small dprec_def)

lemma audit_order: "build_order_intent_from_strategy_decision H0 audit_decision None MARKET None = Inr audit_intent"
proof -
  have "construct_OrderIntent audit_intent = Inr audit_intent" using audit_intent_valid by (simp add: valid_OrderIntent_def)
  then show ?thesis
    by (simp add: build_order_intent_from_strategy_decision_def Let_def audit_size audit_ids
        build_order_intent_client_order_id_def stable_zero_id [unfolded zero_digest_def] less_datetime_def
        le_dval dval_Dec) (simp add: audit_intent_def)
qed

section \<open>The risk check\<close>

definition audit_request :: RiskCheckRequest where
  "audit_request = (example_request (example_kill_snapshot CLEAR) [] BUY (Dec 640 (-2)))
     \<lparr>RiskCheckRequest.order_intent := audit_intent, RiskCheckRequest.trace_id := zero_id ''TRACE'',
      RiskCheckRequest.source_decision_id := zero_id ''STRATEGYDECISION''\<rparr>"

lemma audit_request_valid: "valid_request H0 audit_request"
proof -
  have "valid_request H0 (example_request (example_kill_snapshot CLEAR) [] BUY (Dec 640 (-2)))"
    by (rule example_request_valid) (simp_all add: example_kill_valid less_dval dval_Dec)
  then have "list_all fst (risk_request_fields H0 (example_request (example_kill_snapshot CLEAR) [] BUY (Dec 640 (-2))))"
    by (simp add: valid_request_def construct_RiskCheckRequest_def Let_def)
  then have "list_all fst (risk_request_fields H0 audit_request)"
    using audit_intent_valid audit_id_texts by (simp add: risk_request_fields_def audit_request_def)
  then show ?thesis
    by (simp add: valid_request_def construct_RiskCheckRequest_def Let_def build_risk_check_request_id_def
        build_risk_check_request_hash_def stable_id_any [where p = "PObj ps" for ps])
      (simp add: audit_request_def example_request_def audit_intent_def less_datetime_def example_snapshot_def
        example_instrument_def)
qed

lemmas audit_request_defs = audit_request_def audit_intent_def example_request_def example_kill_snapshot_def
  example_policy_def default_policy_draft_def telemetry_defs

lemma audit_metadata: "metadata_view audit_request =
  \<lparr>MetadataView.venue = Some example_venue, instrument = Some example_instrument,
   account = Some example_account, constraint = Some example_constraint\<rparr>"
  by (simp add: metadata_view_def audit_request_def example_request_def example_snapshot_def Let_def audit_intent_def
    active_constraint_def active_constraints_def example_metadata_defs
    in_window_def constraint_effective_def less_eq_datetime_def less_datetime_def)

lemma audit_numbers: "Dec 640 (-2) * Dec 100 0 = Dec 64000 (-2)" "Dec 2 0 + Dec 640 (-2) = Dec 840 (-2)"
   "Dec 840 (-2) * Dec 100 0 = Dec 84000 (-2)" "Dec 0 0 + Dec 64000 (-2) = Dec 64000 (-2)"
   "Dec 100000 0 - Dec 64000 (-2) = Dec 9936000 (-2)" "Dec 0 0 < Dec 84000 (-2)"
   "Dec 9936000 (-2) / Dec 100000 0 = Dec 9936 (-4)"
  by (simp_all add: dec_eval)

lemma audit_effect: "order_effect_of audit_request =
  \<lparr>OrderEffect.side = BUY, quantity = Dec 640 (-2), reference_price = Dec 100 0,
   proposed_notional = Dec 64000 (-2), resulting_position_quantity = Dec 840 (-2),
   resulting_position_notional = Dec 84000 (-2), resulting_cash = Dec 9936000 (-2),
   resulting_instrument_exposure_notional = Dec 64000 (-2),
   resulting_strategy_exposure_notional = Dec 64000 (-2),
   resulting_total_spot_exposure_notional = Dec 64000 (-2), cash_reserve_pct = Dec 9936 (-4),
   risk_increasing = True\<rparr>"
  by (simp add: order_effect_of_def audit_request_def example_request_def audit_intent_def
      audit_numbers py_max_def Let_def)

lemma audit_not_rejects: "\<not> rejects H0 audit_request example_policy"
  unfolding rejects_def state_missing_def audit_metadata
    audit_effect Let_def above_limit_def cash_below_reserve_def participation_hard_def
    spread_hard_def price_collar_hard_def volatility_hard_def latency_hard_def model_hard_def
    tca_hard_def participation_checks_def
  by (simp add: audit_request_defs kill_switch_blocks_def orderable_metadata_def
      example_metadata_defs in_product_scope_def order_notional_hard_def
      instrument_exposure_hard_def strategy_exposure_hard_def total_spot_exposure_hard_def
      cash_reserve_threshold_def account_limit_def oversell_quantity_def duplicate_records_def
      blocking_signals_def dec_eval py_max_def py_min_def latency_defs spread_hard_threshold_def
      or_zero_def)

lemma audit_not_stops: "\<not> stops audit_request example_policy"
  unfolding stops_def spread_soft_def volatility_soft_def tca_soft_def audit_metadata
  by (simp add: audit_request_defs example_venue_def dec_eval py_max_def latency_defs)

lemma audit_caps: "soft_caps audit_request example_policy = []"
  unfolding soft_caps_def above_limit_def audit_effect participation_soft_def participation_checks_def
  by (simp add: audit_request_defs dec_eval)

lemma audit_approved: "RiskEngine.decision H0 audit_request example_policy = (RiskDecisionStatus.APPROVED, Some audit_intent)"
proof -
  have f: "OrderIntent.side (RiskCheckRequest.order_intent audit_request) = BUY" "RiskCheckRequest.order_intent audit_request = audit_intent"
    by (simp_all add: audit_request_def audit_intent_def)
  show ?thesis
    unfolding RiskEngine.decision_def Let_def f(1)
    by (simp add: audit_not_rejects audit_not_stops audit_caps f(2))
qed

section \<open>The trade\<close>

lemma audit_check: "increments_in_range example_book [example_bar] audit_intent"
  by (simp add: increments_in_range_def increment_fits_def book_of_def active_constraints_def example_snapshot_def
      example_constraint_def example_bar_def audit_intent_def dval_Dec dprec_def)

lemma audit_traded:
  obtains e where "traded H0 (\<lambda>_. True) example_forecast example_strategy ''RUN:1'' (DT 10 0) (Some audit_sizing)
      example_policy audit_decision audit_intent e"
    "gateway_inputs_ok H0 [example_bar] [e] ''RUN:1'' None (Some example_snapshot) (Some example_state)"
    "evaluate_pre_trade_risk H0 audit_request example_policy = Inr e"
proof -
  obtain e where e: "evaluate_pre_trade_risk H0 audit_request example_policy = Inr e" "valid_event H0 e"
    "request e = audit_request" "approved_order_intent e = Some audit_intent" "final_decision e = RiskDecisionStatus.APPROVED"
    using engine_ok [OF digest_ok_example audit_request_valid example_policy_valid] by (auto simp: audit_approved)
  have f: "forwarded e" using e by (simp add: forwarded_def approving_def)
  have r: "RiskCheckRequest.order_intent audit_request = audit_intent"
    "RiskCheckRequest.instrument_master_snapshot audit_request = example_snapshot"
    by (simp_all add: audit_request_def example_request_def)
  show thesis
  proof (rule that)
    show "traded H0 (\<lambda>_. True) example_forecast example_strategy ''RUN:1'' (DT 10 0) (Some audit_sizing)
      example_policy audit_decision audit_intent e"
      using e audit_decided audit_order audit_request_valid example_policy_valid audit_snapshot example_forecast_valid
      by (simp add: traded_def r zero_digest_def)
    show "gateway_inputs_ok H0 [example_bar] [e] ''RUN:1'' None (Some example_snapshot) (Some example_state)"
      using example_bar_valid example_safe(1) e f r audit_intent_valid example_book_ok audit_check
      by (simp add: gateway_inputs_ok_def replay_inputs_ok_def cost_ok_def validate_order_intents_def)
    show "evaluate_pre_trade_risk H0 audit_request example_policy = Inr e" by (rule e(1))
  qed
qed

lemma audit_quotes: "list_all (\<lambda>q. construct_QuoteEvent q = Inr q) [example_quote]"
  using example_quote_valid by simp

lemmas audit_run = example_state_valid audit_snapshot audit_quotes

section \<open>Instances of the audit properties\<close>

theorem decision_orders_or_explains_witness:
  "build_order_intent_from_strategy_decision H0 audit_decision None MARKET None = Inr audit_intent
   \<and> trace_no_order_reason audit_decision = None
   \<and> validate_order_intent_matches_decision H0 audit_intent audit_decision = Inr ()"
proof -
  have "valid_StrategyDecision H0 audit_decision"
    using decide_Inr(3) [OF audit_decided] by (simp add: valid_StrategyDecision_def)
  from decision_orders_or_explains [OF digest_ok_example this] show ?thesis by (simp add: audit_order)
qed


theorem audit_replays_its_evidence_witness:
  "\<exists>e g p t env r. evaluate_pre_trade_risk H0 audit_request example_policy = Inr e
     \<and> replay_decision_trace_by_id H0 (\<lambda>_. True) (\<lambda>_. ''error'')
         (resolve_trace_evidence [stored_evidence example_forecast audit_decision audit_intent e [example_bar] None
            (Some example_snapshot) (Some example_state) [example_quote] g p t env]) (zero_id ''TRACE'') = Inr r
     \<and> DecisionTraceReplayReport.status r = DecisionTraceReplayStatus.PASSED
     \<and> replayed_gateway_report_hash r = Some (ExecutionGatewayReport.gateway_report_hash g)"
proof (rule audit_traded)
  fix e assume e: "traded H0 (\<lambda>_. True) example_forecast example_strategy ''RUN:1'' (DT 10 0) (Some audit_sizing)
      example_policy audit_decision audit_intent e"
    "gateway_inputs_ok H0 [example_bar] [e] ''RUN:1'' None (Some example_snapshot) (Some example_state)"
    "evaluate_pre_trade_risk H0 audit_request example_policy = Inr e"
  from audit_replays_its_evidence [OF digest_ok_example e(1,2) _ audit_run, of "\<lambda>_. ''error''"] e(3)
  show ?thesis by (simp add: audit_ids) blast
qed

definition audit_config :: AuditGateRunConfig where
  "audit_config = \<lparr>AuditGateRunConfig.config_hash = zero_hash, code_commit = ''abc'', code_ref = ''main'',
     sample_policy = default_sample_policy, tolerance_policy = default_tolerance_policy, requirement_ids = audit_gate_requirements\<rparr>"

lemma audit_config_valid: "construct_AuditGateRunConfig H0 audit_config = Inr audit_config"
  by (simp add: construct_AuditGateRunConfig_def run_config_fields_def audit_config_def gate_requirements_ok
      build_audit_gate_config_hash_def valid_AuditGateSamplePolicy_def valid_AuditGateTolerancePolicy_def
      sample_policy_fields_def tolerance_policy_fields_def default_sample_policy_def default_tolerance_policy_def)
    (simp add: non_empty_string_def strip_def py_space_def)

lemma audit_config_counts:
  "minimum_sample_count (AuditGateRunConfig.sample_policy audit_config) = 1"
  "\<not> require_no_order_sample (AuditGateRunConfig.sample_policy audit_config)"
  by (simp_all add: audit_config_def default_sample_policy_def)

lemma audit_gate_run:
  "\<exists>x r q. run_audit_gate_validation H0 (\<lambda>_. True) (\<lambda>_. ''error'') [zero_id ''TRACE''] (resolve_trace_evidence [x])
       audit_config = Inr r
     \<and> replay_decision_trace_by_id H0 (\<lambda>_. True) (\<lambda>_. ''error'') (resolve_trace_evidence [x]) (zero_id ''TRACE'') = Inr q
     \<and> DecisionTraceReplayReport.status q = DecisionTraceReplayStatus.PASSED"
proof (rule audit_traded)
  fix e assume e: "traded H0 (\<lambda>_. True) example_forecast example_strategy ''RUN:1'' (DT 10 0) (Some audit_sizing)
      example_policy audit_decision audit_intent e"
    "gateway_inputs_ok H0 [example_bar] [e] ''RUN:1'' None (Some example_snapshot) (Some example_state)"
  show ?thesis
    using traded_evidence_passes_gate [OF digest_ok_example e _ audit_run audit_config_valid audit_config_counts, of "\<lambda>_. ''error''"]
    by (simp add: audit_ids)
qed

theorem audit_pass_is_reproduction_witness:
  "\<exists>x r i e g v (g' :: ExecutionGatewayReport) w. replay_decision_trace_by_id H0 (\<lambda>_. True) (\<lambda>_. ''error'') (resolve_trace_evidence [x])
       (zero_id ''TRACE'') = Inr r
     \<and> DecisionTraceReplayEvidence.order_intent x = Some i \<and> risk_event x = Some e \<and> gateway_report x = Some g
     \<and> events g = [v] \<and> events g' = [w]
     \<and> ExecutionGatewayReport.gateway_report_hash g' = ExecutionGatewayReport.gateway_report_hash g
     \<and> dec_eq (ExecutionGatewayLifecycleEvent.filled_quantity v) (ExecutionGatewayLifecycleEvent.filled_quantity w)"
proof -
  obtain x r where r: "replay_decision_trace_by_id H0 (\<lambda>_. True) (\<lambda>_. ''error'') (resolve_trace_evidence [x])
      (zero_id ''TRACE'') = Inr r" "DecisionTraceReplayReport.status r = DecisionTraceReplayStatus.PASSED"
    using audit_gate_run by blast
  obtain y i e g v w and g' :: ExecutionGatewayReport where a: "resolve_trace_evidence [x] (strip (zero_id ''TRACE'')) = [y]"
      "DecisionTraceReplayEvidence.order_intent y = Some i" "risk_event y = Some e" "gateway_report y = Some g"
      "ExecutionGatewayReport.gateway_report_hash g' = ExecutionGatewayReport.gateway_report_hash g"
      "events g = [v]" "events g' = [w]"
      "dec_eq (ExecutionGatewayLifecycleEvent.filled_quantity v) (ExecutionGatewayLifecycleEvent.filled_quantity w)"
    using audit_pass_is_reproduction [OF r] by (elim exE conjE) (rule that, assumption+)
  have "y = x" using a(1) by (auto simp: resolve_trace_evidence_def split: if_splits)
  with r(1) a(2-) show ?thesis by blast
qed

theorem audit_gate_passes_exactly_witness:
  "\<exists>x r. run_audit_gate_validation H0 (\<lambda>_. True) (\<lambda>_. ''error'') [zero_id ''TRACE''] (resolve_trace_evidence [x])
       audit_config = Inr r
     \<and> AuditGateValidationReport.status r = AuditGateValidationStatus.PASSED"
proof -
  obtain x r q where r: "run_audit_gate_validation H0 (\<lambda>_. True) (\<lambda>_. ''error'') [zero_id ''TRACE''] (resolve_trace_evidence [x])
       audit_config = Inr r"
    and q: "replay_decision_trace_by_id H0 (\<lambda>_. True) (\<lambda>_. ''error'') (resolve_trace_evidence [x]) (zero_id ''TRACE'') = Inr q"
      "DecisionTraceReplayReport.status q = DecisionTraceReplayStatus.PASSED"
    using audit_gate_run by blast
  have "strip (zero_id ''TRACE'') = zero_id ''TRACE''" "zero_id ''TRACE'' \<noteq> ''''" "\<not> marked_blank (zero_id ''TRACE'')"
    using audit_id_texts(2) trace_id_not_blank [OF zero_digest_ok, of PNull]
    by (simp_all add: stable_zero_id) (auto simp: canonical_id_def)
  with audit_gate_passes_exactly [OF r] q audit_config_counts r show ?thesis by auto
qed

end
