(* ===== verification/Spec2Isabelle.thy ===== *)
theory Spec2Isabelle
  imports ReplayExamples GatewayExamples ReadinessExamples AuditExamples
begin

text \<open>
  The trading core of the TA model: contracts and decision code of \<open>src/src/ta_model\<close>, from a feed
  event and a forecast to a simulated trade and its audit.

  \<^bold>\<open>How the parts interact.\<close>  A stream event becomes a health record and, through the data-health
  gate, a signal.  A forecast becomes a strategy decision, a decision an order intent.  Intent,
  signals, market metadata and a snapshot of the durable kill switch form a risk request; the
  engine answers it with a risk check that approves, caps, stops or rejects the order.  A gateway
  sends the approved intents of its checks through the replay simulator and reports one event per
  check.  Paper accounting turns a gateway report into logs, account states and transaction
  costs.  The readiness report counts alerts over all of these, the strategy gate compares taken
  and skipped decisions, and the audit binds the artifacts of one decision into an envelope that
  can be replayed and sampled by a gate.

  \<^bold>\<open>Theories and sources.\<close>  Records, enumerations and functions have the names of the source's
  classes and functions; a contract class \<open>X\<close> gives a record \<open>X\<close>, its field and model validators as
  \<open>construct_X\<close> (a result) and \<open>valid_X\<close> (already constructed).
  \<^item> \<open>Prelude\<close>, \<open>Decimals\<close>, \<open>Timestamps\<close>, \<open>Payloads\<close>: results with the raised exception as an error value,
    sequential checks, the text types; decimals of 28 digits as coefficient and exponent with
    half-even rounding; aware datetimes; canonical JSON payloads and identifiers made of hashes.
  \<^item> \<open>InstrumentMaster\<close>, \<open>Simulation\<close>, \<open>Streaming\<close>, \<open>RiskContracts\<close>, \<open>GatewayContracts\<close>, \<open>Forecasts\<close>,
    \<open>Decisions\<close>, \<open>PaperContracts\<close>, \<open>Evaluation\<close>, \<open>ModelReports\<close>, \<open>ObservabilityContracts\<close>: the classes of
    \<open>contracts/\<close> of the corresponding names (\<open>GatewayContracts\<close>: \<open>execution.py\<close>; \<open>ModelReports\<close>: the report
    of \<open>model_validation.py\<close>).
  \<^item> \<open>StreamHealth\<close>: \<open>contracts/stream_health.py\<close>, the evaluator's counters and the data-health gate.
  \<^item> \<open>KillSwitch\<close>: \<open>risk/kill_switch.py\<close>, the log file as a value (absent, unreadable, a parsed document).
    A locale states what a durable log promises, interpreted on the file store.
  \<^item> \<open>RiskEngine\<close>: \<open>risk/engine.py\<close>; \<open>RiskGate\<close>: \<open>risk/replay.py\<close>.
  \<^item> \<open>Replay\<close>: \<open>simulation/replay.py\<close>; \<open>Gateway\<close>: \<open>execution/gateway.py\<close>; \<open>Paper\<close> and \<open>PaperAccounting\<close>:
    \<open>execution/paper.py\<close>.
  \<^item> \<open>Strategy\<close>: \<open>strategy/decisions.py\<close>; \<open>StrategyGate\<close>: \<open>evaluation/strategy_gate.py\<close>.
  \<^item> \<open>ReadinessConfig\<close>, \<open>Alerts\<close>, \<open>Readiness\<close>: \<open>observability/paper_readiness.py\<close> with the default
    configuration and the routing of alerts.
  \<^item> \<open>AuditTrace\<close> and \<open>AuditEvidence\<close>: \<open>audit/trace.py\<close>; \<open>AuditReplay\<close> and \<open>AuditRoundTrip\<close>: \<open>audit/replay.py\<close>;
    \<open>AuditGate\<close> and \<open>AuditGateResults\<close>: \<open>audit/gate.py\<close>.
  \<^item> The theories named \<open>...Examples\<close> hold concrete inputs on which the properties are applied.
    This theory holds the properties that go from the store and from the stream to the engine.

  \<^bold>\<open>What the lemmas show.\<close>  For the engine: it never raises on valid inputs, equals a decision over
  the conditions of its limits, and an approval implies every hard limit.  For the store: reads
  return the most restrictive record of each scope, every reachable log has a chain of prior states,
  a halt committed with a time after the records of its scope reaches every order checked against
  the resulting store, and a transition over an unreadable file erases what the file held.  For stream health: counters are those of the history
  of events, stale feeds block.  For the simulator: the accepted bar streams, causal and bounded
  fills, balances as the fold of the results, the exact condition under which a constraint check
  returns, and termination with a report on inputs that meet it.  For the
  gateways: one event per check, no fill above the request, both gateways alike.  For accounting:
  every event in exactly one log, every count that of its status, no quote from the future,
  existence of the reports.  For the
  strategy: the exact condition of a buy and the size within the budget.  For readiness: exactly the
  alerts whose condition holds.  For the audit: an envelope exists only for evidence that agrees field by
  field and names exactly that evidence,
  the evidence of the whole pipeline replays to a pass, a pass is a reproduction, and the gate
  passes exactly when every sampled trace does.

  \<^bold>\<open>Parameters.\<close>  \<open>H\<close> is SHA-256 over the canonical JSON of a payload; where it is used lemmas assume only
  \<open>digest_ok H\<close>, that it returns 64 hexadecimal digits.  Nothing rests on the absence of
  collisions, so identities are compared as the code compares them.  \<open>Z\<close> says which texts name a time
  zone, \<open>describe\<close> gives the text of a caught exception, a resolver gives the stored evidence of a trace.

  \<^bold>\<open>Bounds.\<close>  Recursion is structural or on a number of digits that shrinks; the only fuel is the
  number of trailing zeros an exact quotient may lose, at most the digits it was shifted by, which
  is what the decimal algorithm allows.  Python's integers are \<open>int\<close>.  Decimal arithmetic has the
  precision of the default context (28 digits); where a statement needs an exact quantity it assumes \<open>fits\<close>, that the quantity has at most 28 digits, and bounds
  otherwise carry the relative error \<open>dec_eps\<close>.  Exponent overflow and the special values (NaN,
  infinities) do not arise from validated inputs of ordinary size and are not modelled.  Texts are
  lists of characters; text fields with outer whitespace, which the models strip on
  construction, count as invalid unless a definition strips them itself.

  \<^bold>\<open>Not modelled.\<close>  The scenario catalogue over the simulator (\<open>simulation/scenarios.py\<close>); the model
  registry and feature contracts; data quality, normalization and features, the functions that
  prepare historical data before a forecast exists and that nothing modelled here calls; the bronze
  object store (files) and the dataset builder; training, baselines, scorecards, the baseline gate and
  the construction of model validation reports (log loss, Brier score and calibration on floats);
  dataset and training contracts beyond the names the modelled code uses; requests and pages of
  historical market data; the retry backoff of the streaming contract (floats); connector protocols
  without behaviour; reading the two readiness configuration files, whose parsed form is modelled;
  operating-system errors other than an unreadable kill-switch file.
\<close>

section \<open>From a committed halt to the engine\<close>

lemma severe_rejects:
  assumes "digest_ok H" "valid_request H r" "valid_policy H p"
    and "4 \<le> state_severity (active_state (kill_switch_snapshot r))"
  shows "\<exists>e. evaluate_pre_trade_risk H r p = Inr e
    \<and> final_decision e = RiskDecisionStatus.REJECTED \<and> approved_order_intent e = None"
proof -
  have "rejects H r p"
    using assms(4) by (cases "active_state (kill_switch_snapshot r)")
      (simp_all add: rejects_def kill_switch_blocks_def)
  then show ?thesis using engine_ok [OF assms(1-3)] by (auto simp: RiskEngine.decision_def)
qed

text \<open>C2: Once a transition to cancel-only or halted is committed to the durable store with a time
  strictly after that of every record the store already holds for its scope (or over a file that
  cannot be read as a log), every read of the resulting store that asks for the scope, at any time,
  returns a snapshot with which the risk engine rejects every valid order request, whatever the
  policy, the book and the records of other scopes.  Nothing is claimed of a transition dated at or
  before a record of its scope: dated before the latest one it has no effect.\<close>

theorem committed_halt_rejects_orders:
  assumes "digest_ok H" "valid_policy H p"
    and "transition H s sc new act role t why cancel src incident = Inr (rec, s')"
    and "new \<in> {CANCEL_ONLY, KillSwitchState.HALTED}"
    and "\<And>hist x. read_records H s = Inr (Some hist) \<Longrightarrow> x \<in> set hist \<Longrightarrow>
        record_key x = KillSwitchScope_key sc \<Longrightarrow> transitioned_at x < t"
    and "list_all valid_scope scopes" "KillSwitchScope_key sc \<in> evaluated_keys scopes"
  shows "\<exists>snap. load_snapshot H s' t' scopes = Inr snap
    \<and> (\<forall>r. valid_request H r \<and> kill_switch_snapshot r = snap \<longrightarrow>
        (\<exists>e. evaluate_pre_trade_risk H r p = Inr e
           \<and> final_decision e = RiskDecisionStatus.REJECTED \<and> approved_order_intent e = None))"
proof -
  obtain s0 hist where h: "read_records H s0 = Inr (Some hist)"
      "transition H s0 sc new act role t why cancel src incident = Inr (rec, s')"
      "\<And>x. x \<in> set hist \<Longrightarrow> record_key x = KillSwitchScope_key sc \<Longrightarrow> transitioned_at x < t"
    using assms(5) by (rule_tac readable_start [OF assms(3)]) force
  obtain snap where s: "load_snapshot H s' t' scopes = Inr snap"
    "state_severity new \<le> state_severity (active_state snap)"
    using file_store.commit_then_load [OF assms(1), of s0 hist act role why cancel src incident sc new t rec s' scopes t']
      h assms(6,7) unfolding file_commit_def file_log_Some by blast
  then have "4 \<le> state_severity (active_state snap)" using assms(4) by auto
  then show ?thesis using s(1) severe_rejects [OF assms(1) _ assms(2)] by blast
qed

lemma halted_example_request:
  assumes "construct_KillSwitchSnapshot H0 ks = Inr ks"
  shows "valid_request H0 (example_request ks [] OrderSide.SELL (Dec 1 0))"
    "kill_switch_snapshot (example_request ks [] OrderSide.SELL (Dec 1 0)) = ks"
proof -
  show "valid_request H0 (example_request ks [] OrderSide.SELL (Dec 1 0))"
    by (rule example_request_valid) (simp_all add: assms less_dval dval_Dec)
qed (simp add: example_request_def)

theorem committed_halt_rejects_orders_witness:
  "\<exists>rec s' snap e. example_halt Absent (DT 0 0) = Inr (rec, s')
    \<and> load_snapshot H0 s' (DT 5 0) [global_scope] = Inr snap
    \<and> evaluate_pre_trade_risk H0 (example_request snap [] OrderSide.SELL (Dec 1 0)) example_policy = Inr e
    \<and> final_decision e = RiskDecisionStatus.REJECTED"
proof -
  obtain rec where r: "example_halt Absent (DT 0 0) = Inr (rec, write_records [rec])"
    using example_halt_ok by blast
  have "read_records H0 (write_records [rec]) = Inr (Some [rec])"
    using r unfolding example_halt_def by (rule transition_ok) (simp add: readable_or_empty_def)
  then obtain snap where s: "load_snapshot H0 (write_records [rec]) (DT 5 0) [global_scope] = Inr snap"
    "construct_KillSwitchSnapshot H0 snap = Inr snap"
    using load_snapshot_ok [OF digest_ok_example, of _ "[rec]" "[global_scope]" "DT 5 0"] global_scope_valid
    by auto
  have "\<exists>snap. load_snapshot H0 (write_records [rec]) (DT 5 0) [global_scope] = Inr snap
    \<and> (\<forall>q. valid_request H0 q \<and> kill_switch_snapshot q = snap \<longrightarrow>
        (\<exists>e. evaluate_pre_trade_risk H0 q example_policy = Inr e
           \<and> final_decision e = RiskDecisionStatus.REJECTED \<and> approved_order_intent e = None))"
    using r unfolding example_halt_def
    by (rule committed_halt_rejects_orders [OF digest_ok_example example_policy_valid])
      (simp_all add: global_scope_valid evaluated_keys_def)
  then show ?thesis using r s halted_example_request [OF s(2)] by fastforce
qed

section \<open>From a stale event to the engine\<close>

text \<open>C8: A stale feed stops trading in its instrument: when an event is older than the policy's
  maximum age, the evaluator and the default gate produce a signal with which the risk engine
  rejects every order for the event's instrument (or every order, for a venue-wide event).\<close>

theorem stale_event_rejects_orders:
  assumes "digest_ok H" "valid_StreamEvent ev" "valid_health_policy pol" "valid_policy H p"
    and "max_event_age pol < dt_diff ts (StreamEnvelopeBase.event_ts (Streaming.envelope ev))"
    and "evaluate_health pol st ev ts = Inr (rec, st')" "gate_evaluate H default_gate_policy rec = Inr g"
    and "valid_request H r" "g \<in> set (data_health_signals r)"
    and "StreamHealthScope.instrument_id (event_scope ev) \<in>
      {None, Some (OrderIntent.instrument_id (RiskCheckRequest.order_intent r))}"
  shows "\<exists>e. evaluate_pre_trade_risk H r p = Inr e
    \<and> final_decision e = RiskDecisionStatus.REJECTED \<and> approved_order_intent e = None"
proof -
  have "blocks_trading g" "blocked_instrument_id g = StreamHealthScope.instrument_id (event_scope ev)"
    using stale_signal [OF assms(1-3,6,7)] assms(5) by simp_all
  then have "g \<in> set (blocking_signals r)" using assms(9,10) by (auto simp: blocking_signals_def)
  then have "rejects H r p" by (force simp: rejects_def)
  then show ?thesis using engine_ok [OF assms(1,8,4)] by (auto simp: RiskEngine.decision_def)
qed

theorem stale_event_rejects_orders_witness:
  "\<exists>rec st' g e. evaluate_health example_health_policy fresh_evaluator (example_trade ''T1'' 1 0) (DT 9000000 0)
       = Inr (rec, st')
    \<and> gate_evaluate H0 default_gate_policy rec = Inr g
    \<and> evaluate_pre_trade_risk H0 (example_request (example_kill_snapshot CLEAR) [g] OrderSide.BUY (Dec 15 0))
         example_policy = Inr e
    \<and> final_decision e = RiskDecisionStatus.REJECTED"
proof -
  let ?ev = "example_trade ''T1'' 1 0"
  obtain rec st' g where g: "evaluate_health example_health_policy fresh_evaluator ?ev (DT 9000000 0) = Inr (rec, st')"
    "gate_evaluate H0 default_gate_policy rec = Inr g"
    using stale_signal_ex [OF digest_ok_example example_trade_valid(1,3)] by blast
  let ?r = "example_request (example_kill_snapshot CLEAR) [g] OrderSide.BUY (Dec 15 0)"
  have v: "valid_request H0 ?r"
    by (rule example_request_valid) (simp_all add: example_kill_valid less_dval dval_Dec gate_signal_valid [OF g(2)])
  have "\<exists>e. evaluate_pre_trade_risk H0 ?r example_policy = Inr e
    \<and> final_decision e = RiskDecisionStatus.REJECTED \<and> approved_order_intent e = None"
    by (rule stale_event_rejects_orders [OF digest_ok_example example_trade_valid(1,3) example_policy_valid _ g v])
      (simp_all add: example_trade_def StreamEnvelopeBase.truncate_def dt_diff_def
        example_health_policy_def example_request_def example_intent_def)
  then show ?thesis using g by blast
qed

end
